(* ===== verification/Relay_Prelude.thy ===== *)
theory Relay_Prelude
  imports
    Main
    "HOL-Library.AList"
    "HOL-Library.Char_ord"
    "HOL-Library.List_Lexorder"
    "HOL-Library.Product_Lexorder"
begin

text \<open>
  Shared vocabulary of the development: the two container models (hash tables and ordered
  maps as association lists), the interface both satisfy, results, locks and the outcomes of
  callbacks, and the generic list facts the component theories use.

  \<^item> A Rust \<^verbatim>\<open>HashMap\<close> is an association list with distinct keys, written with
    \<open>AList.update\<close> and \<open>AList.delete\<close>. The order of the list stands for the iteration order
    of the table, which Rust leaves unspecified; facts that may depend on it are stated for
    every order.
  \<^item> A Rust \<^verbatim>\<open>BTreeMap\<close> (also the object of \<^verbatim>\<open>serde_json\<close>, which is built without its
    \<^verbatim>\<open>preserve_order\<close> feature) is an association list whose keys are strictly increasing.
  \<^item> A \<^verbatim>\<open>Result\<close> is a sum: \<open>Inl\<close> is \<^verbatim>\<open>Err\<close>, \<open>Inr\<close> is \<^verbatim>\<open>Ok\<close>.
  \<^item> A \<^verbatim>\<open>String\<close> is its list of UTF-8 bytes, compared lexicographically by bytes as Rust does.
\<close>

named_theorems table_laws \<open>laws of the two container models\<close>

section \<open>Results, locks and callbacks\<close>

text \<open>A lock is healthy, or it is poisoned and reports a message; either way it guards a value.\<close>

datatype 'a rwlock = Healthy 'a | Poisoned string 'a

text \<open>
  What \<^verbatim>\<open>AssertUnwindSafe(future).catch_unwind().await\<close> yields. \<open>Dropped\<close> is the third way a
  suspended future can end: its owner drops it before it completes.
\<close>

datatype 'a outcome = Finished 'a | Panicked | Dropped

text \<open>
  A callback is foreign code. It may read and change anything outside the runtime, so it is a
  state transformer over an arbitrary world \<open>'w\<close>.
\<close>

type_synonym ('w, 'a) effect = "'w \<Rightarrow> 'a outcome \<times> 'w"

section \<open>Ordered maps\<close>

fun bt_insert :: "'k::linorder \<Rightarrow> 'v \<Rightarrow> ('k \<times> 'v) list \<Rightarrow> ('k \<times> 'v) list" where
  "bt_insert k v [] = [(k, v)]"
| "bt_insert k v ((k', v') # xs) =
     (if k < k' then (k, v) # (k', v') # xs
      else if k = k' then (k, v) # xs
      else (k', v') # bt_insert k v xs)"

definition bt_or_insert :: "'k::linorder \<Rightarrow> 'v \<Rightarrow> ('k \<times> 'v) list \<Rightarrow> ('k \<times> 'v) list" where
  "bt_or_insert k v xs = (case map_of xs k of None \<Rightarrow> bt_insert k v xs | Some _ \<Rightarrow> xs)"

definition bt_extend :: "('k::linorder \<times> 'v) list \<Rightarrow> ('k \<times> 'v) list \<Rightarrow> ('k \<times> 'v) list" where
  "bt_extend new xs = fold (\<lambda>(k, v). bt_insert k v) new xs"

definition bt_ok :: "('k::linorder \<times> 'v) list \<Rightarrow> bool" where
  "bt_ok xs = sorted_wrt (<) (map fst xs)"

definition first_key :: "('k \<times> 'v) list \<Rightarrow> 'k option" where
  "first_key xs = (case xs of [] \<Rightarrow> None | (k, _) # _ \<Rightarrow> Some k)"

lemma map_of_bt_insert [table_laws]: "map_of (bt_insert k v xs) = (map_of xs)(k \<mapsto> v)"
  by (induction xs) (auto simp: fun_eq_iff)

lemma keys_bt_insert [table_laws]: "fst ` set (bt_insert k v xs) = insert k (fst ` set xs)"
proof (induction xs)
  case (Cons p xs)
  then show ?case by (cases p) (simp add: insert_commute)
qed simp

lemma bt_insert_neq_Nil [simp]: "bt_insert k v xs \<noteq> []"
  by (induction k v xs rule: bt_insert.induct) simp_all

lemma bt_ok_Nil [simp]: "bt_ok []"
  by (simp add: bt_ok_def)

lemma bt_ok_Cons: "bt_ok ((k, v) # xs) \<longleftrightarrow> (\<forall>k' \<in> fst ` set xs. k < k') \<and> bt_ok xs"
  by (auto simp: bt_ok_def)

lemma bt_ok_insert [table_laws]: "bt_ok xs \<Longrightarrow> bt_ok (bt_insert k v xs)"
proof (induction xs)
  case (Cons p xs)
  then show ?case
    by (cases p) (simp add: bt_ok_Cons keys_bt_insert, force simp: bt_ok_Cons keys_bt_insert)
qed (simp add: bt_ok_Cons)

lemma bt_ok_distinct: "bt_ok xs \<Longrightarrow> distinct (map fst xs)"
  by (auto simp: bt_ok_def strict_sorted_iff)

lemma bt_ok_delete [table_laws]: "bt_ok xs \<Longrightarrow> bt_ok (AList.delete k xs)"
  by (simp add: bt_ok_def AList.delete_keys removeAll_filter_not_eq sorted_wrt_filter)

lemma map_of_bt_or_insert [table_laws]:
  "map_of (bt_or_insert k v xs) k' =
     (if k' = k \<and> map_of xs k = None then Some v else map_of xs k')"
  by (simp add: bt_or_insert_def map_of_bt_insert split: option.split)

lemma bt_ok_or_insert [table_laws]: "bt_ok xs \<Longrightarrow> bt_ok (bt_or_insert k v xs)"
  by (simp add: bt_or_insert_def bt_ok_insert split: option.split)

lemma bt_ok_extend [table_laws]: "bt_ok xs \<Longrightarrow> bt_ok (bt_extend new xs)"
  unfolding bt_extend_def by (induction new arbitrary: xs) (auto simp: bt_ok_insert)

lemma map_of_bt_extend [table_laws]:
  "distinct (map fst new) \<Longrightarrow>
   map_of (bt_extend new xs) k = (case map_of new k of None \<Rightarrow> map_of xs k | Some v \<Rightarrow> Some v)"
proof (induction new arbitrary: xs)
  case Nil
  then show ?case by (simp add: bt_extend_def)
next
  case (Cons p new)
  obtain a b where p: "p = (a, b)" by force
  from Cons.prems p have "a \<notin> dom (map_of new)" by (simp add: dom_map_of_conv_image_fst)
  then have a: "map_of new a = None" by blast
  from Cons.prems have d: "distinct (map fst new)" by simp
  have "map_of (bt_extend (p # new) xs) k = map_of (bt_extend new (bt_insert a b xs)) k"
    by (simp add: bt_extend_def p)
  also have "\<dots> = (case map_of new k of None \<Rightarrow> map_of (bt_insert a b xs) k | Some v \<Rightarrow> Some v)"
    by (rule Cons.IH [OF d])
  finally show ?case using a by (auto simp: p map_of_bt_insert split: option.split)
qed

text \<open>Two ordered maps with the same lookups are the same list.\<close>

lemma bt_ok_eqI:
  assumes "bt_ok xs" "bt_ok ys" "map_of xs = map_of ys"
  shows "xs = ys"
  using assms
proof (induction xs arbitrary: ys)
  case Nil
  then show ?case by (cases ys) (auto simp: fun_eq_iff split: if_splits)
next
  case (Cons p xs)
  obtain k v where p: "p = (k, v)" by force
  from Cons.prems(3) p have "map_of ys k = Some v" by (metis map_of_Cons_code(2))
  then obtain k' v' ys' where ys: "ys = (k', v') # ys'" by (cases ys) auto
  have ks: "\<And>a. a \<in> dom (map_of xs) \<Longrightarrow> k < a" and ks': "\<And>a. a \<in> dom (map_of ys') \<Longrightarrow> k' < a"
    using Cons.prems(1,2) p ys by (auto simp: bt_ok_Cons dom_map_of_conv_image_fst)
  have doms: "insert k (dom (map_of xs)) = insert k' (dom (map_of ys'))"
    using arg_cong [OF Cons.prems(3), of dom] p ys
    by (simp add: dom_map_of_conv_image_fst del: map_of.simps)
  then have "k = k'" by (metis insertCI insertE ks ks' not_less_iff_gr_or_eq)
  have nk: "map_of xs k = None" "map_of ys' k' = None" using ks ks' by fastforce+
  have "v = v'" using fun_cong [OF Cons.prems(3), of k] p ys \<open>k = k'\<close> by simp
  moreover have "map_of xs = map_of ys'"
  proof
    fix a
    show "map_of xs a = map_of ys' a"
      using fun_cong [OF Cons.prems(3), of a] p ys \<open>k = k'\<close> nk by (cases "a = k") simp_all
  qed
  ultimately show ?case
    using Cons.IH [of ys'] Cons.prems(1,2) p ys \<open>k = k'\<close> by (simp add: bt_ok_Cons)
qed

section \<open>The table interface\<close>

text \<open>
  What a client of either container relies on: lookups after a store or a removal, and that
  both keep the representation invariant.
\<close>

locale key_table =
  fixes look :: "'t \<Rightarrow> 'k \<Rightarrow> 'v option"
    and store :: "'k \<Rightarrow> 'v \<Rightarrow> 't \<Rightarrow> 't"
    and drop_key :: "'k \<Rightarrow> 't \<Rightarrow> 't"
    and ok :: "'t \<Rightarrow> bool"
  assumes look_store: "ok t \<Longrightarrow> look (store k v t) = (look t)(k \<mapsto> v)"
    and look_drop: "ok t \<Longrightarrow> look (drop_key k t) = (look t)(k := None)"
    and ok_store: "ok t \<Longrightarrow> ok (store k v t)"
    and ok_drop: "ok t \<Longrightarrow> ok (drop_key k t)"
begin

lemma look_store_other: "ok t \<Longrightarrow> k' \<noteq> k \<Longrightarrow> look (store k v t) k' = look t k'"
  by (simp add: look_store)

lemma look_drop_store: "ok t \<Longrightarrow> look (drop_key k (store k v t)) = look (drop_key k t)"
  by (simp add: look_store look_drop ok_store)

text \<open>A property of every stored value survives a store of a value that has it.\<close>

lemma ball_store:
  assumes "ok t" "\<And>k' v'. look t k' = Some v' \<Longrightarrow> P k' v'" "P k v"
  shows "look (store k v t) k' = Some v' \<Longrightarrow> P k' v'"
  using assms by (auto simp: look_store split: if_splits)

lemma ball_drop:
  assumes "ok t" "\<And>k' v'. look t k' = Some v' \<Longrightarrow> P k' v'"
  shows "look (drop_key k t) k' = Some v' \<Longrightarrow> P k' v'"
  using assms by (auto simp: look_drop split: if_splits)

end

interpretation btree: key_table map_of bt_insert AList.delete bt_ok
  by unfold_locales (auto simp: table_laws AList.delete_conv')

interpretation hash: key_table map_of AList.update AList.delete "\<lambda>t. distinct (map fst t)"
  by unfold_locales (auto simp: AList.update_conv' AList.delete_conv' AList.distinct_update
      AList.distinct_delete)

section \<open>Lists\<close>

lemma map_filter_append: "List.map_filter f (xs @ ys) = List.map_filter f xs @ List.map_filter f ys"
  by (simp add: List.map_filter_def)

lemma map_of_Some_iff_distinct:
  "distinct (map fst xs) \<Longrightarrow> map_of xs k = Some v \<longleftrightarrow> (k, v) \<in> set xs"
  by (rule map_of_eq_Some_iff)

lemma length_update_new:
  "k \<notin> fst ` set al \<Longrightarrow> length (AList.update k v al) = Suc (length al)"
  by (induction al) auto

lemma length_update_old:
  "k \<in> fst ` set al \<Longrightarrow> length (AList.update k v al) = length al"
  by (induction al) auto

lemma length_delete_distinct:
  "distinct (map fst al) \<Longrightarrow> k \<in> fst ` set al \<Longrightarrow> Suc (length (AList.delete k al)) = length al"
proof (induction al)
  case (Cons p al)
  then show ?case by (cases p) (auto simp: AList.delete_id)
qed simp

section \<open>Strings\<close>

text \<open>\<^verbatim>\<open>str::split\<close> with a character: one more segment than there are separators.\<close>

fun split_on :: "char \<Rightarrow> string \<Rightarrow> string list" where
  "split_on c [] = [[]]"
| "split_on c (x # xs) =
     (if x = c then [] # split_on c xs
      else (case split_on c xs of [] \<Rightarrow> [[x]] | s # ss \<Rightarrow> (x # s) # ss))"

definition strip_prefix :: "string \<Rightarrow> string \<Rightarrow> string option" where
  "strip_prefix p s = (if take (length p) s = p then Some (drop (length p) s) else None)"

text \<open>\<^verbatim>\<open>str::find\<close> of a string: the first position, in bytes.\<close>

fun str_find :: "string \<Rightarrow> string \<Rightarrow> nat option" where
  "str_find p [] = (if p = [] then Some 0 else None)"
| "str_find p (c # s) = (if take (length p) (c # s) = p then Some 0 else map_option Suc (str_find p s))"

definition is_ascii_digit :: "char \<Rightarrow> bool" where
  "is_ascii_digit c = (48 \<le> (of_char c :: nat) \<and> (of_char c :: nat) \<le> 57)"

definition is_ascii_alphanumeric :: "char \<Rightarrow> bool" where
  "is_ascii_alphanumeric c =
     (let n = (of_char c :: nat)
      in (48 \<le> n \<and> n \<le> 57) \<or> (65 \<le> n \<and> n \<le> 90) \<or> (97 \<le> n \<and> n \<le> 122))"

text \<open>Decimal rendering of an unsigned integer, and its reading back.\<close>

fun show_nat :: "nat \<Rightarrow> string" where
  "show_nat n =
     (if n < 10 then [char_of (48 + n)] else show_nat (n div 10) @ [char_of (48 + n mod 10)])"

declare show_nat.simps [simp del]

definition digit_value :: "char \<Rightarrow> nat" where
  "digit_value c = of_char c - 48"

definition read_digits :: "string \<Rightarrow> nat" where
  "read_digits s = foldl (\<lambda>acc c. 10 * acc + digit_value c) 0 s"

lemma split_on_neq_Nil [simp]: "split_on c s \<noteq> []"
  by (cases s) (auto split: list.split)

lemma split_on_append_sep:
  "c \<notin> set s \<Longrightarrow> split_on c (s @ c # t) = s # split_on c t"
  by (induction s) auto

lemma split_on_no_sep: "c \<notin> set s \<Longrightarrow> split_on c s = [s]"
  by (induction s) auto

lemma strip_prefix_append [simp]: "strip_prefix p (p @ s) = Some s"
  by (simp add: strip_prefix_def)

lemma str_find_bound: "str_find p s = Some n \<Longrightarrow> n + length p \<le> length s"
  by (induction s arbitrary: n) (auto split: if_splits, (metis length_Cons length_take min.cobounded1)+)

lemma of_char_digit: "n < 10 \<Longrightarrow> of_char (char_of (48 + n :: nat) :: char) = 48 + n"
  by (simp add: of_char_of)

lemma show_nat_digits: "c \<in> set (show_nat n) \<Longrightarrow> is_ascii_digit c"
proof (induction n rule: show_nat.induct)
  case (1 n)
  show ?case
  proof (cases "n < 10")
    case True
    with "1.prems" have "c = char_of (48 + n)" by (simp add: show_nat.simps [of n])
    with True show ?thesis by (simp add: is_ascii_digit_def of_char_of)
  next
    case False
    with "1.prems" have "c \<in> set (show_nat (n div 10)) \<or> c = char_of (48 + n mod 10)"
      by (auto simp: show_nat.simps [of n])
    moreover have "is_ascii_digit (char_of (48 + n mod 10))"
      by (simp add: is_ascii_digit_def of_char_of)
    ultimately show ?thesis using "1.IH" [OF False] by blast
  qed
qed

lemma show_nat_neq_Nil [simp]: "show_nat n \<noteq> []"
  by (simp add: show_nat.simps [of n])

lemma read_digits_snoc: "read_digits (s @ [c]) = 10 * read_digits s + digit_value c"
  by (simp add: read_digits_def)

lemma read_show_nat: "read_digits (show_nat n) = n"
proof (induction n rule: show_nat.induct)
  case (1 n)
  show ?case
  proof (cases "n < 10")
    case True
    then show ?thesis
      by (simp add: show_nat.simps [of n] read_digits_def digit_value_def of_char_of)
  next
    case False
    then have "read_digits (show_nat n) = 10 * (n div 10) + digit_value (char_of (48 + n mod 10))"
      using "1.IH" by (simp add: show_nat.simps [of n] read_digits_snoc)
    then show ?thesis by (simp add: digit_value_def of_char_of)
  qed
qed

section \<open>Collecting results\<close>

text \<open>\<^verbatim>\<open>iter().map(f).collect::<Result<Vec<_>, _>>()\<close> and the same for \<^verbatim>\<open>Option\<close>: the first failure wins.\<close>

fun collect_results :: "('a \<Rightarrow> 'e + 'b) \<Rightarrow> 'a list \<Rightarrow> 'e + 'b list" where
  "collect_results f [] = Inr []"
| "collect_results f (x # xs) = (case f x of
       Inl e \<Rightarrow> Inl e
     | Inr y \<Rightarrow> (case collect_results f xs of Inl e \<Rightarrow> Inl e | Inr ys \<Rightarrow> Inr (y # ys)))"

fun collect_options :: "('a \<Rightarrow> 'b option) \<Rightarrow> 'a list \<Rightarrow> 'b list option" where
  "collect_options f [] = Some []"
| "collect_options f (x # xs) = (case f x of
       None \<Rightarrow> None
     | Some y \<Rightarrow> map_option ((#) y) (collect_options f xs))"

lemma collect_results_Inr_iff:
  "collect_results f xs = Inr ys \<longleftrightarrow> list_all2 (\<lambda>x y. f x = Inr y) xs ys"
proof (induction xs arbitrary: ys)
  case (Cons x xs)
  show ?case
  proof (cases "f x")
    case (Inr y)
    then show ?thesis using Cons.IH by (cases ys; cases "collect_results f xs") auto
  qed (cases ys; simp)
qed auto

lemma collect_options_Some_iff:
  "collect_options f xs = Some ys \<longleftrightarrow> list_all2 (\<lambda>x y. f x = Some y) xs ys"
proof (induction xs arbitrary: ys)
  case (Cons x xs)
  show ?case
  proof (cases "f x")
    case (Some y)
    then show ?thesis using Cons.IH by (cases ys; cases "collect_options f xs") auto
  qed (cases ys; simp)
qed auto

lemma collect_results_total: "(\<exists>ys. collect_results f xs = Inr ys) \<longleftrightarrow> (\<forall>x\<in>set xs. \<exists>y. f x = Inr y)"
  by (induction xs) (auto split: sum.splits)

lemma collect_options_total: "(\<exists>ys. collect_options f xs = Some ys) \<longleftrightarrow> (\<forall>x\<in>set xs. f x \<noteq> None)"
  by (induction xs) (auto split: option.splits)

end
