(* ===== verification/Broker_Lifecycle.thy ===== *)
theory Broker_Lifecycle
  imports Relay_Prelude "HOL-Library.Word"
begin

text \<open>
  The vocabulary of the daemon's broker (\<^verbatim>\<open>crates/cli/src/daemon/broker/lifecycle.rs\<close> and the launch
  plans and directives of \<^verbatim>\<open>crates/cli/src/daemon/common/protocol.rs\<close>): session identifiers, worker
  targets with their atomic cells, accepted requests, and the states of a route.

  A worker target is shared behind an \<^verbatim>\<open>Arc\<close> and has two atomic fields, so it is a reference
  together with its immutable fields; the atomics live in a heap indexed by the reference, and
  every copy of the \<^verbatim>\<open>Arc\<close> sees the same cell. The counter is a 64-bit \<^verbatim>\<open>usize\<close> and wraps as
  \<^verbatim>\<open>fetch_add\<close> and \<^verbatim>\<open>fetch_sub\<close> do. The handle of the connection pool is not part of the model.
  Deadlines are \<^verbatim>\<open>u64\<close> milliseconds that are only compared.
\<close>

type_synonym mcp_session_id = string
type_synonym fingerprint = string
type_synonym token_digest = string
type_synonym unix_ms = nat

datatype lifecycle_error = EmptyIdentifier

definition mcp_session_id_new :: "string \<Rightarrow> lifecycle_error + mcp_session_id" where
  "mcp_session_id_new value = (if value = [] then Inl EmptyIdentifier else Inr value)"

section \<open>Worker targets\<close>

record worker_target =
  wt_ref :: nat
  worker_id :: string
  endpoint :: string
  session_token :: string

record target_cell =
  in_flight_cell :: "64 word"
  control_cell :: bool

type_synonym heap = "nat \<Rightarrow> target_cell"

text \<open>The reference of a new target is the address the allocation of its \<^verbatim>\<open>Arc\<close> returns.\<close>

definition with_shared_client ::
    "string \<Rightarrow> string \<Rightarrow> string \<Rightarrow> nat \<Rightarrow> heap \<Rightarrow> (lifecycle_error + worker_target) \<times> heap" where
  "with_shared_client wid ep token ref h =
     (if wid = [] \<or> ep = [] then (Inl EmptyIdentifier, h)
      else (Inr \<lparr>wt_ref = ref, worker_id = wid, endpoint = ep, session_token = token\<rparr>,
            h(ref := \<lparr>in_flight_cell = 0, control_cell = True\<rparr>)))"

definition control_available :: "worker_target \<Rightarrow> heap \<Rightarrow> bool" where
  "control_available t h = control_cell (h (wt_ref t))"

definition set_control_available :: "bool \<Rightarrow> worker_target \<Rightarrow> heap \<Rightarrow> heap" where
  "set_control_available b t h = h(wt_ref t := (h (wt_ref t))\<lparr>control_cell := b\<rparr>)"

definition in_flight :: "worker_target \<Rightarrow> heap \<Rightarrow> 64 word" where
  "in_flight t h = in_flight_cell (h (wt_ref t))"

record worker_request =
  wr_fingerprint :: fingerprint
  wr_target :: worker_target

definition acquire :: "worker_target \<Rightarrow> fingerprint \<Rightarrow> heap \<Rightarrow> worker_request \<times> heap" where
  "acquire t fp h =
     (\<lparr>wr_fingerprint = fp, wr_target = t\<rparr>,
      h(wt_ref t := (h (wt_ref t))\<lparr>in_flight_cell := in_flight t h + 1\<rparr>))"

definition drop_request :: "worker_request \<Rightarrow> heap \<Rightarrow> heap" where
  "drop_request q h =
     (let t = wr_target q
      in h(wt_ref t := (h (wt_ref t))\<lparr>in_flight_cell := in_flight t h - 1\<rparr>))"

datatype resolved_target = Worker worker_request | ResolvedPassThrough

section \<open>Launch plans and directives\<close>

record worker_launch =
  activation_id :: string
  activation_token :: string
  launch_deadline :: unix_ms
  bind_ip :: "32 word"
  port :: "16 word"
  advertise_address :: "string option"

datatype broker_directive =
    ReuseWorker string
  | WaitForWorker unix_ms
  | LaunchWorker string string unix_ms "32 word" "16 word" "string option"
  | UsePassThrough

definition into_directive :: "worker_launch \<Rightarrow> broker_directive" where
  "into_directive l = LaunchWorker (activation_id l) (activation_token l) (launch_deadline l)
     (bind_ip l) (port l) (advertise_address l)"

section \<open>Route states\<close>

datatype route_state_kind =
  KEmpty | KActivating | KReady | KDraining | KPassThrough | KRecovering

datatype route_state =
    Empty
  | Activating mcp_session_id worker_launch
  | Ready worker_target
  | Draining worker_target unix_ms
  | PassThrough bool
  | Recovering "worker_target option" "mcp_session_id option" unix_ms

fun state_kind :: "route_state \<Rightarrow> route_state_kind" where
  "state_kind Empty = KEmpty"
| "state_kind (Activating _ _) = KActivating"
| "state_kind (Ready _) = KReady"
| "state_kind (Draining _ _) = KDraining"
| "state_kind (PassThrough _) = KPassThrough"
| "state_kind (Recovering _ _ _) = KRecovering"

section \<open>Facts\<close>

lemma into_directive_inj: "into_directive l = into_directive l' \<Longrightarrow> l = l'"
  by (simp add: into_directive_def)

lemma into_directive_neq [simp]:
  "into_directive l \<noteq> WaitForWorker n" "into_directive l \<noteq> ReuseWorker e"
  "into_directive l \<noteq> UsePassThrough"
  "WaitForWorker n \<noteq> into_directive l" "ReuseWorker e \<noteq> into_directive l"
  "UsePassThrough \<noteq> into_directive l"
  by (simp_all add: into_directive_def)

text \<open>The live requests on one target.\<close>

definition live_on :: "nat \<Rightarrow> worker_request list \<Rightarrow> nat" where
  "live_on ref qs = length (filter (\<lambda>q. wt_ref (wr_target q) = ref) qs)"

definition counters_ok :: "heap \<Rightarrow> worker_request list \<Rightarrow> bool" where
  "counters_ok h live \<longleftrightarrow> (\<forall>ref. in_flight_cell (h ref) = of_nat (live_on ref live))"

lemma counters_acquire:
  assumes "counters_ok h live" "acquire t fp h = (q, h')"
  shows "counters_ok h' (q # live)"
  using assms by (auto simp: counters_ok_def acquire_def in_flight_def live_on_def)

lemma live_on_remove1:
  "q \<in> set live \<Longrightarrow> of_nat (live_on ref (remove1 q live)) =
     (of_nat (live_on ref live) - (if wt_ref (wr_target q) = ref then 1 else 0) :: 64 word)"
proof (induction live)
  case (Cons a live)
  then show ?case by (auto simp: live_on_def)
qed simp

lemma counters_drop:
  assumes "counters_ok h live" "q \<in> set live"
  shows "counters_ok (drop_request q h) (remove1 q live)"
  using assms by (auto simp: counters_ok_def drop_request_def in_flight_def live_on_remove1 Let_def)

lemma counters_set_control:
  "counters_ok h live \<Longrightarrow> counters_ok (set_control_available b t h) live"
  by (auto simp: counters_ok_def set_control_available_def)

lemma counters_new_target:
  assumes "counters_ok h live" "live_on ref live = 0"
    and "with_shared_client wid ep token ref h = (r, h')"
  shows "counters_ok h' live"
  using assms by (auto simp: counters_ok_def with_shared_client_def split: if_splits)

text \<open>Below the width of the counter, a zero reading means that no request is live.\<close>

lemma in_flight_zero:
  assumes "counters_ok h live" "length live < 2 ^ 64" "in_flight t h = 0"
  shows "\<not> (\<exists>q \<in> set live. wt_ref (wr_target q) = wt_ref t)"
proof -
  have "live_on (wt_ref t) live < 2 ^ 64"
    unfolding live_on_def by (rule le_less_trans [OF length_filter_le assms(2)])
  moreover have "of_nat (live_on (wt_ref t) live) = (0 :: 64 word)"
    using assms(1,3) by (simp add: counters_ok_def in_flight_def)
  ultimately have "live_on (wt_ref t) live = 0" 
    by (cases "live_on (wt_ref t) live = 0") (auto simp: word_of_nat_eq_0_iff dest!: dvd_imp_le)
  then show ?thesis by (auto simp: live_on_def filter_empty_conv)
qed

end
