(* ===== verification/Broker_Registry.thy ===== *)
theory Broker_Registry
  imports Broker_Lifecycle
begin

text \<open>
  The broker registry of the daemon (\<^verbatim>\<open>crates/cli/src/daemon/broker/registry.rs\<close>): one route per
  user-machine fingerprint, the MCP sessions that hold a lease on it, and the life cycle of its
  worker. Every public operation takes the write lock, so an operation is one atomic step on the
  registry; it returns the registry as it leaves it, also when it fails.

  Operations on an existing route share the prefix \<^verbatim>\<open>routes.get_mut(&fingerprint).ok_or(UnknownRoute)\<close>;
  \<open>with_route\<close> is that prefix, and the rest of each operation is a function on the route entry.
  The lock recovers from poisoning, so no operation fails because of it. Operations that the
  source compiles for its tests only are not modelled.
\<close>

section \<open>Data\<close>

record mcp_registration =
  reg_fingerprint :: fingerprint
  reg_token_digest :: token_digest
  reg_session_id :: mcp_session_id
  reg_lease_expires_at :: unix_ms

record route_entry =
  re_token_digest :: token_digest
  refs :: "(mcp_session_id \<times> unix_ms) list"
  re_state :: route_state

record broker =
  global_pass_through :: bool
  retry_after_ms :: unix_ms
  route_capacity :: nat
  routes :: "(fingerprint \<times> route_entry) list"
  tokens :: "(token_digest \<times> fingerprint) list"

datatype registry_error =
    TokenAlreadyBound | FingerprintTokenMismatch | UnknownRoute | RouteCapacityReached
  | UnknownMcpSession | McpReferenceCapacityReached | NoLiveMcpReferences
  | ActivationMismatch | WorkerMismatch | NotLaunchOwner
  | RecoveryNotAuthorized | RecoveryGenerationChanged
  | InvalidState route_state_kind route_state_kind
  | DrainInProgress

datatype resolve_error = UnknownToken | Unavailable route_state_kind

datatype release_action =
    NoChange
  | CancelActivation string
  | BeginDrain worker_target unix_ms
  | TransferActivation mcp_session_id broker_directive
  | NominateMcp mcp_session_id

datatype worker_failure_action = FailNominateMcp mcp_session_id | FailRouteEmpty

datatype recovery_permit = PermitActivating string | PermitExistingWorker string bool

datatype drain_completion = DrainRouteEmpty | ActivationRequired mcp_session_id

record expired_activation =
  ea_fingerprint :: fingerprint
  ea_activation_id :: string

definition MAX_MCP_REFERENCES_PER_ROUTE :: nat where
  "MAX_MCP_REFERENCES_PER_ROUTE = 1024"

definition broker_new :: "bool \<Rightarrow> broker" where
  "broker_new gpt = \<lparr>global_pass_through = gpt, retry_after_ms = 100, route_capacity = 4096,
     routes = [], tokens = []\<rparr>"

definition route_entry_new :: "token_digest \<Rightarrow> bool \<Rightarrow> route_entry" where
  "route_entry_new td gpt = \<lparr>re_token_digest = td, refs = [],
     re_state = (if gpt then PassThrough True else Empty)\<rparr>"

section \<open>Operations on one route\<close>

definition directive_for ::
    "heap \<Rightarrow> mcp_session_id \<Rightarrow> worker_launch \<Rightarrow> unix_ms \<Rightarrow> route_entry \<Rightarrow>
     broker_directive \<times> route_entry" where
  "directive_for h session launch retry r = (case re_state r of
       Empty \<Rightarrow> (into_directive launch, r\<lparr>re_state := Activating session launch\<rparr>)
     | Activating owner active_launch \<Rightarrow>
         if owner = session then (into_directive active_launch, r) else (WaitForWorker retry, r)
     | Draining _ _ \<Rightarrow> (WaitForWorker retry, r)
     | Recovering None _ _ \<Rightarrow> (WaitForWorker retry, r)
     | Ready target \<Rightarrow>
         if \<not> control_available target h then (WaitForWorker retry, r)
         else (ReuseWorker (endpoint target), r)
     | PassThrough _ \<Rightarrow> (UsePassThrough, r)
     | Recovering (Some target) _ _ \<Rightarrow>
         (ReuseWorker (endpoint target), r\<lparr>re_state := Ready target\<rparr>))"

definition route_current_directive ::
    "heap \<Rightarrow> mcp_session_id \<Rightarrow> unix_ms \<Rightarrow> route_entry \<Rightarrow> broker_directive \<times> route_entry" where
  "route_current_directive h session retry r = (case re_state r of
       Empty \<Rightarrow> (WaitForWorker retry, r)
     | Activating owner active_launch \<Rightarrow>
         if owner = session then (into_directive active_launch, r) else (WaitForWorker retry, r)
     | Draining _ _ \<Rightarrow> (WaitForWorker retry, r)
     | Recovering None _ _ \<Rightarrow> (WaitForWorker retry, r)
     | Ready target \<Rightarrow>
         if \<not> control_available target h then (WaitForWorker retry, r)
         else (ReuseWorker (endpoint target), r)
     | PassThrough _ \<Rightarrow> (UsePassThrough, r)
     | Recovering (Some target) _ _ \<Rightarrow>
         (ReuseWorker (endpoint target), r\<lparr>re_state := Ready target\<rparr>))"

text \<open>
  The replacement owner is the first remaining reference. The only caller has checked that
  there is one (\<open>after_reference_removed\<close>), so the case without a reference, a panic of the
  \<^verbatim>\<open>expect\<close> in the source, is not reached.
\<close>

definition transfer_owner_if_needed ::
    "mcp_session_id \<Rightarrow> route_entry \<Rightarrow> release_action \<times> route_entry" where
  "transfer_owner_if_needed removed r = (case first_key (refs r) of
       None \<Rightarrow> (NoChange, r)
     | Some replacement \<Rightarrow> (case re_state r of
         Activating owner launch \<Rightarrow>
           if owner = removed
           then (TransferActivation replacement (into_directive launch),
                 r\<lparr>re_state := Activating replacement launch\<rparr>)
           else (NoChange, r)
       | Recovering target owner deadline \<Rightarrow>
           if owner = Some removed
           then (NominateMcp replacement, r\<lparr>re_state := Recovering target (Some replacement) deadline\<rparr>)
           else (NoChange, r)
       | _ \<Rightarrow> (NoChange, r)))"

definition after_reference_removed ::
    "mcp_session_id \<Rightarrow> unix_ms \<Rightarrow> route_entry \<Rightarrow> release_action \<times> route_entry" where
  "after_reference_removed removed drain_deadline r =
     (if refs r \<noteq> [] then transfer_owner_if_needed removed r
      else case re_state r of
        Activating _ launch \<Rightarrow> (CancelActivation (activation_id launch), r\<lparr>re_state := Empty\<rparr>)
      | Ready target \<Rightarrow>
          (BeginDrain target drain_deadline, r\<lparr>re_state := Draining target drain_deadline\<rparr>)
      | Recovering (Some target) _ _ \<Rightarrow>
          (BeginDrain target drain_deadline, r\<lparr>re_state := Draining target drain_deadline\<rparr>)
      | PassThrough permanent \<Rightarrow>
          if permanent then (NoChange, r\<lparr>re_state := PassThrough True\<rparr>)
          else (NoChange, r\<lparr>re_state := Empty\<rparr>)
      | Draining target deadline \<Rightarrow> (NoChange, r\<lparr>re_state := Draining target deadline\<rparr>)
      | Empty \<Rightarrow> (NoChange, r\<lparr>re_state := Empty\<rparr>)
      | Recovering None _ _ \<Rightarrow> (NoChange, r\<lparr>re_state := Empty\<rparr>))"

text \<open>The state a route falls back to: pass-through while it is referenced, empty otherwise.\<close>

abbreviation fallback_state :: "route_entry \<Rightarrow> route_state" where
  "fallback_state r \<equiv> (if refs r = [] then Empty else PassThrough False)"

definition renew_route ::
    "mcp_session_id \<Rightarrow> unix_ms \<Rightarrow> route_entry \<Rightarrow> (registry_error + unit) \<times> route_entry" where
  "renew_route session expiry r = (case map_of (refs r) session of
       None \<Rightarrow> (Inl UnknownMcpSession, r)
     | Some _ \<Rightarrow> (Inr (), r\<lparr>refs := bt_insert session expiry (refs r)\<rparr>))"

definition current_directive_route ::
    "heap \<Rightarrow> mcp_session_id \<Rightarrow> unix_ms \<Rightarrow> route_entry \<Rightarrow>
     (registry_error + broker_directive) \<times> route_entry" where
  "current_directive_route h session retry r =
     (if map_of (refs r) session = None then (Inl UnknownMcpSession, r)
      else (let (d, r') = route_current_directive h session retry r in (Inr d, r')))"

definition release_route ::
    "mcp_session_id \<Rightarrow> unix_ms \<Rightarrow> route_entry \<Rightarrow> (registry_error + release_action) \<times> route_entry" where
  "release_route session drain_deadline r =
     (if map_of (refs r) session = None then (Inr NoChange, r)
      else (let (a, r') = after_reference_removed session drain_deadline
                  (r\<lparr>refs := AList.delete session (refs r)\<rparr>)
            in (Inr a, r')))"

definition mark_ready_route ::
    "string \<Rightarrow> worker_target \<Rightarrow> route_entry \<Rightarrow> (registry_error + unit) \<times> route_entry" where
  "mark_ready_route activation target r =
     (if refs r = [] then (Inl NoLiveMcpReferences, r)
      else case re_state r of
        Activating _ launch \<Rightarrow>
          if activation_id launch = activation then (Inr (), r\<lparr>re_state := Ready target\<rparr>)
          else (Inl ActivationMismatch, r)
      | state \<Rightarrow> (Inl (InvalidState KActivating (state_kind state)), r))"

definition activation_failed_route ::
    "string \<Rightarrow> route_entry \<Rightarrow> (registry_error + unit) \<times> route_entry" where
  "activation_failed_route activation r = (case re_state r of
       Activating _ launch \<Rightarrow>
         if activation_id launch = activation then (Inr (), r\<lparr>re_state := fallback_state r\<rparr>)
         else (Inl ActivationMismatch, r)
     | state \<Rightarrow> (Inl (InvalidState KActivating (state_kind state)), r))"

text \<open>
  The arms of the source in their order. The state is taken out of the route first; the arms
  that keep it put it back, and every other way out of the match ends in the fallback.
\<close>

definition communication_failed_route ::
    "string \<Rightarrow> route_entry \<Rightarrow> (registry_error + string option) \<times> route_entry" where
  "communication_failed_route wid r =
     (let fall = (\<lambda>canceled. (Inr canceled, r\<lparr>re_state := fallback_state r\<rparr>))
      in case re_state r of
           Ready target \<Rightarrow>
             if worker_id target = wid then fall None
             else (Inl WorkerMismatch, r\<lparr>re_state := Ready target\<rparr>)
         | Draining target deadline \<Rightarrow>
             if worker_id target = wid
             then (Inl (InvalidState KReady KDraining), r\<lparr>re_state := Draining target deadline\<rparr>)
             else (Inl WorkerMismatch, r\<lparr>re_state := Draining target deadline\<rparr>)
         | Recovering target owner deadline \<Rightarrow>
             if (case target of None \<Rightarrow> True | Some t \<Rightarrow> worker_id t = wid) then fall None
             else (Inl WorkerMismatch, r\<lparr>re_state := Recovering target owner deadline\<rparr>)
         | Activating _ launch \<Rightarrow> fall (Some (activation_id launch))
         | PassThrough permanent \<Rightarrow> (Inr None, r\<lparr>re_state := PassThrough permanent\<rparr>)
         | Empty \<Rightarrow> (Inr None, r\<lparr>re_state := Empty\<rparr>))"

definition pass_through_route ::
    "route_entry \<Rightarrow> (registry_error + string option) \<times> route_entry" where
  "pass_through_route r =
     (if re_state r = PassThrough True then (Inr None, r)
      else (Inr (case re_state r of Activating _ launch \<Rightarrow> Some (activation_id launch) | _ \<Rightarrow> None),
            r\<lparr>re_state := fallback_state r\<rparr>))"

definition worker_failed_route ::
    "string \<Rightarrow> unix_ms \<Rightarrow> route_entry \<Rightarrow> (registry_error + worker_failure_action) \<times> route_entry" where
  "worker_failed_route wid recovery_deadline r = (case re_state r of
       Ready target \<Rightarrow>
         if worker_id target = wid
         then (case first_key (refs r) of
             Some owner \<Rightarrow> (Inr (FailNominateMcp owner),
               r\<lparr>re_state := Recovering None (Some owner) recovery_deadline\<rparr>)
           | None \<Rightarrow> (Inr FailRouteEmpty, r\<lparr>re_state := Empty\<rparr>))
         else (Inl WorkerMismatch, r\<lparr>re_state := Ready target\<rparr>)
     | other \<Rightarrow> (Inl (InvalidState KReady (state_kind other)), r\<lparr>re_state := other\<rparr>))"

definition begin_relaunch_route ::
    "mcp_session_id \<Rightarrow> worker_launch \<Rightarrow> route_entry \<Rightarrow>
     (registry_error + broker_directive) \<times> route_entry" where
  "begin_relaunch_route session launch r = (case re_state r of
       Recovering _ owner _ \<Rightarrow>
         if owner = Some session
         then (Inr (into_directive launch), r\<lparr>re_state := Activating session launch\<rparr>)
         else (Inl NotLaunchOwner, r)
     | state \<Rightarrow> (Inl (InvalidState KRecovering (state_kind state)), r))"

definition finish_draining_route ::
    "heap \<Rightarrow> unix_ms \<Rightarrow> route_entry \<Rightarrow> (registry_error + drain_completion) \<times> route_entry" where
  "finish_draining_route h now r = (case re_state r of
       Draining target deadline \<Rightarrow>
         if in_flight target h \<noteq> 0 \<and> now < deadline then (Inl DrainInProgress, r)
         else (Inr (case first_key (refs r) of
                 None \<Rightarrow> DrainRouteEmpty | Some s \<Rightarrow> ActivationRequired s),
               r\<lparr>re_state := Empty\<rparr>)
     | state \<Rightarrow> (Inl (InvalidState KDraining (state_kind state)), r))"

definition authorize_route ::
    "string \<Rightarrow> route_entry \<Rightarrow> registry_error + recovery_permit" where
  "authorize_route wid r =
     (if refs r = [] then Inl NoLiveMcpReferences
      else case re_state r of
        Activating _ launch \<Rightarrow> Inr (PermitActivating (activation_id launch))
      | Ready target \<Rightarrow>
          if worker_id target = wid then Inr (PermitExistingWorker wid False)
          else Inl RecoveryNotAuthorized
      | Recovering (Some target) _ _ \<Rightarrow>
          if worker_id target = wid then Inr (PermitExistingWorker wid True)
          else Inl RecoveryNotAuthorized
      | _ \<Rightarrow> Inl RecoveryNotAuthorized)"

definition permit_valid :: "route_state \<Rightarrow> recovery_permit \<Rightarrow> bool" where
  "permit_valid state permit = (case (state, permit) of
       (Activating _ launch, PermitActivating a) \<Rightarrow> activation_id launch = a
     | (Ready target, PermitExistingWorker w recovering) \<Rightarrow> \<not> recovering \<and> worker_id target = w
     | (Recovering (Some target) _ _, PermitExistingWorker w recovering) \<Rightarrow>
         recovering \<and> worker_id target = w
     | _ \<Rightarrow> False)"

definition publish_recovered_route ::
    "recovery_permit \<Rightarrow> worker_target \<Rightarrow> route_entry \<Rightarrow>
     (registry_error + string option) \<times> route_entry" where
  "publish_recovered_route permit target r =
     (if refs r = [] then (Inl NoLiveMcpReferences, r)
      else if \<not> permit_valid (re_state r) permit then (Inl RecoveryGenerationChanged, r)
      else (Inr (case re_state r of Activating _ launch \<Rightarrow> Some (activation_id launch) | _ \<Rightarrow> None),
            r\<lparr>re_state := Ready target\<rparr>))"

section \<open>Operations of the registry\<close>

definition with_route ::
    "fingerprint \<Rightarrow> (route_entry \<Rightarrow> (registry_error + 'a) \<times> route_entry) \<Rightarrow> broker \<Rightarrow>
     (registry_error + 'a) \<times> broker" where
  "with_route fp f b = (case map_of (routes b) fp of
       None \<Rightarrow> (Inl UnknownRoute, b)
     | Some r \<Rightarrow> (let (res, r') = f r in (res, b\<lparr>routes := AList.update fp r' (routes b)\<rparr>)))"

definition renew_mcp where
  "renew_mcp fp session expiry = with_route fp (renew_route session expiry)"

definition current_directive where
  "current_directive h fp session b =
     with_route fp (current_directive_route h session (retry_after_ms b)) b"

definition release_mcp where
  "release_mcp fp session drain_deadline = with_route fp (release_route session drain_deadline)"

definition mark_worker_ready where
  "mark_worker_ready fp activation target = with_route fp (mark_ready_route activation target)"

definition mark_activation_failed where
  "mark_activation_failed fp activation = with_route fp (activation_failed_route activation)"

definition mark_worker_communication_failed where
  "mark_worker_communication_failed fp wid = with_route fp (communication_failed_route wid)"

definition mark_route_pass_through where
  "mark_route_pass_through fp = with_route fp pass_through_route"

definition worker_failed where
  "worker_failed fp wid deadline = with_route fp (worker_failed_route wid deadline)"

definition begin_relaunch where
  "begin_relaunch fp session launch = with_route fp (begin_relaunch_route session launch)"

definition finish_draining where
  "finish_draining h fp now = with_route fp (finish_draining_route h now)"

definition publish_recovered_worker where
  "publish_recovered_worker fp permit target =
     with_route fp (publish_recovered_route permit target)"

definition authorize_worker_recovery ::
    "fingerprint \<Rightarrow> string \<Rightarrow> broker \<Rightarrow> registry_error + recovery_permit" where
  "authorize_worker_recovery fp wid b = (case map_of (routes b) fp of
       None \<Rightarrow> Inl UnknownRoute | Some r \<Rightarrow> authorize_route wid r)"

definition route_removable :: "route_entry \<Rightarrow> bool" where
  "route_removable r \<longleftrightarrow> refs r = [] \<and> (re_state r = Empty \<or> re_state r = PassThrough True)"

definition evict_inactive_routes_at_capacity :: "fingerprint \<Rightarrow> broker \<Rightarrow> broker" where
  "evict_inactive_routes_at_capacity incoming b =
     (if map_of (routes b) incoming \<noteq> None \<or> length (routes b) < route_capacity b then b
      else case List.find (\<lambda>(_, r). route_removable r) (routes b) of
        None \<Rightarrow> b
      | Some (fp, r) \<Rightarrow> b\<lparr>routes := AList.delete fp (routes b),
                          tokens := AList.delete (re_token_digest r) (tokens b)\<rparr>)"

definition validate_binding :: "broker \<Rightarrow> fingerprint \<Rightarrow> token_digest \<Rightarrow> registry_error + unit" where
  "validate_binding b fp td =
     (if (case map_of (tokens b) td of None \<Rightarrow> False | Some existing \<Rightarrow> existing \<noteq> fp)
      then Inl TokenAlreadyBound
      else if (case map_of (routes b) fp of None \<Rightarrow> False | Some r \<Rightarrow> re_token_digest r \<noteq> td)
      then Inl FingerprintTokenMismatch
      else Inr ())"

definition validate_capacity :: "broker \<Rightarrow> fingerprint \<Rightarrow> registry_error + unit" where
  "validate_capacity b fp =
     (if map_of (routes b) fp = None \<and> length (routes b) \<ge> route_capacity b
      then Inl RouteCapacityReached else Inr ())"

definition register_mcp ::
    "heap \<Rightarrow> mcp_registration \<Rightarrow> worker_launch \<Rightarrow> broker \<Rightarrow>
     (registry_error + broker_directive) \<times> broker" where
  "register_mcp h reg launch b =
     (let fp = reg_fingerprint reg; td = reg_token_digest reg; session = reg_session_id reg;
          b = evict_inactive_routes_at_capacity fp b
      in case validate_binding b fp td of
           Inl e \<Rightarrow> (Inl e, b)
         | Inr _ \<Rightarrow> (case validate_capacity b fp of
             Inl e \<Rightarrow> (Inl e, b)
           | Inr _ \<Rightarrow>
               (let r = (case map_of (routes b) fp of
                      Some r \<Rightarrow> r | None \<Rightarrow> route_entry_new td (global_pass_through b));
                    b = b\<lparr>tokens := AList.update td fp (tokens b),
                          routes := AList.update fp r (routes b)\<rparr>
                in if map_of (refs r) session = None \<and>
                      length (refs r) \<ge> MAX_MCP_REFERENCES_PER_ROUTE
                   then (Inl McpReferenceCapacityReached, b)
                   else (let r = r\<lparr>refs := bt_insert session (reg_lease_expires_at reg) (refs r)\<rparr>;
                             (d, r) = directive_for h session launch (retry_after_ms b) r
                         in (Inr d, b\<lparr>routes := AList.update fp r (routes b)\<rparr>)))))"

definition activation_expired :: "unix_ms \<Rightarrow> route_entry \<Rightarrow> string option" where
  "activation_expired now r = (case re_state r of
       Activating _ launch \<Rightarrow>
         if launch_deadline launch \<le> now then Some (activation_id launch) else None
     | _ \<Rightarrow> None)"

definition expire_activations :: "unix_ms \<Rightarrow> broker \<Rightarrow> expired_activation list \<times> broker" where
  "expire_activations now b =
     (List.map_filter (\<lambda>(fp, r). map_option
          (\<lambda>a. \<lparr>ea_fingerprint = fp, ea_activation_id = a\<rparr>) (activation_expired now r)) (routes b),
      b\<lparr>routes := map (\<lambda>(fp, r). (fp, case activation_expired now r of
          None \<Rightarrow> r | Some _ \<Rightarrow> r\<lparr>re_state := fallback_state r\<rparr>)) (routes b)\<rparr>)"

definition resolve_target ::
    "token_digest \<Rightarrow> broker \<Rightarrow> heap \<Rightarrow> (resolve_error + resolved_target) \<times> heap" where
  "resolve_target td b h = (case map_of (tokens b) td of
       None \<Rightarrow> (Inl UnknownToken, h)
     | Some fp \<Rightarrow> (case map_of (routes b) fp of
         None \<Rightarrow> (Inl UnknownToken, h)
       | Some r \<Rightarrow> (case re_state r of
           Ready target \<Rightarrow> (let (q, h') = acquire target fp h in (Inr (Worker q), h'))
         | PassThrough _ \<Rightarrow>
             if refs r \<noteq> [] then (Inr ResolvedPassThrough, h)
             else (Inl (Unavailable KPassThrough), h)
         | state \<Rightarrow> (Inl (Unavailable (state_kind state)), h))))"

end
