(* ===== verification/Broker_Invariant.thy ===== *)
theory Broker_Invariant
  imports Broker_Registry
begin

text \<open>
  Correctness of the broker registry: the invariant of a route and of the whole registry, the
  step relation of the daemon over it, and the properties of its reachable states.

  \<^item> \<open>route_ok\<close> ties the state of a route to its references: the owner of a launch or a
    recovery holds a reference, a published worker and a transient pass-through have at least
    one reference, and permanent pass-through is exactly the global setting.
  \<^item> \<open>broker_ok\<close> adds that tokens and fingerprints are bound one to one and that both capacity
    limits hold.
  \<^item> The locale \<open>route_op\<close> is the contract of an operation on one route; its interpretations are
    the eleven operations that go through \<open>with_route\<close>.
\<close>

section \<open>Invariants\<close>

abbreviation sessions :: "route_entry \<Rightarrow> mcp_session_id set" where
  "sessions r \<equiv> dom (map_of (refs r))"

definition state_ok :: "bool \<Rightarrow> route_entry \<Rightarrow> bool" where
  "state_ok gpt r \<longleftrightarrow> (re_state r = PassThrough True \<longleftrightarrow> gpt) \<and>
     (case re_state r of
        Activating owner _ \<Rightarrow> owner \<in> sessions r
      | Ready _ \<Rightarrow> refs r \<noteq> []
      | PassThrough permanent \<Rightarrow> permanent \<or> refs r \<noteq> []
      | Recovering _ owner _ \<Rightarrow> (case owner of None \<Rightarrow> True | Some s \<Rightarrow> s \<in> sessions r)
      | _ \<Rightarrow> True)"

definition route_ok :: "bool \<Rightarrow> route_entry \<Rightarrow> bool" where
  "route_ok gpt r \<longleftrightarrow> bt_ok (refs r) \<and> length (refs r) \<le> MAX_MCP_REFERENCES_PER_ROUTE \<and>
     state_ok gpt r"

text \<open>Tokens and fingerprints are bound one to one, stated on the lookups of both tables.\<close>

definition bindings_ok ::
    "bool \<Rightarrow> (fingerprint \<Rightarrow> route_entry option) \<Rightarrow> (token_digest \<Rightarrow> fingerprint option) \<Rightarrow> bool" where
  "bindings_ok gpt rm tm \<longleftrightarrow>
     (\<forall>fp r. rm fp = Some r \<longrightarrow> route_ok gpt r \<and> tm (re_token_digest r) = Some fp) \<and>
     (\<forall>td fp. tm td = Some fp \<longrightarrow> (\<exists>r. rm fp = Some r \<and> re_token_digest r = td))"

definition broker_ok :: "broker \<Rightarrow> bool" where
  "broker_ok b \<longleftrightarrow>
     distinct (map fst (routes b)) \<and> distinct (map fst (tokens b)) \<and>
     length (routes b) \<le> route_capacity b \<and>
     bindings_ok (global_pass_through b) (map_of (routes b)) (map_of (tokens b))"

lemma bindings_update:
  assumes "bindings_ok gpt rm tm" "rm fp = Some r" "route_ok gpt r'"
    "re_token_digest r' = re_token_digest r"
  shows "bindings_ok gpt (rm(fp \<mapsto> r')) tm"
  using assms by (auto simp: bindings_ok_def) (metis option.inject)+

lemma bindings_add:
  assumes "bindings_ok gpt rm tm" "rm fp = None" "tm (re_token_digest r) = None" "route_ok gpt r"
  shows "bindings_ok gpt (rm(fp \<mapsto> r)) (tm(re_token_digest r \<mapsto> fp))"
  using assms by (auto simp: bindings_ok_def) (metis option.distinct(1))+

lemma bindings_remove:
  assumes "bindings_ok gpt rm tm" "rm fp = Some r"
  shows "bindings_ok gpt (rm(fp := None)) (tm(re_token_digest r := None))"
  using assms by (auto simp: bindings_ok_def) (metis option.inject)+

lemma bindings_map:
  assumes "bindings_ok gpt rm tm" "\<And>r. route_ok gpt r \<Longrightarrow> route_ok gpt (f r)"
    "\<And>r. re_token_digest (f r) = re_token_digest r"
  shows "bindings_ok gpt (\<lambda>fp. map_option f (rm fp)) tm"
  unfolding bindings_ok_def
proof (intro conjI allI impI)
  fix fp r
  assume "map_option f (rm fp) = Some r"
  then obtain r0 where "rm fp = Some r0" "r = f r0" by auto
  then show "route_ok gpt r" "tm (re_token_digest r) = Some fp"
    using assms by (auto simp: bindings_ok_def)
next
  fix td fp
  assume "tm td = Some fp"
  then obtain r0 where "rm fp = Some r0" "re_token_digest r0 = td"
    using assms(1) unfolding bindings_ok_def by blast
  then show "\<exists>r. map_option f (rm fp) = Some r \<and> re_token_digest r = td" using assms(3) by auto
qed

lemma first_key_Some: "first_key xs = Some k \<Longrightarrow> map_of xs k \<noteq> None"
  by (cases xs) (auto simp: first_key_def)

lemma first_key_None: "first_key xs = None \<longleftrightarrow> xs = []"
  by (cases xs) (auto simp: first_key_def)

lemma length_bt_insert:
  assumes "bt_ok xs"
  shows "length (bt_insert k v xs) = (if map_of xs k = None then Suc (length xs) else length xs)"
proof -
  have card: "length ys = card (fst ` set ys)" if "bt_ok ys" for ys :: "('a \<times> 'b) list"
    using distinct_card [OF bt_ok_distinct [OF that]] by simp
  have "length (bt_insert k v xs) = card (insert k (fst ` set xs))"
    using card [OF bt_ok_insert [OF assms]] by (simp add: keys_bt_insert)
  then show ?thesis using card [OF assms] by (simp add: card_insert_if map_of_eq_None_iff)
qed

lemma route_ok_state:
  "route_ok gpt r \<Longrightarrow> state_ok gpt (r\<lparr>re_state := s\<rparr>) \<Longrightarrow> route_ok gpt (r\<lparr>re_state := s\<rparr>)"
  by (simp add: route_ok_def)

lemma state_ok_fallback:
  "\<not> gpt \<Longrightarrow> state_ok gpt (r\<lparr>re_state := fallback_state r\<rparr>)"
  by (simp add: state_ok_def)

lemma route_ok_same: "route_ok gpt r \<Longrightarrow> route_ok gpt (r\<lparr>re_state := re_state r\<rparr>)"
  by simp

text \<open>A route of a broker without global pass-through is in every state but the permanent one.\<close>

lemma not_gpt: "route_ok gpt r \<Longrightarrow> re_state r \<noteq> PassThrough True \<Longrightarrow> \<not> gpt"
  by (auto simp: route_ok_def state_ok_def)

section \<open>The contract of an operation on one route\<close>

locale route_op =
  fixes op :: "route_entry \<Rightarrow> (registry_error + 'a) \<times> route_entry"
  assumes op_route_ok: "route_ok gpt r \<Longrightarrow> op r = (res, r') \<Longrightarrow> route_ok gpt r'"
    and op_token: "op r = (res, r') \<Longrightarrow> re_token_digest r' = re_token_digest r"
begin

lemma with_route_ok:
  assumes "broker_ok b" "with_route fp op b = (res, b')"
  shows "broker_ok b'"
proof (cases "map_of (routes b) fp")
  case None
  then show ?thesis using assms by (simp add: with_route_def)
next
  case (Some r)
  obtain r' where r': "op r = (res, r')" "b' = b\<lparr>routes := AList.update fp r' (routes b)\<rparr>"
    using assms(2) Some by (auto simp: with_route_def split: prod.splits)
  have b: "bindings_ok (global_pass_through b) (map_of (routes b)) (map_of (tokens b))"
    using assms(1) by (simp add: broker_ok_def)
  then have "route_ok (global_pass_through b) r" using Some by (simp add: bindings_ok_def)
  then have "bindings_ok (global_pass_through b) ((map_of (routes b))(fp \<mapsto> r')) (map_of (tokens b))"
    using bindings_update [OF b Some op_route_ok [OF _ r'(1)] op_token [OF r'(1)]] by simp
  moreover have "fp \<in> fst ` set (routes b)" using Some by (metis domI dom_map_of_conv_image_fst)
  ultimately show ?thesis
    using assms(1) r'(2)
    by (simp add: broker_ok_def AList.update_conv' AList.distinct_update length_update_old)
qed

text \<open>The operation reaches one route only, and none of the settings or bindings.\<close>

lemma with_route_frame:
  assumes "with_route fp op b = (res, b')"
  shows "tokens b' = tokens b \<and> global_pass_through b' = global_pass_through b \<and>
     route_capacity b' = route_capacity b \<and>
     (\<forall>fp'. fp' \<noteq> fp \<longrightarrow> map_of (routes b') fp' = map_of (routes b) fp')"
  using assms
  by (auto simp: with_route_def AList.update_conv' split: option.splits prod.splits)

end

lemma route_ok_refs_insert:
  assumes "route_ok gpt r" "session \<in> sessions r \<or> length (refs r) < MAX_MCP_REFERENCES_PER_ROUTE"
  shows "route_ok gpt (r\<lparr>refs := bt_insert session e (refs r)\<rparr>)"
  using assms
  by (auto simp: route_ok_def state_ok_def bt_ok_insert length_bt_insert map_of_bt_insert
      split: route_state.splits option.splits)

interpretation renew: route_op "renew_route session expiry" for session expiry
proof unfold_locales
  fix gpt r res r'
  assume a: "route_ok gpt r" "renew_route session expiry r = (res, r')"
  show "route_ok gpt r'"
  proof (cases "map_of (refs r) session")
    case (Some e)
    then have "route_ok gpt (r\<lparr>refs := bt_insert session expiry (refs r)\<rparr>)"
      using route_ok_refs_insert [OF a(1)] by blast
    then show ?thesis using a(2) Some by (auto simp: renew_route_def)
  qed (use a in \<open>simp add: renew_route_def\<close>)
qed (auto simp: renew_route_def split: option.splits)

lemma directive_for_ok:
  assumes "route_ok gpt r" "session \<in> sessions r" "directive_for h session launch retry r = (d, r')"
  shows "route_ok gpt r' \<and> re_token_digest r' = re_token_digest r \<and> refs r' = refs r"
  using assms
  by (auto simp: directive_for_def route_ok_def state_ok_def
      split: route_state.splits option.splits if_splits)

interpretation cur_dir: route_op "current_directive_route h session retry" for h session retry
proof unfold_locales
  fix gpt r res r'
  assume a: "route_ok gpt r" "current_directive_route h session retry r = (res, r')"
  then show "route_ok gpt r'"
    by (auto simp: current_directive_route_def route_current_directive_def route_ok_def
        state_ok_def split: route_state.splits option.splits if_splits prod.splits)
qed (auto simp: current_directive_route_def route_current_directive_def
      split: route_state.splits option.splits if_splits prod.splits)

lemma map_of_delete_refs: "map_of (AList.delete k xs) = (map_of xs)(k := None)"
  by (rule AList.delete_conv')

lemma length_delete_refs: "length (AList.delete k xs) \<le> length xs"
  by (rule AList.length_delete_le)

text \<open>
  Removing a reference may leave the route without its owner. What follows the removal repairs
  exactly that.
\<close>

lemma after_reference_removed_ok:
  assumes r: "route_ok gpt r" and rem: "after_reference_removed session deadline
      (r\<lparr>refs := AList.delete session (refs r)\<rparr>) = (a, r')"
  shows "route_ok gpt r' \<and> re_token_digest r' = re_token_digest r"
proof -
  have d: "bt_ok (AList.delete session (refs r))"
      "length (AList.delete session (refs r)) \<le> MAX_MCP_REFERENCES_PER_ROUTE"
    using r bt_ok_delete le_trans [OF length_delete_refs] by (auto simp: route_ok_def)
  show ?thesis
  proof (cases "first_key (AList.delete session (refs r))")
    case None
    then have e: "AList.delete session (refs r) = []" by (simp add: first_key_None)
    let ?r = "r\<lparr>refs := []\<rparr>"
    have rem': "after_reference_removed session deadline ?r = (a, r')" using rem e by simp
    have ok: "re_state r = PassThrough True \<longleftrightarrow> gpt" using r by (simp add: route_ok_def state_ok_def)
    show ?thesis
    proof (cases "re_state r")
      case (Recovering target owner deadline')
      then show ?thesis using rem' ok
        by (cases target) (auto simp: after_reference_removed_def route_ok_def state_ok_def)
    qed (use rem' ok in \<open>auto simp: after_reference_removed_def route_ok_def state_ok_def
          split: if_splits\<close>)
  next
    case (Some k)
    then have ne: "AList.delete session (refs r) \<noteq> []" by (auto simp: first_key_def)
    let ?r = "r\<lparr>refs := AList.delete session (refs r)\<rparr>"
    have tr: "transfer_owner_if_needed session ?r = (a, r')"
      using rem ne by (simp add: after_reference_removed_def)
    have k: "map_of (AList.delete session (refs r)) k \<noteq> None" by (rule first_key_Some [OF Some])
    have other: "map_of (AList.delete session (refs r)) s = map_of (refs r) s" if "s \<noteq> session" for s
      using that by (simp add: map_of_delete_refs)
    have ok: "state_ok gpt r" using r by (simp add: route_ok_def)
    have "state_ok gpt r' \<and> refs r' = refs ?r \<and> re_token_digest r' = re_token_digest r"
    proof (cases "re_state r")
      case (Activating owner launch)
      then show ?thesis using tr Some k ok other [of owner]
        by (cases "owner = session") (auto simp: transfer_owner_if_needed_def state_ok_def)
    next
      case (Recovering target owner deadline')
      show ?thesis
      proof (cases "owner = Some session")
        case True
        then show ?thesis using Recovering tr Some k ok
          by (auto simp: transfer_owner_if_needed_def state_ok_def)
      next
        case False
        then show ?thesis using Recovering tr Some ok other
          by (cases owner) (auto simp: transfer_owner_if_needed_def state_ok_def)
      qed
    qed (use tr Some ok ne in \<open>auto simp: transfer_owner_if_needed_def state_ok_def\<close>)
    then show ?thesis using d by (simp add: route_ok_def)
  qed
qed

interpretation release: route_op "release_route session deadline" for session deadline
proof unfold_locales
  fix gpt r res r'
  assume "route_ok gpt r" "release_route session deadline r = (res, r')"
  then show "route_ok gpt r'"
    using after_reference_removed_ok
    by (auto simp: release_route_def split: if_splits prod.splits)
next
  fix r res r'
  assume "release_route session deadline r = (res, r')"
  then show "re_token_digest r' = re_token_digest r"
    by (auto simp: release_route_def after_reference_removed_def transfer_owner_if_needed_def
        split: route_state.splits option.splits if_splits prod.splits)
qed

lemmas route_step_defs =
  route_ok_def state_ok_def first_key_None mark_ready_route_def activation_failed_route_def
  communication_failed_route_def pass_through_route_def worker_failed_route_def
  begin_relaunch_route_def finish_draining_route_def publish_recovered_route_def

interpretation mark_ready: route_op "mark_ready_route activation target" for activation target
  by unfold_locales (auto simp: route_step_defs split: route_state.splits if_splits)

interpretation act_failed: route_op "activation_failed_route activation" for activation
  by unfold_locales (auto simp: route_step_defs split: route_state.splits if_splits)

interpretation comm_failed: route_op "communication_failed_route wid" for wid
  by unfold_locales
    (auto simp: route_step_defs Let_def split: route_state.splits option.splits if_splits)

interpretation pass_thru: route_op pass_through_route
  by unfold_locales (auto simp: route_step_defs split: route_state.splits if_splits)

interpretation wk_failed: route_op "worker_failed_route wid deadline" for wid deadline
  by unfold_locales
    (auto simp: route_step_defs split: route_state.splits option.splits if_splits
      dest!: first_key_Some)

interpretation relaunch: route_op "begin_relaunch_route session launch" for session launch
  by unfold_locales (auto simp: route_step_defs split: route_state.splits option.splits if_splits)

interpretation fin_drain: route_op "finish_draining_route h now" for h now
  by unfold_locales (auto simp: route_step_defs split: route_state.splits if_splits)

interpretation publish: route_op "publish_recovered_route permit target" for permit target
  by unfold_locales
    (auto simp: route_step_defs permit_valid_def
      split: route_state.splits recovery_permit.splits option.splits if_splits)

section \<open>Registration, eviction and expiry\<close>

lemma evict_ok: "broker_ok b \<Longrightarrow> broker_ok (evict_inactive_routes_at_capacity fp b)"
proof -
  assume b: "broker_ok b"
  show ?thesis
  proof (cases "List.find (\<lambda>(_, r). route_removable r) (routes b)")
    case None
    then show ?thesis using b by (simp add: evict_inactive_routes_at_capacity_def)
  next
    case (Some p)
    obtain fp' r where p: "p = (fp', r)" by force
    have "(fp', r) \<in> set (routes b)"
      using Some p by (auto simp: find_Some_iff in_set_conv_nth)
    then have m: "map_of (routes b) fp' = Some r" using b by (simp add: broker_ok_def)
    have "bindings_ok (global_pass_through b) (map_of (routes b)) (map_of (tokens b))"
      using b by (simp add: broker_ok_def)
    then have "bindings_ok (global_pass_through b) ((map_of (routes b))(fp' := None))
        ((map_of (tokens b))(re_token_digest r := None))"
      using m by (rule bindings_remove)
    then show ?thesis using b Some p
      by (auto simp: evict_inactive_routes_at_capacity_def broker_ok_def AList.delete_conv'
          AList.distinct_delete intro: le_trans [OF AList.length_delete_le])
  qed
qed

lemma evict_settings [simp]:
  "global_pass_through (evict_inactive_routes_at_capacity fp b) = global_pass_through b"
  "route_capacity (evict_inactive_routes_at_capacity fp b) = route_capacity b"
  "retry_after_ms (evict_inactive_routes_at_capacity fp b) = retry_after_ms b"
  by (simp_all add: evict_inactive_routes_at_capacity_def split: option.split prod.split)

lemma route_ok_new: "route_ok gpt (route_entry_new td gpt)"
  by (simp add: route_entry_new_def route_ok_def state_ok_def)

text \<open>A binding that passes both validations is the existing one or a new one on both sides.\<close>

lemma validated_binding:
  assumes "broker_ok b" "validate_binding b fp td = Inr ()"
  shows "(\<exists>r. map_of (routes b) fp = Some r \<and> re_token_digest r = td \<and>
            map_of (tokens b) td = Some fp \<and> route_ok (global_pass_through b) r) \<or>
     (map_of (routes b) fp = None \<and> map_of (tokens b) td = None)"
proof -
  have b: "bindings_ok (global_pass_through b) (map_of (routes b)) (map_of (tokens b))"
    using assms(1) by (simp add: broker_ok_def)
  show ?thesis
  proof (cases "map_of (routes b) fp")
    case None
    then have "map_of (tokens b) td \<noteq> Some fp"
      using b by (metis bindings_ok_def option.distinct(1))
    then show ?thesis using None assms(2)
      by (auto simp: validate_binding_def split: option.splits if_splits)
  next
    case (Some r)
    then have "re_token_digest r = td"
      using assms(2) by (auto simp: validate_binding_def split: option.splits if_splits)
    then show ?thesis using Some b by (auto simp: bindings_ok_def)
  qed
qed

text \<open>Storing a route under a validated binding keeps the registry well formed.\<close>

lemma store_route_ok:
  assumes b: "broker_ok b" and v: "validate_binding b fp td = Inr ()" "validate_capacity b fp = Inr ()"
    and r: "route_ok (global_pass_through b) r" "re_token_digest r = td"
  shows "broker_ok (b\<lparr>tokens := AList.update td fp (tokens b), routes := AList.update fp r (routes b)\<rparr>)"
proof -
  let ?rm = "map_of (routes b)" and ?tm = "map_of (tokens b)" and ?g = "global_pass_through b"
  have bind: "bindings_ok ?g ?rm ?tm" using b by (simp add: broker_ok_def)
  have "bindings_ok ?g (?rm(fp \<mapsto> r)) (?tm(td \<mapsto> fp)) \<and>
      length (AList.update fp r (routes b)) \<le> route_capacity b"
    using validated_binding [OF b v(1)]
  proof (elim disjE exE conjE)
    fix r0
    assume r0: "?rm fp = Some r0" "re_token_digest r0 = td" "?tm td = Some fp"
    then have "bindings_ok ?g (?rm(fp \<mapsto> r)) ?tm" using bindings_update [OF bind r0(1) r(1)] r by simp
    moreover have "?tm(td \<mapsto> fp) = ?tm" using r0(3) by auto
    moreover have "fp \<in> fst ` set (routes b)" using r0(1) by (metis domI dom_map_of_conv_image_fst)
    ultimately show ?thesis using b by (simp add: broker_ok_def length_update_old)
  next
    assume n: "?rm fp = None" "?tm td = None"
    then have "bindings_ok ?g (?rm(fp \<mapsto> r)) (?tm(td \<mapsto> fp))"
      using bindings_add [OF bind n(1) _ r(1)] r(2) by simp
    moreover have "fp \<notin> fst ` set (routes b)" using n(1) by (simp add: map_of_eq_None_iff)
    ultimately show ?thesis using v(2) n(1)
      by (simp add: validate_capacity_def length_update_new split: if_splits)
  qed
  then show ?thesis using b by (simp add: broker_ok_def AList.update_conv' AList.distinct_update)
qed

definition entry_at :: "broker \<Rightarrow> fingerprint \<Rightarrow> token_digest \<Rightarrow> route_entry" where
  "entry_at b fp td = (case map_of (routes b) fp of
       Some r \<Rightarrow> r | None \<Rightarrow> route_entry_new td (global_pass_through b))"

lemma register_mcp_eq:
  assumes "b1 = evict_inactive_routes_at_capacity (reg_fingerprint reg) b"
    and "r = entry_at b1 (reg_fingerprint reg) (reg_token_digest reg)"
  shows "register_mcp h reg launch b =
    (case validate_binding b1 (reg_fingerprint reg) (reg_token_digest reg) of
       Inl e \<Rightarrow> (Inl e, b1)
     | Inr _ \<Rightarrow> (case validate_capacity b1 (reg_fingerprint reg) of
         Inl e \<Rightarrow> (Inl e, b1)
       | Inr _ \<Rightarrow>
           if map_of (refs r) (reg_session_id reg) = None \<and>
              length (refs r) \<ge> MAX_MCP_REFERENCES_PER_ROUTE
           then (Inl McpReferenceCapacityReached,
             b1\<lparr>tokens := AList.update (reg_token_digest reg) (reg_fingerprint reg) (tokens b1),
                routes := AList.update (reg_fingerprint reg) r (routes b1)\<rparr>)
           else (let (d, r') = directive_for h (reg_session_id reg) launch (retry_after_ms b1)
                   (r\<lparr>refs := bt_insert (reg_session_id reg) (reg_lease_expires_at reg) (refs r)\<rparr>)
                 in (Inr d,
             b1\<lparr>tokens := AList.update (reg_token_digest reg) (reg_fingerprint reg) (tokens b1),
                routes := AList.update (reg_fingerprint reg) r' (routes b1)\<rparr>))))"
  unfolding register_mcp_def Let_def assms entry_at_def
  by (simp del: evict_settings split: sum.split prod.split)

text \<open>The three ways a registration can end, each with the registry it leaves.\<close>

lemma register_cases:
  assumes reg: "register_mcp h reg launch b = (res, b')"
    and b1: "b1 = evict_inactive_routes_at_capacity (reg_fingerprint reg) b"
    and r: "r = entry_at b1 (reg_fingerprint reg) (reg_token_digest reg)"
  obtains (rejected) e where "res = Inl e" "b' = b1"
  | (full) "res = Inl McpReferenceCapacityReached"
      "validate_binding b1 (reg_fingerprint reg) (reg_token_digest reg) = Inr ()"
      "validate_capacity b1 (reg_fingerprint reg) = Inr ()"
      "b' = b1\<lparr>tokens := AList.update (reg_token_digest reg) (reg_fingerprint reg) (tokens b1),
               routes := AList.update (reg_fingerprint reg) r (routes b1)\<rparr>"
  | (accepted) d r' where
      "validate_binding b1 (reg_fingerprint reg) (reg_token_digest reg) = Inr ()"
      "validate_capacity b1 (reg_fingerprint reg) = Inr ()"
      "map_of (refs r) (reg_session_id reg) \<noteq> None \<or> length (refs r) < MAX_MCP_REFERENCES_PER_ROUTE"
      "directive_for h (reg_session_id reg) launch (retry_after_ms b)
         (r\<lparr>refs := bt_insert (reg_session_id reg) (reg_lease_expires_at reg) (refs r)\<rparr>) = (d, r')"
      "res = Inr d"
      "b' = b1\<lparr>tokens := AList.update (reg_token_digest reg) (reg_fingerprint reg) (tokens b1),
               routes := AList.update (reg_fingerprint reg) r' (routes b1)\<rparr>"
proof (cases "validate_binding b1 (reg_fingerprint reg) (reg_token_digest reg)")
  case (Inl e)
  then show thesis using reg rejected [of e] by (simp add: register_mcp_eq [OF b1 r])
next
  case v1: (Inr u)
  show thesis
  proof (cases "validate_capacity b1 (reg_fingerprint reg)")
    case (Inl e)
    then show thesis using reg v1 rejected [of e] by (simp add: register_mcp_eq [OF b1 r])
  next
    case v2: (Inr u')
    obtain d r' where d: "directive_for h (reg_session_id reg) launch (retry_after_ms b)
        (r\<lparr>refs := bt_insert (reg_session_id reg) (reg_lease_expires_at reg) (refs r)\<rparr>) = (d, r')"
      by force
    have retry: "retry_after_ms b1 = retry_after_ms b" by (simp add: b1)
    show thesis
    proof (cases "map_of (refs r) (reg_session_id reg) = None \<and>
        length (refs r) \<ge> MAX_MCP_REFERENCES_PER_ROUTE")
      case True
      then show thesis using reg v1 v2 full by (simp add: register_mcp_eq [OF b1 r])
    next
      case False
      then show thesis using reg v1 v2 d retry accepted [OF _ _ _ d]
        by (auto simp: register_mcp_eq [OF b1 r] not_le)
    qed
  qed
qed

lemma entry_at_ok:
  assumes "broker_ok b" "validate_binding b fp td = Inr ()"
  shows "route_ok (global_pass_through b) (entry_at b fp td)" "re_token_digest (entry_at b fp td) = td"
  using validated_binding [OF assms] route_ok_new
  by (auto simp: entry_at_def route_entry_new_def)

lemma register_mcp_ok:
  assumes "broker_ok b" "register_mcp h reg launch b = (res, b')"
  shows "broker_ok b'"
proof -
  define b1 where "b1 = evict_inactive_routes_at_capacity (reg_fingerprint reg) b"
  define r where "r = entry_at b1 (reg_fingerprint reg) (reg_token_digest reg)"
  have b1: "broker_ok b1" using evict_ok [OF assms(1)] by (simp add: b1_def)
  show ?thesis using assms(2) b1_def r_def
  proof (cases rule: register_cases)
    case (rejected e)
    then show ?thesis using b1 by simp
  next
    case full
    then show ?thesis using store_route_ok [OF b1 full(2,3)] entry_at_ok [OF b1 full(2)] r_def by simp
  next
    case (accepted d r')
    let ?r = "r\<lparr>refs := bt_insert (reg_session_id reg) (reg_lease_expires_at reg) (refs r)\<rparr>"
    have r: "route_ok (global_pass_through b1) r" "re_token_digest r = reg_token_digest reg"
      using entry_at_ok [OF b1 accepted(1)] r_def by auto
    have "route_ok (global_pass_through b1) ?r"
      using route_ok_refs_insert [OF r(1)] accepted(3) by blast
    moreover have "reg_session_id reg \<in> sessions ?r" by (simp add: map_of_bt_insert)
    ultimately have "route_ok (global_pass_through b1) r' \<and> re_token_digest r' = reg_token_digest reg"
      using directive_for_ok [OF _ _ accepted(4)] r(2) by simp
    then show ?thesis using store_route_ok [OF b1 accepted(1,2)] accepted(6) by simp
  qed
qed

abbreviation expire_route :: "unix_ms \<Rightarrow> route_entry \<Rightarrow> route_entry" where
  "expire_route now r \<equiv> (case activation_expired now r of
     None \<Rightarrow> r | Some _ \<Rightarrow> r\<lparr>re_state := fallback_state r\<rparr>)"

lemma expire_route_ok: "route_ok gpt r \<Longrightarrow> route_ok gpt (expire_route now r)"
  by (auto simp: activation_expired_def route_ok_def state_ok_def
      split: route_state.splits option.splits if_splits)

lemma expire_route_token: "re_token_digest (expire_route now r) = re_token_digest r"
  by (simp split: option.split)

lemma map_of_map_snd: "map_of (map (\<lambda>(k, v). (k, f v)) xs) k = map_option f (map_of xs k)"
  by (induction xs) auto

lemma routes_expire:
  "map_of (routes (snd (expire_activations now b))) fp =
     map_option (expire_route now) (map_of (routes b) fp)"
  by (simp add: expire_activations_def map_of_map_snd)

lemma expire_settings [simp]:
  "global_pass_through (snd (expire_activations now b)) = global_pass_through b"
  "route_capacity (snd (expire_activations now b)) = route_capacity b"
  "tokens (snd (expire_activations now b)) = tokens b"
  by (simp_all add: expire_activations_def)

lemma expire_ok: "broker_ok b \<Longrightarrow> broker_ok (snd (expire_activations now b))"
proof -
  assume b: "broker_ok b"
  have keys: "map fst (routes (snd (expire_activations now b))) = map fst (routes b)"
    by (simp add: expire_activations_def case_prod_beta' cong: map_cong)
  have "length (routes (snd (expire_activations now b))) = length (routes b)"
    by (simp add: expire_activations_def)
  moreover have "bindings_ok (global_pass_through b)
      (\<lambda>fp. map_option (expire_route now) (map_of (routes b) fp)) (map_of (tokens b))"
    by (rule bindings_map [OF _ expire_route_ok expire_route_token])
      (use b in \<open>simp_all add: broker_ok_def\<close>)
  moreover have "map_of (routes (snd (expire_activations now b))) =
      (\<lambda>fp. map_option (expire_route now) (map_of (routes b) fp))"
    by (rule ext) (rule routes_expire)
  ultimately show ?thesis using b keys by (simp add: broker_ok_def)
qed

end
