(* ===== verification/Broker_System.thy ===== *)
theory Broker_System
  imports Broker_Invariant "HOL-Library.Multiset"
begin

text \<open>
  The daemon as a transition system over the broker registry, the heap of worker targets and the
  requests in flight. Each public operation of the registry is a step; so is the end of a request,
  a change of a worker's control channel, the creation of a target, and a step that lists the
  hash tables in another order, since Rust does not fix it. Operations of different connections
  interleave freely: any step may follow any other.
\<close>

record system =
  sys_broker :: broker
  sys_heap :: heap
  sys_live :: "worker_request list"

inductive broker_step :: "system \<Rightarrow> system \<Rightarrow> bool" where
  register: "register_mcp (sys_heap s) reg launch (sys_broker s) = (res, b') \<Longrightarrow>
     broker_step s (s\<lparr>sys_broker := b'\<rparr>)"
| renew: "renew_mcp fp session expiry (sys_broker s) = (res1, b') \<Longrightarrow>
     broker_step s (s\<lparr>sys_broker := b'\<rparr>)"
| poll: "current_directive (sys_heap s) fp session (sys_broker s) = (res, b') \<Longrightarrow>
     broker_step s (s\<lparr>sys_broker := b'\<rparr>)"
| release: "release_mcp fp session deadline (sys_broker s) = (res2, b') \<Longrightarrow>
     broker_step s (s\<lparr>sys_broker := b'\<rparr>)"
| ready: "mark_worker_ready fp activation target (sys_broker s) = (res1, b') \<Longrightarrow>
     broker_step s (s\<lparr>sys_broker := b'\<rparr>)"
| launch_failed: "mark_activation_failed fp activation (sys_broker s) = (res1, b') \<Longrightarrow>
     broker_step s (s\<lparr>sys_broker := b'\<rparr>)"
| expire: "expire_activations now (sys_broker s) = (es, b') \<Longrightarrow>
     broker_step s (s\<lparr>sys_broker := b'\<rparr>)"
| comm_fail: "mark_worker_communication_failed fp wid (sys_broker s) = (res3, b') \<Longrightarrow>
     broker_step s (s\<lparr>sys_broker := b'\<rparr>)"
| force_pass: "mark_route_pass_through fp (sys_broker s) = (res3, b') \<Longrightarrow>
     broker_step s (s\<lparr>sys_broker := b'\<rparr>)"
| fail: "worker_failed fp wid deadline (sys_broker s) = (res4, b') \<Longrightarrow>
     broker_step s (s\<lparr>sys_broker := b'\<rparr>)"
| relaunch: "begin_relaunch fp session launch (sys_broker s) = (res, b') \<Longrightarrow>
     broker_step s (s\<lparr>sys_broker := b'\<rparr>)"
| drained: "finish_draining (sys_heap s) fp now (sys_broker s) = (res5, b') \<Longrightarrow>
     broker_step s (s\<lparr>sys_broker := b'\<rparr>)"
| recover: "publish_recovered_worker fp permit target (sys_broker s) = (res3, b') \<Longrightarrow>
     broker_step s (s\<lparr>sys_broker := b'\<rparr>)"
| accept: "resolve_target td (sys_broker s) (sys_heap s) = (Inr (Worker q), h') \<Longrightarrow>
     broker_step s (s\<lparr>sys_heap := h', sys_live := q # sys_live s\<rparr>)"
| finish: "q \<in> set (sys_live s) \<Longrightarrow>
     broker_step s (s\<lparr>sys_heap := drop_request q (sys_heap s), sys_live := remove1 q (sys_live s)\<rparr>)"
| control: "broker_step s (s\<lparr>sys_heap := set_control_available avail target (sys_heap s)\<rparr>)"
| new_target: "live_on ref (sys_live s) = 0 \<Longrightarrow>
     with_shared_client wid ep token ref (sys_heap s) = (res6, h') \<Longrightarrow>
     broker_step s (s\<lparr>sys_heap := h'\<rparr>)"
| rehash: "mset rs = mset (routes (sys_broker s)) \<Longrightarrow> mset ts = mset (tokens (sys_broker s)) \<Longrightarrow>
     broker_step s (s\<lparr>sys_broker := (sys_broker s)\<lparr>routes := rs, tokens := ts\<rparr>\<rparr>)"

definition idle_heap :: heap where
  "idle_heap = (\<lambda>_. \<lparr>in_flight_cell = 0, control_cell = True\<rparr>)"

inductive reachable :: "bool \<Rightarrow> system \<Rightarrow> bool" for gpt where
  start: "reachable gpt \<lparr>sys_broker = broker_new gpt, sys_heap = idle_heap, sys_live = []\<rparr>"
| step: "reachable gpt s \<Longrightarrow> broker_step s t \<Longrightarrow> reachable gpt t"

definition system_ok :: "bool \<Rightarrow> system \<Rightarrow> bool" where
  "system_ok gpt s \<longleftrightarrow> broker_ok (sys_broker s) \<and> counters_ok (sys_heap s) (sys_live s) \<and>
     global_pass_through (sys_broker s) = gpt \<and> route_capacity (sys_broker s) = 4096"

section \<open>Every step keeps the invariant\<close>

lemmas with_route_ops =
  renew_mcp_def current_directive_def release_mcp_def mark_worker_ready_def
  mark_activation_failed_def mark_worker_communication_failed_def mark_route_pass_through_def
  worker_failed_def begin_relaunch_def finish_draining_def publish_recovered_worker_def

lemmas with_route_oks =
  renew.with_route_ok cur_dir.with_route_ok release.with_route_ok mark_ready.with_route_ok
  act_failed.with_route_ok comm_failed.with_route_ok pass_thru.with_route_ok
  wk_failed.with_route_ok relaunch.with_route_ok fin_drain.with_route_ok publish.with_route_ok

lemmas with_route_frames =
  renew.with_route_frame cur_dir.with_route_frame release.with_route_frame
  mark_ready.with_route_frame act_failed.with_route_frame comm_failed.with_route_frame
  pass_thru.with_route_frame wk_failed.with_route_frame relaunch.with_route_frame
  fin_drain.with_route_frame publish.with_route_frame

lemma map_of_reorder:
  assumes "mset xs = mset ys" "distinct (map fst ys)"
  shows "map_of xs = map_of ys \<and> distinct (map fst xs)"
proof -
  have d: "distinct (map fst xs)"
    using assms by (metis mset_eq_imp_distinct_iff mset_map)
  moreover have "set xs = set ys" by (rule mset_eq_setD [OF assms(1)])
  ultimately show ?thesis using assms(2) by (simp add: map_of_inject_set)
qed

lemma broker_ok_rehash:
  assumes "broker_ok b" "mset rs = mset (routes b)" "mset ts = mset (tokens b)"
  shows "broker_ok (b\<lparr>routes := rs, tokens := ts\<rparr>)"
  using assms map_of_reorder [OF assms(2)] map_of_reorder [OF assms(3)] mset_eq_length [OF assms(2)]
  by (simp add: broker_ok_def)

lemma register_settings:
  assumes "register_mcp h reg launch b = (res, b')"
  shows "global_pass_through b' = global_pass_through b \<and> route_capacity b' = route_capacity b"
  using assms refl refl by (cases rule: register_cases) auto

lemma system_ok_start: "system_ok gpt \<lparr>sys_broker = broker_new gpt, sys_heap = idle_heap, sys_live = []\<rparr>"
  by (simp add: system_ok_def broker_ok_def broker_new_def bindings_ok_def counters_ok_def
      idle_heap_def live_on_def)

lemma resolve_worker:
  assumes "resolve_target td b h = (Inr (Worker q), h')"
  shows "\<exists>r target. map_of (tokens b) td = Some (wr_fingerprint q) \<and>
     map_of (routes b) (wr_fingerprint q) = Some r \<and> re_state r = Ready target \<and>
     acquire target (wr_fingerprint q) h = (q, h')"
  using assms
  by (auto simp: resolve_target_def acquire_def split: option.splits route_state.splits if_splits)

lemma broker_step_ok:
  assumes "broker_step s t" "system_ok gpt s"
  shows "system_ok gpt t"
  using assms
proof (induction rule: broker_step.induct)
  case (register s reg launch res b')
  then show ?case using register_mcp_ok [OF _ register(1)] register_settings [OF register(1)]
    by (simp add: system_ok_def)
next
  case (expire now s es b')
  then show ?case using expire_ok [of "sys_broker s" now] expire_settings [of now "sys_broker s"]
    by (simp add: system_ok_def)
next
  case (accept td s q h')
  then show ?case using resolve_worker [OF accept(1)] counters_acquire by (auto simp: system_ok_def)
next
  case (finish q s)
  then show ?case using counters_drop by (simp add: system_ok_def)
next
  case (control s avail target)
  then show ?case using counters_set_control by (simp add: system_ok_def)
next
  case (new_target ref s wid ep token res6 h')
  then show ?case using counters_new_target [OF _ new_target(1,2)] by (simp add: system_ok_def)
next
  case (rehash rs s ts)
  then show ?case using broker_ok_rehash by (simp add: system_ok_def)
qed (auto simp: with_route_ops system_ok_def dest: with_route_oks with_route_frames)

lemma reachable_ok: "reachable gpt s \<Longrightarrow> system_ok gpt s"
  by (induction rule: reachable.induct) (auto intro: system_ok_start broker_step_ok)

end
