(* ===== verification/Broker_Properties.thy ===== *)
theory Broker_Properties
  imports Broker_System
begin

text \<open>
  What the broker promises to the sessions and workers that use it, over the reachable states of
  the daemon: bindings and capacities, isolation of tokens, single-flight launches, fencing of
  stale generations, safe drains, expiry of launches and the hand-over of ownership.
\<close>

section \<open>Facts on lookups after an operation\<close>

lemma with_route_lookup:
  "map_of (routes (snd (with_route fp f b))) fp = map_option (\<lambda>r. snd (f r)) (map_of (routes b) fp)"
  by (simp add: with_route_def AList.update_conv' split: option.split prod.split)

lemma with_route_result:
  "with_route fp f b = (res, b') \<Longrightarrow>
     (case map_of (routes b) fp of
        None \<Rightarrow> res = Inl UnknownRoute \<and> b' = b
      | Some r \<Rightarrow> res = fst (f r) \<and> map_of (routes b') = (map_of (routes b))(fp \<mapsto> snd (f r)) \<and>
          tokens b' = tokens b \<and> retry_after_ms b' = retry_after_ms b)"
  by (auto simp: with_route_def AList.update_conv' split: option.splits prod.splits)

lemma evict_existing:
  "map_of (routes b) fp = Some r \<Longrightarrow> evict_inactive_routes_at_capacity fp b = b"
  by (simp add: evict_inactive_routes_at_capacity_def)

text \<open>What a successful registration did to its route.\<close>

lemma register_Inr:
  assumes "register_mcp h reg launch b = (Inr d, b')"
  obtains r r' where
    "directive_for h (reg_session_id reg) launch (retry_after_ms b) r = (d, r')"
    "map_of (routes b') (reg_fingerprint reg) = Some r'"
    "map_of (tokens b') (reg_token_digest reg) = Some (reg_fingerprint reg)"
    "reg_session_id reg \<in> sessions r" "retry_after_ms b' = retry_after_ms b"
    "re_state r = (case map_of (routes b) (reg_fingerprint reg) of Some r0 \<Rightarrow> re_state r0
       | None \<Rightarrow> if global_pass_through b then PassThrough True else Empty)"
  using assms refl refl
proof (cases rule: register_cases)
  case (accepted d' r')
  let ?b1 = "evict_inactive_routes_at_capacity (reg_fingerprint reg) b"
  let ?e = "entry_at ?b1 (reg_fingerprint reg) (reg_token_digest reg)"
  let ?r = "?e\<lparr>refs := bt_insert (reg_session_id reg) (reg_lease_expires_at reg) (refs ?e)\<rparr>"
  have none: "map_of (routes ?b1) (reg_fingerprint reg) = None"
    if "map_of (routes b) (reg_fingerprint reg) = None"
    using that by (auto simp: evict_inactive_routes_at_capacity_def AList.delete_conv'
        split: option.split)
  show thesis
  proof (rule that [of ?r r'])
    show "directive_for h (reg_session_id reg) launch (retry_after_ms b) ?r = (d, r')"
      using accepted(4,5) by simp
    show "re_state ?r = (case map_of (routes b) (reg_fingerprint reg) of Some r0 \<Rightarrow> re_state r0
       | None \<Rightarrow> if global_pass_through b then PassThrough True else Empty)"
      using none by (cases "map_of (routes b) (reg_fingerprint reg)")
        (simp_all add: entry_at_def evict_existing route_entry_new_def)
  qed (use accepted(6) in \<open>simp_all add: AList.update_conv' map_of_bt_insert\<close>)
qed simp_all

lemma reachable_route:
  assumes "reachable gpt s" "map_of (routes (sys_broker s)) fp = Some r"
  shows "route_ok gpt r" "map_of (tokens (sys_broker s)) (re_token_digest r) = Some fp"
  using reachable_ok [OF assms(1)] assms(2) by (auto simp: system_ok_def broker_ok_def bindings_ok_def)

lemma reachable_token:
  assumes "reachable gpt s" "map_of (tokens (sys_broker s)) td = Some fp"
  shows "\<exists>r. map_of (routes (sys_broker s)) fp = Some r \<and> re_token_digest r = td"
  using reachable_ok [OF assms(1)] assms(2) by (auto simp: system_ok_def broker_ok_def bindings_ok_def)

section \<open>A concrete run\<close>

text \<open>Two sessions of one machine, the launch plan of the first, and the worker it starts.\<close>

definition demo_launch :: worker_launch where
  "demo_launch = \<lparr>activation_id = ''a1'', activation_token = ''tok'', launch_deadline = 50,
     bind_ip = 0, port = 8080, advertise_address = None\<rparr>"

definition demo_reg :: "mcp_session_id \<Rightarrow> mcp_registration" where
  "demo_reg session = \<lparr>reg_fingerprint = ''fp'', reg_token_digest = ''td'',
     reg_session_id = session, reg_lease_expires_at = 900\<rparr>"

definition demo_target :: worker_target where
  "demo_target = \<lparr>wt_ref = 7, worker_id = ''w1'', endpoint = ''http://h'', session_token = ''st''\<rparr>"

definition demo_state :: "route_state \<Rightarrow> (mcp_session_id \<times> unix_ms) list \<Rightarrow> system" where
  "demo_state st rs = \<lparr>sys_broker = (broker_new False)\<lparr>
       routes := [(''fp'', \<lparr>re_token_digest = ''td'', refs = rs, re_state = st\<rparr>)],
       tokens := [(''td'', ''fp'')]\<rparr>,
     sys_heap = idle_heap, sys_live = []\<rparr>"

lemmas demo_defs = demo_launch_def demo_reg_def demo_target_def demo_state_def broker_new_def

lemma demo_registered: "register_mcp h (demo_reg ''s1'') demo_launch (broker_new False) =
    (Inr (into_directive demo_launch),
     sys_broker (demo_state (Activating ''s1'' demo_launch) [(''s1'', 900)]))"
  by (simp add: register_mcp_def demo_defs evict_inactive_routes_at_capacity_def
      validate_binding_def validate_capacity_def route_entry_new_def directive_for_def
      MAX_MCP_REFERENCES_PER_ROUTE_def Let_def)

lemma demo_activating: "reachable False (demo_state (Activating ''s1'' demo_launch) [(''s1'', 900)])"
  using reachable.step [OF reachable.start broker_step.register, of False "demo_reg ''s1''"
      demo_launch] demo_registered
  by (simp add: demo_state_def)

lemma demo_shared:
  "reachable False (demo_state (Activating ''s1'' demo_launch) [(''s1'', 900), (''s2'', 900)])"
proof (rule reachable.step [OF demo_activating])
  have "register_mcp idle_heap (demo_reg ''s2'') demo_launch
      (sys_broker (demo_state (Activating ''s1'' demo_launch) [(''s1'', 900)])) =
    (Inr (WaitForWorker 100),
     sys_broker (demo_state (Activating ''s1'' demo_launch) [(''s1'', 900), (''s2'', 900)]))"
    by (simp add: register_mcp_def demo_defs evict_inactive_routes_at_capacity_def
        validate_binding_def validate_capacity_def route_entry_new_def directive_for_def
        MAX_MCP_REFERENCES_PER_ROUTE_def Let_def)
  then show "broker_step (demo_state (Activating ''s1'' demo_launch) [(''s1'', 900)])
      (demo_state (Activating ''s1'' demo_launch) [(''s1'', 900), (''s2'', 900)])"
    using broker_step.register [of "demo_state (Activating ''s1'' demo_launch) [(''s1'', 900)]"]
    by (simp add: demo_state_def)
qed

lemma demo_ready: "reachable False (demo_state (Ready demo_target) [(''s1'', 900)])"
proof (rule reachable.step [OF demo_activating])
  have "mark_worker_ready ''fp'' ''a1'' demo_target
      (sys_broker (demo_state (Activating ''s1'' demo_launch) [(''s1'', 900)])) =
    (Inr (), sys_broker (demo_state (Ready demo_target) [(''s1'', 900)]))"
    by (simp add: mark_worker_ready_def with_route_def mark_ready_route_def demo_defs)
  then show "broker_step (demo_state (Activating ''s1'' demo_launch) [(''s1'', 900)])
      (demo_state (Ready demo_target) [(''s1'', 900)])"
    using broker_step.ready [of "''fp''" "''a1''" demo_target
        "demo_state (Activating ''s1'' demo_launch) [(''s1'', 900)]"]
    by (simp add: demo_state_def)
qed

lemma demo_draining: "reachable False (demo_state (Draining demo_target 60) [])"
proof (rule reachable.step [OF demo_ready])
  have "release_mcp ''fp'' ''s1'' 60 (sys_broker (demo_state (Ready demo_target) [(''s1'', 900)])) =
    (Inr (BeginDrain demo_target 60), sys_broker (demo_state (Draining demo_target 60) []))"
    by (simp add: release_mcp_def with_route_def release_route_def after_reference_removed_def
        demo_defs)
  then show "broker_step (demo_state (Ready demo_target) [(''s1'', 900)])
      (demo_state (Draining demo_target 60) [])"
    using broker_step.release [of "''fp''" "''s1''" 60 "demo_state (Ready demo_target) [(''s1'', 900)]"]
    by (simp add: demo_state_def)
qed

section \<open>Calls of sessions while a launch is under way\<close>

text \<open>
  What a session can ask of the registry, as one type of calls, and a sequence of them; each call
  sees the workers as the heap at that moment has them.
\<close>

datatype session_call =
    CallRegister mcp_registration worker_launch
  | CallRenew fingerprint mcp_session_id unix_ms
  | CallPoll fingerprint mcp_session_id
  | CallRelease fingerprint mcp_session_id unix_ms

fun call_fingerprint :: "session_call \<Rightarrow> fingerprint" where
  "call_fingerprint (CallRegister reg _) = reg_fingerprint reg"
| "call_fingerprint (CallRenew fp _ _) = fp"
| "call_fingerprint (CallPoll fp _) = fp"
| "call_fingerprint (CallRelease fp _ _) = fp"

fun call_session :: "session_call \<Rightarrow> mcp_session_id" where
  "call_session (CallRegister reg _) = reg_session_id reg"
| "call_session (CallRenew _ session _) = session"
| "call_session (CallPoll _ session) = session"
| "call_session (CallRelease _ session _) = session"

fun releases :: "fingerprint \<Rightarrow> mcp_session_id \<Rightarrow> session_call \<Rightarrow> bool" where
  "releases fp session (CallRelease fp' session' _) = (fp' = fp \<and> session' = session)"
| "releases fp session _ = False"

fun answer_call ::
    "heap \<Rightarrow> session_call \<Rightarrow> broker \<Rightarrow> (registry_error + broker_directive option) \<times> broker" where
  "answer_call h (CallRegister reg launch) b = apfst (map_sum id Some) (register_mcp h reg launch b)"
| "answer_call h (CallRenew fp session expiry) b =
     apfst (map_sum id (\<lambda>_. None)) (renew_mcp fp session expiry b)"
| "answer_call h (CallPoll fp session) b = apfst (map_sum id Some) (current_directive h fp session b)"
| "answer_call h (CallRelease fp session deadline) b =
     apfst (map_sum id (\<lambda>_. None)) (release_mcp fp session deadline b)"

fun session_calls ::
    "(heap \<times> session_call) list \<Rightarrow> broker \<Rightarrow>
     (registry_error + broker_directive option) list \<times> broker" where
  "session_calls [] b = ([], b)"
| "session_calls ((h, c) # cs) b =
     (let (a, b1) = answer_call h c b; (answers, b2) = session_calls cs b1 in (a # answers, b2))"

text \<open>The launch under way on a machine, and the one answer it allows to a call.\<close>

definition launching :: "fingerprint \<Rightarrow> mcp_session_id \<Rightarrow> worker_launch \<Rightarrow> broker \<Rightarrow> bool" where
  "launching fp owner l b \<longleftrightarrow>
     (\<exists>r. map_of (routes b) fp = Some r \<and> re_state r = Activating owner l)"

definition single_flight ::
    "fingerprint \<Rightarrow> mcp_session_id \<Rightarrow> worker_launch \<Rightarrow> unix_ms \<Rightarrow> session_call \<Rightarrow>
     registry_error + broker_directive option \<Rightarrow> bool" where
  "single_flight fp owner l retry c a \<longleftrightarrow>
     (\<forall>d. call_fingerprint c = fp \<and> a = Inr (Some d) \<longrightarrow>
        d = (if call_session c = owner then into_directive l else WaitForWorker retry))"

lemma evict_launching:
  assumes "broker_ok b" "map_of (routes b) fp = Some r" "re_state r = Activating owner l"
  shows "map_of (routes (evict_inactive_routes_at_capacity fp' b)) fp = Some r"
proof (cases "List.find (\<lambda>(_, r). route_removable r) (routes b)")
  case None
  then show ?thesis using assms by (simp add: evict_inactive_routes_at_capacity_def)
next
  case (Some p)
  obtain fp0 r0 where p: "p = (fp0, r0)" by force
  then have "(fp0, r0) \<in> set (routes b)" "route_removable r0"
    using Some by (auto simp: find_Some_iff in_set_conv_nth)
  moreover from this have r0: "map_of (routes b) fp0 = Some r0"
    using assms(1) by (simp add: broker_ok_def)
  ultimately have "fp0 \<noteq> fp" using assms(2,3) by (auto simp: route_removable_def)
  then show ?thesis using assms Some p
    by (simp add: evict_inactive_routes_at_capacity_def AList.delete_conv')
qed

lemma register_launching:
  assumes ok: "broker_ok b" and l: "launching fp owner l b"
    and reg: "register_mcp h reg launch b = (res, b')"
  shows "launching fp owner l b' \<and> retry_after_ms b' = retry_after_ms b \<and>
    single_flight fp owner l (retry_after_ms b) (CallRegister reg launch) (map_sum id Some res)"
proof -
  obtain r where r: "map_of (routes b) fp = Some r" "re_state r = Activating owner l"
    using l by (auto simp: launching_def)
  note r1 = evict_launching [OF ok r]
  show ?thesis using reg refl refl
  proof (cases rule: register_cases)
    case (rejected e)
    then show ?thesis using r1 r(2) by (simp add: launching_def single_flight_def)
  next
    case full
    then show ?thesis using r1 r(2)
      by (cases "reg_fingerprint reg = fp")
        (auto simp: launching_def single_flight_def AList.update_conv' entry_at_def)
  next
    case (accepted d r')
    then show ?thesis using r1 r(2)
      by (cases "reg_fingerprint reg = fp") (auto simp: launching_def single_flight_def
          AList.update_conv' entry_at_def directive_for_def split: if_splits)
  qed
qed

lemma with_route_launching:
  assumes "launching fp owner l b" "with_route fp' f b = (res, b')"
    and "\<And>r. fp' = fp \<Longrightarrow> map_of (routes b) fp = Some r \<Longrightarrow> re_state r = Activating owner l \<Longrightarrow>
      re_state (snd (f r)) = Activating owner l"
  shows "launching fp owner l b' \<and> retry_after_ms b' = retry_after_ms b"
  using assms(1,3) with_route_result [OF assms(2)]
  by (cases "fp' = fp") (auto simp: launching_def split: option.splits)

text \<open>
  A release by another session leaves the owner a reference, so the route is not empty and the
  owner does not change.
\<close>

lemma release_launching:
  assumes "route_ok gpt r" "re_state r = Activating owner l" "session \<noteq> owner"
  shows "re_state (snd (release_route session deadline r)) = Activating owner l"
proof -
  have "map_of (AList.delete session (refs r)) owner \<noteq> None"
    using assms by (auto simp: route_ok_def state_ok_def AList.delete_conv')
  then have "AList.delete session (refs r) \<noteq> []" by auto
  then show ?thesis using assms(2,3)
    by (auto simp: release_route_def after_reference_removed_def transfer_owner_if_needed_def
        split: option.splits prod.splits)
qed

lemma session_call_launching:
  assumes ok: "broker_ok b" and l: "launching fp owner l b" and c: "\<not> releases fp owner c"
    and call: "answer_call h c b = (a, b')"
  shows "broker_ok b' \<and> launching fp owner l b' \<and> retry_after_ms b' = retry_after_ms b \<and>
    single_flight fp owner l (retry_after_ms b) c a"
proof (cases c)
  case (CallRegister reg launch)
  then obtain res where "register_mcp h reg launch b = (res, b')" "a = map_sum id Some res"
    using call by (cases "register_mcp h reg launch b") auto
  then show ?thesis using register_launching [OF ok l] register_mcp_ok [OF ok] CallRegister by blast
next
  case (CallRenew fp' session expiry)
  then obtain res where "with_route fp' (renew_route session expiry) b = (res, b')"
      "a = map_sum id (\<lambda>_. None) res"
    using call by (cases "renew_mcp fp' session expiry b") (auto simp: renew_mcp_def)
  then show ?thesis using with_route_launching [OF l] renew.with_route_ok [OF ok] CallRenew
    by (cases res) (fastforce simp: renew_route_def single_flight_def split: option.splits)+
next
  case (CallPoll fp' session)
  then obtain res where res: "with_route fp' (current_directive_route h session (retry_after_ms b)) b =
      (res, b')" "a = map_sum id Some res"
    using call by (cases "current_directive h fp' session b") (auto simp: current_directive_def)
  have "launching fp owner l b' \<and> retry_after_ms b' = retry_after_ms b"
    by (rule with_route_launching [OF l res(1)])
      (simp add: current_directive_route_def route_current_directive_def split: prod.split)
  moreover have "single_flight fp owner l (retry_after_ms b) c a"
    using CallPoll res l with_route_result [OF res(1)]
    by (auto simp: single_flight_def launching_def current_directive_route_def
        route_current_directive_def split: if_splits)
  ultimately show ?thesis using cur_dir.with_route_ok [OF ok res(1)] by blast
next
  case (CallRelease fp' session deadline)
  then obtain res where res: "with_route fp' (release_route session deadline) b = (res, b')"
      "a = map_sum id (\<lambda>_. None) res"
    using call by (cases "release_mcp fp' session deadline b") (auto simp: release_mcp_def)
  have "launching fp owner l b' \<and> retry_after_ms b' = retry_after_ms b"
  proof (rule with_route_launching [OF l res(1)])
    fix r
    assume "fp' = fp" "map_of (routes b) fp = Some r" "re_state r = Activating owner l"
    moreover from this have "route_ok (global_pass_through b) r"
      using ok by (auto simp: broker_ok_def bindings_ok_def)
    ultimately show "re_state (snd (release_route session deadline r)) = Activating owner l"
      using release_launching c CallRelease by auto
  qed
  then show ?thesis using release.with_route_ok [OF ok res(1)] CallRelease res(2)
    by (cases res) (auto simp: single_flight_def)
qed

lemma session_calls_launching:
  assumes "broker_ok b" "launching fp owner l b"
    and "\<forall>(h, c) \<in> set calls. \<not> releases fp owner c"
    and "session_calls calls b = (answers, b2)"
  shows "launching fp owner l b2 \<and> length answers = length calls \<and>
    (\<forall>(c, a) \<in> set (zip (map snd calls) answers). single_flight fp owner l (retry_after_ms b) c a)"
  using assms
proof (induction calls arbitrary: b answers)
  case Nil
  then show ?case by simp
next
  case (Cons hc calls)
  obtain h c where hc: "hc = (h, c)" by force
  obtain a b1 where a: "answer_call h c b = (a, b1)" by force
  obtain as where as: "session_calls calls b1 = (as, b2)" "answers = a # as"
    using Cons.prems(4) hc a by (cases "session_calls calls b1") auto
  have step: "broker_ok b1 \<and> launching fp owner l b1 \<and> retry_after_ms b1 = retry_after_ms b \<and>
      single_flight fp owner l (retry_after_ms b) c a"
    using Cons.prems hc by (intro session_call_launching [OF _ _ _ a]) auto
  then show ?case using Cons.IH [of b1 as] Cons.prems(3) hc as by auto
qed

definition demo_session_calls :: "(heap \<times> session_call) list" where
  "demo_session_calls = [(idle_heap, CallRegister (demo_reg ''s2'') (demo_launch\<lparr>activation_id := ''a2''\<rparr>)),
     (idle_heap, CallPoll ''fp'' ''s2''), (idle_heap, CallPoll ''fp'' ''s1'')]"

lemma demo_session_calls_answered:
  obtains d1 d2 d3 b2 where "session_calls demo_session_calls
      (sys_broker (demo_state (Activating ''s1'' demo_launch) [(''s1'', 900)])) =
     ([Inr (Some d1), Inr (Some d2), Inr (Some d3)], b2)"
  by (rule that) (simp add: register_mcp_def demo_session_calls_def demo_defs
      evict_inactive_routes_at_capacity_def validate_binding_def validate_capacity_def
      directive_for_def MAX_MCP_REFERENCES_PER_ROUTE_def Let_def current_directive_def
      with_route_def current_directive_route_def route_current_directive_def)

section \<open>Properties\<close>

text \<open>
  C1. In every state the daemon can reach, tokens and fingerprints are bound one to one, no key is
  listed twice, and the registry holds at most 4096 routes of at most 1024 references each.
\<close>

theorem reachable_bindings_and_capacity:
  assumes "reachable gpt s"
  shows "distinct (map fst (routes (sys_broker s))) \<and> length (routes (sys_broker s)) \<le> 4096 \<and>
    (\<forall>fp r. map_of (routes (sys_broker s)) fp = Some r \<longrightarrow>
       map_of (tokens (sys_broker s)) (re_token_digest r) = Some fp \<and>
       distinct (map fst (refs r)) \<and> length (refs r) \<le> 1024) \<and>
    (\<forall>td fp. map_of (tokens (sys_broker s)) td = Some fp \<longrightarrow>
       (\<exists>r. map_of (routes (sys_broker s)) fp = Some r \<and> re_token_digest r = td))"
  using reachable_ok [OF assms] by (auto intro: bt_ok_distinct
      simp: system_ok_def broker_ok_def bindings_ok_def route_ok_def
      MAX_MCP_REFERENCES_PER_ROUTE_def)

theorem reachable_bindings_and_capacity_witness:
  "length (routes (sys_broker (demo_state (Ready demo_target) [(''s1'', 900)]))) \<le> 4096 \<and>
   map_of (tokens (sys_broker (demo_state (Ready demo_target) [(''s1'', 900)]))) ''td'' = Some ''fp''"
  using reachable_bindings_and_capacity [OF demo_ready] by (simp add: demo_state_def)

text \<open>
  C2. A request that presents a token is only ever sent to the worker of the machine that token
  is bound to: the route it resolves to is the only route with that token, it is ready with the
  target the request was given, a session still holds a lease on it, and the counter of the
  target goes up by exactly one while every other counter stays as it is.
\<close>

theorem resolve_target_isolated:
  assumes "reachable gpt s" "resolve_target td (sys_broker s) (sys_heap s) = (Inr (Worker q), h')"
  shows "(\<exists>r. map_of (routes (sys_broker s)) (wr_fingerprint q) = Some r \<and> re_token_digest r = td \<and>
        re_state r = Ready (wr_target q) \<and> refs r \<noteq> []) \<and>
    (\<forall>fp r. map_of (routes (sys_broker s)) fp = Some r \<and> re_token_digest r = td \<longrightarrow>
        fp = wr_fingerprint q) \<and>
    in_flight (wr_target q) h' = in_flight (wr_target q) (sys_heap s) + 1 \<and>
    (\<forall>t. wt_ref t \<noteq> wt_ref (wr_target q) \<longrightarrow> in_flight t h' = in_flight t (sys_heap s))"
proof -
  obtain r target where r: "map_of (tokens (sys_broker s)) td = Some (wr_fingerprint q)"
      "map_of (routes (sys_broker s)) (wr_fingerprint q) = Some r" "re_state r = Ready target"
      "acquire target (wr_fingerprint q) (sys_heap s) = (q, h')"
    using resolve_worker [OF assms(2)] by auto
  moreover have "wr_target q = target" using arg_cong [OF r(4), of "\<lambda>p. wr_target (fst p)"] by (simp add: acquire_def)
  ultimately show ?thesis
    using reachable_token [OF assms(1) r(1)] reachable_route [OF assms(1)]
    by (fastforce simp: route_ok_def state_ok_def acquire_def in_flight_def)
qed

theorem resolve_target_isolated_witness:
  "in_flight demo_target (snd (resolve_target ''td''
      (sys_broker (demo_state (Ready demo_target) [(''s1'', 900)])) idle_heap)) = 1"
proof -
  let ?s = "demo_state (Ready demo_target) [(''s1'', 900)]"
  have "resolve_target ''td'' (sys_broker ?s) (sys_heap ?s) =
      (Inr (Worker \<lparr>wr_fingerprint = ''fp'', wr_target = demo_target\<rparr>),
       snd (resolve_target ''td'' (sys_broker ?s) idle_heap))"
    by (simp add: resolve_target_def demo_state_def acquire_def)
  from resolve_target_isolated [OF demo_ready this] show ?thesis
    by (simp add: demo_state_def in_flight_def idle_heap_def)
qed

text \<open>
  C3. Launches are single-flight. Once a registration has told a session to launch a worker, let
  any sessions, of this and of other machines, register, renew, poll and release in any order, whatever
  the counters of requests in flight are meanwhile, before the launch is reported as ready or failed
  or expires, and as long as the launching session does not release its own reference: the launch stays owned by that session with that same launch plan, every successful
  registration or poll of that session for that machine repeats that plan, and every one of another
  session of that machine is told to wait.
\<close>

theorem launch_single_flight:
  assumes "reachable gpt s"
    and "register_mcp (sys_heap s) reg launch (sys_broker s) = (Inr (into_directive l), b')"
    and "\<forall>(h, c) \<in> set calls. \<not> releases (reg_fingerprint reg) (reg_session_id reg) c"
    and "session_calls calls b' = (answers, b2)"
  shows "(\<exists>r. map_of (routes b2) (reg_fingerprint reg) = Some r \<and>
        re_state r = Activating (reg_session_id reg) l) \<and>
    length answers = length calls \<and>
    (\<forall>(c, a) \<in> set (zip (map snd calls) answers). \<forall>d.
        call_fingerprint c = reg_fingerprint reg \<and> a = Inr (Some d) \<longrightarrow>
        d = (if call_session c = reg_session_id reg then into_directive l
             else WaitForWorker (retry_after_ms b')))"
proof -
  obtain r r' where r: "directive_for (sys_heap s) (reg_session_id reg) launch
        (retry_after_ms (sys_broker s)) r = (into_directive l, r')"
      "map_of (routes b') (reg_fingerprint reg) = Some r'"
    using assms(2) by (rule register_Inr) blast
  have "launching (reg_fingerprint reg) (reg_session_id reg) l b'"
    using r by (auto simp: launching_def directive_for_def dest: into_directive_inj
        split: route_state.splits option.splits if_splits)
  moreover have "broker_ok b'"
    using reachable_ok [OF assms(1)] register_mcp_ok [OF _ assms(2)] by (simp add: system_ok_def)
  ultimately show ?thesis using session_calls_launching [OF _ _ assms(3,4)]
    unfolding launching_def single_flight_def by simp
qed

theorem launch_single_flight_witness:
  "fst (session_calls demo_session_calls
      (sys_broker (demo_state (Activating ''s1'' demo_launch) [(''s1'', 900)]))) =
    [Inr (Some (WaitForWorker 100)), Inr (Some (WaitForWorker 100)),
     Inr (Some (into_directive demo_launch))]"
proof -
  let ?b = "sys_broker (demo_state (Activating ''s1'' demo_launch) [(''s1'', 900)])"
  obtain d1 d2 d3 b2 where a:
      "session_calls demo_session_calls ?b = ([Inr (Some d1), Inr (Some d2), Inr (Some d3)], b2)"
    by (rule demo_session_calls_answered)
  have reg: "register_mcp (sys_heap \<lparr>sys_broker = broker_new False, sys_heap = idle_heap, sys_live = []\<rparr>)
      (demo_reg ''s1'') demo_launch
      (sys_broker \<lparr>sys_broker = broker_new False, sys_heap = idle_heap, sys_live = []\<rparr>) =
      (Inr (into_directive demo_launch), ?b)"
    using demo_registered by simp
  have "\<forall>(h, c) \<in> set demo_session_calls. \<not> releases (reg_fingerprint (demo_reg ''s1''))
      (reg_session_id (demo_reg ''s1'')) c"
    by (simp add: demo_session_calls_def)
  from launch_single_flight [OF reachable.start reg this a]
  have "d1 = WaitForWorker 100 \<and> d2 = WaitForWorker 100 \<and> d3 = into_directive demo_launch"
    by (simp add: demo_session_calls_def demo_reg_def demo_state_def broker_new_def)
  then show ?thesis by (simp only: a fst_conv)
qed

text \<open>
  C4. Publishing a recovered worker is fenced by its permit: it succeeds exactly when the
  registry would still grant that same permit, and then the route is ready with the new target;
  otherwise no route changes.
\<close>

theorem publish_recovered_fenced:
  assumes "publish_recovered_worker fp permit target b = (res, b')"
  shows "((\<exists>a. res = Inr a) \<longleftrightarrow> (\<exists>wid. authorize_worker_recovery fp wid b = Inr permit)) \<and>
    (\<forall>a. res = Inr a \<longrightarrow> (\<exists>r. map_of (routes b) fp = Some r \<and>
       map_of (routes b') = (map_of (routes b))(fp \<mapsto> r\<lparr>re_state := Ready target\<rparr>))) \<and>
    (\<forall>e. res = Inl e \<longrightarrow> map_of (routes b') = map_of (routes b))"
proof (cases "map_of (routes b) fp")
  case None
  then show ?thesis
    using assms by (auto simp: publish_recovered_worker_def with_route_def authorize_worker_recovery_def)
next
  case (Some r)
  have iff: "(refs r \<noteq> [] \<and> permit_valid (re_state r) permit) \<longleftrightarrow>
      (\<exists>wid. authorize_route wid r = Inr permit)"
    by (cases permit)
      (auto simp: authorize_route_def permit_valid_def split: route_state.splits option.splits)
  have "(\<exists>wid. authorize_worker_recovery fp wid b = Inr permit) \<longleftrightarrow>
      refs r \<noteq> [] \<and> permit_valid (re_state r) permit"
    using Some iff by (simp add: authorize_worker_recovery_def)
  then show ?thesis
    using with_route_result [OF assms [unfolded publish_recovered_worker_def]] Some
    by (auto simp: publish_recovered_route_def fun_upd_idem)
qed

theorem publish_recovered_fenced_witness:
  "\<exists>a. fst (publish_recovered_worker ''fp'' (PermitExistingWorker ''w1'' False)
      (demo_target\<lparr>wt_ref := 8\<rparr>) (sys_broker (demo_state (Ready demo_target) [(''s1'', 900)]))) = Inr a"
  using publish_recovered_fenced [of "''fp''" "PermitExistingWorker ''w1'' False"
      "demo_target\<lparr>wt_ref := 8\<rparr>" "sys_broker (demo_state (Ready demo_target) [(''s1'', 900)])",
      OF surjective_pairing]
  by (auto simp: authorize_worker_recovery_def authorize_route_def demo_state_def demo_target_def)

text \<open>
  C5. Draining is safe: a drain only ends when no accepted request is still using the worker or
  its deadline has passed. The route is then empty, and the caller is told to activate a new
  worker for the first session that is waiting, or that nobody waits.
\<close>

theorem drain_safe:
  assumes "reachable gpt s" "length (sys_live s) < 2 ^ 64"
    and "finish_draining (sys_heap s) fp now (sys_broker s) = (Inr c, b')"
  shows "\<exists>r target deadline. map_of (routes (sys_broker s)) fp = Some r \<and>
     re_state r = Draining target deadline \<and>
     (deadline \<le> now \<or> \<not> (\<exists>q \<in> set (sys_live s). wt_ref (wr_target q) = wt_ref target)) \<and>
     map_of (routes b') fp = Some (r\<lparr>re_state := Empty\<rparr>) \<and>
     c = (case refs r of [] \<Rightarrow> DrainRouteEmpty | p # _ \<Rightarrow> ActivationRequired (fst p))"
proof -
  obtain r where r: "map_of (routes (sys_broker s)) fp = Some r"
      "finish_draining_route (sys_heap s) now r = (Inr c, snd (finish_draining_route (sys_heap s) now r))"
      "map_of (routes b') fp = Some (snd (finish_draining_route (sys_heap s) now r))"
    using with_route_result [OF assms(3) [unfolded finish_draining_def]]
    by (auto split: option.splits simp: prod_eq_iff)
  have "counters_ok (sys_heap s) (sys_live s)"
    using reachable_ok [OF assms(1)] by (simp add: system_ok_def)
  then show ?thesis
    using r in_flight_zero [OF _ assms(2)]
    by (auto simp: finish_draining_route_def first_key_def split: route_state.splits if_splits list.splits)
qed

theorem drain_safe_witness:
  "fst (finish_draining idle_heap ''fp'' 10
      (sys_broker (demo_state (Draining demo_target 60) []))) = Inr DrainRouteEmpty"
proof -
  let ?s = "demo_state (Draining demo_target 60) []"
  have fin: "finish_draining (sys_heap ?s) ''fp'' 10 (sys_broker ?s) =
      (Inr DrainRouteEmpty, sys_broker (demo_state Empty []))"
    by (simp add: finish_draining_def with_route_def finish_draining_route_def first_key_def
        demo_state_def in_flight_def idle_heap_def)
  have "length (sys_live ?s) < 2 ^ 64" by (simp add: demo_state_def)
  from drain_safe [OF demo_draining this fin] fin show ?thesis by (simp add: demo_state_def)
qed

text \<open>
  A broker started with global pass-through never runs a worker: every route stays in
  permanent pass-through, every session that registers or polls is told to pass through, and no
  token ever resolves to a worker.
\<close>

lemma global_pass_through_permanent:
  assumes "reachable True s"
  shows "(\<forall>fp r. map_of (routes (sys_broker s)) fp = Some r \<longrightarrow> re_state r = PassThrough True) \<and>
    (\<forall>reg launch d b'. register_mcp (sys_heap s) reg launch (sys_broker s) = (Inr d, b') \<longrightarrow>
       d = UsePassThrough) \<and>
    (\<forall>fp session d b'. current_directive (sys_heap s) fp session (sys_broker s) = (Inr d, b') \<longrightarrow>
       d = UsePassThrough) \<and>
    (\<forall>td q h'. resolve_target td (sys_broker s) (sys_heap s) \<noteq> (Inr (Worker q), h'))"
proof -
  have st: "re_state r = PassThrough True" if "map_of (routes (sys_broker s)) fp = Some r" for fp r
    using reachable_route [OF assms that] by (simp add: route_ok_def state_ok_def)
  have gpt: "global_pass_through (sys_broker s)"
    using reachable_ok [OF assms] by (simp add: system_ok_def)
  have "d = UsePassThrough"
    if registered: "register_mcp (sys_heap s) reg launch (sys_broker s) = (Inr d, b')"
    for reg launch d b'
  proof -
    obtain r r' where r: "directive_for (sys_heap s) (reg_session_id reg) launch
        (retry_after_ms (sys_broker s)) r = (d, r')"
      "re_state r = (case map_of (routes (sys_broker s)) (reg_fingerprint reg) of
         Some r0 \<Rightarrow> re_state r0
       | None \<Rightarrow> if global_pass_through (sys_broker s) then PassThrough True else Empty)"
      using registered by (rule register_Inr)
    then have "re_state r = PassThrough True"
      using gpt by (cases "map_of (routes (sys_broker s)) (reg_fingerprint reg)") (auto dest: st)
    then show ?thesis using r(1) by (simp add: directive_for_def)
  qed
  then show ?thesis
    using st resolve_worker
    by (fastforce simp: current_directive_def with_route_def current_directive_route_def
        route_current_directive_def split: option.splits if_splits)
qed

text \<open>
  C7. Messages about another generation do not touch a published worker: while a route is ready
  with some target, a failure report of another worker, the outcome of any activation and a
  recovery permit for another generation are all refused, and no route changes.
\<close>

theorem ready_generation_fenced:
  assumes "map_of (routes b) fp = Some r" "re_state r = Ready target" "refs r \<noteq> []"
    and "wid \<noteq> worker_id target"
  shows "(\<exists>b'. worker_failed fp wid deadline b = (Inl WorkerMismatch, b') \<and>
           map_of (routes b') = map_of (routes b)) \<and>
         (\<exists>b'. mark_worker_communication_failed fp wid b = (Inl WorkerMismatch, b') \<and>
           map_of (routes b') = map_of (routes b)) \<and>
         (\<exists>b'. mark_worker_ready fp activation target' b = (Inl (InvalidState KActivating KReady), b') \<and>
           map_of (routes b') = map_of (routes b)) \<and>
         (\<exists>b'. mark_activation_failed fp activation b = (Inl (InvalidState KActivating KReady), b') \<and>
           map_of (routes b') = map_of (routes b)) \<and>
         (\<exists>b'. publish_recovered_worker fp (PermitActivating activation) target' b =
             (Inl RecoveryGenerationChanged, b') \<and> map_of (routes b') = map_of (routes b)) \<and>
         (\<exists>b'. publish_recovered_worker fp (PermitExistingWorker wid rec) target' b =
             (Inl RecoveryGenerationChanged, b') \<and> map_of (routes b') = map_of (routes b))"
proof -
  have same: "r\<lparr>re_state := Ready target\<rparr> = r" using assms(2) by simp
  show ?thesis
    using assms same
    by (auto simp: with_route_ops with_route_def worker_failed_route_def
        communication_failed_route_def mark_ready_route_def activation_failed_route_def
        publish_recovered_route_def permit_valid_def Let_def AList.update_conv' fun_upd_idem)
qed

theorem ready_generation_fenced_witness:
  "fst (worker_failed ''fp'' ''w0'' 99
     (sys_broker (demo_state (Ready demo_target) [(''s1'', 900)]))) = Inl WorkerMismatch"
proof -
  let ?b = "sys_broker (demo_state (Ready demo_target) [(''s1'', 900)])"
  let ?r = "\<lparr>re_token_digest = ''td'', refs = [(''s1'', 900)], re_state = Ready demo_target\<rparr>"
  have "map_of (routes ?b) ''fp'' = Some ?r" by (simp add: demo_state_def)
  then obtain b' where "worker_failed ''fp'' ''w0'' 99 ?b = (Inl WorkerMismatch, b')"
    using ready_generation_fenced [of ?b "''fp''" ?r demo_target "''w0''"]
    by (simp add: demo_target_def) blast
  then show ?thesis by simp
qed

text \<open>
  Expiry takes exactly the overdue launches: the report lists those and no others, each of
  their routes falls back to pass-through for the sessions that hold it, every other route is
  unchanged, and no overdue launch is left.
\<close>

lemma expire_activations_exact:
  assumes "reachable gpt s" "expire_activations now (sys_broker s) = (es, b')"
  shows "set es = {\<lparr>ea_fingerprint = fp, ea_activation_id = activation_id l\<rparr> | fp r owner l.
       map_of (routes (sys_broker s)) fp = Some r \<and> re_state r = Activating owner l \<and>
       launch_deadline l \<le> now} \<and>
    (\<forall>fp r. map_of (routes (sys_broker s)) fp = Some r \<longrightarrow>
       map_of (routes b') fp = Some (if (\<exists>e \<in> set es. ea_fingerprint e = fp)
         then r\<lparr>re_state := PassThrough False\<rparr> else r)) \<and>
    (\<forall>fp r owner l. map_of (routes b') fp = Some r \<and> re_state r = Activating owner l \<longrightarrow>
       now < launch_deadline l)"
proof -
  let ?b = "sys_broker s"
  have b': "b' = snd (expire_activations now ?b)" and es: "es = fst (expire_activations now ?b)"
    using assms(2) by simp_all
  have d: "distinct (map fst (routes ?b))"
    using reachable_ok [OF assms(1)] by (simp add: system_ok_def broker_ok_def)
  have mem: "e \<in> set es \<longleftrightarrow> (\<exists>fp r a. map_of (routes ?b) fp = Some r \<and>
      activation_expired now r = Some a \<and> e = \<lparr>ea_fingerprint = fp, ea_activation_id = a\<rparr>)" for e
    using d by (force simp: es expire_activations_def List.map_filter_def)
  have exp: "activation_expired now r = Some a \<longleftrightarrow> (\<exists>owner l. re_state r = Activating owner l \<and>
      launch_deadline l \<le> now \<and> a = activation_id l)" for r a
    by (auto simp: activation_expired_def split: route_state.split)
  have exp_state: "now < launch_deadline l" if "re_state (expire_route now r) = Activating owner l"
    for r owner l
  proof (cases "activation_expired now r")
    case None
    then show ?thesis using that by (simp add: activation_expired_def split: if_splits)
  qed (use that in \<open>simp split: if_splits\<close>)
  have refs: "refs r \<noteq> []" if "map_of (routes ?b) fp = Some r" "activation_expired now r = Some a" for fp r a
    using reachable_route(1) [OF assms(1) that(1)] that(2) by (auto simp: exp route_ok_def state_ok_def)
  have hit: "(\<exists>e \<in> set es. ea_fingerprint e = fp) \<longleftrightarrow> activation_expired now r \<noteq> None"
    if "map_of (routes ?b) fp = Some r" for fp r
  proof
    assume "\<exists>e \<in> set es. ea_fingerprint e = fp"
    then show "activation_expired now r \<noteq> None" using that by (auto simp: mem)
  next
    assume "activation_expired now r \<noteq> None"
    then obtain a where "activation_expired now r = Some a" by auto
    then have "\<lparr>ea_fingerprint = fp, ea_activation_id = a\<rparr> \<in> set es" using that by (auto simp: mem)
    then show "\<exists>e \<in> set es. ea_fingerprint e = fp" by force
  qed
  have look: "map_of (routes b') fp = map_option (expire_route now) (map_of (routes ?b) fp)" for fp
    by (simp add: b' routes_expire)
  have "now < launch_deadline l"
    if "map_of (routes b') fp = Some r" "re_state r = Activating owner l" for fp r owner l
    using that look [of fp] exp_state by auto
  moreover have "map_of (routes b') fp = Some (if (\<exists>e \<in> set es. ea_fingerprint e = fp)
         then r\<lparr>re_state := PassThrough False\<rparr> else r)" if "map_of (routes ?b) fp = Some r" for fp r
    using refs [OF that] hit [OF that] look [of fp] that by (auto split: option.splits)
  ultimately show ?thesis by (auto simp: mem exp)
qed

text \<open>
  C9. A session that leaves never remains the owner of a launch or a recovery. When it owned the
  launch, the smallest remaining session takes it over with the same launch plan; when it was the
  last one, a launch is cancelled, a published worker starts to drain, and the route keeps
  neither a worker nor a transient pass-through.
\<close>

theorem release_hands_over:
  assumes "reachable gpt s" "map_of (routes (sys_broker s)) fp = Some r" "session \<in> sessions r"
    and "release_mcp fp session deadline (sys_broker s) = (res, b')"
  shows "\<exists>a r'. res = Inr a \<and> map_of (routes b') fp = Some r' \<and>
    refs r' = AList.delete session (refs r) \<and>
    (\<forall>l. re_state r \<noteq> Activating session l \<or> a = (case refs r' of
         [] \<Rightarrow> CancelActivation (activation_id l)
       | p # _ \<Rightarrow> TransferActivation (fst p) (into_directive l))) \<and>
    (\<forall>l. re_state r' \<noteq> Activating session l) \<and>
    (\<forall>t dl. re_state r' \<noteq> Recovering t (Some session) dl) \<and>
    (refs r' = [] \<longrightarrow> re_state r' \<in> {Empty, PassThrough True} \<or>
       (\<exists>t dl. re_state r' = Draining t dl)) \<and>
    (\<forall>target. re_state r = Ready target \<and> refs r' = [] \<longrightarrow>
       a = BeginDrain target deadline \<and> re_state r' = Draining target deadline)"
proof -
  let ?r = "r\<lparr>refs := AList.delete session (refs r)\<rparr>"
  obtain a r' where a: "after_reference_removed session deadline ?r = (a, r')" by force
  have rel: "release_route session deadline r = (Inr a, r')"
    using assms(3) a by (auto simp: release_route_def)
  have b': "res = Inr a" "map_of (routes b') fp = Some r'"
    using with_route_result [OF assms(4) [unfolded release_mcp_def]] assms(2) rel by auto
  have r: "route_ok gpt r" by (rule reachable_route(1) [OF assms(1,2)])
  have r': "route_ok gpt r'" using after_reference_removed_ok [OF r a] by simp
  have refs: "refs r' = AList.delete session (refs r)"
    using a by (auto simp: after_reference_removed_def transfer_owner_if_needed_def
        split: route_state.splits option.splits if_splits)
  then have gone: "session \<notin> sessions r'" by (simp add: map_of_delete_refs)
  then have owner: "re_state r' \<noteq> Activating session l" "re_state r' \<noteq> Recovering t (Some session) dl"
    for l t dl
    using r' by (auto simp: route_ok_def state_ok_def)
  have empty: "re_state r' \<in> {Empty, PassThrough True} \<or> (\<exists>t dl. re_state r' = Draining t dl)"
    "\<And>target. re_state r = Ready target \<Longrightarrow>
       a = BeginDrain target deadline \<and> re_state r' = Draining target deadline"
    if "refs r' = []"
    using that refs a by (auto simp: after_reference_removed_def
        split: route_state.splits option.splits if_splits)
  have act: "a = (case refs r' of [] \<Rightarrow> CancelActivation (activation_id l)
       | p # _ \<Rightarrow> TransferActivation (fst p) (into_directive l))" if "re_state r = Activating session l" for l
    using that a by (auto simp: refs after_reference_removed_def transfer_owner_if_needed_def
        first_key_def split: list.splits)
  show ?thesis
    using b' refs owner empty act by blast
qed

theorem release_hands_over_witness:
  "fst (release_mcp ''fp'' ''s1'' 70
      (sys_broker (demo_state (Activating ''s1'' demo_launch) [(''s1'', 900), (''s2'', 900)]))) =
    Inr (TransferActivation ''s2'' (into_directive demo_launch))"
proof -
  let ?s = "demo_state (Activating ''s1'' demo_launch) [(''s1'', 900), (''s2'', 900)]"
  let ?r = "\<lparr>re_token_digest = ''td'', refs = [(''s1'', 900), (''s2'', 900)],
      re_state = Activating ''s1'' demo_launch\<rparr>"
  have "map_of (routes (sys_broker ?s)) ''fp'' = Some ?r" "''s1'' \<in> sessions ?r"
    by (simp_all add: demo_state_def)
  from release_hands_over [OF demo_shared this surjective_pairing, of 70] show ?thesis
    by auto
qed

text \<open>
  C10. A launch that succeeds serves every session: when a session was told to launch a worker
  and the worker reports ready with the activation it was given, then every session of that
  machine is sent to the worker and a request with its token is accepted by the worker.
\<close>

theorem launched_worker_serves:
  assumes "register_mcp h reg launch b = (Inr (into_directive l), b')"
    and "mark_worker_ready (reg_fingerprint reg) (activation_id l) target b' = (res, b2)"
    and "control_available target h2"
  shows "res = Inr () \<and>
    (\<exists>r. map_of (routes b2) (reg_fingerprint reg) = Some r \<and> reg_session_id reg \<in> sessions r \<and>
      (\<forall>session \<in> sessions r. fst (current_directive h2 (reg_fingerprint reg) session b2) =
         Inr (ReuseWorker (endpoint target)))) \<and>
    fst (resolve_target (reg_token_digest reg) b2 h2) =
      Inr (Worker \<lparr>wr_fingerprint = reg_fingerprint reg, wr_target = target\<rparr>)"
proof -
  obtain r r' where r: "directive_for h (reg_session_id reg) launch (retry_after_ms b) r =
      (into_directive l, r')" "map_of (routes b') (reg_fingerprint reg) = Some r'"
      "map_of (tokens b') (reg_token_digest reg) = Some (reg_fingerprint reg)"
      "reg_session_id reg \<in> sessions r"
    using assms(1) by (rule register_Inr)
  have st: "re_state r' = Activating (reg_session_id reg) l" "refs r' = refs r"
    using r(1) by (auto simp: directive_for_def dest: into_directive_inj
        split: route_state.splits option.splits if_splits)
  have "refs r' \<noteq> []" using r(4) st(2) by auto
  then have "mark_ready_route (activation_id l) target r' = (Inr (), r'\<lparr>re_state := Ready target\<rparr>)"
    using st by (simp add: mark_ready_route_def)
  then have b2: "res = Inr ()" "map_of (routes b2) (reg_fingerprint reg) = Some (r'\<lparr>re_state := Ready target\<rparr>)"
      "tokens b2 = tokens b'"
    using with_route_result [OF assms(2) [unfolded mark_worker_ready_def]] r(2) by auto
  then show ?thesis using r st assms(3)
    by (auto simp: resolve_target_def acquire_def current_directive_def with_route_def
        current_directive_route_def route_current_directive_def)
qed

theorem launched_worker_serves_witness:
  "fst (current_directive idle_heap ''fp'' ''s1'' (snd (mark_worker_ready ''fp'' ''a1'' demo_target
      (sys_broker (demo_state (Activating ''s1'' demo_launch) [(''s1'', 900)]))))) =
    Inr (ReuseWorker ''http://h'')"
proof -
  let ?b = "sys_broker (demo_state (Activating ''s1'' demo_launch) [(''s1'', 900)])"
  have "mark_worker_ready (reg_fingerprint (demo_reg ''s1'')) (activation_id demo_launch) demo_target ?b =
      (fst (mark_worker_ready ''fp'' ''a1'' demo_target ?b),
       snd (mark_worker_ready ''fp'' ''a1'' demo_target ?b))"
    by (simp add: demo_reg_def demo_launch_def)
  from launched_worker_serves [OF demo_registered this, of idle_heap] show ?thesis
    by (auto simp: demo_reg_def demo_target_def control_available_def idle_heap_def)
qed

end
