(* ===== verification/Flow_Errors.thy ===== *)
theory Flow_Errors
  imports Relay_Prelude
begin

text \<open>
  The error type of the runtime (\<^verbatim>\<open>crates/core/src/error.rs\<close>): the classification of upstream
  failures, the variants of \<^verbatim>\<open>FlowError\<close> with their rendered messages, and the two derived
  attributes that observability attaches to a failed span. The HTTP status and the headers are
  kept as data; a status is a \<^verbatim>\<open>u16\<close> on which no arithmetic is done.
\<close>

datatype upstream_failure_class =
    Connection | Timeout | RetryableStatus | ContextWindow | ModelUnavailable
  | Authentication | InvalidRequest | Other

record upstream_failure =
  uf_status :: "nat option"
  uf_body :: string
  uf_headers :: "(string \<times> string) list"
  uf_class :: upstream_failure_class

definition is_retryable :: "upstream_failure \<Rightarrow> bool" where
  "is_retryable f = (case uf_class f of
       Connection \<Rightarrow> True | Timeout \<Rightarrow> True | RetryableStatus \<Rightarrow> True
     | ContextWindow \<Rightarrow> True | ModelUnavailable \<Rightarrow> True | _ \<Rightarrow> False)"

text \<open>The derived \<^verbatim>\<open>Debug\<close> rendering of a unit variant is its name.\<close>

fun debug_class :: "upstream_failure_class \<Rightarrow> string" where
  "debug_class Connection = ''Connection''"
| "debug_class Timeout = ''Timeout''"
| "debug_class RetryableStatus = ''RetryableStatus''"
| "debug_class ContextWindow = ''ContextWindow''"
| "debug_class ModelUnavailable = ''ModelUnavailable''"
| "debug_class Authentication = ''Authentication''"
| "debug_class InvalidRequest = ''InvalidRequest''"
| "debug_class Other = ''Other''"

definition display_upstream_failure :: "upstream_failure \<Rightarrow> string" where
  "display_upstream_failure f = (case uf_status f of
       Some status \<Rightarrow> ''upstream provider returned HTTP '' @ show_nat status @ '' ('' @
         debug_class (uf_class f) @ ''): '' @ uf_body f
     | None \<Rightarrow> ''upstream provider transport failure ('' @ debug_class (uf_class f) @ ''): '' @
         uf_body f)"

datatype flow_error =
    AlreadyExists string
  | NotFound string
  | InvalidArgument string
  | ScopeStackEmpty
  | GuardrailRejected string
  | Upstream upstream_failure
  | Internal string
  | CallbackException (ce_message: string) (ce_exception_type: string)

fun display_flow_error :: "flow_error \<Rightarrow> string" where
  "display_flow_error (AlreadyExists m) = ''already exists: '' @ m"
| "display_flow_error (NotFound m) = ''not found: '' @ m"
| "display_flow_error (InvalidArgument m) = ''invalid argument: '' @ m"
| "display_flow_error ScopeStackEmpty = ''scope stack empty''"
| "display_flow_error (GuardrailRejected m) = ''guardrail rejected: '' @ m"
| "display_flow_error (Upstream f) = display_upstream_failure f"
| "display_flow_error (Internal m) = ''internal error: '' @ m"
| "display_flow_error (CallbackException m _) = ''internal error: '' @ m"

type_synonym 'a flow_result = "flow_error + 'a"

fun otel_error_type :: "flow_error \<Rightarrow> string" where
  "otel_error_type (AlreadyExists _) = ''already_exists''"
| "otel_error_type (NotFound _) = ''not_found''"
| "otel_error_type (InvalidArgument _) = ''invalid_argument''"
| "otel_error_type ScopeStackEmpty = ''scope_stack_empty''"
| "otel_error_type (GuardrailRejected _) = ''guardrail_rejected''"
| "otel_error_type (Upstream f) = (case uf_class f of
       Connection \<Rightarrow> ''connection_error''
     | Timeout \<Rightarrow> ''timeout''
     | RetryableStatus \<Rightarrow> ''retryable_status''
     | ContextWindow \<Rightarrow> ''context_window''
     | ModelUnavailable \<Rightarrow> ''model_unavailable''
     | Authentication \<Rightarrow> ''authentication''
     | InvalidRequest \<Rightarrow> ''invalid_request''
     | Other \<Rightarrow> ''upstream_error'')"
| "otel_error_type (Internal _) = ''internal_error''"
| "otel_error_type (CallbackException _ _) = ''internal_error''"

fun exception_type :: "flow_error \<Rightarrow> string option" where
  "exception_type (CallbackException _ t) = Some t"
| "exception_type _ = None"

section \<open>Facts\<close>

text \<open>The class of an upstream failure can be read back from its error type.\<close>

lemma otel_error_type_upstream_inj:
  "otel_error_type (Upstream f) = otel_error_type (Upstream g) \<Longrightarrow> uf_class f = uf_class g"
  by (cases "uf_class f"; cases "uf_class g") simp_all

definition retryable_error_types :: "string set" where
  "retryable_error_types =
     {''connection_error'', ''timeout'', ''retryable_status'', ''context_window'',
      ''model_unavailable''}"

lemma retryable_iff_error_type:
  "is_retryable f \<longleftrightarrow> otel_error_type (Upstream f) \<in> retryable_error_types"
  by (cases "uf_class f") (simp_all add: is_retryable_def retryable_error_types_def)

end
