(* ===== verification/Relay_Json.thy ===== *)
theory Relay_Json
  imports Flow_Errors "HOL-Library.Word"
begin

text \<open>
  JSON values and the metadata helpers of the runtime: \<^verbatim>\<open>crates/core/src/json.rs\<close>
  (\<^verbatim>\<open>merge_json\<close>), the status and error metadata of \<^verbatim>\<open>crates/core/src/api/shared.rs\<close>, the log
  severity of \<^verbatim>\<open>crates/core/src/api/scope.rs\<close>, and the validation of injected attributes in
  \<^verbatim>\<open>crates/core/src/api/runtime/state.rs\<close> and \<^verbatim>\<open>crates/core/src/api/event.rs\<close>.

  A number is one of the three representations of \<^verbatim>\<open>serde_json::Number\<close>: an unsigned 64-bit
  value, a negative 64-bit value in two's complement, or the bits of a finite double. An object
  is an ordered map.
\<close>

text \<open>A double is its 64 bits.\<close>

type_synonym f64 = "64 word"

datatype json_number = PosInt "64 word" | NegInt "64 word" | Float f64

datatype json =
    JNull
  | JBool bool
  | JNumber json_number
  | JString string
  | JArray "json list"
  | JObject "(string \<times> json) list"

type_synonym json_object = "(string \<times> json) list"

section \<open>Shallow merge\<close>

fun merge_json :: "json option \<Rightarrow> json option \<Rightarrow> json option" where
  "merge_json (Some (JObject ma)) (Some (JObject mb)) = Some (JObject (bt_extend mb ma))"
| "merge_json (Some a) None = Some a"
| "merge_json None (Some b) = Some b"
| "merge_json (Some _) (Some b) = Some b"
| "merge_json None None = None"

text \<open>\<^verbatim>\<open>Value::get\<close> with a string key, and \<^verbatim>\<open>Value::as_str\<close>.\<close>

fun json_get :: "json \<Rightarrow> string \<Rightarrow> json option" where
  "json_get (JObject m) k = map_of m k"
| "json_get _ _ = None"

fun json_as_str :: "json \<Rightarrow> string option" where
  "json_as_str (JString s) = Some s"
| "json_as_str _ = None"

section \<open>Status and error metadata\<close>

definition metadata_with_otel_status ::
    "json option \<Rightarrow> string \<Rightarrow> string option \<Rightarrow> json option" where
  "metadata_with_otel_status metadata status_code status_message =
     (let status = bt_insert ''otel.status_code'' (JString status_code) [];
          status = (case status_message of
              Some m \<Rightarrow> if status_code = ''ERROR''
                then bt_insert ''otel.status_description'' (JString m) status else status
            | None \<Rightarrow> status);
          metadata = merge_json metadata (Some (JObject status))
      in case metadata of
           Some (JObject m) \<Rightarrow> if status_code \<noteq> ''ERROR''
             then Some (JObject (AList.delete ''otel.status_description'' m)) else metadata
         | _ \<Rightarrow> metadata)"

definition metadata_with_otel_error :: "json option \<Rightarrow> flow_error \<Rightarrow> json option" where
  "metadata_with_otel_error metadata error =
     (case metadata_with_otel_status metadata ''ERROR'' (Some (display_flow_error error)) of
        Some (JObject m) \<Rightarrow>
          (let m = bt_or_insert ''error.type'' (JString (otel_error_type error)) m
           in Some (JObject (case exception_type error of
                Some t \<Rightarrow> bt_or_insert ''exception.type'' (JString t) m
              | None \<Rightarrow> m)))
      | other \<Rightarrow> other)"

datatype log_severity = Trace | Debug | Info | Warn | Error

fun log_severity_str :: "log_severity \<Rightarrow> string" where
  "log_severity_str Trace = ''trace''"
| "log_severity_str Debug = ''debug''"
| "log_severity_str Info = ''info''"
| "log_severity_str Warn = ''warn''"
| "log_severity_str Error = ''error''"

definition metadata_with_log_severity ::
    "json option \<Rightarrow> log_severity option \<Rightarrow> json option flow_result" where
  "metadata_with_log_severity metadata severity = (case severity of
       None \<Rightarrow> Inr metadata
     | Some s \<Rightarrow> (case (case metadata of None \<Rightarrow> JObject [] | Some m \<Rightarrow> m) of
           JObject m \<Rightarrow> Inr (Some (JObject
             (bt_insert ''nemo_relay.log.severity'' (JString (log_severity_str s)) m)))
         | _ \<Rightarrow> Inl (InvalidArgument
             ''mark metadata must be a JSON object when severity is provided'')))"

section \<open>Validation of injected attributes\<close>

definition is_valid_event_metadata_attribute_key :: "string \<Rightarrow> bool" where
  "is_valid_event_metadata_attribute_key key =
     list_all (\<lambda>segment. segment \<noteq> [] \<and>
         list_all (\<lambda>c. is_ascii_alphanumeric c \<or> c = CHR ''_'' \<or> c = CHR ''-'') segment)
       (split_on CHR ''.'' key)"

datatype otel_attribute_primitive_kind = KBoolean | KNumber | KString

text \<open>
  \<^verbatim>\<open>as_u64\<close> succeeds on unsigned values only, and then the value has to fit an \<^verbatim>\<open>i64\<close>; the
  other two representations always have an \<^verbatim>\<open>as_f64\<close>.
\<close>

fun otel_compatible_attribute_number_kind ::
    "json_number \<Rightarrow> otel_attribute_primitive_kind option" where
  "otel_compatible_attribute_number_kind (PosInt v) =
     (if unat v < 2 ^ 63 then Some KNumber else None)"
| "otel_compatible_attribute_number_kind (NegInt v) = Some KNumber"
| "otel_compatible_attribute_number_kind (Float v) = Some KNumber"

definition is_otel_compatible_attribute_number :: "json_number \<Rightarrow> bool" where
  "is_otel_compatible_attribute_number n = (otel_compatible_attribute_number_kind n \<noteq> None)"

fun primitive_kind :: "json \<Rightarrow> otel_attribute_primitive_kind option" where
  "primitive_kind (JBool _) = Some KBoolean"
| "primitive_kind (JNumber n) = otel_compatible_attribute_number_kind n"
| "primitive_kind (JString _) = Some KString"
| "primitive_kind _ = None"

fun is_otel_compatible_attribute_value :: "json \<Rightarrow> bool" where
  "is_otel_compatible_attribute_value (JBool _) = True"
| "is_otel_compatible_attribute_value (JString _) = True"
| "is_otel_compatible_attribute_value (JNumber n) = is_otel_compatible_attribute_number n"
| "is_otel_compatible_attribute_value (JArray vs) =
     (case (case vs of [] \<Rightarrow> None | v # _ \<Rightarrow> primitive_kind v) of
        None \<Rightarrow> vs = []
      | Some kind \<Rightarrow> list_all (\<lambda>v. primitive_kind v = Some kind) vs)"
| "is_otel_compatible_attribute_value JNull = False"
| "is_otel_compatible_attribute_value (JObject _) = False"

text \<open>The two rejections of an attribute map, with the key that is reported.\<close>

datatype attribute_error = BadKey string | BadValue string

fun validate_event_metadata_attributes :: "json_object \<Rightarrow> attribute_error + unit" where
  "validate_event_metadata_attributes [] = Inr ()"
| "validate_event_metadata_attributes ((k, v) # rest) =
     (if \<not> is_valid_event_metadata_attribute_key k then Inl (BadKey k)
      else if \<not> is_otel_compatible_attribute_value v then Inl (BadValue k)
      else validate_event_metadata_attributes rest)"

section \<open>Facts\<close>

lemma merge_json_None_right [simp]: "merge_json a None = a"
  by (cases a) simp_all

lemma merge_json_None_left [simp]: "merge_json None b = b"
  by (cases b) simp_all

text \<open>The lookups of an optional object, so that merges can be stated by key.\<close>

definition meta_get :: "json option \<Rightarrow> string \<Rightarrow> json option" where
  "meta_get m k = (case m of None \<Rightarrow> None | Some v \<Rightarrow> json_get v k)"

definition meta_ok :: "json option \<Rightarrow> bool" where
  "meta_ok m = (case m of Some (JObject xs) \<Rightarrow> bt_ok xs | _ \<Rightarrow> True)"

definition is_object :: "json option \<Rightarrow> bool" where
  "is_object m = (case m of Some (JObject _) \<Rightarrow> True | _ \<Rightarrow> False)"

lemma merge_json_not_objects:
  "\<not> is_object a \<or> \<not> is_object b \<Longrightarrow> merge_json a b = (case b of None \<Rightarrow> a | Some _ \<Rightarrow> b)"
  by (cases "(a, b)" rule: merge_json.cases) (auto simp: is_object_def)

lemma merge_json_object_get:
  assumes "is_object a" "is_object b" "meta_ok b"
  shows "meta_get (merge_json a b) k =
     (case meta_get b k of None \<Rightarrow> meta_get a k | Some v \<Rightarrow> Some v)"
  using assms
  by (auto simp: is_object_def meta_get_def meta_ok_def bt_ok_distinct map_of_bt_extend
      split: option.splits json.splits)

lemma meta_ok_merge [table_laws]: "meta_ok a \<Longrightarrow> meta_ok b \<Longrightarrow> meta_ok (merge_json a b)"
  by (cases "(a, b)" rule: merge_json.cases) (auto simp: meta_ok_def bt_ok_extend)

lemma validate_ok_iff:
  "validate_event_metadata_attributes xs = Inr () \<longleftrightarrow>
     (\<forall>(k, v) \<in> set xs. is_valid_event_metadata_attribute_key k \<and>
        is_otel_compatible_attribute_value v)"
  by (induction xs rule: validate_event_metadata_attributes.induct) auto

end
