(* ===== verification/Llm_Response.thy ===== *)
theory Llm_Response
  imports Relay_Json
begin

text \<open>
  The normalized data of LLM requests and responses (\<^verbatim>\<open>crates/types/src/codec/request.rs\<close>,
  \<^verbatim>\<open>response.rs\<close>) and the evidence and summaries of optimizations (\<^verbatim>\<open>optimization.rs\<close>). Token counts are
  64-bit words and money is a double. The contents of messages, the definitions of tools and the data
  specific to a provider are carried along and never inspected, so they are uninterpreted types.
\<close>

section \<open>Usage and cost\<close>

type_synonym uuid = "128 word"
type_synonym tokens = "64 word option"

datatype cost_source = ModelPricing | ProviderReported

record cost_estimate =
  co_total :: "f64 option"
  co_currency :: string
  co_input :: "f64 option"
  co_output :: "f64 option"
  co_cache_read :: "f64 option"
  co_cache_write :: "f64 option"
  co_source :: cost_source
  co_pricing_provider :: "string option"
  co_pricing_model :: "string option"
  co_pricing_as_of :: "string option"
  co_pricing_source :: "string option"

record usage =
  us_prompt_tokens :: tokens
  us_completion_tokens :: tokens
  us_total_tokens :: tokens
  us_cache_read_tokens :: tokens
  us_cache_write_tokens :: tokens
  us_cost :: "cost_estimate option"

section \<open>Optimization evidence\<close>

record data_schema =
  ds_name :: string
  ds_version :: string

definition MODEL_ROUTING :: string where
  "MODEL_ROUTING = ''model_routing''"

record llm_optimization_model =
  om_model :: string
  om_provider :: "string option"

definition optimization_model_new :: "string \<Rightarrow> llm_optimization_model" where
  "optimization_model_new m = \<lparr>om_model = m, om_provider = None\<rparr>"

record llm_optimization_model_transition =
  mt_baseline :: "llm_optimization_model option"
  mt_effective :: "llm_optimization_model option"

record llm_optimization_tokens =
  tk_prompt_tokens :: tokens
  tk_completion_tokens :: tokens
  tk_cache_read_tokens :: tokens
  tk_cache_write_tokens :: tokens
  tk_total_tokens :: tokens

definition tokens_default :: llm_optimization_tokens where
  "tokens_default = \<lparr>tk_prompt_tokens = None, tk_completion_tokens = None, tk_cache_read_tokens = None,
     tk_cache_write_tokens = None, tk_total_tokens = None\<rparr>"

datatype llm_optimization_evidence_quality = Observed | Estimated

record llm_optimization_token_impact =
  ti_baseline :: "llm_optimization_tokens option"
  ti_effective :: "llm_optimization_tokens option"
  ti_saved :: "llm_optimization_tokens option"
  ti_quality :: "llm_optimization_evidence_quality option"
  ti_estimation_method :: "string option"

record llm_optimization_contribution =
  oc_id :: "uuid option"
  oc_sequence :: "64 word option"
  oc_producer :: string
  oc_kind :: string
  oc_applied :: bool
  oc_model_transition :: "llm_optimization_model_transition option"
  oc_token_impact :: "llm_optimization_token_impact option"
  oc_payload_schema :: "data_schema option"
  oc_payload :: "json option"
  oc_extra :: json_object

datatype llm_optimization_summary_status = SummaryComplete | SummaryPartial

record llm_optimization_summary =
  sm_schema_version :: string
  sm_calculation_version :: string
  sm_status :: llm_optimization_summary_status
  sm_limitations :: "string list"
  sm_baseline_model :: "llm_optimization_model option"
  sm_effective_model :: "llm_optimization_model option"
  sm_effective_usage :: "usage option"
  sm_baseline_usage :: "usage option"
  sm_tokens_saved :: llm_optimization_tokens
  sm_baseline_cost :: "cost_estimate option"
  sm_actual_cost :: "cost_estimate option"
  sm_estimated_cost_saved :: "f64 option"
  sm_currency :: "string option"
  sm_contributions :: "llm_optimization_contribution list"

section \<open>Responses\<close>

typedecl message_content
typedecl api_specific_response

datatype finish_reason = FinishComplete | FinishLength | FinishToolUse | FinishContentFilter | FinishUnknown string

record response_tool_call =
  rc_id :: string
  rc_name :: string
  rc_arguments :: json

record annotated_llm_response =
  ar_id :: "string option"
  ar_model :: "string option"
  ar_message :: "message_content option"
  ar_tool_calls :: "response_tool_call list option"
  ar_finish_reason :: "finish_reason option"
  ar_usage :: "usage option"
  ar_optimization_summary :: "llm_optimization_summary option"
  ar_api_specific :: "api_specific_response option"
  ar_extra :: json_object

definition default_response :: annotated_llm_response where
  "default_response = \<lparr>ar_id = None, ar_model = None, ar_message = None, ar_tool_calls = None, ar_finish_reason = None,
     ar_usage = None, ar_optimization_summary = None, ar_api_specific = None, ar_extra = []\<rparr>"

section \<open>Requests\<close>

typedecl generation_params
typedecl tool_definition
typedecl tool_choice
typedecl request_tool_call
typedecl api_specific_request

datatype llm_message =
    SystemMessage message_content "string option"
  | UserMessage message_content "string option"
  | DeveloperMessage message_content "string option"
  | AssistantMessage "message_content option" "request_tool_call list option" "string option"
  | ToolMessage message_content string
  | FunctionMessage "string option" string
  | ToolCallItem "string option" string string json json_object
  | ToolResultItem "string option" string json json_object
  | ProviderNative string string json

record annotated_llm_request =
  aq_messages :: "llm_message list"
  aq_instructions :: "message_content option"
  aq_model :: "string option"
  aq_params :: "generation_params option"
  aq_tools :: "tool_definition list option"
  aq_tool_choice :: "tool_choice option"
  aq_store :: "bool option"
  aq_previous_response_id :: "string option"
  aq_truncation :: "json option"
  aq_reasoning :: "json option"
  aq_include :: "json option"
  aq_user :: "string option"
  aq_metadata :: "json option"
  aq_service_tier :: "string option"
  aq_parallel_tool_calls :: "bool option"
  aq_max_output_tokens :: "64 word option"
  aq_max_tool_calls :: "64 word option"
  aq_top_logprobs :: "64 word option"
  aq_stream :: "bool option"
  aq_api_specific :: "api_specific_request option"
  aq_extra :: json_object

end
