(* ===== verification/Relay_Events.thy ===== *)
theory Relay_Events
  imports Llm_Response
begin

text \<open>
  Events and what they are made of: \<^verbatim>\<open>crates/types/src/api/event.rs\<close> (log severities, categories,
  profiles, the two kinds of events and their accessors, the fields a sanitizer may rewrite) and
  the attribute sets of \<^verbatim>\<open>crates/types/src/api/{scope,tool,llm}.rs\<close>.

  A UUID is a 128-bit word and a time stamp is a number of nanoseconds. The annotated requests and
  responses are those of \<open>Llm_Response\<close>. The metric types of the same file are in \<open>Metric_Events\<close>; the serde implementations are not modelled.
\<close>

unbundle bit_operations_syntax

type_synonym timestamp = int

section \<open>Parsing of log severities\<close>

text \<open>
  \<^verbatim>\<open>str::trim\<close> removes Unicode white space. A string is its UTF-8 bytes, so each white space
  character is one of these byte sequences; no valid encoding ends with one of them by accident.
\<close>

definition white_space :: "string list" where
  "white_space = map (map char_of)
     ([[9], [10], [11], [12], [13], [32], [194, 133], [194, 160], [225, 154, 128]] @
      map (\<lambda>n. [226, 128, n]) [128, 129, 130, 131, 132, 133, 134, 135, 136, 137, 138, 168, 169, 175] @
      [[226, 129, 159], [227, 128, 128 :: nat]])"

text \<open>Drops matching prefixes as long as there is one; every removal shortens the string.\<close>

function trim_prefixes :: "string list \<Rightarrow> string \<Rightarrow> string" where
  "trim_prefixes ws s = (case List.find (\<lambda>w. w \<noteq> [] \<and> take (length w) s = w) ws of
       None \<Rightarrow> s | Some w \<Rightarrow> trim_prefixes ws (drop (length w) s))"
  by auto
termination
proof (relation "measure (\<lambda>(ws, s). length s)")
  fix ws :: "string list" and s w
  assume "List.find (\<lambda>w. w \<noteq> [] \<and> take (length w) s = w) ws = Some w"
  then have "w \<noteq> []" "take (length w) s = w" by (auto simp: find_Some_iff)
  then show "((ws, drop (length w) s), (ws, s)) \<in> measure (\<lambda>(ws, s). length s)"
    by (cases s; cases w) auto
qed simp

declare trim_prefixes.simps [simp del]

definition str_trim :: "string \<Rightarrow> string" where
  "str_trim s = rev (trim_prefixes (map rev white_space) (rev (trim_prefixes white_space s)))"

text \<open>Text whose bytes neither start nor end a white space character stays as it is.\<close>

lemma trim_prefixes_none:
  "(\<And>w. w \<in> set ws \<Longrightarrow> w \<noteq> [] \<Longrightarrow> hd w \<notin> set s) \<Longrightarrow> trim_prefixes ws s = s"
proof -
  assume h: "\<And>w. w \<in> set ws \<Longrightarrow> w \<noteq> [] \<Longrightarrow> hd w \<notin> set s"
  have "\<not> (w \<noteq> [] \<and> take (length w) s = w)" if "w \<in> set ws" for w
  proof
    assume "w \<noteq> [] \<and> take (length w) s = w"
    then have "hd w \<in> set s" by (metis hd_in_set in_set_takeD)
    then show False using h that \<open>w \<noteq> [] \<and> take (length w) s = w\<close> by blast
  qed
  then have "List.find (\<lambda>w. w \<noteq> [] \<and> take (length w) s = w) ws = None" by (auto simp: find_None_iff)
  then show ?thesis by (subst trim_prefixes.simps) simp
qed

lemma str_trim_plain:
  assumes "list_all (\<lambda>c. of_char c \<in> {33..<127 :: nat} \<union> {176..<194} \<union> {195..<225} \<union> {228..<256}) s"
  shows "str_trim s = s"
proof -
  let ?plain = "{33..<127 :: nat} \<union> {176..<194} \<union> {195..<225} \<union> {228..<256}"
  have w: "of_char (hd w) \<notin> ?plain \<and> of_char (last w) \<notin> ?plain" if "w \<in> set white_space" for w
    using that by (auto simp: white_space_def)
  have "c \<in> set s \<Longrightarrow> of_char c \<in> ?plain" for c using assms by (simp add: list_all_iff)
  then have h: "hd w \<notin> set s" "last w \<notin> set s" if "w \<in> set white_space" for w using w [OF that] by blast+
  then have "trim_prefixes white_space s = s" by (intro trim_prefixes_none)
  moreover have "trim_prefixes (map rev white_space) (rev s) = rev s"
    using h by (intro trim_prefixes_none) (auto simp: hd_rev)
  ultimately show ?thesis by (simp add: str_trim_def)
qed

definition char_to_ascii_lowercase :: "char \<Rightarrow> char" where
  "char_to_ascii_lowercase c =
     (if CHR ''A'' \<le> c \<and> c \<le> CHR ''Z'' then char_of (of_char c + 32 :: nat) else c)"

definition to_ascii_lowercase :: "string \<Rightarrow> string" where
  "to_ascii_lowercase s = map char_to_ascii_lowercase s"

definition eq_ignore_ascii_case :: "string \<Rightarrow> string \<Rightarrow> bool" where
  "eq_ignore_ascii_case a b \<longleftrightarrow> to_ascii_lowercase a = to_ascii_lowercase b"

datatype parse_log_severity_error = ParseLogSeverityError string

definition log_severity_from_str :: "string \<Rightarrow> parse_log_severity_error + log_severity" where
  "log_severity_from_str value =
     (let v = to_ascii_lowercase (str_trim value)
      in if v = ''trace'' then Inr Trace
         else if v = ''debug'' then Inr Debug
         else if v = ''info'' then Inr Info
         else if v = ''warn'' \<or> v = ''warning'' then Inr Warn
         else if v = ''error'' then Inr Error
         else Inl (ParseLogSeverityError value))"

section \<open>Scope types and categories\<close>

datatype scope_type =
  Agent | Function | Tool | Llm | Retriever | Embedder | Reranker | Guardrail | Evaluator | Custom
| Unknown

fun scope_type_str :: "scope_type \<Rightarrow> string" where
  "scope_type_str Agent = ''agent''"
| "scope_type_str Function = ''function''"
| "scope_type_str Tool = ''tool''"
| "scope_type_str Llm = ''llm''"
| "scope_type_str Retriever = ''retriever''"
| "scope_type_str Embedder = ''embedder''"
| "scope_type_str Reranker = ''reranker''"
| "scope_type_str Guardrail = ''guardrail''"
| "scope_type_str Evaluator = ''evaluator''"
| "scope_type_str Custom = ''custom''"
| "scope_type_str Unknown = ''unknown''"

datatype event_category = EventCategory (category_str: string)

definition to_scope_type :: "event_category \<Rightarrow> scope_type" where
  "to_scope_type c =
     (let s = category_str c
      in if s = ''agent'' then Agent
         else if s = ''function'' then Function
         else if s = ''tool'' then Tool
         else if s = ''llm'' then Llm
         else if s = ''retriever'' then Retriever
         else if s = ''embedder'' then Embedder
         else if s = ''reranker'' then Reranker
         else if s = ''guardrail'' then Guardrail
         else if s = ''evaluator'' then Evaluator
         else if s = ''custom'' then Custom
         else Unknown)"

fun category_of_scope_type :: "scope_type \<Rightarrow> event_category" where
  "category_of_scope_type Agent = EventCategory ''agent''"
| "category_of_scope_type Function = EventCategory ''function''"
| "category_of_scope_type Tool = EventCategory ''tool''"
| "category_of_scope_type Llm = EventCategory ''llm''"
| "category_of_scope_type Retriever = EventCategory ''retriever''"
| "category_of_scope_type Embedder = EventCategory ''embedder''"
| "category_of_scope_type Reranker = EventCategory ''reranker''"
| "category_of_scope_type Guardrail = EventCategory ''guardrail''"
| "category_of_scope_type Evaluator = EventCategory ''evaluator''"
| "category_of_scope_type Custom = EventCategory ''custom''"
| "category_of_scope_type Unknown = EventCategory ''unknown''"

section \<open>Attribute sets\<close>

type_synonym attribute_bits = "32 word"

definition contains_flag :: "attribute_bits \<Rightarrow> attribute_bits \<Rightarrow> bool" where
  "contains_flag a f \<longleftrightarrow> a AND f = f"

definition PARALLEL :: attribute_bits where "PARALLEL = 1"
definition RELOCATABLE :: attribute_bits where "RELOCATABLE = 2"
definition REMOTE :: attribute_bits where "REMOTE = 1"
definition STATEFUL :: attribute_bits where "STATEFUL = 1"
definition STREAMING :: attribute_bits where "STREAMING = 2"

datatype handle_attributes =
  ScopeAttributes attribute_bits | ToolAttributes attribute_bits | LlmAttributes attribute_bits

definition scope_attributes_to_strings :: "attribute_bits \<Rightarrow> string list" where
  "scope_attributes_to_strings a =
     (if contains_flag a PARALLEL then [''parallel''] else []) @
     (if contains_flag a RELOCATABLE then [''relocatable''] else [])"

definition tool_attributes_to_strings :: "attribute_bits \<Rightarrow> string list" where
  "tool_attributes_to_strings a = (if contains_flag a REMOTE then [''remote''] else [])"

definition llm_attributes_to_strings :: "attribute_bits \<Rightarrow> string list" where
  "llm_attributes_to_strings a =
     (if contains_flag a STATEFUL then [''stateful''] else []) @
     (if contains_flag a STREAMING then [''streaming''] else [])"

fun attributes_from_handle :: "handle_attributes \<Rightarrow> string list" where
  "attributes_from_handle (ScopeAttributes a) = scope_attributes_to_strings a"
| "attributes_from_handle (ToolAttributes a) = tool_attributes_to_strings a"
| "attributes_from_handle (LlmAttributes a) = llm_attributes_to_strings a"

definition canonicalize_attributes :: "string list \<Rightarrow> string list" where
  "canonicalize_attributes xs = remdups_adj (sort xs)"

section \<open>Events\<close>

datatype scope_category = Start | End

record category_profile =
  cp_model_name :: "string option"
  cp_tool_call_id :: "string option"
  cp_subtype :: "string option"
  cp_tool_result_annotation :: "json option"
  cp_extra :: json_object
  cp_annotated_request :: "annotated_llm_request option"
  cp_annotated_response :: "annotated_llm_response option"

definition default_profile :: category_profile where
  "default_profile = \<lparr>cp_model_name = None, cp_tool_call_id = None, cp_subtype = None,
     cp_tool_result_annotation = None, cp_extra = [], cp_annotated_request = None,
     cp_annotated_response = None\<rparr>"

definition option_json_is_none_or_null :: "json option \<Rightarrow> bool" where
  "option_json_is_none_or_null v = (case v of None \<Rightarrow> True | Some j \<Rightarrow> j = JNull)"

definition is_wire_empty :: "category_profile \<Rightarrow> bool" where
  "is_wire_empty p \<longleftrightarrow> cp_model_name p = None \<and> cp_tool_call_id p = None \<and> cp_subtype p = None \<and>
     option_json_is_none_or_null (cp_tool_result_annotation p) \<and>
     cp_annotated_request p = None \<and> cp_annotated_response p = None \<and> cp_extra p = []"

record base_event =
  atof_version :: string
  be_parent_uuid :: "uuid option"
  be_propagation_root_uuid :: "uuid option"
  be_propagation_parent_uuid :: "uuid option"
  be_uuid :: uuid
  be_timestamp :: timestamp
  be_name :: string
  be_data :: "json option"
  be_data_schema :: "data_schema option"
  be_metadata :: "json option"

definition ATOF_VERSION :: string where "ATOF_VERSION = ''0.1''"

record scope_event =
  se_base :: base_event
  se_scope_category :: scope_category
  se_attributes :: "string list"
  se_category :: event_category
  se_category_profile :: "category_profile option"

definition scope_event_new ::
    "base_event \<Rightarrow> scope_category \<Rightarrow> string list \<Rightarrow> event_category \<Rightarrow> category_profile option \<Rightarrow>
     scope_event" where
  "scope_event_new base sc attributes category profile =
     \<lparr>se_base = base, se_scope_category = sc, se_attributes = canonicalize_attributes attributes,
      se_category = category, se_category_profile = profile\<rparr>"

record mark_event =
  me_base :: base_event
  me_category :: "event_category option"
  me_category_profile :: "category_profile option"

definition mark_event_new ::
    "base_event \<Rightarrow> event_category option \<Rightarrow> category_profile option \<Rightarrow> mark_event" where
  "mark_event_new base category profile =
     \<lparr>me_base = base, me_category = category, me_category_profile = profile\<rparr>"

record event_sanitize_fields =
  sf_data :: "json option"
  sf_category_profile :: "category_profile option"
  sf_metadata :: "json option"

definition default_fields :: event_sanitize_fields where
  "default_fields = \<lparr>sf_data = None, sf_category_profile = None, sf_metadata = None\<rparr>"

record pending_mark_spec =
  pm_name :: string
  pm_category :: "event_category option"
  pm_category_profile :: "category_profile option"
  pm_data :: "json option"
  pm_data_schema :: "data_schema option"
  pm_metadata :: "json option"
  pm_severity :: "log_severity option"

datatype event = Scope scope_event | Mark mark_event

fun event_kind :: "event \<Rightarrow> string" where
  "event_kind (Scope _) = ''scope''"
| "event_kind (Mark _) = ''mark''"

fun base_of :: "event \<Rightarrow> base_event" where
  "base_of (Scope e) = se_base e"
| "base_of (Mark e) = me_base e"

fun map_base :: "(base_event \<Rightarrow> base_event) \<Rightarrow> event \<Rightarrow> event" where
  "map_base f (Scope e) = Scope (e\<lparr>se_base := f (se_base e)\<rparr>)"
| "map_base f (Mark e) = Mark (e\<lparr>me_base := f (me_base e)\<rparr>)"

fun event_scope_category :: "event \<Rightarrow> scope_category option" where
  "event_scope_category (Scope e) = Some (se_scope_category e)"
| "event_scope_category (Mark _) = None"

fun event_category_of :: "event \<Rightarrow> event_category option" where
  "event_category_of (Scope e) = Some (se_category e)"
| "event_category_of (Mark e) = me_category e"

fun event_category_profile :: "event \<Rightarrow> category_profile option" where
  "event_category_profile (Scope e) = se_category_profile e"
| "event_category_profile (Mark e) = me_category_profile e"

definition tool_result_annotation :: "event \<Rightarrow> json option" where
  "tool_result_annotation e = (case event_category_profile e of
       None \<Rightarrow> None
     | Some p \<Rightarrow> (case cp_tool_result_annotation p of
           Some v \<Rightarrow> if v = JNull then None else Some v | None \<Rightarrow> None))"

fun event_attributes :: "event \<Rightarrow> string list option" where
  "event_attributes (Scope e) = Some (se_attributes e)"
| "event_attributes (Mark _) = None"

definition event_scope_type :: "event \<Rightarrow> scope_type option" where
  "event_scope_type e = map_option to_scope_type (event_category_of e)"

fun event_input :: "event \<Rightarrow> json option" where
  "event_input (Scope e) = (if se_scope_category e = Start then be_data (se_base e) else None)"
| "event_input (Mark _) = None"

fun event_output :: "event \<Rightarrow> json option" where
  "event_output (Scope e) = (if se_scope_category e = End then be_data (se_base e) else None)"
| "event_output (Mark _) = None"

definition event_model_name :: "event \<Rightarrow> string option" where
  "event_model_name e = Option.bind (event_category_profile e) cp_model_name"

definition event_tool_call_id :: "event \<Rightarrow> string option" where
  "event_tool_call_id e = Option.bind (event_category_profile e) cp_tool_call_id"

definition is_scope_start :: "event \<Rightarrow> bool" where
  "is_scope_start e \<longleftrightarrow> event_scope_category e = Some Start"

definition is_scope_end :: "event \<Rightarrow> bool" where
  "is_scope_end e \<longleftrightarrow> event_scope_category e = Some End"

definition set_propagation_root_uuid :: "uuid option \<Rightarrow> event \<Rightarrow> event" where
  "set_propagation_root_uuid r = map_base (\<lambda>b. b\<lparr>be_propagation_root_uuid := r\<rparr>)"

definition set_propagation_parent_uuid :: "uuid option \<Rightarrow> event \<Rightarrow> event" where
  "set_propagation_parent_uuid r = map_base (\<lambda>b. b\<lparr>be_propagation_parent_uuid := r\<rparr>)"

definition sanitize_fields :: "event \<Rightarrow> event_sanitize_fields" where
  "sanitize_fields e = \<lparr>sf_data = be_data (base_of e),
     sf_category_profile = event_category_profile e, sf_metadata = be_metadata (base_of e)\<rparr>"

fun set_category_profile :: "category_profile option \<Rightarrow> event \<Rightarrow> event" where
  "set_category_profile p (Scope e) = Scope (e\<lparr>se_category_profile := p\<rparr>)"
| "set_category_profile p (Mark e) = Mark (e\<lparr>me_category_profile := p\<rparr>)"

definition apply_sanitize_fields :: "event_sanitize_fields \<Rightarrow> event \<Rightarrow> event" where
  "apply_sanitize_fields f e = set_category_profile (sf_category_profile f)
     (map_base (\<lambda>b. b\<lparr>be_data := sf_data f, be_metadata := sf_metadata f\<rparr>) e)"

section \<open>Facts\<close>

lemma to_scope_type_of: "to_scope_type (category_of_scope_type t) = t"
  by (cases t) (simp_all add: to_scope_type_def)

lemma category_of_to_scope_type:
  "to_scope_type c \<noteq> Unknown \<Longrightarrow> category_of_scope_type (to_scope_type c) = c"
  by (cases c) (auto simp: to_scope_type_def Let_def split: if_splits)

lemma category_scope_type_str: "category_str (category_of_scope_type t) = scope_type_str t"
  by (cases t) simp_all

lemma distinct_remdups_adj_sorted: "sorted xs \<Longrightarrow> distinct (remdups_adj xs)"
  by (induction xs rule: remdups_adj.induct) auto

lemma canonicalize_attributes_spec:
  "sorted (canonicalize_attributes xs) \<and> distinct (canonicalize_attributes xs) \<and>
   set (canonicalize_attributes xs) = set xs"
  by (simp add: canonicalize_attributes_def sorted_remdups_adj distinct_remdups_adj_sorted)

lemma sanitize_apply [simp]: "sanitize_fields (apply_sanitize_fields f e) = f"
  by (cases e) (simp_all add: sanitize_fields_def apply_sanitize_fields_def)

lemma apply_sanitize [simp]: "apply_sanitize_fields (sanitize_fields e) e = e"
  by (cases e) (simp_all add: sanitize_fields_def apply_sanitize_fields_def)

lemma apply_apply [simp]:
  "apply_sanitize_fields f (apply_sanitize_fields g e) = apply_sanitize_fields f e"
  by (cases e) (simp_all add: apply_sanitize_fields_def)

text \<open>What a sanitizer cannot change: everything but the three fields it is given.\<close>

definition event_shell :: "event \<Rightarrow> event" where
  "event_shell e = apply_sanitize_fields default_fields e"

lemma event_shell_apply [simp]: "event_shell (apply_sanitize_fields f e) = event_shell e"
  by (simp add: event_shell_def)

lemma event_shell_iff: "event_shell e = event_shell e' \<longleftrightarrow> (\<exists>f. e' = apply_sanitize_fields f e)"
proof
  assume "event_shell e = event_shell e'"
  then have "apply_sanitize_fields (sanitize_fields e') (event_shell e) =
      apply_sanitize_fields (sanitize_fields e') (event_shell e')" by simp
  then have "e' = apply_sanitize_fields (sanitize_fields e') e" by (simp add: event_shell_def)
  then show "\<exists>f. e' = apply_sanitize_fields f e" ..
qed auto

lemma event_shell_identity:
  assumes "event_shell e = event_shell e'"
  shows "event_kind e = event_kind e' \<and> event_scope_category e = event_scope_category e' \<and>
     event_category_of e = event_category_of e' \<and> event_attributes e = event_attributes e' \<and>
     be_uuid (base_of e) = be_uuid (base_of e') \<and> be_name (base_of e) = be_name (base_of e') \<and>
     be_parent_uuid (base_of e) = be_parent_uuid (base_of e') \<and>
     be_timestamp (base_of e) = be_timestamp (base_of e')"
proof -
  obtain f where "e' = apply_sanitize_fields f e" using assms event_shell_iff by blast
  then show ?thesis by (cases e) (simp_all add: apply_sanitize_fields_def)
qed

end
