(* ===== verification/Relay_Handles.thy ===== *)
theory Relay_Handles
  imports Relay_Events
begin

text \<open>
  Handles of scopes, tool calls and LLM calls, and the start and end events built from them: the
  handle types of \<^verbatim>\<open>crates/core/src/api/{scope,tool,llm}.rs\<close> and the builders of
  \<^verbatim>\<open>crates/core/src/api/runtime/state.rs\<close>. The clock and the generator of UUIDs are read where the
  code reads them; their values are the arguments \<open>now\<close> and \<open>fresh\<close>. The optimization recorder
  an LLM handle carries is not part of the model.
\<close>

record scope_handle =
  sh_uuid :: uuid
  sh_started_at :: timestamp
  sh_scope_type :: scope_type
  sh_name :: string
  sh_data :: "json option"
  sh_metadata :: "json option"
  sh_attributes :: attribute_bits
  sh_parent_uuid :: "uuid option"

record tool_handle =
  th_uuid :: uuid
  th_started_at :: timestamp
  th_name :: string
  th_data :: "json option"
  th_metadata :: "json option"
  th_attributes :: attribute_bits
  th_parent_uuid :: "uuid option"
  th_tool_call_id :: "string option"

record llm_handle =
  lh_uuid :: uuid
  lh_started_at :: timestamp
  lh_name :: string
  lh_data :: "json option"
  lh_metadata :: "json option"
  lh_attributes :: attribute_bits
  lh_parent_uuid :: "uuid option"
  lh_model_name :: "string option"

record create_scope_handle_params =
  cs_name :: string
  cs_parent_uuid :: "uuid option"
  cs_scope_type :: scope_type
  cs_attributes :: attribute_bits
  cs_data :: "json option"
  cs_metadata :: "json option"
  cs_timestamp :: "timestamp option"

record create_tool_handle_params =
  ct_name :: string
  ct_parent_uuid :: "uuid option"
  ct_attributes :: attribute_bits
  ct_data :: "json option"
  ct_metadata :: "json option"
  ct_tool_call_id :: "string option"
  ct_timestamp :: "timestamp option"

record create_llm_handle_params =
  cl_name :: string
  cl_uuid :: "uuid option"
  cl_parent_uuid :: "uuid option"
  cl_attributes :: attribute_bits
  cl_data :: "json option"
  cl_metadata :: "json option"
  cl_model_name :: "string option"
  cl_timestamp :: "timestamp option"

record 'h end_handle_params =
  eh_handle :: 'h
  eh_data :: "json option"
  eh_metadata :: "json option"
  eh_timestamp :: "timestamp option"

abbreviation or_else :: "'a option \<Rightarrow> 'a \<Rightarrow> 'a" where
  "or_else x d \<equiv> (case x of Some v \<Rightarrow> v | None \<Rightarrow> d)"

text \<open>The event builder: the version is fixed and the propagation fields start empty.\<close>

definition base_event_build ::
    "uuid option \<Rightarrow> uuid \<Rightarrow> timestamp \<Rightarrow> string \<Rightarrow> json option \<Rightarrow> json option \<Rightarrow> base_event" where
  "base_event_build parent u ts name data metadata =
     \<lparr>atof_version = ATOF_VERSION, be_parent_uuid = parent, be_propagation_root_uuid = None,
      be_propagation_parent_uuid = None, be_uuid = u, be_timestamp = ts, be_name = name,
      be_data = data, be_data_schema = None, be_metadata = metadata\<rparr>"

text \<open>An end is at least one microsecond after its start.\<close>

definition end_timestamp_after :: "timestamp \<Rightarrow> timestamp \<Rightarrow> timestamp" where
  "end_timestamp_after now started_at = max now (started_at + 1000)"

section \<open>Scopes\<close>

definition create_scope_handle ::
    "uuid \<Rightarrow> timestamp \<Rightarrow> create_scope_handle_params \<Rightarrow> scope_handle" where
  "create_scope_handle fresh now p =
     \<lparr>sh_uuid = fresh, sh_started_at = or_else (cs_timestamp p) now,
      sh_scope_type = cs_scope_type p, sh_name = cs_name p, sh_data = cs_data p,
      sh_metadata = cs_metadata p, sh_attributes = cs_attributes p,
      sh_parent_uuid = cs_parent_uuid p\<rparr>"

definition build_scope_start_event :: "scope_handle \<Rightarrow> json option \<Rightarrow> event" where
  "build_scope_start_event h data = Scope (scope_event_new
     (base_event_build (sh_parent_uuid h) (sh_uuid h) (sh_started_at h) (sh_name h) data (sh_metadata h))
     Start (scope_attributes_to_strings (sh_attributes h)) (category_of_scope_type (sh_scope_type h))
     None)"

definition build_scope_end_event :: "timestamp \<Rightarrow> scope_handle end_handle_params \<Rightarrow> event" where
  "build_scope_end_event now p =
     (let h = eh_handle p
      in Scope (scope_event_new
        (base_event_build (sh_parent_uuid h) (sh_uuid h)
           (or_else (eh_timestamp p) (end_timestamp_after now (sh_started_at h))) (sh_name h)
           (eh_data p) (merge_json (sh_metadata h) (eh_metadata p)))
        End (scope_attributes_to_strings (sh_attributes h))
        (category_of_scope_type (sh_scope_type h)) None))"

definition end_scope_handle ::
    "timestamp \<Rightarrow> scope_handle \<Rightarrow> json option \<Rightarrow> json option \<Rightarrow> event" where
  "end_scope_handle now h data metadata = build_scope_end_event now
     \<lparr>eh_handle = h, eh_data = data, eh_metadata = metadata, eh_timestamp = None\<rparr>"

section \<open>Tool calls\<close>

definition tool_profile :: "tool_handle \<Rightarrow> category_profile" where
  "tool_profile h = default_profile\<lparr>cp_tool_call_id := th_tool_call_id h\<rparr>"

definition create_tool_handle ::
    "uuid \<Rightarrow> timestamp \<Rightarrow> create_tool_handle_params \<Rightarrow> tool_handle" where
  "create_tool_handle fresh now p =
     \<lparr>th_uuid = fresh, th_started_at = or_else (ct_timestamp p) now, th_name = ct_name p,
      th_data = ct_data p, th_metadata = ct_metadata p, th_attributes = ct_attributes p,
      th_parent_uuid = ct_parent_uuid p, th_tool_call_id = ct_tool_call_id p\<rparr>"

definition build_tool_start_event :: "tool_handle \<Rightarrow> json option \<Rightarrow> event" where
  "build_tool_start_event h data = Scope (scope_event_new
     (base_event_build (th_parent_uuid h) (th_uuid h) (th_started_at h) (th_name h) data (th_metadata h))
     Start (tool_attributes_to_strings (th_attributes h)) (EventCategory ''tool'')
     (Some (tool_profile h)))"

definition build_tool_end_event :: "timestamp \<Rightarrow> tool_handle end_handle_params \<Rightarrow> event" where
  "build_tool_end_event now p =
     (let h = eh_handle p
      in Scope (scope_event_new
        (base_event_build (th_parent_uuid h) (th_uuid h)
           (or_else (eh_timestamp p) (end_timestamp_after now (th_started_at h))) (th_name h)
           (eh_data p) (merge_json (th_metadata h) (eh_metadata p)))
        End (tool_attributes_to_strings (th_attributes h)) (EventCategory ''tool'')
        (Some (tool_profile h))))"

definition end_tool_handle ::
    "timestamp \<Rightarrow> tool_handle \<Rightarrow> json option \<Rightarrow> json option \<Rightarrow> event" where
  "end_tool_handle now h data metadata = build_tool_end_event now
     \<lparr>eh_handle = h, eh_data = data, eh_metadata = metadata, eh_timestamp = None\<rparr>"

section \<open>LLM calls\<close>

definition create_llm_handle ::
    "uuid \<Rightarrow> timestamp \<Rightarrow> create_llm_handle_params \<Rightarrow> llm_handle" where
  "create_llm_handle fresh now p =
     \<lparr>lh_uuid = or_else (cl_uuid p) fresh, lh_started_at = or_else (cl_timestamp p) now,
      lh_name = cl_name p, lh_data = cl_data p, lh_metadata = cl_metadata p,
      lh_attributes = cl_attributes p, lh_parent_uuid = cl_parent_uuid p,
      lh_model_name = cl_model_name p\<rparr>"

definition build_llm_start_event ::
    "llm_handle \<Rightarrow> json option \<Rightarrow> annotated_llm_request option \<Rightarrow> event" where
  "build_llm_start_event h data annotated = Scope (scope_event_new
     (base_event_build (lh_parent_uuid h) (lh_uuid h) (lh_started_at h) (lh_name h) data (lh_metadata h))
     Start (llm_attributes_to_strings (lh_attributes h)) (EventCategory ''llm'')
     (Some (default_profile\<lparr>cp_model_name := lh_model_name h, cp_annotated_request := annotated\<rparr>)))"

definition build_llm_end_event ::
    "timestamp \<Rightarrow> llm_handle end_handle_params \<Rightarrow> annotated_llm_response option \<Rightarrow> event" where
  "build_llm_end_event now p annotated =
     (let h = eh_handle p
      in Scope (scope_event_new
        (base_event_build (lh_parent_uuid h) (lh_uuid h)
           (or_else (eh_timestamp p) (end_timestamp_after now (lh_started_at h))) (lh_name h)
           (eh_data p) (merge_json (lh_metadata h) (eh_metadata p)))
        End (llm_attributes_to_strings (lh_attributes h)) (EventCategory ''llm'')
        (Some (default_profile\<lparr>cp_model_name := lh_model_name h, cp_annotated_response := annotated\<rparr>))))"

definition end_llm_handle ::
    "timestamp \<Rightarrow> llm_handle \<Rightarrow> json option \<Rightarrow> json option \<Rightarrow> annotated_llm_response option \<Rightarrow> event"
where
  "end_llm_handle now h data metadata annotated = build_llm_end_event now
     \<lparr>eh_handle = h, eh_data = data, eh_metadata = metadata, eh_timestamp = None\<rparr> annotated"

section \<open>The two events of a handle belong together\<close>

text \<open>
  An event span is a start and an end with the same identity; the end is strictly later and keeps
  every metadata field of the start that it does not overwrite.
\<close>

definition event_span :: "event \<Rightarrow> event \<Rightarrow> bool" where
  "event_span s e \<longleftrightarrow> is_scope_start s \<and> is_scope_end e \<and>
     be_uuid (base_of s) = be_uuid (base_of e) \<and>
     be_parent_uuid (base_of s) = be_parent_uuid (base_of e) \<and>
     be_name (base_of s) = be_name (base_of e) \<and>
     event_category_of s = event_category_of e \<and> event_attributes s = event_attributes e \<and>
     be_timestamp (base_of s) < be_timestamp (base_of e)"

lemmas event_build_defs =
  build_scope_start_event_def build_scope_end_event_def end_scope_handle_def
  build_tool_start_event_def build_tool_end_event_def end_tool_handle_def
  build_llm_start_event_def build_llm_end_event_def end_llm_handle_def
  base_event_build_def scope_event_new_def end_timestamp_after_def Let_def

text \<open>
  The start and the end event of a scope, a tool call or an LLM call form a span, whatever the
  clock reads in between, also when it runs backwards: same UUID, parent, name, category and
  attributes, and an end strictly after the start.
\<close>

lemma handle_events_span:
  "event_span (build_scope_start_event sh d1) (end_scope_handle now sh d2 m) \<and>
   event_span (build_tool_start_event th d1) (end_tool_handle now th d2 m) \<and>
   event_span (build_llm_start_event lh d1 aq) (end_llm_handle now lh d2 m ar)"
  by (simp add: event_span_def event_build_defs is_scope_start_def is_scope_end_def less_max_iff_disj)

text \<open>
  The end event of a scope carries the metadata of its start, updated by the metadata of the
  end: a key of the end wins, and every other key of the start is kept.
\<close>

lemma end_metadata_overlays_start:
  assumes "sh_metadata h = Some (JObject ms)" "bt_ok ms" "bt_ok me"
  shows "\<exists>m. be_metadata (base_of (end_scope_handle now h d (Some (JObject me)))) = Some (JObject m) \<and>
     bt_ok m \<and> map_of m = map_of ms ++ map_of me"
proof -
  have "be_metadata (base_of (end_scope_handle now h d (Some (JObject me)))) =
      Some (JObject (bt_extend me ms))"
    using assms(1) by (simp add: event_build_defs)
  moreover have "map_of (bt_extend me ms) = map_of ms ++ map_of me"
    using bt_ok_distinct [OF assms(3)]
    by (simp add: fun_eq_iff map_of_bt_extend map_add_def)
  ultimately show ?thesis using assms(2) by (simp add: bt_ok_extend)
qed

end
