(* ===== verification/Runtime_Owner.thy ===== *)
theory Runtime_Owner
  imports Flow_Errors
begin

text \<open>
  The process-wide ownership guard (\<^verbatim>\<open>crates/core/src/shared_runtime.rs\<close>): the owner token kept in
  the environment variable \<^verbatim>\<open>NEMO_RELAY_RUNTIME_OWNER\<close>, its parser and printer, the claim that
  every public operation makes first, and the registration of a language binding.

  The process is a record: its identifier, the crate version, the two environment variables and
  the mutex-guarded binding kind of the controller. Process identifiers are \<^verbatim>\<open>u32\<close>; the parser
  rejects what does not fit. Values that messages quote with \<^verbatim>\<open>{:?}\<close> are put between double
  quotes; the escape sequences of \<^verbatim>\<open>Debug\<close> are left out, and so is the cause that the message
  about a bad process identifier ends with, which the only caller of the parser discards.
\<close>

record runtime_owner =
  ro_pid :: nat
  ro_binding_kind :: string
  ro_major_version :: string

abbreviation debug_str :: "string \<Rightarrow> string" where
  "debug_str v \<equiv> CHR 0x22 # v @ [CHR 0x22]"

datatype owner_error =
    InvalidPid string | EmptyBinding | InvalidVersion string
  | MissingPid | MissingBinding | MissingVersion

fun owner_error_flow :: "owner_error \<Rightarrow> flow_error" where
  "owner_error_flow (InvalidPid v) = Internal (''invalid NeMo Relay owner token pid '' @ debug_str v)"
| "owner_error_flow EmptyBinding =
     Internal ''invalid NeMo Relay owner token: binding kind is empty''"
| "owner_error_flow (InvalidVersion v) = Internal (''invalid NeMo Relay version '' @ debug_str v @
     '': expected a semver-compatible major'')"
| "owner_error_flow MissingPid = Internal ''invalid NeMo Relay owner token: missing pid''"
| "owner_error_flow MissingBinding = Internal ''invalid NeMo Relay owner token: missing binding''"
| "owner_error_flow MissingVersion = Internal ''invalid NeMo Relay owner token: missing version''"

section \<open>Tokens\<close>

text \<open>
  \<^verbatim>\<open>str::parse::<u32>\<close>: an optional plus sign, then at least one digit, and a value below \<open>2\<^sup>3\<^sup>2\<close>.
\<close>

definition parse_u32 :: "string \<Rightarrow> nat option" where
  "parse_u32 s =
     (let ds = (case s of [] \<Rightarrow> [] | c # r \<Rightarrow> if c = CHR ''+'' then r else s)
      in if ds \<noteq> [] \<and> list_all is_ascii_digit ds \<and> read_digits ds < 2 ^ 32
         then Some (read_digits ds) else None)"

definition compatibility_major_version :: "string \<Rightarrow> owner_error + string" where
  "compatibility_major_version version =
     (let value = hd (split_on CHR ''.'' version)
      in if value \<noteq> [] \<and> list_all is_ascii_digit value then Inr value
         else Inl (InvalidVersion version))"

text \<open>The loop over the fields of a token; the last occurrence of a field wins.\<close>

fun parse_fields ::
    "string list \<Rightarrow> nat option \<Rightarrow> string option \<Rightarrow> string option \<Rightarrow>
     owner_error + (nat option \<times> string option \<times> string option)" where
  "parse_fields [] pid binding version = Inr (pid, binding, version)"
| "parse_fields (field # rest) pid binding version =
     (case strip_prefix ''pid='' field of
        Some value \<Rightarrow> (case parse_u32 value of
            None \<Rightarrow> Inl (InvalidPid value)
          | Some n \<Rightarrow> parse_fields rest (Some n) binding version)
      | None \<Rightarrow> (case strip_prefix ''binding='' field of
          Some value \<Rightarrow> if value = [] then Inl EmptyBinding
            else parse_fields rest pid (Some value) version
        | None \<Rightarrow> (case strip_prefix ''version='' field of
            Some value \<Rightarrow> (case compatibility_major_version value of
                Inl e \<Rightarrow> Inl e
              | Inr v \<Rightarrow> parse_fields rest pid binding (Some v))
          | None \<Rightarrow> parse_fields rest pid binding version)))"

definition parse_owner :: "string \<Rightarrow> owner_error + runtime_owner" where
  "parse_owner token = (case parse_fields (split_on CHR '';'' token) None None None of
       Inl e \<Rightarrow> Inl e
     | Inr (None, _, _) \<Rightarrow> Inl MissingPid
     | Inr (Some _, None, _) \<Rightarrow> Inl MissingBinding
     | Inr (Some _, Some _, None) \<Rightarrow> Inl MissingVersion
     | Inr (Some pid, Some binding, Some version) \<Rightarrow>
         Inr \<lparr>ro_pid = pid, ro_binding_kind = binding, ro_major_version = version\<rparr>)"

definition owner_token_of :: "runtime_owner \<Rightarrow> string" where
  "owner_token_of ow = ''pid='' @ show_nat (ro_pid ow) @ '';binding='' @ ro_binding_kind ow @
     '';version='' @ ro_major_version ow"

definition same_owner :: "runtime_owner \<Rightarrow> runtime_owner \<Rightarrow> bool" where
  "same_owner a b \<longleftrightarrow> ro_pid a = ro_pid b \<and> ro_binding_kind a = ro_binding_kind b \<and>
     ro_major_version a = ro_major_version b"

definition display_owner :: "runtime_owner \<Rightarrow> string" where
  "display_owner ow = ro_binding_kind ow @ ''@'' @ ro_major_version ow @ '' pid='' @
     show_nat (ro_pid ow)"

section \<open>The process and the claim\<close>

record process =
  pr_pid :: nat
  pr_version :: string
  env_binding_kind :: "string option"
  env_owner_token :: "string option"
  controller :: "string option rwlock"

definition owner_current :: "process \<Rightarrow> string \<Rightarrow> owner_error + runtime_owner" where
  "owner_current p binding = (case compatibility_major_version (pr_version p) of
       Inl e \<Rightarrow> Inl e
     | Inr v \<Rightarrow> Inr \<lparr>ro_pid = pr_pid p, ro_binding_kind = binding, ro_major_version = v\<rparr>)"

definition resolve_binding_kind :: "process \<Rightarrow> string option \<Rightarrow> string" where
  "resolve_binding_kind p kind = (case kind of
       Some k \<Rightarrow> k
     | None \<Rightarrow> (case env_binding_kind p of Some k \<Rightarrow> k | None \<Rightarrow> ''rust''))"

definition clear_process_runtime_owner :: "process \<Rightarrow> process" where
  "clear_process_runtime_owner p = p\<lparr>env_owner_token := None\<rparr>"

definition publish_process_runtime_owner :: "runtime_owner \<Rightarrow> process \<Rightarrow> process" where
  "publish_process_runtime_owner ow p = p\<lparr>env_owner_token := Some (owner_token_of ow)\<rparr>"

definition read_process_runtime_owner :: "process \<Rightarrow> runtime_owner option \<times> process" where
  "read_process_runtime_owner p = (case env_owner_token p of
       None \<Rightarrow> (None, p)
     | Some token \<Rightarrow> if token = [] then (None, p) else
         (case parse_owner token of
            Inr ow \<Rightarrow> (Some ow, p)
          | Inl _ \<Rightarrow> (None, clear_process_runtime_owner p)))"

definition ensure_process_runtime_owner :: "process \<Rightarrow> unit flow_result \<times> process" where
  "ensure_process_runtime_owner p = (case controller p of
       Poisoned m _ \<Rightarrow> (Inl (Internal (''runtime owner controller lock poisoned: '' @ m)), p)
     | Healthy kind \<Rightarrow>
         (case owner_current p (resolve_binding_kind p kind) of
            Inl e \<Rightarrow> (Inl (owner_error_flow e), p)
          | Inr current \<Rightarrow>
              (case read_process_runtime_owner p of
                 (Some existing, p) \<Rightarrow>
                   if same_owner existing current then (Inr (), p)
                   else if ro_pid existing \<noteq> ro_pid current
                   then (Inr (), publish_process_runtime_owner current p)
                   else (Inl (InvalidArgument
                     (''NeMo Relay does not support multiple bindings in one process; existing owner='' @
                      display_owner existing @ '' attempted='' @ display_owner current)), p)
               | (None, p) \<Rightarrow> (Inr (), publish_process_runtime_owner current p))))"

definition initialize_shared_runtime_binding ::
    "string \<Rightarrow> process \<Rightarrow> unit flow_result \<times> process" where
  "initialize_shared_runtime_binding binding p = (case controller p of
       Poisoned m _ \<Rightarrow> (Inl (Internal (''runtime owner controller lock poisoned: '' @ m)), p)
     | Healthy previous \<Rightarrow>
         if previous \<noteq> None \<and> previous \<noteq> Some binding
         then (Inl (InvalidArgument (''NeMo Relay binding identity is already initialized as '' @
                the previous @ ''; attempted='' @ binding)), p)
         else
           (let claimed = p\<lparr>controller := Healthy (Some (case previous of Some k \<Rightarrow> k | None \<Rightarrow> binding))\<rparr>
            in case ensure_process_runtime_owner claimed of
                 (Inr _, p') \<Rightarrow> (Inr (), p')
               | (Inl e, p') \<Rightarrow>
                   if previous = None
                   then (case controller p' of
                       Poisoned m _ \<Rightarrow>
                         (Inl (Internal (''runtime owner controller lock poisoned: '' @ m)), p')
                     | Healthy kind \<Rightarrow>
                         (Inl e, if kind = Some binding then p'\<lparr>controller := Healthy None\<rparr> else p'))
                   else (Inl e, p')))"

section \<open>Round trip of tokens\<close>

definition owner_ok :: "runtime_owner \<Rightarrow> bool" where
  "owner_ok ow \<longleftrightarrow> ro_pid ow < 2 ^ 32 \<and>
     ro_binding_kind ow \<noteq> [] \<and> CHR '';'' \<notin> set (ro_binding_kind ow) \<and>
     ro_major_version ow \<noteq> [] \<and> list_all is_ascii_digit (ro_major_version ow)"

lemma digits_no_char:
  "list_all is_ascii_digit s \<Longrightarrow> \<not> is_ascii_digit c \<Longrightarrow> c \<notin> set s"
  by (auto simp: list_all_iff)

lemma list_all_show_nat: "list_all is_ascii_digit (show_nat n)"
  by (simp add: list_all_iff show_nat_digits)

lemma parse_u32_show: "n < 2 ^ 32 \<Longrightarrow> parse_u32 (show_nat n) = Some n"
proof -
  assume n: "n < 2 ^ 32"
  obtain c r where s: "show_nat n = c # r" by (cases "show_nat n") auto
  have "is_ascii_digit c" using show_nat_digits [of c n] s by simp
  then have "c \<noteq> CHR ''+''" by (auto simp: is_ascii_digit_def)
  then show ?thesis
    using n s list_all_show_nat [of n] read_show_nat [of n] by (simp add: parse_u32_def)
qed

lemma compatibility_major_version_digits:
  assumes "v \<noteq> []" "list_all is_ascii_digit v"
  shows "compatibility_major_version v = Inr v"
proof -
  have "CHR ''.'' \<notin> set v" by (rule digits_no_char [OF assms(2)]) (simp add: is_ascii_digit_def)
  then show ?thesis using assms by (simp add: compatibility_major_version_def split_on_no_sep)
qed

lemma split_owner_token:
  assumes "owner_ok ow"
  shows "split_on CHR '';'' (owner_token_of ow) =
     [''pid='' @ show_nat (ro_pid ow), ''binding='' @ ro_binding_kind ow,
      ''version='' @ ro_major_version ow]"
proof -
  have nd: "\<not> is_ascii_digit CHR '';''" by (simp add: is_ascii_digit_def)
  have "CHR '';'' \<notin> set (''pid='' @ show_nat (ro_pid ow))"
    using digits_no_char [OF list_all_show_nat nd, of "ro_pid ow"] by simp
  moreover have "CHR '';'' \<notin> set (''binding='' @ ro_binding_kind ow)"
    using assms by (simp add: owner_ok_def)
  moreover have "CHR '';'' \<notin> set (''version='' @ ro_major_version ow)"
    using digits_no_char [OF _ nd, of "ro_major_version ow"] assms by (simp add: owner_ok_def)
  moreover have "owner_token_of ow = (''pid='' @ show_nat (ro_pid ow)) @ CHR '';'' #
      ((''binding='' @ ro_binding_kind ow) @ CHR '';'' # (''version='' @ ro_major_version ow))"
    by (simp add: owner_token_of_def)
  ultimately show ?thesis by (simp only: split_on_append_sep split_on_no_sep not_False_eq_True)
qed

lemma strip_prefix_simps:
  "strip_prefix ''pid='' (''pid='' @ s) = Some s"
  "strip_prefix ''pid='' (''binding='' @ s) = None"
  "strip_prefix ''pid='' (''version='' @ s) = None"
  "strip_prefix ''binding='' (''binding='' @ s) = Some s"
  "strip_prefix ''binding='' (''version='' @ s) = None"
  "strip_prefix ''version='' (''version='' @ s) = Some s"
  by (simp_all add: strip_prefix_def)

lemma parse_owner_token:
  assumes "owner_ok ow"
  shows "parse_owner (owner_token_of ow) = Inr ow"
  using assms parse_u32_show [of "ro_pid ow"] compatibility_major_version_digits [of "ro_major_version ow"]
  by (simp add: parse_owner_def split_owner_token strip_prefix_simps owner_ok_def
      del: append_Cons append_Nil)

lemma owner_token_neq_Nil: "owner_token_of ow \<noteq> []"
  by (simp add: owner_token_of_def)

lemma read_published:
  "owner_ok ow \<Longrightarrow> read_process_runtime_owner (publish_process_runtime_owner ow p) =
     (Some ow, publish_process_runtime_owner ow p)"
  by (simp add: read_process_runtime_owner_def publish_process_runtime_owner_def
      owner_token_neq_Nil parse_owner_token)

section \<open>Claims\<close>

definition claims :: "process \<Rightarrow> runtime_owner \<Rightarrow> bool" where
  "claims p ow \<longleftrightarrow> (\<exists>kind. controller p = Healthy kind \<and>
     owner_current p (resolve_binding_kind p kind) = Inr ow)"

lemma read_process_frame:
  "read_process_runtime_owner p = (ow, p') \<Longrightarrow>
     p' = p \<or> p' = clear_process_runtime_owner p"
  by (auto simp: read_process_runtime_owner_def split: option.splits sum.splits if_splits)

lemma owner_current_token_irrelevant [simp]:
  "owner_current (p\<lparr>env_owner_token := t\<rparr>) b = owner_current p b"
  "resolve_binding_kind (p\<lparr>env_owner_token := t\<rparr>) k = resolve_binding_kind p k"
  by (simp_all add: owner_current_def resolve_binding_kind_def split: sum.split option.split)

text \<open>The facts that evaluate a claim on a concrete process.\<close>

lemma char_of_55: "char_of (55 :: nat) = CHR ''7''"
  by code_simp

lemmas owner_eval =
  ensure_process_runtime_owner_def owner_current_def resolve_binding_kind_def
  compatibility_major_version_def is_ascii_digit_def read_process_runtime_owner_def
  publish_process_runtime_owner_def clear_process_runtime_owner_def owner_token_of_def
  parse_owner_def strip_prefix_def parse_u32_def read_digits_def digit_value_def same_owner_def
  show_nat.simps [of 7] char_of_55 initialize_shared_runtime_binding_def

text \<open>A successful claim leaves the token of the claimant, or the token it found and matched.\<close>

lemma ensure_success_cases:
  assumes "claims p ow" "ensure_process_runtime_owner p = (Inr (), p')"
  shows "p' = publish_process_runtime_owner ow p \<or>
     (p' = p \<and> read_process_runtime_owner p = (Some ow, p))"
proof -
  obtain kind where k: "controller p = Healthy kind"
      "owner_current p (resolve_binding_kind p kind) = Inr ow"
    using assms(1) by (auto simp: claims_def)
  obtain found q where r: "read_process_runtime_owner p = (found, q)" by force
  have q: "publish_process_runtime_owner ow q = publish_process_runtime_owner ow p"
    using read_process_frame [OF r]
    by (auto simp: publish_process_runtime_owner_def clear_process_runtime_owner_def)
  have "found = Some ow \<Longrightarrow> q = p"
    using r by (auto simp: read_process_runtime_owner_def split: option.splits sum.splits if_splits)
  moreover have "same_owner e ow \<Longrightarrow> e = ow" for e by (simp add: same_owner_def)
  ultimately show ?thesis
    using assms(2) k r q
    by (auto simp: ensure_process_runtime_owner_def split: option.splits if_splits)
qed

lemma ensure_reads_back:
  assumes "claims p ow" "owner_ok ow" "ensure_process_runtime_owner p = (Inr (), p')"
  shows "read_process_runtime_owner p' = (Some ow, p')"
  using ensure_success_cases [OF assms(1,3)] read_published [OF assms(2), of p] by auto

lemma claims_token_irrelevant [simp]:
  "claims (publish_process_runtime_owner w p) ow = claims p ow"
  by (simp add: claims_def publish_process_runtime_owner_def)

lemma ensure_no_change:
  assumes "claims p ow" "read_process_runtime_owner p = (Some ow, p)"
  shows "ensure_process_runtime_owner p = (Inr (), p)"
  using assms by (auto simp: claims_def ensure_process_runtime_owner_def same_owner_def)

text \<open>
  Round trip of the owner token: a token printed for an owner whose binding kind is not
  empty and has no semicolon, whose version is a decimal major and whose process identifier is
  a 32-bit value parses back to exactly that owner.
\<close>

lemma owner_token_roundtrip:
  assumes "owner_ok ow"
  shows "parse_owner (owner_token_of ow) = Inr ow"
  using assms by (rule parse_owner_token)

text \<open>
  The guard admits one binding per process: once a claim by an owner with a printable
  binding kind has succeeded, repeating it succeeds and changes nothing, and a claim made in the
  same process under any other binding kind is refused with an argument error and changes
  nothing.
\<close>

lemma ensure_owner_exclusive:
  assumes "claims p ow" "owner_ok ow" "ensure_process_runtime_owner p = (Inr (), p')"
    and "other \<noteq> ro_binding_kind ow"
  shows "ensure_process_runtime_owner p' = (Inr (), p') \<and>
     (\<exists>m. ensure_process_runtime_owner (p'\<lparr>controller := Healthy (Some other)\<rparr>) =
        (Inl (InvalidArgument m), p'\<lparr>controller := Healthy (Some other)\<rparr>))"
proof -
  have rb: "read_process_runtime_owner p' = (Some ow, p')"
    by (rule ensure_reads_back [OF assms(1-3)])
  have cl: "claims p' ow" using ensure_success_cases [OF assms(1,3)] assms(1) by auto
  let ?q = "p'\<lparr>controller := Healthy (Some other)\<rparr>"
  have "read_process_runtime_owner ?q = (Some ow, ?q)"
    using rb by (auto simp: read_process_runtime_owner_def clear_process_runtime_owner_def
        split: option.splits sum.splits if_splits)
  moreover have "owner_current ?q other = Inr (ow\<lparr>ro_binding_kind := other\<rparr>)"
    using cl by (auto simp: claims_def owner_current_def split: sum.splits)
  ultimately have "\<exists>m. ensure_process_runtime_owner ?q = (Inl (InvalidArgument m), ?q)"
    using assms(4) by (simp add: ensure_process_runtime_owner_def resolve_binding_kind_def
        same_owner_def)
  then show ?thesis using ensure_no_change [OF cl rb] by blast
qed

text \<open>
  The guard does not hold for an empty binding kind, which the environment variable
  \<^verbatim>\<open>NEMO_RELAY_BINDING_KIND\<close> can supply: the token it publishes does not parse, so the next
  binding of the same process clears it and claims the runtime as well. Both claims succeed.
\<close>

lemma empty_binding_defeats_guard:
  "let p = \<lparr>pr_pid = 7, pr_version = ''0.7.0'', env_binding_kind = Some [],
            env_owner_token = None, controller = Healthy None\<rparr>;
       (r1, p1) = ensure_process_runtime_owner p;
       (r2, p2) = ensure_process_runtime_owner (p1\<lparr>controller := Healthy (Some ''python'')\<rparr>)
   in r1 = Inr () \<and> r2 = Inr () \<and> parse_owner (the (env_owner_token p1)) = Inl EmptyBinding"
  by (simp add: owner_eval)

text \<open>
  A failed binding registration is undone: whenever \<^verbatim>\<open>initialize_shared_runtime_binding\<close>
  returns an error, the controller still holds the binding kind it held before the call.
\<close>

lemma initialize_rollback:
  assumes "initialize_shared_runtime_binding binding p = (Inl e, p')"
  shows "controller p' = controller p"
proof (cases "controller p")
  case (Poisoned m x)
  then show ?thesis using assms by (simp add: initialize_shared_runtime_binding_def)
next
  case (Healthy previous)
  have frame: "controller (snd (ensure_process_runtime_owner q)) = controller q" for q
    by (auto simp: ensure_process_runtime_owner_def publish_process_runtime_owner_def
        read_process_runtime_owner_def clear_process_runtime_owner_def
        split: rwlock.splits sum.splits option.splits)
  let ?k = "Healthy (Some (case previous of Some k \<Rightarrow> k | None \<Rightarrow> binding))"
  obtain r q where r: "ensure_process_runtime_owner (p\<lparr>controller := ?k\<rparr>) = (r, q)" by force
  then have "controller q = ?k" using frame [of "p\<lparr>controller := ?k\<rparr>"] by simp
  then show ?thesis
    using assms Healthy r
    by (auto simp: initialize_shared_runtime_binding_def Let_def split: if_splits sum.splits)
qed

end
