(* ===== verification/Plugin_Names.thy ===== *)
theory Plugin_Names
  imports Runtime_Owner
begin

text \<open>
  Effective names of plugin registrations (\<^verbatim>\<open>crates/core/src/plugin.rs\<close>): the namespace a plugin
  component registers under, the percent encoding of its fields, and the decoder that reads the
  owner of a registration back from its name.
\<close>

section \<open>UTF-8\<close>

text \<open>\<^verbatim>\<open>String::from_utf8\<close> on the byte values, with the ranges of the Unicode standard.\<close>

abbreviation utf8_tail :: "nat \<Rightarrow> bool" where
  "utf8_tail b \<equiv> 128 \<le> b \<and> b \<le> 191"

fun valid_utf8_bytes :: "nat list \<Rightarrow> bool" where
  "valid_utf8_bytes [] = True"
| "valid_utf8_bytes (a # r) =
     (if a < 128 then valid_utf8_bytes r
      else case r of [] \<Rightarrow> False | b # r1 \<Rightarrow>
        if 194 \<le> a \<and> a \<le> 223 then utf8_tail b \<and> valid_utf8_bytes r1
        else case r1 of [] \<Rightarrow> False | c # r2 \<Rightarrow>
          if 224 \<le> a \<and> a \<le> 239
          then (if a = 224 then 160 \<le> b \<and> b \<le> 191
                else if a = 237 then 128 \<le> b \<and> b \<le> 159 else utf8_tail b) \<and>
               utf8_tail c \<and> valid_utf8_bytes r2
          else case r2 of [] \<Rightarrow> False | d # r3 \<Rightarrow>
            240 \<le> a \<and> a \<le> 244 \<and>
            (if a = 240 then 144 \<le> b \<and> b \<le> 191
             else if a = 244 then 128 \<le> b \<and> b \<le> 143 else utf8_tail b) \<and>
            utf8_tail c \<and> utf8_tail d \<and> valid_utf8_bytes r3)"

definition valid_utf8 :: "string \<Rightarrow> bool" where
  "valid_utf8 s = valid_utf8_bytes (map of_char s)"

section \<open>Field encoding\<close>

definition unreserved :: "char \<Rightarrow> bool" where
  "unreserved c \<longleftrightarrow> is_ascii_alphanumeric c \<or> c \<in> {CHR ''-'', CHR ''.'', CHR ''_'', CHR ''~''}"

definition HEX :: string where "HEX = ''0123456789ABCDEF''"

definition encode_byte :: "char \<Rightarrow> string" where
  "encode_byte b =
     (if unreserved b then [b]
      else [CHR ''%'', HEX ! (of_char b div 16), HEX ! (of_char b mod 16)])"

definition encode_plugin_component_field :: "string \<Rightarrow> string" where
  "encode_plugin_component_field value = concat (map encode_byte value)"

definition hex_value :: "char \<Rightarrow> nat option" where
  "hex_value c =
     (let n = (of_char c :: nat)
      in if 48 \<le> n \<and> n \<le> 57 then Some (n - 48)
         else if 65 \<le> n \<and> n \<le> 70 then Some (n - 65 + 10)
         else if 97 \<le> n \<and> n \<le> 102 then Some (n - 97 + 10)
         else None)"

text \<open>The loop over the bytes; \<open>16 * h + l\<close> is \<^verbatim>\<open>(h << 4) | l\<close>, since both are below 16.\<close>

fun decode_bytes :: "string \<Rightarrow> string option" where
  "decode_bytes [] = Some []"
| "decode_bytes (b # r) =
     (if b = CHR ''%''
      then (case r of h # l # r2 \<Rightarrow>
          (case (hex_value h, hex_value l) of
             (Some x, Some y) \<Rightarrow> map_option ((#) (char_of (16 * x + y))) (decode_bytes r2)
           | _ \<Rightarrow> None)
        | _ \<Rightarrow> None)
      else if unreserved b then map_option ((#) b) (decode_bytes r)
      else None)"

definition decode_plugin_component_field :: "string \<Rightarrow> string option" where
  "decode_plugin_component_field encoded = (case decode_bytes encoded of
       None \<Rightarrow> None
     | Some decoded \<Rightarrow>
         if valid_utf8 decoded \<and> encode_plugin_component_field decoded = encoded
         then Some decoded else None)"

section \<open>Namespaces\<close>

definition component_namespace :: "string \<Rightarrow> nat \<Rightarrow> string" where
  "component_namespace kind ordinal =
     ''nemo-relay-plugin.v1.'' @ encode_plugin_component_field kind @ '':'' @ show_nat ordinal @ '':''"

datatype plugin_registration_namespace = Plain string | PluginComponent string

definition child_namespace ::
    "plugin_registration_namespace option \<Rightarrow> string \<Rightarrow> plugin_registration_namespace" where
  "child_namespace namespace local = (case namespace of
       Some (Plain ns) \<Rightarrow> Plain (ns @ local)
     | Some (PluginComponent ns) \<Rightarrow> PluginComponent (ns @ encode_plugin_component_field local)
     | None \<Rightarrow> Plain local)"

definition qualify_name :: "plugin_registration_namespace option \<Rightarrow> string \<Rightarrow> string" where
  "qualify_name namespace name = (case namespace of
       Some (Plain ns) \<Rightarrow> ns @ name
     | Some (PluginComponent ns) \<Rightarrow> ns @ encode_plugin_component_field name
     | None \<Rightarrow> name)"

definition split_once :: "char \<Rightarrow> string \<Rightarrow> (string \<times> string) option" where
  "split_once c s = (if c \<in> set s
     then Some (takeWhile (\<lambda>x. x \<noteq> c) s, tl (dropWhile (\<lambda>x. x \<noteq> c) s)) else None)"

definition decode_plugin_component_effective_name ::
    "string \<Rightarrow> (string \<times> nat \<times> string) option" where
  "decode_plugin_component_effective_name effective_name =
     (case strip_prefix ''nemo-relay-plugin.v1.'' effective_name of None \<Rightarrow> None | Some rest \<Rightarrow>
     (case split_once CHR '':'' rest of None \<Rightarrow> None | Some (encoded_kind, rest) \<Rightarrow>
     (case split_once CHR '':'' rest of None \<Rightarrow> None | Some (ordinal_text, encoded_local_name) \<Rightarrow>
     (case parse_u32 ordinal_text of None \<Rightarrow> None | Some ordinal \<Rightarrow>
        if ordinal = 0 \<or> show_nat ordinal \<noteq> ordinal_text then None
        else (case decode_plugin_component_field encoded_kind of None \<Rightarrow> None | Some plugin_kind \<Rightarrow>
             (case decode_plugin_component_field encoded_local_name of None \<Rightarrow> None | Some local_name \<Rightarrow>
                if plugin_kind \<noteq> [] \<and> local_name \<noteq> []
                then Some (plugin_kind, ordinal, local_name) else None))))))"

section \<open>Round trip\<close>

lemma HEX_digits:
  "\<forall>n \<in> set [0..<16]. hex_value (HEX ! n) = Some n \<and> unreserved (HEX ! n)"
  by code_simp

lemma hex_value_HEX: "n < 16 \<Longrightarrow> hex_value (HEX ! n) = Some n"
  and HEX_unreserved: "n < 16 \<Longrightarrow> unreserved (HEX ! n)"
  using HEX_digits by (auto simp del: upt_Suc set_upt simp: atLeastLessThan_upt [symmetric])

lemma percent_not_unreserved [simp]: "\<not> unreserved CHR ''%''"
  by (simp add: unreserved_def is_ascii_alphanumeric_def)

lemma colon_not_unreserved [simp]: "\<not> unreserved CHR '':''"
  by (simp add: unreserved_def is_ascii_alphanumeric_def)

lemma of_char_less: "(of_char c :: nat) < 256"
  by (metis mod_less_divisor of_char_mod_256 zero_less_numeral)

lemma decode_encode_bytes: "decode_bytes (encode_plugin_component_field s) = Some s"
proof (induction s)
  case (Cons b s)
  have "char_of (16 * (of_char b div 16 :: nat) + of_char b mod 16) = b" by simp
  moreover have "(of_char b div 16 :: nat) < 16" using of_char_less [of b] by linarith
  ultimately show ?case using Cons
    by (auto simp: encode_plugin_component_field_def encode_byte_def hex_value_HEX)
qed (simp add: encode_plugin_component_field_def)

lemma encode_chars:
  assumes "c \<in> set (encode_plugin_component_field s)"
  shows "unreserved c \<or> c = CHR ''%''"
proof -
  obtain b where "c \<in> set (encode_byte b)"
    using assms by (auto simp: encode_plugin_component_field_def)
  moreover have "(of_char b div 16 :: nat) < 16" using of_char_less [of b] by linarith
  ultimately show ?thesis
    using HEX_unreserved by (auto simp: encode_byte_def split: if_splits)
qed

lemma encode_no_colon: "CHR '':'' \<notin> set (encode_plugin_component_field s)"
  using encode_chars [of "CHR '':''" s] by auto

lemma encode_append:
  "encode_plugin_component_field (s @ t) =
     encode_plugin_component_field s @ encode_plugin_component_field t"
  by (simp add: encode_plugin_component_field_def)

lemma decode_field_iff:
  "decode_plugin_component_field x = Some s \<longleftrightarrow>
     valid_utf8 s \<and> x = encode_plugin_component_field s"
  using decode_encode_bytes [of s]
  by (auto simp: decode_plugin_component_field_def split: option.splits if_splits)

lemma split_once_iff:
  "split_once c s = Some (a, b) \<longleftrightarrow> c \<notin> set a \<and> s = a @ c # b"
proof
  assume "split_once c s = Some (a, b)"
  then have c: "c \<in> set s" "a = takeWhile (\<lambda>x. x \<noteq> c) s" "b = tl (dropWhile (\<lambda>x. x \<noteq> c) s)"
    by (auto simp: split_once_def split: if_splits)
  then obtain r where "dropWhile (\<lambda>x. x \<noteq> c) s = c # r"
    by (cases "dropWhile (\<lambda>x. x \<noteq> c) s") (auto simp: dropWhile_eq_Nil_conv dropWhile_eq_Cons_conv)
  then have "s = a @ c # b" using c takeWhile_dropWhile_id [of "\<lambda>x. x \<noteq> c" s] by simp
  then show "c \<notin> set a \<and> s = a @ c # b" using c(2) set_takeWhileD [of c "\<lambda>x. x \<noteq> c" s] by auto
next
  assume "c \<notin> set a \<and> s = a @ c # b"
  then show "split_once c s = Some (a, b)"
    by (auto simp: split_once_def takeWhile_append dropWhile_append)
qed

lemma strip_prefix_iff: "strip_prefix p s = Some r \<longleftrightarrow> s = p @ r"
  by (auto simp: strip_prefix_def) (metis append_take_drop_id)

text \<open>
  C15. Effective names of plugin registrations are unambiguous: a name decodes to a plugin kind,
  an ordinal and a local name exactly when it is the name the runtime builds for them, and the
  fields are those the runtime allows (non-empty UTF-8 strings, an ordinal from 1 that fits 32
  bits). So two registrations share a name only when all three fields agree, and no name made by
  another API is taken for a plugin's.
\<close>

theorem effective_name_decode_iff:
  "decode_plugin_component_effective_name x = Some (kind, ordinal, local) \<longleftrightarrow>
     kind \<noteq> [] \<and> local \<noteq> [] \<and> valid_utf8 kind \<and> valid_utf8 local \<and> 0 < ordinal \<and> ordinal < 2 ^ 32 \<and>
     x = qualify_name (Some (PluginComponent (component_namespace kind ordinal))) local"
  (is "?l \<longleftrightarrow> ?r")
proof
  assume ?l
  then obtain rest ek rest2 ot el where p:
      "strip_prefix ''nemo-relay-plugin.v1.'' x = Some rest"
      "split_once CHR '':'' rest = Some (ek, rest2)" "split_once CHR '':'' rest2 = Some (ot, el)"
      "parse_u32 ot = Some ordinal" "0 < ordinal" "show_nat ordinal = ot"
      "decode_plugin_component_field ek = Some kind" "decode_plugin_component_field el = Some local"
      "kind \<noteq> []" "local \<noteq> []"
    unfolding decode_plugin_component_effective_name_def
    by (auto split: option.splits if_splits)
  have "ordinal < 2 ^ 32" using p(4) by (auto simp: parse_u32_def Let_def split: if_splits)
  then show ?r
    using p(1-3,5-) unfolding strip_prefix_iff split_once_iff decode_field_iff
    by (auto simp: qualify_name_def component_namespace_def)
next
  assume r: ?r
  have colon: "CHR '':'' \<notin> set (show_nat ordinal)"
    using show_nat_digits [of "CHR '':''" ordinal] by (auto simp: is_ascii_digit_def)
  let ?el = "encode_plugin_component_field local" and ?ek = "encode_plugin_component_field kind"
  have "strip_prefix ''nemo-relay-plugin.v1.'' x =
      Some (?ek @ CHR '':'' # show_nat ordinal @ CHR '':'' # ?el)"
    using r by (simp only: strip_prefix_iff) (simp add: qualify_name_def component_namespace_def)
  moreover have "split_once CHR '':'' (?ek @ CHR '':'' # show_nat ordinal @ CHR '':'' # ?el) =
      Some (?ek, show_nat ordinal @ CHR '':'' # ?el)"
    using encode_no_colon by (simp add: split_once_iff)
  moreover have "split_once CHR '':'' (show_nat ordinal @ CHR '':'' # ?el) = Some (show_nat ordinal, ?el)"
    using colon by (simp add: split_once_iff)
  ultimately show ?l
    using r parse_u32_show [of ordinal] decode_field_iff [of ?ek kind] decode_field_iff [of ?el local]
    by (simp add: decode_plugin_component_effective_name_def)
qed

text \<open>A child context extends the local name, so its registrations belong to the same component.\<close>

lemma child_namespace_qualify:
  "qualify_name (Some (child_namespace (Some (PluginComponent ns)) a)) b =
     qualify_name (Some (PluginComponent ns)) (a @ b)"
  by (simp add: qualify_name_def child_namespace_def encode_append)

end
