(* ===== verification/Sorted_Registry.thy ===== *)
theory Sorted_Registry
  imports Relay_Prelude
begin

text \<open>
  The priority-sorted named registry behind every guardrail and intercept table:
  \<^verbatim>\<open>crates/core/src/registry.rs\<close>, over the registration records of
  \<^verbatim>\<open>crates/core/src/api/registry.rs\<close>. A priority is an \<^verbatim>\<open>i32\<close> that is only compared, so it is an
  integer here.

  The interface \<open>named_registry\<close> states what clients rely on, and the model below is its
  interpretation.
\<close>

section \<open>Registration records\<close>

record 'a registry_record =
  rr_name :: string
  rr_priority :: int
  rr_payload :: 'a

definition new_record :: "string \<Rightarrow> int \<Rightarrow> 'a \<Rightarrow> 'a registry_record" where
  "new_record name priority payload =
     \<lparr>rr_name = name, rr_priority = priority, rr_payload = payload\<rparr>"

record 'a request_intercept =
  break_chain :: bool
  callable :: 'a

definition new_request_intercept :: "bool \<Rightarrow> 'a \<Rightarrow> 'a request_intercept" where
  "new_request_intercept b f = \<lparr>break_chain = b, callable = f\<rparr>"

section \<open>The registry\<close>

record 'a sorted_registry =
  entries :: "(string \<times> 'a registry_record) list"
  sorted_keys :: "string list"

definition new_registry :: "'a sorted_registry" where
  "new_registry = \<lparr>entries = [], sorted_keys = []\<rparr>"

text \<open>
  \<^verbatim>\<open>sort_by\<close> with the comparison \<open>priority\<close>, then \<open>name\<close>. Every key comes from the table, so the
  \<^verbatim>\<open>unwrap\<close> of the comparison cannot fail.
\<close>

definition order_key :: "(string \<times> 'a registry_record) list \<Rightarrow> string \<Rightarrow> int \<times> string" where
  "order_key es k = (rr_priority (the (map_of es k)), k)"

definition resort :: "'a sorted_registry \<Rightarrow> 'a sorted_registry" where
  "resort r = r\<lparr>sorted_keys := sort_key (order_key (entries r)) (map fst (entries r))\<rparr>"

definition register :: "'a registry_record \<Rightarrow> 'a sorted_registry \<Rightarrow> string + 'a sorted_registry" where
  "register entry r =
     (let name = rr_name entry
      in if map_of (entries r) name \<noteq> None then Inl (name @ '' already exists'')
         else Inr (resort (r\<lparr>entries := AList.update name entry (entries r)\<rparr>)))"

definition deregister :: "string \<Rightarrow> 'a sorted_registry \<Rightarrow> bool \<times> 'a sorted_registry" where
  "deregister name r =
     (if map_of (entries r) name \<noteq> None
      then (True, resort (r\<lparr>entries := AList.delete name (entries r)\<rparr>))
      else (False, r))"

definition sorted_values :: "'a sorted_registry \<Rightarrow> 'a registry_record list" where
  "sorted_values r = List.map_filter (map_of (entries r)) (sorted_keys r)"

definition registry_values :: "'a sorted_registry \<Rightarrow> 'a registry_record list" where
  "registry_values r = map snd (entries r)"

section \<open>Invariant and abstraction\<close>

definition registry_ok :: "'a sorted_registry \<Rightarrow> bool" where
  "registry_ok r \<longleftrightarrow>
     distinct (map fst (entries r)) \<and>
     (\<forall>(k, e) \<in> set (entries r). rr_name e = k) \<and>
     sorted_keys r = sort_key (order_key (entries r)) (map fst (entries r))"

definition registry_map :: "'a sorted_registry \<Rightarrow> string \<Rightarrow> 'a registry_record option" where
  "registry_map r = map_of (entries r)"

abbreviation record_key :: "'a registry_record \<Rightarrow> int \<times> string" where
  "record_key e \<equiv> (rr_priority e, rr_name e)"

text \<open>The interface: named entries, unique names, and a priority-ordered listing.\<close>

locale named_registry =
  fixes listing :: "'r \<Rightarrow> 'a registry_record list"
    and find_entry :: "'r \<Rightarrow> string \<Rightarrow> 'a registry_record option"
    and add_entry :: "'a registry_record \<Rightarrow> 'r \<Rightarrow> string + 'r"
    and remove_entry :: "string \<Rightarrow> 'r \<Rightarrow> bool \<times> 'r"
    and ok :: "'r \<Rightarrow> bool"
  assumes listing_sorted: "ok r \<Longrightarrow> sorted (map record_key (listing r))"
    and listing_distinct: "ok r \<Longrightarrow> distinct (map rr_name (listing r))"
    and listing_find: "ok r \<Longrightarrow> e \<in> set (listing r) \<longleftrightarrow> find_entry r (rr_name e) = Some e"
    and find_name: "ok r \<Longrightarrow> find_entry r k = Some e \<Longrightarrow> rr_name e = k"
    and add_fails: "ok r \<Longrightarrow> find_entry r (rr_name e) \<noteq> None \<longleftrightarrow> (\<exists>m. add_entry e r = Inl m)"
    and add_find: "ok r \<Longrightarrow> add_entry e r = Inr r' \<Longrightarrow>
      ok r' \<and> find_entry r' = (find_entry r)(rr_name e \<mapsto> e)"
    and remove_find: "ok r \<Longrightarrow> remove_entry k r = (b, r') \<Longrightarrow>
      ok r' \<and> find_entry r' = (find_entry r)(k := None) \<and> b = (find_entry r k \<noteq> None)"
begin

text \<open>The listing is determined by the lookups: no other detail of the table can be seen.\<close>

lemma listing_unique:
  assumes "ok r" "ok r'" "find_entry r = find_entry r'"
  shows "listing r = listing r'"
proof -
  have "set (listing r) = set (listing r')" using assms by (auto simp: listing_find)
  moreover have "inj_on record_key (set (listing r) \<union> set (listing r'))"
    using listing_distinct [OF assms(1)] calculation by (auto simp: inj_on_def distinct_map)
  moreover have "distinct (listing r)" "distinct (listing r')"
    using assms by (auto dest!: listing_distinct simp: distinct_map)
  ultimately show ?thesis
    using assms by (intro map_sorted_distinct_set_unique [where f = record_key])
      (auto simp: listing_sorted distinct_map)
qed

text \<open>Removing what was just added gives back the former listing.\<close>

lemma add_remove_listing:
  assumes "ok r" "add_entry e r = Inr r'" "remove_entry (rr_name e) r' = (b, r'')"
  shows "b \<and> listing r'' = listing r"
proof -
  have new: "find_entry r (rr_name e) = None" using add_fails [OF assms(1), of e] assms(2) by auto
  have r': "ok r'" "find_entry r' = (find_entry r)(rr_name e \<mapsto> e)"
    using add_find [OF assms(1,2)] by auto
  have r'': "ok r''" "find_entry r'' = (find_entry r')(rr_name e := None)"
      "b = (find_entry r' (rr_name e) \<noteq> None)"
    using remove_find [OF r'(1) assms(3)] by auto
  then have "find_entry r'' = find_entry r" using r' new by (auto simp: fun_eq_iff)
  then show ?thesis using r' r'' listing_unique [OF r''(1) assms(1)] by simp
qed

lemma add_listing_set:
  assumes "ok r" "add_entry e r = Inr r'"
  shows "set (listing r') = insert e (set (listing r))"
proof -
  have "find_entry r (rr_name e) = None" using add_fails [OF assms(1), of e] assms(2) by auto
  moreover have r': "ok r'" "find_entry r' = (find_entry r)(rr_name e \<mapsto> e)"
    using add_find [OF assms] by auto
  ultimately have "x \<in> set (listing r') \<longleftrightarrow> x = e \<or> x \<in> set (listing r)" for x
    unfolding listing_find [OF r'(1)] listing_find [OF assms(1)]
    by (cases "rr_name x = rr_name e") auto
  then show ?thesis by blast
qed

end

section \<open>The model satisfies the interface\<close>

lemma registry_ok_new: "registry_ok new_registry"
  by (simp add: registry_ok_def new_registry_def)

lemma order_key_entry:
  assumes "registry_ok r" "map_of (entries r) k = Some e"
  shows "order_key (entries r) k = record_key e"
  using assms by (auto simp: order_key_def registry_ok_def dest!: map_of_SomeD)

lemma set_sorted_keys: "registry_ok r \<Longrightarrow> set (sorted_keys r) = fst ` set (entries r)"
  by (simp add: registry_ok_def)

lemma sorted_values_map:
  "registry_ok r \<Longrightarrow> sorted_values r = map (\<lambda>k. the (map_of (entries r) k)) (sorted_keys r)"
proof -
  assume "registry_ok r"
  then have "\<forall>k \<in> set (sorted_keys r). map_of (entries r) k \<noteq> None"
    by (simp add: set_sorted_keys map_of_eq_None_iff)
  then show ?thesis by (simp add: sorted_values_def List.map_filter_def cong: map_cong)
qed

lemma names_sorted_values:
  assumes "registry_ok r"
  shows "map rr_name (sorted_values r) = sorted_keys r"
proof -
  have "rr_name (the (map_of (entries r) k)) = k" if "k \<in> set (sorted_keys r)" for k
  proof -
    from that assms obtain e where "map_of (entries r) k = Some e"
      by (auto simp: set_sorted_keys dest!: weak_map_of_SomeI)
    with order_key_entry [OF assms this] show ?thesis by (simp add: order_key_def)
  qed
  then show ?thesis by (simp add: sorted_values_map [OF assms] cong: map_cong)
qed

lemma keys_sorted_values:
  assumes "registry_ok r"
  shows "map record_key (sorted_values r) = map (order_key (entries r)) (sorted_keys r)"
proof -
  have "record_key (the (map_of (entries r) k)) = order_key (entries r) k"
    if "k \<in> set (sorted_keys r)" for k
  proof -
    from that assms obtain e where "map_of (entries r) k = Some e"
      by (auto simp: set_sorted_keys dest!: weak_map_of_SomeI)
    with order_key_entry [OF assms this] show ?thesis by simp
  qed
  then show ?thesis by (simp add: sorted_values_map [OF assms] cong: map_cong)
qed

lemma sorted_values_member:
  assumes "registry_ok r"
  shows "e \<in> set (sorted_values r) \<longleftrightarrow> registry_map r (rr_name e) = Some e"
proof -
  have d: "distinct (map fst (entries r))" using assms by (simp add: registry_ok_def)
  have "e \<in> set (sorted_values r) \<longleftrightarrow> (\<exists>k. (k, e) \<in> set (entries r))"
    using d by (force simp: sorted_values_map [OF assms] set_sorted_keys [OF assms])
  also have "\<dots> \<longleftrightarrow> (rr_name e, e) \<in> set (entries r)"
    using assms by (auto simp: registry_ok_def)
  finally show ?thesis using d by (simp add: registry_map_def)
qed

lemma registry_ok_resort:
  assumes "distinct (map fst (entries r))" "\<forall>(k, e) \<in> set (entries r). rr_name e = k"
  shows "registry_ok (resort r)" "registry_map (resort r) = registry_map r"
  using assms by (simp_all add: registry_ok_def resort_def registry_map_def)

lemma set_alist_update:
  "set (AList.update k v al) \<subseteq> insert (k, v) (set al)"
  by (induction al) auto

lemma register_ok:
  assumes "registry_ok r" "register e r = Inr r'"
  shows "registry_ok r' \<and> registry_map r' = (registry_map r)(rr_name e \<mapsto> e)"
proof -
  let ?r = "r\<lparr>entries := AList.update (rr_name e) e (entries r)\<rparr>"
  have r': "r' = resort ?r" using assms(2) by (simp add: register_def Let_def split: if_splits)
  have "distinct (map fst (entries ?r))" "\<forall>(k, e) \<in> set (entries ?r). rr_name e = k"
    using assms(1) set_alist_update [of "rr_name e" e "entries r"]
    by (auto simp: registry_ok_def AList.distinct_update)
  then show ?thesis using registry_ok_resort [of ?r] r'
    by (simp add: registry_map_def AList.update_conv')
qed

lemma deregister_ok:
  assumes "registry_ok r" "deregister k r = (b, r')"
  shows "registry_ok r' \<and> registry_map r' = (registry_map r)(k := None) \<and>
     b = (registry_map r k \<noteq> None)"
proof (cases "registry_map r k")
  case None
  then show ?thesis using assms by (auto simp: deregister_def registry_map_def)
next
  case (Some e)
  let ?r = "r\<lparr>entries := AList.delete k (entries r)\<rparr>"
  have r': "r' = resort ?r" "b" using Some assms(2) by (auto simp: deregister_def registry_map_def)
  have "distinct (map fst (entries ?r))" "\<forall>(k, e) \<in> set (entries ?r). rr_name e = k"
    using assms(1) AList.distinct_delete [of "entries r" k]
    by (auto simp: registry_ok_def AList.delete_eq)
  then show ?thesis using registry_ok_resort [of ?r] r' Some
    by (simp add: registry_map_def AList.delete_conv')
qed

interpretation sorted_reg: named_registry sorted_values registry_map register deregister registry_ok
proof unfold_locales
  fix r :: "'a sorted_registry"
  assume "registry_ok r"
  then show "sorted (map record_key (sorted_values r))"
    by (simp add: keys_sorted_values) (simp add: registry_ok_def)
  from \<open>registry_ok r\<close> show "distinct (map rr_name (sorted_values r))"
    by (simp add: names_sorted_values) (simp add: registry_ok_def)
next
  fix r :: "'a sorted_registry" and k e
  assume "registry_ok r" "registry_map r k = Some e"
  then show "rr_name e = k" by (auto simp: registry_ok_def registry_map_def dest!: map_of_SomeD)
next
  fix r :: "'a sorted_registry" and e
  show "registry_map r (rr_name e) \<noteq> None \<longleftrightarrow> (\<exists>m. register e r = Inl m)"
    by (simp add: register_def registry_map_def Let_def)
next
  fix r :: "'a sorted_registry" and e
  assume "registry_ok r"
  then show "e \<in> set (sorted_values r) \<longleftrightarrow> registry_map r (rr_name e) = Some e"
    by (rule sorted_values_member)
next
  fix r r' :: "'a sorted_registry" and e
  assume "registry_ok r" "register e r = Inr r'"
  then show "registry_ok r' \<and> registry_map r' = (registry_map r)(rr_name e \<mapsto> e)"
    by (rule register_ok)
next
  fix r r' :: "'a sorted_registry" and k b
  assume "registry_ok r" "deregister k r = (b, r')"
  then show "registry_ok r' \<and> registry_map r' = (registry_map r)(k := None) \<and>
      b = (registry_map r k \<noteq> None)"
    by (rule deregister_ok)
qed

section \<open>Runs of a registry\<close>

text \<open>The specification is a partial map from names to records, with the two updates on it.\<close>

datatype 'a registry_op = Register "'a registry_record" | Deregister string

fun apply_op :: "'a registry_op \<Rightarrow> 'a sorted_registry \<Rightarrow> bool \<times> 'a sorted_registry" where
  "apply_op (Register e) r = (case register e r of Inl _ \<Rightarrow> (False, r) | Inr r' \<Rightarrow> (True, r'))"
| "apply_op (Deregister k) r = deregister k r"

fun spec_op :: "'a registry_op \<Rightarrow> (string \<rightharpoonup> 'a registry_record) \<Rightarrow> bool \<times> (string \<rightharpoonup> 'a registry_record)" where
  "spec_op (Register e) m = (if m (rr_name e) = None then (True, m(rr_name e \<mapsto> e)) else (False, m))"
| "spec_op (Deregister k) m = (m k \<noteq> None, m(k := None))"

fun run_ops :: "('o \<Rightarrow> 's \<Rightarrow> bool \<times> 's) \<Rightarrow> 'o list \<Rightarrow> 's \<Rightarrow> bool list \<times> 's" where
  "run_ops f [] s = ([], s)"
| "run_ops f (x # xs) s = (let (b, s1) = f x s; (bs, s2) = run_ops f xs s1 in (b # bs, s2))"

lemma apply_op_refines:
  assumes "registry_ok r" "apply_op x r = (b, r')"
  shows "registry_ok r' \<and> spec_op x (registry_map r) = (b, registry_map r')"
proof (cases x)
  case (Register e)
  show ?thesis
  proof (cases "register e r")
    case (Inl m)
    then show ?thesis using assms Register sorted_reg.add_fails [OF assms(1), of e] by auto
  next
    case (Inr r1)
    then have "registry_map r (rr_name e) = None" using sorted_reg.add_fails [OF assms(1), of e] by auto
    then show ?thesis using assms(2) Register Inr sorted_reg.add_find [OF assms(1) Inr] by simp
  qed
next
  case (Deregister k)
  then show ?thesis using assms sorted_reg.remove_find [OF assms(1), of k b r'] by simp
qed

lemma run_ops_refines:
  "registry_ok r \<Longrightarrow> run_ops apply_op xs r = (bs, r') \<Longrightarrow>
     registry_ok r' \<and> run_ops spec_op xs (registry_map r) = (bs, registry_map r')"
proof (induction xs arbitrary: r bs r')
  case (Cons x xs)
  obtain b r1 where r1: "apply_op x r = (b, r1)" by force
  obtain bs' where bs': "run_ops apply_op xs r1 = (bs', r')" "bs = b # bs'"
    using Cons.prems(2) r1 by (auto split: prod.splits)
  have "registry_ok r1" "spec_op x (registry_map r) = (b, registry_map r1)"
    using apply_op_refines [OF Cons.prems(1) r1] by auto
  then show ?case using Cons.IH [OF _ bs'(1)] bs'(2) by simp
qed simp

text \<open>
  C11. A registry behaves as a map from names to records under every sequence of registrations
  and removals: each call reports what the map reports, and the listing afterwards holds exactly
  the records of the map, each once, in ascending order of priority and then name.
\<close>

theorem registry_refines_map:
  "case run_ops apply_op xs new_registry of (bs, r) \<Rightarrow>
     fst (run_ops spec_op xs (\<lambda>_. None)) = bs \<and>
     sorted (map record_key (sorted_values r)) \<and> distinct (map rr_name (sorted_values r)) \<and>
     set (sorted_values r) = ran (snd (run_ops spec_op xs (\<lambda>_. None)))"
proof -
  obtain bs r where run: "run_ops apply_op xs new_registry = (bs, r)" by force
  have empty: "registry_map new_registry = (\<lambda>_. None)" by (simp add: registry_map_def new_registry_def)
  have r: "registry_ok r" "run_ops spec_op xs (\<lambda>_. None) = (bs, registry_map r)"
    using run_ops_refines [OF registry_ok_new run] by (simp_all add: empty)
  have "e \<in> set (sorted_values r) \<longleftrightarrow> e \<in> ran (registry_map r)" for e
    using sorted_reg.listing_find [OF r(1)] sorted_reg.find_name [OF r(1)] by (auto simp: ran_def)
  then show ?thesis
    using run r sorted_reg.listing_sorted [OF r(1)] sorted_reg.listing_distinct [OF r(1)] by auto
qed

text \<open>
  The order of execution does not depend on the iteration order of the hash table: the same
  entries listed in any other order are sorted to the same listing, also among equal priorities.
\<close>

lemma listing_hash_order_independent:
  assumes "registry_ok r" "distinct (map fst es)" "set es = set (entries r)"
  shows "sorted_values (resort (r\<lparr>entries := es\<rparr>)) = sorted_values r"
proof -
  let ?r = "r\<lparr>entries := es\<rparr>"
  have r: "distinct (map fst (entries r))" "\<forall>(k, e) \<in> set (entries r). rr_name e = k"
    using assms(1) by (simp_all add: registry_ok_def)
  have ok: "registry_ok (resort ?r)" "registry_map (resort ?r) = registry_map ?r"
    using registry_ok_resort [of ?r] assms(2,3) r(2) by simp_all
  have "registry_map (resort ?r) = registry_map r"
    using ok(2) assms(2,3) r(1) by (simp add: registry_map_def map_of_inject_set)
  then show ?thesis by (rule sorted_reg.listing_unique [OF ok(1) assms(1)])
qed

definition demo_registry :: "nat sorted_registry" where
  "demo_registry = snd (run_ops apply_op
     [Register (new_record ''b'' 5 1), Register (new_record ''a'' 5 2), Register (new_record ''c'' 1 3)]
     new_registry)"

lemma demo_registry_ok: "registry_ok demo_registry"
proof -
  have "registry_ok r \<Longrightarrow> registry_ok (snd (run_ops apply_op xs r))" for xs and r :: "nat sorted_registry"
    using run_ops_refines [of r xs] by (cases "run_ops apply_op xs r") auto
  from this [OF registry_ok_new] show ?thesis unfolding demo_registry_def .
qed

lemma demo_registry_entries:
  "entries demo_registry =
     [(''b'', new_record ''b'' 5 1), (''a'', new_record ''a'' 5 2), (''c'', new_record ''c'' 1 3)]"
  by (simp add: demo_registry_def new_registry_def register_def resort_def new_record_def Let_def)

end
