(* ===== verification/Runtime_Registration.thy ===== *)
theory Runtime_Registration
  imports Plugin_Names Sorted_Registry "HOL-Library.Sublist" "HOL-Library.Multiset"
begin

text \<open>
  Registration surfaces, the gates that can disable a global registration, and the merge of global
  and scope-local registrations into the chain that runs: \<^verbatim>\<open>crates/types/src/api/registry.rs\<close>, the
  conditional middleware guardrails and identities of \<^verbatim>\<open>crates/core/src/api/registry.rs\<close>, and the
  merge functions of \<^verbatim>\<open>crates/core/src/context/registries.rs\<close>.

  A gate is a user callback, run by \<^verbatim>\<open>catch_unwind\<close>: it is a function of the world whose result
  is \<open>None\<close> when it panics. The table of gates is read from the world at every evaluation, since a
  callback may change it.
\<close>

section \<open>Surfaces\<close>

datatype runtime_registration_kind =
    Subscriber
  | EventMetadataInjector
  | MarkSanitizeGuardrail
  | ScopeSanitizeStartGuardrail
  | ScopeSanitizeEndGuardrail
  | ToolSanitizeRequestGuardrail
  | ToolSanitizeResponseGuardrail
  | ToolConditionalExecutionGuardrail
  | ToolRequestIntercept
  | ToolExecutionIntercept
  | LlmSanitizeRequestGuardrail
  | LlmSanitizeResponseGuardrail
  | LlmConditionalExecutionGuardrail
  | LlmRequestIntercept
  | LlmExecutionIntercept
  | LlmStreamExecutionIntercept

fun kind_str :: "runtime_registration_kind \<Rightarrow> string" where
  "kind_str Subscriber = ''subscriber''"
| "kind_str EventMetadataInjector = ''event_metadata_injector''"
| "kind_str MarkSanitizeGuardrail = ''mark_sanitize_guardrail''"
| "kind_str ScopeSanitizeStartGuardrail = ''scope_sanitize_start_guardrail''"
| "kind_str ScopeSanitizeEndGuardrail = ''scope_sanitize_end_guardrail''"
| "kind_str ToolSanitizeRequestGuardrail = ''tool_sanitize_request_guardrail''"
| "kind_str ToolSanitizeResponseGuardrail = ''tool_sanitize_response_guardrail''"
| "kind_str ToolConditionalExecutionGuardrail = ''tool_conditional_execution_guardrail''"
| "kind_str ToolRequestIntercept = ''tool_request_intercept''"
| "kind_str ToolExecutionIntercept = ''tool_execution_intercept''"
| "kind_str LlmSanitizeRequestGuardrail = ''llm_sanitize_request_guardrail''"
| "kind_str LlmSanitizeResponseGuardrail = ''llm_sanitize_response_guardrail''"
| "kind_str LlmConditionalExecutionGuardrail = ''llm_conditional_execution_guardrail''"
| "kind_str LlmRequestIntercept = ''llm_request_intercept''"
| "kind_str LlmExecutionIntercept = ''llm_execution_intercept''"
| "kind_str LlmStreamExecutionIntercept = ''llm_stream_execution_intercept''"

text \<open>The derived order is the order of the declaration.\<close>

fun kind_index :: "runtime_registration_kind \<Rightarrow> nat" where
  "kind_index Subscriber = 0"
| "kind_index EventMetadataInjector = 1"
| "kind_index MarkSanitizeGuardrail = 2"
| "kind_index ScopeSanitizeStartGuardrail = 3"
| "kind_index ScopeSanitizeEndGuardrail = 4"
| "kind_index ToolSanitizeRequestGuardrail = 5"
| "kind_index ToolSanitizeResponseGuardrail = 6"
| "kind_index ToolConditionalExecutionGuardrail = 7"
| "kind_index ToolRequestIntercept = 8"
| "kind_index ToolExecutionIntercept = 9"
| "kind_index LlmSanitizeRequestGuardrail = 10"
| "kind_index LlmSanitizeResponseGuardrail = 11"
| "kind_index LlmConditionalExecutionGuardrail = 12"
| "kind_index LlmRequestIntercept = 13"
| "kind_index LlmExecutionIntercept = 14"
| "kind_index LlmStreamExecutionIntercept = 15"

lemma kind_index_inj: "kind_index a = kind_index b \<Longrightarrow> a = b"
  by (cases a; cases b) simp_all

instantiation runtime_registration_kind :: linorder
begin

definition less_eq_runtime_registration_kind ::
    "runtime_registration_kind \<Rightarrow> runtime_registration_kind \<Rightarrow> bool" where
  "less_eq_runtime_registration_kind a b \<longleftrightarrow> kind_index a \<le> kind_index b"

definition less_runtime_registration_kind ::
    "runtime_registration_kind \<Rightarrow> runtime_registration_kind \<Rightarrow> bool" where
  "less_runtime_registration_kind a b \<longleftrightarrow> kind_index a < kind_index b"

instance
  by standard
    (auto simp: less_eq_runtime_registration_kind_def less_runtime_registration_kind_def
      intro: kind_index_inj)

end

lemma kind_str_inj: "kind_str a = kind_str b \<Longrightarrow> a = b"
  by (cases a; cases b) simp_all

section \<open>Identities\<close>

datatype registration_owner_kind = Core | GlobalApi | Plugin

record registration_owner =
  rw_kind :: registration_owner_kind
  rw_plugin_kind :: "string option"
  rw_component_ordinal :: "nat option"

record registration_identity =
  ri_kind :: runtime_registration_kind
  ri_local_name :: string
  ri_effective_name :: string
  ri_owner :: registration_owner

definition registration_identity_of ::
    "runtime_registration_kind \<Rightarrow> string \<Rightarrow> registration_identity" where
  "registration_identity_of kind effective_name =
     (case decode_plugin_component_effective_name effective_name of
        None \<Rightarrow> \<lparr>ri_kind = kind, ri_local_name = effective_name, ri_effective_name = effective_name,
          ri_owner = \<lparr>rw_kind = GlobalApi, rw_plugin_kind = None, rw_component_ordinal = None\<rparr>\<rparr>
      | Some (plugin_kind, ordinal, local_name) \<Rightarrow>
          \<lparr>ri_kind = kind, ri_local_name = local_name, ri_effective_name = effective_name,
           ri_owner = \<lparr>rw_kind = Plugin, rw_plugin_kind = Some plugin_kind,
             rw_component_ordinal = Some ordinal\<rparr>\<rparr>)"

section \<open>Gates\<close>

type_synonym 'w gate_fn =
  "runtime_registration_kind set \<Rightarrow> string \<Rightarrow> 'w \<Rightarrow> string option option \<times> 'w"

record 'w gate =
  gate_kinds :: "runtime_registration_kind set"
  gate_registration_name :: string
  gate_callback :: "'w gate_fn"

type_synonym 'w gate_table = "(string \<times> 'w gate) list rwlock option"

text \<open>Every public operation first checks that this binding owns the process.\<close>

definition with_runtime_owner ::
    "('s \<Rightarrow> 'a flow_result \<times> 's) \<Rightarrow> process \<times> 's \<Rightarrow> 'a flow_result \<times> (process \<times> 's)" where
  "with_runtime_owner f ps = (case ps of (p, s) \<Rightarrow>
     (case ensure_process_runtime_owner p of
        (Inl e, p') \<Rightarrow> (Inl e, (p', s))
      | (Inr _, p') \<Rightarrow> (let (r, s') = f s in (r, (p', s')))))"

text \<open>The table is created on first use.\<close>

definition get_or_init_gates :: "'w gate_table \<Rightarrow> (string \<times> 'w gate) list rwlock" where
  "get_or_init_gates t = (case t of None \<Rightarrow> Healthy [] | Some l \<Rightarrow> l)"

definition register_conditional_middleware_guardrail ::
    "string \<Rightarrow> runtime_registration_kind set \<Rightarrow> string \<Rightarrow> 'w gate_fn \<Rightarrow>
     process \<times> 'w gate_table \<Rightarrow> unit flow_result \<times> (process \<times> 'w gate_table)" where
  "register_conditional_middleware_guardrail name kinds registration_name guardrail =
     with_runtime_owner (\<lambda>t.
       if kinds = {}
       then (Inl (InvalidArgument ''conditional middleware guardrail kinds must not be empty''), t)
       else (case get_or_init_gates t of
           Poisoned m g \<Rightarrow> (Inl (Internal m), Some (Poisoned m g))
         | Healthy gates \<Rightarrow>
             if map_of gates name \<noteq> None
             then (Inl (AlreadyExists (name @ '' conditional middleware guardrail already exists'')),
                   Some (Healthy gates))
             else (Inr (), Some (Healthy (bt_insert name
               \<lparr>gate_kinds = kinds, gate_registration_name = registration_name,
                gate_callback = guardrail\<rparr> gates)))))"

definition deregister_conditional_middleware_guardrail ::
    "string \<Rightarrow> process \<times> 'w gate_table \<Rightarrow> bool flow_result \<times> (process \<times> 'w gate_table)" where
  "deregister_conditional_middleware_guardrail name =
     with_runtime_owner (\<lambda>t. case get_or_init_gates t of
         Poisoned m g \<Rightarrow> (Inl (Internal m), Some (Poisoned m g))
       | Healthy gates \<Rightarrow>
           (Inr (map_of gates name \<noteq> None), Some (Healthy (AList.delete name gates))))"

fun run_gates :: "string \<Rightarrow> 'w gate list \<Rightarrow> 'w \<Rightarrow> bool \<times> 'w" where
  "run_gates name [] w = (True, w)"
| "run_gates name (g # gs) w = (case gate_callback g (gate_kinds g) name w of
       (Some None, w') \<Rightarrow> run_gates name gs w'
     | (Some (Some reason), w') \<Rightarrow> (False, w')
     | (None, w') \<Rightarrow> run_gates name gs w')"

definition matching_gates ::
    "runtime_registration_kind \<Rightarrow> string \<Rightarrow> (string \<times> 'w gate) list \<Rightarrow> 'w gate list" where
  "matching_gates kind name gates =
     filter (\<lambda>g. kind \<in> gate_kinds g \<and> gate_registration_name g = name) (map snd gates)"

definition runtime_registration_is_enabled ::
    "('w \<Rightarrow> 'w gate_table) \<Rightarrow> runtime_registration_kind \<Rightarrow> string \<Rightarrow> 'w \<Rightarrow> bool \<times> 'w" where
  "runtime_registration_is_enabled gates_of kind name w = (case gates_of w of
       None \<Rightarrow> (True, w)
     | Some (Poisoned _ _) \<Rightarrow> (True, w)
     | Some (Healthy gates) \<Rightarrow> run_gates name (matching_gates kind name gates) w)"

section \<open>Merging global and scope-local registrations\<close>

fun filter_enabled ::
    "('w \<Rightarrow> 'w gate_table) \<Rightarrow> runtime_registration_kind \<Rightarrow> 'a registry_record list \<Rightarrow> 'w \<Rightarrow>
     'a registry_record list \<times> 'w" where
  "filter_enabled gates_of kind [] w = ([], w)"
| "filter_enabled gates_of kind (e # es) w =
     (let (on, w1) = runtime_registration_is_enabled gates_of kind (rr_name e) w;
          (rest, w2) = filter_enabled gates_of kind es w1
      in (if on then e # rest else rest, w2))"

definition merge_event_metadata_injector_entries ::
    "('w \<Rightarrow> 'w gate_table) \<Rightarrow> 'a sorted_registry \<Rightarrow> 'a sorted_registry list \<Rightarrow> 'w \<Rightarrow>
     'a registry_record list \<times> 'w" where
  "merge_event_metadata_injector_entries gates_of global scope_locals w =
     (let (es, w') = filter_enabled gates_of EventMetadataInjector (sorted_values global) w
      in (sort_key record_key (es @ concat (map sorted_values scope_locals)), w'))"

definition merge_guardrail_entries ::
    "('w \<Rightarrow> 'w gate_table) \<Rightarrow> 'a sorted_registry \<Rightarrow> 'a sorted_registry list \<Rightarrow>
     runtime_registration_kind \<Rightarrow> 'w \<Rightarrow> 'a registry_record list \<times> 'w" where
  "merge_guardrail_entries gates_of global scope_locals kind w =
     (let (es, w') = filter_enabled gates_of kind (sorted_values global) w
      in (sort_key rr_priority (es @ concat (map sorted_values scope_locals)), w'))"

definition merge_intercept_entries ::
    "('w \<Rightarrow> 'w gate_table) \<Rightarrow> 'a request_intercept sorted_registry \<Rightarrow>
     'a request_intercept sorted_registry list \<Rightarrow> runtime_registration_kind \<Rightarrow> 'w \<Rightarrow>
     'a request_intercept registry_record list \<times> 'w" where
  "merge_intercept_entries gates_of global scope_locals kind w =
     (let (es, w') = filter_enabled gates_of kind (sorted_values global) w
      in (sort_key rr_priority (es @ concat (map sorted_values scope_locals)), w'))"

definition merge_execution_intercept_callables ::
    "('w \<Rightarrow> 'w gate_table) \<Rightarrow> 'a sorted_registry \<Rightarrow> 'a sorted_registry list \<Rightarrow>
     runtime_registration_kind \<Rightarrow> 'w \<Rightarrow> ('a \<times> int) list \<times> 'w" where
  "merge_execution_intercept_callables gates_of global scope_locals kind w =
     (let (es, w') = filter_enabled gates_of kind (sorted_values global) w
      in (sort_key snd (map (\<lambda>e. (rr_payload e, rr_priority e)) es @
            concat (map (\<lambda>r. map (\<lambda>e. (rr_payload e, rr_priority e)) (sorted_values r)) scope_locals)),
          w'))"

section \<open>Facts\<close>

lemma run_gates_pure:
  assumes "\<And>g ks v. g \<in> set gs \<Longrightarrow> gate_callback g ks name v = (verdict g, v)"
  shows "run_gates name gs w = (\<forall>g \<in> set gs. \<forall>reason. verdict g \<noteq> Some (Some reason), w)"
  using assms
proof (induction gs)
  case (Cons g gs)
  have g: "gate_callback g (gate_kinds g) name w = (verdict g, w)" using Cons.prems by simp
  show ?case
  proof (cases "verdict g")
    case None
    then show ?thesis using g Cons by simp
  next
    case (Some r)
    then show ?thesis using g Cons by (cases r) auto
  qed
qed simp

text \<open>
  A gate can disable a global registration and nothing else: the entries that run are exactly
  those that no matching gate (one for that surface and that name) has rejected with a reason. A
  gate that panics has no say, so it leaves the registration enabled.
\<close>

lemma gates_filter_exactly:
  assumes "\<forall>v. gates_of v = Some (Healthy gates)"
    and "\<forall>g \<in> snd ` set gates. \<forall>ks name v. gate_callback g ks name v = (verdict g name, v)"
  shows "filter_enabled gates_of kind es w =
    (filter (\<lambda>e. \<forall>g \<in> snd ` set gates. kind \<in> gate_kinds g \<and> gate_registration_name g = rr_name e \<longrightarrow>
        (\<forall>reason. verdict g (rr_name e) \<noteq> Some (Some reason))) es, w)"
proof -
  have "runtime_registration_is_enabled gates_of kind name w =
      (\<forall>g \<in> snd ` set gates. kind \<in> gate_kinds g \<and> gate_registration_name g = name \<longrightarrow>
        (\<forall>reason. verdict g name \<noteq> Some (Some reason)), w)" for name
  proof -
    have "run_gates name (matching_gates kind name gates) w =
        (\<forall>g \<in> set (matching_gates kind name gates). \<forall>reason. verdict g name \<noteq> Some (Some reason), w)"
      by (rule run_gates_pure) (use assms(2) in \<open>auto simp: matching_gates_def\<close>)
    then show ?thesis using assms(1)
      by (auto simp: runtime_registration_is_enabled_def matching_gates_def)
  qed
  then show ?thesis by (induction es) (simp_all add: Let_def)
qed

section \<open>The order of a merged chain\<close>

text \<open>
  The reference for a merged chain. Registries are what a history of registrations and removals has
  left, and what a history leaves is described by the map it refines. A chain lists what is visible,
  with the level of its registry (0 for the global one, then the scopes from the root to the top), in
  strictly ascending order of a key, so that there is exactly one such chain.
\<close>

definition registry_after :: "'a registry_op list \<Rightarrow> 'a sorted_registry" where
  "registry_after ops = snd (run_ops apply_op ops new_registry)"

definition records_after :: "'a registry_op list \<Rightarrow> 'a registry_record set" where
  "records_after ops = ran (snd (run_ops spec_op ops Map.empty))"

definition gate_allows ::
    "(string \<times> 'w gate) list \<Rightarrow> ('w gate \<Rightarrow> string \<Rightarrow> string option option) \<Rightarrow> runtime_registration_kind \<Rightarrow>
     'a registry_record \<Rightarrow> bool" where
  "gate_allows gates verdict kind e \<longleftrightarrow> (\<forall>g \<in> snd ` set gates.
     kind \<in> gate_kinds g \<and> gate_registration_name g = rr_name e \<longrightarrow> (\<forall>reason. verdict g (rr_name e) \<noteq> Some (Some reason)))"

definition visible ::
    "('a registry_record \<Rightarrow> bool) \<Rightarrow> 'a registry_op list \<Rightarrow> 'a registry_op list list \<Rightarrow> (nat \<times> 'a registry_record) set" where
  "visible allowed global_ops local_ops =
     {(0, e) | e. e \<in> records_after global_ops \<and> allowed e} \<union>
     {(Suc i, e) | i e. i < length local_ops \<and> e \<in> records_after (local_ops ! i)}"

definition lists_by ::
    "(nat \<times> 'a registry_record \<Rightarrow> 'k::linorder) \<Rightarrow> (nat \<times> 'a registry_record) set \<Rightarrow> 'a registry_record list \<Rightarrow> bool" where
  "lists_by key V chain \<longleftrightarrow>
     (\<exists>xs. map snd xs = chain \<and> set xs = V \<and> sorted_wrt (\<lambda>x y. key x < key y) xs)"

fun levels :: "nat \<Rightarrow> 'a list list \<Rightarrow> (nat \<times> 'a) list" where
  "levels n [] = []"
| "levels n (xs # xss) = map (Pair n) xs @ levels (Suc n) xss"

lemma levels_snd [simp]: "map snd (levels n xss) = concat xss"
  by (induction n xss rule: levels.induct) (simp_all add: comp_def)

lemma set_levels: "set (levels n xss) = {(n + i, x) | i x. i < length xss \<and> x \<in> set (xss ! i)}"
proof (induction n xss rule: levels.induct)
  case (2 n xs xss)
  have "{(n + i, x) | i x. i < length (xs # xss) \<and> x \<in> set ((xs # xss) ! i)} =
      Pair n ` set xs \<union> {(Suc n + i, x) | i x. i < length xss \<and> x \<in> set (xss ! i)}"
    by (auto simp: less_Suc_eq_0_disj)
  then show ?case using 2 by simp
qed simp

lemma levels_sorted:
  assumes "\<forall>xs \<in> set xss. sorted_wrt P xs"
  shows "sorted_wrt (\<lambda>(i, x) (j, y). i < j \<or> i = j \<and> P x y) (levels n xss)"
  using assms
proof (induction n xss rule: levels.induct)
  case (2 n xs xss)
  then show ?case by (auto simp: sorted_wrt_append sorted_wrt_map set_levels)
qed simp

text \<open>A stable sort refines the order of its key by the order it is given.\<close>

lemma insort_key_strict:
  assumes "sorted_wrt (\<lambda>x y. f x < f y \<or> f x = f y \<and> g x < g y) xs" and "\<forall>y \<in> set xs. f x = f y \<longrightarrow> g x < g y"
  shows "sorted_wrt (\<lambda>x y. f x < f y \<or> f x = f y \<and> g x < g y) (insort_key f x xs)"
  using assms by (induction xs) (auto simp: set_insort_key)

lemma sort_key_strict:
  fixes f :: "'a \<Rightarrow> 'k::linorder" and g :: "'a \<Rightarrow> 'm::order"
  assumes "sorted_wrt (\<lambda>x y. f x = f y \<longrightarrow> g x < g y) xs"
  shows "sorted_wrt (\<lambda>x y. f x < f y \<or> f x = f y \<and> g x < g y) (sort_key f xs)"
  using assms by (induction xs) (auto intro!: insort_key_strict)

lemma map_insort_key: "map h (insort_key (\<lambda>x. f (h x)) a xs) = insort_key f (h a) (map h xs)"
  by (induction xs) simp_all

lemma map_sort_key: "map h (sort_key (\<lambda>x. f (h x)) xs) = sort_key f (map h xs)"
  by (induction xs) (simp_all add: map_insort_key)

lemma registry_after_ok: "registry_ok (registry_after ops)" "set (sorted_values (registry_after ops)) = records_after ops"
proof -
  obtain bs r where r: "run_ops apply_op ops new_registry = (bs, r)" by force
  from run_ops_refines [OF registry_ok_new r]
  have ok: "registry_ok r" and m: "snd (run_ops spec_op ops Map.empty) = registry_map r"
    by (auto simp: registry_map_def new_registry_def)
  show "registry_ok (registry_after ops)" using ok r by (simp add: registry_after_def)
  show "set (sorted_values (registry_after ops)) = records_after ops"
    using sorted_reg.listing_find [OF ok] sorted_reg.find_name [OF ok] r
    by (auto simp: registry_after_def records_after_def m ran_def)
qed

lemma sorted_values_strict:
  assumes "registry_ok r"
  shows "sorted_wrt (\<lambda>x y. record_key x < record_key y) (sorted_values r)"
proof -
  have "distinct (map record_key (sorted_values r))"
    using sorted_reg.listing_distinct [OF assms] by (auto simp: distinct_map inj_on_def)
  then have "sorted_wrt (<) (map record_key (sorted_values r))"
    using sorted_reg.listing_sorted [OF assms] by (simp add: strict_sorted_iff)
  then show ?thesis by (simp add: sorted_wrt_map)
qed

text \<open>What the merge functions sort, with its levels.\<close>

definition merge_input ::
    "('a registry_record \<Rightarrow> bool) \<Rightarrow> 'a registry_op list \<Rightarrow> 'a registry_op list list \<Rightarrow> 'a registry_record list list" where
  "merge_input allowed global_ops local_ops =
     filter allowed (sorted_values (registry_after global_ops)) # map (\<lambda>ops. sorted_values (registry_after ops)) local_ops"

lemma merge_input_visible: "set (levels 0 (merge_input allowed global_ops local_ops)) = visible allowed global_ops local_ops"
  by (auto simp: merge_input_def set_levels visible_def registry_after_ok(2) less_Suc_eq_0_disj nth_Cons')

lemma merge_input_sorted:
  "sorted_wrt (\<lambda>(i, x) (j, y). i < j \<or> i = j \<and> record_key x < record_key y) (levels 0 (merge_input allowed global_ops local_ops))"
proof (rule levels_sorted)
  have "sorted_wrt (\<lambda>x y. record_key x < record_key y) (sorted_values (registry_after ops))" for ops :: "'a registry_op list"
    by (rule sorted_values_strict [OF registry_after_ok(1)])
  then show "\<forall>xs \<in> set (merge_input allowed global_ops local_ops). sorted_wrt (\<lambda>x y. record_key x < record_key y) xs"
    unfolding merge_input_def by (simp del: less_prod_simp add: sorted_wrt_filter)
qed

lemma lists_by_priority:
  "lists_by (\<lambda>(l, e). (rr_priority e, l, rr_name e)) (visible allowed global_ops local_ops)
     (sort_key rr_priority (concat (merge_input allowed global_ops local_ops)))"
proof -
  let ?zs = "levels 0 (merge_input allowed global_ops local_ops)"
  let ?xs = "sort_key (\<lambda>x. rr_priority (snd x)) ?zs"
  have "sorted_wrt (\<lambda>x y. rr_priority (snd x) = rr_priority (snd y) \<longrightarrow>
      (fst x, rr_name (snd x)) < (fst y, rr_name (snd y))) ?zs"
    by (rule sorted_wrt_mono_rel [OF _ merge_input_sorted]) (auto simp: less_prod_def')
  from sort_key_strict [OF this]
  have "sorted_wrt (\<lambda>x y. (case x of (l, e) \<Rightarrow> (rr_priority e, l, rr_name e)) < (case y of (l, e) \<Rightarrow> (rr_priority e, l, rr_name e))) ?xs"
    by (rule sorted_wrt_mono_rel [rotated]) (auto simp: less_prod_def')
  moreover have "set ?xs = visible allowed global_ops local_ops" by (simp add: merge_input_visible)
  moreover have "map snd ?xs = sort_key rr_priority (concat (merge_input allowed global_ops local_ops))"
    by (simp add: map_sort_key)
  ultimately show ?thesis unfolding lists_by_def by blast
qed

lemma lists_by_name:
  "lists_by (\<lambda>(l, e). (rr_priority e, rr_name e, l)) (visible allowed global_ops local_ops)
     (sort_key record_key (concat (merge_input allowed global_ops local_ops)))"
proof -
  let ?zs = "levels 0 (merge_input allowed global_ops local_ops)"
  let ?xs = "sort_key (\<lambda>x. record_key (snd x)) ?zs"
  have "sorted_wrt (\<lambda>x y. record_key (snd x) = record_key (snd y) \<longrightarrow> fst x < fst y) ?zs"
    by (rule sorted_wrt_mono_rel [OF _ merge_input_sorted]) auto
  from sort_key_strict [OF this]
  have "sorted_wrt (\<lambda>x y. (case x of (l, e) \<Rightarrow> (rr_priority e, rr_name e, l)) < (case y of (l, e) \<Rightarrow> (rr_priority e, rr_name e, l))) ?xs"
    by (rule sorted_wrt_mono_rel [rotated]) (auto simp: less_prod_def')
  moreover have "set ?xs = visible allowed global_ops local_ops" by (simp add: merge_input_visible)
  moreover have "map snd ?xs = sort_key record_key (concat (merge_input allowed global_ops local_ops))"
    by (rule trans [OF map_sort_key]) simp
  ultimately show ?thesis unfolding lists_by_def by blast
qed

text \<open>
  C16. The chain that runs, for guardrails, request intercepts, execution intercepts and metadata
  injectors alike, after any history of registrations and removals on the global registry and on those
  of the scopes: it has every record of a scope, and every global record that no gate for its surface
  and name has rejected, once each and nothing else. It is in ascending order of priority; among equal
  priorities the global records come first, then those of the scopes from the root to the top, and
  those of one registry by name. Injectors of equal priority are ordered by name first. The gates are
  assumed to leave the world alone; one that panics has no say.
\<close>

theorem merged_chain_order:
  assumes "\<forall>v. gates_of v = Some (Healthy gates)"
    and "\<forall>g \<in> snd ` set gates. \<forall>ks name v. gate_callback g ks name v = (verdict g name, v)"
  shows "lists_by (\<lambda>(l, e). (rr_priority e, l, rr_name e)) (visible (gate_allows gates verdict kind) gops lops)
      (fst (merge_guardrail_entries gates_of (registry_after gops) (map registry_after lops) kind w)) \<and>
    lists_by (\<lambda>(l, e). (rr_priority e, l, rr_name e)) (visible (gate_allows gates verdict kind) iops jops)
      (fst (merge_intercept_entries gates_of (registry_after iops) (map registry_after jops) kind w)) \<and>
    (\<exists>chain. lists_by (\<lambda>(l, e). (rr_priority e, l, rr_name e)) (visible (gate_allows gates verdict kind) gops lops) chain \<and>
      fst (merge_execution_intercept_callables gates_of (registry_after gops) (map registry_after lops) kind w) =
        map (\<lambda>e. (rr_payload e, rr_priority e)) chain) \<and>
    lists_by (\<lambda>(l, e). (rr_priority e, rr_name e, l)) (visible (gate_allows gates verdict EventMetadataInjector) gops lops)
      (fst (merge_event_metadata_injector_entries gates_of (registry_after gops) (map registry_after lops) w))"
proof -
  have f: "filter_enabled gates_of k es w = (filter (gate_allows gates verdict k) es, w)" for k and es :: "'x registry_record list"
    unfolding gate_allows_def by (rule gates_filter_exactly [OF assms])
  have c: "filter (gate_allows gates verdict k) (sorted_values (registry_after g)) @ concat (map sorted_values (map registry_after ls)) =
      concat (merge_input (gate_allows gates verdict k) g ls)" for k and g :: "'x registry_op list" and ls
    by (simp add: merge_input_def comp_def)
  have e: "fst (merge_execution_intercept_callables gates_of (registry_after gops) (map registry_after lops) kind w) =
      map (\<lambda>e. (rr_payload e, rr_priority e)) (sort_key rr_priority (concat (merge_input (gate_allows gates verdict kind) gops lops)))"
    by (simp add: merge_execution_intercept_callables_def f c [symmetric] map_concat comp_def
        map_sort_key [of "\<lambda>e. (rr_payload e, rr_priority e)" snd, simplified])
  show ?thesis
    unfolding merge_guardrail_entries_def merge_intercept_entries_def merge_event_metadata_injector_entries_def f c Let_def
      prod.case fst_conv
    by (intro conjI exI [of _ "sort_key rr_priority (concat (merge_input (gate_allows gates verdict kind) gops lops))"]
        lists_by_priority lists_by_name e)
qed

definition demo_gates :: "(string \<times> unit gate) list" where
  "demo_gates =
     [(''g1'', \<lparr>gate_kinds = {ToolSanitizeRequestGuardrail}, gate_registration_name = ''a'',
        gate_callback = (\<lambda>_ _ w. (Some (Some ''off''), w))\<rparr>),
      (''g2'', \<lparr>gate_kinds = {ToolSanitizeRequestGuardrail}, gate_registration_name = ''b'',
        gate_callback = (\<lambda>_ _ w. (None, w))\<rparr>)]"

lemma visible_one:
  "visible allowed g [l] = Pair 0 ` {e \<in> records_after g. allowed e} \<union> Pair 1 ` records_after ([l] ! 0)"
  by (auto simp: visible_def)

theorem merged_chain_order_witness:
  "lists_by (\<lambda>(l, e). (rr_priority e, l, rr_name e))
     {(0, new_record ''b'' 5 1), (1, new_record ''a'' 5 3), (1, new_record ''c'' 1 (4 :: nat))}
     (fst (merge_guardrail_entries (\<lambda>_ :: unit. Some (Healthy demo_gates))
        (registry_after [Register (new_record ''a'' 5 2), Register (new_record ''b'' 5 1)])
        (map registry_after [[Register (new_record ''a'' 5 3), Register (new_record ''c'' 1 4)]])
        ToolSanitizeRequestGuardrail ()))"
proof -
  let ?v = "\<lambda>g (_ :: string). if gate_registration_name (g :: unit gate) = ''a'' then Some (Some ''off'') else None"
  let ?g = "[Register (new_record ''a'' 5 2), Register (new_record ''b'' 5 (1 :: nat))]"
  let ?l = "[[Register (new_record ''a'' 5 3), Register (new_record ''c'' 1 (4 :: nat))]]"
  have "\<forall>g \<in> snd ` set demo_gates. \<forall>ks name v. gate_callback g ks name v = (?v g name, v)"
    by (simp add: demo_gates_def)
  note m = merged_chain_order [of "\<lambda>_. Some (Healthy demo_gates)" demo_gates ?v ToolSanitizeRequestGuardrail ?g ?l "()" "[]" "[]", OF _ this]
  have "records_after ?g = {new_record ''a'' 5 2, new_record ''b'' 5 1}"
      "records_after (?l ! 0) = {new_record ''a'' 5 3, new_record ''c'' 1 4}"
    by (auto simp: records_after_def new_record_def ran_map_upd)
  moreover have "{e \<in> {new_record ''a'' 5 2, new_record ''b'' 5 1}. gate_allows demo_gates ?v ToolSanitizeRequestGuardrail e} =
      {new_record ''b'' 5 (1 :: nat)}"
    by (auto simp: gate_allows_def demo_gates_def new_record_def)
  ultimately have "visible (gate_allows demo_gates ?v ToolSanitizeRequestGuardrail) ?g ?l =
      Pair 0 ` {new_record ''b'' 5 1} \<union> Pair 1 ` {new_record ''a'' 5 3, new_record ''c'' 1 4}"
    by (simp only: visible_one)
  then have "visible (gate_allows demo_gates ?v ToolSanitizeRequestGuardrail) ?g ?l =
      {(0, new_record ''b'' 5 1), (1, new_record ''a'' 5 3), (1, new_record ''c'' 1 4)}"
    by (simp add: insert_commute)
  with m [THEN conjunct1] show ?thesis by (simp only: simp_thms)
qed

end
