(* ===== verification/Runtime_State.thy ===== *)
theory Runtime_State
  imports Runtime_Registration
begin

text \<open>
  The registries of the runtime and the public functions that change them: the structures
  \<^verbatim>\<open>ScopeLocalRegistries\<close> (\<^verbatim>\<open>crates/core/src/context/registries.rs\<close>) and \<^verbatim>\<open>NemoRelayContextState\<close>
  (\<^verbatim>\<open>crates/core/src/api/runtime/state.rs\<close>), snapshots, the collection of subscribers, the listing of
  registrations, and the global registration API of \<^verbatim>\<open>crates/core/src/api/registry.rs\<close>, which three
  macros generate: one definition here per generated function.

  A callback is an \<^verbatim>\<open>Arc<dyn Fn>\<close> that the registries store and never call, so it is a value of an
  arbitrary type \<open>'f\<close>. Both structures have the same sixteen tables; \<open>registries\<close> is that common
  part. The typed extension slots of the context are not part of the model.
\<close>

section \<open>The tables\<close>

record 'f registries =
  event_metadata_injectors :: "'f sorted_registry"
  mark_sanitize_guardrails :: "'f sorted_registry"
  scope_sanitize_start_guardrails :: "'f sorted_registry"
  scope_sanitize_end_guardrails :: "'f sorted_registry"
  tool_sanitize_request_guardrails :: "'f sorted_registry"
  tool_sanitize_response_guardrails :: "'f sorted_registry"
  tool_conditional_execution_guardrails :: "'f sorted_registry"
  tool_request_intercepts :: "'f request_intercept sorted_registry"
  tool_execution_intercepts :: "'f sorted_registry"
  llm_sanitize_request_guardrails :: "'f sorted_registry"
  llm_sanitize_response_guardrails :: "'f sorted_registry"
  llm_conditional_execution_guardrails :: "'f sorted_registry"
  llm_request_intercepts :: "'f request_intercept sorted_registry"
  llm_execution_intercepts :: "'f sorted_registry"
  llm_stream_execution_intercepts :: "'f sorted_registry"
  event_subscribers :: "(string \<times> 'f) list"

definition registries_new :: "'f registries" where
  "registries_new = \<lparr>
     event_metadata_injectors = new_registry,
     mark_sanitize_guardrails = new_registry,
     scope_sanitize_start_guardrails = new_registry,
     scope_sanitize_end_guardrails = new_registry,
     tool_sanitize_request_guardrails = new_registry,
     tool_sanitize_response_guardrails = new_registry,
     tool_conditional_execution_guardrails = new_registry,
     tool_request_intercepts = new_registry,
     tool_execution_intercepts = new_registry,
     llm_sanitize_request_guardrails = new_registry,
     llm_sanitize_response_guardrails = new_registry,
     llm_conditional_execution_guardrails = new_registry,
     llm_request_intercepts = new_registry,
     llm_execution_intercepts = new_registry,
     llm_stream_execution_intercepts = new_registry,
     event_subscribers = []\<rparr>"

record 'f context_state =
  cx_registries :: "'f registries"
  observability_full_payloads_enabled :: bool

definition context_state_new :: "'f context_state" where
  "context_state_new = \<lparr>cx_registries = registries_new, observability_full_payloads_enabled = False\<rparr>"

text \<open>The copy of one surface, as the loop of the snapshot does it.\<close>

fun copy_surface :: "'f registries \<Rightarrow> runtime_registration_kind \<Rightarrow> 'f registries \<Rightarrow> 'f registries" where
  "copy_surface from Subscriber to = to\<lparr>event_subscribers := event_subscribers from\<rparr>"
| "copy_surface from EventMetadataInjector to =
     to\<lparr>event_metadata_injectors := event_metadata_injectors from\<rparr>"
| "copy_surface from MarkSanitizeGuardrail to =
     to\<lparr>mark_sanitize_guardrails := mark_sanitize_guardrails from\<rparr>"
| "copy_surface from ScopeSanitizeStartGuardrail to =
     to\<lparr>scope_sanitize_start_guardrails := scope_sanitize_start_guardrails from\<rparr>"
| "copy_surface from ScopeSanitizeEndGuardrail to =
     to\<lparr>scope_sanitize_end_guardrails := scope_sanitize_end_guardrails from\<rparr>"
| "copy_surface from ToolSanitizeRequestGuardrail to =
     to\<lparr>tool_sanitize_request_guardrails := tool_sanitize_request_guardrails from\<rparr>"
| "copy_surface from ToolSanitizeResponseGuardrail to =
     to\<lparr>tool_sanitize_response_guardrails := tool_sanitize_response_guardrails from\<rparr>"
| "copy_surface from ToolConditionalExecutionGuardrail to =
     to\<lparr>tool_conditional_execution_guardrails := tool_conditional_execution_guardrails from\<rparr>"
| "copy_surface from ToolRequestIntercept to =
     to\<lparr>tool_request_intercepts := tool_request_intercepts from\<rparr>"
| "copy_surface from ToolExecutionIntercept to =
     to\<lparr>tool_execution_intercepts := tool_execution_intercepts from\<rparr>"
| "copy_surface from LlmSanitizeRequestGuardrail to =
     to\<lparr>llm_sanitize_request_guardrails := llm_sanitize_request_guardrails from\<rparr>"
| "copy_surface from LlmSanitizeResponseGuardrail to =
     to\<lparr>llm_sanitize_response_guardrails := llm_sanitize_response_guardrails from\<rparr>"
| "copy_surface from LlmConditionalExecutionGuardrail to =
     to\<lparr>llm_conditional_execution_guardrails := llm_conditional_execution_guardrails from\<rparr>"
| "copy_surface from LlmRequestIntercept to =
     to\<lparr>llm_request_intercepts := llm_request_intercepts from\<rparr>"
| "copy_surface from LlmExecutionIntercept to =
     to\<lparr>llm_execution_intercepts := llm_execution_intercepts from\<rparr>"
| "copy_surface from LlmStreamExecutionIntercept to =
     to\<lparr>llm_stream_execution_intercepts := llm_stream_execution_intercepts from\<rparr>"

definition registry_snapshot ::
    "runtime_registration_kind list \<Rightarrow> 'f context_state \<Rightarrow> 'f context_state" where
  "registry_snapshot kinds st = \<lparr>cx_registries =
       fold (\<lambda>k r. copy_surface (cx_registries st) k r) kinds registries_new,
     observability_full_payloads_enabled = observability_full_payloads_enabled st\<rparr>"

fun filter_enabled_subscribers ::
    "('w \<Rightarrow> 'w gate_table) \<Rightarrow> (string \<times> 'f) list \<Rightarrow> 'w \<Rightarrow> 'f list \<times> 'w" where
  "filter_enabled_subscribers gates_of [] w = ([], w)"
| "filter_enabled_subscribers gates_of ((name, f) # rest) w =
     (let (on, w1) = runtime_registration_is_enabled gates_of Subscriber name w;
          (fs, w2) = filter_enabled_subscribers gates_of rest w1
      in (if on then f # fs else fs, w2))"

definition collect_event_subscribers ::
    "('w \<Rightarrow> 'w gate_table) \<Rightarrow> 'f list \<Rightarrow> 'f context_state \<Rightarrow> 'w \<Rightarrow> 'f list \<times> 'w" where
  "collect_event_subscribers gates_of scope_local_subscribers st w =
     (let (fs, w') = filter_enabled_subscribers gates_of (event_subscribers (cx_registries st)) w
      in (fs @ scope_local_subscribers, w'))"

section \<open>Listing\<close>

definition registry_names :: "'a sorted_registry \<Rightarrow> string list" where
  "registry_names r = map rr_name (registry_values r)"

fun surface_names :: "'f registries \<Rightarrow> runtime_registration_kind \<Rightarrow> string list" where
  "surface_names r Subscriber = map fst (event_subscribers r)"
| "surface_names r EventMetadataInjector = registry_names (event_metadata_injectors r)"
| "surface_names r MarkSanitizeGuardrail = registry_names (mark_sanitize_guardrails r)"
| "surface_names r ScopeSanitizeStartGuardrail = registry_names (scope_sanitize_start_guardrails r)"
| "surface_names r ScopeSanitizeEndGuardrail = registry_names (scope_sanitize_end_guardrails r)"
| "surface_names r ToolSanitizeRequestGuardrail = registry_names (tool_sanitize_request_guardrails r)"
| "surface_names r ToolSanitizeResponseGuardrail = registry_names (tool_sanitize_response_guardrails r)"
| "surface_names r ToolConditionalExecutionGuardrail = registry_names (tool_conditional_execution_guardrails r)"
| "surface_names r ToolRequestIntercept = registry_names (tool_request_intercepts r)"
| "surface_names r ToolExecutionIntercept = registry_names (tool_execution_intercepts r)"
| "surface_names r LlmSanitizeRequestGuardrail = registry_names (llm_sanitize_request_guardrails r)"
| "surface_names r LlmSanitizeResponseGuardrail = registry_names (llm_sanitize_response_guardrails r)"
| "surface_names r LlmConditionalExecutionGuardrail = registry_names (llm_conditional_execution_guardrails r)"
| "surface_names r LlmRequestIntercept = registry_names (llm_request_intercepts r)"
| "surface_names r LlmExecutionIntercept = registry_names (llm_execution_intercepts r)"
| "surface_names r LlmStreamExecutionIntercept = registry_names (llm_stream_execution_intercepts r)"

definition all_kinds :: "runtime_registration_kind list" where
  "all_kinds =
     [Subscriber,
      EventMetadataInjector,
      MarkSanitizeGuardrail,
      ScopeSanitizeStartGuardrail,
      ScopeSanitizeEndGuardrail,
      ToolSanitizeRequestGuardrail,
      ToolSanitizeResponseGuardrail,
      ToolConditionalExecutionGuardrail,
      ToolRequestIntercept,
      ToolExecutionIntercept,
      LlmSanitizeRequestGuardrail,
      LlmSanitizeResponseGuardrail,
      LlmConditionalExecutionGuardrail,
      LlmRequestIntercept,
      LlmExecutionIntercept,
      LlmStreamExecutionIntercept]"

definition list_runtime_registrations ::
    "runtime_registration_kind set option \<Rightarrow> process \<times> 'f context_state rwlock \<Rightarrow>
     registration_identity list flow_result \<times> (process \<times> 'f context_state rwlock)" where
  "list_runtime_registrations kinds = with_runtime_owner (\<lambda>l. case l of
       Poisoned m _ \<Rightarrow> (Inl (Internal m), l)
     | Healthy st \<Rightarrow>
         (Inr (sort_key (\<lambda>i. (ri_kind i, ri_effective_name i))
            (concat (map (\<lambda>k. if (case kinds of None \<Rightarrow> True | Some s \<Rightarrow> k \<in> s)
                 then map (registration_identity_of k) (surface_names (cx_registries st) k) else [])
               all_kinds))), l))"

section \<open>The global API\<close>

text \<open>
  The bodies of the macros. \<open>get\<close> and \<open>upd\<close> are the selector and the update of the field the
  generated function is for.
\<close>

type_synonym 'f global_env = "process \<times> 'f context_state rwlock"

definition global_register ::
    "('f registries \<Rightarrow> 'a sorted_registry) \<Rightarrow>
     (('a sorted_registry \<Rightarrow> 'a sorted_registry) \<Rightarrow> 'f registries \<Rightarrow> 'f registries) \<Rightarrow>
     'a registry_record \<Rightarrow> 'f global_env \<Rightarrow> unit flow_result \<times> 'f global_env" where
  "global_register get upd entry = with_runtime_owner (\<lambda>l. case l of
       Poisoned m _ \<Rightarrow> (Inl (Internal m), l)
     | Healthy st \<Rightarrow> (case register entry (get (cx_registries st)) of
           Inl m \<Rightarrow> (Inl (AlreadyExists m), l)
         | Inr r \<Rightarrow> (Inr (), Healthy (st\<lparr>cx_registries := upd (\<lambda>_. r) (cx_registries st)\<rparr>))))"

definition global_deregister ::
    "('f registries \<Rightarrow> 'a sorted_registry) \<Rightarrow>
     (('a sorted_registry \<Rightarrow> 'a sorted_registry) \<Rightarrow> 'f registries \<Rightarrow> 'f registries) \<Rightarrow>
     string \<Rightarrow> 'f global_env \<Rightarrow> bool flow_result \<times> 'f global_env" where
  "global_deregister get upd name = with_runtime_owner (\<lambda>l. case l of
       Poisoned m _ \<Rightarrow> (Inl (Internal m), l)
     | Healthy st \<Rightarrow> (let (b, r) = deregister name (get (cx_registries st))
         in (Inr b, Healthy (st\<lparr>cx_registries := upd (\<lambda>_. r) (cx_registries st)\<rparr>))))"

text \<open>Guardrails and injectors.\<close>

definition register_event_metadata_injector where
  "register_event_metadata_injector name priority f =
     global_register event_metadata_injectors event_metadata_injectors_update
       (new_record name priority f)"

definition deregister_event_metadata_injector where
  "deregister_event_metadata_injector =
     global_deregister event_metadata_injectors event_metadata_injectors_update"

definition register_mark_sanitize_guardrail where
  "register_mark_sanitize_guardrail name priority f =
     global_register mark_sanitize_guardrails mark_sanitize_guardrails_update
       (new_record name priority f)"

definition deregister_mark_sanitize_guardrail where
  "deregister_mark_sanitize_guardrail =
     global_deregister mark_sanitize_guardrails mark_sanitize_guardrails_update"

definition register_scope_sanitize_start_guardrail where
  "register_scope_sanitize_start_guardrail name priority f =
     global_register scope_sanitize_start_guardrails scope_sanitize_start_guardrails_update
       (new_record name priority f)"

definition deregister_scope_sanitize_start_guardrail where
  "deregister_scope_sanitize_start_guardrail =
     global_deregister scope_sanitize_start_guardrails scope_sanitize_start_guardrails_update"

definition register_scope_sanitize_end_guardrail where
  "register_scope_sanitize_end_guardrail name priority f =
     global_register scope_sanitize_end_guardrails scope_sanitize_end_guardrails_update
       (new_record name priority f)"

definition deregister_scope_sanitize_end_guardrail where
  "deregister_scope_sanitize_end_guardrail =
     global_deregister scope_sanitize_end_guardrails scope_sanitize_end_guardrails_update"

definition register_tool_sanitize_request_guardrail where
  "register_tool_sanitize_request_guardrail name priority f =
     global_register tool_sanitize_request_guardrails tool_sanitize_request_guardrails_update
       (new_record name priority f)"

definition deregister_tool_sanitize_request_guardrail where
  "deregister_tool_sanitize_request_guardrail =
     global_deregister tool_sanitize_request_guardrails tool_sanitize_request_guardrails_update"

definition register_tool_sanitize_response_guardrail where
  "register_tool_sanitize_response_guardrail name priority f =
     global_register tool_sanitize_response_guardrails tool_sanitize_response_guardrails_update
       (new_record name priority f)"

definition deregister_tool_sanitize_response_guardrail where
  "deregister_tool_sanitize_response_guardrail =
     global_deregister tool_sanitize_response_guardrails tool_sanitize_response_guardrails_update"

definition register_tool_conditional_execution_guardrail where
  "register_tool_conditional_execution_guardrail name priority f =
     global_register tool_conditional_execution_guardrails tool_conditional_execution_guardrails_update
       (new_record name priority f)"

definition deregister_tool_conditional_execution_guardrail where
  "deregister_tool_conditional_execution_guardrail =
     global_deregister tool_conditional_execution_guardrails tool_conditional_execution_guardrails_update"

definition register_llm_sanitize_request_guardrail where
  "register_llm_sanitize_request_guardrail name priority f =
     global_register llm_sanitize_request_guardrails llm_sanitize_request_guardrails_update
       (new_record name priority f)"

definition deregister_llm_sanitize_request_guardrail where
  "deregister_llm_sanitize_request_guardrail =
     global_deregister llm_sanitize_request_guardrails llm_sanitize_request_guardrails_update"

definition register_llm_sanitize_response_guardrail where
  "register_llm_sanitize_response_guardrail name priority f =
     global_register llm_sanitize_response_guardrails llm_sanitize_response_guardrails_update
       (new_record name priority f)"

definition deregister_llm_sanitize_response_guardrail where
  "deregister_llm_sanitize_response_guardrail =
     global_deregister llm_sanitize_response_guardrails llm_sanitize_response_guardrails_update"

definition register_llm_conditional_execution_guardrail where
  "register_llm_conditional_execution_guardrail name priority f =
     global_register llm_conditional_execution_guardrails llm_conditional_execution_guardrails_update
       (new_record name priority f)"

definition deregister_llm_conditional_execution_guardrail where
  "deregister_llm_conditional_execution_guardrail =
     global_deregister llm_conditional_execution_guardrails llm_conditional_execution_guardrails_update"

text \<open>Request intercepts carry a flag that ends the chain.\<close>

definition register_tool_request_intercept where
  "register_tool_request_intercept name priority brk f =
     global_register tool_request_intercepts tool_request_intercepts_update
       (new_record name priority (new_request_intercept brk f))"

definition deregister_tool_request_intercept where
  "deregister_tool_request_intercept =
     global_deregister tool_request_intercepts tool_request_intercepts_update"

definition register_llm_request_intercept where
  "register_llm_request_intercept name priority brk f =
     global_register llm_request_intercepts llm_request_intercepts_update
       (new_record name priority (new_request_intercept brk f))"

definition deregister_llm_request_intercept where
  "deregister_llm_request_intercept =
     global_deregister llm_request_intercepts llm_request_intercepts_update"

text \<open>Execution intercepts.\<close>

definition register_tool_execution_intercept where
  "register_tool_execution_intercept name priority f =
     global_register tool_execution_intercepts tool_execution_intercepts_update
       (new_record name priority f)"

definition deregister_tool_execution_intercept where
  "deregister_tool_execution_intercept =
     global_deregister tool_execution_intercepts tool_execution_intercepts_update"

definition register_llm_execution_intercept where
  "register_llm_execution_intercept name priority f =
     global_register llm_execution_intercepts llm_execution_intercepts_update
       (new_record name priority f)"

definition deregister_llm_execution_intercept where
  "deregister_llm_execution_intercept =
     global_deregister llm_execution_intercepts llm_execution_intercepts_update"

definition register_llm_stream_execution_intercept where
  "register_llm_stream_execution_intercept name priority f =
     global_register llm_stream_execution_intercepts llm_stream_execution_intercepts_update
       (new_record name priority f)"

definition deregister_llm_stream_execution_intercept where
  "deregister_llm_stream_execution_intercept =
     global_deregister llm_stream_execution_intercepts llm_stream_execution_intercepts_update"

section \<open>Invariant and interface\<close>

definition registries_ok :: "'f registries \<Rightarrow> bool" where
  "registries_ok r \<longleftrightarrow> distinct (map fst (event_subscribers r)) \<and>
     registry_ok (event_metadata_injectors r) \<and>
     registry_ok (mark_sanitize_guardrails r) \<and>
     registry_ok (scope_sanitize_start_guardrails r) \<and>
     registry_ok (scope_sanitize_end_guardrails r) \<and>
     registry_ok (tool_sanitize_request_guardrails r) \<and>
     registry_ok (tool_sanitize_response_guardrails r) \<and>
     registry_ok (tool_conditional_execution_guardrails r) \<and>
     registry_ok (tool_request_intercepts r) \<and>
     registry_ok (tool_execution_intercepts r) \<and>
     registry_ok (llm_sanitize_request_guardrails r) \<and>
     registry_ok (llm_sanitize_response_guardrails r) \<and>
     registry_ok (llm_conditional_execution_guardrails r) \<and>
     registry_ok (llm_request_intercepts r) \<and>
     registry_ok (llm_execution_intercepts r) \<and>
     registry_ok (llm_stream_execution_intercepts r)"

text \<open>
  What the macros rely on about the field they are instantiated with: it can be read back after
  an update, an update reaches only it, and it keeps the invariant of the tables.
\<close>

locale registry_field =
  fixes get :: "'f registries \<Rightarrow> 'a sorted_registry"
    and upd :: "('a sorted_registry \<Rightarrow> 'a sorted_registry) \<Rightarrow> 'f registries \<Rightarrow> 'f registries"
  assumes get_upd: "get (upd g r) = g (get r)"
    and upd_upd: "upd g (upd h r) = upd (\<lambda>x. g (h x)) r"
    and upd_get: "upd (\<lambda>_. get r) r = r"
    and get_ok: "registries_ok r \<Longrightarrow> registry_ok (get r)"
    and upd_ok: "registries_ok r \<Longrightarrow> registry_ok x \<Longrightarrow> registries_ok (upd (\<lambda>_. x) r)"
begin

lemma register_keeps_ok:
  assumes "registries_ok (cx_registries st)"
    and "global_register get upd e (p, Healthy st) = (res, (p', l'))"
  shows "\<exists>st'. l' = Healthy st' \<and> registries_ok (cx_registries st')"
  using assms register_ok [OF get_ok [OF assms(1)]] upd_ok [OF assms(1)]
  by (auto simp: global_register_def with_runtime_owner_def split: prod.splits sum.splits)

lemma deregister_keeps_ok:
  assumes "registries_ok (cx_registries st)"
    and "global_deregister get upd k (p, Healthy st) = (res, (p', l'))"
  shows "\<exists>st'. l' = Healthy st' \<and> registries_ok (cx_registries st')"
  using assms deregister_ok [OF get_ok [OF assms(1)]] upd_ok [OF assms(1)]
  by (auto simp: global_deregister_def with_runtime_owner_def split: prod.splits sum.splits)

lemma register_result:
  assumes "global_register get upd e (p, Healthy st) = (Inr u, (p', l'))"
  obtains r where "register e (get (cx_registries st)) = Inr r"
    "l' = Healthy (st\<lparr>cx_registries := upd (\<lambda>_. r) (cx_registries st)\<rparr>)"
  using assms
  by (auto simp: global_register_def with_runtime_owner_def split: prod.splits sum.splits)

text \<open>A name that is in use is refused and nothing changes.\<close>

lemma register_duplicate:
  assumes "registries_ok (cx_registries st)"
    and "global_register get upd e (p, Healthy st) = (res, (p', l'))"
    and "rr_name e \<in> rr_name ` set (sorted_values (get (cx_registries st)))"
  shows "(\<exists>err. res = Inl err) \<and> l' = Healthy st"
proof -
  have ok: "registry_ok (get (cx_registries st))" by (rule get_ok [OF assms(1)])
  obtain e' where "e' \<in> set (sorted_values (get (cx_registries st)))" "rr_name e' = rr_name e"
    using assms(3) by force
  then have "registry_map (get (cx_registries st)) (rr_name e) \<noteq> None"
    using sorted_reg.listing_find [OF ok, of e'] by simp
  then obtain m where "register e (get (cx_registries st)) = Inl m"
    using sorted_reg.add_fails [OF ok, of e] by blast
  then show ?thesis using assms(2)
    by (auto simp: global_register_def with_runtime_owner_def split: prod.splits sum.splits)
qed

text \<open>Registering a name and removing it again gives back the chain as it was.\<close>

lemma register_deregister:
  assumes ok: "registries_ok (cx_registries st)"
    and reg: "global_register get upd e (p, Healthy st) = (Inr u, (p1, l1))"
    and dereg: "global_deregister get upd (rr_name e) (p1, l1) = (Inr b, (p2, l2))"
  shows "b \<and> (\<exists>r. l2 = Healthy (st\<lparr>cx_registries := upd (\<lambda>_. r) (cx_registries st)\<rparr>) \<and>
     sorted_values r = sorted_values (get (cx_registries st)))"
proof -
  obtain r1 where r1: "register e (get (cx_registries st)) = Inr r1"
      "l1 = Healthy (st\<lparr>cx_registries := upd (\<lambda>_. r1) (cx_registries st)\<rparr>)"
    using reg by (rule register_result)
  obtain r2 where r2: "deregister (rr_name e) r1 = (b, r2)"
      "l2 = Healthy (st\<lparr>cx_registries := upd (\<lambda>_. r2) (cx_registries st)\<rparr>)"
    using dereg r1(2)
    by (auto simp: global_deregister_def with_runtime_owner_def get_upd upd_upd split: prod.splits sum.splits)
  show ?thesis
    using sorted_reg.add_remove_listing [OF get_ok [OF ok] r1(1) r2(1)] r2(2) by blast
qed

end

interpretation event_metadata_injector_field: registry_field event_metadata_injectors event_metadata_injectors_update
  by unfold_locales (simp_all add: registries_ok_def)

interpretation mark_sanitize_guardrail_field: registry_field mark_sanitize_guardrails mark_sanitize_guardrails_update
  by unfold_locales (simp_all add: registries_ok_def)

interpretation scope_sanitize_start_guardrail_field: registry_field scope_sanitize_start_guardrails scope_sanitize_start_guardrails_update
  by unfold_locales (simp_all add: registries_ok_def)

interpretation scope_sanitize_end_guardrail_field: registry_field scope_sanitize_end_guardrails scope_sanitize_end_guardrails_update
  by unfold_locales (simp_all add: registries_ok_def)

interpretation tool_sanitize_request_guardrail_field: registry_field tool_sanitize_request_guardrails tool_sanitize_request_guardrails_update
  by unfold_locales (simp_all add: registries_ok_def)

interpretation tool_sanitize_response_guardrail_field: registry_field tool_sanitize_response_guardrails tool_sanitize_response_guardrails_update
  by unfold_locales (simp_all add: registries_ok_def)

interpretation tool_conditional_execution_guardrail_field: registry_field tool_conditional_execution_guardrails tool_conditional_execution_guardrails_update
  by unfold_locales (simp_all add: registries_ok_def)

interpretation tool_request_intercept_field: registry_field tool_request_intercepts tool_request_intercepts_update
  by unfold_locales (simp_all add: registries_ok_def)

interpretation tool_execution_intercept_field: registry_field tool_execution_intercepts tool_execution_intercepts_update
  by unfold_locales (simp_all add: registries_ok_def)

interpretation llm_sanitize_request_guardrail_field: registry_field llm_sanitize_request_guardrails llm_sanitize_request_guardrails_update
  by unfold_locales (simp_all add: registries_ok_def)

interpretation llm_sanitize_response_guardrail_field: registry_field llm_sanitize_response_guardrails llm_sanitize_response_guardrails_update
  by unfold_locales (simp_all add: registries_ok_def)

interpretation llm_conditional_execution_guardrail_field: registry_field llm_conditional_execution_guardrails llm_conditional_execution_guardrails_update
  by unfold_locales (simp_all add: registries_ok_def)

interpretation llm_request_intercept_field: registry_field llm_request_intercepts llm_request_intercepts_update
  by unfold_locales (simp_all add: registries_ok_def)

interpretation llm_execution_intercept_field: registry_field llm_execution_intercepts llm_execution_intercepts_update
  by unfold_locales (simp_all add: registries_ok_def)

interpretation llm_stream_execution_intercept_field: registry_field llm_stream_execution_intercepts llm_stream_execution_intercepts_update
  by unfold_locales (simp_all add: registries_ok_def)

section \<open>Snapshots and listings\<close>

text \<open>The chain a surface would run: its entries with their priority, callback and flag.\<close>

lemma set_all_kinds: "k \<in> set all_kinds"
  by (cases k) (simp_all add: all_kinds_def)

lemma distinct_all_kinds: "distinct all_kinds"
  by (simp add: all_kinds_def)

lemma surface_names_new: "surface_names registries_new k = []"
  by (cases k) (simp_all add: registries_new_def registry_names_def registry_values_def new_registry_def)

lemma copy_surface_other:
  "k \<noteq> k' \<Longrightarrow> surface_names (copy_surface from k to) k' = surface_names to k'"
  by (cases k; cases k') simp_all

lemma copy_surface_same: "surface_names (copy_surface from k to) k = surface_names from k"
  by (cases k) simp_all

lemma copy_surfaces:
  "surface_names (fold (copy_surface from) kinds to) k =
     (if k \<in> set kinds then surface_names from k else surface_names to k)"
proof (induction kinds arbitrary: to)
  case (Cons k' kinds)
  then show ?case
    by (cases "k = k'") (simp_all add: copy_surface_same copy_surface_other)
qed simp

lemma distinct_surface_names: "registries_ok r \<Longrightarrow> distinct (surface_names r k)"
proof -
  assume r: "registries_ok r"
  have names: "distinct (registry_names x)" if "registry_ok x" for x :: "'b sorted_registry"
  proof -
    have "registry_names x = map fst (entries x)"
      using that by (auto simp: registry_names_def registry_values_def registry_ok_def)
    then show ?thesis using that by (simp add: registry_ok_def)
  qed
  show ?thesis using r by (cases k) (simp_all add: registries_ok_def names)
qed

lemma identity_kind [simp]: "ri_kind (registration_identity_of k n) = k"
  by (simp add: registration_identity_of_def split: option.split prod.split)

lemma identity_name [simp]: "ri_effective_name (registration_identity_of k n) = n"
  by (simp add: registration_identity_of_def split: option.split prod.split)

lemma identity_inj:
  "registration_identity_of k n = registration_identity_of k' n' \<longleftrightarrow> k = k' \<and> n = n'"
  by (metis identity_kind identity_name)

section \<open>Properties\<close>

text \<open>
  A snapshot holds the chosen surfaces as they were, and nothing else: work that was queued
  with a snapshot cannot see a registration that came later or on another surface.
\<close>

lemma snapshot_exact:
  "surface_names (cx_registries (registry_snapshot kinds st)) k =
     (if k \<in> set kinds then surface_names (cx_registries st) k else []) \<and>
   observability_full_payloads_enabled (registry_snapshot kinds st) =
     observability_full_payloads_enabled st"
proof -
  have "(\<lambda>k r. copy_surface (cx_registries st) k r) = copy_surface (cx_registries st)" ..
  then show ?thesis by (simp add: registry_snapshot_def copy_surfaces surface_names_new)
qed

text \<open>
  The listing of registrations is complete and deterministic: it reports exactly the names
  registered on the selected surfaces, each once, ordered by surface and then by name, so the
  order in which the hash tables yield them does not show.
\<close>

lemma list_registrations_exact:
  assumes "registries_ok (cx_registries st)"
    and "list_runtime_registrations kinds (p, Healthy st) = (Inr ids, (p', l'))"
  shows "l' = Healthy st \<and>
    sorted_wrt (<) (map (\<lambda>i. (ri_kind i, ri_effective_name i)) ids) \<and>
    set ids = {registration_identity_of k n | k n.
       (case kinds of None \<Rightarrow> True | Some s \<Rightarrow> k \<in> s) \<and> n \<in> set (surface_names (cx_registries st) k)}"
proof -
  let ?sel = "\<lambda>k. (case kinds of None \<Rightarrow> True | Some s \<Rightarrow> k \<in> s)"
  let ?ids = "\<lambda>k. if ?sel k
      then map (registration_identity_of k) (surface_names (cx_registries st) k) else []"
  let ?key = "\<lambda>i. (ri_kind i, ri_effective_name i)"
  have ids: "ids = sort_key ?key (concat (map ?ids all_kinds))" and l': "l' = Healthy st"
    using assms(2)
    by (auto simp: list_runtime_registrations_def with_runtime_owner_def split: prod.splits sum.splits)
  have "distinct (concat (map (\<lambda>k. map ?key (?ids k)) ks))" if "distinct ks" for ks
    using that distinct_surface_names [OF assms(1)]
    by (induction ks) (auto simp: distinct_map inj_on_def identity_inj)
  then have d: "distinct (map ?key (concat (map ?ids all_kinds)))"
    using distinct_all_kinds by (simp add: map_concat comp_def)
  have "mset (map ?key ids) = mset (map ?key (concat (map ?ids all_kinds)))" by (simp add: ids)
  then have "distinct (map ?key ids)" using d mset_eq_imp_distinct_iff by blast
  moreover have "sorted (map ?key ids)" by (simp only: ids sorted_sort_key)
  moreover have "set ids = {registration_identity_of k n | k n. ?sel k \<and>
      n \<in> set (surface_names (cx_registries st) k)}"
    using set_all_kinds by (auto simp: ids split: if_splits)
  ultimately show ?thesis using l' by (simp add: strict_sorted_iff)
qed

definition demo_process :: process where
  "demo_process = publish_process_runtime_owner
     \<lparr>ro_pid = 7, ro_binding_kind = ''rust'', ro_major_version = ''1''\<rparr>
     \<lparr>pr_pid = 7, pr_version = ''1.2.0'', env_binding_kind = None, env_owner_token = None,
      controller = Healthy None\<rparr>"

definition demo_context :: "nat context_state" where
  "demo_context = context_state_new\<lparr>cx_registries := registries_new\<lparr>
     tool_execution_intercepts := demo_registry, event_subscribers := [(''log'', 9)]\<rparr>\<rparr>"

lemma demo_context_ok: "registries_ok (cx_registries demo_context)"
  by (simp add: demo_context_def registries_ok_def registries_new_def registry_ok_new demo_registry_ok)

lemma demo_owner: "ensure_process_runtime_owner demo_process = (Inr (), demo_process)"
proof -
  let ?ow = "\<lparr>ro_pid = 7, ro_binding_kind = ''rust'', ro_major_version = ''1''\<rparr>"
  have "owner_ok ?ow" by (simp add: owner_ok_def is_ascii_digit_def)
  then have "read_process_runtime_owner demo_process = (Some ?ow, demo_process)"
    unfolding demo_process_def by (rule read_published)
  moreover have "owner_current demo_process ''rust'' = Inr ?ow"
    by (simp add: demo_process_def publish_process_runtime_owner_def owner_current_def
        compatibility_major_version_def is_ascii_digit_def)
  moreover have "controller demo_process = Healthy None" "resolve_binding_kind demo_process None = ''rust''"
    by (simp_all add: demo_process_def publish_process_runtime_owner_def resolve_binding_kind_def)
  ultimately show ?thesis by (simp add: ensure_process_runtime_owner_def same_owner_def)
qed

text \<open>
  A registration through the public API can be undone: after a tool execution intercept has
  been registered and removed by its name, both calls having reached the runtime, the removal
  reports that it removed something, the intercept chain is what it was, and no other surface,
  nor any setting of the context, has changed.
\<close>

lemma tool_execution_intercept_undo:
  assumes "registries_ok (cx_registries st)"
    and "register_tool_execution_intercept name priority f (p, Healthy st) = (Inr u, (p1, l1))"
    and "deregister_tool_execution_intercept name (p1, l1) = (Inr b, (p2, l2))"
  shows "b \<and> (\<exists>r. l2 = Healthy (st\<lparr>cx_registries :=
       (cx_registries st)\<lparr>tool_execution_intercepts := r\<rparr>\<rparr>) \<and>
     sorted_values r = sorted_values (tool_execution_intercepts (cx_registries st)))"
  using tool_execution_intercept_field.register_deregister [OF assms(1)
      assms(2) [unfolded register_tool_execution_intercept_def], of b p2 l2]
    assms(3) [unfolded deregister_tool_execution_intercept_def]
  by (simp add: new_record_def)

end
