(* ===== verification/Scope_Stack.thy ===== *)
theory Scope_Stack
  imports Relay_Handles Runtime_State
begin

text \<open>
  The scope stack (\<^verbatim>\<open>crates/core/src/api/runtime/scope_stack.rs\<close>): the hierarchy of active scopes,
  the registries local to each of them, the freshness of agents, propagation contexts, and the
  rules that say which stack an execution context sees; and the scope-local registration API of
  \<^verbatim>\<open>crates/core/src/api/registry.rs\<close>.

  The stack is listed from the root to the top. An operation that the source ends in a panic when
  the stack is empty, or when it has no agent, returns \<open>None\<close> there; the invariant excludes both.
  A stack handle is an \<^verbatim>\<open>Arc<RwLock<ScopeStack>>\<close>, so it is a reference into a heap of locks. The
  JSON form of a propagation context is not modelled.
\<close>

section \<open>Hexadecimal forms of identifiers\<close>

definition hex_lower :: string where "hex_lower = ''0123456789abcdef''"

definition hex_digits :: "nat \<Rightarrow> uuid \<Rightarrow> string" where
  "hex_digits n u = map (\<lambda>i. hex_lower ! unat (take_bit 4 (drop_bit (4 * i) u))) (rev [0..<n])"

definition show_uuid :: "uuid \<Rightarrow> string" where
  "show_uuid u =
     (let d = hex_digits 32 u
      in take 8 d @ ''-'' @ take 4 (drop 8 d) @ ''-'' @ take 4 (drop 12 d) @ ''-'' @
         take 4 (drop 16 d) @ ''-'' @ drop 20 d)"

text \<open>The span identifier is the last eight bytes.\<close>

definition format_traceparent :: "uuid \<Rightarrow> uuid \<Rightarrow> string" where
  "format_traceparent trace span_id = ''00-'' @ hex_digits 32 trace @ ''-'' @ hex_digits 16 span_id @ ''-01''"

section \<open>Propagation contexts\<close>

record propagation_context =
  pc_version :: "16 word"
  pc_root_uuid :: "uuid option"
  pc_parent_uuid :: uuid

definition PROPAGATION_VERSION :: "16 word" where "PROPAGATION_VERSION = 1"

text \<open>Unusable are the zero identifier and those whose last eight bytes are zero.\<close>

definition unusable_uuid :: "uuid \<Rightarrow> bool" where
  "unusable_uuid u \<longleftrightarrow> u = 0 \<or> take_bit 64 u = 0"

definition validate_propagation :: "propagation_context \<Rightarrow> unit flow_result" where
  "validate_propagation c =
     (if pc_version c \<noteq> PROPAGATION_VERSION
      then Inl (InvalidArgument (''unsupported propagation context version '' @
        show_nat (unat (pc_version c)) @ ''; expected '' @ show_nat (unat PROPAGATION_VERSION)))
      else if unusable_uuid (pc_parent_uuid c)
      then Inl (InvalidArgument ''propagation context parent_uuid is not a usable Relay identifier'')
      else if (case pc_root_uuid c of None \<Rightarrow> False | Some r \<Rightarrow> unusable_uuid r)
      then Inl (InvalidArgument ''propagation context root_uuid is not a usable Relay identifier'')
      else Inr ())"

definition to_traceparent :: "propagation_context \<Rightarrow> string flow_result" where
  "to_traceparent c = (case validate_propagation c of
       Inl e \<Rightarrow> Inl e
     | Inr _ \<Rightarrow> (case pc_root_uuid c of
           None \<Rightarrow> Inl (InvalidArgument ''rootless propagation context cannot be converted to traceparent'')
         | Some r \<Rightarrow> Inr (format_traceparent r (pc_parent_uuid c))))"

section \<open>The stack\<close>

record 'f scope_stack =
  ss_stack :: "scope_handle list"
  scope_registries :: "(uuid \<times> 'f registries) list"
  fresh_agents :: "uuid set"
  propagated_parent_uuid :: "uuid option"
  propagated_root_uuid :: "uuid option"
  is_rootless_propagation :: bool

definition build_handle ::
    "uuid \<Rightarrow> timestamp \<Rightarrow> string \<Rightarrow> scope_type \<Rightarrow> uuid option \<Rightarrow> scope_handle" where
  "build_handle u now name ty parent =
     \<lparr>sh_uuid = u, sh_started_at = now, sh_scope_type = ty, sh_name = name, sh_data = None,
      sh_metadata = None, sh_attributes = 0, sh_parent_uuid = parent\<rparr>"

definition scope_stack_new :: "uuid \<Rightarrow> timestamp \<Rightarrow> 'f scope_stack" where
  "scope_stack_new fresh now =
     \<lparr>ss_stack = [build_handle fresh now ''root'' Agent None], scope_registries = [],
      fresh_agents = {fresh}, propagated_parent_uuid = None, propagated_root_uuid = None,
      is_rootless_propagation = False\<rparr>"

definition from_propagation ::
    "timestamp \<Rightarrow> propagation_context \<Rightarrow> 'f scope_stack flow_result" where
  "from_propagation now c = (case validate_propagation c of
       Inl e \<Rightarrow> Inl e
     | Inr _ \<Rightarrow>
         (let (root, parent) = (case pc_root_uuid c of
              Some r \<Rightarrow> (build_handle r now ''propagated-root'' Agent None,
                if r \<noteq> pc_parent_uuid c
                then Some (build_handle (pc_parent_uuid c) now ''propagated-parent'' Unknown (Some r))
                else None)
            | None \<Rightarrow> (build_handle (pc_parent_uuid c) now ''propagated-root'' Agent None, None))
          in Inr \<lparr>ss_stack = root # (case parent of Some h \<Rightarrow> [h] | None \<Rightarrow> []),
             scope_registries = [], fresh_agents = {sh_uuid root},
             propagated_parent_uuid = map_option (\<lambda>_. pc_parent_uuid c) (pc_root_uuid c),
             propagated_root_uuid = pc_root_uuid c,
             is_rootless_propagation = (pc_root_uuid c = None)\<rparr>))"

abbreviation is_agent :: "scope_handle \<Rightarrow> bool" where
  "is_agent h \<equiv> sh_scope_type h = Agent"

definition ss_push :: "scope_handle \<Rightarrow> 'f scope_stack \<Rightarrow> 'f scope_stack" where
  "ss_push h s =
     (let s = (if is_agent h then s\<lparr>fresh_agents := insert (sh_uuid h) (fresh_agents s)\<rparr> else s)
      in s\<lparr>ss_stack := ss_stack s @ [h]\<rparr>)"

definition ss_top :: "'f scope_stack \<Rightarrow> scope_handle option" where
  "ss_top s = (if ss_stack s = [] then None else Some (last (ss_stack s)))"

text \<open>
  \<^verbatim>\<open>top_mut\<close> gives out a mutable reference to the top handle; the client's change is passed in.
\<close>

definition ss_top_mut :: "(scope_handle \<Rightarrow> scope_handle) \<Rightarrow> 'f scope_stack \<Rightarrow> 'f scope_stack option" where
  "ss_top_mut f s = (if ss_stack s = [] then None
     else Some (s\<lparr>ss_stack := butlast (ss_stack s) @ [f (last (ss_stack s))]\<rparr>))"

definition ss_root_uuid :: "'f scope_stack \<Rightarrow> uuid option" where
  "ss_root_uuid s = (case ss_stack s of [] \<Rightarrow> None | h # _ \<Rightarrow> Some (sh_uuid h))"

definition event_propagation_root_uuid :: "'f scope_stack \<Rightarrow> uuid option" where
  "event_propagation_root_uuid s = (case propagated_root_uuid s of
       Some r \<Rightarrow> Some r
     | None \<Rightarrow> (case List.find is_agent (drop 1 (ss_stack s)) of
           Some h \<Rightarrow> Some (sh_uuid h)
         | None \<Rightarrow> if is_rootless_propagation s then None else ss_root_uuid s))"

definition is_propagated_parent :: "uuid \<Rightarrow> 'f scope_stack \<Rightarrow> bool" where
  "is_propagated_parent u s \<longleftrightarrow> propagated_parent_uuid s = Some u"

definition ss_find :: "uuid \<Rightarrow> 'f scope_stack \<Rightarrow> scope_handle option" where
  "ss_find u s = List.find (\<lambda>h. sh_uuid h = u) (ss_stack s)"

definition ss_remove :: "uuid \<Rightarrow> 'f scope_stack \<Rightarrow> scope_handle flow_result option \<times> 'f scope_stack" where
  "ss_remove u s = (case ss_top s of
       None \<Rightarrow> (None, s)
     | Some t \<Rightarrow>
         if sh_uuid t = u then
           (if length (ss_stack s) = 1
            then (Some (Inl (InvalidArgument ''root scope cannot be removed'')), s)
            else (Some (Inr t),
                  s\<lparr>scope_registries := AList.delete u (scope_registries s),
                    fresh_agents := fresh_agents s - {u}, ss_stack := butlast (ss_stack s)\<rparr>))
         else if list_ex (\<lambda>h. sh_uuid h = u) (ss_stack s)
         then (Some (Inl (InvalidArgument ''scope handle is not at the top of the stack'')), s)
         else (Some (Inl (NotFound ''scope handle not found'')), s))"

text \<open>\<^verbatim>\<open>position\<close>, and the search for the closest agent at or below a parent.\<close>

fun position :: "('a \<Rightarrow> bool) \<Rightarrow> 'a list \<Rightarrow> nat option" where
  "position P [] = None"
| "position P (x # xs) = (if P x then Some 0 else map_option Suc (position P xs))"

definition owning_agent_uuid :: "uuid option \<Rightarrow> 'f scope_stack \<Rightarrow> uuid option" where
  "owning_agent_uuid parent s =
     (let search_end = (case Option.bind parent (\<lambda>p. position (\<lambda>h. sh_uuid h = p) (ss_stack s)) of
          None \<Rightarrow> length (ss_stack s) | Some i \<Rightarrow> i + 1)
      in map_option sh_uuid (List.find is_agent (rev (take search_end (ss_stack s)))))"

definition take_agent_freshness :: "uuid option \<Rightarrow> 'f scope_stack \<Rightarrow> bool option \<times> 'f scope_stack" where
  "take_agent_freshness parent s = (case owning_agent_uuid parent s of
       None \<Rightarrow> (None, s)
     | Some u \<Rightarrow> (Some (u \<in> fresh_agents s), s\<lparr>fresh_agents := fresh_agents s - {u}\<rparr>))"

definition mark_agent_fresh :: "uuid option \<Rightarrow> 'f scope_stack \<Rightarrow> unit option \<times> 'f scope_stack" where
  "mark_agent_fresh parent s = (case owning_agent_uuid parent s of
       None \<Rightarrow> (None, s)
     | Some u \<Rightarrow> (Some (), s\<lparr>fresh_agents := insert u (fresh_agents s)\<rparr>))"

text \<open>
  \<^verbatim>\<open>local_registries_mut\<close> gives out a mutable reference; here the client's update is passed in.
  The entry is created on first access, whatever the client then does with it.
\<close>

definition local_registries_mut ::
    "uuid \<Rightarrow> ('f registries \<Rightarrow> 'a \<times> 'f registries) \<Rightarrow> 'f scope_stack \<Rightarrow> ('a \<times> 'f scope_stack) option" where
  "local_registries_mut u f s =
     (if \<not> list_ex (\<lambda>h. sh_uuid h = u) (ss_stack s) then None
      else (let r = (case map_of (scope_registries s) u of Some r \<Rightarrow> r | None \<Rightarrow> registries_new);
                (a, r') = f r
            in Some (a, s\<lparr>scope_registries := AList.update u r' (scope_registries s)\<rparr>)))"

definition collect_scope_local_registries ::
    "('f registries \<Rightarrow> 'a sorted_registry) \<Rightarrow> 'f scope_stack \<Rightarrow> 'a sorted_registry list" where
  "collect_scope_local_registries field s =
     map field (List.map_filter (\<lambda>h. map_of (scope_registries s) (sh_uuid h)) (ss_stack s))"

definition collect_scope_local_subscribers :: "'f scope_stack \<Rightarrow> 'f list" where
  "collect_scope_local_subscribers s =
     concat (map (\<lambda>r. map snd (event_subscribers r))
       (List.map_filter (\<lambda>h. map_of (scope_registries s) (sh_uuid h)) (ss_stack s)))"

section \<open>The scope-local API\<close>

type_synonym 'f scope_env = "process \<times> 'f scope_stack rwlock"

definition scope_register ::
    "('f registries \<Rightarrow> 'a sorted_registry) \<Rightarrow>
     (('a sorted_registry \<Rightarrow> 'a sorted_registry) \<Rightarrow> 'f registries \<Rightarrow> 'f registries) \<Rightarrow>
     uuid \<Rightarrow> 'a registry_record \<Rightarrow> 'f scope_env \<Rightarrow> unit flow_result outcome \<times> 'f scope_env" where
  "scope_register get upd u entry env = (case env of (p, l) \<Rightarrow>
     (case ensure_process_runtime_owner p of
        (Inl e, p') \<Rightarrow> (Finished (Inl e), (p', l))
      | (Inr _, p') \<Rightarrow> (case l of
          Poisoned m _ \<Rightarrow> (Panicked, (p', l))
        | Healthy s \<Rightarrow>
            (case local_registries_mut u (\<lambda>r. case register entry (get r) of
                 Inl m \<Rightarrow> (Inl (AlreadyExists m), r)
               | Inr g \<Rightarrow> (Inr (), upd (\<lambda>_. g) r)) s of
               None \<Rightarrow> (Finished (Inl (NotFound (''scope '' @ show_uuid u @ '' not found''))), (p', l))
             | Some (res, s') \<Rightarrow> (Finished res, (p', Healthy s'))))))"

definition scope_deregister ::
    "('f registries \<Rightarrow> 'a sorted_registry) \<Rightarrow>
     (('a sorted_registry \<Rightarrow> 'a sorted_registry) \<Rightarrow> 'f registries \<Rightarrow> 'f registries) \<Rightarrow>
     uuid \<Rightarrow> string \<Rightarrow> 'f scope_env \<Rightarrow> bool flow_result outcome \<times> 'f scope_env" where
  "scope_deregister get upd u name env = (case env of (p, l) \<Rightarrow>
     (case ensure_process_runtime_owner p of
        (Inl e, p') \<Rightarrow> (Finished (Inl e), (p', l))
      | (Inr _, p') \<Rightarrow> (case l of
          Poisoned m _ \<Rightarrow> (Panicked, (p', l))
        | Healthy s \<Rightarrow>
            (case local_registries_mut u
                (\<lambda>r. let (b, g) = deregister name (get r) in (Inr b, upd (\<lambda>_. g) r)) s of
               None \<Rightarrow> (Finished (Inl (NotFound (''scope '' @ show_uuid u @ '' not found''))), (p', l))
             | Some (res, s') \<Rightarrow> (Finished res, (p', Healthy s'))))))"

definition scope_register_event_metadata_injector where
  "scope_register_event_metadata_injector u name priority f =
     scope_register event_metadata_injectors event_metadata_injectors_update u
       (new_record name priority f)"

definition scope_deregister_event_metadata_injector where
  "scope_deregister_event_metadata_injector =
     scope_deregister event_metadata_injectors event_metadata_injectors_update"

definition scope_register_mark_sanitize_guardrail where
  "scope_register_mark_sanitize_guardrail u name priority f =
     scope_register mark_sanitize_guardrails mark_sanitize_guardrails_update u
       (new_record name priority f)"

definition scope_deregister_mark_sanitize_guardrail where
  "scope_deregister_mark_sanitize_guardrail =
     scope_deregister mark_sanitize_guardrails mark_sanitize_guardrails_update"

definition scope_register_scope_sanitize_start_guardrail where
  "scope_register_scope_sanitize_start_guardrail u name priority f =
     scope_register scope_sanitize_start_guardrails scope_sanitize_start_guardrails_update u
       (new_record name priority f)"

definition scope_deregister_scope_sanitize_start_guardrail where
  "scope_deregister_scope_sanitize_start_guardrail =
     scope_deregister scope_sanitize_start_guardrails scope_sanitize_start_guardrails_update"

definition scope_register_scope_sanitize_end_guardrail where
  "scope_register_scope_sanitize_end_guardrail u name priority f =
     scope_register scope_sanitize_end_guardrails scope_sanitize_end_guardrails_update u
       (new_record name priority f)"

definition scope_deregister_scope_sanitize_end_guardrail where
  "scope_deregister_scope_sanitize_end_guardrail =
     scope_deregister scope_sanitize_end_guardrails scope_sanitize_end_guardrails_update"

definition scope_register_tool_sanitize_request_guardrail where
  "scope_register_tool_sanitize_request_guardrail u name priority f =
     scope_register tool_sanitize_request_guardrails tool_sanitize_request_guardrails_update u
       (new_record name priority f)"

definition scope_deregister_tool_sanitize_request_guardrail where
  "scope_deregister_tool_sanitize_request_guardrail =
     scope_deregister tool_sanitize_request_guardrails tool_sanitize_request_guardrails_update"

definition scope_register_tool_sanitize_response_guardrail where
  "scope_register_tool_sanitize_response_guardrail u name priority f =
     scope_register tool_sanitize_response_guardrails tool_sanitize_response_guardrails_update u
       (new_record name priority f)"

definition scope_deregister_tool_sanitize_response_guardrail where
  "scope_deregister_tool_sanitize_response_guardrail =
     scope_deregister tool_sanitize_response_guardrails tool_sanitize_response_guardrails_update"

definition scope_register_tool_conditional_execution_guardrail where
  "scope_register_tool_conditional_execution_guardrail u name priority f =
     scope_register tool_conditional_execution_guardrails tool_conditional_execution_guardrails_update u
       (new_record name priority f)"

definition scope_deregister_tool_conditional_execution_guardrail where
  "scope_deregister_tool_conditional_execution_guardrail =
     scope_deregister tool_conditional_execution_guardrails tool_conditional_execution_guardrails_update"

definition scope_register_llm_sanitize_request_guardrail where
  "scope_register_llm_sanitize_request_guardrail u name priority f =
     scope_register llm_sanitize_request_guardrails llm_sanitize_request_guardrails_update u
       (new_record name priority f)"

definition scope_deregister_llm_sanitize_request_guardrail where
  "scope_deregister_llm_sanitize_request_guardrail =
     scope_deregister llm_sanitize_request_guardrails llm_sanitize_request_guardrails_update"

definition scope_register_llm_sanitize_response_guardrail where
  "scope_register_llm_sanitize_response_guardrail u name priority f =
     scope_register llm_sanitize_response_guardrails llm_sanitize_response_guardrails_update u
       (new_record name priority f)"

definition scope_deregister_llm_sanitize_response_guardrail where
  "scope_deregister_llm_sanitize_response_guardrail =
     scope_deregister llm_sanitize_response_guardrails llm_sanitize_response_guardrails_update"

definition scope_register_llm_conditional_execution_guardrail where
  "scope_register_llm_conditional_execution_guardrail u name priority f =
     scope_register llm_conditional_execution_guardrails llm_conditional_execution_guardrails_update u
       (new_record name priority f)"

definition scope_deregister_llm_conditional_execution_guardrail where
  "scope_deregister_llm_conditional_execution_guardrail =
     scope_deregister llm_conditional_execution_guardrails llm_conditional_execution_guardrails_update"

definition scope_register_tool_request_intercept where
  "scope_register_tool_request_intercept u name priority brk f =
     scope_register tool_request_intercepts tool_request_intercepts_update u
       (new_record name priority (new_request_intercept brk f))"

definition scope_deregister_tool_request_intercept where
  "scope_deregister_tool_request_intercept =
     scope_deregister tool_request_intercepts tool_request_intercepts_update"

definition scope_register_llm_request_intercept where
  "scope_register_llm_request_intercept u name priority brk f =
     scope_register llm_request_intercepts llm_request_intercepts_update u
       (new_record name priority (new_request_intercept brk f))"

definition scope_deregister_llm_request_intercept where
  "scope_deregister_llm_request_intercept =
     scope_deregister llm_request_intercepts llm_request_intercepts_update"

definition scope_register_tool_execution_intercept where
  "scope_register_tool_execution_intercept u name priority f =
     scope_register tool_execution_intercepts tool_execution_intercepts_update u
       (new_record name priority f)"

definition scope_deregister_tool_execution_intercept where
  "scope_deregister_tool_execution_intercept =
     scope_deregister tool_execution_intercepts tool_execution_intercepts_update"

definition scope_register_llm_execution_intercept where
  "scope_register_llm_execution_intercept u name priority f =
     scope_register llm_execution_intercepts llm_execution_intercepts_update u
       (new_record name priority f)"

definition scope_deregister_llm_execution_intercept where
  "scope_deregister_llm_execution_intercept =
     scope_deregister llm_execution_intercepts llm_execution_intercepts_update"

definition scope_register_llm_stream_execution_intercept where
  "scope_register_llm_stream_execution_intercept u name priority f =
     scope_register llm_stream_execution_intercepts llm_stream_execution_intercepts_update u
       (new_record name priority f)"

definition scope_deregister_llm_stream_execution_intercept where
  "scope_deregister_llm_stream_execution_intercept =
     scope_deregister llm_stream_execution_intercepts llm_stream_execution_intercepts_update"

section \<open>Which stack a context sees\<close>

record binding_env =
  scope_stack_override :: "nat option"
  task_scope_stack :: "nat option"
  thread_scope_stack :: nat
  thread_scope_stack_explicit :: bool
  active_event_uuid :: "uuid option"

type_synonym 'f stack_heap = "nat \<Rightarrow> 'f scope_stack rwlock"

definition current_scope_stack :: "binding_env \<Rightarrow> nat" where
  "current_scope_stack e = (case scope_stack_override e of
       Some h \<Rightarrow> h
     | None \<Rightarrow> (case task_scope_stack e of Some h \<Rightarrow> h | None \<Rightarrow> thread_scope_stack e))"

definition current_context_scope_stack :: "binding_env \<Rightarrow> nat option" where
  "current_context_scope_stack e = (case scope_stack_override e of
       Some h \<Rightarrow> Some h | None \<Rightarrow> task_scope_stack e)"

text \<open>The guard restores the override when the callback returns and when it panics.\<close>

definition with_scope_stack ::
    "nat \<Rightarrow> (binding_env \<Rightarrow> 'a outcome \<times> binding_env) \<Rightarrow> binding_env \<Rightarrow> 'a outcome \<times> binding_env" where
  "with_scope_stack h f e =
     (let previous = scope_stack_override e;
          (r, e') = f (e\<lparr>scope_stack_override := Some h\<rparr>)
      in (r, e'\<lparr>scope_stack_override := previous\<rparr>))"

definition set_thread_scope_stack :: "nat \<Rightarrow> binding_env \<Rightarrow> binding_env" where
  "set_thread_scope_stack h e = e\<lparr>thread_scope_stack := h, thread_scope_stack_explicit := True\<rparr>"

record thread_scope_stack_binding =
  tb_stack :: nat
  tb_explicit :: bool

definition capture_thread_scope_stack :: "binding_env \<Rightarrow> thread_scope_stack_binding" where
  "capture_thread_scope_stack e =
     \<lparr>tb_stack = thread_scope_stack e, tb_explicit = thread_scope_stack_explicit e\<rparr>"

definition restore_thread_scope_stack :: "thread_scope_stack_binding \<Rightarrow> binding_env \<Rightarrow> binding_env" where
  "restore_thread_scope_stack b e =
     e\<lparr>thread_scope_stack := tb_stack b, thread_scope_stack_explicit := tb_explicit b\<rparr>"

definition sync_thread_scope_stack :: "nat \<Rightarrow> binding_env \<Rightarrow> binding_env" where
  "sync_thread_scope_stack h e = e\<lparr>thread_scope_stack := h\<rparr>"

definition scope_stack_active :: "binding_env \<Rightarrow> bool" where
  "scope_stack_active e =
     (if scope_stack_override e \<noteq> None then True
      else if task_scope_stack e \<noteq> None then True
      else thread_scope_stack_explicit e)"

definition propagate_scope_to_thread :: "binding_env \<Rightarrow> nat flow_result" where
  "propagate_scope_to_thread e =
     (if \<not> scope_stack_active e
      then Inl (Internal ''no active scope stack in current context; call create_scope_stack() and set_thread_scope_stack() first'')
      else Inr (current_scope_stack e))"

text \<open>The operations on the visible stack; a poisoned lock is a panic, \<open>None\<close> here.\<close>

definition task_scope_top :: "binding_env \<Rightarrow> 'f stack_heap \<Rightarrow> scope_handle option" where
  "task_scope_top e h = (case h (current_scope_stack e) of
       Poisoned _ _ \<Rightarrow> None | Healthy s \<Rightarrow> ss_top s)"

definition task_scope_push :: "binding_env \<Rightarrow> scope_handle \<Rightarrow> 'f stack_heap \<Rightarrow> 'f stack_heap option" where
  "task_scope_push e x h = (case h (current_scope_stack e) of
       Poisoned _ _ \<Rightarrow> None | Healthy s \<Rightarrow> Some (h(current_scope_stack e := Healthy (ss_push x s))))"

definition task_scope_remove ::
    "binding_env \<Rightarrow> uuid \<Rightarrow> 'f stack_heap \<Rightarrow> (scope_handle flow_result \<times> 'f stack_heap) option" where
  "task_scope_remove e u h = (case h (current_scope_stack e) of
       Poisoned _ _ \<Rightarrow> None
     | Healthy s \<Rightarrow> (case ss_remove u s of
           (None, s') \<Rightarrow> None
         | (Some r, s') \<Rightarrow> Some (r, h(current_scope_stack e := Healthy s'))))"

section \<open>Capturing and forking\<close>

text \<open>
  The parent is the managed event that is running, or else the top of the stack. \<open>None\<close> is the
  panic of \<^verbatim>\<open>task_scope_top\<close> on a poisoned lock.
\<close>

definition capture_parent :: "binding_env \<Rightarrow> 'f stack_heap \<Rightarrow> uuid option" where
  "capture_parent e h = (case active_event_uuid e of
       Some u \<Rightarrow> Some u | None \<Rightarrow> map_option sh_uuid (task_scope_top e h))"

definition capture_propagation_context ::
    "binding_env \<Rightarrow> 'f stack_heap \<Rightarrow> propagation_context flow_result option" where
  "capture_propagation_context e h = (case capture_parent e h of
       None \<Rightarrow> None
     | Some parent \<Rightarrow> Some (case h (current_scope_stack e) of
           Poisoned m _ \<Rightarrow> Inl (Internal m)
         | Healthy s \<Rightarrow> Inr \<lparr>pc_version = PROPAGATION_VERSION,
             pc_root_uuid = event_propagation_root_uuid s, pc_parent_uuid = parent\<rparr>))"

definition capture_propagation_context_with_root ::
    "uuid option \<Rightarrow> binding_env \<Rightarrow> 'f stack_heap \<Rightarrow> propagation_context flow_result option" where
  "capture_propagation_context_with_root root e h = (case capture_parent e h of
       None \<Rightarrow> None
     | Some parent \<Rightarrow>
         (let c = \<lparr>pc_version = PROPAGATION_VERSION, pc_root_uuid = root, pc_parent_uuid = parent\<rparr>
          in Some (case validate_propagation c of Inl e \<Rightarrow> Inl e | Inr _ \<Rightarrow> Inr c)))"

definition capture_rootless_propagation_context ::
    "binding_env \<Rightarrow> 'f stack_heap \<Rightarrow> propagation_context flow_result option" where
  "capture_rootless_propagation_context = capture_propagation_context_with_root None"

definition fork_scope_stack ::
    "timestamp \<Rightarrow> binding_env \<Rightarrow> 'f stack_heap \<Rightarrow> 'f scope_stack flow_result option" where
  "fork_scope_stack now e h = (case capture_propagation_context e h of
       None \<Rightarrow> None
     | Some (Inl err) \<Rightarrow> Some (Inl err)
     | Some (Inr c) \<Rightarrow> Some (from_propagation now c))"

definition capture_traceparent :: "binding_env \<Rightarrow> 'f stack_heap \<Rightarrow> string flow_result option" where
  "capture_traceparent e h = (case capture_parent e h of
       None \<Rightarrow> None
     | Some parent \<Rightarrow> Some (case h (current_scope_stack e) of
           Poisoned m _ \<Rightarrow> Inl (Internal m)
         | Healthy s \<Rightarrow>
             (case (case propagated_root_uuid s of
                 Some r \<Rightarrow> Some r
               | None \<Rightarrow> (case drop 1 (ss_stack s) of
                     x # _ \<Rightarrow> Some (sh_uuid x) | [] \<Rightarrow> active_event_uuid e)) of
                None \<Rightarrow> Inl (InvalidArgument ''no emitted Relay scope is available for traceparent capture'')
              | Some root \<Rightarrow> Inr (format_traceparent root parent))))"

definition traceparent_for_llm :: "uuid \<Rightarrow> binding_env \<Rightarrow> 'f stack_heap \<Rightarrow> string flow_result" where
  "traceparent_for_llm parent e h = (case h (current_scope_stack e) of
       Poisoned m _ \<Rightarrow> Inl (Internal m)
     | Healthy s \<Rightarrow> Inr (format_traceparent
         (case propagated_root_uuid s of
            Some r \<Rightarrow> r
          | None \<Rightarrow> (case drop 1 (ss_stack s) of x # _ \<Rightarrow> sh_uuid x | [] \<Rightarrow> parent)) parent))"

end
