(* ===== verification/Scope_Properties.thy ===== *)
theory Scope_Properties
  imports Scope_Stack
begin

text \<open>
  Correctness of the scope stack: its invariant over every sequence of operations, so that none of
  them panics; the life time of scopes, of their local registrations and of the freshness of
  agents; and the propagation of causal identity to forked stacks.
\<close>

section \<open>Invariant\<close>

abbreviation uuids :: "'f scope_stack \<Rightarrow> uuid set" where
  "uuids s \<equiv> sh_uuid ` set (ss_stack s)"

definition stack_ok :: "'f scope_stack \<Rightarrow> bool" where
  "stack_ok s \<longleftrightarrow> ss_stack s \<noteq> [] \<and> is_agent (hd (ss_stack s)) \<and>
     fresh_agents s \<subseteq> uuids s \<and>
     distinct (map fst (scope_registries s)) \<and> fst ` set (scope_registries s) \<subseteq> uuids s \<and>
     (\<forall>r \<in> snd ` set (scope_registries s). registries_ok r)"

text \<open>
  The operations of a stack. A client of \<^verbatim>\<open>top_mut\<close> may change everything of the top handle but its
  identifier and its type; the one client in the repository changes the metadata.
\<close>

inductive stack_step :: "'f scope_stack \<Rightarrow> 'f scope_stack \<Rightarrow> bool" where
  push: "stack_step s (ss_push h s)"
| remove: "ss_remove u s = (res, s') \<Longrightarrow> stack_step s s'"
| take_fresh: "take_agent_freshness parent s = (res1, s') \<Longrightarrow> stack_step s s'"
| mark_fresh: "mark_agent_fresh parent s = (res2, s') \<Longrightarrow> stack_step s s'"
| local: "\<forall>r. registries_ok r \<longrightarrow> registries_ok (g r) \<Longrightarrow>
     local_registries_mut u (\<lambda>r. ((), g r)) s = Some ((), s') \<Longrightarrow> stack_step s s'"
| edit_top: "\<forall>h. sh_uuid (f h) = sh_uuid h \<and> sh_scope_type (f h) = sh_scope_type h \<Longrightarrow>
     ss_top_mut f s = Some s' \<Longrightarrow> stack_step s s'"

inductive reachable_stack :: "'f scope_stack \<Rightarrow> 'f scope_stack \<Rightarrow> bool" for s0 where
  refl: "reachable_stack s0 s0"
| step: "reachable_stack s0 s \<Longrightarrow> stack_step s t \<Longrightarrow> reachable_stack s0 t"

text \<open>The result of a client's update does not matter to the stack.\<close>

lemma local_registries_unit:
  "local_registries_mut u f s = Some (a, s') \<Longrightarrow>
     local_registries_mut u (\<lambda>r. ((), snd (f r))) s = Some ((), s')"
  by (auto simp: local_registries_mut_def Let_def case_prod_beta' split: if_splits)

lemma registries_ok_new: "registries_ok registries_new"
  by (simp add: registries_ok_def registries_new_def registry_ok_new)

lemma stack_ok_new: "stack_ok (scope_stack_new fresh now)"
  by (simp add: stack_ok_def scope_stack_new_def build_handle_def)

lemma stack_ok_propagated: "from_propagation now c = Inr s \<Longrightarrow> stack_ok s"
  by (auto simp: from_propagation_def stack_ok_def build_handle_def
      split: sum.splits option.splits if_splits)

lemma position_Some: "position P xs = Some i \<Longrightarrow> i < length xs \<and> P (xs ! i)"
  by (induction xs arbitrary: i) (auto split: if_splits)

lemma position_None: "position P xs = None \<longleftrightarrow> (\<forall>x \<in> set xs. \<not> P x)"
  by (induction xs) auto

lemma find_SomeD: "List.find P xs = Some x \<Longrightarrow> x \<in> set xs \<and> P x"
  by (auto simp: find_Some_iff)

lemma stack_ok_fresh:
  "stack_ok s \<Longrightarrow> F \<subseteq> uuids s \<Longrightarrow> stack_ok (s\<lparr>fresh_agents := F\<rparr>)"
  by (simp add: stack_ok_def)

text \<open>There is always an owning agent, since the root is one and is never cut off.\<close>

lemma owning_agent_exists:
  assumes "stack_ok s"
  shows "\<exists>h \<in> set (ss_stack s). is_agent h \<and> owning_agent_uuid parent s = Some (sh_uuid h)"
proof -
  obtain r hs where s: "ss_stack s = r # hs" "is_agent r"
    using assms by (cases "ss_stack s") (auto simp: stack_ok_def)
  define n where "n = (case Option.bind parent (\<lambda>p. position (\<lambda>h. sh_uuid h = p) (ss_stack s)) of
      None \<Rightarrow> length (ss_stack s) | Some i \<Rightarrow> i + 1)"
  have "0 < n" using s by (simp add: n_def split: option.split)
  then obtain m where "n = Suc m" by (cases n) auto
  then have r: "r \<in> set (rev (take n (ss_stack s)))" using s by simp
  then obtain h where h: "List.find is_agent (rev (take n (ss_stack s))) = Some h"
    using s(2) by (cases "List.find is_agent (rev (take n (ss_stack s)))") (auto simp: find_None_iff)
  then have "h \<in> set (ss_stack s)" "is_agent h"
    by (auto dest!: find_SomeD in_set_takeD)
  then show ?thesis using h by (auto simp: owning_agent_uuid_def n_def Let_def)
qed

lemma stack_ok_push: "stack_ok s \<Longrightarrow> stack_ok (ss_push h s)"
  by (auto simp: stack_ok_def ss_push_def hd_append Let_def)

lemma ss_remove_ok: 
  assumes "stack_ok s" "ss_remove u s = (res, s')"
  shows "stack_ok s' \<and> res \<noteq> None"
proof -
  have ne: "ss_stack s \<noteq> []" using assms(1) by (simp add: stack_ok_def)
  then obtain t where t: "ss_top s = Some t" "ss_stack s = butlast (ss_stack s) @ [t]"
    by (simp add: ss_top_def)
  show ?thesis
  proof (cases "sh_uuid t = u \<and> length (ss_stack s) \<noteq> 1")
    case False
    then show ?thesis using assms t(1) by (auto simp: ss_remove_def split: if_splits)
  next
    case True
    let ?b = "butlast (ss_stack s)"
    have s': "s' = s\<lparr>scope_registries := AList.delete u (scope_registries s),
        fresh_agents := fresh_agents s - {u}, ss_stack := ?b\<rparr>" "res \<noteq> None"
      using assms(2) True t(1) by (auto simp: ss_remove_def split: if_splits)
    have b: "?b \<noteq> []" using True t(2) by (metis append_Nil length_Cons list.size(3) One_nat_def)
    have all: "set (ss_stack s) = insert t (set ?b)"
      using t(2) by (metis list.set(1) list.set(2) set_append Un_insert_right sup_bot_right)
    have "hd ?b = hd (ss_stack s)" using b t(2) by (metis hd_append2)
    moreover have "distinct (map fst (AList.delete u (scope_registries s)))"
      using assms(1) by (simp add: stack_ok_def AList.distinct_delete)
    moreover have "set (AList.delete u (scope_registries s)) =
        {p \<in> set (scope_registries s). fst p \<noteq> u}" by (auto simp: AList.delete_eq)
    ultimately show ?thesis using assms(1) s' b all True by (auto simp: stack_ok_def)
  qed
qed

lemma local_registries_ok:
  assumes "stack_ok s" "\<forall>r. registries_ok r \<longrightarrow> registries_ok (snd (f r))"
    and "local_registries_mut u f s = Some (a, s')"
  shows "stack_ok s'"
proof -
  define r where "r = (case map_of (scope_registries s) u of Some r \<Rightarrow> r | None \<Rightarrow> registries_new)"
  have "registries_ok r" using assms(1) registries_ok_new
    by (cases "map_of (scope_registries s) u") (auto simp: r_def stack_ok_def dest!: map_of_SomeD)
  then have r': "registries_ok (snd (f r))" using assms(2) by blast
  have u: "u \<in> uuids s"
    and s': "s' = s\<lparr>scope_registries := AList.update u (snd (f r)) (scope_registries s)\<rparr>"
    using assms(3) by (auto simp: local_registries_mut_def r_def list_ex_iff split: if_splits prod.splits)
  define al where "al = AList.update u (snd (f r)) (scope_registries s)"
  have sub: "set al \<subseteq> insert (u, snd (f r)) (set (scope_registries s))"
    unfolding al_def by (rule set_alist_update)
  have "\<forall>p \<in> set (scope_registries s). registries_ok (snd p) \<and> fst p \<in> uuids s"
    using assms(1) by (auto simp: stack_ok_def)
  then have "\<forall>p \<in> set al. registries_ok (snd p) \<and> fst p \<in> uuids s"
    using sub r' u by auto
  moreover have "distinct (map fst al)"
    using assms(1) by (simp add: al_def stack_ok_def AList.distinct_update)
  ultimately show ?thesis using assms(1) unfolding s' al_def [symmetric]
    by (auto simp: stack_ok_def)
qed

lemma ss_top_mut_ok:
  assumes "stack_ok s" "\<forall>h. sh_uuid (f h) = sh_uuid h \<and> sh_scope_type (f h) = sh_scope_type h"
    and "ss_top_mut f s = Some s'"
  shows "stack_ok s' \<and> uuids s' = uuids s \<and> sh_uuid (hd (ss_stack s')) = sh_uuid (hd (ss_stack s))"
proof -
  obtain hs t where hs: "ss_stack s = hs @ [t]"
    using assms(1) by (cases "ss_stack s" rule: rev_cases) (auto simp: stack_ok_def)
  then have s': "s' = s\<lparr>ss_stack := hs @ [f t]\<rparr>" using assms(3) by (simp add: ss_top_mut_def)
  have u: "uuids s' = uuids s" using assms(2) by (simp add: s' hs)
  have "is_agent (hd (ss_stack s')) = is_agent (hd (ss_stack s))"
    "sh_uuid (hd (ss_stack s')) = sh_uuid (hd (ss_stack s))"
    using assms(2) by (cases hs; simp add: s' hs)+
  then show ?thesis using assms(1) u by (simp add: stack_ok_def s')
qed

lemma stack_step_ok: "stack_step s t \<Longrightarrow> stack_ok s \<Longrightarrow> stack_ok t"
proof (induction rule: stack_step.induct)
  case (take_fresh parent s res1 s')
  then obtain u where "s' = s\<lparr>fresh_agents := fresh_agents s - {u}\<rparr>"
    using owning_agent_exists [of s parent] by (auto simp: take_agent_freshness_def)
  moreover have "fresh_agents s - {u} \<subseteq> uuids s" using take_fresh(2) by (auto simp: stack_ok_def)
  ultimately show ?case using take_fresh(2) stack_ok_fresh by simp
next
  case (mark_fresh parent s res2 s')
  then obtain h where "h \<in> set (ss_stack s)" "s' = s\<lparr>fresh_agents := insert (sh_uuid h) (fresh_agents s)\<rparr>"
    using owning_agent_exists [of s parent] by (auto simp: mark_agent_fresh_def)
  moreover have "insert (sh_uuid h) (fresh_agents s) \<subseteq> uuids s"
    using mark_fresh(2) calculation(1) by (simp add: stack_ok_def)
  ultimately show ?case using stack_ok_fresh [OF mark_fresh(2)] by blast
next
  case (local g u s s')
  then show ?case using local_registries_ok [of s "\<lambda>r. ((), g r)" u "()" s'] by simp
next
  case (edit_top f s s')
  then show ?case using ss_top_mut_ok by blast
qed (auto intro: stack_ok_push dest: ss_remove_ok)

lemma reachable_stack_ok: "reachable_stack s0 s \<Longrightarrow> stack_ok s0 \<Longrightarrow> stack_ok s"
  by (induction rule: reachable_stack.induct) (auto intro: stack_step_ok)

text \<open>The root is always the same scope.\<close>

lemma stack_step_root:
  assumes "stack_step s t" "stack_ok s"
  shows "sh_uuid (hd (ss_stack t)) = sh_uuid (hd (ss_stack s))"
  using assms
proof (induction rule: stack_step.induct)
  case (push s h)
  then show ?case by (simp add: ss_push_def stack_ok_def hd_append Let_def)
next
  case (remove u s res s')
  then have "s' = s \<or> (ss_stack s' = butlast (ss_stack s) \<and> length (ss_stack s) \<noteq> 1 \<and> ss_stack s \<noteq> [])"
    by (auto simp: ss_remove_def ss_top_def stack_ok_def split: option.splits if_splits)
  then show ?case by (cases "ss_stack s") (auto split: if_splits)
next
  case (take_fresh parent s res1 s')
  then show ?case by (auto simp: take_agent_freshness_def split: option.splits)
next
  case (mark_fresh parent s res2 s')
  then show ?case by (auto simp: mark_agent_fresh_def split: option.splits)
next
  case (local g u s s')
  then show ?case by (auto simp: local_registries_mut_def Let_def split: if_splits prod.splits)
next
  case (edit_top f s s')
  then show ?case using ss_top_mut_ok by blast
qed

lemma reachable_stack_root:
  "reachable_stack s0 s \<Longrightarrow> stack_ok s0 \<Longrightarrow> sh_uuid (hd (ss_stack s)) = sh_uuid (hd (ss_stack s0))"
  by (induction rule: reachable_stack.induct) (auto dest: reachable_stack_ok stack_step_root)

section \<open>Life time of a scope\<close>

text \<open>Any number of uses of the registries of one scope.\<close>

fun local_updates ::
    "uuid \<Rightarrow> ('f registries \<Rightarrow> 'f registries) list \<Rightarrow> 'f scope_stack \<Rightarrow> 'f scope_stack" where
  "local_updates u [] s = s"
| "local_updates u (g # gs) s = (case local_registries_mut u (\<lambda>r. ((), g r)) s of
       None \<Rightarrow> local_updates u gs s | Some (_, s') \<Rightarrow> local_updates u gs s')"

lemma delete_update_same: "AList.delete k (AList.update k v al) = AList.delete k al"
  by (induction al) auto

lemma local_updates_frame:
  "ss_stack (local_updates u gs s) = ss_stack s \<and> fresh_agents (local_updates u gs s) = fresh_agents s \<and>
   propagated_parent_uuid (local_updates u gs s) = propagated_parent_uuid s \<and>
   propagated_root_uuid (local_updates u gs s) = propagated_root_uuid s \<and>
   is_rootless_propagation (local_updates u gs s) = is_rootless_propagation s \<and>
   AList.delete u (scope_registries (local_updates u gs s)) = AList.delete u (scope_registries s)"
proof (induction gs arbitrary: s)
  case (Cons g gs)
  show ?case
  proof (cases "local_registries_mut u (\<lambda>r. ((), g r)) s")
    case None
    then show ?thesis using Cons.IH [of s] by simp
  next
    case (Some p)
    then obtain s' r where s': "p = ((), s')" "s' = s\<lparr>scope_registries := AList.update u r (scope_registries s)\<rparr>"
      by (auto simp: local_registries_mut_def Let_def split: if_splits)
    then show ?thesis using Some Cons.IH [of s'] by (simp add: delete_update_same)
  qed
qed simp

lemma ss_remove_top:
  assumes "ss_stack s = hs @ [h]" "hs \<noteq> []"
  shows "ss_remove (sh_uuid h) s = (Some (Inr h),
     s\<lparr>scope_registries := AList.delete (sh_uuid h) (scope_registries s),
       fresh_agents := fresh_agents s - {sh_uuid h}, ss_stack := hs\<rparr>)"
  using assms by (simp add: ss_remove_def ss_top_def)

section \<open>Properties\<close>

text \<open>
  C21. Whatever sequence of operations is applied to a scope stack that was created new or imported from
  a propagation context, none of them panics: there is always a top scope and an owning agent, the root
  stays the scope it was, and local registries and freshness exist only for scopes that are on the
  stack. Clients that edit the top handle in place have to leave its identifier and its type alone.
\<close>

theorem scope_stack_never_panics:
  assumes "s0 = scope_stack_new fresh now \<or> from_propagation now c = Inr s0" "reachable_stack s0 s"
  shows "ss_top s \<noteq> None \<and> (\<forall>f. ss_top_mut f s \<noteq> None) \<and>
    ss_root_uuid s = ss_root_uuid s0 \<and> ss_root_uuid s \<noteq> None \<and>
    (\<forall>parent. fst (take_agent_freshness parent s) \<noteq> None \<and> fst (mark_agent_fresh parent s) \<noteq> None) \<and>
    (\<forall>u. fst (ss_remove u s) \<noteq> None) \<and>
    fresh_agents s \<subseteq> uuids s \<and> dom (map_of (scope_registries s)) \<subseteq> uuids s"
proof -
  have ok0: "stack_ok s0" using assms(1) stack_ok_new stack_ok_propagated by blast
  have ok: "stack_ok s" by (rule reachable_stack_ok [OF assms(2) ok0])
  have ne: "ss_stack s \<noteq> []" "ss_stack s0 \<noteq> []" using ok ok0 by (simp_all add: stack_ok_def)
  have "ss_root_uuid s = ss_root_uuid s0 \<and> ss_root_uuid s \<noteq> None"
    using reachable_stack_root [OF assms(2) ok0] ne
    by (cases "ss_stack s"; cases "ss_stack s0") (simp_all add: ss_root_uuid_def)
  moreover have "fst (take_agent_freshness parent s) \<noteq> None \<and> fst (mark_agent_fresh parent s) \<noteq> None"
    for parent
    using owning_agent_exists [OF ok, of parent]
    by (auto simp: take_agent_freshness_def mark_agent_fresh_def)
  moreover have "fst (ss_remove u s) \<noteq> None" for u
    using ss_remove_ok [OF ok, of u] by (cases "ss_remove u s") auto
  moreover have "fresh_agents s \<subseteq> uuids s" "dom (map_of (scope_registries s)) \<subseteq> uuids s"
    using ok by (auto simp: stack_ok_def dom_map_of_conv_image_fst)
  moreover have "ss_top s \<noteq> None" "ss_top_mut f s \<noteq> None" for f using ne by (simp_all add: ss_top_def ss_top_mut_def)
  ultimately show ?thesis by blast
qed

theorem scope_stack_never_panics_witness:
  "ss_root_uuid (ss_push (build_handle 2 0 ''a'' Agent (Some 1)) (scope_stack_new 1 0 :: nat scope_stack)) =
     ss_root_uuid (scope_stack_new 1 0 :: nat scope_stack) \<and>
   fst (take_agent_freshness None (ss_push (build_handle 2 0 ''a'' Agent (Some 1)) (scope_stack_new 1 0 :: nat scope_stack))) \<noteq> None"
  using scope_stack_never_panics [OF disjI1 [OF HOL.refl] reachable_stack.step [OF reachable_stack.refl stack_step.push]]
  by blast

text \<open>
  The condition on clients of \<^verbatim>\<open>top_mut\<close> is needed: the handle it gives out can be retyped, and then there
  is no owning agent left, so that taking or marking freshness panics under the lock of the stack.
\<close>

lemma retyped_root_has_no_agent:
  "\<exists>s. ss_top_mut (\<lambda>h. h\<lparr>sh_scope_type := Guardrail\<rparr>) (scope_stack_new fresh now :: nat scope_stack) = Some s \<and>
     fst (take_agent_freshness parent s) = None \<and> fst (mark_agent_fresh parent s) = None"
  by (simp add: ss_top_mut_def scope_stack_new_def build_handle_def take_agent_freshness_def
      mark_agent_fresh_def owning_agent_uuid_def split: option.split)

text \<open>
  A scope leaves no trace: when a scope with a new identifier is pushed, middleware is
  registered and removed on it any number of times, and the scope is removed, the stack, the
  registries of all other scopes and the freshness of all other agents are exactly what they were.
\<close>

lemma scope_leaves_no_trace:
  assumes "ss_stack s \<noteq> []" "sh_uuid h \<notin> fresh_agents s"
    and "sh_uuid h \<notin> fst ` set (scope_registries s)"
  shows "ss_remove (sh_uuid h) (local_updates (sh_uuid h) gs (ss_push h s)) = (Some (Inr h), s)"
proof -
  let ?s = "local_updates (sh_uuid h) gs (ss_push h s)"
  have p: "ss_stack (ss_push h s) = ss_stack s @ [h]"
      "scope_registries (ss_push h s) = scope_registries s"
      "fresh_agents (ss_push h s) - {sh_uuid h} = fresh_agents s"
    using assms(2) by (auto simp: ss_push_def Let_def)
  have q: "propagated_parent_uuid (ss_push h s) = propagated_parent_uuid s"
      "propagated_root_uuid (ss_push h s) = propagated_root_uuid s"
      "is_rootless_propagation (ss_push h s) = is_rootless_propagation s"
    by (simp_all add: ss_push_def Let_def)
  note fr = local_updates_frame [of "sh_uuid h" gs "ss_push h s"]
  have "AList.delete (sh_uuid h) (scope_registries s) = scope_registries s"
    using assms(3) by (simp add: AList.delete_id)
  then show ?thesis
    using ss_remove_top [of ?s "ss_stack s" h] fr p q assms(1) by simp
qed

text \<open>
  Scopes are removed in the reverse order of their creation: a removal succeeds exactly when
  the scope is at the top and is not the root, it then returns that scope, and a removal that
  fails changes nothing and says which of the three rules was broken.
\<close>

lemma scope_removal_discipline:
  assumes "ss_stack s = hs @ [top_scope]"
  shows "ss_remove u s =
    (if sh_uuid top_scope = u \<and> hs \<noteq> []
     then (Some (Inr top_scope), s\<lparr>scope_registries := AList.delete u (scope_registries s),
             fresh_agents := fresh_agents s - {u}, ss_stack := hs\<rparr>)
     else (Some (Inl (if sh_uuid top_scope = u then InvalidArgument ''root scope cannot be removed''
       else if u \<in> uuids s then InvalidArgument ''scope handle is not at the top of the stack''
       else NotFound ''scope handle not found'')), s))"
proof -
  have "ss_top s = Some top_scope" "butlast (ss_stack s) = hs" "length (ss_stack s) = 1 \<longleftrightarrow> hs = []"
    using assms by (simp_all add: ss_top_def)
  moreover have "list_ex (\<lambda>h. sh_uuid h = u) (ss_stack s) \<longleftrightarrow> u \<in> uuids s" by (auto simp: list_ex_iff)
  ultimately show ?thesis by (auto simp: ss_remove_def)
qed

text \<open>
  The freshness of an agent is reported once: taking it a second time under the same parent
  reports false, marking the agent fresh makes it available once more, and no other agent is
  affected by either.
\<close>

lemma freshness_taken_once:
  assumes "stack_ok s" "take_agent_freshness parent s = (Some fresh, s1)"
  shows "\<exists>agent. owning_agent_uuid parent s = Some agent \<and> fresh = (agent \<in> fresh_agents s) \<and>
     take_agent_freshness parent s1 = (Some False, s1) \<and>
     (\<exists>s2. mark_agent_fresh parent s1 = (Some (), s2) \<and>
        take_agent_freshness parent s2 = (Some True, s1) \<and>
        fresh_agents s2 = insert agent (fresh_agents s)) \<and>
     fresh_agents s1 = fresh_agents s - {agent}"
proof -
  obtain h :: scope_handle where h: "owning_agent_uuid parent s = Some (sh_uuid h)"
    using owning_agent_exists [OF assms(1), of parent] by auto
  have own: "owning_agent_uuid parent (s\<lparr>fresh_agents := F\<rparr>) = Some (sh_uuid h)" for F
    using h by (simp add: owning_agent_uuid_def cong: option.case_cong)
  have s1: "fresh = (sh_uuid h \<in> fresh_agents s)" "s1 = s\<lparr>fresh_agents := fresh_agents s - {sh_uuid h}\<rparr>"
    using assms(2) h by (auto simp: take_agent_freshness_def)
  show ?thesis using h s1
    by (auto simp: take_agent_freshness_def mark_agent_fresh_def own)
qed

text \<open>
  A forked stack continues the same causal tree: its top scope is the event or scope that was
  active at the fork, its events carry the same propagation root, and a context captured again on
  the fork, before any scope is pushed, is the one it was made from.
\<close>

lemma fork_keeps_causality:
  assumes "capture_propagation_context e h = Some (Inr c)"
    and "fork_scope_stack now e h = Some (Inr s)"
    and "h' (current_scope_stack e') = Healthy s" "active_event_uuid e' = None"
  shows "\<exists>t. ss_top s = Some t \<and> Some (sh_uuid t) = capture_parent e h \<and>
    event_propagation_root_uuid s = pc_root_uuid c \<and>
    capture_propagation_context e' h' = Some (Inr c)"
proof -
  have s: "from_propagation now c = Inr s" using assms(1,2) by (simp add: fork_scope_stack_def)
  have c: "capture_parent e h = Some (pc_parent_uuid c)" "pc_version c = PROPAGATION_VERSION"
    using assms(1)
    by (auto simp: capture_propagation_context_def split: option.splits rwlock.splits)
  have top: "\<exists>t. ss_top s = Some t \<and> sh_uuid t = pc_parent_uuid c"
    and root: "event_propagation_root_uuid s = pc_root_uuid c"
    using s by (auto simp: from_propagation_def ss_top_def event_propagation_root_uuid_def
        build_handle_def ss_root_uuid_def split: sum.splits option.splits if_splits)
  then have "capture_propagation_context e' h' = Some (Inr c)"
    using assms(3,4) c(2)
    by (auto simp: capture_propagation_context_def capture_parent_def task_scope_top_def)
  then show ?thesis using top root c(1) by auto
qed

text \<open>
  Binding a stack for a callback is scoped: inside, the given stack is the visible one and the
  context is active, whatever the task and the thread have; afterwards the override is what it
  was, also when the callback panics. A captured thread binding is restored exactly, and
  synchronizing a stack never changes whether the thread counts as active.
\<close>

lemma stack_binding_scoped:
  "scope_stack_override (snd (with_scope_stack h f e)) = scope_stack_override e \<and>
   with_scope_stack h (\<lambda>e'. (Finished (current_scope_stack e', scope_stack_active e'), e')) e =
     (Finished (h, True), e) \<and>
   restore_thread_scope_stack (capture_thread_scope_stack e)
     (sync_thread_scope_stack h1 (set_thread_scope_stack h2 e)) = e \<and>
   scope_stack_active (sync_thread_scope_stack h e) = scope_stack_active e \<and>
   propagate_scope_to_thread (set_thread_scope_stack h e) =
     Inr (case current_context_scope_stack e of Some h' \<Rightarrow> h' | None \<Rightarrow> h)"
  by (simp add: with_scope_stack_def current_scope_stack_def scope_stack_active_def
      restore_thread_scope_stack_def capture_thread_scope_stack_def sync_thread_scope_stack_def
      set_thread_scope_stack_def propagate_scope_to_thread_def current_context_scope_stack_def
      split: option.split prod.split)

end
