(* ===== verification/Middleware_Chains.thy ===== *)
theory Middleware_Chains
  imports Relay_Handles Runtime_State
begin

text \<open>
  The middleware chains of \<^verbatim>\<open>crates/core/src/api/runtime/state.rs\<close>: metadata injection, event
  sanitizers, tool and LLM sanitizers, conditional guardrails with the scope events that report
  them, and request intercepts. They run over a snapshot of the merged entries.

  A callback is an effect over the world \<open>'w\<close>: it finishes with a result, panics, or is dropped
  while it is suspended. Each chain awaits its callbacks inside \<^verbatim>\<open>catch_unwind\<close>, so a panic is a
  value it handles; when a callback is dropped the chain is dropped with it. Log messages are not
  modelled. A chain that emits events is given the function that hands them to the dispatcher; what
  the dispatcher does with them is not part of this theory.
\<close>

section \<open>Event metadata injection\<close>

type_synonym 'w event_metadata_injector_fn = "event \<Rightarrow> ('w, json_object flow_result) effect"

fun or_insert_all :: "json_object \<Rightarrow> json_object \<Rightarrow> json_object" where
  "or_insert_all [] metadata = metadata"
| "or_insert_all ((k, v) # attributes) metadata = or_insert_all attributes (bt_or_insert k v metadata)"

text \<open>What one injector's attributes do to the event.\<close>

definition inject_attributes :: "json_object \<Rightarrow> event \<Rightarrow> event" where
  "inject_attributes attributes e = (case validate_event_metadata_attributes attributes of
       Inl _ \<Rightarrow> e
     | Inr _ \<Rightarrow>
         if attributes = [] then e
         else (let fields = sanitize_fields e
               in case sf_metadata fields of
                    None \<Rightarrow> apply_sanitize_fields
                      (fields\<lparr>sf_metadata := Some (JObject (or_insert_all attributes []))\<rparr>) e
                  | Some (JObject m) \<Rightarrow> apply_sanitize_fields
                      (fields\<lparr>sf_metadata := Some (JObject (or_insert_all attributes m))\<rparr>) e
                  | Some _ \<Rightarrow> e))"

fun event_metadata_injection_snapshot_chain ::
    "'w event_metadata_injector_fn registry_record list \<Rightarrow> event \<Rightarrow> ('w, event) effect" where
  "event_metadata_injection_snapshot_chain [] e w = (Finished e, w)"
| "event_metadata_injection_snapshot_chain (x # xs) e w = (case rr_payload x e w of
       (Finished (Inr attributes), w') \<Rightarrow>
         event_metadata_injection_snapshot_chain xs (inject_attributes attributes e) w'
     | (Finished (Inl _), w') \<Rightarrow> event_metadata_injection_snapshot_chain xs e w'
     | (Panicked, w') \<Rightarrow> event_metadata_injection_snapshot_chain xs e w'
     | (Dropped, w') \<Rightarrow> (Dropped, w'))"

section \<open>Event sanitizers\<close>

type_synonym 'w event_sanitize_fn =
  "event \<Rightarrow> event_sanitize_fields \<Rightarrow> ('w, event_sanitize_fields flow_result) effect"

fun event_sanitize_snapshot_chain ::
    "'w event_sanitize_fn registry_record list \<Rightarrow> event \<Rightarrow> ('w, event) effect" where
  "event_sanitize_snapshot_chain [] e w = (Finished e, w)"
| "event_sanitize_snapshot_chain (x # xs) e w = (case rr_payload x e (sanitize_fields e) w of
       (Finished (Inr fs), w') \<Rightarrow>
         event_sanitize_snapshot_chain xs (apply_sanitize_fields fs e) w'
     | (Finished (Inl _), w') \<Rightarrow> (Finished (apply_sanitize_fields default_fields e), w')
     | (Panicked, w') \<Rightarrow> (Finished (apply_sanitize_fields default_fields e), w')
     | (Dropped, w') \<Rightarrow> (Dropped, w'))"

section \<open>Tool and LLM sanitizers\<close>

text \<open>
  The loop that the four chains share: the value is taken before the call and put back only when
  the callback succeeds; once it is gone no further callback is called.
\<close>

fun sanitize_loop ::
    "('p \<Rightarrow> 'a \<Rightarrow> ('w, 'a option flow_result) effect) \<Rightarrow> 'p registry_record list \<Rightarrow> 'a option \<Rightarrow>
     ('w, 'a option) effect" where
  "sanitize_loop call [] v w = (Finished v, w)"
| "sanitize_loop call (x # xs) None w = sanitize_loop call xs None w"
| "sanitize_loop call (x # xs) (Some current) w = (case call (rr_payload x) current w of
       (Finished (Inr nxt), w') \<Rightarrow> sanitize_loop call xs nxt w'
     | (Finished (Inl _), w') \<Rightarrow> sanitize_loop call xs None w'
     | (Panicked, w') \<Rightarrow> sanitize_loop call xs None w'
     | (Dropped, w') \<Rightarrow> (Dropped, w'))"

type_synonym 'w tool_sanitize_fn = "string \<Rightarrow> json \<Rightarrow> ('w, json flow_result) effect"

fun some_result :: "'a flow_result outcome \<times> 'w \<Rightarrow> 'a option flow_result outcome \<times> 'w" where
  "some_result (Finished (Inr v), w) = (Finished (Inr (Some v)), w)"
| "some_result (Finished (Inl e), w) = (Finished (Inl e), w)"
| "some_result (Panicked, w) = (Panicked, w)"
| "some_result (Dropped, w) = (Dropped, w)"

definition tool_sanitize_request_snapshot_chain ::
    "string \<Rightarrow> json \<Rightarrow> 'w tool_sanitize_fn registry_record list \<Rightarrow> ('w, json option) effect" where
  "tool_sanitize_request_snapshot_chain name args xs w =
     sanitize_loop (\<lambda>f v w. some_result (f name v w)) xs (Some args) w"

definition tool_sanitize_response_snapshot_chain ::
    "string \<Rightarrow> json \<Rightarrow> 'w tool_sanitize_fn registry_record list \<Rightarrow> ('w, json option) effect" where
  "tool_sanitize_response_snapshot_chain name result xs w =
     sanitize_loop (\<lambda>f v w. some_result (f name v w)) xs (Some result) w"

record llm_request =
  lr_headers :: json_object
  lr_content :: json

text \<open>The codec context is handed through to the callbacks; it is a value of any type \<open>'c\<close>.\<close>

definition llm_sanitize_request_snapshot_chain ::
    "llm_request \<Rightarrow> 'c \<Rightarrow> (llm_request \<Rightarrow> 'c \<Rightarrow> ('w, llm_request option flow_result) effect) registry_record list \<Rightarrow>
     ('w, llm_request option) effect" where
  "llm_sanitize_request_snapshot_chain request context xs w =
     sanitize_loop (\<lambda>f v w. f v context w) xs (Some request) w"

definition llm_sanitize_response_snapshot_chain ::
    "json \<Rightarrow> 'c \<Rightarrow> (json \<Rightarrow> 'c \<Rightarrow> ('w, json option flow_result) effect) registry_record list \<Rightarrow>
     ('w, json option) effect" where
  "llm_sanitize_response_snapshot_chain response context xs w =
     sanitize_loop (\<lambda>f v w. f v context w) xs (Some response) w"

section \<open>Conditional guardrails\<close>

text \<open>
  The runtime's own services: the generator of identifiers and the clock. Both read and change
  the world.
\<close>

record 'w services =
  new_uuid :: "'w \<Rightarrow> uuid \<times> 'w"
  clock :: "'w \<Rightarrow> timestamp \<times> 'w"

text \<open>
  \<open>emit\<close> hands an event to the dispatcher with the subscribers and the scope stack of the chain
  (\<^verbatim>\<open>snapshot_event_sanitizers\<close> and \<^verbatim>\<open>dispatch_sanitized_event\<close>).
\<close>

definition emit_guardrail_scope_start ::
    "('w, 'z) services_scheme \<Rightarrow> (event \<Rightarrow> 'w \<Rightarrow> 'w) \<Rightarrow> string \<Rightarrow> uuid option \<Rightarrow> json option \<Rightarrow> json \<Rightarrow> 'w \<Rightarrow>
     scope_handle \<times> 'w" where
  "emit_guardrail_scope_start sv emit name parent metadata input w =
     (let (u, w) = new_uuid sv w;
          (now, w) = clock sv w;
          h = \<lparr>sh_uuid = u, sh_started_at = now, sh_scope_type = Guardrail, sh_name = name,
               sh_data = None, sh_metadata = metadata, sh_attributes = 0, sh_parent_uuid = parent\<rparr>;
          e = Scope (scope_event_new
                (base_event_build (sh_parent_uuid h) (sh_uuid h) (sh_started_at h) (sh_name h)
                  (Some input) (sh_metadata h))
                Start (scope_attributes_to_strings (sh_attributes h))
                (category_of_scope_type (sh_scope_type h)) None)
      in (h, emit e w))"

definition emit_guardrail_scope_end ::
    "('w, 'z) services_scheme \<Rightarrow> (event \<Rightarrow> 'w \<Rightarrow> 'w) \<Rightarrow> scope_handle \<Rightarrow> json \<Rightarrow> 'w \<Rightarrow> 'w" where
  "emit_guardrail_scope_end sv emit h output w =
     (let (now, w) = clock sv w;
          e = Scope (scope_event_new
                (base_event_build (sh_parent_uuid h) (sh_uuid h)
                  (end_timestamp_after now (sh_started_at h)) (sh_name h) (Some output) (sh_metadata h))
                End (scope_attributes_to_strings (sh_attributes h))
                (category_of_scope_type (sh_scope_type h)) None)
      in emit e w)"

text \<open>The output of the end event, and that of a guardrail that was dropped before it finished.\<close>

fun guardrail_output :: "string option flow_result \<Rightarrow> json" where
  "guardrail_output (Inr (Some reason)) = JObject
     [(''allowed'', JBool False), (''rejected'', JBool True), (''rejection_reason'', JString reason)]"
| "guardrail_output (Inr None) = JObject [(''allowed'', JBool True), (''rejected'', JBool False)]"
| "guardrail_output (Inl e) = JObject
     [(''allowed'', JBool False), (''error'', JString (display_flow_error e))]"

definition cancelled_output :: json where
  "cancelled_output = JObject [(''allowed'', JBool False), (''cancelled'', JBool True),
     (''error'', JString ''guardrail evaluation cancelled'')]"

text \<open>
  The loop of both conditional chains. \<open>emitter\<close> captures the scope stack that is visible when the turn
  of a guardrail begins; \<open>pend\<close> registers the pending publication of the guard of the scope
  (\<^verbatim>\<open>GuardrailScopeCompletion::new\<close>) and yields how to give it up again; \<open>call\<close> is the callback on the
  request, \<open>panic_message\<close> the text of its error. When the callback is dropped, the guard of the scope
  emits the end event. On every way out the pending publication is given up after the end event.
\<close>

fun conditional_loop ::
    "('w, 'z) services_scheme \<Rightarrow> ('w \<Rightarrow> event \<Rightarrow> 'w \<Rightarrow> 'w) \<Rightarrow> ('w \<Rightarrow> ('w \<Rightarrow> 'w) \<times> 'w) \<Rightarrow>
     ('p \<Rightarrow> ('w, string option flow_result) effect) \<Rightarrow> (string \<Rightarrow> string) \<Rightarrow> json \<Rightarrow> uuid option \<Rightarrow> json option \<Rightarrow> 'p registry_record list \<Rightarrow>
     ('w, string option flow_result) effect" where
  "conditional_loop sv emitter pend call panic_message input parent metadata [] w = (Finished (Inr None), w)"
| "conditional_loop sv emitter pend call panic_message input parent metadata (x # xs) w =
     (let emit = emitter w;
          (h, w) = emit_guardrail_scope_start sv emit (rr_name x) parent metadata input w;
          (release, w) = pend w
      in case call (rr_payload x) w of
           (Dropped, w') \<Rightarrow> (Dropped, release (emit_guardrail_scope_end sv emit h cancelled_output w'))
         | (Panicked, w') \<Rightarrow>
             (let err = Internal (panic_message (rr_name x))
              in (Finished (Inl err),
                  release (emit_guardrail_scope_end sv emit h (guardrail_output (Inl err)) w')))
         | (Finished result, w') \<Rightarrow>
             (let w'' = release (emit_guardrail_scope_end sv emit h (guardrail_output result) w')
              in case result of
                   Inl err \<Rightarrow> (Finished (Inl err), w'')
                 | Inr (Some reason) \<Rightarrow> (Finished (Inr (Some reason)), w'')
                 | Inr None \<Rightarrow>
                     conditional_loop sv emitter pend call panic_message input parent metadata xs w''))"

definition tool_conditional_execution_snapshot_chain where
  "tool_conditional_execution_snapshot_chain sv emitter pend name args xs parent metadata w =
     conditional_loop sv emitter pend (\<lambda>f. f name args)
       (\<lambda>n. ''tool conditional guardrail '' @ [CHR 0x27] @ n @ [CHR 0x27] @ '' panicked'')
       (JObject [(''kind'', JString ''tool_conditional_execution''), (''target_name'', JString name)])
       parent metadata xs w"

definition llm_conditional_execution_snapshot_chain where
  "llm_conditional_execution_snapshot_chain sv emitter pend request xs parent metadata w =
     conditional_loop sv emitter pend (\<lambda>f. f request)
       (\<lambda>n. ''LLM conditional guardrail '' @ [CHR 0x27] @ n @ [CHR 0x27] @ '' panicked'')
       (JObject [(''kind'', JString ''llm_conditional_execution'')])
       parent metadata xs w"

section \<open>Request intercepts\<close>

type_synonym 'w tool_intercept_fn = "string \<Rightarrow> json \<Rightarrow> ('w, json flow_result) effect"

fun tool_request_intercepts_snapshot_chain ::
    "string \<Rightarrow> 'w tool_intercept_fn request_intercept registry_record list \<Rightarrow> json \<Rightarrow>
     ('w, json flow_result) effect" where
  "tool_request_intercepts_snapshot_chain name [] v w = (Finished (Inr v), w)"
| "tool_request_intercepts_snapshot_chain name (x # xs) v w =
     (case callable (rr_payload x) name v w of
        (Finished (Inr v'), w') \<Rightarrow>
          if break_chain (rr_payload x) then (Finished (Inr v'), w')
          else tool_request_intercepts_snapshot_chain name xs v' w'
      | (Finished (Inl e), w') \<Rightarrow> (Finished (Inl e), w')
      | (Panicked, w') \<Rightarrow> (Finished (Inl (Internal
          (''tool request intercept '' @ [CHR 0x27] @ rr_name x @ [CHR 0x27] @ '' panicked''))), w')
      | (Dropped, w') \<Rightarrow> (Dropped, w'))"

record llm_request_intercept_outcome =
  lo_request :: llm_request
  lo_annotated_request :: "annotated_llm_request option"
  lo_pending_marks :: "pending_mark_spec list"
  lo_optimization_contributions :: "llm_optimization_contribution list"

type_synonym 'w llm_request_intercept_fn =
  "string \<Rightarrow> llm_request \<Rightarrow> annotated_llm_request option \<Rightarrow>
   ('w, llm_request_intercept_outcome flow_result) effect"

text \<open>
  With a recorder the contributions are handed to it, and \<open>rec\<close> says what that does to the state;
  without one they are collected in the outcome. \<open>acc\<close> holds what the loop has so far.
\<close>

fun llm_intercept_loop ::
    "string \<Rightarrow> bool \<Rightarrow> (llm_optimization_contribution list \<Rightarrow> 'w \<Rightarrow> 'w) option \<Rightarrow>
     'w llm_request_intercept_fn request_intercept registry_record list \<Rightarrow> llm_request_intercept_outcome \<Rightarrow>
     ('w, llm_request_intercept_outcome flow_result) effect" where
  "llm_intercept_loop name codec_active rec [] acc w = (Finished (Inr acc), w)"
| "llm_intercept_loop name codec_active rec (x # xs) acc w =
     (case callable (rr_payload x) name (lo_request acc) (lo_annotated_request acc) w of
        (Dropped, w') \<Rightarrow> (Dropped, w')
      | (Panicked, w') \<Rightarrow> (Finished (Inl (Internal
          (''LLM request intercept '' @ [CHR 0x27] @ rr_name x @ [CHR 0x27] @ '' panicked''))), w')
      | (Finished (Inl e), w') \<Rightarrow> (Finished (Inl e), w')
      | (Finished (Inr out), w') \<Rightarrow>
          if codec_active \<and> lr_content (lo_request out) \<noteq> lr_content (lo_request acc)
          then (Finished (Inl (InvalidArgument (''LLM request intercept '' @ [CHR 0x27] @ rr_name x @ [CHR 0x27] @
            '' changed request.content while a request codec is active; modify annotated_request instead''))), w')
          else if codec_active \<and> lo_annotated_request out = None
          then (Finished (Inl (InvalidArgument (''LLM request intercept '' @ [CHR 0x27] @ rr_name x @ [CHR 0x27] @
            '' omitted annotated_request while a request codec is active''))), w')
          else
            (let acc' = acc\<lparr>lo_request := lo_request out,
                   lo_annotated_request := lo_annotated_request out,
                   lo_pending_marks := lo_pending_marks acc @ lo_pending_marks out,
                   lo_optimization_contributions := (case rec of
                       Some _ \<Rightarrow> lo_optimization_contributions acc
                     | None \<Rightarrow> lo_optimization_contributions acc @ lo_optimization_contributions out)\<rparr>;
                 w'' = (case rec of Some f \<Rightarrow> f (lo_optimization_contributions out) w' | None \<Rightarrow> w')
             in if break_chain (rr_payload x) then (Finished (Inr acc'), w'')
                else llm_intercept_loop name codec_active rec xs acc' w''))"

definition llm_request_intercepts_snapshot_chain_with_recorder where
  "llm_request_intercepts_snapshot_chain_with_recorder name request annotated xs codec_active rec w =
     llm_intercept_loop name codec_active rec xs
       \<lparr>lo_request = request, lo_annotated_request = annotated, lo_pending_marks = [],
        lo_optimization_contributions = []\<rparr> w"

definition llm_request_intercepts_snapshot_chain where
  "llm_request_intercepts_snapshot_chain name request annotated xs codec_active w =
     llm_request_intercepts_snapshot_chain_with_recorder name request annotated xs codec_active None w"

section \<open>The entries of each chain\<close>

definition tool_sanitize_request_entries where
  "tool_sanitize_request_entries gates_of st scope_locals =
     merge_guardrail_entries gates_of (tool_sanitize_request_guardrails (cx_registries st)) scope_locals
       ToolSanitizeRequestGuardrail"

definition tool_sanitize_response_entries where
  "tool_sanitize_response_entries gates_of st scope_locals =
     merge_guardrail_entries gates_of (tool_sanitize_response_guardrails (cx_registries st)) scope_locals
       ToolSanitizeResponseGuardrail"

definition tool_conditional_execution_entries where
  "tool_conditional_execution_entries gates_of st scope_locals =
     merge_guardrail_entries gates_of (tool_conditional_execution_guardrails (cx_registries st)) scope_locals
       ToolConditionalExecutionGuardrail"

definition tool_request_intercept_entries where
  "tool_request_intercept_entries gates_of st scope_locals =
     merge_intercept_entries gates_of (tool_request_intercepts (cx_registries st)) scope_locals
       ToolRequestIntercept"

definition llm_sanitize_request_entries where
  "llm_sanitize_request_entries gates_of st scope_locals =
     merge_guardrail_entries gates_of (llm_sanitize_request_guardrails (cx_registries st)) scope_locals
       LlmSanitizeRequestGuardrail"

definition llm_sanitize_response_entries where
  "llm_sanitize_response_entries gates_of st scope_locals =
     merge_guardrail_entries gates_of (llm_sanitize_response_guardrails (cx_registries st)) scope_locals
       LlmSanitizeResponseGuardrail"

definition llm_conditional_execution_entries where
  "llm_conditional_execution_entries gates_of st scope_locals =
     merge_guardrail_entries gates_of (llm_conditional_execution_guardrails (cx_registries st)) scope_locals
       LlmConditionalExecutionGuardrail"

definition llm_request_intercept_entries where
  "llm_request_intercept_entries gates_of st scope_locals =
     merge_intercept_entries gates_of (llm_request_intercepts (cx_registries st)) scope_locals
       LlmRequestIntercept"

definition event_sanitize_entries where
  "event_sanitize_entries gates_of global scope_locals kind =
     merge_guardrail_entries gates_of global scope_locals kind"

definition event_metadata_injector_entries where
  "event_metadata_injector_entries gates_of global scope_locals =
     merge_event_metadata_injector_entries gates_of global scope_locals"

end
