(* ===== verification/Chain_Properties.thy ===== *)
theory Chain_Properties
  imports Middleware_Chains
begin

text \<open>
  What the middleware chains guarantee whatever their callbacks do: injection only adds, sanitizers
  fail closed, every guardrail that starts is reported to an end, and request intercepts cannot
  bypass an active codec.
\<close>

section \<open>Metadata injection only adds\<close>

abbreviation metadata_of :: "event \<Rightarrow> json option" where
  "metadata_of e \<equiv> be_metadata (base_of e)"

lemma sf_metadata_fields [simp]: "sf_metadata (sanitize_fields e) = metadata_of e"
  by (simp add: sanitize_fields_def)

lemma metadata_apply [simp]: "metadata_of (apply_sanitize_fields f e) = sf_metadata f"
  by (cases e) (simp_all add: apply_sanitize_fields_def)

lemma map_of_or_insert_all:
  "map_of (or_insert_all xs m) k = (case map_of m k of Some v \<Rightarrow> Some v | None \<Rightarrow> map_of xs k)"
  by (induction xs m rule: or_insert_all.induct)
    (auto simp: map_of_bt_or_insert split: option.splits)

text \<open>What an event may become under injection.\<close>

definition only_adds :: "event \<Rightarrow> event \<Rightarrow> bool" where
  "only_adds e e' \<longleftrightarrow> event_shell e' = event_shell e \<and> be_data (base_of e') = be_data (base_of e) \<and>
     event_category_profile e' = event_category_profile e \<and>
     (\<forall>k v. meta_get (metadata_of e) k = Some v \<longrightarrow> meta_get (metadata_of e') k = Some v) \<and>
     (\<forall>k v. meta_get (metadata_of e') k = Some v \<longrightarrow> meta_get (metadata_of e) k = Some v \<or>
        (is_valid_event_metadata_attribute_key k \<and> is_otel_compatible_attribute_value v))"

lemma only_adds_refl: "only_adds e e"
  by (simp add: only_adds_def)

lemma only_adds_trans: "only_adds e e' \<Longrightarrow> only_adds e' e'' \<Longrightarrow> only_adds e e''"
  unfolding only_adds_def by metis

lemma inject_attributes_adds: "only_adds e (inject_attributes xs e)"
proof (cases "inject_attributes xs e = e")
  case False
  then obtain m where v: "validate_event_metadata_attributes xs = Inr ()"
      and m: "metadata_of e = None \<and> m = [] \<or> metadata_of e = Some (JObject m)"
      and e': "inject_attributes xs e = apply_sanitize_fields
        ((sanitize_fields e)\<lparr>sf_metadata := Some (JObject (or_insert_all xs m))\<rparr>) e"
    by (auto simp: inject_attributes_def Let_def split: sum.splits if_splits option.splits json.splits)
  have "sanitize_fields (inject_attributes xs e) =
      (sanitize_fields e)\<lparr>sf_metadata := Some (JObject (or_insert_all xs m))\<rparr>"
    by (simp add: e')
  then have fr: "be_data (base_of (inject_attributes xs e)) = be_data (base_of e)"
      "event_category_profile (inject_attributes xs e) = event_category_profile e"
      "metadata_of (inject_attributes xs e) = Some (JObject (or_insert_all xs m))"
    by (simp_all add: sanitize_fields_def)
  have old: "meta_get (metadata_of e) k = map_of m k" for k
    using m by (auto simp: meta_get_def)
  have new: "meta_get (metadata_of (inject_attributes xs e)) k =
      (case map_of m k of Some v \<Rightarrow> Some v | None \<Rightarrow> map_of xs k)" for k
    by (simp add: fr meta_get_def map_of_or_insert_all)
  have "is_valid_event_metadata_attribute_key k \<and> is_otel_compatible_attribute_value x"
    if "map_of xs k = Some x" for k x
    using v map_of_SomeD [OF that] by (auto simp: validate_ok_iff)
  then show ?thesis
    unfolding only_adds_def using old new fr by (auto simp: e' split: option.splits)
qed (simp add: only_adds_refl)

text \<open>
  C27. Metadata injectors can only add: whatever they return, fail with or panic on, the event
  keeps its identity, its data and its category profile, no metadata key it had is changed or
  lost, and every key that is new is well-formed and has a value that OpenTelemetry accepts.
\<close>

theorem injection_only_adds:
  assumes "event_metadata_injection_snapshot_chain xs e w = (Finished e', w')"
  shows "only_adds e e'"
  using assms
proof (induction xs arbitrary: e w)
  case (Cons x xs)
  obtain r w1 where r: "rr_payload x e w = (r, w1)" by force
  show ?case
  proof (cases r)
    case (Finished res)
    then show ?thesis
      using Cons r inject_attributes_adds only_adds_trans by (cases res) fastforce+
  qed (use Cons r in simp_all)
qed (simp add: only_adds_refl)

definition demo_event :: event where
  "demo_event = Mark (mark_event_new (base_event_build None 1 0 ''m'' (Some JNull)
     (Some (JObject [(''a'', JBool True)]))) None None)"

theorem injection_only_adds_witness:
  "meta_get (metadata_of (inject_attributes [(''a'', JBool False), (''b'', JBool False)] demo_event)) ''a'' =
     Some (JBool True)"
proof -
  let ?xs = "[(''a'', JBool False), (''b'', JBool False)]"
  let ?f = "\<lambda>_ w. (Finished (Inr ?xs), w) :: json_object flow_result outcome \<times> unit"
  have "event_metadata_injection_snapshot_chain [new_record ''i'' 0 ?f] demo_event () =
      (Finished (inject_attributes ?xs demo_event), ())"
    by (simp add: new_record_def)
  from injection_only_adds [OF this] show ?thesis
    by (simp add: only_adds_def demo_event_def mark_event_new_def base_event_build_def meta_get_def)
qed

section \<open>Sanitizers fail closed\<close>

text \<open>Every sanitizer of the chain succeeded, each on what the one before it returned.\<close>

fun all_sanitized :: "'w event_sanitize_fn registry_record list \<Rightarrow> event \<Rightarrow> 'w \<Rightarrow> event \<Rightarrow> 'w \<Rightarrow> bool" where
  "all_sanitized [] e w e' w' \<longleftrightarrow> e' = e \<and> w' = w"
| "all_sanitized (x # xs) e w e' w' \<longleftrightarrow> (\<exists>f w1.
     rr_payload x e (sanitize_fields e) w = (Finished (Inr f), w1) \<and>
     all_sanitized xs (apply_sanitize_fields f e) w1 e' w')"

text \<open>
  C28. Event sanitizers fail closed and cannot forge an event: the published event has the identity
  of the original one, and either every sanitizer ran successfully on the result of the one
  before it, or the data, the profile and the metadata have been cleared.
\<close>

theorem event_sanitizers_fail_closed:
  assumes "event_sanitize_snapshot_chain xs e w = (Finished e', w')"
  shows "event_shell e' = event_shell e \<and>
    (all_sanitized xs e w e' w' \<or> sanitize_fields e' = default_fields)"
  using assms
proof (induction xs arbitrary: e w)
  case (Cons x xs)
  obtain r w1 where r: "rr_payload x e (sanitize_fields e) w = (r, w1)" by force
  show ?case
  proof (cases r)
    case (Finished res)
    show ?thesis
    proof (cases res)
      case (Inr f)
      then have "event_sanitize_snapshot_chain xs (apply_sanitize_fields f e) w1 = (Finished e', w')"
        using Cons.prems r Finished by simp
      from Cons.IH [OF this] show ?thesis using r Finished Inr by auto
    qed (use Cons.prems r Finished in auto)
  qed (use Cons.prems r in auto)
qed simp

theorem event_sanitizers_fail_closed_witness:
  "\<exists>e'. event_sanitize_snapshot_chain
      [new_record ''ok'' 1 (\<lambda>_ f w. (Finished (Inr f), w)), new_record ''bad'' 2 (\<lambda>_ _ w. (Panicked, w))]
      demo_event () = (Finished e', ()) \<and> sanitize_fields e' = default_fields"
proof -
  let ?xs = "[new_record ''ok'' 1 (\<lambda>_ f w. (Finished (Inr f), w)),
      new_record ''bad'' 2 (\<lambda>_ _ w. (Panicked, w))] :: unit event_sanitize_fn registry_record list"
  obtain e' where e': "event_sanitize_snapshot_chain ?xs demo_event () = (Finished e', ())"
    by (simp add: new_record_def)
  have "\<not> all_sanitized ?xs demo_event () e' ()" by (simp add: new_record_def)
  then have "sanitize_fields e' = default_fields" using event_sanitizers_fail_closed [OF e'] by blast
  then show ?thesis using e' by blast
qed

fun all_passed ::
    "('p \<Rightarrow> 'a \<Rightarrow> ('w, 'a option flow_result) effect) \<Rightarrow> 'p registry_record list \<Rightarrow> 'a \<Rightarrow> 'w \<Rightarrow> 'a \<Rightarrow> 'w \<Rightarrow> bool" where
  "all_passed call [] v w v' w' \<longleftrightarrow> v' = v \<and> w' = w"
| "all_passed call (x # xs) v w v' w' \<longleftrightarrow> (\<exists>v1 w1.
     call (rr_payload x) v w = (Finished (Inr (Some v1)), w1) \<and> all_passed call xs v1 w1 v' w')"

lemma sanitize_loop_None: "sanitize_loop call xs None w = (Finished None, w)"
  by (induction xs) simp_all

lemma sanitize_loop_Some:
  "sanitize_loop call xs (Some v) w = (Finished (Some v'), w') \<longleftrightarrow> all_passed call xs v w v' w'"
proof (induction xs arbitrary: v w)
  case (Cons x xs)
  obtain r w1 where r: "call (rr_payload x) v w = (r, w1)" by force
  show ?case
  proof (cases r)
    case (Finished res)
    show ?thesis
    proof (cases res)
      case (Inr n)
      then show ?thesis using Cons r Finished by (cases n) (simp_all add: sanitize_loop_None)
    qed (use r Finished in \<open>simp add: sanitize_loop_None\<close>)
  qed (use r in \<open>simp_all add: sanitize_loop_None\<close>)
qed auto

text \<open>
  Tool and LLM payloads are published only when every sanitizer has passed them: the chain
  yields a payload exactly when each sanitizer in turn returned one, and that payload is the last
  one's. A sanitizer that fails, panics or withholds the payload withholds it for good, and no
  later sanitizer sees anything.
\<close>

lemma payload_sanitizers_fail_closed:
  "(tool_sanitize_request_snapshot_chain name args ts w = (Finished (Some v), w') \<longleftrightarrow>
      all_passed (\<lambda>f v w. some_result (f name v w)) ts args w v w') \<and>
   (tool_sanitize_response_snapshot_chain name args ts w = (Finished (Some v), w') \<longleftrightarrow>
      all_passed (\<lambda>f v w. some_result (f name v w)) ts args w v w') \<and>
   (llm_sanitize_request_snapshot_chain request context qs w = (Finished (Some q), w') \<longleftrightarrow>
      all_passed (\<lambda>f v w. f v context w) qs request w q w') \<and>
   (llm_sanitize_response_snapshot_chain args context rs w = (Finished (Some v), w') \<longleftrightarrow>
      all_passed (\<lambda>f v w. f v context w) rs args w v w')"
  by (simp add: tool_sanitize_request_snapshot_chain_def tool_sanitize_response_snapshot_chain_def
      llm_sanitize_request_snapshot_chain_def llm_sanitize_response_snapshot_chain_def
      sanitize_loop_Some)

section \<open>Guardrails are reported\<close>

text \<open>
  What an observer of the chain sees, in the order in which it happens: an event is emitted, or a
  guardrail is asked. A journal of the guardrails \<open>xs\<close> is, for each of them in order, the start
  event of a span under its name, the question, and the end event of that span, with the output
  \<open>out\<close> of the guardrail.
\<close>

datatype report = Reported event | Asked string

fun guardrail_journal :: "('p registry_record \<times> json) list \<Rightarrow> report list \<Rightarrow> bool" where
  "guardrail_journal [] [] \<longleftrightarrow> True"
| "guardrail_journal ((x, out) # xs) (Reported s # Asked n # Reported e # rest) \<longleftrightarrow>
     event_span s e \<and> be_name (base_of s) = rr_name x \<and> n = rr_name x \<and>
     event_category_of s = Some (EventCategory ''guardrail'') \<and> event_output e = Some out \<and>
     guardrail_journal xs rest"
| "guardrail_journal _ _ \<longleftrightarrow> False"

text \<open>The output of the last guardrail that was asked, by the result of the chain.\<close>

fun verdict_output :: "string option flow_result outcome \<Rightarrow> json" where
  "verdict_output (Finished r) = guardrail_output r"
| "verdict_output Panicked = JNull"
| "verdict_output Dropped = cancelled_output"

text \<open>
  A journal that is written by the emitter, one entry per event, and by the guardrails, one entry
  per question; nothing else writes to it.
\<close>

definition keeps_journal :: "('w \<Rightarrow> 'r) \<Rightarrow> ('w \<Rightarrow> 'a \<times> 'w) \<Rightarrow> bool" where
  "keeps_journal journal f \<longleftrightarrow> (\<forall>w. journal (snd (f w)) = journal w)"

definition journaled ::
    "('w, 'z) services_scheme \<Rightarrow> ('w \<Rightarrow> event \<Rightarrow> 'w \<Rightarrow> 'w) \<Rightarrow> ('w \<Rightarrow> ('w \<Rightarrow> 'w) \<times> 'w) \<Rightarrow>
     ('w \<Rightarrow> report list) \<Rightarrow> bool" where
  "journaled sv emitter pend journal \<longleftrightarrow>
     keeps_journal journal (new_uuid sv) \<and> keeps_journal journal (clock sv) \<and> keeps_journal journal pend \<and>
     (\<forall>v w. journal (fst (pend v) w) = journal w) \<and>
     (\<forall>v e w. journal (emitter v e w) = journal w @ [Reported e])"

definition notes_question ::
    "('w \<Rightarrow> report list) \<Rightarrow> string \<Rightarrow> ('w \<Rightarrow> 'a \<times> 'w) \<Rightarrow> bool" where
  "notes_question journal name f \<longleftrightarrow> (\<forall>w. journal (snd (f w)) = journal w @ [Asked name])"

text \<open>One guardrail: the start, what comes between, and the end; both events are a span.\<close>

lemma guardrail_span_emitted:
  assumes "journaled sv emitter pend journal" and emit: "emit = emitter v"
    and "emit_guardrail_scope_start sv emit name parent metadata input w = (h, w1)"
    and "pend w1 = (release, w2)" and "journal w3 = journal w2 @ [Asked name]"
  shows "\<exists>s e. journal (release (emit_guardrail_scope_end sv emit h out w3)) =
       journal w @ [Reported s, Asked name, Reported e] \<and>
     event_span s e \<and> be_name (base_of s) = name \<and>
     event_category_of s = Some (EventCategory ''guardrail'') \<and> event_output e = Some out"
proof -
  obtain u wu now wn where s: "new_uuid sv w = (u, wu)" "clock sv wu = (now, wn)" by force
  obtain later wl where l: "clock sv w3 = (later, wl)" by force
  have k: "journal wu = journal w" "journal wn = journal wu" "journal w2 = journal w1" "journal wl = journal w3"
      "\<And>e w. journal (emit e w) = journal w @ [Reported e]" "\<And>w. journal (release w) = journal w"
    using assms(1,4) s l by (auto simp: emit journaled_def keeps_journal_def
        dest: spec [of _ w] spec [of _ wu] spec [of _ w1] spec [of _ w3])
  show ?thesis
    using assms(3,5) s l k
    by (auto simp: emit_guardrail_scope_start_def emit_guardrail_scope_end_def event_span_def
        scope_event_new_def base_event_build_def is_scope_start_def is_scope_end_def
        end_timestamp_after_def less_max_iff_disj)
qed

text \<open>
  The guardrails that were asked, by their number: all of them when the call is allowed, and
  otherwise up to the one that decided; each with its output.
\<close>

definition asked_outputs ::
    "string option flow_result outcome \<Rightarrow> nat \<Rightarrow> 'p registry_record list \<Rightarrow> ('p registry_record \<times> json) list" where
  "asked_outputs res n xs = (if res = Finished (Inr None) then map (\<lambda>x. (x, guardrail_output (Inr None))) xs
     else map (\<lambda>x. (x, guardrail_output (Inr None))) (take n xs) @ [(xs ! n, verdict_output res)])"

lemma conditional_loop_journal:
  assumes j: "journaled sv emitter pend journal"
    and "\<And>x. x \<in> set xs \<Longrightarrow> notes_question journal (rr_name x) (call (rr_payload x))"
    and "conditional_loop sv emitter pend call pm input parent metadata xs w = (res, w')"
  shows "\<exists>n js. journal w' = journal w @ js \<and> guardrail_journal (asked_outputs res n xs) js \<and>
     (res \<noteq> Finished (Inr None) \<longrightarrow> n < length xs)"
  using assms(2,3)
proof (induction xs arbitrary: w)
  case (Cons x xs)
  obtain h w1 where st: "emit_guardrail_scope_start sv (emitter w) (rr_name x) parent metadata input w = (h, w1)" by force
  obtain release w2 where pd: "pend w1 = (release, w2)" by force
  obtain r w3 where r: "call (rr_payload x) w2 = (r, w3)" by force
  have w3: "journal w3 = journal w2 @ [Asked (rr_name x)]"
    using Cons.prems(1) [of x] r by (auto simp: notes_question_def dest: spec [of _ w2])
  note one = guardrail_span_emitted [OF j refl st pd w3]
  show ?case
  proof (cases "r = Finished (Inr None)")
    case True
    obtain s e where se: "journal (release (emit_guardrail_scope_end sv (emitter w) h (guardrail_output (Inr None)) w3)) =
        journal w @ [Reported s, Asked (rr_name x), Reported e]"
      "guardrail_journal [(x, guardrail_output (Inr None))] [Reported s, Asked (rr_name x), Reported e]"
      using one [of "guardrail_output (Inr None)"] by auto
    have "conditional_loop sv emitter pend call pm input parent metadata xs
        (release (emit_guardrail_scope_end sv (emitter w) h (guardrail_output (Inr None)) w3)) = (res, w')"
      using Cons.prems(2) st pd r True by simp
    from Cons.IH [OF _ this] Cons.prems(1) obtain n js where
      js: "journal w' = journal w @ [Reported s, Asked (rr_name x), Reported e] @ js"
        "guardrail_journal (asked_outputs res n xs) js" "res \<noteq> Finished (Inr None) \<longrightarrow> n < length xs"
      using se(1) by auto
    have "asked_outputs res (Suc n) (x # xs) = (x, guardrail_output (Inr None)) # asked_outputs res n xs"
      by (simp add: asked_outputs_def)
    then show ?thesis using js se(2)
      by (intro exI [of _ "Suc n"] exI [of _ "[Reported s, Asked (rr_name x), Reported e] @ js"]) auto
  next
    case False
    then have "res \<noteq> Finished (Inr None)"
      "w' = release (emit_guardrail_scope_end sv (emitter w) h (verdict_output res) w3)"
      using Cons.prems(2) st pd r
      by (auto simp: Let_def split: outcome.splits sum.splits option.splits)
    then show ?thesis using one [of "verdict_output res"]
      by (intro exI [of _ 0]) (auto simp: asked_outputs_def)
  qed
qed (simp add: asked_outputs_def)

text \<open>
  C30. Every conditional guardrail that is asked is reported to an end, by the tool chain and by the
  LLM chain. The journal of a chain, of the events it emits and the guardrails it asks, is for each
  guardrail in order the start event of its span, the question and the end event. When the call is
  allowed, all guardrails have been asked and each end event says so. On every other way out,
  rejected, failed, panicked, or dropped while a guardrail was still running, the guardrails up to
  the one that decided have been asked and no other, and the last end event carries that outcome.
\<close>

theorem guardrails_reported:
  assumes "journaled sv emitter pend journal"
    and "\<And>x. x \<in> set ts \<Longrightarrow> notes_question journal (rr_name x) (rr_payload x name args)"
    and "\<And>x. x \<in> set ls \<Longrightarrow> notes_question journal (rr_name x) (rr_payload x request)"
    and "tool_conditional_execution_snapshot_chain sv emitter pend name args ts parent metadata w = (res, w')"
    and "llm_conditional_execution_snapshot_chain sv emitter pend request ls parent metadata w = (res2, w2)"
  shows "(\<exists>n js. journal w' = journal w @ js \<and> guardrail_journal (asked_outputs res n ts) js \<and>
        (res \<noteq> Finished (Inr None) \<longrightarrow> n < length ts)) \<and>
    (\<exists>n js. journal w2 = journal w @ js \<and> guardrail_journal (asked_outputs res2 n ls) js \<and>
        (res2 \<noteq> Finished (Inr None) \<longrightarrow> n < length ls))"
  using conditional_loop_journal [OF assms(1) _ assms(4) [unfolded tool_conditional_execution_snapshot_chain_def]]
    conditional_loop_journal [OF assms(1) _ assms(5) [unfolded llm_conditional_execution_snapshot_chain_def]]
    assms(2,3) by blast

lemma journal_length: "guardrail_journal xs js \<Longrightarrow> length js = 3 * length xs"
  by (induction xs js rule: guardrail_journal.induct) auto

lemma journal_one:
  assumes "guardrail_journal [(x, out)] js"
  obtains s e where "js = [Reported s, Asked (rr_name x), Reported e]" "event_span s e" "event_output e = Some out"
  using assms by (cases "([(x, out)], js)" rule: guardrail_journal.cases)
    (auto elim: guardrail_journal.elims)

text \<open>A world with a counter and a journal, and guardrails that are noted there.\<close>

definition demo_services :: "(nat \<times> report list) services" where
  "demo_services = \<lparr>new_uuid = (\<lambda>(n, l). (of_nat n, (n + 1, l))), clock = (\<lambda>(n, l). (int n, (n + 1, l)))\<rparr>"

definition demo_emit :: "nat \<times> report list \<Rightarrow> event \<Rightarrow> nat \<times> report list \<Rightarrow> nat \<times> report list" where
  "demo_emit v e w = (case w of (n, l) \<Rightarrow> (n, l @ [Reported e]))"

definition demo_guardrail :: "string \<Rightarrow> 'r \<Rightarrow> nat \<times> report list \<Rightarrow> 'r \<times> nat \<times> report list" where
  "demo_guardrail name r w = (case w of (n, l) \<Rightarrow> (r, (n, l @ [Asked name])))"

lemma demo_journaled: "journaled demo_services demo_emit (Pair id) snd"
  by (auto simp: journaled_def keeps_journal_def demo_services_def demo_emit_def)

theorem guardrails_reported_witness:
  "\<exists>s e w'. tool_conditional_execution_snapshot_chain demo_services demo_emit (Pair id) ''t'' JNull
      [new_record ''slow'' 0 (\<lambda>_ _. demo_guardrail ''slow'' Dropped),
       new_record ''next'' 1 (\<lambda>_ _. demo_guardrail ''next'' Panicked)] None None (1, []) = (Dropped, w') \<and>
     snd w' = [Reported s, Asked ''slow'', Reported e] \<and> event_span s e \<and> event_output e = Some cancelled_output"
proof -
  let ?ts = "[new_record ''slow'' 0 (\<lambda>_ _. demo_guardrail ''slow'' Dropped),
      new_record ''next'' 1 (\<lambda>_ _. demo_guardrail ''next'' Panicked)]
    :: (string \<Rightarrow> json \<Rightarrow> (nat \<times> report list, string option flow_result) effect) registry_record list"
  let ?ls = "[] :: (json \<Rightarrow> (nat \<times> report list, string option flow_result) effect) registry_record list"
  obtain w' where r: "tool_conditional_execution_snapshot_chain demo_services demo_emit (Pair id) ''t'' JNull ?ts
      None None (1, []) = (Dropped, w')" "length (snd w') = 3"
    by (simp add: tool_conditional_execution_snapshot_chain_def emit_guardrail_scope_start_def
        emit_guardrail_scope_end_def demo_services_def demo_emit_def demo_guardrail_def new_record_def)
  have l: "llm_conditional_execution_snapshot_chain demo_services demo_emit (Pair id) JNull ?ls
      None None (1, []) = (Finished (Inr None), (1, []))"
    by (simp add: llm_conditional_execution_snapshot_chain_def)
  have "notes_question snd (rr_name x) (rr_payload x ''t'' JNull)" if "x \<in> set ?ts" for x
    using that by (auto simp: notes_question_def new_record_def demo_guardrail_def)
  from guardrails_reported [OF demo_journaled this _ r(1) l]
  obtain n where "guardrail_journal (asked_outputs Dropped n ?ts) (snd w')" "n < 2"
    by auto
  moreover from this r(2) have "n = 0" by (cases n) (auto simp: asked_outputs_def journal_length dest: journal_length)
  ultimately have "guardrail_journal [(?ts ! 0, cancelled_output)] (snd w')"
    by (simp add: asked_outputs_def)
  then obtain s e where "snd w' = [Reported s, Asked ''slow'', Reported e]" "event_span s e"
      "event_output e = Some cancelled_output"
    by (rule journal_one) (simp add: new_record_def)
  then show ?thesis using r(1) by blast
qed

text \<open>The verdict of the chain, when its callbacks leave the world as it is.\<close>

fun first_verdict :: "(string \<Rightarrow> string) \<Rightarrow> (string \<times> string option flow_result outcome) list \<Rightarrow>
    string option flow_result outcome" where
  "first_verdict pm [] = Finished (Inr None)"
| "first_verdict pm ((n, Finished (Inr None)) # rs) = first_verdict pm rs"
| "first_verdict pm ((n, Panicked) # rs) = Finished (Inl (Internal (pm n)))"
| "first_verdict pm ((n, r) # rs) = r"

lemma conditional_loop_verdict:
  assumes "\<And>p v. p \<in> rr_payload ` set xs \<Longrightarrow> fst (call p v) = verdict p"
  shows "fst (conditional_loop sv emitter pend call pm input parent metadata xs w) =
     first_verdict pm (map (\<lambda>x. (rr_name x, verdict (rr_payload x))) xs)"
  using assms
proof (induction xs arbitrary: w)
  case (Cons x xs)
  obtain h w1 where st: "emit_guardrail_scope_start sv (emitter w) (rr_name x) parent metadata input w = (h, w1)" by force
  obtain release w1' where pd: "pend w1 = (release, w1')" by force
  obtain w2 where r: "call (rr_payload x) w1' = (verdict (rr_payload x), w2)"
    using Cons.prems [of "rr_payload x" w1'] by (metis image_eqI list.set_intros(1) prod.collapse)
  show ?case
  proof (cases "verdict (rr_payload x)")
    case (Finished res)
    then show ?thesis using st pd r Cons
      by (cases res) (auto simp: Let_def split: option.split)
  qed (use st pd r in simp_all)
qed simp

text \<open>
  A call is allowed exactly when every conditional guardrail allows it. Otherwise the first
  one that does not decides: its rejection is returned with its reason, its error is the error of
  the call, a panic is an internal error that names it; the ones after it are not asked.
\<close>

lemma guardrails_first_verdict:
  assumes "\<forall>x \<in> set xs. \<forall>w. fst (rr_payload x request w) = verdict (rr_payload x)"
  shows "fst (llm_conditional_execution_snapshot_chain sv emitter pend request xs parent metadata w) =
     first_verdict (\<lambda>n. ''LLM conditional guardrail '' @ [CHR 0x27] @ n @ [CHR 0x27] @ '' panicked'')
       (map (\<lambda>x. (rr_name x, verdict (rr_payload x))) xs) \<and>
    (fst (llm_conditional_execution_snapshot_chain sv emitter pend request xs parent metadata w) = Finished (Inr None)
       \<longleftrightarrow> (\<forall>x \<in> set xs. verdict (rr_payload x) = Finished (Inr None)))"
proof -
  let ?pm = "\<lambda>n. ''LLM conditional guardrail '' @ [CHR 0x27] @ n @ [CHR 0x27] @ '' panicked''"
  have v: "fst (llm_conditional_execution_snapshot_chain sv emitter pend request xs parent metadata w) =
     first_verdict ?pm (map (\<lambda>x. (rr_name x, verdict (rr_payload x))) xs)"
    unfolding llm_conditional_execution_snapshot_chain_def
    by (rule conditional_loop_verdict) (use assms in auto)
  have "first_verdict ?pm rs = Finished (Inr None) \<longleftrightarrow> (\<forall>p \<in> set rs. snd p = Finished (Inr None))" for rs
    by (induction ?pm rs rule: first_verdict.induct) auto
  then show ?thesis using v by auto
qed

section \<open>Request intercepts\<close>

lemma llm_intercept_loop_codec:
  assumes "llm_intercept_loop name True rec xs acc w = (Finished (Inr out), r)"
    and "lo_annotated_request acc \<noteq> None"
  shows "lr_content (lo_request out) = lr_content (lo_request acc) \<and> lo_annotated_request out \<noteq> None"
  using assms
proof (induction xs arbitrary: acc w)
  case (Cons x xs)
  obtain q w1 where q: "callable (rr_payload x) name (lo_request acc) (lo_annotated_request acc) w = (q, w1)"
    by force
  from Cons.prems(1) q obtain o1 where o1: "q = Finished (Inr o1)"
      "lr_content (lo_request o1) = lr_content (lo_request acc)" "lo_annotated_request o1 \<noteq> None"
    by (auto split: outcome.splits sum.splits if_splits)
  define acc' where "acc' = acc\<lparr>lo_request := lo_request o1, lo_annotated_request := lo_annotated_request o1,
      lo_pending_marks := lo_pending_marks acc @ lo_pending_marks o1,
      lo_optimization_contributions := (case rec of
          Some _ \<Rightarrow> lo_optimization_contributions acc
        | None \<Rightarrow> lo_optimization_contributions acc @ lo_optimization_contributions o1)\<rparr>"
  have "lo_annotated_request acc' \<noteq> None" "lr_content (lo_request acc') = lr_content (lo_request acc)"
    using o1 by (simp_all add: acc'_def)
  moreover have "out = acc' \<or> (\<exists>w'. llm_intercept_loop name True rec xs acc' w' = (Finished (Inr out), r))"
    using Cons.prems(1) q o1 by (auto simp: acc'_def [symmetric] Let_def split: if_splits)
  ultimately show ?case using Cons.IH by fastforce
qed simp

text \<open>
  Request intercepts cannot go behind an active codec: when a codec has annotated the request
  and the chain succeeds, the content of the request is the original one and there still is an
  annotated request for the codec to encode.
\<close>

lemma codec_protects_content:
  assumes "llm_request_intercepts_snapshot_chain_with_recorder name request (Some annotated) xs True rec w =
     (Finished (Inr out), r)"
  shows "lr_content (lo_request out) = lr_content request \<and> lo_annotated_request out \<noteq> None"
  using llm_intercept_loop_codec [OF assms [unfolded llm_request_intercepts_snapshot_chain_with_recorder_def]]
  by simp

text \<open>
  An intercept marked to break the chain is the last one that runs: the intercepts after it
  have no influence on the result, on errors, or on the world.
\<close>

lemma break_chain_stops:
  assumes "break_chain (rr_payload x)"
  shows "tool_request_intercepts_snapshot_chain name (xs @ x # ys) v w =
     tool_request_intercepts_snapshot_chain name (xs @ [x]) v w"
proof (induction xs arbitrary: v w)
  case Nil
  obtain q w' where q: "callable (rr_payload x) name v w = (q, w')" by fastforce
  show ?case using assms by (cases q) (auto simp: q split: sum.split)
next
  case (Cons z xs)
  obtain q w' where q: "callable (rr_payload z) name v w = (q, w')" by fastforce
  show ?case by (cases q) (auto simp: q Cons.IH split: sum.split)
qed

end
