(* ===== verification/Subscriber_Dispatcher.thy ===== *)
theory Subscriber_Dispatcher
  imports Middleware_Chains
begin

text \<open>
  The subscriber dispatcher (\<^verbatim>\<open>crates/core/src/api/runtime/subscriber_dispatcher.rs\<close>): a background
  thread that takes messages from a channel in order, runs the middleware of each queued event and
  hands it to its subscribers. A flush waits until the publications that were queued before it,
  and the ones these caused, are done; the runtime counts them per lineage with permits.

  A lineage is shared behind an \<^verbatim>\<open>Arc\<close>, so it is a reference into a heap of cells; references are
  never reused. The loop keeps weak references: a lineage that is gone has no permit left, and the
  loop skips lineages without permits, so the model needs no liveness flag. Its counter counts
  permits that exist in memory and is a natural number.

  The values sent through channels to the callers are recorded: \<open>acks\<close> lists the flushes that were
  answered, \<open>completions\<close> the deliveries whose receipt was completed, both in order.

  Middleware and subscribers are callbacks over a world. What they emit themselves is read from the
  world after they ran, by \<open>drain_emissions\<close>: while a callback runs, its emissions are only appended,
  so the order is the same. The binding's publication context and the thread-local scope stack that
  the dispatcher installs around a delivery are visible to callbacks only and are not part of the
  model; neither are streams that are opened inside a middleware callback.
\<close>

section \<open>Messages\<close>

type_synonym lineage = nat

record lineage_cell =
  outstanding :: nat
  pending_terminal :: bool

type_synonym 'w transform_fn = "event \<Rightarrow> ('w, event) effect"
type_synonym 'w subscriber_fn = "event \<Rightarrow> ('w, unit) effect"

record 'w delivery =
  dv_event :: event
  dv_transform :: "'w transform_fn option"
  dv_injectors :: "'w event_metadata_injector_fn registry_record list"
  dv_sanitizers :: "'w event_sanitize_fn registry_record list"
  dv_subscribers :: "'w subscriber_fn list"

datatype 'w message =
    Deliver "'w delivery" "lineage option" "nat option"
  | Flush nat bool
  | RegisterPending lineage
  | CompletePending lineage
  | Barrier nat "lineage option"

text \<open>
  The receiving end of a barrier. The task that will publish at its position is still running and
  has buffered some messages, or it has sent them, or the handle is gone.
\<close>

datatype 'w slot = Open "lineage option" "'w message list" | Sent "'w message list" | Closed

record pending_flush =
  pf_done :: nat
  pf_lineages :: "lineage list"

record 'w dispatcher =
  lineages :: "lineage \<Rightarrow> lineage_cell"
  next_lineage :: nat
  slots :: "nat \<Rightarrow> 'w slot"
  next_slot :: nat
  dispatcher_thread :: "(string + unit) option"
  spawn_result :: "string + unit"
  receiver_alive :: bool
  channel :: "'w message list"
  active_lineages :: "lineage list"
  pending_flushes :: "pending_flush list"
  acks :: "nat list"
  completions :: "nat list"

definition dispatcher_new :: "string + unit \<Rightarrow> 'w dispatcher" where
  "dispatcher_new spawned = \<lparr>lineages = (\<lambda>_. \<lparr>outstanding = 0, pending_terminal = False\<rparr>),
     next_lineage = 0, slots = (\<lambda>_. Closed), next_slot = 0, dispatcher_thread = None,
     spawn_result = spawned, receiver_alive = True, channel = [], active_lineages = [],
     pending_flushes = [], acks = [], completions = []\<rparr>"

section \<open>Lineages and permits\<close>

definition new_lineage :: "bool \<Rightarrow> 'w dispatcher \<Rightarrow> lineage \<times> 'w dispatcher" where
  "new_lineage terminal d =
     (next_lineage d,
      d\<lparr>lineages := (lineages d)(next_lineage d := \<lparr>outstanding = 0, pending_terminal = terminal\<rparr>),
        next_lineage := next_lineage d + 1\<rparr>)"

definition new_permit :: "lineage \<Rightarrow> 'w dispatcher \<Rightarrow> 'w dispatcher" where
  "new_permit l d = d\<lparr>lineages := (lineages d)(l :=
     (lineages d l)\<lparr>outstanding := outstanding (lineages d l) + 1\<rparr>)\<rparr>"

definition drop_permit :: "lineage \<Rightarrow> 'w dispatcher \<Rightarrow> 'w dispatcher" where
  "drop_permit l d = d\<lparr>lineages := (lineages d)(l :=
     (lineages d l)\<lparr>outstanding := outstanding (lineages d l) - 1\<rparr>)\<rparr>"

definition drop_permit_opt :: "lineage option \<Rightarrow> 'w dispatcher \<Rightarrow> 'w dispatcher" where
  "drop_permit_opt p d = (case p of None \<Rightarrow> d | Some l \<Rightarrow> drop_permit l d)"

text \<open>The permit a message owns, dropped with it.\<close>

fun message_permit :: "'w message \<Rightarrow> lineage option" where
  "message_permit (Deliver _ p _) = p"
| "message_permit (Barrier _ p) = p"
| "message_permit (CompletePending l) = Some l"
| "message_permit (Flush _ _) = None"
| "message_permit (RegisterPending _) = None"

text \<open>
  \<open>current\<close> is \<^verbatim>\<open>current_publication_lineage()\<close> of the calling thread. A lineage is created even when
  the message turns out to have a permit already.
\<close>

definition attach_publication_lineage ::
    "lineage option \<Rightarrow> lineage option \<Rightarrow> 'w message \<Rightarrow> 'w dispatcher \<Rightarrow>
     lineage \<times> 'w message \<times> 'w dispatcher" where
  "attach_publication_lineage inherited current m d =
     (let (l, d) = (case inherited of Some l \<Rightarrow> (l, d) | None \<Rightarrow>
          (case current of Some l \<Rightarrow> (l, d) | None \<Rightarrow> new_lineage False d))
      in case m of
           Deliver x (Some p) c \<Rightarrow> (p, m, d)
         | Deliver x None c \<Rightarrow> (l, Deliver x (Some l) c, new_permit l d)
         | Barrier s (Some p) \<Rightarrow> (p, m, d)
         | Barrier s None \<Rightarrow> (l, Barrier s (Some l), new_permit l d)
         | _ \<Rightarrow> (l, m, d))"

section \<open>Sending\<close>

definition dispatcher_sender :: "'w dispatcher \<Rightarrow> (string + unit) \<times> 'w dispatcher" where
  "dispatcher_sender d = (case dispatcher_thread d of
       Some r \<Rightarrow> (r, d)
     | None \<Rightarrow> (spawn_result d, d\<lparr>dispatcher_thread := Some (spawn_result d)\<rparr>))"

text \<open>\<^verbatim>\<open>Sender::send\<close>: it fails when the receiver is gone, and the message is dropped.\<close>

definition channel_send :: "'w message \<Rightarrow> 'w dispatcher \<Rightarrow> bool \<times> 'w dispatcher" where
  "channel_send m d =
     (if receiver_alive d then (True, d\<lparr>channel := channel d @ [m]\<rparr>)
      else (False, drop_permit_opt (message_permit m) d))"

definition send_dispatch_message ::
    "lineage option \<Rightarrow> 'w message \<Rightarrow> 'w dispatcher \<Rightarrow> bool \<times> 'w dispatcher" where
  "send_dispatch_message current m d =
     (let (_, m, d) = attach_publication_lineage None current m d;
          (sender, d) = dispatcher_sender d
      in case sender of
           Inr _ \<Rightarrow> channel_send m d
         | Inl e \<Rightarrow> (False, drop_permit_opt (message_permit m) d))"

text \<open>
  A buffer routes publications to the invocation that owns it; \<open>None\<close> means that the messages have
  been taken and the buffer refuses more. A thread can see a buffer of its task and one of its own.
\<close>

record 'w publication_buffer =
  pb_messages :: "'w message list option"
  pb_lineage :: "lineage option"

record 'w emit_context =
  async_buffer :: "'w publication_buffer option"
  thread_buffer :: "'w publication_buffer option"
  thread_lineage :: "lineage option"
  in_dispatcher :: bool

definition plain_context :: "lineage option \<Rightarrow> 'w emit_context" where
  "plain_context l = \<lparr>async_buffer = None, thread_buffer = None, thread_lineage = l, in_dispatcher = False\<rparr>"

definition current_publication_lineage :: "'w emit_context \<Rightarrow> lineage option" where
  "current_publication_lineage cx =
     (case Option.bind (async_buffer cx) pb_lineage of Some l \<Rightarrow> Some l
      | None \<Rightarrow> (case Option.bind (thread_buffer cx) pb_lineage of Some l \<Rightarrow> Some l
        | None \<Rightarrow> thread_lineage cx))"

definition buffer_push :: "'w message \<Rightarrow> 'w publication_buffer \<Rightarrow> 'w publication_buffer option" where
  "buffer_push m b = map_option (\<lambda>ms. b\<lparr>pb_messages := Some (ms @ [m])\<rparr>) (pb_messages b)"

definition buffer_take :: "'w publication_buffer \<Rightarrow> 'w message list" where
  "buffer_take b = (case pb_messages b of None \<Rightarrow> [] | Some ms \<Rightarrow> ms)"

definition enqueue_dispatch_message ::
    "'w message \<Rightarrow> 'w emit_context \<Rightarrow> 'w dispatcher \<Rightarrow> bool \<times> 'w emit_context \<times> 'w dispatcher" where
  "enqueue_dispatch_message m cx d =
     (let (_, m, d) = attach_publication_lineage None (current_publication_lineage cx) m d
      in case Option.bind (async_buffer cx) (buffer_push m) of
           Some b \<Rightarrow> (True, cx\<lparr>async_buffer := Some b\<rparr>, d)
         | None \<Rightarrow> (case Option.bind (thread_buffer cx) (buffer_push m) of
             Some b \<Rightarrow> (True, cx\<lparr>thread_buffer := Some b\<rparr>, d)
           | None \<Rightarrow> (let (ok, d) = send_dispatch_message (current_publication_lineage cx) m d
                      in (ok, cx, d))))"

definition in_dispatcher_callback :: "'w emit_context \<Rightarrow> bool" where
  "in_dispatcher_callback cx \<longleftrightarrow> in_dispatcher cx \<or> async_buffer cx \<noteq> None \<or>
     (case thread_buffer cx of None \<Rightarrow> False | Some b \<Rightarrow> pb_messages b \<noteq> None)"

section \<open>Barriers, pending publications and flushes\<close>

definition register_async_publication ::
    "'w emit_context \<Rightarrow> 'w dispatcher \<Rightarrow> nat option \<times> 'w emit_context \<times> 'w dispatcher" where
  "register_async_publication cx d =
     (let s = next_slot d;
          d = d\<lparr>slots := (slots d)(s := Open None []), next_slot := s + 1\<rparr>;
          (ok, cx, d) = enqueue_dispatch_message (Barrier s None) cx d
      in if ok then (Some s, cx, d) else (None, cx, d\<lparr>slots := (slots d)(s := Closed)\<rparr>))"

text \<open>
  \<^verbatim>\<open>with_async_publication_context\<close>: the task buffers what it publishes under the lineage it captured
  when it started; when it is done, the buffer is sent to the barrier. When the task is dropped, so
  are the buffer with the permits of its messages and the handle.
\<close>

definition async_start :: "nat \<Rightarrow> 'w emit_context \<Rightarrow> 'w dispatcher \<Rightarrow> 'w dispatcher" where
  "async_start s cx d = (case slots d s of
       Open l ms \<Rightarrow> d\<lparr>slots := (slots d)(s := Open (current_publication_lineage cx) ms)\<rparr> | _ \<Rightarrow> d)"

definition async_publish :: "nat \<Rightarrow> 'w delivery \<Rightarrow> nat option \<Rightarrow> 'w dispatcher \<Rightarrow> 'w dispatcher" where
  "async_publish s x c d = (case slots d s of
       Open l ms \<Rightarrow>
         (let (_, cx, d) = enqueue_dispatch_message (Deliver x None c)
              ((plain_context None)\<lparr>async_buffer := Some \<lparr>pb_messages = Some ms, pb_lineage = l\<rparr>\<rparr>) d
          in case async_buffer cx of
               Some b \<Rightarrow> d\<lparr>slots := (slots d)(s := Open l (buffer_take b))\<rparr>
             | None \<Rightarrow> d)
     | _ \<Rightarrow> d)"

definition async_finish :: "nat \<Rightarrow> 'w dispatcher \<Rightarrow> 'w dispatcher" where
  "async_finish s d = (case slots d s of
       Open l ms \<Rightarrow> d\<lparr>slots := (slots d)(s := Sent ms)\<rparr> | _ \<Rightarrow> d)"

definition async_drop :: "nat \<Rightarrow> 'w dispatcher \<Rightarrow> 'w dispatcher" where
  "async_drop s d = (case slots d s of
       Open l ms \<Rightarrow> fold (\<lambda>m. drop_permit_opt (message_permit m)) ms d\<lparr>slots := (slots d)(s := Closed)\<rparr>
     | _ \<Rightarrow> d)"

definition register_pending_publication :: "'w dispatcher \<Rightarrow> lineage option \<times> 'w dispatcher" where
  "register_pending_publication d = (case dispatcher_sender d of
       (Inl e, d) \<Rightarrow> (None, d)
     | (Inr _, d) \<Rightarrow>
         (let (l, d) = new_lineage True d;
              d = new_permit l d;
              (ok, d) = channel_send (RegisterPending l) d
          in if ok then (Some l, d) else (None, drop_permit l d)))"

definition drop_pending_publication :: "lineage \<Rightarrow> 'w dispatcher \<Rightarrow> 'w dispatcher" where
  "drop_pending_publication l d = snd (channel_send (CompletePending l) d)"

text \<open>The caller then waits for the answer to its flush, if one was sent.\<close>

definition flush_subscribers_inner ::
    "bool \<Rightarrow> nat \<Rightarrow> 'w emit_context \<Rightarrow> 'w dispatcher \<Rightarrow> nat option flow_result \<times> 'w dispatcher" where
  "flush_subscribers_inner include_pending done cx d =
     (if in_dispatcher_callback cx then (Inr None, d)
      else (case dispatcher_thread d of
          None \<Rightarrow> (Inr None, d)
        | Some (Inl e) \<Rightarrow> (Inl (Internal e), d)
        | Some (Inr _) \<Rightarrow> (case channel_send (Flush done include_pending) d of
              (True, d) \<Rightarrow> (Inr (Some done), d)
            | (False, d) \<Rightarrow> (Inl (Internal ''failed to queue subscriber flush: sending on a closed channel''), d))))"

section \<open>The loop\<close>

definition register_lineage :: "lineage \<Rightarrow> 'w dispatcher \<Rightarrow> 'w dispatcher" where
  "register_lineage l d =
     (if l \<in> set (active_lineages d) then d else d\<lparr>active_lineages := active_lineages d @ [l]\<rparr>)"

definition defer_or_complete_flush :: "nat \<Rightarrow> bool \<Rightarrow> 'w dispatcher \<Rightarrow> 'w dispatcher" where
  "defer_or_complete_flush done include_pending d =
     (let ls = filter (\<lambda>l. outstanding (lineages d l) > 0)
                 (filter (\<lambda>l. include_pending \<or> \<not> pending_terminal (lineages d l)) (active_lineages d))
      in if ls = [] then d\<lparr>acks := acks d @ [done]\<rparr>
         else d\<lparr>pending_flushes := pending_flushes d @ [\<lparr>pf_done = done, pf_lineages = ls\<rparr>]\<rparr>)"

definition flush_ready :: "'w dispatcher \<Rightarrow> pending_flush \<Rightarrow> bool" where
  "flush_ready d f = list_all (\<lambda>l. outstanding (lineages d l) = 0) (pf_lineages f)"

definition complete_ready_flushes :: "'w dispatcher \<Rightarrow> 'w dispatcher" where
  "complete_ready_flushes d =
     d\<lparr>active_lineages := filter (\<lambda>l. outstanding (lineages d l) > 0) (active_lineages d),
       acks := acks d @ map pf_done (takeWhile (flush_ready d) (pending_flushes d)),
       pending_flushes := dropWhile (flush_ready d) (pending_flushes d)\<rparr>"

section \<open>Delivery\<close>

text \<open>
  What the dispatcher needs of its surroundings: the publications that callbacks have made since the
  last reading, and whether a runtime for asynchronous callbacks can be built.
\<close>

record 'w dispatch_services =
  drain_emissions :: "'w \<Rightarrow> ('w delivery \<times> nat option) list \<times> 'w"
  runtime_builds :: "'w \<Rightarrow> bool \<times> 'w"

fun emit_all ::
    "('w delivery \<times> nat option) list \<Rightarrow> 'w emit_context \<Rightarrow> 'w dispatcher \<Rightarrow>
     'w emit_context \<times> 'w dispatcher" where
  "emit_all [] cx d = (cx, d)"
| "emit_all ((x, c) # es) cx d =
     (let (_, cx, d) = enqueue_dispatch_message (Deliver x None c) cx d in emit_all es cx d)"

text \<open>
  The buffer is visible as the buffer of the task and as that of the thread; the second handle is
  reached only when the first refuses, and then it refuses as well, so one of them is enough here.
  \<^verbatim>\<open>block_on\<close> drives the future to its end: \<open>Dropped\<close> does not arise and counts as a panic.
\<close>

definition run_with_nested_publication_buffer ::
    "'w dispatch_services \<Rightarrow> lineage \<Rightarrow> ('w, 'a) effect \<Rightarrow> 'w \<Rightarrow> 'w dispatcher \<Rightarrow>
     'a option \<times> 'w message list \<times> 'w \<times> 'w dispatcher" where
  "run_with_nested_publication_buffer sv l f w d =
     (let (out, w) = f w;
          (es, w) = drain_emissions sv w;
          cx = \<lparr>async_buffer = Some \<lparr>pb_messages = Some [], pb_lineage = Some l\<rparr>,
                thread_buffer = None, thread_lineage = Some l, in_dispatcher = True\<rparr>;
          (cx, d) = emit_all es cx d
      in (case out of Finished a \<Rightarrow> Some a | _ \<Rightarrow> None,
          case async_buffer cx of None \<Rightarrow> [] | Some b \<Rightarrow> buffer_take b, w, d))"

definition inject_event_metadata_snapshot ::
    "'w dispatch_services \<Rightarrow> lineage \<Rightarrow> event \<Rightarrow> 'w event_metadata_injector_fn registry_record list \<Rightarrow>
     'w \<Rightarrow> 'w dispatcher \<Rightarrow> event \<times> 'w message list \<times> 'w \<times> 'w dispatcher" where
  "inject_event_metadata_snapshot sv l e injectors w d =
     (if injectors = [] then (e, [], w, d)
      else (let (built, w) = runtime_builds sv w
            in if \<not> built then (e, [], w, d)
               else (let (out, nested, w, d) = run_with_nested_publication_buffer sv l
                           (event_metadata_injection_snapshot_chain injectors e) w d
                     in (case out of Some e' \<Rightarrow> e' | None \<Rightarrow> e, nested, w, d))))"

text \<open>The three phases of a delivery. The transform is the one that may drop the event.\<close>

definition transform_snapshot ::
    "'w dispatch_services \<Rightarrow> lineage \<Rightarrow> event \<Rightarrow> 'w transform_fn option \<Rightarrow> 'w \<Rightarrow> 'w dispatcher \<Rightarrow>
     event option \<times> 'w message list \<times> 'w \<times> 'w dispatcher" where
  "transform_snapshot sv l e transform w d = (case transform of
       None \<Rightarrow> (Some e, [], w, d)
     | Some f \<Rightarrow>
         (let (built, w) = runtime_builds sv w
          in if \<not> built then (None, [], w, d)
             else run_with_nested_publication_buffer sv l (f e) w d))"

definition sanitizer_snapshot ::
    "'w dispatch_services \<Rightarrow> lineage \<Rightarrow> event \<Rightarrow> 'w event_sanitize_fn registry_record list \<Rightarrow> 'w \<Rightarrow>
     'w dispatcher \<Rightarrow> event \<times> 'w message list \<times> 'w \<times> 'w dispatcher" where
  "sanitizer_snapshot sv l e sanitizers w d =
     (if sanitizers = [] then (e, [], w, d)
      else (let (built, w) = runtime_builds sv w
            in if \<not> built then (apply_sanitize_fields default_fields e, [], w, d)
               else (let (out, nested, w, d) = run_with_nested_publication_buffer sv l
                           (event_sanitize_snapshot_chain sanitizers e) w d
                     in (case out of Some e' \<Rightarrow> e' | None \<Rightarrow> apply_sanitize_fields default_fields e,
                         nested, w, d))))"

definition sanitize_event_snapshot ::
    "'w dispatch_services \<Rightarrow> lineage \<Rightarrow> 'w delivery \<Rightarrow> 'w \<Rightarrow> 'w dispatcher \<Rightarrow>
     event option \<times> 'w message list \<times> 'w \<times> 'w dispatcher" where
  "sanitize_event_snapshot sv l x w d =
     (let e = dv_event x;
          (transformed, nested1, w, d) = transform_snapshot sv l e (dv_transform x) w d
      in case transformed of
           None \<Rightarrow> (None, nested1, w, d)
         | Some t \<Rightarrow>
             (let t = set_propagation_parent_uuid (be_propagation_parent_uuid (base_of e))
                    (set_propagation_root_uuid (be_propagation_root_uuid (base_of e)) t);
                  (i, nested2, w, d) = inject_event_metadata_snapshot sv l t (dv_injectors x) w d;
                  (s, nested3, w, d) = sanitizer_snapshot sv l i (dv_sanitizers x) w d
              in (Some s, nested1 @ nested2 @ nested3, w, d)))"

text \<open>
  Subscribers run outside the buffer. What they publish goes to the channel, under the lineage of
  the delivery. A subscriber that panics does not keep the others from running.
\<close>

fun run_subscribers ::
    "'w dispatch_services \<Rightarrow> lineage \<Rightarrow> event \<Rightarrow> 'w subscriber_fn list \<Rightarrow> 'w \<Rightarrow> 'w dispatcher \<Rightarrow>
     'w \<times> 'w dispatcher" where
  "run_subscribers sv l e [] w d = (w, d)"
| "run_subscribers sv l e (f # fs) w d =
     (let (_, w) = f e w;
          (es, w) = drain_emissions sv w;
          (_, d) = emit_all es ((plain_context (Some l))\<lparr>in_dispatcher := True\<rparr>) d
      in run_subscribers sv l e fs w d)"

definition deliver_event ::
    "'w dispatch_services \<Rightarrow> lineage \<Rightarrow> 'w delivery \<Rightarrow> 'w \<Rightarrow> 'w dispatcher \<Rightarrow>
     'w message list \<times> 'w \<times> 'w dispatcher" where
  "deliver_event sv l x w d =
     (let (e, nested, w, d) = sanitize_event_snapshot sv l x w d
      in case e of
           None \<Rightarrow> (nested, w, d)
         | Some e \<Rightarrow> (let (w, d) = run_subscribers sv l e (dv_subscribers x) w d in (nested, w, d)))"

text \<open>
  The handling of one message. Publications of callbacks are handled before it returns, and they may
  publish again, without a bound the runtime knows; so the recursion has a fuel argument, and \<open>None\<close>
  says that it ran out or that the loop waits at a barrier whose task is still running.
\<close>

fun handle_message ::
      "'w dispatch_services \<Rightarrow> nat \<Rightarrow> 'w message \<Rightarrow> lineage option \<Rightarrow> 'w \<times> 'w dispatcher \<Rightarrow>
       ('w \<times> 'w dispatcher) option"
  and handle_all ::
      "'w dispatch_services \<Rightarrow> nat \<Rightarrow> 'w message list \<Rightarrow> lineage \<Rightarrow> 'w \<times> 'w dispatcher \<Rightarrow>
       ('w \<times> 'w dispatcher) option" where
  "handle_message sv 0 m inherited s = None"
| "handle_message sv (Suc n) m inherited (w, d) = (case m of
       Flush done include_pending \<Rightarrow> Some (w, defer_or_complete_flush done include_pending d)
     | RegisterPending l \<Rightarrow> Some (w, register_lineage l d)
     | CompletePending l \<Rightarrow> Some (w, drop_permit l (register_lineage l d))
     | Deliver _ _ _ \<Rightarrow>
         (case attach_publication_lineage inherited None m d of
            (l, Deliver x permit completion, d) \<Rightarrow>
              (let (nested, w, d) = deliver_event sv l x w (register_lineage l d)
               in map_option (\<lambda>(w, d). (w, complete_ready_flushes
                      (case completion of None \<Rightarrow> d | Some c \<Rightarrow> d\<lparr>completions := completions d @ [c]\<rparr>)))
                    (handle_all sv n nested l (w, drop_permit_opt permit d)))
          | _ \<Rightarrow> None)
     | Barrier _ _ \<Rightarrow>
         (case attach_publication_lineage inherited None m d of
            (l, Barrier slot permit, d) \<Rightarrow>
              (let d = register_lineage l d
               in case slots d slot of
                    Open _ _ \<Rightarrow> None
                  | Closed \<Rightarrow> Some (w, complete_ready_flushes (drop_permit_opt permit d))
                  | Sent ms \<Rightarrow> map_option (\<lambda>(w, d). (w, complete_ready_flushes (drop_permit_opt permit d)))
                      (handle_all sv n ms l (w, d\<lparr>slots := (slots d)(slot := Closed)\<rparr>)))
          | _ \<Rightarrow> None))"
| "handle_all sv n [] l s = Some s"
| "handle_all sv n (m # ms) l s = (case handle_message sv n m (Some l) s of
       None \<Rightarrow> None | Some s \<Rightarrow> handle_all sv n ms l s)"

text \<open>One turn of the loop of \<^verbatim>\<open>run_dispatcher\<close>; \<open>None\<close> when there is nothing to receive.\<close>

definition dispatch_next ::
    "'w dispatch_services \<Rightarrow> nat \<Rightarrow> 'w \<times> 'w dispatcher \<Rightarrow> ('w \<times> 'w dispatcher) option" where
  "dispatch_next sv n s = (case s of (w, d) \<Rightarrow> (case channel d of
       [] \<Rightarrow> None
     | m # ms \<Rightarrow> map_option (\<lambda>(w, d). (w, complete_ready_flushes d))
         (handle_message sv n m None (w, d\<lparr>channel := ms\<rparr>))))"

end
