(* ===== verification/Dispatcher_Properties.thy ===== *)
theory Dispatcher_Properties
  imports Subscriber_Dispatcher "HOL-Library.Multiset"
begin

text \<open>
  What holds of the subscriber dispatcher. The counter of every lineage equals the number of permits
  that exist, wherever they are; a delivery, with all that its callbacks publish, leaves pending
  publications and the answers to flushes alone. From this follow the two promises of a flush: it is
  not answered while a publication registered before it is pending, and it is always answered once
  nothing is left to do.
\<close>

section \<open>Permits\<close>

definition permits :: "'w message list \<Rightarrow> lineage multiset" where
  "permits ms = mset (List.map_filter message_permit ms)"

fun slot_messages :: "'w slot \<Rightarrow> 'w message list" where
  "slot_messages (Open _ ms) = ms"
| "slot_messages (Sent ms) = ms"
| "slot_messages Closed = []"

definition owned :: "'w dispatcher \<Rightarrow> lineage multiset" where
  "owned d = permits (channel d) + (\<Sum>s<next_slot d. permits (slot_messages (slots d s)))"

text \<open>Besides the permits in the state, \<open>E\<close> holds those that the running code owns.\<close>

definition accounted :: "lineage multiset \<Rightarrow> 'w dispatcher \<Rightarrow> bool" where
  "accounted E d \<longleftrightarrow> (\<forall>l. outstanding (lineages d l) = count (owned d + E) l)"

abbreviation terminal :: "'w dispatcher \<Rightarrow> lineage \<Rightarrow> bool" where
  "terminal d l \<equiv> pending_terminal (lineages d l)"

text \<open>A lineage that publications can carry: it exists and is not that of a pending publication.\<close>

definition plain :: "'w dispatcher \<Rightarrow> lineage \<Rightarrow> bool" where
  "plain d l \<longleftrightarrow> l < next_lineage d \<and> \<not> terminal d l"

fun is_deliver :: "'w message \<Rightarrow> bool" where
  "is_deliver (Deliver _ _ _) = True"
| "is_deliver _ = False"

fun message_ok :: "'w dispatcher \<Rightarrow> 'w message \<Rightarrow> bool" where
  "message_ok d (Deliver _ p _) = (\<exists>l. p = Some l \<and> plain d l)"
| "message_ok d (Barrier _ p) = (\<exists>l. p = Some l \<and> plain d l)"
| "message_ok d (RegisterPending l) = terminal d l"
| "message_ok d (CompletePending l) = terminal d l"
| "message_ok d (Flush _ _) = True"

definition unused_lineages :: "'w dispatcher \<Rightarrow> bool" where
  "unused_lineages d \<longleftrightarrow>
     (\<forall>l\<ge>next_lineage d. lineages d l = \<lparr>outstanding = 0, pending_terminal = False\<rparr>)"

definition slots_ok :: "'w dispatcher \<Rightarrow> bool" where
  "slots_ok d \<longleftrightarrow> (\<forall>s. list_all (\<lambda>m. is_deliver m \<and> message_ok d m) (slot_messages (slots d s)) \<and>
     (\<forall>l ms. slots d s = Open (Some l) ms \<longrightarrow> plain d l) \<and>
     (s \<ge> next_slot d \<longrightarrow> slots d s = Closed))"

text \<open>What the code relies on while it runs, whatever permits \<open>E\<close> it owns.\<close>

definition dispatcher_ok :: "lineage multiset \<Rightarrow> 'w dispatcher \<Rightarrow> bool" where
  "dispatcher_ok E d \<longleftrightarrow> accounted E d \<and> unused_lineages d \<and> slots_ok d \<and>
     list_all (message_ok d) (channel d)"

lemma permits_simps [simp]:
  "permits [] = {#}"
  "permits (m # ms) = (case message_permit m of None \<Rightarrow> {#} | Some l \<Rightarrow> {#l#}) + permits ms"
  "permits (ms @ ns) = permits ms + permits ns"
  by (simp_all add: permits_def map_filter_def split: option.split)

section \<open>What a delivery leaves alone\<close>

definition quiet :: "'w dispatcher \<Rightarrow> 'w dispatcher \<Rightarrow> bool" where
  "quiet d d' \<longleftrightarrow> slots d' = slots d \<and> next_slot d' = next_slot d \<and>
     receiver_alive d' = receiver_alive d \<and>
     (\<exists>ms. channel d' = channel d @ ms \<and> list_all is_deliver ms) \<and>
     next_lineage d \<le> next_lineage d' \<and>
     (\<forall>l. terminal d' l = terminal d l) \<and>
     (\<forall>l. terminal d l \<longrightarrow> lineages d' l = lineages d l \<and>
        (outstanding (lineages d l) > 0 \<longrightarrow> l \<in> set (active_lineages d) \<longrightarrow> l \<in> set (active_lineages d'))) \<and>
     acks d' @ map pf_done (pending_flushes d') = acks d @ map pf_done (pending_flushes d) \<and>
     (\<forall>f\<in>set (pending_flushes d). f \<in> set (pending_flushes d') \<or>
        (\<forall>l\<in>set (pf_lineages f). terminal d l \<longrightarrow> outstanding (lineages d l) = 0))"

lemma quiet_refl [simp, intro]: "quiet d d"
  by (simp add: quiet_def)

lemma quiet_trans [trans]:
  assumes "quiet a b" "quiet b c"
  shows "quiet a c"
  using assms unfolding quiet_def by (auto 0 3 simp: append_assoc)

lemma quiet_terminal: "quiet d d' \<Longrightarrow> terminal d' l = terminal d l"
  by (simp add: quiet_def)

lemma plain_quiet: "quiet d d' \<Longrightarrow> plain d l \<Longrightarrow> plain d' l"
  by (auto simp: quiet_def plain_def)

lemma message_ok_quiet: "quiet d d' \<Longrightarrow> message_ok d m \<Longrightarrow> message_ok d' m"
  by (cases m) (auto dest: plain_quiet simp: quiet_terminal)

lemma slots_ok_quiet:
  assumes "quiet d d'" "slots_ok d"
  shows "slots_ok d'"
  using assms message_ok_quiet [OF assms(1)] plain_quiet [OF assms(1)]
  unfolding slots_ok_def list_all_iff by (simp add: quiet_def)

lemma channel_ok_quiet: "quiet d d' \<Longrightarrow> list_all (message_ok d) ms \<Longrightarrow> list_all (message_ok d') ms"
  by (auto simp: list_all_iff intro: message_ok_quiet)

section \<open>The steps of the code keep the accounts\<close>

lemma dispatcher_okI:
  assumes "quiet d d'" "dispatcher_ok E d" "channel d' = channel d" "accounted E' d'" "unused_lineages d'"
  shows "dispatcher_ok E' d' \<and> quiet d d'"
  using assms slots_ok_quiet [OF assms(1)] channel_ok_quiet [OF assms(1)]
  by (simp add: dispatcher_ok_def)

lemma new_lineage_ok:
  assumes "dispatcher_ok E d" "new_lineage False d = (l, d')"
  shows "dispatcher_ok E d' \<and> quiet d d' \<and> plain d' l"
proof -
  have l: "lineages d' = lineages d" "l = next_lineage d"
    "d' = d\<lparr>lineages := lineages d, next_lineage := next_lineage d + 1\<rparr>"
    using assms by (auto simp: new_lineage_def dispatcher_ok_def unused_lineages_def fun_eq_iff)
  have "quiet d d'" by (subst l(3)) (simp add: quiet_def)
  moreover have "accounted E d'" "unused_lineages d'" "channel d' = channel d"
    using assms(1) by (auto simp: l(3) dispatcher_ok_def accounted_def owned_def unused_lineages_def)
  moreover have "plain d' l" using assms(1) l
    by (simp add: plain_def dispatcher_ok_def unused_lineages_def)
  ultimately show ?thesis using dispatcher_okI assms(1) by blast
qed

lemma new_permit_ok:
  assumes "dispatcher_ok E d" "plain d l"
  shows "dispatcher_ok (add_mset l E) (new_permit l d) \<and> quiet d (new_permit l d)"
proof (rule dispatcher_okI [OF _ assms(1)])
  show "quiet d (new_permit l d)" using assms(2) by (auto simp: quiet_def new_permit_def plain_def)
  show "accounted (add_mset l E) (new_permit l d)" "unused_lineages (new_permit l d)"
    using assms by (auto simp: dispatcher_ok_def accounted_def owned_def new_permit_def
        unused_lineages_def plain_def)
qed (simp add: new_permit_def)

lemma drop_permit_ok:
  assumes "dispatcher_ok (add_mset l E) d" "plain d l"
  shows "dispatcher_ok E (drop_permit l d) \<and> quiet d (drop_permit l d)"
proof (rule dispatcher_okI [OF _ assms(1)])
  show "quiet d (drop_permit l d)" using assms(2) by (auto simp: quiet_def drop_permit_def plain_def)
  show "accounted E (drop_permit l d)" "unused_lineages (drop_permit l d)"
    using assms by (auto simp: dispatcher_ok_def accounted_def owned_def drop_permit_def
        unused_lineages_def plain_def)
qed (simp add: drop_permit_def)

lemma channel_append_ok:
  assumes "dispatcher_ok (E + permits [m]) d" "message_ok d m"
  shows "dispatcher_ok E (d\<lparr>channel := channel d @ [m]\<rparr>)"
proof -
  let ?d = "d\<lparr>channel := channel d @ [m]\<rparr>"
  have m: "message_ok ?d = message_ok d" "plain ?d = plain d"
  proof -
    show "plain ?d = plain d" by (auto simp: fun_eq_iff plain_def)
    then show "message_ok ?d = message_ok d"
      by (intro ext, case_tac x) simp_all
  qed
  then show ?thesis using assms
    by (auto simp: dispatcher_ok_def accounted_def owned_def unused_lineages_def slots_ok_def
        ac_simps split: option.splits)
qed

lemma channel_append_quiet: "is_deliver m \<Longrightarrow> quiet d (d\<lparr>channel := channel d @ [m]\<rparr>)"
  by (simp add: quiet_def)

definition plain_opt :: "'w dispatcher \<Rightarrow> lineage option \<Rightarrow> bool" where
  "plain_opt d p = (case p of None \<Rightarrow> True | Some l \<Rightarrow> plain d l)"

lemma plain_opt_quiet: "quiet d d' \<Longrightarrow> plain_opt d p \<Longrightarrow> plain_opt d' p"
  by (auto simp: plain_opt_def dest: plain_quiet split: option.splits)

text \<open>The lineage that a new message gets, and the state in which it has been chosen.\<close>

lemma attach_new:
  assumes "dispatcher_ok E d" "plain_opt d inherited" "plain_opt d current"
    and "attach_publication_lineage inherited current m d = (l, m', d')"
    and "m = Deliver x None c \<or> m = Barrier s None"
  shows "(m = Deliver x None c \<longrightarrow> m' = Deliver x (Some l) c) \<and> (m = Barrier s None \<longrightarrow> m' = Barrier s (Some l)) \<and>
     plain d' l \<and> dispatcher_ok (add_mset l E) d' \<and> quiet d d'"
proof -
  obtain l1 d1 where 1: "(case inherited of Some l \<Rightarrow> (l, d) | None \<Rightarrow>
      (case current of Some l \<Rightarrow> (l, d) | None \<Rightarrow> new_lineage False d)) = (l1, d1)"
    by (metis surj_pair)
  then have d1: "dispatcher_ok E d1 \<and> quiet d d1 \<and> plain d1 l1"
    using assms(1-3) new_lineage_ok [OF assms(1)] by (auto simp: plain_opt_def split: option.splits)
  have l: "l = l1" "d' = new_permit l1 d1"
    using assms(4,5) 1 by (auto simp: attach_publication_lineage_def Let_def)
  have "m = Deliver x None c \<longrightarrow> m' = Deliver x (Some l) c" "m = Barrier s None \<longrightarrow> m' = Barrier s (Some l)"
    using assms(4,5) 1 by (auto simp: attach_publication_lineage_def Let_def)
  then show ?thesis
    using new_permit_ok [of E d1 l1] d1 l plain_quiet quiet_trans by blast
qed

lemma attach_old:
  assumes "dispatcher_ok E d" "plain_opt d inherited" "plain_opt d current" "message_permit m = Some p"
    and "attach_publication_lineage inherited current m d = (l, m', d')"
  shows "m' = m \<and> dispatcher_ok E d' \<and> quiet d d' \<and> (is_deliver m \<or> (\<exists>s p. m = Barrier s p) \<longrightarrow> l = p)"
proof -
  obtain l1 d1 where 1: "(case inherited of Some l \<Rightarrow> (l, d) | None \<Rightarrow>
      (case current of Some l \<Rightarrow> (l, d) | None \<Rightarrow> new_lineage False d)) = (l1, d1)"
    by (metis surj_pair)
  then have d1: "dispatcher_ok E d1 \<and> quiet d d1"
    using assms(1-3) new_lineage_ok [OF assms(1)] by (auto simp: plain_opt_def split: option.splits)
  have "m' = m" "d' = d1" "is_deliver m \<or> (\<exists>s p. m = Barrier s p) \<longrightarrow> l = p"
    using assms(4,5) 1 by (auto simp: attach_publication_lineage_def Let_def split: message.splits option.splits)
  then show ?thesis using d1 by simp
qed

lemma dispatcher_sender_ok:
  assumes "dispatcher_ok E d" "dispatcher_sender d = (r, d')"
  shows "dispatcher_ok E d' \<and> quiet d d'"
proof (rule dispatcher_okI [OF _ assms(1)])
  show "quiet d d'" using assms(2) by (auto simp: dispatcher_sender_def quiet_def split: option.splits)
qed (use assms in \<open>auto simp: dispatcher_sender_def dispatcher_ok_def accounted_def owned_def
    unused_lineages_def split: option.splits\<close>)

text \<open>A message with its permit goes into the channel, or it is dropped with the permit.\<close>

lemma send_ok:
  assumes "dispatcher_ok (add_mset l E) d" "plain_opt d current" "plain d l"
    and "send_dispatch_message current (Deliver x (Some l) c) d = (ok, d')"
  shows "dispatcher_ok E d' \<and> quiet d d'"
proof -
  let ?m = "Deliver x (Some l) c"
  obtain l1 m1 d1 where a: "attach_publication_lineage None current ?m d = (l1, m1, d1)"
    by (metis surj_pair)
  from attach_old [OF assms(1) _ assms(2) _ a] have 1: "m1 = ?m" "dispatcher_ok (add_mset l E) d1" "quiet d d1"
    by (auto simp: plain_opt_def)
  obtain r d2 where s: "dispatcher_sender d1 = (r, d2)" by (metis surj_pair)
  from dispatcher_sender_ok [OF 1(2) s] have 2: "dispatcher_ok (add_mset l E) d2" "quiet d1 d2" by auto
  have q: "quiet d d2" using 1(3) 2(2) quiet_trans by blast
  then have p: "plain d2 l" using assms(3) plain_quiet by blast
  have "d' = drop_permit l d2 \<or> d' = d2\<lparr>channel := channel d2 @ [?m]\<rparr>"
    using assms(4) a s 1(1) by (auto simp: send_dispatch_message_def channel_send_def drop_permit_opt_def
        split: sum.splits if_splits)
  then show ?thesis
    using drop_permit_ok [OF 2(1) p] channel_append_ok [of E ?m d2] channel_append_quiet [of ?m d2] 2(1) p q quiet_trans
    by auto
qed

text \<open>
  An emission adds permits for what it leaves in a buffer, and nothing else that has to be accounted
  for. \<open>buffered\<close> are the messages a context holds.
\<close>

definition buffered :: "'w emit_context \<Rightarrow> 'w message list" where
  "buffered cx = (case async_buffer cx of None \<Rightarrow> [] | Some b \<Rightarrow> buffer_take b)"

definition context_ok :: "'w dispatcher \<Rightarrow> 'w emit_context \<Rightarrow> bool" where
  "context_ok d cx \<longleftrightarrow> thread_buffer cx = None \<and> plain_opt d (current_publication_lineage cx) \<and>
     list_all (\<lambda>m. is_deliver m \<and> message_ok d m) (buffered cx)"

lemma context_ok_quiet: "quiet d d' \<Longrightarrow> context_ok d cx \<Longrightarrow> context_ok d' cx"
  by (auto simp: context_ok_def list_all_iff intro: plain_opt_quiet message_ok_quiet)

lemma enqueue_ok:
  assumes "dispatcher_ok (E + permits (buffered cx)) d" "context_ok d cx"
    and "enqueue_dispatch_message (Deliver x None c) cx d = (ok, cx', d')"
  shows "dispatcher_ok (E + permits (buffered cx')) d' \<and> quiet d d' \<and> context_ok d' cx'"
proof -
  let ?E = "E + permits (buffered cx)"
  let ?l = "current_publication_lineage cx"
  have cx: "thread_buffer cx = None" "plain_opt d ?l" using assms(2) by (auto simp: context_ok_def)
  obtain l m d1 where a: "attach_publication_lineage None ?l (Deliver x None c) d = (l, m, d1)"
    by (metis surj_pair)
  from attach_new [OF assms(1) _ cx(2) a] have
    1: "m = Deliver x (Some l) c" "plain d1 l" "dispatcher_ok (add_mset l ?E) d1" "quiet d d1"
    by (auto simp: plain_opt_def)
  show ?thesis
  proof (cases "Option.bind (async_buffer cx) (buffer_push m)")
    case None
    then have e: "send_dispatch_message ?l m d1 = (ok, d')" "cx' = cx"
      using assms(3) a cx(1) by (auto simp: enqueue_dispatch_message_def split: prod.splits)
    with send_ok [OF 1(3) plain_opt_quiet [OF 1(4) cx(2)] 1(2)] have "dispatcher_ok ?E d' \<and> quiet d1 d'"
      by (simp add: 1(1))
    then show ?thesis using e(2) 1(4) quiet_trans context_ok_quiet assms(2) by blast
  next
    case (Some b)
    then have e: "cx' = cx\<lparr>async_buffer := Some b\<rparr>" "d' = d1"
      using assms(3) a by (auto simp: enqueue_dispatch_message_def)
    have b: "buffered cx' = buffered cx @ [m]" "current_publication_lineage cx' = ?l"
      using Some by (auto simp: e(1) buffered_def buffer_push_def buffer_take_def
          current_publication_lineage_def bind_eq_Some_conv split: option.splits)
    then show ?thesis using 1 e context_ok_quiet [OF 1(4) assms(2)]
      by (simp add: context_ok_def)
  qed
qed

lemma emit_all_ok:
  assumes "dispatcher_ok (E + permits (buffered cx)) d" "context_ok d cx" "emit_all es cx d = (cx', d')"
  shows "dispatcher_ok (E + permits (buffered cx')) d' \<and> quiet d d' \<and> context_ok d' cx'"
  using assms
proof (induction es cx d arbitrary: cx' d' rule: emit_all.induct)
  case (2 x c es cx d)
  obtain ok cx1 d1 where e: "enqueue_dispatch_message (Deliver x None c) cx d = (ok, cx1, d1)"
    by (metis surj_pair)
  with enqueue_ok [OF 2(2,3) e] 2 show ?case using quiet_trans by fastforce
qed simp

section \<open>A delivery\<close>

text \<open>What a phase of a delivery hands on: the messages its callbacks have published, with permits.\<close>

definition handed :: "lineage multiset \<Rightarrow> 'w dispatcher \<Rightarrow> 'w message list \<Rightarrow> 'w dispatcher \<Rightarrow> bool" where
  "handed E d nested d' \<longleftrightarrow> dispatcher_ok (E + permits nested) d' \<and> quiet d d' \<and>
     list_all (\<lambda>m. is_deliver m \<and> message_ok d' m) nested"

lemma handed_Nil [simp]: "handed E d [] d \<longleftrightarrow> dispatcher_ok E d"
  by (simp add: handed_def)

lemma handed_append:
  assumes "handed E d n1 d1" "handed (E + permits n1) d1 n2 d2"
  shows "handed E d (n1 @ n2) d2"
  using assms message_ok_quiet [of d1 d2] quiet_trans [of d d1 d2]
  by (auto simp: handed_def list_all_iff add.assoc)

lemma run_with_nested_ok:
  assumes "dispatcher_ok E d" "plain d l" "run_with_nested_publication_buffer sv l f w d = (out, nested, w', d')"
  shows "handed E d nested d'"
proof -
  let ?cx = "\<lparr>async_buffer = Some \<lparr>pb_messages = Some [], pb_lineage = Some l\<rparr>,
                thread_buffer = None, thread_lineage = Some l, in_dispatcher = True\<rparr> :: 'a emit_context"
  have b: "buffered ?cx = []" "context_ok d ?cx" using assms(2)
    by (auto simp: context_ok_def buffered_def buffer_take_def current_publication_lineage_def plain_opt_def)
  obtain es cx where e: "emit_all es ?cx d = (cx, d')" "nested = buffered cx"
    using assms(3) by (auto simp: run_with_nested_publication_buffer_def buffered_def split: prod.splits)
  have "dispatcher_ok (E + permits (buffered ?cx)) d" using assms(1) b by simp
  from emit_all_ok [OF this b(2) e(1)] show ?thesis by (auto simp: handed_def e(2) context_ok_def)
qed

lemma inject_ok:
  assumes "dispatcher_ok E d" "plain d l" "inject_event_metadata_snapshot sv l e is w d = (e', nested, w', d')"
  shows "handed E d nested d'"
  using assms run_with_nested_ok [OF assms(1,2)]
  by (auto simp: inject_event_metadata_snapshot_def split: if_splits prod.splits)

lemma transform_ok:
  assumes "dispatcher_ok E d" "plain d l" "transform_snapshot sv l e t w d = (e', nested, w', d')"
  shows "handed E d nested d'"
  using assms run_with_nested_ok [OF assms(1,2)]
  by (auto simp: transform_snapshot_def split: if_splits prod.splits option.splits)

lemma sanitizer_ok:
  assumes "dispatcher_ok E d" "plain d l" "sanitizer_snapshot sv l e ss w d = (e', nested, w', d')"
  shows "handed E d nested d'"
  using assms run_with_nested_ok [OF assms(1,2)]
  by (auto simp: sanitizer_snapshot_def split: if_splits prod.splits)

lemma handed_ok: "handed E d n d' \<Longrightarrow> dispatcher_ok (E + permits n) d'"
  by (simp add: handed_def)

lemma handed_plain: "handed E d n d' \<Longrightarrow> plain d l \<Longrightarrow> plain d' l"
  by (auto simp: handed_def intro: plain_quiet)

lemma sanitize_event_snapshot_ok:
  assumes "dispatcher_ok E d" "plain d l" "sanitize_event_snapshot sv l x w d = (e, nested, w', d')"
  shows "handed E d nested d'"
proof -
  obtain t n1 w1 d1 where t: "transform_snapshot sv l (dv_event x) (dv_transform x) w d = (t, n1, w1, d1)"
    by (metis surj_pair)
  note h1 = transform_ok [OF assms(1,2) t]
  show ?thesis
  proof (cases t)
    case None
    then show ?thesis using assms(3) t h1 by (auto simp: sanitize_event_snapshot_def)
  next
    case (Some e1)
    let ?e = "set_propagation_parent_uuid (be_propagation_parent_uuid (base_of (dv_event x)))
        (set_propagation_root_uuid (be_propagation_root_uuid (base_of (dv_event x))) e1)"
    obtain e2 n2 w2 d2 where i: "inject_event_metadata_snapshot sv l ?e (dv_injectors x) w1 d1 = (e2, n2, w2, d2)"
      by (metis surj_pair)
    obtain e3 n3 w3 d3 where s: "sanitizer_snapshot sv l e2 (dv_sanitizers x) w2 d2 = (e3, n3, w3, d3)"
      by (metis surj_pair)
    have h2: "handed (E + permits n1) d1 n2 d2"
      by (rule inject_ok [OF handed_ok [OF h1] handed_plain [OF h1 assms(2)] i])
    have h3: "handed ((E + permits n1) + permits n2) d2 n3 d3"
      by (rule sanitizer_ok [OF handed_ok [OF h2] handed_plain [OF h2 handed_plain [OF h1 assms(2)]] s])
    have "handed E d (n1 @ n2 @ n3) d3" using handed_append [OF h1 handed_append [OF h2 h3]] .
    then show ?thesis using assms(3) t i s Some by (auto simp: sanitize_event_snapshot_def Let_def)
  qed
qed

lemma emit_all_unbuffered:
  assumes "async_buffer cx = None" "thread_buffer cx = None" "emit_all es cx d = (cx', d')"
  shows "cx' = cx"
  using assms
proof (induction es arbitrary: d)
  case (Cons p es)
  obtain x c where p: "p = (x, c)" by fastforce
  obtain ok cx1 d1 where e: "enqueue_dispatch_message (Deliver x None c) cx d = (ok, cx1, d1)"
    by (metis surj_pair)
  then have "cx1 = cx" using Cons(2,3) by (auto simp: enqueue_dispatch_message_def split: prod.splits)
  then show ?case using Cons e p by simp
qed simp

lemma run_subscribers_ok:
  assumes "dispatcher_ok E d" "plain d l" "run_subscribers sv l e fs w d = (w', d')"
  shows "dispatcher_ok E d' \<and> quiet d d'"
  using assms
proof (induction fs arbitrary: w d)
  case (Cons f fs)
  let ?cx = "(plain_context (Some l))\<lparr>in_dispatcher := True\<rparr> :: 'a emit_context"
  obtain o1 w1 where f: "f e w = (o1, w1)" by (metis surj_pair)
  obtain es w2 where es: "drain_emissions sv w1 = (es, w2)" by (metis surj_pair)
  obtain cx d1 where e: "emit_all es ?cx d = (cx, d1)" by (metis surj_pair)
  have b: "buffered ?cx = []" "context_ok d ?cx" using Cons(3)
    by (auto simp: context_ok_def buffered_def plain_context_def current_publication_lineage_def plain_opt_def)
  have "cx = ?cx" using emit_all_unbuffered [OF _ _ e] by (simp add: plain_context_def)
  moreover have "dispatcher_ok (E + permits (buffered ?cx)) d" using Cons(2) b by simp
  ultimately have 1: "dispatcher_ok E d1" "quiet d d1" using emit_all_ok [OF _ b(2) e] b by auto
  have "run_subscribers sv l e fs w2 d1 = (w', d')" using Cons(4) f es e by simp
  from Cons(1) [OF 1(1) plain_quiet [OF 1(2) Cons(3)] this] show ?case using 1(2) quiet_trans by blast
qed simp

lemma deliver_event_ok:
  assumes "dispatcher_ok E d" "plain d l" "deliver_event sv l x w d = (nested, w', d')"
  shows "handed E d nested d'"
proof -
  obtain e n w1 d1 where s: "sanitize_event_snapshot sv l x w d = (e, n, w1, d1)" by (metis surj_pair)
  note h = sanitize_event_snapshot_ok [OF assms(1,2) s]
  show ?thesis
  proof (cases e)
    case None
    then show ?thesis using assms(3) s h by (simp add: deliver_event_def)
  next
    case (Some e')
    then have r: "run_subscribers sv l e' (dv_subscribers x) w1 d1 = (w', d')" "nested = n"
      using assms(3) s by (auto simp: deliver_event_def split: prod.splits)
    from run_subscribers_ok [OF handed_ok [OF h] handed_plain [OF h assms(2)] r(1)]
    have "dispatcher_ok (E + permits n) d' \<and> quiet d1 d'" .
    then have "handed (E + permits n) d1 [] d'" by (simp add: handed_def)
    from handed_append [OF h this] show ?thesis by (simp add: r(2))
  qed
qed

section \<open>Handling a message\<close>

lemma register_lineage_ok:
  assumes "dispatcher_ok E d"
  shows "dispatcher_ok E (register_lineage l d) \<and> quiet d (register_lineage l d)"
proof (rule dispatcher_okI [OF _ assms])
  show "quiet d (register_lineage l d)" by (auto simp: register_lineage_def quiet_def)
qed (use assms in \<open>auto simp: register_lineage_def dispatcher_ok_def accounted_def owned_def
    unused_lineages_def\<close>)

lemma dropWhile_split: "x \<in> set xs \<Longrightarrow> x \<in> set (dropWhile P xs) \<or> P x"
  by (induction xs) auto

lemma complete_ready_flushes_ok:
  assumes "dispatcher_ok E d"
  shows "dispatcher_ok E (complete_ready_flushes d) \<and> quiet d (complete_ready_flushes d)"
proof (rule dispatcher_okI [OF _ assms])
  have "f \<in> set (dropWhile (flush_ready d) (pending_flushes d)) \<or>
      (\<forall>l\<in>set (pf_lineages f). outstanding (lineages d l) = 0)" if "f \<in> set (pending_flushes d)" for f
    using dropWhile_split [OF that, of "flush_ready d"] by (auto simp: flush_ready_def list_all_iff)
  moreover have "map pf_done (takeWhile (flush_ready d) (pending_flushes d)) @
      map pf_done (dropWhile (flush_ready d) (pending_flushes d)) = map pf_done (pending_flushes d)"
    by (simp flip: map_append)
  ultimately show "quiet d (complete_ready_flushes d)"
    by (auto simp: complete_ready_flushes_def quiet_def)
qed (use assms in \<open>auto simp: complete_ready_flushes_def dispatcher_ok_def accounted_def owned_def
    unused_lineages_def\<close>)

lemma completions_ok:
  assumes "dispatcher_ok E d"
  shows "dispatcher_ok E (d\<lparr>completions := cs\<rparr>) \<and> quiet d (d\<lparr>completions := cs\<rparr>)"
proof (rule dispatcher_okI [OF _ assms])
  show "quiet d (d\<lparr>completions := cs\<rparr>)" by (simp add: quiet_def)
qed (use assms in \<open>auto simp: dispatcher_ok_def accounted_def owned_def unused_lineages_def\<close>)

text \<open>The statement about one message, for a fixed fuel, and what it gives for a list.\<close>

definition delivers_ok :: "'w dispatch_services \<Rightarrow> nat \<Rightarrow> bool" where
  "delivers_ok sv n \<longleftrightarrow> (\<forall>m inh w d w' d' E. handle_message sv n m inh (w, d) = Some (w', d') \<longrightarrow>
     is_deliver m \<longrightarrow> message_ok d m \<longrightarrow> plain_opt d inh \<longrightarrow> dispatcher_ok (E + permits [m]) d \<longrightarrow>
     dispatcher_ok E d' \<and> quiet d d')"

lemma handle_all_ok:
  assumes "delivers_ok sv n" "handle_all sv n ms l (w, d) = Some (w', d')"
    and "list_all (\<lambda>m. is_deliver m \<and> message_ok d m) ms" "plain d l" "dispatcher_ok (E + permits ms) d"
  shows "dispatcher_ok E d' \<and> quiet d d'"
  using assms(2-5)
proof (induction ms arbitrary: w d)
  case (Cons m ms)
  then obtain w1 d1 where m: "handle_message sv n m (Some l) (w, d) = Some (w1, d1)"
    and r: "handle_all sv n ms l (w1, d1) = Some (w', d')" by (auto split: option.splits)
  have "dispatcher_ok ((E + permits ms) + permits [m]) d" using Cons(5) by (simp add: ac_simps)
  then have 1: "dispatcher_ok (E + permits ms) d1" "quiet d d1"
    using assms(1) m Cons(3,4) by (auto simp: delivers_ok_def plain_opt_def)
  have "list_all (\<lambda>m. is_deliver m \<and> message_ok d1 m) ms"
    using Cons(3) message_ok_quiet [OF 1(2)] by (auto simp: list_all_iff)
  from Cons.IH [OF r this plain_quiet [OF 1(2) Cons(4)] 1(1)] show ?case
    using 1(2) quiet_trans by blast
qed simp

lemma delivers_ok: "delivers_ok sv n"
proof (induction n)
  case (Suc n)
  show ?case unfolding delivers_ok_def
  proof (intro allI impI)
    fix m :: "'a message" and inh w d w' d' E
    assume run: "handle_message sv (Suc n) m inh (w, d) = Some (w', d')" and "is_deliver m"
      and ok: "message_ok d m" and inh: "plain_opt d inh" and acc: "dispatcher_ok (E + permits [m]) d"
    then obtain x p c where m: "m = Deliver x (Some p) c" "plain d p" by (cases m) auto
    obtain l m1 d1 where a: "attach_publication_lineage inh None m d = (l, m1, d1)" by (metis surj_pair)
    from attach_old [OF _ inh _ _ a, of "add_mset p E" p] acc m have
      1: "m1 = m" "l = p" "dispatcher_ok (add_mset p E) d1" "quiet d d1" by (auto simp: plain_opt_def)
    let ?d2 = "register_lineage p d1"
    have d2: "dispatcher_ok (add_mset p E) ?d2" "quiet d ?d2"
      using register_lineage_ok [OF 1(3)] quiet_trans [OF 1(4)] by auto
    have p2: "plain ?d2 p" using m(2) d2(2) plain_quiet by blast
    obtain nested w3 d3 where d: "deliver_event sv p x w ?d2 = (nested, w3, d3)" by (metis surj_pair)
    note h = deliver_event_ok [OF d2(1) p2 d]
    let ?d4 = "drop_permit p d3"
    have "dispatcher_ok (add_mset p (E + permits nested)) d3" using handed_ok [OF h] by simp
    from drop_permit_ok [OF this handed_plain [OF h p2]]
    have d4: "dispatcher_ok (E + permits nested) ?d4" "quiet d3 ?d4" by auto
    have h4: "list_all (\<lambda>m. is_deliver m \<and> message_ok ?d4 m) nested" "plain ?d4 p"
      using h message_ok_quiet [OF d4(2)] plain_quiet [OF d4(2) handed_plain [OF h p2]]
      by (auto simp: handed_def list_all_iff)
    obtain w5 d5 where r: "handle_all sv n nested p (w3, ?d4) = Some (w5, d5)"
      and d': "d' = complete_ready_flushes
         (case c of None \<Rightarrow> d5 | Some c \<Rightarrow> d5\<lparr>completions := completions d5 @ [c]\<rparr>)"
      using run m a 1 d by (auto simp: drop_permit_opt_def)
    have d5: "dispatcher_ok E d5" "quiet ?d4 d5" using handle_all_ok [OF Suc r h4 d4(1)] by auto
    have "dispatcher_ok E d' \<and> quiet d5 d'"
      using completions_ok [OF d5(1)] complete_ready_flushes_ok quiet_trans d5(1)
      unfolding d' by (cases c) (auto, blast+)
    moreover have "quiet d d5"
      using d2(2) h d4(2) d5(2) quiet_trans by (metis handed_def)
    ultimately show "dispatcher_ok E d' \<and> quiet d d'" using quiet_trans by blast
  qed
qed (simp add: delivers_ok_def)

section \<open>The system\<close>

text \<open>
  The dispatcher among its clients: threads that emit events, tasks with a reserved position, the
  handles of pending publications, callers that flush, and the loop. The steps of different threads
  interleave freely. A thread that emits may carry the lineage of an earlier delivery, when it was
  started by one of its callbacks. The world may change at any time.
\<close>

type_synonym 'w publication_system = "'w \<times> 'w dispatcher \<times> lineage list"

fun flush_id :: "'w message \<Rightarrow> nat option" where
  "flush_id (Flush f _) = Some f"
| "flush_id _ = None"

definition flush_ids :: "'w dispatcher \<Rightarrow> nat list" where
  "flush_ids d = acks d @ map pf_done (pending_flushes d) @ List.map_filter flush_id (channel d)"

inductive publication_step ::
    "'w dispatch_services \<Rightarrow> 'w publication_system \<Rightarrow> 'w publication_system \<Rightarrow> bool" for sv where
  emit: "plain_opt d lin \<Longrightarrow>
     enqueue_dispatch_message (Deliver x None c) (plain_context lin) d = (ok, cx, d') \<Longrightarrow>
     publication_step sv (w, d, H) (w, d', H)"
| reserve: "plain_opt d lin \<Longrightarrow>
     register_async_publication (plain_context lin) d = (r, cx, d') \<Longrightarrow>
     publication_step sv (w, d, H) (w, d', H)"
| start: "plain_opt d lin \<Longrightarrow> publication_step sv (w, d, H) (w, async_start s (plain_context lin) d, H)"
| publish: "publication_step sv (w, d, H) (w, async_publish s x c d, H)"
| finish: "publication_step sv (w, d, H) (w, async_finish s d, H)"
| abandon: "publication_step sv (w, d, H) (w, async_drop s d, H)"
| pend: "register_pending_publication d = (Some l, d') \<Longrightarrow> publication_step sv (w, d, H) (w, d', l # H)"
| pend_failed: "register_pending_publication d = (None, d') \<Longrightarrow> publication_step sv (w, d, H) (w, d', H)"
| complete: "l \<in> set H \<Longrightarrow>
     publication_step sv (w, d, H) (w, drop_pending_publication l d, remove1 l H)"
| flush: "f \<notin> set (flush_ids d) \<Longrightarrow>
     flush_subscribers_inner include_pending f (plain_context None) d = (r, d') \<Longrightarrow>
     publication_step sv (w, d, H) (w, d', H)"
| dispatch: "dispatch_next sv n (w, d) = Some (w', d') \<Longrightarrow> publication_step sv (w, d, H) (w', d', H)"
| outside: "publication_step sv (w, d, H) (w', d, H)"

definition publication_reachable :: "'w dispatch_services \<Rightarrow> 'w publication_system \<Rightarrow> bool" where
  "publication_reachable sv s \<longleftrightarrow>
     (\<exists>w spawned. (publication_step sv)\<^sup>*\<^sup>* (w, dispatcher_new spawned, []) s)"

definition registered :: "'w dispatcher \<Rightarrow> bool" where
  "registered d \<longleftrightarrow> (\<forall>l. terminal d l \<longrightarrow> outstanding (lineages d l) > 0 \<longrightarrow>
     l \<in> set (active_lineages d) \<or> RegisterPending l \<in> set (channel d))"

definition barriers_queued :: "'w dispatcher \<Rightarrow> bool" where
  "barriers_queued d \<longleftrightarrow> (\<forall>s. slots d s \<noteq> Closed \<longrightarrow> (\<exists>p. Barrier s p \<in> set (channel d)))"

definition flushes_wait :: "'w dispatcher \<Rightarrow> bool" where
  "flushes_wait d \<longleftrightarrow> pending_flushes d \<noteq> [] \<longrightarrow> channel d \<noteq> [] \<or> \<not> flush_ready d (hd (pending_flushes d))"

definition loop_ok :: "'w dispatcher \<Rightarrow> bool" where
  "loop_ok d \<longleftrightarrow> registered d \<and> barriers_queued d \<and> distinct (flush_ids d)"

definition publication_ok :: "'w publication_system \<Rightarrow> bool" where
  "publication_ok s \<longleftrightarrow> (case s of (w, d, H) \<Rightarrow>
     dispatcher_ok (mset H) d \<and> receiver_alive d \<and> list_all (terminal d) H \<and> loop_ok d \<and> flushes_wait d)"

lemma no_flush_ids: "list_all is_deliver ms \<Longrightarrow> List.map_filter flush_id ms = []"
proof (induction ms)
  case (Cons m ms)
  then show ?case by (cases m) (simp_all add: map_filter_def)
qed (simp add: map_filter_def)

lemma flush_ids_quiet: "quiet d d' \<Longrightarrow> flush_ids d' = flush_ids d"
  using no_flush_ids by (auto simp: flush_ids_def quiet_def map_filter_append simp flip: append_assoc)

lemma flush_ids_receive:
  assumes "channel d = m # ms" "flush_id m = None"
    and "channel d' = ms" "acks d' = acks d" "pending_flushes d' = pending_flushes d"
  shows "flush_ids d' = flush_ids d"
  using assms by (simp add: flush_ids_def map_filter_def)

lemma loop_ok_quiet:
  assumes "quiet d d'" "loop_ok d"
  shows "loop_ok d'"
proof -
  obtain ms where ms: "channel d' = channel d @ ms" "list_all is_deliver ms"
    using assms(1) by (auto simp: quiet_def)
  have "flush_ids d' = flush_ids d" by (rule flush_ids_quiet [OF assms(1)])
  moreover have "registered d'" using assms ms by (auto simp: quiet_def loop_ok_def registered_def)
  moreover have "barriers_queued d'" using assms ms by (auto simp: quiet_def loop_ok_def barriers_queued_def)
  ultimately show ?thesis using assms(2) by (simp add: loop_ok_def)
qed

lemma flushes_wait_complete: "flushes_wait (complete_ready_flushes d)"
proof -
  let ?p = "dropWhile (flush_ready d) (pending_flushes d)"
  have "flush_ready (complete_ready_flushes d) = flush_ready d"
    by (simp add: fun_eq_iff flush_ready_def complete_ready_flushes_def)
  then show ?thesis using hd_dropWhile [of "flush_ready d" "pending_flushes d"]
    by (auto simp: flushes_wait_def complete_ready_flushes_def)
qed

lemma terminal_quiet: "quiet d d' \<Longrightarrow> list_all (terminal d) H \<Longrightarrow> list_all (terminal d') H"
  by (simp add: list_all_iff quiet_terminal)

section \<open>The steps of the loop\<close>

text \<open>Receiving a message takes its permit out of the channel.\<close>

lemma receive_ok:
  assumes "dispatcher_ok E d" "channel d = m # ms"
  shows "dispatcher_ok (E + permits [m]) (d\<lparr>channel := ms\<rparr>) \<and> message_ok (d\<lparr>channel := ms\<rparr>) m"
proof -
  let ?d = "d\<lparr>channel := ms\<rparr>"
  have p: "plain ?d = plain d" by (auto simp: fun_eq_iff plain_def)
  then have "message_ok ?d = message_ok d" by (intro ext, case_tac x) simp_all
  then show ?thesis using assms p
    by (auto simp: dispatcher_ok_def accounted_def owned_def unused_lineages_def slots_ok_def
        ac_simps split: option.splits)
qed

text \<open>
  A flush \<open>f\<close> keeps track of a pending publication \<open>l\<close>: as long as \<open>l\<close> has a permit, \<open>f\<close> is queued behind
  the registration of \<open>l\<close>, or it waits for \<open>l\<close>.
\<close>

definition waiting :: "nat \<Rightarrow> lineage \<Rightarrow> 'w dispatcher \<Rightarrow> bool" where
  "waiting f l d \<longleftrightarrow> (\<exists>e\<in>set (pending_flushes d). pf_done e = f \<and> l \<in> set (pf_lineages e))"

definition queued_behind :: "nat \<Rightarrow> lineage \<Rightarrow> 'w dispatcher \<Rightarrow> bool" where
  "queued_behind f l d \<longleftrightarrow>
     (\<exists>xs ys. channel d = xs @ Flush f True # ys \<and> RegisterPending l \<notin> set ys)"

definition tracks :: "nat \<Rightarrow> lineage \<Rightarrow> 'w dispatcher \<Rightarrow> bool" where
  "tracks f l d \<longleftrightarrow> terminal d l \<and>
     (outstanding (lineages d l) = 0 \<or> queued_behind f l d \<or> waiting f l d)"

lemma queued_behind_append:
  assumes "queued_behind f l d" "channel d' = channel d @ ms" "RegisterPending l \<notin> set ms"
  shows "queued_behind f l d'"
proof -
  obtain xs ys where "channel d = xs @ Flush f True # ys" "RegisterPending l \<notin> set ys"
    using assms(1) by (auto simp: queued_behind_def)
  then have "channel d' = xs @ Flush f True # (ys @ ms) \<and> RegisterPending l \<notin> set (ys @ ms)"
    using assms(2,3) by simp
  then show ?thesis unfolding queued_behind_def by blast
qed

lemma queued_behind_tl:
  assumes "queued_behind f l d" "channel d = m # ms" "m \<noteq> Flush f True" "channel d' = ms"
  shows "queued_behind f l d'"
  using assms unfolding queued_behind_def by (auto simp: Cons_eq_append_conv)

lemma tracks_quiet:
  assumes "quiet d d'" "tracks f l d"
  shows "tracks f l d'"
proof -
  obtain ms where ms: "channel d' = channel d @ ms" "list_all is_deliver ms"
    using assms(1) by (auto simp: quiet_def)
  have "RegisterPending l \<notin> set ms" using ms(2) by (auto simp: list_all_iff)
  moreover have t: "terminal d' l" "lineages d' l = lineages d l"
    using assms by (auto simp: quiet_def tracks_def)
  moreover have "waiting f l d' \<or> outstanding (lineages d l) = 0" if "waiting f l d"
    using that assms by (fastforce simp: quiet_def waiting_def tracks_def)
  ultimately show ?thesis using assms(2) queued_behind_append [OF _ ms(1)]
    by (auto simp: tracks_def)
qed

text \<open>What one turn of the loop establishes; no flush that was accepted is lost.\<close>

definition turn_ok :: "lineage multiset \<Rightarrow> 'w dispatcher \<Rightarrow> 'w dispatcher \<Rightarrow> bool" where
  "turn_ok E d d' \<longleftrightarrow> dispatcher_ok E d' \<and> loop_ok d' \<and> receiver_alive d' = receiver_alive d \<and>
     (\<forall>l. terminal d l \<longrightarrow> terminal d' l) \<and> (\<forall>f l. tracks f l d \<longrightarrow> tracks f l d') \<and>
     set (flush_ids d) \<subseteq> set (flush_ids d')"

lemma turn_okI:
  assumes "dispatcher_ok E d'" "quiet d0 d'" "loop_ok d0" "receiver_alive d0 = receiver_alive d"
    and "\<And>l. terminal d l \<Longrightarrow> terminal d0 l" "\<And>f l. tracks f l d \<Longrightarrow> tracks f l d0"
    and "set (flush_ids d) \<subseteq> set (flush_ids d0)"
  shows "turn_ok E d d'"
  using assms loop_ok_quiet [OF assms(2,3)] quiet_terminal [OF assms(2)] tracks_quiet [OF assms(2)]
    flush_ids_quiet [OF assms(2)]
  by (simp add: turn_ok_def quiet_def)

lemma tracks_receive:
  assumes "tracks f l d" "channel d = m # ms" "flush_id m = None"
    and "channel d' = ms" "lineages d' = lineages d" "pending_flushes d' = pending_flushes d"
  shows "tracks f l d'"
proof -
  have "m \<noteq> Flush f True" using assms(3) by auto
  then show ?thesis using assms queued_behind_tl [OF _ assms(2) _ assms(4)]
    by (auto simp: tracks_def waiting_def)
qed

lemma turn_deliver:
  assumes "handle_message sv n m None (w, d\<lparr>channel := ms\<rparr>) = Some (w', d')" "channel d = m # ms"
    and "dispatcher_ok E d" "loop_ok d" "is_deliver m"
  shows "turn_ok E d d'"
proof -
  note r = receive_ok [OF assms(3,2)]
  have q: "dispatcher_ok E d'" "quiet (d\<lparr>channel := ms\<rparr>) d'"
    using delivers_ok [unfolded delivers_ok_def, rule_format, OF assms(1,5)] r
    by (auto simp: plain_opt_def)
  have "loop_ok (d\<lparr>channel := ms\<rparr>)"
    using assms(2,4,5) by (cases m) (auto simp: loop_ok_def registered_def barriers_queued_def flush_ids_def
        map_filter_def)
  moreover have "flush_id m = None" using assms(5) by (cases m) auto
  ultimately show ?thesis using turn_okI [OF q] tracks_receive [OF _ assms(2)] flush_ids_receive [OF assms(2)]
    by auto
qed

text \<open>A barrier: its messages move from the slot to the loop.\<close>

lemma slot_update_ok:
  assumes "dispatcher_ok E d" "s < next_slot d" "E' + permits (slot_messages v) = E + permits (slot_messages (slots d s))"
    and "list_all (\<lambda>m. is_deliver m \<and> message_ok d m) (slot_messages v)"
    and "\<And>l ms. v = Open (Some l) ms \<Longrightarrow> plain d l"
  shows "dispatcher_ok E' (d\<lparr>slots := (slots d)(s := v)\<rparr>)"
proof -
  let ?d = "d\<lparr>slots := (slots d)(s := v)\<rparr>"
  have p: "plain ?d = plain d" by (auto simp: fun_eq_iff plain_def)
  then have m: "message_ok ?d = message_ok d" by (intro ext, case_tac x) simp_all
  have "(\<Sum>i\<in>{..<next_slot d} - {s}. permits (slot_messages (slots d i))) =
      (\<Sum>i\<in>{..<next_slot d} - {s}. permits (slot_messages (slots ?d i)))" by (intro sum.cong) auto
  then have "E + (\<Sum>i<next_slot d. permits (slot_messages (slots d i))) =
      E' + (\<Sum>i<next_slot d. permits (slot_messages (slots ?d i)))"
    using assms(2,3)
      sum.remove [of "{..<next_slot d}" s "\<lambda>i. permits (slot_messages (slots d i))"]
      sum.remove [of "{..<next_slot d}" s "\<lambda>i. permits (slot_messages (slots ?d i))"]
    by (simp flip: add.assoc)
  then have "owned ?d + E' = owned d + E" by (simp add: owned_def ac_simps)
  then have "accounted E' ?d" using assms(1) by (simp add: dispatcher_ok_def accounted_def)
  then show ?thesis using assms p m
    by (auto simp: dispatcher_ok_def unused_lineages_def slots_ok_def)
qed

lemma slot_used: "dispatcher_ok E d \<Longrightarrow> slots d s \<noteq> Closed \<Longrightarrow> s < next_slot d"
  unfolding dispatcher_ok_def slots_ok_def by (metis leI)

lemma open_slot_ok:
  assumes "dispatcher_ok E d" "slots d s = Sent ms"
  shows "dispatcher_ok (E + permits ms) (d\<lparr>slots := (slots d)(s := Closed)\<rparr>)"
  using slot_update_ok [OF assms(1) slot_used [OF assms(1)], of s "E + permits ms" Closed] assms(2) by simp

lemma turn_barrier:
  assumes run: "handle_message sv n (Barrier s p) None (w, d\<lparr>channel := ms\<rparr>) = Some (w', d')"
    and ch: "channel d = Barrier s p # ms" and acc: "dispatcher_ok E d" and loop: "loop_ok d"
  shows "turn_ok E d d'"
proof (cases n)
  case (Suc k)
  let ?d0 = "d\<lparr>channel := ms\<rparr>" and ?m = "Barrier s p :: 'a message"
  from receive_ok [OF acc ch] obtain q where q: "p = Some q" "plain ?d0 q" "dispatcher_ok (add_mset q E) ?d0"
    by auto
  obtain l m1 d1 where a: "attach_publication_lineage None None ?m ?d0 = (l, m1, d1)" by (metis surj_pair)
  from attach_old [OF q(3) _ _ _ a] q(1) have
    1: "m1 = ?m" "l = q" "dispatcher_ok (add_mset q E) d1" "quiet ?d0 d1" by (auto simp: plain_opt_def)
  let ?d2 = "register_lineage q d1"
  have d2: "dispatcher_ok (add_mset q E) ?d2" "quiet ?d0 ?d2"
    using register_lineage_ok [OF 1(3)] quiet_trans [OF 1(4)] by auto
  have sl: "slots ?d2 = slots d" using d2(2) by (simp add: quiet_def)
  let ?c = "\<lambda>d. d\<lparr>slots := (slots d)(s := Closed)\<rparr> :: 'a dispatcher"
  have d3: "quiet (?c ?d0) (?c ?d2)" "plain (?c ?d2) q"
    using d2(2) plain_quiet [OF d2(2) q(2)] by (auto simp: quiet_def plain_def)
  obtain d4 where d4: "dispatcher_ok (add_mset q E) d4" "quiet (?c ?d2) d4" "d' = complete_ready_flushes (drop_permit q d4)"
  proof (cases "slots d s")
    case (Open x ys)
    then show ?thesis using run Suc a 1 q(1) sl by (simp add: drop_permit_opt_def)
  next
    case Closed
    then have "?c ?d2 = ?d2" using sl fun_upd_idem_iff [of "slots ?d2" s Closed] by simp
    moreover have "d' = complete_ready_flushes (drop_permit q ?d2)"
      using run Suc a 1 q(1) sl Closed by (simp add: drop_permit_opt_def)
    ultimately show ?thesis using that [of ?d2] d2(1) by simp
  next
    case (Sent ys)
    then obtain w4 d4 where r: "handle_all sv k ys q (w, ?c ?d2) = Some (w4, d4)"
      and d': "d' = complete_ready_flushes (drop_permit q d4)"
      using run Suc a 1 q(1) sl by (auto simp: drop_permit_opt_def)
    have "list_all (\<lambda>m. is_deliver m \<and> message_ok ?d2 m) ys"
      using d2(1) Sent sl unfolding dispatcher_ok_def slots_ok_def by (metis slot_messages.simps(2))
    moreover have "message_ok (?c ?d2) = message_ok ?d2"
      by (intro ext, case_tac x) (auto simp: plain_def)
    ultimately have "list_all (\<lambda>m. is_deliver m \<and> message_ok (?c ?d2) m) ys" by simp
    moreover have "dispatcher_ok (add_mset q E + permits ys) (?c ?d2)"
      using open_slot_ok [OF d2(1)] Sent sl by simp
    ultimately have "dispatcher_ok (add_mset q E) d4 \<and> quiet (?c ?d2) d4"
      by (rule handle_all_ok [OF delivers_ok r _ d3(2)])
    then show ?thesis using that d' by blast
  qed
  have p4: "plain d4 q" using plain_quiet [OF d4(2) d3(2)] .
  have dp: "dispatcher_ok E (drop_permit q d4)" "quiet d4 (drop_permit q d4)"
    using drop_permit_ok [OF d4(1) p4] by auto
  have c: "dispatcher_ok E d'" "quiet (drop_permit q d4) d'"
    using complete_ready_flushes_ok [OF dp(1)] by (auto simp: d4(3))
  have e: "quiet (?c ?d0) d'"
    using quiet_trans [OF d3(1) quiet_trans [OF d4(2) quiet_trans [OF dp(2) c(2)]]] .
  have "loop_ok (?c ?d0)" using loop ch
    by (auto simp: loop_ok_def registered_def barriers_queued_def flush_ids_def map_filter_def)
  then show ?thesis using turn_okI [OF c(1) e] tracks_receive [OF _ ch] flush_ids_receive [OF ch] by simp
qed (use run in simp)

lemma turn_register:
  assumes ch: "channel d = RegisterPending k # ms" and acc: "dispatcher_ok E d" and loop: "loop_ok d"
  shows "turn_ok E d (register_lineage k (d\<lparr>channel := ms\<rparr>))"
proof -
  let ?d0 = "d\<lparr>channel := ms\<rparr>" and ?d1 = "register_lineage k (d\<lparr>channel := ms\<rparr>)"
  have "dispatcher_ok E ?d0" using receive_ok [OF acc ch] by simp
  then have 1: "dispatcher_ok E ?d1" using register_lineage_ok by blast
  have f: "channel ?d1 = ms" "lineages ?d1 = lineages d" "pending_flushes ?d1 = pending_flushes d"
    "acks ?d1 = acks d" "slots ?d1 = slots d" "set (active_lineages ?d1) = insert k (set (active_lineages d))"
    "receiver_alive ?d1 = receiver_alive d"
    by (auto simp: register_lineage_def)
  have "loop_ok ?d1" using loop ch
    by (auto simp: loop_ok_def registered_def barriers_queued_def flush_ids_def f map_filter_def)
  then show ?thesis using turn_okI [OF 1 quiet_refl] tracks_receive [OF _ ch _ f(1-3)]
      flush_ids_receive [OF ch _ f(1,4,3)] f(2,7) by simp
qed

lemma accounted_drop:
  assumes "accounted (add_mset l E) d"
  shows "accounted E (drop_permit l d)"
  using assms by (simp add: accounted_def owned_def drop_permit_def)

lemma turn_complete:
  assumes ch: "channel d = CompletePending k # ms" and acc: "dispatcher_ok E d" and loop: "loop_ok d"
  shows "turn_ok E d (drop_permit k (register_lineage k (d\<lparr>channel := ms\<rparr>)))"
proof -
  let ?d0 = "d\<lparr>channel := ms\<rparr>" and ?d1 = "register_lineage k (d\<lparr>channel := ms\<rparr>)"
  let ?d2 = "drop_permit k ?d1"
  have r: "dispatcher_ok (add_mset k E) ?d0" "terminal d k" using receive_ok [OF acc ch] by auto
  have 1: "dispatcher_ok (add_mset k E) ?d1" using register_lineage_ok r(1) by blast
  have k: "k < next_lineage d" using r(2) acc unfolding dispatcher_ok_def unused_lineages_def
    by (metis leI lineage_cell.select_convs(2))
  have f: "channel ?d2 = ms" "pending_flushes ?d2 = pending_flushes d" "acks ?d2 = acks d"
    "slots ?d2 = slots d" "next_slot ?d2 = next_slot d" "next_lineage ?d2 = next_lineage d"
    "set (active_lineages ?d2) = insert k (set (active_lineages d))"
    "\<And>l. terminal ?d2 l = terminal d l" "\<And>l. l \<noteq> k \<Longrightarrow> lineages ?d2 l = lineages d l"
    "outstanding (lineages ?d2 k) = outstanding (lineages d k) - 1"
    "receiver_alive ?d2 = receiver_alive d"
    by (auto simp: register_lineage_def drop_permit_def)
  have p: "plain ?d2 = plain d" "message_ok ?d2 = message_ok d"
  proof -
    show "plain ?d2 = plain d" by (auto simp: fun_eq_iff plain_def f)
    then show "message_ok ?d2 = message_ok d" by (intro ext, case_tac x) (simp_all add: f)
  qed
  have 2: "dispatcher_ok E ?d2"
    using accounted_drop [of k E ?d1] 1 acc ch k
    by (auto simp: dispatcher_ok_def p f slots_ok_def unused_lineages_def)
  have "loop_ok ?d2" using loop ch f(10)
    by (auto simp: loop_ok_def registered_def barriers_queued_def flush_ids_def f(1-9) map_filter_def)
  moreover have "tracks g l ?d2" if "tracks g l d" for g l
    using that queued_behind_tl [OF _ ch _ f(1), of g l] f(9) [of l] f(10)
    by (cases "l = k") (auto simp: tracks_def f(8) waiting_def f(2))
  ultimately show ?thesis
    using turn_okI [OF 2 quiet_refl] flush_ids_receive [OF ch _ f(1,3,2)] f(8,11) by simp
qed

lemma turn_flush:
  assumes ch: "channel d = Flush g i # ms" and acc: "dispatcher_ok E d" and loop: "loop_ok d"
  shows "turn_ok E d (defer_or_complete_flush g i (d\<lparr>channel := ms\<rparr>))"
proof -
  let ?d0 = "d\<lparr>channel := ms\<rparr>" and ?d1 = "defer_or_complete_flush g i (d\<lparr>channel := ms\<rparr>)"
  have 0: "dispatcher_ok E ?d0" using receive_ok [OF acc ch] by simp
  have f: "channel ?d1 = ms" "lineages ?d1 = lineages d" "slots ?d1 = slots d" "next_slot ?d1 = next_slot d"
    "next_lineage ?d1 = next_lineage d" "active_lineages ?d1 = active_lineages d"
    "receiver_alive ?d1 = receiver_alive d"
    by (auto simp: defer_or_complete_flush_def Let_def)
  have p: "plain ?d1 = plain d" "message_ok ?d1 = message_ok d"
  proof -
    show "plain ?d1 = plain d" by (auto simp: fun_eq_iff plain_def f)
    then show "message_ok ?d1 = message_ok d" by (intro ext, case_tac x) (simp_all add: f)
  qed
  have 1: "dispatcher_ok E ?d1" using 0 acc ch
    by (auto simp: dispatcher_ok_def p f slots_ok_def unused_lineages_def accounted_def owned_def)
  have ids: "mset (flush_ids ?d1) = mset (flush_ids d)"
    by (auto simp: flush_ids_def ch f(1) defer_or_complete_flush_def Let_def map_filter_def)
  then have "distinct (flush_ids ?d1)" using loop mset_eq_imp_distinct_iff by (auto simp: loop_ok_def)
  then have l1: "loop_ok ?d1" using loop ch
    by (auto simp: loop_ok_def registered_def barriers_queued_def f)
  have "tracks h l ?d1" if t: "tracks h l d" for h l
  proof (cases "outstanding (lineages d l) = 0 \<or> waiting h l d")
    case True
    then show ?thesis using t f(2)
      by (auto simp: tracks_def waiting_def defer_or_complete_flush_def Let_def)
  next
    case False
    then have "queued_behind h l d" "terminal d l" "outstanding (lineages d l) > 0" using t by (auto simp: tracks_def)
    then obtain xs ys where q: "channel d = xs @ Flush h True # ys" "RegisterPending l \<notin> set ys"
      by (auto simp: queued_behind_def)
    show ?thesis
    proof (cases xs)
      case Nil
      then have h: "h = g" "i" "ys = ms" using q ch by auto
      then have "l \<in> set (active_lineages d)"
        using loop False t q ch by (auto simp: loop_ok_def registered_def tracks_def)
      then have "waiting h l ?d1" using False h
        by (auto simp: waiting_def defer_or_complete_flush_def Let_def filter_empty_conv)
      then show ?thesis using t by (simp add: tracks_def f)
    next
      case (Cons x xs')
      then have "queued_behind h l ?d1" using q ch f(1) by (auto simp: queued_behind_def)
      then show ?thesis using t by (simp add: tracks_def f)
    qed
  qed
  then show ?thesis using turn_okI [OF 1 quiet_refl l1] f(2,7) mset_eq_setD [OF ids] by simp
qed

lemma dispatch_ok:
  assumes "dispatch_next sv n (w, d) = Some (w', d')" "dispatcher_ok E d" "loop_ok d"
  shows "turn_ok E d d' \<and> flushes_wait d'"
proof -
  obtain m ms d1 where ch: "channel d = m # ms"
    and r: "handle_message sv n m None (w, d\<lparr>channel := ms\<rparr>) = Some (w', d1)"
    and d': "d' = complete_ready_flushes d1"
    using assms(1) by (auto simp: dispatch_next_def split: list.splits)
  obtain k where n: "n = Suc k" using r by (cases n) auto
  have t: "turn_ok E d d1"
  proof (cases m)
    case (Deliver x p c)
    then show ?thesis using turn_deliver [OF r ch assms(2,3)] by simp
  next
    case (Barrier s p)
    then show ?thesis using turn_barrier [OF r [unfolded Barrier]] ch assms(2,3) by simp
  qed (use r n ch assms(2,3) turn_flush turn_register turn_complete in auto)
  then have q: "dispatcher_ok E d'" "quiet d1 d'"
    using complete_ready_flushes_ok by (auto simp: turn_ok_def d')
  from t have "turn_ok E d d'"
    using turn_okI [OF q] by (auto simp: turn_ok_def)
  then show ?thesis using flushes_wait_complete d' by simp
qed

section \<open>The steps of the clients\<close>

text \<open>
  Client steps leave the loop's own state alone: they extend the channel and change slots and
  counters.
\<close>

definition client_frame :: "'w dispatcher \<Rightarrow> 'w dispatcher \<Rightarrow> bool" where
  "client_frame d d' \<longleftrightarrow> active_lineages d' = active_lineages d \<and> pending_flushes d' = pending_flushes d \<and>
     acks d' = acks d \<and> receiver_alive d' = receiver_alive d"

lemma client_frame_refl [simp]: "client_frame d d"
  by (simp add: client_frame_def)

lemma client_frame_trans: "client_frame a b \<Longrightarrow> client_frame b c \<Longrightarrow> client_frame a c"
  by (simp add: client_frame_def)

lemma attach_frame:
  "attach_publication_lineage inh cur m d = (l, m', d') \<Longrightarrow>
     client_frame d d' \<and> channel d' = channel d \<and> slots d' = slots d \<and> next_slot d' = next_slot d"
  by (auto simp: attach_publication_lineage_def client_frame_def new_lineage_def new_permit_def Let_def
      split: option.splits message.splits)

lemma send_frame:
  assumes "send_dispatch_message cur m d = (ok, d')" "message_permit m = Some p"
  shows "client_frame d d' \<and> slots d' = slots d \<and> next_slot d' = next_slot d \<and>
     channel d' = (if ok then channel d @ [m] else channel d)"
proof -
  obtain l m1 d1 where a: "attach_publication_lineage None cur m d = (l, m1, d1)" by (metis surj_pair)
  have m1: "m1 = m" using a assms(2)
    by (cases m) (auto simp: attach_publication_lineage_def Let_def split: option.splits prod.splits)
  obtain r d2 where s: "dispatcher_sender d1 = (r, d2)" by (metis surj_pair)
  have "client_frame d1 d2 \<and> channel d2 = channel d1 \<and> slots d2 = slots d1 \<and> next_slot d2 = next_slot d1"
    using s by (auto simp: dispatcher_sender_def client_frame_def split: option.splits)
  then show ?thesis using assms attach_frame [OF a] a s
    by (auto simp: send_dispatch_message_def m1 channel_send_def drop_permit_opt_def drop_permit_def client_frame_def
        split: sum.splits if_splits option.splits)
qed

lemma enqueue_frame:
  assumes "enqueue_dispatch_message m (plain_context lin) d = (ok, cx, d')"
    and "m = Deliver x None c \<or> m = Barrier s None"
  shows "client_frame d d' \<and> slots d' = slots d \<and> next_slot d' = next_slot d \<and>
     (\<exists>m'. channel d' = (if ok then channel d @ [m'] else channel d) \<and> (is_deliver m \<longrightarrow> is_deliver m') \<and>
       (\<forall>s. m = Barrier s None \<longrightarrow> (\<exists>p. m' = Barrier s p)))"
proof -
  obtain l m1 d1 where a: "attach_publication_lineage None lin m d = (l, m1, d1)" by (metis surj_pair)
  have m1: "message_permit m1 = Some l" "is_deliver m \<longrightarrow> is_deliver m1" "\<forall>s. m = Barrier s None \<longrightarrow> (\<exists>p. m1 = Barrier s p)"
    using a assms(2) by (auto simp: attach_publication_lineage_def Let_def split: option.splits prod.splits)
  have "send_dispatch_message lin m1 d1 = (ok, d')"
    using assms(1) a by (auto simp: enqueue_dispatch_message_def plain_context_def current_publication_lineage_def
        split: prod.splits)
  from send_frame [OF this m1(1)] attach_frame [OF a] show ?thesis
    using m1(2,3) by (auto simp: client_frame_def)
qed

lemma client_turn:
  assumes "dispatcher_ok E' d'" "loop_ok d" "client_frame d d'" "channel d' = channel d @ ms"
    and "\<And>m. m \<in> set ms \<Longrightarrow> flush_id m = None \<and> (\<forall>l. m \<noteq> RegisterPending l)"
    and "\<And>l. terminal d' l = terminal d l" "\<And>l. terminal d l \<Longrightarrow> lineages d' l = lineages d l"
    and "barriers_queued d'"
  shows "turn_ok E' d d'"
proof -
  have "List.map_filter flush_id ms = []"
    using assms(5) by (auto simp: map_filter_def filter_empty_conv)
  then have ids: "flush_ids d' = flush_ids d"
    using assms(3,4) by (simp add: flush_ids_def client_frame_def map_filter_append)
  have "registered d'" using assms(2-4,6,7) by (auto simp: loop_ok_def registered_def client_frame_def)
  then have "loop_ok d'" using assms(2,8) ids by (simp add: loop_ok_def)
  moreover have "tracks f l d'" if "tracks f l d" for f l
    using that queued_behind_append [OF _ assms(4)] assms(3,5-7)
    by (fastforce simp: tracks_def waiting_def client_frame_def)
  ultimately show ?thesis using assms(1,3,6) ids by (simp add: turn_ok_def client_frame_def)
qed

lemma flushes_wait_frame:
  assumes "flushes_wait d" "client_frame d d'"
    and "channel d' \<noteq> [] \<or> (channel d' = channel d \<and> (\<forall>l. outstanding (lineages d' l) = outstanding (lineages d l)))"
  shows "flushes_wait d'"
  using assms by (auto simp: flushes_wait_def client_frame_def flush_ready_def)

text \<open>When nothing has moved, the accounts say that no counter has.\<close>

lemma same_counters:
  assumes "dispatcher_ok E d" "dispatcher_ok E d'" "channel d' = channel d" "slots d' = slots d"
    "next_slot d' = next_slot d"
  shows "outstanding (lineages d' l) = outstanding (lineages d l)"
  using assms by (simp add: dispatcher_ok_def accounted_def owned_def)

lemma emit_step:
  assumes "dispatcher_ok E d" "loop_ok d" "flushes_wait d" "plain_opt d lin"
    and "enqueue_dispatch_message (Deliver x None c) (plain_context lin) d = (ok, cx, d')"
  shows "turn_ok E d d' \<and> flushes_wait d'"
proof -
  let ?cx = "plain_context lin :: 'a emit_context"
  have b: "buffered ?cx = []" "context_ok d ?cx" using assms(4)
    by (auto simp: context_ok_def buffered_def plain_context_def current_publication_lineage_def)
  have "dispatcher_ok (E + permits (buffered ?cx)) d" using assms(1) b by simp
  from enqueue_ok [OF this b(2) assms(5)] enqueue_frame [OF assms(5)]
  have q: "dispatcher_ok (E + permits (buffered cx)) d'" "quiet d d'" and
    f: "client_frame d d'" "slots d' = slots d" "next_slot d' = next_slot d"
      "ok \<or> channel d' = channel d" "ok \<longrightarrow> channel d' \<noteq> []" by (auto split: if_splits)
  have "cx = ?cx" using emit_all_unbuffered [of ?cx "[(x, c)]" d] assms(5) by (simp add: plain_context_def)
  then have e: "dispatcher_ok E d'" using q(1) b by simp
  have "turn_ok E d d'" using turn_okI [OF e q(2) assms(2)] by simp
  moreover have "flushes_wait d'"
    using flushes_wait_frame [OF assms(3) f(1)] f(4,5) same_counters [OF assms(1) e _ f(2,3)] by auto
  ultimately show ?thesis by simp
qed

text \<open>Sending a barrier. It is not a delivery, so only the accounts are stated.\<close>

lemma send_barrier_ok:
  assumes "dispatcher_ok (add_mset l E) d" "plain_opt d current" "plain d l"
    and "send_dispatch_message current (Barrier s (Some l)) d = (ok, d')"
  shows "dispatcher_ok E d' \<and> lineages d' = (if ok then lineages d else lineages (drop_permit l d))"
proof -
  let ?m = "Barrier s (Some l) :: 'a message"
  obtain l1 m1 d1 where a: "attach_publication_lineage None current ?m d = (l1, m1, d1)"
    by (metis surj_pair)
  from attach_old [OF assms(1) _ assms(2) _ a] have 1: "m1 = ?m" "dispatcher_ok (add_mset l E) d1" "quiet d d1"
    by (auto simp: plain_opt_def)
  have l1: "lineages d1 = lineages d"
    using a assms(1) by (auto simp: attach_publication_lineage_def Let_def new_lineage_def dispatcher_ok_def
        unused_lineages_def fun_eq_iff split: option.splits)
  obtain r d2 where s: "dispatcher_sender d1 = (r, d2)" by (metis surj_pair)
  from dispatcher_sender_ok [OF 1(2) s] have 2: "dispatcher_ok (add_mset l E) d2" "quiet d1 d2" by auto
  have l2: "lineages d2 = lineages d1" using s by (auto simp: dispatcher_sender_def split: option.splits)
  have p: "plain d2 l" using assms(3) plain_quiet 1(3) 2(2) by blast
  have "(\<not> ok \<and> d' = drop_permit l d2) \<or> (ok \<and> d' = d2\<lparr>channel := channel d2 @ [?m]\<rparr>)"
    using assms(4) a s 1(1) by (auto simp: send_dispatch_message_def channel_send_def drop_permit_opt_def
        split: sum.splits if_splits)
  then show ?thesis
    using drop_permit_ok [OF 2(1) p] channel_append_ok [of E ?m d2] 2(1) p l1 l2
    by (auto simp: drop_permit_def)
qed

lemma reserve_step:
  assumes "dispatcher_ok E d" "loop_ok d" "flushes_wait d" "plain_opt d lin"
    and "register_async_publication (plain_context lin) d = (r, cx, d')"
  shows "turn_ok E d d' \<and> flushes_wait d'"
proof -
  let ?s = "next_slot d"
  let ?d0 = "d\<lparr>slots := (slots d)(?s := Open None []), next_slot := Suc ?s\<rparr>"
  have p: "plain ?d0 = plain d" by (auto simp: fun_eq_iff plain_def)
  then have m: "message_ok ?d0 = message_ok d" by (intro ext, case_tac x) simp_all
  have s: "slots d ?s = Closed" using assms(1) by (auto simp: dispatcher_ok_def slots_ok_def)
  have "(\<Sum>i<?s. permits (slot_messages (slots ?d0 i))) = (\<Sum>i<?s. permits (slot_messages (slots d i)))"
    by (intro sum.cong) auto
  then have 0: "dispatcher_ok E ?d0" using assms(1)
    by (auto simp: dispatcher_ok_def accounted_def owned_def unused_lineages_def slots_ok_def p m)
  obtain ok cx1 d2 where e: "enqueue_dispatch_message (Barrier ?s None) (plain_context lin) ?d0 = (ok, cx1, d2)"
    by (metis surj_pair)
  obtain l m1 d1 where a: "attach_publication_lineage None lin (Barrier ?s None) ?d0 = (l, m1, d1)"
    by (metis surj_pair)
  have lin: "plain_opt ?d0 lin" using assms(4) p by (cases lin) (simp_all add: plain_opt_def)
  from attach_new [OF 0 _ lin a] have
    1: "m1 = Barrier ?s (Some l)" "plain d1 l" "dispatcher_ok (add_mset l E) d1" "quiet ?d0 d1"
    by (auto simp: plain_opt_def)
  have sd: "send_dispatch_message lin m1 d1 = (ok, d2)"
    using e a by (auto simp: enqueue_dispatch_message_def plain_context_def current_publication_lineage_def
        split: prod.splits)
  from send_barrier_ok [OF 1(3) plain_opt_quiet [OF 1(4) lin] 1(2) sd [unfolded 1(1)]]
  have 2: "dispatcher_ok E d2" "lineages d2 = (if ok then lineages d1 else lineages (drop_permit l d1))" by auto
  note f = enqueue_frame [OF e]
  have d': "d' = (if ok then d2 else d2\<lparr>slots := (slots d2)(?s := Closed)\<rparr>)"
    using assms(5) e by (auto simp: register_async_publication_def Let_def split: if_splits)
  have 3: "dispatcher_ok E d'"
    using 2(1) slot_update_ok [OF 2(1), of ?s E Closed] f unfolding d' by simp
  have t: "terminal d' k = terminal d k" "terminal d k \<Longrightarrow> lineages d' k = lineages d k" for k
    using 1(2,4) 2(2) by (auto simp: d' quiet_def plain_def drop_permit_def)
  obtain m' where c: "channel d' = (if ok then channel d @ [m'] else channel d)" "\<exists>p. m' = Barrier ?s p"
    "client_frame d d'" "slots d' = (if ok then slots ?d0 else slots d)"
  proof (cases ok)
    case True
    then show ?thesis using f that unfolding d' by (auto simp: client_frame_def)
  next
    case False
    then show ?thesis using f s that [of "Barrier ?s None"] unfolding d' by (auto simp: client_frame_def fun_upd_idem)
  qed
  have "barriers_queued d'" using assms(2) c by (auto simp: loop_ok_def barriers_queued_def)
  then have "turn_ok E d d'"
    using client_turn [OF 3 assms(2) c(3), of "if ok then [m'] else []"] c(1,2) t by auto
  moreover have "outstanding (lineages d' k) = outstanding (lineages d k)" if "\<not> ok" for k
  proof -
    have "(\<Sum>i<next_slot d'. permits (slot_messages (slots d i))) = (\<Sum>i<?s. permits (slot_messages (slots d i)))"
      using f s that by (simp add: d')
    then show ?thesis using 3 assms(1) that c(1,4) by (simp add: dispatcher_ok_def accounted_def owned_def)
  qed
  then have "flushes_wait d'" using flushes_wait_frame [OF assms(3) c(3)] c(1) by auto
  ultimately show ?thesis by simp
qed

text \<open>The steps of a task with a reserved position. Its barrier is still in the channel.\<close>

lemma slot_turn:
  assumes "dispatcher_ok E d'" "loop_ok d" "slots d s \<noteq> Closed" "client_frame d d'" "channel d' = channel d"
    and "\<And>i. i \<noteq> s \<Longrightarrow> slots d' i = slots d i"
    and "\<And>l. terminal d' l = terminal d l" "\<And>l. terminal d l \<Longrightarrow> lineages d' l = lineages d l"
  shows "turn_ok E d d' \<and> flushes_wait d'"
proof -
  obtain p where p: "Barrier s p \<in> set (channel d)" using assms(2,3) by (auto simp: loop_ok_def barriers_queued_def)
  then have "flushes_wait d'" using assms(5) by (auto simp: flushes_wait_def)
  moreover have "\<exists>p. Barrier i p \<in> set (channel d)" if "slots d' i \<noteq> Closed" for i
    using that p assms(2,6) by (cases "i = s") (auto simp: loop_ok_def barriers_queued_def)
  then have "barriers_queued d'" using assms(5) by (simp add: barriers_queued_def)
  ultimately show ?thesis using client_turn [OF assms(1,2,4), of "[]"] assms(5,7,8) by simp
qed

lemma start_step:
  assumes "dispatcher_ok E d" "loop_ok d" "flushes_wait d" "plain_opt d lin"
  shows "turn_ok E d (async_start s (plain_context lin) d) \<and> flushes_wait (async_start s (plain_context lin) d)"
proof (cases "slots d s")
  case (Open l ms)
  let ?v = "Open lin ms" and ?d = "d\<lparr>slots := (slots d)(s := Open lin ms)\<rparr>"
  have "dispatcher_ok E ?d"
  proof (rule slot_update_ok [OF assms(1)])
    show "s < next_slot d" using slot_used [OF assms(1)] Open by simp
    show "list_all (\<lambda>m. is_deliver m \<and> message_ok d m) (slot_messages ?v)"
      using assms(1) Open unfolding dispatcher_ok_def slots_ok_def by (metis slot_messages.simps(1))
  qed (use assms(4) Open in \<open>auto simp: plain_opt_def\<close>)
  moreover have "async_start s (plain_context lin) d = ?d"
    by (simp add: async_start_def Open plain_context_def current_publication_lineage_def)
  ultimately show ?thesis using slot_turn [of E ?d d s] assms(2) Open by (simp add: client_frame_def)
qed (use assms in \<open>auto simp: async_start_def turn_ok_def\<close>)

lemma finish_step:
  assumes "dispatcher_ok E d" "loop_ok d" "flushes_wait d"
  shows "turn_ok E d (async_finish s d) \<and> flushes_wait (async_finish s d)"
proof (cases "slots d s")
  case (Open l ms)
  let ?d = "d\<lparr>slots := (slots d)(s := Sent ms)\<rparr>"
  have "dispatcher_ok E ?d"
  proof (rule slot_update_ok [OF assms(1)])
    show "s < next_slot d" using slot_used [OF assms(1)] Open by simp
    show "list_all (\<lambda>m. is_deliver m \<and> message_ok d m) (slot_messages (Sent ms))"
      using assms(1) Open unfolding dispatcher_ok_def slots_ok_def by (metis slot_messages.simps(1,2))
  qed (use Open in auto)
  then show ?thesis using slot_turn [of E ?d d s] assms(2) Open
    by (simp add: client_frame_def async_finish_def)
qed (use assms in \<open>auto simp: async_finish_def turn_ok_def\<close>)

lemma publish_step:
  assumes "dispatcher_ok E d" "loop_ok d" "flushes_wait d"
  shows "turn_ok E d (async_publish s x c d) \<and> flushes_wait (async_publish s x c d)"
proof (cases "slots d s")
  case (Open b ms)
  have ok: "list_all (\<lambda>m. is_deliver m \<and> message_ok d m) ms" "plain_opt d b"
    using assms(1) Open unfolding dispatcher_ok_def slots_ok_def plain_opt_def
    by (metis slot_messages.simps(1)) (metis option.case_eq_if option.collapse assms(1) Open dispatcher_ok_def slots_ok_def)
  obtain l m d1 where a: "attach_publication_lineage None b (Deliver x None c) d = (l, m, d1)"
    by (metis surj_pair)
  from attach_new [OF assms(1) _ ok(2) a] have
    1: "m = Deliver x (Some l) c" "plain d1 l" "dispatcher_ok (add_mset l E) d1" "quiet d d1"
    by (auto simp: plain_opt_def)
  let ?d = "d1\<lparr>slots := (slots d1)(s := Open b (ms @ [m]))\<rparr>"
  have sl: "slots d1 = slots d" "next_slot d1 = next_slot d" using 1(4) by (auto simp: quiet_def)
  have "dispatcher_ok E ?d"
  proof (rule slot_update_ok [OF 1(3)])
    show "s < next_slot d1" using slot_used [OF assms(1)] Open sl by simp
    show "list_all (\<lambda>m. is_deliver m \<and> message_ok d1 m) (slot_messages (Open b (ms @ [m])))"
      using ok(1) message_ok_quiet [OF 1(4)] 1(1,2) by (auto simp: list_all_iff)
  qed (use Open sl 1(1) plain_opt_quiet [OF 1(4) ok(2)] in \<open>auto simp: plain_opt_def\<close>)
  moreover have "current_publication_lineage
      ((plain_context None)\<lparr>async_buffer := Some \<lparr>pb_messages = Some ms, pb_lineage = b\<rparr>\<rparr>) = b"
    by (cases b) (simp_all add: current_publication_lineage_def plain_context_def)
  then have "async_publish s x c d = ?d"
    using a Open sl by (simp add: async_publish_def enqueue_dispatch_message_def buffer_push_def buffer_take_def)
  moreover have "client_frame d d1" "channel d1 = channel d" using attach_frame [OF a] by auto
  ultimately show ?thesis using slot_turn [of E ?d d s] assms(2) Open sl 1(4)
    by (simp add: client_frame_def quiet_def)
qed (use assms in \<open>auto simp: async_publish_def turn_ok_def\<close>)

lemma fold_drop_ok:
  assumes "dispatcher_ok (E + permits ms) d" "list_all (\<lambda>m. is_deliver m \<and> message_ok d m) ms"
  shows "dispatcher_ok E (fold (\<lambda>m. drop_permit_opt (message_permit m)) ms d) \<and>
     quiet d (fold (\<lambda>m. drop_permit_opt (message_permit m)) ms d)"
  using assms
proof (induction ms arbitrary: d)
  case (Cons m ms)
  then obtain x l c where m: "m = Deliver x (Some l) c" "plain d l" by (cases m) auto
  have 1: "dispatcher_ok (E + permits ms) (drop_permit l d)" "quiet d (drop_permit l d)"
    using drop_permit_ok [of l "E + permits ms" d] Cons(2) m by auto
  have "list_all (\<lambda>m. is_deliver m \<and> message_ok (drop_permit l d) m) ms"
    using Cons(3) message_ok_quiet [OF 1(2)] by (auto simp: list_all_iff)
  from Cons.IH [OF 1(1) this] show ?case using m(1) 1(2) quiet_trans
    by (auto simp: drop_permit_opt_def)
qed simp

lemma drop_permit_opt_slots:
  "drop_permit_opt p (d\<lparr>slots := v\<rparr>) = (drop_permit_opt p d)\<lparr>slots := v\<rparr>"
  by (cases p) (simp_all add: drop_permit_opt_def drop_permit_def)

lemma fold_drop_slots:
  "fold (\<lambda>m. drop_permit_opt (message_permit m)) ms (d\<lparr>slots := v\<rparr>) =
     (fold (\<lambda>m. drop_permit_opt (message_permit m)) ms d)\<lparr>slots := v\<rparr>"
  by (induction ms arbitrary: d) (simp_all add: drop_permit_opt_slots)

lemma fold_drop_frame:
  "client_frame d (fold (\<lambda>m. drop_permit_opt (message_permit m)) ms d)"
  "channel (fold (\<lambda>m. drop_permit_opt (message_permit m)) ms d) = channel d"
  by (induction ms arbitrary: d)
     (auto simp: drop_permit_opt_def drop_permit_def client_frame_def split: option.splits)

lemma abandon_step:
  assumes "dispatcher_ok E d" "loop_ok d" "flushes_wait d"
  shows "turn_ok E d (async_drop s d) \<and> flushes_wait (async_drop s d)"
proof (cases "slots d s")
  case (Open b ms)
  let ?e = "d\<lparr>slots := (slots d)(s := Closed)\<rparr>"
  let ?d = "fold (\<lambda>m. drop_permit_opt (message_permit m)) ms ?e"
  have "list_all (\<lambda>m. is_deliver m \<and> message_ok d m) ms"
    using assms(1) Open unfolding dispatcher_ok_def slots_ok_def by (metis slot_messages.simps(1))
  moreover have "plain ?e = plain d" by (auto simp: fun_eq_iff plain_def)
  then have "message_ok ?e = message_ok d" by (intro ext, case_tac x) simp_all
  ultimately have ok: "list_all (\<lambda>m. is_deliver m \<and> message_ok ?e m) ms" by simp
  have "dispatcher_ok (E + permits ms) ?e"
    using slot_update_ok [OF assms(1) slot_used [OF assms(1)], of s "E + permits ms" Closed] Open by simp
  from fold_drop_ok [OF this ok] have 1: "dispatcher_ok E ?d" "quiet ?e ?d" by auto
  have "async_drop s d = ?d" by (simp add: async_drop_def Open fold_drop_slots)
  moreover have "turn_ok E d ?d \<and> flushes_wait ?d"
  proof (rule slot_turn [OF 1(1) assms(2), of s])
    show "client_frame d ?d" "channel ?d = channel d"
      using fold_drop_frame [where d = ?e and ms = ms] by (auto simp: client_frame_def)
    show "terminal ?d l = terminal d l" for l using quiet_terminal [OF 1(2)] by simp
    show "lineages ?d l = lineages d l" if "terminal d l" for l
      using 1(2) that unfolding quiet_def by simp
    show "slots ?d i = slots d i" if "i \<noteq> s" for i using 1(2) that unfolding quiet_def by simp
  qed (simp add: Open)
  ultimately show ?thesis by simp
qed (use assms in \<open>auto simp: async_drop_def turn_ok_def\<close>)

lemma pending_step:
  assumes "dispatcher_ok E d" "loop_ok d" "flushes_wait d" "receiver_alive d"
    and "register_pending_publication d = (r, d')"
  shows "turn_ok (E + (case r of None \<Rightarrow> {#} | Some l \<Rightarrow> {#l#})) d d' \<and> flushes_wait d' \<and>
     (case r of None \<Rightarrow> True | Some l \<Rightarrow> terminal d' l)"
proof -
  obtain q d1 where s: "dispatcher_sender d = (q, d1)" by (metis surj_pair)
  have f1: "client_frame d d1" "channel d1 = channel d" "slots d1 = slots d" "lineages d1 = lineages d"
    "next_lineage d1 = next_lineage d" "next_slot d1 = next_slot d"
    using s by (auto simp: dispatcher_sender_def client_frame_def split: option.splits)
  have 1: "dispatcher_ok E d1" "quiet d d1" using dispatcher_sender_ok [OF assms(1) s] by auto
  show ?thesis
  proof (cases q)
    case (Inl e)
    then have "r = None" "d' = d1" using assms(5) s by (auto simp: register_pending_publication_def)
    then show ?thesis using turn_okI [OF 1 assms(2)] flushes_wait_frame [OF assms(3) f1(1)] f1 by simp
  next
    case (Inr u)
    let ?l = "next_lineage d" and ?c = "\<lparr>outstanding = 1, pending_terminal = True\<rparr>"
    let ?m = "RegisterPending ?l :: 'a message"
    have d': "r = Some ?l" "d' = d1\<lparr>lineages := (lineages d)(?l := ?c), next_lineage := ?l + 1,
        channel := channel d @ [?m]\<rparr>"
      using assms(4,5) s Inr f1 by (auto simp: register_pending_publication_def new_lineage_def new_permit_def
          channel_send_def client_frame_def Let_def)
    have new: "lineages d ?l = \<lparr>outstanding = 0, pending_terminal = False\<rparr>"
      using assms(1) by (auto simp: dispatcher_ok_def unused_lineages_def)
    have "count (owned d + E) ?l = 0" using assms(1) new unfolding dispatcher_ok_def accounted_def
      by (metis lineage_cell.select_convs(1))
    then have z: "count (permits (channel d)) ?l = 0" "count E ?l = 0"
      "count (\<Sum>s<next_slot d. permits (slot_messages (slots d s))) ?l = 0" by (simp_all add: owned_def)
    have fr: "l < ?l" if "terminal d l" for l using that assms(1) unfolding dispatcher_ok_def unused_lineages_def
      by (metis leI lineage_cell.select_convs(2))
    have pl: "plain d' l" if "plain d l" for l using that by (simp add: plain_def d')
    have mo: "message_ok d' m" if "message_ok d m" for m
      using that pl by (cases m) (auto simp: d' dest: fr)
    have "dispatcher_ok (add_mset ?l E) d'"
      using assms(1) new pl mo f1 z
      by (auto simp: dispatcher_ok_def accounted_def owned_def unused_lineages_def slots_ok_def list_all_iff d')
    moreover have "loop_ok d'" using assms(2) f1
      by (auto simp: loop_ok_def registered_def barriers_queued_def flush_ids_def d' client_frame_def
          map_filter_append map_filter_def)
    moreover have "tracks g l d'" if "tracks g l d" for g l
    proof -
      have "l < ?l" using that fr by (simp add: tracks_def)
      then show ?thesis using that f1(1) queued_behind_append [of g l d d' "[?m]"]
        by (auto simp: tracks_def d' waiting_def client_frame_def)
    qed
    moreover have "terminal d' l" if "terminal d l" for l using fr [OF that] that by (simp add: d')
    moreover have "set (flush_ids d) \<subseteq> set (flush_ids d')" using f1(1)
      by (auto simp: flush_ids_def d' client_frame_def map_filter_append)
    ultimately show ?thesis using f1(1) by (auto simp: turn_ok_def d' flushes_wait_def client_frame_def)
  qed
qed

lemma complete_step:
  assumes "dispatcher_ok (add_mset l E) d" "loop_ok d" "receiver_alive d" "terminal d l"
  shows "turn_ok E d (drop_pending_publication l d) \<and> flushes_wait (drop_pending_publication l d)"
proof -
  let ?d = "d\<lparr>channel := channel d @ [CompletePending l]\<rparr>"
  have d: "drop_pending_publication l d = ?d"
    using assms(3) by (simp add: drop_pending_publication_def channel_send_def)
  have "dispatcher_ok E ?d" using channel_append_ok [of E "CompletePending l" d] assms(1,4) by simp
  from client_turn [OF this assms(2), of "[CompletePending l]"] assms(2)
  show ?thesis by (auto simp: d client_frame_def loop_ok_def barriers_queued_def flushes_wait_def)
qed

lemma flush_step:
  assumes "dispatcher_ok E d" "loop_ok d" "flushes_wait d" "receiver_alive d" "f \<notin> set (flush_ids d)"
    and "flush_subscribers_inner incl f (plain_context None) d = (r, d')"
  shows "turn_ok E d d' \<and> flushes_wait d'"
proof (cases "d' = d")
  case True
  then show ?thesis using assms by (simp add: turn_ok_def)
next
  case False
  let ?d = "d\<lparr>channel := channel d @ [Flush f incl]\<rparr>"
  have d: "d' = ?d"
    using assms(4,6) False by (auto simp: flush_subscribers_inner_def channel_send_def split: if_splits option.splits sum.splits)
  have "dispatcher_ok E ?d" using channel_append_ok [of E "Flush f incl" d] assms(1) by simp
  moreover have "loop_ok ?d" using assms(2,5)
    by (auto simp: loop_ok_def registered_def barriers_queued_def flush_ids_def map_filter_append map_filter_def)
  moreover have "tracks g l ?d" if "tracks g l d" for g l
    using that queued_behind_append [of g l d ?d "[Flush f incl]"] by (auto simp: tracks_def waiting_def)
  moreover have "set (flush_ids d) \<subseteq> set (flush_ids ?d)" by (auto simp: flush_ids_def map_filter_append)
  ultimately show ?thesis by (auto simp: turn_ok_def d flushes_wait_def)
qed

section \<open>Reachable states\<close>

lemma publication_step_ok:
  assumes "publication_step sv s t" "publication_ok s"
  shows "publication_ok t \<and> (\<forall>f l. tracks f l (fst (snd s)) \<longrightarrow> tracks f l (fst (snd t))) \<and>
     set (flush_ids (fst (snd s))) \<subseteq> set (flush_ids (fst (snd t)))"
  using assms
proof (induction rule: publication_step.induct)
  case (emit d lin x c ok cx d' w H)
  then show ?case using emit_step [of "mset H" d lin x c ok cx d'] by (auto simp: publication_ok_def turn_ok_def list_all_iff)
next
  case (reserve d lin r cx d' w H)
  then show ?case using reserve_step [of "mset H" d lin r cx d'] by (auto simp: publication_ok_def turn_ok_def list_all_iff)
next
  case (start d lin w H s)
  then show ?case using start_step [of "mset H" d lin s] by (auto simp: publication_ok_def turn_ok_def list_all_iff)
next
  case (publish w d H s x c)
  then show ?case using publish_step [of "mset H" d s x c] by (auto simp: publication_ok_def turn_ok_def list_all_iff)
next
  case (finish w d H s)
  then show ?case using finish_step [of "mset H" d s] by (auto simp: publication_ok_def turn_ok_def list_all_iff)
next
  case (abandon w d H s)
  then show ?case using abandon_step [of "mset H" d s] by (auto simp: publication_ok_def turn_ok_def list_all_iff)
next
  case (pend d l d' w H)
  then show ?case using pending_step [of "mset H" d "Some l" d'] by (auto simp: publication_ok_def turn_ok_def list_all_iff)
next
  case (pend_failed d d' w H)
  then show ?case using pending_step [of "mset H" d None d'] by (auto simp: publication_ok_def turn_ok_def list_all_iff)
next
  case (complete l H w d)
  then have "add_mset l (mset (remove1 l H)) = mset H" by simp
  then show ?case using complete complete_step [of l "mset (remove1 l H)" d] set_remove1_subset [of l H]
    by (auto simp: publication_ok_def turn_ok_def list_all_iff)
next
  case (flush f d incl r d' w H)
  then show ?case using flush_step [of "mset H" d f incl r d'] by (auto simp: publication_ok_def turn_ok_def list_all_iff)
next
  case (dispatch n w d w' d' H)
  then show ?case using dispatch_ok [of sv n w d w' d' "mset H"] by (auto simp: publication_ok_def turn_ok_def list_all_iff)
qed (simp add: publication_ok_def)

lemma publication_ok_start: "publication_ok (w, dispatcher_new spawned, [])"
  by (auto simp: publication_ok_def dispatcher_new_def dispatcher_ok_def accounted_def owned_def unused_lineages_def
      slots_ok_def loop_ok_def registered_def barriers_queued_def flush_ids_def flushes_wait_def map_filter_def)

lemma publication_steps_ok:
  assumes "(publication_step sv)\<^sup>*\<^sup>* s t" "publication_ok s"
  shows "publication_ok t \<and> (\<forall>f l. tracks f l (fst (snd s)) \<longrightarrow> tracks f l (fst (snd t))) \<and>
     set (flush_ids (fst (snd s))) \<subseteq> set (flush_ids (fst (snd t)))"
  using assms
proof (induction rule: rtranclp_induct)
  case (step y z)
  then show ?case using publication_step_ok [OF step(2)] by blast
qed simp

lemma publication_reachable_ok: "publication_reachable sv s \<Longrightarrow> publication_ok s"
proof -
  assume "publication_reachable sv s"
  then obtain w spawned where "(publication_step sv)\<^sup>*\<^sup>* (w, dispatcher_new spawned, []) s"
    unfolding publication_reachable_def by (elim exE)
  from publication_steps_ok [OF this publication_ok_start] show ?thesis by (rule conjunct1)
qed

section \<open>What a flush promises\<close>

lemma accepted_flush_queued:
  "flush_subscribers_inner incl f (plain_context None) d = (Inr (Some f), d1) \<Longrightarrow>
     channel d1 = channel d @ [Flush f incl] \<and> lineages d1 = lineages d"
  by (auto simp: flush_subscribers_inner_def channel_send_def split: if_splits option.splits sum.splits)

text \<open>With the channel empty and no managed call pending, no permit is left and no flush waits.\<close>

lemma idle_has_no_flush:
  assumes ok: "publication_ok (w, d, [])" and "channel d = []"
  shows "pending_flushes d = []"
proof (rule ccontr)
  assume p: "pending_flushes d \<noteq> []"
  have "slots d s = Closed" for s
    using ok assms(2) by (auto simp: publication_ok_def loop_ok_def barriers_queued_def)
  then have "owned d = {#}" using assms(2) by (simp add: owned_def)
  then have "outstanding (lineages d l) = 0" for l
    using ok by (simp add: publication_ok_def dispatcher_ok_def accounted_def)
  then have "flush_ready d (hd (pending_flushes d))" by (simp add: flush_ready_def list_all_iff)
  then show False using ok p assms(2) by (simp add: publication_ok_def flushes_wait_def)
qed

text \<open>
  C38. A flush waits for pending work: when a caller flushes while a managed call is still pending,
  then, whatever all threads do afterwards, by the time the flush is answered the handle of that
  call has been given up and the loop has handled its completion, which was queued behind
  everything the call had published.
\<close>

theorem flush_waits_for_pending:
  assumes "publication_reachable sv (w, d, H)" "l \<in> set H" "f \<notin> set (flush_ids d)"
    and "flush_subscribers_inner True f (plain_context None) d = (Inr (Some f), d1)"
    and "(publication_step sv)\<^sup>*\<^sup>* (w, d1, H) (w2, d2, H2)" "f \<in> set (acks d2)"
  shows "l \<notin> set H2 \<and> CompletePending l \<notin> set (channel d2)"
proof -
  have ok: "publication_ok (w, d, H)" by (rule publication_reachable_ok [OF assms(1)])
  have "publication_step sv (w, d, H) (w, d1, H)" by (rule publication_step.flush [OF assms(3,4)])
  with ok have ok1: "publication_ok (w, d1, H)" using publication_step_ok by blast
  from accepted_flush_queued [OF assms(4)] have "queued_behind f l d1" "terminal d1 l"
    using ok assms(2) by (auto simp: queued_behind_def publication_ok_def list_all_iff intro: exI [of _ "channel d"])
  then have "tracks f l d1" by (simp add: tracks_def)
  with publication_steps_ok [OF assms(5) ok1] have ok2: "publication_ok (w2, d2, H2)" and t: "tracks f l d2"
    by auto
  have "\<not> queued_behind f l d2" "\<not> waiting f l d2"
    using ok2 assms(6) by (auto simp: publication_ok_def loop_ok_def flush_ids_def queued_behind_def waiting_def
        map_filter_append)
  then have "outstanding (lineages d2 l) = 0" using t by (simp add: tracks_def)
  then have "count (owned d2 + mset H2) l = 0"
    using ok2 by (auto simp: publication_ok_def dispatcher_ok_def accounted_def)
  then have z: "l \<notin> set H2" "l \<notin># permits (channel d2)" by (auto simp: owned_def count_eq_zero_iff)
  then have "CompletePending l \<notin> set (channel d2)"
    by (auto simp: permits_def map_filter_def image_iff dest!: bspec)
  then show ?thesis using z(1) by simp
qed

text \<open>
  C39. A flush is not forgotten: when a caller flushes and the flush is accepted, then, whatever all
  threads do afterwards, once the channel has been emptied and no managed call is pending, that
  flush has been answered, and none is left waiting.
\<close>

theorem flush_never_forgotten:
  assumes "publication_reachable sv (w, d, H)" "f \<notin> set (flush_ids d)"
    and "flush_subscribers_inner incl f (plain_context None) d = (Inr (Some f), d1)"
    and "(publication_step sv)\<^sup>*\<^sup>* (w, d1, H) (w2, d2, [])" "channel d2 = []"
  shows "f \<in> set (acks d2) \<and> pending_flushes d2 = []"
proof -
  have "publication_step sv (w, d, H) (w, d1, H)" by (rule publication_step.flush [OF assms(2,3)])
  with publication_reachable_ok [OF assms(1)] have "publication_ok (w, d1, H)"
    using publication_step_ok by blast
  from publication_steps_ok [OF assms(4) this]
  have ok: "publication_ok (w2, d2, [])" and ids: "set (flush_ids d1) \<subseteq> set (flush_ids d2)" by auto
  have "f \<in> set (flush_ids d1)" using accepted_flush_queued [OF assms(3)]
    by (simp add: flush_ids_def map_filter_append map_filter_def)
  with ids have "f \<in> set (flush_ids d2)" by blast
  then show ?thesis using idle_has_no_flush [OF ok assms(5)] assms(5)
    by (simp add: flush_ids_def map_filter_def)
qed

text \<open>
  A run with callbacks that publish nothing: a managed call is registered, a caller flushes, the call
  ends, and the loop takes the three messages.
\<close>

definition silent_services :: "unit dispatch_services" where
  "silent_services = \<lparr>drain_emissions = (\<lambda>w. ([], w)), runtime_builds = (\<lambda>w. (True, w))\<rparr>"

definition demo_turn :: "unit dispatcher \<Rightarrow> unit dispatcher" where
  "demo_turn d = (case dispatch_next silent_services 1 ((), d) of None \<Rightarrow> d | Some (w, d') \<Rightarrow> d')"

definition demo_pended :: "unit dispatcher" where
  "demo_pended = snd (register_pending_publication (dispatcher_new (Inr ())))"

definition demo_flushed :: "unit dispatcher" where
  "demo_flushed = snd (flush_subscribers_inner True 7 (plain_context None) demo_pended)"

definition demo_done :: "unit dispatcher" where
  "demo_done = demo_turn (demo_turn (demo_turn (drop_pending_publication 0 demo_flushed)))"

lemmas demo_dispatcher_simps =
  dispatcher_new_def register_pending_publication_def dispatcher_sender_def new_lineage_def new_permit_def
  channel_send_def flush_subscribers_inner_def plain_context_def in_dispatcher_callback_def flush_ids_def
  drop_pending_publication_def demo_turn_def dispatch_next_def silent_services_def register_lineage_def
  drop_permit_def defer_or_complete_flush_def complete_ready_flushes_def flush_ready_def map_filter_def Let_def

lemma demo_pended_eq: "register_pending_publication (dispatcher_new (Inr ())) = (Some 0, demo_pended)"
  by (simp add: demo_pended_def demo_dispatcher_simps)

lemma demo_flushed_eq:
  "flush_subscribers_inner True 7 (plain_context None) demo_pended = (Inr (Some 7), demo_flushed)"
  "7 \<notin> set (flush_ids demo_pended)"
  by (simp_all add: demo_flushed_def demo_pended_def demo_dispatcher_simps)

lemma demo_turn_steps:
  "(publication_step silent_services)\<^sup>*\<^sup>* ((), d, H) ((), demo_turn d, H)"
  by (auto simp: demo_turn_def split: option.splits intro!: r_into_rtranclp publication_step.dispatch)

lemma demo_run:
  "publication_reachable silent_services ((), demo_pended, [0])"
  "(publication_step silent_services)\<^sup>*\<^sup>* ((), demo_flushed, [0]) ((), demo_done, [])"
proof -
  show "publication_reachable silent_services ((), demo_pended, [0])"
    unfolding publication_reachable_def using publication_step.pend [OF demo_pended_eq] by blast
  have "publication_step silent_services ((), demo_flushed, [0]) ((), drop_pending_publication 0 demo_flushed, [])"
    using publication_step.complete [of 0 "[0]"] by simp
  then show "(publication_step silent_services)\<^sup>*\<^sup>* ((), demo_flushed, [0]) ((), demo_done, [])"
    unfolding demo_done_def using demo_turn_steps by (meson converse_rtranclp_into_rtranclp rtranclp_trans)
qed

lemma demo_done_facts: "7 \<in> set (acks demo_done)" "channel demo_done = []"
  by (simp_all add: demo_done_def demo_flushed_def demo_pended_def demo_dispatcher_simps)

theorem flush_waits_for_pending_witness:
  "0 \<notin> set ([] :: lineage list) \<and> CompletePending 0 \<notin> set (channel demo_done)"
  by (rule flush_waits_for_pending [OF demo_run(1) _ demo_flushed_eq(2,1) demo_run(2) demo_done_facts(1)]) simp

theorem flush_never_forgotten_witness: "7 \<in> set (acks demo_done) \<and> pending_flushes demo_done = []"
  by (rule flush_never_forgotten [OF demo_run(1) demo_flushed_eq(2,1) demo_run(2) demo_done_facts(2)])

end
