(* ===== verification/Binary64.thy ===== *)
theory Binary64
  imports Relay_Json Complex_Main "HOL-Library.Log_Nat"
begin

text \<open>
  Rust's \<^verbatim>\<open>f64\<close>: a double is its 64 bits, one for the sign and 63 for the magnitude. Finite magnitudes
  are natural multiples of \<open>2 ^ -1074\<close>, the smallest positive double, so values are counted in that
  unit. An operation computes the exact result, which for sums and differences is an integer number
  of units and for products and quotients a rational one, and rounds it to the nearest double, ties
  to the one with an even magnitude. Rust does not say which NaN an operation yields; here it is
  always the same one.
\<close>

section \<open>Bits and values\<close>

definition INFINITE :: nat where
  "INFINITE = 2047 * 2 ^ 52"

definition f64_mag :: "f64 \<Rightarrow> nat" where
  "f64_mag b = unat b mod 2 ^ 63"

definition f64_negative :: "f64 \<Rightarrow> bool" where
  "f64_negative b \<longleftrightarrow> 2 ^ 63 \<le> unat b"

definition f64_make :: "bool \<Rightarrow> nat \<Rightarrow> f64" where
  "f64_make neg k = of_nat (if neg then k + 2 ^ 63 else k)"

definition f64_is_finite :: "f64 \<Rightarrow> bool" where
  "f64_is_finite b \<longleftrightarrow> (unat b div 2 ^ 52) mod 2 ^ 11 \<noteq> 2 ^ 11 - 1"

definition f64_is_nan :: "f64 \<Rightarrow> bool" where
  "f64_is_nan b \<longleftrightarrow> INFINITE < f64_mag b"

definition f64_is_infinite :: "f64 \<Rightarrow> bool" where
  "f64_is_infinite b \<longleftrightarrow> f64_mag b = INFINITE"

definition f64_is_zero :: "f64 \<Rightarrow> bool" where
  "f64_is_zero b \<longleftrightarrow> f64_mag b = 0"

definition f64_nan :: f64 where
  "f64_nan = of_nat (INFINITE + 2 ^ 51)"

text \<open>The order of doubles that are not NaN; both zeros are equal.\<close>

definition f64_key :: "f64 \<Rightarrow> int" where
  "f64_key b = (let mag = int (unat b mod 2 ^ 63) in if unat b < 2 ^ 63 then mag else - mag)"

definition f64_less :: "f64 \<Rightarrow> f64 \<Rightarrow> bool" where
  "f64_less a b \<longleftrightarrow> f64_key a < f64_key b"

definition f64_less_eq :: "f64 \<Rightarrow> f64 \<Rightarrow> bool" where
  "f64_less_eq a b \<longleftrightarrow> f64_key a \<le> f64_key b"

text \<open>The value of a magnitude in units.\<close>

definition mag_units :: "nat \<Rightarrow> nat" where
  "mag_units k = (if k < 2 ^ 52 then k else (2 ^ 52 + k mod 2 ^ 52) * 2 ^ (k div 2 ^ 52 - 1))"

definition f64_units :: "f64 \<Rightarrow> int" where
  "f64_units b = (if f64_negative b then - int (mag_units (f64_mag b)) else int (mag_units (f64_mag b)))"

text \<open>The number one in units.\<close>

definition ONE_UNITS :: rat where
  "ONE_UNITS = 2 ^ 1074"

section \<open>Rounding\<close>

definition round_even :: "rat \<Rightarrow> nat" where
  "round_even x = (let n = nat \<lfloor>x\<rfloor>; r = x - of_nat n in if r > 1 / 2 \<or> (r = 1 / 2 \<and> odd n) then n + 1 else n)"

text \<open>
  A number of units below \<open>2 ^ 53\<close> is rounded to an integer, which is the magnitude. Above that the
  exponent grows: \<open>s\<close> bits are dropped so that 53 remain. A carry into the next power of two is a carry
  into the exponent.
\<close>

definition units_shift :: "rat \<Rightarrow> nat" where
  "units_shift x = floorlog 2 (nat \<lfloor>x\<rfloor>) - 53"

definition round_units :: "rat \<Rightarrow> nat" where
  "round_units x = (let s = units_shift x in min INFINITE (s * 2 ^ 52 + round_even (x / 2 ^ s)))"

section \<open>Arithmetic\<close>

definition f64_neg :: "f64 \<Rightarrow> f64" where
  "f64_neg b = f64_make (\<not> f64_negative b) (f64_mag b)"

definition f64_add :: "f64 \<Rightarrow> f64 \<Rightarrow> f64" where
  "f64_add a b =
     (if f64_is_nan a \<or> f64_is_nan b then f64_nan
      else if f64_is_infinite a
      then (if f64_is_infinite b \<and> f64_negative a \<noteq> f64_negative b then f64_nan else a)
      else if f64_is_infinite b then b
      else (let v = f64_units a + f64_units b
            in if v = 0 then f64_make (f64_negative a \<and> f64_negative b) 0
               else f64_make (v < 0) (round_units (of_int \<bar>v\<bar>))))"

definition f64_sub :: "f64 \<Rightarrow> f64 \<Rightarrow> f64" where
  "f64_sub a b = f64_add a (f64_neg b)"

definition f64_mul :: "f64 \<Rightarrow> f64 \<Rightarrow> f64" where
  "f64_mul a b =
     (let neg = (f64_negative a \<noteq> f64_negative b)
      in if f64_is_nan a \<or> f64_is_nan b \<or> (f64_is_infinite a \<and> f64_is_zero b) \<or> (f64_is_zero a \<and> f64_is_infinite b)
         then f64_nan
         else if f64_is_infinite a \<or> f64_is_infinite b then f64_make neg INFINITE
         else f64_make neg (round_units
           (of_nat (mag_units (f64_mag a)) * of_nat (mag_units (f64_mag b)) / ONE_UNITS)))"

definition f64_div :: "f64 \<Rightarrow> f64 \<Rightarrow> f64" where
  "f64_div a b =
     (let neg = (f64_negative a \<noteq> f64_negative b)
      in if f64_is_nan a \<or> f64_is_nan b \<or> (f64_is_zero a \<and> f64_is_zero b) \<or> (f64_is_infinite a \<and> f64_is_infinite b)
         then f64_nan
         else if f64_is_infinite a \<or> f64_is_zero b then f64_make neg INFINITE
         else if f64_is_infinite b then f64_make neg 0
         else f64_make neg (round_units
           (of_nat (mag_units (f64_mag a)) / of_nat (mag_units (f64_mag b)) * ONE_UNITS)))"

text \<open>\<^verbatim>\<open>f64::round\<close>: the nearest integer, ties away from zero.\<close>

definition f64_round :: "f64 \<Rightarrow> f64" where
  "f64_round b =
     (if f64_is_nan b \<or> f64_is_infinite b then b
      else f64_make (f64_negative b) (round_units
        (of_nat (nat \<lfloor>of_nat (mag_units (f64_mag b)) / ONE_UNITS + 1 / 2 :: rat\<rfloor>) * ONE_UNITS)))"

text \<open>\<^verbatim>\<open>n as f64\<close> for an unsigned integer.\<close>

definition f64_of_nat :: "nat \<Rightarrow> f64" where
  "f64_of_nat n = f64_make False (round_units (of_nat n * ONE_UNITS))"

section \<open>Facts about rounding\<close>

lemma round_even_of_nat [simp]: "round_even (of_nat n) = n"
  by (simp add: round_even_def)

lemma round_even_bounds:
  assumes "0 \<le> x" shows "of_nat (round_even x) \<le> x + 1 / 2" "x - 1 / 2 \<le> of_nat (round_even x)"
proof -
  let ?n = "nat \<lfloor>x\<rfloor>"
  have "(of_nat ?n :: rat) = of_int \<lfloor>x\<rfloor>" using assms by simp
  then have "of_nat ?n \<le> x" "x < of_nat ?n + 1" by linarith+
  then show "of_nat (round_even x) \<le> x + 1 / 2" "x - 1 / 2 \<le> of_nat (round_even x)"
    by (auto simp: round_even_def Let_def field_simps)
qed

lemma round_even_mono:
  assumes "0 \<le> x" and "x \<le> y" shows "round_even x \<le> round_even y"
proof (rule ccontr)
  assume "\<not> round_even x \<le> round_even y"
  then have gt: "round_even y + 1 \<le> round_even x" by simp
  then have "(of_nat (round_even y) + 1 :: rat) \<le> of_nat (round_even x)" by (metis of_nat_1 of_nat_add of_nat_mono)
  then have "y + 1 / 2 \<le> of_nat (round_even y) + 1" "of_nat (round_even x) \<le> x + 1 / 2"
    "of_nat (round_even y) + 1 \<le> (of_nat (round_even x) :: rat)"
    using round_even_bounds [of x] round_even_bounds [of y] assms by simp_all
  then have "x = y" using assms(2) by linarith
  then show False using gt by simp
qed

lemma round_even_ge: "of_nat n \<le> x \<Longrightarrow> n \<le> round_even x"
  using round_even_mono [of "of_nat n" x] by simp

lemma round_even_le: "0 \<le> x \<Longrightarrow> x \<le> of_nat n \<Longrightarrow> round_even x \<le> n"
  using round_even_mono [of x "of_nat n"] by simp

lemma nat_floor_bounds: "0 \<le> (x :: rat) \<Longrightarrow> of_nat (nat \<lfloor>x\<rfloor>) \<le> x \<and> x < of_nat (nat \<lfloor>x\<rfloor>) + 1"
  by simp linarith

lemma units_shift_zero: assumes "x < 2 ^ 53" shows "units_shift x = 0"
proof (cases "0 \<le> x")
  case True
  define n where "n = nat \<lfloor>x\<rfloor>"
  have "(of_nat n :: rat) < of_nat (2 ^ 53)" using nat_floor_bounds [OF True] assms by (simp add: n_def [symmetric])
  then have "n < 2 ^ 53" by (simp only: of_nat_less_iff)
  then have "floorlog 2 n \<le> 53" by (intro floorlog_leI) simp_all
  then show ?thesis by (simp add: units_shift_def n_def [symmetric])
qed (simp add: units_shift_def floorlog_def)

lemma units_shift_bounds:
  assumes "2 ^ 53 \<le> x"
  shows "2 ^ 52 \<le> x / 2 ^ units_shift x" "x / 2 ^ units_shift x < 2 ^ 53"
proof -
  define n where "n = nat \<lfloor>x\<rfloor>"
  have "(0 :: rat) \<le> x" by (rule order_trans [OF _ assms]) simp
  from nat_floor_bounds [OF this] have fl: "of_nat n \<le> x" "x < of_nat n + 1" by (simp_all only: n_def)
  have "(of_nat (2 ^ 53) :: rat) < of_nat (n + 1)" using assms fl(2) by simp
  then have "2 ^ 53 < n + 1" by (simp only: of_nat_less_iff)
  then have big: "2 ^ 53 \<le> n" by simp
  define f where "f = floorlog 2 n"
  have f: "2 ^ (f - 1) \<le> n" "n < 2 ^ f" using floorlog_bounds [of n 2] big by (simp_all add: f_def)
  have "53 < f"
  proof (rule ccontr)
    assume "\<not> 53 < f"
    then have "(2 :: nat) ^ f \<le> 2 ^ 53" by (intro power_increasing) simp_all
    then show False using f(2) big by simp
  qed
  then obtain s where s: "f = s + 53" "0 < s" by (metis add.commute less_imp_add_positive)
  then have us: "units_shift x = s" by (simp add: units_shift_def f_def n_def)
  have "2 ^ (s + 52) \<le> n" using f(1) s by (simp add: add.commute)
  then have "(of_nat (2 ^ (s + 52)) :: rat) \<le> of_nat n" by (rule of_nat_mono)
  then have lo: "2 ^ (s + 52) \<le> x" using fl(1) by (simp only: of_nat_power of_nat_numeral)
  have "n + 1 \<le> 2 ^ (s + 53)" using f(2) s by simp
  then have "(of_nat (n + 1) :: rat) \<le> of_nat (2 ^ (s + 53))" by (rule of_nat_mono)
  then have hi: "x < 2 ^ (s + 53)" using fl(2) by (simp only: of_nat_power of_nat_numeral of_nat_add of_nat_1)
  show "2 ^ 52 \<le> x / 2 ^ units_shift x" "x / 2 ^ units_shift x < 2 ^ 53"
    using lo hi by (simp_all add: us field_simps power_add)
qed

text \<open>Rounding keeps the order of values.\<close>

lemma units_shift_mono: "x \<le> y \<Longrightarrow> units_shift x \<le> units_shift y"
  unfolding units_shift_def by (intro diff_le_mono floorlog_mono nat_mono floor_mono)

lemma round_units_mono:
  assumes "0 \<le> x" and "x \<le> y" shows "round_units x \<le> round_units y"
proof -
  let ?s = "units_shift x" and ?t = "units_shift y"
  have "?s * 2 ^ 52 + round_even (x / 2 ^ ?s) \<le> ?t * 2 ^ 52 + round_even (y / 2 ^ ?t)"
  proof (cases "?s = ?t")
    case True
    then show ?thesis using assms by (simp add: round_even_mono divide_right_mono)
  next
    case False
    then have less: "?s + 1 \<le> ?t" using units_shift_mono [OF assms(2)] by simp
    have "x / 2 ^ ?s \<le> 2 ^ 53" using units_shift_bounds(2) [of x] units_shift_zero [of x]
      by (cases "2 ^ 53 \<le> x") simp_all
    then have x: "round_even (x / 2 ^ ?s) \<le> 2 ^ 53" using assms(1) by (intro round_even_le) simp_all
    have "2 ^ 53 \<le> y" using less units_shift_zero [of y] by (cases "2 ^ 53 \<le> y") simp_all
    then have y: "2 ^ 52 \<le> round_even (y / 2 ^ ?t)" using units_shift_bounds(1) by (intro round_even_ge) simp
    have "(?s + 1) * 2 ^ 52 \<le> ?t * 2 ^ 52" using less by (rule mult_le_mono1)
    with x y show ?thesis by simp
  qed
  then show ?thesis unfolding round_units_def Let_def by linarith
qed

text \<open>A value that is a double is not changed.\<close>

lemma round_units_exact:
  assumes "k < INFINITE" shows "round_units (of_nat (mag_units k)) = k"
proof (cases "k < 2 ^ 53")
  case True
  then have "mag_units k = k"
  proof (cases "k < 2 ^ 52")
    case False
    with True have "k div 2 ^ 52 = 1" by (simp add: le_div_geq)
    moreover have "k = k div 2 ^ 52 * 2 ^ 52 + k mod 2 ^ 52" by simp
    ultimately have "k div 2 ^ 52 = 1" "k = 2 ^ 52 + k mod 2 ^ 52" by simp_all
    then show ?thesis unfolding mag_units_def using False by simp
  qed (simp add: mag_units_def)
  moreover have "units_shift (of_nat k) = 0" using True by (intro units_shift_zero) simp
  ultimately show ?thesis using assms by (simp add: round_units_def)
next
  case False
  define m where "m = 2 ^ 52 + k mod 2 ^ 52"
  define s where "s = k div 2 ^ 52 - 1"
  have m: "2 ^ 52 \<le> m" "m < 2 ^ 53" by (simp_all add: m_def)
  have d: "2 \<le> k div 2 ^ 52" using False div_le_mono [of "2 ^ 53" k "2 ^ 52"] by simp
  have k: "k = s * 2 ^ 52 + m"
  proof -
    have "k = k div 2 ^ 52 * 2 ^ 52 + k mod 2 ^ 52" by simp
    also have "k div 2 ^ 52 = s + 1" using d by (simp add: s_def)
    finally show ?thesis by (simp add: m_def)
  qed
  have u: "mag_units k = m * 2 ^ s" using False by (simp add: mag_units_def m_def s_def)
  have bits: "floorlog 2 (m * 2 ^ s) = s + 53"
  proof (rule antisym)
    have "m * 2 ^ s < 2 ^ (s + 53)" using m(2) by (simp add: power_add)
    then show "floorlog 2 (m * 2 ^ s) \<le> s + 53" by (intro floorlog_leI) simp_all
    have "2 ^ (s + 52) \<le> m * 2 ^ s" using m(1) by (simp add: power_add)
    then have "Suc (s + 52) \<le> floorlog 2 (m * 2 ^ s)" by (intro floorlog_ge_SucI) simp_all
    then show "s + 53 \<le> floorlog 2 (m * 2 ^ s)" by simp
  qed
  have fl: "nat \<lfloor>of_nat (m * 2 ^ s) :: rat\<rfloor> = m * 2 ^ s" by (simp only: floor_of_nat nat_int)
  have sh: "units_shift (of_nat (m * 2 ^ s)) = s" unfolding units_shift_def fl bits by simp
  have q: "(of_nat (m * 2 ^ s) :: rat) / 2 ^ s = of_nat m" by simp
  show ?thesis unfolding u round_units_def Let_def sh q using assms k by simp
qed

lemma round_units_zero [simp]: "round_units 0 = 0"
  using round_units_exact [of 0] by (simp add: mag_units_def INFINITE_def)

lemma round_units_le_INFINITE: "round_units x \<le> INFINITE"
  by (simp add: round_units_def Let_def)

lemma mag_make [simp]: "k \<le> INFINITE \<Longrightarrow> f64_mag (f64_make neg k) = k"
  by (simp add: f64_mag_def f64_make_def INFINITE_def unat_of_nat)

lemma negative_make [simp]: "k \<le> INFINITE \<Longrightarrow> f64_negative (f64_make neg k) = neg"
  by (simp add: f64_negative_def f64_make_def INFINITE_def unat_of_nat)

section \<open>Amounts\<close>

text \<open>
  A double that is not NaN and not below zero, as prices and costs are. Negative zero is one. The
  operations keep amounts and their order; that holds for infinite results too.
\<close>

definition f64_amount :: "f64 \<Rightarrow> bool" where
  "f64_amount b \<longleftrightarrow> \<not> f64_is_nan b \<and> 0 \<le> f64_key b"

lemma key_amount: "f64_amount b \<Longrightarrow> f64_key b = int (f64_mag b)"
  by (auto simp: f64_amount_def f64_key_def f64_mag_def Let_def split: if_splits)

lemma amount_sign: "f64_amount b \<Longrightarrow> f64_negative b \<Longrightarrow> f64_mag b = 0"
  by (auto simp: f64_amount_def f64_key_def f64_mag_def f64_negative_def Let_def split: if_splits)

lemma amount_make: "k \<le> INFINITE \<Longrightarrow> neg \<longrightarrow> k = 0 \<Longrightarrow> f64_amount (f64_make neg k)"
  unfolding f64_amount_def f64_key_def f64_is_nan_def
  using mag_make [of k neg] negative_make [of k neg] by (auto simp: f64_mag_def f64_negative_def Let_def)

lemma amount_le: "f64_amount a \<Longrightarrow> f64_amount b \<Longrightarrow> f64_less_eq a b \<longleftrightarrow> f64_mag a \<le> f64_mag b"
  by (simp add: f64_less_eq_def key_amount)

lemma amount_mag: "f64_amount b \<Longrightarrow> f64_mag b \<le> INFINITE"
  by (simp add: f64_amount_def f64_is_nan_def)

lemma mag_units_mono:
  assumes "k \<le> l" and "l < INFINITE" shows "mag_units k \<le> mag_units l"
proof (rule ccontr)
  assume "\<not> mag_units k \<le> mag_units l"
  then have "(of_nat (mag_units l) :: rat) \<le> of_nat (mag_units k)" and n: "k \<noteq> l" by auto
  then have "round_units (of_nat (mag_units l)) \<le> round_units (of_nat (mag_units k))" by (intro round_units_mono) simp_all
  then show False using assms n by (simp add: round_units_exact)
qed

lemma INFINITE_neq_0 [simp]: "INFINITE \<noteq> 0" "0 < INFINITE"
  by (simp_all add: INFINITE_def)

lemma ONE_UNITS_pos [simp]: "0 < ONE_UNITS" "0 \<le> ONE_UNITS" "ONE_UNITS \<noteq> 0"
  by (simp_all add: ONE_UNITS_def)

lemma mag_units_0 [simp]: "mag_units 0 = 0"
  by (simp add: mag_units_def)

lemma amount_mul:
  assumes "f64_amount a" "f64_amount b" "\<not> f64_is_infinite b" "f64_is_infinite a \<longrightarrow> \<not> f64_is_zero b"
  shows "f64_amount (f64_mul a b)"
    "f64_mag (f64_mul a b) = (if f64_is_infinite a then INFINITE
       else round_units (of_nat (mag_units (f64_mag a)) * of_nat (mag_units (f64_mag b)) / ONE_UNITS))"
proof -
  let ?k = "if f64_is_infinite a then INFINITE
       else round_units (of_nat (mag_units (f64_mag a)) * of_nat (mag_units (f64_mag b)) / ONE_UNITS)"
  have n: "\<not> f64_is_nan a" "\<not> f64_is_nan b" using assms by (simp_all add: f64_amount_def)
  then have m: "f64_mul a b = f64_make (f64_negative a \<noteq> f64_negative b) ?k"
    using assms(3,4) by (simp add: f64_mul_def Let_def)
  have k: "?k \<le> INFINITE" by (simp add: round_units_le_INFINITE)
  have z: "f64_mag a = 0 \<or> f64_mag b = 0" if "f64_negative a \<noteq> f64_negative b"
    using that amount_sign [OF assms(1)] amount_sign [OF assms(2)] by (cases "f64_negative a") simp_all
  have "(f64_negative a \<noteq> f64_negative b) \<longrightarrow> ?k = 0"
  proof
    assume "f64_negative a \<noteq> f64_negative b"
    from z [OF this] show "?k = 0" using assms(4) by (auto simp: f64_is_infinite_def f64_is_zero_def)
  qed
  with k show "f64_amount (f64_mul a b)" unfolding m by (rule amount_make)
  show "f64_mag (f64_mul a b) = ?k" unfolding m using k by (rule mag_make)
qed

lemma amount_div:
  assumes "f64_amount a" "f64_amount b" "\<not> f64_is_infinite b" "\<not> f64_is_zero b"
  shows "f64_amount (f64_div a b)"
    "f64_mag (f64_div a b) = (if f64_is_infinite a then INFINITE
       else round_units (of_nat (mag_units (f64_mag a)) / of_nat (mag_units (f64_mag b)) * ONE_UNITS))"
proof -
  let ?k = "if f64_is_infinite a then INFINITE
       else round_units (of_nat (mag_units (f64_mag a)) / of_nat (mag_units (f64_mag b)) * ONE_UNITS)"
  have n: "\<not> f64_is_nan a" "\<not> f64_is_nan b" using assms by (simp_all add: f64_amount_def)
  then have m: "f64_div a b = f64_make (f64_negative a \<noteq> f64_negative b) ?k"
    using assms(3,4) by (simp add: f64_div_def Let_def)
  have k: "?k \<le> INFINITE" by (simp add: round_units_le_INFINITE)
  have z: "f64_mag a = 0 \<or> f64_mag b = 0" if "f64_negative a \<noteq> f64_negative b"
    using that amount_sign [OF assms(1)] amount_sign [OF assms(2)] by (cases "f64_negative a") simp_all
  have "(f64_negative a \<noteq> f64_negative b) \<longrightarrow> ?k = 0"
  proof
    assume "f64_negative a \<noteq> f64_negative b"
    from z [OF this] show "?k = 0" using assms(4) by (auto simp: f64_is_infinite_def f64_is_zero_def)
  qed
  with k show "f64_amount (f64_div a b)" unfolding m by (rule amount_make)
  show "f64_mag (f64_div a b) = ?k" unfolding m using k by (rule mag_make)
qed

lemma amount_round:
  assumes "f64_amount a"
  shows "f64_amount (f64_round a)"
    "f64_mag (f64_round a) = (if f64_is_infinite a then INFINITE
       else round_units (of_nat (nat \<lfloor>of_nat (mag_units (f64_mag a)) / ONE_UNITS + 1 / 2 :: rat\<rfloor>) * ONE_UNITS))"
proof -
  let ?k = "round_units (of_nat (nat \<lfloor>of_nat (mag_units (f64_mag a)) / ONE_UNITS + 1 / 2 :: rat\<rfloor>) * ONE_UNITS)"
  have n: "\<not> f64_is_nan a" using assms by (simp add: f64_amount_def)
  have m: "f64_round a = (if f64_is_infinite a then a else f64_make (f64_negative a) ?k)"
    using n by (simp add: f64_round_def)
  have k: "?k \<le> INFINITE" by (rule round_units_le_INFINITE)
  have "f64_negative a \<longrightarrow> ?k = 0" using amount_sign [OF assms] by auto
  from amount_make [OF k this] show "f64_amount (f64_round a)" using assms by (simp add: m)
  show "f64_mag (f64_round a) = (if f64_is_infinite a then INFINITE else ?k)"
    using mag_make [OF k] by (simp add: m f64_is_infinite_def)
qed

lemma amount_add:
  assumes "f64_amount a" "f64_amount b"
  shows "f64_amount (f64_add a b)"
    "f64_mag (f64_add a b) = (if f64_is_infinite a \<or> f64_is_infinite b then INFINITE
       else round_units (of_nat (mag_units (f64_mag a) + mag_units (f64_mag b))))"
proof -
  let ?k = "round_units (of_nat (mag_units (f64_mag a) + mag_units (f64_mag b)))"
  have n: "\<not> f64_is_nan a" "\<not> f64_is_nan b" using assms by (simp_all add: f64_amount_def)
  have i: "f64_is_infinite c \<Longrightarrow> f64_amount c \<Longrightarrow> \<not> f64_negative c" for c
    using amount_sign by (auto simp: f64_is_infinite_def)
  have u: "f64_units c = int (mag_units (f64_mag c))" if "f64_amount c" for c
    using amount_sign [OF that] by (auto simp: f64_units_def)
  have m: "f64_add a b = (if f64_is_infinite a then a else if f64_is_infinite b then b
      else f64_make (f64_negative a \<and> f64_negative b \<and> mag_units (f64_mag a) + mag_units (f64_mag b) = 0) ?k)"
    using n i assms by (auto simp: f64_add_def Let_def u simp flip: of_nat_add)
  have k: "?k \<le> INFINITE" by (rule round_units_le_INFINITE)
  show "f64_amount (f64_add a b)"
    using assms amount_make [OF k] by (auto simp: m)
  show "f64_mag (f64_add a b) = (if f64_is_infinite a \<or> f64_is_infinite b then INFINITE else ?k)"
    using mag_make [OF k] by (simp add: m f64_is_infinite_def)
qed

text \<open>More in, not less out.\<close>

lemma amount_units_mono:
  assumes "f64_amount a" "f64_amount b" "f64_less_eq a b" "\<not> f64_is_infinite b"
  shows "\<not> f64_is_infinite a" "mag_units (f64_mag a) \<le> mag_units (f64_mag b)"
proof -
  have le: "f64_mag a \<le> f64_mag b" using assms(1-3) by (simp add: amount_le)
  have b: "f64_mag b < INFINITE" using amount_mag [OF assms(2)] assms(4) by (simp add: f64_is_infinite_def)
  then show "\<not> f64_is_infinite a" using le by (simp add: f64_is_infinite_def)
  show "mag_units (f64_mag a) \<le> mag_units (f64_mag b)" using le b by (rule mag_units_mono)
qed

lemma amount_mul_mono:
  assumes "f64_amount a" "f64_amount b" "f64_less_eq a b" "f64_amount p" "\<not> f64_is_infinite p"
    and "f64_is_infinite b \<longrightarrow> \<not> f64_is_zero p"
  shows "f64_less_eq (f64_mul a p) (f64_mul b p)"
proof -
  have "f64_is_infinite a \<longrightarrow> f64_is_infinite b"
    using assms(1-3) amount_mag [OF assms(2)] by (auto simp: f64_is_infinite_def amount_le)
  then have a: "f64_is_infinite a \<longrightarrow> \<not> f64_is_zero p" using assms(6) by simp
  note m = amount_mul [OF assms(1,4,5) a] amount_mul [OF assms(2,4,5,6)]
  show ?thesis
  proof (cases "f64_is_infinite b")
    case True
    then show ?thesis using m amount_mag [OF m(1)] by (simp add: amount_le)
  next
    case False
    note u = amount_units_mono [OF assms(1-3) False]
    have "(of_nat (mag_units (f64_mag a)) :: rat) \<le> of_nat (mag_units (f64_mag b))" using u(2) by simp
    then have "round_units (of_nat (mag_units (f64_mag a)) * of_nat (mag_units (f64_mag p)) / ONE_UNITS) \<le>
        round_units (of_nat (mag_units (f64_mag b)) * of_nat (mag_units (f64_mag p)) / ONE_UNITS)"
      by (intro round_units_mono divide_right_mono mult_right_mono) simp_all
    then show ?thesis using m u(1) False by (simp add: amount_le)
  qed
qed

lemma amount_div_mono:
  assumes "f64_amount a" "f64_amount b" "f64_less_eq a b" "f64_amount p" "\<not> f64_is_infinite p" "\<not> f64_is_zero p"
  shows "f64_less_eq (f64_div a p) (f64_div b p)"
proof -
  note m = amount_div [OF assms(1,4-6)] amount_div [OF assms(2,4-6)]
  show ?thesis
  proof (cases "f64_is_infinite b")
    case True
    then show ?thesis using m amount_mag [OF m(1)] by (simp add: amount_le)
  next
    case False
    note u = amount_units_mono [OF assms(1-3) False]
    have "(of_nat (mag_units (f64_mag a)) :: rat) \<le> of_nat (mag_units (f64_mag b))" using u(2) by simp
    then have "round_units (of_nat (mag_units (f64_mag a)) / of_nat (mag_units (f64_mag p)) * ONE_UNITS) \<le>
        round_units (of_nat (mag_units (f64_mag b)) / of_nat (mag_units (f64_mag p)) * ONE_UNITS)"
      by (intro round_units_mono divide_right_mono mult_right_mono) simp_all
    then show ?thesis using m u(1) False by (simp add: amount_le)
  qed
qed

lemma amount_round_mono:
  assumes "f64_amount a" "f64_amount b" "f64_less_eq a b"
  shows "f64_less_eq (f64_round a) (f64_round b)"
proof -
  note m = amount_round [OF assms(1)] amount_round [OF assms(2)]
  let ?n = "\<lambda>c. nat \<lfloor>of_nat (mag_units (f64_mag c)) / ONE_UNITS + 1 / 2\<rfloor>"
  show ?thesis
  proof (cases "f64_is_infinite b")
    case True
    then show ?thesis using m amount_mag [OF m(1)] by (simp add: amount_le)
  next
    case False
    note u = amount_units_mono [OF assms False]
    have "(of_nat (mag_units (f64_mag a)) :: rat) \<le> of_nat (mag_units (f64_mag b))" using u(2) by simp
    then have "?n a \<le> ?n b" by (intro nat_mono floor_mono add_right_mono divide_right_mono) simp_all
    then have "(of_nat (?n a) :: rat) \<le> of_nat (?n b)" by (rule of_nat_mono)
    then have "round_units (of_nat (?n a) * ONE_UNITS) \<le> round_units (of_nat (?n b) * ONE_UNITS)"
      by (intro round_units_mono mult_right_mono mult_nonneg_nonneg) simp_all
    then show ?thesis using m u(1) False by (simp add: amount_le)
  qed
qed

lemma amount_of_nat: "f64_amount (f64_of_nat n)" "f64_mag (f64_of_nat n) = round_units (of_nat n * ONE_UNITS)"
  by (simp_all add: f64_of_nat_def amount_make round_units_le_INFINITE)

lemma of_nat_mono_f64: "m \<le> n \<Longrightarrow> f64_less_eq (f64_of_nat m) (f64_of_nat n)"
  by (simp add: amount_le amount_of_nat round_units_mono mult_right_mono)

text \<open>Adding an amount does not make a sum smaller.\<close>

lemma round_units_of_units:
  assumes "f64_amount a" "\<not> f64_is_infinite a"
  shows "round_units (of_nat (mag_units (f64_mag a))) = f64_mag a"
  using amount_mag [OF assms(1)] assms(2) by (intro round_units_exact) (simp add: f64_is_infinite_def)

lemma amount_add_ge:
  assumes "f64_amount a" "f64_amount b"
  shows "f64_less_eq a (f64_add a b)" "f64_less_eq b (f64_add a b)"
proof -
  note s = amount_add [OF assms]
  have l: "f64_mag c \<le> f64_mag (f64_add a b)" if "c = a \<or> c = b" for c
  proof (cases "f64_is_infinite a \<or> f64_is_infinite b")
    case True
    then show ?thesis using s(2) that amount_mag [OF assms(1)] amount_mag [OF assms(2)] by auto
  next
    case False
    have "round_units (of_nat (mag_units (f64_mag c))) \<le>
        round_units (of_nat (mag_units (f64_mag a) + mag_units (f64_mag b)))"
      using that by (intro round_units_mono) auto
    then show ?thesis using False s(2) that round_units_of_units assms by auto
  qed
  show "f64_less_eq a (f64_add a b)" "f64_less_eq b (f64_add a b)"
    using l s(1) assms by (simp_all add: amount_le)
qed

text \<open>An integer of more than 53 bits loses the lowest ones.\<close>

lemma of_nat_large:
  assumes "floorlog 2 n = d + 53"
  shows "round_units (of_nat n * ONE_UNITS) = min INFINITE ((d + 1074) * 2 ^ 52 + round_even (of_nat n / 2 ^ d))"
proof -
  have pos: "0 < n" using assms by (cases n) (simp_all add: floorlog_def)
  have x: "(of_nat n * ONE_UNITS) = of_nat (n * 2 ^ 1074)" by (simp only: ONE_UNITS_def of_nat_mult of_nat_power of_nat_numeral)
  have "floorlog 2 (n * 2 ^ 1074) = d + 53 + 1074" using floorlog_power [OF pos, of 2 1074] assms by (simp only:)
  then have sh: "units_shift (of_nat n * ONE_UNITS) = d + 1074"
    unfolding units_shift_def x floor_of_nat nat_int by simp
  have "(of_nat n * ONE_UNITS) / 2 ^ (d + 1074) = of_nat n / 2 ^ d"
    unfolding ONE_UNITS_def power_add by (rule mult_divide_mult_cancel_right) simp
  then show ?thesis unfolding round_units_def sh Let_def by (simp only:)
qed

end
