(* ===== verification/Metric_Events.thy ===== *)
theory Metric_Events
  imports Relay_Events Binary64
begin

text \<open>
  Metric measurements (\<^verbatim>\<open>crates/types/src/api/event.rs\<close>): the wire record, its validation and the typed
  measurement that exporters receive. An envelope is accepted or rejected as a whole.

  Doubles are those of \<open>Binary64\<close>. Rust compares them by value, which for values that are not NaN is
  the order of \<open>f64_key\<close>.
\<close>

section \<open>Numbers\<close>

fun as_u64 :: "json_number \<Rightarrow> 64 word option" where
  "as_u64 (PosInt v) = Some v"
| "as_u64 _ = None"

fun as_i64 :: "json_number \<Rightarrow> 64 word option" where
  "as_i64 (PosInt v) = (if unat v < 2 ^ 63 then Some v else None)"
| "as_i64 (NegInt v) = Some v"
| "as_i64 (Float _) = None"

fun as_f64 :: "json_number \<Rightarrow> f64" where
  "as_f64 (PosInt v) = f64_of_nat (unat v)"
| "as_f64 (NegInt v) = f64_neg (f64_of_nat (2 ^ 64 - unat v))"
| "as_f64 (Float b) = b"

fun as_number :: "json \<Rightarrow> json_number option" where
  "as_number (JNumber n) = Some n"
| "as_number _ = None"

fun as_bool :: "json \<Rightarrow> bool option" where
  "as_bool (JBool b) = Some b"
| "as_bool _ = None"

section \<open>Measurements\<close>

datatype metric_kind = Counter | UpDownCounter | Gauge | Histogram

fun metric_kind_str :: "metric_kind \<Rightarrow> string" where
  "metric_kind_str Counter = ''counter''"
| "metric_kind_str UpDownCounter = ''up_down_counter''"
| "metric_kind_str Gauge = ''gauge''"
| "metric_kind_str Histogram = ''histogram''"

datatype metric_value_type = U64 | I64 | F64

fun metric_value_type_str :: "metric_value_type \<Rightarrow> string" where
  "metric_value_type_str U64 = ''u64''"
| "metric_value_type_str I64 = ''i64''"
| "metric_value_type_str F64 = ''f64''"

record metric_measurement =
  mm_name :: string
  mm_kind :: metric_kind
  mm_value_type :: metric_value_type
  mm_value :: json
  mm_unit :: "string option"
  mm_description :: "string option"
  mm_attributes :: "json option"
  mm_boundaries :: "f64 list option"

datatype metric_validation_error = MetricValidationError (message_of: string)

definition MAX_HISTOGRAM_BOUNDARIES :: nat where
  "MAX_HISTOGRAM_BOUNDARIES = 64"

text \<open>The tuple structs with a private field are represented by the value they wrap.\<close>

definition finite_f64_try_from :: "f64 \<Rightarrow> metric_validation_error + f64" where
  "finite_f64_try_from b =
     (if f64_is_finite b then Inr b else Inl (MetricValidationError ''must be finite''))"

definition is_ascii_alphabetic :: "char \<Rightarrow> bool" where
  "is_ascii_alphabetic c \<longleftrightarrow> (CHR ''a'' \<le> c \<and> c \<le> CHR ''z'') \<or> (CHR ''A'' \<le> c \<and> c \<le> CHR ''Z'')"

definition instrument_char :: "char \<Rightarrow> bool" where
  "instrument_char c \<longleftrightarrow> is_ascii_alphanumeric c \<or> c \<in> {CHR ''_'', CHR ''.'', CHR ''-'', CHR ''/''}"

definition instrument_name_from_str :: "string \<Rightarrow> metric_validation_error + string" where
  "instrument_name_from_str name =
     (if (case name of [] \<Rightarrow> False | c # _ \<Rightarrow> is_ascii_alphabetic c) \<and> length name \<le> 255 \<and>
         list_all instrument_char (drop 1 name)
      then Inr name
      else Inl (MetricValidationError (''name must be 1-255 ASCII bytes, start with a letter, and contain '' @
        ''only letters, digits, '' @ [CHR 0x27] @ ''_'' @ [CHR 0x27] @ '', '' @ [CHR 0x27] @ ''.'' @ [CHR 0x27] @
        '', '' @ [CHR 0x27] @ ''-'' @ [CHR 0x27] @ '', or '' @ [CHR 0x27] @ ''/'' @ [CHR 0x27])))"

datatype metric_value = VU64 "64 word" | VI64 "64 word" | VF64 f64

fun value_type_of :: "metric_value \<Rightarrow> metric_value_type" where
  "value_type_of (VU64 _) = U64"
| "value_type_of (VI64 _) = I64"
| "value_type_of (VF64 _) = F64"

fun metric_value_parse :: "metric_value_type \<Rightarrow> json \<Rightarrow> metric_validation_error + metric_value" where
  "metric_value_parse U64 value = (case Option.bind (as_number value) as_u64 of
       Some v \<Rightarrow> if unat v \<le> 2 ^ 63 - 1 then Inr (VU64 v)
         else Inl (MetricValidationError ''value must be an unsigned integer no greater than i64::MAX'')
     | None \<Rightarrow> Inl (MetricValidationError ''value must be an unsigned integer no greater than i64::MAX''))"
| "metric_value_parse I64 value = (case Option.bind (as_number value) as_i64 of
       Some v \<Rightarrow> Inr (VI64 v)
     | None \<Rightarrow> Inl (MetricValidationError ''value must be a signed integer''))"
| "metric_value_parse F64 value = (case as_number value of
       None \<Rightarrow> Inl (MetricValidationError ''value must be a number'')
     | Some n \<Rightarrow> (case finite_f64_try_from (as_f64 n) of Inl e \<Rightarrow> Inl e | Inr b \<Rightarrow> Inr (VF64 b)))"

definition histogram_boundaries_try_from :: "f64 list \<Rightarrow> metric_validation_error + f64 list" where
  "histogram_boundaries_try_from bs =
     (if length bs > MAX_HISTOGRAM_BOUNDARIES
      then Inl (MetricValidationError ''boundaries must contain at most 64 entries'')
      else (case collect_results finite_f64_try_from bs of
          Inl e \<Rightarrow> Inl e
        | Inr fs \<Rightarrow>
            if list_ex (\<lambda>(a, b). \<not> f64_less a b) (zip fs (drop 1 fs))
            then Inl (MetricValidationError ''boundaries must be strictly increasing without duplicates'')
            else Inr fs))"

record instrument_descriptor =
  id_name :: string
  id_kind :: metric_kind
  id_unit :: "string option"
  id_description :: "string option"
  id_boundaries :: "f64 list option"

definition instrument_descriptor_new ::
    "string \<Rightarrow> metric_kind \<Rightarrow> string option \<Rightarrow> string option \<Rightarrow> f64 list option \<Rightarrow>
     metric_validation_error + instrument_descriptor" where
  "instrument_descriptor_new name kind unit description boundaries =
     (if boundaries \<noteq> None \<and> kind \<noteq> Histogram
      then Inl (MetricValidationError ''boundaries are only valid for histogram measurements'')
      else if (case unit of None \<Rightarrow> False
               | Some u \<Rightarrow> \<not> list_all (\<lambda>c. of_char c < (128 :: nat)) u \<or> length u > 63)
      then Inl (MetricValidationError ''unit must be ASCII and at most 63 bytes'')
      else Inr \<lparr>id_name = name, id_kind = kind, id_unit = unit, id_description = description,
                id_boundaries = boundaries\<rparr>)"

definition descriptor_key :: "instrument_descriptor \<Rightarrow> string" where
  "descriptor_key d = to_ascii_lowercase (id_name d)"

fun kind_supports :: "metric_kind \<Rightarrow> metric_value_type \<Rightarrow> bool" where
  "kind_supports Counter t = (t = U64 \<or> t = F64)"
| "kind_supports UpDownCounter t = (t = I64 \<or> t = F64)"
| "kind_supports Gauge t = True"
| "kind_supports Histogram t = (t = U64 \<or> t = F64)"

definition descriptor_accepts :: "instrument_descriptor \<Rightarrow> metric_value \<Rightarrow> metric_validation_error + unit" where
  "descriptor_accepts d v =
     (if id_kind d = Counter \<and> (case v of VF64 b \<Rightarrow> f64_less b 0 | _ \<Rightarrow> False)
      then Inl (MetricValidationError ''counter values must be non-negative'')
      else if kind_supports (id_kind d) (value_type_of v) then Inr ()
      else Inl (MetricValidationError (''kind '' @ metric_kind_str (id_kind d) @
        '' does not support value_type '' @ metric_value_type_str (value_type_of v))))"

definition has_same_identity :: "instrument_descriptor \<Rightarrow> instrument_descriptor \<Rightarrow> bool" where
  "has_same_identity d e \<longleftrightarrow> id_kind d = id_kind e \<and> id_unit d = id_unit e"

section \<open>Attributes\<close>

datatype attribute_value =
    AString string | ABool bool | AI64 "64 word" | AF64 f64
  | AStringArray "string list" | ABoolArray "bool list" | AI64Array "64 word list" | AF64Array "f64 list"

definition mixed_array_error :: "metric_validation_error + 'a" where
  "mixed_array_error = Inl (MetricValidationError ''attribute arrays must contain one primitive type'')"

definition float_element :: "json \<Rightarrow> f64 option" where
  "float_element v = (case as_number v of
       None \<Rightarrow> None
     | Some n \<Rightarrow> if as_i64 n \<noteq> None then None
         else (case finite_f64_try_from (as_f64 n) of Inl _ \<Rightarrow> None | Inr b \<Rightarrow> Some b))"

text \<open>The two mutually recursive parsers; the array is only parsed again through its first element.\<close>

fun parse_attribute_value :: "json \<Rightarrow> metric_validation_error + attribute_value" where
  "parse_attribute_value (JString s) = Inr (AString s)"
| "parse_attribute_value (JBool b) = Inr (ABool b)"
| "parse_attribute_value (JNumber n) =
     (case as_i64 n of
        Some v \<Rightarrow> Inr (AI64 v)
      | None \<Rightarrow>
          if as_u64 n \<noteq> None
          then Inl (MetricValidationError ''attribute values must not exceed the maximum signed 64-bit integer'')
          else (case finite_f64_try_from (as_f64 n) of Inl e \<Rightarrow> Inl e | Inr b \<Rightarrow> Inr (AF64 b)))"
| "parse_attribute_value (JArray []) =
     Inl (MetricValidationError ''attribute arrays must not be empty and untyped'')"
| "parse_attribute_value (JArray (v # vs)) =
     (case parse_attribute_value v of
        Inl e \<Rightarrow> Inl e
      | Inr (AString _) \<Rightarrow> (case collect_options json_as_str (v # vs) of
            Some ss \<Rightarrow> Inr (AStringArray ss) | None \<Rightarrow> mixed_array_error)
      | Inr (ABool _) \<Rightarrow> (case collect_options as_bool (v # vs) of
            Some bs \<Rightarrow> Inr (ABoolArray bs) | None \<Rightarrow> mixed_array_error)
      | Inr (AI64 _) \<Rightarrow> (case collect_options (\<lambda>v. Option.bind (as_number v) as_i64) (v # vs) of
            Some is \<Rightarrow> Inr (AI64Array is) | None \<Rightarrow> mixed_array_error)
      | Inr (AF64 _) \<Rightarrow> (case collect_options float_element (v # vs) of
            Some fs \<Rightarrow> Inr (AF64Array fs) | None \<Rightarrow> mixed_array_error)
      | Inr _ \<Rightarrow> Inl (MetricValidationError ''attribute arrays must contain primitive values''))"
| "parse_attribute_value JNull = Inl (MetricValidationError ''attribute values must not be null'')"
| "parse_attribute_value (JObject _) = Inl (MetricValidationError
     ''attribute values must be primitive values or homogeneous primitive arrays'')"

definition parse_attribute :: "string \<times> json \<Rightarrow> metric_validation_error + (string \<times> attribute_value)" where
  "parse_attribute kv = (case kv of (key, value) \<Rightarrow>
     if str_trim key = [] then Inl (MetricValidationError ''attributes contains a blank attribute key'')
     else (case parse_attribute_value value of Inl e \<Rightarrow> Inl e | Inr v \<Rightarrow> Inr (key, v)))"

text \<open>An object is ordered by key, and so is the map that is collected from it.\<close>

fun metric_attributes_try_from ::
    "json option \<Rightarrow> metric_validation_error + (string \<times> attribute_value) list" where
  "metric_attributes_try_from None = Inr []"
| "metric_attributes_try_from (Some (JObject m)) = collect_results parse_attribute m"
| "metric_attributes_try_from (Some _) = Inl (MetricValidationError ''attributes must be a JSON object'')"

section \<open>Envelopes\<close>

record validated_measurement =
  vm_descriptor :: instrument_descriptor
  vm_value :: metric_value
  vm_attributes :: "(string \<times> attribute_value) list"

definition validated_try_from :: "metric_measurement \<Rightarrow> metric_validation_error + validated_measurement" where
  "validated_try_from wire =
     (case instrument_name_from_str (mm_name wire) of Inl e \<Rightarrow> Inl e | Inr name \<Rightarrow>
     (case (case mm_boundaries wire of None \<Rightarrow> Inr None
            | Some bs \<Rightarrow> map_sum id Some (histogram_boundaries_try_from bs)) of Inl e \<Rightarrow> Inl e | Inr bs \<Rightarrow>
     (case instrument_descriptor_new name (mm_kind wire) (mm_unit wire) (mm_description wire) bs of
        Inl e \<Rightarrow> Inl e | Inr d \<Rightarrow>
     (case metric_value_parse (mm_value_type wire) (mm_value wire) of Inl e \<Rightarrow> Inl e | Inr v \<Rightarrow>
     (case descriptor_accepts d v of Inl e \<Rightarrow> Inl e | Inr _ \<Rightarrow>
     (case metric_attributes_try_from (mm_attributes wire) of Inl e \<Rightarrow> Inl e | Inr as \<Rightarrow>
       Inr \<lparr>vm_descriptor = d, vm_value = v, vm_attributes = as\<rparr>))))))"

definition indexed_error :: "nat \<Rightarrow> metric_validation_error \<Rightarrow> metric_validation_error" where
  "indexed_error i e = MetricValidationError (''measurements['' @ show_nat i @ ''] '' @ message_of e)"

text \<open>
  The second pass. \<open>seen\<close> maps a canonical name to the index of its last measurement, and \<open>parsed\<close> is
  the whole list, into which the indices point.
\<close>

fun check_descriptors ::
    "validated_measurement list \<Rightarrow> (string \<times> nat) list \<Rightarrow> nat \<Rightarrow> validated_measurement list \<Rightarrow>
     metric_validation_error + unit" where
  "check_descriptors parsed seen i [] = Inr ()"
| "check_descriptors parsed seen i (m # ms) =
     (let key = descriptor_key (vm_descriptor m)
      in case map_of seen key of
           Some j \<Rightarrow>
             if \<not> has_same_identity (vm_descriptor (parsed ! j)) (vm_descriptor m) \<or>
                value_type_of (vm_value (parsed ! j)) \<noteq> value_type_of (vm_value m)
             then Inl (MetricValidationError (''measurements['' @ show_nat i @
               ''] conflicts with the descriptor for measurements['' @ show_nat j @ '']''))
             else check_descriptors parsed (bt_insert key i seen) (i + 1) ms
         | None \<Rightarrow> check_descriptors parsed (bt_insert key i seen) (i + 1) ms)"

definition validate_metric_measurements ::
    "metric_measurement list \<Rightarrow> metric_validation_error + validated_measurement list" where
  "validate_metric_measurements ms =
     (if ms = [] then Inl (MetricValidationError ''measurements must contain at least one entry'')
      else (case collect_results (\<lambda>(i, m). map_sum (indexed_error i) id (validated_try_from m))
                   (enumerate 0 ms) of
          Inl e \<Rightarrow> Inl e
        | Inr parsed \<Rightarrow> (case check_descriptors parsed [] 0 parsed of
              Inl e \<Rightarrow> Inl e | Inr _ \<Rightarrow> Inr parsed)))"

section \<open>What an acceptable envelope is\<close>

definition valid_name :: "string \<Rightarrow> bool" where
  "valid_name n \<longleftrightarrow> n \<noteq> [] \<and> length n \<le> 255 \<and> is_ascii_alphabetic (hd n) \<and> (\<forall>c\<in>set (tl n). instrument_char c)"

definition valid_unit :: "string option \<Rightarrow> bool" where
  "valid_unit unit \<longleftrightarrow> (\<forall>u. unit = Some u \<longrightarrow> length u \<le> 63 \<and> (\<forall>c\<in>set u. of_char c < (128 :: nat)))"

definition valid_boundaries :: "metric_kind \<Rightarrow> f64 list option \<Rightarrow> bool" where
  "valid_boundaries kind boundaries \<longleftrightarrow> (\<forall>bs. boundaries = Some bs \<longrightarrow>
     kind = Histogram \<and> length bs \<le> 64 \<and> (\<forall>b\<in>set bs. f64_is_finite b) \<and> sorted_wrt f64_less bs)"

fun valid_value :: "metric_kind \<Rightarrow> metric_value_type \<Rightarrow> json \<Rightarrow> bool" where
  "valid_value k U64 j \<longleftrightarrow> k \<noteq> UpDownCounter \<and> (\<exists>v. j = JNumber (PosInt v) \<and> unat v < 2 ^ 63)"
| "valid_value k I64 j \<longleftrightarrow> (k = UpDownCounter \<or> k = Gauge) \<and>
     ((\<exists>v. j = JNumber (PosInt v) \<and> unat v < 2 ^ 63) \<or> (\<exists>v. j = JNumber (NegInt v)))"
| "valid_value k F64 j \<longleftrightarrow> (\<exists>n. j = JNumber n \<and> f64_is_finite (as_f64 n) \<and> (k = Counter \<longrightarrow> 0 \<le> f64_key (as_f64 n)))"

definition signed_number :: "json \<Rightarrow> bool" where
  "signed_number j \<longleftrightarrow> (\<exists>n. j = JNumber n \<and> as_i64 n \<noteq> None)"

definition finite_float :: "json \<Rightarrow> bool" where
  "finite_float j \<longleftrightarrow> (\<exists>b. j = JNumber (Float b) \<and> f64_is_finite b)"

definition is_string :: "json \<Rightarrow> bool" where
  "is_string j \<longleftrightarrow> (\<exists>s. j = JString s)"

definition is_boolean :: "json \<Rightarrow> bool" where
  "is_boolean j \<longleftrightarrow> (\<exists>b. j = JBool b)"

definition valid_attribute :: "json \<Rightarrow> bool" where
  "valid_attribute j \<longleftrightarrow> is_string j \<or> is_boolean j \<or> signed_number j \<or> finite_float j \<or>
     (\<exists>v vs. j = JArray (v # vs) \<and>
        ((\<forall>x\<in>set (v # vs). is_string x) \<or> (\<forall>x\<in>set (v # vs). is_boolean x) \<or> (\<forall>x\<in>set (v # vs). signed_number x) \<or>
         (finite_float v \<and> (\<forall>x\<in>set vs. float_element x \<noteq> None))))"

fun valid_attributes :: "json option \<Rightarrow> bool" where
  "valid_attributes None = True"
| "valid_attributes (Some (JObject m)) = (\<forall>(k, v)\<in>set m. str_trim k \<noteq> [] \<and> valid_attribute v)"
| "valid_attributes (Some _) = False"

definition valid_measurement :: "metric_measurement \<Rightarrow> bool" where
  "valid_measurement m \<longleftrightarrow> valid_name (mm_name m) \<and> valid_unit (mm_unit m) \<and>
     valid_boundaries (mm_kind m) (mm_boundaries m) \<and>
     valid_value (mm_kind m) (mm_value_type m) (mm_value m) \<and> valid_attributes (mm_attributes m)"

definition same_instrument :: "metric_measurement \<Rightarrow> metric_measurement \<Rightarrow> bool" where
  "same_instrument a b \<longleftrightarrow> to_ascii_lowercase (mm_name a) = to_ascii_lowercase (mm_name b)"

definition compatible :: "metric_measurement \<Rightarrow> metric_measurement \<Rightarrow> bool" where
  "compatible a b \<longleftrightarrow> mm_kind a = mm_kind b \<and> mm_unit a = mm_unit b \<and> mm_value_type a = mm_value_type b"

section \<open>The parsers accept exactly that\<close>

lemma instrument_name_iff: "instrument_name_from_str n = Inr n' \<longleftrightarrow> valid_name n \<and> n' = n"
  by (cases n) (auto simp: instrument_name_from_str_def valid_name_def list_all_iff)

lemma adjacent_sorted:
  "\<not> list_ex (\<lambda>(a, b). \<not> f64_less a b) (zip bs (drop 1 bs)) \<longleftrightarrow> sorted_wrt f64_less bs"
proof (induction bs)
  case (Cons b bs)
  have tr: "f64_less b c" if "f64_less b (hd bs)" "sorted_wrt f64_less bs" "c \<in> set bs" for c
    using that by (cases bs) (auto simp: f64_less_def)
  show ?case using Cons tr by (cases bs) auto
qed simp

lemma finite_collect: "collect_results finite_f64_try_from bs = Inr fs \<longleftrightarrow> fs = bs \<and> (\<forall>b\<in>set bs. f64_is_finite b)"
proof -
  have "finite_f64_try_from b = Inr c \<longleftrightarrow> c = b \<and> f64_is_finite b" for b c
    by (auto simp: finite_f64_try_from_def)
  then show ?thesis
    by (auto simp: collect_results_Inr_iff list_all2_conv_all_nth all_set_conv_all_nth intro: nth_equalityI)
qed

lemma boundaries_iff:
  "histogram_boundaries_try_from bs = Inr fs \<longleftrightarrow>
     fs = bs \<and> length bs \<le> 64 \<and> (\<forall>b\<in>set bs. f64_is_finite b) \<and> sorted_wrt f64_less bs"
proof (cases "collect_results finite_f64_try_from bs")
  case (Inl e)
  then have "\<not> (\<forall>b\<in>set bs. f64_is_finite b)" using finite_collect [of bs bs] by auto
  then show ?thesis using Inl by (auto simp: histogram_boundaries_try_from_def)
next
  case (Inr gs)
  then have "gs = bs" "\<forall>b\<in>set bs. f64_is_finite b" using finite_collect by auto
  then show ?thesis using Inr adjacent_sorted [of bs]
    by (auto simp: histogram_boundaries_try_from_def MAX_HISTOGRAM_BOUNDARIES_def)
qed

lemma value_iff:
  "(\<exists>v. metric_value_parse t j = Inr v \<and> kind_supports k (value_type_of v) \<and>
      \<not> (k = Counter \<and> (case v of VF64 b \<Rightarrow> f64_less b 0 | _ \<Rightarrow> False))) \<longleftrightarrow> valid_value k t j"
proof -
  have "f64_key 0 = 0" by (simp add: f64_key_def)
  then have "f64_less b 0 \<longleftrightarrow> \<not> 0 \<le> f64_key b" for b by (simp add: f64_less_def not_le)
  then show ?thesis
  by (cases t; cases j; cases k)
     (auto simp: finite_f64_try_from_def split: option.splits json_number.splits if_splits elim!: as_u64.elims as_i64.elims)
qed

lemma value_type_parse: "metric_value_parse t j = Inr v \<Longrightarrow> value_type_of v = t"
  by (cases t) (auto split: option.splits if_splits sum.splits)

end
