(* ===== verification/Metric_Properties.thy ===== *)
theory Metric_Properties
  imports Metric_Events
begin

text \<open>
  What metric validation decides: an envelope is accepted exactly when it is non-empty, each of its
  measurements is well formed and the measurements of one instrument agree; and the typed
  measurements that come out satisfy the limits of an exporter.
\<close>

lemma list_all2_left: "list_all2 P xs ys \<Longrightarrow> x \<in> set xs \<Longrightarrow> \<exists>y\<in>set ys. P x y"
  by (induction rule: list_all2_induct) auto

lemma list_all2_right: "list_all2 P xs ys \<Longrightarrow> y \<in> set ys \<Longrightarrow> \<exists>x\<in>set xs. P x y"
  by (induction rule: list_all2_induct) auto

section \<open>One measurement\<close>

lemma string_array: "(\<forall>x\<in>set vs. json_as_str x \<noteq> None) \<longleftrightarrow> (\<forall>x\<in>set vs. is_string x)"
proof -
  have "json_as_str x \<noteq> None \<longleftrightarrow> is_string x" for x by (cases x) (simp_all add: is_string_def)
  then show ?thesis by simp
qed

lemma boolean_array: "(\<forall>x\<in>set vs. as_bool x \<noteq> None) \<longleftrightarrow> (\<forall>x\<in>set vs. is_boolean x)"
proof -
  have "as_bool x \<noteq> None \<longleftrightarrow> is_boolean x" for x by (cases x) (simp_all add: is_boolean_def)
  then show ?thesis by simp
qed

lemma signed_array:
  "(\<forall>x\<in>set vs. Option.bind (as_number x) as_i64 \<noteq> None) \<longleftrightarrow> (\<forall>x\<in>set vs. signed_number x)"
proof -
  have "Option.bind (as_number x) as_i64 \<noteq> None \<longleftrightarrow> signed_number x" for x
    by (cases x) (simp_all add: signed_number_def)
  then show ?thesis by simp
qed

lemma collected:
  "(\<exists>a. (case collect_options f xs of Some ys \<Rightarrow> Inr (g ys) | None \<Rightarrow> mixed_array_error) = Inr a) \<longleftrightarrow>
     (\<forall>x\<in>set xs. f x \<noteq> None)"
proof (cases "collect_options f xs")
  case None
  then show ?thesis using collect_options_total [of f xs] by (simp add: mixed_array_error_def)
next
  case (Some ys)
  then show ?thesis using collect_options_total [of f xs] by simp
qed

lemmas kinds_of_values = is_string_def is_boolean_def signed_number_def finite_float_def

lemma attribute_iff: "(\<exists>a. parse_attribute_value j = Inr a) \<longleftrightarrow> valid_attribute j"
proof (cases j)
  case (JNumber n)
  then show ?thesis
    by (cases n) (auto simp: valid_attribute_def kinds_of_values finite_f64_try_from_def)
next
  case (JArray xs)
  show ?thesis
  proof (cases xs)
    case Nil
    with JArray show ?thesis by (simp add: valid_attribute_def kinds_of_values)
  next
    case (Cons v vs)
    show ?thesis
    proof (cases v)
      case (JString s)
      then show ?thesis
        using JArray Cons string_array [of "v # vs"]
        by (simp add: collected valid_attribute_def del: collect_options.simps) (simp add: kinds_of_values)
    next
      case (JBool b)
      then show ?thesis
        using JArray Cons boolean_array [of "v # vs"]
        by (simp add: collected valid_attribute_def del: collect_options.simps) (simp add: kinds_of_values)
    next
      case (JNumber n)
      show ?thesis
      proof (cases "as_i64 n")
        case (Some i)
        then show ?thesis
          using JArray Cons JNumber signed_array [of "v # vs"]
          by (cases n) (simp_all add: collected valid_attribute_def del: collect_options.simps, simp_all add: kinds_of_values)
      next
        case None
        then show ?thesis
          using JArray Cons JNumber
          by (cases n) (auto simp: collected valid_attribute_def kinds_of_values finite_f64_try_from_def
                float_element_def simp del: collect_options.simps split: if_splits)
      qed
    next
      case (JArray ys)
      then show ?thesis using \<open>j = JArray xs\<close> Cons
        by (cases ys) (auto simp: valid_attribute_def kinds_of_values mixed_array_error_def
              split: sum.splits attribute_value.splits option.splits)
    qed (use JArray Cons in \<open>simp_all add: valid_attribute_def kinds_of_values\<close>)
  qed
qed (simp_all add: valid_attribute_def kinds_of_values)

lemma attributes_iff: "(\<exists>as. metric_attributes_try_from a = Inr as) \<longleftrightarrow> valid_attributes a"
proof (cases "\<exists>m. a = Some (JObject m)")
  case True
  then obtain m where a: "a = Some (JObject m)" by blast
  have one: "(\<exists>y. parse_attribute (k, v) = Inr y) \<longleftrightarrow> str_trim k \<noteq> [] \<and> valid_attribute v" for k v
    using attribute_iff [of v] by (cases "parse_attribute_value v") (auto simp: parse_attribute_def)
  show ?thesis unfolding a using collect_results_total [of parse_attribute m]
    by (simp add: one split: prod.splits) (metis one surj_pair)
next
  case False
  then show ?thesis by (cases a rule: valid_attributes.cases) auto
qed

lemma descriptor_iff:
  "instrument_descriptor_new n k u d bs = Inr x \<longleftrightarrow>
     (bs \<noteq> None \<longrightarrow> k = Histogram) \<and> valid_unit u \<and>
     x = \<lparr>id_name = n, id_kind = k, id_unit = u, id_description = d, id_boundaries = bs\<rparr>"
  by (auto simp: instrument_descriptor_new_def valid_unit_def list_all_iff split: option.splits)

lemma accepts_iff:
  "descriptor_accepts d v = Inr () \<longleftrightarrow> kind_supports (id_kind d) (value_type_of v) \<and>
     \<not> (id_kind d = Counter \<and> (case v of VF64 b \<Rightarrow> f64_less b 0 | _ \<Rightarrow> False))"
  by (auto simp: descriptor_accepts_def)

definition descriptor_of :: "metric_measurement \<Rightarrow> instrument_descriptor" where
  "descriptor_of m = \<lparr>id_name = mm_name m, id_kind = mm_kind m, id_unit = mm_unit m,
     id_description = mm_description m, id_boundaries = mm_boundaries m\<rparr>"

lemma validated_unfold:
  "validated_try_from m = Inr x \<longleftrightarrow>
     valid_name (mm_name m) \<and> valid_unit (mm_unit m) \<and> valid_boundaries (mm_kind m) (mm_boundaries m) \<and>
     (\<exists>v as. metric_value_parse (mm_value_type m) (mm_value m) = Inr v \<and>
        descriptor_accepts (descriptor_of m) v = Inr () \<and>
        metric_attributes_try_from (mm_attributes m) = Inr as \<and>
        x = \<lparr>vm_descriptor = descriptor_of m, vm_value = v, vm_attributes = as\<rparr>)"
proof -
  let ?bs = "case mm_boundaries m of None \<Rightarrow> Inr None | Some bs \<Rightarrow> map_sum id Some (histogram_boundaries_try_from bs)"
  let ?d = "\<lambda>n bs. instrument_descriptor_new n (mm_kind m) (mm_unit m) (mm_description m) bs"
  have bs: "(\<exists>b. ?bs = Inr b \<and> ?d n b = Inr d) \<longleftrightarrow>
      valid_unit (mm_unit m) \<and> valid_boundaries (mm_kind m) (mm_boundaries m) \<and>
      d = (descriptor_of m)\<lparr>id_name := n\<rparr>" for n d
  proof (cases "mm_boundaries m")
    case (Some l)
    have "c = l" if "histogram_boundaries_try_from l = Inr c" for c using that boundaries_iff by simp
    then show ?thesis
      using Some boundaries_iff [of l l]
      by (cases "histogram_boundaries_try_from l") (auto simp: descriptor_iff valid_boundaries_def descriptor_of_def)
  qed (auto simp: descriptor_iff valid_boundaries_def descriptor_of_def)
  have "validated_try_from m = Inr x \<longleftrightarrow>
      (\<exists>n b d v as. instrument_name_from_str (mm_name m) = Inr n \<and> ?bs = Inr b \<and> ?d n b = Inr d \<and>
         metric_value_parse (mm_value_type m) (mm_value m) = Inr v \<and> descriptor_accepts d v = Inr () \<and>
         metric_attributes_try_from (mm_attributes m) = Inr as \<and>
         x = \<lparr>vm_descriptor = d, vm_value = v, vm_attributes = as\<rparr>)"
    unfolding validated_try_from_def by (auto split: sum.splits)
  also have "\<dots> \<longleftrightarrow> (\<exists>n d. instrument_name_from_str (mm_name m) = Inr n \<and> (\<exists>b. ?bs = Inr b \<and> ?d n b = Inr d) \<and>
      (\<exists>v as. metric_value_parse (mm_value_type m) (mm_value m) = Inr v \<and> descriptor_accepts d v = Inr () \<and>
         metric_attributes_try_from (mm_attributes m) = Inr as \<and>
         x = \<lparr>vm_descriptor = d, vm_value = v, vm_attributes = as\<rparr>))"
    by blast
  finally show ?thesis
    by (simp add: bs instrument_name_iff) (auto simp: descriptor_of_def)
qed

lemma validated_iff: "(\<exists>x. validated_try_from m = Inr x) \<longleftrightarrow> valid_measurement m"
  using value_iff [of "mm_value_type m" "mm_value m" "mm_kind m"] attributes_iff [of "mm_attributes m"]
  by (auto simp: validated_unfold valid_measurement_def accepts_iff descriptor_of_def)

lemma validated_fields:
  assumes "validated_try_from m = Inr x"
  shows "vm_descriptor x = descriptor_of m" and "value_type_of (vm_value x) = mm_value_type m"
  using assms value_type_parse by (auto simp: validated_unfold)

section \<open>The measurements of one instrument\<close>

definition agree :: "validated_measurement \<Rightarrow> validated_measurement \<Rightarrow> bool" where
  "agree a b \<longleftrightarrow> has_same_identity (vm_descriptor a) (vm_descriptor b) \<and>
     value_type_of (vm_value a) = value_type_of (vm_value b)"

definition same_key :: "validated_measurement \<Rightarrow> validated_measurement \<Rightarrow> bool" where
  "same_key a b \<longleftrightarrow> descriptor_key (vm_descriptor a) = descriptor_key (vm_descriptor b)"

definition seen_of :: "validated_measurement list \<Rightarrow> (string \<times> nat) list \<Rightarrow> bool" where
  "seen_of pre seen \<longleftrightarrow>
     (\<forall>k j. map_of seen k = Some j \<longrightarrow> j < length pre \<and> descriptor_key (vm_descriptor (pre ! j)) = k) \<and>
     (\<forall>m\<in>set pre. map_of seen (descriptor_key (vm_descriptor m)) \<noteq> None)"

lemma agree_equiv: "agree a a" "agree a b \<Longrightarrow> agree b a" "agree a b \<Longrightarrow> agree b c \<Longrightarrow> agree a c"
  by (simp_all add: agree_def has_same_identity_def)

lemma seen_of_step:
  assumes "seen_of pre seen"
  shows "seen_of (pre @ [m]) (bt_insert (descriptor_key (vm_descriptor m)) (length pre) seen)"
  using assms by (auto simp: seen_of_def nth_append less_Suc_eq table_laws split: if_splits)

lemma check_descriptors_iff:
  assumes "seen_of pre seen" and "\<forall>a\<in>set pre. \<forall>b\<in>set pre. same_key a b \<longrightarrow> agree a b"
  shows "check_descriptors (pre @ ms) seen (length pre) ms = Inr () \<longleftrightarrow>
    (\<forall>a\<in>set (pre @ ms). \<forall>b\<in>set (pre @ ms). same_key a b \<longrightarrow> agree a b)"
  using assms
proof (induction ms arbitrary: pre seen)
  case (Cons m ms)
  let ?key = "descriptor_key (vm_descriptor m)"
  have step: "check_descriptors (pre @ m # ms) (bt_insert ?key (length pre) seen) (length pre + 1) ms = Inr () \<longleftrightarrow>
      (\<forall>a\<in>set (pre @ m # ms). \<forall>b\<in>set (pre @ m # ms). same_key a b \<longrightarrow> agree a b)"
    if "\<forall>a\<in>set pre. same_key a m \<longrightarrow> agree a m"
  proof -
    have "agree m a" if "a \<in> set pre" "same_key m a" for a
      using that \<open>\<forall>a\<in>set pre. same_key a m \<longrightarrow> agree a m\<close> agree_equiv(2) by (simp add: same_key_def)
    with that Cons.prems(2) agree_equiv(1)
    have "\<forall>a\<in>set (pre @ [m]). \<forall>b\<in>set (pre @ [m]). same_key a b \<longrightarrow> agree a b" by auto
    from Cons.IH [OF seen_of_step [OF Cons.prems(1)] this] show ?thesis by simp
  qed
  show ?case
  proof (cases "map_of seen ?key")
    case None
    then have "\<forall>a\<in>set pre. \<not> same_key a m" using Cons.prems(1) by (auto simp: seen_of_def same_key_def)
    then show ?thesis using None step by simp
  next
    case (Some j)
    then have j: "j < length pre" "same_key (pre ! j) m" using Cons.prems(1) by (auto simp: seen_of_def same_key_def)
    then have mem: "pre ! j \<in> set pre" by simp
    show ?thesis
    proof (cases "agree (pre ! j) m")
      case True
      have "agree a m" if "a \<in> set pre" "same_key a m" for a
      proof -
        have "agree a (pre ! j)" using that j mem Cons.prems(2) by (simp add: same_key_def)
        then show ?thesis using True agree_equiv(3) by blast
      qed
      then show ?thesis using Some True j step by (simp add: agree_def nth_append)
    next
      case False
      then have "\<not> (\<forall>a\<in>set (pre @ m # ms). \<forall>b\<in>set (pre @ m # ms). same_key a b \<longrightarrow> agree a b)"
        using j mem by auto
      then show ?thesis using Some False j by (auto simp: agree_def nth_append)
    qed
  qed
qed simp

section \<open>Envelopes\<close>

lemma validate_unfold:
  "validate_metric_measurements ms = Inr ps \<longleftrightarrow>
     ms \<noteq> [] \<and> list_all2 (\<lambda>m p. validated_try_from m = Inr p) ms ps \<and>
     (\<forall>a\<in>set ps. \<forall>b\<in>set ps. same_key a b \<longrightarrow> agree a b)"
proof -
  let ?f = "\<lambda>(i, m). map_sum (indexed_error i) id (validated_try_from m)"
  have f: "map_sum (indexed_error i) id (validated_try_from m) = Inr p \<longleftrightarrow> validated_try_from m = Inr p" for i m p
    by (cases "validated_try_from m") auto
  have col: "collect_results ?f (enumerate 0 ms) = Inr qs \<longleftrightarrow> list_all2 (\<lambda>m p. validated_try_from m = Inr p) ms qs" for qs
    unfolding collect_results_Inr_iff
    by (auto simp: list_all2_conv_all_nth nth_enumerate_eq f)
  have chk: "check_descriptors qs [] 0 qs = Inr () \<longleftrightarrow> (\<forall>a\<in>set qs. \<forall>b\<in>set qs. same_key a b \<longrightarrow> agree a b)" for qs
    using check_descriptors_iff [of "[]" "[]" qs] by (simp add: seen_of_def)
  show ?thesis
    unfolding validate_metric_measurements_def col [symmetric] chk [symmetric]
    by (auto split: sum.splits)
qed

lemma same_key_iff:
  assumes "validated_try_from m = Inr p" and "validated_try_from m' = Inr p'"
  shows "same_key p p' \<longleftrightarrow> same_instrument m m'" and "agree p p' \<longleftrightarrow> compatible m m'"
  using validated_fields [OF assms(1)] validated_fields [OF assms(2)]
  by (simp_all add: same_key_def same_instrument_def descriptor_key_def descriptor_of_def agree_def compatible_def
      has_same_identity_def)

text \<open>
  C40. Validation is a decision procedure for the rules of metric envelopes: an envelope is accepted
  exactly when it has a measurement, every measurement obeys the rules for its name, unit, boundaries,
  value and attributes, and any two measurements whose names differ in case only have the same kind,
  unit and value type.
\<close>

theorem metric_validation_exact:
  "(\<exists>ps. validate_metric_measurements ms = Inr ps) \<longleftrightarrow>
     ms \<noteq> [] \<and> (\<forall>m\<in>set ms. valid_measurement m) \<and>
     (\<forall>a\<in>set ms. \<forall>b\<in>set ms. same_instrument a b \<longrightarrow> compatible a b)"
proof (cases "\<forall>m\<in>set ms. valid_measurement m")
  case False
  then obtain m where "m \<in> set ms" "\<nexists>x. validated_try_from m = Inr x" using validated_iff by blast
  then have "\<not> list_all2 (\<lambda>m p. validated_try_from m = Inr p) ms ps" for ps
    using list_all2_left by fast
  then show ?thesis using False by (simp add: validate_unfold)
next
  case True
  then obtain f where f: "\<And>m. m \<in> set ms \<Longrightarrow> validated_try_from m = Inr (f m)" using validated_iff by metis
  have uniq: "list_all2 (\<lambda>m p. validated_try_from m = Inr p) ms ps \<longleftrightarrow> ps = map f ms" for ps
    using f by (auto simp: list_all2_conv_all_nth intro!: nth_equalityI)
  have "same_key (f a) (f b) = same_instrument a b" "agree (f a) (f b) = compatible a b"
    if "a \<in> set ms" "b \<in> set ms" for a b
    using same_key_iff [OF f [OF that(1)] f [OF that(2)]] .
  then show ?thesis using True by (simp add: validate_unfold uniq)
qed

definition counter_of :: "string \<Rightarrow> nat \<Rightarrow> metric_measurement" where
  "counter_of n v = \<lparr>mm_name = n, mm_kind = Counter, mm_value_type = U64, mm_value = JNumber (PosInt (of_nat v)),
     mm_unit = Some ''s'', mm_description = None, mm_attributes = None, mm_boundaries = None\<rparr>"

lemma lowercase_jobs:
  "to_ascii_lowercase ''jobs'' = ''jobs''" "to_ascii_lowercase ''Jobs'' = ''jobs''"
  "to_ascii_lowercase ''JOBS'' = ''jobs''"
  by code_simp+

theorem metric_validation_exact_witness:
  "(\<exists>ps. validate_metric_measurements [counter_of ''jobs'' 3, counter_of ''Jobs'' 4] = Inr ps) \<and>
   \<not> (\<exists>ps. validate_metric_measurements
        [counter_of ''jobs'' 3, (counter_of ''JOBS'' 4)\<lparr>mm_kind := Gauge\<rparr>] = Inr ps)"
  unfolding metric_validation_exact
  by (auto simp: lowercase_jobs counter_of_def valid_measurement_def valid_name_def valid_unit_def valid_boundaries_def
      same_instrument_def compatible_def is_ascii_alphabetic_def instrument_char_def is_ascii_alphanumeric_def less_eq_char_def)

text \<open>What an exporter can rely on.\<close>

fun value_in_limits :: "metric_kind \<Rightarrow> metric_value \<Rightarrow> bool" where
  "value_in_limits k (VU64 v) \<longleftrightarrow> unat v < 2 ^ 63 \<and> k \<noteq> UpDownCounter"
| "value_in_limits k (VI64 v) \<longleftrightarrow> k = UpDownCounter \<or> k = Gauge"
| "value_in_limits k (VF64 b) \<longleftrightarrow> f64_is_finite b \<and> (k = Counter \<longrightarrow> 0 \<le> f64_key b)"

fun attribute_in_limits :: "attribute_value \<Rightarrow> bool" where
  "attribute_in_limits (AF64 b) \<longleftrightarrow> f64_is_finite b"
| "attribute_in_limits (AF64Array bs) \<longleftrightarrow> bs \<noteq> [] \<and> (\<forall>b\<in>set bs. f64_is_finite b)"
| "attribute_in_limits (AI64Array is) \<longleftrightarrow> is \<noteq> []"
| "attribute_in_limits (ABoolArray bs) \<longleftrightarrow> bs \<noteq> []"
| "attribute_in_limits (AStringArray ss) \<longleftrightarrow> ss \<noteq> []"
| "attribute_in_limits _ \<longleftrightarrow> True"

lemma value_limits:
  assumes "metric_value_parse t j = Inr v" and "descriptor_accepts d v = Inr ()"
  shows "value_in_limits (id_kind d) v"
proof -
  have "f64_key 0 = 0" by (simp add: f64_key_def)
  then have "f64_less b 0 \<longleftrightarrow> \<not> 0 \<le> f64_key b" for b by (simp add: f64_less_def not_le)
  then show ?thesis
    using assms by (cases t; cases "id_kind d")
      (auto simp: accepts_iff finite_f64_try_from_def split: option.splits sum.splits if_splits)
qed

lemma float_elements_finite: "collect_options float_element xs = Some fs \<Longrightarrow> \<forall>b\<in>set fs. f64_is_finite b"
proof -
  have "float_element x = Some b \<Longrightarrow> f64_is_finite b" for x b
    by (auto simp: float_element_def finite_f64_try_from_def split: option.splits sum.splits if_splits)
  then show "collect_options float_element xs = Some fs \<Longrightarrow> ?thesis"
    by (auto simp: collect_options_Some_iff list_all2_conv_all_nth all_set_conv_all_nth)
qed

lemma collect_options_not_Nil [simp]: "collect_options f (x # xs) \<noteq> Some []"
  by (simp split: option.splits)

lemma attribute_limits: "parse_attribute_value j = Inr a \<Longrightarrow> attribute_in_limits a"
proof (induction j arbitrary: a rule: parse_attribute_value.induct)
  case (3 n)
  then show ?case by (auto simp: finite_f64_try_from_def split: option.splits sum.splits if_splits)
next
  case (5 v vs)
  then obtain b where b: "parse_attribute_value v = Inr b" by (cases "parse_attribute_value v") auto
  note res = "5.prems" [unfolded parse_attribute_value.simps b sum.case]
  show ?case
  proof (cases b)
    case (AF64 c)
    then show ?thesis using res float_elements_finite
      by (auto simp: mixed_array_error_def simp del: collect_options.simps split: option.splits)
  qed (use res in
      \<open>auto simp: mixed_array_error_def simp del: collect_options.simps split: option.splits\<close>)
qed auto

lemma attributes_limits:
  assumes "metric_attributes_try_from a = Inr as"
  shows "\<forall>(k, v)\<in>set as. str_trim k \<noteq> [] \<and> attribute_in_limits v"
proof (cases a rule: valid_attributes.cases)
  case (2 m)
  have "parse_attribute x = Inr (k, v) \<Longrightarrow> str_trim k \<noteq> [] \<and> attribute_in_limits v" for x k v
    using attribute_limits by (auto simp: parse_attribute_def split: prod.splits if_splits sum.splits)
  then have "case y of (k, v) \<Rightarrow> str_trim k \<noteq> [] \<and> attribute_in_limits v" if "parse_attribute x = Inr y" for x y
    using that by (cases y) simp
  then show ?thesis
    using assms 2 list_all2_right [of _ m as] by (simp add: collect_results_Inr_iff) blast
qed (use assms in auto)

definition within_limits :: "validated_measurement \<Rightarrow> bool" where
  "within_limits p \<longleftrightarrow> (let d = vm_descriptor p in
     1 \<le> length (id_name d) \<and> length (id_name d) \<le> 255 \<and>
     (\<forall>u. id_unit d = Some u \<longrightarrow> length u \<le> 63) \<and>
     (\<forall>bs. id_boundaries d = Some bs \<longrightarrow> id_kind d = Histogram \<and> length bs \<le> 64 \<and>
        (\<forall>b\<in>set bs. f64_is_finite b) \<and> sorted_wrt f64_less bs) \<and>
     value_in_limits (id_kind d) (vm_value p) \<and>
     (\<forall>(k, v)\<in>set (vm_attributes p). str_trim k \<noteq> [] \<and> attribute_in_limits v))"

lemma validated_within_limits:
  assumes "validated_try_from m = Inr p" shows "within_limits p"
proof -
  from assms obtain v as where ok: "valid_name (mm_name m)" "valid_unit (mm_unit m)"
      "valid_boundaries (mm_kind m) (mm_boundaries m)"
    and v: "metric_value_parse (mm_value_type m) (mm_value m) = Inr v"
      "descriptor_accepts (descriptor_of m) v = Inr ()"
    and as: "metric_attributes_try_from (mm_attributes m) = Inr as"
    and p: "p = \<lparr>vm_descriptor = descriptor_of m, vm_value = v, vm_attributes = as\<rparr>"
    by (auto simp: validated_unfold)
  show ?thesis using ok value_limits [OF v] attributes_limits [OF as]
    unfolding within_limits_def p Let_def
    by (simp add: descriptor_of_def valid_name_def valid_unit_def valid_boundaries_def Suc_le_eq)
qed

text \<open>
  The limits an exporter relies on: for every envelope that is accepted there is one typed
  measurement per entry, and each of them has a name of 1 to 255 characters, a unit of at most 63
  characters and at most 64 boundaries, finite, strictly increasing and only for histograms; its
  unsigned value fits a signed 64-bit integer, its double is finite, the value of a counter is not
  negative, and its attributes have keys that are not blank, finite doubles and no empty array.
\<close>

lemma metric_limits:
  assumes "validate_metric_measurements ms = Inr ps"
  shows "length ps = length ms \<and> (\<forall>p\<in>set ps. within_limits p)"
proof -
  have all: "list_all2 (\<lambda>m p. validated_try_from m = Inr p) ms ps" using assms by (simp add: validate_unfold)
  then have "within_limits p" if "p \<in> set ps" for p
    using that validated_within_limits by (auto simp: list_all2_conv_all_nth in_set_conv_nth)
  then show ?thesis using all by (simp add: list_all2_lengthD)
qed

lemma largest_unsigned: "f64_of_nat (unat (18446744073709551615 :: 64 word)) = 0x43F0000000000000"
proof -
  have n: "unat (18446744073709551615 :: 64 word) = 18446744073709551615" by simp
  have "floorlog 2 18446744073709551615 = 11 + 53"
    by (rule antisym) (simp_all add: floorlog_leI floorlog_geI)
  moreover have "\<lfloor>18446744073709551615 / 2048 :: rat\<rfloor> = 9007199254740991" by (rule floor_unique) simp_all
  ultimately have "round_units (of_nat 18446744073709551615 * ONE_UNITS) = 4895412794951729152"
    using of_nat_large [of 18446744073709551615 11] by (simp add: INFINITE_def round_even_def Let_def)
  then show ?thesis unfolding n f64_of_nat_def f64_make_def by simp
qed

text \<open>
  A large unsigned integer is refused as an attribute, but accepted inside an array whose first element
  is a double, where it is rounded to a double.
\<close>

lemma large_unsigned_attribute:
  "parse_attribute_value (JNumber (PosInt 18446744073709551615)) = Inl (MetricValidationError
     ''attribute values must not exceed the maximum signed 64-bit integer'')"
  "parse_attribute_value (JArray [JNumber (Float 0x3FF8000000000000), JNumber (PosInt 18446744073709551615)]) =
     Inr (AF64Array [0x3FF8000000000000, 0x43F0000000000000])"
  using largest_unsigned
  by (simp_all add: float_element_def finite_f64_try_from_def f64_is_finite_def)

end
