(* ===== verification/Scope_Api.thy ===== *)
theory Scope_Api
  imports Subscriber_Dispatcher Scope_Stack Metric_Events
begin

text \<open>
  The public scope operations (\<^verbatim>\<open>crates/core/src/api/scope.rs\<close>), the snapshots they take of the visible
  middleware and subscribers (\<^verbatim>\<open>crates/core/src/api/shared.rs\<close>) and the entry points through which
  they hand an event to the dispatcher (\<^verbatim>\<open>subscriber_dispatcher.rs\<close>). Here the process owner, the
  context state, the scope stacks and the dispatcher meet in one runtime state.

  A registered callback is a value of type \<open>'f\<close>, as in the registries; the \<open>host\<close> says what it does as
  an injector, a sanitizer or a subscriber. It also has the clock, the generator of identifiers and
  the gates. Gates change the world only, they do not call back into the runtime. Every operation is
  one step: the source takes its locks in the same order and no other thread interferes.

  \<open>rt_next_stack\<close> is the first reference that no stack has been allocated at, and \<open>rt_in_task\<close> says
  whether the caller runs in a task of the asynchronous runtime.

  A poisoned lock keeps its content. The source still reads a poisoned stack when it copies it for a
  queued event, and so does the model.
\<close>

section \<open>The runtime\<close>

record ('f, 'w) host = "'w services" +
  as_injector :: "'f \<Rightarrow> 'w event_metadata_injector_fn"
  as_sanitizer :: "'f \<Rightarrow> 'w event_sanitize_fn"
  as_subscriber :: "'f \<Rightarrow> 'w subscriber_fn"
  gates_of :: "'w \<Rightarrow> 'w gate_table"

record ('f, 'w) runtime =
  rt_process :: process
  rt_context :: "'f context_state rwlock"
  rt_bindings :: binding_env
  rt_stacks :: "'f stack_heap"
  rt_next_stack :: nat
  rt_in_task :: bool
  rt_emit :: "'w emit_context"
  rt_dispatcher :: "'w dispatcher"
  rt_receipts :: nat
  rt_world :: 'w

abbreviation visible_stack :: "('f, 'w) runtime \<Rightarrow> 'f scope_stack rwlock" where
  "visible_stack rt \<equiv> rt_stacks rt (current_scope_stack (rt_bindings rt))"

definition read_clock :: "('w, 'z) services_scheme \<Rightarrow> timestamp option \<Rightarrow> 'w \<Rightarrow> timestamp \<times> 'w" where
  "read_clock sv ts w = (case ts of Some t \<Rightarrow> (t, w) | None \<Rightarrow> clock sv w)"

section \<open>Snapshots\<close>

text \<open>\<open>None\<close> is the panic of \<^verbatim>\<open>task_scope_top\<close> on a poisoned lock.\<close>

definition resolve_parent_uuid :: "scope_handle option \<Rightarrow> ('f, 'w) runtime \<Rightarrow> uuid option option" where
  "resolve_parent_uuid parent rt = (case parent of
       Some h \<Rightarrow> Some (Some (sh_uuid h))
     | None \<Rightarrow> map_option (\<lambda>h. Some (sh_uuid h)) (task_scope_top (rt_bindings rt) (rt_stacks rt)))"

definition snapshot_event_subscribers ::
    "('f, 'w, 'z) host_scheme \<Rightarrow> 'f list \<Rightarrow> 'f context_state rwlock \<Rightarrow> 'w \<Rightarrow> 'f list flow_result \<times> 'w" where
  "snapshot_event_subscribers sv scope_local_subscribers cx w = (case cx of
       Poisoned m _ \<Rightarrow> (Inl (Internal m), w)
     | Healthy st \<Rightarrow>
         (let (fs, w) = collect_event_subscribers (gates_of sv) scope_local_subscribers
              (registry_snapshot [Subscriber] st) w
          in (Inr fs, w)))"

text \<open>The surface of sanitizers an event goes through.\<close>

fun sanitizer_surface ::
    "event \<Rightarrow> ('f registries \<Rightarrow> 'f sorted_registry) \<times> runtime_registration_kind" where
  "sanitizer_surface (Mark _) = (mark_sanitize_guardrails, MarkSanitizeGuardrail)"
| "sanitizer_surface (Scope e) =
     (if se_scope_category e = Start then (scope_sanitize_start_guardrails, ScopeSanitizeStartGuardrail)
      else (scope_sanitize_end_guardrails, ScopeSanitizeEndGuardrail))"

definition snapshot_failure_guardrail :: "'w event_sanitize_fn registry_record" where
  "snapshot_failure_guardrail =
     new_record ''event-sanitizer-snapshot-failure'' (- 2147483648)
       (\<lambda>_ _ w. (Finished (Inr default_fields), w))"

definition snapshot_event_sanitizers ::
    "('f, 'w, 'z) host_scheme \<Rightarrow> event \<Rightarrow> 'f scope_stack rwlock \<Rightarrow> 'f context_state rwlock \<Rightarrow> 'w \<Rightarrow>
     'w event_sanitize_fn registry_record list option \<times> 'w" where
  "snapshot_event_sanitizers sv e stack cx w = (case sanitizer_surface e of (field, kind) \<Rightarrow>
     (case stack of
        Poisoned _ _ \<Rightarrow> (Some [snapshot_failure_guardrail], w)
      | Healthy s \<Rightarrow>
          (let locals = collect_scope_local_registries field s
           in case cx of
                Poisoned _ _ \<Rightarrow> (Some [snapshot_failure_guardrail], w)
              | Healthy st \<Rightarrow>
                  (let (es, w) = merge_guardrail_entries (gates_of sv)
                         (field (cx_registries (registry_snapshot [kind] st))) locals kind w
                   in (Some (map (\<lambda>r. new_record (rr_name r) (rr_priority r) (as_sanitizer sv (rr_payload r))) es), w)))))"

definition snapshot_event_metadata_injectors ::
    "('f, 'w, 'z) host_scheme \<Rightarrow> 'f scope_stack \<Rightarrow> 'f context_state rwlock \<Rightarrow> 'w \<Rightarrow>
     'w event_metadata_injector_fn registry_record list \<times> 'w" where
  "snapshot_event_metadata_injectors sv s cx w =
     (let locals = collect_scope_local_registries event_metadata_injectors s
      in case cx of
           Poisoned _ _ \<Rightarrow> ([], w)
         | Healthy st \<Rightarrow>
             (let (es, w) = merge_event_metadata_injector_entries (gates_of sv)
                    (event_metadata_injectors (cx_registries (registry_snapshot [EventMetadataInjector] st))) locals w
              in (map (\<lambda>r. new_record (rr_name r) (rr_priority r) (as_injector sv (rr_payload r))) es, w)))"

section \<open>Handing events to the dispatcher\<close>

text \<open>A poisoned stack is copied like any other; the copy has a lock of its own.\<close>

definition snapshot_scope_stack :: "'f scope_stack rwlock \<Rightarrow> 'f scope_stack flow_result" where
  "snapshot_scope_stack l = Inr (case l of Healthy s \<Rightarrow> s | Poisoned _ s \<Rightarrow> s)"

definition event_propagation_parent_uuid :: "'f scope_stack \<Rightarrow> uuid option" where
  "event_propagation_parent_uuid s = propagated_parent_uuid s"

text \<open>The message the four entry points build: the event with its causal position, and the snapshots.\<close>

definition queued_event :: "'f scope_stack \<Rightarrow> event \<Rightarrow> event" where
  "queued_event s e = set_propagation_parent_uuid (event_propagation_parent_uuid s)
     (set_propagation_root_uuid (event_propagation_root_uuid s) e)"

definition enqueue_delivery ::
    "('f, 'w, 'z) host_scheme \<Rightarrow> event \<Rightarrow> 'w transform_fn option \<Rightarrow> 'w event_sanitize_fn registry_record list \<Rightarrow>
     'f list \<Rightarrow> 'f scope_stack \<Rightarrow> nat option \<Rightarrow> ('f, 'w) runtime \<Rightarrow> bool \<times> ('f, 'w) runtime" where
  "enqueue_delivery sv e transform sanitizers subscribers s completion rt =
     (let (injectors, w) = snapshot_event_metadata_injectors sv s (rt_context rt) (rt_world rt);
          x = \<lparr>dv_event = queued_event s e, dv_transform = transform, dv_injectors = injectors,
               dv_sanitizers = sanitizers, dv_subscribers = map (as_subscriber sv) subscribers\<rparr>;
          (ok, cx, d) = enqueue_dispatch_message (Deliver x None completion) (rt_emit rt) (rt_dispatcher rt)
      in (ok, rt\<lparr>rt_world := w, rt_emit := cx, rt_dispatcher := d\<rparr>))"

definition dispatch_sanitized_event ::
    "('f, 'w, 'z) host_scheme \<Rightarrow> event \<Rightarrow> 'w event_sanitize_fn registry_record list \<Rightarrow> 'f list \<Rightarrow>
     'f scope_stack rwlock \<Rightarrow> ('f, 'w) runtime \<Rightarrow> bool \<times> ('f, 'w) runtime" where
  "dispatch_sanitized_event sv e sanitizers subscribers stack rt =
     (if subscribers = [] then (True, rt)
      else (case snapshot_scope_stack stack of
          Inl _ \<Rightarrow> (False, rt)
        | Inr s \<Rightarrow> enqueue_delivery sv e None sanitizers subscribers s None rt))"

text \<open>A receipt is the number of the delivery it covers; \<open>None\<close> is one that is complete from the start.\<close>

definition dispatch_sanitized_event_with_delivery ::
    "('f, 'w, 'z) host_scheme \<Rightarrow> event \<Rightarrow> 'w event_sanitize_fn registry_record list \<Rightarrow> 'f list \<Rightarrow>
     'f scope_stack rwlock \<Rightarrow> ('f, 'w) runtime \<Rightarrow> nat option flow_result \<times> ('f, 'w) runtime" where
  "dispatch_sanitized_event_with_delivery sv e sanitizers subscribers stack rt =
     (if subscribers = [] then (Inr None, rt)
      else (case snapshot_scope_stack stack of
          Inl _ \<Rightarrow> (Inl (Internal ''failed to snapshot scope stack for subscriber delivery''), rt)
        | Inr s \<Rightarrow>
            (let c = rt_receipts rt;
                 (ok, rt) = enqueue_delivery sv e None sanitizers subscribers s (Some c) (rt\<lparr>rt_receipts := c + 1\<rparr>)
             in if ok then (Inr (Some c), rt)
                else (Inl (Internal ''failed to queue tracked subscriber delivery''), rt))))"

definition dispatch_reserved_sanitized_event ::
    "('f, 'w, 'z) host_scheme \<Rightarrow> event \<Rightarrow> 'w event_sanitize_fn registry_record list \<Rightarrow> 'f list \<Rightarrow>
     'f scope_stack rwlock \<Rightarrow> ('f, 'w) runtime \<Rightarrow> bool \<times> ('f, 'w) runtime" where
  "dispatch_reserved_sanitized_event sv e sanitizers subscribers stack rt =
     (if subscribers = [] then (True, rt)
      else (case snapshot_scope_stack stack of
          Inl _ \<Rightarrow> (False, rt)
        | Inr s \<Rightarrow> enqueue_delivery sv e None sanitizers subscribers s None rt))"

text \<open>An event with a transform is queued also when nobody subscribes.\<close>

definition dispatch_transformed_event ::
    "('f, 'w, 'z) host_scheme \<Rightarrow> event \<Rightarrow> 'w transform_fn \<Rightarrow> 'w event_sanitize_fn registry_record list \<Rightarrow> 'f list \<Rightarrow>
     'f scope_stack rwlock \<Rightarrow> ('f, 'w) runtime \<Rightarrow> bool \<times> ('f, 'w) runtime" where
  "dispatch_transformed_event sv e transform sanitizers subscribers stack rt =
     (case snapshot_scope_stack stack of
        Inl _ \<Rightarrow> (False, rt)
      | Inr s \<Rightarrow> enqueue_delivery sv e (Some transform) sanitizers subscribers s None rt)"

section \<open>Scopes\<close>

text \<open>\<^verbatim>\<open>ensure_runtime_owner()?\<close> at the head of every public operation.\<close>

definition owned_call ::
    "(('f, 'w) runtime \<Rightarrow> 'a flow_result outcome \<times> ('f, 'w) runtime) \<Rightarrow> ('f, 'w) runtime \<Rightarrow>
     'a flow_result outcome \<times> ('f, 'w) runtime" where
  "owned_call f rt = (case ensure_process_runtime_owner (rt_process rt) of
       (Inl e, p) \<Rightarrow> (Finished (Inl e), rt\<lparr>rt_process := p\<rparr>)
     | (Inr _, p) \<Rightarrow> f (rt\<lparr>rt_process := p\<rparr>))"

definition get_handle :: "('f, 'w) runtime \<Rightarrow> scope_handle flow_result outcome \<times> ('f, 'w) runtime" where
  "get_handle = owned_call (\<lambda>rt. case task_scope_top (rt_bindings rt) (rt_stacks rt) of
       None \<Rightarrow> (Panicked, rt) | Some h \<Rightarrow> (Finished (Inr h), rt))"

record push_scope_params =
  ps_name :: string
  ps_scope_type :: scope_type
  ps_parent :: "scope_handle option"
  ps_attributes :: attribute_bits
  ps_data :: "json option"
  ps_metadata :: "json option"
  ps_input :: "json option"
  ps_timestamp :: "timestamp option"

definition push_scope ::
    "('f, 'w, 'z) host_scheme \<Rightarrow> push_scope_params \<Rightarrow> ('f, 'w) runtime \<Rightarrow>
     scope_handle flow_result outcome \<times> ('f, 'w) runtime" where
  "push_scope sv ps = owned_call (\<lambda>rt. case resolve_parent_uuid (ps_parent ps) rt of
       None \<Rightarrow> (Panicked, rt)
     | Some parent \<Rightarrow> (case visible_stack rt of
           Poisoned m _ \<Rightarrow> (Finished (Inl (Internal m)), rt)
         | Healthy s \<Rightarrow>
             (let (res, w) = snapshot_event_subscribers sv (collect_scope_local_subscribers s)
                    (rt_context rt) (rt_world rt)
              in case res of
                   Inl e \<Rightarrow> (Finished (Inl e), rt\<lparr>rt_world := w\<rparr>)
                 | Inr subscribers \<Rightarrow> (case rt_context rt of
                     Poisoned m _ \<Rightarrow> (Finished (Inl (Internal m)), rt\<lparr>rt_world := w\<rparr>)
                   | Healthy _ \<Rightarrow>
                       (let (now, w) = read_clock sv (ps_timestamp ps) w;
                            (fresh, w) = new_uuid sv w;
                            h = create_scope_handle fresh now \<lparr>cs_name = ps_name ps, cs_parent_uuid = parent,
                                  cs_scope_type = ps_scope_type ps, cs_attributes = ps_attributes ps,
                                  cs_data = ps_data ps, cs_metadata = ps_metadata ps, cs_timestamp = ps_timestamp ps\<rparr>;
                            e = build_scope_start_event h (ps_input ps)
                        in case task_scope_push (rt_bindings rt) h (rt_stacks rt) of
                             None \<Rightarrow> (Panicked, rt\<lparr>rt_world := w\<rparr>)
                           | Some heap \<Rightarrow>
                               (let stack = heap (current_scope_stack (rt_bindings rt));
                                    (sanitizers, w) = snapshot_event_sanitizers sv e stack (rt_context rt) w;
                                    (_, rt) = dispatch_sanitized_event sv e (or_else sanitizers []) subscribers stack
                                      (rt\<lparr>rt_stacks := heap, rt_world := w\<rparr>)
                                in (Finished (Inr h), rt)))))))"

record pop_scope_params =
  pp_handle_uuid :: uuid
  pp_output :: "json option"
  pp_metadata :: "json option"
  pp_timestamp :: "timestamp option"

text \<open>The result is the receipt of the delivery, if one was asked for.\<close>

definition pop_scope_inner ::
    "('f, 'w, 'z) host_scheme \<Rightarrow> pop_scope_params \<Rightarrow> bool \<Rightarrow> ('f, 'w) runtime \<Rightarrow>
     nat option option flow_result outcome \<times> ('f, 'w) runtime" where
  "pop_scope_inner sv pp track_delivery = owned_call (\<lambda>rt. case visible_stack rt of
       Poisoned m _ \<Rightarrow> (Finished (Inl (Internal m)), rt)
     | Healthy s \<Rightarrow> (case ss_top s of
         None \<Rightarrow> (Panicked, rt)
       | Some t \<Rightarrow>
         if sh_uuid t \<noteq> pp_handle_uuid pp
         then (Finished (Inl (if ss_find (pp_handle_uuid pp) s \<noteq> None
                then InvalidArgument ''scope handle is not at the top of the stack''
                else NotFound ''scope handle not found'')), rt)
         else
           (let (res, w) = snapshot_event_subscribers sv (collect_scope_local_subscribers s)
                  (rt_context rt) (rt_world rt)
            in case res of
                 Inl e \<Rightarrow> (Finished (Inl e), rt\<lparr>rt_world := w\<rparr>)
               | Inr subscribers \<Rightarrow> (case rt_context rt of
                   Poisoned m _ \<Rightarrow> (Finished (Inl (Internal m)), rt\<lparr>rt_world := w\<rparr>)
                 | Healthy _ \<Rightarrow>
                     (let (now, w) = read_clock sv (pp_timestamp pp) w;
                          e = build_scope_end_event now \<lparr>eh_handle = t, eh_data = pp_output pp,
                                eh_metadata = pp_metadata pp, eh_timestamp = pp_timestamp pp\<rparr>;
                          stack = visible_stack rt;
                          (sanitizers, w) = snapshot_event_sanitizers sv e stack (rt_context rt) w
                      in case task_scope_remove (rt_bindings rt) (pp_handle_uuid pp) (rt_stacks rt) of
                           None \<Rightarrow> (Panicked, rt\<lparr>rt_world := w\<rparr>)
                         | Some (Inl err, heap) \<Rightarrow> (Finished (Inl err), rt\<lparr>rt_world := w, rt_stacks := heap\<rparr>)
                         | Some (Inr removed, heap) \<Rightarrow>
                             (let rt = rt\<lparr>rt_stacks := heap, rt_world := w\<rparr>
                              in if track_delivery
                                 then (case dispatch_sanitized_event_with_delivery sv e (or_else sanitizers [])
                                         subscribers stack rt of
                                         (Inl err, rt) \<Rightarrow> (Finished (Inl err), rt)
                                       | (Inr receipt, rt) \<Rightarrow> (Finished (Inr (Some receipt)), rt))
                                 else (let (_, rt) = dispatch_sanitized_event sv e (or_else sanitizers [])
                                         subscribers stack rt
                                       in (Finished (Inr None), rt))))))))"

definition pop_scope ::
    "('f, 'w, 'z) host_scheme \<Rightarrow> pop_scope_params \<Rightarrow> ('f, 'w) runtime \<Rightarrow>
     unit flow_result outcome \<times> ('f, 'w) runtime" where
  "pop_scope sv pp rt = (case pop_scope_inner sv pp False rt of
       (r, rt) \<Rightarrow> (map_outcome (map_sum id (\<lambda>_. ())) r, rt))"

definition pop_scope_with_subscriber_delivery ::
    "('f, 'w, 'z) host_scheme \<Rightarrow> pop_scope_params \<Rightarrow> ('f, 'w) runtime \<Rightarrow>
     nat option flow_result outcome \<times> ('f, 'w) runtime" where
  "pop_scope_with_subscriber_delivery sv pp rt = (case pop_scope_inner sv pp True rt of
       (r, rt) \<Rightarrow> (map_outcome (\<lambda>r. case r of
            Inl e \<Rightarrow> Inl e
          | Inr (Some receipt) \<Rightarrow> Inr receipt
          | Inr None \<Rightarrow> Inl (Internal ''tracked scope pop did not create a subscriber delivery receipt'')) r, rt))"

section \<open>Marks and metrics\<close>

definition COMPACTION_EVENT_NAME :: string where
  "COMPACTION_EVENT_NAME = ''compaction''"

record emit_mark_event_params =
  em_name :: string
  em_parent :: "scope_handle option"
  em_data :: "json option"
  em_data_schema :: "data_schema option"
  em_metadata :: "json option"
  em_severity :: "log_severity option"
  em_category :: "event_category option"
  em_category_profile :: "category_profile option"
  em_timestamp :: "timestamp option"

text \<open>
  The subscribers of a mark; a compaction also makes the owning agent fresh again. \<open>None\<close> is the
  panic on a stack without an agent. In the code that panic would also poison the lock of the stack,
  which is not modelled: \<open>Scope_Properties\<close> shows that the stacks the runtime makes always have an agent.
\<close>

definition mark_subscribers ::
    "('f, 'w, 'z) host_scheme \<Rightarrow> string \<Rightarrow> uuid option \<Rightarrow> 'f scope_stack \<Rightarrow> ('f, 'w) runtime \<Rightarrow>
     'f list flow_result option \<times> ('f, 'w) runtime" where
  "mark_subscribers sv name parent s rt =
     (let (res, w) = snapshot_event_subscribers sv (collect_scope_local_subscribers s) (rt_context rt) (rt_world rt);
          rt = rt\<lparr>rt_world := w\<rparr>
      in if name = COMPACTION_EVENT_NAME then
           (case res of
              Inl e \<Rightarrow> (Some (Inl e), rt)
            | Inr fs \<Rightarrow> (case mark_agent_fresh parent s of
                (None, s') \<Rightarrow> (None, rt)
              | (Some _, s') \<Rightarrow> (Some (Inr fs),
                  rt\<lparr>rt_stacks := (rt_stacks rt)(current_scope_stack (rt_bindings rt) := Healthy s')\<rparr>)))
         else (Some res, rt))"

definition emit_mark ::
    "('f, 'w, 'z) host_scheme \<Rightarrow> emit_mark_event_params \<Rightarrow> ('f, 'w) runtime \<Rightarrow>
     unit flow_result outcome \<times> ('f, 'w) runtime" where
  "emit_mark sv em = owned_call (\<lambda>rt. case resolve_parent_uuid (em_parent em) rt of
       None \<Rightarrow> (Panicked, rt)
     | Some parent \<Rightarrow> (case metadata_with_log_severity (em_metadata em) (em_severity em) of
         Inl e \<Rightarrow> (Finished (Inl e), rt)
       | Inr metadata \<Rightarrow> (case visible_stack rt of
           Poisoned m _ \<Rightarrow> (Finished (Inl (Internal m)), rt)
         | Healthy s \<Rightarrow> (case mark_subscribers sv (em_name em) parent s rt of
               (None, rt) \<Rightarrow> (Panicked, rt)
             | (Some (Inl e), rt) \<Rightarrow> (Finished (Inl e), rt)
             | (Some (Inr subscribers), rt) \<Rightarrow> (case rt_context rt of
                 Poisoned m _ \<Rightarrow> (Finished (Inl (Internal m)), rt)
               | Healthy _ \<Rightarrow>
                   (let (now, w) = read_clock sv (em_timestamp em) (rt_world rt);
                        (fresh, w) = new_uuid sv w;
                        e = Mark (mark_event_new
                              ((base_event_build parent fresh now (em_name em) (em_data em) metadata)
                                \<lparr>be_data_schema := em_data_schema em\<rparr>)
                              (em_category em) (em_category_profile em));
                        (sanitizers, w) = snapshot_event_sanitizers sv e (visible_stack rt) (rt_context rt) w;
                        (_, rt) = dispatch_sanitized_event sv e (or_else sanitizers []) subscribers
                          (visible_stack rt) (rt\<lparr>rt_world := w\<rparr>)
                    in (Finished (Inr ()), rt)))))))"

record emit_metric_event_params =
  et_name :: string
  et_measurements :: "metric_measurement list"
  et_parent :: "scope_handle option"
  et_metadata :: "json option"
  et_timestamp :: "timestamp option"

definition json_of_f64 :: "f64 \<Rightarrow> json" where
  "json_of_f64 b = (if f64_is_finite b then JNumber (Float b) else JNull)"

definition json_of_option :: "('a \<Rightarrow> json) \<Rightarrow> 'a option \<Rightarrow> json" where
  "json_of_option f x = (case x of None \<Rightarrow> JNull | Some v \<Rightarrow> f v)"

definition measurement_to_json :: "metric_measurement \<Rightarrow> json" where
  "measurement_to_json m = JObject
     [(''attributes'', json_of_option id (mm_attributes m)),
      (''boundaries'', json_of_option (\<lambda>bs. JArray (map json_of_f64 bs)) (mm_boundaries m)),
      (''description'', json_of_option JString (mm_description m)),
      (''kind'', JString (metric_kind_str (mm_kind m))),
      (''name'', JString (mm_name m)),
      (''unit'', json_of_option JString (mm_unit m)),
      (''value'', mm_value m),
      (''value_type'', JString (metric_value_type_str (mm_value_type m)))]"

definition envelope_to_json :: "metric_measurement list \<Rightarrow> json" where
  "envelope_to_json ms = JObject [(''measurements'', JArray (map measurement_to_json ms))]"

definition metric_data_schema :: data_schema where
  "metric_data_schema = \<lparr>ds_name = ''nemo.relay.metric_measurements'', ds_version = ''1''\<rparr>"

definition metric_mark_params :: "emit_metric_event_params \<Rightarrow> emit_mark_event_params" where
  "metric_mark_params et =
     \<lparr>em_name = et_name et, em_parent = et_parent et, em_data = Some (envelope_to_json (et_measurements et)),
      em_data_schema = Some metric_data_schema, em_metadata = et_metadata et, em_severity = None,
      em_category = None, em_category_profile = None, em_timestamp = et_timestamp et\<rparr>"

definition emit_metric ::
    "('f, 'w, 'z) host_scheme \<Rightarrow> emit_metric_event_params \<Rightarrow> ('f, 'w) runtime \<Rightarrow>
     unit flow_result outcome \<times> ('f, 'w) runtime" where
  "emit_metric sv et = owned_call (\<lambda>rt.
     case validate_metric_measurements (et_measurements et) of
       Inl e \<Rightarrow> (Finished (Inl (InvalidArgument (message_of e))), rt)
     | Inr _ \<Rightarrow> emit_mark sv (metric_mark_params et) rt)"

section \<open>Headers of provider requests\<close>

definition agent_scope_id :: "scope_handle \<Rightarrow> string" where
  "agent_scope_id h =
     (case map_option (\<lambda>m. List.map_filter (\<lambda>key. Option.bind (json_get m key) json_as_str)
           [''codex_subagent_session_id'', ''subagent_session_id'', ''subagent_id'', ''session_id''])
         (sh_metadata h) of
        Some (i # _) \<Rightarrow> i | _ \<Rightarrow> sh_name h)"

definition resolve_agent_session_ids :: "('f, 'w) runtime \<Rightarrow> (string \<times> string option) option" where
  "resolve_agent_session_ids rt = (case visible_stack rt of
       Poisoned _ _ \<Rightarrow> None
     | Healthy s \<Rightarrow> (case rev (filter is_agent (drop 1 (ss_stack s))) of
           [] \<Rightarrow> None
         | [h] \<Rightarrow> Some (agent_scope_id h, None)
         | h # p # _ \<Rightarrow> Some (agent_scope_id h, Some (agent_scope_id p))))"

definition inject_dynamo_session_ids :: "('f, 'w) runtime \<Rightarrow> llm_request \<Rightarrow> llm_request" where
  "inject_dynamo_session_ids rt r = (case resolve_agent_session_ids rt of
       None \<Rightarrow> r
     | Some (current, parent) \<Rightarrow>
         (let headers = bt_insert ''x-dynamo-session-id'' (JString current) (lr_headers r)
          in r\<lparr>lr_headers := (case parent of
               Some p \<Rightarrow> bt_insert ''x-dynamo-parent-session-id'' (JString p) headers
             | None \<Rightarrow> AList.delete ''x-dynamo-parent-session-id'' headers)\<rparr>))"

definition inject_traceparent_value :: "string \<Rightarrow> llm_request \<Rightarrow> llm_request" where
  "inject_traceparent_value v r = r\<lparr>lr_headers := bt_insert ''traceparent'' (JString v)
     (filter (\<lambda>(k, _). to_ascii_lowercase k \<noteq> ''traceparent'') (lr_headers r))\<rparr>"

definition inject_traceparent ::
    "uuid \<Rightarrow> ('f, 'w) runtime \<Rightarrow> llm_request \<Rightarrow> unit flow_result \<times> llm_request" where
  "inject_traceparent parent rt r = (case traceparent_for_llm parent (rt_bindings rt) (rt_stacks rt) of
       Inl e \<Rightarrow> (Inl e, r)
     | Inr v \<Rightarrow> (Inr (), inject_traceparent_value v r))"

end
