(* ===== verification/Scope_Trace.thy ===== *)
theory Scope_Trace
  imports Scope_Api
begin

text \<open>
  What the public scope operations publish. The events they queue describe the nesting of the scope
  stack exactly; an operation that fails publishes nothing and leaves the stacks alone; and an end
  event is queued with the middleware that was visible before its scope was removed.
\<close>

section \<open>Queued events\<close>

lemma base_of_map_base [simp]: "base_of (map_base f e) = f (base_of e)"
  by (cases e) simp_all

lemma scope_category_map_base [simp]:
  "is_scope_start (map_base f e) = is_scope_start e" "is_scope_end (map_base f e) = is_scope_end e"
  by (cases e; simp add: is_scope_start_def is_scope_end_def)+

lemma queued_event_simps [simp]:
  "is_scope_start (queued_event s e) = is_scope_start e"
  "is_scope_end (queued_event s e) = is_scope_end e"
  "be_uuid (base_of (queued_event s e)) = be_uuid (base_of e)"
  "be_parent_uuid (base_of (queued_event s e)) = be_parent_uuid (base_of e)"
  by (simp_all add: queued_event_def set_propagation_root_uuid_def set_propagation_parent_uuid_def)

fun message_event :: "'w message \<Rightarrow> event option" where
  "message_event (Deliver x _ _) = Some (dv_event x)"
| "message_event _ = None"

abbreviation events_of :: "'w message list \<Rightarrow> event list" where
  "events_of ms \<equiv> List.map_filter message_event ms"

section \<open>A runtime that is observed\<close>

text \<open>
  Some global subscriber is always enabled, nothing intercepts publications, and the dispatcher takes
  messages.
\<close>

definition subscribed :: "('f, 'w, 'z) host_scheme \<Rightarrow> 'f context_state rwlock \<Rightarrow> bool" where
  "subscribed sv cx \<longleftrightarrow> (\<exists>st name f. cx = Healthy st \<and> (name, f) \<in> set (event_subscribers (cx_registries st)) \<and>
     (\<forall>w. fst (runtime_registration_is_enabled (gates_of sv) Subscriber name w)))"

definition accepting :: "'w dispatcher \<Rightarrow> bool" where
  "accepting d \<longleftrightarrow> receiver_alive d \<and> spawn_result d = Inr () \<and> dispatcher_thread d \<in> {None, Some (Inr ())}"

definition observed :: "('f, 'w, 'z) host_scheme \<Rightarrow> ('f, 'w) runtime \<Rightarrow> bool" where
  "observed sv rt \<longleftrightarrow> subscribed sv (rt_context rt) \<and> accepting (rt_dispatcher rt) \<and>
     async_buffer (rt_emit rt) = None \<and> thread_buffer (rt_emit rt) = None"

lemma enabled_subscriber_kept:
  assumes "(name, f) \<in> set subs" and "\<forall>w. fst (runtime_registration_is_enabled gates Subscriber name w)"
  shows "fst (filter_enabled_subscribers gates subs w) \<noteq> []"
  using assms
proof (induction subs arbitrary: w)
  case (Cons s subs)
  then show ?case
    by (cases s) (auto simp: split_beta Let_def)
qed simp

lemma snapshot_subscribers_observed:
  assumes "subscribed sv cx"
  obtains fs w' where "snapshot_event_subscribers sv ls cx w = (Inr fs, w')" "fs \<noteq> []"
proof -
  from assms obtain st name f where cx: "cx = Healthy st"
    and s: "(name, f) \<in> set (event_subscribers (cx_registries st))"
      "\<forall>w. fst (runtime_registration_is_enabled (gates_of sv) Subscriber name w)"
    unfolding subscribed_def by blast
  obtain fs w' where r: "filter_enabled_subscribers (gates_of sv) (event_subscribers (cx_registries st)) w = (fs, w')"
    by fastforce
  then have "fs \<noteq> []" using enabled_subscriber_kept [OF s, of w] by simp
  with r have "snapshot_event_subscribers sv ls cx w = (Inr (fs @ ls), w')"
    by (simp add: cx snapshot_event_subscribers_def collect_event_subscribers_def registry_snapshot_def)
  with \<open>fs \<noteq> []\<close> show ?thesis using that [of "fs @ ls" w'] by simp
qed

lemma observed_subscribers:
  assumes "observed sv rt" and "snapshot_event_subscribers sv ls (rt_context rt) w = (Inr fs, w')"
  shows "fs \<noteq> []"
proof -
  obtain gs w1 where "snapshot_event_subscribers sv ls (rt_context rt) w = (Inr gs, w1)" "gs \<noteq> []"
    using assms(1) snapshot_subscribers_observed unfolding observed_def by metis
  then show ?thesis using assms(2) by simp
qed

lemma enqueue_observed:
  assumes "accepting d" and "async_buffer cx = None" and "thread_buffer cx = None"
  obtains l d' where "enqueue_dispatch_message (Deliver x None c) cx d = (True, cx, d')"
    and "channel d' = channel d @ [Deliver x (Some l) c]" and "accepting d'"
proof -
  obtain l d1 where a: "attach_publication_lineage None (current_publication_lineage cx) (Deliver x None c) d =
      (l, Deliver x (Some l) c, new_permit l d1)" and d1: "accepting d1" "channel d1 = channel d"
    using assms(1)
    by (cases "current_publication_lineage cx")
       (auto simp: attach_publication_lineage_def new_lineage_def accepting_def)
  obtain l' d2 where b: "attach_publication_lineage None (current_publication_lineage cx) (Deliver x (Some l) c)
      (new_permit l d1) = (l', Deliver x (Some l) c, d2)" and d2: "accepting d2" "channel d2 = channel d"
    using d1
    by (cases "current_publication_lineage cx")
       (auto simp: attach_publication_lineage_def new_lineage_def accepting_def new_permit_def)
  define d3 where "d3 = (snd (dispatcher_sender d2))\<lparr>channel := channel d @ [Deliver x (Some l) c]\<rparr>"
  have "send_dispatch_message (current_publication_lineage cx) (Deliver x (Some l) c) (new_permit l d1) = (True, d3)"
    using d2 b by (auto simp: send_dispatch_message_def dispatcher_sender_def channel_send_def accepting_def d3_def)
  then have "enqueue_dispatch_message (Deliver x None c) cx d = (True, cx, d3)"
    using assms a by (simp add: enqueue_dispatch_message_def)
  moreover have "accepting d3" using d2(1) by (auto simp: d3_def accepting_def dispatcher_sender_def)
  ultimately show ?thesis using that by (simp add: d3_def)
qed

text \<open>The one delivery that a dispatched event becomes; nothing else changes but the world.\<close>

definition delivered ::
    "('f, 'w, 'z) host_scheme \<Rightarrow> event \<Rightarrow> 'w transform_fn option \<Rightarrow> 'w event_sanitize_fn registry_record list \<Rightarrow>
     'f list \<Rightarrow> 'f scope_stack \<Rightarrow> nat option \<Rightarrow> ('f, 'w) runtime \<Rightarrow> ('f, 'w) runtime \<Rightarrow> bool" where
  "delivered sv e tr sans subs s c rt rt' \<longleftrightarrow> (\<exists>x l n w d.
     rt' = rt\<lparr>rt_dispatcher := d, rt_receipts := n, rt_world := w\<rparr> \<and>
     channel d = channel (rt_dispatcher rt) @ [Deliver x (Some l) c] \<and> accepting d \<and>
     x = \<lparr>dv_event = queued_event s e, dv_transform = tr,
          dv_injectors = fst (snapshot_event_metadata_injectors sv s (rt_context rt) (rt_world rt)),
          dv_sanitizers = sans, dv_subscribers = map (as_subscriber sv) subs\<rparr>)"

lemma enqueue_delivery_observed:
  assumes "observed sv rt"
  obtains rt' where "enqueue_delivery sv e tr sans subs s c rt = (True, rt')" "delivered sv e tr sans subs s c rt rt'"
    "rt_receipts rt' = rt_receipts rt"
proof -
  obtain inj w' where i: "snapshot_event_metadata_injectors sv s (rt_context rt) (rt_world rt) = (inj, w')"
    by fastforce
  define x where "x = \<lparr>dv_event = queued_event s e, dv_transform = tr, dv_injectors = inj,
      dv_sanitizers = sans, dv_subscribers = map (as_subscriber sv) subs\<rparr>"
  from assms have o: "accepting (rt_dispatcher rt)" "async_buffer (rt_emit rt) = None" "thread_buffer (rt_emit rt) = None"
    by (auto simp: observed_def)
  obtain l d' where e: "enqueue_dispatch_message (Deliver x None c) (rt_emit rt) (rt_dispatcher rt) = (True, rt_emit rt, d')"
      "channel d' = channel (rt_dispatcher rt) @ [Deliver x (Some l) c]" "accepting d'"
    using enqueue_observed [OF o, of x c] by metis
  let ?rt' = "rt\<lparr>rt_dispatcher := d', rt_receipts := rt_receipts rt, rt_world := w'\<rparr>"
  have "enqueue_delivery sv e tr sans subs s c rt = (True, ?rt')"
    using i e(1) by (simp add: enqueue_delivery_def x_def)
  moreover have "delivered sv e tr sans subs s c rt ?rt'"
    unfolding delivered_def using e(2,3) i
    by (intro exI [of _ x] exI [of _ l] exI [of _ "rt_receipts rt"] exI [of _ w'] exI [of _ d']) (simp add: x_def)
  ultimately show ?thesis using that by auto
qed

lemma snapshot_scope_stack_Healthy [simp]: "snapshot_scope_stack (Healthy s) = Inr s"
  by (simp add: snapshot_scope_stack_def)

lemma dispatch_observed:
  assumes "observed sv rt" and "subs \<noteq> []"
  shows "delivered sv e None sans subs s None rt (snd (dispatch_sanitized_event sv e sans subs (Healthy s) rt))"
  using enqueue_delivery_observed [OF assms(1), of e None sans subs s None] assms(2)
  by (metis dispatch_sanitized_event_def snapshot_scope_stack_Healthy snd_conv sum.case(2))

lemma dispatch_tracked_observed:
  assumes "observed sv rt" and "subs \<noteq> []"
  obtains c rt' where "dispatch_sanitized_event_with_delivery sv e sans subs (Healthy s) rt = (Inr (Some c), rt')"
    and "delivered sv e None sans subs s (Some c) rt rt'"
proof -
  let ?c = "rt_receipts rt"
  have "observed sv (rt\<lparr>rt_receipts := ?c + 1\<rparr>)" using assms(1) by (simp add: observed_def)
  then obtain rt' where e: "enqueue_delivery sv e None sans subs s (Some ?c) (rt\<lparr>rt_receipts := ?c + 1\<rparr>) = (True, rt')"
      "delivered sv e None sans subs s (Some ?c) (rt\<lparr>rt_receipts := ?c + 1\<rparr>) rt'"
    by (rule enqueue_delivery_observed)
  from e(2) have "delivered sv e None sans subs s (Some ?c) rt rt'" unfolding delivered_def by auto
  with e(1) assms(2) show ?thesis
    by (intro that) (simp_all add: dispatch_sanitized_event_with_delivery_def snapshot_scope_stack_Healthy Let_def)
qed

section \<open>Replaying the events\<close>

text \<open>
  A reader of the event stream keeps the list of open scopes. A start and a mark of a call that names
  a parent must carry that parent; of a call that names none, the innermost open scope. An end must
  end the innermost open scope.
\<close>

definition rightly_placed :: "scope_handle option \<Rightarrow> uuid list \<Rightarrow> event \<Rightarrow> bool" where
  "rightly_placed named opened e \<longleftrightarrow> (case named of
       Some h \<Rightarrow> be_parent_uuid (base_of e) = Some (sh_uuid h)
     | None \<Rightarrow> opened \<noteq> [] \<and> be_parent_uuid (base_of e) = Some (last opened))"

fun replay :: "scope_handle option \<Rightarrow> uuid list \<Rightarrow> event list \<Rightarrow> uuid list option" where
  "replay named opened [] = Some opened"
| "replay named opened (e # es) =
     (if is_scope_end e
      then (if opened \<noteq> [] \<and> last opened = be_uuid (base_of e) then replay named (butlast opened) es else None)
      else if rightly_placed named opened e
      then replay named (if is_scope_start e then opened @ [be_uuid (base_of e)] else opened) es
      else None)"

abbreviation scope_uuids :: "'f scope_stack \<Rightarrow> uuid list" where
  "scope_uuids s \<equiv> map sh_uuid (ss_stack s)"

definition traced ::
    "scope_handle option \<Rightarrow> ('f, 'w, 'z) host_scheme \<Rightarrow> ('f, 'w) runtime \<Rightarrow> ('f, 'w) runtime \<Rightarrow> bool" where
  "traced named sv rt rt' \<longleftrightarrow> observed sv rt' \<and> (\<forall>s. visible_stack rt = Healthy s \<longrightarrow>
     (\<exists>ms s'. visible_stack rt' = Healthy s' \<and>
        channel (rt_dispatcher rt') = channel (rt_dispatcher rt) @ ms \<and>
        replay named (scope_uuids s) (events_of ms) = Some (scope_uuids s')))"

lemma observed_update [simp]:
  "observed sv (rt\<lparr>rt_process := p\<rparr>) = observed sv rt" "observed sv (rt\<lparr>rt_world := w\<rparr>) = observed sv rt"
  "observed sv (rt\<lparr>rt_stacks := h\<rparr>) = observed sv rt"
  by (simp_all add: observed_def)

text \<open>What a step that queues one event has to show.\<close>

lemma traced_one:
  assumes o: "observed sv rt" and s: "visible_stack rt = Healthy s"
    and d: "delivered sv e tr sans fs s'' c rt1 rt'" and r: "replay named (scope_uuids s) [e] = Some (scope_uuids s')"
    and b: "rt_bindings rt1 = rt_bindings rt" "rt_context rt1 = rt_context rt" "rt_emit rt1 = rt_emit rt"
      "rt_dispatcher rt1 = rt_dispatcher rt" "visible_stack rt1 = Healthy s'"
  shows "traced named sv rt rt'"
proof -
  have "replay named (scope_uuids s) [queued_event s'' e] = Some (scope_uuids s')"
    using r by (simp only: replay.simps rightly_placed_def queued_event_simps)
  then show ?thesis
    using o s b d by (auto simp: traced_def observed_def map_filter_def delivered_def)
qed

section \<open>The outcomes of the operations\<close>

text \<open>An operation that did nothing but check the owner and read the world.\<close>

definition untouched :: "('f, 'w) runtime \<Rightarrow> ('f, 'w) runtime \<Rightarrow> bool" where
  "untouched rt rt' \<longleftrightarrow> (\<exists>p w. rt' = rt\<lparr>rt_process := p, rt_world := w\<rparr>)"

lemma untouchedI [simp, intro]:
  "untouched rt (rt\<lparr>rt_process := p\<rparr>)" "untouched rt (rt\<lparr>rt_process := p, rt_world := w\<rparr>)"
proof -
  have "rt\<lparr>rt_process := p\<rparr> = rt\<lparr>rt_process := p, rt_world := rt_world rt\<rparr>" by simp
  then show "untouched rt (rt\<lparr>rt_process := p\<rparr>)" unfolding untouched_def by blast
qed (auto simp: untouched_def)

lemma untouched_traced: "observed sv rt \<Longrightarrow> untouched rt rt' \<Longrightarrow> traced named sv rt rt'"
  by (auto simp: untouched_def traced_def map_filter_def)

lemma snapshot_sanitizers_Some:
  obtains sans w' where "snapshot_event_sanitizers sv e stack cx w = (Some sans, w')"
  unfolding snapshot_event_sanitizers_def
  by (cases "sanitizer_surface e :: ('a registries \<Rightarrow> 'a sorted_registry) \<times> runtime_registration_kind"; cases stack; cases cx)
     (auto simp: split_beta Let_def)

lemma resolve_parent_uuid_process [simp]: "resolve_parent_uuid q (rt\<lparr>rt_process := p\<rparr>) = resolve_parent_uuid q rt"
  by (cases q) (simp_all add: resolve_parent_uuid_def)

definition pushed ::
    "('f, 'w, 'z) host_scheme \<Rightarrow> push_scope_params \<Rightarrow> ('f, 'w) runtime \<Rightarrow> scope_handle \<Rightarrow> ('f, 'w) runtime \<Rightarrow> bool" where
  "pushed sv ps rt h rt' \<longleftrightarrow> (\<exists>p w1 w2 w3 s fs sans.
     visible_stack rt = Healthy s \<and> resolve_parent_uuid (ps_parent ps) rt = Some (sh_parent_uuid h) \<and>
     snapshot_event_subscribers sv (collect_scope_local_subscribers s) (rt_context rt) (rt_world rt) = (Inr fs, w1) \<and>
     snapshot_event_sanitizers sv (build_scope_start_event h (ps_input ps)) (Healthy (ss_push h s)) (rt_context rt) w2 =
       (Some sans, w3) \<and>
     rt' = snd (dispatch_sanitized_event sv (build_scope_start_event h (ps_input ps)) sans fs (Healthy (ss_push h s))
       (rt\<lparr>rt_process := p, rt_stacks := (rt_stacks rt)(current_scope_stack (rt_bindings rt) := Healthy (ss_push h s)),
           rt_world := w3\<rparr>)))"

lemma push_scope_outcome:
  assumes "push_scope sv ps rt = (r, rt')"
  shows "(case r of Finished (Inr h) \<Rightarrow> pushed sv ps rt h rt' | _ \<Rightarrow> untouched rt rt')"
proof (cases "ensure_process_runtime_owner (rt_process rt)")
  case (Pair own p)
  note eqs = assms [unfolded push_scope_def owned_call_def Pair, simplified]
  show ?thesis
  proof (cases "\<exists>parent s fs w1 st. own = Inr () \<and> resolve_parent_uuid (ps_parent ps) rt = Some parent \<and>
      visible_stack rt = Healthy s \<and> rt_context rt = Healthy st \<and>
      snapshot_event_subscribers sv (collect_scope_local_subscribers s) (rt_context rt) (rt_world rt) = (Inr fs, w1)")
    case False
    then show ?thesis
      using eqs by (auto split: sum.splits option.splits rwlock.splits prod.splits)
  next
    case True
    then obtain parent s fs w1 st where ok: "own = Inr ()" "resolve_parent_uuid (ps_parent ps) rt = Some parent"
        "visible_stack rt = Healthy s" "rt_context rt = Healthy st"
        "snapshot_event_subscribers sv (collect_scope_local_subscribers s) (rt_context rt) (rt_world rt) = (Inr fs, w1)"
      by blast
    obtain now w2 where c: "read_clock sv (ps_timestamp ps) w1 = (now, w2)" by fastforce
    obtain fresh w2' where u: "new_uuid sv w2 = (fresh, w2')" by fastforce
    define h where "h = create_scope_handle fresh now \<lparr>cs_name = ps_name ps, cs_parent_uuid = parent,
        cs_scope_type = ps_scope_type ps, cs_attributes = ps_attributes ps, cs_data = ps_data ps,
        cs_metadata = ps_metadata ps, cs_timestamp = ps_timestamp ps\<rparr>"
    obtain sans w3 where n: "snapshot_event_sanitizers sv (build_scope_start_event h (ps_input ps))
        (Healthy (ss_push h s)) (rt_context rt) w2' = (Some sans, w3)"
      by (rule snapshot_sanitizers_Some)
    have "sh_parent_uuid h = parent" by (simp add: h_def create_scope_handle_def)
    moreover have "r = Finished (Inr h)"
      "rt' = snd (dispatch_sanitized_event sv (build_scope_start_event h (ps_input ps)) sans fs (Healthy (ss_push h s))
         (rt\<lparr>rt_process := p, rt_stacks := (rt_stacks rt)(current_scope_stack (rt_bindings rt) := Healthy (ss_push h s)),
             rt_world := w3\<rparr>))"
      using eqs ok c u n by (auto simp: h_def [symmetric] task_scope_push_def split_beta Let_def)
    ultimately show ?thesis using ok n unfolding pushed_def by auto
  qed
qed

definition popped ::
    "('f, 'w, 'z) host_scheme \<Rightarrow> pop_scope_params \<Rightarrow> bool \<Rightarrow> ('f, 'w) runtime \<Rightarrow> ('f, 'w) runtime \<Rightarrow> bool" where
  "popped sv pp track rt rt' \<longleftrightarrow> (\<exists>p w1 w2 w3 s t now fs sans e rt1.
     visible_stack rt = Healthy s \<and> ss_top s = Some t \<and> sh_uuid t = pp_handle_uuid pp \<and> length (ss_stack s) \<noteq> 1 \<and>
     e = build_scope_end_event now \<lparr>eh_handle = t, eh_data = pp_output pp, eh_metadata = pp_metadata pp,
           eh_timestamp = pp_timestamp pp\<rparr> \<and>
     snapshot_event_subscribers sv (collect_scope_local_subscribers s) (rt_context rt) (rt_world rt) = (Inr fs, w1) \<and>
     snapshot_event_sanitizers sv e (Healthy s) (rt_context rt) w2 = (Some sans, w3) \<and>
     rt1 = rt\<lparr>rt_process := p, rt_stacks := (rt_stacks rt)(current_scope_stack (rt_bindings rt) :=
         Healthy (snd (ss_remove (sh_uuid t) s))), rt_world := w3\<rparr> \<and>
     rt' = (if track then snd (dispatch_sanitized_event_with_delivery sv e sans fs (Healthy s) rt1)
            else snd (dispatch_sanitized_event sv e sans fs (Healthy s) rt1)))"

lemma pop_scope_outcome:
  assumes "pop_scope_inner sv pp track rt = (r, rt')"
  shows "untouched rt rt' \<and> (\<forall>x. r \<noteq> Finished (Inr x)) \<or> popped sv pp track rt rt' \<and> (track \<or> r = Finished (Inr None))"
proof (cases "ensure_process_runtime_owner (rt_process rt)")
  case (Pair own p)
  note eqs = assms [unfolded pop_scope_inner_def owned_call_def Pair, simplified]
  show ?thesis
  proof (cases "\<exists>s t fs w1 st. own = Inr () \<and> visible_stack rt = Healthy s \<and> ss_top s = Some t \<and>
      sh_uuid t = pp_handle_uuid pp \<and> rt_context rt = Healthy st \<and>
      snapshot_event_subscribers sv (collect_scope_local_subscribers s) (rt_context rt) (rt_world rt) = (Inr fs, w1)")
    case False
    then show ?thesis
      using eqs by (auto split: sum.splits option.splits rwlock.splits prod.splits if_splits)
  next
    case True
    then obtain s t fs w1 st where ok: "own = Inr ()" "visible_stack rt = Healthy s" "ss_top s = Some t"
        "sh_uuid t = pp_handle_uuid pp" "rt_context rt = Healthy st"
        "snapshot_event_subscribers sv (collect_scope_local_subscribers s) (rt_context rt) (rt_world rt) = (Inr fs, w1)"
      by blast
    obtain now w2 where c: "read_clock sv (pp_timestamp pp) w1 = (now, w2)" by fastforce
    define e where "e = build_scope_end_event now \<lparr>eh_handle = t, eh_data = pp_output pp, eh_metadata = pp_metadata pp,
        eh_timestamp = pp_timestamp pp\<rparr>"
    obtain sans w3 where n: "snapshot_event_sanitizers sv e (Healthy s) (rt_context rt) w2 = (Some sans, w3)"
      by (rule snapshot_sanitizers_Some)
    show ?thesis
    proof (cases "length (ss_stack s) = 1")
      case True
      then have "task_scope_remove (rt_bindings rt) (pp_handle_uuid pp) (rt_stacks rt) =
          Some (Inl (InvalidArgument ''root scope cannot be removed''), rt_stacks rt)"
        using ok(2-4) by (simp add: task_scope_remove_def ss_remove_def fun_upd_idem)
      then show ?thesis using eqs ok c n by (auto simp: e_def [symmetric])
    next
      case False
      define rt1 where "rt1 = rt\<lparr>rt_process := p, rt_stacks := (rt_stacks rt)(current_scope_stack (rt_bindings rt) :=
         Healthy (snd (ss_remove (sh_uuid t) s))), rt_world := w3\<rparr>"
      have rm: "task_scope_remove (rt_bindings rt) (pp_handle_uuid pp) (rt_stacks rt) =
          Some (Inr t, (rt_stacks rt)(current_scope_stack (rt_bindings rt) := Healthy (snd (ss_remove (sh_uuid t) s))))"
        using ok(2-4) False by (simp add: task_scope_remove_def ss_remove_def)
      have "rt' = (if track then snd (dispatch_sanitized_event_with_delivery sv e sans fs (Healthy s) rt1)
            else snd (dispatch_sanitized_event sv e sans fs (Healthy s) rt1)) \<and> (track \<or> r = Finished (Inr None))"
        using eqs ok c n rm
        by (cases track; cases "fst (dispatch_sanitized_event_with_delivery sv e sans fs (Healthy s) rt1)")
           (auto simp: e_def [symmetric] rt1_def Let_def split_beta)
      then show ?thesis using ok n False unfolding popped_def e_def rt1_def by blast
    qed
  qed
qed

definition marked_stack :: "string \<Rightarrow> uuid option \<Rightarrow> 'f scope_stack \<Rightarrow> 'f scope_stack" where
  "marked_stack name parent s = (if name = COMPACTION_EVENT_NAME then snd (mark_agent_fresh parent s) else s)"

lemma marked_stack_scopes [simp]: "ss_stack (marked_stack name parent s) = ss_stack s"
  by (simp add: marked_stack_def mark_agent_fresh_def split: option.split)

definition marked ::
    "('f, 'w, 'z) host_scheme \<Rightarrow> emit_mark_event_params \<Rightarrow> ('f, 'w) runtime \<Rightarrow> ('f, 'w) runtime \<Rightarrow> bool" where
  "marked sv em rt rt' \<longleftrightarrow> (\<exists>p w1 w2 w3 s s' now fresh parent metadata fs sans e.
     visible_stack rt = Healthy s \<and> resolve_parent_uuid (em_parent em) rt = Some parent \<and>
     metadata_with_log_severity (em_metadata em) (em_severity em) = Inr metadata \<and>
     s' = marked_stack (em_name em) parent s \<and>
     e = Mark (mark_event_new ((base_event_build parent fresh now (em_name em) (em_data em) metadata)
            \<lparr>be_data_schema := em_data_schema em\<rparr>) (em_category em) (em_category_profile em)) \<and>
     snapshot_event_subscribers sv (collect_scope_local_subscribers s) (rt_context rt) (rt_world rt) = (Inr fs, w1) \<and>
     snapshot_event_sanitizers sv e (Healthy s') (rt_context rt) w2 = (Some sans, w3) \<and>
     rt' = snd (dispatch_sanitized_event sv e sans fs (Healthy s') (rt\<lparr>rt_process := p,
       rt_stacks := (rt_stacks rt)(current_scope_stack (rt_bindings rt) := Healthy s'), rt_world := w3\<rparr>)))"

lemma mark_subscribers_outcome:
  assumes "visible_stack rt = Healthy s" and "mark_subscribers sv name parent s rt = (q, rt1)"
    and "snapshot_event_subscribers sv (collect_scope_local_subscribers s) (rt_context rt) (rt_world rt) = (res, w1)"
  shows "(\<exists>fs. q = Some (Inr fs) \<and> res = Inr fs \<and> rt1 = rt\<lparr>rt_world := w1, rt_stacks :=
            (rt_stacks rt)(current_scope_stack (rt_bindings rt) := Healthy (marked_stack name parent s))\<rparr>)
       \<or> ((q = None \<or> (\<exists>e. q = Some (Inl e) \<and> res = Inl e)) \<and> rt1 = rt\<lparr>rt_world := w1\<rparr>)"
proof (cases "name = COMPACTION_EVENT_NAME")
  case False
  then show ?thesis using assms by (cases res) (auto simp: mark_subscribers_def marked_stack_def fun_upd_idem)
next
  case True
  then show ?thesis using assms
    by (cases res) (auto simp: mark_subscribers_def marked_stack_def mark_agent_fresh_def split: option.splits)
qed

lemma emit_mark_outcome:
  assumes "emit_mark sv em rt = (r, rt')"
  shows "untouched rt rt' \<and> r \<noteq> Finished (Inr ()) \<or> marked sv em rt rt' \<and> r = Finished (Inr ())"
proof (cases "ensure_process_runtime_owner (rt_process rt)")
  case (Pair own p)
  note eqs = assms [unfolded emit_mark_def owned_call_def Pair, simplified]
  show ?thesis
  proof (cases "\<exists>s parent metadata. own = Inr () \<and> visible_stack rt = Healthy s \<and>
      resolve_parent_uuid (em_parent em) rt = Some parent \<and>
      metadata_with_log_severity (em_metadata em) (em_severity em) = Inr metadata")
    case False
    then show ?thesis
      using eqs by (auto split: sum.splits option.splits rwlock.splits)
  next
    case True
    then obtain s parent metadata where ok: "own = Inr ()" "visible_stack rt = Healthy s"
        "resolve_parent_uuid (em_parent em) rt = Some parent"
        "metadata_with_log_severity (em_metadata em) (em_severity em) = Inr metadata"
      by blast
    obtain q rt1 where m: "mark_subscribers sv (em_name em) parent s (rt\<lparr>rt_process := p\<rparr>) = (q, rt1)" by fastforce
    obtain res w1 where sn: "snapshot_event_subscribers sv (collect_scope_local_subscribers s) (rt_context rt) (rt_world rt) = (res, w1)"
      by fastforce
    define s' where "s' = marked_stack (em_name em) parent s"
    show ?thesis
    proof (cases "\<exists>fs. q = Some (Inr fs)")
      case False
      then have "rt1 = rt\<lparr>rt_process := p, rt_world := w1\<rparr>"
        using mark_subscribers_outcome [OF _ m, of res w1] ok(2) sn by auto
      then show ?thesis using eqs ok m False
        by (cases q) (auto split: sum.splits)
    next
      case True
      then obtain fs where q: "q = Some (Inr fs)" by blast
      then have rt1: "rt1 = rt\<lparr>rt_process := p, rt_stacks :=
            (rt_stacks rt)(current_scope_stack (rt_bindings rt) := Healthy s'), rt_world := w1\<rparr>" and res: "res = Inr fs"
        using mark_subscribers_outcome [OF _ m, of res w1] ok(2) sn by (auto simp: s'_def)
      then obtain st where st: "rt_context rt = Healthy st"
        using sn by (cases "rt_context rt") (auto simp: snapshot_event_subscribers_def)
      obtain now w2 where c: "read_clock sv (em_timestamp em) w1 = (now, w2)" by fastforce
      obtain fresh w2' where u: "new_uuid sv w2 = (fresh, w2')" by fastforce
      define e where "e = Mark (mark_event_new ((base_event_build parent fresh now (em_name em) (em_data em) metadata)
            \<lparr>be_data_schema := em_data_schema em\<rparr>) (em_category em) (em_category_profile em))"
      obtain sans w3 where n: "snapshot_event_sanitizers sv e (Healthy s') (rt_context rt) w2' = (Some sans, w3)"
        by (rule snapshot_sanitizers_Some)
      have "r = Finished (Inr ())" "rt' = snd (dispatch_sanitized_event sv e sans fs (Healthy s') (rt\<lparr>rt_process := p,
         rt_stacks := (rt_stacks rt)(current_scope_stack (rt_bindings rt) := Healthy s'), rt_world := w3\<rparr>))"
        using eqs ok m q rt1 st c u n by (auto simp: e_def [symmetric] split_beta Let_def)
      then show ?thesis using ok sn res n unfolding marked_def e_def s'_def by blast
    qed
  qed
qed

lemma untouched_process: "untouched (rt\<lparr>rt_process := p\<rparr>) rt' \<Longrightarrow> untouched rt rt'"
  by (auto simp: untouched_def)

lemma marked_process: "marked sv em (rt\<lparr>rt_process := p\<rparr>) rt' \<Longrightarrow> marked sv em rt rt'"
  by (simp add: marked_def)

lemma emit_metric_outcome:
  assumes "emit_metric sv et rt = (r, rt')"
  shows "untouched rt rt' \<and> r \<noteq> Finished (Inr ()) \<or>
    marked sv (metric_mark_params et) rt rt' \<and> r = Finished (Inr ())"
proof (cases "ensure_process_runtime_owner (rt_process rt)")
  case (Pair own p)
  note eqs = assms [unfolded emit_metric_def owned_call_def Pair, simplified]
  show ?thesis
  proof (cases "own = Inr () \<and> (\<exists>ps. validate_metric_measurements (et_measurements et) = Inr ps)")
    case False
    then show ?thesis using eqs by (auto split: sum.splits)
  next
    case True
    then have "emit_mark sv (metric_mark_params et) (rt\<lparr>rt_process := p\<rparr>) = (r, rt')" using eqs by auto
    then show ?thesis using emit_mark_outcome untouched_process marked_process by metis
  qed
qed

section \<open>Sequences of calls\<close>

datatype api_call =
    GetHandle
  | PushScope push_scope_params
  | PopScope pop_scope_params
  | PopTracked pop_scope_params
  | EmitMark emit_mark_event_params
  | EmitMetric emit_metric_event_params

fun succeeded :: "'a flow_result outcome \<Rightarrow> bool" where
  "succeeded (Finished (Inr _)) = True"
| "succeeded _ = False"

text \<open>Whether the call succeeded, and the runtime after it.\<close>

fun run_call :: "('f, 'w, 'z) host_scheme \<Rightarrow> api_call \<Rightarrow> ('f, 'w) runtime \<Rightarrow> bool \<times> ('f, 'w) runtime" where
  "run_call sv GetHandle rt = apfst succeeded (get_handle rt)"
| "run_call sv (PushScope ps) rt = apfst succeeded (push_scope sv ps rt)"
| "run_call sv (PopScope pp) rt = apfst succeeded (pop_scope sv pp rt)"
| "run_call sv (PopTracked pp) rt = apfst succeeded (pop_scope_with_subscriber_delivery sv pp rt)"
| "run_call sv (EmitMark em) rt = apfst succeeded (emit_mark sv em rt)"
| "run_call sv (EmitMetric et) rt = apfst succeeded (emit_metric sv et rt)"

fun run_calls :: "('f, 'w, 'z) host_scheme \<Rightarrow> api_call list \<Rightarrow> ('f, 'w) runtime \<Rightarrow> ('f, 'w) runtime" where
  "run_calls sv [] rt = rt"
| "run_calls sv (c # cs) rt = run_calls sv cs (snd (run_call sv c rt))"

text \<open>The parent that a call names, and the replay of a sequence of calls with what each of them queued.\<close>

fun named_parent :: "api_call \<Rightarrow> scope_handle option" where
  "named_parent (PushScope ps) = ps_parent ps"
| "named_parent (EmitMark em) = em_parent em"
| "named_parent (EmitMetric et) = et_parent et"
| "named_parent _ = None"

fun replay_calls :: "uuid list \<Rightarrow> (api_call \<times> event list) list \<Rightarrow> uuid list option" where
  "replay_calls opened [] = Some opened"
| "replay_calls opened ((c, es) # rest) =
     (case replay (named_parent c) opened es of None \<Rightarrow> None | Some opened' \<Rightarrow> replay_calls opened' rest)"

lemma resolved_parent_right:
  assumes "visible_stack rt = Healthy s" and "resolve_parent_uuid named rt = Some (be_parent_uuid (base_of e))"
  shows "rightly_placed named (scope_uuids s) e"
  using assms by (auto simp: rightly_placed_def resolve_parent_uuid_def task_scope_top_def ss_top_def last_map
      split: option.splits if_splits)

lemma pushed_traced:
  assumes o: "observed sv rt" and p: "pushed sv ps rt h rt'"
  shows "traced (ps_parent ps) sv rt rt'"
proof -
  let ?e = "build_scope_start_event h (ps_input ps)"
  from p obtain q w1 w2 w3 s fs sans where s: "visible_stack rt = Healthy s"
    and par: "resolve_parent_uuid (ps_parent ps) rt = Some (sh_parent_uuid h)"
    and fs: "snapshot_event_subscribers sv (collect_scope_local_subscribers s) (rt_context rt) (rt_world rt) = (Inr fs, w1)"
    and rt': "rt' = snd (dispatch_sanitized_event sv ?e sans fs (Healthy (ss_push h s))
       (rt\<lparr>rt_process := q, rt_stacks := (rt_stacks rt)(current_scope_stack (rt_bindings rt) := Healthy (ss_push h s)),
           rt_world := w3\<rparr>))" (is "_ = snd (dispatch_sanitized_event _ _ _ _ _ ?rt1)")
    unfolding pushed_def by blast
  have d: "delivered sv ?e None sans fs (ss_push h s) None ?rt1 rt'"
    unfolding rt' by (rule dispatch_observed) (use o observed_subscribers [OF o fs] in simp_all)
  have "replay (ps_parent ps) (scope_uuids s) [?e] = Some (scope_uuids (ss_push h s))"
    using resolved_parent_right [OF s, of _ ?e] par
    by (simp add: build_scope_start_event_def scope_event_new_def base_event_build_def is_scope_end_def
        is_scope_start_def ss_push_def Let_def)
  then show ?thesis by (rule traced_one [OF o s d]) simp_all
qed

lemma popped_traced:
  assumes o: "observed sv rt" and "popped sv pp track rt rt'"
  shows "traced None sv rt rt'"
proof -
  from assms(2) obtain q w1 w2 w3 s t now fs sans e rt1 where s: "visible_stack rt = Healthy s"
    and t: "ss_top s = Some t" "length (ss_stack s) \<noteq> 1"
    and e: "e = build_scope_end_event now \<lparr>eh_handle = t, eh_data = pp_output pp, eh_metadata = pp_metadata pp,
           eh_timestamp = pp_timestamp pp\<rparr>"
    and fs: "snapshot_event_subscribers sv (collect_scope_local_subscribers s) (rt_context rt) (rt_world rt) = (Inr fs, w1)"
    and rt1: "rt1 = rt\<lparr>rt_process := q, rt_stacks := (rt_stacks rt)(current_scope_stack (rt_bindings rt) :=
         Healthy (snd (ss_remove (sh_uuid t) s))), rt_world := w3\<rparr>"
    and rt': "rt' = (if track then snd (dispatch_sanitized_event_with_delivery sv e sans fs (Healthy s) rt1)
            else snd (dispatch_sanitized_event sv e sans fs (Healthy s) rt1))"
    unfolding popped_def by blast
  have o1: "observed sv rt1" using o by (simp add: rt1)
  have "\<exists>c. delivered sv e None sans fs s c rt1 rt'"
  proof (cases track)
    case True
    obtain c rt2 where "dispatch_sanitized_event_with_delivery sv e sans fs (Healthy s) rt1 = (Inr (Some c), rt2)"
        "delivered sv e None sans fs s (Some c) rt1 rt2"
      by (rule dispatch_tracked_observed [OF o1 observed_subscribers [OF o fs]])
    then show ?thesis using True by (auto simp: rt')
  next
    case False
    then show ?thesis using dispatch_observed [OF o1 observed_subscribers [OF o fs], of e sans s] by (auto simp: rt')
  qed
  then obtain c where d: "delivered sv e None sans fs s c rt1 rt'" by blast
  have "replay None (scope_uuids s) [e] = Some (scope_uuids (snd (ss_remove (sh_uuid t) s)))"
    using t by (auto simp: e build_scope_end_event_def scope_event_new_def base_event_build_def is_scope_end_def
        ss_remove_def ss_top_def Let_def last_map map_butlast split: if_splits)
  then show ?thesis by (rule traced_one [OF o s d]) (simp_all add: rt1)
qed

lemma marked_traced:
  assumes o: "observed sv rt" and m: "marked sv em rt rt'"
  shows "traced (em_parent em) sv rt rt'"
proof -
  from m obtain q w1 w2 w3 s s' now fresh parent metadata fs sans e where s: "visible_stack rt = Healthy s"
    and par: "resolve_parent_uuid (em_parent em) rt = Some parent" and s': "s' = marked_stack (em_name em) parent s"
    and e: "e = Mark (mark_event_new ((base_event_build parent fresh now (em_name em) (em_data em) metadata)
            \<lparr>be_data_schema := em_data_schema em\<rparr>) (em_category em) (em_category_profile em))"
    and fs: "snapshot_event_subscribers sv (collect_scope_local_subscribers s) (rt_context rt) (rt_world rt) = (Inr fs, w1)"
    and rt': "rt' = snd (dispatch_sanitized_event sv e sans fs (Healthy s') (rt\<lparr>rt_process := q,
       rt_stacks := (rt_stacks rt)(current_scope_stack (rt_bindings rt) := Healthy s'), rt_world := w3\<rparr>))"
      (is "_ = snd (dispatch_sanitized_event _ _ _ _ _ ?rt1)")
    unfolding marked_def by blast
  have d: "delivered sv e None sans fs s' None ?rt1 rt'"
    unfolding rt' by (rule dispatch_observed) (use o observed_subscribers [OF o fs] in simp_all)
  have "replay (em_parent em) (scope_uuids s) [e] = Some (scope_uuids s')"
    using resolved_parent_right [OF s, of _ e] par
    by (simp add: e s' mark_event_new_def base_event_build_def is_scope_end_def is_scope_start_def)
  then show ?thesis by (rule traced_one [OF o s d]) simp_all
qed

lemma run_call_traced:
  assumes o: "observed sv rt"
  shows "traced (named_parent c) sv rt (snd (run_call sv c rt))"
proof (cases c)
  case GetHandle
  have "untouched rt (snd (get_handle rt))"
    by (auto simp: get_handle_def owned_call_def split: prod.split sum.split option.split)
  then show ?thesis using GetHandle untouched_traced [OF o] by simp
next
  case (PushScope ps)
  obtain r rt' where r: "push_scope sv ps rt = (r, rt')" by fastforce
  then show ?thesis using push_scope_outcome [OF r] PushScope assms untouched_traced pushed_traced
    by (auto split: outcome.splits sum.splits)
next
  case (PopScope pp)
  obtain r rt' where r: "pop_scope_inner sv pp False rt = (r, rt')" by fastforce
  then show ?thesis using pop_scope_outcome [OF r] PopScope o untouched_traced popped_traced
    by (auto simp: pop_scope_def)
next
  case (PopTracked pp)
  obtain r rt' where r: "pop_scope_inner sv pp True rt = (r, rt')" by fastforce
  then show ?thesis using pop_scope_outcome [OF r] PopTracked o untouched_traced popped_traced
    by (auto simp: pop_scope_with_subscriber_delivery_def)
next
  case (EmitMark em)
  obtain r rt' where r: "emit_mark sv em rt = (r, rt')" by fastforce
  then show ?thesis using emit_mark_outcome [OF r] EmitMark assms untouched_traced marked_traced by auto
next
  case (EmitMetric et)
  obtain r rt' where r: "emit_metric sv et rt = (r, rt')" by fastforce
  moreover have "em_parent (metric_mark_params et) = et_parent et" by (simp add: metric_mark_params_def)
  ultimately show ?thesis using emit_metric_outcome [OF r] EmitMetric o untouched_traced marked_traced [OF o, of "metric_mark_params et"] by auto
qed

lemma run_calls_traced:
  assumes "observed sv rt" and "visible_stack rt = Healthy s"
  shows "\<exists>qs s'. length qs = length cs \<and> visible_stack (run_calls sv cs rt) = Healthy s' \<and>
     channel (rt_dispatcher (run_calls sv cs rt)) = channel (rt_dispatcher rt) @ concat qs \<and>
     replay_calls (scope_uuids s) (zip cs (map events_of qs)) = Some (scope_uuids s')"
  using assms
proof (induction cs arbitrary: rt s)
  case (Cons c cs)
  let ?rt = "snd (run_call sv c rt)"
  obtain ms s1 where one: "observed sv ?rt" "visible_stack ?rt = Healthy s1"
      "channel (rt_dispatcher ?rt) = channel (rt_dispatcher rt) @ ms"
      "replay (named_parent c) (scope_uuids s) (events_of ms) = Some (scope_uuids s1)"
    using run_call_traced [OF Cons.prems(1), of c] Cons.prems(2) by (auto simp: traced_def)
  obtain qs s' where "length qs = length cs" "visible_stack (run_calls sv cs ?rt) = Healthy s'"
      "channel (rt_dispatcher (run_calls sv cs ?rt)) = channel (rt_dispatcher ?rt) @ concat qs"
      "replay_calls (scope_uuids s1) (zip cs (map events_of qs)) = Some (scope_uuids s')"
    using Cons.IH [OF one(1,2)] by blast
  then show ?case using one(3,4) by (intro exI [of _ "ms # qs"] exI [of _ s']) simp
qed simp

section \<open>A small runtime\<close>

definition demo_host :: "(nat, nat) host" where
  "demo_host = \<lparr>new_uuid = (\<lambda>w. (of_nat w, w + 1)), clock = (\<lambda>w. (0, w)),
     as_injector = (\<lambda>_ _ w. (Finished (Inr []), w)), as_sanitizer = (\<lambda>_ _ fs w. (Finished (Inr fs), w)),
     as_subscriber = (\<lambda>_ _ w. (Finished (), w)), gates_of = (\<lambda>_. None)\<rparr>"

definition demo_runtime :: "(nat, nat) runtime" where
  "demo_runtime = \<lparr>rt_process = demo_process, rt_context = Healthy demo_context,
     rt_bindings = \<lparr>scope_stack_override = None, task_scope_stack = None, thread_scope_stack = 0,
       thread_scope_stack_explicit = False, active_event_uuid = None\<rparr>,
     rt_stacks = (\<lambda>_. Healthy (scope_stack_new 1 0)), rt_next_stack = 1, rt_in_task = False, rt_emit = plain_context None,
     rt_dispatcher = dispatcher_new (Inr ()), rt_receipts = 0, rt_world = 2\<rparr>"

definition demo_push :: push_scope_params where
  "demo_push = \<lparr>ps_name = ''work'', ps_scope_type = Agent, ps_parent = None, ps_attributes = 0, ps_data = None,
     ps_metadata = None, ps_input = None, ps_timestamp = None\<rparr>"

definition demo_pop :: "uuid \<Rightarrow> pop_scope_params" where
  "demo_pop u = \<lparr>pp_handle_uuid = u, pp_output = None, pp_metadata = None, pp_timestamp = None\<rparr>"

definition demo_mark :: emit_mark_event_params where
  "demo_mark = \<lparr>em_name = ''compaction'', em_parent = None, em_data = None, em_data_schema = None, em_metadata = None,
     em_severity = None, em_category = None, em_category_profile = None, em_timestamp = None\<rparr>"

definition demo_elsewhere :: scope_handle where
  "demo_elsewhere = build_handle 9 0 ''elsewhere'' Agent None"

definition demo_calls :: "api_call list" where
  "demo_calls = [PushScope demo_push, EmitMark demo_mark, PushScope (demo_push\<lparr>ps_parent := Some demo_elsewhere\<rparr>),
     PopScope (demo_pop 1), PopScope (demo_pop 2)]"

lemma demo_observed: "observed demo_host demo_runtime"
  by (simp add: observed_def subscribed_def demo_runtime_def demo_host_def demo_context_def accepting_def
      dispatcher_new_def plain_context_def runtime_registration_is_enabled_def)

lemma demo_visible: "visible_stack demo_runtime = Healthy (scope_stack_new 1 0)"
  by (simp add: demo_runtime_def)

lemma demo_start: "scope_uuids (scope_stack_new 1 0) = [1]" "channel (rt_dispatcher demo_runtime) = []"
  by (simp_all add: scope_stack_new_def build_handle_def demo_runtime_def dispatcher_new_def)

lemma demo_calls_length: "length demo_calls = 5"
  by (simp add: demo_calls_def)

section \<open>Properties of the scope operations\<close>

text \<open>
  C14. The event stream mirrors the scope stack. For every sequence of calls, failing ones included,
  on a runtime with an enabled global subscriber whose dispatcher takes messages and whose
  publications nothing intercepts, what each call queued can be replayed: a start or a mark of a call
  that names a parent carries that parent, of a call that names none the innermost open scope; every
  end closes the innermost open scope; and the scopes left open are exactly the ones on the stack.
\<close>

theorem events_mirror_scope_stack:
  assumes "observed sv rt" and "visible_stack rt = Healthy s"
  shows "\<exists>qs s'. length qs = length cs \<and> visible_stack (run_calls sv cs rt) = Healthy s' \<and>
     channel (rt_dispatcher (run_calls sv cs rt)) = channel (rt_dispatcher rt) @ concat qs \<and>
     replay_calls (scope_uuids s) (zip cs (map events_of qs)) = Some (scope_uuids s')"
  by (rule run_calls_traced [OF assms])

theorem events_mirror_scope_stack_witness:
  "\<exists>qs s'. length qs = 5 \<and> visible_stack (run_calls demo_host demo_calls demo_runtime) = Healthy s' \<and>
     channel (rt_dispatcher (run_calls demo_host demo_calls demo_runtime)) = concat qs \<and>
     replay_calls [1] (zip demo_calls (map events_of qs)) = Some (scope_uuids s')"
  using events_mirror_scope_stack [OF demo_observed demo_visible, of demo_calls]
  by (simp add: demo_calls_length demo_start)

text \<open>
  C18. A call that fails, with an error or a panic, queues nothing and changes neither the scope
  stacks nor the registrations. The exception is the pop that returns a receipt: it removes its scope
  before it learns that the event could not be queued.
\<close>

theorem failed_call_no_effect:
  assumes "run_call sv c rt = (False, rt')" and "\<forall>pp. c \<noteq> PopTracked pp"
  shows "rt_stacks rt' = rt_stacks rt \<and> rt_dispatcher rt' = rt_dispatcher rt \<and> rt_emit rt' = rt_emit rt \<and>
     rt_context rt' = rt_context rt \<and> rt_bindings rt' = rt_bindings rt"
proof -
  have "untouched rt rt'"
  proof (cases c)
    case GetHandle
    then show ?thesis using assms(1)
      by (auto simp: get_handle_def owned_call_def apfst_def map_prod_def split: prod.splits sum.splits option.splits)
  next
    case (PushScope ps)
    obtain r where r: "push_scope sv ps rt = (r, rt')" "\<not> succeeded r"
      using assms(1) PushScope by (cases "push_scope sv ps rt") auto
    then show ?thesis using push_scope_outcome [OF r(1)] by (auto split: outcome.splits sum.splits)
  next
    case (PopScope pp)
    obtain r where r: "pop_scope_inner sv pp False rt = (r, rt')" "\<not> succeeded (map_outcome (map_sum id (\<lambda>_. ())) r)"
      using assms(1) PopScope by (cases "pop_scope_inner sv pp False rt") (auto simp: pop_scope_def)
    then have "r \<noteq> Finished (Inr None)" by auto
    then show ?thesis using pop_scope_outcome [OF r(1)] by auto
  next
    case (PopTracked pp)
    then show ?thesis using assms(2) by simp
  next
    case (EmitMark em)
    obtain r where r: "emit_mark sv em rt = (r, rt')" "\<not> succeeded r"
      using assms(1) EmitMark by (cases "emit_mark sv em rt") auto
    then have "r \<noteq> Finished (Inr ())" by auto
    then show ?thesis using emit_mark_outcome [OF r(1)] by auto
  next
    case (EmitMetric et)
    obtain r where r: "emit_metric sv et rt = (r, rt')" "\<not> succeeded r"
      using assms(1) EmitMetric by (cases "emit_metric sv et rt") auto
    then have "r \<noteq> Finished (Inr ())" by auto
    then show ?thesis using emit_metric_outcome [OF r(1)] by auto
  qed
  then show ?thesis by (auto simp: untouched_def)
qed

theorem failed_call_no_effect_witness:
  "\<exists>rt'. run_call demo_host (PopScope (demo_pop 99)) demo_runtime = (False, rt') \<and>
     rt_stacks rt' = rt_stacks demo_runtime \<and> rt_dispatcher rt' = rt_dispatcher demo_runtime"
proof -
  have "run_call demo_host (PopScope (demo_pop 99)) demo_runtime = (False, demo_runtime)"
    by (simp add: pop_scope_def pop_scope_inner_def demo_runtime_def owned_call_def demo_owner demo_pop_def
        current_scope_stack_def scope_stack_new_def build_handle_def ss_top_def ss_find_def)
  from this failed_call_no_effect [OF this] show ?thesis by simp
qed

text \<open>Scope-local middleware is never gated, so all of it is in the snapshot.\<close>

lemma local_registry_visible:
  assumes "h \<in> set (ss_stack s)" and "map_of (scope_registries s) (sh_uuid h) = Some regs"
  shows "field regs \<in> set (collect_scope_local_registries field s)"
  using assms by (force simp: collect_scope_local_registries_def map_filter_def)

lemma local_sanitizers_snapshot:
  assumes "snapshot_event_sanitizers sv e (Healthy s) (Healthy st) w = (Some sans, w')"
    and "sanitizer_surface e = (field, kind)" and "h \<in> set (ss_stack s)"
    and "map_of (scope_registries s) (sh_uuid h) = Some regs" and "r \<in> set (sorted_values (field regs))"
  shows "new_record (rr_name r) (rr_priority r) (as_sanitizer sv (rr_payload r)) \<in> set sans"
  using assms local_registry_visible [OF assms(3,4), of field]
  by (auto simp: snapshot_event_sanitizers_def merge_guardrail_entries_def split: prod.splits intro!: image_eqI [of _ _ r])

lemma local_injectors_snapshot:
  assumes "h \<in> set (ss_stack s)" and "map_of (scope_registries s) (sh_uuid h) = Some regs"
    and "r \<in> set (sorted_values (event_metadata_injectors regs))"
  shows "new_record (rr_name r) (rr_priority r) (as_injector sv (rr_payload r)) \<in>
    set (fst (snapshot_event_metadata_injectors sv s (Healthy st) w))"
  using assms local_registry_visible [OF assms(1,2), of event_metadata_injectors]
  by (auto simp: snapshot_event_metadata_injectors_def merge_event_metadata_injector_entries_def split_beta
      intro!: image_eqI [of _ _ r])

lemma local_subscribers_snapshot:
  assumes "snapshot_event_subscribers sv (collect_scope_local_subscribers s) cx w = (Inr fs, w')"
    and "h \<in> set (ss_stack s)" and "map_of (scope_registries s) (sh_uuid h) = Some regs"
    and "(n, f) \<in> set (event_subscribers regs)"
  shows "f \<in> set fs"
proof -
  have "f \<in> set (collect_scope_local_subscribers s)"
    using assms(2-4) by (force simp: collect_scope_local_subscribers_def map_filter_def)
  then show ?thesis using assms(1)
    by (auto simp: snapshot_event_subscribers_def collect_event_subscribers_def split_beta split: rwlock.splits)
qed

lemma pop_scope_success:
  assumes "pop_scope sv pp rt = (Finished (Inr ()), rt')"
  shows "popped sv pp False rt rt'"
proof -
  obtain r where "pop_scope_inner sv pp False rt = (r, rt')" "map_outcome (map_sum id (\<lambda>_. ())) r = Finished (Inr ())"
    using assms by (cases "pop_scope_inner sv pp False rt") (simp add: pop_scope_def)
  then show ?thesis
    using pop_scope_outcome [of sv pp False rt r rt']
    by (cases r) (auto simp: map_sum_def split: sum.splits)
qed

text \<open>
  C20. The end event of a scope is queued with the middleware of the scope it ends: all sanitizers,
  injectors and subscribers that are registered on the scope, and these registrations are gone from
  the stack when the pop returns.
\<close>

theorem end_event_keeps_scope_middleware:
  assumes "observed sv rt" and "visible_stack rt = Healthy s"
    and "map_of (scope_registries s) (pp_handle_uuid pp) = Some regs"
    and "pop_scope sv pp rt = (Finished (Inr ()), rt')"
  shows "\<exists>x l s'. channel (rt_dispatcher rt') = channel (rt_dispatcher rt) @ [Deliver x (Some l) None] \<and>
     is_scope_end (dv_event x) \<and> be_uuid (base_of (dv_event x)) = pp_handle_uuid pp \<and>
     (\<forall>r\<in>set (sorted_values (scope_sanitize_end_guardrails regs)).
        new_record (rr_name r) (rr_priority r) (as_sanitizer sv (rr_payload r)) \<in> set (dv_sanitizers x)) \<and>
     (\<forall>r\<in>set (sorted_values (event_metadata_injectors regs)).
        new_record (rr_name r) (rr_priority r) (as_injector sv (rr_payload r)) \<in> set (dv_injectors x)) \<and>
     (\<forall>(n, f)\<in>set (event_subscribers regs). as_subscriber sv f \<in> set (dv_subscribers x)) \<and>
     visible_stack rt' = Healthy s' \<and> map_of (scope_registries s') (pp_handle_uuid pp) = None"
proof -
  obtain q w1 w2 w3 t now fs sans e rt1 where t: "ss_top s = Some t" "sh_uuid t = pp_handle_uuid pp" "length (ss_stack s) \<noteq> 1"
    and e: "e = build_scope_end_event now \<lparr>eh_handle = t, eh_data = pp_output pp, eh_metadata = pp_metadata pp,
           eh_timestamp = pp_timestamp pp\<rparr>"
    and fs: "snapshot_event_subscribers sv (collect_scope_local_subscribers s) (rt_context rt) (rt_world rt) = (Inr fs, w1)"
    and sans: "snapshot_event_sanitizers sv e (Healthy s) (rt_context rt) w2 = (Some sans, w3)"
    and rt1: "rt1 = rt\<lparr>rt_process := q, rt_stacks := (rt_stacks rt)(current_scope_stack (rt_bindings rt) :=
         Healthy (snd (ss_remove (sh_uuid t) s))), rt_world := w3\<rparr>"
    and rt': "rt' = snd (dispatch_sanitized_event sv e sans fs (Healthy s) rt1)"
    using pop_scope_success [OF assms(4)] assms(2) unfolding popped_def by auto
  have mem: "t \<in> set (ss_stack s)" "map_of (scope_registries s) (sh_uuid t) = Some regs"
    using t assms(3) by (auto simp: ss_top_def split: if_splits)
  obtain st where st: "rt_context rt = Healthy st" using assms(1) by (auto simp: observed_def subscribed_def)
  have surf: "sanitizer_surface e = (scope_sanitize_end_guardrails, ScopeSanitizeEndGuardrail)"
    by (simp add: e build_scope_end_event_def scope_event_new_def Let_def)
  have "delivered sv e None sans fs s None rt1 rt'"
    unfolding rt' by (rule dispatch_observed) (use assms(1) observed_subscribers [OF assms(1) fs] in \<open>simp_all add: rt1\<close>)
  then obtain x l n w d where d: "rt' = rt1\<lparr>rt_dispatcher := d, rt_receipts := n, rt_world := w\<rparr>"
      "channel d = channel (rt_dispatcher rt1) @ [Deliver x (Some l) None]"
    and x: "x = \<lparr>dv_event = queued_event s e, dv_transform = None,
          dv_injectors = fst (snapshot_event_metadata_injectors sv s (rt_context rt1) (rt_world rt1)),
          dv_sanitizers = sans, dv_subscribers = map (as_subscriber sv) fs\<rparr>"
    unfolding delivered_def by blast
  have "is_scope_end e" "be_uuid (base_of e) = pp_handle_uuid pp"
    by (simp_all add: e build_scope_end_event_def scope_event_new_def base_event_build_def is_scope_end_def t Let_def)
  then have ev: "is_scope_end (dv_event x)" "be_uuid (base_of (dv_event x)) = pp_handle_uuid pp" by (simp_all add: x)
  have san: "\<forall>r\<in>set (sorted_values (scope_sanitize_end_guardrails regs)).
      new_record (rr_name r) (rr_priority r) (as_sanitizer sv (rr_payload r)) \<in> set (dv_sanitizers x)"
    using local_sanitizers_snapshot [OF sans [unfolded st] surf mem] by (simp add: x)
  have inj: "\<forall>r\<in>set (sorted_values (event_metadata_injectors regs)).
      new_record (rr_name r) (rr_priority r) (as_injector sv (rr_payload r)) \<in> set (dv_injectors x)"
    using local_injectors_snapshot [OF mem, of _ sv st w3] st by (simp add: x rt1)
  have sub: "\<forall>(n, f)\<in>set (event_subscribers regs). as_subscriber sv f \<in> set (dv_subscribers x)"
    using local_subscribers_snapshot [OF fs mem] by (auto simp: x)
  have "map_of (scope_registries (snd (ss_remove (sh_uuid t) s))) (pp_handle_uuid pp) = None"
    using t by (auto simp: ss_remove_def delete_conv)
  then show ?thesis using ev san inj sub d t(2)
    by (intro exI [of _ x] exI [of _ l] exI [of _ "snd (ss_remove (sh_uuid t) s)"]) (simp add: rt1)
qed

definition demo_local :: "nat registries" where
  "demo_local = registries_new\<lparr>scope_sanitize_end_guardrails := demo_registry, event_subscribers := [(''local'', 4)]\<rparr>"

definition demo_nested :: "nat scope_stack" where
  "demo_nested = (ss_push (build_handle 2 0 ''work'' Agent (Some 1)) (scope_stack_new 1 0))\<lparr>scope_registries := [(2, demo_local)]\<rparr>"

theorem end_event_keeps_scope_middleware_witness:
  "\<exists>rt' x l. pop_scope demo_host (demo_pop 2) (demo_runtime\<lparr>rt_stacks := \<lambda>_. Healthy demo_nested\<rparr>) = (Finished (Inr ()), rt') \<and>
     channel (rt_dispatcher rt') = [Deliver x (Some l) None] \<and>
     as_subscriber demo_host 4 \<in> set (dv_subscribers x) \<and>
     (\<forall>r\<in>set (sorted_values demo_registry).
        new_record (rr_name r) (rr_priority r) (as_sanitizer demo_host (rr_payload r)) \<in> set (dv_sanitizers x))"
proof -
  let ?rt = "demo_runtime\<lparr>rt_stacks := \<lambda>_. Healthy demo_nested\<rparr>"
  have top: "ss_top demo_nested = Some (build_handle 2 0 ''work'' Agent (Some 1))" "length (ss_stack demo_nested) = 2"
    by (simp_all add: demo_nested_def ss_push_def scope_stack_new_def build_handle_def ss_top_def)
  obtain r rt' where r: "pop_scope_inner demo_host (demo_pop 2) False ?rt = (r, rt')" by fastforce
  have "r = Finished (Inr None)"
    using r top
    by (auto simp: pop_scope_inner_def owned_call_def demo_runtime_def demo_owner demo_pop_def current_scope_stack_def
        build_handle_def task_scope_remove_def ss_remove_def Let_def split_beta demo_context_def
        snapshot_event_subscribers_def)
  then have ok: "pop_scope demo_host (demo_pop 2) ?rt = (Finished (Inr ()), rt')" using r by (simp add: pop_scope_def)
  have "observed demo_host ?rt" "visible_stack ?rt = Healthy demo_nested"
    "map_of (scope_registries demo_nested) (pp_handle_uuid (demo_pop 2)) = Some demo_local"
    using demo_observed by (simp_all add: demo_nested_def demo_pop_def)
  from end_event_keeps_scope_middleware [OF this ok] ok show ?thesis
    by (auto simp: demo_local_def demo_runtime_def dispatcher_new_def)
qed

end
