(* ===== verification/Skill_Load.thy ===== *)
theory Skill_Load
  imports Metric_Events "HOL-Library.Multiset"
begin

text \<open>
  Detection of skill loads (\<^verbatim>\<open>crates/core/src/api/skill_load.rs\<close>): which skills a tool call reads, from
  its name and its arguments. A skill is loaded by a skill tool, by a structured read of its
  \<^verbatim>\<open>SKILL.md\<close>, or by a shell command that prints the whole file.

  The words of a shell command come from the crate \<^verbatim>\<open>shell_words\<close>; its \<^verbatim>\<open>split\<close> is the parameter
  \<open>split\<close> of the definitions that use it, \<open>None\<close> being its parse error. A string is its UTF-8 bytes:
  all characters the source looks for are ASCII, so splitting at bytes gives the same parts.
\<close>

section \<open>Strings\<close>

fun split_by :: "(char \<Rightarrow> bool) \<Rightarrow> string \<Rightarrow> string list" where
  "split_by P [] = [[]]"
| "split_by P (c # s) = (if P c then [] # split_by P s
     else (case split_by P s of w # ws \<Rightarrow> (c # w) # ws | [] \<Rightarrow> [[c]]))"

definition starts_with :: "string \<Rightarrow> string \<Rightarrow> bool" where
  "starts_with p s \<longleftrightarrow> take (length p) s = p"

fun contains_str :: "string \<Rightarrow> string \<Rightarrow> bool" where
  "contains_str p [] = (p = [])"
| "contains_str p (c # s) = (starts_with p (c # s) \<or> contains_str p s)"

abbreviation quote_char :: char where "quote_char \<equiv> CHR 0x27"
abbreviation backslash :: char where "backslash \<equiv> CHR 0x5C"
abbreviation backquote :: char where "backquote \<equiv> CHR 0x60"

definition path_separator :: "char \<Rightarrow> bool" where
  "path_separator c \<longleftrightarrow> c = CHR ''/'' \<or> c = backslash"

definition normalize_identifier :: "string \<Rightarrow> string" where
  "normalize_identifier s = to_ascii_lowercase (filter is_ascii_alphanumeric s)"

text \<open>\<^verbatim>\<open>deduplicate\<close> keeps the first occurrence of each name.\<close>

fun deduplicate_from :: "string set \<Rightarrow> string list \<Rightarrow> string list" where
  "deduplicate_from seen [] = []"
| "deduplicate_from seen (n # ns) =
     (if n \<in> seen then deduplicate_from seen ns else n # deduplicate_from (insert n seen) ns)"

definition deduplicate :: "string list \<Rightarrow> string list" where
  "deduplicate = deduplicate_from {}"

section \<open>Visiting named values\<close>

text \<open>
  The work list of \<^verbatim>\<open>visit_named_values\<close> is a stack; its top is the head of the list here. The result
  lists what the closure is called on, in order.
\<close>

function visit_stack :: "json list \<Rightarrow> (string \<times> json) list" where
  "visit_stack [] = []"
| "visit_stack (v # stack) = (case v of
       JObject m \<Rightarrow> map (\<lambda>(k, x). (normalize_identifier k, x)) m @ visit_stack (rev (map snd m) @ stack)
     | JArray xs \<Rightarrow> visit_stack (rev xs @ stack)
     | _ \<Rightarrow> visit_stack stack)"
  by pat_completeness auto

lemma size_list_values: "size_list size (map snd m) \<le> size_list (size_prod (\<lambda>_. 0) size) m"
  by (induction m) auto

lemma size_list_append: "size_list f (xs @ ys) = size_list f xs + size_list f ys"
  by (induction xs) auto

lemma size_list_rev: "size_list f (rev xs) = size_list f xs"
  by (induction xs) (auto simp: size_list_append)

termination visit_stack
proof (relation "measure (size_list size)")
  fix v :: json and stack m
  assume "v = JObject m"
  then show "(rev (map snd m) @ stack, v # stack) \<in> measure (size_list size)"
    using size_list_values [of m] by (simp add: size_list_append size_list_rev rev_map [symmetric])
qed (simp_all add: size_list_append size_list_rev)

declare visit_stack.simps [simp del]

definition visit_named_values :: "json \<Rightarrow> (string \<times> json) list" where
  "visit_named_values v = visit_stack [v]"

section \<open>Paths\<close>

definition skill_name_from_path :: "string \<Rightarrow> string option" where
  "skill_name_from_path path =
     (if str_trim path \<noteq> path \<or> (path \<noteq> [] \<and> hd path \<in> {quote_char, CHR 0x22}) \<or>
         (path \<noteq> [] \<and> last path \<in> {quote_char, CHR 0x22, CHR ''/'', backslash})
      then None
      else (case rev (filter (\<lambda>c. c \<noteq> []) (split_by path_separator path)) of
          file # parent # _ \<Rightarrow>
            if \<not> eq_ignore_ascii_case file ''SKILL.md'' \<or> parent = ''.'' \<or> parent = ''..'' \<or> last parent = CHR '':''
            then None else Some parent
        | _ \<Rightarrow> None))"

fun collect_path_skill_names :: "json \<Rightarrow> string list" where
  "collect_path_skill_names (JString path) = (case skill_name_from_path path of Some n \<Rightarrow> [n] | None \<Rightarrow> [])"
| "collect_path_skill_names (JArray vs) = concat (map collect_path_skill_names vs)"
| "collect_path_skill_names _ = []"

section \<open>Whole-file readers\<close>

definition executable_name :: "string \<Rightarrow> string option" where
  "executable_name executable =
     (let name = to_ascii_lowercase (last (split_by path_separator executable));
          name = (if drop (length name - 4) name = ''.exe'' then take (length name - 4) name else name)
      in if name = [] then None else Some name)"

definition positional_paths :: "string list \<Rightarrow> string list" where
  "positional_paths words = filter (\<lambda>w. \<not> starts_with ''-'' w) words"

definition CAT_REJECTED_OPTIONS :: "string list" where
  "CAT_REJECTED_OPTIONS = [''-h'', ''--help'', ''--version'', ''--show-all'', ''--number-nonblank'', ''--show-ends'',
     ''--number'', ''--squeeze-blank'', ''--show-tabs'', ''--show-nonprinting'']"

definition CAT_REJECTED_SHORT_OPTIONS :: string where
  "CAT_REJECTED_SHORT_OPTIONS = ''AbeEnstTv''"

definition BAT_ALLOWED_OPTIONS :: "string list" where
  "BAT_ALLOWED_OPTIONS = [''-p'', ''--plain'']"

definition POWERSHELL_ALLOWED_OPTIONS :: "string list" where
  "POWERSHELL_ALLOWED_OPTIONS = [''asbytestream'', ''encoding'', ''force'', ''literalpath'', ''path'', ''raw'', ''readcount'']"

definition is_rejected_option :: "string \<Rightarrow> string list \<Rightarrow> string \<Rightarrow> bool" where
  "is_rejected_option word rejected_options rejected_short_options \<longleftrightarrow>
     list_ex (\<lambda>option. eq_ignore_ascii_case word option \<or> starts_with (option @ ''='') word) rejected_options \<or>
     (case strip_prefix ''-'' word of
        None \<Rightarrow> False
      | Some options \<Rightarrow> \<not> starts_with ''-'' options \<and> list_ex (\<lambda>c. c \<in> set rejected_short_options) options)"

definition cat_paths :: "string list \<Rightarrow> string list" where
  "cat_paths words =
     (if list_ex (\<lambda>w. is_rejected_option w CAT_REJECTED_OPTIONS CAT_REJECTED_SHORT_OPTIONS \<or>
           (starts_with ''-'' w \<and> w \<noteq> ''--'' \<and> \<not> eq_ignore_ascii_case w ''-u'')) words
      then [] else positional_paths words)"

definition bat_allowed :: "string \<Rightarrow> bool" where
  "bat_allowed w \<longleftrightarrow> list_ex (eq_ignore_ascii_case w) BAT_ALLOWED_OPTIONS"

definition bat_paths :: "string list \<Rightarrow> string list" where
  "bat_paths words =
     (if length (filter bat_allowed words) \<noteq> 1 \<or>
         list_ex (\<lambda>w. starts_with ''-'' w \<and> w \<noteq> ''--'' \<and> \<not> bat_allowed w) words
      then [] else positional_paths words)"

abbreviation option_end :: "char \<Rightarrow> bool" where
  "option_end c \<equiv> c = CHR '':'' \<or> c = CHR ''=''"

definition powershell_option_name :: "string \<Rightarrow> string option" where
  "powershell_option_name word = map_option (takeWhile (\<lambda>c. \<not> option_end c)) (strip_prefix ''-'' word)"

definition powershell_option_value :: "string \<Rightarrow> string option" where
  "powershell_option_value word = (case dropWhile (\<lambda>c. \<not> option_end c) word of
       [] \<Rightarrow> None | c # v \<Rightarrow> if v = [] then None else Some v)"

definition option_in :: "string \<Rightarrow> string list \<Rightarrow> bool" where
  "option_in word options = (case powershell_option_name word of
       None \<Rightarrow> False | Some option \<Rightarrow> list_ex (eq_ignore_ascii_case option) options)"

text \<open>The loop over the index; the words from the index on.\<close>

fun powershell_scan :: "string list \<Rightarrow> string list" where
  "powershell_scan [] = []"
| "powershell_scan (word # words) =
     (if option_in word [''path'', ''literalpath''] then
        (case powershell_option_value word of
           Some path \<Rightarrow> path # powershell_scan words
         | None \<Rightarrow> (case words of path # rest \<Rightarrow> path # powershell_scan rest | [] \<Rightarrow> []))
      else if option_in word [''encoding'', ''readcount''] \<and> powershell_option_value word = None
      then powershell_scan (drop 1 words)
      else if \<not> starts_with ''-'' word then word # powershell_scan words
      else powershell_scan words)"

definition powershell_content_paths :: "string list \<Rightarrow> string list" where
  "powershell_content_paths words =
     (if list_ex (\<lambda>w. starts_with ''-'' w \<and> \<not> option_in w POWERSHELL_ALLOWED_OPTIONS) words
      then [] else powershell_scan words)"

section \<open>Shell commands\<close>

type_synonym word_splitter = "string \<Rightarrow> string list option"

definition shell_special :: "string \<Rightarrow> bool" where
  "shell_special w \<longleftrightarrow> list_ex (\<lambda>c. c \<in> {CHR ''|'', CHR ''&'', CHR '';'', CHR ''<'', CHR ''>'', backquote}) w \<or>
     contains_str ''$('' w"

definition standalone_command_words :: "word_splitter \<Rightarrow> string \<Rightarrow> string list option" where
  "standalone_command_words split command =
     (if CHR 0x0A \<in> set command \<or> CHR 0x0D \<in> set command then None
      else (case split (concat (map (\<lambda>c. if c = backslash then [c, c] else [c]) command)) of
          None \<Rightarrow> None
        | Some words \<Rightarrow> if words = [] \<or> list_ex shell_special words then None else Some words))"

definition reader_executable :: "string list \<Rightarrow> string option" where
  "reader_executable words = (case words of [] \<Rightarrow> None | w # _ \<Rightarrow> executable_name w)"

definition posix_reader_word_paths :: "string list \<Rightarrow> string list" where
  "posix_reader_word_paths words = (case reader_executable words of
       None \<Rightarrow> []
     | Some e \<Rightarrow>
         if e = ''cat'' then cat_paths (drop 1 words)
         else if e = ''bat'' \<or> e = ''batcat'' then bat_paths (drop 1 words)
         else [])"

definition powershell_reader_word_paths :: "string list \<Rightarrow> string list" where
  "powershell_reader_word_paths words = (case reader_executable words of
       None \<Rightarrow> []
     | Some e \<Rightarrow> if e \<noteq> ''get-content'' then [] else powershell_content_paths (drop 1 words))"

definition posix_shell_wrapper_paths :: "word_splitter \<Rightarrow> string \<Rightarrow> string list \<Rightarrow> string list" where
  "posix_shell_wrapper_paths split executable words = (case words of
       [flag, command] \<Rightarrow>
         if \<not> ((executable = ''sh'' \<and> flag = ''-c'') \<or>
                (executable \<in> {''bash'', ''zsh''} \<and> flag \<in> {''-c'', ''-lc''}))
         then []
         else (case standalone_command_words split command of
             None \<Rightarrow> [] | Some ws \<Rightarrow> posix_reader_word_paths ws)
     | _ \<Rightarrow> [])"

definition fish_shell_wrapper_paths :: "word_splitter \<Rightarrow> string list \<Rightarrow> string list" where
  "fish_shell_wrapper_paths split words =
     (case (case words of
          [flag, command] \<Rightarrow> if flag = ''-c'' then Some command else None
        | [argument] \<Rightarrow> Some (case strip_prefix ''--command='' argument of Some c \<Rightarrow> c | None \<Rightarrow> [])
        | _ \<Rightarrow> None) of
        None \<Rightarrow> []
      | Some command \<Rightarrow> (case standalone_command_words split command of
            None \<Rightarrow> [] | Some ws \<Rightarrow> posix_reader_word_paths ws))"

definition powershell_wrapper_paths :: "word_splitter \<Rightarrow> string list \<Rightarrow> string list" where
  "powershell_wrapper_paths split words = (case words of
       [] \<Rightarrow> []
     | flag # command \<Rightarrow>
         if \<not> eq_ignore_ascii_case flag ''-command'' \<or> command = [] then []
         else (case command of
             [c] \<Rightarrow> (case standalone_command_words split c of
                 None \<Rightarrow> [] | Some ws \<Rightarrow> powershell_reader_word_paths ws)
           | _ \<Rightarrow> powershell_reader_word_paths command))"

definition complete_reader_word_paths :: "word_splitter \<Rightarrow> string list \<Rightarrow> bool \<Rightarrow> string list" where
  "complete_reader_word_paths split words allow_direct_cat = (case reader_executable words of
       None \<Rightarrow> []
     | Some e \<Rightarrow>
         if e = ''cat'' \<and> allow_direct_cat then cat_paths (drop 1 words)
         else if e = ''bat'' \<or> e = ''batcat'' then bat_paths (drop 1 words)
         else if e = ''get-content'' then powershell_content_paths (drop 1 words)
         else if e \<in> {''sh'', ''bash'', ''zsh''} then posix_shell_wrapper_paths split e (drop 1 words)
         else if e = ''fish'' then fish_shell_wrapper_paths split (drop 1 words)
         else if e \<in> {''powershell'', ''pwsh''} then powershell_wrapper_paths split (drop 1 words)
         else [])"

definition complete_reader_paths :: "word_splitter \<Rightarrow> string \<Rightarrow> bool \<Rightarrow> string list" where
  "complete_reader_paths split command allow_direct_cat = (case standalone_command_words split command of
       None \<Rightarrow> [] | Some words \<Rightarrow> complete_reader_word_paths split words allow_direct_cat)"

section \<open>Detection\<close>

datatype skill_load_source = SkillTool | StructuredRead | ShellRead

fun skill_load_source_str :: "skill_load_source \<Rightarrow> string" where
  "skill_load_source_str SkillTool = ''skill_tool''"
| "skill_load_source_str StructuredRead = ''structured_read''"
| "skill_load_source_str ShellRead = ''shell_read''"

definition skill_load_source_parse :: "string \<Rightarrow> skill_load_source option" where
  "skill_load_source_parse s =
     (if s = ''skill_tool'' then Some SkillTool
      else if s = ''structured_read'' then Some StructuredRead
      else if s = ''shell_read'' then Some ShellRead
      else None)"

record skill_load =
  sl_name :: string
  sl_source :: skill_load_source

definition skill_tool_names :: "json \<Rightarrow> string list" where
  "skill_tool_names args = List.map_filter (\<lambda>(key, value). case json_as_str value of
       None \<Rightarrow> None
     | Some s \<Rightarrow>
         if key \<in> {''skill'', ''skillname'', ''name''} \<and> str_trim s \<noteq> [] then Some (str_trim s) else None)
     (visit_named_values args)"

definition structured_skill_names :: "json \<Rightarrow> string list" where
  "structured_skill_names args = concat (map (\<lambda>(key, value).
     if key \<in> {''path'', ''filepath'', ''filename'', ''file'', ''paths'', ''uri'', ''absolutepath''}
     then collect_path_skill_names value else []) (visit_named_values args))"

definition shell_skill_names :: "word_splitter \<Rightarrow> string \<Rightarrow> json \<Rightarrow> string list" where
  "shell_skill_names split tool_name args =
     (let commands = List.map_filter (\<lambda>(key, value).
            if key \<in> {''command'', ''cmd''} then json_as_str value else None) (visit_named_values args);
          allow_direct_cat = (tool_name \<notin> {''powershell'', ''pwsh''})
      in List.map_filter skill_name_from_path
           (concat (map (\<lambda>c. complete_reader_paths split c allow_direct_cat) commands)))"

definition structured_readers :: "string list" where
  "structured_readers = [''read'', ''readfile'', ''readtextfile'', ''readmultiplefiles'', ''fileread'',
     ''readresource'', ''getfilecontents'', ''readfilecontent'']"

definition is_structured_reader :: "string \<Rightarrow> bool" where
  "is_structured_reader tool_name =
     (let segments = map normalize_identifier
            (filter (\<lambda>s. s \<noteq> []) (split_by (\<lambda>c. \<not> is_ascii_alphanumeric c) tool_name))
      in list_ex (\<lambda>n. concat (drop (length segments - n) segments) \<in> set structured_readers)
           [1..<length segments + 1])"

definition shell_tools :: "string list" where
  "shell_tools = [''sh'', ''bash'', ''zsh'', ''fish'', ''shell'', ''shellcommand'', ''exec'', ''execcommand'', ''execute'',
     ''terminal'', ''runcommand'', ''runshellcommand'', ''shellexec'', ''powershell'', ''pwsh'']"

definition json_as_i64 :: "json \<Rightarrow> 64 word option" where
  "json_as_i64 v = Option.bind (as_number v) as_i64"

definition partial_control :: "string \<Rightarrow> json \<Rightarrow> bool" where
  "partial_control key value =
     (let key = normalize_identifier key
      in if key = ''offset'' then json_as_i64 value \<noteq> Some 0
         else if key \<in> {''limit'', ''range'', ''head'', ''tail'', ''startline'', ''endline'', ''linestart'', ''lineend''}
         then value \<noteq> JNull
         else False)"

definition has_partial_read_controls :: "json \<Rightarrow> bool" where
  "has_partial_read_controls value = list_ex (\<lambda>(key, v). partial_control key v) (visit_named_values value)"

definition detect :: "word_splitter \<Rightarrow> string \<Rightarrow> json \<Rightarrow> skill_load list" where
  "detect split tool_name args =
     (let normalized = normalize_identifier tool_name;
          found = (if normalized \<in> {''skill'', ''skillview''} then Some (SkillTool, skill_tool_names args)
             else if is_structured_reader tool_name \<and> \<not> has_partial_read_controls args
             then Some (StructuredRead, structured_skill_names args)
             else if normalized \<in> set shell_tools then Some (ShellRead, shell_skill_names split normalized args)
             else None)
      in case found of
           None \<Rightarrow> []
         | Some (source, names) \<Rightarrow> map (\<lambda>n. \<lparr>sl_name = n, sl_source = source\<rparr>) (deduplicate names))"

definition precomputed_entry :: "json \<Rightarrow> skill_load option" where
  "precomputed_entry entry =
     (case Option.bind (json_get entry ''skill_name'') json_as_str of None \<Rightarrow> None | Some name \<Rightarrow>
     (case Option.bind (Option.bind (json_get entry ''source'') json_as_str) skill_load_source_parse of
        None \<Rightarrow> None
      | Some source \<Rightarrow> if str_trim name = [] then None
          else Some \<lparr>sl_name = str_trim name, sl_source = source\<rparr>))"

fun first_by_name :: "string set \<Rightarrow> skill_load list \<Rightarrow> skill_load list" where
  "first_by_name seen [] = []"
| "first_by_name seen (l # ls) =
     (if sl_name l \<in> seen then first_by_name seen ls
      else l # first_by_name (insert (sl_name l) seen) ls)"

definition precomputed :: "json option \<Rightarrow> skill_load list option" where
  "precomputed metadata = (case Option.bind metadata (\<lambda>m. json_get m ''nemo_relay.skill_loads'') of
       Some (JArray entries) \<Rightarrow> Some (first_by_name {} (List.map_filter precomputed_entry entries))
     | _ \<Rightarrow> None)"

text \<open>\<^verbatim>\<open>resolve_skill_loads\<close> of \<^verbatim>\<open>tool.rs\<close>.\<close>

definition resolve_skill_loads :: "word_splitter \<Rightarrow> string \<Rightarrow> json \<Rightarrow> json option \<Rightarrow> skill_load list" where
  "resolve_skill_loads split name args metadata =
     (let already_handled = (case Option.bind (Option.bind metadata (\<lambda>m. json_get m ''nemo_relay.skill_load_handled''))
            as_bool of Some b \<Rightarrow> b | None \<Rightarrow> False)
      in if already_handled then []
         else (case precomputed metadata of Some ls \<Rightarrow> ls | None \<Rightarrow> detect split name args))"

end
