(* ===== verification/Skill_Load_Properties.thy ===== *)
theory Skill_Load_Properties
  imports Skill_Load
begin

text \<open>
  What skill detection guarantees: the work list visits every named value once, the names it reports
  are distinct and usable as a directory name, and the read of a skill file is found.
\<close>

section \<open>The work list\<close>

text \<open>The named values of a document, by structural recursion.\<close>

fun named_values :: "json \<Rightarrow> (string \<times> json) list" where
  "named_values (JObject m) = concat (map (\<lambda>p. (normalize_identifier (fst p), snd p) # named_values (snd p)) m)"
| "named_values (JArray xs) = concat (map named_values xs)"
| "named_values _ = []"

lemma mset_named_object:
  "mset (concat (map (\<lambda>p. (normalize_identifier (fst p), snd p) # named_values (snd p)) m)) =
     mset (map (\<lambda>(k, x). (normalize_identifier k, x)) m) + mset (concat (map (named_values \<circ> snd) m))"
  by (induction m) auto

lemma mset_concat_rev: "mset (concat (map f (rev xs))) = mset (concat (map f xs))"
  by (induction xs) auto

lemma visit_stack_mset: "mset (visit_stack stack) = mset (concat (map named_values stack))"
proof (induction stack rule: visit_stack.induct)
  case (2 v stack)
  show ?case
  proof (cases v)
    case (JArray xs)
    then show ?thesis using 2 JArray by (simp add: visit_stack.simps mset_concat_rev)
  next
    case (JObject m)
    have "mset (concat (map named_values (rev (map snd m)))) = mset (concat (map (named_values \<circ> snd) m))"
      by (simp add: mset_concat_rev)
    then show ?thesis
      using 2 mset_named_object [of m] JObject by (simp add: visit_stack.simps)
  qed (use 2 in \<open>simp_all add: visit_stack.simps\<close>)
qed (simp add: visit_stack.simps)

text \<open>
  C37. The work list ends on every document and calls its visitor exactly once on each named value,
  at whatever depth: what it visits is a permutation of the structural enumeration.
\<close>

theorem visit_named_values_exact: "mset (visit_named_values v) = mset (named_values v)"
  by (simp add: visit_named_values_def visit_stack_mset)

section \<open>Names\<close>

lemma deduplicate_from_set: "set (deduplicate_from seen ns) = set ns - seen"
  by (induction seen ns rule: deduplicate_from.induct) auto

lemma deduplicate_from_distinct: "distinct (deduplicate_from seen ns)"
  by (induction seen ns rule: deduplicate_from.induct) (auto simp: deduplicate_from_set)

lemma deduplicate_laws: "distinct (deduplicate ns)" "set (deduplicate ns) = set ns"
  by (simp_all add: deduplicate_def deduplicate_from_distinct deduplicate_from_set)

lemma split_by_parts: "\<forall>p\<in>set (split_by P s). \<forall>c\<in>set p. \<not> P c"
  by (induction s) (auto split: list.splits)

text \<open>A name that can be the name of a directory.\<close>

definition directory_name :: "string \<Rightarrow> bool" where
  "directory_name n \<longleftrightarrow> n \<noteq> [] \<and> n \<noteq> ''.'' \<and> n \<noteq> ''..'' \<and> (\<forall>c\<in>set n. \<not> path_separator c)"

lemma skill_name_directory:
  assumes "skill_name_from_path path = Some n" shows "directory_name n"
proof -
  let ?cs = "filter (\<lambda>c. c \<noteq> []) (split_by path_separator path)"
  from assms obtain f rest where r: "rev ?cs = f # n # rest" "n \<noteq> ''.''" "n \<noteq> ''..''"
    by (auto simp: skill_name_from_path_def split: if_splits list.splits)
  then have "n \<in> set (rev ?cs)" by simp
  then have "n \<noteq> []" "n \<in> set (split_by path_separator path)" by simp_all
  then show ?thesis using r split_by_parts unfolding directory_name_def by blast
qed

lemma collect_path_directory: "n \<in> set (collect_path_skill_names v) \<Longrightarrow> directory_name n"
  by (induction v rule: collect_path_skill_names.induct)
     (auto simp: skill_name_directory split: option.splits)

lemma structured_names_directory: "n \<in> set (structured_skill_names args) \<Longrightarrow> directory_name n"
  by (auto simp: structured_skill_names_def collect_path_directory split: if_splits)

lemma shell_names_directory: "n \<in> set (shell_skill_names split tool args) \<Longrightarrow> directory_name n"
  by (auto simp: shell_skill_names_def map_filter_def skill_name_directory Let_def)

lemma skill_tool_names_nonempty: "n \<in> set (skill_tool_names args) \<Longrightarrow> n \<noteq> []"
  by (auto simp: skill_tool_names_def map_filter_def split: option.splits if_splits)

text \<open>
  Every skill is reported once, and a skill that was found by its file has a name that is one
  component of a path and neither of the two special directories.
\<close>

theorem detect_names:
  "distinct (map sl_name (detect split tool args)) \<and>
   (\<forall>l\<in>set (detect split tool args). sl_name l \<noteq> [] \<and> (sl_source l \<noteq> SkillTool \<longrightarrow> directory_name (sl_name l)))"
proof -
  have d: "detect split tool args = [] \<or> (\<exists>src names. detect split tool args =
      map (\<lambda>n. \<lparr>sl_name = n, sl_source = src\<rparr>) (deduplicate names) \<and>
      (\<forall>n\<in>set names. n \<noteq> [] \<and> (src \<noteq> SkillTool \<longrightarrow> directory_name n)))"
    using skill_tool_names_nonempty [of _ args] structured_names_directory [of _ args]
      shell_names_directory [of _ split "normalize_identifier tool" args]
    unfolding detect_def Let_def by (fastforce simp: directory_name_def split: option.splits if_splits)
  then show ?thesis
  proof (elim disjE exE conjE)
    fix src names
    assume *: "detect split tool args = map (\<lambda>n. \<lparr>sl_name = n, sl_source = src\<rparr>) (deduplicate names)"
      "\<forall>n\<in>set names. n \<noteq> [] \<and> (src \<noteq> SkillTool \<longrightarrow> directory_name n)"
    have "map sl_name (detect split tool args) = deduplicate names" unfolding *(1) by (simp add: comp_def)
    then show ?thesis using *(2) deduplicate_laws [of names] unfolding *(1) by auto
  qed simp
qed

section \<open>Reading a skill file\<close>

lemma split_by_append: "P c \<Longrightarrow> split_by P (a @ c # b) = split_by P a @ split_by P b"
proof (induction a)
  case (Cons x a)
  moreover have "split_by P a \<noteq> []" by (induction a) (auto split: list.splits)
  ultimately show ?case by (auto split: list.splits)
qed simp

lemma split_by_single: "\<forall>c\<in>set n. \<not> P c \<Longrightarrow> split_by P n = [n]"
  by (induction n) auto

lemma skill_name_of_file:
  assumes "str_trim p = p" and "hd p \<notin> {quote_char, CHR 0x22}" and "p = dir @ CHR ''/'' # n @ ''/SKILL.md''"
    and "directory_name n" and "last n \<noteq> CHR '':''"
  shows "skill_name_from_path p = Some n"
proof -
  have "split_by path_separator ''SKILL.md'' = [''SKILL.md'']" by (simp add: path_separator_def)
  moreover have "split_by path_separator n = [n]" using assms(4) by (simp add: split_by_single directory_name_def)
  moreover have "p = dir @ CHR ''/'' # (n @ CHR ''/'' # ''SKILL.md'')" using assms(3) by simp
  ultimately have "split_by path_separator p = split_by path_separator dir @ [n, ''SKILL.md'']"
    by (simp only: split_by_append path_separator_def simp_thms) simp
  then have "rev (filter (\<lambda>c. c \<noteq> []) (split_by path_separator p)) =
      ''SKILL.md'' # n # rev (filter (\<lambda>c. c \<noteq> []) (split_by path_separator dir))"
    using assms(4) by (simp add: directory_name_def)
  moreover have "last p = CHR ''d''" using assms(3) by simp
  ultimately show ?thesis
    using assms(1,2,4,5) by (simp add: skill_name_from_path_def directory_name_def eq_ignore_ascii_case_def)
qed

text \<open>A read of the \<^verbatim>\<open>SKILL.md\<close> in the directory of a skill is reported as a load of that skill.\<close>

theorem skill_file_read_detected:
  assumes "str_trim p = p" and "hd p \<notin> {quote_char, CHR 0x22}" and "p = dir @ CHR ''/'' # n @ ''/SKILL.md''"
    and "directory_name n" and "last n \<noteq> CHR '':''"
  shows "detect split ''Read'' (JObject [(''file_path'', JString p)]) = [\<lparr>sl_name = n, sl_source = StructuredRead\<rparr>]"
proof -
  have k: "normalize_identifier ''file_path'' = ''filepath''" "normalize_identifier ''Read'' = ''read''"
    "normalize_identifier ''filepath'' = ''filepath''" "is_structured_reader ''Read''"
    by code_simp+
  have v: "visit_named_values (JObject [(''file_path'', JString p)]) = [(''filepath'', JString p)]"
    by (simp add: visit_named_values_def visit_stack.simps k)
  show ?thesis
    using skill_name_of_file [OF assms] k
    by (simp add: detect_def Let_def has_partial_read_controls_def partial_control_def structured_skill_names_def v
        deduplicate_def)
qed

end
