(* ===== verification/Tool_Api.thy ===== *)
theory Tool_Api
  imports Scope_Api Skill_Load
begin

text \<open>
  Tool calls (\<^verbatim>\<open>crates/core/src/api/tool.rs\<close>, \<^verbatim>\<open>crates/types/src/api/tool.rs\<close>): manual spans, the managed
  pipeline of guardrails, request intercepts, execution intercepts and the tool itself, the chain of
  execution intercepts (\<^verbatim>\<open>tool_build_execution_chain\<close> of \<^verbatim>\<open>state.rs\<close>) and the isolated context in which
  an intercept calls the rest of its chain (\<^verbatim>\<open>continuation_context.rs\<close>).

  Guardrails, intercepts and tools run on the caller's task, so they are effects over the whole
  runtime: they may push scopes or emit marks themselves. Sanitizers run later, on the dispatcher.
  A callback may panic, and it may be dropped while it is suspended; both propagate to the caller
  unless the pipeline handles them.
\<close>

section \<open>Results\<close>

record tool_execution_result =
  te_result :: json
  te_annotation :: "json option"

record tool_execution_intercept_outcome =
  to_result :: json
  to_annotation :: "json option"
  to_pending_marks :: "pending_mark_spec list"

definition normalize_annotation :: "json option \<Rightarrow> json option" where
  "normalize_annotation a = (case a of Some v \<Rightarrow> if v = JNull then None else Some v | None \<Rightarrow> None)"

definition into_execution_result :: "tool_execution_intercept_outcome \<Rightarrow> tool_execution_result" where
  "into_execution_result o' = \<lparr>te_result = to_result o', te_annotation = normalize_annotation (to_annotation o')\<rparr>"

definition outcome_of_result :: "tool_execution_result \<Rightarrow> tool_execution_intercept_outcome" where
  "outcome_of_result r = \<lparr>to_result = te_result r, to_annotation = normalize_annotation (te_annotation r),
     to_pending_marks = []\<rparr>"

record tool_execution_context =
  tx_tool_name :: string
  tx_args :: json
  tx_tool_call_id :: "string option"

text \<open>
  An execution intercept is a program that settles with an outcome or calls the rest of the chain
  and goes on with what that returns; it can do so any number of times. Between the calls it works on
  the state. A panic of the rest of the chain, and its being dropped, is not caught by the intercept.
\<close>

datatype ('s, 'a) intercept_program =
    Settle "'a outcome"
  | CallNext json "tool_execution_result flow_result \<Rightarrow> 's \<Rightarrow> ('s, 'a) intercept_program \<times> 's"

type_synonym ('f, 'w) tool_fn = "json \<Rightarrow> (('f, 'w) runtime, tool_execution_result flow_result) effect"

type_synonym ('f, 'w) tool_execution_fn =
  "tool_execution_context \<Rightarrow> ('f, 'w) runtime \<Rightarrow>
   (('f, 'w) runtime, tool_execution_intercept_outcome flow_result) intercept_program \<times> ('f, 'w) runtime"

record ('f, 'w) tool_host = "('f, 'w) host" +
  as_tool_sanitizer :: "'f \<Rightarrow> 'w tool_sanitize_fn"
  as_tool_guardrail :: "'f \<Rightarrow> string \<Rightarrow> json \<Rightarrow> (('f, 'w) runtime, string option flow_result) effect"
  as_tool_intercept :: "'f \<Rightarrow> (('f, 'w) runtime) tool_intercept_fn"
  as_tool_execution :: "'f \<Rightarrow> ('f, 'w) tool_execution_fn"
  split_words :: word_splitter

section \<open>Effects over the runtime\<close>

text \<open>The operator \<^verbatim>\<open>?\<close> on an awaited result.\<close>

definition try_then ::
    "'a flow_result outcome \<times> 's \<Rightarrow> ('a \<Rightarrow> ('s, 'b flow_result) effect) \<Rightarrow> 'b flow_result outcome \<times> 's" where
  "try_then r k = (case r of
       (Finished (Inr a), s) \<Rightarrow> k a s
     | (Finished (Inl e), s) \<Rightarrow> (Finished (Inl e), s)
     | (Panicked, s) \<Rightarrow> (Panicked, s)
     | (Dropped, s) \<Rightarrow> (Dropped, s))"

definition runtime_services :: "('f, 'w, 'z) host_scheme \<Rightarrow> ('f, 'w) runtime services" where
  "runtime_services sv =
     \<lparr>new_uuid = (\<lambda>rt. let (u, w) = new_uuid sv (rt_world rt) in (u, rt\<lparr>rt_world := w\<rparr>)),
      clock = (\<lambda>rt. let (t, w) = clock sv (rt_world rt) in (t, rt\<lparr>rt_world := w\<rparr>))\<rparr>"

text \<open>
  \<^verbatim>\<open>queue_sanitized_event_with_scope_stack\<close>; it is also how the conditional chains emit their events,
  with the scope stack that is visible when the guardrail's turn begins.
\<close>

definition queue_sanitized_event ::
    "('f, 'w, 'z) host_scheme \<Rightarrow> 'f list \<Rightarrow> nat \<Rightarrow> event \<Rightarrow> ('f, 'w) runtime \<Rightarrow> ('f, 'w) runtime" where
  "queue_sanitized_event sv subscribers stack e rt =
     (let (sanitizers, w) = snapshot_event_sanitizers sv e (rt_stacks rt stack) (rt_context rt) (rt_world rt)
      in snd (dispatch_sanitized_event sv e (or_else sanitizers []) subscribers (rt_stacks rt stack)
           (rt\<lparr>rt_world := w\<rparr>)))"

definition guardrail_emitter ::
    "('f, 'w, 'z) host_scheme \<Rightarrow> 'f list \<Rightarrow> ('f, 'w) runtime \<Rightarrow> event \<Rightarrow> ('f, 'w) runtime \<Rightarrow> ('f, 'w) runtime" where
  "guardrail_emitter sv subscribers rt =
     queue_sanitized_event sv subscribers (current_scope_stack (rt_bindings rt))"

abbreviation record_map :: "('a \<Rightarrow> 'b) \<Rightarrow> 'a registry_record \<Rightarrow> 'b registry_record" where
  "record_map f r \<equiv> new_record (rr_name r) (rr_priority r) (f (rr_payload r))"

section \<open>Starting a tool span\<close>

record tool_call_params =
  tc_name :: string
  tc_args :: json
  tc_parent :: "scope_handle option"
  tc_attributes :: attribute_bits
  tc_data :: "json option"
  tc_metadata :: "json option"
  tc_tool_call_id :: "string option"
  tc_timestamp :: "timestamp option"

text \<open>What the dispatcher does to the start event: its data is what the sanitizers leave of the arguments.\<close>

definition sanitize_request_transform ::
    "string \<Rightarrow> json \<Rightarrow> 'w tool_sanitize_fn registry_record list \<Rightarrow> 'w transform_fn" where
  "sanitize_request_transform name args ents e w =
     (case tool_sanitize_request_snapshot_chain name args ents w of
        (Finished sanitized, w) \<Rightarrow>
          (Finished (apply_sanitize_fields ((sanitize_fields e)\<lparr>sf_data := sanitized\<rparr>) e), w)
      | (Panicked, w) \<Rightarrow> (Panicked, w)
      | (Dropped, w) \<Rightarrow> (Dropped, w))"

fun skill_marks ::
    "('f, 'w, 'z) host_scheme \<Rightarrow> tool_handle \<Rightarrow> skill_load list \<Rightarrow> 'w \<Rightarrow> event list \<times> 'w" where
  "skill_marks sv h [] w = ([], w)"
| "skill_marks sv h (l # ls) w =
     (let (u, w) = new_uuid sv w;
          e = Mark (mark_event_new (base_event_build (Some (th_uuid h)) u (th_started_at h) ''skill.load''
                (Some (JObject [(''skill_name'', JString (sl_name l))]))
                (Some (JObject [(''skill_load_source'', JString (skill_load_source_str (sl_source l))),
                                (''tool_name'', JString (th_name h))]))) None None);
          (es, w) = skill_marks sv h ls w
      in (e # es, w))"

text \<open>
  The part that the manual and the managed start share: the snapshots, the handle, the start event and
  the marks of the skills the call loads. \<open>parent = None\<close> is the panic of \<^verbatim>\<open>task_scope_top\<close>.
\<close>

definition start_tool ::
    "('f, 'w, 'z) tool_host_scheme \<Rightarrow> tool_call_params \<Rightarrow> uuid option option \<Rightarrow> 'f scope_stack \<Rightarrow>
     (('f, 'w) runtime, (tool_handle \<times> 'f list) flow_result) effect" where
  "start_tool sv tc parent s rt =
     (let locals = collect_scope_local_registries tool_sanitize_request_guardrails s;
          (res, w) = snapshot_event_subscribers sv (collect_scope_local_subscribers s) (rt_context rt) (rt_world rt)
      in case res of
           Inl e \<Rightarrow> (Finished (Inl e), rt\<lparr>rt_world := w\<rparr>)
         | Inr subscribers \<Rightarrow> (case rt_context rt of
             Poisoned m _ \<Rightarrow> (Finished (Inl (Internal m)), rt\<lparr>rt_world := w\<rparr>)
           | Healthy st \<Rightarrow>
               (let (ents, w) = tool_sanitize_request_entries (gates_of sv)
                      (registry_snapshot [ToolSanitizeRequestGuardrail] st) locals w
                in case parent of
                     None \<Rightarrow> (Panicked, rt\<lparr>rt_world := w\<rparr>)
                   | Some parent_uuid \<Rightarrow>
                       (let skill_loads = resolve_skill_loads (split_words sv) (tc_name tc) (tc_args tc) (tc_metadata tc);
                            (now, w) = read_clock sv (tc_timestamp tc) w;
                            (fresh, w) = new_uuid sv w;
                            h = create_tool_handle fresh now \<lparr>ct_name = tc_name tc, ct_parent_uuid = parent_uuid,
                                  ct_attributes = tc_attributes tc, ct_data = tc_data tc, ct_metadata = tc_metadata tc,
                                  ct_tool_call_id = tc_tool_call_id tc, ct_timestamp = tc_timestamp tc\<rparr>;
                            e = build_tool_start_event h None;
                            (marks, w) = skill_marks sv h skill_loads w;
                            stack = current_scope_stack (rt_bindings rt);
                            (sanitizers, w) = snapshot_event_sanitizers sv e (rt_stacks rt stack) (rt_context rt) w;
                            transform = sanitize_request_transform (th_name h) (tc_args tc)
                              (map (record_map (as_tool_sanitizer sv)) ents);
                            (_, rt) = dispatch_transformed_event sv e transform (or_else sanitizers []) subscribers
                              (rt_stacks rt stack) (rt\<lparr>rt_world := w\<rparr>);
                            rt = fold (queue_sanitized_event sv subscribers stack) marks rt
                        in (Finished (Inr (h, subscribers)), rt)))))"

definition tool_call ::
    "('f, 'w, 'z) tool_host_scheme \<Rightarrow> tool_call_params \<Rightarrow>
     (('f, 'w) runtime, tool_handle flow_result) effect" where
  "tool_call sv tc = owned_call (\<lambda>rt. case visible_stack rt of
       Poisoned m _ \<Rightarrow> (Finished (Inl (Internal m)), rt)
     | Healthy s \<Rightarrow> try_then (start_tool sv tc (resolve_parent_uuid (tc_parent tc) rt) s rt)
         (\<lambda>(h, _) rt. (Finished (Inr h), rt)))"

definition tool_call_with_subscriber_snapshot ::
    "('f, 'w, 'z) tool_host_scheme \<Rightarrow> tool_call_params \<Rightarrow>
     (('f, 'w) runtime, (tool_handle \<times> 'f list) flow_result) effect" where
  "tool_call_with_subscriber_snapshot sv tc = owned_call (\<lambda>rt. case resolve_parent_uuid (tc_parent tc) rt of
       None \<Rightarrow> (Panicked, rt)
     | Some parent \<Rightarrow> (case visible_stack rt of
           Poisoned _ _ \<Rightarrow> (Panicked, rt)
         | Healthy s \<Rightarrow> start_tool sv tc (Some parent) s rt))"

section \<open>Ending a tool span\<close>

record tool_call_end_params =
  ce_handle :: tool_handle
  ce_execution_result :: tool_execution_result
  ce_data :: "json option"
  ce_metadata :: "json option"
  ce_timestamp :: "timestamp option"

definition attach_tool_result_annotation :: "json option \<Rightarrow> event \<Rightarrow> event" where
  "attach_tool_result_annotation annotation e = (case normalize_annotation annotation of
       None \<Rightarrow> e
     | Some v \<Rightarrow> (case event_category_profile e of
           None \<Rightarrow> e
         | Some p \<Rightarrow> set_category_profile (Some (p\<lparr>cp_tool_result_annotation := Some v\<rparr>)) e))"

definition sanitize_response_transform ::
    "string \<Rightarrow> tool_execution_result \<Rightarrow> json option \<Rightarrow> 'w tool_sanitize_fn registry_record list \<Rightarrow> 'w transform_fn" where
  "sanitize_response_transform name r fallback ents e w =
     (case tool_sanitize_response_snapshot_chain name (te_result r) ents w of
        (Finished sanitized, w) \<Rightarrow>
          (Finished (attach_tool_result_annotation (te_annotation r)
             (apply_sanitize_fields ((sanitize_fields e)\<lparr>sf_data :=
                Option.bind sanitized (\<lambda>v. if v = JNull then fallback else Some v)\<rparr>) e)), w)
      | (Panicked, w) \<Rightarrow> (Panicked, w)
      | (Dropped, w) \<Rightarrow> (Dropped, w))"

text \<open>The marks an intercept left: one microsecond apart after the end; one with invalid metadata is left out.\<close>

fun pending_mark_events ::
    "('f, 'w, 'z) host_scheme \<Rightarrow> tool_handle \<Rightarrow> timestamp \<Rightarrow> nat \<Rightarrow> pending_mark_spec list \<Rightarrow> 'w \<Rightarrow>
     event list \<times> 'w" where
  "pending_mark_events sv h ended i [] w = ([], w)"
| "pending_mark_events sv h ended i (m # ms) w =
     (case metadata_with_log_severity (pm_metadata m) (pm_severity m) of
        Inl _ \<Rightarrow> pending_mark_events sv h ended (i + 1) ms w
      | Inr metadata \<Rightarrow>
          (let (u, w) = new_uuid sv w;
               e = Mark (mark_event_new ((base_event_build (Some (th_uuid h)) u (ended + 1000 * (int i + 1)) (pm_name m)
                     (pm_data m) metadata)\<lparr>be_data_schema := pm_data_schema m\<rparr>) (pm_category m) (pm_category_profile m));
               (es, w) = pending_mark_events sv h ended (i + 1) ms w
           in (e # es, w)))"

text \<open>
  Both ways to end a span: the manual one and that of the managed call, which uses the subscribers
  of the start and publishes the marks of the intercepts.
\<close>

definition end_tool ::
    "('f, 'w, 'z) tool_host_scheme \<Rightarrow> tool_call_end_params \<Rightarrow> pending_mark_spec list \<Rightarrow> 'f list option \<Rightarrow>
     'f scope_stack \<Rightarrow> (('f, 'w) runtime, unit flow_result) effect" where
  "end_tool sv ce pending lifecycle s rt =
     (let locals = collect_scope_local_registries tool_sanitize_response_guardrails s;
          (res, w) = (case lifecycle of
              Some subs \<Rightarrow> (Inr subs, rt_world rt)
            | None \<Rightarrow> snapshot_event_subscribers sv (collect_scope_local_subscribers s) (rt_context rt) (rt_world rt))
      in case res of
           Inl e \<Rightarrow> (Finished (Inl e), rt\<lparr>rt_world := w\<rparr>)
         | Inr subscribers \<Rightarrow> (case rt_context rt of
             Poisoned m _ \<Rightarrow> (Finished (Inl (Internal m)), rt\<lparr>rt_world := w\<rparr>)
           | Healthy st \<Rightarrow>
               (let (ents, w) = tool_sanitize_response_entries (gates_of sv)
                      (registry_snapshot [ToolSanitizeResponseGuardrail] st) locals w;
                    (now, w) = read_clock sv (ce_timestamp ce) w;
                    h = ce_handle ce;
                    e = build_tool_end_event now \<lparr>eh_handle = h, eh_data = Some JNull, eh_metadata = ce_metadata ce,
                          eh_timestamp = ce_timestamp ce\<rparr>;
                    (marks, w) = pending_mark_events sv h (be_timestamp (base_of e)) 0 pending w;
                    stack = current_scope_stack (rt_bindings rt);
                    (sanitizers, w) = snapshot_event_sanitizers sv e (rt_stacks rt stack) (rt_context rt) w;
                    transform = sanitize_response_transform (th_name h) (ce_execution_result ce) (ce_data ce)
                      (map (record_map (as_tool_sanitizer sv)) ents);
                    (_, rt) = dispatch_transformed_event sv e transform (or_else sanitizers []) subscribers
                      (rt_stacks rt stack) (rt\<lparr>rt_world := w\<rparr>);
                    rt = fold (queue_sanitized_event sv subscribers stack) marks rt
                in (Finished (Inr ()), rt))))"

definition tool_call_end ::
    "('f, 'w, 'z) tool_host_scheme \<Rightarrow> tool_call_end_params \<Rightarrow> (('f, 'w) runtime, unit flow_result) effect" where
  "tool_call_end sv ce = owned_call (\<lambda>rt. case visible_stack rt of
       Poisoned m _ \<Rightarrow> (Finished (Inl (Internal m)), rt)
     | Healthy s \<Rightarrow> end_tool sv ce [] None s rt)"

definition tool_call_end_with_pending_marks ::
    "('f, 'w, 'z) tool_host_scheme \<Rightarrow> tool_call_end_params \<Rightarrow> pending_mark_spec list \<Rightarrow> 'f list option \<Rightarrow>
     (('f, 'w) runtime, unit flow_result) effect" where
  "tool_call_end_with_pending_marks sv ce pending lifecycle = owned_call (\<lambda>rt. case visible_stack rt of
       Poisoned _ _ \<Rightarrow> (Panicked, rt)
     | Healthy s \<Rightarrow> end_tool sv ce pending lifecycle s rt)"

definition emit_tool_end_without_output ::
    "('f, 'w, 'z) tool_host_scheme \<Rightarrow> tool_handle \<Rightarrow> json option \<Rightarrow> 'f list \<Rightarrow> nat \<Rightarrow>
     (('f, 'w) runtime, unit flow_result) effect" where
  "emit_tool_end_without_output sv h metadata lifecycle stack = owned_call (\<lambda>rt. case rt_context rt of
       Poisoned m _ \<Rightarrow> (Finished (Inl (Internal m)), rt)
     | Healthy _ \<Rightarrow>
         (let (now, w) = clock sv (rt_world rt);
              e = end_tool_handle now h (th_data h) metadata
          in (Finished (Inr ()), queue_sanitized_event sv lifecycle stack e (rt\<lparr>rt_world := w\<rparr>))))"

section \<open>Continuations\<close>

text \<open>
  The context captured when an intercept is called. The publication buffer of the task is the ambient
  one as long as the continuation is called from the intercept's own task; the optimization recorder
  and the publication context of a binding are not visible in the runtime state.
\<close>

record continuation_context =
  cc_scope_stack :: nat
  cc_active_event_uuid :: "uuid option"

definition capture_continuation :: "('f, 'w) runtime \<Rightarrow> continuation_context" where
  "capture_continuation rt = \<lparr>cc_scope_stack = current_scope_stack (rt_bindings rt),
     cc_active_event_uuid = active_event_uuid (rt_bindings rt)\<rparr>"

definition invocation_stack :: "continuation_context \<Rightarrow> ('f, 'w) runtime \<Rightarrow> nat" where
  "invocation_stack c rt = (case current_context_scope_stack (rt_bindings rt) of
       Some h \<Rightarrow> h
     | None \<Rightarrow> if \<not> rt_in_task rt \<and> scope_stack_active (rt_bindings rt)
         then current_scope_stack (rt_bindings rt) else cc_scope_stack c)"

text \<open>
  \<^verbatim>\<open>begin\<close> and \<^verbatim>\<open>invoke\<close>: the rest of the chain runs on a snapshot of the visible stack, allocated for
  this invocation, under the captured active event; afterwards the task sees what it saw before. The
  lease is not revoked here, since the interceptor that owns it is still running.
\<close>

definition invoke_continuation ::
    "continuation_context \<Rightarrow> (('f, 'w) runtime, 'a flow_result) effect \<Rightarrow>
     (('f, 'w) runtime, 'a flow_result) effect" where
  "invoke_continuation c f rt = (case snapshot_scope_stack (rt_stacks rt (invocation_stack c rt)) of
       Inl e \<Rightarrow> (Finished (Inl e), rt)
     | Inr s \<Rightarrow>
         (let new = rt_next_stack rt;
              before = rt_bindings rt;
              inner = before\<lparr>task_scope_stack := Some new,
                active_event_uuid := (case cc_active_event_uuid c of Some u \<Rightarrow> Some u
                  | None \<Rightarrow> active_event_uuid before)\<rparr>;
              (r, rt') = f (rt\<lparr>rt_stacks := (rt_stacks rt)(new := Healthy s), rt_next_stack := new + 1,
                rt_bindings := inner\<rparr>)
          in (r, rt'\<lparr>rt_bindings := (rt_bindings rt')\<lparr>task_scope_stack := task_scope_stack before,
                active_event_uuid := active_event_uuid before\<rparr>\<rparr>)))"

definition with_active_event_uuid ::
    "uuid \<Rightarrow> (('f, 'w) runtime, 'a) effect \<Rightarrow> (('f, 'w) runtime, 'a) effect" where
  "with_active_event_uuid u f rt =
     (let before = rt_bindings rt;
          (r, rt') = f (rt\<lparr>rt_bindings := before\<lparr>active_event_uuid := Some u\<rparr>\<rparr>)
      in (r, rt'\<lparr>rt_bindings := (rt_bindings rt')\<lparr>active_event_uuid := active_event_uuid before\<rparr>\<rparr>))"

section \<open>The chain of execution intercepts\<close>

type_synonym ('f, 'w) outcome_next = "json \<Rightarrow> (('f, 'w) runtime, tool_execution_intercept_outcome flow_result) effect"

text \<open>
  One intercept at work. Each call of the rest of the chain that succeeds leaves its marks as a batch;
  the batches are in the order of the calls, which is the order their sequence numbers give.
\<close>

primrec run_program ::
    "('s, 'a) intercept_program \<Rightarrow>
     (json \<Rightarrow> ('s, tool_execution_intercept_outcome flow_result) effect) \<Rightarrow> pending_mark_spec list list \<Rightarrow> 's \<Rightarrow>
     'a outcome \<times> pending_mark_spec list list \<times> 's" where
  "run_program (Settle r) next batches s = (r, batches, s)"
| "run_program (CallNext args k) next batches s = (case next args s of
       (Finished (Inr out), s') \<Rightarrow>
         (let (run, s'') = map_prod run_program id (k (Inr (into_execution_result out)) s')
          in run next (batches @ [to_pending_marks out]) s'')
     | (Finished (Inl e), s') \<Rightarrow>
         (let (run, s'') = map_prod run_program id (k (Inl e) s') in run next batches s'')
     | (Panicked, s') \<Rightarrow> (Panicked, batches, s')
     | (Dropped, s') \<Rightarrow> (Dropped, batches, s'))"

fun tool_build_execution_chain ::
    "('f, 'w, 'z) tool_host_scheme \<Rightarrow> tool_execution_context \<Rightarrow> ('f, 'w) tool_fn \<Rightarrow> ('f \<times> int) list \<Rightarrow>
     ('f, 'w) outcome_next" where
  "tool_build_execution_chain sv template default_fn [] args rt =
     (case default_fn args rt of (r, rt) \<Rightarrow> (map_outcome (map_sum id outcome_of_result) r, rt))"
| "tool_build_execution_chain sv template default_fn ((f, _) # fs) args rt =
     (let c = capture_continuation rt;
          next = (\<lambda>args. invoke_continuation c (tool_build_execution_chain sv template default_fn fs args));
          (program, rt) = as_tool_execution sv f (template\<lparr>tx_args := args\<rparr>) rt
      in case run_program program next [] rt of
           (Finished (Inr out), batches, rt) \<Rightarrow>
             (Finished (Inr (out\<lparr>to_pending_marks := concat batches @ to_pending_marks out\<rparr>)), rt)
         | (r, batches, rt) \<Rightarrow> (r, rt))"

section \<open>The managed call\<close>

record tool_call_execute_params =
  xe_name :: string
  xe_args :: json
  xe_parent :: "scope_handle option"
  xe_attributes :: attribute_bits
  xe_data :: "json option"
  xe_metadata :: "json option"
  xe_tool_call_id :: "string option"

record 'f managed_tool_completion =
  mc_handle :: "tool_handle option"
  mc_metadata :: "json option"
  mc_subscribers :: "'f list"
  mc_scope_stack :: nat
  mc_pending_publication :: "lineage option"

definition managed_completion_new ::
    "tool_handle \<Rightarrow> json option \<Rightarrow> 'f list \<Rightarrow> nat \<Rightarrow> ('f, 'w) runtime \<Rightarrow>
     'f managed_tool_completion \<times> ('f, 'w) runtime" where
  "managed_completion_new h metadata subscribers stack rt =
     (let (pending, d) = (if subscribers \<noteq> [] then register_pending_publication (rt_dispatcher rt)
            else (None, rt_dispatcher rt))
      in (\<lparr>mc_handle = Some h, mc_metadata = metadata, mc_subscribers = subscribers, mc_scope_stack = stack,
           mc_pending_publication = pending\<rparr>, rt\<lparr>rt_dispatcher := d\<rparr>))"

definition drop_pending :: "lineage option \<Rightarrow> ('f, 'w) runtime \<Rightarrow> ('f, 'w) runtime" where
  "drop_pending p rt = (case p of
       None \<Rightarrow> rt | Some l \<Rightarrow> rt\<lparr>rt_dispatcher := drop_pending_publication l (rt_dispatcher rt)\<rparr>)"

text \<open>The pending publication of a guardrail's scope (\<^verbatim>\<open>GuardrailScopeCompletion\<close>).\<close>

definition guardrail_pending ::
    "'f list \<Rightarrow> ('f, 'w) runtime \<Rightarrow> (('f, 'w) runtime \<Rightarrow> ('f, 'w) runtime) \<times> ('f, 'w) runtime" where
  "guardrail_pending subscribers rt =
     (let (pending, d) = (if subscribers \<noteq> [] then register_pending_publication (rt_dispatcher rt)
            else (None, rt_dispatcher rt))
      in (drop_pending pending, rt\<lparr>rt_dispatcher := d\<rparr>))"

definition drop_completion ::
    "('f, 'w, 'z) tool_host_scheme \<Rightarrow> 'f managed_tool_completion \<Rightarrow> ('f, 'w) runtime \<Rightarrow> ('f, 'w) runtime" where
  "drop_completion sv mc rt = drop_pending (mc_pending_publication mc)
     (case mc_handle mc of
        None \<Rightarrow> rt
      | Some h \<Rightarrow> snd (emit_tool_end_without_output sv h
          (metadata_with_otel_status (mc_metadata mc) ''ERROR'' (Some ''tool execution cancelled''))
          (mc_subscribers mc) (mc_scope_stack mc) rt))"

text \<open>\<^verbatim>\<open>disarm\<close> also drops the pending publication; the drop of the rest has no effect then.\<close>

definition disarm_completion ::
    "'f managed_tool_completion \<Rightarrow> ('f, 'w) runtime \<Rightarrow> ('f, 'w) runtime" where
  "disarm_completion mc rt = drop_pending (mc_pending_publication mc) rt"

definition tool_guardrail_phase ::
    "('f, 'w, 'z) tool_host_scheme \<Rightarrow> string \<Rightarrow> json \<Rightarrow> scope_handle option \<Rightarrow> json option \<Rightarrow>
     (('f, 'w) runtime, string option flow_result) effect" where
  "tool_guardrail_phase sv name args parent metadata rt = (case visible_stack rt of
       Poisoned _ _ \<Rightarrow> (Panicked, rt)
     | Healthy s \<Rightarrow> (case rt_context rt of
         Poisoned m _ \<Rightarrow> (Finished (Inl (Internal m)), rt)
       | Healthy st \<Rightarrow>
           (let st = registry_snapshot [ToolConditionalExecutionGuardrail, Subscriber] st;
                (ents, w) = tool_conditional_execution_entries (gates_of sv) st
                  (collect_scope_local_registries tool_conditional_execution_guardrails s) (rt_world rt);
                (subscribers, w) = collect_event_subscribers (gates_of sv) (collect_scope_local_subscribers s) st w;
                rt = rt\<lparr>rt_world := w\<rparr>
            in case resolve_parent_uuid parent rt of
                 None \<Rightarrow> (Panicked, rt)
               | Some parent_uuid \<Rightarrow>
                   tool_conditional_execution_snapshot_chain (runtime_services sv) (guardrail_emitter sv subscribers)
                     (guardrail_pending subscribers) name args (map (record_map (as_tool_guardrail sv)) ents) parent_uuid metadata rt)))"

definition tool_intercept_phase ::
    "('f, 'w, 'z) tool_host_scheme \<Rightarrow> string \<Rightarrow> json \<Rightarrow> (('f, 'w) runtime, json flow_result) effect" where
  "tool_intercept_phase sv name args rt = (case visible_stack rt of
       Poisoned _ _ \<Rightarrow> (Panicked, rt)
     | Healthy s \<Rightarrow> (case rt_context rt of
         Poisoned m _ \<Rightarrow> (Finished (Inl (Internal m)), rt)
       | Healthy st \<Rightarrow>
           (let (ents, w) = tool_request_intercept_entries (gates_of sv) (registry_snapshot [ToolRequestIntercept] st)
                  (collect_scope_local_registries tool_request_intercepts s) (rt_world rt)
            in tool_request_intercepts_snapshot_chain name
                 (map (record_map (\<lambda>p. new_request_intercept (break_chain p) (as_tool_intercept sv (callable p)))) ents)
                 args (rt\<lparr>rt_world := w\<rparr>))))"

definition tool_execution_phase ::
    "('f, 'w, 'z) tool_host_scheme \<Rightarrow> ('f, 'w) tool_fn \<Rightarrow> string \<Rightarrow> string option \<Rightarrow> json \<Rightarrow>
     (('f, 'w) runtime, tool_execution_intercept_outcome flow_result) effect" where
  "tool_execution_phase sv func name tool_call_id args rt = (case visible_stack rt of
       Poisoned _ _ \<Rightarrow> (Panicked, rt)
     | Healthy s \<Rightarrow> (case rt_context rt of
         Poisoned m _ \<Rightarrow> (Finished (Inl (Internal m)), rt)
       | Healthy st \<Rightarrow>
           (let (matching, w) = merge_execution_intercept_callables (gates_of sv)
                  (tool_execution_intercepts (cx_registries (registry_snapshot [ToolExecutionIntercept] st)))
                  (collect_scope_local_registries tool_execution_intercepts s) ToolExecutionIntercept (rt_world rt)
            in tool_build_execution_chain sv
                 \<lparr>tx_tool_name = name, tx_args = JNull, tx_tool_call_id = tool_call_id\<rparr> func matching args
                 (rt\<lparr>rt_world := w\<rparr>))))"

definition reject_tool_call ::
    "('f, 'w, 'z) tool_host_scheme \<Rightarrow> tool_call_execute_params \<Rightarrow> string \<Rightarrow>
     (('f, 'w) runtime, 'a flow_result) effect" where
  "reject_tool_call sv xe reason rt =
     (case emit_mark sv \<lparr>em_name = xe_name xe, em_parent = xe_parent xe,
          em_data = Some (JObject [(''rejected'', JBool True), (''rejection_reason'', JString reason)]),
          em_data_schema = None, em_metadata = xe_metadata xe, em_severity = None, em_category = None,
          em_category_profile = None, em_timestamp = None\<rparr> rt of
        (Finished _, rt) \<Rightarrow> (Finished (Inl (GuardrailRejected reason)), rt)
      | (Panicked, rt) \<Rightarrow> (Panicked, rt)
      | (Dropped, rt) \<Rightarrow> (Dropped, rt))"

text \<open>
  The first half: guardrails, request intercepts and the start of the span. It yields the arguments
  the intercepts left, the handle and the subscribers of the span.
\<close>

definition begin_managed_tool ::
    "('f, 'w, 'z) tool_host_scheme \<Rightarrow> tool_call_execute_params \<Rightarrow>
     (('f, 'w) runtime, (json \<times> tool_handle \<times> 'f list) flow_result) effect" where
  "begin_managed_tool sv xe rt =
     try_then (tool_guardrail_phase sv (xe_name xe) (xe_args xe) (xe_parent xe) (xe_metadata xe) rt)
       (\<lambda>rejection. case rejection of
            Some reason \<Rightarrow> reject_tool_call sv xe reason
          | None \<Rightarrow> (\<lambda>rt. try_then (tool_intercept_phase sv (xe_name xe) (xe_args xe) rt)
              (\<lambda>args rt. try_then (tool_call_with_subscriber_snapshot sv
                   \<lparr>tc_name = xe_name xe, tc_args = args, tc_parent = xe_parent xe, tc_attributes = xe_attributes xe,
                    tc_data = xe_data xe, tc_metadata = xe_metadata xe, tc_tool_call_id = xe_tool_call_id xe,
                    tc_timestamp = None\<rparr> rt)
                 (\<lambda>(h, subscribers) rt. (Finished (Inr (args, h, subscribers)), rt)))))"

text \<open>From the start of the span to its end. Whatever the execution does, the completion is dropped.\<close>

definition managed_execution ::
    "('f, 'w, 'z) tool_host_scheme \<Rightarrow> ('f, 'w) tool_fn \<Rightarrow> tool_call_execute_params \<Rightarrow> json \<Rightarrow> tool_handle \<Rightarrow> 'f list \<Rightarrow>
     (('f, 'w) runtime, tool_execution_result flow_result) effect" where
  "managed_execution sv func xe args h subscribers rt =
     (let stack = current_scope_stack (rt_bindings rt);
          (mc, rt) = managed_completion_new h (xe_metadata xe) subscribers stack rt
      in case with_active_event_uuid (th_uuid h)
           (tool_execution_phase sv func (xe_name xe) (th_tool_call_id h) args) rt of
           (Finished (Inr out), rt) \<Rightarrow>
             (let result = into_execution_result out
              in case tool_call_end_with_pending_marks sv
                   \<lparr>ce_handle = h, ce_execution_result = result, ce_data = xe_data xe,
                    ce_metadata = metadata_with_otel_status (xe_metadata xe) ''OK'' None, ce_timestamp = None\<rparr>
                   (to_pending_marks out) (Some subscribers) rt of
                   (Finished (Inr _), rt) \<Rightarrow> (Finished (Inr result), disarm_completion mc rt)
                 | (Finished (Inl e), rt) \<Rightarrow> (Finished (Inl e), drop_completion sv mc rt)
                 | (Panicked, rt) \<Rightarrow> (Panicked, drop_completion sv mc rt)
                 | (Dropped, rt) \<Rightarrow> (Dropped, drop_completion sv mc rt))
         | (Finished (Inl e), rt) \<Rightarrow>
             (let (_, rt) = emit_tool_end_without_output sv h (metadata_with_otel_error (xe_metadata xe) e)
                    subscribers stack rt
              in (Finished (Inl e), disarm_completion mc rt))
         | (Panicked, rt) \<Rightarrow> (Panicked, drop_completion sv mc rt)
         | (Dropped, rt) \<Rightarrow> (Dropped, drop_completion sv mc rt))"

definition tool_call_execute ::
    "('f, 'w, 'z) tool_host_scheme \<Rightarrow> ('f, 'w) tool_fn \<Rightarrow> tool_call_execute_params \<Rightarrow>
     (('f, 'w) runtime, tool_execution_result flow_result) effect" where
  "tool_call_execute sv func xe = owned_call (\<lambda>rt.
     try_then (begin_managed_tool sv xe rt)
       (\<lambda>(args, h, subscribers). managed_execution sv func xe args h subscribers))"

definition tool_request_intercepts_api ::
    "('f, 'w, 'z) tool_host_scheme \<Rightarrow> string \<Rightarrow> json \<Rightarrow> (('f, 'w) runtime, json flow_result) effect" where
  "tool_request_intercepts_api sv name args = owned_call (tool_intercept_phase sv name args)"

definition tool_conditional_execution ::
    "('f, 'w, 'z) tool_host_scheme \<Rightarrow> string \<Rightarrow> json \<Rightarrow> (('f, 'w) runtime, unit flow_result) effect" where
  "tool_conditional_execution sv name args = owned_call (\<lambda>rt.
     try_then (tool_guardrail_phase sv name args None None rt)
       (\<lambda>rejection rt. case rejection of
            Some reason \<Rightarrow> (Finished (Inl (GuardrailRejected reason)), rt)
          | None \<Rightarrow> (Finished (Inr ()), rt)))"

end
