(* ===== verification/Tool_Properties.thy ===== *)
theory Tool_Properties
  imports Tool_Api Scope_Trace
begin

text \<open>
  What the managed tool pipeline guarantees: a span that was started is ended, whatever the tool and
  its intercepts do, and the marks of nested intercepts come out in the order of the nesting.
\<close>

section \<open>Well-behaved callbacks\<close>

text \<open>
  A callback may use the runtime, so it may queue messages and change scope stacks. What it must not
  do is to unsubscribe everybody, give up the process, poison a lock or rebind the caller's stack.
\<close>

fun healthy :: "'a rwlock \<Rightarrow> bool" where
  "healthy (Healthy _) = True"
| "healthy (Poisoned _ _) = False"

definition owned :: "('f, 'w) runtime \<Rightarrow> bool" where
  "owned rt \<longleftrightarrow> ensure_process_runtime_owner (rt_process rt) = (Inr (), rt_process rt)"

definition ready :: "('f, 'w, 'z) host_scheme \<Rightarrow> ('f, 'w) runtime \<Rightarrow> bool" where
  "ready sv rt \<longleftrightarrow> observed sv rt \<and> owned rt \<and> healthy (visible_stack rt)"

definition continues :: "('f, 'w, 'z) host_scheme \<Rightarrow> ('f, 'w) runtime \<Rightarrow> ('f, 'w) runtime \<Rightarrow> bool" where
  "continues sv rt rt' \<longleftrightarrow> observed sv rt' \<and> rt_process rt' = rt_process rt \<and> rt_bindings rt' = rt_bindings rt \<and>
     (\<forall>i. healthy (rt_stacks rt i) \<longrightarrow> healthy (rt_stacks rt' i)) \<and>
     (\<exists>ms. channel (rt_dispatcher rt') = channel (rt_dispatcher rt) @ ms)"

definition behaves :: "('f, 'w, 'z) host_scheme \<Rightarrow> (('f, 'w) runtime \<Rightarrow> 'a \<times> ('f, 'w) runtime) \<Rightarrow> bool" where
  "behaves sv f \<longleftrightarrow> (\<forall>rt. ready sv rt \<longrightarrow> continues sv rt (snd (f rt)))"

primrec program_behaves ::
    "(('f, 'w) runtime, 'a) intercept_program \<Rightarrow> ('f, 'w, 'z) host_scheme \<Rightarrow> bool" where
  "program_behaves (Settle r) sv \<longleftrightarrow> True"
| "program_behaves (CallNext args k) sv \<longleftrightarrow>
     (\<forall>r rt. ready sv rt \<longrightarrow> continues sv rt (snd (k r rt)) \<and> fst (map_prod program_behaves id (k r rt)) sv)"

definition callbacks_behave :: "('f, 'w, 'z) tool_host_scheme \<Rightarrow> bool" where
  "callbacks_behave sv \<longleftrightarrow>
     (\<forall>f name args. behaves sv (as_tool_guardrail sv f name args)) \<and>
     (\<forall>f name args. behaves sv (as_tool_intercept sv f name args)) \<and>
     (\<forall>f c. behaves sv (as_tool_execution sv f c) \<and> (\<forall>rt. program_behaves (fst (as_tool_execution sv f c rt)) sv))"

lemma continues_refl: "observed sv rt \<Longrightarrow> continues sv rt rt"
  by (simp add: continues_def)

lemma continues_trans [trans]: "continues sv a b \<Longrightarrow> continues sv b c \<Longrightarrow> continues sv a c"
  by (fastforce simp: continues_def)

lemma ready_continues: "ready sv rt \<Longrightarrow> continues sv rt rt' \<Longrightarrow> ready sv rt'"
  by (auto simp: ready_def continues_def owned_def)

lemma ready_update [simp]: "ready sv (rt\<lparr>rt_world := w\<rparr>) = ready sv rt"
  by (simp add: ready_def owned_def)

lemma continues_world: "observed sv rt \<Longrightarrow> continues sv rt (rt\<lparr>rt_world := w\<rparr>)"
  by (simp add: continues_def)

lemma continues_from_world [simp]: "continues sv (rt\<lparr>rt_world := w\<rparr>) rt' = continues sv rt rt'"
  by (simp add: continues_def)

lemma owned_call_ready: "ready sv rt \<Longrightarrow> owned_call f rt = f rt"
  by (simp add: ready_def owned_def owned_call_def)

lemma behavesD: "behaves sv f \<Longrightarrow> ready sv rt \<Longrightarrow> f rt = (r, rt') \<Longrightarrow> continues sv rt rt'"
  by (metis behaves_def snd_conv)

lemma healthyE: "healthy l \<Longrightarrow> (\<And>s. l = Healthy s \<Longrightarrow> P) \<Longrightarrow> P"
  by (cases l) auto

section \<open>Queueing events\<close>

lemma delivered_continues:
  assumes "observed sv rt" and "delivered sv e tr sans subs s c rt rt'"
  shows "continues sv rt rt'"
  using assms by (auto simp: delivered_def continues_def observed_def)

text \<open>One event is queued, and nothing else.\<close>

definition queues :: "('f, 'w) runtime \<Rightarrow> event \<Rightarrow> ('f, 'w) runtime \<Rightarrow> bool" where
  "queues rt e rt' \<longleftrightarrow> (\<exists>x l (s :: 'f scope_stack). channel (rt_dispatcher rt') = channel (rt_dispatcher rt) @ [Deliver x (Some l) None] \<and>
     dv_event x = queued_event s e)"

lemma delivered_queues: "delivered sv e tr sans subs s None rt rt' \<Longrightarrow> queues rt e rt'"
  by (auto simp: delivered_def queues_def)

lemma queues_from_world [simp]: "queues (rt\<lparr>rt_world := w\<rparr>) e rt' = queues rt e rt'"
  by (simp add: queues_def)

lemma transformed_observed:
  assumes "observed sv rt"
  shows "delivered sv e (Some tr) sans subs s None rt (snd (dispatch_transformed_event sv e tr sans subs (Healthy s) rt))"
  using enqueue_delivery_observed [OF assms, of e "Some tr" sans subs s None]
  by (metis dispatch_transformed_event_def snapshot_scope_stack_Healthy snd_conv sum.case(2))

lemma queue_sanitized_event_observed:
  assumes "observed sv rt" and "healthy (rt_stacks rt i)" and "subs \<noteq> []"
  shows "continues sv rt (queue_sanitized_event sv subs i e rt) \<and> queues rt e (queue_sanitized_event sv subs i e rt)"
proof -
  obtain s where s: "rt_stacks rt i = Healthy s" using assms(2) by (rule healthyE)
  obtain sans w where n: "snapshot_event_sanitizers sv e (rt_stacks rt i) (rt_context rt) (rt_world rt) = (Some sans, w)"
    by (rule snapshot_sanitizers_Some)
  have o: "observed sv (rt\<lparr>rt_world := w\<rparr>)" using assms(1) by simp
  have "delivered sv e None sans subs s None (rt\<lparr>rt_world := w\<rparr>) (queue_sanitized_event sv subs i e rt)"
    using dispatch_observed [OF o assms(3), of e sans s] n s by (simp add: queue_sanitized_event_def)
  from delivered_continues [OF o this] delivered_queues [OF this] show ?thesis by simp
qed

lemma queue_any_continues:
  assumes "observed sv rt" and "healthy (rt_stacks rt i)"
  shows "continues sv rt (queue_sanitized_event sv subs i e rt)"
proof (cases "subs = []")
  case True
  obtain sans w where "snapshot_event_sanitizers sv e (rt_stacks rt i) (rt_context rt) (rt_world rt) = (Some sans, w)"
    by (rule snapshot_sanitizers_Some)
  then show ?thesis using True assms continues_world
    by (simp add: queue_sanitized_event_def dispatch_sanitized_event_def)
qed (use queue_sanitized_event_observed [OF assms] in blast)

text \<open>Marks that follow an event.\<close>

lemma queue_marks:
  assumes "observed sv rt" and "healthy (rt_stacks rt i)" and "subs \<noteq> []" and "\<forall>e\<in>set es. event_kind e = ''mark''"
  shows "continues sv rt (fold (queue_sanitized_event sv subs i) es rt) \<and>
    (\<exists>ms. channel (rt_dispatcher (fold (queue_sanitized_event sv subs i) es rt)) = channel (rt_dispatcher rt) @ ms \<and>
       (\<forall>m\<in>set ms. \<exists>e. message_event m = Some e \<and> event_kind e = ''mark''))"
  using assms
proof (induction es arbitrary: rt)
  case (Cons e es)
  let ?rt = "queue_sanitized_event sv subs i e rt"
  have c: "continues sv rt ?rt" "queues rt e ?rt" using queue_sanitized_event_observed Cons.prems by blast+
  then have "observed sv ?rt" "healthy (rt_stacks ?rt i)" using Cons.prems(2) by (simp_all add: continues_def)
  from Cons.IH [OF this Cons.prems(3)] Cons.prems(4) obtain ms where ih: "continues sv ?rt (fold (queue_sanitized_event sv subs i) es ?rt)"
      "channel (rt_dispatcher (fold (queue_sanitized_event sv subs i) es ?rt)) = channel (rt_dispatcher ?rt) @ ms"
      "\<forall>m\<in>set ms. \<exists>e. message_event m = Some e \<and> event_kind e = ''mark''"
    by auto
  have k: "event_kind (queued_event s e) = event_kind e" for s
    by (cases e) (simp_all add: queued_event_def set_propagation_root_uuid_def set_propagation_parent_uuid_def)
  show ?case
    using continues_trans [OF c(1) ih(1)] ih(2,3) c(2) Cons.prems(4) k by (auto simp: queues_def)
qed (simp add: continues_refl)

section \<open>The phases\<close>

lemma runtime_services_continue:
  assumes "observed sv rt"
  shows "continues sv rt (snd (new_uuid (runtime_services sv) rt))" "continues sv rt (snd (clock (runtime_services sv) rt))"
  using continues_world [OF assms] by (simp_all add: runtime_services_def split_beta Let_def)

lemma guardrail_start_continues:
  assumes "ready sv rt" and "emit_guardrail_scope_start (runtime_services sv) (guardrail_emitter sv subs rt) n p m i rt = (h, rt')"
  shows "continues sv rt rt'"
proof -
  obtain u rt1 where u: "new_uuid (runtime_services sv) rt = (u, rt1)" by fastforce
  obtain t rt2 where t: "clock (runtime_services sv) rt1 = (t, rt2)" by fastforce
  have "observed sv rt" using assms(1) by (simp add: ready_def)
  then have c1: "continues sv rt rt1" using runtime_services_continue(1) [of sv rt] u by simp
  then have "continues sv rt1 rt2" using runtime_services_continue(2) [of sv rt1] t by (simp add: continues_def)
  then have c2: "continues sv rt rt2" using continues_trans [OF c1] by simp
  then have "observed sv rt2" "healthy (rt_stacks rt2 (current_scope_stack (rt_bindings rt)))"
    using assms(1) by (simp_all add: continues_def ready_def)
  then show ?thesis
    using assms(2) u t continues_trans [OF c2 queue_any_continues]
    by (auto simp: emit_guardrail_scope_start_def guardrail_emitter_def Let_def)
qed

lemma guardrail_end_continues:
  assumes "observed sv rt" and "healthy (rt_stacks rt (current_scope_stack (rt_bindings rt0)))"
  shows "continues sv rt (emit_guardrail_scope_end (runtime_services sv) (guardrail_emitter sv subs rt0) h out rt)"
proof -
  obtain t rt2 where t: "clock (runtime_services sv) rt = (t, rt2)" by fastforce
  then have c: "continues sv rt rt2" using runtime_services_continue(2) [OF assms(1)] by simp
  then have "observed sv rt2" "healthy (rt_stacks rt2 (current_scope_stack (rt_bindings rt0)))"
    using assms(2) by (simp_all add: continues_def)
  then show ?thesis
    using t continues_trans [OF c queue_any_continues]
    by (simp add: emit_guardrail_scope_end_def guardrail_emitter_def)
qed

lemma register_pending_continues:
  assumes "observed sv rt" and "register_pending_publication (rt_dispatcher rt) = (p, d)"
  shows "continues sv rt (rt\<lparr>rt_dispatcher := d\<rparr>)"
proof -
  have "accepting (rt_dispatcher rt)" using assms(1) by (simp add: observed_def)
  then have "accepting d \<and> (\<exists>ms. channel d = channel (rt_dispatcher rt) @ ms)"
    using assms(2) by (auto simp: register_pending_publication_def dispatcher_sender_def accepting_def new_lineage_def
        new_permit_def channel_send_def drop_permit_opt_def drop_permit_def Let_def split: option.splits sum.splits if_splits)
  then show ?thesis using assms(1) by (simp add: continues_def observed_def)
qed

lemma drop_pending_continues:
  assumes "observed sv rt"
  shows "continues sv rt (drop_pending p rt)"
  using assms by (cases p) (simp_all add: drop_pending_def drop_pending_publication_def channel_send_def
      continues_def observed_def accepting_def)

lemma guardrail_pending_continues:
  assumes "observed sv rt" and "guardrail_pending subs rt = (release, rt')"
  shows "continues sv rt rt' \<and> (\<forall>rt1. observed sv rt1 \<longrightarrow> continues sv rt1 (release rt1))"
proof (cases "subs = []")
  case True
  then show ?thesis using assms continues_refl drop_pending_continues by (auto simp: guardrail_pending_def)
next
  case False
  obtain p d where "register_pending_publication (rt_dispatcher rt) = (p, d)" by fastforce
  then show ?thesis using assms False register_pending_continues drop_pending_continues
    by (auto simp: guardrail_pending_def)
qed

lemma conditional_continues:
  assumes "ready sv rt" and "\<And>x. x \<in> set xs \<Longrightarrow> behaves sv (call (rr_payload x))"
    and "conditional_loop (runtime_services sv) (guardrail_emitter sv subs) (guardrail_pending subs) call pm i p m xs rt = (r, rt')"
  shows "continues sv rt rt'"
  using assms
proof (induction xs arbitrary: rt)
  case Nil
  then show ?case by (simp add: continues_refl ready_def)
next
  case (Cons x xs)
  obtain h rt1 where s: "emit_guardrail_scope_start (runtime_services sv) (guardrail_emitter sv subs rt) (rr_name x) p m i rt = (h, rt1)"
    by fastforce
  obtain release rt1' where pd: "guardrail_pending subs rt1 = (release, rt1')" by fastforce
  obtain q rt2 where q: "call (rr_payload x) rt1' = (q, rt2)" by fastforce
  have c0: "continues sv rt rt1" by (rule guardrail_start_continues [OF Cons.prems(1) s])
  then have "observed sv rt1" by (simp add: continues_def)
  note rel = guardrail_pending_continues [OF this pd]
  then have c1: "continues sv rt rt1'" using continues_trans [OF c0] by simp
  have "continues sv rt1' rt2"
    using behavesD [OF Cons.prems(2) ready_continues [OF Cons.prems(1) c1] q] by simp
  with c1 have c2: "continues sv rt rt2" by (rule continues_trans)
  let ?ended = "\<lambda>out. release (emit_guardrail_scope_end (runtime_services sv) (guardrail_emitter sv subs rt) h out rt2)"
  have "continues sv rt (emit_guardrail_scope_end (runtime_services sv) (guardrail_emitter sv subs rt) h out rt2)" for out
    using c2 Cons.prems(1) by (intro continues_trans [OF c2] guardrail_end_continues) (simp_all add: continues_def ready_def)
  then have e: "continues sv rt (?ended out)" for out
    using rel continues_trans by (metis continues_def)
  show ?case
  proof (cases "q = Finished (Inr None)")
    case True
    have "conditional_loop (runtime_services sv) (guardrail_emitter sv subs) (guardrail_pending subs) call pm i p m xs
        (?ended (guardrail_output (Inr None))) = (r, rt')"
      using Cons.prems(3) s pd q True by (simp add: Let_def)
    from Cons.IH [OF ready_continues [OF Cons.prems(1) e] _ this] Cons.prems(2) continues_trans [OF e]
    show ?thesis by simp
  next
    case False
    then obtain out where "rt' = ?ended out"
      using Cons.prems(3) s pd q by (auto simp: Let_def split: outcome.splits sum.splits option.splits)
    then show ?thesis using e by simp
  qed
qed

lemma intercepts_continue:
  assumes "ready sv rt" and "\<And>x v. x \<in> set xs \<Longrightarrow> behaves sv (callable (rr_payload x) name v)"
    and "tool_request_intercepts_snapshot_chain name xs v rt = (r, rt')"
  shows "continues sv rt rt'"
  using assms
proof (induction xs arbitrary: v rt)
  case Nil
  then show ?case by (simp add: continues_refl ready_def)
next
  case (Cons x xs)
  obtain q rt1 where q: "callable (rr_payload x) name v rt = (q, rt1)" by fastforce
  then have c: "continues sv rt rt1" using behavesD [OF Cons.prems(2) Cons.prems(1) q] by simp
  have "rt' = rt1 \<or> (\<exists>v'. tool_request_intercepts_snapshot_chain name xs v' rt1 = (r, rt'))"
    using Cons.prems(3) q by (auto split: outcome.splits sum.splits if_splits)
  then show ?case
    using c continues_trans [OF c] Cons.IH [OF ready_continues [OF Cons.prems(1) c]] Cons.prems(2) by auto
qed

lemma invoke_continuation_continues:
  assumes "behaves sv f" shows "behaves sv (invoke_continuation c f)"
  unfolding behaves_def
proof (intro allI impI)
  fix rt
  assume r: "ready sv rt"
  obtain s where s: "snapshot_scope_stack (rt_stacks rt (invocation_stack c rt)) = Inr s"
    by (simp add: snapshot_scope_stack_def)
  let ?b = "rt_bindings rt"
  let ?inner = "?b\<lparr>task_scope_stack := Some (rt_next_stack rt),
      active_event_uuid := (case cc_active_event_uuid c of Some u \<Rightarrow> Some u | None \<Rightarrow> active_event_uuid ?b)\<rparr>"
  let ?rt = "rt\<lparr>rt_stacks := (rt_stacks rt)(rt_next_stack rt := Healthy s), rt_next_stack := rt_next_stack rt + 1,
      rt_bindings := ?inner\<rparr>"
  have "current_scope_stack ?inner = current_scope_stack ?b \<or> current_scope_stack ?inner = rt_next_stack rt"
    by (auto simp: current_scope_stack_def split: option.splits)
  then have "ready sv ?rt" using r by (auto simp: ready_def owned_def observed_def)
  then have c: "continues sv ?rt (snd (f ?rt))" using assms by (simp add: behaves_def)
  then show "continues sv rt (snd (invoke_continuation c f rt))"
    by (auto simp: invoke_continuation_def s continues_def observed_def split_beta Let_def)
qed

lemma with_active_event_behaves:
  assumes "behaves sv f" shows "behaves sv (with_active_event_uuid u f)"
  unfolding behaves_def
proof (intro allI impI)
  fix rt
  assume r: "ready sv rt"
  let ?rt = "rt\<lparr>rt_bindings := (rt_bindings rt)\<lparr>active_event_uuid := Some u\<rparr>\<rparr>"
  have "current_scope_stack (rt_bindings ?rt) = current_scope_stack (rt_bindings rt)"
    by (simp add: current_scope_stack_def split: option.splits)
  then have "ready sv ?rt" using r by (simp add: ready_def owned_def observed_def)
  then have "continues sv ?rt (snd (f ?rt))" using assms by (simp add: behaves_def)
  then show "continues sv rt (snd (with_active_event_uuid u f rt))"
    by (auto simp: with_active_event_uuid_def continues_def observed_def split_beta Let_def)
qed

lemma run_program_continues:
  assumes "ready sv rt" and "program_behaves p sv" and "\<And>args. behaves sv (next args)"
    and "run_program p next batches rt = (r, bs, rt')"
  shows "continues sv rt rt'"
  using assms
proof (induction p arbitrary: batches rt)
  case (Settle q)
  then show ?case by (simp add: continues_refl ready_def)
next
  case (CallNext args k)
  obtain q rt1 where q: "next args rt = (q, rt1)" by fastforce
  have c1: "continues sv rt rt1" by (rule behavesD [OF CallNext.prems(3) CallNext.prems(1) q])
  have r1: "ready sv rt1" by (rule ready_continues [OF CallNext.prems(1) c1])
  have k: "continues sv rt rt'" if "k x rt1 = (p', rt2)" "run_program p' next b rt2 = (r, bs, rt')" for x p' rt2 b
  proof -
    have c2: "continues sv rt1 rt2" and p': "program_behaves p' sv"
      using CallNext.prems(2) r1 that(1) by (auto dest!: spec [of _ x] spec [of _ rt1])
    have "(p', rt2) \<in> range (k x)" using that(1) by (metis rangeI)
    then have "continues sv rt2 rt'"
      using CallNext.IH [of "k x" "(p', rt2)" p'] ready_continues [OF r1 c2] p' CallNext.prems(3) that by simp
    then show ?thesis using continues_trans [OF c1] continues_trans [OF c2] by blast
  qed
  show ?case
  proof (cases q)
    case (Finished res)
    then show ?thesis using CallNext.prems(4) q k
      by (cases res; cases "k (case res of Inl e \<Rightarrow> Inl e | Inr out \<Rightarrow> Inr (into_execution_result out)) rt1") auto
  qed (use CallNext.prems(4) q c1 in auto)
qed

lemma execution_chain_behaves:
  assumes "callbacks_behave sv" and "\<And>args. behaves sv (func args)"
  shows "behaves sv (tool_build_execution_chain sv template func fs args)"
proof (induction fs arbitrary: args)
  case Nil
  have "continues sv rt (snd (func args rt))" if "ready sv rt" for rt using assms(2) that by (simp add: behaves_def)
  then show ?case by (simp add: behaves_def split_beta)
next
  case (Cons p fs)
  obtain f pr where p: "p = (f, pr)" by fastforce
  show ?case
    unfolding behaves_def
  proof (intro allI impI)
    fix rt
    assume r: "ready sv rt"
    let ?next = "\<lambda>a. invoke_continuation (capture_continuation rt) (tool_build_execution_chain sv template func fs a)"
    obtain prog rt1 where e: "as_tool_execution sv f (template\<lparr>tx_args := args\<rparr>) rt = (prog, rt1)" by fastforce
    have c1: "continues sv rt rt1"
      using assms(1) r e unfolding callbacks_behave_def by (metis behavesD)
    have pb: "program_behaves prog sv" using assms(1) e unfolding callbacks_behave_def by (metis fst_conv)
    obtain q bs rt2 where q: "run_program prog ?next [] rt1 = (q, bs, rt2)" by (metis prod_cases3)
    have "continues sv rt1 rt2"
      by (rule run_program_continues [OF ready_continues [OF r c1] pb _ q])
         (rule invoke_continuation_continues [OF Cons.IH])
    then have "continues sv rt rt2" by (rule continues_trans [OF c1])
    then show "continues sv rt (snd (tool_build_execution_chain sv template func (p # fs) args rt))"
      using e q by (auto simp: p Let_def split: outcome.splits sum.splits)
  qed
qed

section \<open>Start and end of a span\<close>

definition marks_only :: "'w message list \<Rightarrow> bool" where
  "marks_only ms \<longleftrightarrow> (\<forall>m\<in>set ms. \<forall>e. message_event m = Some e \<longrightarrow> event_kind e = ''mark'')"

text \<open>A step that queues one scope event, with other messages before it and only marks after it.\<close>

definition queues_around :: "('f, 'w) runtime \<Rightarrow> event \<Rightarrow> ('f, 'w) runtime \<Rightarrow> bool" where
  "queues_around rt e rt' \<longleftrightarrow> (\<exists>pre x l post (s :: 'f scope_stack).
     channel (rt_dispatcher rt') = channel (rt_dispatcher rt) @ pre @ [Deliver x (Some l) None] @ post \<and>
     dv_event x = queued_event s e \<and> marks_only post)"

lemma queues_aroundI:
  fixes s :: "'f scope_stack" and rt :: "('f, 'w) runtime"
  assumes "channel (rt_dispatcher rt') = channel (rt_dispatcher rt) @ pre @ [Deliver x (Some l) None] @ post"
    and "dv_event x = queued_event s e" and "marks_only post"
  shows "queues_around rt e rt'"
  unfolding queues_around_def using assms by blast

lemma queues_around_pre:
  fixes rt :: "('f, 'w) runtime"
  assumes "continues sv rt rt1" and "queues_around rt1 e rt'"
  shows "queues_around rt e rt'"
proof -
  obtain ms where "channel (rt_dispatcher rt1) = channel (rt_dispatcher rt) @ ms"
    using assms(1) by (auto simp: continues_def)
  moreover obtain pre x l post and s :: "'f scope_stack"
    where "channel (rt_dispatcher rt') = channel (rt_dispatcher rt1) @ pre @ [Deliver x (Some l) None] @ post"
      "dv_event x = queued_event s e" "marks_only post"
    using assms(2) unfolding queues_around_def by blast
  ultimately show ?thesis by (intro queues_aroundI [of rt' rt "ms @ pre"]) simp_all
qed

lemma queues_around_post:
  fixes rt :: "('f, 'w) runtime"
  assumes "queues_around rt e rt1" and "channel (rt_dispatcher rt') = channel (rt_dispatcher rt1) @ ms" and "marks_only ms"
  shows "queues_around rt e rt'"
proof -
  from assms(1) obtain pre x l post and s :: "'f scope_stack"
    where "channel (rt_dispatcher rt1) = channel (rt_dispatcher rt) @ pre @ [Deliver x (Some l) None] @ post"
      "dv_event x = queued_event s e" "marks_only post"
    unfolding queues_around_def by blast
  then show ?thesis using assms(2,3)
    by (intro queues_aroundI [of rt' rt pre x l "post @ ms"]) (auto simp: marks_only_def)
qed

lemma queues_is_around: "queues rt e rt' \<Longrightarrow> queues_around rt e rt'"
  unfolding queues_def by (elim exE conjE, rule queues_aroundI [where pre = "[]" and post = "[]"]) (auto simp: marks_only_def)

lemma queues_around_marks:
  assumes "observed sv rt1" and "queues rt e rt1" and "healthy (rt_stacks rt1 i)" and "subs \<noteq> []" and "\<forall>m\<in>set es. event_kind m = ''mark''"
  shows "queues_around rt e (fold (queue_sanitized_event sv subs i) es rt1)"
proof -
  obtain ms where "channel (rt_dispatcher (fold (queue_sanitized_event sv subs i) es rt1)) = channel (rt_dispatcher rt1) @ ms"
      "marks_only ms"
    using queue_marks [OF assms(1,3-5)] unfolding marks_only_def by (metis option.inject)
  with queues_is_around [OF assms(2)] show ?thesis by (rule queues_around_post)
qed

lemma skill_marks_kind: "\<forall>e\<in>set (fst (skill_marks sv h ls w)). event_kind e = ''mark''"
  by (induction ls arbitrary: w) (auto simp: split_beta Let_def)

lemma pending_marks_kind: "\<forall>e\<in>set (fst (pending_mark_events sv h t i ms w)). event_kind e = ''mark''"
  by (induction ms arbitrary: i w) (auto simp: split_beta Let_def split: sum.splits)

text \<open>The step that both ends of a span share: a transformed event, then marks.\<close>

lemma transformed_then_marks:
  assumes "ready sv rt" and "subs \<noteq> []" and "\<forall>m\<in>set es. event_kind m = ''mark''" and "visible_stack rt = Healthy s"
    and i_def: "i = current_scope_stack (rt_bindings rt)"
    and rt1_def: "rt1 = snd (dispatch_transformed_event sv e tr sans subs (Healthy s) (rt\<lparr>rt_world := w\<rparr>))"
  shows "continues sv rt (fold (queue_sanitized_event sv subs i) es rt1)"
    and "queues_around rt e (fold (queue_sanitized_event sv subs i) es rt1)"
proof -
  have o: "observed sv (rt\<lparr>rt_world := w\<rparr>)" using assms(1) by (simp add: ready_def)
  have d: "delivered sv e (Some tr) sans subs s None (rt\<lparr>rt_world := w\<rparr>) rt1"
    unfolding rt1_def by (rule transformed_observed [OF o])
  have c: "continues sv rt rt1" using delivered_continues [OF o d] by simp
  then have h: "observed sv rt1" "healthy (rt_stacks rt1 i)" using assms(1) by (simp_all add: continues_def ready_def i_def)
  show "continues sv rt (fold (queue_sanitized_event sv subs i) es rt1)"
    using continues_trans [OF c] queue_marks [OF h assms(2,3)] by blast
  have "queues rt e rt1" using delivered_queues [OF d] by simp
  then show "queues_around rt e (fold (queue_sanitized_event sv subs i) es rt1)"
    by (rule queues_around_marks [OF h(1) _ h(2) assms(2,3)])
qed

lemma start_tool_span:
  assumes r: "ready sv rt" and s: "visible_stack rt = Healthy s" and "start_tool sv tc (Some parent) s rt = (q, rt')"
  obtains h subs where "q = Finished (Inr (h, subs))" "subs \<noteq> []" "continues sv rt rt'"
    "queues_around rt (build_tool_start_event h None) rt'"
proof -
  have o: "observed sv rt" using r by (simp add: ready_def)
  obtain st where st: "rt_context rt = Healthy st" using o by (auto simp: observed_def subscribed_def)
  obtain subs w1 where sn: "snapshot_event_subscribers sv (collect_scope_local_subscribers s) (rt_context rt) (rt_world rt) = (Inr subs, w1)"
      "subs \<noteq> []"
    using snapshot_subscribers_observed o unfolding observed_def by metis
  obtain ents w2 where en: "tool_sanitize_request_entries (gates_of sv) (registry_snapshot [ToolSanitizeRequestGuardrail] st)
      (collect_scope_local_registries tool_sanitize_request_guardrails s) w1 = (ents, w2)" by fastforce
  obtain now w3 where c: "read_clock sv (tc_timestamp tc) w2 = (now, w3)" by fastforce
  obtain fresh w4 where u: "new_uuid sv w3 = (fresh, w4)" by fastforce
  define h where "h = create_tool_handle fresh now \<lparr>ct_name = tc_name tc, ct_parent_uuid = parent,
      ct_attributes = tc_attributes tc, ct_data = tc_data tc, ct_metadata = tc_metadata tc,
      ct_tool_call_id = tc_tool_call_id tc, ct_timestamp = tc_timestamp tc\<rparr>"
  obtain marks w5 where m: "skill_marks sv h (resolve_skill_loads (split_words sv) (tc_name tc) (tc_args tc) (tc_metadata tc)) w4 = (marks, w5)"
    by fastforce
  obtain sans w6 where n: "snapshot_event_sanitizers sv (build_tool_start_event h None) (Healthy s) (rt_context rt) w5 = (Some sans, w6)"
    by (rule snapshot_sanitizers_Some)
  let ?tr = "sanitize_request_transform (th_name h) (tc_args tc) (map (record_map (as_tool_sanitizer sv)) ents)"
  have "\<forall>e\<in>set marks. event_kind e = ''mark''" using skill_marks_kind m by (metis fst_conv)
  note t = transformed_then_marks [OF r sn(2) this s refl refl, of "build_tool_start_event h None" ?tr sans w6]
  have "q = Finished (Inr (h, subs))" "rt' = fold (queue_sanitized_event sv subs (current_scope_stack (rt_bindings rt))) marks
      (snd (dispatch_transformed_event sv (build_tool_start_event h None) ?tr sans subs (Healthy s) (rt\<lparr>rt_world := w6\<rparr>)))"
    using assms(3) sn en c u m n s st unfolding start_tool_def Let_def
    by (simp_all add: h_def [symmetric] split_beta)
  with t sn(2) that show ?thesis by metis
qed

text \<open>An event that ends the span of a handle.\<close>

definition ends :: "tool_handle \<Rightarrow> event \<Rightarrow> bool" where
  "ends h e \<longleftrightarrow> event_span (build_tool_start_event h None) e"

lemma built_end_ends:
  "ends h (build_tool_end_event now \<lparr>eh_handle = h, eh_data = d, eh_metadata = m, eh_timestamp = None\<rparr>)"
  by (auto simp: ends_def event_span_def build_tool_start_event_def build_tool_end_event_def scope_event_new_def
      base_event_build_def is_scope_start_def is_scope_end_def end_timestamp_after_def less_max_iff_disj Let_def)

lemma end_tool_span:
  assumes r: "ready sv rt" and s: "visible_stack rt = Healthy s" and "subs \<noteq> []" and "ce_timestamp ce = None"
  obtains e rt' where "end_tool sv ce pending (Some subs) s rt = (Finished (Inr ()), rt')" "continues sv rt rt'"
    "queues_around rt e rt'" "ends (ce_handle ce) e"
proof -
  have o: "observed sv rt" using r by (simp add: ready_def)
  obtain st where st: "rt_context rt = Healthy st" using o by (auto simp: observed_def subscribed_def)
  obtain ents w2 where en: "tool_sanitize_response_entries (gates_of sv) (registry_snapshot [ToolSanitizeResponseGuardrail] st)
      (collect_scope_local_registries tool_sanitize_response_guardrails s) (rt_world rt) = (ents, w2)" by fastforce
  obtain now w3 where c: "read_clock sv (ce_timestamp ce) w2 = (now, w3)" by fastforce
  define e where "e = build_tool_end_event now \<lparr>eh_handle = ce_handle ce, eh_data = Some JNull, eh_metadata = ce_metadata ce,
      eh_timestamp = ce_timestamp ce\<rparr>"
  obtain marks w5 where m: "pending_mark_events sv (ce_handle ce) (be_timestamp (base_of e)) 0 pending w3 = (marks, w5)"
    by fastforce
  obtain sans w6 where n: "snapshot_event_sanitizers sv e (Healthy s) (rt_context rt) w5 = (Some sans, w6)"
    by (rule snapshot_sanitizers_Some)
  let ?tr = "sanitize_response_transform (th_name (ce_handle ce)) (ce_execution_result ce) (ce_data ce)
      (map (record_map (as_tool_sanitizer sv)) ents)"
  let ?rt' = "fold (queue_sanitized_event sv subs (current_scope_stack (rt_bindings rt))) marks
      (snd (dispatch_transformed_event sv e ?tr sans subs (Healthy s) (rt\<lparr>rt_world := w6\<rparr>)))"
  have "\<forall>e\<in>set marks. event_kind e = ''mark''" using pending_marks_kind m by (metis fst_conv)
  note t = transformed_then_marks [OF r assms(3) this s refl refl, of e ?tr sans w6]
  have eq: "end_tool sv ce pending (Some subs) s rt = (Finished (Inr ()), ?rt')"
    using en c m n s st unfolding end_tool_def Let_def by (simp add: e_def [symmetric] split_beta)
  have "ends (ce_handle ce) e" using assms(4) built_end_ends by (simp add: e_def)
  then show ?thesis by (rule that [OF eq t])
qed

lemma emit_end_span:
  assumes r: "ready sv rt" and i: "healthy (rt_stacks rt i)" and subs: "subs \<noteq> []"
  obtains e rt' where "emit_tool_end_without_output sv h metadata subs i rt = (Finished (Inr ()), rt')" "continues sv rt rt'"
    "queues_around rt e rt'" "ends h e"
proof -
  have o: "observed sv rt" using r by (simp add: ready_def)
  obtain st where st: "rt_context rt = Healthy st" using o by (auto simp: observed_def subscribed_def)
  obtain now w where c: "clock sv (rt_world rt) = (now, w)" by fastforce
  let ?e = "end_tool_handle now h (th_data h) metadata"
  have q: "continues sv rt (queue_sanitized_event sv subs i ?e (rt\<lparr>rt_world := w\<rparr>))"
    "queues rt ?e (queue_sanitized_event sv subs i ?e (rt\<lparr>rt_world := w\<rparr>))"
    using queue_sanitized_event_observed [of sv "rt\<lparr>rt_world := w\<rparr>" i subs ?e] o i subs by simp_all
  have eq: "emit_tool_end_without_output sv h metadata subs i rt =
      (Finished (Inr ()), queue_sanitized_event sv subs i ?e (rt\<lparr>rt_world := w\<rparr>))"
    using st c by (simp add: emit_tool_end_without_output_def owned_call_ready [OF r])
  have "ends h ?e" by (simp add: end_tool_handle_def built_end_ends)
  then show ?thesis by (rule that [OF eq q(1) queues_is_around [OF q(2)]])
qed

section \<open>The completion\<close>

lemma completion_new:
  assumes "ready sv rt" and "subs \<noteq> []" and "managed_completion_new h m subs i rt = (mc, rt')"
  shows "continues sv rt rt'" and "mc_handle mc = Some h" and "mc_subscribers mc = subs" and "mc_scope_stack mc = i"
proof -
  obtain p d where p: "register_pending_publication (rt_dispatcher rt) = (p, d)" by fastforce
  have "continues sv rt (rt\<lparr>rt_dispatcher := d\<rparr>)"
    using register_pending_continues [of sv, OF _ p] assms(1) by (simp add: ready_def)
  moreover have rt': "rt' = rt\<lparr>rt_dispatcher := d\<rparr>" "mc = \<lparr>mc_handle = Some h, mc_metadata = m, mc_subscribers = subs,
      mc_scope_stack = i, mc_pending_publication = p\<rparr>"
    using assms(2,3) p by (simp_all add: managed_completion_new_def)
  ultimately show "continues sv rt rt'" by simp
  show "mc_handle mc = Some h" "mc_subscribers mc = subs" "mc_scope_stack mc = i" using rt'(2) by simp_all
qed

lemma drop_pending_steps:
  assumes "observed sv rt"
  obtains ms where "continues sv rt (drop_pending p rt)" "marks_only ms"
    "channel (rt_dispatcher (drop_pending p rt)) = channel (rt_dispatcher rt) @ ms"
proof (cases p)
  case None
  then show ?thesis using that [of "[]"] assms by (simp add: drop_pending_def continues_refl marks_only_def)
next
  case (Some l)
  have "receiver_alive (rt_dispatcher rt)" using assms by (simp add: observed_def accepting_def)
  then have "drop_pending p rt = rt\<lparr>rt_dispatcher := (rt_dispatcher rt)\<lparr>channel := channel (rt_dispatcher rt) @ [CompletePending l]\<rparr>\<rparr>"
    using Some by (simp add: drop_pending_def drop_pending_publication_def channel_send_def)
  then show ?thesis using that [of "[CompletePending l]"] assms
    by (simp add: continues_def observed_def accepting_def marks_only_def)
qed

text \<open>However the execution ends, one event ends the span, with only marks after it.\<close>

definition closes :: "tool_handle \<Rightarrow> ('f, 'w) runtime \<Rightarrow> ('f, 'w) runtime \<Rightarrow> bool" where
  "closes h rt rt' \<longleftrightarrow> (\<exists>e. queues_around rt e rt' \<and> ends h e)"

lemma closes_drop_pending:
  assumes "observed sv rt1" and "closes h rt rt1"
  shows "closes h rt (drop_pending p rt1)"
  using assms(2) drop_pending_steps [OF assms(1), of p] queues_around_post unfolding closes_def by metis

lemma drop_completion_closes:
  assumes r: "ready sv rt" and "mc_handle mc = Some h" and "mc_subscribers mc \<noteq> []" and "healthy (rt_stacks rt (mc_scope_stack mc))"
  shows "closes h rt (drop_completion sv mc rt)"
proof -
  let ?m = "metadata_with_otel_status (mc_metadata mc) ''ERROR'' (Some ''tool execution cancelled'')"
  obtain e rt1 where e: "emit_tool_end_without_output sv h ?m (mc_subscribers mc) (mc_scope_stack mc) rt = (Finished (Inr ()), rt1)"
      "continues sv rt rt1" "queues_around rt e rt1" "ends h e"
    by (rule emit_end_span [OF r assms(4,3)])
  then have "observed sv rt1" "closes h rt rt1" by (auto simp: continues_def closes_def)
  then show ?thesis using closes_drop_pending [of sv rt1] e(1) assms(2) by (simp add: drop_completion_def)
qed

lemma execution_phase_behaves:
  assumes "callbacks_behave sv" and "\<And>args. behaves sv (func args)"
  shows "behaves sv (tool_execution_phase sv func name i args)"
  unfolding behaves_def
proof (intro allI impI)
  fix rt
  assume r: "ready sv rt"
  obtain s st where s: "visible_stack rt = Healthy s" and st: "rt_context rt = Healthy st"
    using r by (auto simp: ready_def observed_def subscribed_def elim: healthyE)
  obtain fs w where m: "merge_execution_intercept_callables (gates_of sv)
      (tool_execution_intercepts (cx_registries (registry_snapshot [ToolExecutionIntercept] st)))
      (collect_scope_local_registries tool_execution_intercepts s) ToolExecutionIntercept (rt_world rt) = (fs, w)"
    by fastforce
  have "behaves sv (tool_build_execution_chain sv \<lparr>tx_tool_name = name, tx_args = JNull, tx_tool_call_id = i\<rparr> func fs args)"
    using assms by (rule execution_chain_behaves)
  then have "continues sv (rt\<lparr>rt_world := w\<rparr>) (snd (tool_build_execution_chain sv
      \<lparr>tx_tool_name = name, tx_args = JNull, tx_tool_call_id = i\<rparr> func fs args (rt\<lparr>rt_world := w\<rparr>)))"
    using ready_update [THEN iffD2, OF r] unfolding behaves_def by blast
  then show "continues sv rt (snd (tool_execution_phase sv func name i args rt))"
    using s st m by (simp add: tool_execution_phase_def)
qed

lemma managed_execution_closes:
  assumes b: "callbacks_behave sv" "\<And>args. behaves sv (func args)" and r: "ready sv rt" and subs: "subs \<noteq> []"
    and "managed_execution sv func xe args h subs rt = (q, rt')"
  shows "closes h rt rt'"
proof -
  let ?i = "current_scope_stack (rt_bindings rt)"
  obtain mc rt1 where mc: "managed_completion_new h (xe_metadata xe) subs ?i rt = (mc, rt1)" by fastforce
  note new = completion_new [OF r subs mc]
  have r1: "ready sv rt1" by (rule ready_continues [OF r new(1)])
  obtain p rt2 where ex: "with_active_event_uuid (th_uuid h) (tool_execution_phase sv func (xe_name xe) (th_tool_call_id h) args) rt1 = (p, rt2)"
    by fastforce
  have c12: "continues sv rt1 rt2"
    by (rule behavesD [OF with_active_event_behaves [OF execution_phase_behaves [OF b]] r1 ex])
  have c: "continues sv rt rt2" by (rule continues_trans [OF new(1) c12])
  have r2: "ready sv rt2" by (rule ready_continues [OF r c])
  have h2: "healthy (rt_stacks rt2 ?i)" using r c by (simp add: ready_def continues_def)
  have drop: "closes h rt2 (drop_completion sv mc rt2)"
    by (rule drop_completion_closes [OF r2 new(2)]) (use subs h2 new in simp_all)
  have "closes h rt2 rt'"
  proof (cases p)
    case (Finished res)
    show ?thesis
    proof (cases res)
      case (Inl e)
      obtain ev rt3 where e: "emit_tool_end_without_output sv h (metadata_with_otel_error (xe_metadata xe) e) subs ?i rt2 =
          (Finished (Inr ()), rt3)" "continues sv rt2 rt3" "queues_around rt2 ev rt3" "ends h ev"
        by (rule emit_end_span [OF r2 h2 subs])
      then have "observed sv rt3" "closes h rt2 rt3" by (auto simp: continues_def closes_def)
      then show ?thesis
        using assms(5) mc ex Finished Inl e(1) closes_drop_pending [of sv rt3]
        by (auto simp: managed_execution_def disarm_completion_def Let_def)
    next
      case (Inr out)
      obtain s where s: "visible_stack rt2 = Healthy s" using r2 by (auto simp: ready_def elim: healthyE)
      let ?ce = "\<lparr>ce_handle = h, ce_execution_result = into_execution_result out, ce_data = xe_data xe,
          ce_metadata = metadata_with_otel_status (xe_metadata xe) ''OK'' None, ce_timestamp = None\<rparr>"
      have ts: "ce_timestamp ?ce = None" by simp
      obtain ev rt3 where e: "end_tool sv ?ce (to_pending_marks out) (Some subs) s rt2 = (Finished (Inr ()), rt3)"
          "continues sv rt2 rt3" "queues_around rt2 ev rt3" "ends (ce_handle ?ce) ev"
        by (rule end_tool_span [OF r2 s subs ts])
      then have "tool_call_end_with_pending_marks sv ?ce (to_pending_marks out) (Some subs) rt2 = (Finished (Inr ()), rt3)"
        by (simp add: tool_call_end_with_pending_marks_def owned_call_ready [OF r2] s)
      moreover have "observed sv rt3" "closes h rt2 rt3" using e by (auto simp: continues_def closes_def)
      ultimately show ?thesis
        using assms(5) mc ex Finished Inr closes_drop_pending [of sv rt3]
        by (auto simp: managed_execution_def disarm_completion_def Let_def)
    qed
  qed (use assms(5) mc ex drop in \<open>auto simp: managed_execution_def Let_def\<close>)
  then show ?thesis unfolding closes_def using queues_around_pre [OF c] by blast
qed

section \<open>The beginning of a managed call\<close>

lemma guardrail_phase_behaves:
  assumes "callbacks_behave sv"
  shows "behaves sv (tool_guardrail_phase sv name args parent m)"
  unfolding behaves_def
proof (intro allI impI)
  fix rt
  assume r: "ready sv rt"
  obtain s st where s: "visible_stack rt = Healthy s" and st: "rt_context rt = Healthy st"
    using r by (auto simp: ready_def observed_def subscribed_def elim: healthyE)
  let ?st = "registry_snapshot [ToolConditionalExecutionGuardrail, Subscriber] st"
  obtain ents w1 where e: "tool_conditional_execution_entries (gates_of sv) ?st
      (collect_scope_local_registries tool_conditional_execution_guardrails s) (rt_world rt) = (ents, w1)" by fastforce
  obtain subs w2 where c: "collect_event_subscribers (gates_of sv) (collect_scope_local_subscribers s) ?st w1 = (subs, w2)"
    by fastforce
  have r2: "ready sv (rt\<lparr>rt_world := w2\<rparr>)" using r by simp
  show "continues sv rt (snd (tool_guardrail_phase sv name args parent m rt))"
  proof (cases "resolve_parent_uuid parent (rt\<lparr>rt_world := w2\<rparr>)")
    case None
    then show ?thesis using s st e c r continues_world [of sv rt w2]
      by (simp add: tool_guardrail_phase_def ready_def)
  next
    case (Some pu)
    obtain q rt' where q: "tool_conditional_execution_snapshot_chain (runtime_services sv) (guardrail_emitter sv subs)
        (guardrail_pending subs) name args (map (record_map (as_tool_guardrail sv)) ents) pu m (rt\<lparr>rt_world := w2\<rparr>) = (q, rt')" by fastforce
    have "continues sv (rt\<lparr>rt_world := w2\<rparr>) rt'"
      using q unfolding tool_conditional_execution_snapshot_chain_def
      by (rule conditional_continues [OF r2, rotated])
         (use assms in \<open>auto simp: callbacks_behave_def new_record_def\<close>)
    then show ?thesis using Some s st e c q by (simp add: tool_guardrail_phase_def)
  qed
qed

lemma intercept_phase_behaves:
  assumes "callbacks_behave sv"
  shows "behaves sv (tool_intercept_phase sv name args)"
  unfolding behaves_def
proof (intro allI impI)
  fix rt
  assume r: "ready sv rt"
  obtain s st where s: "visible_stack rt = Healthy s" and st: "rt_context rt = Healthy st"
    using r by (auto simp: ready_def observed_def subscribed_def elim: healthyE)
  obtain ents w where e: "tool_request_intercept_entries (gates_of sv) (registry_snapshot [ToolRequestIntercept] st)
      (collect_scope_local_registries tool_request_intercepts s) (rt_world rt) = (ents, w)" by fastforce
  have r2: "ready sv (rt\<lparr>rt_world := w\<rparr>)" using r by simp
  obtain q rt' where q: "tool_request_intercepts_snapshot_chain name
      (map (record_map (\<lambda>p. new_request_intercept (break_chain p) (as_tool_intercept sv (callable p)))) ents) args
      (rt\<lparr>rt_world := w\<rparr>) = (q, rt')" by fastforce
  have "continues sv (rt\<lparr>rt_world := w\<rparr>) rt'"
    by (rule intercepts_continue [OF r2 _ q])
       (use assms in \<open>auto simp: callbacks_behave_def new_record_def new_request_intercept_def\<close>)
  then show "continues sv rt (snd (tool_intercept_phase sv name args rt))"
    using s st e q by (simp add: tool_intercept_phase_def)
qed

lemma try_then_Inr:
  "try_then p k = (Finished (Inr b), s') \<longleftrightarrow> (\<exists>a s. p = (Finished (Inr a), s) \<and> k a s = (Finished (Inr b), s'))"
  by (cases p) (auto simp: try_then_def split: outcome.splits sum.splits)

lemma begin_managed_tool_opens:
  assumes b: "callbacks_behave sv" and r: "ready sv rt"
    and "begin_managed_tool sv xe rt = (Finished (Inr (args, h, subs)), rt')"
  shows "continues sv rt rt'" and "subs \<noteq> []" and "queues_around rt (build_tool_start_event h None) rt'"
proof -
  let ?tc = "\<lparr>tc_name = xe_name xe, tc_args = args, tc_parent = xe_parent xe, tc_attributes = xe_attributes xe,
      tc_data = xe_data xe, tc_metadata = xe_metadata xe, tc_tool_call_id = xe_tool_call_id xe, tc_timestamp = None\<rparr>"
  have rej: "reject_tool_call sv xe reason q \<noteq> (Finished (Inr x), y)" for reason q x y
    by (auto simp: reject_tool_call_def split: prod.splits outcome.splits)
  from assms(3) obtain rt1 rt2 where
      g: "tool_guardrail_phase sv (xe_name xe) (xe_args xe) (xe_parent xe) (xe_metadata xe) rt = (Finished (Inr None), rt1)"
    and i: "tool_intercept_phase sv (xe_name xe) (xe_args xe) rt1 = (Finished (Inr args), rt2)"
    and t: "tool_call_with_subscriber_snapshot sv ?tc rt2 = (Finished (Inr (h, subs)), rt')"
    unfolding begin_managed_tool_def try_then_Inr by (auto simp: rej try_then_Inr split: option.splits)
  have c1: "continues sv rt rt1" by (rule behavesD [OF guardrail_phase_behaves [OF b] r g])
  have c2: "continues sv rt1 rt2" by (rule behavesD [OF intercept_phase_behaves [OF b] ready_continues [OF r c1] i])
  have c: "continues sv rt rt2" by (rule continues_trans [OF c1 c2])
  have r2: "ready sv rt2" by (rule ready_continues [OF r c])
  obtain parent s where s: "visible_stack rt2 = Healthy s" "start_tool sv ?tc (Some parent) s rt2 = (Finished (Inr (h, subs)), rt')"
    using t by (auto simp: tool_call_with_subscriber_snapshot_def owned_call_ready [OF r2] split: option.splits rwlock.splits)
  obtain h' subs' where o: "Finished (Inr (h, subs)) = (Finished (Inr (h', subs')) :: (tool_handle \<times> _ list) flow_result outcome)"
      "subs' \<noteq> []" "continues sv rt2 rt'" "queues_around rt2 (build_tool_start_event h' None) rt'"
    by (rule start_tool_span [OF r2 s])
  show "continues sv rt rt'" by (rule continues_trans [OF c o(3)])
  show "subs \<noteq> []" using o(1,2) by simp
  show "queues_around rt (build_tool_start_event h None) rt'" using queues_around_pre [OF c o(4)] o(1) by simp
qed

lemma queued_event_span: "event_span (queued_event s a) (queued_event t b) = event_span a b"
  by (cases a; cases b) (simp_all add: event_span_def queued_event_def set_propagation_root_uuid_def
      set_propagation_parent_uuid_def is_scope_start_def is_scope_end_def)

text \<open>
  C33. A tool span that was started is ended, whatever happens: when the guardrails and request
  intercepts have let the call through and its start event is queued, the call queues an end event
  with the same identity and a later time stamp, whether the tool and its intercepts return a result,
  fail, panic, or are dropped while they are suspended. After the start and after the end come only
  marks.
\<close>

theorem tool_span_always_closed:
  assumes "callbacks_behave sv" and "\<forall>a. behaves sv (func a)" and "ready sv rt"
    and "begin_managed_tool sv xe rt = (Finished (Inr (args, h, subs)), rt1)"
    and "tool_call_execute sv func xe rt = (r, rt')"
  shows "\<exists>ms1 st l1 marks1 ms2 en l2 marks2.
     channel (rt_dispatcher rt1) = channel (rt_dispatcher rt) @ ms1 @ [Deliver st (Some l1) None] @ marks1 \<and>
     channel (rt_dispatcher rt') = channel (rt_dispatcher rt1) @ ms2 @ [Deliver en (Some l2) None] @ marks2 \<and>
     event_span (dv_event st) (dv_event en) \<and> be_uuid (base_of (dv_event st)) = th_uuid h \<and>
     marks_only marks1 \<and> marks_only marks2"
proof -
  note o = begin_managed_tool_opens [OF assms(1,3,4)]
  have "managed_execution sv func xe args h subs rt1 = (r, rt')"
    using assms(4,5) by (simp add: tool_call_execute_def owned_call_ready [OF assms(3)] try_then_def)
  then have "closes h rt1 rt'"
    using managed_execution_closes [OF assms(1) _ ready_continues [OF assms(3) o(1)] o(2)] assms(2) by blast
  then obtain e where e: "queues_around rt1 e rt'" "event_span (build_tool_start_event h None) e"
    by (auto simp: closes_def ends_def)
  have "be_uuid (base_of (build_tool_start_event h None)) = th_uuid h"
    by (simp add: build_tool_start_event_def scope_event_new_def base_event_build_def)
  with o(3) e show ?thesis unfolding queues_around_def
    by (elim exE conjE) (metis queued_event_simps(3) queued_event_span)
qed

section \<open>A small tool host\<close>

text \<open>Guardrails allow, request intercepts keep the arguments, execution intercepts call the rest of the chain once.\<close>

definition demo_tools :: "(nat, nat) tool_host" where
  "demo_tools = \<lparr>new_uuid = (\<lambda>w. (of_nat w, w + 1)), clock = (\<lambda>w. (0, w)),
     as_injector = (\<lambda>_ _ w. (Finished (Inr []), w)), as_sanitizer = (\<lambda>_ _ fs w. (Finished (Inr fs), w)),
     as_subscriber = (\<lambda>_ _ w. (Finished (), w)), gates_of = (\<lambda>_. None),
     as_tool_sanitizer = (\<lambda>_ _ args w. (Finished (Inr args), w)),
     as_tool_guardrail = (\<lambda>_ _ _ rt. (Finished (Inr None), rt)),
     as_tool_intercept = (\<lambda>_ _ args rt. (Finished (Inr args), rt)),
     as_tool_execution = (\<lambda>_ c rt. (CallNext (tx_args c)
       (\<lambda>r rt. (Settle (Finished (map_sum id outcome_of_result r)), rt)), rt)),
     split_words = (\<lambda>_. None)\<rparr>"

definition demo_tool_call :: tool_call_execute_params where
  "demo_tool_call = \<lparr>xe_name = ''search'', xe_args = JNull, xe_parent = None, xe_attributes = 0, xe_data = None,
     xe_metadata = None, xe_tool_call_id = None\<rparr>"

lemma demo_tools_behave: "callbacks_behave demo_tools"
  by (simp add: callbacks_behave_def demo_tools_def behaves_def ready_def continues_refl)

lemma demo_tools_ready: "ready demo_tools demo_runtime"
  by (simp add: ready_def owned_def observed_def subscribed_def demo_runtime_def demo_tools_def demo_context_def
      accepting_def dispatcher_new_def plain_context_def runtime_registration_is_enabled_def demo_owner)

lemma demo_no_entries:
  "tool_conditional_execution_entries (gates_of demo_tools) (registry_snapshot [ToolConditionalExecutionGuardrail, Subscriber] demo_context) [] w = ([], w)"
  "tool_request_intercept_entries (gates_of demo_tools) (registry_snapshot [ToolRequestIntercept] demo_context) [] w = ([], w)"
  by (simp_all add: tool_conditional_execution_entries_def tool_request_intercept_entries_def merge_guardrail_entries_def
      merge_intercept_entries_def registry_snapshot_def demo_context_def registries_new_def new_registry_def sorted_values_def)

lemma demo_parent: "resolve_parent_uuid None demo_runtime = Some (Some 1)"
  by (simp add: resolve_parent_uuid_def task_scope_top_def demo_runtime_def current_scope_stack_def scope_stack_new_def
      build_handle_def ss_top_def)

lemma demo_tool_phases:
  "\<exists>w. tool_guardrail_phase demo_tools ''search'' JNull None None demo_runtime = (Finished (Inr None), demo_runtime\<lparr>rt_world := w\<rparr>)"
  "tool_intercept_phase demo_tools ''search'' JNull (demo_runtime\<lparr>rt_world := w\<rparr>) =
     (Finished (Inr JNull), demo_runtime\<lparr>rt_world := w\<rparr>)"
proof -
  have c: "rt_context demo_runtime = Healthy demo_context" by (simp add: demo_runtime_def)
  have l: "collect_scope_local_registries field (scope_stack_new 1 0) = []" for field :: "nat registries \<Rightarrow> 'a sorted_registry"
    by (simp add: collect_scope_local_registries_def scope_stack_new_def map_filter_simps)
  show "\<exists>w. tool_guardrail_phase demo_tools ''search'' JNull None None demo_runtime = (Finished (Inr None), demo_runtime\<lparr>rt_world := w\<rparr>)"
    using demo_parent by (auto simp: tool_guardrail_phase_def demo_visible c demo_no_entries l Let_def split_beta
        tool_conditional_execution_snapshot_chain_def resolve_parent_uuid_def)
  show "tool_intercept_phase demo_tools ''search'' JNull (demo_runtime\<lparr>rt_world := w\<rparr>) =
     (Finished (Inr JNull), demo_runtime\<lparr>rt_world := w\<rparr>)"
    using demo_visible by (simp add: tool_intercept_phase_def c demo_no_entries l)
qed

lemma demo_tool_begins:
  "\<exists>args h subs rt1. begin_managed_tool demo_tools demo_tool_call demo_runtime = (Finished (Inr (args, h, subs)), rt1)"
proof -
  obtain w where w: "tool_guardrail_phase demo_tools ''search'' JNull None None demo_runtime = (Finished (Inr None), demo_runtime\<lparr>rt_world := w\<rparr>)"
    using demo_tool_phases(1) by blast
  let ?rt = "demo_runtime\<lparr>rt_world := w\<rparr>"
  let ?tc = "\<lparr>tc_name = ''search'', tc_args = JNull, tc_parent = None, tc_attributes = 0, tc_data = None,
      tc_metadata = None, tc_tool_call_id = None, tc_timestamp = None\<rparr>"
  have r: "ready demo_tools ?rt" using demo_tools_ready by simp
  have s: "visible_stack ?rt = Healthy (scope_stack_new 1 0)" using demo_visible by simp
  have p: "resolve_parent_uuid None ?rt = Some (Some 1)" using demo_parent by (simp add: resolve_parent_uuid_def)
  obtain q rt1 where q: "start_tool demo_tools ?tc (Some (Some 1)) (scope_stack_new 1 0) ?rt = (q, rt1)" by fastforce
  obtain h subs where "q = Finished (Inr (h, subs))" by (rule start_tool_span [OF r s q])
  then have "tool_call_with_subscriber_snapshot demo_tools ?tc ?rt = (Finished (Inr (h, subs)), rt1)"
    using q s p by (simp add: tool_call_with_subscriber_snapshot_def owned_call_ready [OF r])
  then show ?thesis
    by (simp add: begin_managed_tool_def demo_tool_call_def w demo_tool_phases(2) try_then_def)
qed

text \<open>The tool of the example panics; its span is closed all the same.\<close>

theorem tool_span_always_closed_witness:
  "\<exists>st l1 en l2 pre mid post1 post2. channel (rt_dispatcher (snd (tool_call_execute demo_tools (\<lambda>_ rt. (Panicked, rt)) demo_tool_call demo_runtime)))
       = pre @ [Deliver st (Some l1) None] @ post1 @ mid @ [Deliver en (Some l2) None] @ post2 \<and>
     event_span (dv_event st) (dv_event en) \<and> marks_only post1 \<and> marks_only post2"
proof -
  obtain args h subs rt1 where b: "begin_managed_tool demo_tools demo_tool_call demo_runtime = (Finished (Inr (args, h, subs)), rt1)"
    using demo_tool_begins by blast
  have f: "\<forall>a. behaves demo_tools ((\<lambda>_ rt. (Panicked, rt)) (a :: json))"
    by (simp add: behaves_def ready_def continues_refl)
  show ?thesis using tool_span_always_closed [OF demo_tools_behave f demo_tools_ready b prod.collapse [symmetric]]
    by (elim exE conjE) (simp only:, metis append.assoc)
qed

end
