(* ===== verification/Model_Pricing.thy ===== *)
theory Model_Pricing
  imports Relay_Events Binary64
begin

text \<open>
  Model prices (\<^verbatim>\<open>crates/core/src/codec/model_pricing.rs\<close>): catalogs and their validation, the search for
  the price of a model, rates that depend on the size of the prompt, and the cost of a usage.

  Catalogs come as JSON texts from the configuration or from files. Reading a file and parsing its
  text are parameters; what is modelled is the catalog they yield.
\<close>

section \<open>Catalogs\<close>

datatype pricing_unit = PerToken | PerRequest | PerSecond | GpuHour

record token_pricing_rates =
  tr_input_per_million :: f64
  tr_output_per_million :: f64
  tr_cache_read_per_million :: "f64 option"
  tr_cache_write_per_million :: "f64 option"

record token_rate_tier =
  tt_min_prompt_tokens :: tokens
  tt_max_prompt_tokens :: tokens
  tt_rates :: token_pricing_rates

datatype rate_schedule_application = FullRequest

datatype token_rate_schedule = PromptTokenThreshold rate_schedule_application "token_rate_tier list"

datatype cache_read_accounting = IncludedInPromptTokens | Separate

record model_pricing =
  mp_provider :: string
  mp_model_id :: string
  mp_aliases :: "string list"
  mp_currency :: string
  mp_unit :: pricing_unit
  mp_rates :: "token_pricing_rates option"
  mp_rate_schedule :: "token_rate_schedule option"
  mp_read_accounting :: cache_read_accounting
  mp_pricing_as_of :: string
  mp_pricing_source :: string

record pricing_catalog =
  pc_version :: "32 word"
  pc_entries :: "model_pricing list"

datatype pricing_catalog_error =
    CatalogJson string
  | DuplicateModelAlias string
  | UnsupportedVersion "32 word"
  | EmptyField nat string
  | InvalidRate nat string f64
  | FileRead string string
  | LockPoisoned string

definition PRICING_CATALOG_VERSION :: "32 word" where
  "PRICING_CATALOG_VERSION = 1"

section \<open>Names\<close>

definition normalized_model_name :: "string \<Rightarrow> string" where
  "normalized_model_name model = to_ascii_lowercase (str_trim model)"

definition trim_slashes :: "string \<Rightarrow> string" where
  "trim_slashes s = rev (dropWhile (\<lambda>c. c = CHR ''/'') (rev (dropWhile (\<lambda>c. c = CHR ''/'') s)))"

definition normalized_provider_name :: "string \<Rightarrow> string" where
  "normalized_provider_name provider = to_ascii_lowercase (trim_slashes (str_trim provider))"

fun join_slash :: "string list \<Rightarrow> string" where
  "join_slash [] = []"
| "join_slash [x] = x"
| "join_slash (x # xs) = x @ ''/'' @ join_slash xs"

definition name_parts :: "string \<Rightarrow> string list" where
  "name_parts normalized = filter (\<lambda>p. p \<noteq> []) (map str_trim (split_on (CHR ''/'') normalized))"

record model_lookup_key =
  lk_provider :: "string option"
  lk_model :: string

definition push_lookup_key :: "string option \<Rightarrow> string \<Rightarrow> model_lookup_key list \<Rightarrow> model_lookup_key list" where
  "push_lookup_key provider model keys =
     (let key = \<lparr>lk_provider = provider, lk_model = model\<rparr>
      in if model \<noteq> [] \<and> key \<notin> set keys then keys @ [key] else keys)"

definition normalized_model_lookup_keys :: "string option \<Rightarrow> string \<Rightarrow> model_lookup_key list" where
  "normalized_model_lookup_keys provider model =
     (let normalized = normalized_model_name model
      in if normalized = [] then []
         else (let parts = name_parts normalized;
                   explicit_provider = (case provider of
                       None \<Rightarrow> None
                     | Some p \<Rightarrow> (let q = normalized_provider_name p in if q = [] then None else Some q));
                   terminal_model = (if parts = [] then normalized else last parts);
                   keys = (case explicit_provider of
                       Some q \<Rightarrow> push_lookup_key (Some q) terminal_model (push_lookup_key (Some q) normalized [])
                     | None \<Rightarrow>
                         if length parts > 1 then push_lookup_key (Some (join_slash (butlast parts))) terminal_model []
                         else [])
               in fold (\<lambda>start. push_lookup_key None (join_slash (drop start parts))) [0..<length parts] keys))"

definition infer_model_provider :: "string \<Rightarrow> string option \<Rightarrow> string option" where
  "infer_model_provider default_provider model =
     (let normalized_default = normalized_provider_name default_provider;
          fallback = (if normalized_default = [] then None else Some normalized_default)
      in case model of
           None \<Rightarrow> fallback
         | Some m \<Rightarrow> (let parts = name_parts (normalized_model_name m)
             in if length parts > 1 then Some (join_slash (butlast parts)) else fallback))"

definition model_keys :: "model_pricing \<Rightarrow> string list" where
  "model_keys p = filter (\<lambda>m. m \<noteq> []) (map normalized_model_name (mp_model_id p # mp_aliases p))"

definition provider_model_keys :: "model_pricing \<Rightarrow> string list" where
  "provider_model_keys p = map (\<lambda>m. normalized_provider_name (mp_provider p) @ ''/'' @ m) (model_keys p)"

definition matches_model :: "model_lookup_key \<Rightarrow> model_pricing \<Rightarrow> bool" where
  "matches_model key p \<longleftrightarrow>
     (case lk_provider key of None \<Rightarrow> True | Some q \<Rightarrow> normalized_provider_name (mp_provider p) = q) \<and>
     lk_model key \<in> set (model_keys p)"

fun find_map :: "('a \<Rightarrow> 'b option) \<Rightarrow> 'a list \<Rightarrow> 'b option" where
  "find_map f [] = None"
| "find_map f (x # xs) = (case f x of Some y \<Rightarrow> Some y | None \<Rightarrow> find_map f xs)"

definition catalog_pricing_for :: "pricing_catalog \<Rightarrow> string option \<Rightarrow> string \<Rightarrow> model_pricing option" where
  "catalog_pricing_for c provider model =
     find_map (\<lambda>key. List.find (matches_model key) (pc_entries c)) (normalized_model_lookup_keys provider model)"

section \<open>Validation\<close>

text \<open>A sequence of checks with \<^verbatim>\<open>?\<close>: the first error is the result.\<close>

fun first_error :: "('e + unit) list \<Rightarrow> 'e + unit" where
  "first_error [] = Inr ()"
| "first_error (Inl e # rs) = Inl e"
| "first_error (Inr _ # rs) = first_error rs"

definition validate_nonempty :: "nat \<Rightarrow> string \<Rightarrow> string \<Rightarrow> pricing_catalog_error + unit" where
  "validate_nonempty i field value = (if str_trim value = [] then Inl (EmptyField i field) else Inr ())"

definition validate_rate :: "nat \<Rightarrow> string \<Rightarrow> f64 \<Rightarrow> pricing_catalog_error + unit" where
  "validate_rate i field value =
     (if \<not> f64_is_finite value \<or> f64_less value 0 then Inl (InvalidRate i field value) else Inr ())"

definition validate_optional_rate :: "nat \<Rightarrow> string \<Rightarrow> f64 option \<Rightarrow> pricing_catalog_error + unit" where
  "validate_optional_rate i field value = (case value of None \<Rightarrow> Inr () | Some v \<Rightarrow> validate_rate i field v)"

definition rates_validate :: "nat \<Rightarrow> string \<Rightarrow> token_pricing_rates \<Rightarrow> pricing_catalog_error + unit" where
  "rates_validate i prefix r = first_error
     [validate_rate i (prefix @ ''.input_per_million'') (tr_input_per_million r),
      validate_rate i (prefix @ ''.output_per_million'') (tr_output_per_million r),
      validate_optional_rate i (prefix @ ''.cache_read_per_million'') (tr_cache_read_per_million r),
      validate_optional_rate i (prefix @ ''.cache_write_per_million'') (tr_cache_write_per_million r)]"

definition tier_validate :: "nat \<Rightarrow> nat \<Rightarrow> token_rate_tier \<Rightarrow> pricing_catalog_error + unit" where
  "tier_validate i j t = first_error
     [case (tt_min_prompt_tokens t, tt_max_prompt_tokens t) of
        (Some mn, Some mx) \<Rightarrow>
          if mn > mx then Inl (InvalidRate i ''rate_schedule.tiers.prompt_tokens'' (f64_of_nat (unat mn))) else Inr ()
      | _ \<Rightarrow> Inr (),
      rates_validate i (''rate_schedule.tiers['' @ show_nat j @ ''].rates'') (tt_rates t)]"

definition schedule_validate :: "nat \<Rightarrow> token_rate_schedule \<Rightarrow> pricing_catalog_error + unit" where
  "schedule_validate i s = (case s of PromptTokenThreshold _ tiers \<Rightarrow>
     if tiers = [] then Inl (EmptyField i ''rate_schedule.tiers'')
     else first_error (map (\<lambda>(j, t). tier_validate i j t) (enumerate 0 tiers)))"

definition pricing_validate :: "nat \<Rightarrow> model_pricing \<Rightarrow> pricing_catalog_error + unit" where
  "pricing_validate i p = first_error
     [validate_nonempty i ''provider'' (mp_provider p),
      validate_nonempty i ''model_id'' (mp_model_id p),
      validate_nonempty i ''currency'' (mp_currency p),
      validate_nonempty i ''pricing_as_of'' (mp_pricing_as_of p),
      validate_nonempty i ''pricing_source'' (mp_pricing_source p),
      if mp_unit p = PerToken \<and> mp_rates p = None \<and> mp_rate_schedule p = None
      then Inl (EmptyField i ''rates or rate_schedule'') else Inr (),
      case mp_rates p of None \<Rightarrow> Inr () | Some r \<Rightarrow> rates_validate i ''rates'' r,
      case mp_rate_schedule p of None \<Rightarrow> Inr () | Some s \<Rightarrow> schedule_validate i s]"

text \<open>The first key that was seen before, or the keys seen so far.\<close>

fun insert_keys :: "string list \<Rightarrow> string list \<Rightarrow> string + string list" where
  "insert_keys seen [] = Inr seen"
| "insert_keys seen (k # ks) = (if k \<in> set seen then Inl k else insert_keys (k # seen) ks)"

fun validate_entries :: "nat \<Rightarrow> string list \<Rightarrow> model_pricing list \<Rightarrow> pricing_catalog_error + unit" where
  "validate_entries i seen [] = Inr ()"
| "validate_entries i seen (p # ps) = (case pricing_validate i p of
       Inl e \<Rightarrow> Inl e
     | Inr _ \<Rightarrow> (case insert_keys seen (provider_model_keys p) of
           Inl k \<Rightarrow> Inl (DuplicateModelAlias k)
         | Inr seen' \<Rightarrow> validate_entries (i + 1) seen' ps))"

definition catalog_validate :: "pricing_catalog \<Rightarrow> pricing_catalog_error + unit" where
  "catalog_validate c =
     (if pc_version c \<noteq> PRICING_CATALOG_VERSION then Inl (UnsupportedVersion (pc_version c))
      else validate_entries 0 [] (pc_entries c))"

section \<open>Cost\<close>

text \<open>The constants \<^verbatim>\<open>1_000_000.0\<close>, \<^verbatim>\<open>1_000_000_000_000.0\<close> and the neutral element of \<^verbatim>\<open>Iterator::sum\<close>, \<^verbatim>\<open>-0.0\<close>.\<close>

definition MILLION :: f64 where "MILLION = 0x412E848000000000"
definition COST_SCALE :: f64 where "COST_SCALE = 0x426D1A94A2000000"
definition SUM_START :: f64 where "SUM_START = 0x8000000000000000"

definition cost_component :: "64 word \<Rightarrow> f64 \<Rightarrow> f64" where
  "cost_component tokens price_per_million = f64_div (f64_mul (f64_of_nat (unat tokens)) price_per_million) MILLION"

definition round_cost_amount :: "f64 \<Rightarrow> f64" where
  "round_cost_amount cost = f64_div (f64_round (f64_mul cost COST_SCALE)) COST_SCALE"

definition cost_component_if_nonzero :: "64 word \<Rightarrow> f64 \<Rightarrow> f64 option" where
  "cost_component_if_nonzero tokens price =
     (if tokens > 0 then Some (round_cost_amount (cost_component tokens price)) else None)"

definition f64_sum :: "f64 option list \<Rightarrow> f64" where
  "f64_sum xs = foldl f64_add SUM_START (List.map_filter id xs)"

definition matches_prompt_tokens :: "64 word \<Rightarrow> token_rate_tier \<Rightarrow> bool" where
  "matches_prompt_tokens n t \<longleftrightarrow>
     (case tt_min_prompt_tokens t of None \<Rightarrow> True | Some mn \<Rightarrow> n \<ge> mn) \<and>
     (case tt_max_prompt_tokens t of None \<Rightarrow> True | Some mx \<Rightarrow> n \<le> mx)"

definition schedule_rates_for_usage :: "token_rate_schedule \<Rightarrow> usage \<Rightarrow> token_pricing_rates option" where
  "schedule_rates_for_usage s u = (case s of PromptTokenThreshold applies_to tiers \<Rightarrow>
     if applies_to \<noteq> FullRequest then None
     else (case us_prompt_tokens u of
         None \<Rightarrow> None
       | Some n \<Rightarrow> map_option tt_rates (List.find (matches_prompt_tokens n) tiers)))"

definition rates_for_usage :: "model_pricing \<Rightarrow> usage \<Rightarrow> token_pricing_rates option" where
  "rates_for_usage p u = (case mp_rate_schedule p of
       Some s \<Rightarrow> schedule_rates_for_usage s u | None \<Rightarrow> mp_rates p)"

abbreviation token_count :: "tokens \<Rightarrow> 64 word" where
  "token_count t \<equiv> (case t of Some n \<Rightarrow> n | None \<Rightarrow> 0)"

definition saturating_sub :: "64 word \<Rightarrow> 64 word \<Rightarrow> 64 word" where
  "saturating_sub a b = (if b \<le> a then a - b else 0)"

definition billable_prompt_tokens :: "model_pricing \<Rightarrow> usage \<Rightarrow> 64 word" where
  "billable_prompt_tokens p u =
     (if mp_read_accounting p = IncludedInPromptTokens
      then saturating_sub (token_count (us_prompt_tokens u)) (token_count (us_cache_read_tokens u))
      else token_count (us_prompt_tokens u))"

definition cost_components :: "model_pricing \<Rightarrow> token_pricing_rates \<Rightarrow> usage \<Rightarrow> f64 option list" where
  "cost_components p r u =
     [cost_component_if_nonzero (billable_prompt_tokens p u) (tr_input_per_million r),
      cost_component_if_nonzero (token_count (us_completion_tokens u)) (tr_output_per_million r),
      Option.bind (tr_cache_read_per_million r) (cost_component_if_nonzero (token_count (us_cache_read_tokens u))),
      Option.bind (tr_cache_write_per_million r) (cost_component_if_nonzero (token_count (us_cache_write_tokens u)))]"

definition has_unpriced_nonzero_usage :: "token_pricing_rates \<Rightarrow> usage \<Rightarrow> bool" where
  "has_unpriced_nonzero_usage r u \<longleftrightarrow>
     (token_count (us_cache_read_tokens u) > 0 \<and> tr_cache_read_per_million r = None) \<or>
     (token_count (us_cache_write_tokens u) > 0 \<and> tr_cache_write_per_million r = None)"

definition pricing_estimate_cost :: "model_pricing \<Rightarrow> usage \<Rightarrow> cost_estimate option" where
  "pricing_estimate_cost p u =
     (if mp_unit p \<noteq> PerToken then None
      else (case rates_for_usage p u of
          None \<Rightarrow> None
        | Some r \<Rightarrow>
            if token_count (us_prompt_tokens u) = 0 \<and> token_count (us_completion_tokens u) = 0 \<and>
               token_count (us_cache_read_tokens u) = 0 \<and> token_count (us_cache_write_tokens u) = 0
            then None
            else (let cs = cost_components p r u
                  in Some \<lparr>co_total = (if has_unpriced_nonzero_usage r u then None
                             else Some (round_cost_amount (f64_sum cs))),
                       co_currency = mp_currency p,
                       co_input = cs ! 0, co_output = cs ! 1, co_cache_read = cs ! 2, co_cache_write = cs ! 3,
                       co_source = ModelPricing,
                       co_pricing_provider = Some (mp_provider p), co_pricing_model = Some (mp_model_id p),
                       co_pricing_as_of = Some (mp_pricing_as_of p), co_pricing_source = Some (mp_pricing_source p)\<rparr>)))"

section \<open>The resolver\<close>

type_synonym pricing_resolver = "pricing_catalog list"

datatype pricing_source_config = Inline pricing_catalog | CatalogFile string

fun resolver_from_config ::
    "(string \<Rightarrow> string + string) \<Rightarrow> (string \<Rightarrow> string + pricing_catalog) \<Rightarrow> pricing_source_config list \<Rightarrow>
     pricing_catalog_error + pricing_resolver" where
  "resolver_from_config read_file parse [] = Inr []"
| "resolver_from_config read_file parse (src # srcs) =
     (let loaded = (case src of
          Inline c \<Rightarrow> Inr c
        | CatalogFile path \<Rightarrow> (case read_file path of
              Inl e \<Rightarrow> Inl (FileRead path e)
            | Inr raw \<Rightarrow> map_sum CatalogJson id (parse raw)))
      in case loaded of
           Inl e \<Rightarrow> Inl e
         | Inr c \<Rightarrow> (case catalog_validate c of
               Inl e \<Rightarrow> Inl e
             | Inr _ \<Rightarrow> map_sum id (Cons c) (resolver_from_config read_file parse srcs)))"

definition resolver_pricing_for :: "pricing_resolver \<Rightarrow> string option \<Rightarrow> string \<Rightarrow> model_pricing option" where
  "resolver_pricing_for catalogs provider model = find_map (\<lambda>c. catalog_pricing_for c provider model) catalogs"

definition estimate_cost_for_provider ::
    "pricing_resolver \<Rightarrow> string option \<Rightarrow> string \<Rightarrow> usage \<Rightarrow> cost_estimate option" where
  "estimate_cost_for_provider catalogs provider model u =
     Option.bind (resolver_pricing_for catalogs provider model) (\<lambda>p. pricing_estimate_cost p u)"

text \<open>The resolver in use, behind a lock.\<close>

definition active_pricing_resolver :: "pricing_resolver rwlock \<Rightarrow> pricing_resolver" where
  "active_pricing_resolver l = (case l of Healthy r \<Rightarrow> r | Poisoned _ _ \<Rightarrow> [])"

definition set_active_pricing_resolver ::
    "pricing_resolver \<Rightarrow> pricing_resolver rwlock \<Rightarrow> (pricing_catalog_error + unit) \<times> pricing_resolver rwlock" where
  "set_active_pricing_resolver r l = (case l of
       Healthy _ \<Rightarrow> (Inr (), Healthy r) | Poisoned m _ \<Rightarrow> (Inl (LockPoisoned m), l))"

definition reset_active_pricing_resolver ::
    "pricing_resolver rwlock \<Rightarrow> (pricing_catalog_error + unit) \<times> pricing_resolver rwlock" where
  "reset_active_pricing_resolver l = set_active_pricing_resolver [] l"

definition attach_estimated_cost_for_provider ::
    "pricing_resolver rwlock \<Rightarrow> string option \<Rightarrow> annotated_llm_response \<Rightarrow> annotated_llm_response" where
  "attach_estimated_cost_for_provider l provider r = (case (ar_model r, ar_usage r) of
       (Some model, Some u) \<Rightarrow>
         if us_cost u \<noteq> None then r
         else r\<lparr>ar_usage := Some (u\<lparr>us_cost :=
             estimate_cost_for_provider (active_pricing_resolver l) provider model u\<rparr>)\<rparr>
     | _ \<Rightarrow> r)"

definition total_or_component_sum :: "cost_estimate \<Rightarrow> f64 option" where
  "total_or_component_sum c = (case co_total c of
       Some t \<Rightarrow> Some t
     | None \<Rightarrow>
         if co_source c \<noteq> ProviderReported then None
         else (let vs = List.map_filter id [co_input c, co_output c, co_cache_read c, co_cache_write c]
               in if vs = [] then None else Some (foldl f64_add 0 vs)))"

end
