(* ===== verification/Pricing_Properties.thy ===== *)
theory Pricing_Properties
  imports Model_Pricing
begin

text \<open>
  What a validated catalog guarantees: the price of a model is found under its provider whatever the
  order of the entries, prices are amounts, and a call that uses more tokens does not cost less.
\<close>

section \<open>Searching\<close>

lemma insert_keys_Inr:
  "insert_keys seen ks = Inr seen' \<Longrightarrow> distinct ks \<and> set ks \<inter> set seen = {} \<and> set seen' = set seen \<union> set ks"
proof (induction ks arbitrary: seen)
  case (Cons k ks)
  then have "k \<notin> set seen" "insert_keys (k # seen) ks = Inr seen'" by (simp_all split: if_splits)
  with Cons.IH [of "k # seen"] show ?case by auto
qed simp

lemma validate_entries_Inr:
  assumes "validate_entries i seen ps = Inr ()"
  shows "(\<forall>p\<in>set ps. \<exists>j. pricing_validate j p = Inr ()) \<and> distinct (concat (map provider_model_keys ps)) \<and>
     set (concat (map provider_model_keys ps)) \<inter> set seen = {}"
  using assms
proof (induction i seen ps rule: validate_entries.induct)
  case (2 i seen p ps)
  from 2(2) obtain seen' where p: "pricing_validate i p = Inr ()" and k: "insert_keys seen (provider_model_keys p) = Inr seen'"
    and v: "validate_entries (i + 1) seen' ps = Inr ()" by (auto split: sum.splits)
  from 2(1) [OF p k v] insert_keys_Inr [OF k] p show ?case by auto
qed simp

lemma distinct_concat_shared:
  assumes "distinct (concat (map f xs))" "x \<in> set xs" "y \<in> set xs" "k \<in> set (f x)" "k \<in> set (f y)"
  shows "x = y"
proof (rule ccontr)
  assume n: "x \<noteq> y"
  obtain as bs where xs: "xs = as @ x # bs" using assms(2) by (meson split_list)
  then have "y \<in> set as \<union> set bs" using assms(3) n by auto
  then show False using assms(1,4,5) by (auto simp: xs)
qed

lemma find_unique:
  assumes "e \<in> set xs" "P e" "\<And>x. x \<in> set xs \<Longrightarrow> P x \<Longrightarrow> x = e"
  shows "List.find P xs = Some e"
proof -
  have "List.find P xs \<noteq> None" using assms(1,2) by (auto simp: find_None_iff)
  then obtain x where x: "List.find P xs = Some x" by blast
  then have "x \<in> set xs" "P x" by (auto simp: find_Some_iff)
  then show ?thesis using assms(3) x by simp
qed

lemma push_lookup_key_append: "\<exists>ks'. push_lookup_key q m ks = ks @ ks'"
  by (simp add: push_lookup_key_def Let_def)

lemma fold_push_append: "\<exists>ks'. fold (\<lambda>s. push_lookup_key (q s) (m s)) ss ks = ks @ ks'"
proof (induction ss arbitrary: ks)
  case (Cons s ss)
  obtain ks1 where "push_lookup_key (q s) (m s) ks = ks @ ks1" using push_lookup_key_append by blast
  then show ?case using Cons.IH [of "ks @ ks1"] by auto
qed simp

lemma first_lookup_key:
  assumes "normalized_provider_name p \<noteq> []" "normalized_model_name m \<noteq> []"
  obtains ks where "normalized_model_lookup_keys (Some p) m =
    \<lparr>lk_provider = Some (normalized_provider_name p), lk_model = normalized_model_name m\<rparr> # ks"
proof -
  let ?k = "\<lparr>lk_provider = Some (normalized_provider_name p), lk_model = normalized_model_name m\<rparr>"
  let ?parts = "name_parts (normalized_model_name m)"
  let ?t = "if ?parts = [] then normalized_model_name m else last ?parts"
  have one: "push_lookup_key (Some (normalized_provider_name p)) (normalized_model_name m) [] = [?k]"
    using assms(2) by (simp add: push_lookup_key_def)
  obtain ks1 where two: "push_lookup_key (Some (normalized_provider_name p)) ?t [?k] = [?k] @ ks1"
    using push_lookup_key_append by blast
  obtain ks2 where "fold (\<lambda>s. push_lookup_key None (join_slash (drop s ?parts))) [0..<length ?parts] ([?k] @ ks1) =
      ([?k] @ ks1) @ ks2"
    using fold_push_append [of "\<lambda>s. None" "\<lambda>s. join_slash (drop s ?parts)"] by blast
  then show ?thesis using that assms one two by (simp add: normalized_model_lookup_keys_def Let_def)
qed

text \<open>
  A model that the caller names with its provider gets the price of that provider: whatever the
  order of the entries and whatever other providers offer a model of the same name, the search in a
  valid catalog yields the one entry of the provider that has the model among its names.
\<close>

lemma own_provider_price:
  assumes "catalog_validate c = Inr ()" and "e \<in> set (pc_entries c)"
    and "normalized_provider_name p = normalized_provider_name (mp_provider e)" and "normalized_provider_name p \<noteq> []"
    and "normalized_model_name m \<in> set (model_keys e)"
  shows "catalog_pricing_for c (Some p) m = Some e"
proof -
  let ?k = "\<lparr>lk_provider = Some (normalized_provider_name p), lk_model = normalized_model_name m\<rparr>"
  have "normalized_model_name m \<noteq> []" using assms(5) unfolding model_keys_def set_filter by blast
  then obtain ks where ks: "normalized_model_lookup_keys (Some p) m = ?k # ks"
    using first_lookup_key [OF assms(4)] by blast
  have d: "distinct (concat (map provider_model_keys (pc_entries c)))"
    using assms(1) validate_entries_Inr by (auto simp: catalog_validate_def split: if_splits)
  have key: "normalized_provider_name p @ ''/'' @ normalized_model_name m \<in> set (provider_model_keys x)"
    if "matches_model ?k x" for x
    using that by (auto simp: matches_model_def provider_model_keys_def)
  have e: "matches_model ?k e" using assms(3,5) by (simp add: matches_model_def)
  have "List.find (matches_model ?k) (pc_entries c) = Some e"
    using assms(2) e by (rule find_unique) (rule distinct_concat_shared [OF d _ assms(2) key key [OF e]])
  then show ?thesis by (simp add: catalog_pricing_for_def ks)
qed

section \<open>Amounts\<close>

lemma finite_mag: "f64_is_finite b \<longleftrightarrow> f64_mag b < INFINITE"
proof -
  define q r where "q = unat b div 2 ^ 52 mod 2 ^ 11" and "r = unat b mod 2 ^ 52"
  have m: "f64_mag b = 2 ^ 52 * q + r"
    using mod_mult2_eq [of "unat b" "2 ^ 52" "2 ^ 11"] by (simp add: f64_mag_def q_def r_def)
  have "r < 2 ^ 52" "q < 2048" by (simp_all add: r_def q_def)
  then have "q \<noteq> 2047 \<longleftrightarrow> 2 ^ 52 * q + r < 2047 * 2 ^ 52" by (cases "q = 2047") simp_all
  moreover have "f64_is_finite b \<longleftrightarrow> q \<noteq> 2047" by (simp add: f64_is_finite_def q_def)
  ultimately show ?thesis by (simp add: m INFINITE_def)
qed

lemma valid_rate_amount: "validate_rate i field v = Inr () \<Longrightarrow> f64_amount v \<and> \<not> f64_is_infinite v"
  by (auto simp: validate_rate_def finite_mag f64_amount_def f64_is_nan_def f64_is_infinite_def f64_less_def f64_key_def
      Let_def split: if_splits)

lemma constants_amount:
  "f64_amount MILLION" "\<not> f64_is_infinite MILLION" "\<not> f64_is_zero MILLION"
  "f64_amount COST_SCALE" "\<not> f64_is_infinite COST_SCALE" "\<not> f64_is_zero COST_SCALE" "f64_amount SUM_START"
  by (simp_all add: MILLION_def COST_SCALE_def SUM_START_def f64_amount_def f64_is_nan_def f64_is_infinite_def
      f64_is_zero_def f64_mag_def f64_key_def INFINITE_def)

lemma word_to_f64_finite: "\<not> f64_is_infinite (f64_of_nat (unat (t :: 64 word)))"
proof -
  have "floorlog 2 18446744073709551616 = 12 + 53" by (rule antisym) (simp_all add: floorlog_leI floorlog_geI)
  then have "round_units (of_nat 18446744073709551616 * ONE_UNITS) < INFINITE"
    by (simp only: of_nat_large) (simp add: INFINITE_def round_even_def Let_def)
  moreover have "(of_nat (unat t) :: rat) \<le> of_nat 18446744073709551616"
    using unsigned_less [of t, where 'a = nat] by (simp only: of_nat_le_iff) simp
  then have "round_units (of_nat (unat t) * ONE_UNITS) \<le> round_units (of_nat 18446744073709551616 * ONE_UNITS)"
    by (intro round_units_mono mult_right_mono mult_nonneg_nonneg of_nat_0_le_iff ONE_UNITS_pos)
  ultimately have "round_units (of_nat (unat t) * ONE_UNITS) < INFINITE" by (rule order.strict_trans1 [rotated])
  then show ?thesis unfolding f64_is_infinite_def amount_of_nat by (rule less_imp_neq)
qed

lemma cost_component_amount:
  assumes "f64_amount price" "\<not> f64_is_infinite price"
  shows "f64_amount (cost_component t price)"
  unfolding cost_component_def
  by (intro amount_div amount_mul amount_of_nat assms constants_amount impI notI) (use word_to_f64_finite in blast)

lemma cost_component_mono:
  assumes "f64_amount price" "\<not> f64_is_infinite price" "t \<le> t'"
  shows "f64_less_eq (cost_component t price) (cost_component t' price)"
  unfolding cost_component_def
proof (intro amount_div_mono amount_mul_mono constants_amount amount_mul amount_of_nat assms(1,2) of_nat_mono_f64)
  show "unat t \<le> unat t'" using assms(3) by (simp add: word_le_nat_alt)
qed (use word_to_f64_finite in blast)+

lemma round_cost_amount_amount: "f64_amount c \<Longrightarrow> f64_amount (round_cost_amount c)"
  unfolding round_cost_amount_def by (intro amount_div amount_round amount_mul constants_amount) (simp_all add: constants_amount)

lemma round_cost_amount_mono:
  assumes "f64_amount a" "f64_amount b" "f64_less_eq a b"
  shows "f64_less_eq (round_cost_amount a) (round_cost_amount b)"
  unfolding round_cost_amount_def
  by (intro amount_div_mono amount_round_mono amount_round amount_mul_mono amount_mul constants_amount assms)
    (simp_all add: constants_amount)

lemma amount_add_mono:
  assumes "f64_amount a" "f64_amount a'" "f64_less_eq a a'" "f64_amount b" "f64_amount b'" "f64_less_eq b b'"
  shows "f64_less_eq (f64_add a b) (f64_add a' b')"
proof -
  note s = amount_add [OF assms(1,4)] amount_add [OF assms(2,5)]
  show ?thesis
  proof (cases "f64_is_infinite a' \<or> f64_is_infinite b'")
    case True
    then show ?thesis using s amount_mag [OF s(1)] by (simp add: amount_le)
  next
    case False
    note u = amount_units_mono [OF assms(1-3)] amount_units_mono [OF assms(4-6)]
    have "mag_units (f64_mag a) + mag_units (f64_mag b) \<le> mag_units (f64_mag a') + mag_units (f64_mag b')"
      using u False by (intro add_mono) simp_all
    then have "(of_nat (mag_units (f64_mag a) + mag_units (f64_mag b)) :: rat) \<le>
        of_nat (mag_units (f64_mag a') + mag_units (f64_mag b'))" by (rule of_nat_mono)
    then have "round_units (of_nat (mag_units (f64_mag a) + mag_units (f64_mag b))) \<le>
        round_units (of_nat (mag_units (f64_mag a') + mag_units (f64_mag b')))"
      by (intro round_units_mono) simp_all
    then show ?thesis using s u False by (simp add: amount_le)
  qed
qed

text \<open>A component that is missing counts as nothing.\<close>

fun le_opt :: "f64 option \<Rightarrow> f64 option \<Rightarrow> bool" where
  "le_opt None None \<longleftrightarrow> True"
| "le_opt None (Some b) \<longleftrightarrow> f64_amount b"
| "le_opt (Some a) (Some b) \<longleftrightarrow> f64_amount a \<and> f64_amount b \<and> f64_less_eq a b"
| "le_opt (Some a) None \<longleftrightarrow> False"

lemma f64_less_eq_trans: "f64_less_eq a b \<Longrightarrow> f64_less_eq b c \<Longrightarrow> f64_less_eq a c"
  by (simp add: f64_less_eq_def)

lemma foldl_add_mono:
  assumes "list_all2 le_opt xs ys" "f64_amount a" "f64_amount b" "f64_less_eq a b"
  shows "f64_amount (foldl f64_add a (List.map_filter id xs)) \<and> f64_amount (foldl f64_add b (List.map_filter id ys)) \<and>
    f64_less_eq (foldl f64_add a (List.map_filter id xs)) (foldl f64_add b (List.map_filter id ys))"
  using assms
proof (induction xs ys arbitrary: a b rule: list_all2_induct)
  case (Cons x xs y ys)
  consider "x = None" "y = None" | v where "x = None" "y = Some v" "f64_amount v"
    | u v where "x = Some u" "y = Some v" "f64_amount u" "f64_amount v" "f64_less_eq u v"
    using Cons.hyps(1) by (cases "(x, y)" rule: le_opt.cases) auto
  then show ?case
  proof cases
    case 1
    then show ?thesis using Cons.IH [OF Cons.prems] by (simp add: map_filter_simps)
  next
    case 2
    have "f64_less_eq a (f64_add b v)" using f64_less_eq_trans [OF Cons.prems(3)] amount_add_ge(1) Cons.prems(2) 2(3) by blast
    then show ?thesis using Cons.IH [OF Cons.prems(1) amount_add(1)] Cons.prems(2) 2 by (simp add: map_filter_simps)
  next
    case 3
    then have "f64_less_eq (f64_add a u) (f64_add b v)" using Cons.prems by (intro amount_add_mono)
    then show ?thesis using Cons.IH [OF amount_add(1) amount_add(1)] Cons.prems 3 by (simp add: map_filter_simps)
  qed
qed (simp add: map_filter_simps)

section \<open>More tokens do not cost less\<close>

lemma first_error_Inr: "first_error rs = Inr () \<longleftrightarrow> (\<forall>r\<in>set rs. r = Inr ())"
  by (induction rs rule: first_error.induct) auto

definition rates_ok :: "token_pricing_rates \<Rightarrow> bool" where
  "rates_ok r \<longleftrightarrow> (\<forall>v\<in>{tr_input_per_million r, tr_output_per_million r} \<union> set_option (tr_cache_read_per_million r) \<union>
     set_option (tr_cache_write_per_million r). f64_amount v \<and> \<not> f64_is_infinite v)"

lemma rates_validate_ok: "rates_validate i prefix r = Inr () \<Longrightarrow> rates_ok r"
  unfolding rates_validate_def first_error_Inr rates_ok_def
  by (auto simp: validate_optional_rate_def dest: valid_rate_amount split: option.splits)

lemma rates_for_usage_ok:
  assumes "pricing_validate i p = Inr ()" and "rates_for_usage p u = Some r"
  shows "rates_ok r"
proof (cases "mp_rate_schedule p")
  case None
  then show ?thesis using assms rates_validate_ok
    by (auto simp: pricing_validate_def first_error_Inr rates_for_usage_def)
next
  case (Some s)
  obtain a tiers where s: "s = PromptTokenThreshold a tiers" by (cases s)
  from assms(2) Some s obtain n t where f: "List.find (matches_prompt_tokens n) tiers = Some t" and r: "r = tt_rates t"
    by (auto simp: rates_for_usage_def schedule_rates_for_usage_def split: option.splits if_splits)
  from f have t: "t \<in> set tiers" by (auto simp: find_Some_iff)
  have "schedule_validate i s = Inr ()" using assms(1) Some by (simp add: pricing_validate_def first_error_Inr)
  then have "\<forall>x\<in>set (enumerate 0 tiers). (case x of (j, t) \<Rightarrow> tier_validate i j t) = Inr ()"
    using s by (auto simp: schedule_validate_def first_error_Inr split: if_splits)
  moreover obtain j where "j < length tiers" "tiers ! j = t" using t by (auto simp: in_set_conv_nth)
  then have "(j, t) \<in> set (enumerate 0 tiers)" by (auto simp: in_set_enumerate_eq)
  ultimately have "tier_validate i j t = Inr ()" by fastforce
  then show ?thesis using r rates_validate_ok by (auto simp: tier_validate_def first_error_Inr)
qed

lemma component_le:
  assumes "f64_amount price" "\<not> f64_is_infinite price" "t \<le> t'"
  shows "le_opt (cost_component_if_nonzero t price) (cost_component_if_nonzero t' price)"
proof -
  have z: "t' = 0 \<Longrightarrow> t = 0" using assms(3) by simp
  have "f64_less_eq (round_cost_amount (cost_component t price)) (round_cost_amount (cost_component t' price))"
    using assms by (intro round_cost_amount_mono cost_component_amount cost_component_mono)
  then show ?thesis using z assms(1,2) by (auto simp: cost_component_if_nonzero_def round_cost_amount_amount cost_component_amount word_gt_0)
qed

lemma billable_mono:
  assumes "token_count (us_prompt_tokens u) \<le> token_count (us_prompt_tokens u')"
    and "token_count (us_cache_read_tokens u) = token_count (us_cache_read_tokens u')"
  shows "billable_prompt_tokens p u \<le> billable_prompt_tokens p u'"
proof -
  have "saturating_sub a c \<le> saturating_sub b c" if "a \<le> b" for a b c
    using that by (auto simp: saturating_sub_def word_le_nat_alt unat_sub word_less_nat_alt)
  then show ?thesis using assms by (simp add: billable_prompt_tokens_def)
qed

text \<open>
  C26. Costs grow with usage: for a price that passes validation, two usages that are charged at the
  same rates and have the same cached reads, one with at least as many prompt, completion and cache
  write tokens as the other, have totals that are numbers not below zero, and the larger usage does
  not cost less, in spite of all roundings.
\<close>

theorem cost_monotone:
  assumes "pricing_validate i p = Inr ()" and "rates_for_usage p u = Some r" and "rates_for_usage p u' = Some r"
    and "token_count (us_prompt_tokens u) \<le> token_count (us_prompt_tokens u')"
    and "token_count (us_completion_tokens u) \<le> token_count (us_completion_tokens u')"
    and "token_count (us_cache_write_tokens u) \<le> token_count (us_cache_write_tokens u')"
    and "token_count (us_cache_read_tokens u) = token_count (us_cache_read_tokens u')"
    and "pricing_estimate_cost p u = Some c" and "co_total c = Some t"
    and "pricing_estimate_cost p u' = Some c'" and "co_total c' = Some t'"
  shows "f64_amount t \<and> f64_amount t' \<and> f64_less_eq t t'"
proof -
  have ok: "rates_ok r" by (rule rates_for_usage_ok [OF assms(1,2)])
  have le: "list_all2 le_opt (cost_components p r u) (cost_components p r u')"
    unfolding cost_components_def
  proof (intro list.rel_intros)
    show "le_opt (cost_component_if_nonzero (billable_prompt_tokens p u) (tr_input_per_million r))
        (cost_component_if_nonzero (billable_prompt_tokens p u') (tr_input_per_million r))"
      using ok billable_mono [OF assms(4,7)] by (intro component_le) (simp_all add: rates_ok_def)
    show "le_opt (cost_component_if_nonzero (token_count (us_completion_tokens u)) (tr_output_per_million r))
        (cost_component_if_nonzero (token_count (us_completion_tokens u')) (tr_output_per_million r))"
      using ok assms(5) by (intro component_le) (simp_all add: rates_ok_def)
    show "le_opt (Option.bind (tr_cache_read_per_million r) (cost_component_if_nonzero (token_count (us_cache_read_tokens u))))
        (Option.bind (tr_cache_read_per_million r) (cost_component_if_nonzero (token_count (us_cache_read_tokens u'))))"
      using ok assms(7) by (cases "tr_cache_read_per_million r") (auto simp: rates_ok_def intro: component_le)
    show "le_opt (Option.bind (tr_cache_write_per_million r) (cost_component_if_nonzero (token_count (us_cache_write_tokens u))))
        (Option.bind (tr_cache_write_per_million r) (cost_component_if_nonzero (token_count (us_cache_write_tokens u'))))"
      using ok assms(6) by (cases "tr_cache_write_per_million r") (auto simp: rates_ok_def intro: component_le)
  qed
  have refl: "f64_less_eq SUM_START SUM_START" by (simp add: f64_less_eq_def)
  note s = foldl_add_mono [OF le constants_amount(7) constants_amount(7) refl, folded f64_sum_def]
  have "t = round_cost_amount (f64_sum (cost_components p r u))"
    using assms(2,8,9) by (auto simp: pricing_estimate_cost_def Let_def split: if_splits)
  moreover have "t' = round_cost_amount (f64_sum (cost_components p r u'))"
    using assms(3,10,11) by (auto simp: pricing_estimate_cost_def Let_def split: if_splits)
  ultimately show ?thesis using s round_cost_amount_amount round_cost_amount_mono by blast
qed

section \<open>A small catalog\<close>

definition demo_rates :: token_pricing_rates where
  "demo_rates = \<lparr>tr_input_per_million = 0x4000000000000000, tr_output_per_million = 0x4008000000000000,
     tr_cache_read_per_million = None, tr_cache_write_per_million = None\<rparr>"

definition demo_price :: "string \<Rightarrow> model_pricing" where
  "demo_price provider = \<lparr>mp_provider = provider, mp_model_id = ''m'', mp_aliases = [], mp_currency = ''USD'',
     mp_unit = PerToken, mp_rates = Some demo_rates, mp_rate_schedule = None, mp_read_accounting = Separate,
     mp_pricing_as_of = ''2026'', mp_pricing_source = ''list''\<rparr>"

definition demo_catalog :: pricing_catalog where
  "demo_catalog = \<lparr>pc_version = 1, pc_entries = [demo_price ''x'', demo_price ''y'']\<rparr>"

definition demo_usage :: "64 word \<Rightarrow> usage" where
  "demo_usage n = \<lparr>us_prompt_tokens = Some n, us_completion_tokens = Some 5, us_total_tokens = None,
     us_cache_read_tokens = None, us_cache_write_tokens = None, us_cost = None\<rparr>"

lemma demo_strings:
  "str_trim ''m'' = ''m''" "str_trim ''x'' = ''x''" "str_trim ''y'' = ''y''" "str_trim ''USD'' = ''USD''"
  "str_trim ''2026'' = ''2026''" "str_trim ''list'' = ''list''"
  "to_ascii_lowercase ''m'' = ''m''" "to_ascii_lowercase ''x'' = ''x''" "to_ascii_lowercase ''y'' = ''y''"
  by (simp_all add: str_trim_plain to_ascii_lowercase_def char_to_ascii_lowercase_def less_eq_char_def)

lemma demo_price_facts:
  "normalized_provider_name ''x'' = ''x''" "normalized_provider_name ''y'' = ''y''"
  "normalized_model_name ''m'' = ''m''" "model_keys (demo_price q) = [''m'']"
  by (simp_all add: normalized_provider_name_def normalized_model_name_def trim_slashes_def demo_strings model_keys_def
      demo_price_def)

lemma demo_rates_valid: "rates_validate i prefix demo_rates = Inr ()"
  by (simp add: rates_validate_def demo_rates_def first_error_Inr validate_rate_def validate_optional_rate_def
      f64_is_finite_def f64_less_def f64_is_nan_def f64_key_def f64_mag_def INFINITE_def)

lemma demo_price_valid: "q \<in> {''x'', ''y''} \<Longrightarrow> pricing_validate i (demo_price q) = Inr ()"
  by (auto simp: pricing_validate_def demo_price_def first_error_Inr validate_nonempty_def demo_strings demo_rates_valid)

lemma demo_cost:
  assumes "n \<noteq> 0"
  shows "rates_for_usage (demo_price ''x'') (demo_usage n) = Some demo_rates"
    and "\<exists>c t. pricing_estimate_cost (demo_price ''x'') (demo_usage n) = Some c \<and> co_total c = Some t"
proof -
  show r: "rates_for_usage (demo_price ''x'') (demo_usage n) = Some demo_rates"
    by (simp add: rates_for_usage_def demo_price_def)
  show "\<exists>c t. pricing_estimate_cost (demo_price ''x'') (demo_usage n) = Some c \<and> co_total c = Some t"
    by (simp add: pricing_estimate_cost_def r Let_def cost_components_def has_unpriced_nonzero_usage_def)
      (simp add: demo_usage_def demo_price_def demo_rates_def cost_component_if_nonzero_def word_gt_0)
qed

theorem cost_monotone_witness:
  "\<exists>c c' t t'. pricing_estimate_cost (demo_price ''x'') (demo_usage 1) = Some c \<and> co_total c = Some t \<and>
     pricing_estimate_cost (demo_price ''x'') (demo_usage 7) = Some c' \<and> co_total c' = Some t' \<and> f64_less_eq t t'"
proof -
  obtain c t where c: "pricing_estimate_cost (demo_price ''x'') (demo_usage 1) = Some c" "co_total c = Some t"
    using demo_cost(2) [of 1] by auto
  obtain c' t' where c': "pricing_estimate_cost (demo_price ''x'') (demo_usage 7) = Some c'" "co_total c' = Some t'"
    using demo_cost(2) [of 7] by auto
  have v: "pricing_validate 0 (demo_price ''x'') = Inr ()" by (rule demo_price_valid) simp
  have "f64_less_eq t t'"
    using cost_monotone [OF v demo_cost(1) [of 1] demo_cost(1) [of 7] _ _ _ _ c c'] by (simp add: demo_usage_def)
  then show ?thesis using c c' by blast
qed

end
