(* ===== verification/Optimization_Recorder.thy ===== *)
theory Optimization_Recorder
  imports Model_Pricing
begin

text \<open>
  The recorder of optimization evidence (\<^verbatim>\<open>crates/core/src/api/optimization.rs\<close>): the state behind its
  lock, each critical section of its methods, and the methods themselves.

  A method takes the lock several times and lets go of it while it serializes, so the critical
  sections are definitions of their own; \<open>Recorder_Properties\<close> interleaves them. The serializer is
  a parameter: for a contribution it gives the sizes of its writes and whether it ends without an
  error of its own.
\<close>

section \<open>Limits and state\<close>

definition MAX_LLM_OPTIMIZATION_CONTRIBUTIONS :: nat where
  "MAX_LLM_OPTIMIZATION_CONTRIBUTIONS = 64"

definition MAX_LLM_OPTIMIZATION_CONTRIBUTION_BYTES :: nat where
  "MAX_LLM_OPTIMIZATION_CONTRIBUTION_BYTES = 16 * 1024"

definition MAX_LLM_OPTIMIZATION_TOTAL_CONTRIBUTION_BYTES :: nat where
  "MAX_LLM_OPTIMIZATION_TOTAL_CONTRIBUTION_BYTES = 256 * 1024"

definition MAX_LLM_OPTIMIZATION_CONTRIBUTION_ATTEMPTS :: nat where
  "MAX_LLM_OPTIMIZATION_CONTRIBUTION_ATTEMPTS = 64"

lemmas optimization_limits = MAX_LLM_OPTIMIZATION_CONTRIBUTIONS_def MAX_LLM_OPTIMIZATION_CONTRIBUTION_BYTES_def
  MAX_LLM_OPTIMIZATION_TOTAL_CONTRIBUTION_BYTES_def MAX_LLM_OPTIMIZATION_CONTRIBUTION_ATTEMPTS_def

text \<open>Sizes are \<^verbatim>\<open>usize\<close> on a 64-bit machine; the set of limitations is its sorted list.\<close>

definition USIZE_MAX :: nat where
  "USIZE_MAX = 2 ^ 64 - 1"

record accumulator_state =
  ac_contributions :: "llm_optimization_contribution list"
  ac_recorded_at :: "timestamp list"
  ac_total_bytes :: nat
  ac_attempted :: nat
  ac_in_flight :: nat
  ac_emitted :: nat
  ac_closed :: bool
  ac_finished :: bool
  ac_limitations :: "string list"
  ac_limit_exceeded :: bool
  ac_invalid_payload_schema :: bool

definition accumulator_default :: accumulator_state where
  "accumulator_default = \<lparr>ac_contributions = [], ac_recorded_at = [], ac_total_bytes = 0, ac_attempted = 0,
     ac_in_flight = 0, ac_emitted = 0, ac_closed = False, ac_finished = False, ac_limitations = [],
     ac_limit_exceeded = False, ac_invalid_payload_schema = False\<rparr>"

type_synonym recorder = "accumulator_state rwlock"
type_synonym serializer = "llm_optimization_contribution \<Rightarrow> nat list \<times> bool"

definition recorder_default :: recorder where
  "recorder_default = Healthy accumulator_default"

text \<open>\<^verbatim>\<open>if let Ok(mut state) = lock\<close>: a poisoned lock is left alone.\<close>

fun if_healthy :: "('a \<Rightarrow> 'a) \<Rightarrow> 'a rwlock \<Rightarrow> 'a rwlock" where
  "if_healthy f (Healthy s) = Healthy (f s)"
| "if_healthy f (Poisoned m s) = Poisoned m s"

definition has_evidence :: "accumulator_state \<Rightarrow> bool" where
  "has_evidence s \<longleftrightarrow> ac_contributions s \<noteq> [] \<or> ac_limitations s \<noteq> [] \<or> ac_limit_exceeded s \<or>
     ac_invalid_payload_schema s"

definition seal_for_contribution_limit :: "accumulator_state \<Rightarrow> accumulator_state" where
  "seal_for_contribution_limit s = s\<lparr>ac_limit_exceeded := True, ac_closed := True\<rparr>"

section \<open>Size of a contribution\<close>

datatype serialized_size_error = LimitExceeded | Serialization

fun counting_write :: "nat \<Rightarrow> nat \<Rightarrow> nat list \<Rightarrow> nat option" where
  "counting_write limit k [] = Some k"
| "counting_write limit k (n # ns) =
     (if min (k + n) USIZE_MAX > limit then None else counting_write limit (k + n) ns)"

definition bounded_json_size ::
    "serializer \<Rightarrow> llm_optimization_contribution \<Rightarrow> nat \<Rightarrow> serialized_size_error + nat" where
  "bounded_json_size to_writer c limit = (case to_writer c of (writes, ok) \<Rightarrow>
     (case counting_write limit 0 writes of
        None \<Rightarrow> Inl LimitExceeded
      | Some n \<Rightarrow> if ok then Inr n else Inl Serialization))"

section \<open>Recording\<close>

definition reserve_record_attempt :: "recorder \<Rightarrow> bool \<times> recorder" where
  "reserve_record_attempt l = (case l of
       Poisoned _ _ \<Rightarrow> (False, l)
     | Healthy s \<Rightarrow>
         if ac_closed s then (False, l)
         else if ac_attempted s \<ge> MAX_LLM_OPTIMIZATION_CONTRIBUTION_ATTEMPTS
         then (False, Healthy (seal_for_contribution_limit s))
         else (True, Healthy (s\<lparr>ac_attempted := ac_attempted s + 1, ac_in_flight := ac_in_flight s + 1\<rparr>)))"

definition note_invalid_payload_schema :: "recorder \<Rightarrow> recorder" where
  "note_invalid_payload_schema = if_healthy (\<lambda>s. if ac_finished s then s else s\<lparr>ac_invalid_payload_schema := True\<rparr>)"

definition note_contribution_limit_exceeded :: "recorder \<Rightarrow> recorder" where
  "note_contribution_limit_exceeded = if_healthy (\<lambda>s. if ac_finished s then s else seal_for_contribution_limit s)"

definition payload_without_schema :: "llm_optimization_contribution \<Rightarrow> bool" where
  "payload_without_schema c \<longleftrightarrow> oc_payload c \<noteq> None \<and> oc_payload_schema c = None"

definition payload_schema_is_valid :: "llm_optimization_contribution \<Rightarrow> recorder \<Rightarrow> bool \<times> recorder" where
  "payload_schema_is_valid c l =
     (if payload_without_schema c then (False, note_invalid_payload_schema l) else (True, l))"

text \<open>
  What the first critical section of \<^verbatim>\<open>next_contribution_sequence\<close> finds; a full recorder is sealed in
  a second one.
\<close>

datatype sequence_reading = NoSequence | RecorderFull | NextSequence "64 word"

definition read_next_sequence :: "recorder \<Rightarrow> sequence_reading" where
  "read_next_sequence l = (case l of
       Poisoned _ _ \<Rightarrow> NoSequence
     | Healthy s \<Rightarrow>
         if ac_closed s then NoSequence
         else if length (ac_contributions s) \<ge> MAX_LLM_OPTIMIZATION_CONTRIBUTIONS then RecorderFull
         else NextSequence (of_nat (length (ac_contributions s))))"

definition next_contribution_sequence :: "recorder \<Rightarrow> 64 word option \<times> recorder" where
  "next_contribution_sequence l = (case read_next_sequence l of
       NoSequence \<Rightarrow> (None, l)
     | RecorderFull \<Rightarrow> (None, note_contribution_limit_exceeded l)
     | NextSequence n \<Rightarrow> (Some n, l))"

definition serialized_contribution_size ::
    "serializer \<Rightarrow> llm_optimization_contribution \<Rightarrow> recorder \<Rightarrow> nat option \<times> recorder" where
  "serialized_contribution_size to_writer c l =
     (case bounded_json_size to_writer c MAX_LLM_OPTIMIZATION_CONTRIBUTION_BYTES of
        Inr n \<Rightarrow> (Some n, l)
      | Inl LimitExceeded \<Rightarrow> (None, note_contribution_limit_exceeded l)
      | Inl Serialization \<Rightarrow> (None, note_invalid_payload_schema l))"

datatype contribution_commit = Committed | Retry | Rejected

definition commit_contribution ::
    "timestamp \<Rightarrow> llm_optimization_contribution \<Rightarrow> nat \<Rightarrow> 64 word \<Rightarrow> recorder \<Rightarrow> contribution_commit \<times> recorder" where
  "commit_contribution now c n sequence l = (case l of
       Poisoned _ _ \<Rightarrow> (Rejected, l)
     | Healthy s \<Rightarrow>
         if ac_closed s then (Rejected, l)
         else if of_nat (length (ac_contributions s)) \<noteq> sequence then (Retry, l)
         else if ac_total_bytes s + n > USIZE_MAX then (Rejected, Healthy (seal_for_contribution_limit s))
         else if ac_total_bytes s + n > MAX_LLM_OPTIMIZATION_TOTAL_CONTRIBUTION_BYTES
         then (Rejected, Healthy (seal_for_contribution_limit s))
         else (Committed, Healthy (s\<lparr>ac_total_bytes := ac_total_bytes s + n,
                 ac_contributions := ac_contributions s @ [c],
                 ac_recorded_at := ac_recorded_at s @ [now]\<rparr>)))"

text \<open>The attempt is given back when it goes out of scope.\<close>

definition drop_attempt :: "recorder \<Rightarrow> recorder" where
  "drop_attempt = if_healthy (\<lambda>s. s\<lparr>ac_in_flight := ac_in_flight s - 1\<rparr>)"

text \<open>
  The loop of \<^verbatim>\<open>record\<close> when no other thread comes between: the sequence cannot change under it, so it
  does not run twice.
\<close>

lemma no_retry_alone:
  assumes "next_contribution_sequence l = (Some n, l1)" "serialized_contribution_size to_writer c l1 = (Some k, l2)"
  shows "fst (commit_contribution now c' k n l2) \<noteq> Retry"
proof -
  have "l1 = l" "l2 = l1"
    using assms by (auto simp: next_contribution_sequence_def serialized_contribution_size_def
        split: sequence_reading.splits sum.splits serialized_size_error.splits)
  then show ?thesis using assms(1)
    by (auto simp: next_contribution_sequence_def read_next_sequence_def commit_contribution_def
        split: rwlock.splits if_splits sequence_reading.splits)
qed

function record_loop ::
    "serializer \<Rightarrow> timestamp \<Rightarrow> llm_optimization_contribution \<Rightarrow> recorder \<Rightarrow> bool \<times> recorder" where
  "record_loop to_writer now c l = (case next_contribution_sequence l of
       (None, l1) \<Rightarrow> (False, l1)
     | (Some sequence, l1) \<Rightarrow>
         (case serialized_contribution_size to_writer (c\<lparr>oc_sequence := Some sequence\<rparr>) l1 of
            (None, l2) \<Rightarrow> (False, l2)
          | (Some n, l2) \<Rightarrow>
              (case commit_contribution now (c\<lparr>oc_sequence := Some sequence\<rparr>) n sequence l2 of
                 (Committed, l3) \<Rightarrow> (True, l3)
               | (Retry, l3) \<Rightarrow> record_loop to_writer now c l3
               | (Rejected, l3) \<Rightarrow> (False, l3))))"
  by pat_completeness auto
termination
  by (relation "{}") (simp, metis fst_conv no_retry_alone)

declare record_loop.simps [simp del]

definition record_contribution ::
    "serializer \<Rightarrow> uuid \<Rightarrow> timestamp \<Rightarrow> llm_optimization_contribution \<Rightarrow> recorder \<Rightarrow> bool \<times> recorder" where
  "record_contribution to_writer fresh_id now c l = (case reserve_record_attempt l of
       (False, l1) \<Rightarrow> (False, l1)
     | (True, l1) \<Rightarrow>
         (case payload_schema_is_valid c l1 of
            (False, l2) \<Rightarrow> (False, drop_attempt l2)
          | (True, l2) \<Rightarrow>
              (case record_loop to_writer now (c\<lparr>oc_id := Some fresh_id\<rparr>) l2 of
                 (b, l3) \<Rightarrow> (b, drop_attempt l3))))"

definition is_closed :: "recorder \<Rightarrow> bool" where
  "is_closed l = (case l of Healthy s \<Rightarrow> ac_closed s | Poisoned _ _ \<Rightarrow> True)"

text \<open>Every contribution comes with the identifier and the time it would get.\<close>

fun record_all ::
    "serializer \<Rightarrow> (llm_optimization_contribution \<times> uuid \<times> timestamp) list \<Rightarrow> recorder \<Rightarrow> recorder" where
  "record_all to_writer [] l = l"
| "record_all to_writer ((c, fresh_id, now) # cs) l = (case record_contribution to_writer fresh_id now c l of
       (b, l') \<Rightarrow> if \<not> b \<and> is_closed l' then l' else record_all to_writer cs l')"

section \<open>Delivery cursor\<close>

text \<open>The slices panic when the cursor is beyond the end of a list; \<open>None\<close> is such a panic.\<close>

definition unemitted_with_timestamps ::
    "recorder \<Rightarrow> (llm_optimization_contribution \<times> timestamp) list option" where
  "unemitted_with_timestamps l = (case l of
       Poisoned _ _ \<Rightarrow> Some []
     | Healthy s \<Rightarrow>
         (let start = min (ac_emitted s) (length (ac_contributions s))
          in if start > length (ac_recorded_at s) then None
             else Some (zip (drop start (ac_contributions s)) (drop start (ac_recorded_at s)))))"

definition mark_emitted :: "nat \<Rightarrow> recorder \<Rightarrow> recorder" where
  "mark_emitted count = if_healthy (\<lambda>s. s\<lparr>ac_emitted :=
     min (min (ac_emitted s + count) USIZE_MAX) (length (ac_contributions s))\<rparr>)"

section \<open>Closing\<close>

definition close_for_finalization :: "string option \<Rightarrow> recorder \<Rightarrow> bool \<times> recorder" where
  "close_for_finalization conditional_limitation l = (case l of
       Poisoned _ _ \<Rightarrow> (False, l)
     | Healthy s \<Rightarrow>
         if ac_finished s then (False, l)
         else (has_evidence s,
               Healthy (s\<lparr>ac_limitations := (case conditional_limitation of
                    Some m \<Rightarrow> if has_evidence s then insort_insert m (ac_limitations s) else ac_limitations s
                  | None \<Rightarrow> ac_limitations s),
                 ac_closed := True\<rparr>)))"

record finished_contributions =
  fc_contributions :: "llm_optimization_contribution list"
  fc_limitations :: "string list"

definition nothing_finished :: finished_contributions where
  "nothing_finished = \<lparr>fc_contributions = [], fc_limitations = []\<rparr>"

definition accumulator_unavailable :: finished_contributions where
  "accumulator_unavailable = \<lparr>fc_contributions = [], fc_limitations = [''optimization_accumulator_unavailable'']\<rparr>"

text \<open>What is left to do when no record is in flight any more.\<close>

definition take_contributions :: "accumulator_state \<Rightarrow> finished_contributions \<times> accumulator_state" where
  "take_contributions s =
     (\<lparr>fc_contributions = ac_contributions s,
       fc_limitations = ac_limitations s @
         (if ac_limit_exceeded s then [''contribution_limit_exceeded''] else []) @
         (if ac_invalid_payload_schema s then [''invalid_contribution_payload_schema''] else [])\<rparr>,
      s\<lparr>ac_finished := True, ac_limitations := [], ac_limit_exceeded := False, ac_invalid_payload_schema := False,
        ac_recorded_at := [], ac_contributions := []\<rparr>)"

text \<open>
  The two critical sections of \<^verbatim>\<open>finish\<close>: on entry, and each time the wait on the condition ends. The
  result is \<open>None\<close> when the caller has to wait, with the lock released.
\<close>

definition settle :: "accumulator_state \<Rightarrow> finished_contributions option \<times> accumulator_state" where
  "settle s = (if ac_in_flight s > 0 then (None, s) else (case take_contributions s of (f, s') \<Rightarrow> (Some f, s')))"

definition finish_enter :: "recorder \<Rightarrow> finished_contributions option \<times> recorder" where
  "finish_enter l = (case l of
       Poisoned _ _ \<Rightarrow> (Some accumulator_unavailable, l)
     | Healthy s \<Rightarrow>
         if ac_finished s then (Some nothing_finished, l)
         else (case settle (s\<lparr>ac_closed := True\<rparr>) of (r, s') \<Rightarrow> (r, Healthy s')))"

definition finish_wake :: "recorder \<Rightarrow> finished_contributions option \<times> recorder" where
  "finish_wake l = (case l of
       Poisoned _ _ \<Rightarrow> (Some accumulator_unavailable, l)
     | Healthy s \<Rightarrow>
         if ac_finished s then (Some nothing_finished, l)
         else (case settle s of (r, s') \<Rightarrow> (r, Healthy s')))"

end
