(* ===== verification/Optimization_Summary.thy ===== *)
theory Optimization_Summary
  imports Optimization_Recorder
begin

text \<open>
  The summary of the optimizations of one LLM call (\<^verbatim>\<open>crates/core/src/api/optimization.rs\<close>): sums of
  token counts that notice overflow, the usage without the optimizations, both costs, and what limits
  the result. A \<^verbatim>\<open>&mut\<close> argument is an argument and a result.
\<close>

section \<open>Checked sums\<close>

definition checked_add :: "64 word \<Rightarrow> 64 word \<Rightarrow> 64 word option" where
  "checked_add a b = (if unat a + unat b < 2 ^ 64 then Some (a + b) else None)"

definition checked_accumulate :: "tokens \<Rightarrow> tokens \<Rightarrow> bool \<Rightarrow> tokens \<times> bool" where
  "checked_accumulate target v overflowed =
     (if overflowed then (target, overflowed)
      else (case v of
          None \<Rightarrow> (target, overflowed)
        | Some n \<Rightarrow> (case checked_add (token_count target) n of
              Some amount \<Rightarrow> (Some amount, overflowed)
            | None \<Rightarrow> (None, True))))"

fun option_sum_loop :: "bool \<Rightarrow> 64 word \<Rightarrow> tokens list \<Rightarrow> tokens \<times> bool" where
  "option_sum_loop present amount [] = (if present then Some amount else None, False)"
| "option_sum_loop present amount (None # vs) = option_sum_loop present amount vs"
| "option_sum_loop present amount (Some v # vs) = (case checked_add amount v of
       None \<Rightarrow> (None, True)
     | Some amount' \<Rightarrow> option_sum_loop True amount' vs)"

definition checked_option_sum :: "tokens list \<Rightarrow> tokens \<times> bool" where
  "checked_option_sum vs = option_sum_loop False 0 vs"

record token_overflow =
  ov_prompt :: bool
  ov_completion :: bool
  ov_cache_read :: bool
  ov_cache_write :: bool
  ov_total :: bool

definition overflow_any :: "token_overflow \<Rightarrow> bool" where
  "overflow_any f \<longleftrightarrow> ov_prompt f \<or> ov_completion f \<or> ov_cache_read f \<or> ov_cache_write f \<or> ov_total f"

record checked_token_totals =
  ct_values :: llm_optimization_tokens
  ct_overflow :: token_overflow
  ct_missing_total :: bool
  ct_inconsistent_total :: bool

definition checked_totals_default :: checked_token_totals where
  "checked_totals_default = \<lparr>ct_values = tokens_default,
     ct_overflow = \<lparr>ov_prompt = False, ov_completion = False, ov_cache_read = False, ov_cache_write = False,
       ov_total = False\<rparr>,
     ct_missing_total = False, ct_inconsistent_total = False\<rparr>"

definition total_is_inconsistent :: "llm_optimization_tokens \<Rightarrow> bool" where
  "total_is_inconsistent t \<longleftrightarrow>
     (case (tk_total_tokens t, tk_prompt_tokens t, tk_completion_tokens t) of
        (Some explicit, Some p, Some c) \<Rightarrow>
          (case checked_add p c of Some derived \<Rightarrow> derived \<noteq> explicit | None \<Rightarrow> False)
      | _ \<Rightarrow> False)"

definition add_contribution :: "llm_optimization_tokens \<Rightarrow> checked_token_totals \<Rightarrow> checked_token_totals" where
  "add_contribution other ct =
     (let v = ct_values ct;
          ov = ct_overflow ct;
          (prompt, ov_p) = checked_accumulate (tk_prompt_tokens v) (tk_prompt_tokens other) (ov_prompt ov);
          (completion, ov_c) = checked_accumulate (tk_completion_tokens v) (tk_completion_tokens other) (ov_completion ov);
          (cache_read, ov_r) = checked_accumulate (tk_cache_read_tokens v) (tk_cache_read_tokens other) (ov_cache_read ov);
          (cache_write, ov_w) = checked_accumulate (tk_cache_write_tokens v) (tk_cache_write_tokens other) (ov_cache_write ov);
          (derived_total, derived_overflow) = checked_option_sum [tk_prompt_tokens other, tk_completion_tokens other];
          total0 = (if derived_overflow then None else tk_total_tokens v);
          contribution_total = (case tk_total_tokens other of Some n \<Rightarrow> Some n | None \<Rightarrow> derived_total);
          (sum_total, ov_t) = checked_accumulate total0 contribution_total (ov_total ov \<or> derived_overflow)
      in \<lparr>ct_values = \<lparr>tk_prompt_tokens = prompt, tk_completion_tokens = completion, tk_cache_read_tokens = cache_read,
              tk_cache_write_tokens = cache_write, tk_total_tokens = sum_total\<rparr>,
          ct_overflow = \<lparr>ov_prompt = ov_p, ov_completion = ov_c, ov_cache_read = ov_r, ov_cache_write = ov_w,
              ov_total = ov_t\<rparr>,
          ct_missing_total = (ct_missing_total ct \<or> contribution_total = None),
          ct_inconsistent_total = (ct_inconsistent_total ct \<or> total_is_inconsistent other)\<rparr>)"

section \<open>Analysis of the contributions\<close>

record contribution_analysis =
  an_limitations :: "string list"
  an_token_totals :: checked_token_totals
  an_baseline_model :: "llm_optimization_model option"
  an_contributed_effective_model :: "llm_optimization_model option"
  an_use_effective_as_baseline :: bool

definition applied_routing :: "llm_optimization_contribution list \<Rightarrow> llm_optimization_contribution list" where
  "applied_routing cs = filter (\<lambda>c. oc_kind c = MODEL_ROUTING) (filter oc_applied cs)"

definition saved_tokens :: "llm_optimization_contribution \<Rightarrow> llm_optimization_tokens option" where
  "saved_tokens c = Option.bind (oc_token_impact c) ti_saved"

text \<open>The contributions whose savings are added: all that were applied, but no routing when it is ambiguous.\<close>

definition counted_savings :: "llm_optimization_contribution list \<Rightarrow> llm_optimization_tokens list" where
  "counted_savings cs = List.map_filter saved_tokens
     (filter (\<lambda>c. \<not> (length (applied_routing cs) > 1 \<and> oc_kind c = MODEL_ROUTING)) (filter oc_applied cs))"

definition analyze_contributions :: "finished_contributions \<Rightarrow> contribution_analysis" where
  "analyze_contributions finished =
     (let routing = applied_routing (fc_contributions finished);
          totals = fold add_contribution (counted_savings (fc_contributions finished)) checked_totals_default;
          transition = (if length routing = 1 then oc_model_transition (hd routing) else None)
      in \<lparr>an_limitations = fc_limitations finished @
            (if length routing > 1 then [''multiple_routing_contributions''] else []) @
            (if ct_missing_total totals then [''missing_token_savings_total''] else []) @
            (if ct_inconsistent_total totals then [''inconsistent_token_savings_total''] else []),
          an_token_totals = totals,
          an_baseline_model = Option.bind transition mt_baseline,
          an_contributed_effective_model = Option.bind transition mt_effective,
          an_use_effective_as_baseline = (routing = [] \<or> length routing > 1)\<rparr>)"

definition option_or :: "'a option \<Rightarrow> 'a option \<Rightarrow> 'a option" where
  "option_or a b = (case a of Some x \<Rightarrow> Some x | None \<Rightarrow> b)"

definition resolve_effective_model ::
    "llm_optimization_model option \<Rightarrow> annotated_llm_response option \<Rightarrow> string option \<Rightarrow>
     llm_optimization_model option" where
  "resolve_effective_model contributed response requested_model =
     option_or (option_or contributed (map_option optimization_model_new (Option.bind response ar_model)))
       (map_option optimization_model_new requested_model)"

section \<open>Usage\<close>

record usage_analysis =
  ua_effective :: "usage option"
  ua_baseline :: "usage option"
  ua_token_count_overflow :: bool
  ua_baseline_derivation_incomplete :: bool

definition note_missing_core_usage :: "usage \<Rightarrow> string list \<Rightarrow> bool \<Rightarrow> usage \<times> string list \<times> bool" where
  "note_missing_core_usage u limitations overflow =
     (let limitations1 = limitations @
            (if us_prompt_tokens u = None then [''missing_effective_prompt_tokens''] else []) @
            (if us_completion_tokens u = None then [''missing_effective_completion_tokens''] else [])
      in if us_total_tokens u = None
         then (case (us_prompt_tokens u, us_completion_tokens u) of
             (Some p, Some c) \<Rightarrow> (case checked_add p c of
                 Some amount \<Rightarrow> (u\<lparr>us_total_tokens := Some amount\<rparr>, limitations1, overflow)
               | None \<Rightarrow> (u, limitations1, True))
           | _ \<Rightarrow> (u, limitations1 @ [''missing_effective_total_tokens''], overflow))
         else (u, limitations1, overflow))"

text \<open>The flags that the derivation of a baseline threads through: limitations, overflow and incompleteness.\<close>

type_synonym derivation = "string list \<times> bool \<times> bool"

definition checked_add_observed_tokens ::
    "tokens \<Rightarrow> tokens \<Rightarrow> bool \<Rightarrow> string \<Rightarrow> derivation \<Rightarrow> tokens \<times> derivation" where
  "checked_add_observed_tokens target v value_overflowed missing_limitation d =
     (case d of (limitations, overflow, incomplete) \<Rightarrow>
        if value_overflowed then (None, limitations, True, True)
        else (case v of
            None \<Rightarrow> (target, limitations, overflow, incomplete)
          | Some n \<Rightarrow> (case target of
                None \<Rightarrow> (None, limitations @ [missing_limitation], overflow, True)
              | Some observed \<Rightarrow> (case checked_add observed n of
                    Some amount \<Rightarrow> (Some amount, limitations, overflow, incomplete)
                  | None \<Rightarrow> (None, limitations, True, incomplete)))))"

definition derive_baseline_usage ::
    "usage \<Rightarrow> llm_optimization_tokens \<Rightarrow> checked_token_totals \<Rightarrow> derivation \<Rightarrow> usage \<times> derivation" where
  "derive_baseline_usage u saved totals d0 =
     (let ov = ct_overflow totals;
          (prompt, d1) = checked_add_observed_tokens (us_prompt_tokens u) (tk_prompt_tokens saved) (ov_prompt ov)
             ''missing_effective_prompt_tokens'' d0;
          (completion, d2) = checked_add_observed_tokens (us_completion_tokens u) (tk_completion_tokens saved)
             (ov_completion ov) ''missing_effective_completion_tokens'' d1;
          (cache_read, d3) = checked_add_observed_tokens (us_cache_read_tokens u) (tk_cache_read_tokens saved)
             (ov_cache_read ov) ''missing_effective_cache_read_tokens'' d2;
          (cache_write, d4) = checked_add_observed_tokens (us_cache_write_tokens u) (tk_cache_write_tokens saved)
             (ov_cache_write ov) ''missing_effective_cache_write_tokens'' d3;
          (sum_total, d5) = checked_add_observed_tokens (us_total_tokens u) (tk_total_tokens saved) (ov_total ov)
             ''missing_effective_total_tokens'' d4
      in (u\<lparr>us_prompt_tokens := prompt, us_completion_tokens := completion, us_cache_read_tokens := cache_read,
            us_cache_write_tokens := cache_write, us_total_tokens := sum_total, us_cost := None\<rparr>, d5))"

definition infer_response_total :: "usage option \<Rightarrow> annotated_llm_response option \<Rightarrow> annotated_llm_response option" where
  "infer_response_total effective response =
     (case (Option.bind effective us_total_tokens, response) of
        (Some inferred, Some r) \<Rightarrow>
          Some (r\<lparr>ar_usage := map_option (\<lambda>u. if us_total_tokens u = None then u\<lparr>us_total_tokens := Some inferred\<rparr> else u)
                    (ar_usage r)\<rparr>)
      | _ \<Rightarrow> response)"

definition derive_optimization_usage ::
    "annotated_llm_response option \<Rightarrow> llm_optimization_tokens \<Rightarrow> checked_token_totals \<Rightarrow> string list \<Rightarrow>
     usage_analysis \<times> annotated_llm_response option \<times> string list" where
  "derive_optimization_usage response saved totals limitations =
     (let (effective, limitations1, overflow1) = (case Option.bind response ar_usage of
              None \<Rightarrow> (None, limitations, overflow_any (ct_overflow totals))
            | Some u \<Rightarrow> (case note_missing_core_usage u limitations (overflow_any (ct_overflow totals)) of
                  (u', ls, o') \<Rightarrow> (Some u', ls, o')));
          incomplete1 = (ct_missing_total totals \<or> ct_inconsistent_total totals);
          response1 = infer_response_total effective response;
          (baseline, limitations2, overflow2, incomplete2) = (case effective of
              None \<Rightarrow> (None, limitations1, overflow1, incomplete1)
            | Some u \<Rightarrow> (case derive_baseline_usage u saved totals (limitations1, overflow1, incomplete1) of
                  (b, d) \<Rightarrow> (Some b, d)))
      in (\<lparr>ua_effective = effective, ua_baseline = baseline, ua_token_count_overflow = overflow2,
            ua_baseline_derivation_incomplete = incomplete2\<rparr>,
          response1, limitations2 @ (if overflow2 then [''token_count_overflow''] else [])))"

section \<open>Prices\<close>

record pricing_analysis =
  pa_baseline_cost :: "cost_estimate option"
  pa_actual_cost :: "cost_estimate option"
  pa_complete_core_usage :: bool

definition estimate_for_model ::
    "pricing_resolver \<Rightarrow> llm_optimization_model \<Rightarrow> usage \<Rightarrow> cost_estimate option" where
  "estimate_for_model pricing m u = estimate_cost_for_provider pricing (om_provider m) (om_model m) u"

definition set_response_cost :: "cost_estimate option \<Rightarrow> annotated_llm_response \<Rightarrow> annotated_llm_response" where
  "set_response_cost cost r = r\<lparr>ar_usage := map_option (us_cost_update (\<lambda>_. cost)) (ar_usage r)\<rparr>"

definition price_optimization_usage ::
    "usage option \<Rightarrow> annotated_llm_response option \<Rightarrow> llm_optimization_model option \<Rightarrow>
     llm_optimization_model option \<Rightarrow> usage option \<Rightarrow> bool \<Rightarrow> bool \<Rightarrow> pricing_resolver \<Rightarrow>
     pricing_analysis \<times> usage option \<times> annotated_llm_response option" where
  "price_optimization_usage effective_usage response effective_model baseline_model baseline_usage overflow incomplete
       pricing =
     (let reported = (case Option.bind effective_usage us_cost of
              Some cost \<Rightarrow> if co_source cost = ProviderReported then Some cost else None
            | None \<Rightarrow> None);
          complete_core = (case effective_usage of
              Some u \<Rightarrow> us_prompt_tokens u \<noteq> None \<and> us_completion_tokens u \<noteq> None | None \<Rightarrow> False);
          actual = option_or reported
            (if complete_core then Option.bind effective_model (\<lambda>m. Option.bind effective_usage (estimate_for_model pricing m))
             else None);
          baseline = (if \<not> overflow \<and> \<not> incomplete \<and> complete_core
            then Option.bind baseline_model (\<lambda>m. Option.bind baseline_usage (estimate_for_model pricing m)) else None)
      in (\<lparr>pa_baseline_cost = baseline, pa_actual_cost = actual, pa_complete_core_usage = complete_core\<rparr>,
          map_option (us_cost_update (\<lambda>_. actual)) effective_usage,
          map_option (set_response_cost actual) response))"

definition add_summary_limitations ::
    "usage option \<Rightarrow> llm_optimization_model option \<Rightarrow> llm_optimization_model option \<Rightarrow> cost_estimate option \<Rightarrow>
     cost_estimate option \<Rightarrow> bool \<Rightarrow> bool \<Rightarrow> bool \<Rightarrow> string list \<Rightarrow> string list" where
  "add_summary_limitations effective_usage effective_model baseline_model baseline_cost actual_cost overflow incomplete
       complete_core limitations =
     limitations @
     (if effective_usage = None then [''missing_effective_usage''] else []) @
     (if effective_model = None then [''missing_effective_model''] else []) @
     (if baseline_model = None then [''missing_baseline_model''] else []) @
     (if baseline_cost = None \<and> baseline_model \<noteq> None \<and> \<not> overflow \<and> \<not> incomplete \<and> complete_core
      then [''missing_baseline_pricing''] else []) @
     (if actual_cost = None then [''missing_actual_cost''] else [])"

definition calculate_estimated_cost_saved ::
    "cost_estimate option \<Rightarrow> cost_estimate option \<Rightarrow> string list \<Rightarrow> (f64 option \<times> string option) \<times> string list" where
  "calculate_estimated_cost_saved baseline_cost actual_cost limitations =
     (let baseline_total = Option.bind baseline_cost total_or_component_sum;
          actual_total = Option.bind actual_cost total_or_component_sum;
          limitations1 = limitations @
            (if baseline_cost \<noteq> None \<and> baseline_total = None then [''missing_baseline_cost_total''] else []) @
            (if actual_cost \<noteq> None \<and> actual_total = None then [''missing_actual_cost_total''] else [])
      in case (baseline_cost, actual_cost) of
           (Some b, Some a) \<Rightarrow>
             if eq_ignore_ascii_case (co_currency b) (co_currency a)
             then (let saved = (case (baseline_total, actual_total) of
                         (Some x, Some y) \<Rightarrow> Some (f64_sub x y) | _ \<Rightarrow> None)
                   in ((saved, if saved \<noteq> None then Some (co_currency b) else None), limitations1))
             else ((None, None), limitations1 @ [''cost_currency_mismatch''])
         | _ \<Rightarrow> ((None, None), limitations1))"

section \<open>The summary\<close>

text \<open>\<^verbatim>\<open>sort\<close> and \<^verbatim>\<open>dedup\<close>, by the bytes of the strings.\<close>

definition sort_dedup :: "string list \<Rightarrow> string list" where
  "sort_dedup xs = remdups_adj (sort xs)"

definition summarize ::
    "finished_contributions \<Rightarrow> annotated_llm_response option \<Rightarrow> string option \<Rightarrow> pricing_resolver \<Rightarrow>
     llm_optimization_summary option \<times> annotated_llm_response option" where
  "summarize finished response requested_model pricing =
     (if fc_contributions finished = [] \<and> fc_limitations finished = [] then (None, response)
      else
        (let analysis = analyze_contributions finished;
             effective_model = resolve_effective_model (an_contributed_effective_model analysis) response requested_model;
             baseline_model = (if an_use_effective_as_baseline analysis \<and> an_baseline_model analysis = None
               then effective_model else an_baseline_model analysis);
             totals = an_token_totals analysis;
             (ua, response1, limitations1) =
               derive_optimization_usage response (ct_values totals) totals (an_limitations analysis);
             overflow = (overflow_any (ct_overflow totals) \<or> ua_token_count_overflow ua);
             (pa, effective_usage, response2) = price_optimization_usage (ua_effective ua) response1 effective_model
               baseline_model (ua_baseline ua) overflow (ua_baseline_derivation_incomplete ua) pricing;
             limitations2 = add_summary_limitations effective_usage effective_model baseline_model (pa_baseline_cost pa)
               (pa_actual_cost pa) overflow (ua_baseline_derivation_incomplete ua) (pa_complete_core_usage pa) limitations1;
             ((saved, currency), limitations3) =
               calculate_estimated_cost_saved (pa_baseline_cost pa) (pa_actual_cost pa) limitations2;
             limitations = sort_dedup limitations3;
             summary = \<lparr>sm_schema_version = ''1'', sm_calculation_version = ''1'',
               sm_status = (if limitations = [] then SummaryComplete else SummaryPartial),
               sm_limitations = limitations, sm_baseline_model = baseline_model, sm_effective_model = effective_model,
               sm_effective_usage = effective_usage, sm_baseline_usage = ua_baseline ua,
               sm_tokens_saved = ct_values totals, sm_baseline_cost = pa_baseline_cost pa,
               sm_actual_cost = pa_actual_cost pa, sm_estimated_cost_saved = saved, sm_currency = currency,
               sm_contributions = fc_contributions finished\<rparr>
         in (Some summary, map_option (ar_optimization_summary_update (\<lambda>_. Some summary)) response2)))"

text \<open>\<^verbatim>\<open>finish\<close> can block; the result is \<open>None\<close> while a record is in flight.\<close>

definition finalize_optimization_summary ::
    "recorder \<Rightarrow> annotated_llm_response option \<Rightarrow> string option \<Rightarrow> pricing_resolver \<Rightarrow>
     ((llm_optimization_summary option \<times> annotated_llm_response option) \<times> recorder) option" where
  "finalize_optimization_summary l response requested_model pricing = (case finish_enter l of
       (None, l') \<Rightarrow> None
     | (Some finished, l') \<Rightarrow> Some (summarize finished response requested_model pricing, l'))"

end
