(* ===== verification/Summary_Properties.thy ===== *)
theory Summary_Properties
  imports Optimization_Summary Pricing_Properties
begin

text \<open>
  What an optimization summary tells: its token sums are the exact sums over the unbounded naturals
  whenever they are given, and a summary that calls itself complete accounts for every token and for
  the difference of the two costs.
\<close>

section \<open>Exact sums\<close>

definition amount_of :: "tokens \<Rightarrow> nat" where
  "amount_of t = unat (token_count t)"

text \<open>The sum that a field of the totals should have, and whether it does not fit into 64 bits.\<close>

definition exact_sum :: "tokens list \<Rightarrow> tokens \<times> bool" where
  "exact_sum vs =
     (let n = sum_list (map amount_of vs)
      in if n \<ge> 2 ^ 64 then (None, True) else (if set vs \<subseteq> {None} then None else Some (of_nat n), False))"

definition contribution_total :: "llm_optimization_tokens \<Rightarrow> tokens" where
  "contribution_total t = option_or (tk_total_tokens t) (fst (checked_option_sum [tk_prompt_tokens t, tk_completion_tokens t]))"

definition derived_overflow :: "llm_optimization_tokens \<Rightarrow> bool" where
  "derived_overflow t \<longleftrightarrow> amount_of (tk_prompt_tokens t) + amount_of (tk_completion_tokens t) \<ge> 2 ^ 64"

definition exact_total :: "llm_optimization_tokens list \<Rightarrow> tokens \<times> bool" where
  "exact_total ts = (if list_ex derived_overflow ts then (None, True) else exact_sum (map contribution_total ts))"

lemma amount_of_simps [simp]: "amount_of None = 0" "amount_of (Some n) = unat n"
  by (simp_all add: amount_of_def)

lemma amount_of_bound [simp]: "amount_of t < 2 ^ 64"
  using unsigned_less [of "token_count t", where 'a = nat] by (simp add: amount_of_def)

lemma unat_of_nat_64: "n < 2 ^ 64 \<Longrightarrow> unat (of_nat n :: 64 word) = n"
  by (simp add: unat_of_nat take_bit_nat_eq_self)

lemma checked_add_Some: "checked_add a b = Some c \<longleftrightarrow> unat a + unat b < 2 ^ 64 \<and> c = a + b"
  by (auto simp: checked_add_def)

lemma unat_add_exact: "unat a + unat b < 2 ^ 64 \<Longrightarrow> unat (a + b :: 64 word) = unat a + unat b"
  using unat_add_lem [of a b] by simp

lemma exact_sum_Nil: "exact_sum [] = (None, False)"
  by (simp add: exact_sum_def)

lemma exact_sum_snoc: "checked_accumulate (fst (exact_sum vs)) v (snd (exact_sum vs)) = exact_sum (vs @ [v])"
proof -
  define n where "n = sum_list (map amount_of vs)"
  show ?thesis
  proof (cases "n \<ge> 2 ^ 64")
    case True
    then show ?thesis by (simp add: exact_sum_def checked_accumulate_def n_def)
  next
    case False
    have c: "token_count (fst (exact_sum vs)) = of_nat n"
    proof (cases "set vs \<subseteq> {None}")
      case True
      then have "n = 0" unfolding n_def by (induction vs) auto
      then show ?thesis using True by (simp add: exact_sum_def n_def [symmetric] Let_def)
    next
      case s: False
      then show ?thesis using False by (simp add: exact_sum_def n_def Let_def)
    qed
    have u: "unat (of_nat n :: 64 word) = n" using False by (simp add: unat_of_nat_64)
    have e: "exact_sum vs = (fst (exact_sum vs), False)" using False by (simp add: exact_sum_def n_def Let_def)
    show ?thesis
    proof (cases v)
      case None
      then show ?thesis using e False
        by (simp add: checked_accumulate_def) (auto simp: exact_sum_def Let_def n_def)
    next
      case (Some k)
      then show ?thesis using e c u False
        by (auto simp: checked_accumulate_def checked_add_def exact_sum_def n_def [symmetric] Let_def)
    qed
  qed
qed

lemma option_sum_pair:
  "checked_option_sum [a, b] =
     (if amount_of a + amount_of b \<ge> 2 ^ 64 then (None, True)
      else (if a = None \<and> b = None then None else Some (token_count a + token_count b), False))"
  by (cases a; cases b) (auto simp: checked_option_sum_def checked_add_def)

lemma exact_total_snoc:
  "checked_accumulate (if derived_overflow t then None else fst (exact_total ts)) (contribution_total t)
     (snd (exact_total ts) \<or> derived_overflow t) = exact_total (ts @ [t])"
proof (cases "list_ex derived_overflow ts \<or> derived_overflow t")
  case True
  then show ?thesis by (auto simp: exact_total_def checked_accumulate_def)
next
  case False
  then show ?thesis using exact_sum_snoc [of "map contribution_total ts" "contribution_total t"]
    by (simp add: exact_total_def)
qed

definition exact_totals :: "llm_optimization_tokens list \<Rightarrow> checked_token_totals \<Rightarrow> bool" where
  "exact_totals ts ct \<longleftrightarrow>
     (tk_prompt_tokens (ct_values ct), ov_prompt (ct_overflow ct)) = exact_sum (map tk_prompt_tokens ts) \<and>
     (tk_completion_tokens (ct_values ct), ov_completion (ct_overflow ct)) = exact_sum (map tk_completion_tokens ts) \<and>
     (tk_cache_read_tokens (ct_values ct), ov_cache_read (ct_overflow ct)) = exact_sum (map tk_cache_read_tokens ts) \<and>
     (tk_cache_write_tokens (ct_values ct), ov_cache_write (ct_overflow ct)) = exact_sum (map tk_cache_write_tokens ts) \<and>
     (tk_total_tokens (ct_values ct), ov_total (ct_overflow ct)) = exact_total ts \<and>
     ct_missing_total ct = list_ex (\<lambda>t. contribution_total t = None) ts \<and>
     ct_inconsistent_total ct = list_ex total_is_inconsistent ts"

lemma pair_of: "(a, b) = p \<longleftrightarrow> a = fst p \<and> b = snd p"
  by (cases p) auto

lemma exact_totals_add:
  assumes "exact_totals ts ct"
  shows "exact_totals (ts @ [t]) (add_contribution t ct)"
proof -
  have d: "snd (checked_option_sum [tk_prompt_tokens t, tk_completion_tokens t]) = derived_overflow t"
    by (simp add: option_sum_pair derived_overflow_def)
  show ?thesis using assms
    unfolding exact_totals_def add_contribution_def Let_def split_beta
    by (simp add: pair_of exact_sum_snoc [symmetric] exact_total_snoc [symmetric] d)
      (simp add: contribution_total_def option_or_def)
qed

lemma exact_totals_fold: "exact_totals ts (fold add_contribution ts checked_totals_default)"
proof (induction ts rule: rev_induct)
  case Nil
  show ?case by (simp add: exact_totals_def checked_totals_default_def tokens_default_def exact_sum_Nil exact_total_def)
next
  case (snoc t ts)
  then show ?case by (simp add: exact_totals_add)
qed

section \<open>Sums and flags\<close>

lemma exact_sum_value:
  assumes "exact_sum vs = (v, False)"
  shows "amount_of v = sum_list (map amount_of vs) \<and> (v = None \<longrightarrow> set vs \<subseteq> {None})"
proof -
  have lt: "\<not> sum_list (map amount_of vs) \<ge> 2 ^ 64" using assms by (auto simp: exact_sum_def Let_def split: if_splits)
  show ?thesis
  proof (cases "set vs \<subseteq> {None}")
    case True
    then have "v = None" using assms lt by (simp add: exact_sum_def Let_def)
    moreover have "sum_list (map amount_of vs) = 0" using True by (induction vs) auto
    ultimately show ?thesis using True by simp
  next
    case False
    then have "v = Some (of_nat (sum_list (map amount_of vs)))" using assms lt by (auto simp: exact_sum_def Let_def)
    then show ?thesis using lt by (simp add: unat_of_nat_64)
  qed
qed

text \<open>
  The token sums of an analysis are exact: each of the four fields is the sum over the naturals of
  what the counted contributions saved, or it is missing and flagged as an overflow exactly when that
  sum does not fit into 64 bits; the total is the sum of the totals of the contributions, each the
  stated one or else the sum of prompt and completion, and is also flagged when the prompt and
  completion tokens of one contribution do not fit.
\<close>

lemma token_totals_exact:
  "let ts = counted_savings (fc_contributions f); ct = an_token_totals (analyze_contributions f)
   in (tk_prompt_tokens (ct_values ct), ov_prompt (ct_overflow ct)) = exact_sum (map tk_prompt_tokens ts) \<and>
     (tk_completion_tokens (ct_values ct), ov_completion (ct_overflow ct)) = exact_sum (map tk_completion_tokens ts) \<and>
     (tk_cache_read_tokens (ct_values ct), ov_cache_read (ct_overflow ct)) = exact_sum (map tk_cache_read_tokens ts) \<and>
     (tk_cache_write_tokens (ct_values ct), ov_cache_write (ct_overflow ct)) = exact_sum (map tk_cache_write_tokens ts) \<and>
     (tk_total_tokens (ct_values ct), ov_total (ct_overflow ct)) = exact_total ts"
  using exact_totals_fold [of "counted_savings (fc_contributions f)"]
  by (simp add: exact_totals_def analyze_contributions_def Let_def)

section \<open>Complete summaries\<close>

lemma observed_exact:
  assumes "checked_add_observed_tokens target v ov m (ls, o0, i0) = (t', ls', o', i')" "ls' = []" "\<not> o'"
  shows "ls = [] \<and> \<not> o0 \<and> i' = i0 \<and> \<not> ov \<and> amount_of t' = amount_of target + amount_of v"
  using assms
  by (auto simp: checked_add_observed_tokens_def checked_add_Some unat_add_exact split: if_splits option.splits)

lemma baseline_exact:
  assumes "derive_baseline_usage u saved totals (ls, o0, i0) = (b, ls', o', i')" "ls' = []" "\<not> o'"
  shows "ls = [] \<and> \<not> o0 \<and> i' = i0 \<and> \<not> overflow_any (ct_overflow totals) \<and>
     amount_of (us_prompt_tokens b) = amount_of (us_prompt_tokens u) + amount_of (tk_prompt_tokens saved) \<and>
     amount_of (us_completion_tokens b) = amount_of (us_completion_tokens u) + amount_of (tk_completion_tokens saved) \<and>
     amount_of (us_cache_read_tokens b) = amount_of (us_cache_read_tokens u) + amount_of (tk_cache_read_tokens saved) \<and>
     amount_of (us_cache_write_tokens b) = amount_of (us_cache_write_tokens u) + amount_of (tk_cache_write_tokens saved) \<and>
     amount_of (us_total_tokens b) = amount_of (us_total_tokens u) + amount_of (tk_total_tokens saved)"
proof -
  let ?ov = "ct_overflow totals"
  obtain t1 l1 o1 i1 where 1: "checked_add_observed_tokens (us_prompt_tokens u) (tk_prompt_tokens saved) (ov_prompt ?ov)
      ''missing_effective_prompt_tokens'' (ls, o0, i0) = (t1, l1, o1, i1)" by (metis prod_cases4)
  obtain t2 l2 o2 i2 where 2: "checked_add_observed_tokens (us_completion_tokens u) (tk_completion_tokens saved)
      (ov_completion ?ov) ''missing_effective_completion_tokens'' (l1, o1, i1) = (t2, l2, o2, i2)" by (metis prod_cases4)
  obtain t3 l3 o3 i3 where 3: "checked_add_observed_tokens (us_cache_read_tokens u) (tk_cache_read_tokens saved)
      (ov_cache_read ?ov) ''missing_effective_cache_read_tokens'' (l2, o2, i2) = (t3, l3, o3, i3)" by (metis prod_cases4)
  obtain t4 l4 o4 i4 where 4: "checked_add_observed_tokens (us_cache_write_tokens u) (tk_cache_write_tokens saved)
      (ov_cache_write ?ov) ''missing_effective_cache_write_tokens'' (l3, o3, i3) = (t4, l4, o4, i4)" by (metis prod_cases4)
  obtain t5 l5 o5 i5 where 5: "checked_add_observed_tokens (us_total_tokens u) (tk_total_tokens saved) (ov_total ?ov)
      ''missing_effective_total_tokens'' (l4, o4, i4) = (t5, l5, o5, i5)" by (metis prod_cases4)
  have b: "b = u\<lparr>us_prompt_tokens := t1, us_completion_tokens := t2, us_cache_read_tokens := t3,
      us_cache_write_tokens := t4, us_total_tokens := t5, us_cost := None\<rparr>" "l5 = []" "\<not> o5" "i5 = i'"
    using assms 1 2 3 4 5 by (simp_all add: derive_baseline_usage_def)
  note e5 = observed_exact [OF 5 b(2,3)]
  then have e4: "l3 = [] \<and> \<not> o3 \<and> i4 = i3 \<and> \<not> ov_cache_write ?ov \<and>
      amount_of t4 = amount_of (us_cache_write_tokens u) + amount_of (tk_cache_write_tokens saved)"
    using observed_exact [OF 4] by blast
  then have e3: "l2 = [] \<and> \<not> o2 \<and> i3 = i2 \<and> \<not> ov_cache_read ?ov \<and>
      amount_of t3 = amount_of (us_cache_read_tokens u) + amount_of (tk_cache_read_tokens saved)"
    using observed_exact [OF 3] by blast
  then have e2: "l1 = [] \<and> \<not> o1 \<and> i2 = i1 \<and> \<not> ov_completion ?ov \<and>
      amount_of t2 = amount_of (us_completion_tokens u) + amount_of (tk_completion_tokens saved)"
    using observed_exact [OF 2] by blast
  then have "ls = [] \<and> \<not> o0 \<and> i1 = i0 \<and> \<not> ov_prompt ?ov \<and>
      amount_of t1 = amount_of (us_prompt_tokens u) + amount_of (tk_prompt_tokens saved)"
    using observed_exact [OF 1] by blast
  then show ?thesis using e5 e4 e3 e2 b by (simp add: overflow_any_def)
qed

lemma sort_dedup_Nil [simp]: "sort_dedup xs = [] \<longleftrightarrow> xs = []"
  by (simp add: sort_dedup_def) (metis length_0_conv length_sort)

text \<open>Every token of a baseline is a token that was used or saved.\<close>

definition accounts :: "llm_optimization_tokens \<Rightarrow> usage \<Rightarrow> usage \<Rightarrow> bool" where
  "accounts saved e b \<longleftrightarrow>
     amount_of (us_prompt_tokens b) = amount_of (us_prompt_tokens e) + amount_of (tk_prompt_tokens saved) \<and>
     amount_of (us_completion_tokens b) = amount_of (us_completion_tokens e) + amount_of (tk_completion_tokens saved) \<and>
     amount_of (us_cache_read_tokens b) = amount_of (us_cache_read_tokens e) + amount_of (tk_cache_read_tokens saved) \<and>
     amount_of (us_cache_write_tokens b) = amount_of (us_cache_write_tokens e) + amount_of (tk_cache_write_tokens saved) \<and>
     amount_of (us_total_tokens b) = amount_of (us_total_tokens e) + amount_of (tk_total_tokens saved)"

lemma core_usage_noted:
  assumes "note_missing_core_usage u ls ov = (u', [], False)"
  shows "ls = [] \<and> \<not> ov \<and> us_prompt_tokens u' \<noteq> None \<and> us_completion_tokens u' \<noteq> None"
  using assms by (auto simp: note_missing_core_usage_def Let_def split: if_splits option.splits)

lemma usage_exact:
  assumes "derive_optimization_usage response saved totals ls = (ua, response', [])" and "ua_effective ua = Some e"
  shows "ls = [] \<and> \<not> ua_token_count_overflow ua \<and> \<not> overflow_any (ct_overflow totals) \<and>
     ua_baseline_derivation_incomplete ua = (ct_missing_total totals \<or> ct_inconsistent_total totals) \<and>
     us_prompt_tokens e \<noteq> None \<and> us_completion_tokens e \<noteq> None \<and>
     (\<exists>b. ua_baseline ua = Some b \<and> accounts saved e b)"
proof -
  let ?ov = "overflow_any (ct_overflow totals)"
  obtain u where u: "Option.bind response ar_usage = Some u"
    using assms by (cases "Option.bind response ar_usage")
      (auto simp: derive_optimization_usage_def Let_def split: prod.splits)
  obtain u' ls1 ov1 where n: "note_missing_core_usage u ls ?ov = (u', ls1, ov1)" by (metis prod_cases3)
  obtain b ls2 ov2 i2 where d: "derive_baseline_usage u' saved totals
      (ls1, ov1, ct_missing_total totals \<or> ct_inconsistent_total totals) = (b, ls2, ov2, i2)" by (metis prod_cases4)
  have r: "ua_effective ua = Some u'" "ua_baseline ua = Some b" "ua_token_count_overflow ua = ov2" "ls2 = []" "\<not> ov2"
    "ua_baseline_derivation_incomplete ua = i2"
    using assms(1) u n d by (auto simp: derive_optimization_usage_def Let_def split: if_splits)
  have b: "ls1 = [] \<and> \<not> ov1 \<and> \<not> ?ov \<and> i2 = (ct_missing_total totals \<or> ct_inconsistent_total totals) \<and> accounts saved u' b"
    using baseline_exact [OF d r(4,5)] unfolding accounts_def by blast
  then have "ls = [] \<and> us_prompt_tokens u' \<noteq> None \<and> us_completion_tokens u' \<noteq> None" using core_usage_noted n by auto
  then show ?thesis using b r assms(2) by simp
qed

lemma saved_costs:
  assumes "calculate_estimated_cost_saved (Some bc) (Some ac) ls = ((saved, currency), [])"
  shows "ls = [] \<and> eq_ignore_ascii_case (co_currency bc) (co_currency ac) \<and> currency = Some (co_currency bc) \<and>
     (\<exists>x y. total_or_component_sum bc = Some x \<and> total_or_component_sum ac = Some y \<and> saved = Some (f64_sub x y))"
proof -
  obtain x y where t: "total_or_component_sum bc = Some x" "total_or_component_sum ac = Some y"
    using assms by (cases "total_or_component_sum bc"; cases "total_or_component_sum ac")
      (auto simp: calculate_estimated_cost_saved_def Let_def split: if_splits)
  then show ?thesis using assms by (auto simp: calculate_estimated_cost_saved_def Let_def split: if_splits)
qed

lemma saved_costs_limitations:
  "calculate_estimated_cost_saved bc ac ls = ((saved, currency), []) \<Longrightarrow> ls = []"
  by (auto simp: calculate_estimated_cost_saved_def Let_def split: if_splits option.splits)

lemma no_total_limitation:
  assumes "an_limitations (analyze_contributions f) = []"
  shows "\<not> ct_missing_total (an_token_totals (analyze_contributions f)) \<and>
     \<not> ct_inconsistent_total (an_token_totals (analyze_contributions f))"
  using assms unfolding analyze_contributions_def Let_def by (auto split: if_splits)

text \<open>What the parts of a summary are when it has no limitation.\<close>

lemma complete_parts:
  assumes "summarize f response requested pricing = (Some s, response')" and "sm_status s = SummaryComplete"
  obtains ua :: usage_analysis and e :: usage where
    "an_limitations (analyze_contributions f) = []"
    "\<not> overflow_any (ct_overflow (an_token_totals (analyze_contributions f)))"
    "ua_effective ua = Some e" "sm_effective_usage s = Some (e\<lparr>us_cost := sm_actual_cost s\<rparr>)"
    "sm_baseline_usage s = ua_baseline ua"
    "\<exists>b. ua_baseline ua = Some b \<and> accounts (ct_values (an_token_totals (analyze_contributions f))) e b"
    "sm_tokens_saved s = ct_values (an_token_totals (analyze_contributions f))"
    "sm_effective_model s \<noteq> None" "sm_baseline_model s \<noteq> None"
    "\<exists>bc ac. sm_baseline_cost s = Some bc \<and> sm_actual_cost s = Some ac \<and>
       calculate_estimated_cost_saved (Some bc) (Some ac) [] = ((sm_estimated_cost_saved s, sm_currency s), [])"
    "sm_contributions s = fc_contributions f"
proof -
  define an where "an = analyze_contributions f"
  define em where "em = resolve_effective_model (an_contributed_effective_model an) response requested"
  define bm where "bm = (if an_use_effective_as_baseline an \<and> an_baseline_model an = None then em else an_baseline_model an)"
  obtain ua response1 ls1 where u: "derive_optimization_usage response (ct_values (an_token_totals an)) (an_token_totals an)
      (an_limitations an) = (ua, response1, ls1)" by (metis prod_cases3)
  define ov where "ov = (overflow_any (ct_overflow (an_token_totals an)) \<or> ua_token_count_overflow ua)"
  obtain pa eu response2 where p: "price_optimization_usage (ua_effective ua) response1 em bm (ua_baseline ua) ov
      (ua_baseline_derivation_incomplete ua) pricing = (pa, eu, response2)" by (metis prod_cases3)
  define ls2 where "ls2 = add_summary_limitations eu em bm (pa_baseline_cost pa) (pa_actual_cost pa) ov
      (ua_baseline_derivation_incomplete ua) (pa_complete_core_usage pa) ls1"
  obtain sv cu ls3 where c: "calculate_estimated_cost_saved (pa_baseline_cost pa) (pa_actual_cost pa) ls2 = ((sv, cu), ls3)"
    by (metis prod_cases3 prod.collapse)
  have s: "sm_limitations s = sort_dedup ls3" "sm_effective_usage s = eu" "sm_baseline_usage s = ua_baseline ua"
    "sm_tokens_saved s = ct_values (an_token_totals an)" "sm_effective_model s = em" "sm_baseline_model s = bm"
    "sm_baseline_cost s = pa_baseline_cost pa" "sm_actual_cost s = pa_actual_cost pa" "sm_estimated_cost_saved s = sv"
    "sm_currency s = cu" "sm_contributions s = fc_contributions f" "sm_status s = (if sort_dedup ls3 = [] then SummaryComplete else SummaryPartial)"
    using assms(1) u p c unfolding summarize_def Let_def an_def [symmetric] em_def [symmetric] bm_def [symmetric]
    by (auto simp: ov_def ls2_def split: if_splits)
  have l3: "ls3 = []" using s(12) assms(2) by (auto split: if_splits)
  then have l2: "ls2 = []" using c saved_costs_limitations by blast
  then have l: "ls1 = []" "eu \<noteq> None" "em \<noteq> None" "bm \<noteq> None" "pa_actual_cost pa \<noteq> None"
    by (auto simp: ls2_def add_summary_limitations_def split: if_splits)
  obtain e where e: "ua_effective ua = Some e" "eu = Some (e\<lparr>us_cost := pa_actual_cost pa\<rparr>)"
    using p l(2) by (auto simp: price_optimization_usage_def Let_def)
  note x = usage_exact [OF u [unfolded l(1)] e(1)]
  have "an_limitations an = []" using x by blast
  then have "\<not> ct_missing_total (an_token_totals an) \<and> \<not> ct_inconsistent_total (an_token_totals an)"
    unfolding an_def by (rule no_total_limitation)
  then have i: "\<not> ua_baseline_derivation_incomplete ua" "\<not> ov" using x by (auto simp: ov_def)
  have "pa_complete_core_usage pa" using p e(1) x by (auto simp: price_optimization_usage_def Let_def)
  then have "pa_baseline_cost pa \<noteq> None"
    using l2 l(4) i by (auto simp: ls2_def add_summary_limitations_def split: if_splits)
  then obtain bc ac where k: "pa_baseline_cost pa = Some bc" "pa_actual_cost pa = Some ac" using l(5) by blast
  show ?thesis
    by (rule that [of ua e]) (use x e s l k c l2 l3 in \<open>simp_all add: an_def\<close>)
qed

text \<open>
  C19. A summary that calls itself complete accounts for everything: every token of the baseline usage
  was used or is among the exact savings of the counted contributions, no count wrapped, at most one
  routing was applied, both models are known, and the cost saved is the difference of the totals of
  two costs in the same currency.
\<close>

theorem complete_summary_accounts:
  assumes "summarize f response requested pricing = (Some s, response')" and "sm_status s = SummaryComplete"
  shows "\<exists>e b. sm_effective_usage s = Some e \<and> sm_baseline_usage s = Some b \<and>
     (\<forall>(used, saved)\<in>{(us_prompt_tokens, tk_prompt_tokens), (us_completion_tokens, tk_completion_tokens),
         (us_cache_read_tokens, tk_cache_read_tokens), (us_cache_write_tokens, tk_cache_write_tokens),
         (us_total_tokens, contribution_total)}.
       amount_of (used b) = amount_of (used e) +
         sum_list (map (\<lambda>t. amount_of (saved t)) (counted_savings (fc_contributions f)))) \<and>
     length (applied_routing (fc_contributions f)) \<le> 1 \<and> fc_limitations f = [] \<and>
     sm_effective_model s \<noteq> None \<and> sm_baseline_model s \<noteq> None \<and>
     (\<exists>bc ac x y. sm_baseline_cost s = Some bc \<and> sm_actual_cost s = Some ac \<and> us_cost e = Some ac \<and>
       total_or_component_sum bc = Some x \<and> total_or_component_sum ac = Some y \<and>
       eq_ignore_ascii_case (co_currency bc) (co_currency ac) \<and>
       sm_estimated_cost_saved s = Some (f64_sub x y) \<and> sm_currency s = Some (co_currency bc))"
proof -
  let ?an = "analyze_contributions f"
  let ?ts = "counted_savings (fc_contributions f)"
  obtain ua :: usage_analysis and e :: usage where an: "an_limitations ?an = []" and ov: "\<not> overflow_any (ct_overflow (an_token_totals ?an))"
    and e: "sm_effective_usage s = Some (e\<lparr>us_cost := sm_actual_cost s\<rparr>)" "sm_baseline_usage s = ua_baseline ua"
    and b: "\<exists>b. ua_baseline ua = Some b \<and> accounts (ct_values (an_token_totals ?an)) e b"
    and m: "sm_effective_model s \<noteq> None" "sm_baseline_model s \<noteq> None"
    and c: "\<exists>bc ac. sm_baseline_cost s = Some bc \<and> sm_actual_cost s = Some ac \<and>
       calculate_estimated_cost_saved (Some bc) (Some ac) [] = ((sm_estimated_cost_saved s, sm_currency s), [])"
    using complete_parts [OF assms] by metis
  from b obtain b where b: "ua_baseline ua = Some b" "accounts (ct_values (an_token_totals ?an)) e b" by blast
  from c obtain bc ac where c: "sm_baseline_cost s = Some bc" "sm_actual_cost s = Some ac"
    "calculate_estimated_cost_saved (Some bc) (Some ac) [] = ((sm_estimated_cost_saved s, sm_currency s), [])" by blast
  have t: "exact_totals ?ts (an_token_totals ?an)" using exact_totals_fold by (simp add: analyze_contributions_def Let_def)
  have x: "exact_sum (map g ?ts) = (v, o') \<Longrightarrow> \<not> o' \<Longrightarrow> amount_of v = sum_list (map (\<lambda>t. amount_of (g t)) ?ts)" for g v o'
    using exact_sum_value [of "map g ?ts" v] by (simp add: comp_def)
  have "\<not> ov_total (ct_overflow (an_token_totals ?an))" using ov by (simp add: overflow_any_def)
  then have y: "exact_total ?ts = (v, o') \<Longrightarrow> \<not> o' \<Longrightarrow>
      amount_of v = sum_list (map (\<lambda>t. amount_of (contribution_total t)) ?ts)" for v o'
    using x [of contribution_total] by (auto simp: exact_total_def split: if_splits)
  have "accounts (ct_values (an_token_totals ?an)) (e\<lparr>us_cost := sm_actual_cost s\<rparr>) b"
    using b(2) by (simp add: accounts_def)
  then have "\<forall>(used, saved)\<in>{(us_prompt_tokens, tk_prompt_tokens), (us_completion_tokens, tk_completion_tokens),
         (us_cache_read_tokens, tk_cache_read_tokens), (us_cache_write_tokens, tk_cache_write_tokens),
         (us_total_tokens, contribution_total)}.
       amount_of (used b) = amount_of (used (e\<lparr>us_cost := sm_actual_cost s\<rparr>)) +
         sum_list (map (\<lambda>t. amount_of (saved t)) ?ts)"
    using t ov x [of _ _ False] y [of _ False] by (simp add: accounts_def exact_totals_def overflow_any_def)
  moreover have "length (applied_routing (fc_contributions f)) \<le> 1 \<and> fc_limitations f = []"
    using an by (auto simp: analyze_contributions_def Let_def split: if_splits)
  ultimately show ?thesis using e b(1) m c saved_costs [OF c(3)] by simp
qed

section \<open>A call whose prompt was compressed\<close>

definition compression :: llm_optimization_contribution where
  "compression = \<lparr>oc_id = Some 1, oc_sequence = Some 0, oc_producer = ''p'', oc_kind = ''input_compression'',
     oc_applied = True, oc_model_transition = None,
     oc_token_impact = Some \<lparr>ti_baseline = None, ti_effective = None,
       ti_saved = Some (tokens_default\<lparr>tk_prompt_tokens := Some 3\<rparr>), ti_quality = None, ti_estimation_method = None\<rparr>,
     oc_payload_schema = None, oc_payload = None, oc_extra = []\<rparr>"

definition compressed :: finished_contributions where
  "compressed = \<lparr>fc_contributions = [compression], fc_limitations = []\<rparr>"

definition compressed_response :: annotated_llm_response where
  "compressed_response = \<lparr>ar_id = None, ar_model = Some ''m'', ar_message = None, ar_tool_calls = None,
     ar_finish_reason = None, ar_usage = Some (demo_usage 7), ar_optimization_summary = None,
     ar_api_specific = None, ar_extra = []\<rparr>"

lemma demo_lookup: "estimate_for_model [demo_catalog] (optimization_model_new ''m'') u = pricing_estimate_cost (demo_price ''x'') u"
proof -
  have "name_parts ''m'' = [''m'']" by (simp add: name_parts_def demo_strings)
  then have "normalized_model_lookup_keys None ''m'' = [\<lparr>lk_provider = None, lk_model = ''m''\<rparr>]"
    by (simp add: normalized_model_lookup_keys_def demo_price_facts Let_def push_lookup_key_def)
  then show ?thesis
    by (simp add: estimate_for_model_def optimization_model_new_def estimate_cost_for_provider_def resolver_pricing_for_def
        catalog_pricing_for_def demo_catalog_def matches_model_def demo_price_facts)
qed

lemma demo_cost_known:
  assumes "us_completion_tokens u = Some 5" "us_cache_read_tokens u = None" "us_cache_write_tokens u = None"
  shows "\<exists>c t. pricing_estimate_cost (demo_price ''x'') u = Some c \<and> total_or_component_sum c = Some t \<and> co_currency c = ''USD''"
  using assms by (simp add: pricing_estimate_cost_def rates_for_usage_def demo_price_def demo_rates_def Let_def
      has_unpriced_nonzero_usage_def total_or_component_sum_def)

definition compressed_usage :: usage where
  "compressed_usage = (demo_usage 7)\<lparr>us_total_tokens := Some 12\<rparr>"

lemma compressed_analysis:
  "analyze_contributions compressed = \<lparr>an_limitations = [],
     an_token_totals = checked_totals_default\<lparr>ct_values := tokens_default\<lparr>tk_prompt_tokens := Some 3, tk_total_tokens := Some 3\<rparr>\<rparr>,
     an_baseline_model = None, an_contributed_effective_model = None, an_use_effective_as_baseline = True\<rparr>"
  by (simp add: analyze_contributions_def compressed_def compression_def applied_routing_def MODEL_ROUTING_def
      counted_savings_def saved_tokens_def map_filter_simps add_contribution_def checked_totals_default_def tokens_default_def
      checked_accumulate_def checked_option_sum_def checked_add_def total_is_inconsistent_def Let_def)

lemma compressed_derivation:
  "derive_optimization_usage (Some compressed_response) (tokens_default\<lparr>tk_prompt_tokens := Some 3, tk_total_tokens := Some 3\<rparr>)
     (checked_totals_default\<lparr>ct_values := v\<rparr>) [] =
   (\<lparr>ua_effective = Some compressed_usage,
      ua_baseline = Some (compressed_usage\<lparr>us_prompt_tokens := Some 10, us_total_tokens := Some 15\<rparr>),
      ua_token_count_overflow = False, ua_baseline_derivation_incomplete = False\<rparr>,
    Some (compressed_response\<lparr>ar_usage := Some compressed_usage\<rparr>), [])"
  by (simp add: derive_optimization_usage_def compressed_response_def compressed_usage_def demo_usage_def
      note_missing_core_usage_def checked_add_def checked_totals_default_def overflow_any_def derive_baseline_usage_def
      checked_add_observed_tokens_def tokens_default_def infer_response_total_def Let_def)

lemma compressed_complete:
  "\<exists>s. fst (summarize compressed (Some compressed_response) None [demo_catalog]) = Some s \<and> sm_status s = SummaryComplete"
proof -
  have ne: "fc_contributions compressed \<noteq> []" by (simp add: compressed_def)
  have em: "resolve_effective_model None (Some compressed_response) None = Some (optimization_model_new ''m'')"
    by (simp add: resolve_effective_model_def option_or_def compressed_response_def)
  let ?b = "compressed_usage\<lparr>us_prompt_tokens := Some 10, us_total_tokens := Some 15\<rparr>"
  obtain bc x where b: "pricing_estimate_cost (demo_price ''x'') ?b = Some bc" "total_or_component_sum bc = Some x"
    "co_currency bc = ''USD''"
    using demo_cost_known [of ?b] by (auto simp: compressed_usage_def demo_usage_def)
  obtain ac y where a: "pricing_estimate_cost (demo_price ''x'') compressed_usage = Some ac"
    "total_or_component_sum ac = Some y" "co_currency ac = ''USD''"
    using demo_cost_known [of compressed_usage] by (auto simp: compressed_usage_def demo_usage_def)
  have p: "price_optimization_usage (Some compressed_usage) r (Some (optimization_model_new ''m''))
      (Some (optimization_model_new ''m'')) (Some ?b) False False [demo_catalog] =
      (\<lparr>pa_baseline_cost = Some bc, pa_actual_cost = Some ac, pa_complete_core_usage = True\<rparr>,
       Some (compressed_usage\<lparr>us_cost := Some ac\<rparr>), map_option (set_response_cost (Some ac)) r)" for r
    using a(1) b(1) by (simp add: price_optimization_usage_def Let_def demo_lookup option_or_def)
      (simp add: compressed_usage_def demo_usage_def demo_lookup)
  have o: "\<not> overflow_any (ct_overflow checked_totals_default)"
    by (simp add: checked_totals_default_def overflow_any_def)
  show ?thesis
    by (simp add: summarize_def ne compressed_analysis em compressed_derivation o p add_summary_limitations_def
        calculate_estimated_cost_saved_def a b Let_def eq_ignore_ascii_case_def)
qed

theorem complete_summary_accounts_witness:
  "\<exists>s e b. fst (summarize compressed (Some compressed_response) None [demo_catalog]) = Some s \<and>
     sm_status s = SummaryComplete \<and> sm_effective_usage s = Some e \<and> sm_baseline_usage s = Some b \<and>
     amount_of (us_prompt_tokens b) = amount_of (us_prompt_tokens e) + 3"
proof -
  obtain s response' where s: "summarize compressed (Some compressed_response) None [demo_catalog] = (Some s, response')"
    "sm_status s = SummaryComplete" using compressed_complete by (metis prod.collapse)
  have "counted_savings (fc_contributions compressed) = [tokens_default\<lparr>tk_prompt_tokens := Some 3\<rparr>]"
    by (simp add: counted_savings_def compressed_def compression_def saved_tokens_def map_filter_simps MODEL_ROUTING_def)
  then show ?thesis using complete_summary_accounts [OF s] s by auto
qed

end
