(* ===== verification/Recorder_Properties.thy ===== *)
theory Recorder_Properties
  imports Optimization_Recorder
begin

text \<open>
  The recorder under concurrency. Any number of threads record evidence, finish the accounting, close
  it and move the delivery cursor; their critical sections interleave. Shown are the limits, that
  nothing accepted is lost or reported twice, and that a thread that records is never kept waiting.
\<close>

section \<open>Threads\<close>

text \<open>Where a thread is: outside, between two critical sections of \<^verbatim>\<open>record\<close>, or waiting in \<^verbatim>\<open>finish\<close>.\<close>

datatype position =
    Away
  | CheckSchema llm_optimization_contribution
  | NoteSchema
  | AskSequence llm_optimization_contribution
  | NoteLimit
  | Serialize llm_optimization_contribution "64 word"
  | Commit llm_optimization_contribution nat "64 word"
  | GiveBack bool
  | AwaitSettled

text \<open>The next critical section of \<^verbatim>\<open>record\<close>, or the next thing it does without the lock.\<close>

fun record_step ::
    "serializer \<Rightarrow> uuid \<Rightarrow> timestamp \<Rightarrow> position \<Rightarrow> recorder \<Rightarrow> position \<times> recorder" where
  "record_step to_writer fresh_id now (CheckSchema c) l =
     (if payload_without_schema c then NoteSchema else AskSequence (c\<lparr>oc_id := Some fresh_id\<rparr>), l)"
| "record_step to_writer fresh_id now NoteSchema l = (GiveBack False, note_invalid_payload_schema l)"
| "record_step to_writer fresh_id now (AskSequence c) l = (case read_next_sequence l of
       NoSequence \<Rightarrow> (GiveBack False, l)
     | RecorderFull \<Rightarrow> (NoteLimit, l)
     | NextSequence q \<Rightarrow> (Serialize (c\<lparr>oc_sequence := Some q\<rparr>) q, l))"
| "record_step to_writer fresh_id now NoteLimit l = (GiveBack False, note_contribution_limit_exceeded l)"
| "record_step to_writer fresh_id now (Serialize c q) l =
     (case bounded_json_size to_writer c MAX_LLM_OPTIMIZATION_CONTRIBUTION_BYTES of
        Inr n \<Rightarrow> (Commit c n q, l)
      | Inl LimitExceeded \<Rightarrow> (NoteLimit, l)
      | Inl Serialization \<Rightarrow> (NoteSchema, l))"
| "record_step to_writer fresh_id now (Commit c n q) l = (case commit_contribution now c n q l of
       (Committed, l') \<Rightarrow> (GiveBack True, l')
     | (Retry, l') \<Rightarrow> (AskSequence c, l')
     | (Rejected, l') \<Rightarrow> (GiveBack False, l'))"
| "record_step to_writer fresh_id now (GiveBack b) l = (Away, drop_attempt l)"
| "record_step to_writer fresh_id now Away l = (Away, l)"
| "record_step to_writer fresh_id now AwaitSettled l = (AwaitSettled, l)"

definition inside :: "position \<Rightarrow> bool" where
  "inside p \<longleftrightarrow> p \<noteq> Away \<and> p \<noteq> AwaitSettled"

text \<open>
  Beside the recorder and the positions of the threads, the system remembers which contributions were
  accepted, in this order, and what the calls of \<^verbatim>\<open>finish\<close> returned.
\<close>

record accounting =
  os_recorder :: recorder
  os_threads :: "nat \<Rightarrow> position"
  os_accepted :: "llm_optimization_contribution list"
  os_finished :: "finished_contributions list"

definition accounting_start :: accounting where
  "accounting_start = \<lparr>os_recorder = recorder_default, os_threads = (\<lambda>_. Away), os_accepted = [], os_finished = []\<rparr>"

definition accepted_by :: "position \<Rightarrow> position \<Rightarrow> llm_optimization_contribution list" where
  "accepted_by p p' = (case (p, p') of (Commit c n q, GiveBack True) \<Rightarrow> [c] | _ \<Rightarrow> [])"

inductive accounting_step :: "serializer \<Rightarrow> nat \<Rightarrow> accounting \<Rightarrow> accounting \<Rightarrow> bool" for to_writer where
  begin_record:
    "os_threads s t = Away \<Longrightarrow> reserve_record_attempt (os_recorder s) = (b, l) \<Longrightarrow>
     accounting_step to_writer t s
       (s\<lparr>os_recorder := l, os_threads := (os_threads s)(t := if b then CheckSchema c else Away)\<rparr>)"
| continue_record:
    "inside (os_threads s t) \<Longrightarrow> record_step to_writer fresh_id now (os_threads s t) (os_recorder s) = (p, l) \<Longrightarrow>
     accounting_step to_writer t s
       (s\<lparr>os_recorder := l, os_threads := (os_threads s)(t := p),
          os_accepted := os_accepted s @ accepted_by (os_threads s t) p\<rparr>)"
| begin_finish:
    "os_threads s t = Away \<Longrightarrow> finish_enter (os_recorder s) = (r, l) \<Longrightarrow>
     accounting_step to_writer t s
       (s\<lparr>os_recorder := l, os_threads := (os_threads s)(t := if r = None then AwaitSettled else Away),
          os_finished := os_finished s @ (case r of None \<Rightarrow> [] | Some f \<Rightarrow> [f])\<rparr>)"
| wake_finish:
    "os_threads s t = AwaitSettled \<Longrightarrow> finish_wake (os_recorder s) = (r, l) \<Longrightarrow>
     accounting_step to_writer t s
       (s\<lparr>os_recorder := l, os_threads := (os_threads s)(t := if r = None then AwaitSettled else Away),
          os_finished := os_finished s @ (case r of None \<Rightarrow> [] | Some f \<Rightarrow> [f])\<rparr>)"
| close:
    "os_threads s t = Away \<Longrightarrow>
     accounting_step to_writer t s (s\<lparr>os_recorder := snd (close_for_finalization m (os_recorder s))\<rparr>)"
| deliver:
    "os_threads s t = Away \<Longrightarrow> accounting_step to_writer t s (s\<lparr>os_recorder := mark_emitted n (os_recorder s)\<rparr>)"

inductive accounting_reachable :: "serializer \<Rightarrow> accounting \<Rightarrow> bool" for to_writer where
  start: "accounting_reachable to_writer accounting_start"
| step: "accounting_reachable to_writer s \<Longrightarrow> accounting_step to_writer t s s' \<Longrightarrow> accounting_reachable to_writer s'"

inductive_cases accounting_stepE: "accounting_step to_writer t s s'"

section \<open>Invariant\<close>

abbreviation fits :: "serializer \<Rightarrow> llm_optimization_contribution \<Rightarrow> nat \<Rightarrow> bool" where
  "fits to_writer c n \<equiv> bounded_json_size to_writer c MAX_LLM_OPTIMIZATION_CONTRIBUTION_BYTES = Inr n"

definition size_of :: "serializer \<Rightarrow> llm_optimization_contribution \<Rightarrow> nat" where
  "size_of to_writer c = (case bounded_json_size to_writer c MAX_LLM_OPTIMIZATION_CONTRIBUTION_BYTES of
     Inr n \<Rightarrow> n | Inl _ \<Rightarrow> 0)"

text \<open>What a thread may rely on; \<open>k\<close> is the number of contributions held by the recorder.\<close>

fun position_ok :: "serializer \<Rightarrow> nat \<Rightarrow> position \<Rightarrow> bool" where
  "position_ok to_writer k (AskSequence c) \<longleftrightarrow> \<not> payload_without_schema c"
| "position_ok to_writer k (Serialize c q) \<longleftrightarrow> \<not> payload_without_schema c \<and> oc_sequence c = Some q \<and>
     unat q < MAX_LLM_OPTIMIZATION_CONTRIBUTIONS \<and> unat q \<le> k"
| "position_ok to_writer k (Commit c n q) \<longleftrightarrow> \<not> payload_without_schema c \<and> oc_sequence c = Some q \<and>
     unat q < MAX_LLM_OPTIMIZATION_CONTRIBUTIONS \<and> unat q \<le> k \<and> fits to_writer c n"
| "position_ok to_writer k _ \<longleftrightarrow> True"

definition accepted_ok :: "serializer \<Rightarrow> llm_optimization_contribution list \<Rightarrow> bool" where
  "accepted_ok to_writer cs \<longleftrightarrow>
     length cs \<le> MAX_LLM_OPTIMIZATION_CONTRIBUTIONS \<and>
     map oc_sequence cs = map (\<lambda>k. Some (of_nat k)) [0..<length cs] \<and>
     (\<forall>c\<in>set cs. \<not> payload_without_schema c \<and> (\<exists>n. fits to_writer c n)) \<and>
     sum_list (map (size_of to_writer) cs) \<le> MAX_LLM_OPTIMIZATION_TOTAL_CONTRIBUTION_BYTES"

definition state_ok :: "serializer \<Rightarrow> accumulator_state \<Rightarrow> accounting \<Rightarrow> bool" where
  "state_ok to_writer a s \<longleftrightarrow>
     finite {t. inside (os_threads s t)} \<and> ac_in_flight a = card {t. inside (os_threads s t)} \<and>
     length (ac_recorded_at a) = length (ac_contributions a) \<and>
     ac_attempted a \<le> MAX_LLM_OPTIMIZATION_CONTRIBUTION_ATTEMPTS \<and>
     (\<forall>t. os_threads s t = AwaitSettled \<longrightarrow> ac_closed a) \<and>
     (if ac_finished a
      then ac_closed a \<and> ac_in_flight a = 0 \<and> ac_contributions a = [] \<and>
        concat (map fc_contributions (os_finished s)) = os_accepted s
      else os_finished s = [] \<and> ac_contributions a = os_accepted s \<and> ac_emitted a \<le> length (ac_contributions a) \<and>
        ac_total_bytes a = sum_list (map (size_of to_writer) (os_accepted s)))"

definition accounting_ok :: "serializer \<Rightarrow> accounting \<Rightarrow> bool" where
  "accounting_ok to_writer s \<longleftrightarrow> accepted_ok to_writer (os_accepted s) \<and>
     (\<exists>a. os_recorder s = Healthy a \<and> state_ok to_writer a s \<and>
        (\<forall>t. position_ok to_writer (length (ac_contributions a)) (os_threads s t)))"

lemma accounting_okI:
  assumes "os_recorder s = Healthy a" "state_ok to_writer a s" "accepted_ok to_writer (os_accepted s)"
    "\<And>t. position_ok to_writer (length (ac_contributions a)) (os_threads s t)"
  shows "accounting_ok to_writer s"
  using assms by (auto simp: accounting_ok_def)

lemma accounting_okE:
  assumes "accounting_ok to_writer s"
  obtains a where "os_recorder s = Healthy a" "state_ok to_writer a s" "accepted_ok to_writer (os_accepted s)"
    "\<forall>t. position_ok to_writer (length (ac_contributions a)) (os_threads s t)"
  using assms by (auto simp: accounting_ok_def)

lemma inside_simps [simp]:
  "\<not> inside Away" "\<not> inside AwaitSettled" "inside (CheckSchema c)" "inside NoteSchema" "inside (AskSequence c)"
  "inside NoteLimit" "inside (Serialize c q)" "inside (Commit c n q)" "inside (GiveBack b)"
  by (simp_all add: inside_def)

lemma position_ok_mono: "position_ok to_writer k p \<Longrightarrow> k \<le> k' \<Longrightarrow> position_ok to_writer k' p"
  by (cases p) auto

lemma position_ok_outside: "\<not> inside p \<Longrightarrow> position_ok to_writer k p"
  by (cases p) auto

lemma same_inside: "inside p = inside (th t) \<Longrightarrow> {t'. inside ((th(t := p)) t')} = {t'. inside (th t')}"
  by auto

lemma enter_inside: "inside p \<Longrightarrow> {t'. inside ((th(t := p)) t')} = insert t {t'. inside (th t')}"
  by auto

lemma leave_inside: "\<not> inside p \<Longrightarrow> {t'. inside ((th(t := p)) t')} = {t'. inside (th t')} - {t}"
  by auto

lemma inside_unfinished:
  assumes "state_ok to_writer a s" "inside (os_threads s t)"
  shows "\<not> ac_finished a" "ac_in_flight a > 0"
proof -
  have "finite {t. inside (os_threads s t)}" "t \<in> {t. inside (os_threads s t)}"
    using assms by (simp_all add: state_ok_def)
  then have "card {t. inside (os_threads s t)} > 0" by (auto simp: card_gt_0_iff)
  then show "\<not> ac_finished a" "ac_in_flight a > 0" using assms by (auto simp: state_ok_def split: if_splits)
qed

lemma fits_size: "fits to_writer c n \<Longrightarrow> size_of to_writer c = n"
  by (simp add: size_of_def)

lemma counting_write_Some: "counting_write limit k ws = Some n \<Longrightarrow> n = k + sum_list ws"
  by (induction limit k ws rule: counting_write.induct) (auto split: if_splits)

lemma counting_write_limit: "counting_write limit k ws = Some n \<Longrightarrow> limit < USIZE_MAX \<Longrightarrow> k \<le> limit \<Longrightarrow> n \<le> limit"
  by (induction limit k ws rule: counting_write.induct) (auto split: if_splits simp: min_def)

lemma fits_sum:
  assumes "fits to_writer c n"
  shows "snd (to_writer c) \<and> n = sum_list (fst (to_writer c)) \<and> n \<le> MAX_LLM_OPTIMIZATION_CONTRIBUTION_BYTES"
proof -
  from assms have "snd (to_writer c)" and w: "counting_write MAX_LLM_OPTIMIZATION_CONTRIBUTION_BYTES 0 (fst (to_writer c)) = Some n"
    by (auto simp: bounded_json_size_def split: prod.splits option.splits if_splits)
  moreover have "n \<le> MAX_LLM_OPTIMIZATION_CONTRIBUTION_BYTES"
    by (rule counting_write_limit [OF w]) (simp_all add: optimization_limits USIZE_MAX_def)
  ultimately show ?thesis using counting_write_Some [OF w] by simp
qed

lemma accepted_ok_snoc:
  assumes "accepted_ok to_writer cs" "\<not> payload_without_schema c" "oc_sequence c = Some (of_nat (length cs))"
    "length cs < MAX_LLM_OPTIMIZATION_CONTRIBUTIONS" "fits to_writer c n"
    "sum_list (map (size_of to_writer) cs) + n \<le> MAX_LLM_OPTIMIZATION_TOTAL_CONTRIBUTION_BYTES"
  shows "accepted_ok to_writer (cs @ [c])"
  using assms fits_size [OF assms(5)] by (auto simp: accepted_ok_def)

section \<open>Every step keeps the invariant\<close>

lemma ok_begin_record:
  assumes "accounting_ok to_writer s" "os_threads s t = Away" "reserve_record_attempt (os_recorder s) = (b, l)"
  shows "accounting_ok to_writer
    (s\<lparr>os_recorder := l, os_threads := (os_threads s)(t := if b then CheckSchema c else Away)\<rparr>)"
proof -
  from assms(1) obtain a where a: "os_recorder s = Healthy a" "state_ok to_writer a s"
      "\<forall>t. position_ok to_writer (length (ac_contributions a)) (os_threads s t)"
    and acc: "accepted_ok to_writer (os_accepted s)" by (auto simp: accounting_ok_def)
  have same: "(os_threads s)(t := Away) = os_threads s" using assms(2) by auto
  consider "ac_closed a" | "\<not> ac_closed a" "ac_attempted a \<ge> MAX_LLM_OPTIMIZATION_CONTRIBUTION_ATTEMPTS"
    | "\<not> ac_closed a" "ac_attempted a < MAX_LLM_OPTIMIZATION_CONTRIBUTION_ATTEMPTS" by linarith
  then show ?thesis
  proof cases
    case 1
    then have "l = os_recorder s" "\<not> b" using assms(3) a by (auto simp: reserve_record_attempt_def)
    then show ?thesis using assms(1) same by simp
  next
    case 2
    then have "l = Healthy (seal_for_contribution_limit a)" "\<not> b" using assms(3) a by (auto simp: reserve_record_attempt_def)
    then show ?thesis using a acc same by (auto simp: accounting_ok_def state_ok_def seal_for_contribution_limit_def)
  next
    case 3
    then have l: "l = Healthy (a\<lparr>ac_attempted := ac_attempted a + 1, ac_in_flight := ac_in_flight a + 1\<rparr>)" "b"
      using assms(3) a by (auto simp: reserve_record_attempt_def)
    have "t \<notin> {t. inside (os_threads s t)}" using assms(2) by simp
    then show ?thesis using a acc 3 l enter_inside [of "CheckSchema c" "os_threads s" t]
      by (auto simp: accounting_ok_def state_ok_def)
  qed
qed

lemma ok_continue:
  assumes "accounting_ok to_writer s" "inside (os_threads s t)"
    "record_step to_writer fresh_id now (os_threads s t) (os_recorder s) = (p, l)"
  shows "accounting_ok to_writer (s\<lparr>os_recorder := l, os_threads := (os_threads s)(t := p),
      os_accepted := os_accepted s @ accepted_by (os_threads s t) p\<rparr>)"
proof -
  from assms(1) obtain a where a: "os_recorder s = Healthy a" "state_ok to_writer a s"
      "\<forall>t. position_ok to_writer (length (ac_contributions a)) (os_threads s t)"
    and acc: "accepted_ok to_writer (os_accepted s)" by (auto simp: accounting_ok_def)
  note u = inside_unfinished [OF a(2) assms(2)]
  have pt: "position_ok to_writer (length (ac_contributions a)) (os_threads s t)" using a(3) by blast
  have quiet: ?thesis if "inside p" "accepted_by (os_threads s t) p = []" "l = Healthy a'"
      "position_ok to_writer (length (ac_contributions a)) p"
      "a' \<in> {a, a\<lparr>ac_invalid_payload_schema := True\<rparr>, seal_for_contribution_limit a}" for a'
  proof -
    have "state_ok to_writer a' (s\<lparr>os_recorder := l, os_threads := (os_threads s)(t := p),
        os_accepted := os_accepted s @ accepted_by (os_threads s t) p\<rparr>)"
      using a(2) that(1,2,5) same_inside [of p "os_threads s" t] assms(2) u
      by (auto simp: state_ok_def seal_for_contribution_limit_def)
    moreover have "ac_contributions a' = ac_contributions a" using that(5) by (auto simp: seal_for_contribution_limit_def)
    ultimately show ?thesis using that acc a(3) by (auto simp: accounting_ok_def)
  qed
  note step = assms(3) [unfolded a(1)]
  show ?thesis
  proof (cases "os_threads s t")
    case (CheckSchema c)
    then have "l = Healthy a" "p = NoteSchema \<or> p = AskSequence (c\<lparr>oc_id := Some fresh_id\<rparr>) \<and> \<not> payload_without_schema c"
      using step by (auto split: if_splits)
    then show ?thesis using CheckSchema by (intro quiet [of a]) (auto simp: accepted_by_def payload_without_schema_def)
  next
    case NoteSchema
    then have "p = GiveBack False" "l = Healthy (a\<lparr>ac_invalid_payload_schema := True\<rparr>)"
      using step u by (auto simp: note_invalid_payload_schema_def)
    then show ?thesis using NoteSchema
      by (intro quiet [of "a\<lparr>ac_invalid_payload_schema := True\<rparr>"]) (auto simp: accepted_by_def)
  next
    case NoteLimit
    then have "p = GiveBack False" "l = Healthy (seal_for_contribution_limit a)"
      using step u by (auto simp: note_contribution_limit_exceeded_def)
    then show ?thesis using NoteLimit by (intro quiet [of "seal_for_contribution_limit a"]) (auto simp: accepted_by_def)
  next
    case (AskSequence c)
    let ?k = "length (ac_contributions a)"
    have "l = Healthy a" "p \<in> {GiveBack False, NoteLimit} \<or>
        p = Serialize (c\<lparr>oc_sequence := Some (of_nat ?k)\<rparr>) (of_nat ?k) \<and> ?k < MAX_LLM_OPTIMIZATION_CONTRIBUTIONS"
      using step AskSequence by (auto simp: read_next_sequence_def split: if_splits)
    moreover have "?k < MAX_LLM_OPTIMIZATION_CONTRIBUTIONS \<Longrightarrow> unat (of_nat ?k :: 64 word) = ?k"
      by (simp add: unat_of_nat take_bit_nat_eq_self optimization_limits)
    ultimately show ?thesis using AskSequence pt
      by (intro quiet [of a]) (auto simp: accepted_by_def payload_without_schema_def)
  next
    case (Serialize c q)
    then have "l = Healthy a" "p \<in> {NoteLimit, NoteSchema} \<or> (\<exists>n. p = Commit c n q \<and> fits to_writer c n)"
      using step by (auto split: sum.splits serialized_size_error.splits)
    then show ?thesis using Serialize pt by (intro quiet [of a]) (auto simp: accepted_by_def)
  next
    case (Commit c n q)
    let ?a = "a\<lparr>ac_total_bytes := ac_total_bytes a + n, ac_contributions := ac_contributions a @ [c],
        ac_recorded_at := ac_recorded_at a @ [now]\<rparr>"
    have "p \<in> {GiveBack False, AskSequence c} \<and> l \<in> {Healthy a, Healthy (seal_for_contribution_limit a)} \<or>
        p = GiveBack True \<and> l = Healthy ?a \<and> of_nat (length (ac_contributions a)) = q \<and>
        ac_total_bytes a + n \<le> MAX_LLM_OPTIMIZATION_TOTAL_CONTRIBUTION_BYTES"
      using step Commit by (auto simp: commit_contribution_def split: if_splits)
    then show ?thesis
    proof
      assume "p \<in> {GiveBack False, AskSequence c} \<and> l \<in> {Healthy a, Healthy (seal_for_contribution_limit a)}"
      then obtain a' where "p \<in> {GiveBack False, AskSequence c}" "l = Healthy a'" "a' \<in> {a, seal_for_contribution_limit a}"
        by blast
      then show ?thesis using Commit pt by (intro quiet [of a']) (auto simp: accepted_by_def)
    next
      assume c: "p = GiveBack True \<and> l = Healthy ?a \<and> of_nat (length (ac_contributions a)) = q \<and>
        ac_total_bytes a + n \<le> MAX_LLM_OPTIMIZATION_TOTAL_CONTRIBUTION_BYTES"
      have k: "ac_contributions a = os_accepted s" "ac_total_bytes a = sum_list (map (size_of to_writer) (os_accepted s))"
        using a(2) u by (simp_all add: state_ok_def)
      have "length (os_accepted s) \<le> MAX_LLM_OPTIMIZATION_CONTRIBUTIONS" using acc by (simp add: accepted_ok_def)
      then have "unat q = length (os_accepted s)"
        using c k by (auto simp: unat_of_nat take_bit_nat_eq_self optimization_limits)
      then have acc': "accepted_ok to_writer (os_accepted s @ [c])"
        using acc pt Commit c k by (intro accepted_ok_snoc [where n = n]) auto
      have "state_ok to_writer ?a (s\<lparr>os_recorder := l, os_threads := (os_threads s)(t := p),
          os_accepted := os_accepted s @ [c]\<rparr>)"
        using a(2) u c k same_inside [of p "os_threads s" t] assms(2) pt Commit by (auto simp: state_ok_def fits_size)
      moreover have "position_ok to_writer (length (ac_contributions ?a)) (((os_threads s)(t := p)) t')" for t'
        using a(3) c by (auto intro: position_ok_mono)
      ultimately show ?thesis using acc' c Commit by (auto simp: accounting_ok_def accepted_by_def)
    qed
  next
    case (GiveBack b)
    then have p: "p = Away" "l = Healthy (a\<lparr>ac_in_flight := ac_in_flight a - 1\<rparr>)" using step by (simp_all add: drop_attempt_def)
    have "card {t'. inside (((os_threads s)(t := p)) t')} = card {t'. inside (os_threads s t')} - 1"
      using leave_inside [of p "os_threads s" t] a(2) assms(2) p by (simp add: state_ok_def)
    then have "state_ok to_writer (a\<lparr>ac_in_flight := ac_in_flight a - 1\<rparr>) (s\<lparr>os_recorder := l, os_threads := (os_threads s)(t := p)\<rparr>)"
      using a(2) u leave_inside [of p "os_threads s" t] p(1) unfolding state_ok_def
      by (simp only: accumulator_state.simps accounting.simps fun_upd_apply if_False finite_Diff, simp, blast)
    then show ?thesis using p a acc GiveBack
      by (intro accounting_okI [of _ "a\<lparr>ac_in_flight := ac_in_flight a - 1\<rparr>"]) (auto simp: accepted_by_def)
  qed (use assms(2) in auto)
qed

lemma settle_cases:
  assumes "settle a = (r, a')"
  shows "(ac_in_flight a > 0 \<and> r = None \<and> a' = a) \<or>
    (ac_in_flight a = 0 \<and> (\<exists>f. r = Some f \<and> take_contributions a = (f, a')))"
  using assms by (auto simp: settle_def split: if_splits prod.splits)

lemma ok_finish:
  assumes ok: "accounting_ok to_writer s" and out: "\<not> inside (os_threads s t)"
    and step: "finish_enter (os_recorder s) = (r, l) \<or> finish_wake (os_recorder s) = (r, l) \<and> os_threads s t = AwaitSettled"
  shows "accounting_ok to_writer
    (s\<lparr>os_recorder := l, os_threads := (os_threads s)(t := if r = None then AwaitSettled else Away),
       os_finished := os_finished s @ (case r of None \<Rightarrow> [] | Some f \<Rightarrow> [f])\<rparr>)"
    (is "accounting_ok to_writer ?s")
proof -
  from ok obtain a where a: "os_recorder s = Healthy a" "state_ok to_writer a s"
      "\<forall>t. position_ok to_writer (length (ac_contributions a)) (os_threads s t)"
    and acc: "accepted_ok to_writer (os_accepted s)" by (auto simp: accounting_ok_def)
  have th: "{t'. inside (os_threads ?s t')} = {t'. inside (os_threads s t')}"
    using out by (auto simp: leave_inside)
  show ?thesis
  proof (cases "ac_finished a")
    case True
    then have "r = Some nothing_finished" "l = Healthy a" using step a(1) by (auto simp: finish_enter_def finish_wake_def)
    then show ?thesis using a acc True th
      by (auto simp: accounting_ok_def state_ok_def nothing_finished_def)
  next
    case False
    let ?a = "a\<lparr>ac_closed := True\<rparr>"
    have "os_threads s t = AwaitSettled \<Longrightarrow> ?a = a" using a(2) by (cases a) (auto simp: state_ok_def)
    then obtain a' where a': "settle ?a = (r, a')" "l = Healthy a'"
      using step a(1) False by (auto simp: finish_enter_def finish_wake_def split: prod.splits)
    from settle_cases [OF a'(1)] show ?thesis
    proof (elim disjE conjE exE)
      assume "r = None" "a' = ?a"
      then show ?thesis using a(2,3) acc th a'(2) False by (auto simp: accounting_ok_def state_ok_def)
    next
      fix f
      assume f: "ac_in_flight ?a = 0" "r = Some f" "take_contributions ?a = (f, a')"
      then have "{t. inside (os_threads s t)} = {}" using a(2) by (auto simp: state_ok_def)
      then have n: "\<not> inside (os_threads s t')" for t' by blast
      have "state_ok to_writer a' ?s" using a(2) f th False by (auto simp: state_ok_def take_contributions_def)
      moreover have "position_ok to_writer (length (ac_contributions a')) (os_threads ?s t')" for t'
        using n [of t'] by (intro position_ok_outside) auto
      ultimately show ?thesis using acc a'(2) by (auto simp: accounting_ok_def)
    qed
  qed
qed

lemma ok_close:
  assumes "accounting_ok to_writer s"
  shows "accounting_ok to_writer (s\<lparr>os_recorder := snd (close_for_finalization m (os_recorder s))\<rparr>)"
proof -
  from assms obtain a where a: "os_recorder s = Healthy a" "state_ok to_writer a s" "accepted_ok to_writer (os_accepted s)"
    "\<forall>t. position_ok to_writer (length (ac_contributions a)) (os_threads s t)" by (rule accounting_okE)
  obtain ls b where c: "snd (close_for_finalization m (os_recorder s)) = Healthy (a\<lparr>ac_limitations := ls, ac_closed := b\<rparr>)"
    "ac_closed a \<longrightarrow> b"
  proof (cases "ac_finished a")
    case True
    then show ?thesis using that [of "ac_closed a" "ac_limitations a"] a(1) by (simp add: close_for_finalization_def)
  next
    case False
    then show ?thesis using that [of True] a(1) by (simp add: close_for_finalization_def)
  qed
  have "state_ok to_writer (a\<lparr>ac_limitations := ls, ac_closed := b\<rparr>)
      (s\<lparr>os_recorder := snd (close_for_finalization m (os_recorder s))\<rparr>)"
    using a(2) c(2) by (auto simp: state_ok_def split: if_splits)
  then show ?thesis using a c by (intro accounting_okI [of _ "a\<lparr>ac_limitations := ls, ac_closed := b\<rparr>"]) simp_all
qed

lemma ok_deliver:
  assumes "accounting_ok to_writer s"
  shows "accounting_ok to_writer (s\<lparr>os_recorder := mark_emitted n (os_recorder s)\<rparr>)"
proof -
  from assms obtain a where a: "os_recorder s = Healthy a" "state_ok to_writer a s" "accepted_ok to_writer (os_accepted s)"
    "\<forall>t. position_ok to_writer (length (ac_contributions a)) (os_threads s t)" by (rule accounting_okE)
  let ?a = "a\<lparr>ac_emitted := min (min (ac_emitted a + n) USIZE_MAX) (length (ac_contributions a))\<rparr>"
  have "state_ok to_writer ?a (s\<lparr>os_recorder := Healthy ?a\<rparr>)"
    using a(2) by (auto simp: state_ok_def split: if_splits)
  then show ?thesis using a by (intro accounting_okI [of _ ?a]) (simp_all add: mark_emitted_def)
qed

lemma ok_start: "accounting_ok to_writer accounting_start"
  by (simp add: accounting_ok_def accounting_start_def recorder_default_def state_ok_def accumulator_default_def accepted_ok_def)

lemma ok_step: "accounting_step to_writer t s s' \<Longrightarrow> accounting_ok to_writer s \<Longrightarrow> accounting_ok to_writer s'"
proof (induction rule: accounting_step.induct)
  case (begin_finish s t r l)
  then show ?case by (intro ok_finish) auto
next
  case (wake_finish s t r l)
  then show ?case by (intro ok_finish) auto
qed (simp_all add: ok_begin_record ok_continue ok_close ok_deliver)

lemma accounting_reachable_ok: "accounting_reachable to_writer s \<Longrightarrow> accounting_ok to_writer s"
  by (induction rule: accounting_reachable.induct) (auto intro: ok_start ok_step)

section \<open>What holds in every reachable state\<close>

text \<open>
  C25. Whatever threads record, finish, close and deliver at the same time: the recorder is never
  poisoned; at most 64 contributions are accepted, numbered from zero without a gap in the order of
  acceptance, each with a schema for its payload and of at most 16384 bytes, all together of at most
  262144 bytes; until one call of finish has returned the recorder holds exactly the accepted
  contributions, afterwards the calls of finish together have returned exactly these, none of them
  twice; and reading the part that is not delivered yet does not panic.
\<close>

theorem accepted_never_lost:
  assumes "accounting_reachable to_writer s"
  shows "\<exists>a. os_recorder s = Healthy a \<and>
     length (os_accepted s) \<le> 64 \<and>
     map oc_sequence (os_accepted s) = map (\<lambda>k. Some (of_nat k)) [0..<length (os_accepted s)] \<and>
     (\<forall>c\<in>set (os_accepted s). (oc_payload c \<noteq> None \<longrightarrow> oc_payload_schema c \<noteq> None) \<and>
        snd (to_writer c) \<and> sum_list (fst (to_writer c)) \<le> 16384) \<and>
     sum_list (map (\<lambda>c. sum_list (fst (to_writer c))) (os_accepted s)) \<le> 262144 \<and>
     (if ac_finished a then concat (map fc_contributions (os_finished s)) = os_accepted s
      else os_finished s = [] \<and> ac_contributions a = os_accepted s) \<and>
     unemitted_with_timestamps (os_recorder s) \<noteq> None"
proof -
  from accounting_reachable_ok [OF assms] obtain a where a: "os_recorder s = Healthy a" "state_ok to_writer a s"
    "accepted_ok to_writer (os_accepted s)" by (rule accounting_okE)
  have size: "snd (to_writer c) \<and> sum_list (fst (to_writer c)) \<le> 16384 \<and> size_of to_writer c = sum_list (fst (to_writer c))"
    if "c \<in> set (os_accepted s)" for c
    using that a(3) fits_sum by (fastforce simp: accepted_ok_def fits_size optimization_limits)
  then have "map (size_of to_writer) (os_accepted s) = map (\<lambda>c. sum_list (fst (to_writer c))) (os_accepted s)" by simp
  moreover have "sum_list (map (size_of to_writer) (os_accepted s)) \<le> 262144"
    using a(3) by (simp add: accepted_ok_def optimization_limits)
  ultimately have "sum_list (map (\<lambda>c. sum_list (fst (to_writer c))) (os_accepted s)) \<le> 262144" by metis
  moreover have "unemitted_with_timestamps (os_recorder s) \<noteq> None"
    using a(1,2) by (auto simp: unemitted_with_timestamps_def state_ok_def Let_def)
  moreover have "if ac_finished a then concat (map fc_contributions (os_finished s)) = os_accepted s
      else os_finished s = [] \<and> ac_contributions a = os_accepted s" using a(2) by (simp add: state_ok_def)
  ultimately show ?thesis using a(1,3) size
    by (intro exI [of _ a]) (auto simp: accepted_ok_def optimization_limits payload_without_schema_def)
qed

text \<open>One thread records an empty contribution.\<close>

definition plain_contribution :: llm_optimization_contribution where
  "plain_contribution = \<lparr>oc_id = None, oc_sequence = None, oc_producer = ''p'', oc_kind = ''k'', oc_applied = True,
     oc_model_transition = None, oc_token_impact = None, oc_payload_schema = None, oc_payload = None, oc_extra = []\<rparr>"

definition ten_bytes :: serializer where
  "ten_bytes c = ([4, 6], True)"

definition recorded_once :: accounting where
  "recorded_once = \<lparr>os_recorder = Healthy (accumulator_default\<lparr>ac_attempted := 1, ac_in_flight := 1, ac_total_bytes := 10,
       ac_contributions := [plain_contribution\<lparr>oc_id := Some 7, oc_sequence := Some 0\<rparr>], ac_recorded_at := [3]\<rparr>),
     os_threads = (\<lambda>_. Away)(1 := GiveBack True),
     os_accepted = [plain_contribution\<lparr>oc_id := Some 7, oc_sequence := Some 0\<rparr>], os_finished = []\<rparr>"

definition recording_at :: "position \<Rightarrow> accounting" where
  "recording_at p = \<lparr>os_recorder = Healthy (accumulator_default\<lparr>ac_attempted := 1, ac_in_flight := 1\<rparr>),
     os_threads = (\<lambda>_. Away)(1 := p), os_accepted = [], os_finished = []\<rparr>"

lemma recording_at_step:
  assumes "inside p" "record_step ten_bytes 7 3 p (os_recorder (recording_at p)) = (p', os_recorder (recording_at p))"
    "accepted_by p p' = []"
  shows "accounting_step ten_bytes 1 (recording_at p) (recording_at p')"
  using continue_record [of "recording_at p" 1 ten_bytes 7 3 p' "os_recorder (recording_at p)"] assms
  by (simp add: recording_at_def)

lemma recording_steps:
  "accounting_step ten_bytes 1 accounting_start (recording_at (CheckSchema plain_contribution))"
  "accounting_step ten_bytes 1 (recording_at (CheckSchema plain_contribution))
     (recording_at (AskSequence (plain_contribution\<lparr>oc_id := Some 7\<rparr>)))"
  "accounting_step ten_bytes 1 (recording_at (AskSequence (plain_contribution\<lparr>oc_id := Some 7\<rparr>)))
     (recording_at (Serialize (plain_contribution\<lparr>oc_id := Some 7, oc_sequence := Some 0\<rparr>) 0))"
  "accounting_step ten_bytes 1 (recording_at (Serialize (plain_contribution\<lparr>oc_id := Some 7, oc_sequence := Some 0\<rparr>) 0))
     (recording_at (Commit (plain_contribution\<lparr>oc_id := Some 7, oc_sequence := Some 0\<rparr>) 10 0))"
  "accounting_step ten_bytes 1 (recording_at (Commit (plain_contribution\<lparr>oc_id := Some 7, oc_sequence := Some 0\<rparr>) 10 0)) recorded_once"
proof -
  show "accounting_step ten_bytes 1 accounting_start (recording_at (CheckSchema plain_contribution))"
    using begin_record [of accounting_start 1 True "os_recorder (recording_at Away)" ten_bytes plain_contribution]
    by (simp add: accounting_start_def recorder_default_def reserve_record_attempt_def accumulator_default_def
        optimization_limits recording_at_def)
  show "accounting_step ten_bytes 1 (recording_at (CheckSchema plain_contribution))
     (recording_at (AskSequence (plain_contribution\<lparr>oc_id := Some 7\<rparr>)))"
    by (rule recording_at_step) (simp_all add: payload_without_schema_def plain_contribution_def accepted_by_def)
  show "accounting_step ten_bytes 1 (recording_at (AskSequence (plain_contribution\<lparr>oc_id := Some 7\<rparr>)))
     (recording_at (Serialize (plain_contribution\<lparr>oc_id := Some 7, oc_sequence := Some 0\<rparr>) 0))"
    by (rule recording_at_step)
      (simp_all add: read_next_sequence_def accumulator_default_def optimization_limits accepted_by_def recording_at_def)
  show "accounting_step ten_bytes 1 (recording_at (Serialize (plain_contribution\<lparr>oc_id := Some 7, oc_sequence := Some 0\<rparr>) 0))
     (recording_at (Commit (plain_contribution\<lparr>oc_id := Some 7, oc_sequence := Some 0\<rparr>) 10 0))"
    by (rule recording_at_step)
      (simp_all add: bounded_json_size_def ten_bytes_def optimization_limits USIZE_MAX_def accepted_by_def)
  show "accounting_step ten_bytes 1 (recording_at (Commit (plain_contribution\<lparr>oc_id := Some 7, oc_sequence := Some 0\<rparr>) 10 0))
     recorded_once"
    using continue_record [of "recording_at (Commit (plain_contribution\<lparr>oc_id := Some 7, oc_sequence := Some 0\<rparr>) 10 0)" 1 ten_bytes 7 3]
    by (simp add: commit_contribution_def accumulator_default_def optimization_limits USIZE_MAX_def accepted_by_def
        recorded_once_def recording_at_def)
qed

lemma recorded_once_reachable: "accounting_reachable ten_bytes recorded_once"
  by (intro accounting_reachable.step [OF _ recording_steps(5)] accounting_reachable.step [OF _ recording_steps(4)]
      accounting_reachable.step [OF _ recording_steps(3)] accounting_reachable.step [OF _ recording_steps(2)]
      accounting_reachable.step [OF _ recording_steps(1)] accounting_reachable.start)

theorem accepted_never_lost_witness:
  "accounting_reachable ten_bytes recorded_once \<and> length (os_accepted recorded_once) = 1 \<and>
   unemitted_with_timestamps (os_recorder recorded_once) \<noteq> None"
  using accepted_never_lost [OF recorded_once_reachable] recorded_once_reachable by (auto simp: recorded_once_def)

section \<open>Recording ends\<close>

text \<open>A run during which thread \<open>t\<close> stays inside one call of \<^verbatim>\<open>record\<close>, with the thread of every step.\<close>

inductive busy_run :: "serializer \<Rightarrow> nat \<Rightarrow> accounting \<Rightarrow> nat list \<Rightarrow> accounting \<Rightarrow> bool" for to_writer t s where
  busy_start: "inside (os_threads s t) \<Longrightarrow> busy_run to_writer t s [] s"
| busy_step: "busy_run to_writer t s us s' \<Longrightarrow> accounting_step to_writer u s' s'' \<Longrightarrow> inside (os_threads s'' t) \<Longrightarrow>
    busy_run to_writer t s (us @ [u]) s''"

text \<open>How many of its own steps a thread can still take; \<open>k\<close> contributions have been accepted.\<close>

fun remaining :: "nat \<Rightarrow> position \<Rightarrow> nat" where
  "remaining k (CheckSchema c) = 198"
| "remaining k (AskSequence c) = 3 * (64 - k) + 5"
| "remaining k (Serialize c q) = 3 * (64 - unat q) + 4"
| "remaining k (Commit c n q) = 3 * (64 - unat q) + 3"
| "remaining k (GiveBack b) = 1"
| "remaining k NoteSchema = 2"
| "remaining k NoteLimit = 2"
| "remaining k _ = 0"

lemma remaining_le: "remaining k p \<le> 198"
  by (cases p) auto

lemma remaining_antimono: "k \<le> k' \<Longrightarrow> remaining k' p \<le> remaining k p"
  by (cases p) auto

lemma own_step_decreases:
  assumes ok: "accounting_ok to_writer s" and inside: "inside (os_threads s t)"
    and step: "record_step to_writer fresh_id now (os_threads s t) (os_recorder s) = (p, l)"
  shows "remaining (length (os_accepted s)) p < remaining (length (os_accepted s)) (os_threads s t)"
proof -
  from ok obtain a where a: "os_recorder s = Healthy a" "state_ok to_writer a s" "accepted_ok to_writer (os_accepted s)"
    "\<forall>t. position_ok to_writer (length (ac_contributions a)) (os_threads s t)" by (rule accounting_okE)
  have k: "ac_contributions a = os_accepted s" "length (os_accepted s) \<le> 64"
    using a(2,3) inside_unfinished(1) [OF a(2) inside] by (simp_all add: state_ok_def accepted_ok_def optimization_limits)
  have pt: "position_ok to_writer (length (os_accepted s)) (os_threads s t)" using a(4) k by metis
  have u: "unat (of_nat (length (os_accepted s)) :: 64 word) = length (os_accepted s)"
    using k(2) by (simp add: unat_of_nat take_bit_nat_eq_self)
  show ?thesis
  proof (cases "os_threads s t")
    case (AskSequence c)
    then show ?thesis using step k a(1) u by (auto simp: read_next_sequence_def split: if_splits)
  next
    case (Commit c n q)
    have "remaining (length (os_accepted s)) (AskSequence c) < remaining (length (os_accepted s)) (Commit c n q)"
      if "of_nat (length (os_accepted s)) \<noteq> q"
    proof -
      have "unat q \<noteq> length (os_accepted s)" using that u by (auto simp: word_unat_eq_iff)
      then show ?thesis using pt Commit k(2) by (auto simp: optimization_limits)
    qed
    then show ?thesis using step k a(1) Commit by (auto simp: commit_contribution_def split: if_splits)
  qed (use step inside in \<open>auto split: if_splits sum.splits serialized_size_error.splits\<close>)
qed

lemma busy_run_remaining:
  assumes "busy_run to_writer t s us s'" "accounting_ok to_writer s"
  shows "accounting_ok to_writer s' \<and> inside (os_threads s' t) \<and>
    count_list us t + remaining (length (os_accepted s')) (os_threads s' t) \<le> 198"
  using assms
proof (induction rule: busy_run.induct)
  case busy_start
  then show ?case by (simp add: remaining_le)
next
  case (busy_step us s' u s'')
  then have IH: "accounting_ok to_writer s'" "inside (os_threads s' t)"
    "count_list us t + remaining (length (os_accepted s')) (os_threads s' t) \<le> 198" by simp_all
  have mono: "length (os_accepted s') \<le> length (os_accepted s'')"
    using busy_step.hyps(2) by (cases rule: accounting_step.cases) auto
  have "remaining (length (os_accepted s'')) (os_threads s'' t) + (if u = t then 1 else 0) \<le>
      remaining (length (os_accepted s')) (os_threads s' t)"
  proof (cases "u = t")
    case True
    from busy_step.hyps(2) obtain fresh_id now p l where
      "record_step to_writer fresh_id now (os_threads s' t) (os_recorder s') = (p, l)" "os_threads s'' t = p"
      using True IH(2) by (cases rule: accounting_step.cases) auto
    then have "remaining (length (os_accepted s')) (os_threads s'' t) < remaining (length (os_accepted s')) (os_threads s' t)"
      using own_step_decreases [OF IH(1,2)] by blast
    then show ?thesis using True remaining_antimono [OF mono, of "os_threads s'' t"] by simp
  next
    case False
    from busy_step.hyps(2) have "os_threads s'' t = os_threads s' t"
      using False by (cases rule: accounting_step.cases) auto
    then show ?thesis using False remaining_antimono [OF mono] by simp
  qed
  then show ?case using IH busy_step.hyps(2,3) ok_step by (auto split: if_splits)
qed

text \<open>
  C31. A call of record ends although it retries: whatever the other threads do meanwhile, a thread
  takes fewer than 198 steps of its own inside one call before the one that returns, and at every moment it can take the next one
  without waiting for another thread. So a call of finish does not wait for ever.
\<close>

theorem record_call_ends:
  assumes "accounting_reachable to_writer s" and "busy_run to_writer t s us s'"
  shows "count_list us t < 198 \<and> (\<exists>s''. accounting_step to_writer t s' s'')"
proof -
  note r = busy_run_remaining [OF assms(2) accounting_reachable_ok [OF assms(1)]]
  then have "remaining (length (os_accepted s')) (os_threads s' t) > 0" by (cases "os_threads s' t") auto
  moreover have "\<exists>s''. accounting_step to_writer t s' s''"
    using r continue_record [of s' t to_writer 0 0] by (metis surj_pair)
  ultimately show ?thesis using r by simp
qed

lemma recording_busy:
  "busy_run ten_bytes 1 (recording_at (CheckSchema plain_contribution)) ([] @ [1] @ [1] @ [1] @ [1]) recorded_once"
  unfolding append_assoc [symmetric]
  by (rule busy_step [OF busy_step [OF busy_step [OF busy_step [OF busy_start recording_steps(2)] recording_steps(3)]
        recording_steps(4)] recording_steps(5)]) (simp_all add: recording_at_def recorded_once_def)

theorem record_call_ends_witness:
  "count_list [1, 1, 1, 1] (1 :: nat) < 198 \<and> (\<exists>s''. accounting_step ten_bytes 1 recorded_once s'')"
  using record_call_ends [OF accounting_reachable.step [OF accounting_reachable.start recording_steps(1)] recording_busy] by simp

end
