(* ===== verification/Llm_Events.thy ===== *)
theory Llm_Events
  imports Tool_Api Optimization_Summary
begin

text \<open>
  What the events of an LLM call contain (\<^verbatim>\<open>crates/core/src/api/llm.rs\<close>): the copy of the request
  without credentials, its limitation to the current turn, and the payloads of the start and the end
  event, which are computed on the dispatcher when the event is published.

  A codec (\<^verbatim>\<open>crates/core/src/codec\<close>) is a value with its functions; the codecs themselves are not
  modelled. The recorder of a call, the price list and the lock of the context are shared with other
  threads, so on the dispatcher they are part of the world: the host says how to read and write the
  cell of a recorder, and whether the context can be read.
\<close>

section \<open>Codecs and the host\<close>

record llm_codec =
  decode_request :: "llm_request \<Rightarrow> annotated_llm_request flow_result"
  encode_request :: "annotated_llm_request \<Rightarrow> llm_request \<Rightarrow> llm_request flow_result"

record llm_response_codec =
  decode_response :: "json \<Rightarrow> annotated_llm_response flow_result"

text \<open>
  An execution intercept of an LLM call is a program, like that of a tool call; what it yields and
  what the rest of the chain yields have the same type.
\<close>

datatype ('s, 'b) llm_program =
    LlmSettle "'b flow_result outcome"
  | LlmNext llm_request "'b flow_result \<Rightarrow> 's \<Rightarrow> ('s, 'b) llm_program \<times> 's"

type_synonym 'w llm_sanitize_request_fn =
  "llm_request \<Rightarrow> llm_codec option \<Rightarrow> ('w, llm_request option flow_result) effect"
type_synonym 'w llm_sanitize_response_fn =
  "json \<Rightarrow> llm_response_codec option \<Rightarrow> ('w, json option flow_result) effect"

record ('f, 'w) llm_host = "('f, 'w) tool_host" +
  as_llm_request_sanitizer :: "'f \<Rightarrow> 'w llm_sanitize_request_fn"
  as_llm_response_sanitizer :: "'f \<Rightarrow> 'w llm_sanitize_response_fn"
  as_llm_guardrail :: "'f \<Rightarrow> llm_request \<Rightarrow> (('f, 'w) runtime, string option flow_result) effect"
  as_llm_intercept :: "'f \<Rightarrow> (('f, 'w) runtime) llm_request_intercept_fn"
  as_llm_execution :: "'f \<Rightarrow> string \<Rightarrow> llm_request \<Rightarrow> ('f, 'w) runtime \<Rightarrow>
    (('f, 'w) runtime, json) llm_program \<times> ('f, 'w) runtime"
  recorder_cell :: "nat \<Rightarrow> 'w \<Rightarrow> recorder"
  set_recorder_cell :: "nat \<Rightarrow> recorder \<Rightarrow> 'w \<Rightarrow> 'w"
  new_recorder_cell :: "'w \<Rightarrow> nat \<times> 'w"
  await_records :: "nat \<Rightarrow> 'w \<Rightarrow> 'w"
  contribution_writer :: serializer
  contribution_value :: "llm_optimization_contribution \<Rightarrow> json"
  pricing_lock :: "'w \<Rightarrow> pricing_resolver rwlock"
  context_readable :: "'w \<Rightarrow> bool"

text \<open>A handle with the two fields that are not serialized: its recorder and the stack it was created on.\<close>

record live_llm_handle =
  lv_handle :: llm_handle
  lv_recorder :: nat
  lv_scope_stack :: nat

definition update_recorder :: "('f, 'w, 'z) llm_host_scheme \<Rightarrow> nat \<Rightarrow> (recorder \<Rightarrow> recorder) \<Rightarrow> 'w \<Rightarrow> 'w" where
  "update_recorder sv i f w = set_recorder_cell sv i (f (recorder_cell sv i w)) w"

section \<open>Credentials\<close>

definition OBSERVABILITY_CREDENTIAL_HEADERS :: "string list" where
  "OBSERVABILITY_CREDENTIAL_HEADERS = [''authorization'', ''proxy-authorization'', ''cookie'', ''x-api-key'', ''api-key'',
     ''anthropic-api-key'', ''x-goog-api-key'']"

definition remove_observability_credential_headers :: "llm_request \<Rightarrow> llm_request" where
  "remove_observability_credential_headers r = r\<lparr>lr_headers :=
     filter (\<lambda>(name, _). \<not> list_ex (eq_ignore_ascii_case name) OBSERVABILITY_CREDENTIAL_HEADERS) (lr_headers r)\<rparr>"

text \<open>\<^verbatim>\<open>serde_json::to_value\<close> of a request; the keys of an object are sorted.\<close>

definition request_to_value :: "llm_request \<Rightarrow> json" where
  "request_to_value r = JObject [(''content'', lr_content r), (''headers'', JObject (lr_headers r))]"

section \<open>The current turn\<close>

definition rposition :: "('a \<Rightarrow> bool) \<Rightarrow> 'a list \<Rightarrow> nat option" where
  "rposition P xs = List.find (\<lambda>i. P (xs ! i)) (rev [0..<length xs])"

definition request_turn_projection_needed :: "('a \<Rightarrow> bool) \<Rightarrow> ('a \<Rightarrow> bool) \<Rightarrow> 'a list \<Rightarrow> bool" where
  "request_turn_projection_needed is_user is_instruction items \<longleftrightarrow> items \<noteq> [] \<and>
     (case rposition is_user items of
        Some start \<Rightarrow> list_ex (\<lambda>item. \<not> is_instruction item) (take start items)
      | None \<Rightarrow> list_ex (\<lambda>(i, item). i \<noteq> length items - 1 \<and> \<not> is_instruction item) (enumerate 0 items))"

definition retain_current_request_turn :: "('a \<Rightarrow> bool) \<Rightarrow> ('a \<Rightarrow> bool) \<Rightarrow> 'a list \<Rightarrow> bool \<times> 'a list" where
  "retain_current_request_turn is_user is_instruction items =
     (if \<not> request_turn_projection_needed is_user is_instruction items then (False, items)
      else (case rposition is_user items of
          None \<Rightarrow> (True, map snd (filter (\<lambda>(i, item). i = length items - 1 \<or> is_instruction item) (enumerate 0 items)))
        | Some start \<Rightarrow> (True, filter is_instruction (take start items) @ drop start items)))"

fun is_user_message :: "llm_message \<Rightarrow> bool" where
  "is_user_message (UserMessage _ _) = True"
| "is_user_message _ = False"

fun is_system_message :: "llm_message \<Rightarrow> bool" where
  "is_system_message (SystemMessage _ _) = True"
| "is_system_message _ = False"

definition limit_annotated_request_history ::
    "annotated_llm_request \<Rightarrow> bool \<times> annotated_llm_request" where
  "limit_annotated_request_history a =
     (let (projected, messages) = retain_current_request_turn is_user_message is_system_message (aq_messages a)
      in (projected, a\<lparr>aq_messages := messages\<rparr>))"

definition project_llm_request_to_current_user_turn ::
    "llm_request \<Rightarrow> annotated_llm_request option \<Rightarrow> llm_codec option \<Rightarrow>
     llm_request \<times> annotated_llm_request option" where
  "project_llm_request_to_current_user_turn request annotated codec = (case annotated of
       None \<Rightarrow> (request, None)
     | Some a \<Rightarrow>
         if \<not> request_turn_projection_needed is_user_message is_system_message (aq_messages a) then (request, Some a)
         else (let (_, a') = limit_annotated_request_history a
               in case codec of
                    None \<Rightarrow> (request, Some a')
                  | Some c \<Rightarrow> (case encode_request c a' request of
                        Inr encoded \<Rightarrow> (encoded, Some a')
                      | Inl _ \<Rightarrow> (request, Some a))))"

section \<open>The start event\<close>

text \<open>
  What the transform of a start event computes. A manual start has no codec; then an annotation is
  kept only for a request that the sanitizers left alone.
\<close>

definition llm_start_payload ::
    "llm_request \<Rightarrow> annotated_llm_request option \<Rightarrow> llm_codec option \<Rightarrow> bool \<Rightarrow> bool \<Rightarrow>
     'w llm_sanitize_request_fn registry_record list \<Rightarrow>
     ('w, json option \<times> annotated_llm_request option) effect" where
  "llm_start_payload request annotated codec full_payloads agent_is_fresh ents w =
     (case llm_sanitize_request_snapshot_chain request codec ents w of
        (Finished sanitized, w) \<Rightarrow>
          (let changed = (case sanitized of Some s \<Rightarrow> s \<noteq> request | None \<Rightarrow> False);
               annotation = (case (sanitized, codec) of
                   (Some s, Some c) \<Rightarrow>
                     if changed then (case decode_request c s of Inr a \<Rightarrow> Some a | Inl _ \<Rightarrow> None) else annotated
                 | (Some s, None) \<Rightarrow> if changed then None else annotated
                 | (None, _) \<Rightarrow> None);
               (sanitized, annotation) = (case sanitized of
                   Some s \<Rightarrow>
                     if \<not> full_payloads \<and> \<not> agent_is_fresh
                     then (let (s', a') = project_llm_request_to_current_user_turn s annotation codec in (Some s', a'))
                     else (Some s, annotation)
                 | None \<Rightarrow> (None, annotation))
           in (Finished (map_option request_to_value sanitized, annotation), w))
      | (Panicked, w) \<Rightarrow> (Panicked, w)
      | (Dropped, w) \<Rightarrow> (Dropped, w))"

definition llm_start_transform ::
    "('f, 'w, 'z) llm_host_scheme \<Rightarrow> llm_handle \<Rightarrow> llm_request \<Rightarrow> annotated_llm_request option \<Rightarrow>
     llm_codec option \<Rightarrow> bool \<Rightarrow> bool \<Rightarrow> 'w llm_sanitize_request_fn registry_record list \<Rightarrow> 'w transform_fn" where
  "llm_start_transform sv h request annotated codec full_payloads agent_is_fresh ents e w =
     (case llm_start_payload request annotated codec full_payloads agent_is_fresh ents w of
        (Finished (input, annotation), w) \<Rightarrow>
          (Finished (if context_readable sv w then build_llm_start_event h input annotation else e), w)
      | (Panicked, w) \<Rightarrow> (Panicked, w)
      | (Dropped, w) \<Rightarrow> (Dropped, w))"

section \<open>The end event\<close>

definition resolve_llm_end_annotation ::
    "pricing_resolver rwlock \<Rightarrow> annotated_llm_response option \<Rightarrow> llm_response_codec option \<Rightarrow> json option \<Rightarrow> bool \<Rightarrow>
     string \<Rightarrow> annotated_llm_response option \<times> flow_error option" where
  "resolve_llm_end_annotation pricing annotated codec data attach_estimated_cost provider_name =
     (let priced = (\<lambda>a. if attach_estimated_cost then attach_estimated_cost_for_provider pricing (Some provider_name) a else a)
      in case annotated of
           Some a \<Rightarrow> (Some (priced a), None)
         | None \<Rightarrow> (case (codec, data) of
               (Some c, Some response) \<Rightarrow> (case decode_response c response of
                   Inr decoded \<Rightarrow> (Some (priced decoded), None)
                 | Inl e \<Rightarrow> (None, Some e))
             | _ \<Rightarrow> (None, None)))"

text \<open>
  \<^verbatim>\<open>finalize_optimization_summary\<close> on the recorder of a call. It may have to wait for records that other
  threads have begun; \<open>await_records\<close> is what these threads do to the world meanwhile. When a record is
  still in flight then, the wait does not end, and \<open>None\<close> is the result.
\<close>

definition finalize_summary ::
    "('f, 'w, 'z) llm_host_scheme \<Rightarrow> nat \<Rightarrow> annotated_llm_response option \<Rightarrow> string option \<Rightarrow> 'w \<Rightarrow>
     (llm_optimization_summary option \<times> annotated_llm_response option) option \<times> 'w" where
  "finalize_summary sv i response requested_model w =
     (let pricing = active_pricing_resolver (pricing_lock sv w);
          (r, l) = finish_enter (recorder_cell sv i w);
          w = set_recorder_cell sv i l w
      in case r of
           Some finished \<Rightarrow> (Some (summarize finished response requested_model pricing), w)
         | None \<Rightarrow>
             (let w = await_records sv i w;
                  (r, l) = finish_wake (recorder_cell sv i w);
                  w = set_recorder_cell sv i l w
              in (map_option (\<lambda>finished. summarize finished response requested_model pricing) r, w)))"

record llm_end_payload =
  lp_data :: "json option"
  lp_annotated_response :: "annotated_llm_response option"
  lp_decode_error :: "flow_error option"

definition summary_response :: "llm_optimization_summary \<Rightarrow> annotated_llm_response" where
  "summary_response s = default_response\<lparr>ar_optimization_summary := Some s\<rparr>"

definition build_llm_end_payload ::
    "('f, 'w, 'z) llm_host_scheme \<Rightarrow> live_llm_handle \<Rightarrow> json \<Rightarrow> json option \<Rightarrow> annotated_llm_response option \<Rightarrow>
     llm_response_codec option \<Rightarrow> 'w llm_sanitize_response_fn registry_record list \<Rightarrow> bool \<Rightarrow>
     ('w, llm_end_payload) effect" where
  "build_llm_end_payload sv lv response fallback annotated codec ents attach_estimated_cost w =
     (let null_without_fallback = (response = JNull \<and> fallback = None);
          response = (if response = JNull then or_else fallback response else response)
      in case llm_sanitize_response_snapshot_chain response codec ents w of
           (Panicked, w) \<Rightarrow> (Panicked, w)
         | (Dropped, w) \<Rightarrow> (Dropped, w)
         | (Finished sanitized, w) \<Rightarrow>
             (let changed = (case sanitized of Some s \<Rightarrow> s \<noteq> response | None \<Rightarrow> False);
                  data = (case sanitized of
                      Some r \<Rightarrow> if null_without_fallback \<and> r = JNull then None else Some r
                    | None \<Rightarrow> None);
                  omitted = (case data of None \<Rightarrow> True | Some d \<Rightarrow> d = JNull);
                  (annotation, decode_error) = (if omitted then (None, None)
                    else resolve_llm_end_annotation (pricing_lock sv w) (if changed then None else annotated) codec data
                      attach_estimated_cost (lh_name (lv_handle lv)))
              in case finalize_summary sv (lv_recorder lv) annotation (lh_model_name (lv_handle lv)) w of
                   (None, w) \<Rightarrow> (Dropped, w)
                 | (Some (summary, annotation), w) \<Rightarrow>
                     (Finished \<lparr>lp_data = data,
                        lp_annotated_response = (if \<not> omitted \<and> annotation = None
                          then map_option summary_response summary else annotation),
                        lp_decode_error = decode_error\<rparr>, w)))"

text \<open>The transforms of an end event with a response, and of one without.\<close>

definition llm_end_transform ::
    "('f, 'w, 'z) llm_host_scheme \<Rightarrow> live_llm_handle \<Rightarrow> json \<Rightarrow> json option \<Rightarrow> json option \<Rightarrow>
     annotated_llm_response option \<Rightarrow> llm_response_codec option \<Rightarrow> 'w llm_sanitize_response_fn registry_record list \<Rightarrow>
     timestamp option \<Rightarrow> 'w transform_fn" where
  "llm_end_transform sv lv response fallback metadata annotated codec ents ts e w =
     (case build_llm_end_payload sv lv response fallback annotated codec ents True w of
        (Panicked, w) \<Rightarrow> (Panicked, w)
      | (Dropped, w) \<Rightarrow> (Dropped, w)
      | (Finished p, w) \<Rightarrow>
          if \<not> context_readable sv w then (Finished e, w)
          else (let (now, w) = read_clock sv ts w
                in (Finished (build_llm_end_event now \<lparr>eh_handle = lv_handle lv, eh_data = lp_data p,
                       eh_metadata = metadata_with_otel_status metadata ''OK'' None, eh_timestamp = ts\<rparr>
                       (lp_annotated_response p)), w)))"

definition llm_end_without_output_transform ::
    "('f, 'w, 'z) llm_host_scheme \<Rightarrow> live_llm_handle \<Rightarrow> json option \<Rightarrow> llm_response_codec option \<Rightarrow>
     'w llm_sanitize_response_fn registry_record list \<Rightarrow> timestamp \<Rightarrow> 'w transform_fn" where
  "llm_end_without_output_transform sv lv metadata codec ents ts e w =
     (let h = lv_handle lv;
          (r, w) = (case lh_data h of
              Some data \<Rightarrow> llm_sanitize_response_snapshot_chain data codec ents w
            | None \<Rightarrow> (Finished None, w))
      in case r of
           Panicked \<Rightarrow> (Panicked, w)
         | Dropped \<Rightarrow> (Dropped, w)
         | Finished data \<Rightarrow>
             (let omitted = (lh_data h \<noteq> None \<and> data = None \<or> data = Some JNull);
                  (summary, w) = (if omitted then (Some None, w)
                    else map_prod (map_option fst) id (finalize_summary sv (lv_recorder lv) None (lh_model_name h) w))
              in case summary of
                   None \<Rightarrow> (Dropped, w)
                 | Some s \<Rightarrow>
                     (Finished (if context_readable sv w
                        then build_llm_end_event ts \<lparr>eh_handle = h, eh_data = data, eh_metadata = metadata,
                               eh_timestamp = Some ts\<rparr> (map_option summary_response s)
                        else e), w)))"

text \<open>The transform of the end event of a call that was dropped; \<open>ents\<close> is \<open>None\<close> when no sanitizers could be read.\<close>

definition llm_cancelled_transform ::
    "('f, 'w, 'z) llm_host_scheme \<Rightarrow> live_llm_handle \<Rightarrow> json option \<Rightarrow> llm_response_codec option \<Rightarrow>
     'w llm_sanitize_response_fn registry_record list option \<Rightarrow> 'w transform_fn" where
  "llm_cancelled_transform sv lv metadata codec ents e w =
     (let h = lv_handle lv
      in case (lh_data h, ents) of
           (Some data, Some ents) \<Rightarrow>
             (case llm_sanitize_response_snapshot_chain data codec ents w of
                (Panicked, w) \<Rightarrow> (Panicked, w)
              | (Dropped, w) \<Rightarrow> (Dropped, w)
              | (Finished data, w) \<Rightarrow>
                  (let omitted = (case data of None \<Rightarrow> True | Some d \<Rightarrow> d = JNull);
                       (summary, w) = (if omitted then (Some None, w)
                         else map_prod (map_option fst) id (finalize_summary sv (lv_recorder lv) None (lh_model_name h) w))
                   in case summary of
                        None \<Rightarrow> (Dropped, w)
                      | Some s \<Rightarrow>
                          if context_readable sv w
                          then (let (now, w) = clock sv w
                                in (Finished (end_llm_handle now h data metadata (map_option summary_response s)), w))
                          else (Finished e, w)))
         | _ \<Rightarrow> (Finished e, w))"

end
