(* ===== verification/Llm_Api.thy ===== *)
theory Llm_Api
  imports Llm_Events
begin

text \<open>
  LLM calls (\<^verbatim>\<open>crates/core/src/api/llm.rs\<close>): manual spans, the managed pipeline of guardrails, request
  intercepts with a codec (\<^verbatim>\<open>shared.rs\<close>), execution intercepts (\<^verbatim>\<open>llm_build_execution_chain\<close> of
  \<^verbatim>\<open>state.rs\<close>) and the provider, and the marks that report optimization evidence.

  The recorder of a call is bound to the task while intercepts and the provider run. They reach it
  through the world, so the binding itself is not part of the state. Dates do not overflow here.
\<close>

section \<open>Handles and events\<close>

text \<open>The message of a lock that a panic has poisoned.\<close>

definition poisoned_lock_message :: string where
  "poisoned_lock_message = ''poisoned lock: another task failed inside''"

definition create_live_llm_handle ::
    "('f, 'w, 'z) llm_host_scheme \<Rightarrow> create_llm_handle_params \<Rightarrow>
     (('f, 'w) runtime, live_llm_handle flow_result) effect" where
  "create_live_llm_handle sv p = owned_call (\<lambda>rt. case rt_context rt of
       Poisoned m _ \<Rightarrow> (Finished (Inl (Internal m)), rt)
     | Healthy _ \<Rightarrow>
         (let (fresh, w) = (case cl_uuid p of Some u \<Rightarrow> (u, rt_world rt) | None \<Rightarrow> new_uuid sv (rt_world rt));
              (now, w) = read_clock sv (cl_timestamp p) w;
              (cell, w) = new_recorder_cell sv w
          in (Finished (Inr \<lparr>lv_handle = create_llm_handle fresh now p, lv_recorder = cell,
                lv_scope_stack = current_scope_stack (rt_bindings rt)\<rparr>), rt\<lparr>rt_world := w\<rparr>)))"

text \<open>
  \<^verbatim>\<open>queue_llm_end_event\<close>, which a start uses in the same form: the sanitizers of the provisional event
  are captured, and the transform replaces its payload when it is published.
\<close>

definition queue_transformed_event ::
    "('f, 'w, 'z) host_scheme \<Rightarrow> 'f list \<Rightarrow> nat \<Rightarrow> event \<Rightarrow> 'w transform_fn \<Rightarrow> ('f, 'w) runtime \<Rightarrow>
     ('f, 'w) runtime" where
  "queue_transformed_event sv subscribers stack e transform rt =
     (let (sanitizers, w) = snapshot_event_sanitizers sv e (rt_stacks rt stack) (rt_context rt) (rt_world rt)
      in snd (dispatch_transformed_event sv e transform (or_else sanitizers []) subscribers (rt_stacks rt stack)
           (rt\<lparr>rt_world := w\<rparr>)))"

definition queue_llm_start ::
    "('f, 'w, 'z) llm_host_scheme \<Rightarrow> live_llm_handle \<Rightarrow> llm_request \<Rightarrow> annotated_llm_request option \<Rightarrow>
     llm_codec option \<Rightarrow> bool \<Rightarrow> bool \<Rightarrow> 'f registry_record list \<Rightarrow> 'f list \<Rightarrow> ('f, 'w) runtime \<Rightarrow>
     ('f, 'w) runtime" where
  "queue_llm_start sv lv request annotated codec full_payloads agent_is_fresh ents subscribers =
     queue_transformed_event sv subscribers (lv_scope_stack lv) (build_llm_start_event (lv_handle lv) None None)
       (llm_start_transform sv (lv_handle lv) (remove_observability_credential_headers request) annotated codec
          full_payloads agent_is_fresh (map (record_map (as_llm_request_sanitizer sv)) ents))"

text \<open>The panic of \<open>take_agent_freshness\<close> happens under the write lock of the stack.\<close>

definition queue_llm_start_with_subscribers ::
    "('f, 'w, 'z) llm_host_scheme \<Rightarrow> live_llm_handle \<Rightarrow> llm_request \<Rightarrow> annotated_llm_request option \<Rightarrow>
     llm_codec option \<Rightarrow> 'f list \<Rightarrow> (('f, 'w) runtime, unit flow_result) effect" where
  "queue_llm_start_with_subscribers sv lv request annotated codec subscribers = owned_call (\<lambda>rt.
     case rt_stacks rt (lv_scope_stack lv) of
       Poisoned _ _ \<Rightarrow> (Panicked, rt)
     | Healthy s \<Rightarrow> (case rt_context rt of
         Poisoned m _ \<Rightarrow> (Finished (Inl (Internal m)), rt)
       | Healthy st \<Rightarrow>
           (let st = registry_snapshot [LlmSanitizeRequestGuardrail] st;
                (ents, w) = llm_sanitize_request_entries (gates_of sv) st
                  (collect_scope_local_registries llm_sanitize_request_guardrails s) (rt_world rt);
                rt = rt\<lparr>rt_world := w\<rparr>
            in case take_agent_freshness (lh_parent_uuid (lv_handle lv)) s of
                 (None, s) \<Rightarrow> (Panicked, rt\<lparr>rt_stacks := (rt_stacks rt)
                   (lv_scope_stack lv := Poisoned poisoned_lock_message s)\<rparr>)
               | (Some agent_is_fresh, s) \<Rightarrow>
                   (Finished (Inr ()), queue_llm_start sv lv request annotated codec
                      (observability_full_payloads_enabled st) agent_is_fresh ents subscribers
                      (rt\<lparr>rt_stacks := (rt_stacks rt)(lv_scope_stack lv := Healthy s)\<rparr>)))))"

section \<open>Marks\<close>

text \<open>The marks the request intercepts left, one microsecond after the start; invalid metadata drops a mark.\<close>

fun queue_request_marks ::
    "('f, 'w, 'z) llm_host_scheme \<Rightarrow> live_llm_handle \<Rightarrow> 'f list \<Rightarrow> pending_mark_spec list \<Rightarrow> ('f, 'w) runtime \<Rightarrow>
     ('f, 'w) runtime" where
  "queue_request_marks sv lv subscribers [] rt = rt"
| "queue_request_marks sv lv subscribers (m # ms) rt =
     (case metadata_with_log_severity (pm_metadata m) (pm_severity m) of
        Inl _ \<Rightarrow> queue_request_marks sv lv subscribers ms rt
      | Inr metadata \<Rightarrow>
          (let (u, w) = new_uuid sv (rt_world rt);
               e = Mark (mark_event_new ((base_event_build (Some (lh_uuid (lv_handle lv))) u
                     (lh_started_at (lv_handle lv) + 1000) (pm_name m) (pm_data m) metadata)
                     \<lparr>be_data_schema := pm_data_schema m\<rparr>) (pm_category m) (pm_category_profile m))
           in queue_request_marks sv lv subscribers ms
                (queue_sanitized_event sv subscribers (lv_scope_stack lv) e (rt\<lparr>rt_world := w\<rparr>))))"

definition emit_pending_request_marks ::
    "('f, 'w, 'z) llm_host_scheme \<Rightarrow> live_llm_handle \<Rightarrow> pending_mark_spec list \<Rightarrow> 'f list \<Rightarrow>
     (('f, 'w) runtime, unit flow_result) effect" where
  "emit_pending_request_marks sv lv marks subscribers rt =
     (if marks = [] then (Finished (Inr ()), rt)
      else owned_call (\<lambda>rt. (Finished (Inr ()), queue_request_marks sv lv subscribers marks rt)) rt)"

definition optimization_mark_event ::
    "('f, 'w, 'z) llm_host_scheme \<Rightarrow> llm_handle \<Rightarrow> uuid \<Rightarrow> llm_optimization_contribution \<Rightarrow> timestamp \<Rightarrow> event" where
  "optimization_mark_event sv h u c recorded_at =
     (let offset = min (min (unat (or_else (oc_sequence c) 0) + 2) (2 ^ 64 - 1)) (2 ^ 63 - 1)
      in Mark (mark_event_new ((base_event_build (Some (lh_uuid h)) u
           (max recorded_at (lh_started_at h + 1000 * int offset)) ''nemo_relay.llm.optimization''
           (Some (contribution_value sv c)) None)
           \<lparr>be_data_schema := Some \<lparr>ds_name = ''nemo.relay.llm_optimization_contribution'', ds_version = ''1''\<rparr>\<rparr>)
           (Some (EventCategory ''custom'')) (Some (default_profile\<lparr>cp_subtype := Some ''nemo_relay.llm.optimization''\<rparr>))))"

text \<open>
  A mark that cannot be queued stops the loop; it and the marks after it stay for a later attempt.
\<close>

fun queue_optimization_marks ::
    "('f, 'w, 'z) llm_host_scheme \<Rightarrow> live_llm_handle \<Rightarrow> 'f list \<Rightarrow>
     (llm_optimization_contribution \<times> timestamp) list \<Rightarrow> ('f, 'w) runtime \<Rightarrow> ('f, 'w) runtime" where
  "queue_optimization_marks sv lv subscribers [] rt = rt"
| "queue_optimization_marks sv lv subscribers ((c, recorded_at) # cs) rt =
     (let (u, w) = new_uuid sv (rt_world rt);
          e = optimization_mark_event sv (lv_handle lv) u c recorded_at;
          stack = rt_stacks rt (lv_scope_stack lv);
          (sanitizers, w) = snapshot_event_sanitizers sv e stack (rt_context rt) w;
          (queued, rt) = dispatch_sanitized_event sv e (or_else sanitizers []) subscribers stack (rt\<lparr>rt_world := w\<rparr>)
      in if queued
         then queue_optimization_marks sv lv subscribers cs
           (rt\<lparr>rt_world := update_recorder sv (lv_recorder lv) (mark_emitted 1) (rt_world rt)\<rparr>)
         else rt)"

text \<open>
  \<^verbatim>\<open>enqueue_optimization_marks\<close>, and \<^verbatim>\<open>emit_optimization_marks\<close>, which does the same from an asynchronous
  caller. The panic of \<open>unemitted_with_timestamps\<close> is left out: no recorder reaches it, as
  \<open>Recorder_Properties\<close> shows.
\<close>

definition emit_optimization_marks ::
    "('f, 'w, 'z) llm_host_scheme \<Rightarrow> live_llm_handle \<Rightarrow> 'f list \<Rightarrow> ('f, 'w) runtime \<Rightarrow> ('f, 'w) runtime" where
  "emit_optimization_marks sv lv subscribers rt =
     (case or_else (unemitted_with_timestamps (recorder_cell sv (lv_recorder lv) (rt_world rt))) [] of
        [] \<Rightarrow> rt
      | cs \<Rightarrow> (case ensure_process_runtime_owner (rt_process rt) of
            (Inl _, p) \<Rightarrow> rt\<lparr>rt_process := p\<rparr>
          | (Inr _, p) \<Rightarrow> queue_optimization_marks sv lv subscribers cs (rt\<lparr>rt_process := p\<rparr>)))"

section \<open>Manual calls\<close>

record llm_call_params =
  lc_name :: string
  lc_request :: llm_request
  lc_parent :: "scope_handle option"
  lc_attributes :: attribute_bits
  lc_data :: "json option"
  lc_metadata :: "json option"
  lc_model_name :: "string option"
  lc_annotated_request :: "annotated_llm_request option"
  lc_timestamp :: "timestamp option"

definition start_manual_llm ::
    "('f, 'w, 'z) llm_host_scheme \<Rightarrow> llm_call_params \<Rightarrow> live_llm_handle \<Rightarrow>
     (('f, 'w) runtime, live_llm_handle flow_result) effect" where
  "start_manual_llm sv lc lv rt = (case rt_stacks rt (lv_scope_stack lv) of
       Poisoned m _ \<Rightarrow> (Finished (Inl (Internal m)), rt)
     | Healthy s \<Rightarrow> (case take_agent_freshness (lh_parent_uuid (lv_handle lv)) s of
         (None, s) \<Rightarrow> (Panicked, rt\<lparr>rt_stacks := (rt_stacks rt)
           (lv_scope_stack lv := Poisoned poisoned_lock_message s)\<rparr>)
       | (Some agent_is_fresh, s') \<Rightarrow>
           (let rt = rt\<lparr>rt_stacks := (rt_stacks rt)(lv_scope_stack lv := Healthy s')\<rparr>;
                (res, w) = snapshot_event_subscribers sv (collect_scope_local_subscribers s) (rt_context rt) (rt_world rt)
            in case res of
                 Inl e \<Rightarrow> (Finished (Inl e), rt\<lparr>rt_world := w\<rparr>)
               | Inr subscribers \<Rightarrow> (case rt_context rt of
                   Poisoned m _ \<Rightarrow> (Finished (Inl (Internal m)), rt\<lparr>rt_world := w\<rparr>)
                 | Healthy st \<Rightarrow>
                     (let st = registry_snapshot [LlmSanitizeRequestGuardrail] st;
                          (ents, w) = llm_sanitize_request_entries (gates_of sv) st
                            (collect_scope_local_registries llm_sanitize_request_guardrails s) w
                      in (Finished (Inr lv), queue_llm_start sv lv (lc_request lc) (lc_annotated_request lc) None
                            (observability_full_payloads_enabled st) agent_is_fresh ents subscribers
                            (rt\<lparr>rt_world := w\<rparr>)))))))"

definition llm_call ::
    "('f, 'w, 'z) llm_host_scheme \<Rightarrow> llm_call_params \<Rightarrow> (('f, 'w) runtime, live_llm_handle flow_result) effect" where
  "llm_call sv lc rt = (case resolve_parent_uuid (lc_parent lc) rt of
       None \<Rightarrow> (Panicked, rt)
     | Some parent_uuid \<Rightarrow>
         try_then (create_live_llm_handle sv
           \<lparr>cl_name = lc_name lc, cl_uuid = None, cl_parent_uuid = parent_uuid, cl_attributes = lc_attributes lc,
            cl_data = lc_data lc, cl_metadata = lc_metadata lc, cl_model_name = lc_model_name lc,
            cl_timestamp = lc_timestamp lc\<rparr> rt)
           (start_manual_llm sv lc))"

record llm_call_end_params =
  le_handle :: live_llm_handle
  le_response :: json
  le_data :: "json option"
  le_metadata :: "json option"
  le_annotated_response :: "annotated_llm_response option"
  le_response_codec :: "llm_response_codec option"
  le_timestamp :: "timestamp option"

text \<open>
  What every end does before it builds its event: it finds the sanitizers and the subscribers, closes
  the recorder, and queues the marks that are still to be emitted.
\<close>

definition prepare_llm_end ::
    "('f, 'w, 'z) llm_host_scheme \<Rightarrow> live_llm_handle \<Rightarrow> 'f list option \<Rightarrow> 'f scope_stack \<Rightarrow>
     (('f, 'w) runtime, ('f registry_record list \<times> 'f list) flow_result) effect" where
  "prepare_llm_end sv lv lifecycle s rt =
     (let (res, w) = (case lifecycle of
          Some subs \<Rightarrow> (Inr subs, rt_world rt)
        | None \<Rightarrow> snapshot_event_subscribers sv (collect_scope_local_subscribers s) (rt_context rt) (rt_world rt))
      in case res of
           Inl e \<Rightarrow> (Finished (Inl e), rt\<lparr>rt_world := w\<rparr>)
         | Inr subscribers \<Rightarrow> (case rt_context rt of
             Poisoned m _ \<Rightarrow> (Finished (Inl (Internal m)), rt\<lparr>rt_world := w\<rparr>)
           | Healthy st \<Rightarrow>
               (let (ents, w) = llm_sanitize_response_entries (gates_of sv)
                      (registry_snapshot [LlmSanitizeResponseGuardrail] st)
                      (collect_scope_local_registries llm_sanitize_response_guardrails s) w;
                    w = update_recorder sv (lv_recorder lv) (snd \<circ> close_for_finalization None) w
                in (Finished (Inr (ents, subscribers)), emit_optimization_marks sv lv subscribers (rt\<lparr>rt_world := w\<rparr>)))))"

definition llm_call_end ::
    "('f, 'w, 'z) llm_host_scheme \<Rightarrow> llm_call_end_params \<Rightarrow> (('f, 'w) runtime, unit flow_result) effect" where
  "llm_call_end sv le = owned_call (\<lambda>rt. let lv = le_handle le in case rt_stacks rt (lv_scope_stack lv) of
       Poisoned m _ \<Rightarrow> (Finished (Inl (Internal m)), rt)
     | Healthy s \<Rightarrow> try_then (prepare_llm_end sv lv None s rt)
         (\<lambda>(ents, subscribers) rt.
            let (now, w) = read_clock sv (le_timestamp le) (rt_world rt);
                e = build_llm_end_event now \<lparr>eh_handle = lv_handle lv, eh_data = Some JNull, eh_metadata = le_metadata le,
                      eh_timestamp = le_timestamp le\<rparr> (le_annotated_response le);
                transform = llm_end_transform sv lv (le_response le) (le_data le) (le_metadata le)
                  (le_annotated_response le) (le_response_codec le)
                  (map (record_map (as_llm_response_sanitizer sv)) ents) (le_timestamp le)
            in (Finished (Inr ()), queue_transformed_event sv subscribers (lv_scope_stack lv) e transform
                  (rt\<lparr>rt_world := w\<rparr>))))"

section \<open>Ending a managed call\<close>

text \<open>Both callers ask for the estimated cost; the time is read before anything else.\<close>

definition llm_call_end_with_behavior ::
    "('f, 'w, 'z) llm_host_scheme \<Rightarrow> llm_call_end_params \<Rightarrow> 'f list option \<Rightarrow>
     (('f, 'w) runtime, unit flow_result) effect" where
  "llm_call_end_with_behavior sv le lifecycle rt =
     (let (ts, w) = read_clock sv (le_timestamp le) (rt_world rt);
          lv = le_handle le
      in owned_call (\<lambda>rt. case rt_stacks rt (lv_scope_stack lv) of
           Poisoned _ _ \<Rightarrow> (Panicked, rt)
         | Healthy s \<Rightarrow> try_then (prepare_llm_end sv lv lifecycle s rt)
             (\<lambda>(ents, subscribers) rt.
                let e = build_llm_end_event ts \<lparr>eh_handle = lv_handle lv, eh_data = Some JNull,
                          eh_metadata = metadata_with_otel_status (le_metadata le) ''OK'' None,
                          eh_timestamp = Some ts\<rparr> None;
                    transform = llm_end_transform sv lv (le_response le) (le_data le) (le_metadata le)
                      (le_annotated_response le) (le_response_codec le)
                      (map (record_map (as_llm_response_sanitizer sv)) ents) (Some ts)
                in (Finished (Inr ()), queue_transformed_event sv subscribers (lv_scope_stack lv) e transform rt)))
         (rt\<lparr>rt_world := w\<rparr>))"

definition emit_llm_end_without_output ::
    "('f, 'w, 'z) llm_host_scheme \<Rightarrow> live_llm_handle \<Rightarrow> json option \<Rightarrow> llm_response_codec option \<Rightarrow> 'f list option \<Rightarrow>
     (('f, 'w) runtime, unit flow_result) effect" where
  "emit_llm_end_without_output sv lv metadata codec lifecycle = owned_call (\<lambda>rt.
     let (ts, w) = clock sv (rt_world rt)
     in case rt_stacks rt (lv_scope_stack lv) of
          Poisoned _ _ \<Rightarrow> (Panicked, rt\<lparr>rt_world := w\<rparr>)
        | Healthy s \<Rightarrow> try_then (prepare_llm_end sv lv lifecycle s (rt\<lparr>rt_world := w\<rparr>))
            (\<lambda>(ents, subscribers) rt.
               let e = build_llm_end_event ts \<lparr>eh_handle = lv_handle lv, eh_data = Some JNull, eh_metadata = metadata,
                         eh_timestamp = Some ts\<rparr> None;
                   transform = llm_end_without_output_transform sv lv metadata codec
                     (map (record_map (as_llm_response_sanitizer sv)) ents) ts
               in (Finished (Inr ()), queue_transformed_event sv subscribers (lv_scope_stack lv) e transform rt)))"

record 'f managed_llm_completion =
  ml_handle :: "live_llm_handle option"
  ml_metadata :: "json option"
  ml_response_codec :: "llm_response_codec option"
  ml_subscribers :: "'f list"
  ml_pending_publication :: "lineage option"

definition llm_completion_new ::
    "live_llm_handle \<Rightarrow> json option \<Rightarrow> llm_response_codec option \<Rightarrow> 'f list \<Rightarrow> ('f, 'w) runtime \<Rightarrow>
     'f managed_llm_completion \<times> ('f, 'w) runtime" where
  "llm_completion_new lv metadata codec subscribers rt =
     (let (pending, d) = (if subscribers \<noteq> [] then register_pending_publication (rt_dispatcher rt)
            else (None, rt_dispatcher rt))
      in (\<lparr>ml_handle = Some lv, ml_metadata = metadata, ml_response_codec = codec, ml_subscribers = subscribers,
           ml_pending_publication = pending\<rparr>, rt\<lparr>rt_dispatcher := d\<rparr>))"

definition disarm_llm_completion :: "'f managed_llm_completion \<Rightarrow> ('f, 'w) runtime \<Rightarrow> ('f, 'w) runtime" where
  "disarm_llm_completion mc rt = drop_pending (ml_pending_publication mc) rt"

text \<open>The sanitizers of a call that is dropped: none when the stack or the context cannot be read.\<close>

definition response_sanitizers ::
    "('f, 'w, 'z) llm_host_scheme \<Rightarrow> nat \<Rightarrow> ('f, 'w) runtime \<Rightarrow> 'f registry_record list option \<times> 'w" where
  "response_sanitizers sv stack rt = (case (rt_stacks rt stack, rt_context rt) of
       (Healthy s, Healthy st) \<Rightarrow>
         (let (ents, w) = llm_sanitize_response_entries (gates_of sv)
                (registry_snapshot [LlmSanitizeResponseGuardrail] st)
                (collect_scope_local_registries llm_sanitize_response_guardrails s) (rt_world rt)
          in (Some ents, w))
     | _ \<Rightarrow> (None, rt_world rt))"

definition cancel_llm ::
    "('f, 'w, 'z) llm_host_scheme \<Rightarrow> live_llm_handle \<Rightarrow> json option \<Rightarrow> llm_response_codec option \<Rightarrow> 'f list \<Rightarrow>
     ('f, 'w) runtime \<Rightarrow> ('f, 'w) runtime" where
  "cancel_llm sv lv metadata codec subscribers rt =
     (let (ents, w) = response_sanitizers sv (lv_scope_stack lv) rt;
          w = update_recorder sv (lv_recorder lv) (snd \<circ> close_for_finalization (Some ''execution_cancelled'')) w;
          rt = emit_optimization_marks sv lv subscribers (rt\<lparr>rt_world := w\<rparr>)
      in case rt_context rt of
           Poisoned _ _ \<Rightarrow> rt
         | Healthy _ \<Rightarrow>
             (let (now, w) = clock sv (rt_world rt)
              in queue_transformed_event sv subscribers (lv_scope_stack lv)
                   (end_llm_handle now (lv_handle lv) None metadata None)
                   (llm_cancelled_transform sv lv metadata codec
                      (map_option (map (record_map (as_llm_response_sanitizer sv))) ents)) (rt\<lparr>rt_world := w\<rparr>)))"

definition drop_llm_completion ::
    "('f, 'w, 'z) llm_host_scheme \<Rightarrow> 'f managed_llm_completion \<Rightarrow> ('f, 'w) runtime \<Rightarrow> ('f, 'w) runtime" where
  "drop_llm_completion sv mc rt = drop_pending (ml_pending_publication mc)
     (case ml_handle mc of
        None \<Rightarrow> rt
      | Some lv \<Rightarrow> cancel_llm sv lv (metadata_with_otel_status (ml_metadata mc) ''ERROR'' (Some ''LLM execution cancelled''))
          (ml_response_codec mc) (ml_subscribers mc) rt)"

section \<open>Request intercepts\<close>

text \<open>
  Recording draws an identifier and a time for every contribution; the source draws none for one
  that it refuses.
\<close>

fun stamp_contributions ::
    "('w, 'z) services_scheme \<Rightarrow> llm_optimization_contribution list \<Rightarrow> 'w \<Rightarrow>
     (llm_optimization_contribution \<times> uuid \<times> timestamp) list \<times> 'w" where
  "stamp_contributions sv [] w = ([], w)"
| "stamp_contributions sv (c # cs) w =
     (let (u, w) = new_uuid sv w; (t, w) = clock sv w; (xs, w) = stamp_contributions sv cs w
      in ((c, u, t) # xs, w))"

definition record_contributions ::
    "('f, 'w, 'z) llm_host_scheme \<Rightarrow> nat \<Rightarrow> llm_optimization_contribution list \<Rightarrow> ('f, 'w) runtime \<Rightarrow>
     ('f, 'w) runtime" where
  "record_contributions sv cell cs rt =
     (let (xs, w) = stamp_contributions sv cs (rt_world rt)
      in rt\<lparr>rt_world := update_recorder sv cell (record_all (contribution_writer sv) xs) w\<rparr>)"

type_synonym intercepted_llm_request =
  "llm_request \<times> annotated_llm_request option \<times> pending_mark_spec list \<times> llm_optimization_contribution list"

definition decode_with :: "llm_codec option \<Rightarrow> llm_request \<Rightarrow> annotated_llm_request option flow_result" where
  "decode_with codec request = (case codec of
       None \<Rightarrow> Inr None
     | Some c \<Rightarrow> map_sum id Some (decode_request c request))"

definition encode_intercepted ::
    "llm_codec option \<Rightarrow> llm_request \<Rightarrow> llm_request_intercept_outcome \<Rightarrow> intercepted_llm_request flow_result" where
  "encode_intercepted codec request out =
     (let rest = (\<lambda>a. (a, lo_pending_marks out, lo_optimization_contributions out))
      in case (codec, lo_annotated_request out) of
           (Some c, Some a) \<Rightarrow> (case encode_request c a request of
               Inl e \<Rightarrow> Inl e
             | Inr encoded \<Rightarrow> Inr (encoded\<lparr>lr_headers := bt_extend (lr_headers request) (lr_headers encoded)\<rparr>, rest (Some a)))
         | (_, a) \<Rightarrow> Inr (request, rest a))"

abbreviation live_llm_intercepts ::
    "('f, 'w, 'z) llm_host_scheme \<Rightarrow> 'f request_intercept registry_record list \<Rightarrow>
     (('f, 'w) runtime) llm_request_intercept_fn request_intercept registry_record list" where
  "live_llm_intercepts sv \<equiv>
     map (record_map (\<lambda>p. new_request_intercept (break_chain p) (as_llm_intercept sv (callable p))))"

definition run_request_intercepts_with_codec ::
    "('f, 'w, 'z) llm_host_scheme \<Rightarrow> string \<Rightarrow> llm_request \<Rightarrow> llm_codec option \<Rightarrow> nat option \<Rightarrow>
     (('f, 'w) runtime, intercepted_llm_request flow_result) effect" where
  "run_request_intercepts_with_codec sv name request codec cell rt = (case decode_with codec request of
       Inl e \<Rightarrow> (Finished (Inl e), rt)
     | Inr annotated \<Rightarrow> (case visible_stack rt of
         Poisoned m _ \<Rightarrow> (Finished (Inl (Internal m)), rt)
       | Healthy s \<Rightarrow> (case rt_context rt of
           Poisoned m _ \<Rightarrow> (Finished (Inl (Internal m)), rt)
         | Healthy st \<Rightarrow>
             (let (ents, w) = llm_request_intercept_entries (gates_of sv) (registry_snapshot [LlmRequestIntercept] st)
                    (collect_scope_local_registries llm_request_intercepts s) (rt_world rt)
              in try_then (llm_request_intercepts_snapshot_chain_with_recorder name request annotated
                     (live_llm_intercepts sv ents) (codec \<noteq> None) (map_option (record_contributions sv) cell)
                     (rt\<lparr>rt_world := w\<rparr>))
                   (\<lambda>out rt. (Finished (encode_intercepted codec (inject_dynamo_session_ids rt (lo_request out)) out), rt))))))"

definition llm_request_intercepts_api ::
    "('f, 'w, 'z) llm_host_scheme \<Rightarrow> string \<Rightarrow> llm_request \<Rightarrow>
     (('f, 'w) runtime, llm_request_intercept_outcome flow_result) effect" where
  "llm_request_intercepts_api sv name request = owned_call (\<lambda>rt. case visible_stack rt of
       Poisoned _ _ \<Rightarrow> (Panicked, rt)
     | Healthy s \<Rightarrow> (case rt_context rt of
         Poisoned m _ \<Rightarrow> (Finished (Inl (Internal m)), rt)
       | Healthy st \<Rightarrow>
           (let (ents, w) = llm_request_intercept_entries (gates_of sv) (registry_snapshot [LlmRequestIntercept] st)
                  (collect_scope_local_registries llm_request_intercepts s) (rt_world rt)
            in try_then (llm_request_intercepts_snapshot_chain name request None (live_llm_intercepts sv ents) False
                   (rt\<lparr>rt_world := w\<rparr>))
                 (\<lambda>out rt. let r = inject_dynamo_session_ids rt (lo_request out)
                    in case capture_traceparent (rt_bindings rt) (rt_stacks rt) of
                         None \<Rightarrow> (Panicked, rt)
                       | Some (Inl _) \<Rightarrow> (Finished (Inr (out\<lparr>lo_request := r\<rparr>)), rt)
                       | Some (Inr v) \<Rightarrow> (Finished (Inr (out\<lparr>lo_request := inject_traceparent_value v r\<rparr>)), rt)))))"

section \<open>Execution intercepts\<close>

primrec run_llm_program ::
    "('s, 'b) llm_program \<Rightarrow> (llm_request \<Rightarrow> ('s, 'b flow_result) effect) \<Rightarrow> ('s, 'b flow_result) effect" where
  "run_llm_program (LlmSettle r) next s = (r, s)"
| "run_llm_program (LlmNext request k) next s = (case next request s of
       (Finished r, s') \<Rightarrow> (let (run, s'') = map_prod run_llm_program id (k r s') in run next s'')
     | (Panicked, s') \<Rightarrow> (Panicked, s')
     | (Dropped, s') \<Rightarrow> (Dropped, s'))"

type_synonym ('f, 'w, 'b) llm_next = "llm_request \<Rightarrow> (('f, 'w) runtime, 'b flow_result) effect"

fun llm_build_execution_chain ::
    "('f \<Rightarrow> string \<Rightarrow> llm_request \<Rightarrow> ('f, 'w) runtime \<Rightarrow> (('f, 'w) runtime, 'b) llm_program \<times> ('f, 'w) runtime) \<Rightarrow>
     string \<Rightarrow> ('f, 'w, 'b) llm_next \<Rightarrow> ('f \<times> int) list \<Rightarrow> ('f, 'w, 'b) llm_next" where
  "llm_build_execution_chain as_execution name default_fn [] request rt = default_fn request rt"
| "llm_build_execution_chain as_execution name default_fn ((f, _) # fs) request rt =
     (let c = capture_continuation rt;
          next = (\<lambda>request. invoke_continuation c (llm_build_execution_chain as_execution name default_fn fs request));
          (program, rt) = as_execution f name request rt
      in run_llm_program program next rt)"

definition llm_execution_phase ::
    "('f, 'w, 'z) llm_host_scheme \<Rightarrow> ('f, 'w, json) llm_next \<Rightarrow> string \<Rightarrow> ('f, 'w, json) llm_next" where
  "llm_execution_phase sv func name request rt = (case visible_stack rt of
       Poisoned _ _ \<Rightarrow> (Panicked, rt)
     | Healthy s \<Rightarrow> (case rt_context rt of
         Poisoned m _ \<Rightarrow> (Finished (Inl (Internal m)), rt)
       | Healthy st \<Rightarrow>
           (let (matching, w) = merge_execution_intercept_callables (gates_of sv)
                  (llm_execution_intercepts (cx_registries (registry_snapshot [LlmExecutionIntercept] st)))
                  (collect_scope_local_registries llm_execution_intercepts s) LlmExecutionIntercept (rt_world rt)
            in llm_build_execution_chain (as_llm_execution sv) name func matching request (rt\<lparr>rt_world := w\<rparr>))))"

section \<open>The managed call\<close>

record llm_call_execute_params =
  lx_name :: string
  lx_request :: llm_request
  lx_parent :: "scope_handle option"
  lx_attributes :: attribute_bits
  lx_data :: "json option"
  lx_metadata :: "json option"
  lx_model_name :: "string option"
  lx_codec :: "llm_codec option"
  lx_response_codec :: "llm_response_codec option"

definition llm_guardrail_phase ::
    "('f, 'w, 'z) llm_host_scheme \<Rightarrow> llm_request \<Rightarrow> scope_handle option \<Rightarrow> json option \<Rightarrow>
     (('f, 'w) runtime, string option flow_result) effect" where
  "llm_guardrail_phase sv request parent metadata rt = (case visible_stack rt of
       Poisoned _ _ \<Rightarrow> (Panicked, rt)
     | Healthy s \<Rightarrow> (case rt_context rt of
         Poisoned m _ \<Rightarrow> (Finished (Inl (Internal m)), rt)
       | Healthy st \<Rightarrow>
           (let st = registry_snapshot [LlmConditionalExecutionGuardrail, Subscriber] st;
                (ents, w) = llm_conditional_execution_entries (gates_of sv) st
                  (collect_scope_local_registries llm_conditional_execution_guardrails s) (rt_world rt);
                (subscribers, w) = collect_event_subscribers (gates_of sv) (collect_scope_local_subscribers s) st w;
                rt = rt\<lparr>rt_world := w\<rparr>
            in case resolve_parent_uuid parent rt of
                 None \<Rightarrow> (Panicked, rt)
               | Some parent_uuid \<Rightarrow>
                   llm_conditional_execution_snapshot_chain (runtime_services sv) (guardrail_emitter sv subscribers)
                     (guardrail_pending subscribers) request (map (record_map (as_llm_guardrail sv)) ents) parent_uuid metadata rt)))"

definition reject_llm_call ::
    "('f, 'w, 'z) llm_host_scheme \<Rightarrow> llm_call_execute_params \<Rightarrow> string \<Rightarrow>
     (('f, 'w) runtime, 'a flow_result) effect" where
  "reject_llm_call sv lx reason rt =
     (case emit_mark sv \<lparr>em_name = lx_name lx, em_parent = lx_parent lx,
          em_data = Some (JObject [(''rejected'', JBool True), (''rejection_reason'', JString reason)]),
          em_data_schema = None, em_metadata = lx_metadata lx, em_severity = None, em_category = None,
          em_category_profile = None, em_timestamp = None\<rparr> rt of
        (Finished _, rt) \<Rightarrow> (Finished (Inl (GuardrailRejected reason)), rt)
      | (Panicked, rt) \<Rightarrow> (Panicked, rt)
      | (Dropped, rt) \<Rightarrow> (Dropped, rt))"

text \<open>
  From the intercepted request to the start of the span and the marks that follow it. The provider
  gets the request with a \<^verbatim>\<open>traceparent\<close>; the events describe it without.
\<close>

definition announce_llm_span ::
    "('f, 'w, 'z) llm_host_scheme \<Rightarrow> llm_codec option \<Rightarrow> intercepted_llm_request \<Rightarrow> live_llm_handle \<Rightarrow>
     (('f, 'w) runtime, (llm_request \<times> live_llm_handle \<times> 'f list) flow_result) effect" where
  "announce_llm_span sv codec i lv rt = (case i of (request, annotated, marks, contributions) \<Rightarrow>
     (case rt_stacks rt (lv_scope_stack lv) of
        Poisoned _ _ \<Rightarrow> (Panicked, rt)
      | Healthy s \<Rightarrow>
          (let (subs, w) = snapshot_event_subscribers sv (collect_scope_local_subscribers s) (rt_context rt) (rt_world rt);
               rt = rt\<lparr>rt_world := w\<rparr>
           in case subs of
                Inl e \<Rightarrow> (Finished (Inl e), rt)
              | Inr subscribers \<Rightarrow> (case inject_traceparent (lh_uuid (lv_handle lv)) rt request of
                    (Inl e, _) \<Rightarrow> (Finished (Inl e), rt)
                  | (Inr _, injected) \<Rightarrow>
                      try_then (queue_llm_start_with_subscribers sv lv request annotated codec subscribers rt)
                        (\<lambda>_ rt. try_then (emit_pending_request_marks sv lv marks subscribers rt)
                          (\<lambda>_ rt. (Finished (Inr (injected, lv, subscribers)),
                             emit_optimization_marks sv lv subscribers
                               (record_contributions sv (lv_recorder lv) contributions rt))))))))"

definition open_llm_span ::
    "('f, 'w, 'z) llm_host_scheme \<Rightarrow> llm_call_execute_params \<Rightarrow> uuid \<Rightarrow> nat \<Rightarrow> intercepted_llm_request \<Rightarrow>
     (('f, 'w) runtime, (llm_request \<times> live_llm_handle \<times> 'f list) flow_result) effect" where
  "open_llm_span sv lx u cell i rt = (case resolve_parent_uuid (lx_parent lx) rt of
       None \<Rightarrow> (Panicked, rt)
     | Some parent_uuid \<Rightarrow>
         try_then (create_live_llm_handle sv
           \<lparr>cl_name = lx_name lx, cl_uuid = Some u, cl_parent_uuid = parent_uuid, cl_attributes = lx_attributes lx,
            cl_data = lx_data lx, cl_metadata = lx_metadata lx, cl_model_name = lx_model_name lx,
            cl_timestamp = None\<rparr> rt)
           (\<lambda>lv. announce_llm_span sv (lx_codec lx) i (lv\<lparr>lv_recorder := cell\<rparr>)))"

text \<open>The first half of both managed calls: guardrails, request intercepts and the start of the span.\<close>

definition begin_managed_llm ::
    "('f, 'w, 'z) llm_host_scheme \<Rightarrow> llm_call_execute_params \<Rightarrow>
     (('f, 'w) runtime, (llm_request \<times> live_llm_handle \<times> 'f list) flow_result) effect" where
  "begin_managed_llm sv lx rt =
     try_then (llm_guardrail_phase sv (lx_request lx) (lx_parent lx) (lx_metadata lx) rt)
       (\<lambda>rejection. case rejection of
            Some reason \<Rightarrow> reject_llm_call sv lx reason
          | None \<Rightarrow> (\<lambda>rt.
              let (u, w) = new_uuid sv (rt_world rt);
                  (cell, w) = new_recorder_cell sv w
              in try_then (run_request_intercepts_with_codec sv (lx_name lx) (lx_request lx) (lx_codec lx) (Some cell)
                     (rt\<lparr>rt_world := w\<rparr>))
                   (open_llm_span sv lx u cell)))"

definition managed_llm_execution ::
    "('f, 'w, 'z) llm_host_scheme \<Rightarrow> ('f, 'w, json) llm_next \<Rightarrow> llm_call_execute_params \<Rightarrow> llm_request \<Rightarrow>
     live_llm_handle \<Rightarrow> 'f list \<Rightarrow> (('f, 'w) runtime, json flow_result) effect" where
  "managed_llm_execution sv func lx request lv subscribers rt =
     (let (mc, rt) = llm_completion_new lv (lx_metadata lx) (lx_response_codec lx) subscribers rt
      in case with_active_event_uuid (lh_uuid (lv_handle lv)) (llm_execution_phase sv func (lx_name lx) request) rt of
           (Finished (Inr response), rt) \<Rightarrow>
             (case llm_call_end_with_behavior sv
                \<lparr>le_handle = lv, le_response = response, le_data = lx_data lx, le_metadata = lx_metadata lx,
                 le_annotated_response = None, le_response_codec = lx_response_codec lx, le_timestamp = None\<rparr>
                (Some subscribers) rt of
                (Finished (Inr _), rt) \<Rightarrow> (Finished (Inr response), disarm_llm_completion mc rt)
              | (Finished (Inl e), rt) \<Rightarrow> (Finished (Inl e), drop_llm_completion sv mc rt)
              | (Panicked, rt) \<Rightarrow> (Panicked, drop_llm_completion sv mc rt)
              | (Dropped, rt) \<Rightarrow> (Dropped, drop_llm_completion sv mc rt))
         | (Finished (Inl e), rt) \<Rightarrow>
             (case emit_llm_end_without_output sv lv (metadata_with_otel_error (lx_metadata lx) e) (lx_response_codec lx)
                (Some subscribers) rt of
                (Finished _, rt) \<Rightarrow> (Finished (Inl e), disarm_llm_completion mc rt)
              | (Panicked, rt) \<Rightarrow> (Panicked, drop_llm_completion sv mc rt)
              | (Dropped, rt) \<Rightarrow> (Dropped, drop_llm_completion sv mc rt))
         | (Panicked, rt) \<Rightarrow> (Panicked, drop_llm_completion sv mc rt)
         | (Dropped, rt) \<Rightarrow> (Dropped, drop_llm_completion sv mc rt))"

definition llm_call_execute ::
    "('f, 'w, 'z) llm_host_scheme \<Rightarrow> ('f, 'w, json) llm_next \<Rightarrow> llm_call_execute_params \<Rightarrow>
     (('f, 'w) runtime, json flow_result) effect" where
  "llm_call_execute sv func lx = owned_call (\<lambda>rt.
     try_then (begin_managed_llm sv lx rt)
       (\<lambda>(request, lv, subscribers). managed_llm_execution sv func lx request lv subscribers))"

definition llm_conditional_execution ::
    "('f, 'w, 'z) llm_host_scheme \<Rightarrow> llm_request \<Rightarrow> (('f, 'w) runtime, unit flow_result) effect" where
  "llm_conditional_execution sv request = owned_call (\<lambda>rt.
     try_then (llm_guardrail_phase sv request None None rt)
       (\<lambda>rejection rt. case rejection of
            Some reason \<Rightarrow> (Finished (Inl (GuardrailRejected reason)), rt)
          | None \<Rightarrow> (Finished (Inr ()), rt)))"

end
