(* ===== verification/Llm_Properties.thy ===== *)
theory Llm_Properties
  imports Llm_Api Tool_Properties
begin

text \<open>
  What the managed LLM pipeline guarantees: a span that was started is ended, and its end says how the
  call went.
\<close>

section \<open>Well-behaved callbacks\<close>

primrec llm_program_behaves :: "(('f, 'w) runtime, 'b) llm_program \<Rightarrow> ('f, 'w, 'z) host_scheme \<Rightarrow> bool" where
  "llm_program_behaves (LlmSettle r) sv \<longleftrightarrow> True"
| "llm_program_behaves (LlmNext request k) sv \<longleftrightarrow>
     (\<forall>r rt. ready sv rt \<longrightarrow> continues sv rt (snd (k r rt)) \<and> fst (map_prod llm_program_behaves id (k r rt)) sv)"

definition execution_behaves ::
    "('f, 'w, 'z) host_scheme \<Rightarrow>
     ('f \<Rightarrow> string \<Rightarrow> llm_request \<Rightarrow> ('f, 'w) runtime \<Rightarrow> (('f, 'w) runtime, 'b) llm_program \<times> ('f, 'w) runtime) \<Rightarrow> bool" where
  "execution_behaves sv g \<longleftrightarrow> (\<forall>f name request.
     behaves sv (g f name request) \<and> (\<forall>rt. llm_program_behaves (fst (g f name request rt)) sv))"

definition llm_callbacks_behave :: "('f, 'w, 'z) llm_host_scheme \<Rightarrow> bool" where
  "llm_callbacks_behave sv \<longleftrightarrow>
     (\<forall>f request. behaves sv (as_llm_guardrail sv f request)) \<and>
     (\<forall>f name request annotated. behaves sv (as_llm_intercept sv f name request annotated)) \<and>
     execution_behaves sv (as_llm_execution sv)"

section \<open>Queueing\<close>

lemma queue_transformed_observed:
  assumes "observed sv rt" and "healthy (rt_stacks rt i)"
  shows "continues sv rt (queue_transformed_event sv subs i e tr rt)" and "queues rt e (queue_transformed_event sv subs i e tr rt)"
proof -
  obtain s where s: "rt_stacks rt i = Healthy s" using assms(2) by (rule healthyE)
  obtain sans w where n: "snapshot_event_sanitizers sv e (rt_stacks rt i) (rt_context rt) (rt_world rt) = (Some sans, w)"
    by (rule snapshot_sanitizers_Some)
  have o: "observed sv (rt\<lparr>rt_world := w\<rparr>)" using assms(1) by simp
  have "delivered sv e (Some tr) sans subs s None (rt\<lparr>rt_world := w\<rparr>) (queue_transformed_event sv subs i e tr rt)"
    using transformed_observed [OF o, of e tr sans subs s] n s by (simp add: queue_transformed_event_def)
  from delivered_continues [OF o this] delivered_queues [OF this]
  show "continues sv rt (queue_transformed_event sv subs i e tr rt)" "queues rt e (queue_transformed_event sv subs i e tr rt)"
    by simp_all
qed

text \<open>A step that queues marks and nothing else.\<close>

definition marks_step :: "('f, 'w, 'z) host_scheme \<Rightarrow> ('f, 'w) runtime \<Rightarrow> ('f, 'w) runtime \<Rightarrow> bool" where
  "marks_step sv rt rt' \<longleftrightarrow> continues sv rt rt' \<and>
     (\<exists>ms. channel (rt_dispatcher rt') = channel (rt_dispatcher rt) @ ms \<and> marks_only ms)"

lemma marks_step_world: "observed sv rt \<Longrightarrow> marks_step sv rt (rt\<lparr>rt_world := w\<rparr>)"
  by (simp add: marks_step_def continues_world marks_only_def)

lemma marks_step_from_world [simp]: "marks_step sv (rt\<lparr>rt_world := w\<rparr>) rt' = marks_step sv rt rt'"
  by (simp add: marks_step_def)

lemma marks_step_refl: "observed sv rt \<Longrightarrow> marks_step sv rt rt"
  by (simp add: marks_step_def continues_refl marks_only_def)

lemma marks_step_trans [trans]:
  assumes "marks_step sv a b" and "marks_step sv b c" shows "marks_step sv a c"
proof -
  obtain m1 m2 where "channel (rt_dispatcher b) = channel (rt_dispatcher a) @ m1" "marks_only m1"
      "channel (rt_dispatcher c) = channel (rt_dispatcher b) @ m2" "marks_only m2"
    using assms unfolding marks_step_def by blast
  then have "channel (rt_dispatcher c) = channel (rt_dispatcher a) @ (m1 @ m2)" "marks_only (m1 @ m2)"
    by (auto simp: marks_only_def)
  then show ?thesis using assms continues_trans unfolding marks_step_def by blast
qed

lemma queues_mark_step:
  assumes "continues sv rt rt'" and "queues rt e rt'" and "event_kind e = ''mark''"
  shows "marks_step sv rt rt'"
proof -
  have "event_kind (queued_event s e) = ''mark''" for s
    using assms(3) by (cases e) (simp_all add: queued_event_def set_propagation_root_uuid_def set_propagation_parent_uuid_def)
  then show ?thesis using assms(1,2) by (auto simp: marks_step_def queues_def marks_only_def)
qed

lemma queue_request_marks_step:
  assumes "observed sv rt" and "healthy (rt_stacks rt (lv_scope_stack lv))" and "subs \<noteq> []"
  shows "marks_step sv rt (queue_request_marks sv lv subs ms rt)"
  using assms(1,2)
proof (induction ms arbitrary: rt)
  case (Cons m ms)
  show ?case
  proof (cases "metadata_with_log_severity (pm_metadata m) (pm_severity m)")
    case (Inr metadata)
    obtain u w where u: "new_uuid sv (rt_world rt) = (u, w)" by fastforce
    define e where "e = Mark (mark_event_new ((base_event_build (Some (lh_uuid (lv_handle lv))) u
        (lh_started_at (lv_handle lv) + 1000) (pm_name m) (pm_data m) metadata)
        \<lparr>be_data_schema := pm_data_schema m\<rparr>) (pm_category m) (pm_category_profile m))"
    let ?rt = "queue_sanitized_event sv subs (lv_scope_stack lv) e (rt\<lparr>rt_world := w\<rparr>)"
    have q: "continues sv rt ?rt" "queues rt e ?rt"
      using queue_sanitized_event_observed [of sv "rt\<lparr>rt_world := w\<rparr>" "lv_scope_stack lv" subs e] Cons.prems assms(3)
      by simp_all
    have "marks_step sv rt ?rt" by (rule queues_mark_step [OF q]) (simp add: e_def)
    also have "marks_step sv ?rt (queue_request_marks sv lv subs ms ?rt)"
      using Cons.IH [of ?rt] q(1) Cons.prems(2) by (simp add: continues_def)
    finally show ?thesis by (simp add: Inr u e_def)
  qed (use Cons in simp)
qed (simp add: marks_step_refl)

lemma queue_optimization_marks_step:
  assumes "observed sv rt" and "healthy (rt_stacks rt (lv_scope_stack lv))" and "subs \<noteq> []"
  shows "marks_step sv rt (queue_optimization_marks sv lv subs cs rt)"
  using assms(1,2)
proof (induction cs arbitrary: rt)
  case (Cons x cs)
  obtain c t where x: "x = (c, t)" by fastforce
  obtain u w where u: "new_uuid sv (rt_world rt) = (u, w)" by fastforce
  obtain s where s: "rt_stacks rt (lv_scope_stack lv) = Healthy s" using Cons.prems(2) by (rule healthyE)
  define e where "e = optimization_mark_event sv (lv_handle lv) u c t"
  obtain sans w1 where n: "snapshot_event_sanitizers sv e (Healthy s) (rt_context rt) w = (Some sans, w1)"
    by (rule snapshot_sanitizers_Some)
  have o: "observed sv (rt\<lparr>rt_world := w1\<rparr>)" using Cons.prems(1) by simp
  obtain rt1 where d: "dispatch_sanitized_event sv e sans subs (Healthy s) (rt\<lparr>rt_world := w1\<rparr>) = (True, rt1)"
      "delivered sv e None sans subs s None (rt\<lparr>rt_world := w1\<rparr>) rt1"
    using enqueue_delivery_observed [OF o, of e None sans subs s None] assms(3)
    by (metis dispatch_sanitized_event_def snapshot_scope_stack_Healthy sum.case(2))
  let ?rt = "rt1\<lparr>rt_world := update_recorder sv (lv_recorder lv) (mark_emitted 1) (rt_world rt1)\<rparr>"
  have c: "continues sv rt rt1" "queues rt e rt1" using delivered_continues [OF o d(2)] delivered_queues [OF d(2)] by simp_all
  have "marks_step sv rt rt1" by (rule queues_mark_step [OF c]) (simp add: e_def optimization_mark_event_def Let_def)
  also have "marks_step sv rt1 (queue_optimization_marks sv lv subs cs ?rt)"
    using Cons.IH [of ?rt] c(1) Cons.prems(2) by (simp add: continues_def)
  finally show ?case using x u n d(1) s by (simp add: e_def [symmetric])
qed (simp add: marks_step_refl)

lemma emit_optimization_marks_step:
  assumes "ready sv rt" and "healthy (rt_stacks rt (lv_scope_stack lv))" and "subs \<noteq> []"
  shows "marks_step sv rt (emit_optimization_marks sv lv subs rt)"
proof -
  have "observed sv rt" using assms(1) by (simp add: ready_def)
  moreover have "rt\<lparr>rt_process := rt_process rt\<rparr> = rt" by simp
  ultimately show ?thesis
    using queue_optimization_marks_step [of sv rt lv subs] assms marks_step_refl
    by (auto simp: emit_optimization_marks_def ready_def owned_def split: list.splits)
qed

section \<open>Ending a span\<close>

text \<open>The end event of a call, up to its time and its data.\<close>

definition llm_end_queued :: "llm_handle \<Rightarrow> json option \<Rightarrow> ('f, 'w) runtime \<Rightarrow> ('f, 'w) runtime \<Rightarrow> bool" where
  "llm_end_queued h metadata rt rt' \<longleftrightarrow> (\<exists>now d ts. queues_around rt
     (build_llm_end_event now \<lparr>eh_handle = h, eh_data = d, eh_metadata = metadata, eh_timestamp = ts\<rparr> None) rt')"

lemma llm_end_queuedI:
  assumes "continues sv rt rt1" and "queues_around rt1
    (build_llm_end_event now \<lparr>eh_handle = h, eh_data = d, eh_metadata = metadata, eh_timestamp = ts\<rparr> None) rt'"
  shows "llm_end_queued h metadata rt rt'"
  unfolding llm_end_queued_def using queues_around_pre [OF assms] by blast

lemma llm_end_queued_drop_pending:
  assumes "observed sv rt1" and "llm_end_queued h m rt rt1"
  shows "llm_end_queued h m rt (drop_pending p rt1)"
  using assms(2) drop_pending_steps [OF assms(1), of p] queues_around_post unfolding llm_end_queued_def by metis

lemma ready_healthy_context: "ready sv rt \<Longrightarrow> (\<And>st. rt_context rt = Healthy st \<Longrightarrow> P) \<Longrightarrow> P"
  by (auto simp: ready_def observed_def subscribed_def)

lemma prepare_llm_end_ready:
  assumes r: "ready sv rt" and s: "rt_stacks rt (lv_scope_stack lv) = Healthy s" and subs: "subs \<noteq> []"
  obtains ents rt' where "prepare_llm_end sv lv (Some subs) s rt = (Finished (Inr (ents, subs)), rt')" "continues sv rt rt'"
proof -
  obtain st where st: "rt_context rt = Healthy st" using r by (rule ready_healthy_context)
  obtain ents w where en: "llm_sanitize_response_entries (gates_of sv) (registry_snapshot [LlmSanitizeResponseGuardrail] st)
      (collect_scope_local_registries llm_sanitize_response_guardrails s) (rt_world rt) = (ents, w)" by fastforce
  let ?w = "update_recorder sv (lv_recorder lv) (snd \<circ> close_for_finalization None) w"
  have "marks_step sv (rt\<lparr>rt_world := ?w\<rparr>) (emit_optimization_marks sv lv subs (rt\<lparr>rt_world := ?w\<rparr>))"
    by (rule emit_optimization_marks_step) (use r s subs in simp_all)
  then have "continues sv rt (emit_optimization_marks sv lv subs (rt\<lparr>rt_world := ?w\<rparr>))" by (simp add: marks_step_def)
  then show ?thesis using that st en by (simp add: prepare_llm_end_def)
qed

lemma llm_end_ready:
  assumes r: "ready sv rt" and s: "healthy (rt_stacks rt (lv_scope_stack (le_handle le)))" and subs: "subs \<noteq> []"
  obtains rt' where "llm_call_end_with_behavior sv le (Some subs) rt = (Finished (Inr ()), rt')" "continues sv rt rt'"
    "llm_end_queued (lv_handle (le_handle le)) (metadata_with_otel_status (le_metadata le) ''OK'' None) rt rt'"
proof -
  let ?lv = "le_handle le"
  obtain ts w where c: "read_clock sv (le_timestamp le) (rt_world rt) = (ts, w)" by fastforce
  let ?rt = "rt\<lparr>rt_world := w\<rparr>"
  have r': "ready sv ?rt" using r by simp
  obtain st where st: "rt_stacks ?rt (lv_scope_stack ?lv) = Healthy st" using s by (auto elim: healthyE)
  obtain ents rt1 where p: "prepare_llm_end sv ?lv (Some subs) st ?rt = (Finished (Inr (ents, subs)), rt1)" "continues sv ?rt rt1"
    by (rule prepare_llm_end_ready [OF r' st subs])
  let ?e = "build_llm_end_event ts \<lparr>eh_handle = lv_handle ?lv, eh_data = Some JNull,
      eh_metadata = metadata_with_otel_status (le_metadata le) ''OK'' None, eh_timestamp = Some ts\<rparr> None"
  let ?tr = "llm_end_transform sv ?lv (le_response le) (le_data le) (le_metadata le) (le_annotated_response le)
      (le_response_codec le) (map (record_map (as_llm_response_sanitizer sv)) ents) (Some ts)"
  let ?rt' = "queue_transformed_event sv subs (lv_scope_stack ?lv) ?e ?tr rt1"
  have o: "observed sv rt1" "healthy (rt_stacks rt1 (lv_scope_stack ?lv))" using p(2) s by (simp_all add: continues_def)
  note q = queue_transformed_observed [OF o, where subs = subs and e = ?e and tr = ?tr]
  have "llm_call_end_with_behavior sv le (Some subs) rt = (Finished (Inr ()), ?rt')"
    using c p(1) st by (simp add: llm_call_end_with_behavior_def owned_call_ready [OF r'] try_then_def Let_def)
  moreover have "continues sv rt rt1" using p(2) by simp
  ultimately show ?thesis
    using that continues_trans q(1) llm_end_queuedI [OF _ queues_is_around [OF q(2)]] by blast
qed

lemma llm_end_without_output_ready:
  assumes r: "ready sv rt" and s: "healthy (rt_stacks rt (lv_scope_stack lv))" and subs: "subs \<noteq> []"
  obtains rt' where "emit_llm_end_without_output sv lv metadata codec (Some subs) rt = (Finished (Inr ()), rt')"
    "continues sv rt rt'" "llm_end_queued (lv_handle lv) metadata rt rt'"
proof -
  obtain ts w where c: "clock sv (rt_world rt) = (ts, w)" by fastforce
  let ?rt = "rt\<lparr>rt_world := w\<rparr>"
  have r': "ready sv ?rt" using r by simp
  obtain st where st: "rt_stacks ?rt (lv_scope_stack lv) = Healthy st" using s by (auto elim: healthyE)
  obtain ents rt1 where p: "prepare_llm_end sv lv (Some subs) st ?rt = (Finished (Inr (ents, subs)), rt1)" "continues sv ?rt rt1"
    by (rule prepare_llm_end_ready [OF r' st subs])
  let ?e = "build_llm_end_event ts \<lparr>eh_handle = lv_handle lv, eh_data = Some JNull, eh_metadata = metadata, eh_timestamp = Some ts\<rparr> None"
  let ?tr = "llm_end_without_output_transform sv lv metadata codec (map (record_map (as_llm_response_sanitizer sv)) ents) ts"
  let ?rt' = "queue_transformed_event sv subs (lv_scope_stack lv) ?e ?tr rt1"
  have o: "observed sv rt1" "healthy (rt_stacks rt1 (lv_scope_stack lv))" using p(2) s by (simp_all add: continues_def)
  note q = queue_transformed_observed [OF o, where subs = subs and e = ?e and tr = ?tr]
  have "emit_llm_end_without_output sv lv metadata codec (Some subs) rt = (Finished (Inr ()), ?rt')"
    using c p(1) st by (simp add: emit_llm_end_without_output_def owned_call_ready [OF r] try_then_def)
  moreover have "continues sv rt rt1" using p(2) by simp
  ultimately show ?thesis
    using that continues_trans q(1) llm_end_queuedI [OF _ queues_is_around [OF q(2)]] by blast
qed

lemma drop_llm_completion_ends:
  assumes r: "ready sv rt" and s: "healthy (rt_stacks rt (lv_scope_stack lv))" and subs: "subs \<noteq> []"
    and mc: "ml_handle mc = Some lv" "ml_subscribers mc = subs"
  shows "llm_end_queued (lv_handle lv) (metadata_with_otel_status (ml_metadata mc) ''ERROR'' (Some ''LLM execution cancelled'')) rt
    (drop_llm_completion sv mc rt)"
proof -
  let ?m = "metadata_with_otel_status (ml_metadata mc) ''ERROR'' (Some ''LLM execution cancelled'')"
  obtain ents w where en: "response_sanitizers sv (lv_scope_stack lv) rt = (ents, w)" by fastforce
  define w1 where "w1 = update_recorder sv (lv_recorder lv) (snd \<circ> close_for_finalization (Some ''execution_cancelled'')) w"
  define rt1 where "rt1 = emit_optimization_marks sv lv subs (rt\<lparr>rt_world := w1\<rparr>)"
  have "marks_step sv (rt\<lparr>rt_world := w1\<rparr>) rt1"
    unfolding rt1_def by (rule emit_optimization_marks_step) (use r s subs in simp_all)
  then have c: "continues sv rt rt1" by (simp add: marks_step_def)
  then obtain st where st: "rt_context rt1 = Healthy st" using ready_continues [OF r c] by (auto elim: ready_healthy_context)
  obtain now w2 where t: "clock sv (rt_world rt1) = (now, w2)" by fastforce
  let ?e = "end_llm_handle now (lv_handle lv) None ?m None"
  let ?tr = "llm_cancelled_transform sv lv ?m (ml_response_codec mc) (map_option (map (record_map (as_llm_response_sanitizer sv))) ents)"
  have o: "observed sv (rt1\<lparr>rt_world := w2\<rparr>)" "healthy (rt_stacks (rt1\<lparr>rt_world := w2\<rparr>) (lv_scope_stack lv))"
    using c s by (simp_all add: continues_def)
  note q = queue_transformed_observed [OF o, where subs = subs and e = ?e and tr = ?tr]
  have eq: "cancel_llm sv lv ?m (ml_response_codec mc) subs rt =
      queue_transformed_event sv subs (lv_scope_stack lv) ?e ?tr (rt1\<lparr>rt_world := w2\<rparr>)"
    using en st t by (simp add: cancel_llm_def w1_def [symmetric] rt1_def [symmetric])
  have "llm_end_queued (lv_handle lv) ?m rt (cancel_llm sv lv ?m (ml_response_codec mc) subs rt)"
    unfolding eq using queues_is_around [OF q(2)] by (intro llm_end_queuedI [OF c]) (simp add: end_llm_handle_def queues_around_def)
  moreover have "observed sv (cancel_llm sv lv ?m (ml_response_codec mc) subs rt)"
    using q(1) by (simp add: eq continues_def)
  ultimately show ?thesis using llm_end_queued_drop_pending mc by (auto simp: drop_llm_completion_def)
qed

section \<open>The phases\<close>

lemma run_llm_program_continues:
  assumes "ready sv rt" and "llm_program_behaves p sv" and "\<And>request. behaves sv (next request)"
    and "run_llm_program p next rt = (r, rt')"
  shows "continues sv rt rt'"
  using assms
proof (induction p arbitrary: rt)
  case (LlmSettle q)
  then show ?case by (simp add: continues_refl ready_def)
next
  case (LlmNext request k)
  obtain q rt1 where q: "next request rt = (q, rt1)" by fastforce
  have c1: "continues sv rt rt1" by (rule behavesD [OF LlmNext.prems(3) LlmNext.prems(1) q])
  have r1: "ready sv rt1" by (rule ready_continues [OF LlmNext.prems(1) c1])
  show ?case
  proof (cases q)
    case (Finished x)
    obtain p' rt2 where k: "k x rt1 = (p', rt2)" by fastforce
    have c2: "continues sv rt1 rt2" and p': "llm_program_behaves p' sv"
      using LlmNext.prems(2) r1 k by (auto dest!: spec [of _ x] spec [of _ rt1])
    have "run_llm_program p' next rt2 = (r, rt')" using LlmNext.prems(4) q Finished k by simp
    moreover have "(p', rt2) \<in> range (k x)" using k by (metis rangeI)
    ultimately have "continues sv rt2 rt'"
      using LlmNext.IH [of "k x" "(p', rt2)" p'] ready_continues [OF r1 c2] p' LlmNext.prems(3) by simp
    then show ?thesis using continues_trans [OF c1] continues_trans [OF c2] by blast
  qed (use LlmNext.prems(4) q c1 in auto)
qed

lemma llm_execution_chain_behaves:
  assumes "execution_behaves sv g" and "\<And>request. behaves sv (func request)"
  shows "behaves sv (llm_build_execution_chain g name func fs request)"
proof (induction fs arbitrary: request)
  case Nil
  then show ?case using assms(2) by (simp add: behaves_def)
next
  case (Cons p fs)
  obtain f pr where p: "p = (f, pr)" by fastforce
  show ?case
    unfolding behaves_def
  proof (intro allI impI)
    fix rt
    assume r: "ready sv rt"
    let ?next = "\<lambda>a. invoke_continuation (capture_continuation rt) (llm_build_execution_chain g name func fs a)"
    obtain prog rt1 where e: "g f name request rt = (prog, rt1)" by fastforce
    have c1: "continues sv rt rt1" using assms(1) r e unfolding execution_behaves_def by (metis behavesD)
    have pb: "llm_program_behaves prog sv" using assms(1) e unfolding execution_behaves_def by (metis fst_conv)
    obtain q rt2 where q: "run_llm_program prog ?next rt1 = (q, rt2)" by fastforce
    have "continues sv rt1 rt2"
      by (rule run_llm_program_continues [OF ready_continues [OF r c1] pb _ q])
         (rule invoke_continuation_continues [OF Cons.IH])
    then have "continues sv rt rt2" by (rule continues_trans [OF c1])
    then show "continues sv rt (snd (llm_build_execution_chain g name func (p # fs) request rt))"
      using e q by (simp add: p Let_def)
  qed
qed

lemma llm_execution_phase_behaves:
  assumes "llm_callbacks_behave sv" and "\<And>request. behaves sv (func request)"
  shows "behaves sv (llm_execution_phase sv func name request)"
  unfolding behaves_def
proof (intro allI impI)
  fix rt
  assume r: "ready sv rt"
  obtain s where s: "visible_stack rt = Healthy s" using r by (auto simp: ready_def elim: healthyE)
  obtain st where st: "rt_context rt = Healthy st" using r by (rule ready_healthy_context)
  obtain fs w where m: "merge_execution_intercept_callables (gates_of sv)
      (llm_execution_intercepts (cx_registries (registry_snapshot [LlmExecutionIntercept] st)))
      (collect_scope_local_registries llm_execution_intercepts s) LlmExecutionIntercept (rt_world rt) = (fs, w)"
    by fastforce
  have "behaves sv (llm_build_execution_chain (as_llm_execution sv) name func fs request)"
    using assms by (intro llm_execution_chain_behaves) (simp_all add: llm_callbacks_behave_def)
  then have "continues sv (rt\<lparr>rt_world := w\<rparr>) (snd (llm_build_execution_chain (as_llm_execution sv) name func fs request (rt\<lparr>rt_world := w\<rparr>)))"
    using ready_update [THEN iffD2, OF r] unfolding behaves_def by blast
  then show "continues sv rt (snd (llm_execution_phase sv func name request rt))"
    using s st m by (simp add: llm_execution_phase_def)
qed

lemma llm_guardrail_phase_behaves:
  assumes "llm_callbacks_behave sv"
  shows "behaves sv (llm_guardrail_phase sv request parent m)"
  unfolding behaves_def
proof (intro allI impI)
  fix rt
  assume r: "ready sv rt"
  obtain s where s: "visible_stack rt = Healthy s" using r by (auto simp: ready_def elim: healthyE)
  obtain st where st: "rt_context rt = Healthy st" using r by (rule ready_healthy_context)
  let ?st = "registry_snapshot [LlmConditionalExecutionGuardrail, Subscriber] st"
  obtain ents w1 where e: "llm_conditional_execution_entries (gates_of sv) ?st
      (collect_scope_local_registries llm_conditional_execution_guardrails s) (rt_world rt) = (ents, w1)" by fastforce
  obtain subs w2 where c: "collect_event_subscribers (gates_of sv) (collect_scope_local_subscribers s) ?st w1 = (subs, w2)"
    by fastforce
  have r2: "ready sv (rt\<lparr>rt_world := w2\<rparr>)" using r by simp
  show "continues sv rt (snd (llm_guardrail_phase sv request parent m rt))"
  proof (cases "resolve_parent_uuid parent (rt\<lparr>rt_world := w2\<rparr>)")
    case None
    then show ?thesis using s st e c r continues_world [of sv rt w2] by (simp add: llm_guardrail_phase_def ready_def)
  next
    case (Some pu)
    obtain q rt' where q: "llm_conditional_execution_snapshot_chain (runtime_services sv) (guardrail_emitter sv subs)
        (guardrail_pending subs) request (map (record_map (as_llm_guardrail sv)) ents) pu m (rt\<lparr>rt_world := w2\<rparr>) = (q, rt')" by fastforce
    have "continues sv (rt\<lparr>rt_world := w2\<rparr>) rt'"
      using q unfolding llm_conditional_execution_snapshot_chain_def
      by (rule conditional_continues [OF r2, rotated])
         (use assms in \<open>auto simp: llm_callbacks_behave_def new_record_def\<close>)
    then show ?thesis using Some s st e c q by (simp add: llm_guardrail_phase_def)
  qed
qed

lemma llm_intercept_loop_continues:
  assumes "ready sv rt" and "\<And>x request annotated. x \<in> set xs \<Longrightarrow> behaves sv (callable (rr_payload x) name request annotated)"
    and "\<And>rec cs rt. recorder = Some rec \<Longrightarrow> ready sv rt \<Longrightarrow> continues sv rt (rec cs rt)"
    and "llm_intercept_loop name codec_active recorder xs acc rt = (r, rt')"
  shows "continues sv rt rt'"
  using assms(1,2,4)
proof (induction xs arbitrary: acc rt)
  case Nil
  then show ?case by (simp add: continues_refl ready_def)
next
  case (Cons x xs)
  obtain q rt1 where q: "callable (rr_payload x) name (lo_request acc) (lo_annotated_request acc) rt = (q, rt1)" by fastforce
  have c: "continues sv rt rt1" by (rule behavesD [OF Cons.prems(2) Cons.prems(1) q]) simp
  have r1: "ready sv rt1" by (rule ready_continues [OF Cons.prems(1) c])
  let ?rt2 = "\<lambda>cs. case recorder of Some f \<Rightarrow> f cs rt1 | None \<Rightarrow> rt1"
  have c2: "continues sv rt (?rt2 cs)" for cs
    using continues_trans [OF c] assms(3) [OF _ r1] c by (auto split: option.splits)
  have "rt' = rt1 \<or> (\<exists>cs. rt' = ?rt2 cs) \<or> (\<exists>cs acc'. llm_intercept_loop name codec_active recorder xs acc' (?rt2 cs) = (r, rt'))"
    using Cons.prems(3) q by (auto simp: Let_def split: outcome.splits sum.splits if_splits)
  then consider "rt' = rt1" | cs where "rt' = ?rt2 cs"
    | cs acc' where "llm_intercept_loop name codec_active recorder xs acc' (?rt2 cs) = (r, rt')" by blast
  then show ?case
  proof cases
    case 3
    have "continues sv (?rt2 cs) rt'"
      by (rule Cons.IH [OF ready_continues [OF Cons.prems(1) c2] _ 3]) (use Cons.prems(2) in simp)
    then show ?thesis by (rule continues_trans [OF c2])
  qed (use c c2 in simp_all)
qed

lemma record_contributions_continues: "ready sv rt \<Longrightarrow> continues sv rt (record_contributions sv cell cs rt)"
  by (simp add: record_contributions_def split_beta Let_def continues_world ready_def)

lemma try_then_Finished_continues:
  assumes "continues sv rt (snd p)" and "\<And>a s. continues sv rt s \<Longrightarrow> continues sv rt (snd (k a s))"
  shows "continues sv rt (snd (try_then p k))"
  using assms by (cases p) (auto simp: try_then_def split: outcome.splits sum.splits)

lemma run_request_intercepts_behaves:
  assumes "llm_callbacks_behave sv"
  shows "behaves sv (run_request_intercepts_with_codec sv name request codec cell)"
  unfolding behaves_def
proof (intro allI impI)
  fix rt
  assume r: "ready sv rt"
  then have o: "continues sv rt rt" by (simp add: ready_def continues_refl)
  obtain s where s: "visible_stack rt = Healthy s" using r by (auto simp: ready_def elim: healthyE)
  obtain st where st: "rt_context rt = Healthy st" using r by (rule ready_healthy_context)
  obtain ents w where e: "llm_request_intercept_entries (gates_of sv) (registry_snapshot [LlmRequestIntercept] st)
      (collect_scope_local_registries llm_request_intercepts s) (rt_world rt) = (ents, w)" by fastforce
  have r2: "ready sv (rt\<lparr>rt_world := w\<rparr>)" using r by simp
  have c: "continues sv rt (snd (llm_request_intercepts_snapshot_chain_with_recorder name request annotated
      (live_llm_intercepts sv ents) (codec \<noteq> None) (map_option (record_contributions sv) cell) (rt\<lparr>rt_world := w\<rparr>)))" for annotated
  proof -
    obtain q rt' where q: "llm_request_intercepts_snapshot_chain_with_recorder name request annotated
        (live_llm_intercepts sv ents) (codec \<noteq> None) (map_option (record_contributions sv) cell) (rt\<lparr>rt_world := w\<rparr>) = (q, rt')"
      by fastforce
    have "continues sv (rt\<lparr>rt_world := w\<rparr>) rt'"
      by (rule llm_intercept_loop_continues [OF r2 _ _ q [unfolded llm_request_intercepts_snapshot_chain_with_recorder_def]])
         (use assms record_contributions_continues in \<open>auto simp: llm_callbacks_behave_def new_record_def new_request_intercept_def\<close>)
    then show ?thesis using q by simp
  qed
  show "continues sv rt (snd (run_request_intercepts_with_codec sv name request codec cell rt))"
    using s st e o c
    by (simp add: run_request_intercepts_with_codec_def try_then_Finished_continues split: sum.split)
qed

section \<open>Opening a span\<close>

lemma create_live_llm_handle_ready:
  assumes r: "ready sv rt" and "create_live_llm_handle sv p rt = (Finished (Inr lv), rt')"
  shows "continues sv rt rt'" and "rt_bindings rt' = rt_bindings rt" and "lv_scope_stack lv = current_scope_stack (rt_bindings rt)"
proof -
  obtain st where "rt_context rt = Healthy st" using r by (rule ready_healthy_context)
  then show "continues sv rt rt'" "rt_bindings rt' = rt_bindings rt" "lv_scope_stack lv = current_scope_stack (rt_bindings rt)"
    using assms continues_world [of sv rt]
    by (auto simp: create_live_llm_handle_def owned_call_ready [OF r] split_beta Let_def ready_def)
qed

lemma stack_update_continues: "observed sv rt \<Longrightarrow> continues sv rt (rt\<lparr>rt_stacks := (rt_stacks rt)(i := Healthy s)\<rparr>)"
  by (simp add: continues_def observed_def)

lemma queue_llm_start_ready:
  assumes r: "ready sv rt" and "queue_llm_start_with_subscribers sv lv request annotated codec subs rt = (Finished (Inr ()), rt')"
  shows "continues sv rt rt'" and "queues rt (build_llm_start_event (lv_handle lv) None None) rt'"
    and "healthy (rt_stacks rt' (lv_scope_stack lv))"
proof -
  obtain st where st: "rt_context rt = Healthy st" using r by (rule ready_healthy_context)
  let ?st = "registry_snapshot [LlmSanitizeRequestGuardrail] st"
  obtain s where s: "rt_stacks rt (lv_scope_stack lv) = Healthy s"
    using assms(2) by (auto simp: queue_llm_start_with_subscribers_def owned_call_ready [OF r] split: rwlock.splits)
  obtain ents w where en: "llm_sanitize_request_entries (gates_of sv) ?st
      (collect_scope_local_registries llm_sanitize_request_guardrails s) (rt_world rt) = (ents, w)" by fastforce
  obtain fresh s' where "take_agent_freshness (lh_parent_uuid (lv_handle lv)) s = (Some fresh, s')"
    and rt': "rt' = queue_llm_start sv lv request annotated codec (observability_full_payloads_enabled ?st) fresh ents subs
      (rt\<lparr>rt_world := w, rt_stacks := (rt_stacks rt)(lv_scope_stack lv := Healthy s')\<rparr>)"
    using assms(2) st s en by (auto simp: queue_llm_start_with_subscribers_def owned_call_ready [OF r] Let_def
        split: prod.splits option.splits)
  let ?rt = "rt\<lparr>rt_world := w, rt_stacks := (rt_stacks rt)(lv_scope_stack lv := Healthy s')\<rparr>"
  have c: "continues sv rt ?rt"
    using stack_update_continues [of sv "rt\<lparr>rt_world := w\<rparr>" "lv_scope_stack lv" s'] r by (simp add: ready_def)
  have o: "observed sv ?rt" "healthy (rt_stacks ?rt (lv_scope_stack lv))" using c by (simp_all add: continues_def)
  let ?tr = "llm_start_transform sv (lv_handle lv) (remove_observability_credential_headers request) annotated codec
      (observability_full_payloads_enabled ?st) fresh (map (record_map (as_llm_request_sanitizer sv)) ents)"
  note q = queue_transformed_observed [OF o, where subs = subs and e = "build_llm_start_event (lv_handle lv) None None" and tr = ?tr]
  show "continues sv rt rt'" using continues_trans [OF c q(1)] by (simp add: rt' queue_llm_start_def)
  show "queues rt (build_llm_start_event (lv_handle lv) None None) rt'"
    using q(2) by (simp add: rt' queue_llm_start_def queues_def)
  show "healthy (rt_stacks rt' (lv_scope_stack lv))"
    using q(1) o(2) by (simp add: rt' queue_llm_start_def continues_def)
qed

lemma emit_pending_request_marks_step:
  assumes "ready sv rt" and "healthy (rt_stacks rt (lv_scope_stack lv))" and "subs \<noteq> []"
  shows "marks_step sv rt (snd (emit_pending_request_marks sv lv marks subs rt))"
  using assms queue_request_marks_step [of sv rt lv subs marks] marks_step_refl [of sv rt]
  by (simp add: emit_pending_request_marks_def owned_call_ready [OF assms(1)] ready_def)

lemma announce_llm_span_opens:
  assumes r: "ready sv rt" and a: "announce_llm_span sv codec i lv rt = (Finished (Inr (sent, lv', subs)), rt')"
  shows "continues sv rt rt'" and "subs \<noteq> []" and "queues_around rt (build_llm_start_event (lv_handle lv) None None) rt'"
    and "healthy (rt_stacks rt' (lv_scope_stack lv))" and "lv' = lv"
proof -
  obtain request annotated marks contributions where i: "i = (request, annotated, marks, contributions)" by (metis prod_cases4)
  obtain s where s: "rt_stacks rt (lv_scope_stack lv) = Healthy s"
    using a by (auto simp: announce_llm_span_def i split: rwlock.splits)
  have "subscribed sv (rt_context rt)" using r by (simp add: ready_def observed_def)
  then obtain fs w where sn: "snapshot_event_subscribers sv (collect_scope_local_subscribers s) (rt_context rt) (rt_world rt) = (Inr fs, w)"
      "fs \<noteq> []" by (rule snapshot_subscribers_observed)
  obtain rt3 rt4 where "subs = fs" "lv' = lv"
    and st: "queue_llm_start_with_subscribers sv lv request annotated codec fs (rt\<lparr>rt_world := w\<rparr>) = (Finished (Inr ()), rt3)"
    and mk: "emit_pending_request_marks sv lv marks fs rt3 = (Finished (Inr ()), rt4)"
    and rt': "rt' = emit_optimization_marks sv lv fs (record_contributions sv (lv_recorder lv) contributions rt4)"
    using a s sn(1) by (auto simp: announce_llm_span_def i Let_def try_then_Inr split: prod.splits sum.splits)
  then show "subs \<noteq> []" "lv' = lv" using sn(2) by simp_all
  have r1: "ready sv (rt\<lparr>rt_world := w\<rparr>)" using r by simp
  note q = queue_llm_start_ready [OF r1 st]
  have c3: "continues sv rt rt3" using q(1) by simp
  have r3: "ready sv rt3" by (rule ready_continues [OF r c3])
  have m4: "marks_step sv rt3 rt4" using emit_pending_request_marks_step [OF r3 q(3) sn(2), of marks] mk by simp
  have c4: "continues sv rt3 rt4" using m4 by (simp add: marks_step_def)
  let ?rt5 = "record_contributions sv (lv_recorder lv) contributions rt4"
  have r5: "ready sv ?rt5"
    using ready_continues [OF r3 c4] record_contributions_continues ready_continues by blast
  have h5: "healthy (rt_stacks ?rt5 (lv_scope_stack lv))"
    using c4 q(3) by (simp add: continues_def record_contributions_def split_beta Let_def)
  have "marks_step sv ?rt5 rt'" unfolding rt' by (rule emit_optimization_marks_step [OF r5 h5 sn(2)])
  then have "marks_step sv rt4 rt'" by (simp add: record_contributions_def split_beta Let_def)
  with m4 have m: "marks_step sv rt3 rt'" by (rule marks_step_trans)
  show "continues sv rt rt'" using continues_trans [OF c3] m by (simp add: marks_step_def)
  show "healthy (rt_stacks rt' (lv_scope_stack lv))" using m q(3) by (simp add: marks_step_def continues_def)
  have "queues_around (rt\<lparr>rt_world := w\<rparr>) (build_llm_start_event (lv_handle lv) None None) rt'"
    using m queues_around_post [OF queues_is_around [OF q(2)]] unfolding marks_step_def by blast
  then show "queues_around rt (build_llm_start_event (lv_handle lv) None None) rt'" by (simp add: queues_around_def)
qed

lemma open_llm_span_opens:
  assumes r: "ready sv rt" and a: "open_llm_span sv lx u cell i rt = (Finished (Inr (sent, lv, subs)), rt')"
  shows "continues sv rt rt'" and "subs \<noteq> []" and "queues_around rt (build_llm_start_event (lv_handle lv) None None) rt'"
    and "healthy (rt_stacks rt' (lv_scope_stack lv))"
proof -
  obtain p lv0 rt1 where h: "create_live_llm_handle sv p rt = (Finished (Inr lv0), rt1)"
    and k: "announce_llm_span sv (lx_codec lx) i (lv0\<lparr>lv_recorder := cell\<rparr>) rt1 = (Finished (Inr (sent, lv, subs)), rt')"
    using a by (auto simp: open_llm_span_def try_then_Inr split: option.splits)
  have c: "continues sv rt rt1" by (rule create_live_llm_handle_ready(1) [OF r h])
  note o = announce_llm_span_opens [OF ready_continues [OF r c] k]
  show "continues sv rt rt'" by (rule continues_trans [OF c o(1)])
  show "subs \<noteq> []" by (rule o(2))
  show "queues_around rt (build_llm_start_event (lv_handle lv) None None) rt'" "healthy (rt_stacks rt' (lv_scope_stack lv))"
    using queues_around_pre [OF c o(3)] o(4,5) by simp_all
qed

lemma begin_managed_llm_opens:
  assumes b: "llm_callbacks_behave sv" and r: "ready sv rt"
    and "begin_managed_llm sv lx rt = (Finished (Inr (request, lv, subs)), rt')"
  shows "continues sv rt rt'" and "subs \<noteq> []" and "queues_around rt (build_llm_start_event (lv_handle lv) None None) rt'"
    and "healthy (rt_stacks rt' (lv_scope_stack lv))"
proof -
  have rej: "reject_llm_call sv lx reason q \<noteq> (Finished (Inr x), y)" for reason q x y
    by (auto simp: reject_llm_call_def split: prod.splits outcome.splits)
  from assms(3) obtain rt1 w u cell i rt2 where
      g: "llm_guardrail_phase sv (lx_request lx) (lx_parent lx) (lx_metadata lx) rt = (Finished (Inr None), rt1)"
    and i: "run_request_intercepts_with_codec sv (lx_name lx) (lx_request lx) (lx_codec lx) (Some cell) (rt1\<lparr>rt_world := w\<rparr>) =
      (Finished (Inr i), rt2)"
    and t: "open_llm_span sv lx u cell i rt2 = (Finished (Inr (request, lv, subs)), rt')"
    unfolding begin_managed_llm_def try_then_Inr by (auto simp: rej try_then_Inr split_beta Let_def split: option.splits)
  have c1: "continues sv rt rt1" by (rule behavesD [OF llm_guardrail_phase_behaves [OF b] r g])
  have r1: "ready sv (rt1\<lparr>rt_world := w\<rparr>)" using ready_continues [OF r c1] by simp
  have "continues sv rt1 rt2" using behavesD [OF run_request_intercepts_behaves [OF b] r1 i] by simp
  then have c: "continues sv rt rt2" by (rule continues_trans [OF c1])
  note o = open_llm_span_opens [OF ready_continues [OF r c] t]
  show "continues sv rt rt'" by (rule continues_trans [OF c o(1)])
  show "subs \<noteq> []" by (rule o(2))
  show "queues_around rt (build_llm_start_event (lv_handle lv) None None) rt'" by (rule queues_around_pre [OF c o(3)])
  show "healthy (rt_stacks rt' (lv_scope_stack lv))" by (rule o(4))
qed

section \<open>The managed call\<close>

lemma llm_completion_new_ready:
  assumes r: "ready sv rt" and "subs \<noteq> []" and "llm_completion_new lv m codec subs rt = (mc, rt')"
  shows "continues sv rt rt'" and "ml_handle mc = Some lv" and "ml_subscribers mc = subs" and "ml_metadata mc = m"
proof -
  obtain d p where p: "register_pending_publication (rt_dispatcher rt) = (p, d)" by fastforce
  have "continues sv rt (snd (managed_completion_new undefined m subs 0 rt))"
    by (rule completion_new(1) [OF r assms(2) prod.collapse [symmetric]])
  then show "continues sv rt rt'" using assms(2,3) p by (auto simp: managed_completion_new_def llm_completion_new_def)
  show "ml_handle mc = Some lv" "ml_subscribers mc = subs" "ml_metadata mc = m"
    using assms(2,3) p by (auto simp: llm_completion_new_def)
qed

text \<open>What the end event of a managed call says about its outcome.\<close>

definition completion_metadata :: "json option \<Rightarrow> 'a flow_result outcome \<Rightarrow> json option" where
  "completion_metadata m r = (case r of
       Finished (Inr _) \<Rightarrow> metadata_with_otel_status m ''OK'' None
     | Finished (Inl e) \<Rightarrow> metadata_with_otel_error m e
     | _ \<Rightarrow> metadata_with_otel_status m ''ERROR'' (Some ''LLM execution cancelled''))"

lemma managed_llm_execution_ends:
  assumes b: "llm_callbacks_behave sv" "\<And>request. behaves sv (func request)" and r: "ready sv rt" and subs: "subs \<noteq> []"
    and hs: "healthy (rt_stacks rt (lv_scope_stack lv))"
    and "managed_llm_execution sv func lx request lv subs rt = (q, rt')"
  shows "llm_end_queued (lv_handle lv) (completion_metadata (lx_metadata lx) q) rt rt'"
proof -
  obtain mc rt1 where mc: "llm_completion_new lv (lx_metadata lx) (lx_response_codec lx) subs rt = (mc, rt1)" by fastforce
  note new = llm_completion_new_ready [OF r subs mc]
  obtain p rt2 where ex: "with_active_event_uuid (lh_uuid (lv_handle lv)) (llm_execution_phase sv func (lx_name lx) request) rt1 = (p, rt2)"
    by fastforce
  have "continues sv rt1 rt2"
    by (rule behavesD [OF with_active_event_behaves [OF llm_execution_phase_behaves [OF b]] ready_continues [OF r new(1)] ex])
  then have c: "continues sv rt rt2" by (rule continues_trans [OF new(1)])
  have r2: "ready sv rt2" by (rule ready_continues [OF r c])
  have h2: "healthy (rt_stacks rt2 (lv_scope_stack lv))" using hs c by (simp add: continues_def)
  have dis: "llm_end_queued (lv_handle lv) m rt2 (disarm_llm_completion mc rt3)"
    if "continues sv rt2 rt3" "llm_end_queued (lv_handle lv) m rt2 rt3" for m rt3
    unfolding disarm_llm_completion_def
    by (rule llm_end_queued_drop_pending [of sv, OF _ that(2)]) (use that(1) in \<open>simp add: continues_def\<close>)
  have drop: "llm_end_queued (lv_handle lv) (metadata_with_otel_status (lx_metadata lx) ''ERROR'' (Some ''LLM execution cancelled'')) rt2
      (drop_llm_completion sv mc rt2)"
    using drop_llm_completion_ends [OF r2 h2 subs new(2,3)] new(4) by simp
  have "llm_end_queued (lv_handle lv) (completion_metadata (lx_metadata lx) q) rt2 rt'"
  proof (cases p)
    case (Finished res)
    show ?thesis
    proof (cases res)
      case (Inl e)
      obtain rt3 where e: "emit_llm_end_without_output sv lv (metadata_with_otel_error (lx_metadata lx) e) (lx_response_codec lx)
          (Some subs) rt2 = (Finished (Inr ()), rt3)" "continues sv rt2 rt3"
          "llm_end_queued (lv_handle lv) (metadata_with_otel_error (lx_metadata lx) e) rt2 rt3"
        by (rule llm_end_without_output_ready [OF r2 h2 subs])
      then have "q = Finished (Inl e)" "rt' = disarm_llm_completion mc rt3"
        using assms(6) mc ex Finished Inl by (simp_all add: managed_llm_execution_def)
      then show ?thesis using dis [OF e(2,3)] by (simp add: completion_metadata_def)
    next
      case (Inr response)
      let ?le = "\<lparr>le_handle = lv, le_response = response, le_data = lx_data lx, le_metadata = lx_metadata lx,
          le_annotated_response = None, le_response_codec = lx_response_codec lx, le_timestamp = None\<rparr>"
      have h: "healthy (rt_stacks rt2 (lv_scope_stack (le_handle ?le)))" using h2 by simp
      obtain rt3 where e: "llm_call_end_with_behavior sv ?le (Some subs) rt2 = (Finished (Inr ()), rt3)" "continues sv rt2 rt3"
          "llm_end_queued (lv_handle (le_handle ?le)) (metadata_with_otel_status (le_metadata ?le) ''OK'' None) rt2 rt3"
        by (rule llm_end_ready [OF r2 h subs])
      then have "q = Finished (Inr response)" "rt' = disarm_llm_completion mc rt3"
        using assms(6) mc ex Finished Inr by (simp_all add: managed_llm_execution_def)
      then show ?thesis using dis [OF e(2)] e(3) by (simp add: completion_metadata_def)
    qed
  qed (use assms(6) mc ex drop in \<open>auto simp: managed_llm_execution_def completion_metadata_def\<close>)
  then show ?thesis unfolding llm_end_queued_def using queues_around_pre [OF c] by blast
qed

text \<open>
  C13. A managed LLM call that was announced is always concluded, and the conclusion tells the truth:
  when the guardrails and request intercepts have let the call through and its start event is queued,
  the call queues the end event of the same handle, whether the provider and its intercepts return a
  response, fail, panic, or are dropped while they are suspended. The metadata of the end event is that
  of the call with the status of this very outcome: OK, the error the caller gets, or the cancellation.
  Between the start and the provider, and after the end, only marks are queued.
\<close>

theorem llm_span_always_concluded:
  fixes rt :: "('f, 'w) runtime"
  assumes "llm_callbacks_behave sv" and "\<forall>request. behaves sv (func request)" and "ready sv rt"
    and "begin_managed_llm sv lx rt = (Finished (Inr (request, lv, subs)), rt1)"
    and "llm_call_execute sv func lx rt = (r, rt')"
  shows "\<exists>ms1 st l1 marks1 ms2 en l2 marks2 s1 s2 now d ts.
     channel (rt_dispatcher rt1) = channel (rt_dispatcher rt) @ ms1 @ [Deliver st (Some l1) None] @ marks1 \<and>
     channel (rt_dispatcher rt') = channel (rt_dispatcher rt1) @ ms2 @ [Deliver en (Some l2) None] @ marks2 \<and>
     dv_event st = queued_event (s1 :: 'f scope_stack) (build_llm_start_event (lv_handle lv) None None) \<and>
     dv_event en = queued_event (s2 :: 'f scope_stack) (build_llm_end_event now \<lparr>eh_handle = lv_handle lv, eh_data = d,
       eh_metadata = completion_metadata (lx_metadata lx) r, eh_timestamp = ts\<rparr> None) \<and>
     marks_only marks1 \<and> marks_only marks2"
proof -
  note o = begin_managed_llm_opens [OF assms(1,3,4)]
  have "managed_llm_execution sv func lx request lv subs rt1 = (r, rt')"
    using assms(4,5) by (simp add: llm_call_execute_def owned_call_ready [OF assms(3)] try_then_def)
  then have "llm_end_queued (lv_handle lv) (completion_metadata (lx_metadata lx) r) rt1 rt'"
    using managed_llm_execution_ends [OF assms(1) _ ready_continues [OF assms(3) o(1)] o(2,4)] assms(2) by blast
  then obtain now d ts where e: "queues_around rt1 (build_llm_end_event now \<lparr>eh_handle = lv_handle lv, eh_data = d,
      eh_metadata = completion_metadata (lx_metadata lx) r, eh_timestamp = ts\<rparr> None) rt'"
    unfolding llm_end_queued_def by blast
  show ?thesis using o(3) e unfolding queues_around_def by (elim exE conjE) (intro exI conjI, assumption+)
qed

section \<open>A small LLM host\<close>

text \<open>Nothing is registered but a subscriber, and recorders are always empty.\<close>

definition demo_llms :: "(nat, nat) llm_host" where
  "demo_llms = \<lparr>new_uuid = (\<lambda>w. (of_nat w, w + 1)), clock = (\<lambda>w. (0, w)),
     as_injector = (\<lambda>_ _ w. (Finished (Inr []), w)), as_sanitizer = (\<lambda>_ _ fs w. (Finished (Inr fs), w)),
     as_subscriber = (\<lambda>_ _ w. (Finished (), w)), gates_of = (\<lambda>_. None),
     as_tool_sanitizer = (\<lambda>_ _ args w. (Finished (Inr args), w)),
     as_tool_guardrail = (\<lambda>_ _ _ rt. (Finished (Inr None), rt)),
     as_tool_intercept = (\<lambda>_ _ args rt. (Finished (Inr args), rt)),
     as_tool_execution = (\<lambda>_ c rt. (Settle (Finished (Inl (Internal ''no tool''))), rt)),
     split_words = (\<lambda>_. None),
     as_llm_request_sanitizer = (\<lambda>_ request _ w. (Finished (Inr (Some request)), w)),
     as_llm_response_sanitizer = (\<lambda>_ response _ w. (Finished (Inr (Some response)), w)),
     as_llm_guardrail = (\<lambda>_ _ rt. (Finished (Inr None), rt)),
     as_llm_intercept = (\<lambda>_ _ request annotated rt. (Finished (Inr \<lparr>lo_request = request,
       lo_annotated_request = annotated, lo_pending_marks = [], lo_optimization_contributions = []\<rparr>), rt)),
     as_llm_execution = (\<lambda>_ _ request rt. (LlmNext request (\<lambda>r rt. (LlmSettle (Finished r), rt)), rt)),
     recorder_cell = (\<lambda>_ _. recorder_default), set_recorder_cell = (\<lambda>_ _ w. w), new_recorder_cell = (\<lambda>w. (0, w)),
     await_records = (\<lambda>_ w. w), contribution_writer = (\<lambda>_. ([], True)), contribution_value = (\<lambda>_. JNull),
     pricing_lock = (\<lambda>_. Healthy []), context_readable = (\<lambda>_. True)\<rparr>"

definition demo_llm_call :: llm_call_execute_params where
  "demo_llm_call = \<lparr>lx_name = ''openai'', lx_request = \<lparr>lr_headers = [], lr_content = JNull\<rparr>, lx_parent = None,
     lx_attributes = 0, lx_data = None, lx_metadata = None, lx_model_name = None, lx_codec = None,
     lx_response_codec = None\<rparr>"

lemma demo_llms_behave: "llm_callbacks_behave demo_llms"
  by (simp add: llm_callbacks_behave_def execution_behaves_def demo_llms_def behaves_def ready_def continues_refl)

lemma demo_llms_ready: "ready demo_llms (demo_runtime\<lparr>rt_world := w\<rparr>)"
  by (simp add: ready_def owned_def observed_def subscribed_def demo_runtime_def demo_llms_def demo_context_def
      accepting_def dispatcher_new_def plain_context_def runtime_registration_is_enabled_def demo_owner)

lemma demo_llm_no_entries:
  "llm_conditional_execution_entries (gates_of demo_llms) (registry_snapshot [LlmConditionalExecutionGuardrail, Subscriber] demo_context) [] w = ([], w)"
  "llm_request_intercept_entries (gates_of demo_llms) (registry_snapshot [LlmRequestIntercept] demo_context) [] w = ([], w)"
  "llm_sanitize_request_entries (gates_of demo_llms) (registry_snapshot [LlmSanitizeRequestGuardrail] demo_context) [] w = ([], w)"
  by (simp_all add: llm_conditional_execution_entries_def llm_request_intercept_entries_def llm_sanitize_request_entries_def
      merge_guardrail_entries_def merge_intercept_entries_def registry_snapshot_def demo_context_def registries_new_def
      new_registry_def sorted_values_def)

lemma demo_no_locals: "collect_scope_local_registries field (scope_stack_new 1 0) = []"
  by (simp add: collect_scope_local_registries_def scope_stack_new_def map_filter_simps)

lemma demo_llm_context: "rt_context demo_runtime = Healthy demo_context" "rt_stacks demo_runtime i = Healthy (scope_stack_new 1 0)"
  by (simp_all add: demo_runtime_def)

lemma demo_llm_phases:
  "\<exists>w. llm_guardrail_phase demo_llms request None None demo_runtime = (Finished (Inr None), demo_runtime\<lparr>rt_world := w\<rparr>)"
  "\<exists>i. run_request_intercepts_with_codec demo_llms name request None cell (demo_runtime\<lparr>rt_world := w\<rparr>) =
     (Finished (Inr (i, None, [], [])), demo_runtime\<lparr>rt_world := w\<rparr>)"
  using demo_parent
  by (auto simp: llm_guardrail_phase_def demo_llm_context demo_llm_no_entries demo_no_locals Let_def split_beta
      llm_conditional_execution_snapshot_chain_def resolve_parent_uuid_def run_request_intercepts_with_codec_def decode_with_def
      llm_request_intercepts_snapshot_chain_with_recorder_def try_then_def encode_intercepted_def)

lemma demo_llm_announced:
  assumes "lh_parent_uuid (lv_handle lv) = Some 1"
  shows "\<exists>sent subs rt1. announce_llm_span demo_llms None (i, None, [], []) lv (demo_runtime\<lparr>rt_world := w\<rparr>) =
    (Finished (Inr (sent, lv, subs)), rt1)"
proof -
  let ?rt = "demo_runtime\<lparr>rt_world := w\<rparr>"
  have "subscribed demo_llms (rt_context demo_runtime)" using demo_llms_ready by (simp add: ready_def observed_def)
  then obtain fs w1 where sn: "snapshot_event_subscribers demo_llms (collect_scope_local_subscribers (scope_stack_new 1 0))
      (rt_context demo_runtime) w = (Inr fs, w1)" by (rule snapshot_subscribers_observed)
  let ?rt1 = "demo_runtime\<lparr>rt_world := w1\<rparr>"
  obtain v where t: "inject_traceparent (lh_uuid (lv_handle lv)) ?rt1 i = (Inr (), v)"
    by (simp add: inject_traceparent_def traceparent_for_llm_def demo_llm_context)
  obtain s' :: "nat scope_stack" where f: "take_agent_freshness (Some 1) (scope_stack_new 1 0) = (Some True, s')"
    by (simp add: take_agent_freshness_def owning_agent_uuid_def scope_stack_new_def build_handle_def)
  obtain rt2 where q: "queue_llm_start_with_subscribers demo_llms lv i None None fs ?rt1 = (Finished (Inr ()), rt2)"
    using assms f by (simp add: queue_llm_start_with_subscribers_def owned_call_ready [OF demo_llms_ready] demo_llm_context
        demo_llm_no_entries demo_no_locals Let_def)
  show ?thesis
    using sn t q by (simp add: announce_llm_span_def demo_llm_context try_then_def emit_pending_request_marks_def)
qed

lemma demo_llm_begins:
  "\<exists>request lv subs rt1. begin_managed_llm demo_llms demo_llm_call demo_runtime = (Finished (Inr (request, lv, subs)), rt1)"
proof -
  obtain w where w: "llm_guardrail_phase demo_llms (lx_request demo_llm_call) None None demo_runtime = (Finished (Inr None), demo_runtime\<lparr>rt_world := w\<rparr>)"
    using demo_llm_phases(1) by blast
  have u: "new_uuid demo_llms w = (of_nat w, w + 1)" "new_recorder_cell demo_llms v = (0, v)" for v by (simp_all add: demo_llms_def)
  obtain i where i: "run_request_intercepts_with_codec demo_llms ''openai'' (lx_request demo_llm_call) None (Some 0)
      (demo_runtime\<lparr>rt_world := w + 1\<rparr>) = (Finished (Inr (i, None, [], [])), demo_runtime\<lparr>rt_world := w + 1\<rparr>)"
    using demo_llm_phases(2) by blast
  have p: "resolve_parent_uuid None (demo_runtime\<lparr>rt_world := w + 1\<rparr>) = Some (Some 1)"
    using demo_parent by (simp add: resolve_parent_uuid_def)
  have "\<exists>lv w'. create_live_llm_handle demo_llms \<lparr>cl_name = ''openai'', cl_uuid = Some (of_nat w), cl_parent_uuid = Some 1,
      cl_attributes = 0, cl_data = None, cl_metadata = None, cl_model_name = None, cl_timestamp = None\<rparr>
      (demo_runtime\<lparr>rt_world := w + 1\<rparr>) = (Finished (Inr lv), demo_runtime\<lparr>rt_world := w'\<rparr>) \<and> lh_parent_uuid (lv_handle lv) = Some 1"
    by (simp add: create_live_llm_handle_def owned_call_ready [OF demo_llms_ready] demo_llm_context split_beta Let_def
        create_llm_handle_def) blast
  then obtain lv w' where h: "create_live_llm_handle demo_llms \<lparr>cl_name = ''openai'', cl_uuid = Some (of_nat w), cl_parent_uuid = Some 1,
      cl_attributes = 0, cl_data = None, cl_metadata = None, cl_model_name = None, cl_timestamp = None\<rparr>
      (demo_runtime\<lparr>rt_world := w + 1\<rparr>) = (Finished (Inr lv), demo_runtime\<lparr>rt_world := w'\<rparr>)" "lh_parent_uuid (lv_handle lv) = Some 1"
    by blast
  obtain sent subs rt1 where a: "announce_llm_span demo_llms None (i, None, [], []) (lv\<lparr>lv_recorder := 0\<rparr>) (demo_runtime\<lparr>rt_world := w'\<rparr>) =
      (Finished (Inr (sent, lv\<lparr>lv_recorder := 0\<rparr>, subs)), rt1)"
    using demo_llm_announced [of "lv\<lparr>lv_recorder := 0\<rparr>" i w'] h(2) by auto
  have "lx_parent demo_llm_call = None" "lx_metadata demo_llm_call = None" "lx_codec demo_llm_call = None"
      "lx_name demo_llm_call = ''openai''" "lx_attributes demo_llm_call = 0" "lx_data demo_llm_call = None" "lx_model_name demo_llm_call = None"
    by (simp_all add: demo_llm_call_def)
  then show ?thesis
    using w i h(1) a p by (simp add: begin_managed_llm_def open_llm_span_def try_then_def u)
qed

text \<open>The provider of the example panics; its span is concluded all the same, as a cancellation.\<close>

theorem llm_span_always_concluded_witness:
  "\<exists>st l1 en l2 pre mid post1 post2 h s now d ts.
     channel (rt_dispatcher (snd (llm_call_execute demo_llms (\<lambda>_ rt. (Panicked, rt)) demo_llm_call demo_runtime)))
       = pre @ [Deliver st (Some l1) None] @ post1 @ mid @ [Deliver en (Some l2) None] @ post2 \<and>
     dv_event en = queued_event (s :: nat scope_stack) (build_llm_end_event now \<lparr>eh_handle = h, eh_data = d,
       eh_metadata = completion_metadata None (fst (llm_call_execute demo_llms (\<lambda>_ rt. (Panicked, rt)) demo_llm_call demo_runtime)),
       eh_timestamp = ts\<rparr> None) \<and> marks_only post1 \<and> marks_only post2"
proof -
  obtain request lv subs rt1 where b: "begin_managed_llm demo_llms demo_llm_call demo_runtime = (Finished (Inr (request, lv, subs)), rt1)"
    using demo_llm_begins by blast
  have f: "\<forall>a. behaves demo_llms ((\<lambda>_ rt. (Panicked, rt)) (a :: llm_request))"
    by (simp add: behaves_def ready_def continues_refl)
  have r: "ready demo_llms demo_runtime" using demo_llms_ready [of "rt_world demo_runtime"] by simp
  have m: "lx_metadata demo_llm_call = None" by (simp add: demo_llm_call_def)
  show ?thesis
    using llm_span_always_concluded [OF demo_llms_behave f r b prod.collapse [symmetric], unfolded m]
    by (elim exE conjE) (simp only:, metis append.assoc)
qed

end
