(* ===== verification/Llm_Payload_Properties.thy ===== *)
theory Llm_Payload_Properties
  imports Llm_Events Chain_Properties
begin

text \<open>
  What the events of an LLM call disclose: no credentials, no history before the current turn, and of a
  response nothing but what the sanitizers let through.
\<close>

section \<open>Credentials\<close>

text \<open>A header carries credentials when its name is on the list, in whatever spelling.\<close>

definition credential_header :: "string \<Rightarrow> bool" where
  "credential_header name \<longleftrightarrow> (\<exists>c\<in>set OBSERVABILITY_CREDENTIAL_HEADERS. to_ascii_lowercase name = to_ascii_lowercase c)"

definition discreet :: "llm_request \<Rightarrow> bool" where
  "discreet r \<longleftrightarrow> (\<forall>(name, v) \<in> set (lr_headers r). \<not> credential_header name)"

definition keeps_discreet :: "llm_codec option \<Rightarrow> 'w llm_sanitize_request_fn registry_record list \<Rightarrow> bool" where
  "keeps_discreet codec ents \<longleftrightarrow>
     (\<forall>x\<in>set ents. \<forall>r w r' w'. discreet r \<longrightarrow> rr_payload x r codec w = (Finished (Inr (Some r')), w') \<longrightarrow> discreet r') \<and>
     (\<forall>c a r r'. codec = Some c \<longrightarrow> discreet r \<longrightarrow> encode_request c a r = Inr r' \<longrightarrow> discreet r')"

lemma credentials_removed: "discreet (remove_observability_credential_headers r)"
  by (auto simp: discreet_def remove_observability_credential_headers_def credential_header_def list_ex_iff
      eq_ignore_ascii_case_def)

lemma sanitized_discreet:
  assumes "all_passed (\<lambda>f v w. f v codec w) ents r w r' w'" and "keeps_discreet codec ents" and "discreet r"
  shows "discreet r'"
  using assms
proof (induction ents arbitrary: r w)
  case (Cons x ents)
  from Cons.prems(1) obtain r1 w1 where x: "rr_payload x r codec w = (Finished (Inr (Some r1)), w1)"
    and rest: "all_passed (\<lambda>f v w. f v codec w) ents r1 w1 r' w'"
    by auto
  have "discreet r1" using Cons.prems(2,3) x unfolding keeps_discreet_def by (meson list.set_intros(1))
  moreover have "keeps_discreet codec ents"
    using Cons.prems(2) unfolding keeps_discreet_def by (elim conjE, intro conjI) (meson list.set_intros(2), assumption)
  ultimately show ?case using Cons.IH [OF rest] by simp
qed simp

lemma projected_discreet:
  assumes "discreet r" and "keeps_discreet codec ents"
  shows "discreet (fst (project_llm_request_to_current_user_turn r annotated codec))"
  using assms by (auto simp: project_llm_request_to_current_user_turn_def keeps_discreet_def split_beta Let_def
      split: option.splits sum.splits)

lemma start_payload_discreet:
  assumes "llm_start_payload r annotated codec full fresh ents w = (Finished (Some input, a), w')"
    and "keeps_discreet codec ents" and "discreet r"
  obtains r' where "input = request_to_value r'" "discreet r'"
proof -
  obtain s w1 where c: "llm_sanitize_request_snapshot_chain r codec ents w = (Finished (Some s), w1)"
    using assms(1) by (auto simp: llm_start_payload_def Let_def split: prod.splits outcome.splits option.splits if_splits)
  then have s: "discreet s"
    using sanitized_discreet assms(2,3) by (metis llm_sanitize_request_snapshot_chain_def sanitize_loop_Some)
  have "input = request_to_value s \<or> (\<exists>a'. input = request_to_value (fst (project_llm_request_to_current_user_turn s a' codec)))"
    using assms(1) c by (auto simp: llm_start_payload_def Let_def split_beta split: if_splits)
  then show ?thesis using that s projected_discreet [OF s assms(2)] by blast
qed

text \<open>
  What the transform of a start event makes of a provisional event without data, when it was given the
  request without its credentials.
\<close>

lemma start_transform_discreet:
  assumes "keeps_discreet codec ents"
    and "llm_start_transform sv h (remove_observability_credential_headers request) annotated codec full fresh ents e0 w =
      (Finished e, w')"
    and "be_data (base_of e0) = None"
  shows "be_data (base_of e) = None \<or> (\<exists>r. be_data (base_of e) = Some (request_to_value r) \<and>
    (\<forall>(name, v) \<in> set (lr_headers r). \<not> credential_header name))"
proof -
  obtain input a w1 where p: "llm_start_payload (remove_observability_credential_headers request) annotated codec full fresh ents w
      = (Finished (input, a), w1)"
    and e: "e = (if context_readable sv w1 then build_llm_start_event h input a else e0)"
    using assms(2) by (auto simp: llm_start_transform_def split: prod.splits outcome.splits)
  have "be_data (base_of (build_llm_start_event h d a')) = d" for d a'
    by (simp add: build_llm_start_event_def scope_event_new_def base_event_build_def)
  then have "be_data (base_of e) = None \<or> be_data (base_of e) = input" using assms(3) by (simp add: e)
  then consider "be_data (base_of e) = None" | i where "be_data (base_of e) = Some i" "input = Some i"
    by (cases input) auto
  then show ?thesis
  proof cases
    case (2 i)
    then obtain r where "i = request_to_value r" "discreet r"
      using start_payload_discreet p assms(1) credentials_removed by metis
    then show ?thesis using 2 by (auto simp: discreet_def)
  qed simp
qed

section \<open>The current turn\<close>

text \<open>
  The reference: the last user message begins the current turn. Everything from it on is kept, and of
  what comes before only the instructions. Without a user message the last item is the turn.
\<close>

fun current_turn :: "('a \<Rightarrow> bool) \<Rightarrow> ('a \<Rightarrow> bool) \<Rightarrow> 'a list \<Rightarrow> 'a list" where
  "current_turn is_user is_instruction [] = []"
| "current_turn is_user is_instruction (x # xs) =
     (if \<not> list_ex is_user xs \<and> (is_user x \<or> xs = []) then x # xs
      else (if is_instruction x then [x] else []) @ current_turn is_user is_instruction xs)"

lemma find_append: "List.find P (xs @ ys) = (case List.find P xs of Some x \<Rightarrow> Some x | None \<Rightarrow> List.find P ys)"
  by (induction xs) auto

lemma find_map: "List.find P (map f xs) = map_option f (List.find (\<lambda>x. P (f x)) xs)"
  by (induction xs) auto

lemma rposition_Nil [simp]: "rposition P [] = None"
  by (simp add: rposition_def)

lemma rposition_Cons [simp]:
  "rposition P (x # xs) = (case rposition P xs of Some i \<Rightarrow> Some (Suc i) | None \<Rightarrow> if P x then Some 0 else None)"
proof -
  have "[0..<length (x # xs)] = 0 # map Suc [0..<length xs]" by (simp add: upt_conv_Cons map_Suc_upt del: upt_Suc)
  then have "rev [0..<length (x # xs)] = map Suc (rev [0..<length xs]) @ [0]" by (simp add: rev_map)
  then show ?thesis by (simp add: rposition_def find_append find_map split: option.splits)
qed

lemma rposition_None: "rposition P xs = None \<longleftrightarrow> \<not> list_ex P xs"
  by (induction xs) (auto split: option.splits)

lemma current_turn_split:
  "current_turn is_user is_instruction xs = (case rposition is_user xs of
     Some i \<Rightarrow> filter is_instruction (take i xs) @ drop i xs
   | None \<Rightarrow> if xs = [] then [] else filter is_instruction (butlast xs) @ [last xs])"
  by (induction xs) (auto simp: rposition_None [symmetric] split: option.splits)

lemma last_or_instruction:
  "map snd (filter (\<lambda>(i, item). i = n + length xs \<or> P item) (enumerate n (xs @ [x]))) = filter P xs @ [x]"
proof (induction xs arbitrary: n)
  case (Cons y xs)
  then show ?case using Cons.IH [of "Suc n"] by simp
qed simp

lemma not_last_not_instruction:
  "list_ex (\<lambda>(i, item). i \<noteq> n + length xs \<and> \<not> P item) (enumerate n (xs @ [x])) \<longleftrightarrow> filter P xs \<noteq> xs"
proof (induction xs arbitrary: n)
  case (Cons y xs)
  have "filter P xs \<noteq> y # xs" by (metis impossible_Cons length_filter_le)
  then show ?case using Cons.IH [of "Suc n"] by simp
qed simp

lemma projection_needed_iff:
  "request_turn_projection_needed is_user is_instruction xs \<longleftrightarrow> current_turn is_user is_instruction xs \<noteq> xs"
proof (cases "rposition is_user xs")
  case None
  show ?thesis
  proof (cases xs rule: rev_cases)
    case (snoc ys y)
    then show ?thesis using not_last_not_instruction [of 0 ys is_instruction y] None
      by (simp add: request_turn_projection_needed_def current_turn_split)
  qed (simp add: request_turn_projection_needed_def)
next
  case (Some i)
  then have "xs \<noteq> []" by auto
  moreover have "filter is_instruction (take i xs) @ drop i xs = xs \<longleftrightarrow> filter is_instruction (take i xs) = take i xs"
    by (metis append_same_eq append_take_drop_id)
  ultimately show ?thesis using Some
    by (auto simp: request_turn_projection_needed_def current_turn_split filter_id_conv list_ex_iff)
qed

lemma retained_turn: "snd (retain_current_request_turn is_user is_instruction xs) = current_turn is_user is_instruction xs"
proof (cases "request_turn_projection_needed is_user is_instruction xs")
  case True
  show ?thesis
  proof (cases xs rule: rev_cases)
    case Nil
    then show ?thesis using True by (simp add: request_turn_projection_needed_def)
  next
    case (snoc ys y)
    then show ?thesis using last_or_instruction [of 0 ys is_instruction y] True
      by (auto simp: retain_current_request_turn_def current_turn_split split: option.splits)
  qed
qed (simp add: retain_current_request_turn_def projection_needed_iff)

lemma current_turn_users: "\<not> list_ex is_user xs \<Longrightarrow> \<not> list_ex is_user (current_turn is_user is_instruction xs)"
  by (induction xs) auto

lemma current_turn_has_user: "list_ex is_user xs \<Longrightarrow> list_ex is_user (current_turn is_user is_instruction xs)"
  by (induction xs) auto

lemma current_turn_Nil [simp]: "current_turn is_user is_instruction xs = [] \<longleftrightarrow> xs = []"
  by (induction xs) auto

lemma current_turn_idem:
  "current_turn is_user is_instruction (current_turn is_user is_instruction xs) = current_turn is_user is_instruction xs"
  using current_turn_users current_turn_has_user by (induction xs) (fastforce split: if_splits)+

text \<open>
  C17. The history that an event shows is exactly the current turn: limiting a conversation keeps
  everything from the last user message on and the instructions before it, in their order, and nothing
  else. It reports a change exactly when there is one, and doing it again changes nothing.
\<close>

theorem history_limited_to_current_turn:
  "limit_annotated_request_history a =
     (let turn = current_turn is_user_message is_system_message (aq_messages a)
      in (turn \<noteq> aq_messages a, a\<lparr>aq_messages := turn\<rparr>)) \<and>
   limit_annotated_request_history (snd (limit_annotated_request_history a)) = (False, snd (limit_annotated_request_history a))"
proof -
  let ?r = "retain_current_request_turn is_user_message is_system_message"
  let ?t = "current_turn is_user_message is_system_message"
  have "fst (?r xs) \<longleftrightarrow> request_turn_projection_needed is_user_message is_system_message xs" for xs
    by (simp add: retain_current_request_turn_def split: option.splits)
  then have r: "?r xs = (?t xs \<noteq> xs, ?t xs)" for xs
    using retained_turn [of is_user_message is_system_message xs] by (simp add: projection_needed_iff prod_eq_iff)
  show ?thesis by (simp add: limit_annotated_request_history_def r current_turn_idem Let_def)
qed

section \<open>The response\<close>

text \<open>Without a response there is nothing to annotate.\<close>

lemma summarize_None: "snd (summarize finished None requested_model pricing) = None"
proof -
  have "fst (snd (derive_optimization_usage None saved totals ls)) = None" for saved totals ls
    by (simp add: derive_optimization_usage_def infer_response_total_def Let_def split_beta split: option.split)
  moreover have "snd (snd (price_optimization_usage u None em bm bu o' i pr)) = None" for u em bm bu o' i pr
    by (simp add: price_optimization_usage_def Let_def)
  ultimately show ?thesis by (simp add: summarize_def Let_def split_beta)
qed

lemma finalized_without_response:
  "finalize_summary sv cell None requested_model w = (Some (summary, annotation), w') \<Longrightarrow> annotation = None"
  by (auto simp: finalize_summary_def split_beta Let_def summarize_None prod_eq_iff split: option.splits
      dest!: arg_cong [where f = snd])

text \<open>
  The payload of an end event with a response: its data is what the sanitizers left, each having worked
  on the result of the one before it. There is no annotation without data, and an annotation that the
  caller supplied is not shown unless the response passed unchanged.
\<close>

lemma end_payload_sanitized:
  fixes sv :: "('f, 'w, 'z) llm_host_scheme"
  assumes "build_llm_end_payload sv lv response fallback annotated codec ents cost w = (Finished p, w')"
    and v: "v = (if response = JNull then or_else fallback response else response)"
  shows "(\<forall>d. lp_data p = Some d \<longrightarrow> (\<exists>w1. all_passed (\<lambda>f v w. f v codec w) ents v w d w1)) \<and>
    (lp_annotated_response p \<noteq> None \<longrightarrow> lp_data p \<noteq> None \<and> lp_data p \<noteq> Some JNull) \<and>
    (lp_data p \<noteq> Some v \<longrightarrow>
       (\<forall>a. build_llm_end_payload sv lv response fallback a codec ents cost w = (Finished p, w')))"
proof -
  obtain sanitized w1 where c: "llm_sanitize_response_snapshot_chain v codec ents w = (Finished sanitized, w1)"
    using assms(1) unfolding v by (auto simp: build_llm_end_payload_def Let_def split: prod.splits outcome.splits)
  define data where "data = (case sanitized of Some r \<Rightarrow> if (response = JNull \<and> fallback = None) \<and> r = JNull then None else Some r | None \<Rightarrow> None)"
  define omitted where "omitted = (case data of None \<Rightarrow> True | Some d \<Rightarrow> d = JNull)"
  define changed where "changed = (case sanitized of Some s \<Rightarrow> s \<noteq> v | None \<Rightarrow> False)"
  define ann where "ann a = (if omitted then (None, None) else resolve_llm_end_annotation (pricing_lock sv w1)
      (if changed then None else a) codec data cost (lh_name (lv_handle lv)))" for a
  have b: "build_llm_end_payload sv lv response fallback a codec ents cost w =
      (case finalize_summary sv (lv_recorder lv) (fst (ann a)) (lh_model_name (lv_handle lv)) w1 of
         (None, w) \<Rightarrow> (Dropped, w)
       | (Some (summary, annotation), w) \<Rightarrow>
           (Finished \<lparr>lp_data = data, lp_annotated_response = (if \<not> omitted \<and> annotation = None
              then map_option summary_response summary else annotation), lp_decode_error = snd (ann a)\<rparr>, w))" for a
    using c unfolding build_llm_end_payload_def v
    by (simp add: Let_def ann_def omitted_def changed_def data_def v split_beta cong: option.case_cong)
  have d: "lp_data p = data" using assms(1) unfolding b by (auto split: prod.splits option.splits)
  have 1: "\<exists>w1. all_passed (\<lambda>f v w. f v codec w) ents v w d' w1" if "lp_data p = Some d'" for d'
    using that c unfolding d data_def
    by (auto simp: llm_sanitize_response_snapshot_chain_def sanitize_loop_Some split: option.splits if_splits)
  have n: "annotation = None" if "omitted" "finalize_summary sv (lv_recorder lv) (fst (ann annotated)) m w1 = (Some (s, annotation), w2)"
    for s annotation m w2
    using that finalized_without_response by (simp add: ann_def)
  have 2: "lp_data p \<noteq> None \<and> lp_data p \<noteq> Some JNull" if annotated: "lp_annotated_response p \<noteq> None"
  proof (rule ccontr)
    assume "\<not> ?thesis"
    then have "omitted" by (auto simp: d omitted_def)
    moreover from this obtain summary y w2 where
      "finalize_summary sv (lv_recorder lv) (fst (ann annotated)) (lh_model_name (lv_handle lv)) w1 = (Some (summary, Some y), w2)"
      using annotated assms(1) unfolding b by (auto split: prod.splits option.splits)
    ultimately show False using n by blast
  qed
  have e: "ann a = ann annotated" if "lp_data p \<noteq> Some v" for a
    using that unfolding d ann_def omitted_def changed_def data_def by (auto split: option.splits)
  have 3: "build_llm_end_payload sv lv response fallback a codec ents cost w = (Finished p, w')" if "lp_data p \<noteq> Some v" for a
    using assms(1) unfolding b e [OF that, of a] .
  show ?thesis using 1 2 3 by blast
qed

end
