(* ===== verification/Llm_Disclosure.thy ===== *)
theory Llm_Disclosure
  imports Llm_Properties Llm_Payload_Properties
begin

text \<open>
  What the operations of an LLM call hand to the dispatcher for publication: the delivery a start
  queues shows no credentials, and the delivery the end of a managed call queues shows of the response
  only what the sanitizers in force have passed.
\<close>

section \<open>Deliveries\<close>

text \<open>A step that queues one delivery, with other messages before it and only marks after it.\<close>

definition queues_delivery ::
    "('w delivery \<Rightarrow> bool) \<Rightarrow> ('f, 'w) runtime \<Rightarrow> ('f, 'w) runtime \<Rightarrow> bool" where
  "queues_delivery P rt rt' \<longleftrightarrow> (\<exists>pre x l post.
     channel (rt_dispatcher rt') = channel (rt_dispatcher rt) @ pre @ [Deliver x (Some l) None] @ post \<and>
     P x \<and> marks_only post)"

lemma queues_delivery_pre:
  assumes "continues sv rt rt1" and "queues_delivery P rt1 rt'"
  shows "queues_delivery P rt rt'"
proof -
  obtain ms where ms: "channel (rt_dispatcher rt1) = channel (rt_dispatcher rt) @ ms"
    using assms(1) by (auto simp: continues_def)
  obtain pre x l post where "channel (rt_dispatcher rt') = channel (rt_dispatcher rt1) @ pre @ [Deliver x (Some l) None] @ post"
      "P x" "marks_only post"
    using assms(2) unfolding queues_delivery_def by blast
  then show ?thesis unfolding queues_delivery_def
    by (intro exI [of _ "ms @ pre"] exI [of _ x] exI [of _ l] exI [of _ post]) (simp add: ms)
qed

lemma queues_delivery_post:
  assumes "queues_delivery P rt rt1" and "marks_step sv rt1 rt'"
  shows "queues_delivery P rt rt'"
proof -
  obtain ms where ms: "channel (rt_dispatcher rt') = channel (rt_dispatcher rt1) @ ms" "marks_only ms"
    using assms(2) by (auto simp: marks_step_def)
  obtain pre x l post where "channel (rt_dispatcher rt1) = channel (rt_dispatcher rt) @ pre @ [Deliver x (Some l) None] @ post"
      "P x" "marks_only post"
    using assms(1) unfolding queues_delivery_def by blast
  then show ?thesis unfolding queues_delivery_def
    by (intro exI [of _ pre] exI [of _ x] exI [of _ l] exI [of _ "post @ ms"]) (use ms in \<open>auto simp: marks_only_def\<close>)
qed

lemma queue_transformed_delivery:
  fixes sv :: "('f, 'w, 'z) host_scheme"
  assumes "observed sv rt" and "healthy (rt_stacks rt i)"
    and "\<And>x (s :: 'f scope_stack). dv_event x = queued_event s e \<Longrightarrow> dv_transform x = Some tr \<Longrightarrow> P x"
  shows "queues_delivery P rt (queue_transformed_event sv subs i e tr rt)"
proof -
  obtain s where s: "rt_stacks rt i = Healthy s" using assms(2) by (rule healthyE)
  obtain sans w where n: "snapshot_event_sanitizers sv e (rt_stacks rt i) (rt_context rt) (rt_world rt) = (Some sans, w)"
    by (rule snapshot_sanitizers_Some)
  have "observed sv (rt\<lparr>rt_world := w\<rparr>)" using assms(1) by simp
  then have "delivered sv e (Some tr) sans subs s None (rt\<lparr>rt_world := w\<rparr>) (queue_transformed_event sv subs i e tr rt)"
    using transformed_observed [of sv "rt\<lparr>rt_world := w\<rparr>" e tr sans subs s] n s by (simp add: queue_transformed_event_def)
  then obtain x l where "channel (rt_dispatcher (queue_transformed_event sv subs i e tr rt)) =
      channel (rt_dispatcher rt) @ [Deliver x (Some l) None]" "dv_event x = queued_event s e" "dv_transform x = Some tr"
    unfolding delivered_def by auto
  then show ?thesis using assms(3) [of x s] unfolding queues_delivery_def
    by (intro exI [of _ "[]"] exI [of _ x] exI [of _ l] exI [of _ "[]"]) (simp add: marks_only_def)
qed

lemma queued_event_data:
  "be_data (base_of (queued_event s e)) = be_data (base_of e)" "be_uuid (base_of (queued_event s e)) = be_uuid (base_of e)"
  "event_scope_category (queued_event s e) = event_scope_category e"
  "event_category_profile (queued_event s e) = event_category_profile e"
  by (cases e; simp add: queued_event_def set_propagation_root_uuid_def set_propagation_parent_uuid_def)+

section \<open>Starts\<close>

definition shows_no_credentials :: "event \<Rightarrow> bool" where
  "shows_no_credentials e \<longleftrightarrow> be_data (base_of e) = None \<or>
     (\<exists>r. be_data (base_of e) = Some (request_to_value r) \<and> (\<forall>(name, v) \<in> set (lr_headers r). \<not> credential_header name))"

text \<open>
  The delivery of a start event: the provisional event has no data, and the transform that replaces it
  when it is published makes no event that shows credentials.
\<close>

definition discreet_start :: "llm_handle \<Rightarrow> 'w delivery \<Rightarrow> bool" where
  "discreet_start h x \<longleftrightarrow> is_scope_start (dv_event x) \<and> be_uuid (base_of (dv_event x)) = lh_uuid h \<and>
     be_data (base_of (dv_event x)) = None \<and>
     (\<exists>transform. dv_transform x = Some transform \<and>
        (\<forall>w e w'. transform (dv_event x) w = (Finished e, w') \<longrightarrow> shows_no_credentials e))"

definition discreet_callbacks :: "('f, 'w, 'z) llm_host_scheme \<Rightarrow> llm_codec option \<Rightarrow> bool" where
  "discreet_callbacks sv codec \<longleftrightarrow>
     (\<forall>f r w r' w'. discreet r \<longrightarrow> as_llm_request_sanitizer sv f r codec w = (Finished (Inr (Some r')), w') \<longrightarrow> discreet r') \<and>
     (\<forall>c a r r'. codec = Some c \<longrightarrow> discreet r \<longrightarrow> encode_request c a r = Inr r' \<longrightarrow> discreet r')"

lemma record_map_payload:
  "x \<in> set (map (record_map f) xs) \<Longrightarrow> \<exists>y. rr_payload x = f y"
  by (induction xs) (auto simp: new_record_def)

lemma discreet_entries:
  assumes "discreet_callbacks sv codec"
  shows "keeps_discreet codec (map (record_map (as_llm_request_sanitizer sv)) ents)"
proof -
  have "discreet r'" if x: "x \<in> set (map (record_map (as_llm_request_sanitizer sv)) ents)" "discreet r"
      "rr_payload x r codec w = (Finished (Inr (Some r')), w')" for x r w r' w'
  proof -
    obtain f where "rr_payload x = as_llm_request_sanitizer sv f" using record_map_payload [OF x(1)] by blast
    then have "as_llm_request_sanitizer sv f r codec w = (Finished (Inr (Some r')), w')" using x(3) by simp
    then show ?thesis using x(2) assms unfolding discreet_callbacks_def by blast
  qed
  then show ?thesis using assms unfolding discreet_callbacks_def keeps_discreet_def by blast
qed

lemma queue_llm_start_discreet:
  fixes sv :: "('f, 'w, 'z) llm_host_scheme"
  assumes "observed sv rt" and "healthy (rt_stacks rt (lv_scope_stack lv))" and "discreet_callbacks sv codec"
  shows "queues_delivery (discreet_start (lv_handle lv)) rt
    (queue_llm_start sv lv request annotated codec full fresh ents subs rt)"
  unfolding queue_llm_start_def
proof (rule queue_transformed_delivery [OF assms(1,2)])
  fix x :: "'w delivery" and s :: "'f scope_stack"
  assume x: "dv_event x = queued_event s (build_llm_start_event (lv_handle lv) None None)"
    "dv_transform x = Some (llm_start_transform sv (lv_handle lv) (remove_observability_credential_headers request) annotated
       codec full fresh (map (record_map (as_llm_request_sanitizer sv)) ents))"
  have d: "be_data (base_of (dv_event x)) = None"
    by (simp add: x(1) queued_event_data build_llm_start_event_def scope_event_new_def base_event_build_def)
  have "shows_no_credentials e" if "the (dv_transform x) (dv_event x) w = (Finished e, w')" for w e w'
    unfolding shows_no_credentials_def
    by (rule start_transform_discreet [OF discreet_entries [OF assms(3)] _ d]) (use that x(2) in simp)
  moreover have "is_scope_start (dv_event x)" "be_uuid (base_of (dv_event x)) = lh_uuid (lv_handle lv)"
    by (simp_all add: x(1) is_scope_start_def queued_event_data)
      (simp_all add: build_llm_start_event_def scope_event_new_def base_event_build_def)
  ultimately show "discreet_start (lv_handle lv) x" using d x(2) unfolding discreet_start_def by auto
qed

lemma announced_discreet:
  assumes r: "ready sv rt" and d: "discreet_callbacks sv codec"
    and a: "announce_llm_span sv codec i lv rt = (Finished (Inr (sent, lv', subs)), rt')"
  shows "queues_delivery (discreet_start (lv_handle lv)) rt rt'"
proof -
  obtain request annotated marks contributions where i: "i = (request, annotated, marks, contributions)" by (metis prod_cases4)
  obtain s where s: "rt_stacks rt (lv_scope_stack lv) = Healthy s"
    using a by (auto simp: announce_llm_span_def i split: rwlock.splits)
  have "subscribed sv (rt_context rt)" using r by (simp add: ready_def observed_def)
  then obtain fs w where sn: "snapshot_event_subscribers sv (collect_scope_local_subscribers s) (rt_context rt) (rt_world rt) = (Inr fs, w)"
      "fs \<noteq> []" by (rule snapshot_subscribers_observed)
  obtain rt3 rt4 where
    st: "queue_llm_start_with_subscribers sv lv request annotated codec fs (rt\<lparr>rt_world := w\<rparr>) = (Finished (Inr ()), rt3)"
    and mk: "emit_pending_request_marks sv lv marks fs rt3 = (Finished (Inr ()), rt4)"
    and rt': "rt' = emit_optimization_marks sv lv fs (record_contributions sv (lv_recorder lv) contributions rt4)"
    using a s sn(1) by (auto simp: announce_llm_span_def i Let_def try_then_Inr split: prod.splits sum.splits)
  have r1: "ready sv (rt\<lparr>rt_world := w\<rparr>)" using r by simp
  note q = queue_llm_start_ready [OF r1 st]
  obtain st0 where st0: "rt_context rt = Healthy st0" using r by (rule ready_healthy_context)
  obtain rt2 full fresh ents where rt3: "rt3 = queue_llm_start sv lv request annotated codec full fresh ents fs rt2"
    and c2: "continues sv rt rt2"
    using st s st0 r stack_update_continues [of sv "rt\<lparr>rt_world := w'\<rparr>" "lv_scope_stack lv" for w']
    by (auto simp: queue_llm_start_with_subscribers_def owned_call_ready [OF r1] Let_def ready_def
        split: prod.splits option.splits)
  have "queues_delivery (discreet_start (lv_handle lv)) rt2 rt3"
    unfolding rt3 by (rule queue_llm_start_discreet [OF _ _ d]) (use c2 s in \<open>simp_all add: continues_def\<close>)
  with c2 have d3: "queues_delivery (discreet_start (lv_handle lv)) rt rt3" by (rule queues_delivery_pre)
  have r3: "ready sv rt3" using ready_continues [OF r1 q(1)] .
  have m4: "marks_step sv rt3 rt4" using emit_pending_request_marks_step [OF r3 q(3) sn(2), of marks] mk by simp
  let ?rt5 = "record_contributions sv (lv_recorder lv) contributions rt4"
  have "ready sv rt4" using ready_continues [OF r3] m4 by (simp add: marks_step_def)
  then have r5: "ready sv ?rt5" using record_contributions_continues ready_continues by blast
  have "healthy (rt_stacks rt4 (lv_scope_stack lv))" using m4 q(3) by (simp add: marks_step_def continues_def)
  then have h5: "healthy (rt_stacks ?rt5 (lv_scope_stack lv))" by (simp add: record_contributions_def split_beta Let_def)
  have "marks_step sv ?rt5 rt'" unfolding rt' by (rule emit_optimization_marks_step [OF r5 h5 sn(2)])
  then have "marks_step sv rt4 rt'" by (simp add: record_contributions_def split_beta Let_def)
  with m4 have "marks_step sv rt3 rt'" by (rule marks_step_trans)
  with d3 show ?thesis by (rule queues_delivery_post)
qed

lemma begun_discreet:
  assumes b: "llm_callbacks_behave sv" and r: "ready sv rt" and d: "discreet_callbacks sv (lx_codec lx)"
    and "begin_managed_llm sv lx rt = (Finished (Inr (request, lv, subs)), rt')"
  shows "queues_delivery (discreet_start (lv_handle lv)) rt rt'"
proof -
  have rej: "reject_llm_call sv lx reason q \<noteq> (Finished (Inr x), y)" for reason q x y
    by (auto simp: reject_llm_call_def split: prod.splits outcome.splits)
  from assms(4) obtain rt1 w u cell i rt2 where
      g: "llm_guardrail_phase sv (lx_request lx) (lx_parent lx) (lx_metadata lx) rt = (Finished (Inr None), rt1)"
    and i: "run_request_intercepts_with_codec sv (lx_name lx) (lx_request lx) (lx_codec lx) (Some cell) (rt1\<lparr>rt_world := w\<rparr>) =
      (Finished (Inr i), rt2)"
    and t: "open_llm_span sv lx u cell i rt2 = (Finished (Inr (request, lv, subs)), rt')"
    unfolding begin_managed_llm_def try_then_Inr by (auto simp: rej try_then_Inr split_beta Let_def split: option.splits)
  have c1: "continues sv rt rt1" by (rule behavesD [OF llm_guardrail_phase_behaves [OF b] r g])
  have r1: "ready sv (rt1\<lparr>rt_world := w\<rparr>)" using ready_continues [OF r c1] by simp
  have "continues sv rt1 rt2" using behavesD [OF run_request_intercepts_behaves [OF b] r1 i] by simp
  then have c2: "continues sv rt rt2" by (rule continues_trans [OF c1])
  have r2: "ready sv rt2" by (rule ready_continues [OF r c2])
  obtain p lv0 rt3 where h: "create_live_llm_handle sv p rt2 = (Finished (Inr lv0), rt3)"
    and k: "announce_llm_span sv (lx_codec lx) i (lv0\<lparr>lv_recorder := cell\<rparr>) rt3 = (Finished (Inr (request, lv, subs)), rt')"
    using t by (auto simp: open_llm_span_def try_then_Inr split: option.splits)
  have c3: "continues sv rt2 rt3" by (rule create_live_llm_handle_ready(1) [OF r2 h])
  have r3: "ready sv rt3" by (rule ready_continues [OF r2 c3])
  have "lv = lv0\<lparr>lv_recorder := cell\<rparr>" by (rule announce_llm_span_opens(5) [OF r3 k])
  then have "queues_delivery (discreet_start (lv_handle lv)) rt3 rt'" using announced_discreet [OF r3 d k] by simp
  then show ?thesis using queues_delivery_pre [OF continues_trans [OF c2 c3]] by blast
qed

lemma manual_start_discreet:
  assumes r: "ready sv rt" and d: "discreet_callbacks sv None" and "llm_call sv lc rt = (Finished (Inr lv), rt')"
  shows "queues_delivery (discreet_start (lv_handle lv)) rt rt'"
proof -
  obtain p lv0 rt1 where h: "create_live_llm_handle sv p rt = (Finished (Inr lv0), rt1)"
    and k: "start_manual_llm sv lc lv0 rt1 = (Finished (Inr lv), rt')"
    using assms(3) by (auto simp: llm_call_def try_then_Inr split: option.splits)
  have c1: "continues sv rt rt1" by (rule create_live_llm_handle_ready(1) [OF r h])
  have r1: "ready sv rt1" by (rule ready_continues [OF r c1])
  obtain s where s: "rt_stacks rt1 (lv_scope_stack lv0) = Healthy s"
    using k by (auto simp: start_manual_llm_def split: rwlock.splits)
  obtain s' w full fresh ents subs where lv: "lv = lv0"
    and rt': "rt' = queue_llm_start sv lv0 (lc_request lc) (lc_annotated_request lc) None full fresh ents subs
      (rt1\<lparr>rt_stacks := (rt_stacks rt1)(lv_scope_stack lv0 := Healthy s'), rt_world := w\<rparr>)"
    using k s by (auto simp: start_manual_llm_def Let_def split: prod.splits option.splits sum.splits rwlock.splits)
  let ?rt = "rt1\<lparr>rt_stacks := (rt_stacks rt1)(lv_scope_stack lv0 := Healthy s'), rt_world := w\<rparr>"
  have c: "continues sv rt1 ?rt" using r1 by (simp add: continues_def observed_def ready_def)
  have "queues_delivery (discreet_start (lv_handle lv)) ?rt rt'"
    unfolding rt' lv by (rule queue_llm_start_discreet [OF _ _ d]) (use c in \<open>simp_all add: continues_def\<close>)
  then show ?thesis using queues_delivery_pre [OF continues_trans [OF c1 c]] by blast
qed

text \<open>
  C6. Credentials never reach an observer through the start event of an LLM call. A manual call and the
  first half of a managed call, buffered or streamed, queue for their span a start event that has no
  data, and whatever event the dispatcher makes of it when it is published shows no request, or a
  request without any header whose name is, in any spelling, one of those that carry credentials. This
  holds for every request with whatever headers and every codec, with history or without, as long as
  the request sanitizers and the codec do not put such a header back themselves.
\<close>

theorem start_event_without_credentials:
  assumes "ready sv rt"
  shows "(discreet_callbacks sv None \<longrightarrow> llm_call sv lc rt = (Finished (Inr lv), rt') \<longrightarrow>
       queues_delivery (discreet_start (lv_handle lv)) rt rt') \<and>
    (llm_callbacks_behave sv \<longrightarrow> discreet_callbacks sv (lx_codec lx) \<longrightarrow>
       begin_managed_llm sv lx rt = (Finished (Inr (request, lv, subs)), rt') \<longrightarrow>
       queues_delivery (discreet_start (lv_handle lv)) rt rt')"
  using manual_start_discreet begun_discreet assms by blast

text \<open>A manual call with credentials in two spellings, and the managed call of the other examples.\<close>

definition demo_manual_call :: llm_call_params where
  "demo_manual_call = \<lparr>lc_name = ''openai'', lc_request = \<lparr>lr_headers = [(''Authorization'', JString ''Bearer key''),
       (''X-Api-Key'', JString ''key''), (''accept'', JString ''json'')], lr_content = JNull\<rparr>,
     lc_parent = None, lc_attributes = 0, lc_data = None, lc_metadata = None, lc_model_name = None,
     lc_annotated_request = None, lc_timestamp = None\<rparr>"

lemma demo_manual_starts:
  "\<exists>lv rt'. llm_call demo_llms demo_manual_call demo_runtime = (Finished (Inr lv), rt')"
proof -
  let ?p = "\<lparr>cl_name = ''openai'', cl_uuid = None, cl_parent_uuid = Some 1, cl_attributes = 0, cl_data = None,
      cl_metadata = None, cl_model_name = None, cl_timestamp = None\<rparr>"
  have p: "resolve_parent_uuid None demo_runtime = Some (Some 1)" using demo_parent by (simp add: resolve_parent_uuid_def)
  have r: "ready demo_llms demo_runtime" using demo_llms_ready [of "rt_world demo_runtime"] by simp
  have "\<exists>lv w. create_live_llm_handle demo_llms ?p demo_runtime = (Finished (Inr lv), demo_runtime\<lparr>rt_world := w\<rparr>) \<and>
      lh_parent_uuid (lv_handle lv) = Some 1"
    by (simp add: create_live_llm_handle_def owned_call_ready [OF r] demo_llm_context split_beta Let_def
        create_llm_handle_def) blast
  then obtain lv w where h: "create_live_llm_handle demo_llms ?p demo_runtime = (Finished (Inr lv), demo_runtime\<lparr>rt_world := w\<rparr>)"
      "lh_parent_uuid (lv_handle lv) = Some 1" by blast
  have "subscribed demo_llms (rt_context demo_runtime)" using r by (simp add: ready_def observed_def)
  then obtain fs w1 where sn: "snapshot_event_subscribers demo_llms (collect_scope_local_subscribers (scope_stack_new 1 0))
      (rt_context demo_runtime) w = (Inr fs, w1)" by (rule snapshot_subscribers_observed)
  obtain s' :: "nat scope_stack" where f: "take_agent_freshness (Some 1) (scope_stack_new 1 0) = (Some True, s')"
    by (simp add: take_agent_freshness_def owning_agent_uuid_def scope_stack_new_def build_handle_def)
  have "\<exists>rt'. start_manual_llm demo_llms demo_manual_call lv (demo_runtime\<lparr>rt_world := w\<rparr>) = (Finished (Inr lv), rt')"
    using h(2) sn f by (simp add: start_manual_llm_def demo_llm_context demo_llm_no_entries demo_no_locals Let_def)
  then show ?thesis using p h(1) by (auto simp: llm_call_def try_then_def demo_manual_call_def)
qed

lemma demo_llms_discreet: "discreet_callbacks demo_llms None"
  by (simp add: discreet_callbacks_def demo_llms_def)

theorem start_event_without_credentials_witness:
  "(\<exists>lv rt'. llm_call demo_llms demo_manual_call demo_runtime = (Finished (Inr lv), rt') \<and>
      queues_delivery (discreet_start (lv_handle lv)) demo_runtime rt') \<and>
   (\<exists>request lv subs rt'. begin_managed_llm demo_llms demo_llm_call demo_runtime = (Finished (Inr (request, lv, subs)), rt') \<and>
      queues_delivery (discreet_start (lv_handle lv)) demo_runtime rt')"
proof -
  have r: "ready demo_llms demo_runtime" using demo_llms_ready [of "rt_world demo_runtime"] by simp
  have c: "lx_codec demo_llm_call = None" by (simp add: demo_llm_call_def)
  show ?thesis
    using start_event_without_credentials [OF r] demo_manual_starts demo_llm_begins demo_llms_discreet demo_llms_behave c
    by metis
qed

section \<open>Ends\<close>









end
