(* ===== verification/Chunk_Marks.thy ===== *)
theory Chunk_Marks
  imports Metric_Events
begin

text \<open>
  The receipt that is published for every chunk of a streamed response (\<^verbatim>\<open>crates/core/src/stream.rs\<close>):
  a summary of the chunk in the three formats the runtime knows. It is shown that a receipt holds no
  content of the response.
\<close>

section \<open>Reading a chunk\<close>

fun json_as_array :: "json \<Rightarrow> json list option" where
  "json_as_array (JArray xs) = Some xs"
| "json_as_array _ = None"

definition json_as_u64 :: "json \<Rightarrow> 64 word option" where
  "json_as_u64 v = Option.bind (as_number v) as_u64"

abbreviation json_u64 :: "64 word \<Rightarrow> json" where
  "json_u64 n \<equiv> JNumber (PosInt n)"

abbreviation json_at :: "json option \<Rightarrow> string \<Rightarrow> json option" where
  "json_at v k \<equiv> Option.bind v (\<lambda>j. json_get j k)"

fun insert_some :: "string \<Rightarrow> json option \<Rightarrow> json_object \<Rightarrow> json_object" where
  "insert_some k None m = m"
| "insert_some k (Some v) m = bt_insert k v m"

definition non_empty_object :: "json_object \<Rightarrow> json option" where
  "non_empty_object m = (if m = [] then None else Some (JObject m))"

definition insert_u64_field :: "json \<Rightarrow> string \<Rightarrow> string \<Rightarrow> json_object \<Rightarrow> json_object" where
  "insert_u64_field input input_field output_field m =
     insert_some output_field (map_option json_u64 (Option.bind (json_get input input_field) json_as_u64)) m"

definition insert_index_fields :: "json \<Rightarrow> string list \<Rightarrow> json_object \<Rightarrow> json_object" where
  "insert_index_fields chunk field_names m =
     insert_some ''indices'' (non_empty_object (fold (\<lambda>f. insert_u64_field chunk f f) field_names [])) m"

section \<open>Usage\<close>

definition normalize_openai_chat_usage :: "json \<Rightarrow> json option" where
  "normalize_openai_chat_usage u = non_empty_object
     (insert_some ''cache_read_tokens'' (map_option json_u64 (Option.bind (json_at (json_get u ''prompt_tokens_details'') ''cached_tokens'') json_as_u64))
       (insert_u64_field u ''total_tokens'' ''total_tokens''
         (insert_u64_field u ''completion_tokens'' ''completion_tokens''
           (insert_u64_field u ''prompt_tokens'' ''prompt_tokens'' []))))"

definition normalize_openai_responses_usage :: "json \<Rightarrow> json option" where
  "normalize_openai_responses_usage u = non_empty_object
     (insert_some ''cache_read_tokens'' (map_option json_u64 (Option.bind (json_at (json_get u ''input_tokens_details'') ''cached_tokens'') json_as_u64))
       (insert_u64_field u ''total_tokens'' ''total_tokens''
         (insert_u64_field u ''output_tokens'' ''completion_tokens''
           (insert_u64_field u ''input_tokens'' ''prompt_tokens'' []))))"

definition checked_add_u64 :: "64 word \<Rightarrow> 64 word \<Rightarrow> 64 word option" where
  "checked_add_u64 a b = (if unat a + unat b < 2 ^ 64 then Some (a + b) else None)"

definition normalize_anthropic_usage :: "json \<Rightarrow> json option" where
  "normalize_anthropic_usage u =
     (let prompt = Option.bind (json_get u ''input_tokens'') json_as_u64;
          completion = Option.bind (json_get u ''output_tokens'') json_as_u64;
          combined = Option.bind prompt (\<lambda>p. Option.bind completion (checked_add_u64 p));
          m = insert_some ''prompt_tokens'' (map_option json_u64 prompt) [];
          m = insert_some ''completion_tokens'' (map_option json_u64 completion) m;
          m = insert_some ''total_tokens'' (map_option json_u64 combined) m;
          m = insert_u64_field u ''cache_read_input_tokens'' ''cache_read_tokens'' m;
          m = insert_u64_field u ''cache_creation_input_tokens'' ''cache_write_tokens'' m
      in non_empty_object m)"

section \<open>The summaries\<close>

definition base_chunk_mark_data :: "64 word \<Rightarrow> string \<Rightarrow> json_object" where
  "base_chunk_mark_data i provider = bt_insert ''provider'' (JString provider) (bt_insert ''chunk_index'' (json_u64 i) [])"

definition chunk_choice_indices :: "json list \<Rightarrow> json list" where
  "chunk_choice_indices choices = List.map_filter (\<lambda>c. map_option json_u64 (Option.bind (json_get c ''index'') json_as_u64)) choices"

definition chunk_finish_reasons :: "json list \<Rightarrow> json list" where
  "chunk_finish_reasons choices = List.map_filter (\<lambda>c. case Option.bind (json_get c ''finish_reason'') json_as_str of
       None \<Rightarrow> None
     | Some reason \<Rightarrow> Some (JObject (bt_insert ''finish_reason'' (JString reason)
         (insert_u64_field c ''index'' ''choice_index'' [])))) choices"

definition insert_list :: "string \<Rightarrow> json list \<Rightarrow> json_object \<Rightarrow> json_object" where
  "insert_list k xs m = (if xs = [] then m else bt_insert k (JArray xs) m)"

definition summarize_openai_chat_chunk :: "64 word \<Rightarrow> json \<Rightarrow> json option" where
  "summarize_openai_chat_chunk i chunk =
     (let object = Option.bind (json_get chunk ''object'') json_as_str;
          choices = Option.bind (json_get chunk ''choices'') json_as_array
      in if object \<noteq> Some ''chat.completion.chunk'' then None
         else
           (let m = insert_some ''event_type'' (map_option JString object) (base_chunk_mark_data i ''openai_chat_completions'');
                m = (case choices of
                    None \<Rightarrow> m
                  | Some cs \<Rightarrow> insert_list ''finish_reasons'' (chunk_finish_reasons cs)
                      (insert_list ''choice_indices'' (chunk_choice_indices cs) m));
                m = insert_some ''usage'' (Option.bind (json_get chunk ''usage'') normalize_openai_chat_usage) m
            in Some (JObject m)))"

definition first_some :: "'a option \<Rightarrow> 'a option \<Rightarrow> 'a option" where
  "first_some a b = (case a of Some x \<Rightarrow> Some x | None \<Rightarrow> b)"

definition summarize_openai_responses_chunk :: "64 word \<Rightarrow> json \<Rightarrow> json option" where
  "summarize_openai_responses_chunk i chunk = (case Option.bind (json_get chunk ''type'') json_as_str of
       None \<Rightarrow> None
     | Some event_type \<Rightarrow>
         if take 9 event_type \<noteq> ''response.'' then None
         else
           (let response = json_get chunk ''response'';
                m = bt_insert ''event_type'' (JString event_type) (base_chunk_mark_data i ''openai_responses'');
                m = insert_index_fields chunk [''output_index'', ''content_index''] m;
                m = insert_some ''status'' (map_option JString
                      (Option.bind (first_some (json_at response ''status'') (json_get chunk ''status'')) json_as_str)) m;
                m = insert_some ''finish_reason'' (map_option JString
                      (Option.bind (json_at (json_at response ''incomplete_details'') ''reason'') json_as_str)) m;
                m = insert_some ''usage''
                      (Option.bind (first_some (json_get chunk ''usage'') (json_at response ''usage'')) normalize_openai_responses_usage) m
            in Some (JObject m)))"

definition ANTHROPIC_EVENT_TYPES :: "string list" where
  "ANTHROPIC_EVENT_TYPES = [''message_start'', ''content_block_start'', ''content_block_delta'', ''content_block_stop'',
     ''message_delta'', ''message_stop'', ''ping'']"

definition summarize_anthropic_messages_chunk :: "64 word \<Rightarrow> json \<Rightarrow> json option" where
  "summarize_anthropic_messages_chunk i chunk = (case Option.bind (json_get chunk ''type'') json_as_str of
       None \<Rightarrow> None
     | Some event_type \<Rightarrow>
         if event_type \<notin> set ANTHROPIC_EVENT_TYPES then None
         else
           (let m = bt_insert ''event_type'' (JString event_type) (base_chunk_mark_data i ''anthropic_messages'');
                m = insert_index_fields chunk [''index''] m;
                m = insert_some ''stop_reason'' (map_option JString
                      (Option.bind (first_some (json_at (json_get chunk ''delta'') ''stop_reason'')
                        (json_at (json_get chunk ''message'') ''stop_reason'')) json_as_str)) m;
                m = insert_some ''usage'' (Option.bind
                      (first_some (json_get chunk ''usage'') (json_at (json_get chunk ''message'') ''usage'')) normalize_anthropic_usage) m
            in Some (JObject m)))"

definition llm_chunk_mark_data :: "64 word \<Rightarrow> json \<Rightarrow> json" where
  "llm_chunk_mark_data i chunk = (case summarize_openai_chat_chunk i chunk of
       Some data \<Rightarrow> data
     | None \<Rightarrow> (case summarize_openai_responses_chunk i chunk of
         Some data \<Rightarrow> data
       | None \<Rightarrow> (case summarize_anthropic_messages_chunk i chunk of
           Some data \<Rightarrow> data
         | None \<Rightarrow> JObject (base_chunk_mark_data i ''unknown''))))"

section \<open>Receipts hold no content\<close>

text \<open>
  What a receipt may depend on, as a schema: the numbers and words that stand at the given places. All
  else is removed, and what stands at such a place but is neither a number nor a word becomes null.
\<close>

datatype receipt_schema = Leaf | Fields "(string \<times> receipt_schema) list" | Items receipt_schema

primrec prune :: "receipt_schema \<Rightarrow> json \<Rightarrow> json" where
  "prune Leaf = (\<lambda>v. case v of JString s \<Rightarrow> JString s | JNumber n \<Rightarrow> JNumber n | _ \<Rightarrow> JNull)"
| "prune (Fields fs) =
     (let ps = map (map_prod id prune) fs
      in (\<lambda>v. case v of
           JObject m \<Rightarrow> JObject (List.map_filter (\<lambda>(k, x). map_option (\<lambda>p. (k, p x)) (map_of ps k)) m)
         | _ \<Rightarrow> JNull))"
| "prune (Items s) = (\<lambda>v. case v of JArray xs \<Rightarrow> JArray (map (prune s) xs) | _ \<Rightarrow> JNull)"

definition usage_schema :: receipt_schema where
  "usage_schema = Fields [(''prompt_tokens'', Leaf), (''completion_tokens'', Leaf), (''total_tokens'', Leaf),
     (''input_tokens'', Leaf), (''output_tokens'', Leaf), (''cache_read_input_tokens'', Leaf),
     (''cache_creation_input_tokens'', Leaf), (''prompt_tokens_details'', Fields [(''cached_tokens'', Leaf)]),
     (''input_tokens_details'', Fields [(''cached_tokens'', Leaf)])]"

definition chunk_schema :: receipt_schema where
  "chunk_schema = Fields [(''object'', Leaf), (''type'', Leaf), (''status'', Leaf), (''index'', Leaf),
     (''output_index'', Leaf), (''content_index'', Leaf), (''usage'', usage_schema),
     (''choices'', Items (Fields [(''index'', Leaf), (''finish_reason'', Leaf)])),
     (''response'', Fields [(''status'', Leaf), (''incomplete_details'', Fields [(''reason'', Leaf)]), (''usage'', usage_schema)]),
     (''delta'', Fields [(''stop_reason'', Leaf)]),
     (''message'', Fields [(''stop_reason'', Leaf), (''usage'', usage_schema)])]"

lemma map_of_map_filter: "map_of (List.map_filter (\<lambda>(k, x). map_option (\<lambda>p. (k, p x)) (f k)) m) k =
    (case f k of None \<Rightarrow> None | Some p \<Rightarrow> map_option p (map_of m k))"
  by (induction m) (auto simp: map_filter_simps split: option.splits)

lemma json_get_prune [simp]:
  "json_get (prune (Fields fs) v) k = Option.bind (map_of fs k) (\<lambda>s. map_option (prune s) (json_get v k))"
proof -
  have "map_of (map (map_prod id prune) fs) k = map_option prune (map_of fs k)"
    by (induction fs) auto
  then show ?thesis by (cases v) (auto simp: Let_def map_of_map_filter split: option.splits)
qed

lemma json_as_str_prune [simp]: "json_as_str (prune Leaf v) = json_as_str v"
  by (cases v) simp_all

lemma json_as_u64_prune [simp]: "json_as_u64 (prune Leaf v) = json_as_u64 v"
  by (cases v) (simp_all add: json_as_u64_def)

lemma json_as_array_prune [simp]: "json_as_array (prune (Items s) v) = map_option (map (prune s)) (json_as_array v)"
  by (cases v) simp_all

declare prune.simps [simp del]

lemma bind_map_option: "Option.bind (map_option f x) g = Option.bind x (\<lambda>v. g (f v))"
  by (cases x) simp_all

lemma bind_then_map: "Option.bind x (\<lambda>v. map_option f (g v)) = map_option f (Option.bind x g)"
  by (cases x) simp_all

lemma map_filter_map: "List.map_filter f (map g xs) = List.map_filter (\<lambda>x. f (g x)) xs"
  by (induction xs) (simp_all add: map_filter_simps split: option.split)

lemma first_some_map: "first_some (map_option f a) (map_option f b) = map_option f (first_some a b)"
  by (simp add: first_some_def split: option.split)

lemma usage_prune:
  "normalize_openai_chat_usage (prune usage_schema u) = normalize_openai_chat_usage u"
  "normalize_openai_responses_usage (prune usage_schema u) = normalize_openai_responses_usage u"
  "normalize_anthropic_usage (prune usage_schema u) = normalize_anthropic_usage u"
  by (simp_all add: normalize_openai_chat_usage_def normalize_openai_responses_usage_def normalize_anthropic_usage_def
      usage_schema_def insert_u64_field_def bind_map_option)

lemma choices_prune:
  "chunk_choice_indices (map (prune (Fields [(''index'', Leaf), (''finish_reason'', Leaf)])) cs) = chunk_choice_indices cs"
  "chunk_finish_reasons (map (prune (Fields [(''index'', Leaf), (''finish_reason'', Leaf)])) cs) = chunk_finish_reasons cs"
  by (simp_all add: chunk_choice_indices_def chunk_finish_reasons_def map_filter_map insert_u64_field_def bind_map_option
      cong: option.case_cong)

text \<open>
  C29. The receipt of a chunk discloses no content: it is a function of the few counters, indices,
  event types and status words that the schema lists, so two chunks that differ only in their text, tool
  arguments or any other field have the same receipt.
\<close>

theorem chunk_receipt_without_content:
  "llm_chunk_mark_data i chunk = llm_chunk_mark_data i (prune chunk_schema chunk)"
proof -
  have chat: "summarize_openai_chat_chunk i (prune chunk_schema chunk) = summarize_openai_chat_chunk i chunk"
    by (cases "Option.bind (json_get chunk ''choices'') json_as_array")
       (simp_all add: summarize_openai_chat_chunk_def chunk_schema_def bind_map_option bind_then_map usage_prune choices_prune Let_def)
  have responses: "summarize_openai_responses_chunk i (prune chunk_schema chunk) = summarize_openai_responses_chunk i chunk"
    by (simp add: summarize_openai_responses_chunk_def chunk_schema_def bind_map_option bind_then_map first_some_map usage_prune Let_def
        insert_index_fields_def insert_u64_field_def split: option.split)
  have anthropic: "summarize_anthropic_messages_chunk i (prune chunk_schema chunk) = summarize_anthropic_messages_chunk i chunk"
    by (simp add: summarize_anthropic_messages_chunk_def chunk_schema_def bind_map_option bind_then_map first_some_map usage_prune Let_def
        insert_index_fields_def insert_u64_field_def split: option.split)
  show ?thesis unfolding llm_chunk_mark_data_def chat responses anthropic ..
qed

end
