(* ===== verification/Llm_Stream.thy ===== *)
theory Llm_Stream
  imports Llm_Api Chunk_Marks
begin

text \<open>
  Streaming LLM calls: the streams that execution intercepts hand through (\<^verbatim>\<open>state.rs\<close>), the wrapper
  between the provider's stream and the consumer (\<^verbatim>\<open>crates/core/src/stream.rs\<close>), the background
  publication of its end event, and the managed call (\<^verbatim>\<open>llm_stream_call_execute\<close> of \<^verbatim>\<open>llm.rs\<close>).

  A producer is a value of type \<open>'p\<close> with its operations; they, the collector and the finalizer are
  effects over the runtime, and none of them is asynchronous but closing. They do not open managed
  streams of their own here. The end of a stream is published by a job of the background executor; the
  state lists the jobs it has accepted.
\<close>

section \<open>Streams\<close>

datatype 'a poll = Pending | Ready 'a

text \<open>
  \<^verbatim>\<open>Contextualized\<close> polls its inner stream under the context of the call that produced it. \<^verbatim>\<open>Guarded\<close>
  keeps the continuation of an intercept alive until its stream has ended; its flag is the guard.
\<close>

datatype 'p llm_json_stream =
    Producer 'p
  | Contextualized "'p llm_json_stream" continuation_context
  | Guarded "'p llm_json_stream" bool

record ('p, 'f, 'w) stream_ops =
  so_poll :: "'p \<Rightarrow> ('f, 'w) runtime \<Rightarrow> json flow_result option poll outcome \<times> 'p \<times> ('f, 'w) runtime"
  so_terminalize :: "'p \<Rightarrow> 'p"
  so_close :: "'p \<Rightarrow> ('f, 'w) runtime \<Rightarrow> unit flow_result outcome \<times> 'p \<times> ('f, 'w) runtime"
  so_collect :: "json \<Rightarrow> (('f, 'w) runtime, unit flow_result) effect"
  so_finalize :: "(('f, 'w) runtime, json) effect"

text \<open>\<^verbatim>\<open>MiddlewareContinuationContext::run\<close>\<close>

definition run_in_context ::
    "continuation_context \<Rightarrow> (('f, 'w) runtime \<Rightarrow> 'a \<times> 'b \<times> ('f, 'w) runtime) \<Rightarrow> ('f, 'w) runtime \<Rightarrow>
     'a \<times> 'b \<times> ('f, 'w) runtime" where
  "run_in_context c f rt =
     (let before = rt_bindings rt;
          inner = before\<lparr>task_scope_stack := Some (cc_scope_stack c),
            active_event_uuid := (case cc_active_event_uuid c of Some u \<Rightarrow> Some u | None \<Rightarrow> active_event_uuid before)\<rparr>;
          (r, s, rt') = f (rt\<lparr>rt_bindings := inner\<rparr>)
      in (r, s, rt'\<lparr>rt_bindings := (rt_bindings rt')\<lparr>task_scope_stack := task_scope_stack before,
            active_event_uuid := active_event_uuid before\<rparr>\<rparr>))"

fun poll_stream ::
    "('p, 'f, 'w) stream_ops \<Rightarrow> 'p llm_json_stream \<Rightarrow> ('f, 'w) runtime \<Rightarrow>
     json flow_result option poll outcome \<times> 'p llm_json_stream \<times> ('f, 'w) runtime" where
  "poll_stream ops (Producer p) rt = (case so_poll ops p rt of (r, p, rt) \<Rightarrow> (r, Producer p, rt))"
| "poll_stream ops (Contextualized s c) rt =
     (case run_in_context c (poll_stream ops s) rt of (r, s, rt) \<Rightarrow> (r, Contextualized s c, rt))"
| "poll_stream ops (Guarded s guard) rt =
     (case poll_stream ops s rt of (r, s, rt) \<Rightarrow> (r, Guarded s (guard \<and> r \<noteq> Finished (Ready None)), rt))"

fun terminalize_stream :: "('p, 'f, 'w) stream_ops \<Rightarrow> 'p llm_json_stream \<Rightarrow> 'p llm_json_stream" where
  "terminalize_stream ops (Producer p) = Producer (so_terminalize ops p)"
| "terminalize_stream ops (Contextualized s c) = Contextualized (terminalize_stream ops s) c"
| "terminalize_stream ops (Guarded s guard) = Guarded (terminalize_stream ops s) False"

fun close_stream ::
    "('p, 'f, 'w) stream_ops \<Rightarrow> 'p llm_json_stream \<Rightarrow> ('f, 'w) runtime \<Rightarrow>
     unit flow_result outcome \<times> 'p llm_json_stream \<times> ('f, 'w) runtime" where
  "close_stream ops (Producer p) rt = (case so_close ops p rt of (r, p, rt) \<Rightarrow> (r, Producer p, rt))"
| "close_stream ops (Contextualized s c) rt =
     (case run_in_context c (close_stream ops s) rt of (r, s, rt) \<Rightarrow> (r, Contextualized s c, rt))"
| "close_stream ops (Guarded s guard) rt =
     (case close_stream ops s rt of (r, s, rt) \<Rightarrow> (r, Guarded s False, rt))"

section \<open>The wrapper\<close>

record ('p, 'f) llm_stream_wrapper =
  ws_inner :: "'p llm_json_stream"
  ws_handle :: live_llm_handle
  ws_finalizer :: bool
  ws_response_codec :: "llm_response_codec option"
  ws_metadata :: "json option"
  ws_subscribers :: "'f list"
  ws_chunk_index :: "64 word"
  ws_ended :: bool
  ws_close_result :: "unit flow_result option"
  ws_terminal_result :: "json flow_result option"

definition wrapper_new_managed ::
    "'p llm_json_stream \<Rightarrow> live_llm_handle \<Rightarrow> json option \<Rightarrow> llm_response_codec option \<Rightarrow> 'f list \<Rightarrow>
     ('p, 'f) llm_stream_wrapper" where
  "wrapper_new_managed inner lv metadata codec subscribers =
     \<lparr>ws_inner = inner, ws_handle = lv, ws_finalizer = True, ws_response_codec = codec, ws_metadata = metadata,
      ws_subscribers = subscribers, ws_chunk_index = 0, ws_ended = False, ws_close_result = None, ws_terminal_result = None\<rparr>"

definition wrapper_new ::
    "('f, 'w, 'z) llm_host_scheme \<Rightarrow> 'p llm_json_stream \<Rightarrow> live_llm_handle \<Rightarrow> json option \<Rightarrow> llm_response_codec option \<Rightarrow>
     (('f, 'w) runtime, ('p, 'f) llm_stream_wrapper) effect" where
  "wrapper_new sv inner lv metadata codec rt = (case visible_stack rt of
       Poisoned _ _ \<Rightarrow> (Panicked, rt)
     | Healthy s \<Rightarrow>
         (let (r, w) = snapshot_event_subscribers sv (collect_scope_local_subscribers s) (rt_context rt) (rt_world rt);
              subscribers = (case r of Inl _ \<Rightarrow> [] | Inr fs \<Rightarrow> fs)
          in (Finished (wrapper_new_managed inner lv metadata codec subscribers), rt\<lparr>rt_world := w\<rparr>)))"

datatype stream_termination = StreamComplete | StreamFailed | StreamDropped

definition is_interrupted :: "stream_termination \<Rightarrow> bool" where
  "is_interrupted t \<longleftrightarrow> t \<noteq> StreamComplete"

text \<open>What a job of the background executor has captured.\<close>

record 'f finalization =
  fz_slot :: "nat option"
  fz_handle :: live_llm_handle
  fz_response :: json
  fz_null_without_fallback :: bool
  fz_entries :: "'f registry_record list option"
  fz_metadata :: "json option"
  fz_termination :: stream_termination
  fz_timestamp :: timestamp
  fz_response_codec :: "llm_response_codec option"
  fz_subscribers :: "'f list"

record ('f, 'w) publisher =
  pu_runtime :: "('f, 'w) runtime"
  pu_executor :: bool
  pu_jobs :: "'f finalization list"

abbreviation pu_world :: "('f, 'w) publisher \<Rightarrow> 'w" where
  "pu_world pu \<equiv> rt_world (pu_runtime pu)"

definition pu_update :: "(('f, 'w) runtime \<Rightarrow> ('f, 'w) runtime) \<Rightarrow> ('f, 'w) publisher \<Rightarrow> ('f, 'w) publisher" where
  "pu_update f pu = pu\<lparr>pu_runtime := f (pu_runtime pu)\<rparr>"

text \<open>A job that is not accepted is dropped, and with it the handle of its barrier.\<close>

definition spawn_background_publication :: "'f finalization \<Rightarrow> ('f, 'w) publisher \<Rightarrow> ('f, 'w) publisher" where
  "spawn_background_publication fz pu =
     (if pu_executor pu then pu\<lparr>pu_jobs := pu_jobs pu @ [fz]\<rparr>
      else (case fz_slot fz of
          None \<Rightarrow> pu
        | Some s \<Rightarrow> pu_update (\<lambda>rt. rt\<lparr>rt_dispatcher := async_drop s (rt_dispatcher rt)\<rparr>) pu))"

definition register_end_barrier :: "('f, 'w) publisher \<Rightarrow> nat option \<times> ('f, 'w) publisher" where
  "register_end_barrier pu =
     (let rt = pu_runtime pu;
          (slot, cx, d) = register_async_publication (rt_emit rt) (rt_dispatcher rt)
      in (slot, pu\<lparr>pu_runtime := rt\<lparr>rt_emit := cx, rt_dispatcher := d\<rparr>\<rparr>))"

definition emit_end_event ::
    "('f, 'w, 'z) llm_host_scheme \<Rightarrow> ('p, 'f, 'w) stream_ops \<Rightarrow> json option \<Rightarrow> stream_termination \<Rightarrow>
     ('p, 'f) llm_stream_wrapper \<Rightarrow> ('f, 'w) publisher \<Rightarrow>
     unit outcome \<times> ('p, 'f) llm_stream_wrapper \<times> ('f, 'w) publisher" where
  "emit_end_event sv ops metadata termination ws pu =
     (let (slot, pu) = register_end_barrier pu;
          rt = pu_runtime pu;
          (ts, w) = clock sv (rt_world rt);
          (aggregated, rt) = (if ws_finalizer ws then so_finalize ops (rt\<lparr>rt_world := w\<rparr>)
            else (Finished JNull, rt\<lparr>rt_world := w\<rparr>));
          ws = ws\<lparr>ws_finalizer := False\<rparr>;
          lv = ws_handle ws
      in case aggregated of
           Finished v \<Rightarrow>
             (let fallback = lh_data (lv_handle lv);
                  (ents, w) = response_sanitizers sv (lv_scope_stack lv) rt;
                  fz = \<lparr>fz_slot = slot, fz_handle = lv, fz_response = (if v = JNull then or_else fallback v else v),
                        fz_null_without_fallback = (v = JNull \<and> fallback = None), fz_entries = ents, fz_metadata = metadata,
                        fz_termination = termination, fz_timestamp = ts, fz_response_codec = ws_response_codec ws,
                        fz_subscribers = ws_subscribers ws\<rparr>
              in (Finished (), ws, spawn_background_publication fz (pu\<lparr>pu_runtime := rt\<lparr>rt_world := w\<rparr>\<rparr>)))
         | _ \<Rightarrow> (Panicked, ws, pu\<lparr>pu_runtime := (case slot of None \<Rightarrow> rt
               | Some s \<Rightarrow> rt\<lparr>rt_dispatcher := async_drop s (rt_dispatcher rt)\<rparr>)\<rparr>))"

definition close_recorder ::
    "('f, 'w, 'z) llm_host_scheme \<Rightarrow> live_llm_handle \<Rightarrow> string option \<Rightarrow> ('f, 'w) runtime \<Rightarrow> ('f, 'w) runtime" where
  "close_recorder sv lv limitation rt =
     rt\<lparr>rt_world := update_recorder sv (lv_recorder lv) (snd \<circ> close_for_finalization limitation) (rt_world rt)\<rparr>"

definition wrapper_finish ::
    "('f, 'w, 'z) llm_host_scheme \<Rightarrow> ('p, 'f, 'w) stream_ops \<Rightarrow> ('p, 'f) llm_stream_wrapper \<Rightarrow> ('f, 'w) publisher \<Rightarrow>
     unit outcome \<times> ('p, 'f) llm_stream_wrapper \<times> ('f, 'w) publisher" where
  "wrapper_finish sv ops ws pu =
     (if ws_ended ws then (Finished (), ws, pu)
      else emit_end_event sv ops
        (metadata_with_otel_status (ws_metadata ws) ''ERROR'' (Some ''stream dropped before clean completion'')) StreamDropped
        (ws\<lparr>ws_ended := True\<rparr>) (pu_update (close_recorder sv (ws_handle ws) None) pu))"

definition finish_cleanly ::
    "('f, 'w, 'z) llm_host_scheme \<Rightarrow> ('p, 'f, 'w) stream_ops \<Rightarrow> ('p, 'f) llm_stream_wrapper \<Rightarrow> ('f, 'w) publisher \<Rightarrow>
     unit outcome \<times> ('p, 'f) llm_stream_wrapper \<times> ('f, 'w) publisher" where
  "finish_cleanly sv ops ws pu =
     (if ws_ended ws then (Finished (), ws, pu)
      else emit_end_event sv ops (metadata_with_otel_status (ws_metadata ws) ''OK'' None) StreamComplete
        (ws\<lparr>ws_ended := True, ws_inner := terminalize_stream ops (ws_inner ws)\<rparr>)
        (pu_update (close_recorder sv (ws_handle ws) None) pu))"

definition finish_with_error ::
    "('f, 'w, 'z) llm_host_scheme \<Rightarrow> ('p, 'f, 'w) stream_ops \<Rightarrow> flow_error \<Rightarrow> ('p, 'f) llm_stream_wrapper \<Rightarrow>
     ('f, 'w) publisher \<Rightarrow> unit outcome \<times> ('p, 'f) llm_stream_wrapper \<times> ('f, 'w) publisher" where
  "finish_with_error sv ops e ws pu =
     (if ws_ended ws then (Finished (), ws, pu)
      else emit_end_event sv ops (metadata_with_otel_error (ws_metadata ws) e) StreamFailed
        (ws\<lparr>ws_ended := True, ws_inner := terminalize_stream ops (ws_inner ws)\<rparr>)
        (pu_update (close_recorder sv (ws_handle ws) None) pu))"

definition emit_chunk_mark ::
    "('f, 'w, 'z) llm_host_scheme \<Rightarrow> ('p, 'f) llm_stream_wrapper \<Rightarrow> 64 word \<Rightarrow> json \<Rightarrow> ('f, 'w) runtime \<Rightarrow>
     ('f, 'w) runtime" where
  "emit_chunk_mark sv ws i chunk rt = (case rt_context rt of
       Poisoned _ _ \<Rightarrow> rt
     | Healthy _ \<Rightarrow>
         (let (u, w) = new_uuid sv (rt_world rt);
              (now, w) = clock sv w;
              e = Mark (mark_event_new (base_event_build (Some (lh_uuid (lv_handle (ws_handle ws)))) u now ''llm.chunk''
                    (Some (llm_chunk_mark_data i chunk)) None) None None)
          in queue_sanitized_event sv (ws_subscribers ws) (lv_scope_stack (ws_handle ws)) e (rt\<lparr>rt_world := w\<rparr>)))"

text \<open>A poll of a stream that has ended hands out the terminal result once.\<close>

definition poll_ended ::
    "('p, 'f) llm_stream_wrapper \<Rightarrow> json flow_result option poll outcome \<times> ('p, 'f) llm_stream_wrapper" where
  "poll_ended ws = (Finished (Ready (ws_terminal_result ws)), ws\<lparr>ws_terminal_result := None\<rparr>)"

text \<open>The counter of chunks is a \<^verbatim>\<open>u64\<close> that wraps, as in a release build.\<close>

definition poll_failed ::
    "('f, 'w, 'z) llm_host_scheme \<Rightarrow> ('p, 'f, 'w) stream_ops \<Rightarrow> flow_error \<Rightarrow> ('p, 'f) llm_stream_wrapper \<Rightarrow>
     ('f, 'w) publisher \<Rightarrow>
     json flow_result option poll outcome \<times> ('p, 'f) llm_stream_wrapper \<times> ('f, 'w) publisher" where
  "poll_failed sv ops e ws pu = (case finish_with_error sv ops e ws pu of
       (Finished _, ws, pu) \<Rightarrow>
         (case poll_ended (ws\<lparr>ws_terminal_result := Some (Inl e)\<rparr>) of (r, ws) \<Rightarrow> (r, ws, pu))
     | (_, ws, pu) \<Rightarrow> (Panicked, ws, pu))"

definition poll_next ::
    "('f, 'w, 'z) llm_host_scheme \<Rightarrow> ('p, 'f, 'w) stream_ops \<Rightarrow> ('p, 'f) llm_stream_wrapper \<Rightarrow> ('f, 'w) publisher \<Rightarrow>
     json flow_result option poll outcome \<times> ('p, 'f) llm_stream_wrapper \<times> ('f, 'w) publisher" where
  "poll_next sv ops ws pu =
     (if ws_ended ws then (case poll_ended ws of (r, ws) \<Rightarrow> (r, ws, pu))
      else (case poll_stream ops (ws_inner ws) (pu_runtime pu) of (r, inner, rt) \<Rightarrow>
        (let ws = ws\<lparr>ws_inner := inner\<rparr>; pu = pu\<lparr>pu_runtime := rt\<rparr>
         in case r of
              Finished (Ready (Some (Inr chunk))) \<Rightarrow>
                (let i = ws_chunk_index ws;
                     ws = ws\<lparr>ws_chunk_index := i + 1\<rparr>;
                     rt = emit_chunk_mark sv ws i chunk rt
                 in case so_collect ops chunk rt of
                      (Finished (Inr _), rt) \<Rightarrow> (Finished (Ready (Some (Inr chunk))), ws, pu\<lparr>pu_runtime := rt\<rparr>)
                    | (Finished (Inl e), rt) \<Rightarrow> poll_failed sv ops e ws (pu\<lparr>pu_runtime := rt\<rparr>)
                    | (_, rt) \<Rightarrow> (Panicked, ws, pu\<lparr>pu_runtime := rt\<rparr>))
            | Finished (Ready (Some (Inl e))) \<Rightarrow> poll_failed sv ops e ws pu
            | Finished (Ready None) \<Rightarrow> (case finish_cleanly sv ops ws pu of
                  (Finished _, ws, pu) \<Rightarrow> (case poll_ended ws of (r, ws) \<Rightarrow> (r, ws, pu))
                | (_, ws, pu) \<Rightarrow> (Panicked, ws, pu))
            | Finished Pending \<Rightarrow> (Finished Pending, ws, pu)
            | _ \<Rightarrow> (Panicked, ws, pu))))"

definition wrapper_close ::
    "('f, 'w, 'z) llm_host_scheme \<Rightarrow> ('p, 'f, 'w) stream_ops \<Rightarrow> ('p, 'f) llm_stream_wrapper \<Rightarrow> ('f, 'w) publisher \<Rightarrow>
     unit flow_result outcome \<times> ('p, 'f) llm_stream_wrapper \<times> ('f, 'w) publisher" where
  "wrapper_close sv ops ws pu = (case ws_close_result ws of
       Some r \<Rightarrow> (Finished r, ws, pu)
     | None \<Rightarrow> (case close_stream ops (ws_inner ws) (pu_runtime pu) of (r, inner, rt) \<Rightarrow>
         (let ws = ws\<lparr>ws_inner := inner\<rparr>; pu = pu\<lparr>pu_runtime := rt\<rparr>
          in case r of
               Finished result \<Rightarrow> (case wrapper_finish sv ops ws pu of
                   (Finished _, ws, pu) \<Rightarrow> (Finished result, ws\<lparr>ws_close_result := Some result\<rparr>, pu)
                 | (_, ws, pu) \<Rightarrow> (Panicked, ws, pu))
             | Panicked \<Rightarrow> (Panicked, ws, pu)
             | Dropped \<Rightarrow> (Dropped, ws, pu))))"

definition wrapper_drop ::
    "('f, 'w, 'z) llm_host_scheme \<Rightarrow> ('p, 'f, 'w) stream_ops \<Rightarrow> ('p, 'f) llm_stream_wrapper \<Rightarrow> ('f, 'w) publisher \<Rightarrow>
     unit outcome \<times> ('p, 'f) llm_stream_wrapper \<times> ('f, 'w) publisher" where
  "wrapper_drop sv ops ws pu = wrapper_finish sv ops ws pu"

section \<open>The background publication\<close>

definition has_authoritative_final_usage :: "annotated_llm_response option \<Rightarrow> bool" where
  "has_authoritative_final_usage response = (case response of
       None \<Rightarrow> False
     | Some r \<Rightarrow> ar_finish_reason r \<noteq> None \<and> (case ar_usage r of
           None \<Rightarrow> False
         | Some u \<Rightarrow> us_total_tokens u \<noteq> None \<or> us_prompt_tokens u \<noteq> None \<and> us_completion_tokens u \<noteq> None))"

definition has_authoritative_terminal_outcome :: "annotated_llm_response option \<Rightarrow> bool" where
  "has_authoritative_terminal_outcome response \<longleftrightarrow> has_authoritative_final_usage response \<and>
     (case Option.bind response ar_finish_reason of
        None \<Rightarrow> False
      | Some reason \<Rightarrow> (case reason of FinishUnknown _ \<Rightarrow> False | _ \<Rightarrow> True))"

text \<open>
  The data and the annotation of the end event. A sanitizer snapshot that failed withholds the payload.
\<close>

definition finalization_data ::
    "('f, 'w, 'z) llm_host_scheme \<Rightarrow> 'f finalization \<Rightarrow> ('w, json option \<times> annotated_llm_response option) effect" where
  "finalization_data sv fz w =
     (let (sanitized, w) = (case fz_entries fz of
          None \<Rightarrow> (Finished None, w)
        | Some ents \<Rightarrow> llm_sanitize_response_snapshot_chain (fz_response fz) (fz_response_codec fz)
            (map (record_map (as_llm_response_sanitizer sv)) ents) w)
      in case sanitized of
           Panicked \<Rightarrow> (Panicked, w)
         | Dropped \<Rightarrow> (Dropped, w)
         | Finished s \<Rightarrow>
             (let data = (case s of
                    Some r \<Rightarrow> if fz_null_without_fallback fz \<and> r = JNull then None else Some r
                  | None \<Rightarrow> None);
                  annotation = (case (data, fz_response_codec fz) of
                    (Some d, Some c) \<Rightarrow> if d = JNull then None
                      else (case decode_response c d of
                          Inl _ \<Rightarrow> None
                        | Inr a \<Rightarrow> Some (attach_estimated_cost_for_provider (pricing_lock sv w)
                            (Some (lh_name (lv_handle (fz_handle fz)))) a))
                  | _ \<Rightarrow> None)
              in (Finished (data, annotation), w)))"

definition finalization_metadata :: "'f finalization \<Rightarrow> annotated_llm_response option \<Rightarrow> json option" where
  "finalization_metadata fz annotation =
     (if fz_termination fz = StreamDropped \<and> has_authoritative_terminal_outcome annotation
      then metadata_with_otel_status (fz_metadata fz) ''OK'' None else fz_metadata fz)"

definition finalization_limitation :: "'f finalization \<Rightarrow> annotated_llm_response option \<Rightarrow> string option" where
  "finalization_limitation fz annotation =
     (if is_interrupted (fz_termination fz) \<and> \<not> has_authoritative_final_usage annotation
      then Some ''stream_interrupted'' else None)"

definition finalization_event ::
    "'f finalization \<Rightarrow> json option \<Rightarrow> json option \<Rightarrow> annotated_llm_response option \<Rightarrow> event" where
  "finalization_event fz data metadata annotation = build_llm_end_event (fz_timestamp fz)
     \<lparr>eh_handle = lv_handle (fz_handle fz), eh_data = data, eh_metadata = metadata,
      eh_timestamp = Some (fz_timestamp fz)\<rparr> annotation"

definition publish_end_event ::
    "('f, 'w, 'z) llm_host_scheme \<Rightarrow> 'f finalization \<Rightarrow> event \<Rightarrow> ('f, 'w) runtime \<Rightarrow> ('f, 'w) runtime" where
  "publish_end_event sv fz e rt = (case rt_context rt of
       Poisoned _ _ \<Rightarrow> rt
     | Healthy _ \<Rightarrow>
         (let stack = rt_stacks rt (lv_scope_stack (fz_handle fz));
              (sanitizers, w) = snapshot_event_sanitizers sv e stack (rt_context rt) (rt_world rt)
          in snd (dispatch_reserved_sanitized_event sv e (or_else sanitizers []) (fz_subscribers fz) stack
               (rt\<lparr>rt_world := w\<rparr>))))"

text \<open>
  The job itself; \<open>Dropped\<close> is a sanitizer that is never resumed, or records that never come in. The
  marks go where the job's other publications go, so \<^verbatim>\<open>emit_reserved_optimization_marks\<close> is
  \<open>emit_optimization_marks\<close> here.
\<close>

definition finalize_stream ::
    "('f, 'w, 'z) llm_host_scheme \<Rightarrow> 'f finalization \<Rightarrow> (('f, 'w) runtime, unit) effect" where
  "finalize_stream sv fz rt =
     (let lv = fz_handle fz
      in case finalization_data sv fz (rt_world rt) of
           (Finished (data, annotation), w) \<Rightarrow>
             (let rt = close_recorder sv lv (finalization_limitation fz annotation) (rt\<lparr>rt_world := w\<rparr>);
                  rt = emit_optimization_marks sv lv (fz_subscribers fz) rt;
                  metadata = finalization_metadata fz annotation
              in case finalize_summary sv (lv_recorder lv) annotation (lh_model_name (lv_handle lv)) (rt_world rt) of
                   (None, w) \<Rightarrow> (Dropped, rt\<lparr>rt_world := w\<rparr>)
                 | (Some (summary, annotation), w) \<Rightarrow>
                     (let annotation = (if data \<noteq> None \<and> data \<noteq> Some JNull \<and> annotation = None
                            then map_option summary_response summary else annotation)
                      in (Finished (), publish_end_event sv fz (finalization_event fz data metadata annotation)
                            (rt\<lparr>rt_world := w\<rparr>))))
         | (Panicked, w) \<Rightarrow> (Panicked, rt\<lparr>rt_world := w\<rparr>)
         | (Dropped, w) \<Rightarrow> (Dropped, rt\<lparr>rt_world := w\<rparr>))"

text \<open>
  \<^verbatim>\<open>with_async_publication_context\<close> on the executor's thread: what the job publishes is buffered and
  sent to its barrier when it is done. Without a barrier it is sent at once. A job that does not finish
  loses its buffer, and its barrier is closed.
\<close>

definition job_context :: "nat option \<Rightarrow> 'w emit_context" where
  "job_context slot = (plain_context None)\<lparr>async_buffer := Some \<lparr>pb_messages = map_option (\<lambda>_. []) slot, pb_lineage = None\<rparr>\<rparr>"

definition buffered_messages :: "'w emit_context \<Rightarrow> 'w message list" where
  "buffered_messages cx = (case async_buffer cx of None \<Rightarrow> [] | Some b \<Rightarrow> buffer_take b)"

definition run_finalization ::
    "('f, 'w, 'z) llm_host_scheme \<Rightarrow> 'f finalization \<Rightarrow> ('f, 'w) runtime \<Rightarrow> ('f, 'w) runtime" where
  "run_finalization sv fz rt =
     (case finalize_stream sv fz (rt\<lparr>rt_emit := job_context (fz_slot fz)\<rparr>) of
        (r, rt') \<Rightarrow>
          (let ms = buffered_messages (rt_emit rt');
               d = rt_dispatcher rt';
               d = (case fz_slot fz of
                   None \<Rightarrow> d
                 | Some s \<Rightarrow> (case r of
                     Finished _ \<Rightarrow> d\<lparr>slots := (slots d)(s := Sent ms)\<rparr>
                   | _ \<Rightarrow> (fold (\<lambda>m. drop_permit_opt (message_permit m)) ms d)\<lparr>slots := (slots d)(s := Closed)\<rparr>))
           in rt'\<lparr>rt_emit := rt_emit rt, rt_dispatcher := d\<rparr>))"

section \<open>The managed streaming call\<close>

text \<open>The stream that a call of the rest of the chain yields is polled in the context of that call.\<close>

definition invoke_stream_continuation ::
    "continuation_context \<Rightarrow> (('f, 'w) runtime, 'p llm_json_stream flow_result) effect \<Rightarrow>
     (('f, 'w) runtime, 'p llm_json_stream flow_result) effect" where
  "invoke_stream_continuation c f rt = (case invoke_continuation c f rt of (r, rt') \<Rightarrow>
     (map_outcome (map_sum id (\<lambda>s. Contextualized s (c\<lparr>cc_scope_stack := rt_next_stack rt\<rparr>))) r, rt'))"

fun llm_stream_build_execution_chain ::
    "('f \<Rightarrow> string \<Rightarrow> llm_request \<Rightarrow> ('f, 'w) runtime \<Rightarrow>
       (('f, 'w) runtime, 'p llm_json_stream) llm_program \<times> ('f, 'w) runtime) \<Rightarrow>
     string \<Rightarrow> ('f, 'w, 'p llm_json_stream) llm_next \<Rightarrow> ('f \<times> int) list \<Rightarrow> ('f, 'w, 'p llm_json_stream) llm_next" where
  "llm_stream_build_execution_chain as_execution name default_fn [] request rt = default_fn request rt"
| "llm_stream_build_execution_chain as_execution name default_fn ((f, _) # fs) request rt =
     (let c = capture_continuation rt;
          next = (\<lambda>request. invoke_stream_continuation c
            (llm_stream_build_execution_chain as_execution name default_fn fs request));
          (program, rt) = as_execution f name request rt;
          (r, rt) = run_llm_program program next rt
      in (map_outcome (map_sum id (\<lambda>s. Guarded s True)) r, rt))"

definition llm_stream_execution_phase ::
    "('f, 'w, 'z) llm_host_scheme \<Rightarrow>
     ('f \<Rightarrow> string \<Rightarrow> llm_request \<Rightarrow> ('f, 'w) runtime \<Rightarrow>
       (('f, 'w) runtime, 'p llm_json_stream) llm_program \<times> ('f, 'w) runtime) \<Rightarrow>
     ('f, 'w, 'p llm_json_stream) llm_next \<Rightarrow> string \<Rightarrow> ('f, 'w, 'p llm_json_stream) llm_next" where
  "llm_stream_execution_phase sv as_execution func name request rt = (case visible_stack rt of
       Poisoned _ _ \<Rightarrow> (Panicked, rt)
     | Healthy s \<Rightarrow> (case rt_context rt of
         Poisoned m _ \<Rightarrow> (Finished (Inl (Internal m)), rt)
       | Healthy st \<Rightarrow>
           (let (matching, w) = merge_execution_intercept_callables (gates_of sv)
                  (llm_stream_execution_intercepts (cx_registries (registry_snapshot [LlmStreamExecutionIntercept] st)))
                  (collect_scope_local_registries llm_stream_execution_intercepts s) LlmStreamExecutionIntercept (rt_world rt);
                rt = rt\<lparr>rt_world := w\<rparr>;
                c = capture_continuation rt;
                (r, rt) = llm_stream_build_execution_chain as_execution name func matching request rt
            in (map_outcome (map_sum id (\<lambda>s. Contextualized s c)) r, rt))))"

definition managed_llm_stream ::
    "('f, 'w, 'z) llm_host_scheme \<Rightarrow>
     ('f \<Rightarrow> string \<Rightarrow> llm_request \<Rightarrow> ('f, 'w) runtime \<Rightarrow>
       (('f, 'w) runtime, 'p llm_json_stream) llm_program \<times> ('f, 'w) runtime) \<Rightarrow>
     ('f, 'w, 'p llm_json_stream) llm_next \<Rightarrow> llm_call_execute_params \<Rightarrow> llm_request \<Rightarrow> live_llm_handle \<Rightarrow> 'f list \<Rightarrow>
     (('f, 'w) runtime, ('p, 'f) llm_stream_wrapper flow_result) effect" where
  "managed_llm_stream sv as_execution func lx request lv subscribers rt =
     (let (mc, rt) = llm_completion_new lv (lx_metadata lx) (lx_response_codec lx) subscribers rt
      in case with_active_event_uuid (lh_uuid (lv_handle lv))
           (llm_stream_execution_phase sv as_execution func (lx_name lx) request) rt of
           (Finished (Inr stream), rt) \<Rightarrow>
             (Finished (Inr (wrapper_new_managed stream lv (lx_metadata lx) (lx_response_codec lx) subscribers)),
              disarm_llm_completion mc rt)
         | (Finished (Inl e), rt) \<Rightarrow>
             (case emit_llm_end_without_output sv lv (metadata_with_otel_error (lx_metadata lx) e) (lx_response_codec lx)
                (Some subscribers) rt of
                (Finished _, rt) \<Rightarrow> (Finished (Inl e), disarm_llm_completion mc rt)
              | (Panicked, rt) \<Rightarrow> (Panicked, drop_llm_completion sv mc rt)
              | (Dropped, rt) \<Rightarrow> (Dropped, drop_llm_completion sv mc rt))
         | (Panicked, rt) \<Rightarrow> (Panicked, drop_llm_completion sv mc rt)
         | (Dropped, rt) \<Rightarrow> (Dropped, drop_llm_completion sv mc rt))"

definition llm_stream_call_execute ::
    "('f, 'w, 'z) llm_host_scheme \<Rightarrow>
     ('f \<Rightarrow> string \<Rightarrow> llm_request \<Rightarrow> ('f, 'w) runtime \<Rightarrow>
       (('f, 'w) runtime, 'p llm_json_stream) llm_program \<times> ('f, 'w) runtime) \<Rightarrow>
     ('f, 'w, 'p llm_json_stream) llm_next \<Rightarrow> llm_call_execute_params \<Rightarrow>
     (('f, 'w) runtime, ('p, 'f) llm_stream_wrapper flow_result) effect" where
  "llm_stream_call_execute sv as_execution func lx = owned_call (\<lambda>rt.
     try_then (begin_managed_llm sv lx rt)
       (\<lambda>(request, lv, subscribers). managed_llm_stream sv as_execution func lx request lv subscribers))"

end
