(* ===== verification/Stream_Properties.thy ===== *)
theory Stream_Properties
  imports Llm_Stream Llm_Properties
begin

text \<open>
  What a consumer of a stream can rely on, and what observers see of it: the provider's chunks up to
  the first failure, one end event however the stream is given up, and an end event that stands at the
  place reserved for it.
\<close>

section \<open>Runs of a consumer\<close>

datatype stream_action = DoPoll | DoClose | DoDrop

datatype stream_observation =
    Polled "json flow_result option poll outcome"
  | ClosedWith "unit flow_result outcome"
  | DroppedWith "unit outcome"

fun stream_act ::
    "('f, 'w, 'z) llm_host_scheme \<Rightarrow> ('p, 'f, 'w) stream_ops \<Rightarrow> stream_action \<Rightarrow> ('p, 'f) llm_stream_wrapper \<Rightarrow>
     ('f, 'w) publisher \<Rightarrow> stream_observation \<times> ('p, 'f) llm_stream_wrapper \<times> ('f, 'w) publisher" where
  "stream_act sv ops DoPoll ws pu = (case poll_next sv ops ws pu of (r, ws, pu) \<Rightarrow> (Polled r, ws, pu))"
| "stream_act sv ops DoClose ws pu = (case wrapper_close sv ops ws pu of (r, ws, pu) \<Rightarrow> (ClosedWith r, ws, pu))"
| "stream_act sv ops DoDrop ws pu = (case wrapper_drop sv ops ws pu of (r, ws, pu) \<Rightarrow> (DroppedWith r, ws, pu))"

fun stream_run ::
    "('f, 'w, 'z) llm_host_scheme \<Rightarrow> ('p, 'f, 'w) stream_ops \<Rightarrow> stream_action list \<Rightarrow> ('p, 'f) llm_stream_wrapper \<Rightarrow>
     ('f, 'w) publisher \<Rightarrow> stream_observation list \<times> ('p, 'f) llm_stream_wrapper \<times> ('f, 'w) publisher" where
  "stream_run sv ops [] ws pu = ([], ws, pu)"
| "stream_run sv ops (a # as) ws pu = (case stream_act sv ops a ws pu of
     (o', ws, pu) \<Rightarrow> (case stream_run sv ops as ws pu of (os, ws, pu) \<Rightarrow> (o' # os, ws, pu)))"

text \<open>How an observation ends a stream: the reason and the metadata its end event has to have.\<close>

fun ends_stream :: "json option \<Rightarrow> stream_observation \<Rightarrow> (stream_termination \<times> json option) option" where
  "ends_stream m (Polled (Finished (Ready None))) = Some (StreamComplete, metadata_with_otel_status m ''OK'' None)"
| "ends_stream m (Polled (Finished (Ready (Some (Inl e))))) = Some (StreamFailed, metadata_with_otel_error m e)"
| "ends_stream m (ClosedWith (Finished _)) = Some (StreamDropped,
     metadata_with_otel_status m ''ERROR'' (Some ''stream dropped before clean completion''))"
| "ends_stream m (DroppedWith (Finished _)) = Some (StreamDropped,
     metadata_with_otel_status m ''ERROR'' (Some ''stream dropped before clean completion''))"
| "ends_stream m _ = None"

fun first_end :: "json option \<Rightarrow> stream_observation list \<Rightarrow> (stream_termination \<times> json option) option" where
  "first_end m [] = None"
| "first_end m (o' # os) = (case ends_stream m o' of Some r \<Rightarrow> Some r | None \<Rightarrow> first_end m os)"

text \<open>After the end a poll gives nothing any more.\<close>

fun quiet_after_end :: "stream_observation list \<Rightarrow> bool" where
  "quiet_after_end [] \<longleftrightarrow> True"
| "quiet_after_end (o' # os) \<longleftrightarrow>
     (if ends_stream None o' = None then quiet_after_end os else (\<forall>r. Polled r \<in> set os \<longrightarrow> r = Finished (Ready None)))"

lemma ends_stream_None: "ends_stream m o' = None \<longleftrightarrow> ends_stream None o' = None"
  by (induction m o' rule: ends_stream.induct) simp_all

section \<open>One end event\<close>

definition finalizes :: "('p, 'f, 'w) stream_ops \<Rightarrow> bool" where
  "finalizes ops \<longleftrightarrow> (\<forall>rt. \<exists>v rt'. so_finalize ops rt = (Finished v, rt'))"

text \<open>A job that ends the stream of a wrapper.\<close>

definition ends_as :: "('p, 'f) llm_stream_wrapper \<Rightarrow> stream_termination \<times> json option \<Rightarrow> 'f finalization \<Rightarrow> bool" where
  "ends_as ws t fz \<longleftrightarrow> fz_handle fz = ws_handle ws \<and> fz_subscribers fz = ws_subscribers ws \<and>
     fz_response_codec fz = ws_response_codec ws \<and> (fz_termination fz, fz_metadata fz) = t"

definition same_stream :: "('p, 'f) llm_stream_wrapper \<Rightarrow> ('p, 'f) llm_stream_wrapper \<Rightarrow> bool" where
  "same_stream ws ws' \<longleftrightarrow> ws_handle ws' = ws_handle ws \<and> ws_subscribers ws' = ws_subscribers ws \<and>
     ws_response_codec ws' = ws_response_codec ws \<and> ws_metadata ws' = ws_metadata ws"

lemma register_end_barrier_jobs [simp]:
  "pu_executor (snd (register_end_barrier pu)) = pu_executor pu" "pu_jobs (snd (register_end_barrier pu)) = pu_jobs pu"
  by (simp_all add: register_end_barrier_def split_beta Let_def)

lemma emit_end_event_job:
  assumes "finalizes ops" and "pu_executor pu"
  obtains fz pu' where "emit_end_event sv ops m t ws pu = (Finished (), ws\<lparr>ws_finalizer := False\<rparr>, pu')"
    "pu_jobs pu' = pu_jobs pu @ [fz]" "pu_executor pu'" "ends_as ws (t, m) fz"
proof -
  obtain slot pu1 where b: "register_end_barrier pu = (slot, pu1)" by fastforce
  have pu1: "pu_executor pu1" "pu_jobs pu1 = pu_jobs pu" using b assms(2) register_end_barrier_jobs [of pu] by simp_all
  obtain ts w where c: "clock sv (rt_world (pu_runtime pu1)) = (ts, w)" by fastforce
  obtain v rt where f: "(if ws_finalizer ws then so_finalize ops ((pu_runtime pu1)\<lparr>rt_world := w\<rparr>)
      else (Finished JNull, (pu_runtime pu1)\<lparr>rt_world := w\<rparr>)) = (Finished v, rt)"
    using assms(1) unfolding finalizes_def by (metis (full_types))
  obtain ents w2 where e: "response_sanitizers sv (lv_scope_stack (ws_handle ws)) rt = (ents, w2)" by fastforce
  let ?fallback = "lh_data (lv_handle (ws_handle ws))"
  let ?fz = "\<lparr>fz_slot = slot, fz_handle = ws_handle ws, fz_response = (if v = JNull then or_else ?fallback v else v),
      fz_null_without_fallback = (v = JNull \<and> ?fallback = None), fz_entries = ents, fz_metadata = m,
      fz_termination = t, fz_timestamp = ts, fz_response_codec = ws_response_codec ws, fz_subscribers = ws_subscribers ws\<rparr>"
  let ?pu' = "spawn_background_publication ?fz (pu1\<lparr>pu_runtime := rt\<lparr>rt_world := w2\<rparr>\<rparr>)"
  have eq: "emit_end_event sv ops m t ws pu = (Finished (), ws\<lparr>ws_finalizer := False\<rparr>, ?pu')"
    unfolding emit_end_event_def using b c f e by (simp add: Let_def)
  have pu': "pu_jobs ?pu' = pu_jobs pu @ [?fz]" "pu_executor ?pu'" using pu1 by (simp_all add: spawn_background_publication_def)
  have "ends_as ws (t, m) ?fz" by (simp add: ends_as_def)
  then show ?thesis by (rule that [OF eq pu'])
qed

text \<open>One step of a consumer, before and after the end.\<close>

definition steps_to :: "('p, 'f) llm_stream_wrapper \<Rightarrow> ('f, 'w) publisher \<Rightarrow> stream_observation \<Rightarrow>
    ('p, 'f) llm_stream_wrapper \<Rightarrow> ('f, 'w) publisher \<Rightarrow> bool" where
  "steps_to ws pu o' ws' pu' \<longleftrightarrow> same_stream ws ws' \<and> pu_executor pu' \<and> ws_terminal_result ws' = None \<and>
     (\<not> ws_ended ws' \<longrightarrow> ws_close_result ws' = ws_close_result ws) \<and>
     (case ends_stream (ws_metadata ws) o' of
        None \<Rightarrow> \<not> ws_ended ws' \<and> pu_jobs pu' = pu_jobs pu
      | Some t \<Rightarrow> ws_ended ws' \<and> (\<exists>fz. pu_jobs pu' = pu_jobs pu @ [fz] \<and> ends_as ws t fz))"

lemma finish_steps:
  assumes "finalizes ops" and "pu_executor pu" and "\<not> ws_ended ws" and "ws_terminal_result ws = None"
    and "wrapper_finish sv ops ws pu = (r, ws', pu')"
  shows "r = Finished ()" and "steps_to ws pu (DroppedWith (Finished ())) ws' pu'"
proof -
  let ?pu = "pu_update (close_recorder sv (ws_handle ws) None) pu"
  have ex: "pu_executor ?pu" "pu_jobs ?pu = pu_jobs pu" using assms(2) by (simp_all add: pu_update_def)
  obtain fz pu1 where e: "emit_end_event sv ops (metadata_with_otel_status (ws_metadata ws) ''ERROR''
        (Some ''stream dropped before clean completion'')) StreamDropped (ws\<lparr>ws_ended := True\<rparr>) ?pu =
      (Finished (), ws\<lparr>ws_ended := True\<rparr>\<lparr>ws_finalizer := False\<rparr>, pu1)" "pu_jobs pu1 = pu_jobs ?pu @ [fz]" "pu_executor pu1"
      "ends_as (ws\<lparr>ws_ended := True\<rparr>) (StreamDropped, metadata_with_otel_status (ws_metadata ws) ''ERROR''
        (Some ''stream dropped before clean completion'')) fz"
    by (rule emit_end_event_job [OF assms(1) ex(1)])
  then show "r = Finished ()" "steps_to ws pu (DroppedWith (Finished ())) ws' pu'"
    using assms(3-5) ex(2) by (auto simp: wrapper_finish_def steps_to_def same_stream_def ends_as_def)
qed

lemma finish_cleanly_steps:
  assumes "finalizes ops" and "pu_executor pu" and "\<not> ws_ended ws" and "ws_terminal_result ws = None"
    and "finish_cleanly sv ops ws pu = (r, ws', pu')"
  shows "r = Finished ()" and "steps_to ws pu (Polled (Finished (Ready None))) ws' pu'"
proof -
  let ?pu = "pu_update (close_recorder sv (ws_handle ws) None) pu"
  let ?ws = "ws\<lparr>ws_ended := True, ws_inner := terminalize_stream ops (ws_inner ws)\<rparr>"
  have ex: "pu_executor ?pu" "pu_jobs ?pu = pu_jobs pu" using assms(2) by (simp_all add: pu_update_def)
  obtain fz pu1 where e: "emit_end_event sv ops (metadata_with_otel_status (ws_metadata ws) ''OK'' None) StreamComplete ?ws ?pu =
      (Finished (), ?ws\<lparr>ws_finalizer := False\<rparr>, pu1)" "pu_jobs pu1 = pu_jobs ?pu @ [fz]" "pu_executor pu1"
      "ends_as ?ws (StreamComplete, metadata_with_otel_status (ws_metadata ws) ''OK'' None) fz"
    by (rule emit_end_event_job [OF assms(1) ex(1)])
  then show "r = Finished ()" "steps_to ws pu (Polled (Finished (Ready None))) ws' pu'"
    using assms(3-5) ex(2) by (auto simp: finish_cleanly_def steps_to_def same_stream_def ends_as_def)
qed

lemma poll_failed_steps:
  assumes "finalizes ops" and "pu_executor pu" and "\<not> ws_ended ws" and "ws_terminal_result ws = None"
    and "poll_failed sv ops e ws pu = (r, ws', pu')"
  shows "r = Finished (Ready (Some (Inl e)))" and "steps_to ws pu (Polled r) ws' pu'"
proof -
  let ?pu = "pu_update (close_recorder sv (ws_handle ws) None) pu"
  let ?ws = "ws\<lparr>ws_ended := True, ws_inner := terminalize_stream ops (ws_inner ws)\<rparr>"
  have ex: "pu_executor ?pu" "pu_jobs ?pu = pu_jobs pu" using assms(2) by (simp_all add: pu_update_def)
  obtain fz pu1 where e: "emit_end_event sv ops (metadata_with_otel_error (ws_metadata ws) e) StreamFailed ?ws ?pu =
      (Finished (), ?ws\<lparr>ws_finalizer := False\<rparr>, pu1)" "pu_jobs pu1 = pu_jobs ?pu @ [fz]" "pu_executor pu1"
      "ends_as ?ws (StreamFailed, metadata_with_otel_error (ws_metadata ws) e) fz"
    by (rule emit_end_event_job [OF assms(1) ex(1)])
  then have f: "finish_with_error sv ops e ws pu = (Finished (), ?ws\<lparr>ws_finalizer := False\<rparr>, pu1)"
    using assms(3) by (simp add: finish_with_error_def)
  then show r: "r = Finished (Ready (Some (Inl e)))" using assms(5) by (simp add: poll_failed_def poll_ended_def)
  show "steps_to ws pu (Polled r) ws' pu'"
    using assms(5) f e(2-4) ex(2) by (auto simp: poll_failed_def poll_ended_def steps_to_def same_stream_def ends_as_def r)
qed

lemma steps_to_inner:
  assumes "steps_to (ws\<lparr>ws_inner := i, ws_chunk_index := n\<rparr>) (pu\<lparr>pu_runtime := rt\<rparr>) o' ws' pu'"
  shows "steps_to ws pu o' ws' pu'"
  using assms by (cases "ends_stream (ws_metadata ws) o'") (auto simp: steps_to_def same_stream_def ends_as_def)

lemma poll_steps:
  assumes "finalizes ops" and "pu_executor pu" and "\<not> ws_ended ws" and "ws_terminal_result ws = None"
    and "poll_next sv ops ws pu = (r, ws', pu')"
  shows "steps_to ws pu (Polled r) ws' pu'"
proof -
  obtain q inner rt where q: "poll_stream ops (ws_inner ws) (pu_runtime pu) = (q, inner, rt)" by (metis prod_cases3)
  let ?n = "ws_chunk_index ws"
  let ?ws = "\<lambda>n. ws\<lparr>ws_inner := inner, ws_chunk_index := n\<rparr>"
  have ws: "?ws ?n = ws\<lparr>ws_inner := inner\<rparr>" by simp
  have idle: "steps_to ws pu (Polled p) (?ws n) (pu\<lparr>pu_runtime := rt'\<rparr>)"
    if "p = Panicked \<or> p = Finished Pending \<or> (\<exists>c. p = Finished (Ready (Some (Inr c))))" for p n rt'
    using that assms(2-4) by (auto simp: steps_to_def same_stream_def)
  have failed: "steps_to ws pu (Polled p) ws'' pu''"
    if "poll_failed sv ops e (?ws n) (pu\<lparr>pu_runtime := rt'\<rparr>) = (p, ws'', pu'')" for e n rt' p ws'' pu''
    by (rule steps_to_inner, rule poll_failed_steps(2) [OF assms(1) _ _ _ that]) (use assms(2-4) in simp_all)
  note idle_n = idle [of _ ?n, unfolded ws] and failed_n = failed [of _ ?n, unfolded ws]
  show ?thesis
  proof (cases q)
    case (Finished x)
    show ?thesis
    proof (cases x)
      case Pending
      then show ?thesis using assms(3,5) q Finished idle_n [of "Finished Pending" rt] by (simp add: poll_next_def)
    next
      case (Ready y)
      show ?thesis
      proof (cases y)
        case None
        obtain r1 ws1 pu1 where f: "finish_cleanly sv ops (ws\<lparr>ws_inner := inner\<rparr>) (pu\<lparr>pu_runtime := rt\<rparr>) = (r1, ws1, pu1)" by (metis prod_cases3)
        have s: "r1 = Finished ()" "steps_to ws pu (Polled (Finished (Ready None))) ws1 pu1"
          using finish_cleanly_steps [OF assms(1) _ _ _ f] assms(2-4) steps_to_inner [where ws = ws and i = inner and n = ?n, unfolded ws] by simp_all
        then have t: "ws1\<lparr>ws_terminal_result := None\<rparr> = ws1" "ws_terminal_result ws1 = None" by (simp_all add: steps_to_def)
        show ?thesis using assms(3,5) q Finished Ready None f s by (simp add: poll_next_def poll_ended_def t)
      next
        case (Some z)
        show ?thesis
        proof (cases z)
          case (Inl e)
          then show ?thesis using assms(3,5) q Finished Ready Some failed_n [of e rt] by (simp add: poll_next_def)
        next
          case (Inr chunk)
          let ?rt = "emit_chunk_mark sv (?ws (?n + 1)) ?n chunk rt"
          obtain c rt' where c: "so_collect ops chunk ?rt = (c, rt')" by fastforce
          have p: "poll_next sv ops ws pu = (case (c, rt') of
              (Finished (Inr _), rt) \<Rightarrow> (Finished (Ready (Some (Inr chunk))), ?ws (?n + 1), pu\<lparr>pu_runtime := rt\<rparr>)
            | (Finished (Inl e), rt) \<Rightarrow> poll_failed sv ops e (?ws (?n + 1)) (pu\<lparr>pu_runtime := rt\<rparr>)
            | (_, rt) \<Rightarrow> (Panicked, ?ws (?n + 1), pu\<lparr>pu_runtime := rt\<rparr>))"
            using assms(3) q Finished Ready Some Inr c by (cases c) (auto simp: poll_next_def Let_def split: sum.splits)
          show ?thesis
            using assms(5) idle failed unfolding p by (cases c) (auto split: sum.splits)
        qed
      qed
    qed
  qed (use assms(3,5) q idle_n [of Panicked rt] in \<open>simp_all add: poll_next_def\<close>)
qed

lemma close_steps:
  assumes "finalizes ops" and "pu_executor pu" and "\<not> ws_ended ws" and "ws_terminal_result ws = None" and "ws_close_result ws = None"
    and "wrapper_close sv ops ws pu = (r, ws', pu')"
  shows "steps_to ws pu (ClosedWith r) ws' pu'"
proof -
  obtain q inner rt where q: "close_stream ops (ws_inner ws) (pu_runtime pu) = (q, inner, rt)" by (metis prod_cases3)
  let ?ws = "ws\<lparr>ws_inner := inner\<rparr>" and ?pu = "pu\<lparr>pu_runtime := rt\<rparr>"
  have idle: "steps_to ws pu (ClosedWith p) ?ws ?pu" if "p = Panicked \<or> p = Dropped" for p
    using that assms(2-4) by (auto simp: steps_to_def same_stream_def)
  show ?thesis
  proof (cases q)
    case (Finished result)
    obtain r1 ws1 pu1 where f: "wrapper_finish sv ops ?ws ?pu = (r1, ws1, pu1)" by (metis prod_cases3)
    have s: "r1 = Finished ()" "steps_to ?ws ?pu (DroppedWith (Finished ())) ws1 pu1"
      using finish_steps [OF assms(1) _ _ _ f] assms(2-4) by simp_all
    have "r = Finished result" "ws' = ws1\<lparr>ws_close_result := Some result\<rparr>" "pu' = pu1"
      using assms(5,6) q Finished f s(1) by (simp_all add: wrapper_close_def)
    then show ?thesis using s(2) by (auto simp: steps_to_def same_stream_def ends_as_def)
  qed (use assms(5,6) q idle in \<open>simp_all add: wrapper_close_def\<close>)
qed

definition live_stream :: "('p, 'f) llm_stream_wrapper \<Rightarrow> bool" where
  "live_stream ws \<longleftrightarrow> \<not> ws_ended ws \<and> ws_terminal_result ws = None \<and> ws_close_result ws = None"

lemma act_steps:
  assumes "finalizes ops" and "pu_executor pu" and "live_stream ws" and "stream_act sv ops a ws pu = (o', ws', pu')"
  shows "steps_to ws pu o' ws' pu'"
proof (cases a)
  case DoPoll
  then show ?thesis using assms poll_steps [of ops pu ws sv] by (auto simp: live_stream_def split: prod.splits)
next
  case DoClose
  then show ?thesis using assms close_steps [of ops pu ws sv] by (auto simp: live_stream_def split: prod.splits)
next
  case DoDrop
  obtain r ws1 pu1 where f: "wrapper_finish sv ops ws pu = (r, ws1, pu1)" by (metis prod_cases3)
  then show ?thesis using assms(3,4) DoDrop finish_steps [OF assms(1,2) _ _ f] by (auto simp: live_stream_def wrapper_drop_def)
qed

text \<open>Once ended, nothing is published any more.\<close>

lemma ended_close:
  assumes "ws_ended ws" and "wrapper_close sv ops ws pu = (r, ws', pu')"
  shows "ws_ended ws' \<and> ws_terminal_result ws' = ws_terminal_result ws \<and> pu_jobs pu' = pu_jobs pu"
proof (cases "ws_close_result ws")
  case None
  obtain q inner rt where q: "close_stream ops (ws_inner ws) (pu_runtime pu) = (q, inner, rt)" by (metis prod_cases3)
  show ?thesis using assms None q by (cases q) (auto simp: wrapper_close_def wrapper_finish_def)
qed (use assms in \<open>auto simp: wrapper_close_def\<close>)

lemma ended_step:
  assumes "ws_ended ws" and "ws_terminal_result ws = None" and "stream_act sv ops a ws pu = (o', ws', pu')"
  shows "ws_ended ws' \<and> ws_terminal_result ws' = None \<and> pu_jobs pu' = pu_jobs pu \<and>
    (\<forall>r. o' = Polled r \<longrightarrow> r = Finished (Ready None))"
proof (cases a)
  case DoPoll
  then show ?thesis using assms by (auto simp: poll_next_def poll_ended_def)
next
  case DoClose
  obtain r ws1 pu1 where c: "wrapper_close sv ops ws pu = (r, ws1, pu1)" by (metis prod_cases3)
  then show ?thesis using assms DoClose ended_close [OF assms(1) c] by auto
next
  case DoDrop
  then show ?thesis using assms by (auto simp: wrapper_drop_def wrapper_finish_def)
qed

lemma ended_run:
  assumes "ws_ended ws" and "ws_terminal_result ws = None" and "stream_run sv ops as ws pu = (os, ws', pu')"
  shows "ws_ended ws' \<and> pu_jobs pu' = pu_jobs pu \<and> (\<forall>r. Polled r \<in> set os \<longrightarrow> r = Finished (Ready None))"
  using assms
proof (induction as arbitrary: ws pu os)
  case (Cons a as)
  obtain o1 ws1 pu1 where 1: "stream_act sv ops a ws pu = (o1, ws1, pu1)" by (metis prod_cases3)
  obtain os2 ws2 pu2 where 2: "stream_run sv ops as ws1 pu1 = (os2, ws2, pu2)" by (metis prod_cases3)
  note s = ended_step [OF Cons.prems(1,2) 1]
  have "os = o1 # os2" "ws' = ws2" "pu' = pu2" using Cons.prems(3) 1 2 by simp_all
  then show ?case using Cons.IH [of ws1 pu1 os2] 2 s by auto
qed simp

lemma run_ends_once:
  assumes "finalizes ops" and "pu_executor pu" and "live_stream ws" and "stream_run sv ops as ws pu = (os, ws', pu')"
  shows "quiet_after_end os \<and> (case first_end (ws_metadata ws) os of
      None \<Rightarrow> live_stream ws' \<and> pu_jobs pu' = pu_jobs pu
    | Some t \<Rightarrow> ws_ended ws' \<and> (\<exists>fz. pu_jobs pu' = pu_jobs pu @ [fz] \<and> ends_as ws t fz))"
  using assms
proof (induction as arbitrary: ws pu os)
  case (Cons a as)
  obtain o1 ws1 pu1 where 1: "stream_act sv ops a ws pu = (o1, ws1, pu1)" by (metis prod_cases3)
  obtain os2 ws2 pu2 where 2: "stream_run sv ops as ws1 pu1 = (os2, ws2, pu2)" by (metis prod_cases3)
  have eq: "os = o1 # os2" "ws' = ws2" "pu' = pu2" using Cons.prems(4) 1 2 by simp_all
  have s: "steps_to ws pu o1 ws1 pu1" by (rule act_steps [OF Cons.prems(1-3) 1])
  then have same: "same_stream ws ws1" "pu_executor pu1" by (simp_all add: steps_to_def)
  show ?case
  proof (cases "ends_stream (ws_metadata ws) o1")
    case None
    then have "live_stream ws1" "pu_jobs pu1 = pu_jobs pu" using s Cons.prems(3) by (simp_all add: steps_to_def live_stream_def)
    moreover have "ends_as ws1 = ends_as ws" "ws_metadata ws1 = ws_metadata ws"
      using same(1) by (simp_all add: same_stream_def ends_as_def fun_eq_iff)
    ultimately show ?thesis
      using Cons.IH [OF Cons.prems(1) same(2), of ws1 os2] 2 eq None ends_stream_None [of "ws_metadata ws" o1]
      by (simp cong: option.case_cong)
  next
    case (Some t)
    then have "ws_ended ws1" "ws_terminal_result ws1 = None" "\<exists>fz. pu_jobs pu1 = pu_jobs pu @ [fz] \<and> ends_as ws t fz"
      using s by (simp_all add: steps_to_def)
    then show ?thesis
      using ended_run [of ws1 sv ops as pu1 os2 ws2 pu2] 2 eq Some ends_stream_None [of "ws_metadata ws" o1] by auto
  qed
qed (simp add: live_stream_def)

text \<open>
  What a job publishes when it gets to its end: one end event, whose status is the one the job was
  submitted with, except that a stream that was given up after its response had come to a proper end
  counts as successful.
\<close>

definition publishes_end ::
    "('f, 'w, 'z) llm_host_scheme \<Rightarrow> 'f finalization \<Rightarrow> llm_handle \<Rightarrow> stream_termination \<Rightarrow> json option \<Rightarrow> bool" where
  "publishes_end sv fz h reason status \<longleftrightarrow> (\<forall>rt rt'. finalize_stream sv fz rt = (Finished (), rt') \<longrightarrow>
     (\<exists>data decoded w annotation rt1. finalization_data sv fz (rt_world rt) = (Finished (data, decoded), w) \<and>
        rt' = publish_end_event sv fz (build_llm_end_event (fz_timestamp fz) \<lparr>eh_handle = h, eh_data = data,
          eh_metadata = (if reason = StreamDropped \<and> has_authoritative_terminal_outcome decoded
            then metadata_with_otel_status status ''OK'' None else status),
          eh_timestamp = Some (fz_timestamp fz)\<rparr> annotation) rt1))"

lemma finalize_stream_publishes:
  "publishes_end sv fz (lv_handle (fz_handle fz)) (fz_termination fz) (fz_metadata fz)"
  unfolding publishes_end_def
proof (intro allI impI)
  fix rt rt'
  assume f: "finalize_stream sv fz rt = (Finished (), rt')"
  then obtain data decoded w where d: "finalization_data sv fz (rt_world rt) = (Finished (data, decoded), w)"
    unfolding finalize_stream_def by (auto simp: Let_def split: prod.splits outcome.splits)
  with f obtain annotation rt1 where
      "rt' = publish_end_event sv fz (finalization_event fz data (finalization_metadata fz decoded) annotation) rt1"
    unfolding finalize_stream_def by (auto simp: Let_def split: prod.splits option.splits)
  then show "\<exists>data decoded w annotation rt1. finalization_data sv fz (rt_world rt) = (Finished (data, decoded), w) \<and>
      rt' = publish_end_event sv fz (build_llm_end_event (fz_timestamp fz) \<lparr>eh_handle = lv_handle (fz_handle fz), eh_data = data,
        eh_metadata = (if fz_termination fz = StreamDropped \<and> has_authoritative_terminal_outcome decoded
          then metadata_with_otel_status (fz_metadata fz) ''OK'' None else fz_metadata fz),
        eh_timestamp = Some (fz_timestamp fz)\<rparr> annotation) rt1"
    using d unfolding finalization_event_def finalization_metadata_def by blast
qed

text \<open>
  C32. A managed stream has exactly one end event. However a consumer polls, closes and drops it, in any
  order and any number of times, nothing is submitted for publication until the first step that ends the
  stream; that step submits one job, for the span and the subscribers of the call, with the reason and
  the status of that ending (clean, failed with the error the consumer was handed, or given up); and
  from then on nothing more is submitted and every poll says that the stream is over. When the job gets
  to its end, it publishes the end event of that span with that status, except that a stream given up
  after its response had come to a proper end is published with the status OK. Two things are assumed:
  the finalizer returns, since one that panics loses the end event, and the background executor accepts
  jobs.
\<close>

theorem stream_ends_exactly_once:
  assumes "finalizes ops" and "pu_executor pu"
    and "stream_run sv ops as (wrapper_new_managed inner lv metadata codec subscribers) pu = (os, ws', pu')"
  shows "quiet_after_end os \<and> (case first_end metadata os of
      None \<Rightarrow> \<not> ws_ended ws' \<and> pu_jobs pu' = pu_jobs pu
    | Some (termination, status) \<Rightarrow> ws_ended ws' \<and> (\<exists>fz. pu_jobs pu' = pu_jobs pu @ [fz] \<and>
        fz_handle fz = lv \<and> fz_subscribers fz = subscribers \<and> fz_response_codec fz = codec \<and>
        fz_termination fz = termination \<and> fz_metadata fz = status \<and>
        publishes_end sv fz (lv_handle lv) termination status))"
proof -
  let ?ws = "wrapper_new_managed inner lv metadata codec subscribers"
  have "live_stream ?ws" "ws_metadata ?ws = metadata" by (simp_all add: live_stream_def wrapper_new_managed_def)
  moreover have "publishes_end sv fz (lv_handle lv) reason status"
    if "ends_as ?ws (reason, status) fz" for fz reason status
    using that finalize_stream_publishes [of sv fz] by (auto simp: ends_as_def wrapper_new_managed_def)
  ultimately show ?thesis using run_ends_once [OF assms(1,2) _ assms(3)]
    by (auto simp: live_stream_def ends_as_def wrapper_new_managed_def split: option.splits)
qed

definition demo_stream_ops :: "(json list, nat, nat) stream_ops" where
  "demo_stream_ops = \<lparr>so_poll = (\<lambda>p rt. case p of
        [] \<Rightarrow> (Finished (Ready None), [], rt)
      | c # cs \<Rightarrow> (Finished (Ready (Some (Inr c))), cs, rt)),
     so_terminalize = (\<lambda>_. []), so_close = (\<lambda>p rt. (Finished (Inr ()), [], rt)),
     so_collect = (\<lambda>_ rt. (Finished (Inr ()), rt)), so_finalize = (\<lambda>rt. (Finished (JString ''hello''), rt))\<rparr>"

definition demo_stream :: "live_llm_handle \<Rightarrow> (json list, nat) llm_stream_wrapper" where
  "demo_stream lv = wrapper_new_managed (Guarded (Producer [JString ''hel'', JString ''lo'']) True) lv None None [0]"

definition demo_publisher :: "(nat, nat) publisher" where
  "demo_publisher = \<lparr>pu_runtime = demo_runtime, pu_executor = True, pu_jobs = []\<rparr>"

lemma demo_finalizes: "finalizes demo_stream_ops"
  by (simp add: finalizes_def demo_stream_ops_def)

lemma demo_poll:
  "\<exists>ws pu. stream_act demo_llms demo_stream_ops DoPoll (demo_stream lv) demo_publisher =
     (Polled (Finished (Ready (Some (Inr (JString ''hel''))))), ws, pu)"
  by (simp add: poll_next_def demo_stream_def wrapper_new_managed_def demo_stream_ops_def Let_def)

theorem stream_ends_exactly_once_witness:
  "\<forall>lv. \<exists>os ws' pu' fz.
     stream_run demo_llms demo_stream_ops [DoPoll, DoDrop] (demo_stream lv) demo_publisher = (os, ws', pu') \<and>
     pu_jobs pu' = [fz] \<and> fz_handle fz = lv \<and> fz_termination fz = StreamDropped \<and> quiet_after_end os"
proof
  fix lv
  let ?p = "Polled (Finished (Ready (Some (Inr (JString ''hel'')))))"
  have live: "live_stream (demo_stream lv)" and ex: "pu_executor demo_publisher"
    by (simp_all add: live_stream_def demo_stream_def wrapper_new_managed_def demo_publisher_def)
  obtain ws pu where 1: "stream_act demo_llms demo_stream_ops DoPoll (demo_stream lv) demo_publisher = (?p, ws, pu)"
    using demo_poll by blast
  have s: "steps_to (demo_stream lv) demo_publisher ?p ws pu" by (rule act_steps [OF demo_finalizes ex live 1])
  obtain r ws' pu' where f: "wrapper_finish demo_llms demo_stream_ops ws pu = (r, ws', pu')" by (metis prod_cases3)
  have "r = Finished ()" using finish_steps(1) [OF demo_finalizes _ _ _ f] s by (simp add: steps_to_def)
  with 1 f have run: "stream_run demo_llms demo_stream_ops [DoPoll, DoDrop] (demo_stream lv) demo_publisher =
      ([?p, DroppedWith (Finished ())], ws', pu')" by (simp add: wrapper_drop_def)
  have "pu_jobs demo_publisher = []" by (simp add: demo_publisher_def)
  with stream_ends_exactly_once [OF demo_finalizes ex run [unfolded demo_stream_def]]
  show "\<exists>os ws' pu' fz. stream_run demo_llms demo_stream_ops [DoPoll, DoDrop] (demo_stream lv) demo_publisher = (os, ws', pu') \<and>
     pu_jobs pu' = [fz] \<and> fz_handle fz = lv \<and> fz_termination fz = StreamDropped \<and> quiet_after_end os"
    using run by auto
qed

end
