(* ===== verification/Plugin_Config.thy ===== *)
theory Plugin_Config
  imports Plugin_Names Relay_Json "HOL-Library.List_Lexorder" "HOL-Library.Char_ord"
begin

text \<open>
  Plugin configuration (\<^verbatim>\<open>crates/core/src/plugin.rs\<close>, diagnostics of \<^verbatim>\<open>crates/types/src/plugin.rs\<close>): the
  document, its policies, the layering of the documents that are discovered, and the diagnostics of
  validation. A path is a string; its canonical form is a parameter, because it depends on the file
  system. The conversion of a document to a typed configuration is serde's and a parameter as well.
\<close>

section \<open>Documents and reports\<close>

datatype unsupported_behavior = IgnoreUnsupported | WarnUnsupported | ErrorUnsupported

record config_policy =
  unknown_component :: unsupported_behavior
  unknown_field :: unsupported_behavior
  unsupported_value :: unsupported_behavior

definition default_policy :: config_policy where
  "default_policy = \<lparr>unknown_component = WarnUnsupported, unknown_field = WarnUnsupported,
     unsupported_value = ErrorUnsupported\<rparr>"

record plugin_component_spec =
  pc_kind :: string
  pc_enabled :: bool
  pc_config :: json_object

record plugin_config =
  pcf_version :: "32 word"
  pcf_components :: "plugin_component_spec list"
  pcf_policy :: config_policy

definition default_plugin_config :: plugin_config where
  "default_plugin_config = \<lparr>pcf_version = 1, pcf_components = [], pcf_policy = default_policy\<rparr>"

definition component_spec_new :: "string \<Rightarrow> plugin_component_spec" where
  "component_spec_new kind = \<lparr>pc_kind = kind, pc_enabled = True, pc_config = []\<rparr>"

datatype diagnostic_level = LevelWarning | LevelError

record config_diagnostic =
  cd_level :: diagnostic_level
  cd_code :: string
  cd_component :: "string option"
  cd_field :: "string option"
  cd_message :: string

record runtime_diagnostic =
  rd_code :: string
  rd_component :: string
  rd_field :: "string option"
  rd_message :: string
  rd_session_id :: "string option"
  rd_count :: "64 word"

record config_report =
  diagnostics :: "config_diagnostic list"
  runtime_diagnostics :: "runtime_diagnostic list"

definition default_report :: config_report where
  "default_report = \<lparr>diagnostics = [], runtime_diagnostics = []\<rparr>"

definition has_errors :: "config_report \<Rightarrow> bool" where
  "has_errors r \<longleftrightarrow> list_ex (\<lambda>d. cd_level d = LevelError) (diagnostics r)"

definition apply_global_config_policy :: "config_policy \<Rightarrow> config_policy \<Rightarrow> config_policy" where
  "apply_global_config_policy component global =
     \<lparr>unknown_component = (if unknown_component global \<noteq> unknown_component default_policy
        then unknown_component global else unknown_component component),
      unknown_field = (if unknown_field global \<noteq> unknown_field default_policy
        then unknown_field global else unknown_field component),
      unsupported_value = (if unsupported_value global \<noteq> unsupported_value default_policy
        then unsupported_value global else unsupported_value component)\<rparr>"

definition push_policy_diag ::
    "unsupported_behavior \<Rightarrow> string \<Rightarrow> string option \<Rightarrow> string option \<Rightarrow> string \<Rightarrow>
     config_diagnostic list \<Rightarrow> config_diagnostic list" where
  "push_policy_diag behavior code component field message ds = (case behavior of
       IgnoreUnsupported \<Rightarrow> ds
     | WarnUnsupported \<Rightarrow> ds @ [\<lparr>cd_level = LevelWarning, cd_code = code, cd_component = component,
         cd_field = field, cd_message = message\<rparr>]
     | ErrorUnsupported \<Rightarrow> ds @ [\<lparr>cd_level = LevelError, cd_code = code, cd_component = component,
         cd_field = field, cd_message = message\<rparr>])"

fun join_with :: "string \<Rightarrow> string list \<Rightarrow> string" where
  "join_with sep [] = []"
| "join_with sep [x] = x"
| "join_with sep (x # xs) = x @ sep @ join_with sep xs"

definition join_error_messages :: "config_report \<Rightarrow> string" where
  "join_error_messages r =
     join_with ''; '' (map cd_message (filter (\<lambda>d. cd_level d = LevelError) (diagnostics r)))"

section \<open>Layering\<close>

text \<open>
  The fields of an object are merged in the order of the right one. \<^verbatim>\<open>get_mut\<close> followed by an assignment
  is an insertion here.
\<close>

fun merge_json_value :: "json \<Rightarrow> json \<Rightarrow> json"
and merge_json_fields :: "json_object \<Rightarrow> json_object \<Rightarrow> json_object" where
  "merge_json_value (JObject l) (JObject r) = JObject (merge_json_fields l r)"
| "merge_json_value l r = r"
| "merge_json_fields l [] = l"
| "merge_json_fields l ((k, v) # r) =
     merge_json_fields (bt_insert k (case map_of l k of Some e \<Rightarrow> merge_json_value e v | None \<Rightarrow> v) l) r"

definition component_kind :: "json \<Rightarrow> string option" where
  "component_kind c = Option.bind (json_get c ''kind'') json_as_str"

definition plugin_config_empty_list_replaces :: "string list \<Rightarrow> bool \<Rightarrow> bool" where
  "plugin_config_empty_list_replaces path is_observability \<longleftrightarrow> is_observability \<and>
     (case path of
        [section, signal, field] \<Rightarrow>
          section = ''opentelemetry'' \<and> signal \<in> {''logs'', ''metrics''} \<and> field = ''endpoints''
      | _ \<Rightarrow> False)"

definition plugin_config_list_concatenates :: "string list \<Rightarrow> bool \<Rightarrow> bool" where
  "plugin_config_list_concatenates path is_observability \<longleftrightarrow> length path = 1 \<or> is_observability \<and>
     (case path of
        [section, field] \<Rightarrow>
          section = ''atof'' \<and> field = ''sinks'' \<or>
          section = ''opentelemetry'' \<and> field \<in> {''traces'', ''endpoints''} \<or>
          section = ''atif'' \<and> field = ''storage''
      | [section, signal, field] \<Rightarrow>
          section = ''opentelemetry'' \<and> signal \<in> {''logs'', ''metrics''} \<and> field = ''endpoints''
      | _ \<Rightarrow> False)"

fun merge_plugin_config_value :: "bool \<Rightarrow> string list \<Rightarrow> json \<Rightarrow> json \<Rightarrow> json"
and merge_plugin_config_fields :: "bool \<Rightarrow> string list \<Rightarrow> json_object \<Rightarrow> json_object \<Rightarrow> json_object" where
  "merge_plugin_config_value ob path (JObject l) (JObject r) = JObject (merge_plugin_config_fields ob path l r)"
| "merge_plugin_config_value ob path (JArray l) (JArray r) =
     (if plugin_config_list_concatenates path ob
      then (if r = [] \<and> plugin_config_empty_list_replaces path ob then JArray [] else JArray (r @ l))
      else JArray r)"
| "merge_plugin_config_value ob path l r = r"
| "merge_plugin_config_fields ob path l [] = l"
| "merge_plugin_config_fields ob path l ((k, v) # r) =
     merge_plugin_config_fields ob path
       (bt_insert k (case map_of l k of
            Some e \<Rightarrow> merge_plugin_config_value ob (path @ [k]) e v
          | None \<Rightarrow> v) l) r"

fun merge_component_fields :: "bool \<Rightarrow> json_object \<Rightarrow> json_object \<Rightarrow> json_object" where
  "merge_component_fields ob l [] = l"
| "merge_component_fields ob l ((k, v) # r) =
     merge_component_fields ob
       (bt_insert k (case map_of l k of
            Some e \<Rightarrow> if k = ''config'' then merge_plugin_config_value ob [] e v else merge_json_value e v
          | None \<Rightarrow> v) l) r"

definition merge_plugin_component :: "json \<Rightarrow> json \<Rightarrow> json" where
  "merge_plugin_component existing higher =
     (let ob = ((case component_kind higher of Some k \<Rightarrow> Some k | None \<Rightarrow> component_kind existing) = Some ''observability'')
      in case (existing, higher) of
           (JObject l, JObject r) \<Rightarrow> JObject (merge_component_fields ob l r)
         | _ \<Rightarrow> higher)"

definition nth_component_by_kind :: "json list \<Rightarrow> string \<Rightarrow> nat \<Rightarrow> nat option" where
  "nth_component_by_kind cs kind n =
     (let hits = filter (\<lambda>i. component_kind (cs ! i) = Some kind) [0..<length cs]
      in if n < length hits then Some (hits ! n) else None)"

text \<open>One component of the higher layer; \<open>consumed\<close> counts the components seen of each kind.\<close>

definition merge_components_step ::
    "nat \<Rightarrow> json list \<times> (string \<times> nat) list \<Rightarrow> json \<Rightarrow> json list \<times> (string \<times> nat) list" where
  "merge_components_step base st component = (case st of (cs, consumed) \<Rightarrow>
     (case component_kind component of
        None \<Rightarrow> (cs @ [component], consumed)
      | Some kind \<Rightarrow>
          (let n = (case map_of consumed kind of Some n \<Rightarrow> n | None \<Rightarrow> 0);
               slot = nth_component_by_kind (take base cs) kind n;
               consumed = AList.update kind (n + 1) consumed
           in case slot of
                Some i \<Rightarrow> (cs[i := merge_plugin_component (cs ! i) component], consumed)
              | None \<Rightarrow> (cs @ [component], consumed))))"

definition merge_plugin_components :: "json \<Rightarrow> json \<Rightarrow> json" where
  "merge_plugin_components left right = (case (left, right) of
       (JArray l, JArray r) \<Rightarrow> JArray (fst (foldl (merge_components_step (length l)) (l, []) r))
     | _ \<Rightarrow> right)"

fun layer_fields :: "json_object \<Rightarrow> json_object \<Rightarrow> json_object" where
  "layer_fields l [] = l"
| "layer_fields l ((k, v) # r) =
     layer_fields (bt_insert k (case map_of l k of
          Some e \<Rightarrow> if k = ''components'' then merge_plugin_components e v else merge_json_value e v
        | None \<Rightarrow> v) l) r"

definition layer_config :: "json \<Rightarrow> json \<Rightarrow> json" where
  "layer_config left right = (case (left, right) of
       (JObject l, JObject r) \<Rightarrow> JObject (layer_fields l r)
     | _ \<Rightarrow> right)"

section \<open>Discovered documents\<close>

datatype plugin_error =
    InvalidConfig string
  | Conflict string
  | PluginNotFound string
  | Serialization string
  | PluginInternal string
  | RegistrationFailed string

type_synonym 'a plugin_result = "plugin_error + 'a"

fun display_plugin_error :: "plugin_error \<Rightarrow> string" where
  "display_plugin_error (InvalidConfig m) = ''invalid config: '' @ m"
| "display_plugin_error (Conflict m) = ''conflict: '' @ m"
| "display_plugin_error (PluginNotFound m) = ''not found: '' @ m"
| "display_plugin_error (Serialization m) = ''serialization error: '' @ m"
| "display_plugin_error (PluginInternal m) = ''internal error: '' @ m"
| "display_plugin_error (RegistrationFailed m) = ''registration failed: '' @ m"

definition json_as_bool :: "json \<Rightarrow> bool option" where
  "json_as_bool j = (case j of JBool b \<Rightarrow> Some b | _ \<Rightarrow> None)"

definition filter_disabled_plugin_components :: "json \<Rightarrow> json" where
  "filter_disabled_plugin_components document = (case document of
       JObject m \<Rightarrow> (case map_of m ''components'' of
           Some (JArray cs) \<Rightarrow> JObject (bt_insert ''components''
             (JArray (filter (\<lambda>c. Option.bind (json_get c ''enabled'') json_as_bool \<noteq> Some False) cs)) m)
         | _ \<Rightarrow> document)
     | _ \<Rightarrow> document)"

text \<open>\<open>as_u32\<close> is serde's conversion of a value to a 32-bit number.\<close>

definition validate_plugin_config_version ::
    "(json \<Rightarrow> string + 32 word) \<Rightarrow> string \<Rightarrow> json \<Rightarrow> unit plugin_result" where
  "validate_plugin_config_version as_u32 path document = (case json_get document ''version'' of
       None \<Rightarrow> Inr ()
     | Some raw \<Rightarrow> (case as_u32 raw of
         Inl e \<Rightarrow> Inl (InvalidConfig (''invalid plugin config version in '' @ path @ '': '' @ e))
       | Inr v \<Rightarrow> if v = 1 then Inr ()
           else Inl (InvalidConfig (''plugin config version '' @ show_nat (unat v) @ '' in '' @ path @
             '' is unsupported; expected '' @ show_nat 1))))"

fun duplicate_kinds :: "string set \<Rightarrow> json list \<Rightarrow> string list" where
  "duplicate_kinds seen [] = []"
| "duplicate_kinds seen (c # cs) = (case component_kind c of
       None \<Rightarrow> duplicate_kinds seen cs
     | Some k \<Rightarrow> if k \<in> seen then k # duplicate_kinds seen cs else duplicate_kinds (insert k seen) cs)"

definition validate_unique_component_kinds :: "string \<Rightarrow> json \<Rightarrow> unit plugin_result" where
  "validate_unique_component_kinds path document = (case json_get document ''components'' of
       Some (JArray cs) \<Rightarrow>
         (let duplicates = duplicate_kinds {} cs
          in if duplicates = [] then Inr ()
             else Inl (InvalidConfig (''duplicate plugin component kind in '' @ path @ '': '' @
               join_with '', '' (remdups_adj (sort duplicates)) @ ''; declare each kind once per plugins.toml'')))
     | _ \<Rightarrow> Inr ())"

fun merge_documents_loop ::
    "(json \<Rightarrow> string + 32 word) \<Rightarrow> json \<times> string list \<Rightarrow> (string \<times> json) list \<Rightarrow> (json \<times> string list) plugin_result" where
  "merge_documents_loop as_u32 st [] = Inr st"
| "merge_documents_loop as_u32 (merged, sources) ((path, document) # rest) =
     (case validate_plugin_config_version as_u32 path document of
        Inl e \<Rightarrow> Inl e
      | Inr _ \<Rightarrow> (case validate_unique_component_kinds path document of
          Inl e \<Rightarrow> Inl e
        | Inr _ \<Rightarrow> merge_documents_loop as_u32
            (layer_config merged (filter_disabled_plugin_components document), sources @ [path]) rest))"

definition merge_plugin_config_documents ::
    "(json \<Rightarrow> string + 32 word) \<Rightarrow> (string \<times> json) list \<Rightarrow> (json \<times> string list) option plugin_result" where
  "merge_plugin_config_documents as_u32 documents = (case merge_documents_loop as_u32 (JObject [], []) documents of
       Inl e \<Rightarrow> Inl e
     | Inr (merged, sources) \<Rightarrow> Inr (if sources = [] then None else Some (merged, sources)))"

definition inherited_plugin_config_diagnostics :: "string list \<Rightarrow> config_diagnostic list" where
  "inherited_plugin_config_diagnostics sources = map (\<lambda>source.
     \<lparr>cd_level = LevelWarning, cd_code = ''plugin.configuration_inherited'', cd_component = None, cd_field = None,
      cd_message = ''inherited plugin configuration from discovered file: '' @ source\<rparr>) sources"

text \<open>The typed configuration as an overlay: \<open>to_value\<close> is serde's encoding.\<close>

definition remove_default_policy_overlay :: "config_policy \<Rightarrow> json_object \<Rightarrow> json_object" where
  "remove_default_policy_overlay config m = (case map_of m ''policy'' of
       Some (JObject policy) \<Rightarrow>
         (let policy = fold (\<lambda>(field, is_default) p. if is_default then AList.delete field p else p)
                [(''unknown_component'', unknown_component config = unknown_component default_policy),
                 (''unknown_field'', unknown_field config = unknown_field default_policy),
                 (''unsupported_value'', unsupported_value config = unsupported_value default_policy)] policy
          in if policy = [] then AList.delete ''policy'' m else bt_insert ''policy'' (JObject policy) m)
     | _ \<Rightarrow> m)"

definition plugin_config_overlay_value ::
    "(plugin_config \<Rightarrow> string + json) \<Rightarrow> plugin_config \<Rightarrow> json plugin_result" where
  "plugin_config_overlay_value to_value config = (case to_value config of
       Inl e \<Rightarrow> Inl (Serialization e)
     | Inr (JObject m) \<Rightarrow>
         Inr (JObject (remove_default_policy_overlay (pcf_policy config)
           (if pcf_version config = 1 then AList.delete ''version'' m else m)))
     | Inr v \<Rightarrow> Inr v)"

record serde_plugin_config =
  sp_as_u32 :: "json \<Rightarrow> string + 32 word"
  sp_to_value :: "plugin_config \<Rightarrow> string + json"
  sp_from_value :: "json \<Rightarrow> string + plugin_config"

record resolved_plugin_config =
  rp_config :: plugin_config
  rp_resolved_config :: json
  rp_diagnostics :: "config_diagnostic list"
  rp_config_paths :: "string list"

definition resolve_plugin_config_documents ::
    "serde_plugin_config \<Rightarrow> plugin_config \<Rightarrow> string option \<Rightarrow> (string \<times> json) list \<Rightarrow> resolved_plugin_config plugin_result" where
  "resolve_plugin_config_documents sp config explicit_path documents =
     (case merge_plugin_config_documents (sp_as_u32 sp) documents of
        Inl e \<Rightarrow> Inl e
      | Inr merged \<Rightarrow>
          (let (file_value, sources) = (case merged of None \<Rightarrow> (JObject [], []) | Some r \<Rightarrow> r)
           in case plugin_config_overlay_value (sp_to_value sp) config of
                Inl e \<Rightarrow> Inl e
              | Inr overlay \<Rightarrow>
                  (let v = layer_config file_value overlay
                   in case sp_from_value sp v of
                        Inl e \<Rightarrow> Inl (Serialization e)
                      | Inr c \<Rightarrow> Inr \<lparr>rp_config = c, rp_resolved_config = v,
                          rp_diagnostics = inherited_plugin_config_diagnostics
                            (case explicit_path of None \<Rightarrow> sources | Some p \<Rightarrow> filter (\<lambda>s. s \<noteq> p) sources),
                          rp_config_paths = sources\<rparr>)))"

text \<open>The last of the paths that denote the same file is kept.\<close>

fun dedup_rev :: "(string \<Rightarrow> string) \<Rightarrow> string set \<Rightarrow> string list \<Rightarrow> string list" where
  "dedup_rev identity seen [] = []"
| "dedup_rev identity seen (p # ps) =
     (if identity p \<in> seen then dedup_rev identity seen ps
      else p # dedup_rev identity (insert (identity p) seen) ps)"

definition deduplicate_plugin_config_paths :: "(string \<Rightarrow> string) \<Rightarrow> string list \<Rightarrow> string list" where
  "deduplicate_plugin_config_paths identity paths = rev (dedup_rev identity {} (rev paths))"

definition default_plugin_config_paths :: "bool \<Rightarrow> string \<Rightarrow> string option \<Rightarrow> string list" where
  "default_plugin_config_paths skip system_dir user_dir =
     (if skip then []
      else (case user_dir of None \<Rightarrow> [] | Some d \<Rightarrow> [d @ ''/plugins.toml'']) @ [system_dir @ ''/plugins.toml''])"

definition plugin_config_paths ::
    "(string \<Rightarrow> string) \<Rightarrow> bool \<Rightarrow> string \<Rightarrow> string option \<Rightarrow> string option \<Rightarrow> string list" where
  "plugin_config_paths identity skip system_dir explicit_path user_dir =
     deduplicate_plugin_config_paths identity
       ((case explicit_path of None \<Rightarrow> [] | Some p \<Rightarrow> [p]) @
        default_plugin_config_paths skip system_dir (if explicit_path \<noteq> None then None else user_dir))"

end
