(* ===== verification/Subscriber_Api.thy ===== *)
theory Subscriber_Api
  imports Scope_Stack
begin

text \<open>
  Registration of event subscribers (\<^verbatim>\<open>crates/core/src/api/subscriber.rs\<close>), global and on a scope. The
  subscribers of a table are a hash map from names to callbacks. The flush of that file is an operation
  of the dispatcher.
\<close>

definition register_subscriber :: "string \<Rightarrow> 'f \<Rightarrow> 'f global_env \<Rightarrow> unit flow_result \<times> 'f global_env" where
  "register_subscriber name callback = with_runtime_owner (\<lambda>l. case l of
       Poisoned m _ \<Rightarrow> (Inl (Internal m), l)
     | Healthy st \<Rightarrow>
         (let subscribers = event_subscribers (cx_registries st)
          in if map_of subscribers name \<noteq> None then (Inl (AlreadyExists (name @ '' subscriber already exists'')), l)
             else (Inr (), Healthy (st\<lparr>cx_registries := (cx_registries st)
                    \<lparr>event_subscribers := AList.update name callback subscribers\<rparr>\<rparr>))))"

definition deregister_subscriber :: "string \<Rightarrow> 'f global_env \<Rightarrow> bool flow_result \<times> 'f global_env" where
  "deregister_subscriber name = with_runtime_owner (\<lambda>l. case l of
       Poisoned m _ \<Rightarrow> (Inl (Internal m), l)
     | Healthy st \<Rightarrow>
         (let subscribers = event_subscribers (cx_registries st)
          in (Inr (map_of subscribers name \<noteq> None), Healthy (st\<lparr>cx_registries := (cx_registries st)
               \<lparr>event_subscribers := AList.delete name subscribers\<rparr>\<rparr>))))"

definition add_subscriber :: "string \<Rightarrow> 'f \<Rightarrow> 'f registries \<Rightarrow> unit flow_result \<times> 'f registries" where
  "add_subscriber name callback r =
     (if map_of (event_subscribers r) name \<noteq> None then (Inl (AlreadyExists (name @ '' subscriber already exists'')), r)
      else (Inr (), r\<lparr>event_subscribers := AList.update name callback (event_subscribers r)\<rparr>))"

definition remove_subscriber :: "string \<Rightarrow> 'f registries \<Rightarrow> bool flow_result \<times> 'f registries" where
  "remove_subscriber name r =
     (Inr (map_of (event_subscribers r) name \<noteq> None), r\<lparr>event_subscribers := AList.delete name (event_subscribers r)\<rparr>)"

definition scope_change_subscribers ::
    "uuid \<Rightarrow> ('f registries \<Rightarrow> 'a flow_result \<times> 'f registries) \<Rightarrow> 'f scope_stack \<Rightarrow> 'a flow_result \<times> 'f scope_stack" where
  "scope_change_subscribers u f s = (case local_registries_mut u f s of
       None \<Rightarrow> (Inl (NotFound (''scope '' @ show_uuid u @ '' not found'')), s)
     | Some r \<Rightarrow> r)"

definition scope_subscribers ::
    "uuid \<Rightarrow> ('f registries \<Rightarrow> 'a flow_result \<times> 'f registries) \<Rightarrow> 'f scope_env \<Rightarrow> 'a flow_result outcome \<times> 'f scope_env" where
  "scope_subscribers u f env = (case env of (p, l) \<Rightarrow> (case ensure_process_runtime_owner p of
       (Inl e, p') \<Rightarrow> (Finished (Inl e), (p', l))
     | (Inr _, p') \<Rightarrow> (case l of
         Poisoned m _ \<Rightarrow> (Panicked, (p', l))
       | Healthy s \<Rightarrow> (case scope_change_subscribers u f s of (r, s) \<Rightarrow> (Finished r, (p', Healthy s))))))"

definition scope_register_subscriber ::
    "uuid \<Rightarrow> string \<Rightarrow> 'f \<Rightarrow> 'f scope_env \<Rightarrow> unit flow_result outcome \<times> 'f scope_env" where
  "scope_register_subscriber u name callback = scope_subscribers u (add_subscriber name callback)"

definition scope_deregister_subscriber ::
    "uuid \<Rightarrow> string \<Rightarrow> 'f scope_env \<Rightarrow> bool flow_result outcome \<times> 'f scope_env" where
  "scope_deregister_subscriber u name = scope_subscribers u (remove_subscriber name)"

text \<open>
  The variants for callbacks of the dispatcher do not wait for the lock; \<open>busy\<close> is the error of
  \<^verbatim>\<open>try_write\<close> while another thread holds it.
\<close>

definition try_scope_subscribers ::
    "string option \<Rightarrow> uuid \<Rightarrow> ('f registries \<Rightarrow> 'a flow_result \<times> 'f registries) \<Rightarrow> 'f scope_env \<Rightarrow>
     'a flow_result \<times> 'f scope_env" where
  "try_scope_subscribers busy u f env = (case env of (p, l) \<Rightarrow> (case ensure_process_runtime_owner p of
       (Inl e, p') \<Rightarrow> (Inl e, (p', l))
     | (Inr _, p') \<Rightarrow> (case busy of
         Some m \<Rightarrow> (Inl (Internal (''scope stack lock unavailable: '' @ m)), (p', l))
       | None \<Rightarrow> (case l of
           Poisoned m _ \<Rightarrow> (Inl (Internal (''scope stack lock unavailable: '' @ m)), (p', l))
         | Healthy s \<Rightarrow> (case scope_change_subscribers u f s of (r, s) \<Rightarrow> (r, (p', Healthy s)))))))"

definition try_scope_register_subscriber ::
    "string option \<Rightarrow> uuid \<Rightarrow> string \<Rightarrow> 'f \<Rightarrow> 'f scope_env \<Rightarrow> unit flow_result \<times> 'f scope_env" where
  "try_scope_register_subscriber busy u name callback = try_scope_subscribers busy u (add_subscriber name callback)"

definition try_scope_deregister_subscriber ::
    "string option \<Rightarrow> uuid \<Rightarrow> string \<Rightarrow> 'f scope_env \<Rightarrow> bool flow_result \<times> 'f scope_env" where
  "try_scope_deregister_subscriber busy u name = try_scope_subscribers busy u (remove_subscriber name)"

section \<open>Facts\<close>

lemma delete_update_fresh: "map_of xs k = None \<Longrightarrow> AList.delete k (AList.update k v xs) = xs"
proof (induction xs)
  case (Cons p xs)
  then show ?case by (cases p) (auto simp: AList.delete_id map_of_eq_None_iff split: if_splits)
qed simp

lemma register_subscriber_result:
  assumes "register_subscriber name f (p, Healthy st) = (Inr u, (p', l'))"
  shows "map_of (event_subscribers (cx_registries st)) name = None"
    and "l' = Healthy (st\<lparr>cx_registries := (cx_registries st)
        \<lparr>event_subscribers := AList.update name f (event_subscribers (cx_registries st))\<rparr>\<rparr>)"
  using assms by (auto simp: register_subscriber_def with_runtime_owner_def Let_def split: prod.splits sum.splits if_splits)

end
