(* ===== verification/Plugin_Host.thy ===== *)
theory Plugin_Host
  imports Plugin_Config Subscriber_Api
begin

text \<open>
  The plugin host (\<^verbatim>\<open>crates/core/src/plugin.rs\<close>, \<^verbatim>\<open>plugin/dynamic/host.rs\<close>): registered kinds, the lease that
  admits one host, the context through which a plugin registers middleware, the activation of a
  configuration with its rollback, the replacement of one configuration by another, and teardown.

  A plugin is foreign code. Its \<^verbatim>\<open>register\<close> is a program that calls the context and changes the rest of
  its environment in between; it can fail or panic at any point. The environment holds what the context
  calls act on, and a world. A closure that undoes a registration acts on the environment. Diagnostics
  that such a closure reports while it runs are left out, and so is dynamic loading: the host is the one
  of a static configuration. The flush of queued events is an effect on the world.
\<close>

section \<open>Registrations\<close>

record ('f, 'w) host_env =
  he_process :: process
  he_context :: "'f context_state rwlock"
  he_gates :: "'w gate_table"
  he_world :: 'w

datatype cleanup_outcome = Removed | RemovedWithError plugin_error | NotRemoved plugin_error

text \<open>What \<^verbatim>\<open>catch_unwind\<close> sees of a closure: its outcome, or the message of its panic.\<close>

datatype cleanup = Cleaned cleanup_outcome | CleanupPanicked string

record ('f, 'w) plugin_registration =
  preg_kind :: string
  preg_name :: string
  preg_deregister :: "('f, 'w) host_env \<Rightarrow> cleanup \<times> ('f, 'w) host_env"

definition registration_new ::
    "string \<Rightarrow> string \<Rightarrow> (('f, 'w) host_env \<Rightarrow> unit plugin_result \<times> ('f, 'w) host_env) \<Rightarrow> ('f, 'w) plugin_registration" where
  "registration_new kind name f = \<lparr>preg_kind = kind, preg_name = name,
     preg_deregister = (\<lambda>e. case f e of (Inr _, e) \<Rightarrow> (Cleaned Removed, e) | (Inl err, e) \<Rightarrow> (Cleaned (NotRemoved err), e))\<rparr>"

record plugin_rollback_outcome =
  rb_errors :: "string list"
  rb_callbacks_cleared :: bool

definition default_rollback :: plugin_rollback_outcome where
  "default_rollback = \<lparr>rb_errors = [], rb_callbacks_cleared = True\<rparr>"

definition cleanup_message :: "('f, 'w) plugin_registration \<Rightarrow> string \<Rightarrow> string" where
  "cleanup_message r m = preg_kind r @ '' registration '' @ [CHR 0x27] @ preg_name r @ [CHR 0x27] @ m"

fun rollback_loop ::
    "('f, 'w) plugin_registration list \<Rightarrow> plugin_rollback_outcome \<Rightarrow> ('f, 'w) plugin_registration list \<Rightarrow>
     ('f, 'w) host_env \<Rightarrow> plugin_rollback_outcome \<times> ('f, 'w) plugin_registration list \<times> ('f, 'w) host_env" where
  "rollback_loop [] out retained e = (out, retained, e)"
| "rollback_loop (r # rs) out retained e = (case preg_deregister r e of
     (Cleaned Removed, e) \<Rightarrow> rollback_loop rs out retained e
   | (Cleaned (RemovedWithError err), e) \<Rightarrow> rollback_loop rs
       (out\<lparr>rb_errors := rb_errors out @ [cleanup_message r ('' reported a delivery failure: '' @ display_plugin_error err)]\<rparr>)
       retained e
   | (Cleaned (NotRemoved err), e) \<Rightarrow> rollback_loop rs
       (out\<lparr>rb_errors := rb_errors out @ [cleanup_message r ('' could not be removed: '' @ display_plugin_error err)],
           rb_callbacks_cleared := False\<rparr>) (retained @ [r]) e
   | (CleanupPanicked m, e) \<Rightarrow> rollback_loop rs
       (out\<lparr>rb_errors := rb_errors out @ [cleanup_message r ('' could not be removed: deregistration panicked: '' @ m)],
           rb_callbacks_cleared := False\<rparr>) (retained @ [r]) e)"

definition rollback_registrations_checked ::
    "('f, 'w) plugin_registration list \<Rightarrow> ('f, 'w) host_env \<Rightarrow>
     plugin_rollback_outcome \<times> ('f, 'w) plugin_registration list \<times> ('f, 'w) host_env" where
  "rollback_registrations_checked rs e = (case rollback_loop (rev rs) default_rollback [] e of
     (out, retained, e) \<Rightarrow> (out, rev retained, e))"

section \<open>The registration context\<close>

record ('f, 'w) plugin_registration_context =
  rc_registrations :: "('f, 'w) plugin_registration list"
  rc_namespace :: "plugin_registration_namespace option"

definition context_with_component_namespace :: "string \<Rightarrow> ('f, 'w) plugin_registration_context" where
  "context_with_component_namespace namespace = \<lparr>rc_registrations = [], rc_namespace = Some (PluginComponent namespace)\<rparr>"

definition on_context ::
    "('f global_env \<Rightarrow> 'a flow_result \<times> 'f global_env) \<Rightarrow> ('f, 'w) host_env \<Rightarrow> 'a flow_result \<times> ('f, 'w) host_env" where
  "on_context f e = (case f (he_process e, he_context e) of (r, (p, l)) \<Rightarrow> (r, e\<lparr>he_process := p, he_context := l\<rparr>))"

definition on_gates ::
    "(process \<times> 'w gate_table \<Rightarrow> 'a flow_result \<times> (process \<times> 'w gate_table)) \<Rightarrow> ('f, 'w) host_env \<Rightarrow>
     'a flow_result \<times> ('f, 'w) host_env" where
  "on_gates f e = (case f (he_process e, he_gates e) of (r, (p, t)) \<Rightarrow> (r, e\<lparr>he_process := p, he_gates := t\<rparr>))"

text \<open>The common body of the \<^verbatim>\<open>register_*\<close> methods: install, then record how to remove it.\<close>

definition tracked_registration ::
    "string \<Rightarrow> (string \<Rightarrow> ('f, 'w) host_env \<Rightarrow> bool flow_result \<times> ('f, 'w) host_env) \<Rightarrow> string \<Rightarrow>
     ('f, 'w) plugin_registration" where
  "tracked_registration label dereg q = registration_new ''plugin'' q (\<lambda>e. case dereg q e of
       (Inr _, e) \<Rightarrow> (Inr (), e)
     | (Inl err, e) \<Rightarrow> (Inl (RegistrationFailed (label @ '' deregistration failed: '' @ display_flow_error err)), e))"

definition context_register ::
    "string \<Rightarrow> (string \<Rightarrow> ('f, 'w) host_env \<Rightarrow> unit flow_result \<times> ('f, 'w) host_env) \<Rightarrow>
     (string \<Rightarrow> ('f, 'w) host_env \<Rightarrow> bool flow_result \<times> ('f, 'w) host_env) \<Rightarrow> string \<Rightarrow>
     ('f, 'w) plugin_registration_context \<Rightarrow> ('f, 'w) host_env \<Rightarrow>
     unit plugin_result \<times> ('f, 'w) plugin_registration_context \<times> ('f, 'w) host_env" where
  "context_register label reg dereg name ctx e =
     (let q = qualify_name (rc_namespace ctx) name
      in case reg q e of
           (Inl err, e) \<Rightarrow> (Inl (RegistrationFailed (label @ '': '' @ display_flow_error err)), ctx, e)
         | (Inr _, e) \<Rightarrow> (Inr (),
             ctx\<lparr>rc_registrations := rc_registrations ctx @ [tracked_registration label dereg q]\<rparr>, e))"

definition ctx_register_subscriber where
  "ctx_register_subscriber name callback = context_register ''subscriber''
     (\<lambda>q. on_context (register_subscriber q callback)) (\<lambda>q. on_context (deregister_subscriber q)) name"

definition ctx_register_conditional_middleware_guardrail where
  "ctx_register_conditional_middleware_guardrail name kinds registration_name guardrail =
     context_register ''conditional middleware guardrail''
       (\<lambda>q. on_gates (register_conditional_middleware_guardrail q kinds registration_name guardrail))
       (\<lambda>q. on_gates (deregister_conditional_middleware_guardrail q)) name"

definition ctx_register_event_metadata_injector where
  "ctx_register_event_metadata_injector name priority callback = context_register ''event metadata injector''
     (\<lambda>q. on_context (register_event_metadata_injector q priority callback)) (\<lambda>q. on_context (deregister_event_metadata_injector q)) name"

definition ctx_register_mark_sanitize_guardrail where
  "ctx_register_mark_sanitize_guardrail name priority callback = context_register ''mark sanitizer''
     (\<lambda>q. on_context (register_mark_sanitize_guardrail q priority callback)) (\<lambda>q. on_context (deregister_mark_sanitize_guardrail q)) name"

definition ctx_register_scope_sanitize_start_guardrail where
  "ctx_register_scope_sanitize_start_guardrail name priority callback = context_register ''scope-start sanitizer''
     (\<lambda>q. on_context (register_scope_sanitize_start_guardrail q priority callback)) (\<lambda>q. on_context (deregister_scope_sanitize_start_guardrail q)) name"

definition ctx_register_scope_sanitize_end_guardrail where
  "ctx_register_scope_sanitize_end_guardrail name priority callback = context_register ''scope-end sanitizer''
     (\<lambda>q. on_context (register_scope_sanitize_end_guardrail q priority callback)) (\<lambda>q. on_context (deregister_scope_sanitize_end_guardrail q)) name"

definition ctx_register_llm_request_intercept where
  "ctx_register_llm_request_intercept name priority stops callback = context_register ''llm request intercept''
     (\<lambda>q. on_context (register_llm_request_intercept q priority stops callback)) (\<lambda>q. on_context (deregister_llm_request_intercept q)) name"

definition ctx_register_tool_sanitize_request_guardrail where
  "ctx_register_tool_sanitize_request_guardrail name priority callback = context_register ''tool sanitize request guardrail''
     (\<lambda>q. on_context (register_tool_sanitize_request_guardrail q priority callback)) (\<lambda>q. on_context (deregister_tool_sanitize_request_guardrail q)) name"

definition ctx_register_tool_sanitize_response_guardrail where
  "ctx_register_tool_sanitize_response_guardrail name priority callback = context_register ''tool sanitize response guardrail''
     (\<lambda>q. on_context (register_tool_sanitize_response_guardrail q priority callback)) (\<lambda>q. on_context (deregister_tool_sanitize_response_guardrail q)) name"

definition ctx_register_tool_conditional_execution_guardrail where
  "ctx_register_tool_conditional_execution_guardrail name priority callback = context_register ''tool conditional execution guardrail''
     (\<lambda>q. on_context (register_tool_conditional_execution_guardrail q priority callback)) (\<lambda>q. on_context (deregister_tool_conditional_execution_guardrail q)) name"

definition ctx_register_llm_sanitize_request_guardrail where
  "ctx_register_llm_sanitize_request_guardrail name priority callback = context_register ''llm sanitize request guardrail''
     (\<lambda>q. on_context (register_llm_sanitize_request_guardrail q priority callback)) (\<lambda>q. on_context (deregister_llm_sanitize_request_guardrail q)) name"

definition ctx_register_llm_sanitize_response_guardrail where
  "ctx_register_llm_sanitize_response_guardrail name priority callback = context_register ''llm sanitize response guardrail''
     (\<lambda>q. on_context (register_llm_sanitize_response_guardrail q priority callback)) (\<lambda>q. on_context (deregister_llm_sanitize_response_guardrail q)) name"

definition ctx_register_llm_conditional_execution_guardrail where
  "ctx_register_llm_conditional_execution_guardrail name priority callback = context_register ''llm conditional execution guardrail''
     (\<lambda>q. on_context (register_llm_conditional_execution_guardrail q priority callback)) (\<lambda>q. on_context (deregister_llm_conditional_execution_guardrail q)) name"

definition ctx_register_llm_execution_intercept where
  "ctx_register_llm_execution_intercept name priority callback = context_register ''llm execution intercept''
     (\<lambda>q. on_context (register_llm_execution_intercept q priority callback)) (\<lambda>q. on_context (deregister_llm_execution_intercept q)) name"

definition ctx_register_llm_stream_execution_intercept where
  "ctx_register_llm_stream_execution_intercept name priority callback = context_register ''llm stream execution intercept''
     (\<lambda>q. on_context (register_llm_stream_execution_intercept q priority callback)) (\<lambda>q. on_context (deregister_llm_stream_execution_intercept q)) name"

definition ctx_register_tool_request_intercept where
  "ctx_register_tool_request_intercept name priority stops callback = context_register ''tool request intercept''
     (\<lambda>q. on_context (register_tool_request_intercept q priority stops callback)) (\<lambda>q. on_context (deregister_tool_request_intercept q)) name"

definition ctx_register_tool_execution_intercept where
  "ctx_register_tool_execution_intercept name priority callback = context_register ''tool execution intercept''
     (\<lambda>q. on_context (register_tool_execution_intercept q priority callback)) (\<lambda>q. on_context (deregister_tool_execution_intercept q)) name"

section \<open>Plugins\<close>

datatype ('f, 'w) context_call =
    CallRegister runtime_registration_kind string int bool 'f
  | CallConditional string "runtime_registration_kind set" string "'w gate_fn"
  | ExtendRegistrations "('f, 'w) plugin_registration list"

text \<open>The priority and the flag that breaks a chain matter for the surfaces that have them.\<close>

definition call_register where
  "call_register kind name priority stops callback = (case kind of
       Subscriber \<Rightarrow> ctx_register_subscriber name callback
     | EventMetadataInjector \<Rightarrow> ctx_register_event_metadata_injector name priority callback
     | MarkSanitizeGuardrail \<Rightarrow> ctx_register_mark_sanitize_guardrail name priority callback
     | ScopeSanitizeStartGuardrail \<Rightarrow> ctx_register_scope_sanitize_start_guardrail name priority callback
     | ScopeSanitizeEndGuardrail \<Rightarrow> ctx_register_scope_sanitize_end_guardrail name priority callback
     | LlmRequestIntercept \<Rightarrow> ctx_register_llm_request_intercept name priority stops callback
     | ToolSanitizeRequestGuardrail \<Rightarrow> ctx_register_tool_sanitize_request_guardrail name priority callback
     | ToolSanitizeResponseGuardrail \<Rightarrow> ctx_register_tool_sanitize_response_guardrail name priority callback
     | ToolConditionalExecutionGuardrail \<Rightarrow> ctx_register_tool_conditional_execution_guardrail name priority callback
     | LlmSanitizeRequestGuardrail \<Rightarrow> ctx_register_llm_sanitize_request_guardrail name priority callback
     | LlmSanitizeResponseGuardrail \<Rightarrow> ctx_register_llm_sanitize_response_guardrail name priority callback
     | LlmConditionalExecutionGuardrail \<Rightarrow> ctx_register_llm_conditional_execution_guardrail name priority callback
     | LlmExecutionIntercept \<Rightarrow> ctx_register_llm_execution_intercept name priority callback
     | LlmStreamExecutionIntercept \<Rightarrow> ctx_register_llm_stream_execution_intercept name priority callback
     | ToolRequestIntercept \<Rightarrow> ctx_register_tool_request_intercept name priority stops callback
     | ToolExecutionIntercept \<Rightarrow> ctx_register_tool_execution_intercept name priority callback)"

fun run_call ::
    "('f, 'w) context_call \<Rightarrow> ('f, 'w) plugin_registration_context \<Rightarrow> ('f, 'w) host_env \<Rightarrow>
     unit plugin_result \<times> ('f, 'w) plugin_registration_context \<times> ('f, 'w) host_env" where
  "run_call (CallRegister kind name priority stops callback) ctx e =
     call_register kind name priority stops callback ctx e"
| "run_call (CallConditional name kinds registration_name guardrail) ctx e =
     ctx_register_conditional_middleware_guardrail name kinds registration_name guardrail ctx e"
| "run_call (ExtendRegistrations rs) ctx e = (Inr (), ctx\<lparr>rc_registrations := rc_registrations ctx @ rs\<rparr>, e)"

datatype ('f, 'w) plugin_program =
    PluginReturn "unit plugin_result"
  | PluginPanic
  | PluginCall "('f, 'w) context_call" "unit plugin_result \<Rightarrow> ('f, 'w) plugin_program"
  | PluginEffect "('f, 'w) host_env \<Rightarrow> ('f, 'w) host_env" "('f, 'w) host_env \<Rightarrow> ('f, 'w) plugin_program"

primrec run_plugin ::
    "('f, 'w) plugin_program \<Rightarrow> ('f, 'w) plugin_registration_context \<Rightarrow> ('f, 'w) host_env \<Rightarrow>
     unit plugin_result outcome \<times> ('f, 'w) plugin_registration_context \<times> ('f, 'w) host_env" where
  "run_plugin (PluginReturn r) ctx e = (Finished r, ctx, e)"
| "run_plugin PluginPanic ctx e = (Panicked, ctx, e)"
| "run_plugin (PluginCall c k) ctx e = (case run_call c ctx e of (r, ctx, e) \<Rightarrow> run_plugin (k r) ctx e)"
| "run_plugin (PluginEffect f k) ctx e = run_plugin (k (f e)) ctx (f e)"

record ('f, 'w) plugin =
  pl_kind :: string
  pl_allows_multiple :: bool
  pl_validate :: "json_object \<Rightarrow> config_policy \<Rightarrow> config_diagnostic list"
  pl_register :: "json_object \<Rightarrow> ('f, 'w) plugin_program"

end
