(* ===== verification/Plugin_Activation.thy ===== *)
theory Plugin_Activation
  imports Plugin_Host
begin

text \<open>
  The plugin host as a state machine (\<^verbatim>\<open>crates/core/src/plugin.rs\<close>, \<^verbatim>\<open>plugin/dynamic/host.rs\<close>). Plugin
  mutations run one at a time on an executor of their own, so each is one function of the host's state.
\<close>

section \<open>State\<close>

datatype plugin_registration_owner = Builtin | External

record ('f, 'w) registered_plugin =
  rg_registration_id :: "64 word"
  rg_owner :: plugin_registration_owner
  rg_plugin :: "('f, 'w) plugin"

datatype plugin_deregistration_outcome = KindRemoved | KindMissing | KindReplaced

datatype plugin_mutation_owner = Idle | Host "64 word"

record runtime_diagnostics_entry =
  sn_code :: string
  sn_message :: string
  sn_count :: "64 word"

record ('f, 'w) active_plugin_configuration =
  ac_config :: plugin_config
  ac_report :: config_report
  ac_runtime_diagnostics :: "(string \<times> runtime_diagnostics_entry) list"
  ac_registrations :: "('f, 'w) plugin_registration list"

record ('f, 'w) plugin_host =
  ph_env :: "('f, 'w) host_env"
  ph_handlers :: "(string \<times> ('f, 'w) registered_plugin) list rwlock"
  ph_next_registration_id :: "64 word"
  ph_active :: "('f, 'w) active_plugin_configuration option rwlock"
  ph_last_failed :: "config_report option rwlock"
  ph_owner :: "plugin_mutation_owner rwlock"
  ph_next_owner_id :: "64 word"
  ph_rollback_failures :: "string list rwlock"

text \<open>
  The built-in plugins, the text of a join error, the flush of queued events, and the credentials-free
  view of a configuration do not depend on the host.
\<close>

record ('f, 'w) host_services =
  hs_builtins :: "('f, 'w) plugin list"
  hs_join_error :: string
  hs_flush :: "('f, 'w) host_env \<Rightarrow> flow_error option \<times> ('f, 'w) host_env"

section \<open>Kinds\<close>

definition handlers_poisoned :: "string \<Rightarrow> plugin_error" where
  "handlers_poisoned m = PluginInternal (''plugin registry lock poisoned: '' @ m)"

definition plugin_already_registered_error :: "string \<Rightarrow> plugin_registration_owner \<Rightarrow> plugin_error" where
  "plugin_already_registered_error kind ow = RegistrationFailed
     ((if ow = Builtin then ''reserved builtin '' else []) @ ''plugin '' @ [CHR 0x27] @ kind @ [CHR 0x27] @ '' is already registered'')"

definition register_plugin_with_owner ::
    "('f, 'w) plugin \<Rightarrow> plugin_registration_owner \<Rightarrow> ('f, 'w) plugin_host \<Rightarrow> 64 word plugin_result \<times> ('f, 'w) plugin_host" where
  "register_plugin_with_owner p ow h = (case ph_handlers h of
       Poisoned m _ \<Rightarrow> (Inl (handlers_poisoned m), h)
     | Healthy t \<Rightarrow> (case map_of t (pl_kind p) of
         Some existing \<Rightarrow>
           (if ow = Builtin \<and> rg_owner existing = Builtin then (Inr (rg_registration_id existing), h)
            else (Inl (plugin_already_registered_error (pl_kind p) ow), h))
       | None \<Rightarrow>
           (let i = ph_next_registration_id h
            in (Inr i, h\<lparr>ph_next_registration_id := i + 1, ph_handlers := Healthy (AList.update (pl_kind p)
                 \<lparr>rg_registration_id = i, rg_owner = ow, rg_plugin = p\<rparr> t)\<rparr>))))"

definition register_plugin :: "('f, 'w) plugin \<Rightarrow> ('f, 'w) plugin_host \<Rightarrow> unit plugin_result \<times> ('f, 'w) plugin_host" where
  "register_plugin p h = (case register_plugin_with_owner p External h of (r, h) \<Rightarrow> (map_sum id (\<lambda>_. ()) r, h))"

definition register_plugin_tracked ::
    "('f, 'w) plugin \<Rightarrow> ('f, 'w) plugin_host \<Rightarrow> 64 word plugin_result \<times> ('f, 'w) plugin_host" where
  "register_plugin_tracked p = register_plugin_with_owner p External"

definition register_builtin_plugin ::
    "('f, 'w) plugin \<Rightarrow> ('f, 'w) plugin_host \<Rightarrow> unit plugin_result \<times> ('f, 'w) plugin_host" where
  "register_builtin_plugin p h = (case ph_handlers h of
       Poisoned m _ \<Rightarrow> (Inl (handlers_poisoned m), h)
     | Healthy t \<Rightarrow> (case map_of t (pl_kind p) of
         Some existing \<Rightarrow>
           (if rg_owner existing = Builtin then (Inr (), h) else (Inl (plugin_already_registered_error (pl_kind p) Builtin), h))
       | None \<Rightarrow> (case register_plugin_with_owner p Builtin h of (r, h) \<Rightarrow> (map_sum id (\<lambda>_. ()) r, h))))"

fun register_builtins ::
    "('f, 'w) plugin list \<Rightarrow> ('f, 'w) plugin_host \<Rightarrow> unit plugin_result \<times> ('f, 'w) plugin_host" where
  "register_builtins [] h = (Inr (), h)"
| "register_builtins (p # ps) h = (case register_builtin_plugin p h of
     (Inl e, h) \<Rightarrow> (Inl e, h)
   | (Inr _, h) \<Rightarrow> register_builtins ps h)"

definition ensure_builtin_plugins_registered ::
    "('f, 'w) host_services \<Rightarrow> ('f, 'w) plugin_host \<Rightarrow> unit plugin_result \<times> ('f, 'w) plugin_host" where
  "ensure_builtin_plugins_registered hs h = (case ph_handlers h of
       Poisoned m _ \<Rightarrow> (Inl (handlers_poisoned m), h)
     | Healthy t \<Rightarrow>
         (if list_all (\<lambda>p. case map_of t (pl_kind p) of Some r \<Rightarrow> rg_owner r = Builtin | None \<Rightarrow> False) (hs_builtins hs)
          then (Inr (), h)
          else register_builtins (hs_builtins hs) h))"

definition deregister_plugin_checked :: "string \<Rightarrow> ('f, 'w) plugin_host \<Rightarrow> bool plugin_result \<times> ('f, 'w) plugin_host" where
  "deregister_plugin_checked kind h = (case ph_handlers h of
       Poisoned m _ \<Rightarrow> (Inl (handlers_poisoned m), h)
     | Healthy t \<Rightarrow> (Inr (map_of t kind \<noteq> None), h\<lparr>ph_handlers := Healthy (AList.delete kind t)\<rparr>))"

definition deregister_plugin :: "string \<Rightarrow> ('f, 'w) plugin_host \<Rightarrow> bool \<times> ('f, 'w) plugin_host" where
  "deregister_plugin kind h = (case deregister_plugin_checked kind h of
       (Inr b, h) \<Rightarrow> (b, h)
     | (Inl _, h) \<Rightarrow> (False, h))"

definition deregister_plugin_registration_checked ::
    "string \<Rightarrow> 64 word \<Rightarrow> ('f, 'w) plugin_host \<Rightarrow> plugin_deregistration_outcome plugin_result \<times> ('f, 'w) plugin_host" where
  "deregister_plugin_registration_checked kind expected h = (case ph_handlers h of
       Poisoned m _ \<Rightarrow> (Inl (handlers_poisoned m), h)
     | Healthy t \<Rightarrow> (case map_of t kind of
         None \<Rightarrow> (Inr KindMissing, h)
       | Some r \<Rightarrow> if rg_registration_id r = expected
           then (Inr KindRemoved, h\<lparr>ph_handlers := Healthy (AList.delete kind t)\<rparr>)
           else (Inr KindReplaced, h)))"

definition lookup_registered_plugin :: "string \<Rightarrow> ('f, 'w) plugin_host \<Rightarrow> ('f, 'w) plugin option" where
  "lookup_registered_plugin kind h = (case ph_handlers h of
       Poisoned _ _ \<Rightarrow> None
     | Healthy t \<Rightarrow> map_option rg_plugin (map_of t kind))"

definition lookup_plugin ::
    "('f, 'w) host_services \<Rightarrow> string \<Rightarrow> ('f, 'w) plugin_host \<Rightarrow> ('f, 'w) plugin option \<times> ('f, 'w) plugin_host" where
  "lookup_plugin hs kind h = (case ensure_builtin_plugins_registered hs h of
       (Inl _, h) \<Rightarrow> (None, h)
     | (Inr _, h) \<Rightarrow> (lookup_registered_plugin kind h, h))"

definition list_plugin_kinds :: "('f, 'w) host_services \<Rightarrow> ('f, 'w) plugin_host \<Rightarrow> string list \<times> ('f, 'w) plugin_host" where
  "list_plugin_kinds hs h = (case ensure_builtin_plugins_registered hs h of
       (Inl _, h) \<Rightarrow> ([], h)
     | (Inr _, h) \<Rightarrow> (case ph_handlers h of Poisoned _ _ \<Rightarrow> ([], h) | Healthy t \<Rightarrow> (sort (map fst t), h)))"

section \<open>Validation\<close>

definition plugin_component_totals :: "plugin_config \<Rightarrow> (string \<times> nat) list" where
  "plugin_component_totals config = foldl (\<lambda>t c. AList.update (pc_kind c)
     ((case map_of t (pc_kind c) of Some n \<Rightarrow> n | None \<Rightarrow> 0) + 1) t) [] (pcf_components config)"

fun multiplicity_diagnostics ::
    "('f, 'w) plugin_host \<Rightarrow> (string \<times> nat) list \<Rightarrow> string set \<Rightarrow> plugin_component_spec list \<Rightarrow> config_diagnostic list" where
  "multiplicity_diagnostics h totals emitted [] = []"
| "multiplicity_diagnostics h totals emitted (c # cs) =
     (let kind = pc_kind c; n = (case map_of totals kind of Some n \<Rightarrow> n | None \<Rightarrow> 0)
      in if n \<le> 1 then multiplicity_diagnostics h totals emitted cs
         else if kind \<in> emitted then multiplicity_diagnostics h totals emitted cs
         else (if (case lookup_registered_plugin kind h of Some p \<Rightarrow> pl_allows_multiple p | None \<Rightarrow> True) then []
               else [\<lparr>cd_level = LevelError, cd_code = ''plugin.duplicate_component'', cd_component = Some kind, cd_field = None,
                  cd_message = ''plugin component kind '' @ [CHR 0x27] @ kind @ [CHR 0x27] @ '' may only appear once''\<rparr>]) @
              multiplicity_diagnostics h totals (insert kind emitted) cs)"

definition validate_plugin_multiplicity :: "('f, 'w) plugin_host \<Rightarrow> plugin_config \<Rightarrow> config_diagnostic list" where
  "validate_plugin_multiplicity h config =
     multiplicity_diagnostics h (plugin_component_totals config) {} (pcf_components config)"

definition component_diagnostics :: "('f, 'w) plugin_host \<Rightarrow> config_policy \<Rightarrow> plugin_component_spec \<Rightarrow> config_diagnostic list" where
  "component_diagnostics h policy c = (case lookup_registered_plugin (pc_kind c) h of
       None \<Rightarrow> push_policy_diag (unknown_component policy) ''plugin.unknown_component'' (Some (pc_kind c)) None
         (''plugin component kind '' @ [CHR 0x27] @ pc_kind c @ [CHR 0x27] @ '' is unsupported'') []
     | Some p \<Rightarrow> pl_validate p (pc_config c) policy)"

definition validate_static_plugin_config ::
    "('f, 'w) host_services \<Rightarrow> plugin_config \<Rightarrow> ('f, 'w) plugin_host \<Rightarrow> config_report \<times> ('f, 'w) plugin_host" where
  "validate_static_plugin_config hs config h = (case ensure_builtin_plugins_registered hs h of
       (Inl e, h) \<Rightarrow> (default_report\<lparr>diagnostics := [\<lparr>cd_level = LevelError, cd_code = ''plugin.builtin_registration_failed'',
         cd_component = None, cd_field = None,
         cd_message = ''built-in plugin registration failed: '' @ display_plugin_error e\<rparr>]\<rparr>, h)
     | (Inr _, h) \<Rightarrow>
         (let ds = (if pcf_version config \<noteq> 1
                then push_policy_diag (unsupported_value (pcf_policy config)) ''plugin.unsupported_config_version'' None
                  (Some ''version'') (''plugin config version '' @ show_nat (unat (pcf_version config)) @ '' is unsupported'') []
                else [])
          in (default_report\<lparr>diagnostics := ds @ validate_plugin_multiplicity h config @
                concat (map (component_diagnostics h (pcf_policy config)) (pcf_components config))\<rparr>, h)))"

section \<open>Activation\<close>

definition record_rollback_failures :: "string list \<Rightarrow> ('f, 'w) plugin_host \<Rightarrow> ('f, 'w) plugin_host" where
  "record_rollback_failures errors h = (case ph_rollback_failures h of
       Poisoned _ _ \<Rightarrow> h
     | Healthy fs \<Rightarrow> h\<lparr>ph_rollback_failures := Healthy (fs @ errors)\<rparr>)"

text \<open>Dropping pending registrations, of a component or of the whole activation.\<close>

definition drop_pending_registrations :: "('f, 'w) plugin_registration list \<Rightarrow> ('f, 'w) plugin_host \<Rightarrow> ('f, 'w) plugin_host" where
  "drop_pending_registrations rs h = (case rollback_registrations_checked rs (ph_env h) of (out, _, e) \<Rightarrow>
     (let h = h\<lparr>ph_env := e\<rparr>
      in if rb_callbacks_cleared out then h else record_rollback_failures (rb_errors out) h))"

fun initialize_components_loop ::
    "(string \<times> nat) list \<Rightarrow> ('f, 'w) plugin_registration list \<Rightarrow> plugin_component_spec list \<Rightarrow> ('f, 'w) plugin_host \<Rightarrow>
     ('f, 'w) plugin_registration list plugin_result outcome \<times> ('f, 'w) plugin_host" where
  "initialize_components_loop ordinals rs [] h = (Finished (Inr rs), h)"
| "initialize_components_loop ordinals rs (c # cs) h = (case lookup_registered_plugin (pc_kind c) h of
       None \<Rightarrow> (Finished (Inl (PluginNotFound (''plugin component '' @ [CHR 0x27] @ pc_kind c @ [CHR 0x27] @ '' is not registered''))),
         drop_pending_registrations rs h)
     | Some p \<Rightarrow>
         (let n = (case map_of ordinals (pc_kind c) of Some n \<Rightarrow> n + 1 | None \<Rightarrow> 1)
          in case run_plugin (pl_register p (pc_config c))
               (context_with_component_namespace (component_namespace (pc_kind c) n)) (ph_env h) of
               (r, ctx, e) \<Rightarrow>
                 (let h = h\<lparr>ph_env := e\<rparr>
                  in case r of
                       Finished (Inr _) \<Rightarrow> initialize_components_loop (AList.update (pc_kind c) n ordinals)
                         (rs @ rc_registrations ctx) cs h
                     | Finished (Inl err) \<Rightarrow> (Finished (Inl err), drop_pending_registrations rs (drop_pending_registrations (rc_registrations ctx) h))
                     | Panicked \<Rightarrow> (Panicked, drop_pending_registrations rs (drop_pending_registrations (rc_registrations ctx) h))
                     | Dropped \<Rightarrow> (Dropped, drop_pending_registrations rs (drop_pending_registrations (rc_registrations ctx) h)))))"

definition initialize_plugin_components ::
    "('f, 'w) host_services \<Rightarrow> plugin_config \<Rightarrow> ('f, 'w) plugin_host \<Rightarrow>
     ('f, 'w) plugin_registration list plugin_result outcome \<times> ('f, 'w) plugin_host" where
  "initialize_plugin_components hs config h = (case ensure_builtin_plugins_registered hs h of
       (Inl e, h) \<Rightarrow> (Finished (Inl e), h)
     | (Inr _, h) \<Rightarrow> initialize_components_loop [] [] (filter pc_enabled (pcf_components config)) h)"

definition initialize_plugin_components_catching_panics ::
    "('f, 'w) host_services \<Rightarrow> plugin_config \<Rightarrow> ('f, 'w) plugin_host \<Rightarrow>
     ('f, 'w) plugin_registration list plugin_result \<times> ('f, 'w) plugin_host" where
  "initialize_plugin_components_catching_panics hs config h = (case initialize_plugin_components hs config h of
       (Finished r, h) \<Rightarrow> (r, h)
     | (_, h) \<Rightarrow> (Inl (PluginInternal (''plugin component initialization task failed: '' @ hs_join_error hs)), h))"

definition active_poisoned :: "string \<Rightarrow> plugin_error" where
  "active_poisoned m = PluginInternal (''active plugin configuration lock poisoned: '' @ m)"

definition set_last_failed :: "config_report option \<Rightarrow> ('f, 'w) plugin_host \<Rightarrow> ('f, 'w) plugin_host" where
  "set_last_failed r h = (case ph_last_failed h of Poisoned _ _ \<Rightarrow> h | Healthy _ \<Rightarrow> h\<lparr>ph_last_failed := Healthy r\<rparr>)"

definition store_active_with_runtime_diagnostics ::
    "plugin_config \<Rightarrow> config_report \<Rightarrow> (string \<times> runtime_diagnostics_entry) list \<Rightarrow> ('f, 'w) plugin_registration list \<Rightarrow>
     ('f, 'w) plugin_host \<Rightarrow> unit plugin_result \<times> ('f, 'w) plugin_host" where
  "store_active_with_runtime_diagnostics config report ds rs h = (case ph_active h of
       Poisoned m _ \<Rightarrow> (Inl (active_poisoned m), h)
     | Healthy _ \<Rightarrow> (Inr (), set_last_failed None (h\<lparr>ph_active := Healthy (Some
         \<lparr>ac_config = config, ac_report = report, ac_runtime_diagnostics = ds, ac_registrations = rs\<rparr>)\<rparr>)))"

definition store_active_plugin_configuration where
  "store_active_plugin_configuration config report = store_active_with_runtime_diagnostics config report []"

definition activate_initial_plugin_configuration ::
    "('f, 'w) host_services \<Rightarrow> plugin_config \<Rightarrow> config_report \<Rightarrow> ('f, 'w) plugin_host \<Rightarrow>
     config_report plugin_result \<times> ('f, 'w) plugin_host" where
  "activate_initial_plugin_configuration hs config report h =
     (case initialize_plugin_components_catching_panics hs config h of
        (Inl e, h) \<Rightarrow> (Inl e, h)
      | (Inr rs, h) \<Rightarrow> (case store_active_plugin_configuration config report rs h of
          (Inl e, h) \<Rightarrow> (Inl e, h)
        | (Inr _, h) \<Rightarrow> (Inr report, h)))"

definition install_previous_configuration_for_teardown ::
    "('f, 'w) active_plugin_configuration \<Rightarrow> ('f, 'w) plugin_host \<Rightarrow> unit plugin_result \<times> ('f, 'w) plugin_host" where
  "install_previous_configuration_for_teardown previous h = (case ph_active h of
       Poisoned m _ \<Rightarrow> (Inl (active_poisoned m), h)
     | Healthy _ \<Rightarrow> (Inr (), h\<lparr>ph_active := Healthy (Some (previous\<lparr>ac_registrations := []\<rparr>))\<rparr>))"

definition take_active_runtime_diagnostics_report ::
    "('f, 'w) plugin_host \<Rightarrow> config_report option plugin_result \<times> ('f, 'w) plugin_host" where
  "take_active_runtime_diagnostics_report h = (case ph_active h of
       Poisoned m _ \<Rightarrow> (Inl (active_poisoned m), h)
     | Healthy a \<Rightarrow> (Inr (map_option ac_report a), h\<lparr>ph_active := Healthy None\<rparr>))"

definition record_failed_teardown ::
    "plugin_rollback_outcome \<Rightarrow> config_report option \<Rightarrow> ('f, 'w) plugin_host \<Rightarrow> ('f, 'w) plugin_host" where
  "record_failed_teardown teardown report h =
     (let h = (case report of Some r \<Rightarrow> if runtime_diagnostics r = [] then h else set_last_failed (Some r) h | None \<Rightarrow> h)
      in if rb_callbacks_cleared teardown then h else record_rollback_failures (rb_errors teardown) h)"

definition restore_previous_plugin_configuration ::
    "('f, 'w) host_services \<Rightarrow> ('f, 'w) active_plugin_configuration \<Rightarrow> plugin_error \<Rightarrow> ('f, 'w) plugin_host \<Rightarrow>
     config_report plugin_result \<times> ('f, 'w) plugin_host" where
  "restore_previous_plugin_configuration hs previous err h =
     (case initialize_plugin_components_catching_panics hs (ac_config previous) h of
        (Inr rs, h) \<Rightarrow> (case store_active_with_runtime_diagnostics (ac_config previous) (ac_report previous)
            (ac_runtime_diagnostics previous) rs h of
            (Inl e, h) \<Rightarrow> (Inl e, h)
          | (Inr _, h) \<Rightarrow> (Inl err, h))
      | (Inl e, h) \<Rightarrow> (Inl (RegistrationFailed (display_plugin_error err @
          ''; previous plugin configuration could not be restored: '' @ display_plugin_error e)), h))"

definition activate_replacement_or_restore ::
    "('f, 'w) host_services \<Rightarrow> plugin_config \<Rightarrow> config_report \<Rightarrow> ('f, 'w) active_plugin_configuration \<Rightarrow> ('f, 'w) plugin_host \<Rightarrow>
     config_report plugin_result \<times> ('f, 'w) plugin_host" where
  "activate_replacement_or_restore hs config report previous h =
     (case initialize_plugin_components_catching_panics hs config h of
        (Inr rs, h) \<Rightarrow> (case store_active_plugin_configuration config report rs h of
            (Inl e, h) \<Rightarrow> (Inl e, h)
          | (Inr _, h) \<Rightarrow> (Inr report, h))
      | (Inl err, h) \<Rightarrow> restore_previous_plugin_configuration hs previous err h)"

definition replace_plugin_configuration ::
    "('f, 'w) host_services \<Rightarrow> plugin_config \<Rightarrow> config_report \<Rightarrow> ('f, 'w) active_plugin_configuration \<Rightarrow> ('f, 'w) plugin_host \<Rightarrow>
     config_report plugin_result \<times> ('f, 'w) plugin_host" where
  "replace_plugin_configuration hs config report previous h =
     (case install_previous_configuration_for_teardown previous h of
        (Inl e, h) \<Rightarrow> (Inl e, h)
      | (Inr _, h) \<Rightarrow> (case rollback_registrations_checked (ac_registrations previous) (ph_env h) of (teardown, retained, e) \<Rightarrow>
          (case take_active_runtime_diagnostics_report (h\<lparr>ph_env := e\<rparr>) of
             (Inl err, h) \<Rightarrow> (Inl err, h)
           | (Inr teardown_report, h) \<Rightarrow>
               (if rb_errors teardown \<noteq> []
                then (Inl (RegistrationFailed (''previous plugin configuration could not be cleared: '' @
                       join_with ''; '' (rb_errors teardown))), record_failed_teardown teardown teardown_report h)
                else activate_replacement_or_restore hs config report (previous\<lparr>ac_registrations := retained\<rparr>) h))))"

definition initialize_plugins_exact_inner ::
    "('f, 'w) host_services \<Rightarrow> plugin_config \<Rightarrow> config_diagnostic list \<Rightarrow> ('f, 'w) plugin_host \<Rightarrow>
     config_report plugin_result \<times> ('f, 'w) plugin_host" where
  "initialize_plugins_exact_inner hs config ds h = (case validate_static_plugin_config hs config h of (validated, h) \<Rightarrow>
     (let report = default_report\<lparr>diagnostics := ds @ diagnostics validated\<rparr>
      in if has_errors report then (Inl (InvalidConfig (join_error_messages report)), h)
         else (case ph_active h of
             Poisoned m _ \<Rightarrow> (Inl (active_poisoned m), h)
           | Healthy (Some previous) \<Rightarrow> replace_plugin_configuration hs config report previous (h\<lparr>ph_active := Healthy None\<rparr>)
           | Healthy None \<Rightarrow> activate_initial_plugin_configuration hs config report h)))"

definition owner_poisoned :: "string \<Rightarrow> plugin_error" where
  "owner_poisoned m = PluginInternal (''plugin mutation owner lock poisoned: '' @ m)"

definition verify_plugin_host_owner :: "64 word \<Rightarrow> ('f, 'w) plugin_host \<Rightarrow> unit plugin_result" where
  "verify_plugin_host_owner owner_id h = (case ph_owner h of
       Poisoned m _ \<Rightarrow> Inl (owner_poisoned m)
     | Healthy ow \<Rightarrow> if ow = Host owner_id then Inr ()
         else Inl (Conflict ''dynamic plugin host no longer owns plugin configuration''))"

definition initialize_plugins_exact_for_host ::
    "('f, 'w) host_services \<Rightarrow> plugin_config \<Rightarrow> 64 word \<Rightarrow> config_diagnostic list \<Rightarrow> ('f, 'w) plugin_host \<Rightarrow>
     config_report plugin_result \<times> ('f, 'w) plugin_host" where
  "initialize_plugins_exact_for_host hs config owner_id ds h = (case verify_plugin_host_owner owner_id h of
       Inl e \<Rightarrow> (Inl e, h)
     | Inr _ \<Rightarrow> initialize_plugins_exact_inner hs config ds h)"

section \<open>Teardown\<close>

record plugin_host_clear_outcome =
  hc_result :: "unit plugin_result"
  hc_callbacks_cleared :: bool
  hc_report :: "config_report option"

definition clear_failed :: "plugin_error \<Rightarrow> plugin_host_clear_outcome" where
  "clear_failed e = \<lparr>hc_result = Inl e, hc_callbacks_cleared = False, hc_report = None\<rparr>"

definition clear_result :: "string option \<Rightarrow> string list \<Rightarrow> unit plugin_result" where
  "clear_result flush_error errors =
     (let deregister = (if errors = [] then None
          else Some (RegistrationFailed (''plugin teardown failed: '' @ join_with ''; '' errors)))
      in case (flush_error, deregister) of
           (None, None) \<Rightarrow> Inr ()
         | (Some flush, None) \<Rightarrow> Inl (PluginInternal flush)
         | (None, Some d) \<Rightarrow> Inl d
         | (Some flush, Some d) \<Rightarrow> Inl (RegistrationFailed (display_plugin_error d @
             ''; subscriber flush also failed: '' @ flush)))"

text \<open>Registrations that could not be removed stay with the configuration, which stays active.\<close>

definition clear_plugin_configuration_inner ::
    "('f, 'w) host_services \<Rightarrow> ('f, 'w) plugin_host \<Rightarrow> plugin_host_clear_outcome \<times> ('f, 'w) plugin_host" where
  "clear_plugin_configuration_inner hs h = (case hs_flush hs (ph_env h) of (flush, e) \<Rightarrow>
     (let h = h\<lparr>ph_env := e\<rparr>
      in case ph_active h of
           Poisoned m _ \<Rightarrow> (clear_failed (active_poisoned m), h)
         | Healthy active \<Rightarrow>
             (let (out, retained, e) = (case active of
                    None \<Rightarrow> (default_rollback, [], ph_env h)
                  | Some a \<Rightarrow> rollback_registrations_checked (ac_registrations a) (ph_env h));
                  h = h\<lparr>ph_env := e, ph_active := Healthy (if rb_callbacks_cleared out then None
                    else map_option (\<lambda>a. a\<lparr>ac_registrations := retained\<rparr>) active)\<rparr>;
                  report = map_option ac_report active;
                  result = clear_result (map_option display_flow_error flush) (rb_errors out);
                  h = (case result of
                      Inr _ \<Rightarrow> set_last_failed None h
                    | Inl _ \<Rightarrow> (case report of
                        Some r \<Rightarrow> if runtime_diagnostics r = [] then h else set_last_failed (Some r) h
                      | None \<Rightarrow> h))
              in (\<lparr>hc_result = result, hc_callbacks_cleared = rb_callbacks_cleared out, hc_report = report\<rparr>, h))))"

definition clear_plugin_configuration_for_host ::
    "('f, 'w) host_services \<Rightarrow> 64 word \<Rightarrow> ('f, 'w) plugin_host \<Rightarrow> plugin_host_clear_outcome \<times> ('f, 'w) plugin_host" where
  "clear_plugin_configuration_for_host hs owner_id h = (case verify_plugin_host_owner owner_id h of
       Inl e \<Rightarrow> (clear_failed e, h)
     | Inr _ \<Rightarrow> clear_plugin_configuration_inner hs h)"

definition plugin_configuration_is_active :: "('f, 'w) plugin_host \<Rightarrow> bool plugin_result" where
  "plugin_configuration_is_active h = (case ph_active h of
       Poisoned m _ \<Rightarrow> Inl (active_poisoned m)
     | Healthy a \<Rightarrow> Inr (a \<noteq> None))"

definition plugin_configuration_report_for_host ::
    "64 word \<Rightarrow> ('f, 'w) plugin_host \<Rightarrow> config_report option plugin_result" where
  "plugin_configuration_report_for_host owner_id h = (case verify_plugin_host_owner owner_id h of
       Inl e \<Rightarrow> Inl e
     | Inr _ \<Rightarrow> (case ph_active h of
         Poisoned m _ \<Rightarrow> Inl (active_poisoned m)
       | Healthy a \<Rightarrow> Inr (map_option ac_report a)))"

section \<open>Runtime diagnostics\<close>

definition MAX_DYNAMIC_PLUGIN_RUNTIME_DIAGNOSTICS :: nat where
  "MAX_DYNAMIC_PLUGIN_RUNTIME_DIAGNOSTICS = 32"

definition saturating_add_u64 :: "64 word \<Rightarrow> 64 word \<Rightarrow> 64 word" where
  "saturating_add_u64 a b = (if a + b < a then - 1 else a + b)"

fun aggregate_diagnostic :: "runtime_diagnostic \<Rightarrow> runtime_diagnostic list \<Rightarrow> runtime_diagnostic list" where
  "aggregate_diagnostic d [] = [d]"
| "aggregate_diagnostic d (x # xs) =
     (if rd_code x = rd_code d \<and> rd_component x = rd_component d \<and> rd_field x = rd_field d
      then x\<lparr>rd_message := rd_message d, rd_session_id := rd_session_id d,
             rd_count := saturating_add_u64 (rd_count x) (rd_count d)\<rparr> # xs
      else x # aggregate_diagnostic d xs)"

definition record_snapshot_entry ::
    "runtime_diagnostic \<Rightarrow> (string \<times> runtime_diagnostics_entry) list \<Rightarrow> (string \<times> runtime_diagnostics_entry) list" where
  "record_snapshot_entry d t = (case map_of t (rd_code d) of
       Some x \<Rightarrow> bt_insert (rd_code d)
         (x\<lparr>sn_message := rd_message d, sn_count := saturating_add_u64 (sn_count x) (rd_count d)\<rparr>) t
     | None \<Rightarrow> if length t < MAX_DYNAMIC_PLUGIN_RUNTIME_DIAGNOSTICS
         then bt_insert (rd_code d) \<lparr>sn_code = rd_code d, sn_message = rd_message d, sn_count = rd_count d\<rparr> t else t)"

definition record_active_plugin_runtime_diagnostic ::
    "runtime_diagnostic \<Rightarrow> ('f, 'w) plugin_host \<Rightarrow> ('f, 'w) plugin_host" where
  "record_active_plugin_runtime_diagnostic d h = (case ph_active h of
       Healthy (Some a) \<Rightarrow> h\<lparr>ph_active := Healthy (Some (a
         \<lparr>ac_runtime_diagnostics := record_snapshot_entry d (ac_runtime_diagnostics a),
          ac_report := (ac_report a)\<lparr>runtime_diagnostics := aggregate_diagnostic d (runtime_diagnostics (ac_report a))\<rparr>\<rparr>))\<rparr>
     | _ \<Rightarrow> h)"

definition active_runtime_diagnostics_snapshot :: "('f, 'w) plugin_host \<Rightarrow> runtime_diagnostics_entry list" where
  "active_runtime_diagnostics_snapshot h = (case ph_active h of
       Healthy (Some a) \<Rightarrow> map snd (ac_runtime_diagnostics a)
     | _ \<Rightarrow> [])"

section \<open>The host handle\<close>

definition plugin_mutation_conflict :: "plugin_mutation_owner \<Rightarrow> plugin_error" where
  "plugin_mutation_conflict ow = Conflict (case ow of
       Idle \<Rightarrow> ''plugin configuration is available''
     | Host _ \<Rightarrow> ''plugin configuration is owned by an active dynamic plugin host'')"

definition acquire_plugin_host_lease :: "('f, 'w) plugin_host \<Rightarrow> 64 word plugin_result \<times> ('f, 'w) plugin_host" where
  "acquire_plugin_host_lease h = (case ph_owner h of
       Poisoned m _ \<Rightarrow> (Inl (owner_poisoned m), h)
     | Healthy ow \<Rightarrow> if ow \<noteq> Idle then (Inl (plugin_mutation_conflict ow), h)
         else (case plugin_configuration_is_active h of
             Inl e \<Rightarrow> (Inl e, h)
           | Inr True \<Rightarrow> (Inl (Conflict (''a static plugin configuration is already active; to combine static and '' @
               ''dynamic plugins, provide the static components as the base configuration to '' @
               ''dynamic plugin activation before calling plugin initialization'')), h)
           | Inr False \<Rightarrow> (let i = ph_next_owner_id h
               in (Inr i, h\<lparr>ph_next_owner_id := i + 1, ph_owner := Healthy (Host i)\<rparr>))))"

definition drop_lease :: "64 word \<Rightarrow> ('f, 'w) plugin_host \<Rightarrow> ('f, 'w) plugin_host" where
  "drop_lease i h = (if ph_owner h = Healthy (Host i) then h\<lparr>ph_owner := Healthy Idle\<rparr> else h)"

record plugin_host_activation =
  hx_active :: bool
  hx_report :: config_report
  hx_claim :: "64 word option"

text \<open>A claim that is forgotten is never dropped: the lease stays taken.\<close>

definition activate_inner ::
    "('f, 'w) host_services \<Rightarrow> plugin_config \<Rightarrow> config_diagnostic list \<Rightarrow> ('f, 'w) plugin_host \<Rightarrow>
     plugin_host_activation plugin_result \<times> ('f, 'w) plugin_host" where
  "activate_inner hs config ds h = (case acquire_plugin_host_lease h of
       (Inl e, h) \<Rightarrow> (Inl e, h)
     | (Inr claim, h) \<Rightarrow> (case ensure_builtin_plugins_registered hs h of
         (Inl e, h) \<Rightarrow> (Inl e, drop_lease claim h)
       | (Inr _, h) \<Rightarrow> (case initialize_plugins_exact_for_host hs config claim ds (h\<lparr>ph_rollback_failures := Healthy []\<rparr>) of
           (Inr report, h) \<Rightarrow> (Inr \<lparr>hx_active = True, hx_report = report, hx_claim = Some claim\<rparr>, h)
         | (Inl e, h) \<Rightarrow>
             (let failures = (case ph_rollback_failures h of
                    Healthy fs \<Rightarrow> fs
                  | Poisoned m _ \<Rightarrow> [''rollback failure lock poisoned: '' @ m])
              in if failures = [] then (Inl e, drop_lease claim h)
                 else (Inl (RegistrationFailed (display_plugin_error e @ ''; activation rollback was incomplete: '' @
                   join_with ''; '' failures @ ''; the loaded runtimes were retained because callbacks may remain registered'')), h)))))"

definition retained_runtime_error :: "string list \<Rightarrow> plugin_error" where
  "retained_runtime_error errors = RegistrationFailed
     ((if errors = [] then ''dynamic plugin teardown was incomplete'' else join_with ''; '' errors) @
      ''; the loaded runtimes and activation owner were retained because safe unloading could not be proven'')"

definition clear_inner ::
    "('f, 'w) host_services \<Rightarrow> plugin_host_activation \<Rightarrow> ('f, 'w) plugin_host \<Rightarrow>
     unit plugin_result \<times> plugin_host_activation \<times> ('f, 'w) plugin_host" where
  "clear_inner hs x h = (if \<not> hx_active x then (Inr (), x, h)
     else (let (outcome, h) = (case hx_claim x of
              Some claim \<Rightarrow> clear_plugin_configuration_for_host hs claim h
            | None \<Rightarrow> (\<lparr>hc_result = Inr (), hc_callbacks_cleared = True, hc_report = None\<rparr>, h));
              x = (case hc_report outcome of Some r \<Rightarrow> x\<lparr>hx_report := r\<rparr> | None \<Rightarrow> x);
              errors = (case hc_result outcome of Inl e \<Rightarrow> [display_plugin_error e] | Inr _ \<Rightarrow> [])
          in if \<not> hc_callbacks_cleared outcome then (Inl (retained_runtime_error errors), x, h)
             else (let h = (case hx_claim x of Some claim \<Rightarrow> drop_lease claim h | None \<Rightarrow> h);
                       x = x\<lparr>hx_claim := None, hx_active := False\<rparr>
                   in (if errors = [] then Inr ()
                       else Inl (RegistrationFailed (''dynamic plugin teardown failed: '' @ join_with ''; '' errors)), x, h))))"

text \<open>Dropping the handle: when the teardown fails, the claim is forgotten.\<close>

definition drop_activation ::
    "('f, 'w) host_services \<Rightarrow> plugin_host_activation \<Rightarrow> ('f, 'w) plugin_host \<Rightarrow> ('f, 'w) plugin_host" where
  "drop_activation hs x h = (case clear_inner hs x h of (_, _, h) \<Rightarrow> h)"

end
