(* ===== verification/Plugin_Properties.thy ===== *)
theory Plugin_Properties
  imports Plugin_Activation
begin

text \<open>
  What an activation leaves behind. The part of the environment that middleware lives in is a view:
  the process, the context and the gates. A list of registrations undoes a change of the view when
  rolling it back removes everything and gives the former view again. Every call of the registration
  context, and so every plugin that goes through it, only makes changes that its registrations undo.
\<close>

section \<open>Undoing\<close>

definition host_view :: "('f, 'w) host_env \<Rightarrow> process \<times> 'f context_state rwlock \<times> (string \<times> 'w gate) list rwlock" where
  "host_view e = (he_process e, he_context e, get_or_init_gates (he_gates e))"

definition steady :: "process \<times> 'f context_state rwlock \<times> (string \<times> 'w gate) list rwlock \<Rightarrow> bool" where
  "steady v \<longleftrightarrow> (case v of (p, l, g) \<Rightarrow> ensure_process_runtime_owner p = (Inr (), p) \<and>
     (\<exists>st. l = Healthy st \<and> registries_ok (cx_registries st)) \<and> (\<exists>gs. g = Healthy gs \<and> bt_ok gs))"

definition undoes ::
    "process \<times> 'f context_state rwlock \<times> (string \<times> 'w gate) list rwlock \<Rightarrow> ('f, 'w) plugin_registration list \<Rightarrow>
     process \<times> 'f context_state rwlock \<times> (string \<times> 'w gate) list rwlock \<Rightarrow> bool" where
  "undoes v rs v' \<longleftrightarrow> (\<forall>e. host_view e = v' \<longrightarrow>
     (\<exists>e'. rollback_registrations_checked rs e = (default_rollback, [], e') \<and> host_view e' = v))"

lemma rollback_loop_append:
  "rollback_loop (xs @ ys) out retained e = (case rollback_loop xs out retained e of (out, retained, e) \<Rightarrow> rollback_loop ys out retained e)"
  by (induction xs arbitrary: out retained e) (auto split: cleanup.splits cleanup_outcome.splits prod.splits)

lemma undoes_iff:
  "undoes v rs v' \<longleftrightarrow> (\<forall>e. host_view e = v' \<longrightarrow>
     (\<exists>e'. rollback_loop (rev rs) default_rollback [] e = (default_rollback, [], e') \<and> host_view e' = v))"
proof -
  have "rollback_registrations_checked rs e = (default_rollback, [], e') \<longleftrightarrow>
      rollback_loop (rev rs) default_rollback [] e = (default_rollback, [], e')" for e e' :: "('a, 'b) host_env"
    by (cases "rollback_loop (rev rs) default_rollback [] e") (auto simp: rollback_registrations_checked_def)
  then show ?thesis by (simp add: undoes_def)
qed

lemma undoes_Nil: "undoes v [] v"
  by (simp add: undoes_iff)

lemma undoes_append:
  assumes "undoes v rs v1" and "undoes v1 rs' v2"
  shows "undoes v (rs @ rs') v2"
  unfolding undoes_iff
proof (intro allI impI)
  fix e :: "('a, 'b) host_env"
  assume "host_view e = v2"
  then obtain e1 where 1: "rollback_loop (rev rs') default_rollback [] e = (default_rollback, [], e1)" "host_view e1 = v1"
    using assms(2) unfolding undoes_iff by blast
  then obtain e2 where "rollback_loop (rev rs) default_rollback [] e1 = (default_rollback, [], e2)" "host_view e2 = v"
    using assms(1) unfolding undoes_iff by blast
  with 1(1) show "\<exists>e'. rollback_loop (rev (rs @ rs')) default_rollback [] e = (default_rollback, [], e') \<and> host_view e' = v"
    by (simp add: rollback_loop_append)
qed

lemma undoes_one:
  assumes "\<And>e. host_view e = v' \<Longrightarrow> \<exists>e'. preg_deregister r e = (Cleaned Removed, e') \<and> host_view e' = v"
  shows "undoes v [r] v'"
  using assms unfolding undoes_iff by (fastforce split: prod.splits)

lemma undoes_keep:
  assumes "\<And>r e. r \<in> set rs \<Longrightarrow> \<exists>e'. preg_deregister r e = (Cleaned Removed, e') \<and> host_view e' = host_view e"
  shows "undoes v rs v"
  using assms
proof (induction rs)
  case (Cons r rs)
  have "undoes v [r] v" using Cons.prems by (intro undoes_one) auto
  then show ?case using undoes_append [of v "[r]" v rs v] Cons by auto
qed (rule undoes_Nil)

section \<open>Calls of the context\<close>

text \<open>A registration and its removal: a failure changes nothing, and a success is undone.\<close>

definition undoable ::
    "(('f, 'w) host_env \<Rightarrow> unit flow_result \<times> ('f, 'w) host_env) \<Rightarrow> (('f, 'w) host_env \<Rightarrow> bool flow_result \<times> ('f, 'w) host_env) \<Rightarrow> bool" where
  "undoable reg dereg \<longleftrightarrow> (\<forall>e. steady (host_view e) \<longrightarrow> (case reg e of
       (Inl _, e') \<Rightarrow> host_view e' = host_view e
     | (Inr _, e') \<Rightarrow> steady (host_view e') \<and> (\<forall>e2. host_view e2 = host_view e' \<longrightarrow>
         (\<exists>b e3. dereg e2 = (Inr b, e3) \<and> host_view e3 = host_view e))))"

lemma context_register_undone:
  assumes "\<And>q. undoable (reg q) (dereg q)" and "steady (host_view e)"
    and "context_register label reg dereg name ctx e = (r, ctx', e')"
  shows "steady (host_view e') \<and> (\<exists>rs. rc_registrations ctx' = rc_registrations ctx @ rs \<and> undoes (host_view e) rs (host_view e'))"
proof -
  let ?q = "qualify_name (rc_namespace ctx) name"
  obtain s e1 where s: "reg ?q e = (s, e1)" by fastforce
  have u: "case (s, e1) of
       (Inl _, e') \<Rightarrow> host_view e' = host_view e
     | (Inr _, e') \<Rightarrow> steady (host_view e') \<and> (\<forall>e2. host_view e2 = host_view e' \<longrightarrow>
         (\<exists>b e3. dereg ?q e2 = (Inr b, e3) \<and> host_view e3 = host_view e))"
    using assms(1) [of ?q, unfolded undoable_def, THEN spec, THEN mp, OF assms(2)] unfolding s .
  show ?thesis
  proof (cases s)
    case (Inl err)
    then show ?thesis using assms(2,3) s u by (auto simp: context_register_def Let_def intro!: undoes_Nil exI [of _ "[]"])
  next
    case (Inr x)
    have "undoes (host_view e) [tracked_registration label dereg ?q] (host_view e1)"
    proof (rule undoes_one)
      fix e2 assume "host_view e2 = host_view e1"
      then obtain b e3 where "dereg ?q e2 = (Inr b, e3)" "host_view e3 = host_view e" using u Inr by auto
      then show "\<exists>e'. preg_deregister (tracked_registration label dereg ?q) e2 = (Cleaned Removed, e') \<and> host_view e' = host_view e"
        by (simp add: tracked_registration_def registration_new_def)
    qed
    then show ?thesis using assms(3) s u Inr by (auto simp: context_register_def Let_def)
  qed
qed

lemma register_deregister_exact:
  assumes "registry_ok r" and "register e r = Inr r'"
  shows "deregister (rr_name e) r' = (True, r)"
proof -
  have fresh: "map_of (entries r) (rr_name e) = None" and r': "r' = resort (r\<lparr>entries := AList.update (rr_name e) e (entries r)\<rparr>)"
    using assms(2) by (auto simp: register_def Let_def split: if_splits)
  then have "entries r' = AList.update (rr_name e) e (entries r)" by (simp add: resort_def)
  then show ?thesis using assms(1) r' delete_update_fresh [OF fresh, of e]
    by (simp add: deregister_def AList.update_conv' registry_ok_def resort_def)
qed

lemma steadyE:
  assumes "steady (host_view e)"
  obtains st gs where "ensure_process_runtime_owner (he_process e) = (Inr (), he_process e)" "he_context e = Healthy st"
    "registries_ok (cx_registries st)" "get_or_init_gates (he_gates e) = Healthy gs" "bt_ok gs"
  using assms by (auto simp: steady_def host_view_def)

text \<open>The calls on the context all have the same shape: they check the owner and change the state under the lock.\<close>

lemma undoable_on_context:
  assumes "\<And>st. registries_ok (cx_registries st) \<Longrightarrow> (\<exists>m. f (Healthy st) = (Inl m, Healthy st)) \<or>
      (\<exists>st' b. f (Healthy st) = (Inr (), Healthy st') \<and> registries_ok (cx_registries st') \<and> g (Healthy st') = (Inr b, Healthy st))"
  shows "undoable (on_context (with_runtime_owner f)) (on_context (with_runtime_owner g))"
  unfolding undoable_def
proof (intro allI impI)
  fix e :: "('a, 'b) host_env"
  assume "steady (host_view e)"
  then obtain st gs where e: "ensure_process_runtime_owner (he_process e) = (Inr (), he_process e)" "he_context e = Healthy st"
    "registries_ok (cx_registries st)" "get_or_init_gates (he_gates e) = Healthy gs" "bt_ok gs" by (rule steadyE)
  show "case on_context (with_runtime_owner f) e of
       (Inl _, e') \<Rightarrow> host_view e' = host_view e
     | (Inr _, e') \<Rightarrow> steady (host_view e') \<and> (\<forall>e2. host_view e2 = host_view e' \<longrightarrow>
         (\<exists>b e3. on_context (with_runtime_owner g) e2 = (Inr b, e3) \<and> host_view e3 = host_view e))"
    using assms [OF e(3)] e by (auto simp: on_context_def with_runtime_owner_def host_view_def steady_def)
qed

context registry_field
begin

lemma undoable_field:
  "undoable (on_context (global_register get upd x)) (on_context (global_deregister get upd (rr_name x)))"
  unfolding global_register_def global_deregister_def
proof (rule undoable_on_context, goal_cases)
  case (1 st)
  note ok = 1
  show ?case
  proof (cases "register x (get (cx_registries st))")
    case (Inr r)
    have "registries_ok (upd (\<lambda>_. r) (cx_registries st))"
      using upd_ok [OF ok] register_ok [OF get_ok [OF ok] Inr] by blast
    then show ?thesis
      using Inr register_deregister_exact [OF get_ok [OF ok] Inr] by (auto simp: get_upd upd_upd upd_get)
  qed simp
qed

end

lemma undoable_subscriber: "undoable (on_context (register_subscriber q f)) (on_context (deregister_subscriber q))"
  unfolding register_subscriber_def deregister_subscriber_def
proof (rule undoable_on_context, goal_cases)
  case (1 st)
  show ?case
  proof (cases "map_of (event_subscribers (cx_registries st)) q")
    case None
    moreover have "registries_ok ((cx_registries st)\<lparr>event_subscribers := AList.update q f (event_subscribers (cx_registries st))\<rparr>)"
      using 1 by (simp add: registries_ok_def AList.distinct_update)
    ultimately show ?thesis by (simp add: Let_def delete_update_fresh)
  qed (simp add: Let_def)
qed

lemma bt_delete_insert_fresh:
  assumes "bt_ok xs" and "map_of xs k = None"
  shows "AList.delete k (bt_insert k v xs) = xs"
  using assms
proof (induction xs)
  case (Cons p xs)
  obtain k' v' where p: "p = (k', v')" by fastforce
  have "k \<notin> fst ` set xs" "k \<noteq> k'" using Cons.prems(2) by (auto simp: p map_of_eq_None_iff split: if_splits)
  then show ?case using Cons p by (auto simp: bt_ok_Cons AList.delete_id)
qed simp

lemma undoable_gate:
  "undoable (on_gates (register_conditional_middleware_guardrail q kinds n f)) (on_gates (deregister_conditional_middleware_guardrail q))"
  unfolding undoable_def
proof (intro allI impI)
  fix e :: "('a, 'b) host_env"
  assume "steady (host_view e)"
  then obtain st gs where e: "ensure_process_runtime_owner (he_process e) = (Inr (), he_process e)" "he_context e = Healthy st"
    "registries_ok (cx_registries st)" "get_or_init_gates (he_gates e) = Healthy gs" "bt_ok gs" by (rule steadyE)
  show "case on_gates (register_conditional_middleware_guardrail q kinds n f) e of
       (Inl _, e') \<Rightarrow> host_view e' = host_view e
     | (Inr _, e') \<Rightarrow> steady (host_view e') \<and> (\<forall>e2. host_view e2 = host_view e' \<longrightarrow>
         (\<exists>b e3. on_gates (deregister_conditional_middleware_guardrail q) e2 = (Inr b, e3) \<and> host_view e3 = host_view e))"
  proof (cases "kinds = {} \<or> map_of gs q \<noteq> None")
    case True
    then show ?thesis using e
      by (auto simp: on_gates_def register_conditional_middleware_guardrail_def with_runtime_owner_def host_view_def
          get_or_init_gates_def)
  next
    case False
    then show ?thesis using e bt_ok_insert [OF e(5), of q] bt_delete_insert_fresh [OF e(5), of q]
      by (auto simp: on_gates_def register_conditional_middleware_guardrail_def deregister_conditional_middleware_guardrail_def
          with_runtime_owner_def host_view_def steady_def get_or_init_gates_def [of "Some _"])
  qed
qed

lemma new_record_name: "rr_name (new_record q p y) = q"
  by (simp add: new_record_def)

lemma undoable_surfaces:
  "undoable (on_context (register_event_metadata_injector q p f)) (on_context (deregister_event_metadata_injector q))"
  "undoable (on_context (register_mark_sanitize_guardrail q p f)) (on_context (deregister_mark_sanitize_guardrail q))"
  "undoable (on_context (register_scope_sanitize_start_guardrail q p f)) (on_context (deregister_scope_sanitize_start_guardrail q))"
  "undoable (on_context (register_scope_sanitize_end_guardrail q p f)) (on_context (deregister_scope_sanitize_end_guardrail q))"
  "undoable (on_context (register_tool_sanitize_request_guardrail q p f)) (on_context (deregister_tool_sanitize_request_guardrail q))"
  "undoable (on_context (register_tool_sanitize_response_guardrail q p f)) (on_context (deregister_tool_sanitize_response_guardrail q))"
  "undoable (on_context (register_tool_conditional_execution_guardrail q p f)) (on_context (deregister_tool_conditional_execution_guardrail q))"
  "undoable (on_context (register_tool_request_intercept q p b f)) (on_context (deregister_tool_request_intercept q))"
  "undoable (on_context (register_tool_execution_intercept q p f)) (on_context (deregister_tool_execution_intercept q))"
  "undoable (on_context (register_llm_sanitize_request_guardrail q p f)) (on_context (deregister_llm_sanitize_request_guardrail q))"
  "undoable (on_context (register_llm_sanitize_response_guardrail q p f)) (on_context (deregister_llm_sanitize_response_guardrail q))"
  "undoable (on_context (register_llm_conditional_execution_guardrail q p f)) (on_context (deregister_llm_conditional_execution_guardrail q))"
  "undoable (on_context (register_llm_request_intercept q p b f)) (on_context (deregister_llm_request_intercept q))"
  "undoable (on_context (register_llm_execution_intercept q p f)) (on_context (deregister_llm_execution_intercept q))"
  "undoable (on_context (register_llm_stream_execution_intercept q p f)) (on_context (deregister_llm_stream_execution_intercept q))"
  unfolding register_event_metadata_injector_def deregister_event_metadata_injector_def
    register_mark_sanitize_guardrail_def deregister_mark_sanitize_guardrail_def
    register_scope_sanitize_start_guardrail_def deregister_scope_sanitize_start_guardrail_def
    register_scope_sanitize_end_guardrail_def deregister_scope_sanitize_end_guardrail_def
    register_tool_sanitize_request_guardrail_def deregister_tool_sanitize_request_guardrail_def
    register_tool_sanitize_response_guardrail_def deregister_tool_sanitize_response_guardrail_def
    register_tool_conditional_execution_guardrail_def deregister_tool_conditional_execution_guardrail_def
    register_tool_request_intercept_def deregister_tool_request_intercept_def
    register_tool_execution_intercept_def deregister_tool_execution_intercept_def
    register_llm_sanitize_request_guardrail_def deregister_llm_sanitize_request_guardrail_def
    register_llm_sanitize_response_guardrail_def deregister_llm_sanitize_response_guardrail_def
    register_llm_conditional_execution_guardrail_def deregister_llm_conditional_execution_guardrail_def
    register_llm_request_intercept_def deregister_llm_request_intercept_def
    register_llm_execution_intercept_def deregister_llm_execution_intercept_def
    register_llm_stream_execution_intercept_def deregister_llm_stream_execution_intercept_def
  subgoal by (rule event_metadata_injector_field.undoable_field [of "new_record q p _", unfolded new_record_name])
  subgoal by (rule mark_sanitize_guardrail_field.undoable_field [of "new_record q p _", unfolded new_record_name])
  subgoal by (rule scope_sanitize_start_guardrail_field.undoable_field [of "new_record q p _", unfolded new_record_name])
  subgoal by (rule scope_sanitize_end_guardrail_field.undoable_field [of "new_record q p _", unfolded new_record_name])
  subgoal by (rule tool_sanitize_request_guardrail_field.undoable_field [of "new_record q p _", unfolded new_record_name])
  subgoal by (rule tool_sanitize_response_guardrail_field.undoable_field [of "new_record q p _", unfolded new_record_name])
  subgoal by (rule tool_conditional_execution_guardrail_field.undoable_field [of "new_record q p _", unfolded new_record_name])
  subgoal by (rule tool_request_intercept_field.undoable_field [of "new_record q p _", unfolded new_record_name])
  subgoal by (rule tool_execution_intercept_field.undoable_field [of "new_record q p _", unfolded new_record_name])
  subgoal by (rule llm_sanitize_request_guardrail_field.undoable_field [of "new_record q p _", unfolded new_record_name])
  subgoal by (rule llm_sanitize_response_guardrail_field.undoable_field [of "new_record q p _", unfolded new_record_name])
  subgoal by (rule llm_conditional_execution_guardrail_field.undoable_field [of "new_record q p _", unfolded new_record_name])
  subgoal by (rule llm_request_intercept_field.undoable_field [of "new_record q p _", unfolded new_record_name])
  subgoal by (rule llm_execution_intercept_field.undoable_field [of "new_record q p _", unfolded new_record_name])
  subgoal by (rule llm_stream_execution_intercept_field.undoable_field [of "new_record q p _", unfolded new_record_name])
  done

lemma call_register_undone:
  assumes "steady (host_view e)" and "call_register kind name priority stops callback ctx e = (r, ctx', e')"
  shows "steady (host_view e') \<and> (\<exists>rs. rc_registrations ctx' = rc_registrations ctx @ rs \<and> undoes (host_view e) rs (host_view e'))"
proof (cases kind)
  case Subscriber
  show ?thesis
    by (rule context_register_undone [OF undoable_subscriber assms(1) assms(2)
          [unfolded call_register_def Subscriber runtime_registration_kind.case ctx_register_subscriber_def]])
next
  case EventMetadataInjector
  show ?thesis
    by (rule context_register_undone [OF undoable_surfaces(1) assms(1) assms(2)
          [unfolded call_register_def EventMetadataInjector runtime_registration_kind.case ctx_register_event_metadata_injector_def]])
next
  case MarkSanitizeGuardrail
  show ?thesis
    by (rule context_register_undone [OF undoable_surfaces(2) assms(1) assms(2)
          [unfolded call_register_def MarkSanitizeGuardrail runtime_registration_kind.case ctx_register_mark_sanitize_guardrail_def]])
next
  case ScopeSanitizeStartGuardrail
  show ?thesis
    by (rule context_register_undone [OF undoable_surfaces(3) assms(1) assms(2)
          [unfolded call_register_def ScopeSanitizeStartGuardrail runtime_registration_kind.case ctx_register_scope_sanitize_start_guardrail_def]])
next
  case ScopeSanitizeEndGuardrail
  show ?thesis
    by (rule context_register_undone [OF undoable_surfaces(4) assms(1) assms(2)
          [unfolded call_register_def ScopeSanitizeEndGuardrail runtime_registration_kind.case ctx_register_scope_sanitize_end_guardrail_def]])
next
  case ToolSanitizeRequestGuardrail
  show ?thesis
    by (rule context_register_undone [OF undoable_surfaces(5) assms(1) assms(2)
          [unfolded call_register_def ToolSanitizeRequestGuardrail runtime_registration_kind.case ctx_register_tool_sanitize_request_guardrail_def]])
next
  case ToolSanitizeResponseGuardrail
  show ?thesis
    by (rule context_register_undone [OF undoable_surfaces(6) assms(1) assms(2)
          [unfolded call_register_def ToolSanitizeResponseGuardrail runtime_registration_kind.case ctx_register_tool_sanitize_response_guardrail_def]])
next
  case ToolConditionalExecutionGuardrail
  show ?thesis
    by (rule context_register_undone [OF undoable_surfaces(7) assms(1) assms(2)
          [unfolded call_register_def ToolConditionalExecutionGuardrail runtime_registration_kind.case ctx_register_tool_conditional_execution_guardrail_def]])
next
  case ToolRequestIntercept
  show ?thesis
    by (rule context_register_undone [OF undoable_surfaces(8) assms(1) assms(2)
          [unfolded call_register_def ToolRequestIntercept runtime_registration_kind.case ctx_register_tool_request_intercept_def]])
next
  case ToolExecutionIntercept
  show ?thesis
    by (rule context_register_undone [OF undoable_surfaces(9) assms(1) assms(2)
          [unfolded call_register_def ToolExecutionIntercept runtime_registration_kind.case ctx_register_tool_execution_intercept_def]])
next
  case LlmSanitizeRequestGuardrail
  show ?thesis
    by (rule context_register_undone [OF undoable_surfaces(10) assms(1) assms(2)
          [unfolded call_register_def LlmSanitizeRequestGuardrail runtime_registration_kind.case ctx_register_llm_sanitize_request_guardrail_def]])
next
  case LlmSanitizeResponseGuardrail
  show ?thesis
    by (rule context_register_undone [OF undoable_surfaces(11) assms(1) assms(2)
          [unfolded call_register_def LlmSanitizeResponseGuardrail runtime_registration_kind.case ctx_register_llm_sanitize_response_guardrail_def]])
next
  case LlmConditionalExecutionGuardrail
  show ?thesis
    by (rule context_register_undone [OF undoable_surfaces(12) assms(1) assms(2)
          [unfolded call_register_def LlmConditionalExecutionGuardrail runtime_registration_kind.case ctx_register_llm_conditional_execution_guardrail_def]])
next
  case LlmRequestIntercept
  show ?thesis
    by (rule context_register_undone [OF undoable_surfaces(13) assms(1) assms(2)
          [unfolded call_register_def LlmRequestIntercept runtime_registration_kind.case ctx_register_llm_request_intercept_def]])
next
  case LlmExecutionIntercept
  show ?thesis
    by (rule context_register_undone [OF undoable_surfaces(14) assms(1) assms(2)
          [unfolded call_register_def LlmExecutionIntercept runtime_registration_kind.case ctx_register_llm_execution_intercept_def]])
next
  case LlmStreamExecutionIntercept
  show ?thesis
    by (rule context_register_undone [OF undoable_surfaces(15) assms(1) assms(2)
          [unfolded call_register_def LlmStreamExecutionIntercept runtime_registration_kind.case ctx_register_llm_stream_execution_intercept_def]])
qed

section \<open>Plugins that go through the context\<close>

text \<open>
  A tidy plugin touches middleware only by calls of its context; what it does otherwise, and the
  registrations it brings itself, leave the view alone and can be removed.
\<close>

fun tidy_call :: "('f, 'w) context_call \<Rightarrow> bool" where
  "tidy_call (ExtendRegistrations rs) \<longleftrightarrow> (\<forall>r \<in> set rs. \<forall>e. \<exists>e'. preg_deregister r e = (Cleaned Removed, e') \<and> host_view e' = host_view e)"
| "tidy_call _ \<longleftrightarrow> True"

primrec tidy :: "('f, 'w) plugin_program \<Rightarrow> bool" where
  "tidy (PluginReturn r) \<longleftrightarrow> True"
| "tidy PluginPanic \<longleftrightarrow> True"
| "tidy (PluginCall c k) \<longleftrightarrow> tidy_call c \<and> (\<forall>r. tidy (k r))"
| "tidy (PluginEffect f k) \<longleftrightarrow> (\<forall>e. host_view (f e) = host_view e) \<and> (\<forall>e. tidy (k e))"

lemma run_call_undone:
  assumes "tidy_call c" and "steady (host_view e)" and "undoes v (rc_registrations ctx) (host_view e)" and "run_call c ctx e = (r, ctx', e')"
  shows "steady (host_view e') \<and> undoes v (rc_registrations ctx') (host_view e')"
proof (cases c)
  case (CallRegister kind name priority stops callback)
  then have "call_register kind name priority stops callback ctx e = (r, ctx', e')" using assms(4) by simp
  from call_register_undone [OF assms(2) this] obtain rs where "steady (host_view e')"
      "rc_registrations ctx' = rc_registrations ctx @ rs" "undoes (host_view e) rs (host_view e')" by blast
  then show ?thesis using undoes_append [OF assms(3), of rs "host_view e'"] by simp
next
  case (CallConditional name kinds n f)
  then have "ctx_register_conditional_middleware_guardrail name kinds n f ctx e = (r, ctx', e')" using assms(4) by simp
  from context_register_undone [OF undoable_gate assms(2) this [unfolded ctx_register_conditional_middleware_guardrail_def]]
  obtain rs where "steady (host_view e')"
      "rc_registrations ctx' = rc_registrations ctx @ rs" "undoes (host_view e) rs (host_view e')" by blast
  then show ?thesis using undoes_append [OF assms(3), of rs "host_view e'"] by simp
next
  case (ExtendRegistrations rs)
  then have "undoes (host_view e) rs (host_view e)" using assms(1) by (intro undoes_keep) auto
  then show ?thesis using ExtendRegistrations assms(2,4) undoes_append [OF assms(3), of rs "host_view e"] by auto
qed

lemma run_plugin_undone:
  assumes "tidy p" and "steady (host_view e)" and "undoes v (rc_registrations ctx) (host_view e)" and "run_plugin p ctx e = (r, ctx', e')"
  shows "steady (host_view e') \<and> undoes v (rc_registrations ctx') (host_view e')"
  using assms
proof (induction p arbitrary: ctx e)
  case (PluginCall c k)
  obtain r1 ctx1 e1 where 1: "run_call c ctx e = (r1, ctx1, e1)" by (metis prod_cases3)
  have "steady (host_view e1) \<and> undoes v (rc_registrations ctx1) (host_view e1)"
    using run_call_undone [OF _ PluginCall.prems(2,3) 1] PluginCall.prems(1) by simp
  then show ?case using PluginCall.IH [of "k r1" e1 ctx1] PluginCall.prems(1,4) 1 by simp
next
  case (PluginEffect f k)
  then show ?case using PluginEffect.IH [of "k (f e)" "f e" ctx] by simp
qed auto

section \<open>Activation\<close>

definition tidy_plugin :: "('f, 'w) plugin \<Rightarrow> bool" where
  "tidy_plugin p \<longleftrightarrow> (\<forall>c. tidy (pl_register p c))"

definition tidy_kinds :: "('f, 'w) plugin_host \<Rightarrow> bool" where
  "tidy_kinds h \<longleftrightarrow> (\<forall>kind p. lookup_registered_plugin kind h = Some p \<longrightarrow> tidy_plugin p)"

lemma drop_pending_undoes:
  assumes "undoes v rs (host_view (ph_env h))"
  obtains e where "drop_pending_registrations rs h = h\<lparr>ph_env := e\<rparr>" "host_view e = v"
  using assms unfolding undoes_def
  by (auto simp: drop_pending_registrations_def Let_def default_rollback_def)

lemma components_loop_undone:
  assumes "tidy_kinds h" and "steady (host_view (ph_env h))" and "undoes v rs (host_view (ph_env h))"
    and "initialize_components_loop ordinals rs cs h = (r, h')"
  shows "\<exists>e'. h' = h\<lparr>ph_env := e'\<rparr> \<and> (case r of
      Finished (Inr rs') \<Rightarrow> steady (host_view e') \<and> undoes v rs' (host_view e')
    | _ \<Rightarrow> host_view e' = v)"
  using assms
proof (induction cs arbitrary: ordinals rs h)
  case Nil
  then show ?case by (auto intro: exI [of _ "ph_env h"])
next
  case (Cons c cs)
  show ?case
  proof (cases "lookup_registered_plugin (pc_kind c) h")
    case None
    obtain e where "drop_pending_registrations rs h = h\<lparr>ph_env := e\<rparr>" "host_view e = v" by (rule drop_pending_undoes [OF Cons.prems(3)])
    then show ?thesis using Cons.prems(4) None by (intro exI [of _ e]) auto
  next
    case (Some p)
    define n where "n = (case map_of ordinals (pc_kind c) of Some n \<Rightarrow> n + 1 | None \<Rightarrow> 1)"
    define ctx0 :: "('a, 'b) plugin_registration_context" where
      "ctx0 = context_with_component_namespace (component_namespace (pc_kind c) n)"
    obtain r1 ctx e1 where 1: "run_plugin (pl_register p (pc_config c)) ctx0 (ph_env h) = (r1, ctx, e1)" by (metis prod_cases3)
    have "tidy (pl_register p (pc_config c))" using Cons.prems(1) Some by (simp add: tidy_kinds_def tidy_plugin_def)
    then have u: "steady (host_view e1)" "undoes (host_view (ph_env h)) (rc_registrations ctx) (host_view e1)"
      using run_plugin_undone [OF _ Cons.prems(2) _ 1, of "host_view (ph_env h)"] undoes_Nil [of "host_view (ph_env h)"]
      by (simp_all add: ctx0_def context_with_component_namespace_def)
    obtain e2 where e2: "drop_pending_registrations (rc_registrations ctx) (h\<lparr>ph_env := e1\<rparr>) = h\<lparr>ph_env := e2\<rparr>" "host_view e2 = host_view (ph_env h)"
      using drop_pending_undoes [of "host_view (ph_env h)" "rc_registrations ctx" "h\<lparr>ph_env := e1\<rparr>"] u(2) by auto
    obtain e3 where e3: "drop_pending_registrations rs (h\<lparr>ph_env := e2\<rparr>) = h\<lparr>ph_env := e3\<rparr>" "host_view e3 = v"
      using drop_pending_undoes [of v rs "h\<lparr>ph_env := e2\<rparr>"] Cons.prems(3) e2(2) by auto
    show ?thesis
    proof (cases "\<exists>x. r1 = Finished (Inr x)")
      case True
      then have "initialize_components_loop (AList.update (pc_kind c) n ordinals) (rs @ rc_registrations ctx) cs (h\<lparr>ph_env := e1\<rparr>) = (r, h')"
        using Cons.prems(4) Some 1 by (auto simp: n_def ctx0_def Let_def)
      from Cons.IH [OF _ _ _ this] show ?thesis
        using Cons.prems(1) u undoes_append [OF Cons.prems(3) u(2)] by (auto simp: tidy_kinds_def lookup_registered_plugin_def)
    next
      case False
      then have "h' = h\<lparr>ph_env := e3\<rparr>" "\<forall>x. r \<noteq> Finished (Inr x)"
        using Cons.prems(4) Some 1 e2(1) e3(1) by (auto simp: n_def ctx0_def Let_def split: outcome.splits sum.splits)
      then show ?thesis using e3(2) by (auto split: outcome.splits sum.splits)
    qed
  qed
qed

text \<open>Registering kinds changes nothing else.\<close>

definition kinds_only :: "('f, 'w) plugin_host \<Rightarrow> ('f, 'w) plugin_host \<Rightarrow> bool" where
  "kinds_only h h' \<longleftrightarrow> ph_env h' = ph_env h \<and> ph_active h' = ph_active h \<and> ph_owner h' = ph_owner h \<and>
     ph_rollback_failures h' = ph_rollback_failures h"

lemma register_with_owner_kinds:
  assumes "tidy_kinds h" and "tidy_plugin p" and "register_plugin_with_owner p ow h = (r, h')"
  shows "kinds_only h h' \<and> tidy_kinds h'"
proof (cases "ph_handlers h")
  case (Healthy t)
  show ?thesis
  proof (cases "map_of t (pl_kind p)")
    case None
    then show ?thesis using assms Healthy
      by (auto simp: register_plugin_with_owner_def Let_def kinds_only_def tidy_kinds_def lookup_registered_plugin_def AList.update_conv'
          split: if_splits)
  qed (use assms Healthy in \<open>auto simp: register_plugin_with_owner_def kinds_only_def split: if_splits\<close>)
qed (use assms in \<open>auto simp: register_plugin_with_owner_def kinds_only_def\<close>)

lemma register_builtin_kinds:
  assumes "tidy_kinds h" and "tidy_plugin p" and "register_builtin_plugin p h = (r, h')"
  shows "kinds_only h h' \<and> tidy_kinds h'"
proof (cases "\<exists>t. ph_handlers h = Healthy t \<and> map_of t (pl_kind p) = None")
  case True
  obtain i h1 where 1: "register_plugin_with_owner p Builtin h = (i, h1)" by fastforce
  then have "h' = h1" using assms(3) True by (auto simp: register_builtin_plugin_def)
  then show ?thesis using register_with_owner_kinds [OF assms(1,2) 1] by simp
next
  case False
  then have "h' = h" using assms(3) by (auto simp: register_builtin_plugin_def split: rwlock.splits option.splits if_splits)
  then show ?thesis using assms(1) by (simp add: kinds_only_def)
qed

lemma kinds_only_trans: "kinds_only h h' \<Longrightarrow> kinds_only h' h'' \<Longrightarrow> kinds_only h h''"
  by (simp add: kinds_only_def)

lemma register_builtins_kinds:
  assumes "tidy_kinds h" and "list_all tidy_plugin ps" and "register_builtins ps h = (r, h')"
  shows "kinds_only h h' \<and> tidy_kinds h'"
  using assms
proof (induction ps arbitrary: h)
  case (Cons p ps)
  obtain r1 h1 where 1: "register_builtin_plugin p h = (r1, h1)" by fastforce
  then have k: "kinds_only h h1" "tidy_kinds h1" using register_builtin_kinds [OF Cons.prems(1) _ 1] Cons.prems(2) by simp_all
  show ?case
  proof (cases r1)
    case (Inr x)
    then show ?thesis using Cons.IH [OF k(2)] Cons.prems(2,3) 1 kinds_only_trans [OF k(1)] by auto
  qed (use k 1 Cons.prems(3) in auto)
qed (simp add: kinds_only_def)

lemma ensure_builtins_kinds:
  assumes "tidy_kinds h" and "list_all tidy_plugin (hs_builtins hs)" and "ensure_builtin_plugins_registered hs h = (r, h')"
  shows "kinds_only h h'" and "tidy_kinds h'"
proof -
  have "kinds_only h h' \<and> tidy_kinds h'"
  proof (cases "\<exists>t. ph_handlers h = Healthy t \<and>
      \<not> list_all (\<lambda>p. case map_of t (pl_kind p) of Some r \<Rightarrow> rg_owner r = Builtin | None \<Rightarrow> False) (hs_builtins hs)")
    case True
    then show ?thesis using assms(3) register_builtins_kinds [OF assms(1,2)] by (auto simp: ensure_builtin_plugins_registered_def)
  next
    case False
    then have "h' = h" using assms(3) by (auto simp: ensure_builtin_plugins_registered_def split: rwlock.splits if_splits)
    then show ?thesis using assms(1) by (simp add: kinds_only_def)
  qed
  then show "kinds_only h h'" "tidy_kinds h'" by simp_all
qed

text \<open>One attempt to activate the components of a configuration.\<close>

lemma initialize_components_undone:
  assumes "tidy_kinds h" and "list_all tidy_plugin (hs_builtins hs)" and "steady (host_view (ph_env h))"
    and "initialize_plugin_components_catching_panics hs config h = (r, h')"
  shows "tidy_kinds h'" and "ph_active h' = ph_active h" and "ph_owner h' = ph_owner h" and "ph_rollback_failures h' = ph_rollback_failures h"
    and "steady (host_view (ph_env h'))"
    and "undoes (host_view (ph_env h)) (case r of Inr rs \<Rightarrow> rs | Inl _ \<Rightarrow> []) (host_view (ph_env h'))"
proof -
  obtain b h1 where b: "ensure_builtin_plugins_registered hs h = (b, h1)" by fastforce
  note k = ensure_builtins_kinds [OF assms(1,2) b]
  have "tidy_kinds h' \<and> ph_active h' = ph_active h \<and> ph_owner h' = ph_owner h \<and> ph_rollback_failures h' = ph_rollback_failures h \<and>
      steady (host_view (ph_env h')) \<and> undoes (host_view (ph_env h)) (case r of Inr rs \<Rightarrow> rs | Inl _ \<Rightarrow> []) (host_view (ph_env h'))"
  proof (cases b)
    case (Inl e)
    then show ?thesis using assms(3,4) b k undoes_Nil [of "host_view (ph_env h)"]
      by (auto simp: initialize_plugin_components_catching_panics_def initialize_plugin_components_def kinds_only_def)
  next
    case (Inr x)
    obtain q h2 where q: "initialize_components_loop [] [] (filter pc_enabled (pcf_components config)) h1 = (q, h2)" by fastforce
    have st: "steady (host_view (ph_env h1))" "undoes (host_view (ph_env h)) [] (host_view (ph_env h1))"
      using assms(3) k(1) undoes_Nil [of "host_view (ph_env h)"] by (simp_all add: kinds_only_def)
    obtain e' where e': "h2 = h1\<lparr>ph_env := e'\<rparr>" "case q of
        Finished (Inr rs') \<Rightarrow> steady (host_view e') \<and> undoes (host_view (ph_env h)) rs' (host_view e')
      | _ \<Rightarrow> host_view e' = host_view (ph_env h)"
      using components_loop_undone [OF k(2) st q] by blast
    have r: "h' = h2" "r = (case q of Finished r \<Rightarrow> r
        | _ \<Rightarrow> Inl (PluginInternal (''plugin component initialization task failed: '' @ hs_join_error hs)))"
      using assms(4) b Inr q
      by (auto simp: initialize_plugin_components_catching_panics_def initialize_plugin_components_def split: outcome.splits)
    have "steady (host_view e') \<and> undoes (host_view (ph_env h)) (case r of Inr rs \<Rightarrow> rs | Inl _ \<Rightarrow> []) (host_view e')"
      using e'(2) r(2) assms(3) undoes_Nil [of "host_view (ph_env h)"] by (auto split: outcome.splits sum.splits)
    then show ?thesis using k r(1) e'(1) by (auto simp: kinds_only_def tidy_kinds_def lookup_registered_plugin_def)
  qed
  then show "tidy_kinds h'" "ph_active h' = ph_active h" "ph_owner h' = ph_owner h" "ph_rollback_failures h' = ph_rollback_failures h"
    "steady (host_view (ph_env h'))" "undoes (host_view (ph_env h)) (case r of Inr rs \<Rightarrow> rs | Inl _ \<Rightarrow> []) (host_view (ph_env h'))"
    by simp_all
qed

section \<open>The host\<close>

definition active_registrations :: "('f, 'w) active_plugin_configuration option \<Rightarrow> ('f, 'w) plugin_registration list" where
  "active_registrations a = (case a of None \<Rightarrow> [] | Some a \<Rightarrow> ac_registrations a)"

text \<open>
  The invariant: middleware beyond the view \<open>v\<close> is what the active configuration recorded, and nothing
  else.
\<close>

definition accounted ::
    "process \<times> 'f context_state rwlock \<times> (string \<times> 'w gate) list rwlock \<Rightarrow> ('f, 'w) plugin_host \<Rightarrow> bool" where
  "accounted v h \<longleftrightarrow> tidy_kinds h \<and> steady (host_view (ph_env h)) \<and>
     (\<exists>a. ph_active h = Healthy a \<and> undoes v (active_registrations a) (host_view (ph_env h)))"

lemma undoes_NilD: "undoes v [] v' \<Longrightarrow> host_view e = v' \<Longrightarrow> v = v'"
  by (auto simp: undoes_def rollback_registrations_checked_def)

lemma tidy_kinds_update [simp]:
  "tidy_kinds (h\<lparr>ph_active := a\<rparr>) = tidy_kinds h" "tidy_kinds (h\<lparr>ph_env := e\<rparr>) = tidy_kinds h"
  "tidy_kinds (h\<lparr>ph_owner := ow\<rparr>) = tidy_kinds h" "tidy_kinds (h\<lparr>ph_next_owner_id := i\<rparr>) = tidy_kinds h"
  "tidy_kinds (h\<lparr>ph_rollback_failures := fs\<rparr>) = tidy_kinds h" "tidy_kinds (h\<lparr>ph_last_failed := l\<rparr>) = tidy_kinds h"
  by (simp_all add: tidy_kinds_def lookup_registered_plugin_def)

lemma set_last_failed_frame [simp]:
  "tidy_kinds (set_last_failed r h) = tidy_kinds h" "ph_env (set_last_failed r h) = ph_env h"
  "ph_active (set_last_failed r h) = ph_active h" "ph_owner (set_last_failed r h) = ph_owner h"
  "ph_rollback_failures (set_last_failed r h) = ph_rollback_failures h"
  by (simp_all add: set_last_failed_def split: rwlock.split)

text \<open>Activating a configuration while none is active, and storing it.\<close>

lemma activate_and_store:
  assumes "tidy_kinds h" and "list_all tidy_plugin (hs_builtins hs)" and "steady (host_view (ph_env h))" and "ph_active h = Healthy a0"
    and "initialize_plugin_components_catching_panics hs config h = (Inr rs, h1)"
    and "store_active_with_runtime_diagnostics config report ds rs h1 = (r, h')"
  shows "r = Inr ()" and "accounted (host_view (ph_env h)) h'" and "ph_owner h' = ph_owner h"
    and "ph_rollback_failures h' = ph_rollback_failures h" and "\<exists>a. ph_active h' = Healthy (Some a) \<and> ac_config a = config"
proof -
  note i = initialize_components_undone [OF assms(1-3,5)]
  have act: "ph_active h1 = Healthy a0" using i(2) assms(4) by simp
  have h': "r = Inr ()" "h' = set_last_failed None (h1\<lparr>ph_active := Healthy (Some
      \<lparr>ac_config = config, ac_report = report, ac_runtime_diagnostics = ds, ac_registrations = rs\<rparr>)\<rparr>)"
    using assms(6) act by (simp_all add: store_active_with_runtime_diagnostics_def)
  show "r = Inr ()" by (rule h'(1))
  show "accounted (host_view (ph_env h)) h'" "ph_owner h' = ph_owner h" "ph_rollback_failures h' = ph_rollback_failures h"
    "\<exists>a. ph_active h' = Healthy (Some a) \<and> ac_config a = config"
    using i by (simp_all add: h'(2) accounted_def active_registrations_def)
qed

lemma failed_components:
  assumes "tidy_kinds h" and "list_all tidy_plugin (hs_builtins hs)" and "steady (host_view (ph_env h))" and "ph_active h = Healthy None"
    and "initialize_plugin_components_catching_panics hs config h = (Inl e, h')"
  shows "accounted (host_view (ph_env h)) h'" and "host_view (ph_env h') = host_view (ph_env h)" and "ph_active h' = Healthy None"
proof -
  note i = initialize_components_undone [OF assms(1-3,5)]
  show "host_view (ph_env h') = host_view (ph_env h)" using undoes_NilD [of "host_view (ph_env h)" "host_view (ph_env h')"] i(6) by auto
  show "accounted (host_view (ph_env h)) h'" "ph_active h' = Healthy None"
    using i assms(4) by (simp_all add: accounted_def active_registrations_def)
qed

lemma replacement_or_restore:
  assumes "tidy_kinds h" and "list_all tidy_plugin (hs_builtins hs)" and "steady (host_view (ph_env h))" and "ph_active h = Healthy None"
    and "activate_replacement_or_restore hs config report previous h = (r, h')"
  shows "accounted (host_view (ph_env h)) h'" and "ph_owner h' = ph_owner h" and "ph_rollback_failures h' = ph_rollback_failures h"
    and "case r of
      Inr _ \<Rightarrow> \<exists>a. ph_active h' = Healthy (Some a) \<and> ac_config a = config
    | Inl _ \<Rightarrow> ph_active h' = Healthy None \<or> (\<exists>a. ph_active h' = Healthy (Some a) \<and> ac_config a = ac_config previous)"
proof -
  let ?v = "host_view (ph_env h)"
  let ?P = "accounted ?v h' \<and> ph_owner h' = ph_owner h \<and> ph_rollback_failures h' = ph_rollback_failures h \<and> (case r of
      Inr _ \<Rightarrow> \<exists>a. ph_active h' = Healthy (Some a) \<and> ac_config a = config
    | Inl _ \<Rightarrow> ph_active h' = Healthy None \<or> (\<exists>a. ph_active h' = Healthy (Some a) \<and> ac_config a = ac_config previous))"
  obtain r1 h1 where 1: "initialize_plugin_components_catching_panics hs config h = (r1, h1)" by fastforce
  have ?P
  proof (cases r1)
    case (Inr rs)
    obtain s h2 where 2: "store_active_plugin_configuration config report rs h1 = (s, h2)" by fastforce
    note st = activate_and_store [OF assms(1-4) 1 [unfolded Inr] 2 [unfolded store_active_plugin_configuration_def]]
    show ?thesis using assms(5) 1 2 Inr st by (auto simp: activate_replacement_or_restore_def)
  next
    case (Inl err)
    note f = failed_components [OF assms(1-4) 1 [unfolded Inl]]
    note i = initialize_components_undone [OF assms(1-3) 1]
    have s1: "tidy_kinds h1" "steady (host_view (ph_env h1))" using i by simp_all
    obtain r2 h2 where 2: "initialize_plugin_components_catching_panics hs (ac_config previous) h1 = (r2, h2)" by fastforce
    note j = initialize_components_undone [OF s1(1) assms(2) s1(2) 2]
    show ?thesis
    proof (cases r2)
      case Inl2: (Inl e)
      note g = failed_components [OF s1(1) assms(2) s1(2) f(3) 2 [unfolded Inl2]]
      show ?thesis using assms(5) 1 2 Inl Inl2 g f(2) i j
        by (auto simp: activate_replacement_or_restore_def restore_previous_plugin_configuration_def)
    next
      case (Inr rs)
      obtain s h3 where 3: "store_active_with_runtime_diagnostics (ac_config previous) (ac_report previous) (ac_runtime_diagnostics previous) rs h2 = (s, h3)"
        by fastforce
      note st = activate_and_store [OF s1(1) assms(2) s1(2) f(3) 2 [unfolded Inr] 3]
      show ?thesis using assms(5) 1 2 3 Inl Inr st f(2) i
        by (auto simp: activate_replacement_or_restore_def restore_previous_plugin_configuration_def)
    qed
  qed
  then show "accounted (host_view (ph_env h)) h'" "ph_owner h' = ph_owner h" "ph_rollback_failures h' = ph_rollback_failures h"
    "case r of
      Inr _ \<Rightarrow> \<exists>a. ph_active h' = Healthy (Some a) \<and> ac_config a = config
    | Inl _ \<Rightarrow> ph_active h' = Healthy None \<or> (\<exists>a. ph_active h' = Healthy (Some a) \<and> ac_config a = ac_config previous)"
    by blast+
qed

lemma validate_kinds:
  assumes "tidy_kinds h" and "list_all tidy_plugin (hs_builtins hs)" and "validate_static_plugin_config hs config h = (rep, h')"
  shows "kinds_only h h'" and "tidy_kinds h'"
proof -
  obtain b h1 where b: "ensure_builtin_plugins_registered hs h = (b, h1)" by fastforce
  have "h' = h1" using assms(3) b by (cases b) (auto simp: validate_static_plugin_config_def Let_def)
  then show "kinds_only h h'" "tidy_kinds h'" using ensure_builtins_kinds [OF assms(1,2) b] by simp_all
qed

lemma replace_accounted:
  assumes "tidy_kinds h" and "list_all tidy_plugin (hs_builtins hs)" and "steady v" and "ph_active h = Healthy None"
    and "undoes v (ac_registrations previous) (host_view (ph_env h))"
    and "replace_plugin_configuration hs config report previous h = (r, h')"
  shows "accounted v h'" and "ph_owner h' = ph_owner h" and "ph_rollback_failures h' = ph_rollback_failures h"
    and "case r of
      Inr _ \<Rightarrow> \<exists>a. ph_active h' = Healthy (Some a) \<and> ac_config a = config
    | Inl _ \<Rightarrow> ph_active h' = Healthy None \<or> (\<exists>a. ph_active h' = Healthy (Some a) \<and> ac_config a = ac_config previous)"
proof -
  obtain e where e: "rollback_registrations_checked (ac_registrations previous) (ph_env h) = (default_rollback, [], e)" "host_view e = v"
    using assms(5) unfolding undoes_def by blast
  let ?h = "h\<lparr>ph_env := e, ph_active := Healthy None\<rparr>"
  have "activate_replacement_or_restore hs config report (previous\<lparr>ac_registrations := []\<rparr>) ?h = (r, h')"
    using assms(4,6) e(1)
    by (simp add: replace_plugin_configuration_def install_previous_configuration_for_teardown_def
        take_active_runtime_diagnostics_report_def default_rollback_def)
  then show "accounted v h'" "ph_owner h' = ph_owner h" "ph_rollback_failures h' = ph_rollback_failures h"
    "case r of
      Inr _ \<Rightarrow> \<exists>a. ph_active h' = Healthy (Some a) \<and> ac_config a = config
    | Inl _ \<Rightarrow> ph_active h' = Healthy None \<or> (\<exists>a. ph_active h' = Healthy (Some a) \<and> ac_config a = ac_config previous)"
    using replacement_or_restore [of ?h hs config report "previous\<lparr>ac_registrations := []\<rparr>" r h'] assms(1-4) e(2)
    by (simp_all split: sum.splits)
qed

lemma initial_accounted:
  assumes "tidy_kinds h" and "list_all tidy_plugin (hs_builtins hs)" and "steady (host_view (ph_env h))" and "ph_active h = Healthy None"
    and "activate_initial_plugin_configuration hs config report h = (r, h')"
  shows "accounted (host_view (ph_env h)) h' \<and> ph_owner h' = ph_owner h \<and> ph_rollback_failures h' = ph_rollback_failures h \<and> (case r of
      Inr _ \<Rightarrow> \<exists>a. ph_active h' = Healthy (Some a) \<and> ac_config a = config
    | Inl _ \<Rightarrow> ph_active h' = Healthy None)"
proof -
  obtain r2 h2 where 2: "initialize_plugin_components_catching_panics hs config h = (r2, h2)" by fastforce
  show ?thesis
  proof (cases r2)
    case (Inl e)
    then show ?thesis using assms(5) 2 failed_components [OF assms(1-4) 2 [unfolded Inl]] initialize_components_undone [OF assms(1-3) 2]
      by (auto simp: activate_initial_plugin_configuration_def)
  next
    case (Inr rs)
    obtain s h3 where 3: "store_active_plugin_configuration config report rs h2 = (s, h3)" by fastforce
    show ?thesis
      using assms(5) 2 Inr 3 activate_and_store [OF assms(1-4) 2 [unfolded Inr] 3 [unfolded store_active_plugin_configuration_def]]
      by (auto simp: activate_initial_plugin_configuration_def)
  qed
qed

text \<open>
  Initialization as a whole: whichever way it goes, what is registered is accounted for; a success
  activates the new configuration, and a failure keeps the previous one or has none active.
\<close>

lemma initialize_accounted:
  assumes "accounted v h" and "steady v" and "list_all tidy_plugin (hs_builtins hs)"
    and "initialize_plugins_exact_inner hs config ds h = (r, h')"
  shows "accounted v h'" and "ph_owner h' = ph_owner h" and "ph_rollback_failures h' = ph_rollback_failures h"
    and "case r of
      Inr _ \<Rightarrow> \<exists>a. ph_active h' = Healthy (Some a) \<and> ac_config a = config
    | Inl _ \<Rightarrow> ph_active h' = Healthy None \<or>
        (\<exists>a a'. ph_active h = Healthy (Some a) \<and> ph_active h' = Healthy (Some a') \<and> ac_config a' = ac_config a)"
proof -
  let ?Q = "\<lambda>r h'. accounted v h' \<and> ph_owner h' = ph_owner h \<and> ph_rollback_failures h' = ph_rollback_failures h \<and> (case r of
      Inr _ \<Rightarrow> \<exists>a. ph_active h' = Healthy (Some a) \<and> ac_config a = config
    | Inl _ \<Rightarrow> ph_active h' = Healthy None \<or>
        (\<exists>a a'. ph_active h = Healthy (Some a) \<and> ph_active h' = Healthy (Some a') \<and> ac_config a' = ac_config a))"
  obtain a where a: "ph_active h = Healthy a" "undoes v (active_registrations a) (host_view (ph_env h))" "tidy_kinds h"
      "steady (host_view (ph_env h))"
    using assms(1) by (auto simp: accounted_def)
  obtain rep h1 where 1: "validate_static_plugin_config hs config h = (rep, h1)" by fastforce
  note k = validate_kinds [OF a(3) assms(3) 1]
  have h1: "ph_env h1 = ph_env h" "ph_active h1 = Healthy a" "ph_owner h1 = ph_owner h" "ph_rollback_failures h1 = ph_rollback_failures h"
    using k(1) a(1) by (simp_all add: kinds_only_def)
  let ?rep = "default_report\<lparr>diagnostics := ds @ diagnostics rep\<rparr>"
  have "?Q r h'"
  proof (cases "has_errors ?rep")
    case True
    then have "h' = h1" "\<exists>e. r = Inl e" using assms(4) 1 by (auto simp: initialize_plugins_exact_inner_def Let_def)
    then show ?thesis using a h1 k(2) by (cases a) (auto simp: accounted_def)
  next
    case False
    show ?thesis
    proof (cases a)
      case None
      then have v: "v = host_view (ph_env h1)"
        using undoes_NilD [of v "host_view (ph_env h)" "ph_env h"] a(2) h1(1) by (simp add: active_registrations_def)
      have st: "steady (host_view (ph_env h1))" "ph_active h1 = Healthy None" using a(4) h1 None by simp_all
      then have "activate_initial_plugin_configuration hs config ?rep h1 = (r, h')"
        using assms(4) 1 False by (simp add: initialize_plugins_exact_inner_def Let_def)
      from initial_accounted [OF k(2) assms(3) st this] show ?thesis using v h1 by (auto split: sum.splits)
    next
      case (Some previous)
      then have "replace_plugin_configuration hs config ?rep previous (h1\<lparr>ph_active := Healthy None\<rparr>) = (r, h')"
        using assms(4) 1 False h1(2) by (simp add: initialize_plugins_exact_inner_def Let_def)
      from replace_accounted [OF _ assms(3,2) _ _ this] show ?thesis
        using k(2) h1 a(1,2) Some by (auto simp: active_registrations_def split: sum.splits)
    qed
  qed
  then show "accounted v h'" "ph_owner h' = ph_owner h" "ph_rollback_failures h' = ph_rollback_failures h"
    "case r of
      Inr _ \<Rightarrow> \<exists>a. ph_active h' = Healthy (Some a) \<and> ac_config a = config
    | Inl _ \<Rightarrow> ph_active h' = Healthy None \<or>
        (\<exists>a a'. ph_active h = Healthy (Some a) \<and> ph_active h' = Healthy (Some a') \<and> ac_config a' = ac_config a)"
    by blast+
qed

section \<open>Hosts\<close>

text \<open>A flush of queued events does not register middleware.\<close>

definition quiet_flush :: "('f, 'w) host_services \<Rightarrow> bool" where
  "quiet_flush hs \<longleftrightarrow> (\<forall>e. host_view (snd (hs_flush hs e)) = host_view e)"

lemma default_rollback_fields: "rb_errors default_rollback = []" "rb_callbacks_cleared default_rollback"
  by (simp_all add: default_rollback_def)

lemma clear_accounted:
  assumes "accounted v h" and "quiet_flush hs" and "clear_plugin_configuration_inner hs h = (out, h')"
  shows "host_view (ph_env h') = v" and "ph_active h' = Healthy None" and "ph_owner h' = ph_owner h" and "tidy_kinds h'"
    and "hc_callbacks_cleared out" and "hc_result out = clear_result (map_option display_flow_error (fst (hs_flush hs (ph_env h)))) []"
proof -
  obtain a where a: "ph_active h = Healthy a" "undoes v (active_registrations a) (host_view (ph_env h))" "tidy_kinds h"
    using assms(1) by (auto simp: accounted_def)
  obtain f e where f: "hs_flush hs (ph_env h) = (f, e)" by fastforce
  have "host_view e = host_view (ph_env h)" using assms(2) f by (simp add: quiet_flush_def) (metis snd_conv)
  then obtain e' where e': "rollback_registrations_checked (active_registrations a) e = (default_rollback, [], e')" "host_view e' = v"
    using a(2) unfolding undoes_def by blast
  have roll: "(case a of None \<Rightarrow> (default_rollback, [], e) | Some a \<Rightarrow> rollback_registrations_checked (ac_registrations a) e) =
      (default_rollback, [], e')"
    using e'(1) by (cases a) (auto simp: active_registrations_def rollback_registrations_checked_def)
  let ?r = "clear_result (map_option display_flow_error f) []"
  let ?h = "h\<lparr>ph_env := e', ph_active := Healthy None\<rparr>"
  have out: "out = \<lparr>hc_result = ?r, hc_callbacks_cleared = True, hc_report = map_option ac_report a\<rparr>"
      "h' = (case ?r of Inr _ \<Rightarrow> set_last_failed None ?h | Inl _ \<Rightarrow> (case map_option ac_report a of
        Some r \<Rightarrow> if runtime_diagnostics r = [] then ?h else set_last_failed (Some r) ?h | None \<Rightarrow> ?h))"
    using assms(3) f a(1) roll by (simp_all add: clear_plugin_configuration_inner_def Let_def default_rollback_fields cong: sum.case_cong option.case_cong if_cong)
  have "ph_env h' = e' \<and> ph_active h' = Healthy None \<and> ph_owner h' = ph_owner h \<and> tidy_kinds h'"
    using a(3) by (simp add: out(2) split: sum.split option.split)
  then show "host_view (ph_env h') = v" "ph_active h' = Healthy None" "ph_owner h' = ph_owner h" "tidy_kinds h'"
    using e'(2) by simp_all
  show "hc_callbacks_cleared out" "hc_result out = clear_result (map_option display_flow_error (fst (hs_flush hs (ph_env h)))) []"
    by (simp_all add: out(1) f)
qed

fun reinitialize ::
    "('f, 'w) host_services \<Rightarrow> (plugin_config \<times> config_diagnostic list) list \<Rightarrow> ('f, 'w) plugin_host \<Rightarrow> ('f, 'w) plugin_host" where
  "reinitialize hs [] h = h"
| "reinitialize hs ((config, ds) # cs) h = reinitialize hs cs (snd (initialize_plugins_exact_inner hs config ds h))"

lemma reinitialize_accounted:
  assumes "accounted v h" and "steady v" and "list_all tidy_plugin (hs_builtins hs)"
  shows "accounted v (reinitialize hs cs h)"
  using assms(1)
proof (induction cs arbitrary: h)
  case (Cons c cs)
  obtain config ds where c: "c = (config, ds)" by fastforce
  obtain r h1 where "initialize_plugins_exact_inner hs config ds h = (r, h1)" by fastforce
  then show ?case using Cons.IH initialize_accounted(1) [OF Cons.prems assms(2,3)] by (simp add: c)
qed simp

section \<open>A host with one plugin\<close>

definition demo_plugin :: "(nat, nat) plugin" where
  "demo_plugin = \<lparr>pl_kind = ''demo'', pl_allows_multiple = True, pl_validate = (\<lambda>_ _. []),
     pl_register = (\<lambda>_. PluginCall (CallRegister Subscriber ''sink'' 0 False 1) PluginReturn)\<rparr>"

definition demo_services :: "(nat, nat) host_services" where
  "demo_services = \<lparr>hs_builtins = [demo_plugin], hs_join_error = [], hs_flush = (\<lambda>e. (None, e))\<rparr>"

definition demo_host :: "(nat, nat) plugin_host" where
  "demo_host = \<lparr>ph_env = \<lparr>he_process = demo_process, he_context = Healthy context_state_new, he_gates = None, he_world = 0\<rparr>,
     ph_handlers = Healthy [], ph_next_registration_id = 1, ph_active = Healthy None, ph_last_failed = Healthy None,
     ph_owner = Healthy Idle, ph_next_owner_id = 1, ph_rollback_failures = Healthy []\<rparr>"

definition demo_plugin_config :: plugin_config where
  "demo_plugin_config = default_plugin_config\<lparr>pcf_components := [component_spec_new ''demo'']\<rparr>"

lemma demo_host_tidy:
  "tidy_kinds demo_host" "list_all tidy_plugin (hs_builtins demo_services)" "quiet_flush demo_services"
  "steady (host_view (ph_env demo_host))" "ph_active demo_host = Healthy None"
  using demo_owner
  by (simp_all add: tidy_kinds_def lookup_registered_plugin_def demo_host_def demo_services_def demo_plugin_def tidy_plugin_def
      quiet_flush_def steady_def host_view_def get_or_init_gates_def context_state_new_def registries_ok_def registries_new_def
      registry_ok_new)

lemmas demo_activation_defs = demo_services_def demo_host_def demo_plugin_config_def demo_plugin_def default_plugin_config_def
  component_spec_new_def ensure_builtin_plugins_registered_def register_builtin_plugin_def register_plugin_with_owner_def
  lookup_registered_plugin_def

lemma demo_activation:
  "\<exists>x h'. activate_inner demo_services demo_plugin_config [] demo_host = (Inr x, h')"
  using demo_owner
  by (simp add: demo_activation_defs activate_inner_def acquire_plugin_host_lease_def plugin_configuration_is_active_def
        initialize_plugins_exact_for_host_def verify_plugin_host_owner_def initialize_plugins_exact_inner_def
        validate_static_plugin_config_def validate_plugin_multiplicity_def plugin_component_totals_def
        component_diagnostics_def has_errors_def default_report_def activate_initial_plugin_configuration_def
        initialize_plugin_components_catching_panics_def initialize_plugin_components_def call_register_def
        ctx_register_subscriber_def context_register_def on_context_def register_subscriber_def with_runtime_owner_def
        context_state_new_def registries_new_def store_active_plugin_configuration_def store_active_with_runtime_diagnostics_def
        set_last_failed_def Let_def)

section \<open>Results\<close>

text \<open>
  C35. The activation of a plugin configuration is a transaction. When it fails, at whatever component
  and whether a plugin returns an error or panics, the middleware of the process is what it was, no
  configuration is active and the lease of the host is free again. When it succeeds, the configuration
  is active, and closing the host removes everything that was registered, gives back the middleware
  the process had before, and frees the lease.
\<close>

theorem activation_is_transactional:
  assumes "tidy_kinds h" and "list_all tidy_plugin (hs_builtins hs)" and "quiet_flush hs"
    and "steady (host_view (ph_env h))" and "ph_active h = Healthy None" and "activate_inner hs config ds h = (r, h')"
  shows "case r of
      Inl _ \<Rightarrow> host_view (ph_env h') = host_view (ph_env h) \<and> ph_active h' = Healthy None \<and> ph_owner h' = ph_owner h
    | Inr x \<Rightarrow> (\<exists>a. ph_active h' = Healthy (Some a) \<and> ac_config a = config) \<and>
        (case clear_inner hs x h' of (_, x', h'') \<Rightarrow>
           host_view (ph_env h'') = host_view (ph_env h) \<and> ph_active h'' = Healthy None \<and> ph_owner h'' = Healthy Idle \<and> \<not> hx_active x')"
proof (cases "ph_owner h = Healthy Idle")
  case False
  then have "h' = h" "\<exists>e. r = Inl e"
    using assms(6) by (auto simp: activate_inner_def acquire_plugin_host_lease_def split: rwlock.splits if_splits)
  then show ?thesis using assms(5) by auto
next
  case True
  let ?i = "ph_next_owner_id h" and ?v = "host_view (ph_env h)"
  let ?h1 = "h\<lparr>ph_next_owner_id := ?i + 1, ph_owner := Healthy (Host ?i)\<rparr>"
  have lease: "acquire_plugin_host_lease h = (Inr ?i, ?h1)"
    using True assms(5) by (simp add: acquire_plugin_host_lease_def plugin_configuration_is_active_def Let_def)
  obtain b h2 where b: "ensure_builtin_plugins_registered hs ?h1 = (b, h2)" by fastforce
  have k: "kinds_only ?h1 h2" "tidy_kinds h2" using ensure_builtins_kinds [OF _ assms(2) b] assms(1) by simp_all
  show ?thesis
  proof (cases b)
    case (Inl e)
    then have "r = Inl e" "h' = drop_lease ?i h2" using assms(6) lease b by (simp_all add: activate_inner_def)
    then show ?thesis using k(1) True assms(5) by (simp add: drop_lease_def kinds_only_def)
  next
    case (Inr u)
    let ?h2 = "h2\<lparr>ph_rollback_failures := Healthy []\<rparr>"
    obtain q h3 where q: "initialize_plugins_exact_inner hs config ds ?h2 = (q, h3)" by fastforce
    have "accounted ?v ?h2" using k assms(4,5) undoes_Nil [of ?v] by (simp add: accounted_def kinds_only_def active_registrations_def)
    note a = initialize_accounted [OF this assms(4,2) q]
    have own: "ph_owner h3 = Healthy (Host ?i)" "ph_rollback_failures h3 = Healthy []" using a(2,3) k(1) by (simp_all add: kinds_only_def)
    have "initialize_plugins_exact_for_host hs config ?i ds ?h2 = (q, h3)"
      using q k(1) by (simp add: initialize_plugins_exact_for_host_def verify_plugin_host_owner_def kinds_only_def)
    then have r: "(r, h') = (case q of
        Inr report \<Rightarrow> (Inr \<lparr>hx_active = True, hx_report = report, hx_claim = Some ?i\<rparr>, h3)
      | Inl e \<Rightarrow> (Inl e, drop_lease ?i h3))"
      using assms(6) lease b Inr own(2) by (auto simp: activate_inner_def Let_def split: sum.splits)
    show ?thesis
    proof (cases q)
      case (Inl e)
      then have act: "ph_active h3 = Healthy None" using a(4) k(1) assms(5) by (simp add: kinds_only_def)
      then have "?v = host_view (ph_env h3)"
        using a(1) undoes_NilD [of ?v "host_view (ph_env h3)" "ph_env h3"] by (simp add: accounted_def active_registrations_def)
      then show ?thesis using r Inl own(1) act True by (simp add: drop_lease_def)
    next
      case (Inr report)
      obtain out h4 where c: "clear_plugin_configuration_inner hs h3 = (out, h4)" by fastforce
      note cl = clear_accounted [OF a(1) assms(3) c]
      have "ph_owner h4 = Healthy (Host ?i)" using cl(3) own(1) by simp
      then show ?thesis using r Inr a(4) cl own(1) c
        by (auto simp: clear_inner_def clear_plugin_configuration_for_host_def verify_plugin_host_owner_def Let_def drop_lease_def
            split: option.splits)
    qed
  qed
qed

theorem activation_is_transactional_witness:
  "\<exists>x h'. activate_inner demo_services demo_plugin_config [] demo_host = (Inr x, h') \<and>
     (\<exists>a. ph_active h' = Healthy (Some a) \<and> ac_config a = demo_plugin_config) \<and>
     (case clear_inner demo_services x h' of (_, x', h'') \<Rightarrow>
        host_view (ph_env h'') = host_view (ph_env demo_host) \<and> ph_active h'' = Healthy None \<and> ph_owner h'' = Healthy Idle \<and> \<not> hx_active x')"
proof -
  obtain x h' where 1: "activate_inner demo_services demo_plugin_config [] demo_host = (Inr x, h')" using demo_activation by blast
  show ?thesis using activation_is_transactional [OF demo_host_tidy 1] 1 by auto
qed

text \<open>
  C8. Replacing the configuration of a host leaves nothing behind when the teardown works. The plugins
  may refuse a configuration, fail or panic while they register; but they are assumed to reach the
  middleware through their registration context only and to undo what they add, so that every
  registration can be removed again and no teardown fails; a flush of the queued events does not touch
  the middleware; the process owns the runtime, no lock is poisoned and nothing is configured at the
  start. Then, however often the configuration is replaced and whichever of these attempts are refused
  or fail while they register, and so restore the previous configuration or leave none, clearing the
  configuration afterwards removes every callback, reports success when the queued events could be
  flushed, and gives back the middleware that the process had before the first of them. A replacement
  whose teardown fails is outside this statement: it can leave callbacks that a later clearing does not
  remove.
\<close>

theorem replacements_leave_nothing:
  assumes "tidy_kinds h" and "list_all tidy_plugin (hs_builtins hs)" and "quiet_flush hs"
    and "steady (host_view (ph_env h))" and "ph_active h = Healthy None"
    and "clear_plugin_configuration_inner hs (reinitialize hs configs h) = (out, h')"
  shows "host_view (ph_env h') = host_view (ph_env h) \<and> ph_active h' = Healthy None \<and> hc_callbacks_cleared out \<and>
    (fst (hs_flush hs (ph_env (reinitialize hs configs h))) = None \<longrightarrow> hc_result out = Inr ())"
proof -
  let ?v = "host_view (ph_env h)"
  have "accounted ?v h" using assms(1,4,5) undoes_Nil [of ?v] by (simp add: accounted_def active_registrations_def)
  then have "accounted ?v (reinitialize hs configs h)" by (rule reinitialize_accounted [OF _ assms(4,2)])
  from clear_accounted [OF this assms(3,6)] show ?thesis by (simp add: clear_result_def)
qed

theorem replacements_leave_nothing_witness:
  "\<exists>out h'. clear_plugin_configuration_inner demo_services
       (reinitialize demo_services [(demo_plugin_config, []), (default_plugin_config, []), (demo_plugin_config, [])] demo_host) = (out, h') \<and>
     host_view (ph_env h') = host_view (ph_env demo_host) \<and> ph_active h' = Healthy None \<and> hc_result out = Inr ()"
proof -
  let ?cs = "[(demo_plugin_config, []), (default_plugin_config, []), (demo_plugin_config, [])]"
  obtain out h' where 1: "clear_plugin_configuration_inner demo_services (reinitialize demo_services ?cs demo_host) = (out, h')" by fastforce
  have "fst (hs_flush demo_services e) = None" for e by (simp add: demo_services_def)
  then show ?thesis using replacements_leave_nothing [OF demo_host_tidy 1] 1 by auto
qed

end
