(* ===== verification/Layering_Properties.thy ===== *)
theory Layering_Properties
  imports Plugin_Config
begin

text \<open>
  How two layers of plugin configuration combine: the loop over the components of the higher layer is
  compared with a description that pairs the components of each kind by their order.
\<close>

section \<open>The components of a kind\<close>

definition kind_count :: "json list \<Rightarrow> string \<Rightarrow> nat" where
  "kind_count cs k = length (filter (\<lambda>c. component_kind c = Some k) cs)"

definition kind_rank :: "json list \<Rightarrow> nat \<Rightarrow> nat" where
  "kind_rank cs i = length (filter (\<lambda>c. component_kind c = component_kind (cs ! i)) (take i cs))"

lemma hits_snoc:
  "filter (\<lambda>i. component_kind ((cs @ [c]) ! i) = Some k) [0..<length (cs @ [c])] =
     filter (\<lambda>i. component_kind (cs ! i) = Some k) [0..<length cs] @ (if component_kind c = Some k then [length cs] else [])"
proof -
  have "filter (\<lambda>i. component_kind ((cs @ [c]) ! i) = Some k) [0..<length cs] = filter (\<lambda>i. component_kind (cs ! i) = Some k) [0..<length cs]"
    by (rule filter_cong) (auto simp: nth_append)
  then show ?thesis by simp
qed

lemma length_hits: "length (filter (\<lambda>i. component_kind (cs ! i) = Some k) [0..<length cs]) = kind_count cs k"
proof (induction cs rule: rev_induct)
  case (snoc c cs)
  then show ?case unfolding hits_snoc by (simp add: kind_count_def)
qed (simp add: kind_count_def)

lemma nth_by_kind_None: "nth_component_by_kind cs k n = None \<longleftrightarrow> kind_count cs k \<le> n"
  by (auto simp: nth_component_by_kind_def Let_def length_hits)

lemma nth_by_kind_snoc:
  "nth_component_by_kind (cs @ [c]) k n =
     (if component_kind c = Some k \<and> n = kind_count cs k then Some (length cs) else nth_component_by_kind cs k n)"
  unfolding nth_component_by_kind_def hits_snoc Let_def
  by (auto simp: length_hits nth_append)

lemma kind_rank_snoc:
  "i < length cs \<Longrightarrow> kind_rank (cs @ [c]) i = kind_rank cs i"
  "kind_rank (cs @ [c]) (length cs) = length (filter (\<lambda>x. component_kind x = component_kind c) cs)"
  by (auto simp: kind_rank_def nth_append)

lemma nth_by_kind_rank:
  assumes "i < length cs" and "component_kind (cs ! i) = Some k"
  shows "nth_component_by_kind cs k (kind_rank cs i) = Some i"
  using assms
proof (induction cs rule: rev_induct)
  case (snoc c cs)
  show ?case
  proof (cases "i = length cs")
    case True
    then show ?thesis using snoc.prems by (simp add: nth_by_kind_snoc kind_rank_snoc kind_count_def)
  next
    case False
    then have i: "i < length cs" "component_kind (cs ! i) = Some k" using snoc.prems by (auto simp: nth_append)
    have "kind_rank cs i \<noteq> kind_count cs k" using nth_by_kind_None [of cs k "kind_rank cs i"] snoc.IH [OF i] by auto
    then show ?thesis using i snoc.IH [OF i] by (simp add: nth_by_kind_snoc kind_rank_snoc)
  qed
qed simp

lemma nth_by_kind_Some:
  assumes "nth_component_by_kind cs k n = Some i"
  shows "i < length cs" and "component_kind (cs ! i) = Some k" and "kind_rank cs i = n"
proof -
  let ?hits = "filter (\<lambda>i. component_kind (cs ! i) = Some k) [0..<length cs]"
  have "n < length ?hits" "?hits ! n = i" using assms by (auto simp: nth_component_by_kind_def Let_def split: if_splits)
  then have "i \<in> set ?hits" using nth_mem by metis
  then show i: "i < length cs" "component_kind (cs ! i) = Some k" by auto
  have "nth_component_by_kind cs k (kind_rank cs i) = Some i" by (rule nth_by_kind_rank [OF i])
  moreover have "distinct ?hits" by simp
  ultimately show "kind_rank cs i = n"
    using assms by (auto simp: nth_component_by_kind_def Let_def nth_eq_iff_index_eq split: if_splits)
qed

lemma nth_by_kind_cong:
  assumes "map component_kind xs = map component_kind ys"
  shows "nth_component_by_kind xs k n = nth_component_by_kind ys k n"
proof -
  have l: "length xs = length ys" using assms by (metis length_map)
  have "component_kind (xs ! i) = component_kind (ys ! i)" if "i < length ys" for i
    using arg_cong [OF assms, of "\<lambda>l. l ! i"] that l by simp
  then have "filter (\<lambda>i. component_kind (xs ! i) = Some k) [0..<length xs] = filter (\<lambda>i. component_kind (ys ! i) = Some k) [0..<length ys]"
    unfolding l by (intro filter_cong) auto
  then show ?thesis by (simp add: nth_component_by_kind_def)
qed

section \<open>Merging keeps kinds\<close>

definition well_keyed :: "json \<Rightarrow> bool" where
  "well_keyed j = (case j of JObject m \<Rightarrow> distinct (map fst m) | _ \<Rightarrow> True)"

lemma merge_component_other: "key \<notin> fst ` set r \<Longrightarrow> map_of (merge_component_fields ob l r) key = map_of l key"
  by (induction r arbitrary: l) (auto simp: map_of_bt_insert)

lemma merge_component_string:
  assumes "distinct (map fst r)" and "map_of r key = Some (JString s)" and "key \<noteq> ''config''"
  shows "map_of (merge_component_fields ob l r) key = Some (JString s)"
  using assms
proof (induction r arbitrary: l)
  case (Cons p r)
  obtain k v where p: "p = (k, v)" by fastforce
  show ?case
  proof (cases "k = key")
    case True
    then have "key \<notin> fst ` set r" "v = JString s" using Cons.prems by (auto simp: p)
    then show ?thesis using True assms(3) by (simp add: p merge_component_other map_of_bt_insert split: option.split)
  qed (use Cons p in auto)
qed simp

lemma merge_component_kind:
  assumes "well_keyed r" and "component_kind r = Some k" and "component_kind l \<noteq> None"
  shows "component_kind (merge_plugin_component l r) = Some k"
proof -
  obtain m where r: "r = JObject m" using assms(2) by (cases r) (auto simp: component_kind_def)
  obtain n where l: "l = JObject n" using assms(3) by (cases l) (auto simp: component_kind_def)
  have "map_of m ''kind'' = Some (JString k)"
    using assms(2) r by (auto simp: component_kind_def bind_eq_Some_conv elim: json_as_str.elims)
  then show ?thesis using merge_component_string [of m "''kind''" k] assms(1) r l
    by (simp add: merge_plugin_component_def Let_def component_kind_def well_keyed_def)
qed

section \<open>The description\<close>

definition layered_component :: "json list \<Rightarrow> json list \<Rightarrow> nat \<Rightarrow> json" where
  "layered_component l r i = (case component_kind (l ! i) of
       None \<Rightarrow> l ! i
     | Some k \<Rightarrow> (case nth_component_by_kind r k (kind_rank l i) of
         None \<Rightarrow> l ! i
       | Some j \<Rightarrow> merge_plugin_component (l ! i) (r ! j)))"

definition has_partner :: "json list \<Rightarrow> json list \<Rightarrow> nat \<Rightarrow> bool" where
  "has_partner l r j = (case component_kind (r ! j) of
       None \<Rightarrow> False
     | Some k \<Rightarrow> kind_rank r j < kind_count l k)"

definition additions :: "json list \<Rightarrow> json list \<Rightarrow> json list" where
  "additions l r = map (\<lambda>j. r ! j) (filter (\<lambda>j. \<not> has_partner l r j) [0..<length r])"

definition layered :: "json list \<Rightarrow> json list \<Rightarrow> json list" where
  "layered l r = map (layered_component l r) [0..<length l] @ additions l r"

lemma additions_snoc:
  "additions l (r @ [c]) = additions l r @ (if has_partner l (r @ [c]) (length r) then [] else [c])"
proof -
  have "filter (\<lambda>j. \<not> has_partner l (r @ [c]) j) [0..<length r] = filter (\<lambda>j. \<not> has_partner l r j) [0..<length r]"
    by (rule filter_cong) (auto simp: has_partner_def kind_rank_snoc nth_append split: option.splits)
  then show ?thesis by (auto simp: additions_def nth_append)
qed

lemma layered_snoc_same:
  assumes "component_kind c = None \<or> (\<exists>k. component_kind c = Some k \<and> kind_count l k \<le> kind_count r k)" and "i < length l"
  shows "layered_component l (r @ [c]) i = layered_component l r i"
proof (cases "component_kind (l ! i)")
  case (Some k)
  have "kind_rank l i < kind_count l k"
    using nth_by_kind_rank [OF assms(2) Some] nth_by_kind_None [of l k "kind_rank l i"] by auto
  then have "\<not> (component_kind c = Some k \<and> kind_rank l i = kind_count r k)" using assms(1) by auto
  moreover have "(r @ [c]) ! j = r ! j" if "nth_component_by_kind r k (kind_rank l i) = Some j" for j
    using nth_by_kind_Some(1) [OF that] by (simp add: nth_append)
  ultimately show ?thesis using Some by (auto simp: layered_component_def nth_by_kind_snoc split: option.split)
qed (simp add: layered_component_def)

lemma layered_kinds:
  assumes "list_all well_keyed r"
  shows "map component_kind (map (layered_component l r) [0..<length l]) = map component_kind l"
proof (rule nth_equalityI)
  fix i assume "i < length (map component_kind (map (layered_component l r) [0..<length l]))"
  then have i: "i < length l" by simp
  have "component_kind (layered_component l r i) = component_kind (l ! i)"
  proof (cases "component_kind (l ! i)")
    case (Some k)
    show ?thesis
    proof (cases "nth_component_by_kind r k (kind_rank l i)")
      case Some2: (Some j)
      have "well_keyed (r ! j)" using assms nth_by_kind_Some(1) [OF Some2] by (simp add: list_all_length)
      then show ?thesis using Some Some2 nth_by_kind_Some(2) [OF Some2] merge_component_kind [of "r ! j" k "l ! i"]
        by (simp add: layered_component_def)
    qed (use Some in \<open>simp add: layered_component_def\<close>)
  qed (simp add: layered_component_def)
  then show "map component_kind (map (layered_component l r) [0..<length l]) ! i = map component_kind l ! i" using i by simp
qed simp

lemma layered_snoc_partner:
  assumes "component_kind c = Some k" and "nth_component_by_kind l k (kind_count r k) = Some i"
  shows "map (layered_component l (r @ [c])) [0..<length l] =
    (map (layered_component l r) [0..<length l])[i := merge_plugin_component (l ! i) c]"
    and "layered_component l r i = l ! i"
proof -
  note i = nth_by_kind_Some [OF assms(2)]
  have none: "nth_component_by_kind r k (kind_rank l i) = None" by (simp add: nth_by_kind_None i(3))
  show "layered_component l r i = l ! i" by (simp add: layered_component_def i(2) none)
  have "layered_component l (r @ [c]) m = (if m = i then merge_plugin_component (l ! i) c else layered_component l r m)"
    if m: "m < length l" for m
  proof (cases "component_kind (l ! m)")
    case (Some k')
    show ?thesis
    proof (cases "m = i")
      case True
      then show ?thesis using assms(1) i(2,3) by (simp add: layered_component_def nth_by_kind_snoc)
    next
      case False
      then have "\<not> (component_kind c = Some k' \<and> kind_rank l m = kind_count r k')"
        using nth_by_kind_rank [OF m Some] assms by auto
      moreover have "(r @ [c]) ! j = r ! j" if "nth_component_by_kind r k' (kind_rank l m) = Some j" for j
        using nth_by_kind_Some(1) [OF that] by (simp add: nth_append)
      ultimately show ?thesis using Some False by (cases "nth_component_by_kind r k' (kind_rank l m)")
          (auto simp: layered_component_def nth_by_kind_snoc)
    qed
  qed (use i(2) in \<open>auto simp: layered_component_def\<close>)
  then show "map (layered_component l (r @ [c])) [0..<length l] =
    (map (layered_component l r) [0..<length l])[i := merge_plugin_component (l ! i) c]"
    using i(1) by (intro nth_equalityI) (auto simp: nth_list_update)
qed

lemma kind_count_snoc: "kind_count (r @ [c]) k = (if component_kind c = Some k then kind_count r k + 1 else kind_count r k)"
  by (simp add: kind_count_def)

lemma merge_components_step_simps:
  "component_kind c = None \<Longrightarrow> merge_components_step base (cs, consumed) c = (cs @ [c], consumed)"
  "component_kind c = Some k \<Longrightarrow> (case map_of consumed k of Some n \<Rightarrow> n | None \<Rightarrow> 0) = n \<Longrightarrow>
     merge_components_step base (cs, consumed) c = (case nth_component_by_kind (take base cs) k n of
        Some i \<Rightarrow> (cs[i := merge_plugin_component (cs ! i) c], AList.update k (n + 1) consumed)
      | None \<Rightarrow> (cs @ [c], AList.update k (n + 1) consumed))"
  by (auto simp: merge_components_step_def Let_def split: option.split)

lemma merge_loop_layered:
  assumes "list_all well_keyed r"
  shows "\<exists>consumed. foldl (merge_components_step (length l)) (l, []) r = (layered l r, consumed) \<and>
    (\<forall>k. (case map_of consumed k of Some n \<Rightarrow> n | None \<Rightarrow> 0) = kind_count r k)"
  using assms
proof (induction r rule: rev_induct)
  case Nil
  have "layered l [] = l"
    by (rule nth_equalityI) (auto simp: layered_def additions_def layered_component_def nth_component_by_kind_def split: option.split)
  then show ?case by (simp add: kind_count_def)
next
  case (snoc c r)
  let ?A = "map (layered_component l r) [0..<length l]"
  let ?B = "additions l r"
  obtain consumed where f: "foldl (merge_components_step (length l)) (l, []) r = (?A @ ?B, consumed)"
      "\<And>k. (case map_of consumed k of Some n \<Rightarrow> n | None \<Rightarrow> 0) = kind_count r k"
    using snoc by (auto simp: layered_def)
  have wk: "list_all well_keyed r" using snoc.prems by simp
  show ?case
  proof (cases "component_kind c")
    case None
    then have "layered l (r @ [c]) = ?A @ ?B @ [c]"
      using layered_snoc_same [of c l r] by (simp add: layered_def additions_snoc has_partner_def [of l "r @ [c]" "length r"])
    then show ?thesis using f None by (simp add: merge_components_step_simps kind_count_snoc)
  next
    case (Some k)
    have slot: "nth_component_by_kind (take (length l) (?A @ ?B)) k (kind_count r k) = nth_component_by_kind l k (kind_count r k)"
      using nth_by_kind_cong [OF layered_kinds [OF wk, of l]] by simp
    have partner: "has_partner l (r @ [c]) (length r) \<longleftrightarrow> kind_count r k < kind_count l k"
      using Some by (simp add: has_partner_def kind_rank_snoc kind_count_def)
    have counts: "(case map_of (AList.update k (kind_count r k + 1) consumed) k' of Some n \<Rightarrow> n | None \<Rightarrow> 0) = kind_count (r @ [c]) k'" for k'
      using f(2) [of k'] Some by (simp add: AList.update_conv' kind_count_snoc)
    have step: "foldl (merge_components_step (length l)) (l, []) (r @ [c]) = (case nth_component_by_kind l k (kind_count r k) of
        Some i \<Rightarrow> ((?A @ ?B)[i := merge_plugin_component ((?A @ ?B) ! i) c], AList.update k (kind_count r k + 1) consumed)
      | None \<Rightarrow> ((?A @ ?B) @ [c], AList.update k (kind_count r k + 1) consumed))"
      using f(1) merge_components_step_simps(2) [OF Some f(2)] slot by simp
    show ?thesis
    proof (cases "nth_component_by_kind l k (kind_count r k)")
      case None
      then have n: "kind_count l k \<le> kind_count r k" by (simp add: nth_by_kind_None)
      then have "layered l (r @ [c]) = ?A @ ?B @ [c]"
        using layered_snoc_same [of c l r] Some partner by (simp add: layered_def additions_snoc)
      then show ?thesis using step None counts by simp
    next
      case Some2: (Some i)
      then have "kind_count r k < kind_count l k" using nth_by_kind_None [of l k "kind_count r k"] by auto
      then have "layered l (r @ [c]) = (?A @ ?B)[i := merge_plugin_component ((?A @ ?B) ! i) c]"
        using layered_snoc_partner [OF Some Some2] nth_by_kind_Some(1) [OF Some2] partner
        by (simp add: layered_def additions_snoc list_update_append nth_append)
      then show ?thesis using step Some2 counts by simp
    qed
  qed
qed

text \<open>
  C22. Layers combine by kind: the n-th component of a kind in the higher layer is merged into the n-th
  component of that kind in the lower layer, which keeps its place, a component without partner in the
  lower layer is added at the end, in order, and nothing is lost.
\<close>

theorem components_layered_by_kind:
  assumes "list_all well_keyed r"
  shows "merge_plugin_components (JArray l) (JArray r) = JArray (layered l r)"
  using merge_loop_layered [OF assms, of l] by (auto simp: merge_plugin_components_def)

definition demo_component :: "string \<Rightarrow> bool \<Rightarrow> json" where
  "demo_component kind on = JObject [(''enabled'', JBool on), (''kind'', JString kind)]"

theorem components_layered_by_kind_witness:
  "merge_plugin_components (JArray [demo_component ''a'' True, demo_component ''b'' True])
     (JArray [demo_component ''b'' False, demo_component ''c'' True]) =
   JArray (layered [demo_component ''a'' True, demo_component ''b'' True] [demo_component ''b'' False, demo_component ''c'' True])"
  by (rule components_layered_by_kind) (simp add: well_keyed_def demo_component_def)

end
