(* ===== verification/Sse_Decoder.thy ===== *)
theory Sse_Decoder
  imports Plugin_Names Relay_Events Relay_Json Flow_Errors
begin

text \<open>
  Server-sent events: the incremental decoder of provider streams
  (\<^verbatim>\<open>crates/core/src/codec/streaming.rs\<close>), the stream of JSON payloads that the gateway builds with it
  and the frames that the gateway writes for its own client (\<^verbatim>\<open>crates/cli/src/gateway/mod.rs\<close>).
  The parser and the printer of \<^verbatim>\<open>serde_json\<close> are parameters. The reference
  \<open>sse_reference\<close> says which payloads a byte stream stands for without mentioning chunks.
\<close>

section \<open>Text\<close>

abbreviation LF :: char where
  "LF \<equiv> CHR 0x0A"

abbreviation CR :: char where
  "CR \<equiv> CHR 0x0D"

text \<open>
  \<^verbatim>\<open>String::from_utf8_lossy\<close>: a character is kept, and each maximal piece that no character starts
  with is replaced by U+FFFD. A byte beyond the end reads as 0, which is not a continuation byte.
\<close>

definition byte_at :: "nat list \<Rightarrow> nat \<Rightarrow> nat" where
  "byte_at bs i = (if i < length bs then bs ! i else 0)"

definition second_byte_ok :: "nat \<Rightarrow> nat \<Rightarrow> bool" where
  "second_byte_ok a b =
     (if a = 224 then 160 \<le> b \<and> b \<le> 191
      else if a = 237 then 128 \<le> b \<and> b \<le> 159
      else if a = 240 then 144 \<le> b \<and> b \<le> 191
      else if a = 244 then 128 \<le> b \<and> b \<le> 143
      else utf8_tail b)"

definition utf8_piece :: "nat list \<Rightarrow> bool \<times> nat" where
  "utf8_piece bs =
     (let a = byte_at bs 0; b = byte_at bs 1; c = byte_at bs 2; d = byte_at bs 3
      in if a < 128 then (True, 1)
         else if 194 \<le> a \<and> a \<le> 223 then (if utf8_tail b then (True, 2) else (False, 1))
         else if 224 \<le> a \<and> a \<le> 239
         then (if \<not> second_byte_ok a b then (False, 1)
               else if utf8_tail c then (True, 3) else (False, 2))
         else if 240 \<le> a \<and> a \<le> 244
         then (if \<not> second_byte_ok a b then (False, 1)
               else if \<not> utf8_tail c then (False, 2)
               else if utf8_tail d then (True, 4) else (False, 3))
         else (False, 1))"

lemma utf8_piece_pos: "0 < snd (utf8_piece bs)"
  by (simp add: utf8_piece_def Let_def)

function lossy_bytes :: "nat list \<Rightarrow> nat list" where
  "lossy_bytes bs =
     (if bs = [] then []
      else (if fst (utf8_piece bs) then take (snd (utf8_piece bs)) bs else [239, 191, 189]) @
           lossy_bytes (drop (snd (utf8_piece bs)) bs))"
  by auto
termination
  by (relation "measure length") (auto simp: utf8_piece_pos)

declare lossy_bytes.simps [simp del]

definition from_utf8_lossy :: "string \<Rightarrow> string" where
  "from_utf8_lossy s = map char_of (lossy_bytes (map of_char s))"

text \<open>\<^verbatim>\<open>str::replace\<close> of CRLF by LF.\<close>

fun replace_crlf :: "string \<Rightarrow> string" where
  "replace_crlf [] = []"
| "replace_crlf [c] = [c]"
| "replace_crlf (c # d # r) = (if c = CR \<and> d = LF then LF # replace_crlf r else c # replace_crlf (d # r))"

definition ends_with_cr :: "string \<Rightarrow> bool" where
  "ends_with_cr s \<longleftrightarrow> s \<noteq> [] \<and> last s = CR"

definition starts_with_lf :: "string \<Rightarrow> bool" where
  "starts_with_lf s \<longleftrightarrow> s \<noteq> [] \<and> hd s = LF"

fun join_lines :: "string list \<Rightarrow> string" where
  "join_lines [] = []"
| "join_lines [l] = l"
| "join_lines (l # ls) = l @ LF # join_lines ls"

section \<open>The decoder\<close>

record sse_event_decoder =
  sd_buffer :: string

record sse_event =
  se_event :: "string option"
  se_data :: json

definition sse_event_decoder_new :: sse_event_decoder where
  "sse_event_decoder_new = \<lparr>sd_buffer = []\<rparr>"

text \<open>The loop over the lines of a frame, with the event name and the data lines read so far.\<close>

definition parse_sse_line :: "string \<Rightarrow> string option \<times> string list \<Rightarrow> string option \<times> string list" where
  "parse_sse_line line acc =
     (case strip_prefix ''event:'' line of
       Some rest \<Rightarrow> (Some (str_trim rest), snd acc)
     | None \<Rightarrow>
         (case strip_prefix ''data:'' line of
           Some rest \<Rightarrow> (fst acc, snd acc @ [case strip_prefix '' '' rest of Some r \<Rightarrow> r | None \<Rightarrow> rest])
         | None \<Rightarrow> acc))"

definition parse_sse_frame :: "(string \<Rightarrow> string + json) \<Rightarrow> string \<Rightarrow> flow_error + sse_event option" where
  "parse_sse_frame from_str frame =
     (let (event_name, data_parts) = fold parse_sse_line (split_on LF frame) (None, [])
      in if data_parts = [] then Inr None
         else let payload = join_lines data_parts; trimmed = str_trim payload
              in if trimmed = ''[DONE]'' then Inr None
                 else case from_str trimmed of
                   Inl err \<Rightarrow> Inl (Internal (''streaming codec failed to parse SSE data payload: '' @ err @ '': '' @ payload))
                 | Inr v \<Rightarrow> Inr (Some \<lparr>se_event = event_name, se_data = v\<rparr>))"

text \<open>The \<^verbatim>\<open>while let\<close> loop of \<^verbatim>\<open>push_bytes_results\<close>: every turn removes at least the terminator.\<close>

function push_loop :: "(string \<Rightarrow> string + json) \<Rightarrow> string \<Rightarrow> (flow_error + sse_event) list \<times> string" where
  "push_loop from_str buffer =
     (case str_find [LF, LF] buffer of
       None \<Rightarrow> ([], buffer)
     | Some i \<Rightarrow>
         (case parse_sse_frame from_str (take i buffer) of
           Inr (Some event) \<Rightarrow> (let (rs, b) = push_loop from_str (drop (i + 2) buffer) in (Inr event # rs, b))
         | Inr None \<Rightarrow> push_loop from_str (drop (i + 2) buffer)
         | Inl err \<Rightarrow> ([Inl err], drop (i + 2) buffer)))"
  by auto
termination
  by (relation "measure (\<lambda>(_, b). length b)") (auto dest!: str_find_bound)

declare push_loop.simps [simp del]

definition push_bytes_results ::
  "(string \<Rightarrow> string + json) \<Rightarrow> string \<Rightarrow> sse_event_decoder \<Rightarrow> (flow_error + sse_event) list \<times> sse_event_decoder" where
  "push_bytes_results from_str bytes d =
     (let buffer = (if ends_with_cr (sd_buffer d) \<and> starts_with_lf bytes then butlast (sd_buffer d) else sd_buffer d);
          chunk = replace_crlf (from_utf8_lossy bytes);
          (results, b) = push_loop from_str (buffer @ chunk)
      in (results, d\<lparr>sd_buffer := b\<rparr>))"

definition push_bytes ::
  "(string \<Rightarrow> string + json) \<Rightarrow> string \<Rightarrow> sse_event_decoder \<Rightarrow> (flow_error + sse_event list) \<times> sse_event_decoder" where
  "push_bytes from_str bytes d = map_prod (collect_results id) id (push_bytes_results from_str bytes d)"

definition sse_finish :: "(string \<Rightarrow> string + json) \<Rightarrow> sse_event_decoder \<Rightarrow> flow_error + sse_event option" where
  "sse_finish from_str d =
     (if str_trim (sd_buffer d) = [] then Inr None else parse_sse_frame from_str (sd_buffer d))"

section \<open>The gateway\<close>

text \<open>The \<^verbatim>\<open>for\<close> loop over the results of one chunk: what it yields and whether the stream ends there.\<close>

fun yield_results :: "(flow_error + sse_event) list \<Rightarrow> (flow_error + json) list \<times> bool" where
  "yield_results [] = ([], False)"
| "yield_results (Inr event # rs) = (let (ys, stop) = yield_results rs in (Inr (se_data event) # ys, stop))"
| "yield_results (Inl err # rs) = ([Inl err], True)"

text \<open>
  \<^verbatim>\<open>sse_json_stream\<close>: the chunks of the response body, where \<open>Inl\<close> is a transport error with its
  message, and the items of the stream in the order they are yielded.
\<close>

fun sse_json_loop ::
  "(string \<Rightarrow> string + json) \<Rightarrow> (string + string) list \<Rightarrow> sse_event_decoder \<Rightarrow> (flow_error + json) list" where
  "sse_json_loop from_str [] d =
     (case sse_finish from_str d of
       Inr (Some event) \<Rightarrow> [Inr (se_data event)]
     | Inr None \<Rightarrow> []
     | Inl err \<Rightarrow> [Inl err])"
| "sse_json_loop from_str (Inl err # chunks) d = [Inl (Internal err)]"
| "sse_json_loop from_str (Inr bytes # chunks) d =
     (let (results, d') = push_bytes_results from_str bytes d; (ys, stop) = yield_results results
      in if stop then ys else ys @ sse_json_loop from_str chunks d')"

definition sse_json_stream :: "(string \<Rightarrow> string + json) \<Rightarrow> (string + string) list \<Rightarrow> (flow_error + json) list" where
  "sse_json_stream from_str chunks = sse_json_loop from_str chunks sse_event_decoder_new"

datatype provider_route =
    OpenAiResponses
  | OpenAiChatCompletions
  | OpenAiImagesGenerations
  | OpenAiModels
  | AnthropicMessages
  | AnthropicCountTokens

definition encode_sse_frame :: "(json \<Rightarrow> string + string) \<Rightarrow> json \<Rightarrow> provider_route \<Rightarrow> string" where
  "encode_sse_frame to_string event_json route =
     (let serialized = (case to_string event_json of Inr s \<Rightarrow> s | Inl _ \<Rightarrow> ''null'');
          event_name = (case route of
              AnthropicMessages \<Rightarrow> Option.bind (json_get event_json ''type'') json_as_str
            | OpenAiResponses \<Rightarrow> Option.bind (json_get event_json ''type'') json_as_str
            | _ \<Rightarrow> None)
      in case event_name of
           Some name \<Rightarrow> ''event: '' @ name @ [LF] @ ''data: '' @ serialized @ [LF, LF]
         | None \<Rightarrow> ''data: '' @ serialized @ [LF, LF])"

text \<open>
  \<^verbatim>\<open>client_sse_body\<close> as the sequence of its actions: the frames it yields, the completion of the
  gateway call by its guard, and the error that ends the body.
\<close>

datatype client_action = YieldFrame string | FinishCall | YieldError string

fun client_sse_body ::
  "(json \<Rightarrow> string + string) \<Rightarrow> provider_route \<Rightarrow> (flow_error + json) list \<Rightarrow> client_action list" where
  "client_sse_body to_string route [] =
     FinishCall # (if route = OpenAiChatCompletions then [YieldFrame (''data: [DONE]'' @ [LF, LF])] else [])"
| "client_sse_body to_string route (Inr event_json # items) =
     YieldFrame (encode_sse_frame to_string event_json route) # client_sse_body to_string route items"
| "client_sse_body to_string route (Inl err # items) = [FinishCall, YieldError (display_flow_error err)]"

definition body_bytes :: "client_action list \<Rightarrow> string" where
  "body_bytes as = concat (map (\<lambda>a. case a of YieldFrame s \<Rightarrow> s | _ \<Rightarrow> []) as)"

end
