(* ===== verification/Sse_Properties.thy ===== *)
theory Sse_Properties
  imports Sse_Decoder
begin

text \<open>
  The decoder of server-sent events against a reference that does not know of chunks, and the round
  trip through the frames the gateway writes.
\<close>

section \<open>Reference\<close>

text \<open>The frames of a text, each ended by an empty line, and the text after the last one.\<close>

fun sse_frames :: "string \<Rightarrow> string list \<times> string" where
  "sse_frames [] = ([], [])"
| "sse_frames [c] = ([], [c])"
| "sse_frames (c # d # r) =
     (if c = LF \<and> d = LF then (let (fs, t) = sse_frames r in ([] # fs, t))
      else (case sse_frames (d # r) of ([], t) \<Rightarrow> ([], c # t) | (f # fs, t) \<Rightarrow> ((c # f) # fs, t)))"

fun upto_error :: "('e + 'a) list \<Rightarrow> ('e + 'a) list" where
  "upto_error [] = []"
| "upto_error (Inr x # rs) = Inr x # upto_error rs"
| "upto_error (Inl e # rs) = [Inl e]"

definition frame_items :: "(string \<Rightarrow> string + json) \<Rightarrow> string \<Rightarrow> (flow_error + json) list" where
  "frame_items from_str f =
     (case parse_sse_frame from_str f of
       Inl err \<Rightarrow> [Inl err] | Inr None \<Rightarrow> [] | Inr (Some event) \<Rightarrow> [Inr (se_data event)])"

definition reference_items :: "(string \<Rightarrow> string + json) \<Rightarrow> string list \<times> string \<Rightarrow> (flow_error + json) list" where
  "reference_items from_str = (\<lambda>(fs, t).
     upto_error (concat (map (frame_items from_str) fs) @ (if str_trim t = [] then [] else frame_items from_str t)))"

text \<open>What a byte stream stands for: line ends become LF, then the frames are read in order.\<close>

definition sse_reference :: "(string \<Rightarrow> string + json) \<Rightarrow> string \<Rightarrow> (flow_error + json) list" where
  "sse_reference from_str s = reference_items from_str (sse_frames (replace_crlf s))"

section \<open>Text\<close>

lemma str_find_none_frames: "str_find [LF, LF] s = None \<Longrightarrow> sse_frames s = ([], s)"
  by (induction s rule: sse_frames.induct) (auto split: if_splits prod.splits list.splits)

lemma str_find_some_frames:
  "str_find [LF, LF] s = Some i \<Longrightarrow>
     sse_frames s = (take i s # fst (sse_frames (drop (i + 2) s)), snd (sse_frames (drop (i + 2) s)))"
  by (induction s arbitrary: i rule: sse_frames.induct) (auto split: if_splits prod.splits list.splits)

lemma sse_frames_Nil: "sse_frames s = ([], t) \<Longrightarrow> t = s"
  by (induction s arbitrary: t rule: sse_frames.induct) (auto split: if_splits prod.splits list.splits)

lemma sse_frames_append:
  "sse_frames (s @ v) =
     (fst (sse_frames s) @ fst (sse_frames (snd (sse_frames s) @ v)), snd (sse_frames (snd (sse_frames s) @ v)))"
proof (induction s rule: sse_frames.induct)
  case (3 c d r)
  show ?case
  proof (cases "c = LF \<and> d = LF")
    case True
    then show ?thesis using 3(1) by (simp add: case_prod_beta)
  next
    case False
    obtain fs t where p: "sse_frames (d # r) = (fs, t)" by fastforce
    show ?thesis
    proof (cases fs)
      case Nil
      then have "t = d # r" using p sse_frames_Nil by blast
      then have "sse_frames (c # d # r) = ([], c # d # r)" using False p Nil by auto
      then show ?thesis by (simp only: fst_conv snd_conv append_Nil prod.collapse)
    next
      case (Cons f fs')
      then show ?thesis using 3(2) False p by (auto split: prod.splits)
    qed
  qed
qed simp_all

lemma sse_frames_cr:
  "sse_frames (s @ [CR]) = (fst (sse_frames s), snd (sse_frames s) @ [CR])"
proof (induction s rule: sse_frames.induct)
  case (3 c d r)
  then show ?case by (auto split: prod.splits list.splits if_splits)
qed simp_all

lemma sse_frames_rest: "sse_frames (snd (sse_frames s)) = ([], snd (sse_frames s))"
proof -
  have "fst (sse_frames (snd (sse_frames s))) = []"
    using sse_frames_append [of s "[]"] by (metis append.right_neutral append_self_conv fst_conv)
  then show ?thesis using sse_frames_Nil by (metis prod.collapse)
qed

lemma sse_frames_last:
  "(snd (sse_frames s) = [] \<longrightarrow> s = [] \<or> last s = LF) \<and> (snd (sse_frames s) \<noteq> [] \<longrightarrow> last (snd (sse_frames s)) = last s)"
proof (induction s rule: sse_frames.induct)
  case (3 c d r)
  then show ?case by (auto split: prod.splits list.splits if_splits dest: sse_frames_Nil)
qed simp_all

lemma sse_frames_ends: "ends_with_cr (snd (sse_frames s)) \<longleftrightarrow> ends_with_cr s"
  using sse_frames_last [of s] by (cases s) (auto simp: ends_with_cr_def)

lemma replace_crlf_eq_Nil [simp]: "replace_crlf s = [] \<longleftrightarrow> s = []"
  by (cases s rule: replace_crlf.cases) auto

lemma replace_crlf_LF [simp]: "replace_crlf (LF # s) = LF # replace_crlf s"
  by (cases s) auto

lemma replace_crlf_ends: "ends_with_cr (replace_crlf s) \<longleftrightarrow> ends_with_cr s"
  by (induction s rule: replace_crlf.induct) (auto simp: ends_with_cr_def split: if_splits)

lemma replace_crlf_append:
  "replace_crlf (s @ u) =
     (if ends_with_cr s \<and> starts_with_lf u then butlast (replace_crlf s) else replace_crlf s) @ replace_crlf u"
proof (induction s rule: replace_crlf.induct)
  case (2 c)
  then show ?case by (cases u) (auto simp: ends_with_cr_def starts_with_lf_def)
next
  case (3 c d r)
  then show ?case by (auto simp: ends_with_cr_def)
qed (simp add: ends_with_cr_def)

text \<open>Appending a text to the buffer the way the decoder does.\<close>

definition join_text :: "string \<Rightarrow> string \<Rightarrow> string" where
  "join_text b u = (if ends_with_cr b \<and> starts_with_lf u then butlast b else b) @ replace_crlf u"

lemma join_text_Nil [simp]: "join_text b [] = b" "join_text [] u = replace_crlf u"
  by (simp_all add: join_text_def starts_with_lf_def ends_with_cr_def)

lemma join_text_ends: "ends_with_cr (join_text b u) \<longleftrightarrow> (if u = [] then ends_with_cr b else ends_with_cr u)"
  using replace_crlf_ends [of u] by (cases "u = []") (auto simp: join_text_def ends_with_cr_def starts_with_lf_def)

lemma join_text_append: "join_text b (u @ v) = join_text (join_text b u) v"
proof (cases "u = []")
  case False
  then have "ends_with_cr (join_text b u) \<longleftrightarrow> ends_with_cr u" by (simp add: join_text_ends)
  then show ?thesis using False
    by (simp add: join_text_def replace_crlf_append starts_with_lf_def butlast_append)
qed simp

lemma frames_join_text:
  "sse_frames (join_text s u) =
     (fst (sse_frames s) @ fst (sse_frames (join_text (snd (sse_frames s)) u)),
      snd (sse_frames (join_text (snd (sse_frames s)) u)))"
proof (cases "ends_with_cr s \<and> starts_with_lf u")
  case True
  then obtain t where t: "s = t @ [CR]" by (metis append_butlast_last_id ends_with_cr_def)
  show ?thesis
    using True sse_frames_append [of t "replace_crlf u"]
    by (simp add: join_text_def sse_frames_ends t sse_frames_cr) (simp add: ends_with_cr_def)
next
  case False
  then show ?thesis using sse_frames_append [of s "replace_crlf u"]
    by (auto simp: join_text_def sse_frames_ends)
qed

section \<open>The decoder against the reference\<close>

abbreviation has_error :: "('e + 'a) list \<Rightarrow> bool" where
  "has_error rs \<equiv> \<exists>e. Inl e \<in> set rs"

lemma upto_error_append:
  "upto_error (a @ b) = (if has_error a then upto_error a else a @ upto_error b)"
  by (induction a rule: upto_error.induct) auto

lemma upto_error_id: "\<not> has_error a \<Longrightarrow> upto_error a = a"
  by (induction a rule: upto_error.induct) auto

lemma has_error_upto [simp]: "has_error (upto_error a) \<longleftrightarrow> has_error a"
  by (induction a rule: upto_error.induct) auto

lemma yield_push_loop:
  "yield_results (fst (push_loop from_str b)) =
     (let items = concat (map (frame_items from_str) (fst (sse_frames b))) in (upto_error items, has_error items)) \<and>
   (\<not> has_error (concat (map (frame_items from_str) (fst (sse_frames b)))) \<longrightarrow>
      snd (push_loop from_str b) = snd (sse_frames b))"
proof (induction from_str b rule: push_loop.induct)
  case (1 from_str b)
  show ?case
  proof (cases "str_find [LF, LF] b")
    case None
    then show ?thesis by (simp add: push_loop.simps [of from_str b] str_find_none_frames)
  next
    case (Some i)
    note fr = str_find_some_frames [OF Some]
    show ?thesis
    proof (cases "parse_sse_frame from_str (take i b)")
      case (Inl e)
      then show ?thesis using Some by (auto simp: push_loop.simps [of from_str b] fr frame_items_def Let_def)
    next
      case (Inr r)
      show ?thesis
      proof (cases r)
        case None
        then show ?thesis using 1(1) [OF Some Inr None] Some Inr
          by (simp add: push_loop.simps [of from_str b] fr frame_items_def)
      next
        case (Some event)
        then show ?thesis using 1(2) [OF \<open>str_find [LF, LF] b = Some i\<close> Inr Some] \<open>str_find [LF, LF] b = Some i\<close> Inr
          by (simp add: push_loop.simps [of from_str b] fr frame_items_def Let_def case_prod_beta)
      qed
    qed
  qed
qed

text \<open>Collecting the results keeps the events if there is no error, and none of them otherwise.\<close>

lemma push_bytes_Inr_iff:
  "fst (push_bytes from_str c d) = Inr events \<longleftrightarrow> fst (push_bytes_results from_str c d) = map Inr events"
  by (simp add: push_bytes_def collect_results_Inr_iff list_all2_conv_all_nth list_eq_iff_nth_eq) auto

section \<open>UTF-8\<close>

lemma byte_at_simps:
  "byte_at (a # r) 0 = a" "byte_at (a # b # r) (Suc 0) = b"
  "byte_at (a # b # c # r) 2 = c" "byte_at (a # b # c # d # r) 3 = d"
  by (simp_all add: byte_at_def)

lemma valid_utf8_cases:
  assumes "valid_utf8_bytes (a # r)"
  obtains "a < 128" "valid_utf8_bytes r"
  | b r1 where "r = b # r1" "194 \<le> a" "a \<le> 223" "utf8_tail b" "valid_utf8_bytes r1"
  | b c r2 where "r = b # c # r2" "224 \<le> a" "a \<le> 239" "second_byte_ok a b" "utf8_tail c" "valid_utf8_bytes r2"
  | b c d r3 where "r = b # c # d # r3" "240 \<le> a" "a \<le> 244" "second_byte_ok a b" "utf8_tail c" "utf8_tail d"
      "valid_utf8_bytes r3"
proof -
  consider "a < 128" | "194 \<le> a" "a \<le> 223" | "224 \<le> a" "a \<le> 239" | "\<not> a < 128" "\<not> (194 \<le> a \<and> a \<le> 223)" "\<not> (224 \<le> a \<and> a \<le> 239)"
    by argo
  then show ?thesis
  proof cases
    case 1
    then show ?thesis using assms that(1) by simp
  next
    case 2
    then show ?thesis using assms that(2) by (cases r) (simp_all split: if_splits)
  next
    case 3
    obtain b c r2 where r: "r = b # c # r2" using assms 3 by (simp split: list.splits)
    have "second_byte_ok a b" "utf8_tail c" "valid_utf8_bytes r2"
      using assms 3 by (simp_all add: r second_byte_ok_def split: if_splits)
    then show ?thesis using 3 r that(3) by blast
  next
    case 4
    obtain b c d r3 where r: "r = b # c # d # r3" using assms 4 by (auto split: list.splits if_splits)
    have v: "240 \<le> a \<and> a \<le> 244 \<and>
        (if a = 240 then 144 \<le> b \<and> b \<le> 191 else if a = 244 then 128 \<le> b \<and> b \<le> 143 else utf8_tail b) \<and>
        utf8_tail c \<and> utf8_tail d \<and> valid_utf8_bytes r3"
      using assms 4 by (auto simp: r split: if_splits)
    then have "second_byte_ok a b" by (simp add: second_byte_ok_def split: if_splits)
    then show ?thesis using v r that(4) by blast
  qed
qed

lemma utf8_piece_valid:
  assumes "valid_utf8_bytes bs" "bs \<noteq> []"
  shows "fst (utf8_piece bs) \<and> valid_utf8_bytes (drop (snd (utf8_piece bs)) bs)"
proof -
  obtain a r where bs: "bs = a # r" using assms(2) by (cases bs) auto
  consider "a < 128" "valid_utf8_bytes r"
    | b r1 where "r = b # r1" "194 \<le> a" "a \<le> 223" "utf8_tail b" "valid_utf8_bytes r1"
    | b c r2 where "r = b # c # r2" "224 \<le> a" "a \<le> 239" "second_byte_ok a b" "utf8_tail c" "valid_utf8_bytes r2"
    | b c d r3 where "r = b # c # d # r3" "240 \<le> a" "a \<le> 244" "second_byte_ok a b" "utf8_tail c" "utf8_tail d"
        "valid_utf8_bytes r3"
    using assms(1) unfolding bs by (rule valid_utf8_cases)
  then show ?thesis
    by cases (simp_all add: utf8_piece_def byte_at_simps bs)
qed

lemma lossy_bytes_valid: "valid_utf8_bytes bs \<Longrightarrow> lossy_bytes bs = bs"
proof (induction bs rule: lossy_bytes.induct)
  case (1 bs)
  then show ?case
    using utf8_piece_valid [of bs] by (subst lossy_bytes.simps) auto
qed

lemma from_utf8_lossy_valid: "valid_utf8 s \<Longrightarrow> from_utf8_lossy s = s"
  by (simp add: from_utf8_lossy_def valid_utf8_def lossy_bytes_valid comp_def)

lemma lossy_bytes_head:
  obtains r where "lossy_bytes (a # bs) = a # r" | r where "128 \<le> a" "lossy_bytes (a # bs) = 239 # r"
proof (cases "fst (utf8_piece (a # bs))")
  case True
  obtain n where "snd (utf8_piece (a # bs)) = Suc n" using utf8_piece_pos [of "a # bs"] by (cases "snd (utf8_piece (a # bs))") auto
  then show ?thesis using that(1) True by (simp add: lossy_bytes.simps [of "a # bs"])
next
  case False
  then have "128 \<le> a" by (auto simp: utf8_piece_def byte_at_def Let_def split: if_splits)
  then show ?thesis using that(2) False by (simp add: lossy_bytes.simps [of "a # bs"])
qed

lemma lossy_bytes_Nil [simp]: "lossy_bytes [] = []"
  by (subst lossy_bytes.simps) simp

lemma starts_with_lf_lossy: "starts_with_lf (from_utf8_lossy s) \<longleftrightarrow> starts_with_lf s"
proof (cases s)
  case (Cons c r)
  have no: "char_of (239 :: nat) \<noteq> LF" by code_simp
  show ?thesis
    by (cases rule: lossy_bytes_head [of "of_char c" "map of_char r"])
      (auto simp: Cons from_utf8_lossy_def starts_with_lf_def no)
qed (simp add: from_utf8_lossy_def starts_with_lf_def)

section \<open>Chunks do not matter\<close>

text \<open>What a reader of all chunks sees up to the first error, whether there is one, and the decoder then.\<close>

fun push_chunks ::
  "(string \<Rightarrow> string + json) \<Rightarrow> string list \<Rightarrow> sse_event_decoder \<Rightarrow> (flow_error + json) list \<times> bool \<times> sse_event_decoder" where
  "push_chunks from_str [] d = ([], False, d)"
| "push_chunks from_str (c # cs) d =
     (let (rs, d') = push_bytes_results from_str c d; (ys, stop) = yield_results rs
      in if stop then (ys, True, d')
         else let (zs, more) = push_chunks from_str cs d' in (ys @ zs, more))"

lemma push_chunks_joined:
  fixes chunks from_str
  assumes "sse_frames (sd_buffer d) = ([], sd_buffer d)"
  defines "p \<equiv> sse_frames (join_text (sd_buffer d) (concat (map from_utf8_lossy chunks)))"
  defines "items \<equiv> concat (map (frame_items from_str) (fst p))"
  shows "fst (push_chunks from_str chunks d) = upto_error items \<and>
    fst (snd (push_chunks from_str chunks d)) = has_error items \<and>
    (\<not> has_error items \<longrightarrow> snd (snd (push_chunks from_str chunks d)) = d\<lparr>sd_buffer := snd p\<rparr>)"
  using assms(1) unfolding p_def items_def
proof (induction chunks arbitrary: d)
  case (Cons c cs)
  let ?t = "join_text (sd_buffer d) (from_utf8_lossy c)"
  let ?r = "sse_frames (join_text (snd (sse_frames ?t)) (concat (map from_utf8_lossy cs)))"
  define now where "now = concat (map (frame_items from_str) (fst (sse_frames ?t)))"
  define later where "later = concat (map (frame_items from_str) (fst ?r))"
  obtain rs b where p: "push_loop from_str ?t = (rs, b)" by fastforce
  have push: "push_bytes_results from_str c d = (rs, d\<lparr>sd_buffer := b\<rparr>)"
    using p by (simp add: push_bytes_results_def join_text_def starts_with_lf_lossy Let_def)
  have y: "yield_results rs = (upto_error now, has_error now)"
    "\<not> has_error now \<Longrightarrow> b = snd (sse_frames ?t)"
    using yield_push_loop [of from_str ?t] unfolding p now_def [symmetric] by (simp_all add: Let_def)
  have whole: "concat (map (frame_items from_str) (fst (sse_frames (join_text (sd_buffer d) (concat (map from_utf8_lossy (c # cs))))))) =
      now @ later"
    "snd (sse_frames (join_text (sd_buffer d) (concat (map from_utf8_lossy (c # cs))))) = snd ?r"
    using frames_join_text [of ?t "concat (map from_utf8_lossy cs)"]
    by (simp_all add: join_text_append now_def later_def)
  show ?case
  proof (cases "has_error now")
    case True
    then show ?thesis unfolding whole by (auto simp: push y(1) upto_error_append)
  next
    case False
    then have b: "b = snd (sse_frames ?t)" by (rule y(2))
    then have "sse_frames b = ([], b)" by (simp add: sse_frames_rest)
    then have "fst (push_chunks from_str cs (d\<lparr>sd_buffer := b\<rparr>)) = upto_error later \<and>
        fst (snd (push_chunks from_str cs (d\<lparr>sd_buffer := b\<rparr>))) = has_error later \<and>
        (\<not> has_error later \<longrightarrow> snd (snd (push_chunks from_str cs (d\<lparr>sd_buffer := b\<rparr>))) = d\<lparr>sd_buffer := snd ?r\<rparr>)"
      using Cons.IH [of "d\<lparr>sd_buffer := b\<rparr>"] unfolding later_def b by simp
    then show ?thesis using False unfolding whole
      by (simp add: push y(1) upto_error_append upto_error_id case_prod_beta)
  qed
qed simp

text \<open>The same for a new decoder and chunks that end between characters.\<close>

lemma push_chunks_new:
  fixes from_str chunks
  defines "p \<equiv> sse_frames (replace_crlf (concat chunks))"
  defines "items \<equiv> concat (map (frame_items from_str) (fst p))"
  assumes "\<forall>c\<in>set chunks. valid_utf8 c"
  shows "\<exists>d. push_chunks from_str chunks sse_event_decoder_new = (upto_error items, has_error items, d) \<and>
    (\<not> has_error items \<longrightarrow> sd_buffer d = snd p)"
proof -
  have "map from_utf8_lossy chunks = chunks" using assms(3) by (induction chunks) (auto simp: from_utf8_lossy_valid)
  then show ?thesis
    using push_chunks_joined [where d = sse_event_decoder_new and chunks = chunks and from_str = from_str]
    unfolding items_def p_def by (cases "push_chunks from_str chunks sse_event_decoder_new")
      (auto simp: sse_event_decoder_new_def)
qed

lemma sse_json_loop_push:
  "sse_json_loop from_str (map Inr chunks) d =
     (case push_chunks from_str chunks d of (ys, stop, d') \<Rightarrow> if stop then ys else ys @ sse_json_loop from_str [] d')"
  by (induction chunks arbitrary: d) (auto simp: Let_def split: prod.splits)

lemma sse_json_stream_joined:
  assumes "\<forall>c\<in>set chunks. valid_utf8 c"
  shows "sse_json_stream from_str (map Inr chunks) = sse_reference from_str (concat chunks)"
proof -
  let ?p = "sse_frames (replace_crlf (concat chunks))"
  define items where "items = concat (map (frame_items from_str) (fst ?p))"
  obtain d where d: "push_chunks from_str chunks sse_event_decoder_new = (upto_error items, has_error items, d)"
    "\<not> has_error items \<longrightarrow> sd_buffer d = snd ?p"
    using push_chunks_new [OF assms] unfolding items_def by blast
  have ref: "sse_reference from_str (concat chunks) =
      upto_error (items @ (if str_trim (snd ?p) = [] then [] else frame_items from_str (snd ?p)))"
    by (simp add: sse_reference_def reference_items_def items_def case_prod_beta)
  show ?thesis
    using d(2) unfolding ref sse_json_stream_def sse_json_loop_push d(1)
    by (auto simp: upto_error_append upto_error_id sse_finish_def frame_items_def split: sum.splits option.splits)
qed

text \<open>
  C24. How a provider's byte stream is cut into chunks does not matter. For chunks that end between
  characters, the items the gateway's stream yields are those of the whole text: line ends become
  LF, a frame ends at an empty line, its payload is parsed, frames without data and the end sentinel
  are dropped, a last frame without its empty line counts too, and nothing follows the first payload
  that does not parse. This holds wherever a chunk ends, also inside a frame, inside its empty line
  or between CR and LF.
\<close>

theorem chunks_do_not_matter:
  assumes "\<forall>c\<in>set chunks. valid_utf8 c"
  shows "sse_json_stream from_str (map Inr chunks) = sse_reference from_str (concat chunks)"
  using assms by (rule sse_json_stream_joined)

definition one_payload :: "string \<Rightarrow> string + json" where
  "one_payload s = (if s = ''1'' then Inr (JBool True) else if s = ''2'' then Inr JNull else Inl ''expected value'')"

lemmas sse_evaluation =
  sse_json_stream_def sse_event_decoder_new_def push_bytes_results_def sse_finish_def ends_with_cr_def starts_with_lf_def
  frame_items_def parse_sse_frame_def parse_sse_line_def strip_prefix_def str_trim_plain
  sse_reference_def reference_items_def one_payload_def

theorem chunks_do_not_matter_witness:
  "sse_json_stream one_payload
     (map Inr [''event: a'' @ [CR], [LF] @ ''data: 1'' @ [LF], [LF] @ ''data: '', ''2'' @ [LF], [LF] @ ''data: x'' @ [CR], [LF], [CR, LF] @ ''data: 1'']) =
   [Inr (JBool True), Inr JNull,
    Inl (Internal ''streaming codec failed to parse SSE data payload: expected value: x'')]"
proof -
  let ?chunks = "[''event: a'' @ [CR], [LF] @ ''data: 1'' @ [LF], [LF] @ ''data: '', ''2'' @ [LF], [LF] @ ''data: x'' @ [CR], [LF], [CR, LF] @ ''data: 1'']"
  have "\<forall>c\<in>set ?chunks. valid_utf8 c" by code_simp
  moreover have "sse_reference one_payload (concat ?chunks) =
      [Inr (JBool True), Inr JNull,
       Inl (Internal ''streaming codec failed to parse SSE data payload: expected value: x'')]"
    by (simp add: sse_evaluation)
  ultimately show ?thesis using chunks_do_not_matter [of ?chunks one_payload] by simp
qed

text \<open>
  The chunks must end between characters: each chunk is decoded on its own, so a character that is
  split between two chunks arrives as two replacement characters.
\<close>

lemma split_character_is_replaced:
  "sse_json_stream (\<lambda>s. Inr (JString s)) (map Inr [''data: '' @ [CHR 0xC3], [CHR 0xBC, LF, LF]]) =
     [Inr (JString [CHR 0xEF, CHR 0xBF, CHR 0xBD, CHR 0xEF, CHR 0xBF, CHR 0xBD])]"
  "sse_json_stream (\<lambda>s. Inr (JString s)) (map Inr [''data: '' @ [CHR 0xC3, CHR 0xBC, LF, LF]]) =
     [Inr (JString [CHR 0xC3, CHR 0xBC])]"
proof -
  have lossy: "from_utf8_lossy (''data: '' @ [CHR 0xC3]) = ''data: '' @ [CHR 0xEF, CHR 0xBF, CHR 0xBD]"
    "from_utf8_lossy [CHR 0xBC, LF, LF] = [CHR 0xEF, CHR 0xBF, CHR 0xBD, LF, LF]"
    "from_utf8_lossy (''data: '' @ [CHR 0xC3, CHR 0xBC, LF, LF]) = ''data: '' @ [CHR 0xC3, CHR 0xBC, LF, LF]"
    by code_simp+
  have "str_trim [] = []" by (simp add: str_trim_plain)
  note ev = lossy [simplified] this push_loop.simps sse_evaluation
  show "sse_json_stream (\<lambda>s. Inr (JString s)) (map Inr [''data: '' @ [CHR 0xC3], [CHR 0xBC, LF, LF]]) =
     [Inr (JString [CHR 0xEF, CHR 0xBF, CHR 0xBD, CHR 0xEF, CHR 0xBF, CHR 0xBD])]"
    by (simp add: ev)
  show "sse_json_stream (\<lambda>s. Inr (JString s)) (map Inr [''data: '' @ [CHR 0xC3, CHR 0xBC, LF, LF]]) =
     [Inr (JString [CHR 0xC3, CHR 0xBC])]"
    by (simp add: ev)
qed

section \<open>Frames written by the gateway\<close>

lemma str_find_frame_end: "str_find [LF, LF] (b @ [LF]) = None \<Longrightarrow> str_find [LF, LF] (b @ LF # LF # t) = Some (length b)"
proof (induction b)
  case (Cons c b)
  then show ?case by (cases b) (auto split: if_splits)
qed simp

lemma sse_frames_frame:
  assumes "str_find [LF, LF] (b @ [LF]) = None"
  shows "sse_frames (b @ LF # LF # t) = (b # fst (sse_frames t), snd (sse_frames t))"
  using str_find_some_frames [OF str_find_frame_end [OF assms, of t]] by simp

lemma one_line_no_gap: "LF \<notin> set l \<Longrightarrow> str_find [LF, LF] (l @ [LF]) = None"
proof (induction l)
  case (Cons c l)
  then show ?case by (cases l) auto
qed simp

lemma two_lines_no_gap:
  assumes "LF \<notin> set l" "LF \<notin> set m" "m \<noteq> []"
  shows "str_find [LF, LF] (l @ LF # m @ [LF]) = None"
  using assms(1)
proof (induction l)
  case Nil
  then show ?case using one_line_no_gap [OF assms(2)] assms(2,3) by (cases m) auto
next
  case (Cons c l)
  then show ?case by (cases l) auto
qed

lemma replace_crlf_id: "CR \<notin> set s \<Longrightarrow> replace_crlf s = s"
  by (induction s rule: replace_crlf.induct) auto

text \<open>What the gateway relies on: the printed payload is one line and parses to the payload.\<close>

definition one_line_payload :: "(string \<Rightarrow> string + json) \<Rightarrow> (json \<Rightarrow> string + string) \<Rightarrow> json \<Rightarrow> bool" where
  "one_line_payload from_str to_string j \<longleftrightarrow>
     (case to_string j of
       Inl _ \<Rightarrow> False
     | Inr s \<Rightarrow> from_str s = Inr j \<and> LF \<notin> set s \<and> CR \<notin> set s \<and> str_trim s = s \<and> s \<noteq> ''[DONE]'')"

text \<open>
  The Anthropic route and the Responses route repeat the type of a payload in an event line; the other
  routes write no such line and put no condition on it.
\<close>

definition one_line_type :: "provider_route \<Rightarrow> json \<Rightarrow> bool" where
  "one_line_type route j \<longleftrightarrow> route \<notin> {AnthropicMessages, OpenAiResponses} \<or>
     (case Option.bind (json_get j ''type'') json_as_str of
       None \<Rightarrow> True | Some name \<Rightarrow> LF \<notin> set name \<and> CR \<notin> set name)"

lemma parse_event_line: "parse_sse_line (''event: '' @ name) acc = (Some (str_trim (CHR '' '' # name)), snd acc)"
  by (simp add: parse_sse_line_def strip_prefix_def)

lemma parse_data_line: "parse_sse_line (''data: '' @ s) acc = (fst acc, snd acc @ [s])"
  by (simp add: parse_sse_line_def strip_prefix_def)

lemma split_frame_lines:
  assumes "LF \<notin> set s"
  shows "split_on LF (''data: '' @ s) = [''data: '' @ s]"
    "LF \<notin> set name \<Longrightarrow> split_on LF (''event: '' @ name @ LF # ''data: '' @ s) = [''event: '' @ name, ''data: '' @ s]"
proof -
  show d: "split_on LF (''data: '' @ s) = [''data: '' @ s]" by (rule split_on_no_sep) (simp add: assms)
  assume "LF \<notin> set name"
  then have "LF \<notin> set (''event: '' @ name)" by simp
  from split_on_append_sep [OF this, of "''data: '' @ s"]
  show "split_on LF (''event: '' @ name @ LF # ''data: '' @ s) = [''event: '' @ name, ''data: '' @ s]"
    unfolding d by simp
qed

lemma data_line_item:
  assumes "from_str s = Inr j" "str_trim s = s" "s \<noteq> ''[DONE]''" "LF \<notin> set s"
  shows "frame_items from_str (''data: '' @ s) = [Inr j]"
    "LF \<notin> set name \<Longrightarrow> frame_items from_str (''event: '' @ name @ LF # ''data: '' @ s) = [Inr j]"
proof -
  show "frame_items from_str (''data: '' @ s) = [Inr j]"
    unfolding frame_items_def parse_sse_frame_def split_frame_lines(1) [OF assms(4)] fold.simps comp_def id_def parse_data_line
    by (simp add: assms)
  assume n: "LF \<notin> set name"
  show "frame_items from_str (''event: '' @ name @ LF # ''data: '' @ s) = [Inr j]"
    unfolding frame_items_def parse_sse_frame_def split_frame_lines(2) [OF assms(4) n] fold.simps comp_def id_def
      parse_event_line parse_data_line
    by (simp add: assms)
qed

lemma done_frame:
  "frame_items from_str ''data: [DONE]'' = []"
proof -
  have "split_on LF ''data: [DONE]'' = [''data: '' @ ''[DONE]'']" "str_trim ''[DONE]'' = ''[DONE]''" 
    by (simp_all add: str_trim_plain)
  then show ?thesis unfolding frame_items_def parse_sse_frame_def
    by (simp only: fold.simps comp_def id_def parse_data_line) simp
qed

lemma encoded_frame:
  assumes "one_line_payload from_str to_string j" "one_line_type route j"
  obtains b where "encode_sse_frame to_string j route = b @ [LF, LF]" "CR \<notin> set b"
    "str_find [LF, LF] (b @ [LF]) = None" "frame_items from_str b = [Inr j]"
proof -
  obtain s where s: "to_string j = Inr s" "from_str s = Inr j" "LF \<notin> set s" "CR \<notin> set s" "str_trim s = s" "s \<noteq> ''[DONE]''"
    using assms(1) by (auto simp: one_line_payload_def split: sum.splits)
  let ?d = "''data: '' @ s"
  have d: "LF \<notin> set ?d" "CR \<notin> set ?d" using s(3,4) by auto
  consider "encode_sse_frame to_string j route = ?d @ [LF, LF]"
    | name where "encode_sse_frame to_string j route = (''event: '' @ name @ LF # ?d) @ [LF, LF]" "LF \<notin> set name" "CR \<notin> set name"
    using assms(2) by (cases route)
      (auto simp: encode_sse_frame_def s(1) one_line_type_def split: option.splits)
  then show ?thesis
  proof cases
    case 1
    then show ?thesis using that [OF 1 d(2) one_line_no_gap [OF d(1)]] data_line_item(1) s by blast
  next
    case 2
    have e: "LF \<notin> set (''event: '' @ name)" using 2 by simp
    show ?thesis
    proof (rule that [OF 2(1)])
      show "str_find [LF, LF] ((''event: '' @ name @ LF # ?d) @ [LF]) = None"
        using two_lines_no_gap [OF e d(1)] by simp
      show "frame_items from_str (''event: '' @ name @ LF # ?d) = [Inr j]"
        using s 2(2) by (intro data_line_item(2))
    qed (use 2 d in simp)
  qed
qed

lemma body_bytes_simps [simp]:
  "body_bytes [] = []" "body_bytes (YieldFrame s # as) = s @ body_bytes as" "body_bytes (FinishCall # as) = body_bytes as"
  by (simp_all add: body_bytes_def)

lemma client_body_frames:
  assumes "\<forall>j\<in>set js. one_line_payload from_str to_string j \<and> one_line_type route j"
  shows "\<exists>fs. sse_frames (body_bytes (client_sse_body to_string route (map Inr js))) = (fs, []) \<and>
      concat (map (frame_items from_str) fs) = map Inr js \<and>
      CR \<notin> set (body_bytes (client_sse_body to_string route (map Inr js)))"
  using assms
proof (induction js)
  case Nil
  have "str_find [LF, LF] (''data: [DONE]'' @ [LF]) = None" by code_simp
  from sse_frames_frame [OF this, of "[]"]
  have "sse_frames (''data: [DONE]'' @ [LF, LF]) = ([''data: [DONE]''], [])" by simp
  then show ?case
    by (cases "route = OpenAiChatCompletions") (auto simp: done_frame simp del: sse_frames.simps(3))
next
  case (Cons j js)
  then obtain fs where fs: "sse_frames (body_bytes (client_sse_body to_string route (map Inr js))) = (fs, [])"
    "concat (map (frame_items from_str) fs) = map Inr js"
    "CR \<notin> set (body_bytes (client_sse_body to_string route (map Inr js)))" by auto
  obtain b where b: "encode_sse_frame to_string j route = b @ [LF, LF]" "CR \<notin> set b"
    "str_find [LF, LF] (b @ [LF]) = None" "frame_items from_str b = [Inr j]"
    using Cons.prems encoded_frame by (metis list.set_intros(1))
  show ?case using sse_frames_frame [OF b(3), of "body_bytes (client_sse_body to_string route (map Inr js))"] fs b by auto
qed

text \<open>
  C36. The gateway hands a stream on without loss, under two conditions on each payload: the printer of
  \<^verbatim>\<open>serde_json\<close>, a parameter here, prints it as one line other than the end marker that parses back to it;
  and on the two routes that repeat the type of a payload in an event line this type has no line
  break. Then the frames the gateway writes for its own client, cut into chunks anywhere between
  characters, decode to exactly the payloads it was given, in order and with nothing added. Without
  the condition on the type the client can read a payload that nobody sent, see
  \<^verbatim>\<open>type_with_line_break_adds_payload\<close> below.
\<close>

theorem gateway_stream_roundtrip:
  assumes "\<forall>j\<in>set js. one_line_payload from_str to_string j \<and> one_line_type route j"
    and "concat chunks = body_bytes (client_sse_body to_string route (map Inr js))"
    and "\<forall>c\<in>set chunks. valid_utf8 c"
  shows "sse_json_stream from_str (map Inr chunks) = map Inr js"
proof -
  obtain fs where "sse_frames (concat chunks) = (fs, [])" "concat (map (frame_items from_str) fs) = map Inr js"
      "CR \<notin> set (concat chunks)"
    using client_body_frames [OF assms(1)] assms(2) by metis
  moreover have "str_trim [] = []" by (simp add: str_trim_plain)
  moreover have "upto_error (map Inr js) = (map Inr js :: (flow_error + json) list)" by (rule upto_error_id) auto
  ultimately show ?thesis
    by (simp add: sse_json_stream_joined [OF assms(3)] sse_reference_def replace_crlf_id reference_items_def)
qed

definition print_one :: "json \<Rightarrow> string + string" where
  "print_one j = (if j = JBool True then Inr ''1'' else if j = JNull then Inr ''2'' else Inl ''unsupported'')"

theorem gateway_stream_roundtrip_witness:
  "sse_json_stream one_payload (map Inr [''data: 1'' @ [LF], [LF] @ ''data: 2'' @ [LF, LF] @ ''data: [DO'', ''NE]'' @ [LF, LF]]) =
     map Inr [JBool True, JNull]"
proof -
  let ?chunks = "[''data: 1'' @ [LF], [LF] @ ''data: 2'' @ [LF, LF] @ ''data: [DO'', ''NE]'' @ [LF, LF]]"
  have "\<forall>j\<in>set [JBool True, JNull]. one_line_payload one_payload print_one j \<and> one_line_type OpenAiChatCompletions j"
    by (simp add: one_line_payload_def one_line_type_def print_one_def one_payload_def str_trim_plain)
  moreover have "concat ?chunks = body_bytes (client_sse_body print_one OpenAiChatCompletions (map Inr [JBool True, JNull]))" by code_simp
  moreover have "\<forall>c\<in>set ?chunks. valid_utf8 c" by code_simp
  ultimately show ?thesis by (rule gateway_stream_roundtrip)
qed

text \<open>
  The type must not have line breaks: it is written into the event line as it is, so a payload whose
  type holds an empty line and a data line makes the client read a payload that nobody sent.
\<close>

lemma type_with_line_break_adds_payload:
  defines "j \<equiv> JObject [(''type'', JString (''x'' @ [LF, LF] @ ''data: 2'' @ [LF]))]"
  defines "from_str \<equiv> \<lambda>s. if s = ''1'' then Inr j else one_payload s"
  defines "written \<equiv> body_bytes (client_sse_body (\<lambda>_. Inr ''1'') AnthropicMessages [Inr j])"
  shows "one_line_payload from_str (\<lambda>_. Inr ''1'') j" "sse_json_stream from_str [Inr written] = [Inr JNull, Inr j]"
proof -
  show "one_line_payload from_str (\<lambda>_. Inr ''1'') j"
    by (simp add: one_line_payload_def from_str_def str_trim_plain)
  have w: "written = ''event: x'' @ [LF, LF] @ ''data: 2'' @ [LF, LF] @ ''data: 1'' @ [LF, LF]"
    by (simp add: written_def j_def encode_sse_frame_def)
  have "valid_utf8 written" unfolding w by code_simp
  then have "sse_json_stream from_str (map Inr [written]) = sse_reference from_str (concat [written])"
    by (intro sse_json_stream_joined) simp
  then show "sse_json_stream from_str [Inr written] = [Inr JNull, Inr j]"
    unfolding w from_str_def by (simp add: sse_evaluation)
qed

end
