(* ===== verification/Stream_Codecs.thy ===== *)
theory Stream_Codecs
  imports Sse_Decoder Chunk_Marks
begin

text \<open>
  The accumulators that assemble one response from the events of a stream:
  \<^verbatim>\<open>OpenAIChatStreamingState\<close> (\<^verbatim>\<open>crates/core/src/codec/openai_chat.rs\<close>) and
  \<^verbatim>\<open>AnthropicMessagesStreamingState\<close> (\<^verbatim>\<open>crates/core/src/codec/anthropic.rs\<close>), and the observer of a
  managed worker that feeds them from the bytes of a response
  (\<^verbatim>\<open>crates/cli/src/daemon/worker/managed.rs\<close>).
\<close>

section \<open>Reading events\<close>

abbreviation str_at :: "json \<Rightarrow> string \<Rightarrow> string option" where
  "str_at j k \<equiv> Option.bind (json_get j k) json_as_str"

abbreviation u64_at :: "json \<Rightarrow> string \<Rightarrow> 64 word option" where
  "u64_at j k \<equiv> Option.bind (json_get j k) json_as_u64"

abbreviation array_at :: "json \<Rightarrow> string \<Rightarrow> json list option" where
  "array_at j k \<equiv> Option.bind (json_get j k) json_as_array"

text \<open>A field that keeps its first value, and one that takes every new value.\<close>

fun keep_first :: "'a option \<Rightarrow> 'a option \<Rightarrow> 'a option" where
  "keep_first (Some v) _ = Some v"
| "keep_first None w = w"

fun take_new :: "'a option \<Rightarrow> 'a option \<Rightarrow> 'a option" where
  "take_new v None = v"
| "take_new v (Some w) = Some w"

text \<open>\<^verbatim>\<open>entry(k).or_default()\<close> followed by an update in place.\<close>

definition bt_update :: "'k::linorder \<Rightarrow> 'v \<Rightarrow> ('v \<Rightarrow> 'v) \<Rightarrow> ('k \<times> 'v) list \<Rightarrow> ('k \<times> 'v) list" where
  "bt_update k dflt f m = bt_insert k (f (case map_of m k of Some v \<Rightarrow> v | None \<Rightarrow> dflt)) m"

definition strip_suffix :: "string \<Rightarrow> string \<Rightarrow> string option" where
  "strip_suffix p s = map_option rev (strip_prefix (rev p) (rev s))"

section \<open>OpenAI Chat Completions\<close>

record tool_call_state =
  tcs_id :: "string option"
  tcs_type :: "string option"
  tcs_name :: "string option"
  tcs_arguments :: string

record choice_state =
  chs_role :: "string option"
  chs_content :: string
  chs_has_content :: bool
  chs_tool_calls :: "(64 word \<times> tool_call_state) list"
  chs_finish_reason :: "string option"

record openai_chat_streaming_state =
  ocs_id :: "string option"
  ocs_object :: "string option"
  ocs_created :: "64 word option"
  ocs_model :: "string option"
  ocs_choices :: "(64 word \<times> choice_state) list"
  ocs_usage :: "json option"

definition tool_call_default :: tool_call_state where
  "tool_call_default = \<lparr>tcs_id = None, tcs_type = None, tcs_name = None, tcs_arguments = []\<rparr>"

definition choice_default :: choice_state where
  "choice_default = \<lparr>chs_role = None, chs_content = [], chs_has_content = False, chs_tool_calls = [], chs_finish_reason = None\<rparr>"

definition openai_chat_default :: openai_chat_streaming_state where
  "openai_chat_default = \<lparr>ocs_id = None, ocs_object = None, ocs_created = None, ocs_model = None, ocs_choices = [], ocs_usage = None\<rparr>"

definition observe_function :: "json \<Rightarrow> tool_call_state \<Rightarrow> tool_call_state" where
  "observe_function function t =
     (let t1 = t\<lparr>tcs_name := take_new (tcs_name t) (str_at function ''name'')\<rparr>
      in case str_at function ''arguments'' of
           Some args \<Rightarrow> t1\<lparr>tcs_arguments := tcs_arguments t1 @ args\<rparr>
         | None \<Rightarrow> t1)"

definition observe_tool_call_entry :: "json \<Rightarrow> tool_call_state \<Rightarrow> tool_call_state" where
  "observe_tool_call_entry tool_call t =
     (let t1 = t\<lparr>tcs_id := take_new (tcs_id t) (str_at tool_call ''id''),
                tcs_type := take_new (tcs_type t) (str_at tool_call ''type'')\<rparr>
      in case json_get tool_call ''function'' of Some function \<Rightarrow> observe_function function t1 | None \<Rightarrow> t1)"

definition index_of :: "json \<Rightarrow> 64 word" where
  "index_of j = (case u64_at j ''index'' of Some i \<Rightarrow> i | None \<Rightarrow> 0)"

definition observe_tool_call :: "json \<Rightarrow> choice_state \<Rightarrow> choice_state" where
  "observe_tool_call tool_call c =
     c\<lparr>chs_tool_calls := bt_update (index_of tool_call) tool_call_default (observe_tool_call_entry tool_call) (chs_tool_calls c)\<rparr>"

definition observe_tool_calls :: "json \<Rightarrow> choice_state \<Rightarrow> choice_state" where
  "observe_tool_calls delta c =
     (case array_at delta ''tool_calls'' of Some tcs \<Rightarrow> fold observe_tool_call tcs c | None \<Rightarrow> c)"

definition observe_finish_reason :: "json \<Rightarrow> choice_state \<Rightarrow> choice_state" where
  "observe_finish_reason choice c = c\<lparr>chs_finish_reason := take_new (chs_finish_reason c) (str_at choice ''finish_reason'')\<rparr>"

definition observe_delta :: "json option \<Rightarrow> choice_state \<Rightarrow> choice_state" where
  "observe_delta delta c =
     (case delta of
       None \<Rightarrow> c
     | Some d \<Rightarrow>
         let c1 = c\<lparr>chs_role := take_new (chs_role c) (str_at d ''role'')\<rparr>;
             c2 = (case str_at d ''content'' of
                     Some content \<Rightarrow> c1\<lparr>chs_content := chs_content c1 @ content, chs_has_content := True\<rparr>
                   | None \<Rightarrow> c1)
         in observe_tool_calls d c2)"

definition observe_choice :: "json \<Rightarrow> openai_chat_streaming_state \<Rightarrow> openai_chat_streaming_state" where
  "observe_choice choice s =
     s\<lparr>ocs_choices := bt_update (index_of choice) choice_default
         (\<lambda>c. observe_delta (json_get choice ''delta'') (observe_finish_reason choice c)) (ocs_choices s)\<rparr>"

definition observe_chat :: "json \<Rightarrow> openai_chat_streaming_state \<Rightarrow> openai_chat_streaming_state" where
  "observe_chat chunk s =
     (let s1 = s\<lparr>ocs_id := keep_first (ocs_id s) (str_at chunk ''id''),
                ocs_object := keep_first (ocs_object s) (str_at chunk ''object''),
                ocs_created := keep_first (ocs_created s) (u64_at chunk ''created''),
                ocs_model := keep_first (ocs_model s) (str_at chunk ''model'')\<rparr>;
          s2 = (case json_get chunk ''usage'' of
                  Some u \<Rightarrow> (if u = JNull then s1 else s1\<lparr>ocs_usage := Some u\<rparr>)
                | None \<Rightarrow> s1)
      in case array_at chunk ''choices'' of
           None \<Rightarrow> s2
         | Some choices \<Rightarrow> fold observe_choice choices s2)"

definition tool_call_finalize :: "tool_call_state \<Rightarrow> json" where
  "tool_call_finalize t =
     (let function = bt_insert ''arguments'' (JString (tcs_arguments t))
            (bt_insert ''name'' (JString (case tcs_name t of Some n \<Rightarrow> n | None \<Rightarrow> [])) []);
          call = insert_some ''id'' (map_option JString (tcs_id t)) []
      in JObject (bt_insert ''function'' (JObject function)
           (bt_insert ''type'' (JString (case tcs_type t of Some ty \<Rightarrow> ty | None \<Rightarrow> ''function'')) call)))"

definition choice_finalize :: "64 word \<Rightarrow> choice_state \<Rightarrow> json" where
  "choice_finalize index c =
     (let m1 = bt_insert ''role'' (JString (case chs_role c of Some r \<Rightarrow> r | None \<Rightarrow> ''assistant'')) [];
          m2 = bt_insert ''content'' (if chs_has_content c then JString (chs_content c) else JNull) m1;
          m3 = (if chs_tool_calls c = [] then m2
                else bt_insert ''tool_calls'' (JArray (map (tool_call_finalize \<circ> snd) (chs_tool_calls c))) m2)
      in JObject (bt_insert ''finish_reason'' (case chs_finish_reason c of Some r \<Rightarrow> JString r | None \<Rightarrow> JNull)
           (bt_insert ''message'' (JObject m3) (bt_insert ''index'' (json_u64 index) []))))"

definition chat_finalize :: "openai_chat_streaming_state \<Rightarrow> json" where
  "chat_finalize s =
     (let o1 = insert_some ''id'' (map_option JString (ocs_id s)) [];
          o2 = insert_some ''object''
                 (map_option (\<lambda>ob. JString (case strip_suffix ''.chunk'' ob of Some t \<Rightarrow> t | None \<Rightarrow> ob)) (ocs_object s)) o1;
          o3 = insert_some ''created'' (map_option json_u64 (ocs_created s)) o2;
          o4 = insert_some ''model'' (map_option JString (ocs_model s)) o3;
          o5 = bt_insert ''choices'' (JArray (map (\<lambda>(i, c). choice_finalize i c) (ocs_choices s))) o4
      in JObject (insert_some ''usage'' (ocs_usage s) o5))"

section \<open>Anthropic Messages\<close>

record streaming_block =
  sb_skeleton :: json_object
  sb_text :: string
  sb_has_text :: bool
  sb_partial_json :: string
  sb_has_partial_json :: bool
  sb_citations :: "json list"
  sb_has_citations :: bool

record anthropic_streaming_state =
  ams_id :: "string option"
  ams_type :: "string option"
  ams_role :: "string option"
  ams_model :: "string option"
  ams_usage :: "json option"
  ams_stop_reason :: "string option"
  ams_stop_sequence :: "json option"
  ams_blocks :: "streaming_block option list"

definition new_block :: "json_object \<Rightarrow> streaming_block" where
  "new_block skeleton = \<lparr>sb_skeleton = skeleton, sb_text = [], sb_has_text = False, sb_partial_json = [],
     sb_has_partial_json = False, sb_citations = [], sb_has_citations = False\<rparr>"

definition anthropic_default :: anthropic_streaming_state where
  "anthropic_default = \<lparr>ams_id = None, ams_type = None, ams_role = None, ams_model = None, ams_usage = None,
     ams_stop_reason = None, ams_stop_sequence = None, ams_blocks = []\<rparr>"

definition observe_usage :: "json \<Rightarrow> anthropic_streaming_state \<Rightarrow> anthropic_streaming_state" where
  "observe_usage u s =
     (case (ams_usage s, u) of
       (Some (JObject current), JObject update) \<Rightarrow> s\<lparr>ams_usage := Some (JObject (bt_extend update current))\<rparr>
     | _ \<Rightarrow> s\<lparr>ams_usage := Some u\<rparr>)"

definition observe_message_start :: "json \<Rightarrow> anthropic_streaming_state \<Rightarrow> anthropic_streaming_state" where
  "observe_message_start event s =
     (case json_get event ''message'' of
       None \<Rightarrow> s
     | Some message \<Rightarrow>
         let s1 = s\<lparr>ams_id := take_new (ams_id s) (str_at message ''id''),
                    ams_model := take_new (ams_model s) (str_at message ''model''),
                    ams_role := take_new (ams_role s) (str_at message ''role''),
                    ams_type := take_new (ams_type s) (str_at message ''type'')\<rparr>
         in case json_get message ''usage'' of Some u \<Rightarrow> observe_usage u s1 | None \<Rightarrow> s1)"

definition observe_content_block_start :: "json \<Rightarrow> anthropic_streaming_state \<Rightarrow> anthropic_streaming_state" where
  "observe_content_block_start event s =
     (case u64_at event ''index'' of
       None \<Rightarrow> s
     | Some index \<Rightarrow>
         (case json_get event ''content_block'' of
           Some (JObject skeleton) \<Rightarrow>
             let i = unat index;
                 blocks = ams_blocks s @ replicate (Suc i - length (ams_blocks s)) None
             in s\<lparr>ams_blocks := blocks[i := Some (new_block skeleton)]\<rparr>
         | _ \<Rightarrow> s))"

definition apply_block_delta :: "json \<Rightarrow> streaming_block \<Rightarrow> streaming_block" where
  "apply_block_delta delta b =
     (let delta_type = (case str_at delta ''type'' of Some t \<Rightarrow> t | None \<Rightarrow> [])
      in if delta_type = ''text_delta''
         then (case str_at delta ''text'' of
                 Some t \<Rightarrow> b\<lparr>sb_text := sb_text b @ t, sb_has_text := True\<rparr> | None \<Rightarrow> b)
         else if delta_type = ''input_json_delta''
         then (case str_at delta ''partial_json'' of
                 Some p \<Rightarrow> b\<lparr>sb_partial_json := sb_partial_json b @ p, sb_has_partial_json := True\<rparr> | None \<Rightarrow> b)
         else if delta_type = ''citations_delta''
         then (case json_get delta ''citation'' of
                 Some c \<Rightarrow> b\<lparr>sb_citations := sb_citations b @ [c], sb_has_citations := True\<rparr> | None \<Rightarrow> b)
         else if delta_type = ''compaction_delta'' \<and> Option.bind (map_of (sb_skeleton b) ''type'') json_as_str = Some ''compaction''
         then fold (\<lambda>field b. case json_get delta field of
                 Some v \<Rightarrow> b\<lparr>sb_skeleton := bt_insert field v (sb_skeleton b)\<rparr> | None \<Rightarrow> b)
               [''content'', ''encrypted_content''] b
         else b)"

definition observe_content_block_delta :: "json \<Rightarrow> anthropic_streaming_state \<Rightarrow> anthropic_streaming_state" where
  "observe_content_block_delta event s =
     (case u64_at event ''index'' of
       None \<Rightarrow> s
     | Some index \<Rightarrow>
         (case json_get event ''delta'' of
           None \<Rightarrow> s
         | Some delta \<Rightarrow>
             if unat index < length (ams_blocks s)
             then (case ams_blocks s ! unat index of
                 None \<Rightarrow> s
               | Some block \<Rightarrow> s\<lparr>ams_blocks := (ams_blocks s)[unat index := Some (apply_block_delta delta block)]\<rparr>)
             else s))"

definition observe_message_delta :: "json \<Rightarrow> anthropic_streaming_state \<Rightarrow> anthropic_streaming_state" where
  "observe_message_delta event s =
     (let s1 = (case json_get event ''delta'' of
            None \<Rightarrow> s
          | Some delta \<Rightarrow> s\<lparr>ams_stop_reason := take_new (ams_stop_reason s) (str_at delta ''stop_reason''),
                           ams_stop_sequence := take_new (ams_stop_sequence s) (json_get delta ''stop_sequence'')\<rparr>)
      in case json_get event ''usage'' of Some u \<Rightarrow> observe_usage u s1 | None \<Rightarrow> s1)"

definition observe_anthropic :: "json \<Rightarrow> anthropic_streaming_state \<Rightarrow> anthropic_streaming_state" where
  "observe_anthropic event s =
     (let event_type = (case str_at event ''type'' of Some t \<Rightarrow> t | None \<Rightarrow> [])
      in if event_type = ''message_start'' then observe_message_start event s
         else if event_type = ''content_block_start'' then observe_content_block_start event s
         else if event_type = ''content_block_delta'' then observe_content_block_delta event s
         else if event_type = ''message_delta'' then observe_message_delta event s
         else s)"

definition block_finalize :: "(string \<Rightarrow> string + json) \<Rightarrow> streaming_block \<Rightarrow> json" where
  "block_finalize from_str b =
     (let k1 = (if sb_has_text b then bt_insert ''text'' (JString (sb_text b)) (sb_skeleton b) else sb_skeleton b);
          k2 = (if sb_has_partial_json b
                then bt_insert ''input'' (case from_str (sb_partial_json b) of
                       Inr v \<Rightarrow> v | Inl _ \<Rightarrow> JString (sb_partial_json b)) k1
                else k1);
          k3 = (if sb_has_citations b then bt_insert ''citations'' (JArray (sb_citations b)) k2 else k2)
      in JObject k3)"

definition anthropic_finalize :: "(string \<Rightarrow> string + json) \<Rightarrow> anthropic_streaming_state \<Rightarrow> json" where
  "anthropic_finalize from_str s =
     (let o1 = insert_some ''id'' (map_option JString (ams_id s)) [];
          o2 = insert_some ''type'' (map_option JString (ams_type s)) o1;
          o3 = insert_some ''role'' (map_option JString (ams_role s)) o2;
          o4 = insert_some ''model'' (map_option JString (ams_model s)) o3;
          o5 = bt_insert ''content'' (JArray (map (block_finalize from_str) (List.map_filter id (ams_blocks s)))) o4;
          o6 = insert_some ''stop_reason'' (map_option JString (ams_stop_reason s)) o5;
          o7 = insert_some ''stop_sequence'' (ams_stop_sequence s) o6
      in JObject (insert_some ''usage'' (ams_usage s) o7))"

section \<open>The observer of a managed worker\<close>

text \<open>
  A streaming codec as its collector and its finalizer over the state they share. The collectors of
  the two codecs never fail.
\<close>

record 's streaming_codec =
  sc_initial :: 's
  sc_collector :: "json \<Rightarrow> 's \<Rightarrow> (flow_error + unit) \<times> 's"
  sc_finalizer :: "'s \<Rightarrow> json"

definition openai_chat_streaming_codec :: "openai_chat_streaming_state streaming_codec" where
  "openai_chat_streaming_codec =
     \<lparr>sc_initial = openai_chat_default, sc_collector = \<lambda>e s. (Inr (), observe_chat e s), sc_finalizer = chat_finalize\<rparr>"

definition anthropic_messages_streaming_codec :: "(string \<Rightarrow> string + json) \<Rightarrow> anthropic_streaming_state streaming_codec" where
  "anthropic_messages_streaming_codec from_str =
     \<lparr>sc_initial = anthropic_default, sc_collector = \<lambda>e s. (Inr (), observe_anthropic e s),
      sc_finalizer = anthropic_finalize from_str\<rparr>"

text \<open>The loop over the results of one chunk; the Boolean says that the observation is still valid.\<close>

fun collect_events :: "'s streaming_codec \<Rightarrow> (flow_error + sse_event) list \<Rightarrow> 's \<Rightarrow> bool \<times> 's" where
  "collect_events codec [] s = (True, s)"
| "collect_events codec (Inr event # rs) s =
     (case sc_collector codec (se_data event) s of
       (Inr _, s') \<Rightarrow> collect_events codec rs s'
     | (Inl _, s') \<Rightarrow> (False, s'))"
| "collect_events codec (Inl err # rs) s = (False, s)"

text \<open>
  \<^verbatim>\<open>finish_stream\<close>: every chunk comes with what the truncation signal reads when it is received. The
  body sets the signal when the capture limit is reached; the observer itself sets it when the
  observation becomes invalid, after which it reads nothing more. The signal is never reset, so its
  last reading decides whether the response is used.
\<close>

fun observe_chunks ::
  "(string \<Rightarrow> string + json) \<Rightarrow> 's streaming_codec \<Rightarrow> (bool \<times> string) list \<Rightarrow> sse_event_decoder \<Rightarrow> 's \<Rightarrow> bool \<times> sse_event_decoder \<times> 's" where
  "observe_chunks from_str codec [] d s = (True, d, s)"
| "observe_chunks from_str codec ((truncated, chunk) # chunks) d s =
     (if truncated then observe_chunks from_str codec chunks d s
      else let (rs, d') = push_bytes_results from_str chunk d; (valid, s') = collect_events codec rs s
           in if valid then observe_chunks from_str codec chunks d' s' else (False, d', s'))"

definition finish_stream ::
  "(string \<Rightarrow> string + json) \<Rightarrow> 's streaming_codec \<Rightarrow> (bool \<times> string) list \<Rightarrow> bool \<Rightarrow> json option" where
  "finish_stream from_str codec chunks truncated =
     (let (valid, d, s) = observe_chunks from_str codec chunks sse_event_decoder_new (sc_initial codec)
      in if \<not> valid \<or> truncated then None
         else case sse_finish from_str d of
           Inr (Some event) \<Rightarrow>
             (case sc_collector codec (se_data event) s of
               (Inr _, s') \<Rightarrow> Some (sc_finalizer codec s')
             | (Inl _, _) \<Rightarrow> None)
         | _ \<Rightarrow> Some (sc_finalizer codec s))"

end
