(* ===== verification/Stream_Codec_Properties.thy ===== *)
theory Stream_Codec_Properties
  imports Stream_Codecs Sse_Properties
begin

text \<open>
  The response assembled from a stream against a reference that groups the fragments of the whole
  stream by their indices.
\<close>

section \<open>Grouping by index\<close>

lemma map_of_bt_update: "map_of (bt_update k dflt f m) = (map_of m)(k \<mapsto> f (case map_of m k of Some v \<Rightarrow> v | None \<Rightarrow> dflt))"
  by (simp add: bt_update_def map_of_bt_insert)

lemma map_of_fold_bt_update:
  "map_of (fold (\<lambda>x. bt_update (k x) dflt (f x)) xs m) i =
     (if i \<in> k ` set xs then Some (fold f (filter (\<lambda>x. k x = i) xs) (case map_of m i of Some v \<Rightarrow> v | None \<Rightarrow> dflt))
      else map_of m i)"
proof (induction xs arbitrary: m)
  case (Cons x xs)
  have "filter (\<lambda>x. k x = i) xs = []" if "i \<notin> k ` set xs" using that by (auto simp: filter_empty_conv)
  then show ?case using Cons by (auto simp: map_of_bt_update)
qed simp

lemma bt_ok_fold_bt_update: "bt_ok m \<Longrightarrow> bt_ok (fold (\<lambda>x. bt_update (k x) dflt (f x)) xs m)"
  by (induction xs arbitrary: m) (auto simp: bt_update_def bt_ok_insert)

definition grouped :: "(json list \<Rightarrow> 'a) \<Rightarrow> json list \<Rightarrow> (64 word \<times> 'a) list" where
  "grouped f xs = map (\<lambda>i. (i, f (filter (\<lambda>x. index_of x = i) xs))) (sorted_list_of_set (index_of ` set xs))"

lemma fold_bt_update_grouped:
  assumes "\<And>ys. fold f ys dflt = g ys"
  shows "fold (\<lambda>x. bt_update (index_of x) dflt (f x)) xs [] = grouped g xs"
proof (rule bt_ok_eqI)
  show "bt_ok (fold (\<lambda>x. bt_update (index_of x) dflt (f x)) xs [])" by (simp add: bt_ok_fold_bt_update)
  show "bt_ok (grouped g xs)" by (simp add: bt_ok_def grouped_def comp_def)
  show "map_of (fold (\<lambda>x. bt_update (index_of x) dflt (f x)) xs []) = map_of (grouped g xs)"
    by (rule ext) (auto simp: map_of_fold_bt_update assms grouped_def map_of_map_restrict restrict_map_def)
qed

section \<open>Reference\<close>

definition texts :: "string \<Rightarrow> json list \<Rightarrow> string list" where
  "texts k js = List.map_filter (\<lambda>j. str_at j k) js"

definition counts :: "string \<Rightarrow> json list \<Rightarrow> 64 word list" where
  "counts k js = List.map_filter (\<lambda>j. u64_at j k) js"

definition parts :: "string \<Rightarrow> json list \<Rightarrow> json list" where
  "parts k js = List.map_filter (\<lambda>j. json_get j k) js"

definition elements :: "string \<Rightarrow> json list \<Rightarrow> json list" where
  "elements k js = concat (List.map_filter (\<lambda>j. array_at j k) js)"

fun first_of :: "'a list \<Rightarrow> 'a option" where
  "first_of [] = None"
| "first_of (x # _) = Some x"

definition last_of :: "'a list \<Rightarrow> 'a option" where
  "last_of xs = first_of (rev xs)"

definition tool_call_reference :: "json list \<Rightarrow> tool_call_state" where
  "tool_call_reference ts =
     \<lparr>tcs_id = last_of (texts ''id'' ts), tcs_type = last_of (texts ''type'' ts),
      tcs_name = last_of (texts ''name'' (parts ''function'' ts)),
      tcs_arguments = concat (texts ''arguments'' (parts ''function'' ts))\<rparr>"

definition choice_reference :: "json list \<Rightarrow> choice_state" where
  "choice_reference cs =
     (let deltas = parts ''delta'' cs
      in \<lparr>chs_role = last_of (texts ''role'' deltas), chs_content = concat (texts ''content'' deltas),
          chs_has_content = (texts ''content'' deltas \<noteq> []),
          chs_tool_calls = grouped tool_call_reference (elements ''tool_calls'' deltas),
          chs_finish_reason = last_of (texts ''finish_reason'' cs)\<rparr>)"

definition chat_reference :: "json list \<Rightarrow> openai_chat_streaming_state" where
  "chat_reference chunks =
     \<lparr>ocs_id = first_of (texts ''id'' chunks), ocs_object = first_of (texts ''object'' chunks),
      ocs_created = first_of (counts ''created'' chunks),
      ocs_model = first_of (texts ''model'' chunks),
      ocs_choices = grouped choice_reference (elements ''choices'' chunks),
      ocs_usage = last_of (filter (\<lambda>u. u \<noteq> JNull) (parts ''usage'' chunks))\<rparr>"

section \<open>The accumulator of chat completions\<close>

definition option_list :: "'a option \<Rightarrow> 'a list" where
  "option_list x = (case x of None \<Rightarrow> [] | Some y \<Rightarrow> [y])"

lemma option_list_simps [simp]: "option_list None = []" "option_list (Some x) = [x]"
  by (simp_all add: option_list_def)

lemma map_filter_one: "List.map_filter f [x] = option_list (f x)"
  by (simp add: List.map_filter_simps option_list_def split: option.splits)

lemma map_filter_Nil: "List.map_filter f [] = []"
  by (simp add: List.map_filter_simps)

lemma first_of_append: "first_of (xs @ ys) = keep_first (first_of xs) (first_of ys)"
  by (cases xs) auto

lemma last_of_append: "last_of (xs @ ys) = take_new (last_of xs) (last_of ys)"
  unfolding last_of_def by (cases ys rule: rev_cases) auto

lemma of_option_list: "last_of (option_list x) = x" "first_of (option_list x) = x"
  by (cases x; simp add: last_of_def)+

lemma texts_append: "texts k (xs @ ys) = texts k xs @ texts k ys" "texts k [x] = option_list (str_at x k)" "texts k [] = []"
  by (simp_all add: texts_def map_filter_append map_filter_Nil option_list_def split: option.split)

lemma counts_append: "counts k (xs @ ys) = counts k xs @ counts k ys" "counts k [x] = option_list (u64_at x k)" "counts k [] = []"
  by (simp_all add: counts_def map_filter_append map_filter_Nil option_list_def split: option.split)

lemma parts_append: "parts k (xs @ ys) = parts k xs @ parts k ys" "parts k [x] = option_list (json_get x k)" "parts k [] = []"
  by (simp_all add: parts_def map_filter_append map_filter_Nil option_list_def split: option.split)

lemma elements_append:
  "elements k (xs @ ys) = elements k xs @ elements k ys" "elements k [x] = concat (option_list (array_at x k))" "elements k [] = []"
  by (simp_all add: elements_def map_filter_append map_filter_Nil option_list_def split: option.split)

lemma last_of_simps [simp]: "last_of [] = None" "last_of [x] = Some x"
  by (simp_all add: last_of_def)

lemmas fragments = texts_append counts_append parts_append elements_append map_filter_append map_filter_one first_of_append last_of_append of_option_list

lemma fold_tool_call: "fold observe_tool_call_entry ts tool_call_default = tool_call_reference ts"
proof (induction ts rule: rev_induct)
  case (snoc t ts)
  have "observe_tool_call_entry t (tool_call_reference ts) = tool_call_reference (ts @ [t])"
  proof (cases "json_get t ''function''")
    case (Some fn)
    then show ?thesis
      by (cases "str_at fn ''arguments''")
        (simp_all add: observe_tool_call_entry_def observe_function_def tool_call_reference_def fragments)
  qed (simp add: observe_tool_call_entry_def tool_call_reference_def fragments)
  then show ?case using snoc by simp
qed (simp add: tool_call_default_def tool_call_reference_def fragments)

lemma fold_observe_tool_call:
  "fold observe_tool_call ts c =
     c\<lparr>chs_tool_calls := fold (\<lambda>t. bt_update (index_of t) tool_call_default (observe_tool_call_entry t)) ts (chs_tool_calls c)\<rparr>"
  by (induction ts arbitrary: c) (simp_all add: observe_tool_call_def)

lemma grouped_tool_calls:
  "grouped tool_call_reference ts = fold (\<lambda>t. bt_update (index_of t) tool_call_default (observe_tool_call_entry t)) ts []"
  by (rule fold_bt_update_grouped [symmetric]) (rule fold_tool_call)

definition observe_choice_entry :: "json \<Rightarrow> choice_state \<Rightarrow> choice_state" where
  "observe_choice_entry choice c = observe_delta (json_get choice ''delta'') (observe_finish_reason choice c)"

lemma fold_choice: "fold observe_choice_entry cs choice_default = choice_reference cs"
proof (induction cs rule: rev_induct)
  case (snoc c cs)
  have "observe_choice_entry c (choice_reference cs) = choice_reference (cs @ [c])"
  proof (cases "json_get c ''delta''")
    case (Some d)
    show ?thesis
      by (cases "str_at d ''content''"; cases "array_at d ''tool_calls''")
        (simp_all add: Some observe_choice_entry_def observe_delta_def observe_finish_reason_def observe_tool_calls_def
          choice_reference_def fragments grouped_tool_calls fold_observe_tool_call Let_def)
  qed (simp add: observe_choice_entry_def observe_delta_def observe_finish_reason_def choice_reference_def fragments Let_def)
  then show ?case using snoc by simp
qed (simp add: choice_default_def choice_reference_def grouped_def fragments)

lemma fold_observe_choice:
  "fold observe_choice cs s =
     s\<lparr>ocs_choices := fold (\<lambda>c. bt_update (index_of c) choice_default (observe_choice_entry c)) cs (ocs_choices s)\<rparr>"
  by (induction cs arbitrary: s) (simp_all add: observe_choice_def observe_choice_entry_def [abs_def])

lemma grouped_choices:
  "grouped choice_reference cs = fold (\<lambda>c. bt_update (index_of c) choice_default (observe_choice_entry c)) cs []"
  by (rule fold_bt_update_grouped [symmetric]) (rule fold_choice)

lemma fold_chat: "fold observe_chat chunks openai_chat_default = chat_reference chunks"
proof (induction chunks rule: rev_induct)
  case (snoc c cs)
  have "observe_chat c (chat_reference cs) = chat_reference (cs @ [c])"
    by (cases "json_get c ''usage''"; cases "array_at c ''choices''")
      (simp_all add: observe_chat_def chat_reference_def fragments grouped_choices fold_observe_choice Let_def)
  then show ?case using snoc by simp
qed (simp add: openai_chat_default_def chat_reference_def grouped_def fragments List.map_filter_simps)

section \<open>The accumulator of Anthropic messages\<close>

definition deltas_of_type :: "string \<Rightarrow> json list \<Rightarrow> json list" where
  "deltas_of_type t ds = filter (\<lambda>d. str_at d ''type'' = Some t) ds"

definition block_reference :: "json_object \<Rightarrow> json list \<Rightarrow> streaming_block" where
  "block_reference skeleton ds =
     (let ts = texts ''text'' (deltas_of_type ''text_delta'' ds);
          ps = texts ''partial_json'' (deltas_of_type ''input_json_delta'' ds);
          cs = parts ''citation'' (deltas_of_type ''citations_delta'' ds)
      in \<lparr>sb_skeleton = skeleton, sb_text = concat ts, sb_has_text = (ts \<noteq> []), sb_partial_json = concat ps,
          sb_has_partial_json = (ps \<noteq> []), sb_citations = cs, sb_has_citations = (cs \<noteq> [])\<rparr>)"

lemma deltas_of_type_snoc:
  "deltas_of_type t (ds @ [d]) = deltas_of_type t ds @ (if str_at d ''type'' = Some t then [d] else [])" "deltas_of_type t [] = []"
  by (simp_all add: deltas_of_type_def)

text \<open>A block that is not a compaction holds the concatenation of its fragments of each type.\<close>

lemma fold_block_delta:
  assumes "Option.bind (map_of skeleton ''type'') json_as_str \<noteq> Some ''compaction''"
  shows "fold apply_block_delta ds (new_block skeleton) = block_reference skeleton ds"
proof (induction ds rule: rev_induct)
  case (snoc d ds)
  have "apply_block_delta d (block_reference skeleton ds) = block_reference skeleton (ds @ [d])"
  proof -
    consider "str_at d ''type'' = Some ''text_delta''" | "str_at d ''type'' = Some ''input_json_delta''"
      | "str_at d ''type'' = Some ''citations_delta''"
      | "str_at d ''type'' \<notin> {Some ''text_delta'', Some ''input_json_delta'', Some ''citations_delta''}" by auto
    then show ?thesis
    proof cases
      case 1
      then show ?thesis by (cases "str_at d ''text''")
        (simp_all add: apply_block_delta_def block_reference_def deltas_of_type_snoc fragments Let_def)
    next
      case 2
      then show ?thesis by (cases "str_at d ''partial_json''")
        (simp_all add: apply_block_delta_def block_reference_def deltas_of_type_snoc fragments Let_def)
    next
      case 3
      then show ?thesis by (cases "json_get d ''citation''")
        (simp_all add: apply_block_delta_def block_reference_def deltas_of_type_snoc fragments Let_def)
    next
      case 4
      then show ?thesis using assms by (cases "str_at d ''type''")
        (simp_all add: apply_block_delta_def block_reference_def deltas_of_type_snoc fragments Let_def)
    qed
  qed
  then show ?case using snoc by simp
qed (simp add: new_block_def block_reference_def deltas_of_type_snoc fragments)

text \<open>
  The list of blocks grows to the index that an event names, whatever that is: one event decides how
  many slots are allocated.
\<close>

lemma blocks_grow_to_index:
  assumes "u64_at event ''index'' = Some i" "json_get event ''content_block'' = Some (JObject skeleton)"
  shows "length (ams_blocks (observe_content_block_start event s)) = max (length (ams_blocks s)) (Suc (unat i))"
    "ams_blocks (observe_content_block_start event s) ! unat i = Some (new_block skeleton)"
    "k \<noteq> unat i \<Longrightarrow> k < length (ams_blocks s) \<Longrightarrow>
       ams_blocks (observe_content_block_start event s) ! k = ams_blocks s ! k"
  using assms by (simp_all add: observe_content_block_start_def Let_def nth_append)

section \<open>The observer\<close>

definition payloads :: "(flow_error + json) list \<Rightarrow> json list" where
  "payloads xs = List.map_filter (case_sum (\<lambda>_. None) Some) xs"

lemma payloads_simps [simp]:
  "payloads [] = []" "payloads (Inr v # xs) = v # payloads xs" "payloads (Inl e # xs) = payloads xs"
  "payloads (xs @ ys) = payloads xs @ payloads ys"
  by (simp_all add: payloads_def map_filter_append List.map_filter_simps)

lemma collect_events_total:
  assumes "\<And>e s. sc_collector codec e s = (Inr (), observe e s)"
  shows "collect_events codec rs s = (\<not> snd (yield_results rs), fold observe (payloads (fst (yield_results rs))) s)"
  by (induction rs arbitrary: s rule: yield_results.induct) (simp_all add: assms case_prod_beta)

lemma observe_chunks_total:
  assumes "\<And>e s. sc_collector codec e s = (Inr (), observe e s)"
  shows "observe_chunks from_str codec (map (Pair False) chunks) d s =
    (case push_chunks from_str chunks d of (ys, stop, d') \<Rightarrow> (\<not> stop, d', fold observe (payloads ys) s))"
  by (induction chunks arbitrary: d s)
    (auto simp: collect_events_total [OF assms] Let_def split: prod.splits)

lemma finish_stream_total:
  assumes "\<And>e s. sc_collector codec e s = (Inr (), observe e s)" "\<forall>c\<in>set chunks. valid_utf8 c"
  shows "finish_stream from_str codec (map (Pair False) chunks) False =
    (case sse_frames (replace_crlf (concat chunks)) of (frames, rest) \<Rightarrow>
       let items = concat (map (frame_items from_str) frames);
           final = (if str_trim rest = [] then [] else frame_items from_str rest)
       in if has_error items then None
          else Some (sc_finalizer codec (fold observe (payloads (items @ final)) (sc_initial codec))))"
proof -
  obtain frames rest where p: "sse_frames (replace_crlf (concat chunks)) = (frames, rest)" by fastforce
  define items where "items = concat (map (frame_items from_str) frames)"
  obtain d where d: "push_chunks from_str chunks sse_event_decoder_new = (upto_error items, has_error items, d)"
    "\<not> has_error items \<longrightarrow> sd_buffer d = rest"
    using push_chunks_new [OF assms(2), of from_str] unfolding p fst_conv snd_conv items_def by blast
  have "finish_stream from_str codec (map (Pair False) chunks) False =
      (let final = (if str_trim rest = [] then [] else frame_items from_str rest)
       in if has_error items then None
          else Some (sc_finalizer codec (fold observe (payloads (items @ final)) (sc_initial codec))))"
    using d(2)
    by (auto simp: finish_stream_def observe_chunks_total [OF assms(1)] d(1) assms(1) upto_error_id sse_finish_def
        frame_items_def Let_def split: sum.splits option.splits)
  then show ?thesis by (simp add: p items_def Let_def)
qed

text \<open>
  C12. The response that a worker records for a streamed chat completion whose chunks are cut between
  characters is that of the whole text of the stream, wherever the cuts are. (A cut inside a character
  matters: each half is replaced on its own, see \<^verbatim>\<open>split_character_is_replaced\<close>.) Nothing is recorded
  when a frame that a blank line ends does not parse; a last frame without its blank line counts when
  it parses and is ignored when it does not, and the response is recorded all the same. In what is
  recorded the identifying fields are the first the stream states and the usage the last that is not
  null; there is one choice for each index in ascending order, its text is the concatenation of all
  text with that index in order and null if there was none, and it has one tool call for each index of
  a tool call, whose arguments are the concatenation of all its fragments.
\<close>

theorem observed_chat_response:
  assumes "\<forall>c\<in>set chunks. valid_utf8 c"
  shows "finish_stream from_str openai_chat_streaming_codec (map (Pair False) chunks) False =
    (case sse_frames (replace_crlf (concat chunks)) of (frames, rest) \<Rightarrow>
       let items = concat (map (frame_items from_str) frames);
           final = (if str_trim rest = [] then [] else frame_items from_str rest)
       in if has_error items then None else Some (chat_finalize (chat_reference (payloads (items @ final)))))"
proof -
  have codec: "sc_initial openai_chat_streaming_codec = openai_chat_default"
    "sc_finalizer openai_chat_streaming_codec = chat_finalize"
    "sc_collector openai_chat_streaming_codec e s = (Inr (), observe_chat e s)" for e s
    by (simp_all add: openai_chat_streaming_codec_def)
  show ?thesis
    using finish_stream_total [OF codec(3) assms, of from_str] unfolding codec(1,2) fold_chat .
qed

definition text_event :: "string \<Rightarrow> json" where
  "text_event t = JObject [(''choices'', JArray [JObject [(''delta'', JObject [(''content'', JString t)]), (''index'', json_u64 0)]])]"

definition two_events :: "string \<Rightarrow> string + json" where
  "two_events s = (if s = ''1'' then Inr (text_event ''He'') else if s = ''2'' then Inr (text_event ''llo'') else Inl ''expected value'')"

theorem observed_chat_response_witness:
  "finish_stream two_events openai_chat_streaming_codec
     (map (Pair False) [''data: 1'' @ [LF], [LF] @ ''da'', ''ta: 2'' @ [LF, LF]]) False =
   Some (JObject [(''choices'', JArray [JObject [(''finish_reason'', JNull), (''index'', json_u64 0),
     (''message'', JObject [(''content'', JString ''Hello''), (''role'', JString ''assistant'')])]])])"
proof -
  let ?chunks = "[''data: 1'' @ [LF], [LF] @ ''da'', ''ta: 2'' @ [LF, LF]]"
  have "\<forall>c\<in>set ?chunks. valid_utf8 c" by code_simp
  note * = observed_chat_response [OF this, of two_events]
  have f: "sse_frames (replace_crlf (concat ?chunks)) = ([''data: 1'', ''data: 2''], [])" by simp
  have i: "frame_items two_events ''data: 1'' = [Inr (text_event ''He'')]"
    "frame_items two_events ''data: 2'' = [Inr (text_event ''llo'')]"
    by (simp_all add: sse_evaluation two_events_def)
  have "chat_finalize (chat_reference [text_event ''He'', text_event ''llo'']) =
     JObject [(''choices'', JArray [JObject [(''finish_reason'', JNull), (''index'', json_u64 0),
       (''message'', JObject [(''content'', JString ''Hello''), (''role'', JString ''assistant'')])]])]"
    by code_simp
  then show ?thesis unfolding * f by (simp add: i str_trim_plain)
qed

end
