(* ===== verification/Pii_Paths.thy ===== *)
theory Pii_Paths
  imports Runtime_Owner Relay_Json
begin

text \<open>
  JSON pointers and the selectors of paths of the redaction plugin
  (\<^verbatim>\<open>crates/pii-redaction/src/builtin.rs\<close>).
\<close>

section \<open>JSON pointers\<close>

text \<open>\<^verbatim>\<open>str::replace\<close> of a string that is not empty.\<close>

function str_replace :: "string \<Rightarrow> string \<Rightarrow> string \<Rightarrow> string" where
  "str_replace p r s =
     (case str_find p s of
       None \<Rightarrow> s
     | Some i \<Rightarrow> if p = [] then s else take i s @ r @ str_replace p r (drop (i + length p) s))"
  by auto
termination
  by (relation "measure (\<lambda>(p, r, s). length s)") (auto dest!: str_find_bound simp flip: length_greater_0_conv)

declare str_replace.simps [simp del]

definition unescape_json_pointer_segment :: "string \<Rightarrow> string" where
  "unescape_json_pointer_segment segment = str_replace ''~0'' ''~'' (str_replace ''~1'' ''/'' segment)"

definition json_pointer_segments :: "string \<Rightarrow> string list option" where
  "json_pointer_segments pointer =
     (if pointer = [] then Some []
      else map_option (\<lambda>path. map unescape_json_pointer_segment (split_on CHR ''/'' path)) (strip_prefix ''/'' pointer))"

fun valid_pointer_segment :: "string \<Rightarrow> bool" where
  "valid_pointer_segment [] = True"
| "valid_pointer_segment (c # s) =
     (if c = CHR ''~''
      then (case s of d # r \<Rightarrow> (d = CHR ''0'' \<or> d = CHR ''1'') \<and> valid_pointer_segment r | [] \<Rightarrow> False)
      else valid_pointer_segment s)"

definition is_valid_json_pointer :: "string \<Rightarrow> bool" where
  "is_valid_json_pointer pointer \<longleftrightarrow>
     pointer = [] \<or>
     (case strip_prefix ''/'' pointer of
       None \<Rightarrow> False
     | Some path \<Rightarrow> list_all valid_pointer_segment (split_on CHR ''/'' path))"

text \<open>\<^verbatim>\<open>str::parse::<usize>\<close> on a 64-bit machine.\<close>

definition parse_usize :: "string \<Rightarrow> nat option" where
  "parse_usize s =
     (let ds = (case s of [] \<Rightarrow> [] | c # r \<Rightarrow> if c = CHR ''+'' then r else s)
      in if ds \<noteq> [] \<and> list_all is_ascii_digit ds \<and> read_digits ds < 2 ^ 64
         then Some (read_digits ds) else None)"

fun sanitized_json_pointer_value :: "json \<Rightarrow> string list \<Rightarrow> json option" where
  "sanitized_json_pointer_value v [] = Some v"
| "sanitized_json_pointer_value v (segment # segments) =
     (case v of
       JObject m \<Rightarrow>
         (case map_of m segment of None \<Rightarrow> None | Some w \<Rightarrow> sanitized_json_pointer_value w segments)
     | JArray vs \<Rightarrow>
         (case parse_usize segment of
           None \<Rightarrow> None
         | Some i \<Rightarrow> if i < length vs then sanitized_json_pointer_value (vs ! i) segments else None)
     | _ \<Rightarrow> None)"

text \<open>A change of the value that the parent segments lead to; \<open>None\<close> if there is none.\<close>

fun change_at :: "(json \<Rightarrow> json option) \<Rightarrow> string list \<Rightarrow> json \<Rightarrow> json option" where
  "change_at f [] v = f v"
| "change_at f (segment # segments) v =
     (case v of
       JObject m \<Rightarrow>
         (case map_of m segment of
           None \<Rightarrow> None
         | Some w \<Rightarrow> map_option (\<lambda>w'. JObject (bt_insert segment w' m)) (change_at f segments w))
     | JArray vs \<Rightarrow>
         (case parse_usize segment of
           None \<Rightarrow> None
         | Some i \<Rightarrow>
             if i < length vs then map_option (\<lambda>w'. JArray (vs[i := w'])) (change_at f segments (vs ! i)) else None)
     | _ \<Rightarrow> None)"

definition replace_sanitized_json_pointer_value :: "string list \<Rightarrow> json \<Rightarrow> json \<Rightarrow> json option" where
  "replace_sanitized_json_pointer_value segments replacement v =
     (if segments = [] then None
      else change_at (\<lambda>parent. case parent of
          JObject m \<Rightarrow> Some (JObject (bt_insert (last segments) replacement m))
        | JArray vs \<Rightarrow>
            (case parse_usize (last segments) of
              None \<Rightarrow> None
            | Some i \<Rightarrow> if i < length vs then Some (JArray (vs[i := replacement])) else None)
        | _ \<Rightarrow> None) (butlast segments) v)"

definition remove_sanitized_json_pointer_value :: "string list \<Rightarrow> json \<Rightarrow> json option" where
  "remove_sanitized_json_pointer_value segments v =
     (if segments = [] then None
      else change_at (\<lambda>parent. case parent of
          JObject m \<Rightarrow>
            (case map_of m (last segments) of None \<Rightarrow> None | Some _ \<Rightarrow> Some (JObject (AList.delete (last segments) m)))
        | _ \<Rightarrow> None) (butlast segments) v)"

section \<open>Selectors\<close>

datatype target_path_segment = SegmentExact string | SegmentAny

datatype target_path_selector = SelectorExact "string list" | SelectorGlob "target_path_segment list"

record target_path_matcher =
  tpm_selectors :: "target_path_selector list"

definition glob_selector :: "string list \<Rightarrow> target_path_selector" where
  "glob_selector segments =
     (if list_all (\<lambda>s. s \<noteq> ''*'') segments then SelectorExact segments
      else SelectorGlob (map (\<lambda>s. if s = ''*'' then SegmentAny else SegmentExact s) segments))"

text \<open>The filter with a set of what was seen keeps the first of equal selectors.\<close>

definition first_occurrences :: "'a list \<Rightarrow> 'a list" where
  "first_occurrences xs = rev (remdups (rev xs))"

definition matcher_new :: "string list \<Rightarrow> string list \<Rightarrow> target_path_matcher option" where
  "matcher_new target_paths target_path_globs =
     (case collect_options (\<lambda>p. map_option SelectorExact (json_pointer_segments p)) target_paths of
       None \<Rightarrow> None
     | Some exact \<Rightarrow>
         (case collect_options (\<lambda>p. map_option glob_selector (json_pointer_segments p)) target_path_globs of
           None \<Rightarrow> None
         | Some globs \<Rightarrow> Some \<lparr>tpm_selectors = first_occurrences (exact @ globs)\<rparr>))"

fun segment_matches :: "target_path_segment \<Rightarrow> string \<Rightarrow> bool" where
  "segment_matches SegmentAny s = True"
| "segment_matches (SegmentExact v) s = (v = s)"

fun selector_matches :: "target_path_selector \<Rightarrow> string list \<Rightarrow> bool" where
  "selector_matches (SelectorExact segments) path = (segments = path)"
| "selector_matches (SelectorGlob segments) path =
     (length segments = length path \<and> list_all (\<lambda>(g, s). segment_matches g s) (zip segments path))"

definition matcher_matches :: "target_path_matcher \<Rightarrow> string list \<Rightarrow> bool" where
  "matcher_matches m path = list_ex (\<lambda>s. selector_matches s path) (tpm_selectors m)"

text \<open>The paths of a payload that are selected, as an ordered set.\<close>

definition path_insert :: "string list \<Rightarrow> string list list \<Rightarrow> string list list" where
  "path_insert p ps = map fst (bt_insert p () (map (\<lambda>q. (q, ())) ps))"

text \<open>The insertions that \<^verbatim>\<open>collect_matching_paths\<close> makes, in its order.\<close>

fun collect_matching_paths :: "target_path_matcher \<Rightarrow> string list \<Rightarrow> json \<Rightarrow> string list list"
  and collect_item_paths :: "target_path_matcher \<Rightarrow> string list \<Rightarrow> nat \<Rightarrow> json list \<Rightarrow> string list list"
  and collect_field_paths :: "target_path_matcher \<Rightarrow> string list \<Rightarrow> (string \<times> json) list \<Rightarrow> string list list" where
  "collect_matching_paths m path (JArray vs) = filter (matcher_matches m) [path] @ collect_item_paths m path 0 vs"
| "collect_matching_paths m path (JObject kvs) = filter (matcher_matches m) [path] @ collect_field_paths m path kvs"
| "collect_matching_paths m path _ = filter (matcher_matches m) [path]"
| "collect_item_paths m path i [] = []"
| "collect_item_paths m path i (v # vs) =
     collect_matching_paths m (path @ [show_nat i]) v @ collect_item_paths m path (Suc i) vs"
| "collect_field_paths m path [] = []"
| "collect_field_paths m path ((k, v) # kvs) = collect_matching_paths m (path @ [k]) v @ collect_field_paths m path kvs"

definition matching_json_pointer_paths :: "target_path_matcher \<Rightarrow> json \<Rightarrow> string list list" where
  "matching_json_pointer_paths m v = fold path_insert (collect_matching_paths m [] v) []"

definition may_select_single_projected_response :: "target_path_matcher \<Rightarrow> bool" where
  "may_select_single_projected_response m =
     list_ex (\<lambda>sel. case (case sel of
          SelectorExact (s # _) \<Rightarrow> Some (SegmentExact s)
        | SelectorGlob (g # _) \<Rightarrow> Some g
        | _ \<Rightarrow> None) of
        Some SegmentAny \<Rightarrow> True
      | Some (SegmentExact s) \<Rightarrow> s \<in> {''message'', ''tool_calls'', ''finish_reason'', ''api_specific''}
      | None \<Rightarrow> False) (tpm_selectors m)"

end
