(* ===== verification/Pii_Detectors.thy ===== *)
theory Pii_Detectors
  imports Plugin_Config Relay_Events
begin

text \<open>
  The detectors of personal data and secrets and the masks that go with them
  (\<^verbatim>\<open>crates/pii-redaction/src/detectors.rs\<close> and \<^verbatim>\<open>mask_text\<close> of \<^verbatim>\<open>builtin.rs\<close>). What a regular
  expression matches is decided by the crate that runs it and is no part of the model. It is shown
  what the masks for numbers reveal.
\<close>

section \<open>Characters\<close>

text \<open>
  \<^verbatim>\<open>str::chars\<close> on a string of UTF-8 bytes: every character is a byte that is no continuation byte
  and the continuation bytes that follow.
\<close>

definition continuation_byte :: "char \<Rightarrow> bool" where
  "continuation_byte c \<longleftrightarrow> utf8_tail (of_char c)"

function utf8_chars :: "string \<Rightarrow> string list" where
  "utf8_chars [] = []"
| "utf8_chars (c # s) = (c # takeWhile continuation_byte s) # utf8_chars (dropWhile continuation_byte s)"
  by pat_completeness auto
termination
  by (relation "measure length") (auto simp: le_imp_less_Suc length_dropWhile_le)

definition saturating_add_usize :: "nat \<Rightarrow> nat \<Rightarrow> nat" where
  "saturating_add_usize a b = min (a + b) (2 ^ 64 - 1)"

definition mask_text :: "string \<Rightarrow> string \<Rightarrow> nat \<Rightarrow> nat \<Rightarrow> string" where
  "mask_text text mask_char unmasked_prefix unmasked_suffix =
     (let chars = utf8_chars text; len = length chars
      in if len \<le> saturating_add_usize unmasked_prefix unmasked_suffix then text
         else concat (take unmasked_prefix chars) @
              concat (replicate (len - unmasked_prefix - unmasked_suffix) mask_char) @
              concat (drop (len - unmasked_suffix) chars))"

section \<open>Detectors\<close>

datatype builtin_detector =
    Email | Phone | ApiKey | IpAddress | Ipv6 | Url | Uuid | BearerToken | Jwt | CreditCard |
    AwsAccessKeyId | AwsSecretAccessKey | GcpApiKey | AzureStorageAccountKey

datatype builtin_detector_category = CommonPii | StructuredSecret | CloudCredential

record builtin_detector_spec =
  ds_detector :: builtin_detector
  ds_name :: string
  ds_category :: builtin_detector_category
  ds_regex_pattern :: string

definition builtin_detector_specs :: "builtin_detector_spec list" where
  "builtin_detector_specs =
    [\<lparr>ds_detector = Email, ds_name = ''email'', ds_category = CommonPii,
      ds_regex_pattern = ''[A-Za-z0-9._%+-]+@[A-Za-z0-9.-]+'' @ [CHR 0x5C] @ ''.[A-Za-z]{2,}''\<rparr>,
     \<lparr>ds_detector = Phone, ds_name = ''phone'', ds_category = CommonPii,
      ds_regex_pattern = [CHR 0x5C] @ ''+?[0-9][0-9()'' @ [CHR 0x5C] @ ''-'' @ [CHR 0x5C] @ ''s]{6,}[0-9]''\<rparr>,
     \<lparr>ds_detector = ApiKey, ds_name = ''api_key'', ds_category = StructuredSecret,
      ds_regex_pattern = [CHR 0x5C] @ ''b(?:sk|rk|pk|ak)-[A-Za-z0-9_-]{8,}''\<rparr>,
     \<lparr>ds_detector = IpAddress, ds_name = ''ip_address'', ds_category = CommonPii,
      ds_regex_pattern = [CHR 0x5C] @ ''b(?:'' @ [CHR 0x5C] @ ''d{1,3}'' @ [CHR 0x5C] @ ''.){3}'' @ [CHR 0x5C] @ ''d{1,3}'' @ [CHR 0x5C] @ ''b''\<rparr>,
     \<lparr>ds_detector = Ipv6, ds_name = ''ipv6'', ds_category = CommonPii,
      ds_regex_pattern = ''(?:([A-Fa-f0-9]{1,4}:){7}[A-Fa-f0-9]{1,4}|([A-Fa-f0-9]{1,4}:){1,7}:|([A-Fa-f0-9]{1,4}:){1,6}:[A-Fa-f0-9]{1,4}|([A-Fa-f0-9]{1,4}:){1,5}(?::[A-Fa-f0-9]{1,4}){1,2}|([A-Fa-f0-9]{1,4}:){1,4}(?::[A-Fa-f0-9]{1,4}){1,3}|([A-Fa-f0-9]{1,4}:){1,3}(?::[A-Fa-f0-9]{1,4}){1,4}|([A-Fa-f0-9]{1,4}:){1,2}(?::[A-Fa-f0-9]{1,4}){1,5}|[A-Fa-f0-9]{1,4}:(?:(?::[A-Fa-f0-9]{1,4}){1,6})|:(?:(?::[A-Fa-f0-9]{1,4}){1,7}|:))''\<rparr>,
     \<lparr>ds_detector = Url, ds_name = ''url'', ds_category = CommonPii,
      ds_regex_pattern = ''https?://[^'' @ [CHR 0x5C] @ ''s]+''\<rparr>,
     \<lparr>ds_detector = Uuid, ds_name = ''uuid'', ds_category = StructuredSecret,
      ds_regex_pattern = [CHR 0x5C] @ ''b[0-9a-fA-F]{8}-[0-9a-fA-F]{4}-[1-8][0-9a-fA-F]{3}-[89abAB][0-9a-fA-F]{3}-[0-9a-fA-F]{12}'' @ [CHR 0x5C] @ ''b''\<rparr>,
     \<lparr>ds_detector = BearerToken, ds_name = ''bearer_token'', ds_category = StructuredSecret,
      ds_regex_pattern = ''(?i)'' @ [CHR 0x5C] @ ''bBearer'' @ [CHR 0x5C] @ ''s+[A-Za-z0-9._~+/'' @ [CHR 0x5C] @ ''-]{12,}={0,2}'' @ [CHR 0x5C] @ ''b''\<rparr>,
     \<lparr>ds_detector = Jwt, ds_name = ''jwt'', ds_category = StructuredSecret,
      ds_regex_pattern = [CHR 0x5C] @ ''beyJ[A-Za-z0-9_-]+'' @ [CHR 0x5C] @ ''.[A-Za-z0-9_-]+'' @ [CHR 0x5C] @ ''.[A-Za-z0-9_-]+'' @ [CHR 0x5C] @ ''b''\<rparr>,
     \<lparr>ds_detector = CreditCard, ds_name = ''credit_card'', ds_category = StructuredSecret,
      ds_regex_pattern = [CHR 0x5C] @ ''b(?:'' @ [CHR 0x5C] @ ''d[ -]?){13,19}'' @ [CHR 0x5C] @ ''b''\<rparr>,
     \<lparr>ds_detector = AwsAccessKeyId, ds_name = ''aws_access_key_id'', ds_category = CloudCredential,
      ds_regex_pattern = [CHR 0x5C] @ ''b(?:A3T[A-Z0-9]|AKIA|ASIA|ABIA|ACCA|AGPA|AIDA|AIPA|ANPA|ANVA|APKA|AROA|AUSA)[A-Z0-9]{16}'' @ [CHR 0x5C] @ ''b''\<rparr>,
     \<lparr>ds_detector = AwsSecretAccessKey, ds_name = ''aws_secret_access_key'', ds_category = CloudCredential,
      ds_regex_pattern = [CHR 0x5C] @ ''b[A-Za-z0-9/+=]{40}'' @ [CHR 0x5C] @ ''b''\<rparr>,
     \<lparr>ds_detector = GcpApiKey, ds_name = ''gcp_api_key'', ds_category = CloudCredential,
      ds_regex_pattern = [CHR 0x5C] @ ''bAIza[0-9A-Za-z'' @ [CHR 0x5C] @ ''-_]{35}'' @ [CHR 0x5C] @ ''b''\<rparr>,
     \<lparr>ds_detector = AzureStorageAccountKey, ds_name = ''azure_storage_account_key'', ds_category = CloudCredential,
      ds_regex_pattern = [CHR 0x5C] @ ''b[A-Za-z0-9+/]{86}==''\<rparr>]"

definition parse_detector :: "string \<Rightarrow> plugin_error + builtin_detector" where
  "parse_detector value =
     (case List.find (\<lambda>s. ds_name s = value) builtin_detector_specs of
       Some s \<Rightarrow> Inr (ds_detector s)
     | None \<Rightarrow> Inl (InvalidConfig (''unsupported builtin.detector '' @ [CHR 0x27] @ value @ [CHR 0x27])))"

definition detector_spec :: "builtin_detector \<Rightarrow> builtin_detector_spec option" where
  "detector_spec d = List.find (\<lambda>s. ds_detector s = d) builtin_detector_specs"

definition regex_pattern :: "builtin_detector \<Rightarrow> string" where
  "regex_pattern d = (case detector_spec d of Some s \<Rightarrow> ds_regex_pattern s | None \<Rightarrow> [])"

fun join_with :: "string \<Rightarrow> string list \<Rightarrow> string" where
  "join_with sep [] = []"
| "join_with sep [x] = x"
| "join_with sep (x # xs) = x @ sep @ join_with sep xs"

definition supported_detector_names_for_category :: "builtin_detector_category \<Rightarrow> string list" where
  "supported_detector_names_for_category c = map ds_name (filter (\<lambda>s. ds_category s = c) builtin_detector_specs)"

definition supported_detector_summary :: string where
  "supported_detector_summary =
     ''common PII: '' @ join_with '', '' (supported_detector_names_for_category CommonPii) @
     ''; structured secrets: '' @ join_with '', '' (supported_detector_names_for_category StructuredSecret) @
     ''; cloud credentials: '' @ join_with '', '' (supported_detector_names_for_category CloudCredential)"

section \<open>Masks\<close>

definition mask_email :: "string \<Rightarrow> string \<Rightarrow> string" where
  "mask_email text mask_char =
     (case split_once CHR ''@'' text of
       None \<Rightarrow> mask_text text mask_char 0 0
     | Some (local, domain) \<Rightarrow>
         let local_chars = utf8_chars local
         in if length local_chars \<le> 1 then text
            else hd local_chars @ concat (replicate (length local_chars - 1) mask_char) @ ''@'' @ domain)"

text \<open>The loop of \<^verbatim>\<open>mask_phone\<close> and \<^verbatim>\<open>mask_credit_card\<close>, which have the same body.\<close>

fun mask_digits :: "string \<Rightarrow> nat \<Rightarrow> string \<Rightarrow> string" where
  "mask_digits mask_char remaining [] = []"
| "mask_digits mask_char remaining (c # s) =
     (if is_ascii_digit c
      then (if 0 < remaining then mask_char @ mask_digits mask_char (remaining - 1) s
            else c # mask_digits mask_char remaining s)
      else c # mask_digits mask_char remaining s)"

definition mask_phone :: "string \<Rightarrow> string \<Rightarrow> string" where
  "mask_phone text mask_char =
     (let total_digits = length (filter is_ascii_digit text)
      in if total_digits \<le> 4 then text else mask_digits mask_char (total_digits - 4) text)"

definition mask_credit_card :: "string \<Rightarrow> string \<Rightarrow> string" where
  "mask_credit_card text mask_char =
     (let total_digits = length (filter is_ascii_digit text)
      in if total_digits \<le> 4 then text else mask_digits mask_char (total_digits - 4) text)"

definition mask_api_key :: "string \<Rightarrow> string \<Rightarrow> string" where
  "mask_api_key text mask_char =
     mask_text text mask_char (case str_find ''-'' text of None \<Rightarrow> 0 | Some i \<Rightarrow> i + 1) 4"

definition mask_ip_address :: "string \<Rightarrow> string \<Rightarrow> string" where
  "mask_ip_address text mask_char =
     (let octets = split_on CHR ''.'' text
      in if length octets \<noteq> 4 then mask_text text mask_char 0 0
         else join_with ''.'' (replicate 3 (concat (replicate 3 mask_char)) @ drop 3 octets))"

definition mask_ipv6 :: "string \<Rightarrow> string \<Rightarrow> string" where
  "mask_ipv6 text mask_char =
     (let segments = split_on CHR '':'' text
      in if length segments < 3 then mask_text text mask_char 0 0
         else join_with '':'' (map (\<lambda>s. if s = [] then s else concat (replicate 4 mask_char)) (butlast segments) @
                [last segments]))"

definition rsplit_once :: "char \<Rightarrow> string \<Rightarrow> (string \<times> string) option" where
  "rsplit_once c s = map_option (\<lambda>(a, b). (rev b, rev a)) (split_once c (rev s))"

definition mask_url :: "string \<Rightarrow> string \<Rightarrow> string" where
  "mask_url text mask_char =
     (case str_find ''://'' text of
       None \<Rightarrow> mask_text text mask_char 0 0
     | Some scheme_idx \<Rightarrow>
         let prefix_end = scheme_idx + 3;
             remainder = drop prefix_end text;
             ends = (\<lambda>c. c \<in> {CHR ''/'', CHR 0x5C, CHR ''?'', CHR ''#''});
             authority = takeWhile (\<lambda>c. \<not> ends c) remainder;
             has_suffix = list_ex ends remainder;
             host = (case rsplit_once CHR ''@'' authority of None \<Rightarrow> authority | Some (_, h) \<Rightarrow> h)
         in if host = [] then mask_text text mask_char 0 0
            else take prefix_end text @ host @ (if has_suffix then ''/'' @ mask_char else []))"

text \<open>\<^verbatim>\<open>split_once(char::is_whitespace)\<close> on the characters of a string.\<close>

definition split_white_space :: "string \<Rightarrow> (string \<times> string) option" where
  "split_white_space s =
     (let chars = utf8_chars s; before = takeWhile (\<lambda>c. c \<notin> set white_space) chars
      in if length before = length chars then None
         else Some (concat before, concat (drop (length before + 1) chars)))"

definition mask_bearer_token :: "string \<Rightarrow> string \<Rightarrow> string" where
  "mask_bearer_token text mask_char =
     (case split_white_space text of
       None \<Rightarrow> mask_text text mask_char 0 4
     | Some (scheme, token) \<Rightarrow>
         let trimmed = trim_prefixes white_space token
         in if trimmed = [] then text else scheme @ '' '' @ mask_text trimmed mask_char 0 4)"

definition mask_jwt :: "string \<Rightarrow> string \<Rightarrow> string" where
  "mask_jwt text mask_char =
     (case split_on CHR ''.'' text of
       [a, b, c] \<Rightarrow> a @ ''.'' @ mask_text b mask_char 0 0 @ ''.'' @ mask_text c mask_char 0 6
     | _ \<Rightarrow> mask_text text mask_char 0 6)"

fun default_mask :: "builtin_detector \<Rightarrow> string \<Rightarrow> string \<Rightarrow> string" where
  "default_mask Email t m = mask_email t m"
| "default_mask Phone t m = mask_phone t m"
| "default_mask ApiKey t m = mask_api_key t m"
| "default_mask IpAddress t m = mask_ip_address t m"
| "default_mask Ipv6 t m = mask_ipv6 t m"
| "default_mask Url t m = mask_url t m"
| "default_mask Uuid t m = mask_text t m 0 4"
| "default_mask BearerToken t m = mask_bearer_token t m"
| "default_mask Jwt t m = mask_jwt t m"
| "default_mask CreditCard t m = mask_credit_card t m"
| "default_mask AwsAccessKeyId t m = mask_text t m 4 4"
| "default_mask AwsSecretAccessKey t m = mask_text t m 0 4"
| "default_mask GcpApiKey t m = mask_text t m 6 4"
| "default_mask AzureStorageAccountKey t m = mask_text t m 0 4"

section \<open>Properties\<close>

text \<open>Every detector has its entry, and names and detectors correspond one to one.\<close>

lemma detector_spec_total: "\<exists>s. detector_spec d = Some s \<and> ds_detector s = d \<and> parse_detector (ds_name s) = Inr d"
  by (cases d) (simp_all add: detector_spec_def builtin_detector_specs_def parse_detector_def)

lemma parse_detector_Inr_iff:
  "parse_detector n = Inr d \<longleftrightarrow> (\<exists>s. detector_spec d = Some s \<and> n = ds_name s)"
proof
  assume "parse_detector n = Inr d"
  then show "\<exists>s. detector_spec d = Some s \<and> n = ds_name s"
    by (auto simp: parse_detector_def detector_spec_def builtin_detector_specs_def split: if_splits option.splits)
next
  assume "\<exists>s. detector_spec d = Some s \<and> n = ds_name s"
  then show "parse_detector n = Inr d" using detector_spec_total [of d] by auto
qed

text \<open>The characters of a string make up the string.\<close>

lemma concat_utf8_chars: "concat (utf8_chars s) = s"
  by (induction s rule: utf8_chars.induct) simp_all

text \<open>The masks for phone and card numbers show the last four digits and no other.\<close>

lemma digits_mask_digits:
  assumes "list_all (\<lambda>c. \<not> is_ascii_digit c) m"
  shows "filter is_ascii_digit (mask_digits m n s) = drop n (filter is_ascii_digit s)"
proof (induction s arbitrary: n)
  case (Cons c s)
  have "filter is_ascii_digit m = []" using assms by (simp add: list_all_iff filter_empty_conv)
  then show ?case using Cons by (cases n) auto
qed simp

lemma numbers_show_last_four_digits:
  assumes "list_all (\<lambda>c. \<not> is_ascii_digit c) m"
  shows "filter is_ascii_digit (mask_phone t m) = drop (length (filter is_ascii_digit t) - 4) (filter is_ascii_digit t)"
    "filter is_ascii_digit (mask_credit_card t m) = drop (length (filter is_ascii_digit t) - 4) (filter is_ascii_digit t)"
  by (simp_all add: mask_phone_def mask_credit_card_def digits_mask_digits [OF assms] Let_def)

end
