(* ===== verification/Provider_Surfaces.thy ===== *)
theory Provider_Surfaces
  imports Relay_Json
begin

text \<open>
  Detection of the provider surface of a payload (\<^verbatim>\<open>crates/core/src/codec/resolve.rs\<close>) with the
  detectors of the five built-in codecs: the first match decides for requests, and a single match
  for responses.
\<close>

section \<open>Surfaces\<close>

datatype provider_surface = OpenAIChat | OpenAIResponses | AnthropicMessages | OCIGenAI | GeminiGenerateContent

abbreviation has_key :: "json_object \<Rightarrow> string \<Rightarrow> bool" where
  "has_key obj k \<equiv> map_of obj k \<noteq> None"

fun is_array :: "json option \<Rightarrow> bool" where
  "is_array (Some (JArray _)) = True"
| "is_array _ = False"

fun is_object :: "json option \<Rightarrow> bool" where
  "is_object (Some (JObject _)) = True"
| "is_object _ = False"

fun is_string :: "json option \<Rightarrow> bool" where
  "is_string (Some (JString _)) = True"
| "is_string _ = False"

definition openai_responses_request :: "json_object \<Rightarrow> string option \<Rightarrow> bool" where
  "openai_responses_request obj _ \<longleftrightarrow> has_key obj ''input'' \<or> has_key obj ''instructions''"

definition openai_responses_response :: "json_object \<Rightarrow> bool" where
  "openai_responses_response obj \<longleftrightarrow> is_array (map_of obj ''output'') \<or> is_string (map_of obj ''output_text'')"

definition anthropic_request :: "json_object \<Rightarrow> string option \<Rightarrow> bool" where
  "anthropic_request obj hint \<longleftrightarrow>
     (let hinted_anthropic = (hint = Some ''anthropic'' \<or> hint = Some ''anthropic.messages'')
      in has_key obj ''system'' \<or> hinted_anthropic \<and> has_key obj ''messages'')"

definition anthropic_response :: "json_object \<Rightarrow> bool" where
  "anthropic_response obj \<longleftrightarrow> map_of obj ''type'' = Some (JString ''message'') \<and> is_array (map_of obj ''content'')"

definition oci_genai_request :: "json_object \<Rightarrow> string option \<Rightarrow> bool" where
  "oci_genai_request obj hint \<longleftrightarrow>
     (let has_chat_request = is_object (map_of obj ''chatRequest'');
          has_envelope_marker = (has_key obj ''servingMode'' \<or> has_key obj ''compartmentId'');
          hinted_oci = (hint = Some ''oci'' \<or> hint = Some ''oci.genai'')
      in has_chat_request \<and> has_envelope_marker \<or> has_key obj ''apiFormat'' \<or> hinted_oci \<and> has_chat_request)"

definition oci_genai_response :: "json_object \<Rightarrow> bool" where
  "oci_genai_response obj \<longleftrightarrow>
     (case map_of obj ''chatResponse'' of
       Some (JObject chat_response) \<Rightarrow> has_key chat_response ''apiFormat''
     | _ \<Rightarrow> has_key obj ''apiFormat'')"

definition openai_chat_request :: "json_object \<Rightarrow> string option \<Rightarrow> bool" where
  "openai_chat_request obj _ \<longleftrightarrow> has_key obj ''messages''"

definition openai_chat_response :: "json_object \<Rightarrow> bool" where
  "openai_chat_response obj \<longleftrightarrow> is_array (map_of obj ''choices'')"

definition gemini_request :: "json_object \<Rightarrow> string option \<Rightarrow> bool" where
  "gemini_request obj _ \<longleftrightarrow> has_key obj ''contents''"

definition detect_gemini_response :: "json_object \<Rightarrow> bool" where
  "detect_gemini_response obj \<longleftrightarrow>
     is_array (map_of obj ''candidates'') \<or>
     (case map_of obj ''promptFeedback'' of
       Some (JObject feedback) \<Rightarrow> has_key feedback ''blockReason'' \<or> has_key feedback ''safetyRatings''
     | _ \<Rightarrow> False)"

record provider_surface_descriptor =
  psd_surface :: provider_surface
  psd_detect_request :: "json_object \<Rightarrow> string option \<Rightarrow> bool"
  psd_detect_response :: "json_object \<Rightarrow> bool"
  psd_codec_name :: string

fun descriptor_for :: "provider_surface \<Rightarrow> provider_surface_descriptor" where
  "descriptor_for OpenAIChat =
     \<lparr>psd_surface = OpenAIChat, psd_detect_request = openai_chat_request,
      psd_detect_response = openai_chat_response, psd_codec_name = ''openai_chat''\<rparr>"
| "descriptor_for OpenAIResponses =
     \<lparr>psd_surface = OpenAIResponses, psd_detect_request = openai_responses_request,
      psd_detect_response = openai_responses_response, psd_codec_name = ''openai_responses''\<rparr>"
| "descriptor_for AnthropicMessages =
     \<lparr>psd_surface = AnthropicMessages, psd_detect_request = anthropic_request,
      psd_detect_response = anthropic_response, psd_codec_name = ''anthropic_messages''\<rparr>"
| "descriptor_for OCIGenAI =
     \<lparr>psd_surface = OCIGenAI, psd_detect_request = oci_genai_request,
      psd_detect_response = oci_genai_response, psd_codec_name = ''oci_genai''\<rparr>"
| "descriptor_for GeminiGenerateContent =
     \<lparr>psd_surface = GeminiGenerateContent, psd_detect_request = gemini_request,
      psd_detect_response = detect_gemini_response, psd_codec_name = ''gemini_generate_content''\<rparr>"

definition builtin_provider_surfaces :: "provider_surface_descriptor list" where
  "builtin_provider_surfaces =
     map descriptor_for [OpenAIResponses, AnthropicMessages, OCIGenAI, OpenAIChat, GeminiGenerateContent]"

section \<open>Detection\<close>

definition request_descriptor :: "json \<Rightarrow> string option \<Rightarrow> provider_surface_descriptor option" where
  "request_descriptor body hint =
     (case body of
       JObject obj \<Rightarrow> List.find (\<lambda>d. psd_detect_request d obj hint) builtin_provider_surfaces
     | _ \<Rightarrow> None)"

definition response_descriptor :: "json \<Rightarrow> provider_surface_descriptor option" where
  "response_descriptor raw =
     (case raw of
       JObject obj \<Rightarrow>
         (case filter (\<lambda>d. psd_detect_response d obj) builtin_provider_surfaces of
           [d] \<Rightarrow> Some d | _ \<Rightarrow> None)
     | _ \<Rightarrow> None)"

definition detect_request_surface_with_hint :: "json \<Rightarrow> string option \<Rightarrow> provider_surface option" where
  "detect_request_surface_with_hint body hint = map_option psd_surface (request_descriptor body hint)"

definition detect_request_surface :: "json \<Rightarrow> provider_surface option" where
  "detect_request_surface body = detect_request_surface_with_hint body None"

definition detect_response_surface :: "json \<Rightarrow> provider_surface option" where
  "detect_response_surface raw = map_option psd_surface (response_descriptor raw)"

definition codec_name :: "provider_surface \<Rightarrow> string" where
  "codec_name s = psd_codec_name (descriptor_for s)"

definition from_codec_name :: "string \<Rightarrow> provider_surface option" where
  "from_codec_name name = map_option psd_surface (List.find (\<lambda>d. psd_codec_name d = name) builtin_provider_surfaces)"

definition supported_codec_names :: "string list" where
  "supported_codec_names = map psd_codec_name builtin_provider_surfaces"

section \<open>Properties\<close>

text \<open>Codec names and surfaces correspond one to one.\<close>

lemma from_codec_name_iff: "from_codec_name n = Some s \<longleftrightarrow> n = codec_name s"
  by (cases s) (auto simp: from_codec_name_def codec_name_def builtin_provider_surfaces_def)

lemma supported_names_resolve: "n \<in> set supported_codec_names \<longleftrightarrow> (\<exists>s. from_codec_name n = Some s)"
proof -
  have "n \<in> set supported_codec_names \<longleftrightarrow> (\<exists>s. n = codec_name s)"
  proof
    assume "\<exists>s. n = codec_name s"
    then obtain s where "n = codec_name s" ..
    then show "n \<in> set supported_codec_names"
      by (cases s) (simp_all add: supported_codec_names_def codec_name_def builtin_provider_surfaces_def)
  next
    assume "n \<in> set supported_codec_names"
    then obtain s where "n = psd_codec_name (descriptor_for s)"
      unfolding supported_codec_names_def builtin_provider_surfaces_def by (auto simp del: descriptor_for.simps)
    then show "\<exists>s. n = codec_name s" by (auto simp: codec_name_def)
  qed
  then show ?thesis by (simp add: from_codec_name_iff)
qed

text \<open>A response is assigned to a surface exactly when that surface alone recognizes it.\<close>

lemma psd_surface_descriptor [simp]: "psd_surface (descriptor_for s) = s"
  by (cases s) simp_all

lemma single_filter:
  assumes "distinct xs"
  shows "filter P xs = [x] \<longleftrightarrow> x \<in> set xs \<and> P x \<and> (\<forall>y\<in>set xs. P y \<longrightarrow> y = x)"
proof
  assume f: "filter P xs = [x]"
  then have "set (filter P xs) = {x}" by simp
  then show "x \<in> set xs \<and> P x \<and> (\<forall>y\<in>set xs. P y \<longrightarrow> y = x)" by auto
next
  assume "x \<in> set xs \<and> P x \<and> (\<forall>y\<in>set xs. P y \<longrightarrow> y = x)"
  then have f: "set (filter P xs) = {x}" by auto
  moreover have "distinct (filter P xs)" using assms by simp
  ultimately have "length (filter P xs) = 1" using distinct_card [of "filter P xs"] by simp
  then obtain y where "filter P xs = [y]" by (metis One_nat_def length_0_conv length_Suc_conv)
  then show "filter P xs = [x]" using f by simp
qed

lemma single_descriptor:
  "map_option psd_surface (case map descriptor_for ts of [d] \<Rightarrow> Some d | _ \<Rightarrow> None) = (case ts of [t] \<Rightarrow> Some t | _ \<Rightarrow> None)"
  by (auto split: list.split)

lemma detect_response_surface_iff:
  "detect_response_surface (JObject obj) = Some s \<longleftrightarrow>
     (\<forall>t. psd_detect_response (descriptor_for t) obj \<longleftrightarrow> t = s)"
proof -
  let ?all = "[OpenAIResponses, AnthropicMessages, OCIGenAI, OpenAIChat, GeminiGenerateContent]"
  let ?P = "\<lambda>t. psd_detect_response (descriptor_for t) obj"
  have all: "t \<in> set ?all" for t by (cases t) simp_all
  have "detect_response_surface (JObject obj) = (case filter ?P ?all of [t] \<Rightarrow> Some t | _ \<Rightarrow> None)"
    unfolding detect_response_surface_def response_descriptor_def builtin_provider_surfaces_def json.case filter_map comp_def
    by (rule single_descriptor)
  also have "\<dots> = Some s \<longleftrightarrow> filter ?P ?all = [s]" by (auto split: list.splits simp del: filter.simps)
  also have "\<dots> \<longleftrightarrow> s \<in> set ?all \<and> ?P s \<and> (\<forall>y\<in>set ?all. ?P y \<longrightarrow> y = s)"
    by (rule single_filter) simp
  also have "\<dots> \<longleftrightarrow> (\<forall>t. ?P t \<longleftrightarrow> t = s)" using all by blast
  finally show ?thesis .
qed

text \<open>A hint can change the surface of a request only if it is one of four strings.\<close>

lemma other_hints_ignored:
  assumes "hint \<notin> Some ` {''anthropic'', ''anthropic.messages'', ''oci'', ''oci.genai''}"
  shows "detect_request_surface_with_hint body hint = detect_request_surface body"
proof -
  have "psd_detect_request d obj hint = psd_detect_request d obj None" if "d \<in> set builtin_provider_surfaces" for d obj
    using that assms
    by (auto simp: builtin_provider_surfaces_def openai_responses_request_def anthropic_request_def
        oci_genai_request_def openai_chat_request_def gemini_request_def)
  then have "List.find (\<lambda>d. psd_detect_request d obj hint) builtin_provider_surfaces =
      List.find (\<lambda>d. psd_detect_request d obj None) builtin_provider_surfaces" for obj
    by (intro find_cong) auto
  then show ?thesis
    by (simp add: detect_request_surface_def detect_request_surface_with_hint_def request_descriptor_def split: json.split)
qed

text \<open>The hint for OCI is one of them, for a request that has a chat request and no other mark.\<close>

lemma oci_hint_changes_detection:
  defines "body \<equiv> JObject [(''chatRequest'', JObject [])]"
  shows "detect_request_surface body = None" "detect_request_surface_with_hint body (Some ''oci'') = Some OCIGenAI"
  unfolding body_def by code_simp+

end
