(* ===== verification/Pii_Redaction.thy ===== *)
theory Pii_Redaction
  imports Pii_Paths Pii_Detectors Provider_Surfaces Middleware_Chains
begin

text \<open>
  The built-in backend of the redaction plugin (\<^verbatim>\<open>crates/pii-redaction/src/builtin.rs\<close>): the
  actions on strings, the walk over a payload, the compilation of a
  configuration, and the redaction of requests and responses through a codec. Regular expressions,
  SHA-256, codecs and serde conversions are parameters.
\<close>

section \<open>Actions\<close>

text \<open>
  A compiled regular expression as what its iterators yield: the spans of its matches, and for the
  second one also the expansion of a replacement with the captured groups.
\<close>

record builtin_matcher =
  bm_find_iter :: "string \<Rightarrow> (nat \<times> nat) list"
  bm_captures_iter :: "string \<Rightarrow> ((nat \<times> nat) \<times> (string \<Rightarrow> string)) list"

datatype builtin_mask_strategy = GenericMask string nat nat | DetectorDefault builtin_detector string

datatype builtin_action =
    Remove
  | Hash "builtin_matcher option"
  | Mask "builtin_matcher option" builtin_mask_strategy
  | Redact builtin_matcher string
  | RegexReplace builtin_matcher string

fun is_remove :: "builtin_action \<Rightarrow> bool" where
  "is_remove Remove = True"
| "is_remove _ = False"

definition substring :: "string \<Rightarrow> nat \<Rightarrow> nat \<Rightarrow> string" where
  "substring text i j = take (j - i) (drop i text)"

fun replace_spans :: "string \<Rightarrow> nat \<Rightarrow> ((nat \<times> nat) \<times> (string \<Rightarrow> string)) list \<Rightarrow> string" where
  "replace_spans text cursor [] = drop cursor text"
| "replace_spans text cursor (((i, j), f) # ms) =
     substring text cursor i @ f (substring text i j) @ replace_spans text j ms"

definition replace_all :: "builtin_matcher \<Rightarrow> string \<Rightarrow> (string \<Rightarrow> string) \<Rightarrow> string" where
  "replace_all m text replacement = replace_spans text 0 (map (\<lambda>span. (span, replacement)) (bm_find_iter m text))"

definition replace_all_expanded :: "builtin_matcher \<Rightarrow> string \<Rightarrow> string \<Rightarrow> string" where
  "replace_all_expanded m text replacement =
     replace_spans text 0 (map (\<lambda>(span, expand). (span, \<lambda>_. expand replacement)) (bm_captures_iter m text))"

definition hex_digit :: "nat \<Rightarrow> char" where
  "hex_digit n = (if n < 10 then char_of (48 + n) else char_of (87 + n))"

definition hex_sha256 :: "(string \<Rightarrow> string) \<Rightarrow> string \<Rightarrow> string" where
  "hex_sha256 digest text = concat (map (\<lambda>b. [hex_digit (of_char b div 16), hex_digit (of_char b mod 16)]) (digest text))"

fun mask_with_strategy :: "string \<Rightarrow> builtin_mask_strategy \<Rightarrow> string" where
  "mask_with_strategy text (GenericMask mask_char p q) = mask_text text mask_char p q"
| "mask_with_strategy text (DetectorDefault detector mask_char) = default_mask detector text mask_char"

section \<open>The compiled backend\<close>

datatype custom_mark_payload_policy = Preserve | RedactAllLeaves

definition parse_custom_mark_payload_policy :: "string \<Rightarrow> custom_mark_payload_policy option" where
  "parse_custom_mark_payload_policy value =
     (if value = ''preserve'' then Some Preserve
      else if value = ''redact_all_leaves'' then Some RedactAllLeaves else None)"

record trajectory_sanitizer =
  ts_replacement :: string
  ts_custom_mark_payload_policy :: custom_mark_payload_policy
  ts_metric_string_attribute_allowlist :: "(string \<times> string set) list"

record compiled_builtin_backend =
  cb_action :: builtin_action
  cb_target_path_matcher :: target_path_matcher
  cb_legacy_surface :: "provider_surface option"
  cb_trajectory :: "trajectory_sanitizer option"

record builtin_backend_config =
  bc_preset :: "string option"
  bc_action :: string
  bc_target_paths :: "string list"
  bc_target_path_globs :: "string list"
  bc_pattern :: "string option"
  bc_detector :: "string option"
  bc_replacement :: "string option"
  bc_mask_char :: "string option"
  bc_unmasked_prefix :: "nat option"
  bc_unmasked_suffix :: "nat option"
  bc_custom_mark_payload_policy :: string
  bc_metric_string_attribute_allowlist :: "(string \<times> string list) list"

definition quoted :: "string \<Rightarrow> string" where
  "quoted s = [CHR 0x27] @ s @ [CHR 0x27]"

text \<open>The values of one entry of the allow list, with their index and those seen before.\<close>

fun validate_allowlist_values :: "string \<Rightarrow> nat \<Rightarrow> string list \<Rightarrow> string list \<Rightarrow> string + unit" where
  "validate_allowlist_values attribute i seen [] = Inr ()"
| "validate_allowlist_values attribute i seen (v # vs) =
     (if str_trim v = []
      then Inl (''builtin.metric_string_attribute_allowlist['' @ quoted attribute @ ''][''
             @ show_nat i @ ''] must not be blank'')
      else if v \<in> set seen
      then Inl (''builtin.metric_string_attribute_allowlist['' @ quoted attribute @ ''] contains duplicate value '' @ quoted v)
      else validate_allowlist_values attribute (Suc i) (v # seen) vs)"

fun validate_metric_string_attribute_allowlist :: "(string \<times> string list) list \<Rightarrow> string + unit" where
  "validate_metric_string_attribute_allowlist [] = Inr ()"
| "validate_metric_string_attribute_allowlist ((attribute, vs) # rest) =
     (if str_trim attribute = [] then Inl ''builtin.metric_string_attribute_allowlist keys must not be blank''
      else if vs = []
      then Inl (''builtin.metric_string_attribute_allowlist['' @ quoted attribute @ ''] must contain at least one value'')
      else case validate_allowlist_values attribute 0 [] vs of
        Inl e \<Rightarrow> Inl e | Inr _ \<Rightarrow> validate_metric_string_attribute_allowlist rest)"

definition compile_builtin_matcher ::
  "(string \<Rightarrow> string + builtin_matcher) \<Rightarrow> string option \<Rightarrow> builtin_detector option \<Rightarrow> plugin_error + builtin_matcher option" where
  "compile_builtin_matcher regex_new pattern detector =
     (let compile = (\<lambda>text. case regex_new text of
            Inl err \<Rightarrow> Inl (InvalidConfig (''invalid builtin matcher regex '' @ quoted text @ '': '' @ err))
          | Inr m \<Rightarrow> Inr (Some m))
      in case (pattern, detector) of
           (Some p, None) \<Rightarrow> compile p
         | (None, Some d) \<Rightarrow> compile (regex_pattern d)
         | (None, None) \<Rightarrow> Inr None
         | (Some _, Some _) \<Rightarrow> Inl (InvalidConfig ''builtin.pattern and builtin.detector cannot both be set''))"

definition build_mask_strategy :: "builtin_backend_config \<Rightarrow> builtin_detector option \<Rightarrow> builtin_mask_strategy" where
  "build_mask_strategy config detector =
     (let mask_char = (case bc_mask_char config of Some m \<Rightarrow> m | None \<Rightarrow> ''*'')
      in case detector of
           Some d \<Rightarrow>
             if bc_unmasked_prefix config = None \<and> bc_unmasked_suffix config = None then DetectorDefault d mask_char
             else GenericMask mask_char (case bc_unmasked_prefix config of Some n \<Rightarrow> n | None \<Rightarrow> 0)
                    (case bc_unmasked_suffix config of Some n \<Rightarrow> n | None \<Rightarrow> 0)
         | None \<Rightarrow> GenericMask mask_char (case bc_unmasked_prefix config of Some n \<Rightarrow> n | None \<Rightarrow> 0)
                    (case bc_unmasked_suffix config of Some n \<Rightarrow> n | None \<Rightarrow> 0))"

text \<open>The four parts of \<^verbatim>\<open>CompiledBuiltinBackend::new\<close>: pointers, preset, action, codec and selectors.\<close>

fun check_pointers :: "string \<Rightarrow> nat \<Rightarrow> string list \<Rightarrow> plugin_error + unit" where
  "check_pointers field i [] = Inr ()"
| "check_pointers field i (p # ps) =
     (if is_valid_json_pointer p then check_pointers field (Suc i) ps
      else Inl (InvalidConfig (''builtin.'' @ field @ ''['' @ show_nat i @ ''] must be a valid RFC 6901 JSON pointer'')))"

definition compile_trajectory :: "builtin_backend_config \<Rightarrow> plugin_error + trajectory_sanitizer option" where
  "compile_trajectory config =
     (case bc_preset config of
       Some preset \<Rightarrow>
         if preset = ''trajectory_context''
         then (case validate_metric_string_attribute_allowlist (bc_metric_string_attribute_allowlist config) of
             Inl e \<Rightarrow> Inl (InvalidConfig e)
           | Inr _ \<Rightarrow>
               if bc_detector config \<noteq> None \<or> bc_pattern config \<noteq> None \<or> bc_target_paths config \<noteq> [] \<or>
                  bc_target_path_globs config \<noteq> [] \<or> bc_mask_char config \<noteq> None \<or>
                  bc_unmasked_prefix config \<noteq> None \<or> bc_unmasked_suffix config \<noteq> None
               then Inl (InvalidConfig ''builtin.preset cannot be combined with matcher, target-path, or mask fields'')
               else case parse_custom_mark_payload_policy (bc_custom_mark_payload_policy config) of
                 None \<Rightarrow> Inl (InvalidConfig (''unsupported custom-mark payload policy '' @ quoted (bc_custom_mark_payload_policy config)))
               | Some policy \<Rightarrow> Inr (Some \<lparr>
                   ts_replacement = (case bc_replacement config of Some r \<Rightarrow> r | None \<Rightarrow> ''[REDACTED]''),
                   ts_custom_mark_payload_policy = policy,
                   ts_metric_string_attribute_allowlist = map (map_prod id set) (bc_metric_string_attribute_allowlist config)\<rparr>))
         else Inl (InvalidConfig (''unsupported builtin preset '' @ quoted preset))
     | None \<Rightarrow>
         if bc_metric_string_attribute_allowlist config \<noteq> []
         then Inl (InvalidConfig (''builtin.metric_string_attribute_allowlist requires builtin.preset = '' @ quoted ''trajectory_context''))
         else Inr None)"

definition compile_action ::
  "(string \<Rightarrow> string + builtin_matcher) \<Rightarrow> builtin_backend_config \<Rightarrow> plugin_error + builtin_action" where
  "compile_action regex_new config =
     (case (case bc_detector config of None \<Rightarrow> Inr None | Some d \<Rightarrow> map_sum id Some (parse_detector d)) of
       Inl e \<Rightarrow> Inl e
     | Inr detector \<Rightarrow>
         (case compile_builtin_matcher regex_new (bc_pattern config) detector of
           Inl e \<Rightarrow> Inl e
         | Inr matcher \<Rightarrow>
             if bc_action config = ''remove'' then Inr Remove
             else if bc_action config = ''hash'' then Inr (Hash matcher)
             else if bc_action config = ''mask'' then Inr (Mask matcher (build_mask_strategy config detector))
             else if bc_action config = ''redact'' \<or> bc_action config = ''regex_replace''
             then (case matcher of
                 None \<Rightarrow> Inl (InvalidConfig (''builtin.pattern or builtin.detector is required when builtin.action = '' @
                     quoted ''regex_replace'' @ '' or '' @ quoted ''redact''))
               | Some pattern \<Rightarrow>
                   let replacement = (case bc_replacement config of Some r \<Rightarrow> r | None \<Rightarrow> ''[REDACTED]'')
                   in Inr (if bc_action config = ''redact'' then Redact pattern replacement else RegexReplace pattern replacement))
             else Inl (InvalidConfig (''unsupported builtin.action '' @ quoted (bc_action config)))))"

definition backend_new ::
  "(string \<Rightarrow> string + builtin_matcher) \<Rightarrow> builtin_backend_config \<Rightarrow> string option \<Rightarrow> plugin_error + compiled_builtin_backend" where
  "backend_new regex_new config codec =
     (case check_pointers ''target_paths'' 0 (bc_target_paths config) of
       Inl e \<Rightarrow> Inl e
     | Inr _ \<Rightarrow>
     (case check_pointers ''target_path_globs'' 0 (bc_target_path_globs config) of
       Inl e \<Rightarrow> Inl e
     | Inr _ \<Rightarrow>
     (case compile_trajectory config of
       Inl e \<Rightarrow> Inl e
     | Inr trajectory \<Rightarrow>
         if trajectory = None \<and> bc_custom_mark_payload_policy config \<noteq> ''redact_all_leaves''
         then Inl (InvalidConfig (''builtin.custom_mark_payload_policy requires builtin.preset = '' @ quoted ''trajectory_context''))
         else (case compile_action regex_new config of
           Inl e \<Rightarrow> Inl e
         | Inr action \<Rightarrow>
             (case (case codec of None \<Rightarrow> Inr None | Some name \<Rightarrow>
                      (case from_codec_name name of
                        Some s \<Rightarrow> Inr (Some s)
                      | None \<Rightarrow> Inl (InvalidConfig (''unsupported codec '' @ quoted name)))) of
               Inl e \<Rightarrow> Inl e
             | Inr surface \<Rightarrow>
                 (case matcher_new (bc_target_paths config) (bc_target_path_globs config) of
                   None \<Rightarrow> Inl (InvalidConfig ''builtin target paths must be valid RFC 6901 JSON pointers'')
                 | Some m \<Rightarrow>
                     if trajectory = None \<and> is_remove action \<and> tpm_selectors m = []
                     then Inl (InvalidConfig (''builtin.action = '' @ quoted ''remove'' @
                            '' requires at least one builtin.target_paths or builtin.target_path_globs selector''))
                     else Inr \<lparr>cb_action = action, cb_target_path_matcher = m, cb_legacy_surface = surface,
                            cb_trajectory = trajectory\<rparr>))))))"

section \<open>The walk over a payload\<close>

definition sanitize_string_value :: "(string \<Rightarrow> string) \<Rightarrow> compiled_builtin_backend \<Rightarrow> string \<Rightarrow> json option" where
  "sanitize_string_value digest b text =
     (case cb_action b of
       Remove \<Rightarrow> None
     | Hash matcher \<Rightarrow> Some (JString (case matcher of
           Some m \<Rightarrow> replace_all m text (hex_sha256 digest) | None \<Rightarrow> hex_sha256 digest text))
     | Mask matcher strategy \<Rightarrow> Some (JString (case matcher of
           Some m \<Rightarrow> replace_all m text (\<lambda>matched. mask_with_strategy matched strategy)
         | None \<Rightarrow> mask_with_strategy text strategy))
     | Redact m replacement \<Rightarrow> Some (JString (replace_all m text (\<lambda>_. replacement)))
     | RegexReplace m replacement \<Rightarrow> Some (JString (replace_all_expanded m text replacement)))"

definition matches_current_preorder_path :: "compiled_builtin_backend \<Rightarrow> string list \<Rightarrow> bool" where
  "matches_current_preorder_path b path =
     (if tpm_selectors (cb_target_path_matcher b) = [] then True else matcher_matches (cb_target_path_matcher b) path)"

text \<open>The guard at the start of \<^verbatim>\<open>sanitize_json_preorder_dfs_at_path\<close>.\<close>

definition removed_at :: "compiled_builtin_backend \<Rightarrow> string list \<Rightarrow> bool" where
  "removed_at b path \<longleftrightarrow>
     tpm_selectors (cb_target_path_matcher b) \<noteq> [] \<and> matches_current_preorder_path b path \<and> is_remove (cb_action b)"

fun sanitize_json_preorder_dfs_at_path :: "(string \<Rightarrow> string) \<Rightarrow> compiled_builtin_backend \<Rightarrow> string list \<Rightarrow> json \<Rightarrow> json option"
  and sanitize_items :: "(string \<Rightarrow> string) \<Rightarrow> compiled_builtin_backend \<Rightarrow> string list \<Rightarrow> nat \<Rightarrow> json list \<Rightarrow> json list"
  and sanitize_members :: "(string \<Rightarrow> string) \<Rightarrow> compiled_builtin_backend \<Rightarrow> string list \<Rightarrow> (string \<times> json) list \<Rightarrow> (string \<times> json) list" where
  "sanitize_json_preorder_dfs_at_path dg b path (JString text) =
     (if removed_at b path then None
      else if matches_current_preorder_path b path then sanitize_string_value dg b text
      else Some (JString text))"
| "sanitize_json_preorder_dfs_at_path dg b path (JArray items) =
     (if removed_at b path then None else Some (JArray (sanitize_items dg b path 0 items)))"
| "sanitize_json_preorder_dfs_at_path dg b path (JObject m) =
     (if removed_at b path then None else Some (JObject (sanitize_members dg b path m)))"
| "sanitize_json_preorder_dfs_at_path dg b path JNull = (if removed_at b path then None else Some JNull)"
| "sanitize_json_preorder_dfs_at_path dg b path (JBool x) = (if removed_at b path then None else Some (JBool x))"
| "sanitize_json_preorder_dfs_at_path dg b path (JNumber n) = (if removed_at b path then None else Some (JNumber n))"
| "sanitize_items dg b path i [] = []"
| "sanitize_items dg b path i (v # vs) =
     (case sanitize_json_preorder_dfs_at_path dg b (path @ [show_nat i]) v of Some w \<Rightarrow> w | None \<Rightarrow> JNull) #
     sanitize_items dg b path (Suc i) vs"
| "sanitize_members dg b path [] = []"
| "sanitize_members dg b path ((k, v) # kvs) =
     (case sanitize_json_preorder_dfs_at_path dg b (path @ [k]) v of
       Some w \<Rightarrow> (k, w) # sanitize_members dg b path kvs
     | None \<Rightarrow> sanitize_members dg b path kvs)"

definition sanitize_json_preorder_dfs :: "(string \<Rightarrow> string) \<Rightarrow> compiled_builtin_backend \<Rightarrow> json \<Rightarrow> json" where
  "sanitize_json_preorder_dfs dg b v =
     (case sanitize_json_preorder_dfs_at_path dg b [] v of Some w \<Rightarrow> w | None \<Rightarrow> JNull)"

definition sanitize_request_headers :: "(string \<Rightarrow> string) \<Rightarrow> compiled_builtin_backend \<Rightarrow> json_object \<Rightarrow> json_object" where
  "sanitize_request_headers dg b headers =
     (case json_get (sanitize_json_preorder_dfs dg b (JObject [(''headers'', JObject headers)])) ''headers'' of
       Some (JObject m) \<Rightarrow> m | _ \<Rightarrow> [])"

section \<open>Payloads behind a codec\<close>

text \<open>
  Codecs and the serde conversions of annotated payloads, with \<open>None\<close> for every failure: the callers
  drop the errors.
\<close>

record ('a, 'q) request_codec =
  rc_decode :: "'q \<Rightarrow> 'a option"
  rc_encode :: "'a \<Rightarrow> 'q \<Rightarrow> 'q option"
  rc_to_value :: "'a \<Rightarrow> json option"
  rc_from_value :: "json \<Rightarrow> 'a option"

record 'r response_codec =
  sc_decode_response :: "json \<Rightarrow> 'r option"
  sc_to_value :: "'r \<Rightarrow> json option"
  sc_from_value :: "json \<Rightarrow> 'r option"
  sc_overlay_response_payload :: "json \<Rightarrow> 'r \<Rightarrow> json"

definition sanitize_serializable_with_backend ::
  "(string \<Rightarrow> string) \<Rightarrow> compiled_builtin_backend \<Rightarrow> ('a \<Rightarrow> json option) \<Rightarrow> (json \<Rightarrow> 'a option) \<Rightarrow> 'a \<Rightarrow> 'a option" where
  "sanitize_serializable_with_backend dg b to_value from_value x =
     Option.bind (to_value x) (\<lambda>v. from_value (sanitize_json_preorder_dfs dg b v))"

definition union_paths :: "string list list \<Rightarrow> string list list \<Rightarrow> string list list" where
  "union_paths ps qs = fold path_insert qs ps"

text \<open>The loop over the selected paths, the deepest first; \<open>None\<close> is the early return.\<close>

fun apply_target_paths ::
  "compiled_builtin_backend \<Rightarrow> ('a, 'q) request_codec \<Rightarrow> json \<Rightarrow> string list list \<Rightarrow> 'q \<Rightarrow> 'q option" where
  "apply_target_paths b codec sanitized [] request = Some request"
| "apply_target_paths b codec sanitized (p # ps) request =
     (case Option.bind (rc_decode codec request) (rc_to_value codec) of
       None \<Rightarrow> None
     | Some current \<Rightarrow>
         let update = (\<lambda>changed. Option.bind (Option.bind changed (rc_from_value codec)) (\<lambda>a. rc_encode codec a request))
         in case (sanitized_json_pointer_value sanitized p, sanitized_json_pointer_value current p) of
              (None, None) \<Rightarrow> apply_target_paths b codec sanitized ps request
            | (Some target, Some value) \<Rightarrow>
                if value = target then apply_target_paths b codec sanitized ps request
                else (case update (replace_sanitized_json_pointer_value p target current) of
                    None \<Rightarrow> None | Some request' \<Rightarrow> apply_target_paths b codec sanitized ps request')
            | (None, Some _) \<Rightarrow>
                if is_remove (cb_action b)
                then (case update (remove_sanitized_json_pointer_value p current) of
                    None \<Rightarrow> None | Some request' \<Rightarrow> apply_target_paths b codec sanitized ps request')
                else None
            | (Some _, None) \<Rightarrow> None)"

definition sanitize_request_target_paths_incrementally ::
  "compiled_builtin_backend \<Rightarrow> ('a, 'q) request_codec \<Rightarrow> 'q \<Rightarrow> 'a \<Rightarrow> 'q option" where
  "sanitize_request_target_paths_incrementally b codec request sanitized_annotated =
     (case rc_to_value codec sanitized_annotated of
       None \<Rightarrow> None
     | Some sanitized \<Rightarrow>
         (case Option.bind (rc_decode codec request) (rc_to_value codec) of
           None \<Rightarrow> None
         | Some original \<Rightarrow>
             let paths = union_paths (matching_json_pointer_paths (cb_target_path_matcher b) original)
                    (matching_json_pointer_paths (cb_target_path_matcher b) sanitized)
             in apply_target_paths b codec sanitized (sort_key (\<lambda>p. - int (length p)) paths) request))"

definition sanitize_request_with_codec ::
  "(string \<Rightarrow> string) \<Rightarrow> compiled_builtin_backend \<Rightarrow> ('a, 'q) request_codec \<Rightarrow> 'q \<Rightarrow> 'q option" where
  "sanitize_request_with_codec dg b codec request =
     (case Option.bind (rc_decode codec request)
             (sanitize_serializable_with_backend dg b (rc_to_value codec) (rc_from_value codec)) of
       None \<Rightarrow> None
     | Some sanitized_annotated \<Rightarrow>
         (case rc_encode codec sanitized_annotated request of
           Some request' \<Rightarrow> Some request'
         | None \<Rightarrow> sanitize_request_target_paths_incrementally b codec request sanitized_annotated))"

definition normalized_response_targets_match :: "string list list \<Rightarrow> json \<Rightarrow> json \<Rightarrow> json \<Rightarrow> bool" where
  "normalized_response_targets_match target_paths annotated sanitized projected =
     list_all (\<lambda>p.
       let original = sanitized_json_pointer_value annotated p; expected = sanitized_json_pointer_value sanitized p
       in if original = None \<and> expected = None then True else sanitized_json_pointer_value projected p = expected)
     target_paths"

definition several_at :: "json \<Rightarrow> string \<Rightarrow> bool" where
  "several_at payload field = (case json_get payload field of Some (JArray vs) \<Rightarrow> 1 < length vs | _ \<Rightarrow> False)"

definition sanitize_response_with_codec ::
  "(string \<Rightarrow> string) \<Rightarrow> compiled_builtin_backend \<Rightarrow> 'r response_codec \<Rightarrow> provider_surface \<Rightarrow> json \<Rightarrow> json option" where
  "sanitize_response_with_codec dg b codec surface payload =
     (if surface = OpenAIChat \<and> several_at payload ''choices'' \<and>
         may_select_single_projected_response (cb_target_path_matcher b) then None
      else if surface = GeminiGenerateContent \<and> several_at payload ''candidates'' \<and>
         may_select_single_projected_response (cb_target_path_matcher b) then None
      else case sc_decode_response codec payload of None \<Rightarrow> None | Some annotated \<Rightarrow>
        (case sc_to_value codec annotated of None \<Rightarrow> None | Some annotated_json \<Rightarrow>
        (case sanitize_serializable_with_backend dg b (sc_to_value codec) (sc_from_value codec) annotated of
          None \<Rightarrow> None | Some sanitized_annotated \<Rightarrow>
        (case sc_to_value codec sanitized_annotated of None \<Rightarrow> None | Some sanitized_json \<Rightarrow>
          let payload' = sanitize_json_preorder_dfs dg b (sc_overlay_response_payload codec payload sanitized_annotated);
              paths = union_paths (matching_json_pointer_paths (cb_target_path_matcher b) annotated_json)
                (matching_json_pointer_paths (cb_target_path_matcher b) sanitized_json)
          in if paths = [] then Some payload'
             else case Option.bind (sc_decode_response codec payload') (sc_to_value codec) of
               None \<Rightarrow> None
             | Some projected \<Rightarrow>
                 if normalized_response_targets_match paths annotated_json sanitized_json projected
                 then Some payload' else None))))"

section \<open>The sanitizers of LLM payloads\<close>

datatype builtin_llm_codec =
    OpenAiChatCodec | OpenAiResponsesCodec | AnthropicMessagesCodec | OCIGenAICodec | GeminiGenerateContentCodec

datatype llm_codec_identity = NoCodec | BuiltInCodec builtin_llm_codec | RuntimeCodec string | OpaqueCodec

definition selected_surface :: "compiled_builtin_backend \<Rightarrow> llm_codec_identity \<Rightarrow> provider_surface option" where
  "selected_surface b codec =
     (case codec of
       NoCodec \<Rightarrow> cb_legacy_surface b
     | BuiltInCodec OpenAiChatCodec \<Rightarrow> Some OpenAIChat
     | BuiltInCodec OpenAiResponsesCodec \<Rightarrow> Some OpenAIResponses
     | BuiltInCodec AnthropicMessagesCodec \<Rightarrow> Some AnthropicMessages
     | BuiltInCodec OCIGenAICodec \<Rightarrow> Some OCIGenAI
     | BuiltInCodec GeminiGenerateContentCodec \<Rightarrow> Some GeminiGenerateContent
     | RuntimeCodec _ \<Rightarrow> None
     | OpaqueCodec \<Rightarrow> None)"

definition uses_compatible_legacy_response_codec :: "compiled_builtin_backend \<Rightarrow> json \<Rightarrow> bool" where
  "uses_compatible_legacy_response_codec b payload =
     (case cb_legacy_surface b of None \<Rightarrow> False | Some s \<Rightarrow> detect_response_surface payload = Some s)"

text \<open>
  The callbacks, without their log entries. The resolved codec and the built-in codecs are arguments;
  \<open>None\<close> omits the payload.
\<close>

definition llm_sanitize_request_callback ::
  "(string \<Rightarrow> string) \<Rightarrow> (provider_surface \<Rightarrow> ('a, llm_request) request_codec) \<Rightarrow> compiled_builtin_backend \<Rightarrow>
   llm_codec_identity \<Rightarrow> ('a, llm_request) request_codec option \<Rightarrow> llm_request \<Rightarrow> llm_request option" where
  "llm_sanitize_request_callback dg build b identity resolved request =
     (let request = request\<lparr>lr_headers := sanitize_request_headers dg b (lr_headers request)\<rparr>
      in if tpm_selectors (cb_target_path_matcher b) = []
         then Some (request\<lparr>lr_content := sanitize_json_preorder_dfs dg b (lr_content request)\<rparr>)
         else case (case resolved of Some c \<Rightarrow> Some c | None \<Rightarrow> map_option build (selected_surface b identity)) of
           None \<Rightarrow> None
         | Some codec \<Rightarrow> sanitize_request_with_codec dg b codec request)"

definition llm_sanitize_response_callback ::
  "(string \<Rightarrow> string) \<Rightarrow> (provider_surface \<Rightarrow> 'r response_codec) \<Rightarrow> compiled_builtin_backend \<Rightarrow>
   llm_codec_identity \<Rightarrow> 'r response_codec option \<Rightarrow> json \<Rightarrow> json option" where
  "llm_sanitize_response_callback dg build b identity resolved payload =
     (if tpm_selectors (cb_target_path_matcher b) = [] then Some (sanitize_json_preorder_dfs dg b payload)
      else if identity = NoCodec \<and> \<not> uses_compatible_legacy_response_codec b payload then None
      else case selected_surface b identity of
        None \<Rightarrow> None
      | Some surface \<Rightarrow>
          let codec = (case resolved of Some c \<Rightarrow> c | None \<Rightarrow> build surface)
          in sanitize_response_with_codec dg b codec surface payload)"

end
