(* ===== verification/Pii_Properties.thy ===== *)
theory Pii_Properties
  imports Pii_Redaction
begin

text \<open>
  What redaction does to a payload, path by path; which backends a configuration compiles to; and
  that a response whose targets cannot be shown to be redacted is omitted.
\<close>

section \<open>Reading a payload by path\<close>

definition child_at :: "json \<Rightarrow> string \<Rightarrow> json option" where
  "child_at v k =
     (case v of
       JObject m \<Rightarrow> map_of m k
     | JArray vs \<Rightarrow> map_option (\<lambda>i. vs ! i) (List.find (\<lambda>i. show_nat i = k) [0..<length vs])
     | _ \<Rightarrow> None)"

fun value_at :: "json \<Rightarrow> string list \<Rightarrow> json option" where
  "value_at v [] = Some v"
| "value_at v (k # ks) = Option.bind (child_at v k) (\<lambda>w. value_at w ks)"

fun is_leaf :: "json \<Rightarrow> bool" where
  "is_leaf (JArray _) = False"
| "is_leaf (JObject _) = False"
| "is_leaf _ = True"

definition leaf_at :: "json \<Rightarrow> string list \<Rightarrow> json option" where
  "leaf_at v p = (case value_at v p of Some w \<Rightarrow> if is_leaf w then Some w else None | None \<Rightarrow> None)"

fun redacted_leaf :: "(string \<Rightarrow> string) \<Rightarrow> compiled_builtin_backend \<Rightarrow> string list \<Rightarrow> json \<Rightarrow> json" where
  "redacted_leaf dg b p (JString t) =
     (if matches_current_preorder_path b p
      then (case sanitize_string_value dg b t of Some w \<Rightarrow> w | None \<Rightarrow> JNull) else JString t)"
| "redacted_leaf dg b p w = w"

text \<open>A backend that removes has a selector, as the compilation makes sure.\<close>

definition selects_to_remove :: "compiled_builtin_backend \<Rightarrow> bool" where
  "selects_to_remove b \<longleftrightarrow> (is_remove (cb_action b) \<longrightarrow> tpm_selectors (cb_target_path_matcher b) \<noteq> [])"

section \<open>The walk\<close>

abbreviation sanitized where
  "sanitized \<equiv> sanitize_json_preorder_dfs_at_path"

lemma sanitize_string_None: "sanitize_string_value dg b t = None \<longleftrightarrow> is_remove (cb_action b)"
  by (cases "cb_action b") (simp_all add: sanitize_string_value_def)

lemma sanitized_None:
  assumes "selects_to_remove b"
  shows "sanitized dg b path v = None \<longleftrightarrow> removed_at b path"
  using assms by (cases v) (auto simp: sanitize_string_None removed_at_def selects_to_remove_def)

lemma map_of_sanitize_members:
  assumes "selects_to_remove b"
  shows "map_of (sanitize_members dg b path kvs) k = Option.bind (map_of kvs k) (sanitized dg b (path @ [k]))"
proof (induction kvs)
  case (Cons p kvs)
  obtain k' v where p: "p = (k', v)" by force
  show ?case
  proof (cases "sanitized dg b (path @ [k']) v")
    case None
    then have "removed_at b (path @ [k'])" by (simp add: sanitized_None [OF assms])
    then have "k = k' \<Longrightarrow> Option.bind (map_of kvs k) (sanitized dg b (path @ [k])) = None"
      by (cases "map_of kvs k") (simp_all add: sanitized_None [OF assms])
    then show ?thesis using Cons None by (auto simp: p)
  qed (use Cons in \<open>auto simp: p\<close>)
qed simp

lemma length_sanitize_items [simp]: "length (sanitize_items dg b path i vs) = length vs"
  by (induction vs arbitrary: i) simp_all

lemma nth_sanitize_items:
  "j < length vs \<Longrightarrow> sanitize_items dg b path i vs ! j =
     (case sanitized dg b (path @ [show_nat (i + j)]) (vs ! j) of Some w \<Rightarrow> w | None \<Rightarrow> JNull)"
proof (induction vs arbitrary: i j)
  case (Cons v vs)
  then show ?case by (cases j) simp_all
qed simp

text \<open>The child of a redacted value is the redacted child; an array keeps the place of a removed one.\<close>

lemma child_at_sanitized:
  assumes "selects_to_remove b" "sanitized dg b path v = Some v'" "\<not> is_leaf v"
  shows "child_at v' k = (case child_at v k of
    None \<Rightarrow> None
  | Some w \<Rightarrow> (case sanitized dg b (path @ [k]) w of
      Some w' \<Rightarrow> Some w' | None \<Rightarrow> (case v of JArray _ \<Rightarrow> Some JNull | _ \<Rightarrow> None)))"
proof (cases v)
  case (JArray vs)
  then have v': "v' = JArray (sanitize_items dg b path 0 vs)" using assms(2) by (auto split: if_splits)
  show ?thesis
  proof (cases "List.find (\<lambda>i. show_nat i = k) [0..<length vs]")
    case (Some i)
    then have "i < length vs" "show_nat i = k" by (auto simp: find_Some_iff)
    then show ?thesis using Some by (simp add: JArray v' child_at_def nth_sanitize_items split: option.split)
  qed (simp add: JArray v' child_at_def)
next
  case (JObject m)
  then have v': "v' = JObject (sanitize_members dg b path m)" using assms(2) by (auto split: if_splits)
  show ?thesis
    by (simp add: JObject v' child_at_def map_of_sanitize_members [OF assms(1)] split: option.split Option.bind_split)
qed (use assms(3) in simp_all)

lemma leaf_at_Nil: "leaf_at v [] = (if is_leaf v then Some v else None)"
  by (simp add: leaf_at_def)

lemma leaf_at_Cons: "leaf_at v (k # ks) = Option.bind (child_at v k) (\<lambda>w. leaf_at w ks)"
  by (cases "child_at v k") (simp_all add: leaf_at_def)

lemma leaf_has_no_child: "is_leaf v \<Longrightarrow> child_at v k = None"
  by (cases v) (simp_all add: child_at_def)

lemma sanitized_leaf:
  assumes "selects_to_remove b" "sanitized dg b path v = Some v'"
  shows "is_leaf v' \<longleftrightarrow> is_leaf v" "is_leaf v \<Longrightarrow> v' = redacted_leaf dg b path v"
  using assms by (cases v; cases "cb_action b"; auto simp: sanitize_string_value_def split: if_splits)+

lemma leaf_kept:
  assumes "selects_to_remove b" "\<And>q r. p = q @ r \<Longrightarrow> \<not> removed_at b (path @ q)" "sanitized dg b path v = Some v'"
  shows "leaf_at v' p = map_option (redacted_leaf dg b (path @ p)) (leaf_at v p)"
  using assms(2,3)
proof (induction p arbitrary: path v v')
  case Nil
  then show ?case using sanitized_leaf [OF assms(1) Nil.prems(2)] by (simp add: leaf_at_Nil)
next
  case (Cons k p)
  show ?case
  proof (cases "is_leaf v")
    case True
    then have "is_leaf v'" using sanitized_leaf(1) [OF assms(1) Cons.prems(2)] by simp
    then show ?thesis using True by (simp add: leaf_at_Cons leaf_has_no_child)
  next
    case False
    note child = child_at_sanitized [OF assms(1) Cons.prems(2) False, of k]
    have no: "\<not> removed_at b ((path @ [k]) @ q)" if "p = q @ r" for q r
      using Cons.prems(1) [of "k # q" r] that by simp
    show ?thesis
    proof (cases "child_at v k")
      case (Some w)
      obtain w' where w': "sanitized dg b (path @ [k]) w = Some w'"
        using no [of "[]" p] sanitized_None [OF assms(1), of dg "path @ [k]" w] by auto
      have "leaf_at w' p = map_option (redacted_leaf dg b ((path @ [k]) @ p)) (leaf_at w p)"
        by (rule Cons.IH [OF no w'])
      then show ?thesis using child Some w' by (simp add: leaf_at_Cons)
    qed (use child in \<open>simp add: leaf_at_Cons\<close>)
  qed
qed

lemma leaf_gone:
  assumes "selects_to_remove b" "removed_at b (path @ q)" "sanitized dg b path v = Some v'"
  shows "leaf_at v' (q @ r) \<in> {None, Some JNull}"
  using assms(2,3)
proof (induction q arbitrary: path v v')
  case Nil
  then show ?case using sanitized_None [OF assms(1), of dg path v] by simp
next
  case (Cons k q)
  show ?case
  proof (cases "is_leaf v")
    case True
    then have "is_leaf v'" using sanitized_leaf(1) [OF assms(1) Cons.prems(2)] by simp
    then show ?thesis by (simp add: leaf_at_Cons leaf_has_no_child)
  next
    case False
    note child = child_at_sanitized [OF assms(1) Cons.prems(2) False, of k]
    have null: "leaf_at JNull s \<in> {None, Some JNull}" for s
      by (cases s) (simp_all add: leaf_at_Nil leaf_at_Cons leaf_has_no_child)
    show ?thesis
    proof (cases "child_at v k")
      case (Some w)
      show ?thesis
      proof (cases "sanitized dg b (path @ [k]) w")
        case None
        then show ?thesis using child Some null [of "q @ r"] by (cases v) (simp_all add: leaf_at_Cons)
      next
        case w': (Some w')
        have "leaf_at w' (q @ r) \<in> {None, Some JNull}" using Cons.prems(1) w' by (intro Cons.IH) simp_all
        then show ?thesis using child Some w' by (simp add: leaf_at_Cons)
      qed
    qed (use child in \<open>simp add: leaf_at_Cons\<close>)
  qed
qed

section \<open>Compilation\<close>

lemma backend_new_selects:
  assumes "backend_new regex_new config codec = Inr b" "cb_trajectory b = None"
  shows "selects_to_remove b"
  using assms by (auto simp: backend_new_def selects_to_remove_def split: sum.splits option.splits if_splits)

text \<open>The effect on every path, in terms of what the compiled backend selects.\<close>

lemma redaction_by_backend:
  assumes "backend_new regex_new config codec = Inr b" "cb_trajectory b = None"
  shows "if \<exists>q r. p = q @ r \<and> removed_at b q
     then leaf_at (sanitize_json_preorder_dfs dg b v) p \<in> {None, Some JNull}
     else leaf_at (sanitize_json_preorder_dfs dg b v) p = map_option (redacted_leaf dg b p) (leaf_at v p)"
proof -
  note sel = backend_new_selects [OF assms]
  show ?thesis
  proof (cases "sanitized dg b [] v")
    case None
    then have r: "removed_at b []" by (simp add: sanitized_None [OF sel])
    have "leaf_at JNull p \<in> {None, Some JNull}" by (cases p) (simp_all add: leaf_at_Nil leaf_at_Cons leaf_has_no_child)
    moreover have "\<exists>q r. p = q @ r \<and> removed_at b q" using r by (metis append_Nil)
    ultimately show ?thesis using None by (simp add: sanitize_json_preorder_dfs_def)
  next
    case (Some v')
    then have out: "sanitize_json_preorder_dfs dg b v = v'" by (simp add: sanitize_json_preorder_dfs_def)
    show ?thesis
    proof (cases "\<exists>q r. p = q @ r \<and> removed_at b q")
      case True
      then obtain q r where "p = q @ r" "removed_at b q" by blast
      then have "leaf_at v' p \<in> {None, Some JNull}" using leaf_gone [OF sel, of "[]" q dg v v' r] Some by simp
      then show ?thesis using True out by simp
    next
      case False
      then have "leaf_at v' p = map_option (redacted_leaf dg b p) (leaf_at v p)"
        using leaf_kept [OF sel, of p "[]" dg v v'] Some by auto
      then show ?thesis unfolding out if_not_P [OF False] .
    qed
  qed
qed

section \<open>Selectors\<close>

definition glob_covers :: "string list \<Rightarrow> string list \<Rightarrow> bool" where
  "glob_covers segments path = list_all2 (\<lambda>g s. g = ''*'' \<or> g = s) segments path"

lemma glob_selector_matches: "selector_matches (glob_selector segments) path \<longleftrightarrow> glob_covers segments path"
proof (cases "list_all (\<lambda>s. s \<noteq> ''*'') segments")
  case True
  then have "glob_covers segments path \<longleftrightarrow> list_all2 (=) segments path"
    unfolding glob_covers_def by (auto simp: list_all2_conv_all_nth list_all_length)
  then show ?thesis using True by (simp add: glob_selector_def list.rel_eq)
next
  case False
  then show ?thesis
    by (auto simp: glob_selector_def glob_covers_def list_all2_conv_all_nth list_all_length split: if_splits)
qed

text \<open>A compiled matcher selects the paths the configuration names, and those its globs cover.\<close>

lemma matcher_new_matches:
  assumes "matcher_new target_paths target_path_globs = Some m"
  shows "matcher_matches m path \<longleftrightarrow>
    (\<exists>t\<in>set target_paths. json_pointer_segments t = Some path) \<or>
    (\<exists>g\<in>set target_path_globs. \<exists>segments. json_pointer_segments g = Some segments \<and> glob_covers segments path)"
proof -
  obtain exact globs where c:
    "list_all2 (\<lambda>p s. map_option SelectorExact (json_pointer_segments p) = Some s) target_paths exact"
    "list_all2 (\<lambda>p s. map_option glob_selector (json_pointer_segments p) = Some s) target_path_globs globs"
    "tpm_selectors m = first_occurrences (exact @ globs)"
    using assms by (auto simp: matcher_new_def collect_options_Some_iff split: option.splits)
  have m: "matcher_matches m path \<longleftrightarrow> (\<exists>s\<in>set exact. selector_matches s path) \<or> (\<exists>s\<in>set globs. selector_matches s path)"
    by (auto simp: matcher_matches_def c(3) first_occurrences_def list_ex_iff)
  have "(\<exists>s\<in>set exact. selector_matches s path) \<longleftrightarrow> (\<exists>t\<in>set target_paths. json_pointer_segments t = Some path)"
    using c(1) by (induction rule: list_all2_induct) auto
  moreover have "(\<exists>s\<in>set globs. selector_matches s path) \<longleftrightarrow>
      (\<exists>g\<in>set target_path_globs. \<exists>segments. json_pointer_segments g = Some segments \<and> glob_covers segments path)"
    using c(2) by (induction rule: list_all2_induct) (auto simp: glob_selector_matches)
  ultimately show ?thesis unfolding m by blast
qed

section \<open>Configurations\<close>

definition config_selects :: "builtin_backend_config \<Rightarrow> string list \<Rightarrow> bool" where
  "config_selects config path \<longleftrightarrow>
     bc_target_paths config = [] \<and> bc_target_path_globs config = [] \<or>
     (\<exists>t\<in>set (bc_target_paths config). json_pointer_segments t = Some path) \<or>
     (\<exists>g\<in>set (bc_target_path_globs config). \<exists>segments. json_pointer_segments g = Some segments \<and> glob_covers segments path)"

definition config_removes :: "builtin_backend_config \<Rightarrow> string list \<Rightarrow> bool" where
  "config_removes config path \<longleftrightarrow> bc_action config = ''remove'' \<and> config_selects config path"

lemma backend_new_parts:
  assumes "backend_new regex_new config codec = Inr b"
  shows "matcher_new (bc_target_paths config) (bc_target_path_globs config) = Some (cb_target_path_matcher b)"
    "compile_action regex_new config = Inr (cb_action b)"
  using assms by (auto simp: backend_new_def split: sum.splits option.splits if_splits)

lemma compile_action_remove:
  assumes "compile_action regex_new config = Inr action"
  shows "is_remove action \<longleftrightarrow> bc_action config = ''remove''"
  using assms by (auto simp: compile_action_def Let_def split: sum.splits option.splits if_splits)

lemma matcher_new_empty:
  assumes "matcher_new target_paths target_path_globs = Some m"
  shows "tpm_selectors m = [] \<longleftrightarrow> target_paths = [] \<and> target_path_globs = []"
proof -
  obtain exact globs where c: "length target_paths = length exact" "length target_path_globs = length globs"
    "tpm_selectors m = first_occurrences (exact @ globs)"
    using assms by (auto simp: matcher_new_def collect_options_Some_iff split: option.splits dest!: list_all2_lengthD)
  have "first_occurrences xs = [] \<longleftrightarrow> xs = []" for xs :: "target_path_selector list" by (simp add: first_occurrences_def)
  then show ?thesis using c by (metis append_is_Nil_conv length_0_conv)
qed

lemma backend_selects:
  assumes "backend_new regex_new config codec = Inr b"
  shows "matches_current_preorder_path b path \<longleftrightarrow> config_selects config path"
proof -
  note m = backend_new_parts(1) [OF assms]
  show ?thesis
    using matcher_new_matches [OF m, of path] matcher_new_empty [OF m] by (auto simp: matches_current_preorder_path_def config_selects_def)
qed

lemma backend_removes:
  assumes "backend_new regex_new config codec = Inr b" "cb_trajectory b = None"
  shows "removed_at b path \<longleftrightarrow> config_removes config path"
  using backend_new_selects [OF assms] compile_action_remove [OF backend_new_parts(2) [OF assms(1)]]
  by (auto simp: removed_at_def backend_selects [OF assms(1)] config_removes_def selects_to_remove_def)

fun redacted_value :: "(string \<Rightarrow> string) \<Rightarrow> compiled_builtin_backend \<Rightarrow> bool \<Rightarrow> json \<Rightarrow> json" where
  "redacted_value dg b True (JString t) = (case sanitize_string_value dg b t of Some w \<Rightarrow> w | None \<Rightarrow> JNull)"
| "redacted_value dg b _ w = w"

lemma redacted_leaf_value: "redacted_leaf dg b p = redacted_value dg b (matches_current_preorder_path b p)"
  by (rule ext, case_tac x; cases "matches_current_preorder_path b p"; simp)

text \<open>
  C23. Redaction changes what its configuration selects and nothing else. For every backend that a
  configuration without a preset compiles to, every payload and every path: unless the action is to
  remove and the path or one of its prefixes is selected, the redacted payload has a value other than
  an array or an object at the path exactly if the payload has one; a string at a selected path is
  the result of the action on the string, and every other value is the same. At and below a path that
  is removed there is at most a null. A path is selected if the configuration names no path, or names
  it, or has a glob whose segments cover it one by one.
\<close>

theorem redaction_exact:
  assumes "backend_new regex_new config codec = Inr b" "cb_trajectory b = None"
  shows "if \<exists>q r. p = q @ r \<and> config_removes config q
     then leaf_at (sanitize_json_preorder_dfs dg b v) p \<in> {None, Some JNull}
     else leaf_at (sanitize_json_preorder_dfs dg b v) p =
            map_option (redacted_value dg b (config_selects config p)) (leaf_at v p)"
  using redaction_by_backend [OF assms, of p dg v]
  unfolding backend_removes [OF assms] redacted_leaf_value backend_selects [OF assms(1)] .

definition mask_config :: builtin_backend_config where
  "mask_config = \<lparr>bc_preset = None, bc_action = ''mask'', bc_target_paths = [''/a''], bc_target_path_globs = [],
     bc_pattern = None, bc_detector = None, bc_replacement = None, bc_mask_char = None, bc_unmasked_prefix = None,
     bc_unmasked_suffix = Some 1, bc_custom_mark_payload_policy = ''redact_all_leaves'',
     bc_metric_string_attribute_allowlist = []\<rparr>"

definition mask_backend :: compiled_builtin_backend where
  "mask_backend = \<lparr>cb_action = Mask None (GenericMask ''*'' 0 1),
     cb_target_path_matcher = \<lparr>tpm_selectors = [SelectorExact [''a'']]\<rparr>, cb_legacy_surface = None, cb_trajectory = None\<rparr>"

lemma mask_pointer: "json_pointer_segments ''/a'' = Some [''a'']"
proof -
  have "unescape_json_pointer_segment ''a'' = ''a''" by code_simp
  then show ?thesis by (simp add: json_pointer_segments_def strip_prefix_def)
qed

lemma mask_backend_compiles: "backend_new (\<lambda>_. Inl ''no regex'') mask_config None = Inr mask_backend"
proof -
  have m: "matcher_new [''/a''] [] = Some \<lparr>tpm_selectors = [SelectorExact [''a'']]\<rparr>"
    by (simp add: matcher_new_def mask_pointer first_occurrences_def)
  have v: "check_pointers ''target_paths'' 0 [''/a''] = Inr ()" "check_pointers ''target_path_globs'' 0 [] = Inr ()"
    by (simp_all add: is_valid_json_pointer_def strip_prefix_def)
  have f: "bc_target_paths mask_config = [''/a'']" "bc_target_path_globs mask_config = []"
    "bc_custom_mark_payload_policy mask_config = ''redact_all_leaves''"
    by (simp_all add: mask_config_def)
  have g: "bc_preset mask_config = None" "bc_metric_string_attribute_allowlist mask_config = []" "bc_detector mask_config = None"
    "bc_pattern mask_config = None" "bc_action mask_config = ''mask''" "bc_mask_char mask_config = None"
    "bc_unmasked_prefix mask_config = None" "bc_unmasked_suffix mask_config = Some 1"
    by (simp_all add: mask_config_def)
  have t: "compile_trajectory mask_config = Inr None" unfolding compile_trajectory_def g by simp
  have a: "compile_action (\<lambda>_. Inl ''no regex'') mask_config = Inr (Mask None (GenericMask ''*'' 0 1))"
    unfolding compile_action_def compile_builtin_matcher_def build_mask_strategy_def g by simp
  show ?thesis unfolding backend_new_def f v t a m by (simp add: mask_backend_def)
qed

theorem redaction_exact_witness:
  "leaf_at (sanitize_json_preorder_dfs id mask_backend (JObject [(''a'', JString ''xyz''), (''b'', JString ''uvw'')])) [''a''] =
     Some (JString ''**z'') \<and>
   leaf_at (sanitize_json_preorder_dfs id mask_backend (JObject [(''a'', JString ''xyz''), (''b'', JString ''uvw'')])) [''b''] =
     Some (JString ''uvw'')"
proof -
  let ?v = "JObject [(''a'', JString ''xyz''), (''b'', JString ''uvw'')]"
  have keep: "\<not> config_removes mask_config q" for q by (simp add: config_removes_def mask_config_def)
  have "json_pointer_segments ''/a'' = Some [''a'']"
    by (rule mask_pointer)
  then have selects: "config_selects mask_config [''a'']" "\<not> config_selects mask_config [''b'']"
    by (simp_all add: config_selects_def mask_config_def)
  have "cb_trajectory mask_backend = None" by (simp add: mask_backend_def)
  note exact = redaction_exact [OF mask_backend_compiles this, where dg = id and v = ?v]
  have "mask_text ''xyz'' ''*'' 0 1 = ''**z''"
    by (simp add: mask_text_def saturating_add_usize_def continuation_byte_def numeral_2_eq_2)
  then have a: "map_option (redacted_value id mask_backend (config_selects mask_config [''a''])) (leaf_at ?v [''a'']) = Some (JString ''**z'')"
    by (simp add: selects leaf_at_def child_at_def mask_backend_def sanitize_string_value_def)
  have b: "map_option (redacted_value id mask_backend (config_selects mask_config [''b''])) (leaf_at ?v [''b'']) = Some (JString ''uvw'')"
    by (simp add: selects leaf_at_def child_at_def)
  show ?thesis using exact [of "[''a'']"] exact [of "[''b'']"] keep unfolding a b by simp
qed

section \<open>Responses\<close>

text \<open>
  A response that is not omitted decodes to a payload that has the redacted value at every selected
  path of the decoded original and of its redaction.
\<close>

lemma response_verified:
  assumes "sanitize_response_with_codec dg b codec surface payload = Some out"
    and "sc_decode_response codec payload = Some annotated" "sc_to_value codec annotated = Some annotated_json"
    and "sanitize_serializable_with_backend dg b (sc_to_value codec) (sc_from_value codec) annotated = Some redacted"
    and "sc_to_value codec redacted = Some redacted_json"
    and "p \<in> set (union_paths (matching_json_pointer_paths (cb_target_path_matcher b) annotated_json)
      (matching_json_pointer_paths (cb_target_path_matcher b) redacted_json))"
    and "sanitized_json_pointer_value annotated_json p \<noteq> None \<or> sanitized_json_pointer_value redacted_json p \<noteq> None"
  shows "\<exists>projected. Option.bind (sc_decode_response codec out) (sc_to_value codec) = Some projected \<and>
    sanitized_json_pointer_value projected p = sanitized_json_pointer_value redacted_json p"
proof -
  let ?paths = "union_paths (matching_json_pointer_paths (cb_target_path_matcher b) annotated_json)
      (matching_json_pointer_paths (cb_target_path_matcher b) redacted_json)"
  have "?paths \<noteq> []" using assms(6) by auto
  then obtain projected where "Option.bind (sc_decode_response codec out) (sc_to_value codec) = Some projected"
      "normalized_response_targets_match ?paths annotated_json redacted_json projected"
    using assms(1-5) by (auto simp: sanitize_response_with_codec_def Let_def split: if_splits option.splits)
  then show ?thesis using assms(6,7) by (auto simp: normalized_response_targets_match_def list_all_iff Let_def)
qed

end
