(* ===== verification/Spec2Isabelle.thy ===== *)
theory Spec2Isabelle
  imports Broker_Properties Scope_Properties Chain_Properties Plugin_Names Runtime_Owner
    Dispatcher_Properties Metric_Properties Scope_Trace Skill_Load_Properties Tool_Properties
    Pricing_Properties Summary_Properties Recorder_Properties Llm_Properties Llm_Disclosure
    Stream_Properties Plugin_Properties Layering_Properties Sse_Properties Stream_Codec_Properties
    Pii_Properties
begin

text \<open>
  \<^bold>\<open>NeMo Relay: a verification of its core\<close>

  NeMo Relay is a runtime that applications embed to run tool and LLM calls through middleware and
  to publish what happens as events. A second program, the daemon's broker, routes the requests of
  editor sessions to one worker process per user machine. This development models the core of both
  and proves what makes them correct. The sources are the Rust crates \<^verbatim>\<open>core\<close>, \<^verbatim>\<open>types\<close>, \<^verbatim>\<open>cli\<close>
  and \<^verbatim>\<open>pii-redaction\<close>
  under \<^verbatim>\<open>crates/\<close>.

  \<^bold>\<open>The program's parts and the theories that model them\<close>

  \<^item> \<open>Relay_Prelude\<close>: hash tables and B-tree maps as association lists, locks, the ways a callback
    can end, strings as UTF-8 bytes, decimal numbers. No definition of it is specific to the program.
  \<^item> \<open>Flow_Errors\<close> (\<^verbatim>\<open>core/src/error.rs\<close>): the errors of the library, their messages, the rule that
    says which failures may be retried, and their classification for OpenTelemetry.
  \<^item> \<open>Relay_Json\<close> (\<^verbatim>\<open>core/src/json.rs\<close> and helpers of \<^verbatim>\<open>core/src/api\<close>): JSON values, the overlay of
    metadata, status and severity keys, and the rules for injected attributes.
  \<^item> \<open>Sorted_Registry\<close> (\<^verbatim>\<open>core/src/registry.rs\<close>): the table behind every kind of middleware. Its
    interface is a locale over an abstract map from names to records.
  \<^item> \<open>Runtime_Owner\<close> (\<^verbatim>\<open>core/src/shared_runtime.rs\<close>): the guard that admits one language binding
    per process.
  \<^item> \<open>Binary64\<close>: the doubles of IEEE 754 as their 64 bits, with rounding to nearest even. No definition
    of it is specific to the program.
  \<^item> \<open>Llm_Response\<close> (\<^verbatim>\<open>types/src/codec/request.rs\<close>, \<^verbatim>\<open>response.rs\<close>, \<^verbatim>\<open>optimization.rs\<close>): normalized requests
    and responses, usages, costs, and the evidence and summaries of optimizations.
  \<^item> \<open>Model_Pricing\<close>, \<open>Pricing_Properties\<close> (\<^verbatim>\<open>core/src/codec/model_pricing.rs\<close>): catalogs of prices,
    their validation, the search for the price of a model, and the cost of a usage.
  \<^item> \<open>Optimization_Recorder\<close>, \<open>Recorder_Properties\<close> (\<^verbatim>\<open>core/src/api/optimization.rs\<close>): the bounded
    recorder of evidence, its critical sections, and the transition system of the threads that use it.
  \<^item> \<open>Optimization_Summary\<close>, \<open>Summary_Properties\<close> (same file): token sums, baseline usage, costs and the
    summary of a call.
  \<^item> \<open>Relay_Events\<close> (\<^verbatim>\<open>types/src/api/event.rs\<close>, \<^verbatim>\<open>scope.rs\<close>): the events and their fields.
  \<^item> \<open>Relay_Handles\<close> (\<^verbatim>\<open>core/src/api/runtime/state.rs\<close>): handles of scopes, tool calls and LLM
    calls and the start and end events built from them.
  \<^item> \<open>Plugin_Names\<close> (\<^verbatim>\<open>core/src/plugin.rs\<close>): the names under which plugins register middleware.
  \<^item> \<open>Plugin_Config\<close>, \<open>Layering_Properties\<close> (same file): plugin configurations, the layering of the
    documents that are found, diagnostics. Conversions by serde are parameters.
  \<^item> \<open>Subscriber_Api\<close> (\<^verbatim>\<open>core/src/api/subscriber.rs\<close>): registration of subscribers, global and on a scope.
  \<^item> \<open>Plugin_Host\<close>, \<open>Plugin_Activation\<close>, \<open>Plugin_Properties\<close> (\<^verbatim>\<open>core/src/plugin.rs\<close>, \<^verbatim>\<open>plugin/dynamic/host.rs\<close>): the
    context through which plugins register middleware, activation, replacement, teardown and rollback.
    A plugin is a program of context calls and other effects.
  \<^item> \<open>Runtime_Registration\<close> (\<^verbatim>\<open>types/src/api/registry.rs\<close>, \<^verbatim>\<open>core/src/api/registry.rs\<close>,
    \<^verbatim>\<open>core/src/context/registries.rs\<close>): kinds and identities of registrations, the gates that can
    disable one, and the merge of global and scope-local entries into the chain that runs.
  \<^item> \<open>Runtime_State\<close> (\<^verbatim>\<open>core/src/api/runtime/state.rs\<close>, \<^verbatim>\<open>core/src/api/registry.rs\<close>): the context
    with its tables, snapshots, listings and the global registration functions. The fields of the
    context are instances of one locale, so that a law is proved once for all of them.
  \<^item> \<open>Scope_Stack\<close>, \<open>Scope_Properties\<close> (\<^verbatim>\<open>core/src/api/runtime/scope_stack.rs\<close>): the stack of open
    scopes, scope-local middleware, which stack a thread or a task sees, and the contexts that carry
    causality to other processes.
  \<^item> \<open>Middleware_Chains\<close>, \<open>Chain_Properties\<close> (\<^verbatim>\<open>core/src/api/runtime/state.rs\<close>): metadata
    injection, event and payload sanitizers, conditional guardrails with the publication that is
    pending while one runs, and request intercepts.
  \<^item> \<open>Subscriber_Dispatcher\<close>, \<open>Dispatcher_Properties\<close> (\<^verbatim>\<open>core/src/api/runtime/subscriber_dispatcher.rs\<close>): the
    channel and the loop that delivers events, the lineages that count outstanding publications,
    barriers of asynchronous tasks, nested publications and flushes. The properties are about a
    transition system in which callers, tasks and the loop interleave.
  \<^item> \<open>Metric_Events\<close>, \<open>Metric_Properties\<close> (\<^verbatim>\<open>types/src/api/event.rs\<close>): metric measurements and their
    validation; doubles are their 64 bits.
  \<^item> \<open>Scope_Api\<close>, \<open>Scope_Trace\<close> (\<^verbatim>\<open>core/src/api/scope.rs\<close>, \<^verbatim>\<open>shared.rs\<close>): the public operations on scopes,
    marks and metrics over a runtime that holds the context, the stacks, the bindings and the
    dispatcher; and the event stream they produce.
  \<^item> \<open>Skill_Load\<close>, \<open>Skill_Load_Properties\<close> (\<^verbatim>\<open>core/src/api/skill_load.rs\<close>): which skills a tool call reads. The
    crate that splits a command line into words is a parameter.
  \<^item> \<open>Tool_Api\<close>, \<open>Tool_Properties\<close> (\<^verbatim>\<open>core/src/api/tool.rs\<close>, \<^verbatim>\<open>continuation_context.rs\<close>): manual and managed
    tool calls. An execution intercept is a program that can call the rest of its chain.
  \<^item> \<open>Llm_Events\<close>, \<open>Llm_Payload_Properties\<close> (\<^verbatim>\<open>core/src/api/llm.rs\<close>): what the events of an LLM call show, as
    the transforms that compute it when an event is published. Codecs are values with their functions.
    \<open>Llm_Disclosure\<close> carries the facts about transforms to the calls that queue them.
  \<^item> \<open>Llm_Api\<close>, \<open>Llm_Properties\<close> (\<^verbatim>\<open>core/src/api/llm.rs\<close>, \<^verbatim>\<open>shared.rs\<close>): manual and managed LLM calls, request
    intercepts with a codec, the chain of execution intercepts, and the marks of optimizations. The
    recorder of a call lives in the world, where other threads reach it.
  \<^item> \<open>Chunk_Marks\<close>, \<open>Llm_Stream\<close>, \<open>Stream_Properties\<close> (\<^verbatim>\<open>core/src/stream.rs\<close>, \<^verbatim>\<open>state.rs\<close>, \<^verbatim>\<open>llm.rs\<close>): the receipts
    of chunks, the wrapper between the provider's stream and the consumer, the background job that
    publishes the end of a stream, and the managed streaming call. A provider's stream is a value with
    its operations.
  \<^item> \<open>Sse_Decoder\<close>, \<open>Sse_Properties\<close> (\<^verbatim>\<open>core/src/codec/streaming.rs\<close>, \<^verbatim>\<open>cli/src/gateway/mod.rs\<close>): the incremental
    decoder of server-sent events, the stream of payloads the gateway reads with it and the frames it
    writes for its client. The parser and the printer of JSON are parameters.
  \<^item> \<open>Stream_Codecs\<close>, \<open>Stream_Codec_Properties\<close> (\<^verbatim>\<open>core/src/codec/openai_chat.rs\<close>, \<^verbatim>\<open>anthropic.rs\<close>,
    \<^verbatim>\<open>cli/src/daemon/worker/managed.rs\<close>): the accumulators that assemble one response from a stream, and
    the observer of a worker that feeds them.
  \<^item> \<open>Provider_Surfaces\<close> (\<^verbatim>\<open>core/src/codec/resolve.rs\<close>): which provider a request or a response belongs to,
    and the names of the codecs.
  \<^item> \<open>Pii_Paths\<close>, \<open>Pii_Detectors\<close>, \<open>Pii_Redaction\<close>, \<open>Pii_Properties\<close> (\<^verbatim>\<open>pii-redaction/src/builtin.rs\<close>,
    \<^verbatim>\<open>detectors.rs\<close>): JSON pointers and selectors, masks, and the built-in backend of the redaction plugin.
    Regular expressions, SHA-256 and the codecs it goes through are parameters.
  \<^item> \<open>Broker_Lifecycle\<close>, \<open>Broker_Registry\<close> (\<^verbatim>\<open>cli/src/daemon/broker\<close>): worker targets, routes and
    all operations of the broker's registry. \<open>Broker_Invariant\<close> holds the invariant of a route and
    of the registry, \<open>Broker_System\<close> the daemon as a transition system in which operations of all
    connections interleave, \<open>Broker_Properties\<close> what follows.

  \<^bold>\<open>How state and effects are represented\<close>

  Code that holds a lock for the whole of an operation is one function from the state to the result
  and the new state, whichever way it returns. Locks that can be poisoned are values that say so.
  Atomic counters are cells of a heap, so that copies of an \<^verbatim>\<open>Arc\<close> share them, and are words that
  wrap. A callback supplied by the application is a parameter: a function that also reads and
  changes a world of arbitrary type, and that can finish, panic, or be dropped before it finishes.
  The definitions assume nothing about it, and a statement that does says what. Time and new identifiers are arguments. The iteration order of a hash
  table is the order of its list; statements that could depend on it are proved for every order.

  \<^bold>\<open>What is shown\<close>

  \<^item> Broker: the invariant of every reachable state, isolation of machines, single-flight launches
    through any calls of any sessions, fencing of stale generations, safe draining, exact expiry, hand-over of ownership, and that a
    launch that succeeds serves.
  \<^item> Registries: refinement of a map, exactly which records a merged chain of each kind has and in what
    order, exactness of snapshots, listings and gates, and that a registration can be undone.
  \<^item> Scope stack: no operation panics on a new or an imported stack, if clients that edit the top handle
    in place keep its identifier and type; a scope leaves no trace, removal in reverse order, freshness of
    agents, forks that keep causality, scoped bindings.
  \<^item> Chains: injectors only add, sanitizers fail closed, every guardrail that is asked is
    reported to its end on every way out and the first verdict decides, codecs protect content, breaking a chain stops it.
  \<^item> Names and tokens: round trips, and exactly which strings decode.
  \<^item> Dispatcher: a flush waits for the managed calls that are pending, and every accepted
    flush is acknowledged once the channel is empty and nothing is pending.
  \<^item> Scopes: the queued events can be replayed to the open scopes, whatever parents the calls name; a call that fails has no effect,
    and an end event carries the middleware of the scope it ends.
  \<^item> Metrics: which envelopes are accepted, and the limits that hold for them.
  \<^item> Prices: a provider's own price is found, and more tokens do not cost less.
  \<^item> Optimizations: the recorder keeps its limits, loses nothing that it accepted and never makes a
    thread wait; a summary that is complete accounts for every token and for the costs.
  \<^item> Tools: the work list of the skill detector visits every value once, and a managed call that has
    started a span ends it on every way out. Here the callbacks are assumed not to unsubscribe
    everybody, give up the process or poison a lock.
  \<^item> LLM calls: under the same assumption a managed call that was announced is concluded on every way
    out, with the status of its outcome. The start event queued by a manual or a managed call shows no
    credentials, limiting a request leaves no history before the current turn, and the end event of a
    managed call shows of the response only what the sanitizers passed; the manual end is not covered,
    since it can publish a supplied annotation as it is when the context is poisoned.
  \<^item> Streams: one end event for every stream, however its consumer gives it up, with the reason of its
    end, and the status it is published with; receipts of chunks disclose no content. The finalizer of
    the application is assumed to return, and the background executor to accept jobs.
  \<^item> Stream decoding: chunk boundaries between characters do not matter, what the gateway writes decodes
    to what it was given unless a type with a line break is written into an event line, and the response assembled from a chat stream is the grouping of its
    fragments by index. A response is assigned to a provider exactly if no other recognizes it.
  \<^item> Redaction: the strings at the selected paths are redacted and nothing else changes, masked numbers
    show four digits, and a response whose redaction cannot be confirmed is omitted.
  \<^item> Plugins: an activation happens as a whole or not at all, whatever fails, and closing the host or
    clearing after any number of replacements leaves nothing behind; layers combine by kind. Plugins
    are assumed to touch middleware only through their context and to undo what they add themselves, so
    that no teardown fails; one that fails can leave callbacks behind.

  All loops of the modelled code but one are recursions that terminate. The exception is the handling
  of a message by the dispatcher: callbacks may publish again without a bound, so it has fuel, and its
  result is \<open>None\<close> when the fuel is spent or when it waits at a barrier whose task still runs; the
  transition system has a step for every amount of fuel that is enough. The bounds of the
  broker (4096 routes, 1024 references per route) are those of the source.

  \<^bold>\<open>What is not modelled\<close>

  A panic under the write guard of a scope stack would poison it; the definitions leave the stack
  healthy there, which happens only on a stack without an agent, and no stack the runtime makes is one.
  The serde encodings, the translation of whole requests and responses by the codecs of LLM
  providers, the accumulators of the other providers, the trajectory preset of the redaction plugin, exporters, dynamic loading of
  plugins, the HTTP servers and process supervision around the broker, the commands of the CLI, and
  the language bindings: they are input and output or third-party formats. The contents of
  messages are opaque values. The threads and runtimes under the dispatcher and its handlers for
  forks are left out. Operations that the broker's source compiles for its tests only are
  left out.

  \<^bold>\<open>Plan\<close>

  What could come next are the translations of the codecs and the trajectory preset of the redaction
  plugin.
\<close>

end
